(* ===== verification/Prelude.thy ===== *)
theory Prelude
  imports Complex_Main "HOL-Library.Sublist"
begin

text \<open>
  Shared ground of the development: the error values of the program, the result
  type and its sequencing, and the generic lemmas on lists and association
  tables that the component theories use.

  A computation of the program that may throw is a value of type
  \<^typ>\<open>'a\<close> injected by \<open>Inr\<close>, or \<open>Inl e\<close> for the exception \<open>e\<close>.  The program's
  writes run in serializable database transactions, so an operation that ends
  in \<open>Inl e\<close> has no resulting state: the caller keeps the one it had.
\<close>

section \<open>Errors and results\<close>

text \<open>
  The exception classes: those of \<open>application/src/errors.ts\<close>, of
  \<open>db/src/errors.ts\<close>, of the core package, and the \<open>ZodError\<close>,
  \<open>RangeError\<close> and \<open>TypeError\<close> that the code throws.  The message is kept where
  the source distinguishes throw sites by it.
\<close>

datatype err =
    NotFoundError string
  | ConflictError string
  | OptimisticConcurrencyError string
  | AuthenticationError string
  | ApprovalExpiredError
  | LeaseUnavailableError
  | LeaseLostError
  | PolicyViolationError string
  | InvalidMissionTransitionError
  | ZodError string
  | RangeError string
  | TypeError string
  | PlainError string
  | DatabaseNotFoundError string
  | DatabaseConflictError string
  | DatabaseOptimisticConcurrencyError string
  | TenantBoundaryError string
  | ApprovalBindingError string
  | MissionFenceRejectedError

type_synonym 'a res = "err + 'a"

type_synonym instant = int

definition sbind :: "err + 'a \<Rightarrow> ('a \<Rightarrow> err + 'b) \<Rightarrow> err + 'b" where
  "sbind m f = (case m of Inl e \<Rightarrow> Inl e | Inr x \<Rightarrow> f x)"

definition guard_that :: "bool \<Rightarrow> err \<Rightarrow> err + unit" where
  "guard_that b e = (if b then Inr () else Inl e)"

definition required :: "'a option \<Rightarrow> err \<Rightarrow> err + 'a" where
  "required x e = (case x of None \<Rightarrow> Inl e | Some a \<Rightarrow> Inr a)"

lemma sbind_Inr [simp]: "sbind (Inr x) f = f x"
  by (simp add: sbind_def)

lemma sbind_Inl [simp]: "sbind (Inl e) f = Inl e"
  by (simp add: sbind_def)

lemma sbind_eq_Inr: "sbind m f = Inr y \<longleftrightarrow> (\<exists>x. m = Inr x \<and> f x = Inr y)"
  by (cases m) auto

lemma sbind_eq_InrE:
  assumes "sbind m f = Inr y"
  obtains x where "m = Inr x" "f x = Inr y"
  using assms by (auto simp: sbind_eq_Inr)

lemma guard_that_eq_Inr [simp]: "guard_that b e = Inr u \<longleftrightarrow> b"
  by (cases u) (simp add: guard_that_def)

lemma guard_that_True [simp]: "guard_that True e = Inr ()"
  by (simp add: guard_that_def)

lemma guard_that_False [simp]: "guard_that False e = Inl e"
  by (simp add: guard_that_def)

lemma required_eq_Inr [simp]: "required x e = Inr a \<longleftrightarrow> x = Some a"
  by (cases x) (simp_all add: required_def)

lemma required_Some [simp]: "required (Some a) e = Inr a"
  by (simp add: required_def)

lemma required_None [simp]: "required None e = Inl e"
  by (simp add: required_def)

lemma if_Inl_eq_Inr [simp]: "(if b then Inl e else r) = Inr y \<longleftrightarrow> \<not> b \<and> r = Inr y"
  by simp

lemma if_Inl_eq_Inr' [simp]: "(if b then r else Inl e) = Inr y \<longleftrightarrow> b \<and> r = Inr y"
  by simp

lemma case_Inr_iff: "(case m of Inl e \<Rightarrow> False | Inr x \<Rightarrow> P x) \<longleftrightarrow> (\<exists>x. m = Inr x \<and> P x)"
  by (cases m) auto

text \<open>The facts about results that proofs over the handlers unfold with.\<close>

named_theorems result_simps
declare sbind_eq_Inr [result_simps]

text \<open>A computation mapped over a list, stopping at the first error.\<close>

fun map_res :: "('a \<Rightarrow> err + 'b) \<Rightarrow> 'a list \<Rightarrow> err + 'b list" where
  "map_res f [] = Inr []"
| "map_res f (x # xs) = sbind (f x) (\<lambda>y. sbind (map_res f xs) (\<lambda>ys. Inr (y # ys)))"

lemma map_res_Inr: "map_res f xs = Inr ys \<longleftrightarrow> list_all2 (\<lambda>x y. f x = Inr y) xs ys"
  by (induction xs arbitrary: ys) (auto simp: result_simps list_all2_Cons1)

section \<open>Option-valued fields\<close>

definition is_none :: "'a option \<Rightarrow> bool" where
  "is_none x \<longleftrightarrow> (case x of None \<Rightarrow> True | Some _ \<Rightarrow> False)"

lemma is_none_iff [simp]: "is_none x \<longleftrightarrow> x = None"
  by (simp add: is_none_def split: option.splits)

lemma is_none_code_eval: "is_none None" "\<not> is_none (Some a)"
  by simp_all

section \<open>Association tables\<close>

text \<open>
  Several tables of the store are read and written by key.  \<open>upsert\<close> is the
  write of a row under its key that keeps the position of an existing row.
\<close>

fun upsert :: "('a \<Rightarrow> 'k) \<Rightarrow> 'a \<Rightarrow> 'a list \<Rightarrow> 'a list" where
  "upsert key x [] = [x]"
| "upsert key x (y # ys) = (if key y = key x then x # ys else y # upsert key x ys)"

definition lookup_by :: "('a \<Rightarrow> 'k) \<Rightarrow> 'k \<Rightarrow> 'a list \<Rightarrow> 'a option" where
  "lookup_by key k xs = find (\<lambda>x. key x = k) xs"

lemma find_Some_in: "find P xs = Some x \<Longrightarrow> x \<in> set xs \<and> P x"
  by (induction xs) (auto split: if_splits)

lemma find_None_iff_ball: "find P xs = None \<longleftrightarrow> (\<forall>x\<in>set xs. \<not> P x)"
  by (induction xs) auto

lemma lookup_by_Nil [simp]: "lookup_by key k [] = None"
  by (simp add: lookup_by_def)

lemma lookup_by_Cons [simp]:
  "lookup_by key k (x # xs) = (if key x = k then Some x else lookup_by key k xs)"
  by (simp add: lookup_by_def)

lemma lookup_by_SomeD: "lookup_by key k xs = Some x \<Longrightarrow> x \<in> set xs \<and> key x = k"
  unfolding lookup_by_def by (drule find_Some_in) simp

lemma lookup_by_None: "lookup_by key k xs = None \<longleftrightarrow> k \<notin> key ` set xs"
  by (auto simp: lookup_by_def find_None_iff_ball)

lemma lookup_by_upsert [simp]:
  "lookup_by key k (upsert key x xs) = (if k = key x then Some x else lookup_by key k xs)"
  by (induction xs) auto

lemma lookup_by_append:
  "lookup_by key k (xs @ ys) = (case lookup_by key k xs of None \<Rightarrow> lookup_by key k ys | r \<Rightarrow> r)"
  by (induction xs) auto

lemma set_upsert_subset: "set (upsert key x xs) \<subseteq> insert x (set xs)"
  by (induction xs) auto

lemma in_upsert_self [simp]: "x \<in> set (upsert key x xs)"
  by (induction xs) auto

lemma keys_upsert: "key ` set (upsert key x xs) = insert (key x) (key ` set xs)"
  by (induction xs) auto

lemma distinct_keys_upsert:
  "distinct (List.map key xs) \<Longrightarrow> distinct (List.map key (upsert key x xs))"
proof (induction xs)
  case (Cons y ys)
  have "key ` set (upsert key x ys) = insert (key x) (key ` set ys)"
    by (rule keys_upsert)
  with Cons show ?case by auto
qed simp

lemma set_upsert:
  assumes "distinct (List.map key xs)"
  shows "set (upsert key x xs) = insert x {y \<in> set xs. key y \<noteq> key x}"
  using assms by (induction xs) (auto simp: image_iff)

lemma lookup_by_eq_Some_distinct:
  assumes "distinct (List.map key xs)"
  shows "lookup_by key k xs = Some x \<longleftrightarrow> x \<in> set xs \<and> key x = k"
  using assms by (induction xs) (auto simp: image_iff)

section \<open>Lists\<close>

text \<open>\<open>new Set(xs).size === xs.length\<close>\<close>

definition unique :: "'a list \<Rightarrow> bool" where
  "unique xs = distinct xs"

lemma unique_iff [simp]: "unique xs = distinct xs"
  by (simp add: unique_def)

lemma all_butlast_last:
  "xs \<noteq> [] \<Longrightarrow> (\<forall>x\<in>set xs. P x) \<longleftrightarrow> (\<forall>x\<in>set (butlast xs). P x) \<and> P (last xs)"
  by (induction xs) auto

section \<open>The interface of a versioned store\<close>

text \<open>
  A store whose records carry a version: a write prepared from a copy \<open>v\<close> commits
  only against the record of the same version, and leaves the next version.
\<close>

locale versioned_store =
  fixes inv :: "'s \<Rightarrow> bool"
    and get :: "'s \<Rightarrow> 'k \<Rightarrow> 'v option"
    and key :: "'v \<Rightarrow> 'k"
    and version :: "'v \<Rightarrow> nat"
    and commit :: "'s \<Rightarrow> 'v \<Rightarrow> 's \<Rightarrow> bool"
  assumes commit_inv: "inv s \<Longrightarrow> get s (key v) = Some v \<Longrightarrow> commit s v s' \<Longrightarrow> inv s'"
    and commit_current: "inv s \<Longrightarrow> commit s v s' \<Longrightarrow> \<exists>w. get s (key v) = Some w \<and> version w = version v"
    and commit_advances: "commit s v s' \<Longrightarrow> \<exists>w. get s' (key v) = Some w \<and> version w = Suc (version v)"
begin

lemma no_second_commit:
  assumes "inv s" "get s (key v) = Some v" "commit s v s'" shows "\<not> commit s' v s''"
proof
  assume "commit s' v s''"
  with commit_current[of s' v s''] commit_inv[OF assms] obtain w where
    "get s' (key v) = Some w" "version w = version v" by blast
  moreover obtain w' where "get s' (key v) = Some w'" "version w' = Suc (version v)"
    using commit_advances[OF assms(3)] by blast
  ultimately show False by simp
qed

end

end
