(* ===== verification/Identifiers.thy ===== *)
theory Identifiers
  imports Prelude
begin

text \<open>
  The branded identifier schemas of \<open>core/src/identifiers.ts\<close>: every
  identifier is a string \<open>prefix_body\<close> with a body of 8 to 64 characters over
  lower-case letters, digits, underscore and hyphen that starts with a letter or
  digit; a SHA-256 digest is 64 lower-case hexadecimal characters; a time of
  day is \<open>HH:MM\<close>.  The schemas are executable predicates on strings.
\<close>

section \<open>Character classes\<close>

definition is_lower_alnum :: "char \<Rightarrow> bool" where
  "is_lower_alnum c = List.member ''abcdefghijklmnopqrstuvwxyz0123456789'' c"

definition is_id_char :: "char \<Rightarrow> bool" where
  "is_id_char c = (is_lower_alnum c \<or> c = CHR ''_'' \<or> c = CHR ''-'')"

definition is_digit_char :: "char \<Rightarrow> bool" where
  "is_digit_char c = List.member ''0123456789'' c"

definition is_lower_hex :: "char \<Rightarrow> bool" where
  "is_lower_hex c = List.member ''abcdef0123456789'' c"

section \<open>Identifier schemas\<close>

text \<open>\<open>ID_BODY\<close>: \<open>[a-z0-9][a-z0-9_-]{7,63}\<close>\<close>

definition id_body_ok :: "string \<Rightarrow> bool" where
  "id_body_ok b = (case b of [] \<Rightarrow> False
     | c # cs \<Rightarrow> is_lower_alnum c \<and> 7 \<le> length cs \<and> length cs \<le> 63 \<and> list_all is_id_char cs)"

text \<open>\<open>idSchema(prefix)\<close>: the prefix, an underscore and a body.\<close>

fun strip_prefix :: "string \<Rightarrow> string \<Rightarrow> string option" where
  "strip_prefix [] s = Some s"
| "strip_prefix (p # ps) [] = None"
| "strip_prefix (p # ps) (c # cs) = (if p = c then strip_prefix ps cs else None)"

definition id_ok :: "string \<Rightarrow> string \<Rightarrow> bool" where
  "id_ok pre s = (case strip_prefix (pre @ ''_'') s of None \<Rightarrow> False | Some b \<Rightarrow> id_body_ok b)"

definition sha256_ok :: "string \<Rightarrow> bool" where
  "sha256_ok s = (length s = 64 \<and> list_all is_lower_hex s)"

text \<open>\<open>TimeOfDaySchema\<close>: \<open>(?:[01]\d|2[0-3]):[0-5]\d\<close>\<close>

definition time_of_day_ok :: "string \<Rightarrow> bool" where
  "time_of_day_ok s = (case s of
     [h1, h2, c, m1, m2] \<Rightarrow>
       ((List.member ''01'' h1 \<and> is_digit_char h2) \<or> (h1 = CHR ''2'' \<and> List.member ''0123'' h2))
       \<and> c = CHR '':'' \<and> List.member ''012345'' m1 \<and> is_digit_char m2
   | _ \<Rightarrow> False)"

lemma strip_prefix_Some [simp]: "strip_prefix p s = Some b \<longleftrightarrow> s = p @ b"
  by (induction p s rule: strip_prefix.induct) auto

lemma id_ok_iff: "id_ok p s \<longleftrightarrow> (\<exists>b. s = p @ ''_'' @ b \<and> id_body_ok b)"
  by (auto simp: id_ok_def split: option.splits dest: strip_prefix_Some[THEN iffD1])
     (metis append.assoc append_Cons append_Nil option.inject option.simps(3) strip_prefix_Some)+

text \<open>
  Identifiers of two prefixes are disjoint when neither prefix, with its
  underscore, starts the other.
\<close>

definition prefixes_apart :: "string \<Rightarrow> string \<Rightarrow> bool" where
  "prefixes_apart p q = (is_none (strip_prefix (p @ ''_'') (q @ ''_'')) \<and>
                         is_none (strip_prefix (q @ ''_'') (p @ ''_'')))"

lemma strip_prefix_None_iff: "strip_prefix p s = None \<longleftrightarrow> \<not> prefix p s"
  by (induction p s rule: strip_prefix.induct) auto

lemma id_ok_disjoint:
  assumes "prefixes_apart p q" "id_ok p s" shows "\<not> id_ok q s"
proof
  assume "id_ok q s"
  with assms(2) have "prefix (p @ ''_'') s" "prefix (q @ ''_'') s"
    by (auto simp: id_ok_iff prefix_def)
  then have "prefix (p @ ''_'') (q @ ''_'') \<or> prefix (q @ ''_'') (p @ ''_'')"
    by (meson prefix_same_cases)
  with assms(1) show False
    by (simp add: prefixes_apart_def strip_prefix_None_iff)
qed

text \<open>The prefixes the schemas are built from.\<close>

definition id_prefixes :: "string list" where
  "id_prefixes =
    [''org'', ''usr'', ''mem'', ''pal'', ''crew'', ''sch'', ''pref'', ''tag'', ''dev'', ''cap'',
     ''rtn'', ''rtv'', ''mis'', ''mev'', ''clr'', ''cla'', ''run'', ''pln'', ''act'', ''apr'',
     ''op'', ''att'', ''exe'', ''evd'', ''ver'', ''ctx'', ''evt'', ''call'', ''rcp'', ''gcmd'',
     ''gcb'', ''ais'', ''ait'']"

end
