(* ===== verification/Missions.thy ===== *)
theory Missions
  imports Identifiers
begin

text \<open>
  The mission state machine of \<open>core/src/missions.ts\<close>: states, program
  constraints, the mission schema, the transition table and
  \<open>resolveMissionTransition\<close>, and the mission event schema.  The relation
  \<open>mission_step\<close> is the abstract specification; \<open>resolveMissionTransition\<close> is
  proved to compute exactly it.
\<close>

section \<open>Data\<close>

datatype mission_status =
    MQueued | MRunning | MWaitingForUser | MWaitingForSystem | MSucceeded | MFailed | MCancelled

datatype mission_phase =
    PhUnderstand | PhPlan | PhValidate | PhApprove | PhExecute | PhReconcile | PhObserve | PhVerify

datatype program_kind = NightShiftHomecoming | ScheduledHaulerAccess

record mission_state =
  ms_status :: mission_status
  ms_phase :: mission_phase

text \<open>The \<open>superRefine\<close> of \<open>MissionStateSchema\<close>.\<close>

definition mission_state_ok :: "mission_state \<Rightarrow> bool" where
  "mission_state_ok s = (
     (ms_status s = MQueued \<and> ms_phase s = PhUnderstand) \<or>
     (ms_status s = MRunning \<and>
       List.member [PhUnderstand, PhPlan, PhValidate, PhExecute, PhReconcile, PhVerify] (ms_phase s)) \<or>
     (ms_status s = MWaitingForUser \<and>
       List.member [PhPlan, PhApprove, PhReconcile, PhVerify] (ms_phase s)) \<or>
     (ms_status s = MWaitingForSystem \<and> ms_phase s = PhObserve) \<or>
     (ms_status s = MSucceeded \<and> ms_phase s = PhVerify) \<or>
     (ms_status s = MFailed \<and>
       List.member [PhExecute, PhReconcile, PhObserve, PhVerify] (ms_phase s)) \<or>
     ms_status s = MCancelled)"

record homecoming_constraint =
  hc_preheatBy :: string
  hc_requireVerifiedIdentityForUnlock :: bool
  hc_pathwayLightingBeginsAfter :: string
  hc_projectedBatteryUseMax :: rat

record hauler_constraint =
  ha_accessWindowStart :: string
  ha_accessWindowEnd :: string
  ha_authorizedIdentityTagId :: string
  ha_serviceHatchOnly :: bool
  ha_residentialHatchMustRemainLocked :: bool
  ha_finalServiceHatchState :: string

definition homecoming_constraint_ok :: "homecoming_constraint \<Rightarrow> bool" where
  "homecoming_constraint_ok c = (
     time_of_day_ok (hc_preheatBy c) \<and>
     hc_requireVerifiedIdentityForUnlock c \<and>
     hc_pathwayLightingBeginsAfter c = ''verified_arrival'' \<and>
     0 \<le> hc_projectedBatteryUseMax c \<and> hc_projectedBatteryUseMax c \<le> 100)"

definition hauler_constraint_ok :: "hauler_constraint \<Rightarrow> bool" where
  "hauler_constraint_ok c = (
     time_of_day_ok (ha_accessWindowStart c) \<and>
     time_of_day_ok (ha_accessWindowEnd c) \<and>
     id_ok ''tag'' (ha_authorizedIdentityTagId c) \<and>
     ha_serviceHatchOnly c \<and>
     ha_residentialHatchMustRemainLocked c \<and>
     ha_finalServiceHatchState c = ''locked'' \<and>
     ha_accessWindowStart c \<noteq> ha_accessWindowEnd c)"

datatype mission_constraint =
    HomecomingConstraint homecoming_constraint
  | HaulerConstraint hauler_constraint

definition homecoming_parses :: "mission_constraint \<Rightarrow> bool" where
  "homecoming_parses c = (case c of HomecomingConstraint h \<Rightarrow> homecoming_constraint_ok h
                                  | HaulerConstraint _ \<Rightarrow> False)"

definition mission_constraint_ok :: "mission_constraint \<Rightarrow> bool" where
  "mission_constraint_ok c = (case c of HomecomingConstraint h \<Rightarrow> homecoming_constraint_ok h
                                      | HaulerConstraint h \<Rightarrow> hauler_constraint_ok h)"

datatype task_status = TaskPending | TaskInProgress | TaskCompleted | TaskBlocked

record task_item =
  ti_id :: string
  ti_label :: string
  ti_status :: task_status
  ti_evidenceRefs :: "string list"

text \<open>\<open>[a-z][a-z0-9_-]{2,63}\<close>\<close>

definition task_id_ok :: "string \<Rightarrow> bool" where
  "task_id_ok s = (case s of [] \<Rightarrow> False
     | c # cs \<Rightarrow> is_lower_alnum c \<and> \<not> is_digit_char c \<and>
         2 \<le> length cs \<and> length cs \<le> 63 \<and> list_all is_id_char cs)"

definition task_item_ok :: "task_item \<Rightarrow> bool" where
  "task_item_ok t = (task_id_ok (ti_id t) \<and>
     1 \<le> length (ti_label t) \<and> length (ti_label t) \<le> 160 \<and>
     list_all (\<lambda>r. r \<noteq> '''') (ti_evidenceRefs t))"

record mission =
  mi_id :: string
  mi_organizationId :: string
  mi_palaceId :: string
  mi_initiatedBy :: string
  mi_programKind :: "program_kind option"
  mi_objective :: string
  mi_constraints :: mission_constraint
  mi_successCriteriaIds :: "string list"
  mi_state :: mission_state
  mi_version :: nat
  mi_runId :: "string option"
  mi_contextReceiptId :: "string option"
  mi_taskLedger :: "task_item list"
  mi_createdAt :: instant
  mi_updatedAt :: instant

definition constraint_kind :: "mission_constraint \<Rightarrow> program_kind" where
  "constraint_kind c = (if homecoming_parses c then NightShiftHomecoming else ScheduledHaulerAccess)"

definition opt_id_ok :: "string \<Rightarrow> string option \<Rightarrow> bool" where
  "opt_id_ok p x = (case x of None \<Rightarrow> True | Some s \<Rightarrow> id_ok p s)"

definition mission_ok :: "mission \<Rightarrow> bool" where
  "mission_ok m = (
     id_ok ''mis'' (mi_id m) \<and> id_ok ''org'' (mi_organizationId m) \<and>
     id_ok ''pal'' (mi_palaceId m) \<and> id_ok ''usr'' (mi_initiatedBy m) \<and>
     1 \<le> length (mi_objective m) \<and> length (mi_objective m) \<le> 2000 \<and>
     mission_constraint_ok (mi_constraints m) \<and>
     list_all (\<lambda>s. s \<noteq> '''') (mi_successCriteriaIds m) \<and> mi_successCriteriaIds m \<noteq> [] \<and>
     mission_state_ok (mi_state m) \<and>
     opt_id_ok ''run'' (mi_runId m) \<and> opt_id_ok ''ctx'' (mi_contextReceiptId m) \<and>
     length (mi_taskLedger m) \<le> 32 \<and> list_all task_item_ok (mi_taskLedger m) \<and>
     (case mi_programKind m of None \<Rightarrow> True | Some k \<Rightarrow> k = constraint_kind (mi_constraints m)) \<and>
     unique (mi_successCriteriaIds m))"

definition missionProgramKindOf :: "mission \<Rightarrow> program_kind" where
  "missionProgramKindOf m = (case mi_programKind m of
     Some k \<Rightarrow> k
   | None \<Rightarrow> (if homecoming_parses (mi_constraints m) then NightShiftHomecoming
              else ScheduledHaulerAccess))"

datatype mission_event_kind =
    LeaseAcquired | ContextSufficient | MaterialAmbiguity | ClarificationAnswered
  | UserResponseExpired | CandidatePersisted | ValidationFailed | ValidationPassed
  | ApprovalRejected | ApprovalExpiredOrStale | ApprovalGranted | ExecutionCommitted
  | ExecutionUnknown | ExecutionNonRetryableFailure | ReconcileCommitFound
  | ReconcileAbsentRetryable | ReconcileBudgetExhausted | ReconcileRetryAuthorized
  | ReconcileStopped | EvidenceArrived | ObservationDeadlineExpired | VerificationPassed
  | SafeCorrectionAvailable | InterventionRequired | CorrectiveWorkRequested
  | TerminalResultAcknowledged | LeaseLost | CancelRequested
  | CancelReconciliationRequired | CancelReconciliationCompleted

section \<open>The transition table\<close>

record mission_transition =
  tr_from :: mission_state
  tr_event :: mission_event_kind
  tr_to :: mission_state
  tr_hostAction :: string

definition mstate :: "mission_status \<Rightarrow> mission_phase \<Rightarrow> mission_state" where
  "mstate s p = \<lparr>ms_status = s, ms_phase = p\<rparr>"

definition mtrans :: "mission_state \<Rightarrow> mission_event_kind \<Rightarrow> mission_state \<Rightarrow> string \<Rightarrow> mission_transition" where
  "mtrans f e t h = \<lparr>tr_from = f, tr_event = e, tr_to = t, tr_hostAction = h\<rparr>"

definition MISSION_TRANSITIONS :: "mission_transition list" where
  "MISSION_TRANSITIONS = [
     mtrans (mstate MQueued PhUnderstand) LeaseAcquired (mstate MRunning PhUnderstand)
       ''create_run_and_context_receipt'',
     mtrans (mstate MRunning PhUnderstand) ContextSufficient (mstate MRunning PhPlan)
       ''persist_facts_and_task_ledger'',
     mtrans (mstate MRunning PhPlan) MaterialAmbiguity (mstate MWaitingForUser PhPlan)
       ''request_bounded_clarification'',
     mtrans (mstate MWaitingForUser PhPlan) ClarificationAnswered (mstate MRunning PhPlan)
       ''persist_answer_and_revise_plan'',
     mtrans (mstate MWaitingForUser PhPlan) UserResponseExpired (mstate MCancelled PhPlan)
       ''record_user_response_expired'',
     mtrans (mstate MRunning PhPlan) CandidatePersisted (mstate MRunning PhValidate)
       ''freeze_plan_revision'',
     mtrans (mstate MRunning PhValidate) ValidationFailed (mstate MRunning PhPlan)
       ''record_evidence_and_replan'',
     mtrans (mstate MRunning PhValidate) ValidationPassed (mstate MWaitingForUser PhApprove)
       ''create_approval_request'',
     mtrans (mstate MWaitingForUser PhApprove) ApprovalRejected (mstate MRunning PhPlan)
       ''invalidate_approval_request'',
     mtrans (mstate MWaitingForUser PhApprove) ApprovalExpiredOrStale (mstate MRunning PhPlan)
       ''revalidate_and_revise_plan'',
     mtrans (mstate MWaitingForUser PhApprove) ApprovalGranted (mstate MRunning PhExecute)
       ''materialize_logical_operations'',
     mtrans (mstate MRunning PhExecute) ApprovalExpiredOrStale (mstate MRunning PhPlan)
       ''invalidate_operation_and_revise_plan'',
     mtrans (mstate MRunning PhExecute) ExecutionCommitted (mstate MWaitingForSystem PhObserve)
       ''await_external_evidence'',
     mtrans (mstate MRunning PhExecute) ExecutionUnknown (mstate MRunning PhReconcile)
       ''preserve_logical_operation'',
     mtrans (mstate MRunning PhExecute) ExecutionNonRetryableFailure (mstate MFailed PhExecute)
       ''persist_terminal_receipt'',
     mtrans (mstate MRunning PhReconcile) ReconcileCommitFound (mstate MWaitingForSystem PhObserve)
       ''return_original_operation_outcome'',
     mtrans (mstate MRunning PhReconcile) ReconcileAbsentRetryable (mstate MRunning PhExecute)
       ''retry_same_logical_operation'',
     mtrans (mstate MRunning PhReconcile) ReconcileBudgetExhausted (mstate MWaitingForUser PhReconcile)
       ''present_evidence_and_safest_action'',
     mtrans (mstate MWaitingForUser PhReconcile) ReconcileRetryAuthorized (mstate MRunning PhExecute)
       ''retry_existing_logical_operation'',
     mtrans (mstate MWaitingForUser PhReconcile) ReconcileStopped (mstate MCancelled PhReconcile)
       ''stop_remaining_actions'',
     mtrans (mstate MWaitingForSystem PhObserve) EvidenceArrived (mstate MRunning PhVerify)
       ''run_deterministic_assertions'',
     mtrans (mstate MWaitingForSystem PhObserve) ObservationDeadlineExpired (mstate MRunning PhVerify)
       ''verify_failure_evidence'',
     mtrans (mstate MRunning PhVerify) VerificationPassed (mstate MSucceeded PhVerify)
       ''freeze_verifier_receipt'',
     mtrans (mstate MRunning PhVerify) SafeCorrectionAvailable (mstate MRunning PhPlan)
       ''propose_new_revision'',
     mtrans (mstate MRunning PhVerify) InterventionRequired (mstate MWaitingForUser PhVerify)
       ''present_failed_assertions'',
     mtrans (mstate MWaitingForUser PhVerify) CorrectiveWorkRequested (mstate MRunning PhPlan)
       ''create_new_plan_revision'',
     mtrans (mstate MWaitingForUser PhVerify) TerminalResultAcknowledged (mstate MFailed PhVerify)
       ''freeze_failed_verifier_receipt'',
     mtrans (mstate MRunning PhExecute) CancelReconciliationRequired (mstate MRunning PhReconcile)
       ''stop_remaining_actions_and_reconcile_effect'',
     mtrans (mstate MRunning PhReconcile) CancelReconciliationRequired (mstate MRunning PhReconcile)
       ''continue_reconciling_cancelled_effect'',
     mtrans (mstate MWaitingForSystem PhObserve) CancelReconciliationRequired (mstate MRunning PhReconcile)
       ''stop_remaining_actions_and_reconcile_effect'',
     mtrans (mstate MRunning PhReconcile) CancelReconciliationCompleted (mstate MCancelled PhReconcile)
       ''freeze_reconciled_cancellation_receipt'']"

definition isTerminalMissionState :: "mission_state \<Rightarrow> bool" where
  "isTerminalMissionState s = List.member [MSucceeded, MFailed, MCancelled] (ms_status s)"

definition resolveMissionTransition ::
  "mission_state \<Rightarrow> mission_event_kind \<Rightarrow> err + mission_state" where
  "resolveMissionTransition current event =
     (if \<not> mission_state_ok current then Inl (ZodError ''MissionState'')
      else if isTerminalMissionState current then Inl InvalidMissionTransitionError
      else if event = LeaseLost then Inr current
      else if event = CancelRequested then Inr (mstate MCancelled (ms_phase current))
      else (case find (\<lambda>t. tr_from t = current \<and> tr_event t = event) MISSION_TRANSITIONS of
              None \<Rightarrow> Inl InvalidMissionTransitionError
            | Some t \<Rightarrow> Inr (tr_to t)))"

record mission_event =
  me_id :: string
  me_missionId :: string
  me_organizationId :: string
  me_sequence :: nat
  me_event :: mission_event_kind
  me_from :: mission_state
  me_to :: mission_state
  me_occurredAt :: instant

definition mission_event_ok :: "mission_event \<Rightarrow> bool" where
  "mission_event_ok e = (
     id_ok ''mev'' (me_id e) \<and> id_ok ''mis'' (me_missionId e) \<and>
     id_ok ''org'' (me_organizationId e) \<and>
     mission_state_ok (me_from e) \<and> mission_state_ok (me_to e) \<and>
     (case resolveMissionTransition (me_from e) (me_event e) of
        Inl _ \<Rightarrow> False
      | Inr expected \<Rightarrow> expected = me_to e))"

section \<open>The abstract state machine\<close>

text \<open>
  The rules as the design states them: a row of the table applies from its
  source state; losing the lease leaves the state; a cancellation freezes the
  phase; nothing leaves a terminal state.
\<close>

inductive mission_step :: "mission_state \<Rightarrow> mission_event_kind \<Rightarrow> mission_state \<Rightarrow> bool" where
  step_table: "mtrans s e s' h \<in> set MISSION_TRANSITIONS \<Longrightarrow> mission_step s e s'"
| step_lease_lost: "mission_state_ok s \<Longrightarrow> \<not> isTerminalMissionState s \<Longrightarrow> mission_step s LeaseLost s"
| step_cancel: "mission_state_ok s \<Longrightarrow> \<not> isTerminalMissionState s \<Longrightarrow>
    mission_step s CancelRequested (mstate MCancelled (ms_phase s))"

inductive mission_run :: "mission_state \<Rightarrow> mission_event_kind list \<Rightarrow> mission_state \<Rightarrow> bool" where
  run_start: "mission_state_ok s \<Longrightarrow> mission_run s [] s"
| run_snoc: "mission_run s es s' \<Longrightarrow> mission_step s' e s'' \<Longrightarrow> mission_run s (es @ [e]) s''"

inductive_cases mission_step_elim: "mission_step s e s'"
inductive_cases mission_run_NilE: "mission_run s [] s'"
inductive_cases mission_run_snocE: "mission_run s (es @ [e]) s'"

definition initial_mission_state :: mission_state where
  "initial_mission_state = mstate MQueued PhUnderstand"

section \<open>Lemmas\<close>

lemma mstate_sel [simp]: "ms_status (mstate s p) = s" "ms_phase (mstate s p) = p"
  by (simp_all add: mstate_def)

lemma mstate_eq_iff [simp]: "mstate s p = mstate s' p' \<longleftrightarrow> s = s' \<and> p = p'"
  by (simp add: mstate_def)

lemma mstate_collapse: "mstate (ms_status s) (ms_phase s) = s"
  by (simp add: mstate_def)

lemma mission_state_exhaust: obtains st ph where "s = mstate st ph"
  using mstate_collapse[of s] by metis

lemma mtrans_sel [simp]:
  "tr_from (mtrans f e t h) = f" "tr_event (mtrans f e t h) = e"
  "tr_to (mtrans f e t h) = t" "tr_hostAction (mtrans f e t h) = h"
  by (simp_all add: mtrans_def)

lemma mtrans_eq_iff [simp]:
  "mtrans f e t h = mtrans f' e' t' h' \<longleftrightarrow> f = f' \<and> e = e' \<and> t = t' \<and> h = h'"
  by (simp add: mtrans_def)

lemma mtrans_collapse: "mtrans (tr_from t) (tr_event t) (tr_to t) (tr_hostAction t) = t"
  by (simp add: mtrans_def)

lemma terminal_iff [simp]:
  "isTerminalMissionState s \<longleftrightarrow> ms_status s \<in> {MSucceeded, MFailed, MCancelled}"
  by (auto simp: isTerminalMissionState_def)

lemmas mission_eval = mission_state_ok_def MISSION_TRANSITIONS_def resolveMissionTransition_def

lemma table_keys_distinct:
  "distinct (List.map (\<lambda>t. (tr_from t, tr_event t)) MISSION_TRANSITIONS)"
  by (simp add: MISSION_TRANSITIONS_def)

lemma table_rows_ok:
  "t \<in> set MISSION_TRANSITIONS \<Longrightarrow>
     mission_state_ok (tr_from t) \<and> mission_state_ok (tr_to t) \<and> \<not> isTerminalMissionState (tr_from t) \<and>
     tr_event t \<noteq> LeaseLost \<and> tr_event t \<noteq> CancelRequested"
  unfolding MISSION_TRANSITIONS_def by (simp add: mission_state_ok_def) (elim disjE; simp)

lemma find_by_distinct_key:
  assumes "distinct (List.map f xs)" "x \<in> set xs" "f x = k"
  shows "find (\<lambda>y. f y = k) xs = Some x"
  using assms by (induction xs) auto

lemma find_transition:
  assumes "t \<in> set MISSION_TRANSITIONS"
  shows "find (\<lambda>u. tr_from u = tr_from t \<and> tr_event u = tr_event t) MISSION_TRANSITIONS = Some t"
proof -
  have eq: "(\<lambda>u. tr_from u = tr_from t \<and> tr_event u = tr_event t) =
        (\<lambda>u. (tr_from u, tr_event u) = (tr_from t, tr_event t))" by auto
  show ?thesis unfolding eq
    by (rule find_by_distinct_key[OF table_keys_distinct assms refl])
qed

lemma mission_state_ok_cancelled: "mission_state_ok (mstate MCancelled p)"
  by (simp add: mission_state_ok_def)

lemma mission_step_state_ok:
  assumes "mission_step s e s'"
  shows "mission_state_ok s" "mission_state_ok s'" "\<not> isTerminalMissionState s"
proof -
  have "mission_state_ok s \<and> mission_state_ok s' \<and> \<not> isTerminalMissionState s"
    using assms
  proof cases
    case (step_table h)
    from table_rows_ok[OF step_table] show ?thesis by simp
  next
    case step_cancel
    then show ?thesis by (simp add: mission_state_ok_cancelled)
  qed simp
  then show "mission_state_ok s" "mission_state_ok s'" "\<not> isTerminalMissionState s" by blast+
qed

lemma resolve_imp_step:
  assumes "resolveMissionTransition s e = Inr s'" shows "mission_step s e s'"
proof -
  from assms have ok: "mission_state_ok s" and nt: "\<not> isTerminalMissionState s"
    by (auto simp: resolveMissionTransition_def split: if_splits)
  consider "e = LeaseLost" | "e = CancelRequested" | "e \<noteq> LeaseLost" "e \<noteq> CancelRequested" by blast
  then show ?thesis
  proof cases
    case 3
    with assms ok nt obtain t where
      f: "find (\<lambda>t. tr_from t = s \<and> tr_event t = e) MISSION_TRANSITIONS = Some t" and to: "s' = tr_to t"
      by (auto simp: resolveMissionTransition_def split: option.splits)
    from find_Some_in[OF f] have "t \<in> set MISSION_TRANSITIONS" "tr_from t = s" "tr_event t = e" by auto
    then have "mtrans s e s' (tr_hostAction t) \<in> set MISSION_TRANSITIONS"
      using mtrans_collapse[of t] to by metis
    then show ?thesis by (rule step_table)
  qed (use assms ok nt in \<open>auto simp: resolveMissionTransition_def intro: mission_step.intros\<close>)
qed

lemma step_imp_resolve:
  assumes "mission_step s e s'" shows "resolveMissionTransition s e = Inr s'"
  using assms
proof cases
  case (step_table h)
  from table_rows_ok[OF step_table] have
    "mission_state_ok s" "\<not> isTerminalMissionState s" "e \<noteq> LeaseLost" "e \<noteq> CancelRequested" by auto
  with find_transition[OF step_table] show ?thesis
    by (simp add: resolveMissionTransition_def)
qed (simp_all add: resolveMissionTransition_def)

lemma mission_step_iff_resolve: "mission_step s e s' \<longleftrightarrow> resolveMissionTransition s e = Inr s'"
  using resolve_imp_step step_imp_resolve by blast

lemma mission_run_ok: "mission_run s es s' \<Longrightarrow> mission_state_ok s'"
  by (induction rule: mission_run.induct) (auto dest: mission_step_state_ok)

text \<open>Case analysis of a step into the rows of the table and the two universal events.\<close>

lemma mission_step_rows:
  assumes "mission_step s e s'"
  shows "(e = LeaseLost \<and> s' = s) \<or> (e = CancelRequested \<and> s' = mstate MCancelled (ms_phase s)) \<or>
         (\<exists>h. mtrans s e s' h \<in> set MISSION_TRANSITIONS)"
  using assms by (auto elim: mission_step_elim)

lemma mission_run_append:
  assumes "mission_run s es s'" "mission_run s' es' s''"
  shows "mission_run s (es @ es') s''"
  using assms(2,1)
  by (induction rule: mission_run.induct) (auto simp flip: append_assoc intro: run_snoc)

end
