(* ===== verification/Mission_Runs.thy ===== *)
theory Mission_Runs
  imports Missions
begin

text \<open>
  What the runs of the mission state machine of \<open>core/src/missions.ts\<close> guarantee:
  which milestones a mission has passed in each state, that an execution always
  stands under an approval granted after the last frozen candidate, and that a
  mission can always still be completed or cancelled.
\<close>

section \<open>Milestones\<close>

text \<open>
  The two ways an execution is known to be committed count as one milestone,
  and so do the two ways an observation ends.
\<close>

definition milestone_of :: "mission_event_kind \<Rightarrow> mission_event_kind" where
  "milestone_of e = (case e of
     ReconcileCommitFound \<Rightarrow> ExecutionCommitted
   | ObservationDeadlineExpired \<Rightarrow> EvidenceArrived
   | _ \<Rightarrow> e)"

definition planning_ladder :: "mission_event_kind list" where
  "planning_ladder = [LeaseAcquired, ContextSufficient]"

definition approved_ladder :: "mission_event_kind list" where
  "approved_ladder = planning_ladder @ [CandidatePersisted, ValidationPassed, ApprovalGranted]"

definition verify_ladder :: "mission_event_kind list" where
  "verify_ladder = approved_ladder @ [ExecutionCommitted, EvidenceArrived]"

text \<open>The milestones that lie behind a mission in a given state.\<close>

fun ladder :: "mission_status \<Rightarrow> mission_phase \<Rightarrow> mission_event_kind list" where
  "ladder MRunning PhUnderstand = [LeaseAcquired]"
| "ladder MRunning PhPlan = planning_ladder"
| "ladder MWaitingForUser PhPlan = planning_ladder"
| "ladder MRunning PhValidate = planning_ladder @ [CandidatePersisted]"
| "ladder MWaitingForUser PhApprove = planning_ladder @ [CandidatePersisted, ValidationPassed]"
| "ladder MRunning PhExecute = approved_ladder"
| "ladder MFailed PhExecute = approved_ladder"
| "ladder MRunning PhReconcile = approved_ladder"
| "ladder MWaitingForUser PhReconcile = approved_ladder"
| "ladder MWaitingForSystem PhObserve = approved_ladder @ [ExecutionCommitted]"
| "ladder MRunning PhVerify = verify_ladder"
| "ladder MWaitingForUser PhVerify = verify_ladder @ [InterventionRequired]"
| "ladder MSucceeded PhVerify = verify_ladder @ [VerificationPassed]"
| "ladder MFailed PhVerify = verify_ladder @ [InterventionRequired, TerminalResultAcknowledged]"
| "ladder _ _ = []"

definition ladder_of :: "mission_state \<Rightarrow> mission_event_kind list" where
  "ladder_of s = ladder (ms_status s) (ms_phase s)"

lemmas ladder_eval = ladder_of_def planning_ladder_def approved_ladder_def verify_ladder_def milestone_of_def

lemma ladder_table:
  "list_all (\<lambda>t. subseq (ladder_of (tr_to t)) (ladder_of (tr_from t) @ [milestone_of (tr_event t)]))
     MISSION_TRANSITIONS"
  by (simp add: MISSION_TRANSITIONS_def ladder_eval)

lemma ladder_step:
  assumes "mission_step s e s'"
  shows "subseq (ladder_of s') (ladder_of s @ [milestone_of e])"
  using assms
proof cases
  case (step_table h)
  with ladder_table have "subseq (ladder_of (tr_to (mtrans s e s' h)))
      (ladder_of (tr_from (mtrans s e s' h)) @ [milestone_of (tr_event (mtrans s e s' h))])"
    unfolding list_all_iff by blast
  then show ?thesis by simp
next
  case step_lease_lost
  then show ?thesis by (simp add: subseq_rev_drop_many)
next
  case step_cancel
  then show ?thesis by (cases "ms_phase s") (simp_all add: ladder_of_def)
qed

lemma ladder_run:
  assumes "mission_run s es s'"
  shows "subseq (ladder_of s') (ladder_of s @ List.map milestone_of es)"
  using assms
proof (induction rule: mission_run.induct)
  case (run_snoc s es s' e s'')
  have "subseq (ladder_of s'') (ladder_of s' @ [milestone_of e])"
    by (rule ladder_step[OF run_snoc.hyps(2)])
  also have "subseq \<dots> ((ladder_of s @ List.map milestone_of es) @ [milestone_of e])"
    using run_snoc.IH by (simp only: subseq_append)
  finally show ?case by simp
qed simp

lemma ladder_initial [simp]: "ladder_of initial_mission_state = []"
  by (simp add: ladder_of_def initial_mission_state_def)

section \<open>The approval behind an execution\<close>

text \<open>
  The phases a mission reaches only by an approved execution, and the property
  of an event history that its last approval came after its last frozen
  candidate plan.
\<close>

definition under_execution :: "mission_state \<Rightarrow> bool" where
  "under_execution s = (ms_status s \<noteq> MCancelled \<and>
     List.member [PhExecute, PhReconcile, PhObserve, PhVerify] (ms_phase s))"

definition approval_after_candidate :: "mission_event_kind list \<Rightarrow> bool" where
  "approval_after_candidate es = List.member (takeWhile (\<lambda>e. e \<noteq> CandidatePersisted) (rev es)) ApprovalGranted"

lemma approval_after_candidate_snoc:
  "approval_after_candidate (es @ [e]) \<longleftrightarrow>
     e = ApprovalGranted \<or> (e \<noteq> CandidatePersisted \<and> approval_after_candidate es)"
  by (auto simp: approval_after_candidate_def)

lemma under_execution_table:
  "list_all (\<lambda>t. under_execution (tr_to t) \<longrightarrow> tr_event t = ApprovalGranted \<or>
      (tr_event t \<noteq> CandidatePersisted \<and> under_execution (tr_from t))) MISSION_TRANSITIONS"
  by (simp add: MISSION_TRANSITIONS_def under_execution_def)

lemma under_execution_step:
  assumes "mission_step s e s'" "under_execution s'"
  shows "e = ApprovalGranted \<or> (e \<noteq> CandidatePersisted \<and> under_execution s)"
  using assms(1)
proof cases
  case (step_table h)
  with under_execution_table assms(2) have
    "under_execution (tr_to (mtrans s e s' h)) \<longrightarrow> tr_event (mtrans s e s' h) = ApprovalGranted \<or>
      (tr_event (mtrans s e s' h) \<noteq> CandidatePersisted \<and> under_execution (tr_from (mtrans s e s' h)))"
    unfolding list_all_iff by blast
  with assms(2) show ?thesis by simp
qed (use assms(2) in \<open>simp_all add: under_execution_def\<close>)

lemma approval_run:
  assumes "mission_run s es s'" "\<not> under_execution s" "under_execution s'"
  shows "approval_after_candidate es"
  using assms
proof (induction rule: mission_run.induct)
  case (run_snoc s es s' e s'')
  from under_execution_step[OF run_snoc.hyps(2) run_snoc.prems(2)] run_snoc.IH run_snoc.prems(1)
  show ?case by (auto simp: approval_after_candidate_snoc)
qed simp

section \<open>Progress\<close>

text \<open>A sequence of events that completes a mission from each live state.\<close>

fun completion_path :: "mission_status \<Rightarrow> mission_phase \<Rightarrow> mission_event_kind list" where
  "completion_path MRunning PhVerify = [VerificationPassed]"
| "completion_path MWaitingForSystem PhObserve = [EvidenceArrived, VerificationPassed]"
| "completion_path MRunning PhExecute = [ExecutionCommitted, EvidenceArrived, VerificationPassed]"
| "completion_path MRunning PhReconcile = [ReconcileCommitFound, EvidenceArrived, VerificationPassed]"
| "completion_path MWaitingForUser PhReconcile =
     [ReconcileRetryAuthorized, ExecutionCommitted, EvidenceArrived, VerificationPassed]"
| "completion_path MWaitingForUser PhApprove =
     [ApprovalGranted, ExecutionCommitted, EvidenceArrived, VerificationPassed]"
| "completion_path MRunning PhValidate =
     [ValidationPassed, ApprovalGranted, ExecutionCommitted, EvidenceArrived, VerificationPassed]"
| "completion_path MRunning PhPlan =
     [CandidatePersisted, ValidationPassed, ApprovalGranted, ExecutionCommitted, EvidenceArrived,
      VerificationPassed]"
| "completion_path MWaitingForUser PhPlan =
     [ClarificationAnswered, CandidatePersisted, ValidationPassed, ApprovalGranted,
      ExecutionCommitted, EvidenceArrived, VerificationPassed]"
| "completion_path MWaitingForUser PhVerify =
     [CorrectiveWorkRequested, CandidatePersisted, ValidationPassed, ApprovalGranted,
      ExecutionCommitted, EvidenceArrived, VerificationPassed]"
| "completion_path MRunning PhUnderstand =
     [ContextSufficient, CandidatePersisted, ValidationPassed, ApprovalGranted,
      ExecutionCommitted, EvidenceArrived, VerificationPassed]"
| "completion_path MQueued PhUnderstand =
     [LeaseAcquired, ContextSufficient, CandidatePersisted, ValidationPassed, ApprovalGranted,
      ExecutionCommitted, EvidenceArrived, VerificationPassed]"
| "completion_path _ _ = []"

text \<open>Running the resolver along a sequence of events.\<close>

fun resolve_all :: "mission_state \<Rightarrow> mission_event_kind list \<Rightarrow> err + mission_state" where
  "resolve_all s [] = Inr s"
| "resolve_all s (e # es) = sbind (resolveMissionTransition s e) (\<lambda>s'. resolve_all s' es)"

lemma resolve_all_append:
  "resolve_all s (es @ es') = sbind (resolve_all s es) (\<lambda>s'. resolve_all s' es')"
  by (induction es arbitrary: s) (auto simp: sbind_def split: sum.splits)

lemma mission_run_iff_resolve_all:
  "mission_run s es s' \<longleftrightarrow> mission_state_ok s \<and> resolve_all s es = Inr s'"
proof
  show "mission_run s es s' \<Longrightarrow> mission_state_ok s \<and> resolve_all s es = Inr s'"
    by (induction rule: mission_run.induct)
       (auto simp: resolve_all_append mission_step_iff_resolve)
  show "mission_state_ok s \<and> resolve_all s es = Inr s' \<Longrightarrow> mission_run s es s'"
  proof (induction es arbitrary: s' rule: rev_induct)
    case Nil
    then show ?case by (auto intro: run_start)
  next
    case (snoc e es)
    then show ?case
      by (auto simp: resolve_all_append sbind_eq_Inr simp flip: mission_step_iff_resolve intro: run_snoc)
  qed
qed

lemma completion_path_resolves:
  assumes "mission_state_ok (mstate st ph)" "\<not> isTerminalMissionState (mstate st ph)"
  shows "resolve_all (mstate st ph) (completion_path st ph) = Inr (mstate MSucceeded PhVerify)"
  using assms by (cases st; cases ph) (simp_all add: mission_eval)

section \<open>Properties\<close>


text \<open>
  C2.  The order of milestones: every run of the state machine from the initial
  state that reaches \<open>succeeded\<close> passed, in this order, the lease, sufficient
  context, a frozen candidate plan, a passed validation, a granted approval, a
  committed execution, the end of the observation and the verification.
\<close>

theorem succeeded_missions_passed_every_gate:
  assumes "mission_run initial_mission_state es s" "ms_status s = MSucceeded"
  shows "subseq [LeaseAcquired, ContextSufficient, CandidatePersisted, ValidationPassed,
                 ApprovalGranted, ExecutionCommitted, EvidenceArrived, VerificationPassed]
                (List.map milestone_of es)"
proof -
  from mission_run_ok[OF assms(1)] assms(2) have "ms_phase s = PhVerify"
    by (simp add: mission_state_ok_def)
  with ladder_run[OF assms(1)] assms(2) show ?thesis
    unfolding ladder_initial by (simp add: ladder_eval)
qed

theorem succeeded_missions_passed_every_gate_witness:
  "subseq [LeaseAcquired, ContextSufficient, CandidatePersisted, ValidationPassed,
           ApprovalGranted, ExecutionCommitted, EvidenceArrived, VerificationPassed]
     (List.map milestone_of (completion_path MQueued PhUnderstand))"
  by (rule succeeded_missions_passed_every_gate[where s = "mstate MSucceeded PhVerify"])
     (simp_all add: mission_run_iff_resolve_all initial_mission_state_def mission_eval)

text \<open>
  C3.  No execution without a current approval: whenever a run from the initial
  state has reached execution, reconciliation, observation or verification
  (and was not cancelled), an approval was granted after the last candidate plan
  was frozen, so a revised plan never executes under an older approval.
\<close>

theorem execution_stands_under_current_approval:
  assumes "mission_run initial_mission_state es s" "under_execution s"
  shows "approval_after_candidate es"
  using approval_run[OF assms(1) _ assms(2)]
  by (simp add: under_execution_def initial_mission_state_def)

theorem execution_stands_under_current_approval_witness:
  "approval_after_candidate [LeaseAcquired, ContextSufficient, CandidatePersisted, ValidationPassed,
     ApprovalRejected, CandidatePersisted, ValidationPassed, ApprovalGranted, ExecutionUnknown]"
  by (rule execution_stands_under_current_approval[where s = "mstate MRunning PhReconcile"])
     (simp_all add: mission_run_iff_resolve_all initial_mission_state_def mission_eval under_execution_def)

text \<open>
  C4.  A mission is never stuck: from every well-formed state that is not
  terminal, an explicit sequence of events leads to success, and a cancellation
  is accepted and freezes the phase.
\<close>

theorem live_missions_can_complete:
  assumes "mission_state_ok s" "\<not> isTerminalMissionState s"
  shows "mission_run s (completion_path (ms_status s) (ms_phase s)) (mstate MSucceeded PhVerify) \<and>
         resolveMissionTransition s CancelRequested = Inr (mstate MCancelled (ms_phase s))"
proof
  show "mission_run s (completion_path (ms_status s) (ms_phase s)) (mstate MSucceeded PhVerify)"
    using completion_path_resolves[of "ms_status s" "ms_phase s"] assms
    by (simp add: mission_run_iff_resolve_all mstate_collapse)
  show "resolveMissionTransition s CancelRequested = Inr (mstate MCancelled (ms_phase s))"
    using assms by (simp add: resolveMissionTransition_def)
qed

theorem live_missions_can_complete_witness:
  "mission_run (mstate MWaitingForUser PhReconcile)
     [ReconcileRetryAuthorized, ExecutionCommitted, EvidenceArrived, VerificationPassed]
     (mstate MSucceeded PhVerify) \<and>
   resolveMissionTransition (mstate MWaitingForUser PhReconcile) CancelRequested =
     Inr (mstate MCancelled PhReconcile)"
  using live_missions_can_complete[of "mstate MWaitingForUser PhReconcile"]
  by (simp add: mission_state_ok_def)

end
