(* ===== verification/Roles.thy ===== *)
theory Roles
  imports Identifiers
begin

text \<open>
  Roles, permissions and principals of \<open>core/src/roles.ts\<close>: the permission
  matrix, the additive grants of operators and the scoped permissions of
  delegated principals, and the permission and tenant assertions of
  \<open>core/src/policies.ts\<close>.
\<close>

section \<open>Data\<close>

datatype product_role = Owner | Operator | Viewer | Service | Delegated

datatype permission =
    PalaceRead | CrewRead | CapabilityRead | RoutineRead | RoutineDraft | RoutineValidate
  | RoutineSimulate | RoutineApprove | RoutineActivate | RecoveryPropose | OperationReconcile
  | VerificationRead | KnowledgeRead | MissionCancel

definition READ_PERMISSIONS :: "permission list" where
  "READ_PERMISSIONS = [PalaceRead, CrewRead, CapabilityRead, RoutineRead, VerificationRead, KnowledgeRead]"

fun ROLE_PERMISSION_MATRIX :: "product_role \<Rightarrow> permission list" where
  "ROLE_PERMISSION_MATRIX Owner = READ_PERMISSIONS @
     [RoutineDraft, RoutineValidate, RoutineSimulate, RoutineApprove, RoutineActivate,
      RecoveryPropose, OperationReconcile, MissionCancel]"
| "ROLE_PERMISSION_MATRIX Operator = READ_PERMISSIONS @ [RoutineDraft, RoutineValidate, RoutineSimulate]"
| "ROLE_PERMISSION_MATRIX Viewer = READ_PERMISSIONS"
| "ROLE_PERMISSION_MATRIX Service = READ_PERMISSIONS @
     [RoutineDraft, RoutineValidate, RoutineSimulate, RoutineActivate, RecoveryPropose, OperationReconcile]"
| "ROLE_PERMISSION_MATRIX Delegated = []"

record membership =
  mb_id :: string
  mb_organizationId :: string
  mb_userId :: string
  mb_role :: product_role
  mb_grants :: "permission list"
  mb_createdAt :: instant
  mb_revokedAt :: "instant option"

definition membership_ok :: "membership \<Rightarrow> bool" where
  "membership_ok m = (
     id_ok ''mem'' (mb_id m) \<and> id_ok ''org'' (mb_organizationId m) \<and> id_ok ''usr'' (mb_userId m) \<and>
     List.member [Owner, Operator, Viewer] (mb_role m) \<and>
     list_all (\<lambda>g. g = RoutineApprove) (mb_grants m) \<and>
     \<not> (mb_role m \<noteq> Operator \<and> mb_grants m \<noteq> []) \<and>
     unique (mb_grants m))"

record principal =
  pr_organizationId :: string
  pr_actorId :: string
  pr_role :: product_role
  pr_operatorGrants :: "permission list"
  pr_delegatedPermissions :: "permission list"

definition principal_ok :: "principal \<Rightarrow> bool" where
  "principal_ok p = (
     id_ok ''org'' (pr_organizationId p) \<and> id_ok ''usr'' (pr_actorId p) \<and>
     list_all (\<lambda>g. g = RoutineApprove) (pr_operatorGrants p) \<and>
     list_all (\<lambda>g. g \<noteq> RoutineApprove) (pr_delegatedPermissions p) \<and>
     \<not> (pr_role p \<noteq> Delegated \<and> pr_delegatedPermissions p \<noteq> []) \<and>
     \<not> (pr_role p \<noteq> Operator \<and> pr_operatorGrants p \<noteq> []))"

section \<open>Operations\<close>

text \<open>The set the code returns is represented by the list its members are taken from.\<close>

definition permissionsFor :: "product_role \<Rightarrow> permission list \<Rightarrow> permission list" where
  "permissionsFor role extra =
     (if role = Operator then
        ROLE_PERMISSION_MATRIX role @ filter (\<lambda>p. p = RoutineApprove) extra
      else if role = Delegated then
        ROLE_PERMISSION_MATRIX role @ filter (\<lambda>p. p \<noteq> RoutineApprove) extra
      else ROLE_PERMISSION_MATRIX role)"

definition principalHasPermission :: "principal \<Rightarrow> permission \<Rightarrow> bool" where
  "principalHasPermission p perm =
     (let scopes = (if pr_role p = Operator then pr_operatorGrants p else pr_delegatedPermissions p)
      in List.member (permissionsFor (pr_role p) scopes) perm)"

definition assertPermission :: "principal \<Rightarrow> permission \<Rightarrow> err + unit" where
  "assertPermission p perm =
     (if \<not> principalHasPermission p perm then Inl (PolicyViolationError ''Principal lacks permission'')
      else Inr ())"

definition assertSameTenant :: "string \<Rightarrow> string list \<Rightarrow> err + unit" where
  "assertSameTenant org recs =
     (if list_ex (\<lambda>r. r \<noteq> org) recs then Inl (PolicyViolationError ''Cross-tenant access is denied'')
      else Inr ())"

definition assertLabNegativeControlBoundary :: "bool \<Rightarrow> bool \<Rightarrow> bool \<Rightarrow> err + unit" where
  "assertLabNegativeControlBoundary labTenant productionSelectable mcpSelectable =
     (if \<not> labTenant \<or> productionSelectable \<or> mcpSelectable
      then Inl (PolicyViolationError ''Legacy activation is restricted'') else Inr ())"

section \<open>Lemmas\<close>

lemmas role_eval = permissionsFor_def principalHasPermission_def READ_PERMISSIONS_def

lemma assertPermission_iff [simp]: "assertPermission p perm = Inr u \<longleftrightarrow> principalHasPermission p perm"
  by (cases u) (simp add: assertPermission_def)

lemma assertSameTenant_iff [simp]: "assertSameTenant org recs = Inr u \<longleftrightarrow> (\<forall>r\<in>set recs. r = org)"
  by (cases u) (auto simp: assertSameTenant_def list_ex_iff)

text \<open>The permissions of a principal, as a set, from its role and its two grant lists.\<close>

lemma principal_permissions:
  "principalHasPermission p perm \<longleftrightarrow>
     perm \<in> set (ROLE_PERMISSION_MATRIX (pr_role p)) \<or>
     (pr_role p = Operator \<and> perm = RoutineApprove \<and> RoutineApprove \<in> set (pr_operatorGrants p)) \<or>
     (pr_role p = Delegated \<and> perm \<noteq> RoutineApprove \<and> perm \<in> set (pr_delegatedPermissions p))"
  by (cases "pr_role p") (auto simp: principalHasPermission_def permissionsFor_def)

section \<open>Properties\<close>

text \<open>Who may approve a routine: among all principals, exactly owners and the
  operators that carry the explicit grant hold \<open>routine:approve\<close>; no viewer, no
  service and no delegated principal ever does, whatever its scopes say.
\<close>

theorem only_owners_and_granted_operators_approve:
  "principalHasPermission p RoutineApprove \<longleftrightarrow>
     pr_role p = Owner \<or> (pr_role p = Operator \<and> RoutineApprove \<in> set (pr_operatorGrants p))"
  by (cases "pr_role p") (auto simp: principal_permissions READ_PERMISSIONS_def)

text \<open>Separation of duties in the matrix: only owners and services (and
  delegates scoped to it) may activate, only owners (and such delegates) may
  cancel a mission, every role but the delegated one can read, and no role
  outside owner holds both approval and activation.
\<close>

theorem duties_are_separated:
  "(principalHasPermission p RoutineActivate \<longleftrightarrow>
      pr_role p \<in> {Owner, Service} \<or> (pr_role p = Delegated \<and> RoutineActivate \<in> set (pr_delegatedPermissions p))) \<and>
   (principalHasPermission p MissionCancel \<longleftrightarrow>
      pr_role p = Owner \<or> (pr_role p = Delegated \<and> MissionCancel \<in> set (pr_delegatedPermissions p))) \<and>
   (principalHasPermission p RoutineActivate \<and> principalHasPermission p RoutineApprove \<longleftrightarrow> pr_role p = Owner)"
  by (cases "pr_role p") (simp_all add: principal_permissions READ_PERMISSIONS_def)

end
