(* ===== verification/Text_Patterns.thy ===== *)
theory Text_Patterns
  imports Identifiers
begin

text \<open>
  The part of JavaScript's regular expressions that the program's text filters use: character
  classes, sequence, alternation, counted repetition, word boundaries and the start of the
  text.  \<open>ends r s i\<close> lists the positions at which a match of \<open>r\<close> that starts at position
  \<open>i\<close> of \<open>s\<close> may end, and \<open>rx_test\<close> is \<open>RegExp.prototype.test\<close>, a search anywhere in the
  text.  \<open>rx_match\<close> is the meaning of a pattern, without bounds on its repetitions; the two
  agree because a match is a path through the text.
\<close>

section \<open>Patterns\<close>

datatype rx =
    RxSet "char \<Rightarrow> bool"
  | RxEmpty
  | RxSeq rx rx
  | RxAlt rx rx
  | RxRepeat nat "nat option" rx
  | RxBoundary
  | RxStart

definition is_upper_letter :: "char \<Rightarrow> bool" where
  "is_upper_letter c = List.member ''ABCDEFGHIJKLMNOPQRSTUVWXYZ'' c"

text \<open>\<open>\w\<close> and \<open>\s\<close>\<close>

definition is_word_char :: "char \<Rightarrow> bool" where
  "is_word_char c = (is_lower_alnum c \<or> is_upper_letter c \<or> c = CHR ''_'')"

definition is_space_char :: "char \<Rightarrow> bool" where
  "is_space_char c = List.member [CHR '' '', CHR 0x09, CHR 0x0A, CHR 0x0B, CHR 0x0C, CHR 0x0D, CHR 0xA0] c"

definition word_at :: "string \<Rightarrow> nat \<Rightarrow> bool" where
  "word_at s i = (i < length s \<and> is_word_char (s ! i))"

definition boundary_at :: "string \<Rightarrow> nat \<Rightarrow> bool" where
  "boundary_at s i = ((0 < i \<and> word_at s (i - 1)) \<noteq> word_at s i)"

primrec advance :: "(nat \<Rightarrow> nat list) \<Rightarrow> nat \<Rightarrow> nat list \<Rightarrow> nat list" where
  "advance f 0 xs = xs"
| "advance f (Suc n) xs = advance f n (remdups (concat (List.map f xs)))"

primrec spread :: "(nat \<Rightarrow> nat list) \<Rightarrow> nat \<Rightarrow> nat list \<Rightarrow> nat list" where
  "spread f 0 xs = xs"
| "spread f (Suc n) xs = spread f n (remdups (xs @ concat (List.map f xs)))"

fun ends :: "rx \<Rightarrow> string \<Rightarrow> nat \<Rightarrow> nat list" where
  "ends (RxSet p) s i = (if i < length s \<and> p (s ! i) then [Suc i] else [])"
| "ends RxEmpty s i = [i]"
| "ends (RxSeq a b) s i = concat (List.map (ends b s) (ends a s i))"
| "ends (RxAlt a b) s i = ends a s i @ ends b s i"
| "ends (RxRepeat m limit a) s i =
     spread (ends a s) (case limit of None \<Rightarrow> length s | Some k \<Rightarrow> k - m) (advance (ends a s) m [i])"
| "ends RxBoundary s i = (if boundary_at s i then [i] else [])"
| "ends RxStart s i = (if i = 0 then [i] else [])"

definition rx_test :: "rx \<Rightarrow> string \<Rightarrow> bool" where
  "rx_test r s = list_ex (\<lambda>i. ends r s i \<noteq> []) [0..<Suc (length s)]"

text \<open>Abbreviations for writing patterns; with the flag \<open>i\<close> a character matches in either case.\<close>

definition upper_of :: "char \<Rightarrow> char" where
  "upper_of c = (let n = (of_char c :: nat) in if 97 \<le> n \<and> n \<le> 122 then char_of (n - 32) else c)"

definition lower_of :: "char \<Rightarrow> char" where
  "lower_of c = (let n = (of_char c :: nat) in if 65 \<le> n \<and> n \<le> 90 then char_of (n + 32) else c)"

definition either_case :: "(char \<Rightarrow> bool) \<Rightarrow> char \<Rightarrow> bool" where
  "either_case p c = (p (lower_of c) \<or> p (upper_of c))"

fun rx_word :: "string \<Rightarrow> rx" where
  "rx_word [] = RxEmpty"
| "rx_word (c # cs) = RxSeq (RxSet (either_case (\<lambda>d. d = c))) (rx_word cs)"

fun rx_seq :: "rx list \<Rightarrow> rx" where
  "rx_seq [] = RxEmpty"
| "rx_seq (r # rs) = RxSeq r (rx_seq rs)"

fun rx_any :: "rx \<Rightarrow> rx list \<Rightarrow> rx" where
  "rx_any r [] = r"
| "rx_any r (q # qs) = RxAlt r (rx_any q qs)"

definition rx_opt :: "rx \<Rightarrow> rx" where
  "rx_opt r = RxRepeat 0 (Some 1) r"

definition rx_many :: "nat \<Rightarrow> (char \<Rightarrow> bool) \<Rightarrow> rx" where
  "rx_many m p = RxRepeat m None (RxSet p)"

section \<open>What a pattern means\<close>

fun rx_match :: "rx \<Rightarrow> string \<Rightarrow> nat \<Rightarrow> nat \<Rightarrow> bool" where
  "rx_match (RxSet p) s i j = (i < length s \<and> p (s ! i) \<and> j = Suc i)"
| "rx_match RxEmpty s i j = (i = j)"
| "rx_match (RxSeq a b) s i j = (\<exists>k. rx_match a s i k \<and> rx_match b s k j)"
| "rx_match (RxAlt a b) s i j = (rx_match a s i j \<or> rx_match b s i j)"
| "rx_match (RxRepeat m limit a) s i j = (\<exists>n. (i, j) \<in> {(x, y). rx_match a s x y} ^^ n \<and> m \<le> n \<and>
     (case limit of None \<Rightarrow> True | Some k \<Rightarrow> n \<le> max m k))"
| "rx_match RxBoundary s i j = (i = j \<and> boundary_at s i)"
| "rx_match RxStart s i j = (i = j \<and> i = 0)"

section \<open>Lemmas\<close>

lemma relpow_Image_Suc: "(R ^^ Suc n) `` X = (R ^^ n) `` (R `` X)"
  by (simp add: relcomp_Image flip: relpow_commute)

lemma UN_atMost_shift: "(\<Union>k\<le>n. F k) \<union> (\<Union>k\<le>n. F (Suc k)) = (\<Union>k\<le>Suc n. F k)" (is "?l = ?r")
proof
  show "?r \<subseteq> ?l"
  proof
    fix y assume "y \<in> ?r"
    then obtain k where "k \<le> Suc n" "y \<in> F k" by blast
    then show "y \<in> ?l" by (cases k) auto
  qed
  have "k \<le> n \<Longrightarrow> k \<le> Suc n" for k by simp
  then show "?l \<subseteq> ?r" by blast
qed

lemma set_concat_map: "set (concat (List.map f xs)) = {(x, y). y \<in> set (f x)} `` set xs"
  by auto

lemma set_advance: "set (advance f n xs) = ({(x, y). y \<in> set (f x)} ^^ n) `` set xs"
proof (induction n arbitrary: xs)
  case (Suc n)
  show ?case by (simp only: advance.simps Suc set_remdups set_concat_map relpow_Image_Suc)
qed simp

lemma set_spread: "set (spread f n xs) = (\<Union>k\<le>n. ({(x, y). y \<in> set (f x)} ^^ k) `` set xs)"
proof (induction n arbitrary: xs)
  case (Suc n)
  let ?R = "{(x, y). y \<in> set (f x)}"
  have "set (spread f (Suc n) xs) = (\<Union>k\<le>n. (?R ^^ k) `` (set xs \<union> ?R `` set xs))"
    by (simp only: spread.simps Suc set_remdups set_append set_concat_map)
  also have "\<dots> = (\<Union>k\<le>n. (?R ^^ k) `` set xs) \<union> (\<Union>k\<le>n. (?R ^^ Suc k) `` set xs)"
    by (simp only: Image_Un relpow_Image_Suc UN_Un_distrib)
  also have "\<dots> = (\<Union>k\<le>Suc n. (?R ^^ k) `` set xs)" by (rule UN_atMost_shift)
  finally show ?case .
qed simp

lemma short_path:
  assumes "(i, j) \<in> R ^^ n" "\<forall>(x, y)\<in>R. x \<le> (y :: nat)"
  shows "i \<le> j \<and> (\<exists>k\<le>j - i. (i, j) \<in> R ^^ k)"
  using assms(1)
proof (induction n arbitrary: i)
  case (Suc n)
  then obtain x where x: "(i, x) \<in> R" "(x, j) \<in> R ^^ n" by (meson relpow_Suc_D2)
  with assms(2) have "i \<le> x" by auto
  moreover from Suc.IH[OF x(2)] obtain k where k: "x \<le> j" "k \<le> j - x" "(x, j) \<in> R ^^ k" by blast
  moreover have "(i, j) \<in> R ^^ Suc k" using x(1) k(3) by (rule relpow_Suc_I2)
  ultimately show ?case by (cases "i = x") (auto intro: exI[of _ "Suc k"] simp del: relpow.simps)
qed auto

lemma rx_match_forward: "rx_match r s i j \<Longrightarrow> i \<le> j \<and> (i \<le> length s \<longrightarrow> j \<le> length s)"
proof (induction r arbitrary: i j)
  case (RxRepeat m limit a)
  let ?R = "{(x, y). rx_match a s x y}"
  from RxRepeat.prems obtain n where "(i, j) \<in> ?R ^^ n" by auto
  then show ?case
  proof (induction n arbitrary: i)
    case (Suc n)
    then obtain x where "rx_match a s i x" "(x, j) \<in> ?R ^^ n" by (metis (mono_tags) case_prodD mem_Collect_eq relpow_Suc_D2)
    with RxRepeat.IH[of i x] Suc.IH[of x] show ?case by auto
  qed auto
next
  case (RxSeq a b)
  then obtain k where "rx_match a s i k" "rx_match b s k j" by auto
  with RxSeq.IH(1)[of i k] RxSeq.IH(2)[of k j] show ?case by auto
qed auto

text \<open>The executable search finds exactly the matches.\<close>

lemma ends_exact: "i \<le> length s \<Longrightarrow> j \<in> set (ends r s i) \<longleftrightarrow> rx_match r s i j"
proof (induction r arbitrary: i j)
  case (RxSeq a b)
  have "rx_match a s i k \<Longrightarrow> k \<le> length s" for k using rx_match_forward RxSeq.prems by blast
  with RxSeq show ?case by auto
next
  case (RxRepeat m limit a)
  let ?N = "length s" and ?R = "{(x, y). rx_match a s x y}" and ?E = "{(x, y). y \<in> set (ends a s x)}"
  have fw: "\<forall>(x, y)\<in>?R. x \<le> y" using rx_match_forward by auto
  have stay: "(x, y) \<in> ?R ^^ n \<Longrightarrow> x \<le> ?N \<Longrightarrow> y \<le> ?N" for x y n
    by (induction n arbitrary: y) (auto dest: rx_match_forward)
  have same: "(x, y) \<in> ?E ^^ n \<longleftrightarrow> (x, y) \<in> ?R ^^ n" if "x \<le> ?N" for x y n
  proof (induction n arbitrary: y)
    case (Suc n)
    have "z \<in> set (ends a s u) \<longleftrightarrow> rx_match a s u z" if "(x, u) \<in> ?R ^^ n" for u z
      using RxRepeat.IH stay[OF that \<open>x \<le> ?N\<close>] by simp
    with Suc show ?case by (auto simp: relcomp_unfold)
  qed simp
  have after: "j \<in> set (spread (ends a s) b (advance (ends a s) m [i])) \<longleftrightarrow>
      (\<exists>k\<le>b. (i, j) \<in> ?R ^^ (m + k))" for b
  proof -
    have "j \<in> set (spread (ends a s) b (advance (ends a s) m [i])) \<longleftrightarrow>
        (\<exists>k\<le>b. \<exists>x. (i, x) \<in> ?E ^^ m \<and> (x, j) \<in> ?E ^^ k)"
      by (auto simp: set_spread set_advance)
    also have "\<dots> \<longleftrightarrow> (\<exists>k\<le>b. (i, j) \<in> ?E ^^ (m + k))" by (simp add: relpow_add relcomp_unfold)
    finally show ?thesis using same[OF RxRepeat.prems] by simp
  qed
  show ?case
  proof (cases limit)
    case (Some k)
    have "(\<exists>d\<le>k - m. (i, j) \<in> ?R ^^ (m + d)) \<longleftrightarrow> (\<exists>n. (i, j) \<in> ?R ^^ n \<and> m \<le> n \<and> n \<le> max m k)"
      (is "?l \<longleftrightarrow> ?r")
    proof
      assume ?r
      then obtain n where "(i, j) \<in> ?R ^^ n" "m \<le> n" "n \<le> max m k" by blast
      then show ?l by (intro exI[of _ "n - m"]) (auto simp: max_def split: if_splits)
    next
      assume ?l
      then obtain d where "d \<le> k - m" "(i, j) \<in> ?R ^^ (m + d)" by blast
      then show ?r by (intro exI[of _ "m + d"]) (auto simp: max_def)
    qed
    with Some after[of "k - m"] show ?thesis by simp
  next
    case None
    have "(\<exists>d\<le>?N. (i, j) \<in> ?R ^^ (m + d)) \<longleftrightarrow> (\<exists>n. (i, j) \<in> ?R ^^ n \<and> m \<le> n)" (is "?l \<longleftrightarrow> ?r")
    proof
      assume ?r
      then obtain n where n: "(i, j) \<in> ?R ^^ n" "m \<le> n" by blast
      then have "(i, j) \<in> ?R ^^ m O ?R ^^ (n - m)" by (simp flip: relpow_add)
      then obtain x where x: "(i, x) \<in> ?R ^^ m" "(x, j) \<in> ?R ^^ (n - m)" by auto
      from short_path[OF x(2) fw] obtain d where "d \<le> j - x" "(x, j) \<in> ?R ^^ d" by blast
      moreover have "j \<le> ?N" using stay[OF n(1) RxRepeat.prems] .
      ultimately show ?l using x(1) by (intro exI[of _ d]) (auto simp: relpow_add)
    next
      assume ?l then show ?r by (meson le_add1)
    qed
    with None after[of ?N] show ?thesis by simp
  qed
qed auto

lemma rx_test_exact: "rx_test r s \<longleftrightarrow> (\<exists>i j. i \<le> length s \<and> rx_match r s i j)"
proof -
  have "xs \<noteq> [] \<longleftrightarrow> (\<exists>j. j \<in> set xs)" for xs :: "nat list" by (cases xs) auto
  then have "rx_test r s \<longleftrightarrow> (\<exists>i\<le>length s. \<exists>j. j \<in> set (ends r s i))"
    by (simp only: rx_test_def list_ex_iff set_upt atLeast0LessThan less_Suc_eq_le lessThan_iff Bex_def)
  then show ?thesis using ends_exact by metis
qed

end
