(* ===== verification/Clarifications.thy ===== *)
theory Clarifications
  imports Text_Patterns Missions
begin

text \<open>
  Clarification requests and answers (\<open>core/src/clarifications.ts\<close>): the filters of text that
  is shown to people, the request and the answer with the hash each binds its payload by, and
  their schemas.  The digests are parameters.
\<close>

section \<open>Public text\<close>

definition not_in :: "string \<Rightarrow> char \<Rightarrow> bool" where
  "not_in cs c = (\<not> List.member cs c \<and> \<not> is_space_char c)"

text \<open>\<open>CREDENTIAL_VALUE\<close>\<close>

definition bearer_token :: rx where
  "bearer_token = rx_seq [RxBoundary, rx_word ''bearer'', rx_many 1 is_space_char,
     rx_many 8 (either_case (\<lambda>c. is_lower_alnum c \<or> List.member ''._~+/-'' c))]"

definition vendor_key :: rx where
  "vendor_key = rx_seq [RxBoundary, rx_any (rx_word ''phc'') [rx_word ''phx'', rx_word ''sk''], rx_word ''_'',
     rx_many 12 (either_case is_id_char)]"

definition private_key :: rx where
  "private_key = rx_seq [rx_word ''-----BEGIN '',
     rx_many 0 (either_case (\<lambda>c. is_upper_letter c \<or> c = CHR '' '')), rx_word ''PRIVATE KEY-----'']"

definition credential_pair :: rx where
  "credential_pair = rx_seq [RxBoundary,
     rx_any (rx_seq [rx_word ''api'', rx_opt (RxSet (List.member ''_-'')), rx_word ''key''])
       (List.map rx_word [''authorization'', ''cookie'', ''credential'', ''password'', ''secret'', ''token'']),
     rx_many 0 is_space_char, RxSet (List.member ''=:''), rx_many 0 is_space_char, rx_many 1 (\<lambda>c. \<not> is_space_char c)]"

definition CREDENTIAL_VALUE :: rx where
  "CREDENTIAL_VALUE = rx_any bearer_token [vendor_key, private_key, credential_pair]"

text \<open>\<open>HOME_PATH\<close>\<close>

definition users_or_home :: rx where
  "users_or_home = rx_any (rx_word ''Users'') [rx_word ''home'']"

definition backslash :: rx where
  "backslash = RxSet (\<lambda>c. c = CHR 0x5C)"

definition HOME_PATH :: rx where
  "HOME_PATH = rx_seq [RxAlt RxStart (RxSet (\<lambda>c. is_space_char c \<or> List.member [CHR 0x22, CHR 0x27, CHR ''(''] c)),
     rx_any (rx_seq [rx_word ''/'', users_or_home, rx_word ''/'', rx_many 1 (not_in ''/'')])
       [rx_seq [RxSet (either_case (\<lambda>c. is_lower_alnum c \<and> \<not> is_digit_char c)), rx_word '':'', backslash,
          rx_word ''Users'', backslash, rx_many 1 (not_in [CHR 0x5C])],
        rx_seq [backslash, backslash, rx_many 1 (not_in [CHR 0x5C]), backslash, users_or_home, backslash,
          rx_many 1 (not_in [CHR 0x5C])]]]"

text \<open>\<open>PRIVATE_URL\<close>\<close>

definition rx_number :: rx where
  "rx_number = rx_many 1 is_digit_char"

definition rx_dotted :: "rx list \<Rightarrow> rx" where
  "rx_dotted rs = rx_seq (List.map (\<lambda>r. RxSeq (rx_word ''.'') r) rs)"

definition private_host :: rx where
  "private_host = rx_any (rx_word ''localhost'')
     [rx_word ''0.0.0.0'', rx_word ''127.0.0.1'',
      rx_seq [rx_opt (rx_word ''[''), rx_word ''::1'', rx_opt (rx_word '']'')],
      RxSeq (rx_word ''10'') (rx_dotted [rx_number, rx_number, rx_number]),
      RxSeq (rx_word ''192.168'') (rx_dotted [rx_number, rx_number]),
      rx_seq [rx_word ''172.'', rx_any (RxSeq (rx_word ''1'') (RxSet (List.member ''6789'')))
          [RxSeq (rx_word ''2'') (RxSet is_digit_char), RxSeq (rx_word ''3'') (RxSet (List.member ''01''))],
        rx_dotted [rx_number, rx_number]]]"

definition PRIVATE_URL :: rx where
  "PRIVATE_URL = rx_seq [rx_word ''http'', rx_opt (rx_word ''s''), rx_word ''://'', private_host,
     rx_opt (RxSeq (rx_word '':'') rx_number), RxAlt (rx_word ''/'') RxBoundary]"

definition unsafe_text :: "string \<Rightarrow> bool" where
  "unsafe_text s = (rx_test CREDENTIAL_VALUE s \<or> rx_test HOME_PATH s \<or> rx_test PRIVATE_URL s)"

definition trim :: "string \<Rightarrow> string" where
  "trim s = rev (dropWhile is_space_char (rev (dropWhile is_space_char s)))"

text \<open>\<open>boundedPublicText\<close>: the schema trims, then bounds the length and filters.\<close>

definition boundedPublicText :: "nat \<Rightarrow> nat \<Rightarrow> string \<Rightarrow> err + string" where
  "boundedPublicText minimum maximum s = (let t = trim s in
     if length t < minimum \<or> maximum < length t \<or> unsafe_text t then Inl (ZodError ''text'') else Inr t)"

section \<open>Requests\<close>

text \<open>\<open>[a-z][a-z0-9_-]{2,39}\<close>\<close>

definition choice_id_ok :: "string \<Rightarrow> bool" where
  "choice_id_ok s = (case s of [] \<Rightarrow> False
     | c # cs \<Rightarrow> is_lower_alnum c \<and> \<not> is_digit_char c \<and> 2 \<le> length cs \<and> length cs \<le> 39 \<and> list_all is_id_char cs)"

record clarification_choice =
  cc_id :: string
  cc_label :: string
  cc_description :: string

definition parse_choice :: "clarification_choice \<Rightarrow> err + clarification_choice" where
  "parse_choice c = (if \<not> choice_id_ok (cc_id c) then Inl (ZodError ''ClarificationChoice'')
     else sbind (boundedPublicText 1 80 (cc_label c)) (\<lambda>l.
     sbind (boundedPublicText 1 240 (cc_description c)) (\<lambda>d.
     Inr \<lparr> cc_id = cc_id c, cc_label = l, cc_description = d \<rparr>)))"

definition evidence_refs_ok :: "string list \<Rightarrow> bool" where
  "evidence_refs_ok es = (list_all (id_ok ''evd'') es \<and> length es \<le> 16 \<and> unique es)"

record request_payload =
  qp_organizationId :: string
  qp_missionId :: string
  qp_requestedBy :: string
  qp_question :: string
  qp_choices :: "clarification_choice list"
  qp_evidenceRefs :: "string list"

definition parse_request_payload :: "request_payload \<Rightarrow> err + request_payload" where
  "parse_request_payload p =
     (if \<not> (id_ok ''org'' (qp_organizationId p) \<and> id_ok ''mis'' (qp_missionId p) \<and> id_ok ''usr'' (qp_requestedBy p) \<and>
         2 \<le> length (qp_choices p) \<and> length (qp_choices p) \<le> 6 \<and> evidence_refs_ok (qp_evidenceRefs p))
      then Inl (ZodError ''ClarificationRequestPayload'')
      else sbind (boundedPublicText 12 280 (qp_question p)) (\<lambda>q.
      sbind (map_res parse_choice (qp_choices p)) (\<lambda>cs.
      if \<not> unique (List.map cc_id cs) then Inl (ZodError ''ClarificationRequestPayload'')
      else Inr (p\<lparr> qp_question := q, qp_choices := cs \<rparr>))))"

definition computeClarificationRequestPayloadHash ::
  "(request_payload \<Rightarrow> string) \<Rightarrow> request_payload \<Rightarrow> err + string" where
  "computeClarificationRequestPayloadHash requestHash p = sbind (parse_request_payload p) (\<lambda>q.
     if \<not> sha256_ok (requestHash q) then Inl (ZodError ''Sha256'') else Inr (requestHash q))"

datatype clarification_status = ClarificationPending | ClarificationResolved

record clarification_request =
  cq_id :: string
  cq_payload :: request_payload
  cq_idempotencyKey :: string
  cq_payloadHash :: string
  cq_status :: clarification_status
  cq_requestedAt :: instant
  cq_resolvedAt :: "instant option"

definition parse_request :: "(request_payload \<Rightarrow> string) \<Rightarrow> clarification_request \<Rightarrow> err + clarification_request" where
  "parse_request requestHash r =
     (if \<not> (id_ok ''clr'' (cq_id r) \<and> sha256_ok (cq_idempotencyKey r) \<and> sha256_ok (cq_payloadHash r) \<and>
         (cq_status r = ClarificationResolved) = (\<not> is_none (cq_resolvedAt r)) \<and>
         (case cq_resolvedAt r of None \<Rightarrow> True | Some t \<Rightarrow> cq_requestedAt r \<le> t))
      then Inl (ZodError ''ClarificationRequest'')
      else sbind (parse_request_payload (cq_payload r)) (\<lambda>p.
      sbind (computeClarificationRequestPayloadHash requestHash p) (\<lambda>h.
      if cq_payloadHash r \<noteq> h then Inl (ZodError ''ClarificationRequest'')
      else Inr (r\<lparr> cq_payload := p \<rparr>))))"

section \<open>Answers\<close>

record answer_payload =
  wp_organizationId :: string
  wp_missionId :: string
  wp_requestId :: string
  wp_choiceId :: string
  wp_answeredBy :: string
  wp_evidenceRefs :: "string list"

definition answer_payload_ok :: "answer_payload \<Rightarrow> bool" where
  "answer_payload_ok p = (id_ok ''org'' (wp_organizationId p) \<and> id_ok ''mis'' (wp_missionId p) \<and>
     id_ok ''clr'' (wp_requestId p) \<and> choice_id_ok (wp_choiceId p) \<and> id_ok ''usr'' (wp_answeredBy p) \<and>
     evidence_refs_ok (wp_evidenceRefs p))"

definition computeClarificationAnswerPayloadHash ::
  "(answer_payload \<Rightarrow> string) \<Rightarrow> answer_payload \<Rightarrow> err + string" where
  "computeClarificationAnswerPayloadHash answerHash p =
     (if \<not> answer_payload_ok p then Inl (ZodError ''ClarificationAnswerPayload'')
      else if \<not> sha256_ok (answerHash p) then Inl (ZodError ''Sha256'') else Inr (answerHash p))"

record clarification_answer =
  cw_id :: string
  cw_payload :: answer_payload
  cw_idempotencyKey :: string
  cw_payloadHash :: string
  cw_answeredAt :: instant

definition clarification_answer_ok :: "(answer_payload \<Rightarrow> string) \<Rightarrow> clarification_answer \<Rightarrow> bool" where
  "clarification_answer_ok answerHash a = (id_ok ''cla'' (cw_id a) \<and> answer_payload_ok (cw_payload a) \<and>
     sha256_ok (cw_idempotencyKey a) \<and> sha256_ok (cw_payloadHash a) \<and>
     computeClarificationAnswerPayloadHash answerHash (cw_payload a) = Inr (cw_payloadHash a))"

section \<open>Lemmas\<close>

text \<open>Trimming trims once, so parsing what has been parsed changes nothing.\<close>

lemma dropWhile_last_kept:
  assumes "\<not> P (last xs)" "xs \<noteq> []" shows "dropWhile P (rev xs) = rev xs"
  using assms by (metis dropWhile_eq_self_iff hd_rev)

lemma trim_idem [simp]: "trim (trim s) = trim s"
proof (cases "trim s = []")
  case False
  let ?P = is_space_char
  let ?l = "dropWhile ?P s" and ?t = "dropWhile ?P (rev (dropWhile ?P s))"
  from False have t: "?t \<noteq> []" by (simp add: trim_def)
  then have l: "?l \<noteq> []" by (cases ?l) simp_all
  have "last ?t = hd ?l" using t l by (metis dropWhile_eq_Nil_conv last_rev rev_rev_ident last_appendR takeWhile_dropWhile_id)
  moreover have "\<not> ?P (hd ?l)" using l by (rule hd_dropWhile)
  ultimately have "dropWhile ?P (rev ?t) = rev ?t" using t by (intro dropWhile_last_kept) simp_all
  moreover have "dropWhile ?P ?t = ?t" using t hd_dropWhile by (metis dropWhile_eq_self_iff)
  ultimately show ?thesis by (simp add: trim_def)
next
  case True
  show ?thesis unfolding True by (simp add: trim_def)
qed

lemma boundedPublicText_idem:
  "boundedPublicText a b s = Inr t \<Longrightarrow> boundedPublicText a b t = Inr t"
  by (auto simp: boundedPublicText_def Let_def)

lemma parse_choice_idem: "parse_choice c = Inr d \<Longrightarrow> parse_choice d = Inr d \<and> cc_id d = cc_id c"
  by (auto simp: parse_choice_def result_simps dest: boundedPublicText_idem)

lemma parse_request_payload_idem:
  assumes "parse_request_payload p = Inr q" shows "parse_request_payload q = Inr q"
proof -
  from assms obtain t cs where t: "boundedPublicText 12 280 (qp_question p) = Inr t"
    and cs: "list_all2 (\<lambda>x y. parse_choice x = Inr y) (qp_choices p) cs"
    and q: "q = p\<lparr> qp_question := t, qp_choices := cs \<rparr>"
    and ok: "id_ok ''org'' (qp_organizationId p)" "id_ok ''mis'' (qp_missionId p)" "id_ok ''usr'' (qp_requestedBy p)"
      "2 \<le> length (qp_choices p)" "length (qp_choices p) \<le> 6" "evidence_refs_ok (qp_evidenceRefs p)"
      "unique (List.map cc_id cs)"
    by (auto simp: parse_request_payload_def result_simps map_res_Inr)
  from cs have "list_all2 (\<lambda>x y. parse_choice x = Inr y) cs cs"
    by (induction rule: list_all2_induct) (auto dest: parse_choice_idem)
  then show ?thesis using t ok list_all2_lengthD[OF cs]
    by (simp add: parse_request_payload_def q map_res_Inr[THEN iffD2] boundedPublicText_idem)
qed

end
