(* ===== verification/Context_Receipts.thy ===== *)
theory Context_Receipts
  imports Identifiers
begin

text \<open>
  Context receipts (\<open>core/src/context.ts\<close>): which sources an agent run was shown, pinned
  by their digests.
\<close>

datatype context_authority = HostPolicy | ToolContract | SkillSource | ReferenceSource | EvidenceSource

record context_source =
  cs_sourceId :: string
  cs_version :: string
  cs_contentHash :: string
  cs_authority :: context_authority

record context_receipt =
  cr_id :: string
  cr_organizationId :: string
  cr_missionId :: string
  cr_runId :: string
  cr_policyHash :: string
  cr_toolRegistryHash :: string
  cr_sources :: "context_source list"
  cr_createdAt :: instant

text \<open>\<open>[a-z][a-z0-9_.:/-]{2,199}\<close>\<close>

definition context_source_id_ok :: "string \<Rightarrow> bool" where
  "context_source_id_ok s = (case s of [] \<Rightarrow> False
     | c # cs \<Rightarrow> is_lower_alnum c \<and> \<not> is_digit_char c \<and> 2 \<le> length cs \<and> length cs \<le> 199 \<and>
         list_all (\<lambda>d. is_id_char d \<or> List.member ''.:/'' d) cs)"

definition context_source_ok :: "context_source \<Rightarrow> bool" where
  "context_source_ok s = (context_source_id_ok (cs_sourceId s) \<and>
     1 \<le> length (cs_version s) \<and> length (cs_version s) \<le> 120 \<and> sha256_ok (cs_contentHash s))"

definition context_receipt_ok :: "context_receipt \<Rightarrow> bool" where
  "context_receipt_ok r = (id_ok ''ctx'' (cr_id r) \<and> id_ok ''org'' (cr_organizationId r) \<and>
     id_ok ''mis'' (cr_missionId r) \<and> id_ok ''run'' (cr_runId r) \<and> sha256_ok (cr_policyHash r) \<and>
     sha256_ok (cr_toolRegistryHash r) \<and> cr_sources r \<noteq> [] \<and> list_all context_source_ok (cr_sources r) \<and>
     unique (List.map (\<lambda>s. cs_sourceId s @ ''@'' @ cs_version s) (cr_sources r)))"

end
