(* ===== verification/Plans.thy ===== *)
theory Plans
  imports Missions Roles "HOL-Library.List_Lexorder" "HOL-Library.Char_ord" "HOL-Library.Multiset"
begin

text \<open>
  Routines, plans, approvals and the authorization policy:
  \<open>core/src/routines.ts\<close>, \<open>core/src/plans.ts\<close> and
  \<open>assertApprovalAuthorizesPlan\<close> of \<open>core/src/policies.ts\<close>.  The plan hash is
  SHA-256 over the canonical JSON of the hash payload; the digest function is a
  parameter \<open>planHash\<close> of the definitions that use it.
\<close>

section \<open>Routines\<close>

datatype routine_status = RoutineDrafted | RoutineActive | RoutineInactive | RoutineArchived

datatype hard_invariant =
    TenantContextHostDerived | VerifiedIdentityRequiredForUnlock | RoutineActivationValidated
  | ExactPlanApprovalRequired | RetryPreservesLogicalOperation | VerifierOwnsMissionSuccess
  | SecretsExcludedFromModelContext

text \<open>
  Durations and percentages that the schema restricts to integers are \<open>int\<close>;
  the other JavaScript numbers are rationals.  The literal-valued fields of the
  schema (\<open>beginsAfter\<close>, \<open>requireVerifiedIdentity\<close>) are kept as fields.
\<close>

datatype routine_action =
    Preheat (ra_targetCelsius: rat) (ra_completeBy: string)
  | PathwayLighting (ra_intensityPercent: int) (ra_lightSeconds: int) (ra_beginsAfter: string)
  | Unlock (ra_unlockSeconds: int) (ra_requireVerifiedIdentity: bool)
  | LockDesiredState (ra_afterUnlockSeconds: int)

datatype routine_action_type = ATPreheat | ATPathwayLighting | ATUnlock | ATLockDesiredState

fun action_type :: "routine_action \<Rightarrow> routine_action_type" where
  "action_type (Preheat _ _) = ATPreheat"
| "action_type (PathwayLighting _ _ _) = ATPathwayLighting"
| "action_type (Unlock _ _) = ATUnlock"
| "action_type (LockDesiredState _) = ATLockDesiredState"

fun routine_action_ok :: "routine_action \<Rightarrow> bool" where
  "routine_action_ok (Preheat t c) = (5 \<le> t \<and> t \<le> 35 \<and> time_of_day_ok c)"
| "routine_action_ok (PathwayLighting i d b) =
     (1 \<le> i \<and> i \<le> 100 \<and> 1 \<le> d \<and> d \<le> 86400 \<and> b = ''verified_arrival'')"
| "routine_action_ok (Unlock d v) = (1 \<le> d \<and> d \<le> 300 \<and> v)"
| "routine_action_ok (LockDesiredState a) = (1 \<le> a \<and> a \<le> 300)"

record homecoming_definition =
  hd_name :: string
  hd_windowStart :: string
  hd_windowEnd :: string
  hd_timezone :: string
  hd_actions :: "routine_action list"
  hd_batteryUseMax :: rat
  hd_hardInvariantIds :: "hard_invariant list"
  hd_projectedBatteryUse :: rat

definition homecoming_definition_ok :: "homecoming_definition \<Rightarrow> bool" where
  "homecoming_definition_ok d = (
     1 \<le> length (hd_name d) \<and> length (hd_name d) \<le> 120 \<and>
     time_of_day_ok (hd_windowStart d) \<and> time_of_day_ok (hd_windowEnd d) \<and>
     1 \<le> length (hd_timezone d) \<and> length (hd_timezone d) \<le> 64 \<and>
     1 \<le> length (hd_actions d) \<and> length (hd_actions d) \<le> 16 \<and>
     list_all routine_action_ok (hd_actions d) \<and>
     0 \<le> hd_batteryUseMax d \<and> hd_batteryUseMax d \<le> 100 \<and>
     hd_hardInvariantIds d \<noteq> [] \<and> unique (hd_hardInvariantIds d) \<and>
     0 \<le> hd_projectedBatteryUse d \<and> hd_projectedBatteryUse d \<le> 100 \<and>
     hd_projectedBatteryUse d \<le> hd_batteryUseMax d \<and>
     list_all (\<lambda>t. List.member (List.map action_type (hd_actions d)) t)
       [ATPreheat, ATPathwayLighting, ATUnlock, ATLockDesiredState] \<and>
     unique (List.map action_type (hd_actions d)))"

record hauler_definition =
  hl_name :: string
  hl_windowStart :: string
  hl_windowEnd :: string
  hl_timezone :: string
  hl_authorizedIdentityTagId :: string
  hl_grantSeconds :: int
  hl_requireVerifiedIdentity :: bool
  hl_compartment :: string
  hl_lockAtWindowEnd :: bool
  hl_serviceHatchOnly :: bool
  hl_residentialHatchMustRemainLocked :: bool
  hl_finalServiceHatchState :: string
  hl_hardInvariantIds :: "hard_invariant list"
  hl_projectedBatteryUse :: rat

definition hauler_definition_ok :: "hauler_definition \<Rightarrow> bool" where
  "hauler_definition_ok d = (
     1 \<le> length (hl_name d) \<and> length (hl_name d) \<le> 120 \<and>
     time_of_day_ok (hl_windowStart d) \<and> time_of_day_ok (hl_windowEnd d) \<and>
     1 \<le> length (hl_timezone d) \<and> length (hl_timezone d) \<le> 64 \<and>
     id_ok ''tag'' (hl_authorizedIdentityTagId d) \<and>
     hl_windowStart d \<noteq> hl_windowEnd d \<and>
     1 \<le> hl_grantSeconds d \<and> hl_grantSeconds d \<le> 900 \<and>
     hl_requireVerifiedIdentity d \<and> hl_compartment d = ''service_hatch'' \<and>
     hl_lockAtWindowEnd d \<and> hl_serviceHatchOnly d \<and>
     hl_residentialHatchMustRemainLocked d \<and> hl_finalServiceHatchState d = ''locked'' \<and>
     hl_hardInvariantIds d \<noteq> [] \<and>
     0 \<le> hl_projectedBatteryUse d \<and> hl_projectedBatteryUse d \<le> 100)"

datatype routine_definition =
    HomecomingRoutine homecoming_definition
  | HaulerRoutine hauler_definition

fun routine_definition_ok :: "routine_definition \<Rightarrow> bool" where
  "routine_definition_ok (HomecomingRoutine d) = homecoming_definition_ok d"
| "routine_definition_ok (HaulerRoutine d) = hauler_definition_ok d"

fun definition_name :: "routine_definition \<Rightarrow> string" where
  "definition_name (HomecomingRoutine d) = hd_name d"
| "definition_name (HaulerRoutine d) = hl_name d"

record routine =
  ro_id :: string
  ro_organizationId :: string
  ro_palaceId :: string
  ro_name :: string
  ro_activeVersionId :: "string option"
  ro_createdAt :: instant

definition routine_ok :: "routine \<Rightarrow> bool" where
  "routine_ok r = (id_ok ''rtn'' (ro_id r) \<and> id_ok ''org'' (ro_organizationId r) \<and>
     id_ok ''pal'' (ro_palaceId r) \<and> 1 \<le> length (ro_name r) \<and> length (ro_name r) \<le> 120 \<and>
     opt_id_ok ''rtv'' (ro_activeVersionId r))"

record routine_version =
  rv_id :: string
  rv_routineId :: string
  rv_organizationId :: string
  rv_version :: nat
  rv_status :: routine_status
  rv_definition :: routine_definition
  rv_sourcePlanId :: "string option"
  rv_sourcePlanHash :: "string option"
  rv_createdAt :: instant

definition opt_sha_ok :: "string option \<Rightarrow> bool" where
  "opt_sha_ok x = (case x of None \<Rightarrow> True | Some s \<Rightarrow> sha256_ok s)"

definition routine_version_ok :: "routine_version \<Rightarrow> bool" where
  "routine_version_ok v = (id_ok ''rtv'' (rv_id v) \<and> id_ok ''rtn'' (rv_routineId v) \<and>
     id_ok ''org'' (rv_organizationId v) \<and> 0 < rv_version v \<and>
     routine_definition_ok (rv_definition v) \<and> opt_id_ok ''pln'' (rv_sourcePlanId v) \<and>
     opt_sha_ok (rv_sourcePlanHash v) \<and>
     is_none (rv_sourcePlanId v) = is_none (rv_sourcePlanHash v))"

section \<open>Plans\<close>

record replace_action =
  rp_id :: string
  rp_palaceId :: string
  rp_protectedRoutineId :: string
  rp_protectedRoutineVersionId :: string
  rp_expectedProtectedVersion :: nat
  rp_replacementRoutineId :: string
  rp_replacementRoutineVersionId :: string

record restore_action =
  rs_id :: string
  rs_palaceId :: string
  rs_routineId :: string
  rs_restoreVersionId :: string
  rs_expectedCurrentVersion :: nat

datatype plan_action =
    ReplaceHomecomingRoutine replace_action homecoming_definition
  | ReplaceScheduledHaulerAccessRoutine replace_action hauler_definition
  | RestoreRoutineVersion restore_action

fun pa_id :: "plan_action \<Rightarrow> string" where
  "pa_id (ReplaceHomecomingRoutine r _) = rp_id r"
| "pa_id (ReplaceScheduledHaulerAccessRoutine r _) = rp_id r"
| "pa_id (RestoreRoutineVersion r) = rs_id r"

fun pa_palaceId :: "plan_action \<Rightarrow> string" where
  "pa_palaceId (ReplaceHomecomingRoutine r _) = rp_palaceId r"
| "pa_palaceId (ReplaceScheduledHaulerAccessRoutine r _) = rp_palaceId r"
| "pa_palaceId (RestoreRoutineVersion r) = rs_palaceId r"

definition replace_action_ok :: "replace_action \<Rightarrow> bool" where
  "replace_action_ok r = (id_ok ''act'' (rp_id r) \<and> id_ok ''pal'' (rp_palaceId r) \<and>
     id_ok ''rtn'' (rp_protectedRoutineId r) \<and> id_ok ''rtv'' (rp_protectedRoutineVersionId r) \<and>
     0 < rp_expectedProtectedVersion r \<and> id_ok ''rtn'' (rp_replacementRoutineId r) \<and>
     id_ok ''rtv'' (rp_replacementRoutineVersionId r) \<and>
     rp_protectedRoutineId r \<noteq> rp_replacementRoutineId r)"

definition restore_action_ok :: "restore_action \<Rightarrow> bool" where
  "restore_action_ok r = (id_ok ''act'' (rs_id r) \<and> id_ok ''pal'' (rs_palaceId r) \<and>
     id_ok ''rtn'' (rs_routineId r) \<and> id_ok ''rtv'' (rs_restoreVersionId r) \<and>
     0 < rs_expectedCurrentVersion r)"

fun plan_action_ok :: "plan_action \<Rightarrow> bool" where
  "plan_action_ok (ReplaceHomecomingRoutine r d) = (replace_action_ok r \<and> homecoming_definition_ok d)"
| "plan_action_ok (ReplaceScheduledHaulerAccessRoutine r d) = (replace_action_ok r \<and> hauler_definition_ok d)"
| "plan_action_ok (RestoreRoutineVersion r) = restore_action_ok r"

text \<open>\<open>isRoutineReplacementAction\<close>, with the fields a replacement action has.\<close>

fun replacement_of :: "plan_action \<Rightarrow> replace_action option" where
  "replacement_of (ReplaceHomecomingRoutine r _) = Some r"
| "replacement_of (ReplaceScheduledHaulerAccessRoutine r _) = Some r"
| "replacement_of (RestoreRoutineVersion _) = None"

definition isRoutineReplacementAction :: "plan_action \<Rightarrow> bool" where
  "isRoutineReplacementAction a = (\<not> is_none (replacement_of a))"

datatype plan_status =
    PlanCandidate | PlanValidated | PlanAwaitingApproval | PlanApproved | PlanSuperseded | PlanRejected

record plan_hash_payload =
  ph_id :: string
  ph_organizationId :: string
  ph_missionId :: string
  ph_palaceId :: string
  ph_revision :: nat
  ph_objective :: string
  ph_constraints :: mission_constraint
  ph_actions :: "plan_action list"
  ph_successCriteriaIds :: "string list"

record plan =
  pl_id :: string
  pl_organizationId :: string
  pl_missionId :: string
  pl_palaceId :: string
  pl_revision :: nat
  pl_hash :: string
  pl_status :: plan_status
  pl_objective :: string
  pl_constraints :: mission_constraint
  pl_actions :: "plan_action list"
  pl_successCriteriaIds :: "string list"
  pl_createdAt :: instant

definition plan_payload :: "plan \<Rightarrow> plan_hash_payload" where
  "plan_payload p = \<lparr> ph_id = pl_id p, ph_organizationId = pl_organizationId p,
     ph_missionId = pl_missionId p, ph_palaceId = pl_palaceId p, ph_revision = pl_revision p,
     ph_objective = pl_objective p, ph_constraints = pl_constraints p, ph_actions = pl_actions p,
     ph_successCriteriaIds = pl_successCriteriaIds p \<rparr>"

definition criterion_ok :: "string \<Rightarrow> bool" where
  "criterion_ok s = (1 \<le> length s \<and> length s \<le> 120)"

definition plan_hash_payload_ok :: "plan_hash_payload \<Rightarrow> bool" where
  "plan_hash_payload_ok p = (id_ok ''pln'' (ph_id p) \<and> id_ok ''org'' (ph_organizationId p) \<and>
     id_ok ''mis'' (ph_missionId p) \<and> id_ok ''pal'' (ph_palaceId p) \<and> 0 < ph_revision p \<and>
     1 \<le> length (ph_objective p) \<and> length (ph_objective p) \<le> 2000 \<and>
     mission_constraint_ok (ph_constraints p) \<and>
     1 \<le> length (ph_actions p) \<and> length (ph_actions p) \<le> 16 \<and> list_all plan_action_ok (ph_actions p) \<and>
     ph_successCriteriaIds p \<noteq> [] \<and> list_all criterion_ok (ph_successCriteriaIds p))"

text \<open>
  \<open>computePlanHash\<close>: the payload is parsed and its canonical JSON digested by
  the parameter \<open>planHash\<close>.
\<close>

definition computePlanHash :: "(plan_hash_payload \<Rightarrow> string) \<Rightarrow> plan_hash_payload \<Rightarrow> err + string" where
  "computePlanHash planHash p =
     (if \<not> plan_hash_payload_ok p then Inl (ZodError ''PlanHashPayload'')
      else if \<not> sha256_ok (planHash p) then Inl (ZodError ''Sha256'')
      else Inr (planHash p))"

definition plan_ok :: "(plan_hash_payload \<Rightarrow> string) \<Rightarrow> plan \<Rightarrow> bool" where
  "plan_ok planHash p = (
     id_ok ''pln'' (pl_id p) \<and> id_ok ''org'' (pl_organizationId p) \<and>
     id_ok ''mis'' (pl_missionId p) \<and> id_ok ''pal'' (pl_palaceId p) \<and> 0 < pl_revision p \<and>
     sha256_ok (pl_hash p) \<and>
     1 \<le> length (pl_objective p) \<and> length (pl_objective p) \<le> 2000 \<and>
     mission_constraint_ok (pl_constraints p) \<and>
     1 \<le> length (pl_actions p) \<and> length (pl_actions p) \<le> 16 \<and> list_all plan_action_ok (pl_actions p) \<and>
     pl_successCriteriaIds p \<noteq> [] \<and> list_all criterion_ok (pl_successCriteriaIds p) \<and>
     unique (List.map pa_id (pl_actions p)) \<and> unique (pl_successCriteriaIds p) \<and>
     list_all (\<lambda>a. pa_palaceId a = pl_palaceId p) (pl_actions p) \<and>
     computePlanHash planHash (plan_payload p) = Inr (pl_hash p))"

section \<open>Approvals\<close>

datatype approval_status =
    ApprovalPending | ApprovalApproved | ApprovalWasRejected | ApprovalExpired | ApprovalInvalidated

record protected_version =
  pv_routineId :: string
  pv_routineVersionId :: string
  pv_version :: nat

definition protected_version_ok :: "protected_version \<Rightarrow> bool" where
  "protected_version_ok p = (id_ok ''rtn'' (pv_routineId p) \<and> id_ok ''rtv'' (pv_routineVersionId p) \<and>
     0 < pv_version p)"

record approval =
  ap_id :: string
  ap_organizationId :: string
  ap_missionId :: string
  ap_planId :: string
  ap_planHash :: string
  ap_status :: approval_status
  ap_actionIds :: "string list"
  ap_protectedResources :: "protected_version list"
  ap_requestedBy :: string
  ap_approvedBy :: "string option"
  ap_approverRole :: "product_role option"
  ap_nonce :: string
  ap_createdAt :: instant
  ap_approvedAt :: "instant option"
  ap_expiresAt :: instant

definition is_nonce_char :: "char \<Rightarrow> bool" where
  "is_nonce_char c = (is_id_char c \<or> List.member ''ABCDEFGHIJKLMNOPQRSTUVWXYZ'' c)"

definition approval_nonce_ok :: "string \<Rightarrow> bool" where
  "approval_nonce_ok s = (24 \<le> length s \<and> length s \<le> 128 \<and> list_all is_nonce_char s)"

definition approval_ok :: "approval \<Rightarrow> bool" where
  "approval_ok a = (
     id_ok ''apr'' (ap_id a) \<and> id_ok ''org'' (ap_organizationId a) \<and> id_ok ''mis'' (ap_missionId a) \<and>
     id_ok ''pln'' (ap_planId a) \<and> sha256_ok (ap_planHash a) \<and>
     ap_actionIds a \<noteq> [] \<and> list_all (id_ok ''act'') (ap_actionIds a) \<and>
     ap_protectedResources a \<noteq> [] \<and> list_all protected_version_ok (ap_protectedResources a) \<and>
     id_ok ''usr'' (ap_requestedBy a) \<and> opt_id_ok ''usr'' (ap_approvedBy a) \<and>
     List.member [None, Some Owner, Some Operator] (ap_approverRole a) \<and>
     approval_nonce_ok (ap_nonce a) \<and>
     ap_createdAt a < ap_expiresAt a \<and> ap_expiresAt a - ap_createdAt a \<le> 15 * 60 * 1000 \<and>
     unique (ap_actionIds a) \<and> unique (List.map pv_routineId (ap_protectedResources a)) \<and>
     (if ap_status a = ApprovalApproved
      then \<not> is_none (ap_approvedBy a) \<and> \<not> is_none (ap_approverRole a) \<and> \<not> is_none (ap_approvedAt a)
      else is_none (ap_approvedBy a) \<and> is_none (ap_approverRole a) \<and> is_none (ap_approvedAt a)) \<and>
     (case ap_approvedAt a of None \<Rightarrow> True
      | Some t \<Rightarrow> ap_createdAt a \<le> t \<and> t < ap_expiresAt a))"

section \<open>Authorization of a plan by an approval\<close>

text \<open>\<open>sameStrings\<close> of \<open>db/src/repositories.ts\<close>: equal up to order.\<close>

definition sameStrings :: "string list \<Rightarrow> string list \<Rightarrow> bool" where
  "sameStrings left right = (length left = length right \<and> sort left = sort right)"

definition find_protected :: "string \<Rightarrow> protected_version list \<Rightarrow> protected_version option" where
  "find_protected rid ps = find (\<lambda>c. pv_routineId c = rid) ps"

text \<open>The check of one action against the versions the approval pins.\<close>

definition assert_action_pinned :: "protected_version list \<Rightarrow> plan_action \<Rightarrow> err + unit" where
  "assert_action_pinned ps a = (case a of
     RestoreRoutineVersion r \<Rightarrow>
       (case find_protected (rs_routineId r) ps of
          None \<Rightarrow> Inl (PolicyViolationError ''Approval does not pin the current routine version'')
        | Some p \<Rightarrow> if pv_version p \<noteq> rs_expectedCurrentVersion r
            then Inl (PolicyViolationError ''Approval does not pin the current routine version'')
            else Inr ())
   | _ \<Rightarrow> (case replacement_of a of None \<Rightarrow> Inr ()
        | Some r \<Rightarrow>
       (case find_protected (rp_protectedRoutineId r) ps of
          None \<Rightarrow> Inl (PolicyViolationError ''Approval does not pin the protected routine version'')
        | Some p \<Rightarrow> if pv_routineVersionId p \<noteq> rp_protectedRoutineVersionId r \<or>
                      pv_version p \<noteq> rp_expectedProtectedVersion r
            then Inl (PolicyViolationError ''Approval does not pin the protected routine version'')
            else Inr ())))"

fun assert_actions_pinned :: "protected_version list \<Rightarrow> plan_action list \<Rightarrow> err + unit" where
  "assert_actions_pinned ps [] = Inr ()"
| "assert_actions_pinned ps (a # as) =
     (case assert_action_pinned ps a of Inl e \<Rightarrow> Inl e | Inr _ \<Rightarrow> assert_actions_pinned ps as)"

definition assertApprovalAuthorizesPlan :: "approval \<Rightarrow> plan \<Rightarrow> instant \<Rightarrow> err + unit" where
  "assertApprovalAuthorizesPlan a p now =
     (case assertSameTenant (pl_organizationId p) [ap_organizationId a] of
        Inl e \<Rightarrow> Inl e
      | Inr _ \<Rightarrow>
     (if ap_status a \<noteq> ApprovalApproved then Inl (PolicyViolationError ''Plan approval is not approved'')
      else if pl_status p \<noteq> PlanApproved
        then Inl (PolicyViolationError ''Plan is not in the approved state'')
      else if ap_planId a \<noteq> pl_id p \<or> ap_missionId a \<noteq> pl_missionId p
        then Inl (PolicyViolationError ''Approval does not belong to this plan and mission'')
      else if ap_planHash a \<noteq> pl_hash p then Inl (PolicyViolationError ''Approval plan hash is stale'')
      else if ap_expiresAt a \<le> now then Inl (PolicyViolationError ''Approval has expired'')
      else if sort (ap_actionIds a) \<noteq> sort (List.map pa_id (pl_actions p))
        then Inl (PolicyViolationError ''Approval does not cover the exact plan action set'')
      else assert_actions_pinned (ap_protectedResources a) (pl_actions p)))"

section \<open>The abstract authorization\<close>

text \<open>What an approval promises about one action: the exact version it acts on.\<close>

fun action_target :: "plan_action \<Rightarrow> string \<times> nat" where
  "action_target (ReplaceHomecomingRoutine r _) = (rp_protectedRoutineId r, rp_expectedProtectedVersion r)"
| "action_target (ReplaceScheduledHaulerAccessRoutine r _) =
     (rp_protectedRoutineId r, rp_expectedProtectedVersion r)"
| "action_target (RestoreRoutineVersion r) = (rs_routineId r, rs_expectedCurrentVersion r)"

definition pins :: "approval \<Rightarrow> plan_action \<Rightarrow> bool" where
  "pins a act = (\<exists>p \<in> set (ap_protectedResources a).
     (pv_routineId p, pv_version p) = action_target act \<and>
     (case replacement_of act of None \<Rightarrow> True | Some r \<Rightarrow> pv_routineVersionId p = rp_protectedRoutineVersionId r))"

definition authorizes :: "approval \<Rightarrow> plan \<Rightarrow> instant \<Rightarrow> bool" where
  "authorizes a p now = (ap_organizationId a = pl_organizationId p \<and>
     ap_status a = ApprovalApproved \<and> pl_status p = PlanApproved \<and>
     ap_planId a = pl_id p \<and> ap_missionId a = pl_missionId p \<and> ap_planHash a = pl_hash p \<and>
     now < ap_expiresAt a \<and> mset (ap_actionIds a) = mset (List.map pa_id (pl_actions p)) \<and>
     (\<forall>act \<in> set (pl_actions p). pins a act))"

section \<open>Lemmas\<close>

lemma sort_eq_iff_mset_eq: "sort xs = sort ys \<longleftrightarrow> mset xs = mset (ys :: string list)"
  by (metis mset_sort properties_for_sort sorted_sort)

lemma sameStrings_iff: "sameStrings xs ys \<longleftrightarrow> mset xs = mset ys"
  by (auto simp: sameStrings_def sort_eq_iff_mset_eq dest: mset_eq_length)

lemma find_protected_distinct:
  assumes "distinct (List.map pv_routineId ps)"
  shows "find_protected rid ps = Some p \<longleftrightarrow> p \<in> set ps \<and> pv_routineId p = rid"
  using lookup_by_eq_Some_distinct[OF assms] by (simp add: find_protected_def lookup_by_def)

lemma assert_actions_pinned_iff:
  "assert_actions_pinned ps as = Inr u \<longleftrightarrow> (\<forall>a\<in>set as. assert_action_pinned ps a = Inr ())"
  by (induction as) (auto split: sum.splits)

lemma assert_action_pinned_iff:
  assumes "distinct (List.map pv_routineId (ap_protectedResources ap))"
  shows "assert_action_pinned (ap_protectedResources ap) a = Inr () \<longleftrightarrow> pins ap a"
proof -
  note fp = find_protected_distinct[OF assms]
  have none: "find_protected rid (ap_protectedResources ap) = None \<longleftrightarrow>
      (\<forall>p\<in>set (ap_protectedResources ap). pv_routineId p \<noteq> rid)" for rid
    by (auto simp: find_protected_def find_None_iff_ball)
  have same: "x = y" if "x \<in> set (ap_protectedResources ap)" "y \<in> set (ap_protectedResources ap)"
      "pv_routineId x = r" "pv_routineId y = r" for x y r
    using that fp[of r x] fp[of r y] by simp
  show ?thesis
    by (cases a) (auto simp: assert_action_pinned_def pins_def fp none split: option.splits
        dest: same intro: bexI)
qed

lemma distinct_protected: "approval_ok a \<Longrightarrow> distinct (List.map pv_routineId (ap_protectedResources a))"
  by (simp add: approval_ok_def)

section \<open>Properties\<close>

text \<open>
  C5.  \<open>assertApprovalAuthorizesPlan\<close> passes exactly when the approval is an
  unexpired, approved one of the same tenant for this very plan and mission,
  with the plan's current hash and exactly its set of actions, and pins the
  routine version that each action was planned against.
\<close>

theorem approval_check_is_exact:
  assumes "approval_ok a"
  shows "assertApprovalAuthorizesPlan a p now = Inr u \<longleftrightarrow> authorizes a p now"
  using assert_action_pinned_iff[OF distinct_protected[OF assms]]
  by (cases "ap_organizationId a = pl_organizationId p")
     (auto simp: assertApprovalAuthorizesPlan_def authorizes_def assertSameTenant_def
        assert_actions_pinned_iff sort_eq_iff_mset_eq)

section \<open>A concrete plan and its approval\<close>

definition ex_digest :: string where
  "ex_digest = replicate 64 (CHR ''a'')"

definition ex_definition :: homecoming_definition where
  "ex_definition = \<lparr> hd_name = ''Homecoming'', hd_windowStart = ''05:00'', hd_windowEnd = ''07:30'',
     hd_timezone = ''UTC'',
     hd_actions = [Preheat 21 ''06:30'', PathwayLighting 60 600 ''verified_arrival'',
                   Unlock 30 True, LockDesiredState 30],
     hd_batteryUseMax = 20, hd_hardInvariantIds = [VerifiedIdentityRequiredForUnlock],
     hd_projectedBatteryUse = 12 \<rparr>"

definition ex_action :: plan_action where
  "ex_action = ReplaceHomecomingRoutine
     \<lparr> rp_id = ''act_aaaaaaaa'', rp_palaceId = ''pal_aaaaaaaa'',
       rp_protectedRoutineId = ''rtn_aaaaaaaa'', rp_protectedRoutineVersionId = ''rtv_aaaaaaaa'',
       rp_expectedProtectedVersion = 1,
       rp_replacementRoutineId = ''rtn_bbbbbbbb'', rp_replacementRoutineVersionId = ''rtv_bbbbbbbb'' \<rparr>
     ex_definition"

definition ex_constraint :: mission_constraint where
  "ex_constraint = HomecomingConstraint \<lparr> hc_preheatBy = ''06:30'',
     hc_requireVerifiedIdentityForUnlock = True, hc_pathwayLightingBeginsAfter = ''verified_arrival'',
     hc_projectedBatteryUseMax = 20 \<rparr>"

definition ex_plan :: plan where
  "ex_plan = \<lparr> pl_id = ''pln_aaaaaaaa'', pl_organizationId = ''org_aaaaaaaa'',
     pl_missionId = ''mis_aaaaaaaa'', pl_palaceId = ''pal_aaaaaaaa'', pl_revision = 1,
     pl_hash = ex_digest, pl_status = PlanApproved, pl_objective = ''Warm the palace'',
     pl_constraints = ex_constraint, pl_actions = [ex_action],
     pl_successCriteriaIds = [''sc_one''], pl_createdAt = 0 \<rparr>"

definition ex_approval :: approval where
  "ex_approval = \<lparr> ap_id = ''apr_aaaaaaaa'', ap_organizationId = ''org_aaaaaaaa'',
     ap_missionId = ''mis_aaaaaaaa'', ap_planId = ''pln_aaaaaaaa'', ap_planHash = ex_digest,
     ap_status = ApprovalApproved, ap_actionIds = [''act_aaaaaaaa''],
     ap_protectedResources = [\<lparr> pv_routineId = ''rtn_aaaaaaaa'',
        pv_routineVersionId = ''rtv_aaaaaaaa'', pv_version = 1 \<rparr>],
     ap_requestedBy = ''usr_aaaaaaaa'', ap_approvedBy = Some ''usr_aaaaaaaa'',
     ap_approverRole = Some Owner, ap_nonce = ''nnnnnnnnnnnnnnnnnnnnnnnn'',
     ap_createdAt = 0, ap_approvedAt = Some 10, ap_expiresAt = 900000 \<rparr>"

lemma ex_approval_ok: "approval_ok ex_approval"
  by code_simp

lemma ex_plan_ok: "plan_ok (\<lambda>_. ex_digest) ex_plan"
  by code_simp

theorem approval_check_is_exact_witness:
  "assertApprovalAuthorizesPlan ex_approval ex_plan 20 = Inr () \<and>
   assertApprovalAuthorizesPlan ex_approval ex_plan 900000 \<noteq> Inr ()"
  unfolding approval_check_is_exact[OF ex_approval_ok]
  by (simp add: authorizes_def pins_def ex_approval_def ex_plan_def ex_action_def)

end
