(* ===== verification/Operations.thy ===== *)
theory Operations
  imports Plans
begin

text \<open>
  Logical operations and their attempts, \<open>core/src/operations.ts\<close>: one server
  created operation per approved plan action, the attempts recorded under it, the
  activation contracts, and the decision what a replay of an operation returns.
  The budgets are those of \<open>core/src/policies.ts\<close>.
\<close>

section \<open>Data\<close>

datatype operation_status = OpPending | OpClaimed | OpCommitted | OpFailed | OpCancelled

record operation_outcome =
  oo_routineId :: string
  oo_routineVersionId :: string
  oo_deactivatedRoutineId :: "string option"

definition operation_outcome_ok :: "operation_outcome \<Rightarrow> bool" where
  "operation_outcome_ok o' = (id_ok ''rtn'' (oo_routineId o') \<and> id_ok ''rtv'' (oo_routineVersionId o') \<and>
     opt_id_ok ''rtn'' (oo_deactivatedRoutineId o'))"

record operation =
  op_id :: string
  op_organizationId :: string
  op_missionId :: string
  op_planId :: string
  op_planActionId :: string
  op_approvalId :: string
  op_payloadHash :: string
  op_serverCreated :: bool
  op_status :: operation_status
  op_outcome :: "operation_outcome option"
  op_createdAt :: instant
  op_committedAt :: "instant option"

definition operation_ok :: "operation \<Rightarrow> bool" where
  "operation_ok o' = (
     id_ok ''op'' (op_id o') \<and> id_ok ''org'' (op_organizationId o') \<and> id_ok ''mis'' (op_missionId o') \<and>
     id_ok ''pln'' (op_planId o') \<and> id_ok ''act'' (op_planActionId o') \<and> id_ok ''apr'' (op_approvalId o') \<and>
     sha256_ok (op_payloadHash o') \<and> op_serverCreated o' \<and>
     (case op_outcome o' of None \<Rightarrow> True | Some x \<Rightarrow> operation_outcome_ok x) \<and>
     (if op_status o' = OpCommitted
      then \<not> is_none (op_outcome o') \<and> \<not> is_none (op_committedAt o')
      else is_none (op_outcome o') \<and> is_none (op_committedAt o')))"

datatype attempt_status = AtPending | AtSucceeded | AtUnknown | AtFailed

record attempt_error =
  ae_code :: string
  ae_message :: string

text \<open>\<open>[A-Z][A-Z0-9_]{2,63}\<close>\<close>

definition is_upper_char :: "char \<Rightarrow> bool" where
  "is_upper_char c = List.member ''ABCDEFGHIJKLMNOPQRSTUVWXYZ'' c"

definition error_code_ok :: "string \<Rightarrow> bool" where
  "error_code_ok s = (case s of [] \<Rightarrow> False
     | c # cs \<Rightarrow> is_upper_char c \<and> 2 \<le> length cs \<and> length cs \<le> 63 \<and>
         list_all (\<lambda>d. is_upper_char d \<or> is_digit_char d \<or> d = CHR ''_'') cs)"

definition attempt_error_ok :: "attempt_error \<Rightarrow> bool" where
  "attempt_error_ok e = (error_code_ok (ae_code e) \<and> 1 \<le> length (ae_message e) \<and> length (ae_message e) \<le> 500)"

datatype attempt_transport =
    ViaHttp | ViaMcp | ViaWorker
  | ViaGateway (at_commandId: string) (at_generation: nat)

record attempt =
  at_id :: string
  at_organizationId :: string
  at_operationId :: string
  at_sequence :: nat
  at_transport :: attempt_transport
  at_status :: attempt_status
  at_retryable :: bool
  at_error :: "attempt_error option"
  at_startedAt :: instant
  at_completedAt :: "instant option"

fun transport_ok :: "attempt_transport \<Rightarrow> bool" where
  "transport_ok (ViaGateway c g) = (id_ok ''gcmd'' c \<and> 0 < g)"
| "transport_ok _ = True"

definition attempt_ok :: "attempt \<Rightarrow> bool" where
  "attempt_ok a = (
     id_ok ''att'' (at_id a) \<and> id_ok ''org'' (at_organizationId a) \<and> id_ok ''op'' (at_operationId a) \<and>
     0 < at_sequence a \<and> transport_ok (at_transport a) \<and>
     (case at_error a of None \<Rightarrow> True | Some e \<Rightarrow> attempt_error_ok e) \<and>
     \<not> (at_status a = AtPending \<and> \<not> is_none (at_completedAt a)) \<and>
     \<not> (at_status a \<noteq> AtPending \<and> is_none (at_completedAt a)) \<and>
     \<not> (at_status a = AtSucceeded \<and> \<not> is_none (at_error a)) \<and>
     \<not> (at_status a = AtPending \<and> \<not> is_none (at_error a)) \<and>
     \<not> (List.member [AtUnknown, AtFailed] (at_status a) \<and> is_none (at_error a)) \<and>
     \<not> (at_status a = AtUnknown \<and> \<not> at_retryable a))"

text \<open>
  The two activation contracts; every field of a contract is a literal of its
  schema, so a contract is its kind.
\<close>

datatype activation_contract = CorrectedContract | LegacyNegativeControlContract

fun productionSelectable :: "activation_contract \<Rightarrow> bool" where
  "productionSelectable CorrectedContract = True"
| "productionSelectable LegacyNegativeControlContract = False"

fun mcpSelectable :: "activation_contract \<Rightarrow> bool" where
  "mcpSelectable CorrectedContract = True"
| "mcpSelectable LegacyNegativeControlContract = False"

fun expectedCreatedRoutineCount :: "activation_contract \<Rightarrow> nat" where
  "expectedCreatedRoutineCount CorrectedContract = 1"
| "expectedCreatedRoutineCount LegacyNegativeControlContract = 2"

datatype replay_decision = ReturnOriginalOutcome | ReplayConflict

definition decideOperationReplay :: "string \<Rightarrow> string \<Rightarrow> replay_decision" where
  "decideOperationReplay recorded requested =
     (if recorded = requested then ReturnOriginalOutcome else ReplayConflict)"

section \<open>Budgets\<close>

record caretaker_budgets =
  cb_maxToolCallsPerRun :: nat
  cb_maxPlanRevisions :: nat
  cb_maxClarificationPauses :: nat
  cb_maxReconciliationPolls :: nat
  cb_maxActiveRuntimeSeconds :: nat

definition CARETAKER_BUDGETS :: caretaker_budgets where
  "CARETAKER_BUDGETS = \<lparr> cb_maxToolCallsPerRun = 24, cb_maxPlanRevisions = 3,
     cb_maxClarificationPauses = 2, cb_maxReconciliationPolls = 3, cb_maxActiveRuntimeSeconds = 300 \<rparr>"

section \<open>Lemmas\<close>

lemma decideOperationReplay_iff [simp]:
  "decideOperationReplay r q = ReturnOriginalOutcome \<longleftrightarrow> r = q"
  "decideOperationReplay r q = ReplayConflict \<longleftrightarrow> r \<noteq> q"
  by (simp_all add: decideOperationReplay_def)

lemma operation_ok_committed:
  "operation_ok o' \<Longrightarrow> op_status o' = OpCommitted \<longleftrightarrow> op_outcome o' \<noteq> None"
  by (auto simp: operation_ok_def split: if_splits)

text \<open>The states of a well-formed attempt: pending, or complete with a fitting error.\<close>

lemma attempt_ok_cases:
  assumes "attempt_ok a"
  shows "at_status a = AtPending \<and> at_completedAt a = None \<and> at_error a = None
       \<or> at_status a = AtSucceeded \<and> at_completedAt a \<noteq> None \<and> at_error a = None
       \<or> at_status a = AtUnknown \<and> at_completedAt a \<noteq> None \<and> at_error a \<noteq> None \<and> at_retryable a
       \<or> at_status a = AtFailed \<and> at_completedAt a \<noteq> None \<and> at_error a \<noteq> None"
  using assms by (cases "at_status a") (auto simp: attempt_ok_def)

lemma contract_boundary:
  "assertLabNegativeControlBoundary lab (productionSelectable c) (mcpSelectable c) = Inr () \<longleftrightarrow>
     lab \<and> c = LegacyNegativeControlContract"
  by (cases c) (auto simp: assertLabNegativeControlBoundary_def)

end
