(* ===== verification/Evidence.thy ===== *)
theory Evidence
  imports Operations
begin

text \<open>
  Evidence, its authority receipts and the verification record of
  \<open>core/src/evidence.ts\<close>.  The common fields of an evidence record and its
  discriminated body are a record with a datatype field; a receipt likewise.  The
  digest of a reconciliation observation is a parameter.
\<close>

section \<open>Evidence\<close>

datatype command_kind = KUnlock | KLockedDesiredState | KSetTemperature | KSetLighting

datatype lock_state = Locked | Unlocked

datatype reconciled_outcome = RoStillUnknown | RoCommitted | RoDefinitelyAbsent

datatype durable_observation =
    ExpiredClaimWithoutTerminalResult | CompletedResultObserved | DurableAbsenceObserved

record tool_reconciliation =
  tr_toolCallId :: string
  tr_toolName :: string
  tr_invocationBindingHash :: string
  tr_abandonedClaimGeneration :: nat
  tr_claimExpiredAt :: instant
  tr_durableObservation :: durable_observation
  tr_reconciledOutcome :: reconciled_outcome
  tr_observedResultHash :: "string option"
  tr_observedAttemptId :: "string option"

datatype delivery_status = DeliveryCompleted | DeliveryFailed

datatype evidence_body =
    IdentityArrival (eb_identityTagId: string) (eb_verified: bool)
  | DeviceCommand (eb_commandDevice: string) (eb_command: command_kind) (eb_causedBy: "string option")
  | TemperatureObservation (eb_temperatureDevice: string) (eb_celsius: rat)
  | LightingObservation (eb_lightingDevice: string) (eb_intensity: int) (eb_lightActive: bool)
  | LockObservation (eb_lockDevice: string) (eb_desiredState: lock_state)
  | BatteryProjection (eb_projectedUse: rat)
  | RoutineState (eb_routineId: string) (eb_routineVersionId: string) (eb_routineActive: bool)
      (eb_planId: "string option") (eb_planHash: "string option")
  | TenantAccessAudit (eb_attemptedOrganizationId: string) (eb_allowed: bool)
      (eb_auditOperationId: "string option")
  | OperationTransport (eb_operationId: string) (eb_attemptId: string) (eb_toolCallId: string)
  | GatewayDelivery (eb_gatewayCommandId: string) (eb_deliveryOperationId: string)
      (eb_deliveryStatus: delivery_status) (eb_deliveryCode: "string option")
  | ToolInvocationReconciliation tool_reconciliation (eb_observationHash: string)

record evidence =
  ev_id :: string
  ev_organizationId :: string
  ev_missionId :: string
  ev_palaceId :: string
  ev_observedAt :: instant
  ev_body :: evidence_body

definition tool_names :: "string list" where
  "tool_names = [''palaces.get'', ''crews.list'', ''capabilities.list'', ''routines.list'',
     ''routines.get'', ''executions.list'', ''knowledge.search'', ''plans.propose'', ''plans.validate'',
     ''plans.simulate'', ''plans.request_approval'', ''plans.activate'', ''operations.get'',
     ''verification.get_evidence'', ''missions.cancel'']"

definition opt_code_ok :: "string option \<Rightarrow> bool" where
  "opt_code_ok c = (case c of None \<Rightarrow> True | Some s \<Rightarrow> error_code_ok s)"

fun expected_observation :: "reconciled_outcome \<Rightarrow> durable_observation" where
  "expected_observation RoStillUnknown = ExpiredClaimWithoutTerminalResult"
| "expected_observation RoCommitted = CompletedResultObserved"
| "expected_observation RoDefinitelyAbsent = DurableAbsenceObserved"

text \<open>\<open>assertToolInvocationReconciliationSemantics\<close>: whether it raises no issue.\<close>

definition tool_reconciliation_semantics_ok :: "tool_reconciliation \<Rightarrow> instant \<Rightarrow> bool" where
  "tool_reconciliation_semantics_ok t observedAt = (
     tr_durableObservation t = expected_observation (tr_reconciledOutcome t) \<and>
     (tr_reconciledOutcome t = RoCommitted) = (\<not> is_none (tr_observedResultHash t)) \<and>
     tr_claimExpiredAt t \<le> observedAt)"

text \<open>
  The body schemas; \<open>obsHash\<close> stands for the digest of the canonical observation
  built from the evidence.
\<close>

fun evidence_body_ok :: "(tool_reconciliation \<Rightarrow> instant \<Rightarrow> string) \<Rightarrow> instant \<Rightarrow> evidence_body \<Rightarrow> bool" where
  "evidence_body_ok obsHash t (IdentityArrival tag v) = id_ok ''tag'' tag"
| "evidence_body_ok obsHash t (DeviceCommand d k c) = (id_ok ''dev'' d \<and> opt_id_ok ''evd'' c)"
| "evidence_body_ok obsHash t (TemperatureObservation d x) = (id_ok ''dev'' d \<and> -50 \<le> x \<and> x \<le> 80)"
| "evidence_body_ok obsHash t (LightingObservation d i a) = (id_ok ''dev'' d \<and> 0 \<le> i \<and> i \<le> 100)"
| "evidence_body_ok obsHash t (LockObservation d s) = id_ok ''dev'' d"
| "evidence_body_ok obsHash t (BatteryProjection x) = (0 \<le> x \<and> x \<le> 100)"
| "evidence_body_ok obsHash t (RoutineState r v a p h) =
     (id_ok ''rtn'' r \<and> id_ok ''rtv'' v \<and> opt_id_ok ''pln'' p \<and> opt_sha_ok h)"
| "evidence_body_ok obsHash t (TenantAccessAudit o' a op) = (id_ok ''org'' o' \<and> opt_id_ok ''op'' op)"
| "evidence_body_ok obsHash t (OperationTransport op a c) =
     (id_ok ''op'' op \<and> id_ok ''att'' a \<and> id_ok ''call'' c)"
| "evidence_body_ok obsHash t (GatewayDelivery c op s k) =
     (id_ok ''gcmd'' c \<and> id_ok ''op'' op \<and> opt_code_ok k \<and> (s = DeliveryFailed) = (\<not> is_none k))"
| "evidence_body_ok obsHash t (ToolInvocationReconciliation r h) =
     (id_ok ''call'' (tr_toolCallId r) \<and> List.member tool_names (tr_toolName r) \<and>
      sha256_ok (tr_invocationBindingHash r) \<and> 0 < tr_abandonedClaimGeneration r \<and>
      opt_sha_ok (tr_observedResultHash r) \<and> opt_id_ok ''att'' (tr_observedAttemptId r) \<and>
      sha256_ok h \<and> tool_reconciliation_semantics_ok r t \<and> h = obsHash r t)"

definition evidence_ok :: "(tool_reconciliation \<Rightarrow> instant \<Rightarrow> string) \<Rightarrow> evidence \<Rightarrow> bool" where
  "evidence_ok obsHash e = (id_ok ''evd'' (ev_id e) \<and> id_ok ''org'' (ev_organizationId e) \<and>
     id_ok ''mis'' (ev_missionId e) \<and> id_ok ''pal'' (ev_palaceId e) \<and>
     evidence_body_ok obsHash (ev_observedAt e) (ev_body e))"

fun is_gateway_authority :: "evidence_body \<Rightarrow> bool" where
  "is_gateway_authority (DeviceCommand _ _ _) = True"
| "is_gateway_authority (TemperatureObservation _ _) = True"
| "is_gateway_authority (LightingObservation _ _ _) = True"
| "is_gateway_authority (LockObservation _ _) = True"
| "is_gateway_authority (GatewayDelivery _ _ _ _) = True"
| "is_gateway_authority _ = False"

fun is_application_authority :: "evidence_body \<Rightarrow> bool" where
  "is_application_authority (BatteryProjection _) = True"
| "is_application_authority (RoutineState _ _ _ _ _) = True"
| "is_application_authority (TenantAccessAudit _ _ _) = True"
| "is_application_authority (OperationTransport _ _ _) = True"
| "is_application_authority (ToolInvocationReconciliation _ _) = True"
| "is_application_authority _ = False"

fun is_identity_arrival :: "evidence_body \<Rightarrow> bool" where
  "is_identity_arrival (IdentityArrival _ _) = True"
| "is_identity_arrival _ = False"

section \<open>Authority receipts\<close>

text \<open>
  Version 2 of the identity telemetry receipt carries the verifying key.  The
  literal-\<open>true\<close> flags of the receipts are kept.
\<close>

record identity_key_binding =
  ik_principalId :: string
  ik_keyId :: string
  ik_keyVersion :: nat
  ik_verifiedPayloadHash :: string
  ik_verifierVersion :: nat
  ik_purposeVerified :: bool

datatype receipt_authority =
    IdentityTelemetryReceipt (ra_providerEventId: string) (ra_identityTagId: string)
      (ra_authenticityVerified: bool) (ra_tenantBindingVerified: bool)
      (ra_keyBinding: "identity_key_binding option")
  | GatewayCallbackReceipt (ra_callbackId: string) (ra_commandId: string)
      (ra_verifiedPayloadHash: string) (ra_signatureVerified: bool) (ra_commandBindingVerified: bool)
  | ApplicationReceipt (ra_ruleId: string) (ra_ruleVersion: nat)
      (ra_inputEvidenceIds: "string list") (ra_derivationVerified: bool)

record authority_receipt =
  ar_id :: string
  ar_evidenceId :: string
  ar_organizationId :: string
  ar_missionId :: string
  ar_palaceId :: string
  ar_verifiedAt :: instant
  ar_authority :: receipt_authority

text \<open>\<open>[a-z][a-z0-9]*(?:[._-][a-z0-9]+)*\<close>: segments joined by single separators.\<close>

definition is_separator :: "char \<Rightarrow> bool" where
  "is_separator c = (c = CHR ''.'' \<or> c = CHR ''_'' \<or> c = CHR ''-'')"

fun segments_tail_ok :: "bool \<Rightarrow> string \<Rightarrow> bool" where
  "segments_tail_ok afterSep [] = (\<not> afterSep)"
| "segments_tail_ok afterSep (c # cs) =
     (if is_lower_alnum c then segments_tail_ok False cs
      else if is_separator c \<and> \<not> afterSep then segments_tail_ok True cs
      else False)"

definition canonical_segments_ok :: "string \<Rightarrow> bool" where
  "canonical_segments_ok s = (case s of [] \<Rightarrow> False
     | c # cs \<Rightarrow> is_lower_alnum c \<and> \<not> is_digit_char c \<and> segments_tail_ok False cs)"

text \<open>\<open>prefix_[A-Za-z0-9_-]{lo,hi}\<close>\<close>

definition mixed_id_ok :: "string \<Rightarrow> nat \<Rightarrow> nat \<Rightarrow> string \<Rightarrow> bool" where
  "mixed_id_ok pre lo hi s = (case strip_prefix (pre @ ''_'') s of None \<Rightarrow> False
     | Some b \<Rightarrow> lo \<le> length b \<and> length b \<le> hi \<and> list_all is_nonce_char b)"

definition key_binding_ok :: "identity_key_binding \<Rightarrow> bool" where
  "key_binding_ok k = (mixed_id_ok ''itp'' 8 64 (ik_principalId k) \<and> mixed_id_ok ''itk'' 8 64 (ik_keyId k) \<and>
     0 < ik_keyVersion k \<and> sha256_ok (ik_verifiedPayloadHash k) \<and> ik_verifierVersion k = 1 \<and>
     ik_purposeVerified k)"

fun receipt_authority_ok :: "string \<Rightarrow> receipt_authority \<Rightarrow> bool" where
  "receipt_authority_ok evidenceId (IdentityTelemetryReceipt p tag a b k) =
     (mixed_id_ok ''idt'' 8 96 p \<and> id_ok ''tag'' tag \<and> a \<and> b \<and>
      (case k of None \<Rightarrow> True | Some kb \<Rightarrow> key_binding_ok kb))"
| "receipt_authority_ok evidenceId (GatewayCallbackReceipt cb c h s b) =
     (id_ok ''gcb'' cb \<and> id_ok ''gcmd'' c \<and> sha256_ok h \<and> s \<and> b)"
| "receipt_authority_ok evidenceId (ApplicationReceipt r v ins d) =
     (canonical_segments_ok r \<and> length r \<le> 120 \<and> 0 < v \<and> list_all (id_ok ''evd'') ins \<and> d \<and>
      unique ins \<and> \<not> List.member ins evidenceId)"

definition authority_receipt_ok :: "authority_receipt \<Rightarrow> bool" where
  "authority_receipt_ok r = (id_ok ''rcp'' (ar_id r) \<and> id_ok ''evd'' (ar_evidenceId r) \<and>
     id_ok ''org'' (ar_organizationId r) \<and> id_ok ''mis'' (ar_missionId r) \<and>
     id_ok ''pal'' (ar_palaceId r) \<and> receipt_authority_ok (ar_evidenceId r) (ar_authority r))"

section \<open>Persisted evidence\<close>

record persisted_evidence =
  pe_evidence :: evidence
  pe_receipt :: authority_receipt
  pe_persistedAt :: instant

text \<open>The structural union: which kind of authority may vouch for which evidence.\<close>

fun authority_matches :: "evidence_body \<Rightarrow> receipt_authority \<Rightarrow> bool" where
  "authority_matches b (IdentityTelemetryReceipt _ _ _ _ _) = is_identity_arrival b"
| "authority_matches b (GatewayCallbackReceipt _ _ _ _ _) = is_gateway_authority b"
| "authority_matches b (ApplicationReceipt _ _ _ _) = is_application_authority b"

text \<open>The refinements that bind a receipt to its evidence.\<close>

fun receipt_binds :: "evidence_body \<Rightarrow> receipt_authority \<Rightarrow> bool" where
  "receipt_binds (IdentityArrival tag _) (IdentityTelemetryReceipt _ tag' _ _ _) = (tag' = tag)"
| "receipt_binds (GatewayDelivery c _ _ _) (GatewayCallbackReceipt _ c' _ _ _) = (c' = c)"
| "receipt_binds (OperationTransport _ _ _) (ApplicationReceipt r v ins _) =
     (r = ''operation.application_response_lost'' \<and> v = 1 \<and> ins = [])"
| "receipt_binds _ _ = True"

definition persisted_evidence_ok ::
  "(tool_reconciliation \<Rightarrow> instant \<Rightarrow> string) \<Rightarrow> persisted_evidence \<Rightarrow> bool" where
  "persisted_evidence_ok obsHash p = (let e = pe_evidence p; r = pe_receipt p in
     evidence_ok obsHash e \<and> authority_receipt_ok r \<and>
     authority_matches (ev_body e) (ar_authority r) \<and>
     ar_organizationId r = ev_organizationId e \<and> ar_missionId r = ev_missionId e \<and>
     ar_palaceId r = ev_palaceId e \<and> ar_evidenceId r = ev_id e \<and>
     ar_verifiedAt r \<le> pe_persistedAt p \<and>
     receipt_binds (ev_body e) (ar_authority r))"

section \<open>Verification records\<close>

datatype predicate_body =
    NoUnlockForUnverifiedIdentity (vp_unverifiedArrivalEvidenceId: string)
  | ActiveRoutineCount (vp_countPlanId: string) (vp_expectedCount: nat)
  | RoutineInactive (vp_inactiveRoutineId: string)
  | RoutineMatchesPlan (vp_matchRoutineId: string) (vp_matchPlanId: string) (vp_matchPlanHash: string)
  | TemperatureAtLeastBy (vp_minimumCelsius: rat) (vp_deadline: instant)
  | LightingAfterArrivalWithin (vp_lightArrivalId: string) (vp_lightDelaySeconds: nat)
  | UnlockAfterArrivalWithin (vp_unlockArrivalId: string) (vp_unlockDelaySeconds: nat)
  | LockAfterUnlockElapsed (vp_expectedSeconds: nat) (vp_toleranceSeconds: nat)
  | BatteryProjectionAtMost (vp_maximumPercentagePoints: rat)
  | NoCrossTenantAccess (vp_organizationId: string)

record verification_predicate =
  vp_id :: string
  vp_body :: predicate_body

definition predicate_id_ok :: "string \<Rightarrow> bool" where
  "predicate_id_ok s = (case s of [] \<Rightarrow> False
     | c # cs \<Rightarrow> is_lower_alnum c \<and> \<not> is_digit_char c \<and> 2 \<le> length cs \<and> length cs \<le> 119 \<and>
         list_all is_id_char cs)"

fun predicate_body_ok :: "predicate_body \<Rightarrow> bool" where
  "predicate_body_ok (NoUnlockForUnverifiedIdentity e) = id_ok ''evd'' e"
| "predicate_body_ok (ActiveRoutineCount p _) = id_ok ''pln'' p"
| "predicate_body_ok (RoutineInactive r) = id_ok ''rtn'' r"
| "predicate_body_ok (RoutineMatchesPlan r p h) = (id_ok ''rtn'' r \<and> id_ok ''pln'' p \<and> sha256_ok h)"
| "predicate_body_ok (TemperatureAtLeastBy m _) = (-50 \<le> m \<and> m \<le> 80)"
| "predicate_body_ok (LightingAfterArrivalWithin e _) = id_ok ''evd'' e"
| "predicate_body_ok (UnlockAfterArrivalWithin e _) = id_ok ''evd'' e"
| "predicate_body_ok (LockAfterUnlockElapsed x _) = (0 < x)"
| "predicate_body_ok (BatteryProjectionAtMost m) = (0 \<le> m \<and> m \<le> 100)"
| "predicate_body_ok (NoCrossTenantAccess o') = id_ok ''org'' o'"

record verification_assertion =
  va_predicate :: verification_predicate
  va_passed :: bool
  va_evidenceIds :: "string list"
  va_message :: string

definition verification_assertion_ok :: "verification_assertion \<Rightarrow> bool" where
  "verification_assertion_ok a = (predicate_id_ok (vp_id (va_predicate a)) \<and>
     predicate_body_ok (vp_body (va_predicate a)) \<and>
     va_evidenceIds a \<noteq> [] \<and> list_all (id_ok ''evd'') (va_evidenceIds a) \<and>
     1 \<le> length (va_message a) \<and> length (va_message a) \<le> 500)"

datatype verification_status = VerificationDidPass | VerificationDidFail

record verification =
  ve_id :: string
  ve_organizationId :: string
  ve_missionId :: string
  ve_source :: string
  ve_status :: verification_status
  ve_planHash :: string
  ve_assertions :: "verification_assertion list"
  ve_completedAt :: instant

definition verification_ok :: "verification \<Rightarrow> bool" where
  "verification_ok v = (id_ok ''ver'' (ve_id v) \<and> id_ok ''org'' (ve_organizationId v) \<and>
     id_ok ''mis'' (ve_missionId v) \<and> ve_source v = ''application_code'' \<and> sha256_ok (ve_planHash v) \<and>
     ve_assertions v \<noteq> [] \<and> list_all verification_assertion_ok (ve_assertions v) \<and>
     (ve_status v = VerificationDidPass) = list_all va_passed (ve_assertions v) \<and>
     unique (List.map (\<lambda>a. vp_id (va_predicate a)) (ve_assertions v)))"

section \<open>Lemmas\<close>

lemma authority_exclusive:
  "is_gateway_authority b \<Longrightarrow> \<not> is_application_authority b \<and> \<not> is_identity_arrival b"
  "is_application_authority b \<Longrightarrow> \<not> is_identity_arrival b"
  by (cases b; simp)+

text \<open>Every kind of evidence has exactly one kind of authority.\<close>

lemma authority_total:
  "is_gateway_authority b \<or> is_application_authority b \<or> is_identity_arrival b"
  by (cases b) simp_all

lemma verification_passed_iff:
  assumes "verification_ok v"
  shows "ve_status v = VerificationDidPass \<longleftrightarrow> (\<forall>a\<in>set (ve_assertions v). va_passed a)"
  using assms by (simp add: verification_ok_def list_all_iff)

section \<open>Properties\<close>

text \<open>Authority of evidence: in a well-formed persisted record an identity
  arrival is vouched for by authentic, tenant-bound identity telemetry of the very
  tag observed, device and delivery evidence by a signature- and
  command-verified gateway callback, and everything else by application code;
  no authority can vouch for another's kind of evidence.
\<close>

theorem persisted_evidence_has_its_authority:
  assumes "persisted_evidence_ok obsHash p"
  shows "case ev_body (pe_evidence p) of
     IdentityArrival tag _ \<Rightarrow> (\<exists>ev k. ar_authority (pe_receipt p) = IdentityTelemetryReceipt ev tag True True k)
   | GatewayDelivery c _ _ _ \<Rightarrow> (\<exists>cb h. ar_authority (pe_receipt p) = GatewayCallbackReceipt cb c h True True)
   | b \<Rightarrow> (if is_gateway_authority b
          then (\<exists>cb c h. ar_authority (pe_receipt p) = GatewayCallbackReceipt cb c h True True)
          else (\<exists>r v ins. ar_authority (pe_receipt p) = ApplicationReceipt r v ins True))"
  using assms
  by (cases "ev_body (pe_evidence p)"; cases "ar_authority (pe_receipt p)")
     (auto simp: persisted_evidence_ok_def authority_receipt_ok_def Let_def)

definition ex_delivery_record :: persisted_evidence where
  "ex_delivery_record = \<lparr>
     pe_evidence = \<lparr> ev_id = ''evd_aaaaaaaa'', ev_organizationId = ''org_aaaaaaaa'',
       ev_missionId = ''mis_aaaaaaaa'', ev_palaceId = ''pal_aaaaaaaa'', ev_observedAt = 5,
       ev_body = GatewayDelivery ''gcmd_aaaaaaaa'' ''op_aaaaaaaa'' DeliveryCompleted None \<rparr>,
     pe_receipt = \<lparr> ar_id = ''rcp_aaaaaaaa'', ar_evidenceId = ''evd_aaaaaaaa'',
       ar_organizationId = ''org_aaaaaaaa'', ar_missionId = ''mis_aaaaaaaa'',
       ar_palaceId = ''pal_aaaaaaaa'', ar_verifiedAt = 6,
       ar_authority = GatewayCallbackReceipt ''gcb_aaaaaaaa'' ''gcmd_aaaaaaaa'' ex_digest True True \<rparr>,
     pe_persistedAt = 7 \<rparr>"

lemma ex_delivery_record_ok: "persisted_evidence_ok (\<lambda>_ _. ex_digest) ex_delivery_record"
  by code_simp

theorem persisted_evidence_has_its_authority_witness:
  "\<exists>cb h. ar_authority (pe_receipt ex_delivery_record) = GatewayCallbackReceipt cb ''gcmd_aaaaaaaa'' h True True"
  using persisted_evidence_has_its_authority[OF ex_delivery_record_ok]
  by (simp add: ex_delivery_record_def)

end
