(* ===== verification/Gateway.thy ===== *)
theory Gateway
  imports Evidence
begin

text \<open>
  Gateway commands, dispatch and effect states and callbacks,
  \<open>core/src/gateway.ts\<close>: command identifiers derived from an operation and a
  logical key, the dispatch result and state unions, the callback schema with its
  evidence rules, the binding of a callback to its command, and the classification
  of callback status transitions.  SHA-256 and the digest of a canonical payload
  are parameters.
\<close>

section \<open>Commands\<close>

datatype instruction =
    SetTemperature (in_tempDevice: string) (in_targetCelsius: rat) (in_completeAt: instant)
      (in_tempCause: "string option")
  | SetLighting (in_lightDevice: string) (in_intensityPercent: int) (in_lightSeconds: int)
      (in_lightCause: string)
  | UnlockCommand (in_unlockDevice: string) (in_identityTagId: string) (in_unlockSeconds: int)
      (in_unlockCause: string)
  | LockedDesiredStateCommand (in_lockDevice: string) (in_lockCause: string)

fun instruction_kind :: "instruction \<Rightarrow> command_kind" where
  "instruction_kind (SetTemperature _ _ _ _) = KSetTemperature"
| "instruction_kind (SetLighting _ _ _ _) = KSetLighting"
| "instruction_kind (UnlockCommand _ _ _ _) = KUnlock"
| "instruction_kind (LockedDesiredStateCommand _ _) = KLockedDesiredState"

fun instruction_device :: "instruction \<Rightarrow> string" where
  "instruction_device (SetTemperature d _ _ _) = d"
| "instruction_device (SetLighting d _ _ _) = d"
| "instruction_device (UnlockCommand d _ _ _) = d"
| "instruction_device (LockedDesiredStateCommand d _) = d"

fun instruction_cause :: "instruction \<Rightarrow> string option" where
  "instruction_cause (SetTemperature _ _ _ c) = c"
| "instruction_cause (SetLighting _ _ _ c) = Some c"
| "instruction_cause (UnlockCommand _ _ _ c) = Some c"
| "instruction_cause (LockedDesiredStateCommand _ c) = Some c"

fun instruction_ok :: "instruction \<Rightarrow> bool" where
  "instruction_ok (SetTemperature d t _ c) = (id_ok ''dev'' d \<and> 5 \<le> t \<and> t \<le> 35 \<and> opt_id_ok ''evd'' c)"
| "instruction_ok (SetLighting d i s c) =
     (id_ok ''dev'' d \<and> 0 \<le> i \<and> i \<le> 100 \<and> 0 < s \<and> s \<le> 86400 \<and> id_ok ''evd'' c)"
| "instruction_ok (UnlockCommand d tag s c) =
     (id_ok ''dev'' d \<and> id_ok ''tag'' tag \<and> 0 < s \<and> s \<le> 300 \<and> id_ok ''evd'' c)"
| "instruction_ok (LockedDesiredStateCommand d c) = (id_ok ''dev'' d \<and> id_ok ''evd'' c)"

definition logical_key_ok :: "string \<Rightarrow> bool" where
  "logical_key_ok k = (1 \<le> length k \<and> length k \<le> 80 \<and> canonical_segments_ok k)"

text \<open>Decimal notation of a length, as a template literal prints it.\<close>

definition digit_char :: "nat \<Rightarrow> char" where
  "digit_char d = ''0123456789'' ! d"

fun show_nat :: "nat \<Rightarrow> string" where
  "show_nat n = (if n < 10 then [digit_char n] else show_nat (n div 10) @ [digit_char (n mod 10)])"

declare show_nat.simps [simp del]

definition newline :: string where
  "newline = [char_of (10 :: nat)]"

definition framed :: "string \<Rightarrow> string" where
  "framed s = show_nat (length s) @ '':'' @ s"

definition gateway_command_preimage :: "string \<Rightarrow> string \<Rightarrow> string" where
  "gateway_command_preimage operationId logicalKey =
     ''gateway-command:v2'' @ newline @ framed operationId @ newline @ framed logicalKey"

definition deriveGatewayCommandId :: "(string \<Rightarrow> string) \<Rightarrow> string \<Rightarrow> string \<Rightarrow> err + string" where
  "deriveGatewayCommandId sha operationId logicalKey =
     (if \<not> id_ok ''op'' operationId then Inl (ZodError ''OperationId'')
      else if \<not> logical_key_ok logicalKey then Inl (ZodError ''GatewayCommandLogicalKey'')
      else let i = ''gcmd_'' @ sha (gateway_command_preimage operationId logicalKey) in
        if id_ok ''gcmd'' i then Inr i else Inl (ZodError ''GatewayCommandId''))"

record command =
  gc_id :: string
  gc_organizationId :: string
  gc_missionId :: string
  gc_palaceId :: string
  gc_operationId :: string
  gc_logicalKey :: string
  gc_instruction :: instruction
  gc_payloadHash :: string
  gc_createdAt :: instant

record command_input =
  gi_organizationId :: string
  gi_missionId :: string
  gi_palaceId :: string
  gi_operationId :: string
  gi_logicalKey :: string
  gi_instruction :: instruction
  gi_createdAt :: instant

text \<open>
  The hash parameters: \<open>hp_sha\<close> is the hexadecimal SHA-256 of a string,
  \<open>hp_payload\<close> the digest of the canonical JSON of kind and payload.
\<close>

record hash_params =
  hp_sha :: "string \<Rightarrow> string"
  hp_payload :: "instruction \<Rightarrow> string"

definition command_input_ok :: "command_input \<Rightarrow> bool" where
  "command_input_ok c = (id_ok ''org'' (gi_organizationId c) \<and> id_ok ''mis'' (gi_missionId c) \<and>
     id_ok ''pal'' (gi_palaceId c) \<and> id_ok ''op'' (gi_operationId c) \<and>
     logical_key_ok (gi_logicalKey c) \<and> instruction_ok (gi_instruction c))"

definition command_ok :: "hash_params \<Rightarrow> command \<Rightarrow> bool" where
  "command_ok hp c = (id_ok ''gcmd'' (gc_id c) \<and> id_ok ''org'' (gc_organizationId c) \<and>
     id_ok ''mis'' (gc_missionId c) \<and> id_ok ''pal'' (gc_palaceId c) \<and> id_ok ''op'' (gc_operationId c) \<and>
     logical_key_ok (gc_logicalKey c) \<and> sha256_ok (gc_payloadHash c) \<and> instruction_ok (gc_instruction c) \<and>
     deriveGatewayCommandId (hp_sha hp) (gc_operationId c) (gc_logicalKey c) = Inr (gc_id c) \<and>
     gc_payloadHash c = hp_payload hp (gc_instruction c))"

definition createGatewayCommand :: "hash_params \<Rightarrow> command_input \<Rightarrow> err + command" where
  "createGatewayCommand hp inp =
     (if \<not> command_input_ok inp then Inl (ZodError ''GatewayCommandInput'')
      else case deriveGatewayCommandId (hp_sha hp) (gi_operationId inp) (gi_logicalKey inp) of
        Inl e \<Rightarrow> Inl e
      | Inr i \<Rightarrow>
          let c = \<lparr> gc_id = i, gc_organizationId = gi_organizationId inp,
             gc_missionId = gi_missionId inp, gc_palaceId = gi_palaceId inp,
             gc_operationId = gi_operationId inp, gc_logicalKey = gi_logicalKey inp,
             gc_instruction = gi_instruction inp, gc_payloadHash = hp_payload hp (gi_instruction inp),
             gc_createdAt = gi_createdAt inp \<rparr>
          in if command_ok hp c then Inr c else Inl (ZodError ''GatewayCommand''))"

section \<open>Dispatch\<close>

datatype unknown_reason = DispatchTimeout | LostAck

datatype dispatch_result =
    ResultAccepted (dr_acknowledgementId: string)
  | ResultUnknown (dr_reason: unknown_reason)
  | ResultFailed (dr_retryable: bool) (dr_code: string) (dr_message: string)

fun dispatch_result_ok :: "dispatch_result \<Rightarrow> bool" where
  "dispatch_result_ok (ResultAccepted a) = id_ok ''gack'' a"
| "dispatch_result_ok (ResultUnknown _) = True"
| "dispatch_result_ok (ResultFailed _ c m) = (error_code_ok c \<and> 1 \<le> length m \<and> length m \<le> 500)"

datatype dispatch_status =
    DispatchPending
  | Dispatching (ds_claimAttemptId: string)
  | DispatchAccepted (ds_acceptAttemptId: string) (ds_acknowledgementId: string)
  | DispatchUnknown (ds_unknownAttemptId: string) (ds_unknownReason: unknown_reason)
  | DispatchFailed (ds_failAttemptId: string) (ds_retryable: bool) (ds_error: attempt_error)
  | DispatchCancelled (ds_cancelledAt: instant)

record dispatch =
  dp_commandId :: string
  dp_generation :: nat
  dp_status :: dispatch_status
  dp_updatedAt :: instant

fun dispatch_status_ok :: "dispatch_status \<Rightarrow> bool" where
  "dispatch_status_ok DispatchPending = True"
| "dispatch_status_ok (Dispatching a) = id_ok ''att'' a"
| "dispatch_status_ok (DispatchAccepted a k) = (id_ok ''att'' a \<and> id_ok ''gack'' k)"
| "dispatch_status_ok (DispatchUnknown a _) = id_ok ''att'' a"
| "dispatch_status_ok (DispatchFailed a _ e) = (id_ok ''att'' a \<and> attempt_error_ok e)"
| "dispatch_status_ok (DispatchCancelled _) = True"

definition dispatch_ok :: "dispatch \<Rightarrow> bool" where
  "dispatch_ok d = (id_ok ''gcmd'' (dp_commandId d) \<and> 0 < dp_generation d \<and> dispatch_status_ok (dp_status d))"

section \<open>Callbacks\<close>

datatype callback_status = CbAcknowledged | CbExecuting | CbCompleted | CbFailed

datatype callback_transition = CbAdvance | CbReplay | CbRejectRegression | CbRejectTerminalContradiction

fun CALLBACK_STATUS_RANK :: "callback_status \<Rightarrow> nat" where
  "CALLBACK_STATUS_RANK CbAcknowledged = 0"
| "CALLBACK_STATUS_RANK CbExecuting = 1"
| "CALLBACK_STATUS_RANK CbCompleted = 2"
| "CALLBACK_STATUS_RANK CbFailed = 2"

definition callback_terminal :: "callback_status \<Rightarrow> bool" where
  "callback_terminal s = (s = CbCompleted \<or> s = CbFailed)"

definition classifyGatewayCallbackStatusTransition ::
  "callback_status option \<Rightarrow> callback_status \<Rightarrow> callback_transition" where
  "classifyGatewayCallbackStatusTransition current incoming = (case current of
     None \<Rightarrow> CbAdvance
   | Some cur \<Rightarrow>
       if cur = incoming then CbReplay
       else if callback_terminal cur \<and> callback_terminal incoming then CbRejectTerminalContradiction
       else if CALLBACK_STATUS_RANK incoming < CALLBACK_STATUS_RANK cur then CbRejectRegression
       else if callback_terminal cur then CbRejectRegression else CbAdvance)"

record callback =
  cb_id :: string
  cb_organizationId :: string
  cb_missionId :: string
  cb_palaceId :: string
  cb_commandId :: string
  cb_operationId :: string
  cb_status :: callback_status
  cb_occurredAt :: instant
  cb_nonce :: string
  cb_evidence :: "evidence list"

fun is_delivery :: "evidence_body \<Rightarrow> bool" where
  "is_delivery (GatewayDelivery _ _ _ _) = True"
| "is_delivery _ = False"

fun is_device_command :: "evidence_body \<Rightarrow> bool" where
  "is_device_command (DeviceCommand _ _ _) = True"
| "is_device_command _ = False"

fun is_observation :: "evidence_body \<Rightarrow> bool" where
  "is_observation (TemperatureObservation _ _) = True"
| "is_observation (LightingObservation _ _ _) = True"
| "is_observation (LockObservation _ _) = True"
| "is_observation _ = False"

text \<open>Delivery evidence repeats the command, the operation and the status of its callback.\<close>

fun delivery_matches :: "callback \<Rightarrow> evidence_body \<Rightarrow> bool" where
  "delivery_matches c (GatewayDelivery g op s _) =
     (g = cb_commandId c \<and> op = cb_operationId c \<and>
      cb_status c = (case s of DeliveryCompleted \<Rightarrow> CbCompleted | DeliveryFailed \<Rightarrow> CbFailed))"
| "delivery_matches c _ = True"

definition deliveries :: "callback \<Rightarrow> evidence list" where
  "deliveries c = filter (\<lambda>e. is_delivery (ev_body e)) (cb_evidence c)"

definition callback_ok :: "callback \<Rightarrow> bool" where
  "callback_ok c = (
     id_ok ''gcb'' (cb_id c) \<and> id_ok ''org'' (cb_organizationId c) \<and> id_ok ''mis'' (cb_missionId c) \<and>
     id_ok ''pal'' (cb_palaceId c) \<and> id_ok ''gcmd'' (cb_commandId c) \<and> id_ok ''op'' (cb_operationId c) \<and>
     mixed_id_ok ''gwn'' 24 96 (cb_nonce c) \<and>
     list_all (\<lambda>e. evidence_ok (\<lambda>_ _. '''') e \<and> is_gateway_authority (ev_body e)) (cb_evidence c) \<and>
     list_all (\<lambda>e. ev_organizationId e = cb_organizationId c \<and> ev_missionId e = cb_missionId c \<and>
                   ev_palaceId e = cb_palaceId c) (cb_evidence c) \<and>
     \<not> (callback_terminal (cb_status c) \<and> length (deliveries c) \<noteq> 1) \<and>
     \<not> (\<not> callback_terminal (cb_status c) \<and> length (deliveries c) \<noteq> 0) \<and>
     \<not> (\<not> callback_terminal (cb_status c) \<and> length (cb_evidence c) \<noteq> 0) \<and>
     \<not> (cb_status c = CbFailed \<and> length (cb_evidence c) \<noteq> 1) \<and>
     list_all (\<lambda>e. delivery_matches c (ev_body e)) (deliveries c))"

section \<open>Effect states\<close>

datatype effect_status =
    EffectPending
  | EffectAcknowledged (es_ackCallbackId: string)
  | EffectExecuting (es_execCallbackId: string)
  | EffectCancellationRequested (es_cancelCallbackId: "string option") (es_requestedAt: instant)
  | EffectCompleted (es_doneCallbackId: string) (es_doneEvidenceIds: "string list")
  | EffectFailed (es_failCallbackId: string) (es_failEvidenceIds: "string list")

record effect_state =
  es_commandId :: string
  es_status :: effect_status
  es_updatedAt :: instant

fun effect_status_ok :: "instant \<Rightarrow> effect_status \<Rightarrow> bool" where
  "effect_status_ok upd EffectPending = True"
| "effect_status_ok upd (EffectAcknowledged c) = id_ok ''gcb'' c"
| "effect_status_ok upd (EffectExecuting c) = id_ok ''gcb'' c"
| "effect_status_ok upd (EffectCancellationRequested c t) = (opt_id_ok ''gcb'' c \<and> t \<le> upd)"
| "effect_status_ok upd (EffectCompleted c es) =
     (id_ok ''gcb'' c \<and> length es = 3 \<and> list_all (id_ok ''evd'') es \<and> unique es)"
| "effect_status_ok upd (EffectFailed c es) =
     (id_ok ''gcb'' c \<and> length es = 1 \<and> list_all (id_ok ''evd'') es \<and> unique es)"

definition effect_state_ok :: "effect_state \<Rightarrow> bool" where
  "effect_state_ok s = (id_ok ''gcmd'' (es_commandId s) \<and> effect_status_ok (es_updatedAt s) (es_status s))"

section \<open>Binding a callback to its command\<close>

record callback_binding =
  bi_organizationId :: string
  bi_missionId :: string
  bi_palaceId :: string
  bi_operationId :: string
  bi_commandId :: string

definition gatewayCallbackBindingForCommand :: "hash_params \<Rightarrow> command \<Rightarrow> err + callback_binding" where
  "gatewayCallbackBindingForCommand hp c =
     (if \<not> command_ok hp c then Inl (ZodError ''GatewayCommand'')
      else Inr \<lparr> bi_organizationId = gc_organizationId c, bi_missionId = gc_missionId c,
             bi_palaceId = gc_palaceId c, bi_operationId = gc_operationId c, bi_commandId = gc_id c \<rparr>)"

fun evidence_device :: "evidence_body \<Rightarrow> string option" where
  "evidence_device (DeviceCommand d _ _) = Some d"
| "evidence_device (TemperatureObservation d _) = Some d"
| "evidence_device (LightingObservation d _ _) = Some d"
| "evidence_device (LockObservation d _) = Some d"
| "evidence_device _ = None"

text \<open>What the pair schema demands of one piece of callback evidence.\<close>

fun evidence_fits_command :: "command \<Rightarrow> evidence_body \<Rightarrow> bool" where
  "evidence_fits_command c (GatewayDelivery _ _ _ _) = True"
| "evidence_fits_command c (DeviceCommand d k cause) =
     (d = instruction_device (gc_instruction c) \<and>
      k = instruction_kind (gc_instruction c) \<and> cause = instruction_cause (gc_instruction c))"
| "evidence_fits_command c (TemperatureObservation d _) =
     (d = instruction_device (gc_instruction c) \<and> instruction_kind (gc_instruction c) = KSetTemperature)"
| "evidence_fits_command c (LightingObservation d _ _) =
     (d = instruction_device (gc_instruction c) \<and> instruction_kind (gc_instruction c) = KSetLighting)"
| "evidence_fits_command c (LockObservation d s) =
     (d = instruction_device (gc_instruction c) \<and>
      List.member [KUnlock, KLockedDesiredState] (instruction_kind (gc_instruction c)) \<and>
      s = (if instruction_kind (gc_instruction c) = KUnlock then Unlocked else Locked))"
| "evidence_fits_command c _ = False"

definition command_callback_pair_ok :: "hash_params \<Rightarrow> command \<Rightarrow> callback \<Rightarrow> bool" where
  "command_callback_pair_ok hp c b = (
     command_ok hp c \<and> callback_ok b \<and>
     cb_organizationId b = gc_organizationId c \<and> cb_missionId b = gc_missionId c \<and>
     cb_palaceId b = gc_palaceId c \<and> cb_operationId b = gc_operationId c \<and> cb_commandId b = gc_id c \<and>
     \<not> (cb_status b = CbCompleted \<and>
        (length (filter (\<lambda>e. is_device_command (ev_body e)) (cb_evidence b)) \<noteq> 1 \<or>
         length (filter (\<lambda>e. is_observation (ev_body e)) (cb_evidence b)) \<noteq> 1)) \<and>
     list_all (\<lambda>e. evidence_fits_command c (ev_body e)) (cb_evidence b))"

definition validateGatewayCommandCallbackBinding ::
  "hash_params \<Rightarrow> command \<Rightarrow> callback \<Rightarrow> err + (command \<times> callback)" where
  "validateGatewayCommandCallbackBinding hp c b =
     (if command_callback_pair_ok hp c b then Inr (c, b) else Inl (ZodError ''GatewayCommandCallbackPair''))"

record callback_dedupe =
  cd_callbackId :: string
  cd_organizationId :: string
  cd_nonce :: string
  cd_payloadHash :: string

definition callbackDedupeInput :: "(callback \<Rightarrow> string) \<Rightarrow> callback \<Rightarrow> err + callback_dedupe" where
  "callbackDedupeInput callbackHash c =
     (if \<not> callback_ok c then Inl (ZodError ''GatewayCallback'')
      else if \<not> sha256_ok (callbackHash c) then Inl (ZodError ''Sha256'')
      else Inr \<lparr> cd_callbackId = cb_id c, cd_organizationId = cb_organizationId c,
             cd_nonce = cb_nonce c, cd_payloadHash = callbackHash c \<rparr>)"

section \<open>Lemmas\<close>

lemma is_digit_digit_char: "d < 10 \<Longrightarrow> is_digit_char (digit_char d)"
  by (simp add: digit_char_def is_digit_char_def less_Suc_eq numeral_eq_Suc) auto

lemma digit_char_inj:
  assumes "d < 10" "e < 10" "digit_char d = digit_char e" shows "d = e"
proof -
  have "distinct ''0123456789''" by simp
  from nth_eq_iff_index_eq[OF this, of d e] assms show ?thesis
    by (simp add: digit_char_def)
qed

lemma show_nat_digits: "list_all is_digit_char (show_nat n)"
  by (induction n rule: show_nat.induct) (subst show_nat.simps, simp add: is_digit_digit_char)

lemma show_nat_nonempty: "show_nat n \<noteq> []"
  by (subst show_nat.simps) simp

lemma show_nat_inj: "show_nat m = show_nat n \<Longrightarrow> m = n"
proof (induction m arbitrary: n rule: show_nat.induct)
  case (1 m)
  note eq = "1.prems"[unfolded show_nat.simps[of m] show_nat.simps[of n]]
  show ?case
  proof (cases "m < 10"; cases "n < 10")
    assume c: "\<not> m < 10" "\<not> n < 10"
    with eq have "show_nat (m div 10) = show_nat (n div 10)" "digit_char (m mod 10) = digit_char (n mod 10)"
      by simp_all
    with 1 c digit_char_inj[of "m mod 10" "n mod 10"] have "m div 10 = n div 10" "m mod 10 = n mod 10"
      by simp_all
    then show ?thesis by (metis div_mult_mod_eq)
  qed (use eq digit_char_inj show_nat_nonempty in \<open>auto simp: append_eq_Cons_conv Cons_eq_append_conv\<close>)
qed

lemma digits_colon_split:
  assumes "list_all is_digit_char xs" "list_all is_digit_char ys" "xs @ CHR '':'' # r = ys @ CHR '':'' # s"
  shows "xs = ys \<and> r = s"
  using assms
proof (induction xs arbitrary: ys)
  case Nil
  then show ?case by (cases ys) (auto simp: is_digit_char_def)
next
  case (Cons x xs)
  then show ?case by (cases ys) (auto simp: is_digit_char_def)
qed

lemma framed_inj: "framed s @ r = framed s' @ r' \<Longrightarrow> s = s' \<and> r = r'"
proof -
  assume "framed s @ r = framed s' @ r'"
  then have "show_nat (length s) @ CHR '':'' # s @ r = show_nat (length s') @ CHR '':'' # s' @ r'"
    by (simp add: framed_def)
  from digits_colon_split[OF show_nat_digits show_nat_digits this]
  have "length s = length s'" "s @ r = s' @ r'" using show_nat_inj by auto
  then show ?thesis by simp
qed

lemma preimage_inj:
  "gateway_command_preimage o1 k1 = gateway_command_preimage o2 k2 \<longleftrightarrow> o1 = o2 \<and> k1 = k2"
proof
  assume "gateway_command_preimage o1 k1 = gateway_command_preimage o2 k2"
  then have "framed o1 @ newline @ framed k1 = framed o2 @ newline @ framed k2"
    by (simp add: gateway_command_preimage_def)
  from framed_inj[OF this] have "o1 = o2" "framed k1 @ [] = framed k2 @ []" by simp_all
  with framed_inj[of k1 "[]" k2 "[]"] show "o1 = o2 \<and> k1 = k2" by simp
qed simp

lemma createGatewayCommand_ok:
  "createGatewayCommand hp inp = Inr c \<Longrightarrow> command_ok hp c"
  by (auto simp: createGatewayCommand_def Let_def split: if_splits sum.splits)

lemma terminal_rank: "callback_terminal s \<longleftrightarrow> CALLBACK_STATUS_RANK s = 2"
  by (cases s) (simp_all add: callback_terminal_def)

lemma classify_advance_iff:
  "classifyGatewayCallbackStatusTransition (Some c) i = CbAdvance \<longleftrightarrow>
     CALLBACK_STATUS_RANK c < CALLBACK_STATUS_RANK i"
  by (cases c; cases i) (simp_all add: classifyGatewayCallbackStatusTransition_def callback_terminal_def)

lemma gateway_authority_partition:
  assumes "\<forall>e\<in>set es. is_gateway_authority (ev_body e)"
  shows "mset es = mset (filter (\<lambda>e. is_delivery (ev_body e)) es) +
     mset (filter (\<lambda>e. is_device_command (ev_body e)) es) +
     mset (filter (\<lambda>e. is_observation (ev_body e)) es)"
  using assms
proof (induction es)
  case (Cons e es)
  then show ?case by (cases "ev_body e") simp_all
qed simp

lemma length_one_filter:
  assumes "length (filter P xs) = 1" obtains x where "filter P xs = [x]" "x \<in> set xs" "P x"
proof -
  from assms obtain x where f: "filter P xs = [x]" by (metis One_nat_def length_0_conv length_Suc_conv)
  then have "x \<in> set (filter P xs)" by simp
  then have "x \<in> set xs" "P x" by simp_all
  with f that show ?thesis by blast
qed

section \<open>Properties\<close>

text \<open>Derived command identifiers: two commands derived for different
  operations or different logical keys can share an identifier only when SHA-256
  collides on two different preimages; the length framing makes the preimage
  injective without any assumption on the operation or key.
\<close>

theorem command_ids_collide_only_with_the_digest:
  assumes "deriveGatewayCommandId sha o1 k1 = Inr i" "deriveGatewayCommandId sha o2 k2 = Inr i"
    and "(o1, k1) \<noteq> (o2, k2)"
  shows "gateway_command_preimage o1 k1 \<noteq> gateway_command_preimage o2 k2 \<and>
         sha (gateway_command_preimage o1 k1) = sha (gateway_command_preimage o2 k2)"
  using assms by (auto simp: deriveGatewayCommandId_def preimage_inj Let_def split: if_splits)

theorem command_ids_collide_only_with_the_digest_witness:
  "gateway_command_preimage ''op_aaaaaaaa'' ''unlock'' \<noteq> gateway_command_preimage ''op_aaaaaaaa'' ''relock''"
proof -
  have "deriveGatewayCommandId (\<lambda>_. ex_digest) ''op_aaaaaaaa'' ''unlock'' = Inr (''gcmd_'' @ ex_digest)"
       "deriveGatewayCommandId (\<lambda>_. ex_digest) ''op_aaaaaaaa'' ''relock'' = Inr (''gcmd_'' @ ex_digest)"
    by code_simp+
  from command_ids_collide_only_with_the_digest[OF this] show ?thesis by simp
qed

text \<open>Callback statuses only move forward: an accepted advance strictly raises
  the rank, the terminal statuses admit no advance at all, two different terminal
  reports contradict each other, and repeating a status is a replay.
\<close>

theorem callback_status_is_monotone:
  "(classifyGatewayCallbackStatusTransition (Some c) i = CbAdvance \<longleftrightarrow>
      CALLBACK_STATUS_RANK c < CALLBACK_STATUS_RANK i) \<and>
   (classifyGatewayCallbackStatusTransition (Some c) i = CbReplay \<longleftrightarrow> c = i) \<and>
   (classifyGatewayCallbackStatusTransition (Some c) i = CbRejectTerminalContradiction \<longleftrightarrow>
      {c, i} = {CbCompleted, CbFailed})"
  by (cases c; cases i)
     (auto simp: classifyGatewayCallbackStatusTransition_def callback_terminal_def doubleton_eq_iff)

text \<open>A completed callback that validates against its command carries exactly
  three pieces of evidence: one delivery record, one record of the very command
  and cause, and one observation of the kind the command asks for, all of the
  command's own device; for a lock device the observed state is the one the
  command requested.
\<close>

theorem completed_callback_evidence_is_exact:
  assumes "validateGatewayCommandCallbackBinding hp c b = Inr r" "cb_status b = CbCompleted"
  shows "\<exists>d k obs.
     mset (cb_evidence b) = {#d, k, obs#} \<and>
     ev_body d = GatewayDelivery (gc_id c) (gc_operationId c) DeliveryCompleted None \<and>
     ev_body k = DeviceCommand (instruction_device (gc_instruction c)) (instruction_kind (gc_instruction c))
                   (instruction_cause (gc_instruction c)) \<and>
     evidence_device (ev_body obs) = Some (instruction_device (gc_instruction c)) \<and>
     (case gc_instruction c of
        SetTemperature _ _ _ _ \<Rightarrow> (\<exists>x. ev_body obs = TemperatureObservation (instruction_device (gc_instruction c)) x)
      | SetLighting _ _ _ _ \<Rightarrow> (\<exists>i a. ev_body obs = LightingObservation (instruction_device (gc_instruction c)) i a)
      | UnlockCommand dev _ _ _ \<Rightarrow> ev_body obs = LockObservation dev Unlocked
      | LockedDesiredStateCommand dev _ \<Rightarrow> ev_body obs = LockObservation dev Locked)"
proof -
  have pair: "command_callback_pair_ok hp c b"
    using assms(1) by (simp add: validateGatewayCommandCallbackBinding_def split: if_splits)
  then have cb: "callback_ok b" by (simp add: command_callback_pair_ok_def)
  have auth: "is_gateway_authority (ev_body e)" "evidence_ok (\<lambda>_ _. []) e" if "e\<in>set (cb_evidence b)" for e
    using cb that by (auto simp: callback_ok_def list_all_iff)
  have fits: "evidence_fits_command c (ev_body e)" if "e\<in>set (cb_evidence b)" for e
    using pair that by (simp add: command_callback_pair_ok_def list_all_iff)
  have "length (deliveries b) = 1"
    using cb assms(2) by (simp add: callback_ok_def callback_terminal_def)
  then obtain d where d: "filter (\<lambda>e. is_delivery (ev_body e)) (cb_evidence b) = [d]"
      "d \<in> set (cb_evidence b)" "is_delivery (ev_body d)"
    unfolding deliveries_def by (rule length_one_filter)
  have "length (filter (\<lambda>e. is_device_command (ev_body e)) (cb_evidence b)) = 1"
    using pair assms(2) by (simp add: command_callback_pair_ok_def)
  then obtain k where k: "filter (\<lambda>e. is_device_command (ev_body e)) (cb_evidence b) = [k]"
      "k \<in> set (cb_evidence b)" "is_device_command (ev_body k)"
    by (rule length_one_filter)
  have "length (filter (\<lambda>e. is_observation (ev_body e)) (cb_evidence b)) = 1"
    using pair assms(2) by (simp add: command_callback_pair_ok_def)
  then obtain obs where o': "filter (\<lambda>e. is_observation (ev_body e)) (cb_evidence b) = [obs]"
      "obs \<in> set (cb_evidence b)" "is_observation (ev_body obs)"
    by (rule length_one_filter)
  have "mset (cb_evidence b) = {#d, k, obs#}"
    using gateway_authority_partition[of "cb_evidence b"] auth(1) d(1) k(1) o'(1) by simp
  moreover have "delivery_matches b (ev_body d)"
    using cb d by (simp add: callback_ok_def list_all_iff deliveries_def)
  then have "ev_body d = GatewayDelivery (gc_id c) (gc_operationId c) DeliveryCompleted None"
    using d auth(2)[OF d(2)] assms(2) pair
    by (cases "ev_body d") (auto simp: command_callback_pair_ok_def evidence_ok_def
        split: delivery_status.splits)
  moreover have "ev_body k = DeviceCommand (instruction_device (gc_instruction c))
      (instruction_kind (gc_instruction c)) (instruction_cause (gc_instruction c))"
    using k fits[OF k(2)] by (cases "ev_body k") auto
  moreover note fits[OF o'(2)] o'(3)
  then have "evidence_device (ev_body obs) = Some (instruction_device (gc_instruction c)) \<and>
     (case gc_instruction c of
        SetTemperature _ _ _ _ \<Rightarrow> (\<exists>x. ev_body obs = TemperatureObservation (instruction_device (gc_instruction c)) x)
      | SetLighting _ _ _ _ \<Rightarrow> (\<exists>i a. ev_body obs = LightingObservation (instruction_device (gc_instruction c)) i a)
      | UnlockCommand dev _ _ _ \<Rightarrow> ev_body obs = LockObservation dev Unlocked
      | LockedDesiredStateCommand dev _ \<Rightarrow> ev_body obs = LockObservation dev Locked)"
    by (cases "ev_body obs"; cases "gc_instruction c") auto
  ultimately show ?thesis by blast
qed

definition ex_hash :: hash_params where
  "ex_hash = \<lparr> hp_sha = (\<lambda>_. replicate 59 (CHR ''a'')), hp_payload = (\<lambda>_. ex_digest) \<rparr>"

definition ex_command_id :: string where
  "ex_command_id = ''gcmd_'' @ replicate 59 (CHR ''a'')"

definition ex_command :: command where
  "ex_command = \<lparr> gc_id = ex_command_id, gc_organizationId = ''org_aaaaaaaa'',
     gc_missionId = ''mis_aaaaaaaa'', gc_palaceId = ''pal_aaaaaaaa'', gc_operationId = ''op_aaaaaaaa'',
     gc_logicalKey = ''unlock'',
     gc_instruction = UnlockCommand ''dev_aaaaaaaa'' ''tag_aaaaaaaa'' 30 ''evd_cccccccc'',
     gc_payloadHash = ex_digest, gc_createdAt = 0 \<rparr>"

definition ex_evidence :: "string \<Rightarrow> evidence_body \<Rightarrow> evidence" where
  "ex_evidence i b = \<lparr> ev_id = i, ev_organizationId = ''org_aaaaaaaa'', ev_missionId = ''mis_aaaaaaaa'',
     ev_palaceId = ''pal_aaaaaaaa'', ev_observedAt = 5, ev_body = b \<rparr>"

definition ex_callback :: callback where
  "ex_callback = \<lparr> cb_id = ''gcb_aaaaaaaa'', cb_organizationId = ''org_aaaaaaaa'',
     cb_missionId = ''mis_aaaaaaaa'', cb_palaceId = ''pal_aaaaaaaa'', cb_commandId = ex_command_id,
     cb_operationId = ''op_aaaaaaaa'', cb_status = CbCompleted, cb_occurredAt = 5,
     cb_nonce = ''gwn_aaaaaaaaaaaaaaaaaaaaaaaa'',
     cb_evidence =
      [ex_evidence ''evd_dddddddd'' (GatewayDelivery ex_command_id ''op_aaaaaaaa'' DeliveryCompleted None),
       ex_evidence ''evd_eeeeeeee'' (DeviceCommand ''dev_aaaaaaaa'' KUnlock (Some ''evd_cccccccc'')),
       ex_evidence ''evd_ffffffff'' (LockObservation ''dev_aaaaaaaa'' Unlocked)] \<rparr>"

lemma ex_callback_binds:
  "validateGatewayCommandCallbackBinding ex_hash ex_command ex_callback = Inr (ex_command, ex_callback)"
proof -
  have "command_callback_pair_ok ex_hash ex_command ex_callback" by code_simp
  then show ?thesis by (simp add: validateGatewayCommandCallbackBinding_def)
qed

theorem completed_callback_evidence_is_exact_witness:
  "\<exists>d k obs. mset (cb_evidence ex_callback) = {#d, k, obs#} \<and>
     ev_body k = DeviceCommand ''dev_aaaaaaaa'' KUnlock (Some ''evd_cccccccc'') \<and>
     ev_body obs = LockObservation ''dev_aaaaaaaa'' Unlocked"
proof -
  have "cb_status ex_callback = CbCompleted" by (simp add: ex_callback_def)
  from completed_callback_evidence_is_exact[OF ex_callback_binds this] show ?thesis
    by (simp add: ex_command_def) blast
qed

end
