(* ===== verification/Execution_Progress.thy ===== *)
theory Execution_Progress
  imports Operations
begin

text \<open>
  Execution records and their milestones, \<open>core/src/execution-progress.ts\<close>: the
  milestone and execution schemas and \<open>classifyExecutionReadiness\<close>, which decides
  when an execution is to be verified.
\<close>

section \<open>Milestones\<close>

datatype milestone_name =
    MsPreheat | MsVerifiedArrival | MsPathwayLighting | MsUnlock | MsRelock
  | MsAccessWindow | MsVerifiedHaulerIdentity | MsServiceHatchUnlock | MsServiceHatchRelock
  | MsResidentialHatchGuard

record milestone_failure =
  mf_code :: string
  mf_message :: string

definition milestone_failure_ok :: "milestone_failure \<Rightarrow> bool" where
  "milestone_failure_ok f = (error_code_ok (mf_code f) \<and>
     1 \<le> length (mf_message f) \<and> length (mf_message f) \<le> 500)"

datatype milestone_state =
    MilestonePending
  | MilestoneCompleted (mc_evidenceId: string) (mc_resolvedAt: instant)
  | MilestoneFailed (mx_evidenceId: "string option") (mx_resolvedAt: instant) (mx_failure: milestone_failure)

record milestone =
  ml_name :: milestone_name
  ml_commandId :: "string option"
  ml_state :: milestone_state

fun milestone_evidenceId :: "milestone_state \<Rightarrow> string option" where
  "milestone_evidenceId MilestonePending = None"
| "milestone_evidenceId (MilestoneCompleted e _) = Some e"
| "milestone_evidenceId (MilestoneFailed e _ _) = e"

fun milestone_resolvedAt :: "milestone_state \<Rightarrow> instant option" where
  "milestone_resolvedAt MilestonePending = None"
| "milestone_resolvedAt (MilestoneCompleted _ t) = Some t"
| "milestone_resolvedAt (MilestoneFailed _ t _) = Some t"

fun is_completed :: "milestone_state \<Rightarrow> bool" where
  "is_completed (MilestoneCompleted _ _) = True"
| "is_completed _ = False"

fun is_failed :: "milestone_state \<Rightarrow> bool" where
  "is_failed (MilestoneFailed _ _ _) = True"
| "is_failed _ = False"

fun milestone_state_ok :: "milestone_state \<Rightarrow> bool" where
  "milestone_state_ok MilestonePending = True"
| "milestone_state_ok (MilestoneCompleted e _) = id_ok ''evd'' e"
| "milestone_state_ok (MilestoneFailed e _ f) = (opt_id_ok ''evd'' e \<and> milestone_failure_ok f)"

definition evidence_only :: "milestone_name \<Rightarrow> bool" where
  "evidence_only n = List.member
     [MsVerifiedArrival, MsAccessWindow, MsVerifiedHaulerIdentity, MsResidentialHatchGuard] n"

definition milestone_ok :: "milestone \<Rightarrow> bool" where
  "milestone_ok m = (opt_id_ok ''gcmd'' (ml_commandId m) \<and> milestone_state_ok (ml_state m) \<and>
     evidence_only (ml_name m) = is_none (ml_commandId m))"

section \<open>Executions\<close>

definition HOMECOMING_REQUIRED_MILESTONES :: "milestone_name list" where
  "HOMECOMING_REQUIRED_MILESTONES =
     [MsPreheat, MsVerifiedArrival, MsPathwayLighting, MsUnlock, MsRelock]"

definition HAULER_REQUIRED_MILESTONES :: "milestone_name list" where
  "HAULER_REQUIRED_MILESTONES =
     [MsAccessWindow, MsVerifiedHaulerIdentity, MsServiceHatchUnlock, MsServiceHatchRelock,
      MsResidentialHatchGuard]"

datatype execution_status = ExScheduled | ExRunning | ExObserved | ExFailed

record execution =
  ex_id :: string
  ex_organizationId :: string
  ex_missionId :: string
  ex_operationId :: string
  ex_routineId :: string
  ex_routineVersionId :: string
  ex_programKind :: "program_kind option"
  ex_status :: execution_status
  ex_triggeredByEvidenceId :: string
  ex_evidenceIds :: "string list"
  ex_startedAt :: instant
  ex_deadline :: instant
  ex_milestones :: "milestone list"
  ex_updatedAt :: instant
  ex_completedAt :: "instant option"

definition required_milestones :: "program_kind option \<Rightarrow> milestone_name list" where
  "required_milestones k =
     (if k = Some ScheduledHaulerAccess then HAULER_REQUIRED_MILESTONES
      else HOMECOMING_REQUIRED_MILESTONES)"

definition milestone_fits_execution :: "execution \<Rightarrow> milestone \<Rightarrow> bool" where
  "milestone_fits_execution x m = (
     (case milestone_resolvedAt (ml_state m) of None \<Rightarrow> True | Some t \<Rightarrow> t \<le> ex_updatedAt x) \<and>
     (case milestone_evidenceId (ml_state m) of None \<Rightarrow> True
      | Some e \<Rightarrow> List.member (ex_evidenceIds x) e))"

definition execution_ok :: "execution \<Rightarrow> bool" where
  "execution_ok x = (
     id_ok ''exe'' (ex_id x) \<and> id_ok ''org'' (ex_organizationId x) \<and> id_ok ''mis'' (ex_missionId x) \<and>
     id_ok ''op'' (ex_operationId x) \<and> id_ok ''rtn'' (ex_routineId x) \<and>
     id_ok ''rtv'' (ex_routineVersionId x) \<and> id_ok ''evd'' (ex_triggeredByEvidenceId x) \<and>
     list_all (id_ok ''evd'') (ex_evidenceIds x) \<and>
     list_all milestone_ok (ex_milestones x) \<and> length (ex_milestones x) = 5 \<and>
     unique (List.map ml_name (ex_milestones x)) \<and>
     list_all (\<lambda>n. List.member (List.map ml_name (ex_milestones x)) n)
       (required_milestones (ex_programKind x)) \<and>
     ex_startedAt x \<le> ex_deadline x \<and> ex_startedAt x \<le> ex_updatedAt x \<and>
     List.member [ExObserved, ExFailed] (ex_status x) = (\<not> is_none (ex_completedAt x)) \<and>
     (case ex_completedAt x of None \<Rightarrow> True | Some t \<Rightarrow> ex_startedAt x \<le> t) \<and>
     unique (ex_evidenceIds x) \<and> List.member (ex_evidenceIds x) (ex_triggeredByEvidenceId x) \<and>
     list_all (milestone_fits_execution x) (ex_milestones x) \<and>
     \<not> (ex_status x = ExObserved \<and> \<not> list_all (\<lambda>m. is_completed (ml_state m)) (ex_milestones x)) \<and>
     \<not> (ex_status x = ExFailed \<and> \<not> list_ex (\<lambda>m. is_failed (ml_state m)) (ex_milestones x) \<and>
        (case ex_completedAt x of None \<Rightarrow> False | Some t \<Rightarrow> t < ex_deadline x)))"

section \<open>Readiness\<close>

datatype readiness_reason = AllCompleted | KnownFailure | DeadlineElapsed

datatype readiness = NotReady | Ready readiness_reason

definition classifyExecutionReadiness :: "execution \<Rightarrow> instant \<Rightarrow> err + readiness" where
  "classifyExecutionReadiness x evaluatedAt =
     (if \<not> execution_ok x then Inl (ZodError ''Execution'')
      else if list_ex (\<lambda>m. is_failed (ml_state m)) (ex_milestones x) then Inr (Ready KnownFailure)
      else if list_all (\<lambda>m. is_completed (ml_state m)) (ex_milestones x) then Inr (Ready AllCompleted)
      else if ex_deadline x \<le> evaluatedAt then Inr (Ready DeadlineElapsed)
      else Inr NotReady)"

section \<open>Lemmas\<close>

lemma classifyExecutionReadiness_total:
  "execution_ok x \<Longrightarrow> \<exists>r. classifyExecutionReadiness x t = Inr r"
  by (simp add: classifyExecutionReadiness_def)

lemma execution_milestone_names:
  assumes "execution_ok x"
  shows "set (List.map ml_name (ex_milestones x)) = set (required_milestones (ex_programKind x))"
proof -
  let ?ns = "List.map ml_name (ex_milestones x)" and ?rs = "required_milestones (ex_programKind x)"
  have sub: "set ?rs \<subseteq> set ?ns" and d: "distinct ?ns" and len: "length ?ns = 5"
    using assms by (auto simp: execution_ok_def list_all_iff)
  have "distinct ?rs" "length ?rs = 5"
    by (simp_all add: required_milestones_def HAULER_REQUIRED_MILESTONES_def
        HOMECOMING_REQUIRED_MILESTONES_def)
  then have "card (set ?rs) = card (set ?ns)"
    using d len by (metis distinct_card)
  with sub show ?thesis
    by (metis List.finite_set card_subset_eq)
qed

section \<open>Properties\<close>


text \<open>Readiness is monotone in time and sound: once an execution is ready it
  stays ready for the same reason at every later instant as long as it is not
  changed; with a known failure it is ready as failed whatever the time; and it is
  ready before its deadline only if a milestone failed or all five completed.
\<close>

theorem readiness_is_monotone_and_sound:
  assumes "execution_ok x" "t \<le> t'" "classifyExecutionReadiness x t = Inr (Ready r)"
  shows "classifyExecutionReadiness x t' = Inr (Ready r) \<and>
    (t < ex_deadline x \<longrightarrow>
      (\<exists>m \<in> set (ex_milestones x). is_failed (ml_state m)) \<or>
      (\<forall>m \<in> set (ex_milestones x). is_completed (ml_state m)))"
  using assms
  by (auto simp: classifyExecutionReadiness_def list_ex_iff list_all_iff split: if_splits)

definition ex_execution :: execution where
  "ex_execution = \<lparr> ex_id = ''exe_aaaaaaaa'', ex_organizationId = ''org_aaaaaaaa'',
     ex_missionId = ''mis_aaaaaaaa'', ex_operationId = ''op_aaaaaaaa'', ex_routineId = ''rtn_bbbbbbbb'',
     ex_routineVersionId = ''rtv_bbbbbbbb'', ex_programKind = Some NightShiftHomecoming,
     ex_status = ExRunning, ex_triggeredByEvidenceId = ''evd_aaaaaaaa'',
     ex_evidenceIds = [''evd_aaaaaaaa''], ex_startedAt = 0, ex_deadline = 1000,
     ex_milestones =
       [\<lparr> ml_name = MsPreheat, ml_commandId = Some ''gcmd_aaaaaaaa'',
          ml_state = MilestoneCompleted ''evd_aaaaaaaa'' 5 \<rparr>,
        \<lparr> ml_name = MsVerifiedArrival, ml_commandId = None, ml_state = MilestonePending \<rparr>,
        \<lparr> ml_name = MsPathwayLighting, ml_commandId = Some ''gcmd_bbbbbbbb'', ml_state = MilestonePending \<rparr>,
        \<lparr> ml_name = MsUnlock, ml_commandId = Some ''gcmd_cccccccc'', ml_state = MilestonePending \<rparr>,
        \<lparr> ml_name = MsRelock, ml_commandId = Some ''gcmd_dddddddd'', ml_state = MilestonePending \<rparr>],
     ex_updatedAt = 10, ex_completedAt = None \<rparr>"

lemma ex_execution_ok: "execution_ok ex_execution"
  by code_simp


theorem readiness_is_monotone_and_sound_witness:
  "classifyExecutionReadiness ex_execution 2000 = Inr (Ready DeadlineElapsed)"
proof -
  have "classifyExecutionReadiness ex_execution 1000 = Inr (Ready DeadlineElapsed)"
    using ex_execution_ok by (simp add: classifyExecutionReadiness_def) (simp add: ex_execution_def)
  then show ?thesis
    using readiness_is_monotone_and_sound[OF ex_execution_ok, of 1000 2000 DeadlineElapsed] by simp
qed

end
