(* ===== verification/Models.thy ===== *)
theory Models
  imports Gateway Execution_Progress
begin

text \<open>
  The application's records of \<open>application/src/models.ts\<close> and
  \<open>application/src/mission-fence.ts\<close>: fences and leases, outbox messages and
  their payload references, planned and materialized gateway effects, stored
  callbacks, cancellations and reconciliation polls.
\<close>

section \<open>Contexts, fences and leases\<close>

text \<open>
  A fence carries an opaque token; the code only ever compares tokens and their
  storage fingerprints, so a token is represented by its entropy string and the
  fingerprint is the SHA-256 parameter applied to it.
\<close>

record fence =
  fe_organizationId :: string
  fe_missionId :: string
  fe_ownerId :: string
  fe_epoch :: nat
  fe_token :: string

record lease =
  le_missionId :: string
  le_ownerId :: string
  le_epoch :: nat
  le_tokenFingerprint :: string
  le_acquiredAt :: instant
  le_expiresAt :: instant
  le_renewedAt :: instant
  le_releasedAt :: "instant option"

text \<open>
  A mission execution context: its fence, whether its abort signal has fired, and
  its principal.  An authenticated session is the other kind of context.
\<close>

record session_context =
  sc_sessionId :: string
  sc_principal :: principal
  sc_csrfToken :: string
  sc_issuedAt :: instant
  sc_expiresAt :: instant
  sc_authenticatedAt :: instant

record execution_context =
  xc_fence :: fence
  xc_aborted :: bool
  xc_principal :: principal

datatype actor =
    SessionActor session_context
  | MissionActor execution_context

fun actor_principal :: "actor \<Rightarrow> principal" where
  "actor_principal (SessionActor c) = sc_principal c"
| "actor_principal (MissionActor c) = xc_principal c"

definition assertMissionExecutionContext :: "execution_context \<Rightarrow> string \<Rightarrow> string \<Rightarrow> err + unit" where
  "assertMissionExecutionContext c org mission =
     (if fe_organizationId (xc_fence c) \<noteq> org \<or> fe_missionId (xc_fence c) \<noteq> mission \<or>
         pr_organizationId (xc_principal c) \<noteq> org \<or> pr_role (xc_principal c) \<noteq> Service
      then Inl (ConflictError ''Mission execution context does not authorize this mutation'')
      else if xc_aborted c then Inl (PlainError ''AbortError'')
      else Inr ())"

section \<open>Outbox\<close>

datatype outbox_topic =
    TopicGatewayDispatch | TopicGatewayEffectReconcile | TopicExecutionDeadline
  | TopicIdentityArrival | TopicMissionResume | TopicMissionVerify | TopicOperationReconcile

datatype outbox_payload =
    GatewayReference (og_organizationId: string) (og_operationId: string) (og_commandId: string)
      (og_generation: nat)
  | ExecutionDeadlineReference (od_organizationId: string) (od_missionId: string)
      (od_operationId: string) (od_executionId: string)
  | IdentityArrivalReference (oi_organizationId: string) (oi_missionId: string)
      (oi_operationId: string) (oi_executionId: string) (oi_evidenceId: string)
  | MissionReference (om_organizationId: string) (om_missionId: string)
  | OperationReconciliationReference (oo_organizationId: string) (oo_operationId: string)
      (oo_attemptId: string)

datatype outbox_status = OutPending | OutClaimed | OutDispatched | OutCancelled

record outbox_message =
  ob_id :: string
  ob_organizationId :: string
  ob_topic :: outbox_topic
  ob_deduplicationKey :: string
  ob_payload :: outbox_payload
  ob_status :: outbox_status
  ob_availableAt :: instant
  ob_createdAt :: instant
  ob_claimedBy :: "string option"
  ob_claimExpiresAt :: "instant option"
  ob_dispatchedAt :: "instant option"
  ob_deliveryAttempts :: nat
  ob_lastErrorCode :: "string option"

text \<open>A new message of a topic, as every producer of the application builds it.\<close>

definition new_outbox_message ::
  "string \<Rightarrow> string \<Rightarrow> outbox_topic \<Rightarrow> string \<Rightarrow> outbox_payload \<Rightarrow> instant \<Rightarrow> instant \<Rightarrow> outbox_message" where
  "new_outbox_message i org topic key payload availableAt createdAt =
     \<lparr> ob_id = i, ob_organizationId = org, ob_topic = topic, ob_deduplicationKey = key,
       ob_payload = payload, ob_status = OutPending, ob_availableAt = availableAt,
       ob_createdAt = createdAt, ob_claimedBy = None, ob_claimExpiresAt = None,
       ob_dispatchedAt = None, ob_deliveryAttempts = 0, ob_lastErrorCode = None \<rparr>"

text \<open>The reference schemas, and which payload a topic carries.\<close>

fun outbox_payload_ok :: "outbox_payload \<Rightarrow> bool" where
  "outbox_payload_ok (GatewayReference o' op c g) =
     (id_ok ''org'' o' \<and> id_ok ''op'' op \<and> id_ok ''gcmd'' c \<and> 0 < g)"
| "outbox_payload_ok (ExecutionDeadlineReference o' m op x) =
     (id_ok ''org'' o' \<and> id_ok ''mis'' m \<and> id_ok ''op'' op \<and> id_ok ''exe'' x)"
| "outbox_payload_ok (IdentityArrivalReference o' m op x e) =
     (id_ok ''org'' o' \<and> id_ok ''mis'' m \<and> id_ok ''op'' op \<and> id_ok ''exe'' x \<and> id_ok ''evd'' e)"
| "outbox_payload_ok (MissionReference o' m) = (id_ok ''org'' o' \<and> id_ok ''mis'' m)"
| "outbox_payload_ok (OperationReconciliationReference o' op a) =
     (id_ok ''org'' o' \<and> id_ok ''op'' op \<and> id_ok ''att'' a)"

fun payload_fits_topic :: "outbox_topic \<Rightarrow> outbox_payload \<Rightarrow> bool" where
  "payload_fits_topic TopicGatewayDispatch (GatewayReference _ _ _ _) = True"
| "payload_fits_topic TopicGatewayEffectReconcile (GatewayReference _ _ _ _) = True"
| "payload_fits_topic TopicExecutionDeadline (ExecutionDeadlineReference _ _ _ _) = True"
| "payload_fits_topic TopicIdentityArrival (IdentityArrivalReference _ _ _ _ _) = True"
| "payload_fits_topic TopicMissionResume (MissionReference _ _) = True"
| "payload_fits_topic TopicMissionVerify (MissionReference _ _) = True"
| "payload_fits_topic TopicOperationReconcile (OperationReconciliationReference _ _ _) = True"
| "payload_fits_topic _ _ = False"

fun payload_organization :: "outbox_payload \<Rightarrow> string" where
  "payload_organization (GatewayReference o' _ _ _) = o'"
| "payload_organization (ExecutionDeadlineReference o' _ _ _) = o'"
| "payload_organization (IdentityArrivalReference o' _ _ _ _) = o'"
| "payload_organization (MissionReference o' _) = o'"
| "payload_organization (OperationReconciliationReference o' _ _) = o'"

fun payload_mission :: "outbox_payload \<Rightarrow> string option" where
  "payload_mission (ExecutionDeadlineReference _ m _ _) = Some m"
| "payload_mission (IdentityArrivalReference _ m _ _ _) = Some m"
| "payload_mission (MissionReference _ m) = Some m"
| "payload_mission _ = None"

fun payload_operation :: "outbox_payload \<Rightarrow> string option" where
  "payload_operation (GatewayReference _ op _ _) = Some op"
| "payload_operation (ExecutionDeadlineReference _ _ op _) = Some op"
| "payload_operation (IdentityArrivalReference _ _ op _ _) = Some op"
| "payload_operation (OperationReconciliationReference _ op _) = Some op"
| "payload_operation _ = None"

section \<open>Gateway effects\<close>

datatype cancellation_policy = CancelIfPending | MandatoryRelock

datatype effect_authorization = ManualAuthorization | MissionLeaseAuthorization (ea_epoch: nat)

fun effect_authorization_ok :: "effect_authorization \<Rightarrow> bool" where
  "effect_authorization_ok ManualAuthorization = True"
| "effect_authorization_ok (MissionLeaseAuthorization e) = (0 < e)"

text \<open>\<open>DeviceExecutionMilestoneNameSchema\<close>: the milestones a gateway effect may name.\<close>

definition device_milestone_ok :: "milestone_name \<Rightarrow> bool" where
  "device_milestone_ok n = List.member [MsPreheat, MsPathwayLighting, MsUnlock, MsRelock] n"

record planned_effect =
  pf_instruction :: instruction
  pf_logicalKey :: string
  pf_dispatchAt :: instant
  pf_milestone :: milestone_name
  pf_cancellationPolicy :: cancellation_policy

definition parsePlannedGatewayEffect :: "planned_effect \<Rightarrow> err + planned_effect" where
  "parsePlannedGatewayEffect p =
     (if instruction_ok (pf_instruction p) \<and> logical_key_ok (pf_logicalKey p) \<and>
         device_milestone_ok (pf_milestone p)
      then Inr p else Inl (ZodError ''PlannedGatewayEffect''))"

record effect_intent =
  ei_command :: command
  ei_dispatchAt :: instant
  ei_milestone :: milestone_name
  ei_cancellationPolicy :: cancellation_policy
  ei_authorization :: effect_authorization
  ei_createdAt :: instant

record effect_record =
  ef_command :: command
  ef_dispatchAt :: instant
  ef_milestone :: milestone_name
  ef_cancellationPolicy :: cancellation_policy
  ef_authorization :: effect_authorization
  ef_dispatchState :: dispatch
  ef_effectState :: effect_state
  ef_reconciliationAttempts :: nat
  ef_lastReconciledAt :: "instant option"
  ef_createdAt :: instant
  ef_updatedAt :: instant

definition is_relock :: "milestone_name \<Rightarrow> command \<Rightarrow> bool" where
  "is_relock m c = (m = MsRelock \<and> instruction_kind (gc_instruction c) = KLockedDesiredState)"

definition effect_record_ok :: "hash_params \<Rightarrow> effect_record \<Rightarrow> bool" where
  "effect_record_ok hp r = (command_ok hp (ef_command r) \<and> device_milestone_ok (ef_milestone r) \<and>
     effect_authorization_ok (ef_authorization r) \<and> dispatch_ok (ef_dispatchState r) \<and>
     effect_state_ok (ef_effectState r) \<and>
     gc_id (ef_command r) = dp_commandId (ef_dispatchState r) \<and>
     gc_id (ef_command r) = es_commandId (ef_effectState r) \<and>
     (ef_cancellationPolicy r = MandatoryRelock) = is_relock (ef_milestone r) (ef_command r))"

text \<open>The stored effect row; a pending status is \<open>None\<close>, the others are callback statuses.\<close>

record effect_row =
  er_commandId :: string
  er_operationId :: string
  er_missionId :: string
  er_dispatchAt :: instant
  er_milestone :: milestone_name
  er_cancellationPolicy :: cancellation_policy
  er_authorization :: effect_authorization
  er_status :: "callback_status option"
  er_callbackId :: "string option"
  er_cancellationRequestedAt :: "instant option"
  er_reconciliationAttempts :: nat
  er_lastReconciledAt :: "instant option"
  er_createdAt :: instant
  er_updatedAt :: instant

datatype poll_resolution =
    PollWaiting | PollRetryAuthorized | PollTerminalFound | PollBudgetExhausted | PollEscalated

record effect_poll =
  ep_commandId :: string
  ep_operationId :: string
  ep_sequence :: nat
  ep_dispatchGeneration :: nat
  ep_observedDispatchStatus :: dispatch_status
  ep_observedEffectStatus :: "callback_status option"
  ep_cancellationRequested :: bool
  ep_resolution :: poll_resolution
  ep_occurredAt :: instant

section \<open>Callbacks, executions, cancellations, polls\<close>

record stored_callback =
  sb_callback :: callback
  sb_verifierKeyId :: string
  sb_verifierVersion :: nat
  sb_verifiedPayloadDigest :: string
  sb_receivedAt :: instant

record stored_execution =
  sx_operationId :: string
  sx_execution :: execution
  sx_authorization :: effect_authorization

datatype cancellation_checkpoint =
    BeforeOperation | UnclaimedOperation | ClaimedOrCommitted | GatewayDispatched | DurableEffect

datatype cancellation_outcome =
    CancelledWithoutMutation | CancelledUnclaimedOperations | StoppedRemainingActions
  | ReconcileDispatchedEffect | CompensatingPlanRequired

record cancellation =
  ca_id :: string
  ca_organizationId :: string
  ca_missionId :: string
  ca_requestedBy :: string
  ca_reason :: string
  ca_checkpoint :: cancellation_checkpoint
  ca_outcome :: cancellation_outcome
  ca_compensatingPlanRequired :: bool
  ca_requestedAt :: instant

datatype operation_poll_resolution = OpPollCommitted | OpPollDefinitelyAbsent | OpPollStillUnknown | OpPollFailed

record operation_poll =
  rp_operationId :: string
  rp_sequence :: nat
  rp_resolution :: operation_poll_resolution
  rp_occurredAt :: instant

datatype check_type = CheckCapability | CheckConflict | CheckHardInvariant | CheckSchema

record plan_check =
  pk_type :: check_type
  pk_passed :: bool
  pk_message :: string

record plan_validation =
  pv_planId :: string
  pv_valid :: bool
  pv_checks :: "plan_check list"
  pv_createdAt :: instant

datatype scenario = ScenarioAccess | ScenarioEnergy | ScenarioTiming | ScenarioTransportFailure

record scenario_result =
  sr_scenario :: scenario
  sr_passed :: bool
  sr_evidence :: string

record plan_simulation =
  ps_planId :: string
  ps_feasible :: bool
  ps_projected :: rat
  ps_results :: "scenario_result list"
  ps_createdAt :: instant

text \<open>A compensating plan, the action it proposes and the operation it compensates.\<close>

record plan_link =
  lk_organizationId :: string
  lk_planId :: string
  lk_actionId :: string
  lk_operationId :: string
  lk_createdAt :: instant

datatype capability_kind =
    CapLockDesiredState | CapPathwayLighting | CapTemperatureTarget | CapBatteryProjection
  | CapServiceHatchAccess | CapResidentialHatchLockState

datatype device_health = HealthOnline | HealthDegraded | HealthOffline

datatype device_kind =
    LockDevice | ServiceHatchLockDevice | ResidentialHatchLockDevice | PathwayLightDevice
  | ThermostatDevice | BatteryMeterDevice

record device_row =
  dv_id :: string
  dv_palaceId :: string
  dv_kind :: device_kind
  dv_health :: device_health

record capability_row =
  cp_deviceId :: string
  cp_kind :: capability_kind
  cp_enabled :: bool

record tag_row =
  tg_id :: string
  tg_active :: bool
  tg_verified :: bool

section \<open>Lemmas\<close>

lemma new_outbox_message_sel [simp]:
  "ob_id (new_outbox_message i g t k p a c) = i"
  "ob_organizationId (new_outbox_message i g t k p a c) = g"
  "ob_topic (new_outbox_message i g t k p a c) = t"
  "ob_deduplicationKey (new_outbox_message i g t k p a c) = k"
  "ob_payload (new_outbox_message i g t k p a c) = p"
  "ob_status (new_outbox_message i g t k p a c) = OutPending"
  "ob_availableAt (new_outbox_message i g t k p a c) = a"
  "ob_createdAt (new_outbox_message i g t k p a c) = c"
  "ob_claimedBy (new_outbox_message i g t k p a c) = None"
  "ob_deliveryAttempts (new_outbox_message i g t k p a c) = 0"
  by (simp_all add: new_outbox_message_def)

lemma assertMissionExecutionContext_iff [simp]:
  "assertMissionExecutionContext c org mission = Inr u \<longleftrightarrow>
     fe_organizationId (xc_fence c) = org \<and> fe_missionId (xc_fence c) = mission \<and>
     pr_organizationId (xc_principal c) = org \<and> pr_role (xc_principal c) = Service \<and> \<not> xc_aborted c"
  by (cases u) (auto simp: assertMissionExecutionContext_def)

lemma parsePlannedGatewayEffect_iff [simp]:
  "parsePlannedGatewayEffect p = Inr q \<longleftrightarrow>
     q = p \<and> instruction_ok (pf_instruction p) \<and> logical_key_ok (pf_logicalKey p) \<and>
     device_milestone_ok (pf_milestone p)"
  by (auto simp: parsePlannedGatewayEffect_def)

end
