(* ===== verification/Local_Time.thy ===== *)
theory Local_Time
  imports Identifiers
begin

text \<open>
  Wall-clock resolution: \<open>nextLocalTime\<close> and \<open>resolveZonedInstants\<close> of
  \<open>application/src/homecoming-execution-planner.ts\<close> and the access window of
  \<open>application/src/scheduled-hauler-access-execution-planner.ts\<close>.

  The rendering of an instant in a time zone is done by the runtime's
  \<open>Intl.DateTimeFormat\<close>, a parameter here: a zone is a function from instants to the
  local calendar minute (the minutes from the civil epoch to the rendered year,
  month, day, hour and minute), or nothing for a zone the runtime does not know.
  Two renderings agree in all five fields exactly when their minutes are equal.
\<close>

type_synonym wall_clock = "instant \<Rightarrow> int"

type_synonym zones = "string \<Rightarrow> wall_clock option"

section \<open>Times of day\<close>

definition digit_value :: "char \<Rightarrow> int" where
  "digit_value c = int (of_char c) - 48"

text \<open>\<open>Number(timeOfDay.slice(0, 2)) * 60 + Number(timeOfDay.slice(3, 5))\<close>\<close>

definition time_minutes :: "string \<Rightarrow> int" where
  "time_minutes s = (case s of
     [h1, h2, c, m1, m2] \<Rightarrow>
       (10 * digit_value h1 + digit_value h2) * 60 + 10 * digit_value m1 + digit_value m2
   | _ \<Rightarrow> 0)"

section \<open>Resolving a local minute\<close>

text \<open>The offsets that the zone shows around the wanted minute, sampled hourly.\<close>

definition zone_offsets :: "wall_clock \<Rightarrow> int \<Rightarrow> int list" where
  "zone_offsets w target = remdups (List.map (\<lambda>k. let sample = target * 60000 + k * 3600000 in
     w sample * 60000 - sample) [-36..36])"

definition resolveZonedInstants :: "wall_clock \<Rightarrow> int \<Rightarrow> instant list" where
  "resolveZonedInstants w target = sort (remdups (filter (\<lambda>c. w c = target)
     (List.map (\<lambda>off. target * 60000 - off) (zone_offsets w target))))"

text \<open>
  The next exact occurrence of a time of day: today's earliest instant not before
  the reference, or tomorrow's first; a missing local time fails.
\<close>

definition next_in_zone :: "wall_clock \<Rightarrow> instant \<Rightarrow> int \<Rightarrow> err + instant" where
  "next_in_zone w reference m = (let day = w reference div 1440;
      today = resolveZonedInstants w (day * 1440 + m) in
     case find (\<lambda>c. reference \<le> c) today of
       Some c \<Rightarrow> Inr c
     | None \<Rightarrow>
         if today = [] \<and> w reference mod 1440 \<le> m
           then Inl (ConflictError ''Scheduled local time does not exist on this date'')
         else (case resolveZonedInstants w ((day + 1) * 1440 + m) of
             [] \<Rightarrow> Inl (ConflictError ''Scheduled local time does not exist on the next date'')
           | c # _ \<Rightarrow> Inr c))"

definition nextLocalTime :: "zones \<Rightarrow> instant \<Rightarrow> string \<Rightarrow> string \<Rightarrow> err + instant" where
  "nextLocalTime zs reference timeZone timeOfDay =
     (if \<not> time_of_day_ok timeOfDay then Inl (ConflictError ''Scheduled local time is invalid'')
      else case zs timeZone of
        None \<Rightarrow> Inl (ConflictError ''Timezone is not supported'')
      | Some w \<Rightarrow> next_in_zone w reference (time_minutes timeOfDay))"

section \<open>Access windows\<close>

text \<open>A window that ends before it starts wraps over midnight.\<close>

definition withinLocalWindow :: "zones \<Rightarrow> instant \<Rightarrow> string \<Rightarrow> string \<Rightarrow> string \<Rightarrow> err + bool" where
  "withinLocalWindow zs observedAt timezone windowStart windowEnd = (case zs timezone of
     None \<Rightarrow> Inl (RangeError ''Invalid time zone'')
   | Some w \<Rightarrow> (let minute = w observedAt mod 1440; start = time_minutes windowStart; stop = time_minutes windowEnd in
       Inr (if start < stop then start \<le> minute \<and> minute < stop else start \<le> minute \<or> minute < stop)))"

definition windowEndFor :: "zones \<Rightarrow> instant \<Rightarrow> string \<Rightarrow> string \<Rightarrow> err + instant" where
  "windowEndFor zs observedAt timezone windowEnd =
     sbind (nextLocalTime zs observedAt timezone windowEnd) (\<lambda>next.
       if observedAt < next then Inr next else nextLocalTime zs (observedAt + 1000) timezone windowEnd)"

section \<open>Lemmas\<close>

lemma digit_value_le:
  "is_digit_char c \<Longrightarrow> 0 \<le> digit_value c \<and> digit_value c \<le> 9"
  "List.member ''012345'' c \<Longrightarrow> 0 \<le> digit_value c \<and> digit_value c \<le> 5"
  "List.member ''0123'' c \<Longrightarrow> 0 \<le> digit_value c \<and> digit_value c \<le> 3"
  "List.member ''01'' c \<Longrightarrow> 0 \<le> digit_value c \<and> digit_value c \<le> 1"
  "digit_value (CHR ''2'') = 2"
proof -
  have "list_all (\<lambda>c. 0 \<le> digit_value c \<and> digit_value c \<le> 9) ''0123456789''"
    "list_all (\<lambda>c. 0 \<le> digit_value c \<and> digit_value c \<le> 5) ''012345''"
    "list_all (\<lambda>c. 0 \<le> digit_value c \<and> digit_value c \<le> 3) ''0123''"
    "list_all (\<lambda>c. 0 \<le> digit_value c \<and> digit_value c \<le> 1) ''01''" by code_simp+
  then show "is_digit_char c \<Longrightarrow> 0 \<le> digit_value c \<and> digit_value c \<le> 9"
    "List.member ''012345'' c \<Longrightarrow> 0 \<le> digit_value c \<and> digit_value c \<le> 5"
    "List.member ''0123'' c \<Longrightarrow> 0 \<le> digit_value c \<and> digit_value c \<le> 3"
    "List.member ''01'' c \<Longrightarrow> 0 \<le> digit_value c \<and> digit_value c \<le> 1"
    unfolding list_all_iff is_digit_char_def List.member_iff by blast+
  show "digit_value (CHR ''2'') = 2" by code_simp
qed

lemma minute_bounds:
  fixes h a b :: int
  assumes "0 \<le> h" "h \<le> 23" "0 \<le> a" "a \<le> 5" "0 \<le> b" "b \<le> 9"
  shows "0 \<le> h * 60 + 10 * a + b \<and> h * 60 + 10 * a + b < 1440"
  using assms by simp

lemma time_minutes_range:
  assumes "time_of_day_ok s" shows "0 \<le> time_minutes s \<and> time_minutes s < 1440"
proof -
  from assms obtain h1 h2 c m1 m2 where s: "s = [h1, h2, c, m1, m2]"
    by (auto simp: time_of_day_ok_def simp del: List.member_iff split: list.split_asm)
  with assms have h: "List.member ''01'' h1 \<and> is_digit_char h2 \<or> h1 = CHR ''2'' \<and> List.member ''0123'' h2"
    and m: "List.member ''012345'' m1" "is_digit_char m2"
    by (simp_all only: time_of_day_ok_def list.case)
  have "0 \<le> 10 * digit_value h1 + digit_value h2 \<and> 10 * digit_value h1 + digit_value h2 \<le> 23"
    using h
  proof
    assume "List.member ''01'' h1 \<and> is_digit_char h2"
    with digit_value_le(4)[of h1] digit_value_le(1)[of h2] show ?thesis by linarith
  next
    assume "h1 = CHR ''2'' \<and> List.member ''0123'' h2"
    with digit_value_le(3)[of h2] digit_value_le(5) show ?thesis by auto
  qed
  with digit_value_le(2)[OF m(1)] digit_value_le(1)[OF m(2)] show ?thesis
    unfolding s time_minutes_def list.case using minute_bounds by blast
qed

lemma remdups_constant: "remdups (List.map (\<lambda>_. c) xs) = (if xs = [] then [] else [c])"
  by (induction xs) (auto simp: image_constant_conv)

lemma resolveZonedInstants_sound: "c \<in> set (resolveZonedInstants w target) \<Longrightarrow> w c = target"
  by (simp add: resolveZonedInstants_def)

lemma resolve_sorted: "sorted (resolveZonedInstants w target)"
  by (simp add: resolveZonedInstants_def)

text \<open>A zone at a fixed offset of \<open>k\<close> minutes has each local minute exactly once.\<close>

definition fixed_zone :: "int \<Rightarrow> wall_clock" where
  "fixed_zone k t = t div 60000 + k"

lemma fixed_zone_offsets: "zone_offsets (fixed_zone k) target = [k * 60000]"
proof -
  have s: "(target * 60000 + j * 3600000) div 60000 = target + j * 60" for j :: int
  proof -
    have "target * 60000 + j * 3600000 = (target + j * 60) * 60000" by simp
    then show ?thesis by (simp only: nonzero_mult_div_cancel_right)
  qed
  have "fixed_zone k (target * 60000 + j * 3600000) * 60000 - (target * 60000 + j * 3600000) = k * 60000" for j
    unfolding fixed_zone_def s by (simp add: algebra_simps)
  then have "zone_offsets (fixed_zone k) target = remdups (List.map (\<lambda>_. k * 60000) [-36..36])"
    by (simp only: zone_offsets_def Let_def)
  then show ?thesis by (simp only: remdups_constant upto_Nil2) simp
qed

lemma fixed_zone_resolve: "resolveZonedInstants (fixed_zone k) target = [(target - k) * 60000]"
proof -
  have e: "(target - k) * 60000 = target * 60000 - k * 60000" by (simp only: left_diff_distrib)
  have "(target - k) * 60000 div 60000 = target - k" by (rule nonzero_mult_div_cancel_right) simp
  then have "fixed_zone k (target * 60000 - k * 60000) = target" unfolding fixed_zone_def e by simp
  then show ?thesis unfolding resolveZonedInstants_def fixed_zone_offsets e by simp
qed

lemma div_bounds:
  fixes n x :: int assumes "0 < n" shows "n * (x div n) \<le> x \<and> x < n * (x div n) + n"
  using mult_div_mod_eq[of n x] pos_mod_sign[OF assms, of x] pos_mod_bound[OF assms, of x] by linarith

lemma fixed_zone_next:
  assumes "0 \<le> m" "m < 1440"
  shows "next_in_zone (fixed_zone k) t m = Inr c \<longleftrightarrow>
    t \<le> c \<and> c < t + 86400000 \<and> c mod 60000 = 0 \<and> fixed_zone k c mod 1440 = m"
proof -
  let ?day = "fixed_zone k t div 1440"
  let ?x = "(?day * 1440 + m - k) * 60000" and ?y = "((?day + 1) * 1440 + m - k) * 60000"
  have eval: "next_in_zone (fixed_zone k) t m = Inr (if t \<le> ?x then ?x else ?y)"
    unfolding next_in_zone_def Let_def fixed_zone_resolve find.simps
    by (simp only: option.case list.case list.distinct HOL.simp_thms if_False split: if_split) blast
  define q where "q = t div 60000"
  define d where "d = ?day"
  have q: "60000 * q \<le> t" "t < 60000 * q + 60000" using div_bounds[of 60000 t] unfolding q_def by simp_all
  have d: "1440 * d \<le> q + k" "q + k < 1440 * d + 1440"
  proof -
    have "d = (q + k) div 1440" by (simp only: d_def q_def fixed_zone_def)
    with div_bounds[of 1440 "q + k"] show "1440 * d \<le> q + k" "q + k < 1440 * d + 1440" by simp_all
  qed
  have "(if t \<le> (d * 1440 + m - k) * 60000 then (d * 1440 + m - k) * 60000 else ((d + 1) * 1440 + m - k) * 60000) = c \<longleftrightarrow>
    t \<le> c \<and> c < t + 86400000 \<and> c mod 60000 = 0 \<and> (c div 60000 + k) mod 1440 = m"
    (is "?L = c \<longleftrightarrow> ?R")
  proof
    assume c: "?L = c"
    then obtain e where e: "c = (e * 1440 + m - k) * 60000" "e = d \<or> e = d + 1" by metis
    have "c div 60000 = e * 1440 + m - k" "c mod 60000 = 0" unfolding e(1) by simp_all
    moreover have "(e * 1440 + m) mod 1440 = m" using assms by simp
    moreover have "t \<le> c \<and> c < t + 86400000" using c q d assms by (auto split: if_splits)
    ultimately show ?R by simp
  next
    assume R: ?R
    define p where "p = c div 60000"
    have p: "c = 60000 * p" using mult_div_mod_eq[of 60000 c] R unfolding p_def by linarith
    obtain e where e: "p + k = 1440 * e + m" using R unfolding p_def by (metis mult_div_mod_eq)
    have "e = d \<or> e = d + 1" using R q d assms e unfolding p by linarith
    then show "?L = c" using R q d assms e unfolding p by (auto simp: algebra_simps)
  qed
  then show ?thesis unfolding eval d_def[symmetric] fixed_zone_def[of k c] by (simp only: sum.inject)
qed

section \<open>Properties\<close>

text \<open>Scheduled times are never invented: whatever the zone does, daylight-saving
  gaps and repetitions included, a resolved instant shows exactly the requested
  time of day in that zone, on the reference's local date and then not before the
  reference, or on the next local date.
\<close>

theorem resolved_times_are_exact:
  assumes "nextLocalTime zs reference zone tod = Inr t"
  shows "\<exists>w. zs zone = Some w \<and> w t mod 1440 = time_minutes tod \<and>
    (w t div 1440 = w reference div 1440 \<and> reference \<le> t \<or> w t div 1440 = w reference div 1440 + 1)"
proof -
  from assms obtain w where w: "zs zone = Some w" "time_of_day_ok tod" "next_in_zone w reference (time_minutes tod) = Inr t"
    by (auto simp: nextLocalTime_def split: if_split_asm option.split_asm)
  note m = time_minutes_range[OF w(2)]
  let ?day = "w reference div 1440" and ?m = "time_minutes tod"
  from w(3) consider "reference \<le> t" "t \<in> set (resolveZonedInstants w (?day * 1440 + ?m))"
    | "t \<in> set (resolveZonedInstants w ((?day + 1) * 1440 + ?m))"
    by (auto simp: next_in_zone_def Let_def split: option.split_asm if_split_asm list.split_asm dest!: find_Some_in)
  then show ?thesis
  proof cases
    case 1
    then have "w t = ?m + ?day * 1440" using resolveZonedInstants_sound by fastforce
    then have "w t mod 1440 = ?m" "w t div 1440 = ?day" using m by simp_all
    with w(1) 1(1) show ?thesis by blast
  next
    case 2
    then have "w t = ?m + (?day + 1) * 1440" using resolveZonedInstants_sound by fastforce
    then have "w t mod 1440 = ?m" "w t div 1440 = ?day + 1" using m by (simp_all only: mod_mult_self1 div_mult_self1) simp_all
    with w(1) show ?thesis by blast
  qed
qed

text \<open>In a zone at a fixed offset the resolution computes the reference: it always
  succeeds, and the result is the one whole minute within the next twenty-four hours
  that shows the requested time of day.
\<close>

theorem fixed_offset_resolution_is_next_occurrence:
  assumes "zs zone = Some (fixed_zone k)" "time_of_day_ok tod"
  shows "nextLocalTime zs reference zone tod = Inr t \<longleftrightarrow>
    reference \<le> t \<and> t < reference + 86400000 \<and> t mod 60000 = 0 \<and> fixed_zone k t mod 1440 = time_minutes tod"
  using assms fixed_zone_next[of "time_minutes tod" k reference t] time_minutes_range[OF assms(2)]
  by (simp add: nextLocalTime_def)

section \<open>A concrete zone\<close>

definition ex_zones :: zones where
  "ex_zones z = (if z = ''UTC'' then Some (fixed_zone 0) else None)"

theorem resolved_times_are_exact_witness:
  "\<exists>w. ex_zones ''UTC'' = Some w \<and> w 91800000 mod 1440 = time_minutes ''01:30'' \<and> w 91800000 div 1440 = 1"
proof -
  have "nextLocalTime ex_zones 6000000 ''UTC'' ''01:30'' = Inr 91800000" by code_simp
  from resolved_times_are_exact[OF this] show ?thesis by (auto simp: ex_zones_def fixed_zone_def)
qed

theorem fixed_offset_resolution_is_next_occurrence_witness:
  "nextLocalTime ex_zones 6000000 ''UTC'' ''01:30'' = Inr 91800000"
proof -
  have "ex_zones ''UTC'' = Some (fixed_zone 0)" "time_of_day_ok ''01:30''"
    "fixed_zone 0 91800000 mod 1440 = time_minutes ''01:30''" by (simp add: ex_zones_def) code_simp+
  then show ?thesis using fixed_offset_resolution_is_next_occurrence[of ex_zones "''UTC''" 0 "''01:30''" 6000000 91800000] by simp
qed

end
