(* ===== verification/Store.thy ===== *)
theory Store
  imports Clarifications Context_Receipts Models Local_Time
begin

text \<open>
  The tenant's database and the repositories over it that missions, plans,
  approvals, operations, routines and the outbox use
  (\<open>db/src/repositories.ts\<close>), with the guards that the migrations install as
  triggers (\<open>db/migrations/0000_tiresome_may_parker.sql\<close>).

  One record holds one organization's tables; a table is the list of its rows in
  insertion order.  A transaction is a function from the tenant state: it ends in
  an error, and then has no resulting state, or in a result with the new state.
  The serializable isolation of the program's transactions makes the record-version
  comparisons after a row lock vacuous, so record versions are not kept.  A
  comparison of two canonical digests of values held in memory is read as equality
  of the values.
\<close>

section \<open>Environment and tenant state\<close>

datatype id_kind =
    IdApproval | IdAttempt | IdCancellation | IdExecution | IdEvidence | IdReceipt
  | IdMissionEvent | IdOperation | IdOutbox | IdPlan | IdRun | IdVerification
  | IdClarificationRequest | IdClarificationAnswer

text \<open>\<open>PREFIXES\<close> of \<open>application/src/primitives.ts\<close>, for the kinds the model generates.\<close>

fun id_prefix :: "id_kind \<Rightarrow> string" where
  "id_prefix IdApproval = ''apr''"
| "id_prefix IdAttempt = ''att''"
| "id_prefix IdCancellation = ''cancel''"
| "id_prefix IdExecution = ''exe''"
| "id_prefix IdEvidence = ''evd''"
| "id_prefix IdReceipt = ''rcp''"
| "id_prefix IdMissionEvent = ''mev''"
| "id_prefix IdOperation = ''op''"
| "id_prefix IdOutbox = ''out''"
| "id_prefix IdPlan = ''pln''"
| "id_prefix IdRun = ''run''"
| "id_prefix IdVerification = ''ver''"
| "id_prefix IdClarificationRequest = ''clr''"
| "id_prefix IdClarificationAnswer = ''cla''"

text \<open>
  What the code takes from outside: the readings of the application clock and of
  the database clock, generated identifiers and entropy, the digests (that of an
  activation identity takes its schema version and its two fields) and the time
  zone database.  The
  \<open>n\<close>-th reading is a function of \<open>n\<close>, so that code which reads the clock twice
  may see two different times.
\<close>

record env =
  en_now :: "nat \<Rightarrow> instant"
  en_dbNow :: "nat \<Rightarrow> instant"
  en_id :: "id_kind \<Rightarrow> nat \<Rightarrow> string"
  en_entropy :: "nat \<Rightarrow> string"
  en_planHash :: "plan_hash_payload \<Rightarrow> string"
  en_actionHash :: "string \<Rightarrow> plan_action \<Rightarrow> string"
  en_hash :: hash_params
  en_callbackHash :: "callback \<Rightarrow> string"
  en_obsHash :: "tool_reconciliation \<Rightarrow> instant \<Rightarrow> string"
  en_activationId :: "string \<Rightarrow> string \<Rightarrow> string \<Rightarrow> string"
  en_requestHash :: "request_payload \<Rightarrow> string"
  en_answerHash :: "answer_payload \<Rightarrow> string"
  en_zones :: zones

record tenant =
  tn_org :: string
  tn_reads :: nat
  tn_dbReads :: nat
  tn_ids :: nat
  tn_missions :: "mission list"
  tn_events :: "mission_event list"
  tn_plans :: "plan list"
  tn_validations :: "plan_validation list"
  tn_simulations :: "plan_simulation list"
  tn_approvals :: "approval list"
  tn_operations :: "operation list"
  tn_attempts :: "attempt list"
  tn_opPolls :: "operation_poll list"
  tn_routines :: "routine list"
  tn_versions :: "routine_version list"
  tn_memberships :: "membership list"
  tn_outbox :: "outbox_message list"
  tn_executions :: "stored_execution list"
  tn_commands :: "command list"
  tn_effects :: "effect_row list"
  tn_dispatches :: "dispatch list"
  tn_callbacks :: "stored_callback list"
  tn_effectPolls :: "effect_poll list"
  tn_evidence :: "persisted_evidence list"
  tn_cancellations :: "cancellation list"
  tn_verifications :: "verification list"
  tn_leases :: "lease list"
  tn_devices :: "device_row list"
  tn_capabilities :: "capability_row list"
  tn_tags :: "tag_row list"
  tn_contextReceipts :: "context_receipt list"
  tn_planLinks :: "plan_link list"
  tn_clarifications :: "clarification_request list"
  tn_answers :: "clarification_answer list"

definition read_clock :: "env \<Rightarrow> tenant \<Rightarrow> instant" where
  "read_clock env s = en_now env (tn_reads s)"

definition tick :: "tenant \<Rightarrow> tenant" where
  "tick s = s\<lparr> tn_reads := Suc (tn_reads s) \<rparr>"

definition fresh_id :: "env \<Rightarrow> id_kind \<Rightarrow> tenant \<Rightarrow> string" where
  "fresh_id env k s = en_id env k (tn_ids s)"

definition bump :: "tenant \<Rightarrow> tenant" where
  "bump s = s\<lparr> tn_ids := Suc (tn_ids s) \<rparr>"

section \<open>Scope of a repository\<close>

text \<open>
  The repositories of a fenced transaction carry the mission and the lease epoch
  they may write for.
\<close>

datatype scope = Unfenced | Fenced (sc_mission: string) (sc_epoch: nat)

definition assertTenant :: "tenant \<Rightarrow> string \<Rightarrow> err + unit" where
  "assertTenant s org = guard_that (org = tn_org s) (TenantBoundaryError ''Record'')"

fun in_scope :: "scope \<Rightarrow> string \<Rightarrow> bool" where
  "in_scope Unfenced m = True"
| "in_scope (Fenced f _) m = (m = f)"

definition assertMissionMutation :: "scope \<Rightarrow> string \<Rightarrow> err + unit" where
  "assertMissionMutation sc m = guard_that (in_scope sc m) (TenantBoundaryError ''Fenced transaction'')"

section \<open>Missions\<close>

definition mission_get :: "tenant \<Rightarrow> string \<Rightarrow> mission option" where
  "mission_get s i = lookup_by mi_id i (tn_missions s)"

text \<open>The columns that \<open>missions.save\<close> writes.\<close>

definition mission_written :: "mission \<Rightarrow> mission \<Rightarrow> mission" where
  "mission_written cur m = cur\<lparr> mi_state := mi_state m, mi_version := mi_version m,
     mi_runId := mi_runId m, mi_contextReceiptId := mi_contextReceiptId m, mi_updatedAt := mi_updatedAt m \<rparr>"

definition mission_identity_kept :: "mission \<Rightarrow> mission \<Rightarrow> bool" where
  "mission_identity_kept cur m = (
     mi_palaceId cur = mi_palaceId m \<and> mi_initiatedBy cur = mi_initiatedBy m \<and>
     missionProgramKindOf cur = missionProgramKindOf m \<and> mi_objective cur = mi_objective m \<and>
     mi_constraints cur = mi_constraints m \<and>
     sameStrings (mi_successCriteriaIds cur) (mi_successCriteriaIds m) \<and>
     mi_createdAt cur = mi_createdAt m)"

definition has_passed_verification :: "tenant \<Rightarrow> string \<Rightarrow> bool" where
  "has_passed_verification s m =
     list_ex (\<lambda>v. ve_missionId v = m \<and> ve_status v = VerificationDidPass) (tn_verifications s)"

definition missions_save :: "scope \<Rightarrow> mission \<Rightarrow> nat \<Rightarrow> tenant \<Rightarrow> err + (bool \<times> tenant)" where
  "missions_save sc m expectedVersion s =
     (if \<not> mission_ok m then Inl (ZodError ''Mission'')
      else sbind (assertTenant s (mi_organizationId m)) (\<lambda>_.
      sbind (assertMissionMutation sc (mi_id m)) (\<lambda>_.
      if mi_version m \<noteq> expectedVersion + 1
        then Inl (DatabaseOptimisticConcurrencyError ''Mission version must increment exactly once'')
      else case find (\<lambda>x. mi_id x = mi_id m \<and> mi_version x = expectedVersion) (tn_missions s) of
        None \<Rightarrow> Inr (False, s)
      | Some cur \<Rightarrow>
          if isTerminalMissionState (mi_state cur)
            then Inl (DatabaseConflictError ''Terminal mission state is immutable'')
          else if \<not> mission_identity_kept cur m
            then Inl (DatabaseConflictError ''Mission objective and constraints are immutable'')
          else if mi_taskLedger cur \<noteq> mi_taskLedger m
            then Inl (DatabaseConflictError ''Caretaker task-ledger changes require a versioned run checkpoint'')
          else if mi_runId cur \<noteq> mi_runId m
            then Inl (DatabaseConflictError ''Mission Caretaker run identity changes require a fenced activation'')
          else if ms_status (mi_state m) = MSucceeded \<and> \<not> has_passed_verification s (mi_id m)
            then Inl (DatabaseConflictError ''Only a passed application verification may succeed a mission'')
          else Inr (True, s\<lparr> tn_missions := upsert mi_id (mission_written cur m) (tn_missions s) \<rparr>))))"

definition missions_appendEvent :: "scope \<Rightarrow> mission_event \<Rightarrow> tenant \<Rightarrow> err + tenant" where
  "missions_appendEvent sc e s =
     (if \<not> mission_event_ok e then Inl (ZodError ''MissionEvent'')
      else sbind (assertTenant s (me_organizationId e)) (\<lambda>_.
      sbind (assertMissionMutation sc (me_missionId e)) (\<lambda>_.
      if list_ex (\<lambda>x. me_id x = me_id e) (tn_events s) \<or>
         list_ex (\<lambda>x. me_missionId x = me_missionId e \<and> me_sequence x = me_sequence e) (tn_events s)
        then Inl (DatabaseConflictError ''mission_events_mission_sequence_unique'')
      else Inr (s\<lparr> tn_events := tn_events s @ [e] \<rparr>))))"

section \<open>Plans\<close>

definition plan_get :: "tenant \<Rightarrow> string \<Rightarrow> plan option" where
  "plan_get s i = lookup_by pl_id i (tn_plans s)"

text \<open>The trigger \<open>guard_plan_mutation\<close>: the status changes a stored plan admits.\<close>

fun plan_status_change :: "plan_status \<Rightarrow> plan_status \<Rightarrow> bool" where
  "plan_status_change PlanCandidate t = List.member [PlanValidated, PlanSuperseded, PlanRejected] t"
| "plan_status_change PlanValidated t =
     List.member [PlanCandidate, PlanAwaitingApproval, PlanSuperseded, PlanRejected] t"
| "plan_status_change PlanAwaitingApproval t =
     List.member [PlanCandidate, PlanApproved, PlanSuperseded, PlanRejected] t"
| "plan_status_change PlanApproved t = (t = PlanSuperseded)"
| "plan_status_change PlanSuperseded t = False"
| "plan_status_change PlanRejected t = False"

definition guard_plan_mutation :: "plan \<Rightarrow> plan \<Rightarrow> err + unit" where
  "guard_plan_mutation old new =
     guard_that (pl_status new = pl_status old \<or> plan_status_change (pl_status old) (pl_status new))
       (DatabaseConflictError ''invalid plan status transition'')"

definition plan_content_kept :: "plan \<Rightarrow> plan \<Rightarrow> bool" where
  "plan_content_kept stored p = (
     pl_hash stored = pl_hash p \<and> pl_missionId stored = pl_missionId p \<and>
     pl_palaceId stored = pl_palaceId p \<and> pl_revision stored = pl_revision p \<and>
     pl_objective stored = pl_objective p \<and> pl_constraints stored = pl_constraints p \<and>
     pl_actions stored = pl_actions p \<and>
     sameStrings (pl_successCriteriaIds stored) (pl_successCriteriaIds p) \<and>
     pl_createdAt stored = pl_createdAt p)"

definition plans_save :: "env \<Rightarrow> scope \<Rightarrow> plan \<Rightarrow> tenant \<Rightarrow> err + tenant" where
  "plans_save env sc p s =
     (if \<not> plan_ok (en_planHash env) p then Inl (ZodError ''Plan'')
      else sbind (assertTenant s (pl_organizationId p)) (\<lambda>_.
      sbind (assertMissionMutation sc (pl_missionId p)) (\<lambda>_.
      case plan_get s (pl_id p) of
        None \<Rightarrow> Inl (DatabaseNotFoundError ''Plan'')
      | Some stored \<Rightarrow>
          if \<not> plan_content_kept stored p
            then Inl (DatabaseConflictError ''Plan status update does not match immutable plan content'')
          else sbind (guard_plan_mutation stored p) (\<lambda>_.
            Inr (s\<lparr> tn_plans := upsert pl_id (stored\<lparr> pl_status := pl_status p \<rparr>) (tn_plans s) \<rparr>)))))"

definition plans_insert :: "env \<Rightarrow> scope \<Rightarrow> plan \<Rightarrow> tenant \<Rightarrow> err + tenant" where
  "plans_insert env sc p s =
     (if \<not> plan_ok (en_planHash env) p then Inl (ZodError ''Plan'')
      else sbind (assertTenant s (pl_organizationId p)) (\<lambda>_.
      sbind (assertMissionMutation sc (pl_missionId p)) (\<lambda>_.
      if list_ex (\<lambda>x. pl_id x = pl_id p \<or>
           (pl_missionId x = pl_missionId p \<and> pl_revision x = pl_revision p)) (tn_plans s)
        then Inl (DatabaseConflictError ''plans_mission_revision_unique'')
      else if list_ex (\<lambda>x. list_ex (\<lambda>a. List.member (List.map pa_id (pl_actions p)) (pa_id a)) (pl_actions x)) (tn_plans s)
        then Inl (DatabaseConflictError ''plan_actions_organization_id_id_unique'')
      else Inr (s\<lparr> tn_plans := tn_plans s @ [p] \<rparr>))))"

definition getLatestForMission :: "tenant \<Rightarrow> string \<Rightarrow> plan option" where
  "getLatestForMission s m = (case rev (sort_key pl_revision (filter (\<lambda>p. pl_missionId p = m) (tn_plans s))) of
     [] \<Rightarrow> None | p # _ \<Rightarrow> Some p)"

text \<open>The newest validation of a plan, and its simulations in order of creation.\<close>

definition getValidation :: "tenant \<Rightarrow> string \<Rightarrow> plan_validation option" where
  "getValidation s p = find (\<lambda>_. True)
     (sort_key (\<lambda>v. - pv_createdAt v) (filter (\<lambda>v. pv_planId v = p) (tn_validations s)))"

definition listSimulations :: "tenant \<Rightarrow> string \<Rightarrow> plan_simulation list" where
  "listSimulations s p = sort_key ps_createdAt (filter (\<lambda>x. ps_planId x = p) (tn_simulations s))"

section \<open>Context receipts\<close>

definition contextReceipts_get :: "tenant \<Rightarrow> string \<Rightarrow> err + context_receipt option" where
  "contextReceipts_get s i = (if \<not> id_ok ''ctx'' i then Inl (ZodError ''ContextReceiptId'')
     else Inr (find (\<lambda>r. cr_id r = i) (tn_contextReceipts s)))"

section \<open>Routines\<close>

definition routine_get :: "tenant \<Rightarrow> string \<Rightarrow> routine option" where
  "routine_get s i = lookup_by ro_id i (tn_routines s)"

definition version_of :: "tenant \<Rightarrow> string \<Rightarrow> string \<Rightarrow> routine_version option" where
  "version_of s r v = find (\<lambda>x. rv_routineId x = r \<and> rv_id x = v) (tn_versions s)"

definition getCurrentVersion :: "tenant \<Rightarrow> string \<Rightarrow> protected_version option" where
  "getCurrentVersion s r = (case routine_get s r of
     None \<Rightarrow> None
   | Some x \<Rightarrow> (case ro_activeVersionId x of
       None \<Rightarrow> None
     | Some v \<Rightarrow> (case version_of s r v of
         None \<Rightarrow> None
       | Some rv \<Rightarrow> if rv_status rv = RoutineActive
           then Some \<lparr> pv_routineId = r, pv_routineVersionId = v, pv_version = rv_version rv \<rparr>
           else None)))"

definition resource_current :: "tenant \<Rightarrow> protected_version \<Rightarrow> bool" where
  "resource_current s p = (case getCurrentVersion s (pv_routineId p) of
     None \<Rightarrow> False
   | Some c \<Rightarrow> pv_routineVersionId c = pv_routineVersionId p \<and> pv_version c = pv_version p)"

definition assertProtectedResourcesCurrent :: "tenant \<Rightarrow> approval \<Rightarrow> err + unit" where
  "assertProtectedResourcesCurrent s a =
     guard_that (list_all (resource_current s) (ap_protectedResources a))
       (DatabaseOptimisticConcurrencyError ''Approval protected resource version is stale'')"

section \<open>Approvals\<close>

definition approval_get :: "tenant \<Rightarrow> string \<Rightarrow> approval option" where
  "approval_get s i = lookup_by ap_id i (tn_approvals s)"

text \<open>The newest approval of a plan.\<close>

definition findForPlan :: "tenant \<Rightarrow> string \<Rightarrow> approval option" where
  "findForPlan s p = find (\<lambda>_. True)
     (sort_key (\<lambda>a. - ap_createdAt a) (filter (\<lambda>a. ap_planId a = p) (tn_approvals s)))"

text \<open>The trigger \<open>guard_approval_mutation\<close>: only a pending approval changes status.\<close>

definition approval_status_change :: "approval_status \<Rightarrow> approval_status \<Rightarrow> bool" where
  "approval_status_change old new = (old = ApprovalPending \<and>
     List.member [ApprovalApproved, ApprovalWasRejected, ApprovalExpired, ApprovalInvalidated] new)"

definition guard_approval_mutation :: "approval \<Rightarrow> approval \<Rightarrow> err + unit" where
  "guard_approval_mutation old new =
     guard_that (ap_status new = ap_status old \<or> approval_status_change (ap_status old) (ap_status new))
       (DatabaseConflictError ''invalid approval status transition'')"

definition approval_request_kept :: "approval \<Rightarrow> approval \<Rightarrow> bool" where
  "approval_request_kept stored a = (
     ap_missionId stored = ap_missionId a \<and> ap_planId stored = ap_planId a \<and>
     ap_planHash stored = ap_planHash a \<and> ap_requestedBy stored = ap_requestedBy a \<and>
     ap_nonce stored = ap_nonce a \<and> ap_createdAt stored = ap_createdAt a \<and>
     ap_expiresAt stored = ap_expiresAt a \<and>
     sameStrings (ap_actionIds stored) (ap_actionIds a) \<and>
     ap_protectedResources stored = ap_protectedResources a)"

text \<open>The first membership of the approver that is not revoked decides.\<close>

definition approver_membership_ok :: "tenant \<Rightarrow> approval \<Rightarrow> bool" where
  "approver_membership_ok s a =
     (case find (\<lambda>m. Some (mb_userId m) = ap_approvedBy a \<and> is_none (mb_revokedAt m)) (tn_memberships s) of
        None \<Rightarrow> False
      | Some m \<Rightarrow> Some (mb_role m) = ap_approverRole a \<and>
          \<not> (mb_role m = Operator \<and> \<not> List.member (mb_grants m) RoutineApprove))"

definition assert_approved_record :: "tenant \<Rightarrow> approval \<Rightarrow> err + unit" where
  "assert_approved_record s a =
     (if is_none (ap_approvedBy a) then Inl (ApprovalBindingError ''Approved record has no approver'')
      else case plan_get s (ap_planId a) of
        None \<Rightarrow> Inl (DatabaseNotFoundError ''Approval plan'')
      | Some p \<Rightarrow>
          sbind (assertApprovalAuthorizesPlan a p (case ap_approvedAt a of Some t \<Rightarrow> t | None \<Rightarrow> ap_createdAt a)) (\<lambda>_.
          if \<not> approver_membership_ok s a
            then Inl (ApprovalBindingError ''Approver membership does not authorize this approval'')
          else assertProtectedResourcesCurrent s a))"

definition approvals_save :: "scope \<Rightarrow> approval \<Rightarrow> tenant \<Rightarrow> err + tenant" where
  "approvals_save sc a s =
     (if \<not> approval_ok a then Inl (ZodError ''Approval'')
      else sbind (assertTenant s (ap_organizationId a)) (\<lambda>_.
      sbind (assertMissionMutation sc (ap_missionId a)) (\<lambda>_.
      case approval_get s (ap_id a) of
        None \<Rightarrow> Inl (DatabaseNotFoundError ''Approval'')
      | Some stored \<Rightarrow>
          if \<not> approval_request_kept stored a
            then Inl (DatabaseConflictError ''Approval update does not match immutable request content'')
          else sbind (if ap_status a = ApprovalApproved then assert_approved_record s a else Inr ()) (\<lambda>_.
          sbind (guard_approval_mutation stored a) (\<lambda>_.
            Inr (s\<lparr> tn_approvals := upsert ap_id
              (stored\<lparr> ap_status := ap_status a, ap_approvedBy := ap_approvedBy a,
                 ap_approverRole := ap_approverRole a, ap_approvedAt := ap_approvedAt a \<rparr>)
              (tn_approvals s) \<rparr>))))))"

definition assert_resource_binding :: "approval \<Rightarrow> plan_action \<Rightarrow> err + unit" where
  "assert_resource_binding a act =
     (case find_protected (fst (action_target act)) (ap_protectedResources a) of
        None \<Rightarrow> Inl (ApprovalBindingError ''Approval omits a protected routine'')
      | Some p \<Rightarrow> (case assert_action_pinned (ap_protectedResources a) act of
          Inl _ \<Rightarrow> Inl (ApprovalBindingError ''Approval protected version does not match its plan action'')
        | Inr _ \<Rightarrow> Inr ()))"

fun assert_resource_bindings :: "approval \<Rightarrow> plan_action list \<Rightarrow> err + unit" where
  "assert_resource_bindings a [] = Inr ()"
| "assert_resource_bindings a (x # xs) = sbind (assert_resource_binding a x) (\<lambda>_. assert_resource_bindings a xs)"

definition approvals_insert :: "scope \<Rightarrow> approval \<Rightarrow> tenant \<Rightarrow> err + tenant" where
  "approvals_insert sc a s =
     (if \<not> approval_ok a then Inl (ZodError ''Approval'')
      else sbind (assertTenant s (ap_organizationId a)) (\<lambda>_.
      sbind (assertMissionMutation sc (ap_missionId a)) (\<lambda>_.
      case plan_get s (ap_planId a) of
        None \<Rightarrow> Inl (DatabaseNotFoundError ''Plan'')
      | Some p \<Rightarrow>
          if ap_planHash a \<noteq> pl_hash p \<or> ap_missionId a \<noteq> pl_missionId p \<or>
             \<not> sameStrings (ap_actionIds a) (List.map pa_id (pl_actions p))
            then Inl (ApprovalBindingError ''Approval does not bind the exact plan and action set'')
          else sbind (assert_resource_bindings a (pl_actions p)) (\<lambda>_.
          sbind (if ap_status a = ApprovalApproved
             then sbind (assertApprovalAuthorizesPlan a p
                    (case ap_approvedAt a of Some t \<Rightarrow> t | None \<Rightarrow> ap_createdAt a)) (\<lambda>_.
                  assertProtectedResourcesCurrent s a)
             else Inr ()) (\<lambda>_.
          if list_ex (\<lambda>x. ap_id x = ap_id a \<or> ap_nonce x = ap_nonce a) (tn_approvals s)
            then Inl (DatabaseConflictError ''approvals_nonce_unique'')
          else Inr (s\<lparr> tn_approvals := tn_approvals s @ [a] \<rparr>))))))"

section \<open>Operations and attempts\<close>

definition operation_get :: "tenant \<Rightarrow> string \<Rightarrow> operation option" where
  "operation_get s i = lookup_by op_id i (tn_operations s)"

definition findByPlanAction :: "tenant \<Rightarrow> string \<Rightarrow> string \<Rightarrow> operation option" where
  "findByPlanAction s p a = find (\<lambda>x. op_planId x = p \<and> op_planActionId x = a) (tn_operations s)"

definition operations_for_mission :: "tenant \<Rightarrow> string \<Rightarrow> operation list" where
  "operations_for_mission s m =
     sort_key op_createdAt (filter (\<lambda>x. op_missionId x = m) (tn_operations s))"

definition find_action :: "string \<Rightarrow> plan \<Rightarrow> plan_action option" where
  "find_action i p = find (\<lambda>a. pa_id a = i) (pl_actions p)"

definition operations_insert :: "env \<Rightarrow> scope \<Rightarrow> operation \<Rightarrow> tenant \<Rightarrow> err + tenant" where
  "operations_insert env sc o' s =
     (if \<not> operation_ok o' then Inl (ZodError ''Operation'')
      else sbind (assertTenant s (op_organizationId o')) (\<lambda>_.
      sbind (assertMissionMutation sc (op_missionId o')) (\<lambda>_.
      case (plan_get s (op_planId o'), approval_get s (op_approvalId o')) of
        (Some p, Some a) \<Rightarrow>
          sbind (assertApprovalAuthorizesPlan a p (op_createdAt o')) (\<lambda>_.
          sbind (assertProtectedResourcesCurrent s a) (\<lambda>_.
          case find_action (op_planActionId o') p of
            None \<Rightarrow> Inl (ApprovalBindingError ''Operation payload does not match its approved plan action'')
          | Some act \<Rightarrow>
              if op_payloadHash o' \<noteq> en_actionHash env (pl_hash p) act
                then Inl (ApprovalBindingError ''Operation payload does not match its approved plan action'')
              else if list_ex (\<lambda>x. op_id x = op_id o' \<or>
                     (op_planId x = op_planId o' \<and> op_planActionId x = op_planActionId o')) (tn_operations s)
                then Inl (DatabaseConflictError ''operations_plan_action_unique'')
              else Inr (s\<lparr> tn_operations := tn_operations s @ [o'] \<rparr>)))
      | _ \<Rightarrow> Inl (ApprovalBindingError ''Operation plan or approval is absent''))))"

definition operation_identity_kept :: "operation \<Rightarrow> operation \<Rightarrow> bool" where
  "operation_identity_kept cur o' = (
     op_missionId cur = op_missionId o' \<and> op_planId cur = op_planId o' \<and>
     op_planActionId cur = op_planActionId o' \<and> op_approvalId cur = op_approvalId o' \<and>
     op_payloadHash cur = op_payloadHash o' \<and> op_createdAt cur = op_createdAt o')"

definition operations_save :: "scope \<Rightarrow> operation \<Rightarrow> tenant \<Rightarrow> err + tenant" where
  "operations_save sc o' s =
     (if \<not> operation_ok o' then Inl (ZodError ''Operation'')
      else sbind (assertTenant s (op_organizationId o')) (\<lambda>_.
      sbind (assertMissionMutation sc (op_missionId o')) (\<lambda>_.
      case operation_get s (op_id o') of
        None \<Rightarrow> Inl (DatabaseNotFoundError ''Operation'')
      | Some cur \<Rightarrow>
          if \<not> operation_identity_kept cur o'
            then Inl (DatabaseConflictError ''Operation update does not match immutable identity'')
          else Inr (s\<lparr> tn_operations := upsert op_id
              (cur\<lparr> op_status := op_status o', op_outcome := op_outcome o',
                 op_committedAt := op_committedAt o' \<rparr>) (tn_operations s) \<rparr>))))"

text \<open>In a fenced transaction the operation must belong to the fenced mission.\<close>

definition operation_mutation_ok :: "scope \<Rightarrow> tenant \<Rightarrow> string \<Rightarrow> err + unit" where
  "operation_mutation_ok sc s o' = (case sc of
     Unfenced \<Rightarrow> Inr ()
   | Fenced _ _ \<Rightarrow> (case operation_get s o' of
       None \<Rightarrow> Inl (DatabaseNotFoundError ''Operation'')
     | Some x \<Rightarrow> assertMissionMutation sc (op_missionId x)))"

definition attempts_for_operation :: "tenant \<Rightarrow> string \<Rightarrow> attempt list" where
  "attempts_for_operation s o' =
     sort_key at_sequence (filter (\<lambda>a. at_operationId a = o') (tn_attempts s))"

fun transport_dispatch :: "attempt_transport \<Rightarrow> (string \<times> nat) option" where
  "transport_dispatch (ViaGateway c g) = Some (c, g)"
| "transport_dispatch _ = None"

text \<open>Two attempts collide on their id, their sequence in the operation or their dispatch.\<close>

definition attempt_collides :: "attempt \<Rightarrow> attempt \<Rightarrow> bool" where
  "attempt_collides a x = (at_id x = at_id a \<or>
     (at_operationId x = at_operationId a \<and> at_sequence x = at_sequence a) \<or>
     (\<not> is_none (transport_dispatch (at_transport a)) \<and>
      transport_dispatch (at_transport x) = transport_dispatch (at_transport a)))"

definition attempts_insert :: "scope \<Rightarrow> attempt \<Rightarrow> tenant \<Rightarrow> err + tenant" where
  "attempts_insert sc a s =
     (if \<not> attempt_ok a then Inl (ZodError ''Attempt'')
      else sbind (assertTenant s (at_organizationId a)) (\<lambda>_.
      sbind (operation_mutation_ok sc s (at_operationId a)) (\<lambda>_.
      if list_ex (attempt_collides a) (tn_attempts s)
        then Inl (DatabaseConflictError ''attempts_operation_sequence_unique'')
      else Inr (s\<lparr> tn_attempts := tn_attempts s @ [a] \<rparr>))))"

definition attempt_get :: "tenant \<Rightarrow> string \<Rightarrow> attempt option" where
  "attempt_get s i = lookup_by at_id i (tn_attempts s)"

definition attempts_save :: "scope \<Rightarrow> attempt \<Rightarrow> tenant \<Rightarrow> err + tenant" where
  "attempts_save sc a s =
     (if \<not> attempt_ok a then Inl (ZodError ''Attempt'')
      else sbind (assertTenant s (at_organizationId a)) (\<lambda>_.
      sbind (operation_mutation_ok sc s (at_operationId a)) (\<lambda>_.
      case attempt_get s (at_id a) of
        None \<Rightarrow> Inl (DatabaseNotFoundError ''Attempt'')
      | Some cur \<Rightarrow>
          if at_operationId cur \<noteq> at_operationId a \<or> at_sequence cur \<noteq> at_sequence a \<or>
             at_transport cur \<noteq> at_transport a \<or> at_startedAt cur \<noteq> at_startedAt a
            then Inl (DatabaseConflictError ''Attempt update does not match immutable identity'')
          else Inr (s\<lparr> tn_attempts := upsert at_id
            (cur\<lparr> at_status := at_status a, at_retryable := at_retryable a, at_error := at_error a,
               at_completedAt := at_completedAt a \<rparr>) (tn_attempts s) \<rparr>))))"

section \<open>Outbox\<close>

definition findByDeduplicationKey :: "tenant \<Rightarrow> string \<Rightarrow> outbox_message option" where
  "findByDeduplicationKey s k = lookup_by ob_deduplicationKey k (tn_outbox s)"

text \<open>
  \<open>validateOutboxReferences\<close> parses the payload of the topic, checks the tenant
  and the fenced mission, and for gateway topics that the command and the
  generation exist.
\<close>

text \<open>The joins of the identity-arrival branch: execution, operation, mission, evidence.\<close>

definition identity_arrival_bound :: "tenant \<Rightarrow> string \<Rightarrow> string \<Rightarrow> string \<Rightarrow> string \<Rightarrow> bool" where
  "identity_arrival_bound s m op x e =
     (case (find (\<lambda>r. ex_id (sx_execution r) = x \<and> sx_operationId r = op \<and>
              ex_missionId (sx_execution r) = m) (tn_executions s),
            operation_get s op, mission_get s m,
            find (\<lambda>r. ev_id (pe_evidence r) = e) (tn_evidence s)) of
        (Some r, Some o', Some mi, Some ev) \<Rightarrow>
          ex_status (sx_execution r) = ExRunning \<and> op_status o' = OpCommitted \<and> op_missionId o' = m \<and>
          ms_status (mi_state mi) = MRunning \<and>
          ev_missionId (pe_evidence ev) = m \<and> ev_palaceId (pe_evidence ev) = mi_palaceId mi \<and>
          (case (ev_body (pe_evidence ev), ar_authority (pe_receipt ev)) of
             (IdentityArrival _ v, IdentityTelemetryReceipt _ _ _ _ _) \<Rightarrow> v
           | _ \<Rightarrow> False)
      | _ \<Rightarrow> False)"

definition validateOutboxReferences :: "scope \<Rightarrow> outbox_message \<Rightarrow> tenant \<Rightarrow> err + unit" where
  "validateOutboxReferences sc m s =
     (if \<not> (payload_fits_topic (ob_topic m) (ob_payload m) \<and> outbox_payload_ok (ob_payload m))
        then Inl (ZodError ''OutboxReference'')
      else sbind (assertTenant s (payload_organization (ob_payload m))) (\<lambda>_.
      sbind (case payload_mission (ob_payload m) of None \<Rightarrow> Inr () | Some x \<Rightarrow> assertMissionMutation sc x) (\<lambda>_.
      sbind (case payload_operation (ob_payload m) of None \<Rightarrow> Inr () | Some x \<Rightarrow> operation_mutation_ok sc s x) (\<lambda>_.
      case ob_payload m of
        GatewayReference _ op c g \<Rightarrow>
          guard_that (list_ex (\<lambda>x. gc_id x = c \<and> gc_operationId x = op) (tn_commands s) \<and>
                      list_ex (\<lambda>d. dp_commandId d = c \<and> dp_generation d = g) (tn_dispatches s))
            (DatabaseConflictError ''Outbox gateway reference is not materialized'')
      | IdentityArrivalReference _ mi op x e \<Rightarrow>
          guard_that (identity_arrival_bound s mi op x e)
            (DatabaseConflictError ''Identity-arrival execution reference is not bound'')
      | ExecutionDeadlineReference _ mi op x \<Rightarrow>
          guard_that (list_ex (\<lambda>r. ex_id (sx_execution r) = x \<and> ex_missionId (sx_execution r) = mi \<and>
                        sx_operationId r = op) (tn_executions s))
            (DatabaseConflictError ''Execution deadline reference is not bound'')
      | MissionReference _ mi \<Rightarrow>
          guard_that (\<not> is_none (mission_get s mi))
            (DatabaseConflictError ''Outbox mission reference is absent'')
      | OperationReconciliationReference _ op a \<Rightarrow>
          guard_that (list_ex (\<lambda>x. at_id x = a \<and> at_operationId x = op \<and> at_status x = AtUnknown \<and>
                        at_retryable x) (tn_attempts s))
            (DatabaseConflictError ''Operation reconciliation attempt is not bound'')))))"

definition outbox_insert :: "scope \<Rightarrow> outbox_message \<Rightarrow> tenant \<Rightarrow> err + tenant" where
  "outbox_insert sc m s =
     sbind (assertTenant s (ob_organizationId m)) (\<lambda>_.
     sbind (validateOutboxReferences sc m s) (\<lambda>_.
     if list_ex (\<lambda>x. ob_id x = ob_id m \<or> ob_deduplicationKey x = ob_deduplicationKey m) (tn_outbox s)
       then Inl (DatabaseConflictError ''outbox_deduplication_unique'')
     else Inr (s\<lparr> tn_outbox := tn_outbox s @ [m] \<rparr>)))"

section \<open>A concrete environment and an empty tenant\<close>

definition ex_env :: env where
  "ex_env = \<lparr> en_now = (\<lambda>n. 1000 + int n), en_dbNow = (\<lambda>n. 1000 + int n),
     en_id = (\<lambda>k n. id_prefix k @ ''_xaaaaaaa'' @ show_nat n),
     en_entropy = (\<lambda>n. replicate 32 (CHR ''e'')),
     en_planHash = (\<lambda>_. ex_digest), en_actionHash = (\<lambda>_ _. ex_digest),
     en_hash = \<lparr> hp_sha = (\<lambda>_. ex_digest), hp_payload = (\<lambda>_. ex_digest) \<rparr>,
     en_callbackHash = (\<lambda>_. ex_digest), en_obsHash = (\<lambda>_ _. ex_digest),
     en_activationId = (\<lambda>kind a b. ex_digest), en_requestHash = (\<lambda>_. ex_digest),
     en_answerHash = (\<lambda>_. ex_digest), en_zones = (\<lambda>_. None) \<rparr>"

definition ex_operation :: operation where
  "ex_operation = \<lparr> op_id = ''op_aaaaaaaa'', op_organizationId = ''org_aaaaaaaa'', op_missionId = ''mis_aaaaaaaa'',
     op_planId = ''pln_aaaaaaaa'', op_planActionId = ''act_aaaaaaaa'', op_approvalId = ''apr_aaaaaaaa'',
     op_payloadHash = ex_digest, op_serverCreated = True, op_status = OpCommitted,
     op_outcome = Some \<lparr> oo_routineId = ''rtn_bbbbbbbb'', oo_routineVersionId = ''rtv_bbbbbbbb'',
       oo_deactivatedRoutineId = Some ''rtn_aaaaaaaa'' \<rparr>,
     op_createdAt = 0, op_committedAt = Some 1 \<rparr>"

definition ex_tenant :: tenant where
  "ex_tenant = \<lparr> tn_org = ''org_aaaaaaaa'', tn_reads = 0, tn_dbReads = 0, tn_ids = 0, tn_missions = [],
     tn_events = [], tn_plans = [], tn_validations = [], tn_simulations = [], tn_approvals = [],
     tn_operations = [], tn_attempts = [], tn_opPolls = [], tn_routines = [], tn_versions = [],
     tn_memberships = [], tn_outbox = [], tn_executions = [], tn_commands = [], tn_effects = [],
     tn_dispatches = [], tn_callbacks = [], tn_effectPolls = [], tn_evidence = [],
     tn_cancellations = [], tn_verifications = [], tn_leases = [], tn_devices = [],
     tn_capabilities = [], tn_tags = [], tn_contextReceipts = [], tn_planLinks = [],
     tn_clarifications = [], tn_answers = [] \<rparr>"

end
