(* ===== verification/Lease.thy ===== *)
theory Lease
  imports Store
begin

text \<open>
  Mission leases and fenced transactions: the lease repository of
  \<open>db/src/repositories.ts\<close> (\<open>missionLeases\<close>), the fence validation and
  \<open>PgMissionExecutionUnitOfWork.runFenced\<close>.  The locale \<open>fence_store\<close> states what
  the clients of fences rely on; it is interpreted on the repository.

  Every \<open>clock_timestamp()\<close> of a statement is a reading of the database clock of its
  own.
\<close>

section \<open>Validation\<close>

definition validateLeaseTtl :: "int \<Rightarrow> err + int" where
  "validateLeaseTtl ttl =
     (if ttl < 1000 \<or> 300000 < ttl
      then Inl (RangeError ''Mission lease TTL must be between one second and five minutes'')
      else Inr ttl)"

definition validateOwnerId :: "string \<Rightarrow> err + string" where
  "validateOwnerId o' =
     (if length o' < 1 \<or> 200 < length o'
      then Inl (TypeError ''Mission lease owner ID must contain 1 to 200 characters'') else Inr o')"

text \<open>\<open>OpaqueMissionFenceToken.fromEntropy\<close> and its storage fingerprint.\<close>

definition fence_token :: "string \<Rightarrow> err + string" where
  "fence_token v =
     (if length v < 16 \<or> 512 < length v
      then Inl (RangeError ''Mission fence entropy must contain 16 to 512 characters'') else Inr v)"

definition fingerprint :: "env \<Rightarrow> string \<Rightarrow> string" where
  "fingerprint env token = hp_sha (en_hash env) token"

definition storageFingerprint :: "env \<Rightarrow> string \<Rightarrow> err + string" where
  "storageFingerprint env token =
     (if sha256_ok (fingerprint env token) then Inr (fingerprint env token) else Inl MissionFenceRejectedError)"

definition validateFence :: "env \<Rightarrow> fence \<Rightarrow> err + fence" where
  "validateFence env f =
     (if fe_epoch f < 1 then Inl MissionFenceRejectedError
      else if \<not> id_ok ''org'' (fe_organizationId f) then Inl (ZodError ''OrganizationId'')
      else if \<not> id_ok ''mis'' (fe_missionId f) then Inl (ZodError ''MissionId'')
      else sbind (validateOwnerId (fe_ownerId f)) (\<lambda>_.
           sbind (storageFingerprint env (fe_token f)) (\<lambda>_. Inr f)))"

section \<open>The lease repository\<close>

definition db_now :: "env \<Rightarrow> nat \<Rightarrow> tenant \<Rightarrow> instant" where
  "db_now env i s = en_dbNow env (tn_dbReads s + i)"

definition db_tick :: "nat \<Rightarrow> tenant \<Rightarrow> tenant" where
  "db_tick n s = s\<lparr> tn_dbReads := tn_dbReads s + n \<rparr>"

definition lease_get :: "tenant \<Rightarrow> string \<Rightarrow> lease option" where
  "lease_get s m = lookup_by le_missionId m (tn_leases s)"

definition put_lease :: "lease \<Rightarrow> tenant \<Rightarrow> tenant" where
  "put_lease l s = s\<lparr> tn_leases := upsert le_missionId l (tn_leases s) \<rparr>"

definition fence_matches :: "env \<Rightarrow> fence \<Rightarrow> lease \<Rightarrow> bool" where
  "fence_matches env f l = (le_ownerId l = fe_ownerId f \<and> le_epoch l = fe_epoch f \<and>
     le_tokenFingerprint l = fingerprint env (fe_token f))"

definition lease_live :: "lease \<Rightarrow> instant \<Rightarrow> bool" where
  "lease_live l t = (le_releasedAt l = None \<and> t < le_expiresAt l)"

text \<open>The check constraint \<open>mission_leases_expiry_valid\<close>.\<close>

definition checked_lease :: "lease \<Rightarrow> tenant \<Rightarrow> err + tenant" where
  "checked_lease l s =
     (if le_renewedAt l < le_expiresAt l then Inr (put_lease l s)
      else Inl (DatabaseConflictError ''mission_leases_expiry_valid''))"

definition assertUnfencedMutation :: "scope \<Rightarrow> err + unit" where
  "assertUnfencedMutation sc = guard_that (sc = Unfenced) (TenantBoundaryError ''Fenced transaction'')"

definition leases_acquire ::
  "env \<Rightarrow> scope \<Rightarrow> string \<Rightarrow> string \<Rightarrow> string \<Rightarrow> string \<Rightarrow> int \<Rightarrow> tenant \<Rightarrow> err + (fence option \<times> tenant)" where
  "leases_acquire env sc org missionId ownerId token ttl s =
     (if \<not> id_ok ''org'' org then Inl (ZodError ''OrganizationId'')
      else if \<not> id_ok ''mis'' missionId then Inl (ZodError ''MissionId'')
      else sbind (validateOwnerId ownerId) (\<lambda>_.
      sbind (validateLeaseTtl ttl) (\<lambda>_.
      sbind (storageFingerprint env token) (\<lambda>fp.
      sbind (assertTenant s org) (\<lambda>_.
      sbind (assertUnfencedMutation sc) (\<lambda>_.
      case lease_get s missionId of
        None \<Rightarrow>
          sbind (checked_lease \<lparr> le_missionId = missionId, le_ownerId = ownerId, le_epoch = 1,
              le_tokenFingerprint = fp, le_acquiredAt = db_now env 0 s,
              le_expiresAt = db_now env 1 s + ttl, le_renewedAt = db_now env 2 s,
              le_releasedAt = None \<rparr> (db_tick 3 s)) (\<lambda>s'.
          Inr (Some \<lparr> fe_organizationId = org, fe_missionId = missionId, fe_ownerId = ownerId,
                 fe_epoch = 1, fe_token = token \<rparr>, s'))
      | Some existing \<Rightarrow>
          if lease_live existing (db_now env 0 s) then Inr (None, db_tick 1 s)
          else if le_releasedAt existing = None \<and> db_now env 1 s < le_expiresAt existing
            then Inr (None, db_tick 2 s)
          else sbind (checked_lease (existing\<lparr> le_ownerId := ownerId, le_epoch := le_epoch existing + 1,
                 le_tokenFingerprint := fp, le_acquiredAt := db_now env 2 s,
                 le_expiresAt := db_now env 3 s + ttl, le_renewedAt := db_now env 4 s,
                 le_releasedAt := None \<rparr>) (db_tick 5 s)) (\<lambda>s'.
               Inr (Some \<lparr> fe_organizationId = org, fe_missionId = missionId, fe_ownerId = ownerId,
                      fe_epoch = le_epoch existing + 1, fe_token = token \<rparr>, s'))))))))"

definition leases_renew :: "env \<Rightarrow> scope \<Rightarrow> fence \<Rightarrow> int \<Rightarrow> tenant \<Rightarrow> err + (fence option \<times> tenant)" where
  "leases_renew env sc f ttl s =
     sbind (validateFence env f) (\<lambda>_.
     sbind (validateLeaseTtl ttl) (\<lambda>_.
     sbind (assertTenant s (fe_organizationId f)) (\<lambda>_.
     sbind (assertUnfencedMutation sc) (\<lambda>_.
     case lease_get s (fe_missionId f) of
       None \<Rightarrow> Inr (None, db_tick 1 s)
     | Some cur \<Rightarrow>
         if \<not> (fence_matches env f cur \<and> lease_live cur (db_now env 0 s)) then Inr (None, db_tick 1 s)
         else if \<not> (db_now env 1 s < le_expiresAt cur) then Inr (None, db_tick 2 s)
         else sbind (checked_lease (cur\<lparr> le_renewedAt := db_now env 2 s,
                le_expiresAt := db_now env 3 s + ttl \<rparr>) (db_tick 4 s)) (\<lambda>s'. Inr (Some f, s'))))))"

definition leases_release :: "env \<Rightarrow> scope \<Rightarrow> fence \<Rightarrow> tenant \<Rightarrow> err + (bool \<times> tenant)" where
  "leases_release env sc f s =
     sbind (validateFence env f) (\<lambda>_.
     sbind (assertTenant s (fe_organizationId f)) (\<lambda>_.
     sbind (assertUnfencedMutation sc) (\<lambda>_.
     case lease_get s (fe_missionId f) of
       None \<Rightarrow> Inr (False, db_tick 1 s)
     | Some cur \<Rightarrow>
         if \<not> (fence_matches env f cur \<and> lease_live cur (db_now env 0 s)) then Inr (False, db_tick 1 s)
         else if \<not> (db_now env 1 s < le_expiresAt cur) then Inr (False, db_tick 2 s)
         else Inr (True, put_lease (cur\<lparr> le_releasedAt := Some (db_now env 2 s) \<rparr>) (db_tick 3 s)))))"

text \<open>
  \<open>runFenced\<close>: the transaction's work runs only when the stored lease is the
  fence's and is live; it gets repositories scoped to the mission and the epoch.
\<close>

definition fence_accepted :: "env \<Rightarrow> fence \<Rightarrow> tenant \<Rightarrow> bool" where
  "fence_accepted env f s = (case lease_get s (fe_missionId f) of
     None \<Rightarrow> False
   | Some l \<Rightarrow> fence_matches env f l \<and> lease_live l (db_now env 0 s))"

definition runFenced :: "env \<Rightarrow> fence \<Rightarrow> (scope \<Rightarrow> tenant \<Rightarrow> err + ('r \<times> tenant)) \<Rightarrow> tenant \<Rightarrow> err + ('r \<times> tenant)" where
  "runFenced env f work s =
     sbind (validateFence env f) (\<lambda>_.
     sbind (assertTenant s (fe_organizationId f)) (\<lambda>_.
     if \<not> fence_accepted env f s then Inl MissionFenceRejectedError
     else work (Fenced (fe_missionId f) (fe_epoch f)) (db_tick 1 s)))"

section \<open>The interface of a fence store\<close>

text \<open>
  A store accepts a fence only at the current epoch of its mission, and no step of
  the system lowers an epoch.
\<close>

locale fence_store =
  fixes accepts :: "'f \<Rightarrow> 's \<Rightarrow> bool"
    and epoch_of :: "'f \<Rightarrow> nat"
    and owner_of :: "'f \<Rightarrow> 'o"
    and mission_of :: "'f \<Rightarrow> 'm"
    and current :: "'m \<Rightarrow> 's \<Rightarrow> nat"
    and holder :: "'m \<Rightarrow> 's \<Rightarrow> 'o"
    and step :: "'s \<Rightarrow> 's \<Rightarrow> bool"
  assumes accepts_current: "accepts f s \<Longrightarrow> epoch_of f = current (mission_of f) s"
    and accepts_holder: "accepts f s \<Longrightarrow> owner_of f = holder (mission_of f) s"
    and step_epoch: "step s s' \<Longrightarrow> current m s \<le> current m s'"
begin

lemma steps_epoch: "step\<^sup>*\<^sup>* s s' \<Longrightarrow> current m s \<le> current m s'"
  by (induction rule: rtranclp_induct) (auto dest: step_epoch[where m = m])

lemma superseded_fence_stays_dead:
  assumes "accepts f s" "step\<^sup>*\<^sup>* s s'" "mission_of old = mission_of f" "epoch_of old < epoch_of f"
  shows "\<not> accepts old s'"
  using assms accepts_current[of f s] accepts_current[of old s'] steps_epoch[OF assms(2), of "mission_of f"]
  by auto

lemma accepted_fences_agree:
  assumes "accepts f s" "accepts g s" "mission_of f = mission_of g"
  shows "epoch_of f = epoch_of g \<and> owner_of f = owner_of g"
  using assms accepts_current accepts_holder by metis

end

section \<open>Lemmas\<close>

lemma db_tick_sel [simp]:
  "tn_leases (db_tick n s) = tn_leases s" "tn_org (db_tick n s) = tn_org s"
  "tn_missions (db_tick n s) = tn_missions s" "tn_events (db_tick n s) = tn_events s"
  by (simp_all add: db_tick_def)

lemma lease_get_db_tick [simp]: "lease_get (db_tick n s) m = lease_get s m"
  by (simp add: lease_get_def)

lemma lease_get_put [simp]:
  "lease_get (put_lease l s) m = (if m = le_missionId l then Some l else lease_get s m)"
  by (simp add: lease_get_def put_lease_def)

lemma lease_get_mission: "lease_get s m = Some l \<Longrightarrow> le_missionId l = m"
  unfolding lease_get_def by (drule lookup_by_SomeD) simp

lemma checked_lease_eq_Inr:
  "checked_lease l s = Inr s' \<longleftrightarrow> le_renewedAt l < le_expiresAt l \<and> s' = put_lease l s"
  by (auto simp: checked_lease_def)

definition epoch_at :: "string \<Rightarrow> tenant \<Rightarrow> nat" where
  "epoch_at m s = (case lease_get s m of None \<Rightarrow> 0 | Some l \<Rightarrow> le_epoch l)"

definition owner_at :: "string \<Rightarrow> tenant \<Rightarrow> string" where
  "owner_at m s = (case lease_get s m of None \<Rightarrow> '''' | Some l \<Rightarrow> le_ownerId l)"

text \<open>
  The steps of the lease table: the three repository operations, and any change
  of the database that leaves the leases alone.
\<close>

inductive lease_step :: "env \<Rightarrow> tenant \<Rightarrow> tenant \<Rightarrow> bool" for env where
  ls_acquire: "leases_acquire env sc org m ow tok ttl s = Inr (r, s') \<Longrightarrow> lease_step env s s'"
| ls_renew: "leases_renew env sc f ttl s = Inr (r, s') \<Longrightarrow> lease_step env s s'"
| ls_release: "leases_release env sc f s = Inr (b, s') \<Longrightarrow> lease_step env s s'"
| ls_other: "tn_leases s' = tn_leases s \<Longrightarrow> lease_step env s s'"

text \<open>The outcomes of the three operations, as changes of the lease table.\<close>

lemma acquire_outcomes:
  assumes "leases_acquire env sc org m ow tok ttl s = Inr (r, s')"
  shows "(r = None \<and> (\<exists>n. s' = db_tick n s)) \<or>
    (\<exists>l n. s' = put_lease l (db_tick n s) \<and> le_missionId l = m \<and> le_epoch l = epoch_at m s + 1 \<and>
       le_ownerId l = ow \<and>
       r = Some \<lparr> fe_organizationId = org, fe_missionId = m, fe_ownerId = ow,
              fe_epoch = epoch_at m s + 1, fe_token = tok \<rparr> \<and>
       (case lease_get s m of None \<Rightarrow> True | Some l0 \<Rightarrow> \<not> lease_live l0 (db_now env 0 s)))"
proof (cases "lease_get s m")
  case None
  then have e: "epoch_at m s = 0" by (simp add: epoch_at_def)
  from assms None show ?thesis unfolding leases_acquire_def
    by (auto simp: e checked_lease_eq_Inr result_simps simp del: fun_upd_apply)
next
  case (Some old)
  note mid = lease_get_mission[OF Some]
  have e: "epoch_at m s = le_epoch old" using Some by (simp add: epoch_at_def)
  show ?thesis
  proof (cases "lease_live old (db_now env 0 s) \<or> (le_releasedAt old = None \<and> db_now env 1 s < le_expiresAt old)")
    case True
    with assms Some show ?thesis by (auto simp: leases_acquire_def result_simps split: if_splits)
  next
    case False
    with assms Some mid show ?thesis
      by (auto simp: leases_acquire_def e checked_lease_eq_Inr result_simps split: if_splits)
  qed
qed

lemma renew_outcomes:
  assumes "leases_renew env sc f ttl s = Inr (r, s')"
  shows "(r = None \<and> (\<exists>n. s' = db_tick n s)) \<or>
    (r = Some f \<and> fence_accepted env f s \<and>
     (\<exists>l n. s' = put_lease l (db_tick n s) \<and> le_missionId l = fe_missionId f \<and>
       le_epoch l = epoch_at (fe_missionId f) s \<and> le_ownerId l = owner_at (fe_missionId f) s))"
proof (cases "lease_get s (fe_missionId f)")
  case None
  with assms show ?thesis by (auto simp: leases_renew_def result_simps)
next
  case (Some cur)
  note mid = lease_get_mission[OF Some]
  have e: "epoch_at (fe_missionId f) s = le_epoch cur" "owner_at (fe_missionId f) s = le_ownerId cur"
    using Some by (simp_all add: epoch_at_def owner_at_def)
  show ?thesis
  proof (cases "fence_matches env f cur \<and> lease_live cur (db_now env 0 s)")
    case False
    with assms Some show ?thesis by (auto simp: leases_renew_def result_simps split: if_splits)
  next
    case True
    then have acc: "fence_accepted env f s" using Some by (simp add: fence_accepted_def)
    from True assms Some mid acc show ?thesis
      by (cases "db_now env 1 s < le_expiresAt cur")
         (auto simp: leases_renew_def e checked_lease_eq_Inr result_simps split: if_splits)
  qed
qed

lemma release_outcomes:
  assumes "leases_release env sc f s = Inr (b, s')"
  shows "(\<not> b \<and> (\<exists>n. s' = db_tick n s)) \<or>
    (b \<and> fence_accepted env f s \<and>
     (\<exists>l n. s' = put_lease l (db_tick n s) \<and> le_missionId l = fe_missionId f \<and>
       le_epoch l = epoch_at (fe_missionId f) s \<and> le_releasedAt l \<noteq> None))"
proof (cases "lease_get s (fe_missionId f)")
  case None
  with assms show ?thesis by (auto simp: leases_release_def result_simps)
next
  case (Some cur)
  note mid = lease_get_mission[OF Some]
  have e: "epoch_at (fe_missionId f) s = le_epoch cur"
    using Some by (simp add: epoch_at_def)
  show ?thesis
  proof (cases "fence_matches env f cur \<and> lease_live cur (db_now env 0 s)")
    case False
    with assms Some show ?thesis by (auto simp: leases_release_def result_simps split: if_splits)
  next
    case True
    then have acc: "fence_accepted env f s" using Some by (simp add: fence_accepted_def)
    from True assms Some mid acc show ?thesis
      by (cases "db_now env 1 s < le_expiresAt cur")
         (auto simp: leases_release_def e result_simps split: if_splits)
  qed
qed

lemma epoch_at_db_tick [simp]: "epoch_at m (db_tick n s) = epoch_at m s"
  by (simp add: epoch_at_def)

lemma epoch_at_put [simp]:
  "epoch_at m (put_lease l s) = (if m = le_missionId l then le_epoch l else epoch_at m s)"
  by (simp add: epoch_at_def)

lemma acquire_epoch:
  "leases_acquire env sc org m0 ow tok ttl s = Inr (r, s') \<Longrightarrow> epoch_at m s \<le> epoch_at m s'"
  by (drule acquire_outcomes) auto

lemma renew_epoch: "leases_renew env sc f ttl s = Inr (r, s') \<Longrightarrow> epoch_at m s \<le> epoch_at m s'"
  by (drule renew_outcomes) auto

lemma release_epoch: "leases_release env sc f s = Inr (b, s') \<Longrightarrow> epoch_at m s \<le> epoch_at m s'"
  by (drule release_outcomes) auto

lemma lease_step_epoch: "lease_step env s s' \<Longrightarrow> epoch_at m s \<le> epoch_at m s'"
proof (induction rule: lease_step.induct)
  case (ls_other s' s)
  then show ?case by (simp add: epoch_at_def lease_get_def)
qed (auto dest: acquire_epoch renew_epoch release_epoch)

lemma fence_accepted_epoch:
  "fence_accepted env f s \<Longrightarrow> fe_epoch f = epoch_at (fe_missionId f) s \<and>
     fe_ownerId f = owner_at (fe_missionId f) s"
  by (auto simp: fence_accepted_def epoch_at_def owner_at_def fence_matches_def split: option.splits)

interpretation leases: fence_store
  "fence_accepted env" fe_epoch fe_ownerId fe_missionId epoch_at owner_at "lease_step env"
  for env
  by unfold_locales (auto dest: fence_accepted_epoch lease_step_epoch)

lemma runFenced_eq_Inr:
  "runFenced env f work s = Inr x \<longleftrightarrow>
     validateFence env f = Inr f \<and> fe_organizationId f = tn_org s \<and> fence_accepted env f s \<and>
     work (Fenced (fe_missionId f) (fe_epoch f)) (db_tick 1 s) = Inr x"
proof -
  have "validateFence env f = Inr g \<Longrightarrow> g = f" for g
    by (auto simp: validateFence_def result_simps split: if_splits)
  then show ?thesis
    by (auto simp: runFenced_def result_simps assertTenant_def)
qed

lemma acquire_grants:
  assumes "leases_acquire env sc org m ow tok ttl s = Inr (Some f, s')"
  shows "fe_epoch f = epoch_at m s + 1" "fe_missionId f = m" "epoch_at m s' = fe_epoch f"
    "fe_ownerId f = ow" "fe_token f = tok" "fe_organizationId f = org"
    "case lease_get s m of None \<Rightarrow> True | Some l \<Rightarrow> \<not> lease_live l (db_now env 0 s)"
  using acquire_outcomes[OF assms] by auto

section \<open>Properties\<close>

text \<open>
  C7.  Fencing: once a lease of a mission has been taken over, that is an
  acquisition granted a fence, no fence of an earlier epoch of that mission is
  ever accepted again, whatever sequence of acquisitions, renewals, releases and
  other database changes follows; and the acquisition itself was only granted
  because no live lease existed.
\<close>

theorem superseded_fences_never_return:
  assumes "leases_acquire env sc org m ow tok ttl s0 = Inr (Some f, s1)"
    and "(lease_step env)\<^sup>*\<^sup>* s1 s2" "fe_missionId old = m" "fe_epoch old < fe_epoch f"
  shows "\<not> fence_accepted env old s2 \<and>
    (case lease_get s0 m of None \<Rightarrow> True | Some l \<Rightarrow> \<not> lease_live l (db_now env 0 s0))"
proof
  have "fe_epoch f \<le> epoch_at m s2"
    using leases.steps_epoch[OF assms(2), of m] acquire_grants(3)[OF assms(1)] by simp
  then show "\<not> fence_accepted env old s2"
    using leases.accepts_current[of env old s2] assms(3,4) by auto
  show "case lease_get s0 m of None \<Rightarrow> True | Some l \<Rightarrow> \<not> lease_live l (db_now env 0 s0)"
    by (rule acquire_grants(7)[OF assms(1)])
qed


section \<open>Concrete runs\<close>

definition ex_owner_a :: string where "ex_owner_a = ''worker-a''"
definition ex_owner_b :: string where "ex_owner_b = ''worker-b''"
definition ex_token :: string where "ex_token = ''tttttttttttttttttttt''"

definition ex_fence :: "string \<Rightarrow> nat \<Rightarrow> fence" where
  "ex_fence ow e = \<lparr> fe_organizationId = ''org_aaaaaaaa'', fe_missionId = ''mis_aaaaaaaa'', fe_ownerId = ow,
     fe_epoch = e, fe_token = ex_token \<rparr>"

text \<open>A tenant in which a first lease of the mission has expired.\<close>

definition ex_expired_lease :: lease where
  "ex_expired_lease = \<lparr> le_missionId = ''mis_aaaaaaaa'', le_ownerId = ex_owner_a, le_epoch = 1,
     le_tokenFingerprint = ex_digest, le_acquiredAt = 0, le_expiresAt = 500, le_renewedAt = 0,
     le_releasedAt = None \<rparr>"

definition ex_lease_tenant :: tenant where
  "ex_lease_tenant = ex_tenant\<lparr> tn_leases := [ex_expired_lease] \<rparr>"

lemma ex_takeover:
  "case leases_acquire ex_env Unfenced ''org_aaaaaaaa'' ''mis_aaaaaaaa'' ex_owner_b ex_token 30000 ex_lease_tenant of
     Inl _ \<Rightarrow> False | Inr (r, _) \<Rightarrow> r = Some (ex_fence ex_owner_b 2)"
  by code_simp

theorem superseded_fences_never_return_witness:
  "\<exists>s1. leases_acquire ex_env Unfenced ''org_aaaaaaaa'' ''mis_aaaaaaaa'' ex_owner_b ex_token 30000 ex_lease_tenant
         = Inr (Some (ex_fence ex_owner_b 2), s1) \<and>
     \<not> fence_accepted ex_env (ex_fence ex_owner_a 1) s1"
proof -
  obtain s1 where s1: "leases_acquire ex_env Unfenced ''org_aaaaaaaa'' ''mis_aaaaaaaa'' ex_owner_b ex_token
      30000 ex_lease_tenant = Inr (Some (ex_fence ex_owner_b 2), s1)"
    using ex_takeover by (auto split: sum.splits)
  have "\<not> fence_accepted ex_env (ex_fence ex_owner_a 1) s1"
    using superseded_fences_never_return[OF s1 rtranclp.rtrancl_refl, of "ex_fence ex_owner_a 1"]
    by (simp add: ex_fence_def)
  with s1 show ?thesis by blast
qed

definition ex_live_tenant :: tenant where
  "ex_live_tenant = ex_tenant\<lparr> tn_leases := [ex_expired_lease\<lparr> le_expiresAt := 50000 \<rparr>] \<rparr>"

lemma ex_live_run: "runFenced ex_env (ex_fence ex_owner_a 1) (\<lambda>sc s. Inr (sc, s)) ex_live_tenant =
    Inr (Fenced ''mis_aaaaaaaa'' 1, db_tick 1 ex_live_tenant)"
proof -
  have "validateFence ex_env (ex_fence ex_owner_a 1) = Inr (ex_fence ex_owner_a 1)" by code_simp
  moreover have "fence_accepted ex_env (ex_fence ex_owner_a 1) ex_live_tenant" by code_simp
  ultimately show ?thesis
    by (simp add: runFenced_eq_Inr) (simp add: ex_fence_def ex_live_tenant_def ex_tenant_def)
qed


end
