(* ===== verification/Mission_State.thy ===== *)
theory Mission_State
  imports Lease Mission_Runs
begin

text \<open>
  Mission transitions on the store: \<open>persistMissionTransition\<close>
  (\<open>application/src/mission-state.ts\<close>), the host transition service
  (\<open>mission-service.ts\<close>), the version-bound resume job (\<open>mission-resume.ts\<close>) and
  the lease service (\<open>mission-lease-service.ts\<close>).  The invariant \<open>history_ok\<close> ties a
  stored mission to its event log.
\<close>

section \<open>Operations\<close>

definition missions_insert :: "scope \<Rightarrow> mission \<Rightarrow> tenant \<Rightarrow> err + tenant" where
  "missions_insert sc m s =
     (if \<not> mission_ok m then Inl (ZodError ''Mission'')
      else sbind (assertTenant s (mi_organizationId m)) (\<lambda>_.
      sbind (assertMissionMutation sc (mi_id m)) (\<lambda>_.
      if list_ex (\<lambda>x. mi_id x = mi_id m) (tn_missions s)
        then Inl (DatabaseConflictError ''missions_pkey'')
      else Inr (s\<lparr> tn_missions := tn_missions s @
             [m\<lparr> mi_programKind := Some (missionProgramKindOf m) \<rparr>] \<rparr>))))"

definition next_mission :: "mission \<Rightarrow> mission_state \<Rightarrow> nat \<Rightarrow> instant \<Rightarrow> mission" where
  "next_mission m st v t = m\<lparr> mi_state := st, mi_version := v, mi_updatedAt := t \<rparr>"

definition persistMissionTransition ::
  "env \<Rightarrow> scope \<Rightarrow> mission \<Rightarrow> nat \<Rightarrow> mission_event_kind \<Rightarrow> tenant \<Rightarrow> err + (mission \<times> tenant)" where
  "persistMissionTransition env sc m expectedVersion event s =
     (if mi_version m \<noteq> expectedVersion then Inl (OptimisticConcurrencyError ''Mission'')
      else let occurredAt = read_clock env s; s1 = tick s in
      sbind (resolveMissionTransition (mi_state m) event) (\<lambda>st.
      let nxt = next_mission m st (expectedVersion + 1) occurredAt in
      if \<not> mission_ok nxt then Inl (ZodError ''Mission'')
      else sbind (missions_save sc nxt expectedVersion s1) (\<lambda>(saved, s2).
      if \<not> saved then Inl (OptimisticConcurrencyError ''Mission'')
      else let i = fresh_id env IdMissionEvent s2; s3 = bump s2;
         e = \<lparr> me_id = i, me_missionId = mi_id m, me_organizationId = mi_organizationId m,
               me_sequence = mi_version nxt, me_event = event, me_from = mi_state m,
               me_to = mi_state nxt, me_occurredAt = occurredAt \<rparr> in
      sbind (missions_appendEvent sc e s3) (\<lambda>s4. Inr (nxt, s4)))))"

text \<open>\<open>MissionLifecycleService.transition\<close>\<close>

definition mission_transition_service ::
  "env \<Rightarrow> execution_context \<Rightarrow> string \<Rightarrow> nat \<Rightarrow> mission_event_kind \<Rightarrow> tenant \<Rightarrow> err + (mission \<times> tenant)" where
  "mission_transition_service env c missionId expectedVersion event s =
     (if event = VerificationPassed
        then Inl (ConflictError ''Only VerificationService may mark a mission successful'')
      else let org = pr_organizationId (xc_principal c) in
      sbind (assertMissionExecutionContext c org missionId) (\<lambda>_.
      runFenced env (xc_fence c) (\<lambda>sc s.
        case mission_get s missionId of
          None \<Rightarrow> Inl (NotFoundError ''Mission'')
        | Some cur \<Rightarrow>
            sbind (assertSameTenant org [mi_organizationId cur]) (\<lambda>_.
            if isTerminalMissionState (mi_state cur)
              then Inl (ConflictError ''Terminal mission state is immutable'')
            else persistMissionTransition env sc cur expectedVersion event s)) s))"

text \<open>\<open>enqueueMissionResume\<close>\<close>

definition resume_key :: "mission \<Rightarrow> string" where
  "resume_key m = ''mission.resume:'' @ mi_id m @ '':'' @ show_nat (mi_version m)"

definition enqueueMissionResume :: "env \<Rightarrow> scope \<Rightarrow> mission \<Rightarrow> tenant \<Rightarrow> err + tenant" where
  "enqueueMissionResume env sc m s =
     (let payload = MissionReference (mi_organizationId m) (mi_id m) in
      case findByDeduplicationKey s (resume_key m) of
        Some existing \<Rightarrow>
          if ob_organizationId existing \<noteq> mi_organizationId m \<or> ob_topic existing \<noteq> TopicMissionResume \<or>
             ob_payload existing \<noteq> payload
            then Inl (ConflictError ''Mission resume identity is bound to another queue payload'')
          else Inr s
      | None \<Rightarrow>
          outbox_insert sc (new_outbox_message (fresh_id env IdOutbox s) (mi_organizationId m)
            TopicMissionResume (resume_key m) payload (mi_updatedAt m) (mi_updatedAt m)) (bump s))"

text \<open>\<open>MissionLeaseService.acquire\<close>, \<open>renew\<close> and \<open>release\<close>\<close>

record acquired_fence =
  af_fence :: fence
  af_mission :: mission
  af_resumed :: bool

definition lease_service_acquire ::
  "env \<Rightarrow> string \<Rightarrow> string \<Rightarrow> string \<Rightarrow> int \<Rightarrow> bool \<Rightarrow> tenant \<Rightarrow> err + (acquired_fence \<times> tenant)" where
  "lease_service_acquire env org missionId ownerId ttl allowTerminalFinalization s =
     sbind (validateLeaseTtl ttl) (\<lambda>_.
     sbind (assertTenant s org) (\<lambda>_.
     case mission_get s missionId of
       None \<Rightarrow> Inl (NotFoundError ''Mission'')
     | Some m \<Rightarrow>
         if isTerminalMissionState (mi_state m) \<and> \<not> allowTerminalFinalization
           then Inl LeaseUnavailableError
         else sbind (fence_token (en_entropy env (tn_ids s))) (\<lambda>token.
         sbind (leases_acquire env Unfenced (mi_organizationId m) (mi_id m) ownerId token ttl (bump s))
           (\<lambda>(fo, s1).
         case fo of
           None \<Rightarrow> Inl LeaseUnavailableError
         | Some f \<Rightarrow>
             if fe_organizationId f \<noteq> org \<or> fe_missionId f \<noteq> missionId \<or> fe_ownerId f \<noteq> ownerId \<or>
                fe_token f \<noteq> token \<or> fe_epoch f < 1
               then Inl (ConflictError ''Lease repository returned an invalid mission fence'')
             else if ms_status (mi_state m) \<noteq> MQueued
               then Inr (\<lparr> af_fence = f, af_mission = m, af_resumed = True \<rparr>, s1)
             else sbind (persistMissionTransition env Unfenced m (mi_version m) LeaseAcquired s1)
                    (\<lambda>(m', s2). Inr (\<lparr> af_fence = f, af_mission = m', af_resumed = False \<rparr>, s2))))))"

definition lease_service_renew :: "env \<Rightarrow> fence \<Rightarrow> int \<Rightarrow> tenant \<Rightarrow> err + (fence \<times> tenant)" where
  "lease_service_renew env f ttl s =
     sbind (validateLeaseTtl ttl) (\<lambda>_.
     sbind (leases_renew env Unfenced f ttl s) (\<lambda>(fo, s1).
     case fo of
       None \<Rightarrow> Inl LeaseLostError
     | Some g \<Rightarrow> if g \<noteq> f then Inl LeaseLostError else Inr (g, s1)))"

definition lease_service_release :: "env \<Rightarrow> fence \<Rightarrow> tenant \<Rightarrow> err + (bool \<times> tenant)" where
  "lease_service_release env f s = leases_release env Unfenced f s"

section \<open>The event log\<close>

definition events_of :: "tenant \<Rightarrow> string \<Rightarrow> mission_event list" where
  "events_of s m = filter (\<lambda>e. me_missionId e = m) (tn_events s)"

text \<open>
  A mission's log numbers its events from one to its version without gaps, and
  replaying the log from the initial state gives the mission's state.
\<close>

definition history_ok :: "tenant \<Rightarrow> mission \<Rightarrow> bool" where
  "history_ok s m = (List.map me_sequence (events_of s (mi_id m)) = [1..<Suc (mi_version m)] \<and>
     mission_run initial_mission_state (List.map me_event (events_of s (mi_id m))) (mi_state m))"

definition missions_ok :: "tenant \<Rightarrow> bool" where
  "missions_ok s = (distinct (List.map mi_id (tn_missions s)) \<and>
     (\<forall>m \<in> set (tn_missions s). history_ok s m \<and>
        (ms_status (mi_state m) = MSucceeded \<longrightarrow> has_passed_verification s (mi_id m))))"

section \<open>Lemmas\<close>

lemma tick_sel [simp]:
  "tn_missions (tick s) = tn_missions s" "tn_events (tick s) = tn_events s"
  "tn_verifications (tick s) = tn_verifications s" "tn_org (tick s) = tn_org s"
  "tn_leases (tick s) = tn_leases s"
  by (simp_all add: tick_def)

lemma bump_sel [simp]:
  "tn_missions (bump s) = tn_missions s" "tn_events (bump s) = tn_events s"
  "tn_verifications (bump s) = tn_verifications s" "tn_org (bump s) = tn_org s"
  "tn_leases (bump s) = tn_leases s"
  by (simp_all add: bump_def)

lemma mission_written_sel [simp]:
  "mi_id (mission_written cur m) = mi_id cur" "mi_state (mission_written cur m) = mi_state m"
  "mi_version (mission_written cur m) = mi_version m"
  by (simp_all add: mission_written_def)

lemma next_mission_sel [simp]:
  "mi_id (next_mission m st v t) = mi_id m" "mi_state (next_mission m st v t) = st"
  "mi_version (next_mission m st v t) = v" "mi_organizationId (next_mission m st v t) = mi_organizationId m"
  by (simp_all add: next_mission_def)

lemma missions_save_eq_True:
  assumes "missions_save sc m v s = Inr (True, s')"
  shows "\<exists>cur \<in> set (tn_missions s). mi_id cur = mi_id m \<and> mi_version cur = v \<and> mi_version m = Suc v \<and>
    \<not> isTerminalMissionState (mi_state cur) \<and> mission_identity_kept cur m \<and>
    (ms_status (mi_state m) = MSucceeded \<longrightarrow> has_passed_verification s (mi_id m)) \<and> mission_ok m \<and>
    s' = s\<lparr> tn_missions := upsert mi_id (mission_written cur m) (tn_missions s) \<rparr>"
proof -
  let ?f = "find (\<lambda>x. mi_id x = mi_id m \<and> mi_version x = v) (tn_missions s)"
  from assms obtain cur where f: "?f = Some cur"
    by (cases ?f) (auto simp: missions_save_def result_simps split: if_splits)
  from find_Some_in[OF f] have "cur \<in> set (tn_missions s)" "mi_id cur = mi_id m" "mi_version cur = v" by auto
  with assms f show ?thesis
    by (intro bexI[of _ cur]) (auto simp: missions_save_def result_simps split: if_splits)
qed

lemma missions_appendEvent_Inr:
  "missions_appendEvent sc e s = Inr s' \<Longrightarrow>
     s' = s\<lparr> tn_events := tn_events s @ [e] \<rparr> \<and> mission_event_ok e"
  by (auto simp: missions_appendEvent_def result_simps split: if_splits)

text \<open>What a successful transition does to the store.\<close>

definition record_mission :: "mission \<Rightarrow> mission_event \<Rightarrow> tenant \<Rightarrow> tenant" where
  "record_mission x e s = (bump (tick s))\<lparr> tn_missions := upsert mi_id x (tn_missions s),
     tn_events := tn_events s @ [e] \<rparr>"

lemma record_mission_sel [simp]:
  "tn_missions (record_mission x e s) = upsert mi_id x (tn_missions s)"
  "tn_events (record_mission x e s) = tn_events s @ [e]"
  "tn_verifications (record_mission x e s) = tn_verifications s"
  "tn_org (record_mission x e s) = tn_org s"
  "tn_leases (record_mission x e s) = tn_leases s"
  "tn_plans (record_mission x e s) = tn_plans s"
  "tn_approvals (record_mission x e s) = tn_approvals s"
  "tn_operations (record_mission x e s) = tn_operations s"
  "tn_routines (record_mission x e s) = tn_routines s"
  "tn_versions (record_mission x e s) = tn_versions s"
  "tn_outbox (record_mission x e s) = tn_outbox s"
  "tn_attempts (record_mission x e s) = tn_attempts s"
  "tn_executions (record_mission x e s) = tn_executions s"
  "tn_effects (record_mission x e s) = tn_effects s"
  "tn_dispatches (record_mission x e s) = tn_dispatches s"
  "tn_commands (record_mission x e s) = tn_commands s"
  "tn_cancellations (record_mission x e s) = tn_cancellations s"
  "tn_opPolls (record_mission x e s) = tn_opPolls s"
  by (simp_all add: record_mission_def bump_def tick_def)

lemma record_mission_after_save:
  "(bump ((tick s)\<lparr> tn_missions := ms \<rparr>))\<lparr> tn_events := tn_events (bump ((tick s)\<lparr> tn_missions := ms \<rparr>)) @ [e] \<rparr>
   = (bump (tick s))\<lparr> tn_missions := ms, tn_events := tn_events s @ [e] \<rparr>"
  by (rule tenant.equality) (simp_all add: bump_def tick_def)

lemma has_passed_cong:
  "tn_verifications s' = tn_verifications s \<Longrightarrow> has_passed_verification s' m = has_passed_verification s m"
  by (simp add: has_passed_verification_def)

lemma persistMissionTransition_Inr:
  assumes "persistMissionTransition env sc m v ev s = Inr (m', s')"
  obtains st cur e where
    "mi_version m = v" "resolveMissionTransition (mi_state m) ev = Inr st"
    "m' = next_mission m st (Suc v) (read_clock env s)"
    "cur \<in> set (tn_missions s)" "mi_id cur = mi_id m" "mi_version cur = v"
    "mission_ok m'" "mission_event_ok e"
    "ms_status st = MSucceeded \<Longrightarrow> has_passed_verification s (mi_id m)"
    "me_missionId e = mi_id m" "me_sequence e = Suc v" "me_event e = ev" "me_from e = mi_state m" "me_to e = st"
    "s' = record_mission (mission_written cur m') e s"
proof -
  from assms obtain st s2 where
    v: "mi_version m = v" and st: "resolveMissionTransition (mi_state m) ev = Inr st" and
    sv: "missions_save sc (next_mission m st (Suc v) (read_clock env s)) v (tick s) = Inr (True, s2)" and
    ap0: "missions_appendEvent sc \<lparr> me_id = fresh_id env IdMissionEvent s2, me_missionId = mi_id m,
        me_organizationId = mi_organizationId m, me_sequence = Suc v, me_event = ev,
        me_from = mi_state m, me_to = st, me_occurredAt = read_clock env s \<rparr> (bump s2) = Inr s'"
      (is "missions_appendEvent sc ?e (bump s2) = Inr s'") and
    r: "m' = next_mission m st (Suc v) (read_clock env s)"
    by (auto simp: persistMissionTransition_def result_simps Let_def split: if_splits)
  obtain e where e: "me_missionId e = mi_id m" "me_sequence e = Suc v" "me_event e = ev"
      "me_from e = mi_state m" "me_to e = st" and ap: "missions_appendEvent sc e (bump s2) = Inr s'"
    using ap0 by (rule_tac that[of ?e]) simp_all
  from missions_save_eq_True[OF sv] obtain cur where
    c: "cur \<in> set (tn_missions s)" "mi_id cur = mi_id m" "mi_version cur = v" "mission_ok m'"
      "ms_status st = MSucceeded \<longrightarrow> has_passed_verification (tick s) (mi_id m)" and
    s2: "s2 = (tick s)\<lparr> tn_missions := upsert mi_id (mission_written cur m') (tn_missions s) \<rparr>"
    using r by auto
  have "s' = record_mission (mission_written cur m') e s"
    using missions_appendEvent_Inr[OF ap] unfolding s2 record_mission_def
    by (simp only: record_mission_after_save)
  moreover have "mission_event_ok e" using missions_appendEvent_Inr[OF ap] by blast
  moreover have "ms_status st = MSucceeded \<Longrightarrow> has_passed_verification s (mi_id m)"
    using c(5) has_passed_cong[of "tick s" s] by simp
  ultimately show thesis using that v st r c(1-4) e by blast
qed

lemma events_of_append:
  "tn_events s' = tn_events s @ [e] \<Longrightarrow>
     events_of s' m = (if me_missionId e = m then events_of s m @ [e] else events_of s m)"
  by (simp add: events_of_def)

text \<open>
  The interface through which services change missions: a store has a mission per
  identifier and its version, and a committed transition appends one event.
\<close>

lemma persist_keeps_missions_ok:
  assumes "missions_ok s" "mission_get s (mi_id m) = Some m"
    and "persistMissionTransition env sc m v ev s = Inr (m', s')"
  shows "missions_ok s'"
  using assms(3)
proof (rule persistMissionTransition_Inr)
  fix st cur e
  assume v: "mi_version m = v" and st: "resolveMissionTransition (mi_state m) ev = Inr st"
    and m': "m' = next_mission m st (Suc v) (read_clock env s)"
    and cur: "cur \<in> set (tn_missions s)" "mi_id cur = mi_id m" "mi_version cur = v"
    and pv: "ms_status st = MSucceeded \<Longrightarrow> has_passed_verification s (mi_id m)"
    and e: "me_missionId e = mi_id m" "me_sequence e = Suc v" "me_event e = ev"
    and s': "s' = record_mission (mission_written cur m') e s"
  have d: "distinct (List.map mi_id (tn_missions s))" using assms(1) by (simp add: missions_ok_def)
  have min: "m \<in> set (tn_missions s)"
    using lookup_by_SomeD[OF assms(2)[unfolded mission_get_def]] by simp
  have old: "history_ok s m" using assms(1) min by (simp add: missions_ok_def)
  have ev: "events_of s' x = (if x = mi_id m then events_of s x @ [e] else events_of s x)" for x
    using events_of_append[of s' s e x] e(1) s' by simp
  have verif: "has_passed_verification s' x = has_passed_verification s x" for x
    by (rule has_passed_cong) (simp add: s')
  have new: "history_ok s' (mission_written cur m')"
    using old v e cur(2) st m'
    by (auto simp: history_ok_def ev intro!: run_snoc simp: mission_step_iff_resolve)
  have other: "history_ok s' x" if "x \<in> set (tn_missions s)" "mi_id x \<noteq> mi_id m" for x
    using that assms(1) by (auto simp: missions_ok_def history_ok_def ev)
  have members: "x = mission_written cur m' \<or> x \<in> set (tn_missions s) \<and> mi_id x \<noteq> mi_id m"
    if "x \<in> set (tn_missions s')" for x
    using that set_upsert[OF d] cur(2) by (auto simp: s')
  have "distinct (List.map mi_id (tn_missions s'))"
    using distinct_keys_upsert[OF d] by (simp add: s')
  moreover have "history_ok s' x \<and> (ms_status (mi_state x) = MSucceeded \<longrightarrow> has_passed_verification s' (mi_id x))"
    if "x \<in> set (tn_missions s')" for x
    using members[OF that] new other pv m' cur(2) assms(1) verif by (auto simp: missions_ok_def)
  ultimately show ?thesis by (simp add: missions_ok_def)
qed

lemma persist_advances:
  assumes "persistMissionTransition env sc m v ev s = Inr (m', s')"
  shows "mission_step (mi_state m) ev (mi_state m')" "mi_version m' = Suc v" "mi_version m = v"
    "mi_id m' = mi_id m"
    "tn_verifications s' = tn_verifications s" "tn_leases s' = tn_leases s"
  using assms by (rule persistMissionTransition_Inr; simp add: mission_step_iff_resolve)+

lemma mission_get_id: "mission_get s i = Some m \<Longrightarrow> mi_id m = i"
  unfolding mission_get_def by (drule lookup_by_SomeD) simp

text \<open>The stored mission after a transition is the one the transition returned.\<close>

lemma persist_stored:
  assumes "persistMissionTransition env sc m v ev s = Inr (m', s')"
  shows "\<exists>x. mission_get s' (mi_id m) = Some x \<and> mi_state x = mi_state m' \<and> mi_version x = Suc v"
  using assms by (rule persistMissionTransition_Inr) (simp add: mission_get_def)

text \<open>A transition of the service is a commit of the copy it was prepared from.\<close>

definition mission_commit :: "tenant \<Rightarrow> mission \<Rightarrow> tenant \<Rightarrow> bool" where
  "mission_commit s m s' =
     (\<exists>env sc v ev m'. persistMissionTransition env sc m v ev s = Inr (m', s'))"

lemma mission_commit_current:
  assumes "missions_ok s" "mission_commit s m s'"
  shows "\<exists>w. mission_get s (mi_id m) = Some w \<and> mi_version w = mi_version m"
proof -
  from assms(2) obtain env sc v ev m' where p: "persistMissionTransition env sc m v ev s = Inr (m', s')"
    by (auto simp: mission_commit_def)
  then obtain cur where "cur \<in> set (tn_missions s)" "mi_id cur = mi_id m" "mi_version cur = v"
    by (rule persistMissionTransition_Inr)
  with assms(1) persist_advances(3)[OF p] show ?thesis
    by (auto simp: mission_get_def missions_ok_def lookup_by_eq_Some_distinct)
qed

lemma mission_commit_advances:
  "mission_commit s m s' \<Longrightarrow> \<exists>w. mission_get s' (mi_id m) = Some w \<and> mi_version w = Suc (mi_version m)"
  using persist_stored persist_advances(3) by (fastforce simp: mission_commit_def)

interpretation mission_versions: versioned_store missions_ok mission_get mi_id mi_version mission_commit
proof
  show "missions_ok s'" if "missions_ok s" "mission_get s (mi_id v) = Some v" "mission_commit s v s'" for s v s'
    using that persist_keeps_missions_ok by (auto simp: mission_commit_def)
qed (use mission_commit_current mission_commit_advances in blast)+

section \<open>Properties\<close>

text \<open>
  C6.  The event log is a gapless history: if every stored mission's log replays
  to its state with consecutive sequence numbers, then after any transition that
  the store accepts for the current record this is still so for every mission,
  and a mission is only ever \<open>succeeded\<close> with a passed application verification
  on record.
\<close>

theorem transitions_keep_the_history:
  assumes "missions_ok s" "mission_get s (mi_id m) = Some m"
    and "persistMissionTransition env sc m v ev s = Inr (m', s')"
  shows "missions_ok s'"
  by (rule persist_keeps_missions_ok[OF assms])

text \<open>Optimistic concurrency: a transition prepared from a stale copy of a
  mission is refused and changes nothing; two callers who read the same version
  cannot both commit, because the first commit raises the version that the
  second one's write requires.
\<close>

theorem stale_transitions_are_refused:
  assumes "missions_ok s" "mission_get s (mi_id m) = Some m"
    and "persistMissionTransition env sc m v ev s = Inr (m', s')"
  shows "\<exists>e. persistMissionTransition env sc2 m v ev2 s' = Inl e"
proof (cases "persistMissionTransition env sc2 m v ev2 s'")
  case (Inr r)
  obtain a b where "r = (a, b)" by (cases r)
  with Inr have "mission_commit s' m b" unfolding mission_commit_def by blast
  moreover have "mission_commit s m s'" using assms(3) unfolding mission_commit_def by blast
  ultimately show ?thesis using mission_versions.no_second_commit[OF assms(1,2)] by blast
qed simp

section \<open>A concrete mission\<close>

definition ex_mission :: mission where
  "ex_mission = \<lparr> mi_id = ''mis_aaaaaaaa'', mi_organizationId = ''org_aaaaaaaa'',
     mi_palaceId = ''pal_aaaaaaaa'', mi_initiatedBy = ''usr_aaaaaaaa'', mi_programKind = Some NightShiftHomecoming,
     mi_objective = ''Warm the palace'', mi_constraints = ex_constraint,
     mi_successCriteriaIds = [''sc_one''], mi_state = initial_mission_state, mi_version = 0,
     mi_runId = None, mi_contextReceiptId = None, mi_taskLedger = [], mi_createdAt = 0, mi_updatedAt = 0 \<rparr>"

definition ex_mission_tenant :: tenant where
  "ex_mission_tenant = ex_tenant\<lparr> tn_missions := [ex_mission] \<rparr>"

lemma ex_missions_ok: "missions_ok ex_mission_tenant"
  by (simp add: missions_ok_def history_ok_def events_of_def ex_mission_tenant_def ex_tenant_def
      ex_mission_def initial_mission_state_def mission_state_ok_def run_start)

lemma ex_mission_get: "mission_get ex_mission_tenant (mi_id ex_mission) = Some ex_mission"
  by (simp add: mission_get_def ex_mission_tenant_def)

lemma ex_lease_acquired:
  "case persistMissionTransition ex_env Unfenced ex_mission 0 LeaseAcquired ex_mission_tenant of
     Inl _ \<Rightarrow> False | Inr (m, _) \<Rightarrow> mi_state m = mstate MRunning PhUnderstand \<and> mi_version m = 1"
  by code_simp

theorem transitions_keep_the_history_witness:
  "\<exists>m' s'. persistMissionTransition ex_env Unfenced ex_mission 0 LeaseAcquired ex_mission_tenant = Inr (m', s') \<and>
     missions_ok s'"
proof -
  obtain m' s' where p: "persistMissionTransition ex_env Unfenced ex_mission 0 LeaseAcquired
      ex_mission_tenant = Inr (m', s')"
    using ex_lease_acquired by (auto split: sum.splits)
  from transitions_keep_the_history[OF ex_missions_ok ex_mission_get p] p show ?thesis by blast
qed

theorem stale_transitions_are_refused_witness:
  "\<exists>m' s' e. persistMissionTransition ex_env Unfenced ex_mission 0 LeaseAcquired ex_mission_tenant = Inr (m', s') \<and>
     persistMissionTransition ex_env Unfenced ex_mission 0 CancelRequested s' = Inl e"
proof -
  obtain m' s' where p: "persistMissionTransition ex_env Unfenced ex_mission 0 LeaseAcquired
      ex_mission_tenant = Inr (m', s')"
    using ex_lease_acquired by (auto split: sum.splits)
  from stale_transitions_are_refused[OF ex_missions_ok ex_mission_get p, where ?ev2.0 = CancelRequested and ?sc2.0 = Unfenced] p
  show ?thesis by blast
qed

end
