(* ===== verification/Store_Effects.thy ===== *)
theory Store_Effects
  imports Mission_State
begin

text \<open>
  What a successful write of the store leaves, one elimination rule per operation:
  the checks it passed and the exact new state.  The proofs about services use
  these rules and never unfold a repository operation.
\<close>

named_theorems frame_simps

section \<open>Counters\<close>

lemma counter_frames [frame_simps]:
  "tn_plans (tick s) = tn_plans s" "tn_plans (bump s) = tn_plans s"
  "tn_approvals (tick s) = tn_approvals s" "tn_approvals (bump s) = tn_approvals s"
  "tn_operations (tick s) = tn_operations s" "tn_operations (bump s) = tn_operations s"
  "tn_attempts (tick s) = tn_attempts s" "tn_attempts (bump s) = tn_attempts s"
  "tn_routines (tick s) = tn_routines s" "tn_routines (bump s) = tn_routines s"
  "tn_versions (tick s) = tn_versions s" "tn_versions (bump s) = tn_versions s"
  "tn_memberships (tick s) = tn_memberships s" "tn_memberships (bump s) = tn_memberships s"
  "tn_outbox (tick s) = tn_outbox s" "tn_outbox (bump s) = tn_outbox s"
  "tn_executions (tick s) = tn_executions s" "tn_executions (bump s) = tn_executions s"
  "tn_effects (tick s) = tn_effects s" "tn_effects (bump s) = tn_effects s"
  "tn_dispatches (tick s) = tn_dispatches s" "tn_dispatches (bump s) = tn_dispatches s"
  "tn_commands (tick s) = tn_commands s" "tn_commands (bump s) = tn_commands s"
  "tn_callbacks (tick s) = tn_callbacks s" "tn_callbacks (bump s) = tn_callbacks s"
  "tn_evidence (tick s) = tn_evidence s" "tn_evidence (bump s) = tn_evidence s"
  "tn_opPolls (tick s) = tn_opPolls s" "tn_opPolls (bump s) = tn_opPolls s"
  "tn_cancellations (tick s) = tn_cancellations s" "tn_cancellations (bump s) = tn_cancellations s"
  "tn_devices (tick s) = tn_devices s" "tn_devices (bump s) = tn_devices s"
  "tn_capabilities (tick s) = tn_capabilities s" "tn_capabilities (bump s) = tn_capabilities s"
  by (simp_all add: tick_def bump_def)

lemma assertTenant_eq_Inr [simp]: "assertTenant s i = Inr u \<longleftrightarrow> i = tn_org s"
  by (simp add: assertTenant_def)

lemma assertMissionMutation_eq_Inr [simp]: "assertMissionMutation sc m = Inr u \<longleftrightarrow> in_scope sc m"
  by (simp add: assertMissionMutation_def)

section \<open>Plans\<close>

lemma plans_save_Inr:
  assumes "plans_save env sc p s = Inr s'"
  obtains stored where "plan_get s (pl_id p) = Some stored" "plan_ok (en_planHash env) p"
    "pl_organizationId p = tn_org s" "in_scope sc (pl_missionId p)" "plan_content_kept stored p"
    "pl_status p = pl_status stored \<or> plan_status_change (pl_status stored) (pl_status p)"
    "s' = s\<lparr> tn_plans := upsert pl_id (stored\<lparr> pl_status := pl_status p \<rparr>) (tn_plans s) \<rparr>"
  using assms
  by (auto simp: plans_save_def guard_plan_mutation_def result_simps split: if_splits option.splits)

section \<open>Approvals\<close>

lemma approvals_save_Inr:
  assumes "approvals_save sc a s = Inr s'"
  obtains stored where "approval_get s (ap_id a) = Some stored" "approval_ok a"
    "ap_organizationId a = tn_org s" "in_scope sc (ap_missionId a)" "approval_request_kept stored a"
    "ap_status a = ap_status stored \<or> approval_status_change (ap_status stored) (ap_status a)"
    "ap_status a = ApprovalApproved \<Longrightarrow> assert_approved_record s a = Inr ()"
    "s' = s\<lparr> tn_approvals := upsert ap_id
       (stored\<lparr> ap_status := ap_status a, ap_approvedBy := ap_approvedBy a,
          ap_approverRole := ap_approverRole a, ap_approvedAt := ap_approvedAt a \<rparr>) (tn_approvals s) \<rparr>"
  using assms
  by (auto simp: approvals_save_def guard_approval_mutation_def result_simps split: if_splits option.splits)

lemma approvals_insert_Inr:
  assumes "approvals_insert sc a s = Inr s'"
  obtains p where "plan_get s (ap_planId a) = Some p" "approval_ok a"
    "ap_organizationId a = tn_org s" "in_scope sc (ap_missionId a)"
    "ap_planHash a = pl_hash p" "ap_missionId a = pl_missionId p"
    "sameStrings (ap_actionIds a) (List.map pa_id (pl_actions p))"
    "assert_resource_bindings a (pl_actions p) = Inr ()"
    "\<forall>x\<in>set (tn_approvals s). ap_id x \<noteq> ap_id a \<and> ap_nonce x \<noteq> ap_nonce a"
    "s' = s\<lparr> tn_approvals := tn_approvals s @ [a] \<rparr>"
  using assms
  by (auto simp: approvals_insert_def result_simps list_ex_iff split: if_splits option.splits)

section \<open>Operations and attempts\<close>

lemma operations_insert_Inr:
  assumes "operations_insert env sc x s = Inr s'"
  obtains p a act where "plan_get s (op_planId x) = Some p" "approval_get s (op_approvalId x) = Some a"
    "operation_ok x" "op_organizationId x = tn_org s" "in_scope sc (op_missionId x)"
    "assertApprovalAuthorizesPlan a p (op_createdAt x) = Inr ()"
    "list_all (resource_current s) (ap_protectedResources a)"
    "find_action (op_planActionId x) p = Some act" "op_payloadHash x = en_actionHash env (pl_hash p) act"
    "\<forall>y\<in>set (tn_operations s). op_id y \<noteq> op_id x \<and>
       (op_planId y, op_planActionId y) \<noteq> (op_planId x, op_planActionId x)"
    "s' = s\<lparr> tn_operations := tn_operations s @ [x] \<rparr>"
  using assms
  by (auto simp: operations_insert_def assertProtectedResourcesCurrent_def result_simps list_ex_iff
      split: if_splits option.splits)

lemma operations_save_Inr:
  assumes "operations_save sc x s = Inr s'"
  obtains cur where "operation_get s (op_id x) = Some cur" "operation_ok x"
    "op_organizationId x = tn_org s" "in_scope sc (op_missionId x)" "operation_identity_kept cur x"
    "s' = s\<lparr> tn_operations := upsert op_id
       (cur\<lparr> op_status := op_status x, op_outcome := op_outcome x, op_committedAt := op_committedAt x \<rparr>)
       (tn_operations s) \<rparr>"
  using assms
  by (auto simp: operations_save_def result_simps split: if_splits option.splits)

lemma attempts_insert_Inr:
  assumes "attempts_insert sc a s = Inr s'"
  shows "s' = s\<lparr> tn_attempts := tn_attempts s @ [a] \<rparr> \<and> attempt_ok a \<and>
    \<not> list_ex (attempt_collides a) (tn_attempts s)"
  using assms by (auto simp: attempts_insert_def result_simps split: if_splits)

lemma attempts_save_Inr:
  assumes "attempts_save sc a s = Inr s'"
  obtains cur where "attempt_get s (at_id a) = Some cur" "attempt_ok a"
    "at_operationId cur = at_operationId a" "at_sequence cur = at_sequence a"
    "at_transport cur = at_transport a" "at_startedAt cur = at_startedAt a"
    "s' = s\<lparr> tn_attempts := upsert at_id
       (cur\<lparr> at_status := at_status a, at_retryable := at_retryable a, at_error := at_error a,
          at_completedAt := at_completedAt a \<rparr>) (tn_attempts s) \<rparr>"
  using assms by (auto simp: attempts_save_def result_simps split: if_splits option.splits)

section \<open>Outbox\<close>

lemma outbox_insert_Inr:
  assumes "outbox_insert sc m s = Inr s'"
  shows "s' = s\<lparr> tn_outbox := tn_outbox s @ [m] \<rparr> \<and> validateOutboxReferences sc m s = Inr () \<and>
    (\<forall>x\<in>set (tn_outbox s). ob_id x \<noteq> ob_id m \<and> ob_deduplicationKey x \<noteq> ob_deduplicationKey m)"
  using assms by (auto simp: outbox_insert_def result_simps list_ex_iff split: if_splits)

text \<open>Queueing a resume changes nothing but the outbox and the identifier counter.\<close>

lemma enqueueMissionResume_Inr:
  assumes "enqueueMissionResume env sc m s = Inr s'"
  obtains obs n where "s' = s\<lparr> tn_outbox := obs, tn_ids := n \<rparr>" "set (tn_outbox s) \<subseteq> set obs"
    "\<exists>x\<in>set obs. ob_topic x = TopicMissionResume \<and> ob_deduplicationKey x = resume_key m \<and>
       ob_payload x = MissionReference (mi_organizationId m) (mi_id m)"
proof (cases "findByDeduplicationKey s (resume_key m)")
  case None
  let ?x = "new_outbox_message (fresh_id env IdOutbox s) (mi_organizationId m) TopicMissionResume
     (resume_key m) (MissionReference (mi_organizationId m) (mi_id m)) (mi_updatedAt m) (mi_updatedAt m)"
  from assms None have "outbox_insert sc ?x (bump s) = Inr s'" by (simp add: enqueueMissionResume_def Let_def)
  from outbox_insert_Inr[OF this] have "s' = s\<lparr> tn_outbox := tn_outbox s @ [?x], tn_ids := Suc (tn_ids s) \<rparr>"
    by (simp add: bump_def)
  then show thesis by (rule that) (auto simp: new_outbox_message_def)
next
  case (Some x)
  with assms have "s' = s\<lparr> tn_outbox := tn_outbox s, tn_ids := tn_ids s \<rparr>" and
    x: "ob_topic x = TopicMissionResume" "ob_payload x = MissionReference (mi_organizationId m) (mi_id m)"
    by (auto simp: enqueueMissionResume_def Let_def split: if_splits)
  from this(1) show thesis
  proof (rule that)
    show "\<exists>x\<in>set (tn_outbox s). ob_topic x = TopicMissionResume \<and> ob_deduplicationKey x = resume_key m \<and>
       ob_payload x = MissionReference (mi_organizationId m) (mi_id m)"
      using x lookup_by_SomeD[OF Some[unfolded findByDeduplicationKey_def]] by auto
  qed simp
qed

section \<open>Frames\<close>

text \<open>The tables that each write leaves alone.\<close>

lemma plans_save_frame:
  assumes "plans_save env sc p s = Inr s'"
  shows "tn_missions s' = tn_missions s \<and>
     tn_events s' = tn_events s \<and>
     tn_approvals s' = tn_approvals s \<and>
     tn_operations s' = tn_operations s \<and>
     tn_attempts s' = tn_attempts s \<and>
     tn_opPolls s' = tn_opPolls s \<and>
     tn_routines s' = tn_routines s \<and>
     tn_versions s' = tn_versions s \<and>
     tn_memberships s' = tn_memberships s \<and>
     tn_outbox s' = tn_outbox s \<and>
     tn_executions s' = tn_executions s \<and>
     tn_commands s' = tn_commands s \<and>
     tn_effects s' = tn_effects s \<and>
     tn_dispatches s' = tn_dispatches s \<and>
     tn_callbacks s' = tn_callbacks s \<and>
     tn_effectPolls s' = tn_effectPolls s \<and>
     tn_evidence s' = tn_evidence s \<and>
     tn_cancellations s' = tn_cancellations s \<and>
     tn_verifications s' = tn_verifications s \<and>
     tn_leases s' = tn_leases s \<and>
     tn_devices s' = tn_devices s \<and>
     tn_capabilities s' = tn_capabilities s \<and>
     tn_tags s' = tn_tags s \<and>
     tn_org s' = tn_org s"
  using assms by (rule plans_save_Inr) simp

lemma approvals_save_frame:
  assumes "approvals_save sc a s = Inr s'"
  shows "tn_missions s' = tn_missions s \<and>
     tn_events s' = tn_events s \<and>
     tn_plans s' = tn_plans s \<and>
     tn_operations s' = tn_operations s \<and>
     tn_attempts s' = tn_attempts s \<and>
     tn_opPolls s' = tn_opPolls s \<and>
     tn_routines s' = tn_routines s \<and>
     tn_versions s' = tn_versions s \<and>
     tn_memberships s' = tn_memberships s \<and>
     tn_outbox s' = tn_outbox s \<and>
     tn_executions s' = tn_executions s \<and>
     tn_commands s' = tn_commands s \<and>
     tn_effects s' = tn_effects s \<and>
     tn_dispatches s' = tn_dispatches s \<and>
     tn_callbacks s' = tn_callbacks s \<and>
     tn_effectPolls s' = tn_effectPolls s \<and>
     tn_evidence s' = tn_evidence s \<and>
     tn_cancellations s' = tn_cancellations s \<and>
     tn_verifications s' = tn_verifications s \<and>
     tn_leases s' = tn_leases s \<and>
     tn_devices s' = tn_devices s \<and>
     tn_capabilities s' = tn_capabilities s \<and>
     tn_tags s' = tn_tags s \<and>
     tn_org s' = tn_org s"
  using assms by (rule approvals_save_Inr) simp

lemma operations_save_frame:
  assumes "operations_save sc x s = Inr s'"
  shows "tn_missions s' = tn_missions s \<and>
     tn_events s' = tn_events s \<and>
     tn_plans s' = tn_plans s \<and>
     tn_approvals s' = tn_approvals s \<and>
     tn_attempts s' = tn_attempts s \<and>
     tn_opPolls s' = tn_opPolls s \<and>
     tn_routines s' = tn_routines s \<and>
     tn_versions s' = tn_versions s \<and>
     tn_memberships s' = tn_memberships s \<and>
     tn_outbox s' = tn_outbox s \<and>
     tn_executions s' = tn_executions s \<and>
     tn_commands s' = tn_commands s \<and>
     tn_effects s' = tn_effects s \<and>
     tn_dispatches s' = tn_dispatches s \<and>
     tn_callbacks s' = tn_callbacks s \<and>
     tn_effectPolls s' = tn_effectPolls s \<and>
     tn_evidence s' = tn_evidence s \<and>
     tn_cancellations s' = tn_cancellations s \<and>
     tn_verifications s' = tn_verifications s \<and>
     tn_leases s' = tn_leases s \<and>
     tn_devices s' = tn_devices s \<and>
     tn_capabilities s' = tn_capabilities s \<and>
     tn_tags s' = tn_tags s \<and>
     tn_org s' = tn_org s"
  using assms by (rule operations_save_Inr) simp

lemma attempts_insert_frame:
  assumes "attempts_insert sc x s = Inr s'"
  shows "tn_missions s' = tn_missions s \<and>
     tn_events s' = tn_events s \<and>
     tn_plans s' = tn_plans s \<and>
     tn_approvals s' = tn_approvals s \<and>
     tn_operations s' = tn_operations s \<and>
     tn_opPolls s' = tn_opPolls s \<and>
     tn_routines s' = tn_routines s \<and>
     tn_versions s' = tn_versions s \<and>
     tn_memberships s' = tn_memberships s \<and>
     tn_outbox s' = tn_outbox s \<and>
     tn_executions s' = tn_executions s \<and>
     tn_commands s' = tn_commands s \<and>
     tn_effects s' = tn_effects s \<and>
     tn_dispatches s' = tn_dispatches s \<and>
     tn_callbacks s' = tn_callbacks s \<and>
     tn_effectPolls s' = tn_effectPolls s \<and>
     tn_evidence s' = tn_evidence s \<and>
     tn_cancellations s' = tn_cancellations s \<and>
     tn_verifications s' = tn_verifications s \<and>
     tn_leases s' = tn_leases s \<and>
     tn_devices s' = tn_devices s \<and>
     tn_capabilities s' = tn_capabilities s \<and>
     tn_tags s' = tn_tags s \<and>
     tn_org s' = tn_org s"
  using attempts_insert_Inr[OF assms] by simp

lemma outbox_insert_frame:
  assumes "outbox_insert sc x s = Inr s'"
  shows "tn_missions s' = tn_missions s \<and>
     tn_events s' = tn_events s \<and>
     tn_plans s' = tn_plans s \<and>
     tn_approvals s' = tn_approvals s \<and>
     tn_operations s' = tn_operations s \<and>
     tn_attempts s' = tn_attempts s \<and>
     tn_opPolls s' = tn_opPolls s \<and>
     tn_routines s' = tn_routines s \<and>
     tn_versions s' = tn_versions s \<and>
     tn_memberships s' = tn_memberships s \<and>
     tn_executions s' = tn_executions s \<and>
     tn_commands s' = tn_commands s \<and>
     tn_effects s' = tn_effects s \<and>
     tn_dispatches s' = tn_dispatches s \<and>
     tn_callbacks s' = tn_callbacks s \<and>
     tn_effectPolls s' = tn_effectPolls s \<and>
     tn_evidence s' = tn_evidence s \<and>
     tn_cancellations s' = tn_cancellations s \<and>
     tn_verifications s' = tn_verifications s \<and>
     tn_leases s' = tn_leases s \<and>
     tn_devices s' = tn_devices s \<and>
     tn_capabilities s' = tn_capabilities s \<and>
     tn_tags s' = tn_tags s \<and>
     tn_org s' = tn_org s"
  using outbox_insert_Inr[OF assms] by simp

lemma resume_frame:
  assumes "enqueueMissionResume env sc m s = Inr s'"
  shows "tn_missions s' = tn_missions s \<and>
     tn_events s' = tn_events s \<and>
     tn_plans s' = tn_plans s \<and>
     tn_approvals s' = tn_approvals s \<and>
     tn_operations s' = tn_operations s \<and>
     tn_attempts s' = tn_attempts s \<and>
     tn_opPolls s' = tn_opPolls s \<and>
     tn_routines s' = tn_routines s \<and>
     tn_versions s' = tn_versions s \<and>
     tn_memberships s' = tn_memberships s \<and>
     tn_executions s' = tn_executions s \<and>
     tn_commands s' = tn_commands s \<and>
     tn_effects s' = tn_effects s \<and>
     tn_dispatches s' = tn_dispatches s \<and>
     tn_callbacks s' = tn_callbacks s \<and>
     tn_effectPolls s' = tn_effectPolls s \<and>
     tn_evidence s' = tn_evidence s \<and>
     tn_cancellations s' = tn_cancellations s \<and>
     tn_verifications s' = tn_verifications s \<and>
     tn_leases s' = tn_leases s \<and>
     tn_devices s' = tn_devices s \<and>
     tn_capabilities s' = tn_capabilities s \<and>
     tn_tags s' = tn_tags s \<and>
     tn_org s' = tn_org s"
  using assms by (rule enqueueMissionResume_Inr) simp

lemma persist_frame:
  assumes "persistMissionTransition env sc m v ev s = Inr (m', s')"
  shows "tn_plans s' = tn_plans s \<and>
     tn_approvals s' = tn_approvals s \<and>
     tn_operations s' = tn_operations s \<and>
     tn_attempts s' = tn_attempts s \<and>
     tn_opPolls s' = tn_opPolls s \<and>
     tn_routines s' = tn_routines s \<and>
     tn_versions s' = tn_versions s \<and>
     tn_memberships s' = tn_memberships s \<and>
     tn_outbox s' = tn_outbox s \<and>
     tn_executions s' = tn_executions s \<and>
     tn_commands s' = tn_commands s \<and>
     tn_effects s' = tn_effects s \<and>
     tn_dispatches s' = tn_dispatches s \<and>
     tn_callbacks s' = tn_callbacks s \<and>
     tn_effectPolls s' = tn_effectPolls s \<and>
     tn_evidence s' = tn_evidence s \<and>
     tn_cancellations s' = tn_cancellations s \<and>
     tn_verifications s' = tn_verifications s \<and>
     tn_leases s' = tn_leases s \<and>
     tn_devices s' = tn_devices s \<and>
     tn_capabilities s' = tn_capabilities s \<and>
     tn_tags s' = tn_tags s \<and>
     tn_org s' = tn_org s"
  using assms by (rule persistMissionTransition_Inr) (simp add: record_mission_def frame_simps; simp add: tick_def bump_def)

section \<open>Reads that depend on a few tables\<close>

lemma version_of_cong: "tn_versions s' = tn_versions s \<Longrightarrow> version_of s' = version_of s"
  by (intro ext) (simp add: version_of_def)

lemma resource_current_cong:
  assumes "tn_routines s' = tn_routines s" "tn_versions s' = tn_versions s"
  shows "resource_current s' = resource_current s"
  unfolding resource_current_def[abs_def] getCurrentVersion_def[abs_def] routine_get_def
    version_of_cong[OF assms(2)] assms(1) by (rule refl)

end
