(* ===== verification/Sessions.thy ===== *)
theory Sessions
  imports Store Roles
begin

text \<open>
  Browser sessions (\<open>application/src/session-service.ts\<close>): the claims that
  \<open>SeededSessionService\<close> issues, the checks of \<open>verify\<close>, and the guard of
  sensitive mutations that approvals and cancellations run first.  The encoding of
  claims as a signed token is a parameter: \<open>sign\<close> is the HMAC of the session key
  over the encoded claims, and \<open>decode\<close> is the inverse of the JSON encoding.
\<close>

definition is_token_char :: "char \<Rightarrow> bool" where
  "is_token_char c = (is_nonce_char c)"

text \<open>\<open>SessionClaimsSchema\<close>\<close>

definition session_claims_ok :: "session_context \<Rightarrow> bool" where
  "session_claims_ok c = (
     (case strip_prefix ''session_'' (sc_sessionId c) of None \<Rightarrow> False
      | Some b \<Rightarrow> 20 \<le> length b \<and> list_all is_token_char b) \<and>
     20 \<le> length (sc_csrfToken c) \<and> list_all is_token_char (sc_csrfToken c) \<and>
     principal_ok (sc_principal c))"

definition session_ttl_ok :: "int \<Rightarrow> bool" where
  "session_ttl_ok ttl = (0 < ttl \<and> ttl \<le> 24 * 60 * 60 * 1000)"

text \<open>\<open>issue\<close>, up to the encoding: one clock reading and two tokens of entropy.\<close>

definition session_issue ::
  "env \<Rightarrow> principal \<Rightarrow> int option \<Rightarrow> instant option \<Rightarrow> tenant \<Rightarrow> err + (session_context \<times> tenant)" where
  "session_issue env p ttlOption authenticatedAt s =
     (if \<not> principal_ok p then Inl (ZodError ''Principal'')
      else let t = read_clock env s; s1 = tick s;
               ttl = (case ttlOption of None \<Rightarrow> 8 * 60 * 60 * 1000 | Some x \<Rightarrow> x) in
      if \<not> session_ttl_ok ttl then Inl (RangeError ''Seeded sessions must expire within 24 hours'')
      else let sid = ''session_'' @ en_entropy env (tn_ids s1); s2 = bump s1;
               csrf = en_entropy env (tn_ids s2); s3 = bump s2;
               c = \<lparr> sc_sessionId = sid, sc_principal = p, sc_csrfToken = csrf, sc_issuedAt = t,
                     sc_expiresAt = t + ttl,
                     sc_authenticatedAt = (case authenticatedAt of None \<Rightarrow> t | Some x \<Rightarrow> x) \<rparr> in
      if \<not> session_claims_ok c then Inl (ZodError ''SessionClaims'') else Inr (c, s3))"

text \<open>
  \<open>verify\<close>: the token is the encoded payload and its signature; the payload is
  decoded and parsed only after the signature has been compared.
\<close>

definition session_verify ::
  "env \<Rightarrow> (string \<Rightarrow> string) \<Rightarrow> (string \<Rightarrow> session_context option) \<Rightarrow> string list \<Rightarrow> tenant \<Rightarrow>
   err + (session_context \<times> tenant)" where
  "session_verify env sign decode parts s = (case parts of
     [payload, signature] \<Rightarrow>
       if signature \<noteq> sign payload then Inl (AuthenticationError ''Seeded session signature is invalid'')
       else (case decode payload of
         None \<Rightarrow> Inl (AuthenticationError ''Seeded session payload is invalid'')
       | Some c \<Rightarrow>
           if \<not> session_claims_ok c then Inl (AuthenticationError ''Seeded session payload is invalid'')
           else if sc_expiresAt c \<le> read_clock env s
             then Inl (AuthenticationError ''Seeded session has expired'')
           else Inr (c, tick s))
   | _ \<Rightarrow> Inl (AuthenticationError ''Malformed seeded session''))"

text \<open>\<open>rotate\<close>: the successor carries the principal and a fresh authentication time.\<close>

definition session_rotate ::
  "env \<Rightarrow> (string \<Rightarrow> string) \<Rightarrow> (string \<Rightarrow> session_context option) \<Rightarrow> string list \<Rightarrow> int option \<Rightarrow>
   tenant \<Rightarrow> err + (session_context \<times> tenant)" where
  "session_rotate env sign decode parts ttl s =
     sbind (session_verify env sign decode parts s) (\<lambda>(c, s1).
     let t = read_clock env s1 in session_issue env (sc_principal c) ttl (Some t) (tick s1))"

text \<open>\<open>assertSensitiveMutation\<close>, with the default of five minutes: two clock readings.\<close>

record mutation_request =
  mr_csrfToken :: string
  mr_origin :: string
  mr_allowedOrigin :: string

definition assertSensitiveMutation ::
  "env \<Rightarrow> session_context \<Rightarrow> mutation_request \<Rightarrow> tenant \<Rightarrow> err + tenant" where
  "assertSensitiveMutation env c r s =
     (if sc_expiresAt c \<le> read_clock env s then Inl (AuthenticationError ''Seeded session has expired'')
      else if sc_csrfToken c \<noteq> mr_csrfToken r then Inl (AuthenticationError ''CSRF token is invalid'')
      else if mr_origin r \<noteq> mr_allowedOrigin r
        then Inl (AuthenticationError ''Mutation origin is not allowed'')
      else let s1 = tick s in
        if 5 * 60 * 1000 < read_clock env s1 - sc_authenticatedAt c
          then Inl (AuthenticationError ''Sensitive mutation requires recent authentication'')
        else Inr (tick s1))"

lemma assertSensitiveMutation_Inr:
  assumes "assertSensitiveMutation env c r s = Inr s'"
  shows "s' = tick (tick s)" "read_clock env s < sc_expiresAt c" "mr_csrfToken r = sc_csrfToken c"
    "mr_origin r = mr_allowedOrigin r"
    "read_clock env (tick s) - sc_authenticatedAt c \<le> 5 * 60 * 1000"
  using assms by (auto simp: assertSensitiveMutation_def Let_def split: if_splits)

text \<open>A verified session was signed with the service's own key and has not expired.\<close>

lemma session_verify_Inr:
  assumes "session_verify env sign decode parts s = Inr (c, s')"
  obtains p where "parts = [p, sign p]" "decode p = Some c" "session_claims_ok c"
    "read_clock env s < sc_expiresAt c" "s' = tick s"
  using assms by (auto simp: session_verify_def split: list.splits if_splits option.splits)

end
