(* ===== verification/Approval_Service.thy ===== *)
theory Approval_Service
  imports Store_Effects Sessions
begin

text \<open>
  Requests for approval and their decision (\<open>application/src/approval-service.ts\<close>).
  A handler is a function from the tenant state; the unit of work of an
  organization runs on that organization's tenant.
\<close>

section \<open>Helpers\<close>

definition requirePlan :: "tenant \<Rightarrow> string \<Rightarrow> err + plan" where
  "requirePlan s i = required (plan_get s i) (NotFoundError ''Plan'')"

definition requireMission :: "tenant \<Rightarrow> string \<Rightarrow> err + mission" where
  "requireMission s i = required (mission_get s i) (NotFoundError ''Mission'')"

definition protected_resource_for :: "tenant \<Rightarrow> plan_action \<Rightarrow> err + protected_version" where
  "protected_resource_for s act = (case act of
     RestoreRoutineVersion r \<Rightarrow> (case getCurrentVersion s (rs_routineId r) of
       None \<Rightarrow> Inl (ConflictError ''Restore action does not pin the current routine version'')
     | Some c \<Rightarrow> if pv_version c \<noteq> rs_expectedCurrentVersion r
         then Inl (ConflictError ''Restore action does not pin the current routine version'')
         else Inr c)
   | ReplaceHomecomingRoutine r _ \<Rightarrow> Inr \<lparr> pv_routineId = rp_protectedRoutineId r,
       pv_routineVersionId = rp_protectedRoutineVersionId r, pv_version = rp_expectedProtectedVersion r \<rparr>
   | ReplaceScheduledHaulerAccessRoutine r _ \<Rightarrow> Inr \<lparr> pv_routineId = rp_protectedRoutineId r,
       pv_routineVersionId = rp_protectedRoutineVersionId r, pv_version = rp_expectedProtectedVersion r \<rparr>)"

fun protectedResourcesFor :: "tenant \<Rightarrow> plan_action list \<Rightarrow> err + protected_version list" where
  "protectedResourcesFor s [] = Inr []"
| "protectedResourcesFor s (a # as) =
     sbind (protected_resource_for s a) (\<lambda>r. sbind (protectedResourcesFor s as) (\<lambda>rs. Inr (r # rs)))"

definition protectedResourcesAreCurrent :: "tenant \<Rightarrow> protected_version list \<Rightarrow> bool" where
  "protectedResourcesAreCurrent s ps = list_all (resource_current s) ps"

section \<open>Request\<close>

definition pending_approval ::
  "string \<Rightarrow> string \<Rightarrow> mission \<Rightarrow> plan \<Rightarrow> protected_version list \<Rightarrow> string \<Rightarrow> string \<Rightarrow> instant \<Rightarrow> approval" where
  "pending_approval i org m p resources requestedBy nonce t =
     \<lparr> ap_id = i, ap_organizationId = org, ap_missionId = mi_id m, ap_planId = pl_id p,
       ap_planHash = pl_hash p, ap_status = ApprovalPending, ap_actionIds = List.map pa_id (pl_actions p),
       ap_protectedResources = resources, ap_requestedBy = requestedBy, ap_approvedBy = None,
       ap_approverRole = None, ap_nonce = nonce, ap_createdAt = t, ap_approvedAt = None,
       ap_expiresAt = t + 15 * 60 * 1000 \<rparr>"

text \<open>Passing validation and at least one simulation, all feasible.\<close>

definition assessed :: "tenant \<Rightarrow> string \<Rightarrow> bool" where
  "assessed s p =
     ((case getValidation s p of None \<Rightarrow> False | Some v \<Rightarrow> pv_valid v) \<and>
      (let sims = listSimulations s p in sims \<noteq> [] \<and> \<not> list_ex (\<lambda>x. \<not> ps_feasible x) sims))"

definition approval_request_work ::
  "env \<Rightarrow> scope \<Rightarrow> actor \<Rightarrow> string \<Rightarrow> tenant \<Rightarrow> err + (approval \<times> tenant)" where
  "approval_request_work env sc ctx planId s =
     (let org = pr_organizationId (actor_principal ctx) in
      sbind (requirePlan s planId) (\<lambda>p.
      sbind (requireMission s (pl_missionId p)) (\<lambda>m.
      sbind (assertSameTenant org [pl_organizationId p, mi_organizationId m]) (\<lambda>_.
      if (case ctx of SessionActor _ \<Rightarrow> False | MissionActor c \<Rightarrow> fe_missionId (xc_fence c) \<noteq> mi_id m)
        then Inl (ConflictError ''Mission fence does not authorize this approval request'')
      else if pl_status p \<noteq> PlanValidated
        then Inl (ConflictError ''Approval requests require a validated plan'')
      else if \<not> assessed s (pl_id p)
        then Inl (ConflictError ''Approval requests require passing validation and simulation evidence'')
      else if mi_state m \<noteq> mstate MRunning PhValidate
        then Inl (ConflictError ''Mission is not at the approval request checkpoint'')
      else if \<not> is_none (findForPlan s (pl_id p))
        then Inl (ConflictError ''Plan already has an approval request'')
      else sbind (protectedResourcesFor s (pl_actions p)) (\<lambda>resources.
      let t = read_clock env s; s1 = tick s;
          i = fresh_id env IdApproval s1; s2 = bump s1;
          nonce = en_entropy env (tn_ids s2); s3 = bump s2;
          a = pending_approval i org m p resources (pr_actorId (actor_principal ctx)) nonce t in
      if \<not> approval_ok a then Inl (ZodError ''Approval'')
      else sbind (approvals_insert sc a s3) (\<lambda>s4.
      sbind (plans_save env sc (p\<lparr> pl_status := PlanAwaitingApproval \<rparr>) s4) (\<lambda>s5.
      sbind (persistMissionTransition env sc m (mi_version m) ValidationPassed s5) (\<lambda>(_, s6).
      Inr (a, s6)))))))))"

definition approval_request ::
  "env \<Rightarrow> actor \<Rightarrow> string \<Rightarrow> tenant \<Rightarrow> err + (approval \<times> tenant)" where
  "approval_request env ctx planId s =
     sbind (assertPermission (actor_principal ctx) RoutineDraft) (\<lambda>_.
     let org = pr_organizationId (actor_principal ctx) in
     case ctx of
       SessionActor _ \<Rightarrow> sbind (assertTenant s org) (\<lambda>_. approval_request_work env Unfenced ctx planId s)
     | MissionActor c \<Rightarrow>
         sbind (assertMissionExecutionContext c org (fe_missionId (xc_fence c))) (\<lambda>_.
         runFenced env (xc_fence c) (\<lambda>sc. approval_request_work env sc ctx planId) s))"

section \<open>Decision\<close>

datatype approval_choice = Approve | Reject

datatype decision_result =
    DecisionApproved approval "operation list" mission
  | DecisionRejected approval mission
  | DecisionExpired approval mission
  | DecisionStale approval mission

text \<open>\<open>#invalidate\<close>: an expired or stale request is closed and its plan superseded.\<close>

definition invalidate_request ::
  "env \<Rightarrow> approval \<Rightarrow> plan \<Rightarrow> mission \<Rightarrow> bool \<Rightarrow> tenant \<Rightarrow> err + (decision_result \<times> tenant)" where
  "invalidate_request env a p m expired s =
     (let b = a\<lparr> ap_status := (if expired then ApprovalExpired else ApprovalInvalidated) \<rparr> in
      sbind (approvals_save Unfenced b s) (\<lambda>s1.
      sbind (plans_save env Unfenced (p\<lparr> pl_status := PlanSuperseded \<rparr>) s1) (\<lambda>s2.
      sbind (persistMissionTransition env Unfenced m (mi_version m) ApprovalExpiredOrStale s2) (\<lambda>(m', s3).
      sbind (enqueueMissionResume env Unfenced m' s3) (\<lambda>s4.
      Inr (if expired then DecisionExpired b m' else DecisionStale b m', s4))))))"

text \<open>The logical operation of one approved action.\<close>

definition pending_operation ::
  "env \<Rightarrow> string \<Rightarrow> string \<Rightarrow> plan \<Rightarrow> string \<Rightarrow> mission \<Rightarrow> instant \<Rightarrow> plan_action \<Rightarrow> operation" where
  "pending_operation env i org p approvalId m t act =
     \<lparr> op_id = i, op_organizationId = org, op_missionId = mi_id m, op_planId = pl_id p,
       op_planActionId = pa_id act, op_approvalId = approvalId,
       op_payloadHash = en_actionHash env (pl_hash p) act, op_serverCreated = True, op_status = OpPending, op_outcome = None,
       op_createdAt = t, op_committedAt = None \<rparr>"

fun create_operations ::
  "env \<Rightarrow> string \<Rightarrow> plan \<Rightarrow> string \<Rightarrow> mission \<Rightarrow> instant \<Rightarrow> plan_action list \<Rightarrow> tenant \<Rightarrow>
   err + (operation list \<times> tenant)" where
  "create_operations env org p approvalId m t [] s = Inr ([], s)"
| "create_operations env org p approvalId m t (act # acts) s =
     (if \<not> is_none (findByPlanAction s (pl_id p) (pa_id act))
        then Inl (ConflictError ''Plan action already has a logical operation'')
      else let x = pending_operation env (fresh_id env IdOperation s) org p approvalId m t act in
      sbind (operations_insert env Unfenced x (bump s)) (\<lambda>s1.
      sbind (create_operations env org p approvalId m t acts s1) (\<lambda>(xs, s2). Inr (x # xs, s2))))"

definition decide_work ::
  "env \<Rightarrow> principal \<Rightarrow> string \<Rightarrow> string \<Rightarrow> approval_choice \<Rightarrow> tenant \<Rightarrow> err + (decision_result \<times> tenant)" where
  "decide_work env pr approvalId nonce choice s =
     (let org = pr_organizationId pr in
      sbind (required (approval_get s approvalId) (NotFoundError ''Approval'')) (\<lambda>a.
      sbind (requirePlan s (ap_planId a)) (\<lambda>p.
      sbind (requireMission s (ap_missionId a)) (\<lambda>m.
      sbind (assertSameTenant org [ap_organizationId a, pl_organizationId p, mi_organizationId m]) (\<lambda>_.
      if ap_status a \<noteq> ApprovalPending
        then Inl (ConflictError ''Approval request is no longer pending'')
      else if ap_nonce a \<noteq> nonce then Inl (ConflictError ''Approval nonce does not match'')
      else let t = read_clock env s; s1 = tick s in
      if ap_expiresAt a \<le> t then invalidate_request env a p m True s1
      else if \<not> protectedResourcesAreCurrent s1 (ap_protectedResources a)
        then invalidate_request env a p m False s1
      else (case choice of
        Reject \<Rightarrow>
          let b = a\<lparr> ap_status := ApprovalWasRejected \<rparr> in
          sbind (approvals_save Unfenced b s1) (\<lambda>s2.
          sbind (plans_save env Unfenced (p\<lparr> pl_status := PlanRejected \<rparr>) s2) (\<lambda>s3.
          sbind (persistMissionTransition env Unfenced m (mi_version m) ApprovalRejected s3) (\<lambda>(m', s4).
          sbind (enqueueMissionResume env Unfenced m' s4) (\<lambda>s5.
          Inr (DecisionRejected b m', s5)))))
      | Approve \<Rightarrow>
          let b = a\<lparr> ap_status := ApprovalApproved, ap_approvedBy := Some (pr_actorId pr),
                ap_approverRole := Some (pr_role pr), ap_approvedAt := Some t \<rparr> in
          if \<not> approval_ok b then Inl (ZodError ''Approval'')
          else sbind (plans_save env Unfenced (p\<lparr> pl_status := PlanApproved \<rparr>) s1) (\<lambda>s2.
          sbind (approvals_save Unfenced b s2) (\<lambda>s3.
          sbind (create_operations env org p (ap_id b) m t (pl_actions p) s3) (\<lambda>(ops, s4).
          sbind (persistMissionTransition env Unfenced m (mi_version m) ApprovalGranted s4) (\<lambda>(m', s5).
          sbind (enqueueMissionResume env Unfenced m' s5) (\<lambda>s6.
          if list_ex (\<lambda>x. is_none (find_action (op_planActionId x) p)) ops
            then Inl (ConflictError ''Approved operation lacks its plan action'')
          else Inr (DecisionApproved b ops m', s6))))))))))))"

definition decide ::
  "env \<Rightarrow> session_context \<Rightarrow> mutation_request \<Rightarrow> string \<Rightarrow> string \<Rightarrow> approval_choice \<Rightarrow> tenant \<Rightarrow>
   err + (decision_result \<times> tenant)" where
  "decide env ctx req approvalId nonce choice s =
     (let pr = sc_principal ctx in
      sbind (assertSensitiveMutation env ctx req s) (\<lambda>s1.
      sbind (assertPermission pr RoutineApprove) (\<lambda>_.
      if \<not> List.member [Owner, Operator] (pr_role pr)
        then Inl (ConflictError ''Only an authenticated human owner or operator may approve'')
      else sbind (assertTenant s1 (pr_organizationId pr)) (\<lambda>_.
      decide_work env pr approvalId nonce choice s1))))"

section \<open>Lemmas\<close>

lemma requirePlan_iff [simp]: "requirePlan s i = Inr p \<longleftrightarrow> plan_get s i = Some p"
  by (simp add: requirePlan_def)

lemma requireMission_iff [simp]: "requireMission s i = Inr m \<longleftrightarrow> mission_get s i = Some m"
  by (simp add: requireMission_def)

text \<open>The operations created for a list of actions, and the frame of their creation.\<close>

definition operation_for :: "env \<Rightarrow> plan \<Rightarrow> string \<Rightarrow> string \<Rightarrow> instant \<Rightarrow> plan_action \<Rightarrow> operation \<Rightarrow> bool" where
  "operation_for env p approvalId missionId t act x = (
     op_planId x = pl_id p \<and> op_planActionId x = pa_id act \<and> op_approvalId x = approvalId \<and>
     op_missionId x = missionId \<and> op_payloadHash x = en_actionHash env (pl_hash p) act \<and>
     op_status x = OpPending \<and> op_outcome x = None \<and> op_createdAt x = t)"

lemma create_operations_Inr:
  assumes "create_operations env org p a m t acts s = Inr (ops, s')"
  shows "\<exists>n. s' = s\<lparr> tn_operations := tn_operations s @ ops, tn_ids := n \<rparr> \<and>
    list_all2 (operation_for env p a (mi_id m) t) acts ops"
  using assms
proof (induction acts arbitrary: s ops)
  case Nil
  then show ?case by (intro exI[of _ "tn_ids s"]) simp
next
  case (Cons act acts)
  let ?x = "pending_operation env (fresh_id env IdOperation s) org p a m t act"
  from Cons.prems obtain s1 xs where
    i: "operations_insert env Unfenced ?x (bump s) = Inr s1" and
    r: "create_operations env org p a m t acts s1 = Inr (xs, s')" and ops: "ops = ?x # xs"
    by (auto simp: result_simps Let_def split: if_splits)
  from i have "s1 = (bump s)\<lparr> tn_operations := tn_operations (bump s) @ [?x] \<rparr>"
    by (rule operations_insert_Inr)
  then have s1: "s1 = s\<lparr> tn_operations := tn_operations s @ [?x], tn_ids := Suc (tn_ids s) \<rparr>"
    by (simp add: bump_def)
  have "operation_for env p a (mi_id m) t act ?x"
    by (simp add: operation_for_def pending_operation_def)
  moreover from Cons.IH[OF r] obtain n where
    "s' = s1\<lparr> tn_operations := tn_operations s1 @ xs, tn_ids := n \<rparr>"
    "list_all2 (operation_for env p a (mi_id m) t) acts xs" by blast
  ultimately show ?case using ops by (intro exI[of _ n]) (simp add: s1)
qed

lemma create_operations_fresh:
  assumes "create_operations env org p a m t acts s = Inr (ops, s')" "act \<in> set acts"
  shows "findByPlanAction s (pl_id p) (pa_id act) = None"
  using assms
proof (induction acts arbitrary: s ops)
  case (Cons x acts)
  from Cons.prems(1) obtain s1 xs where
    i: "operations_insert env Unfenced (pending_operation env (fresh_id env IdOperation s) org p a m t x)
         (bump s) = Inr s1" and
    r: "create_operations env org p a m t acts s1 = Inr (xs, s')" and
    f: "findByPlanAction s (pl_id p) (pa_id x) = None"
    by (auto simp: result_simps Let_def split: if_splits)
  from i have ops: "tn_operations s1 = tn_operations s @
      [pending_operation env (fresh_id env IdOperation s) org p a m t x]"
    by (rule operations_insert_Inr) (simp add: frame_simps)
  show ?case
  proof (cases "act = x")
    case False
    with Cons.prems(2) have "act \<in> set acts" by simp
    from Cons.IH[OF r this] show ?thesis
      by (auto simp: findByPlanAction_def find_None_iff_ball ops)
  qed (use f in simp)
qed simp

text \<open>
  Deciding is one write of the approval: whatever the outcome, the stored approval
  was pending before and has a final status afterwards.
\<close>

definition approval_decided :: "approval \<Rightarrow> tenant \<Rightarrow> tenant \<Rightarrow> bool" where
  "approval_decided b s s' = (\<exists>a st. approval_get s (ap_id b) = Some a \<and> approval_request_kept a b \<and>
     approval_get s' (ap_id b) = Some st \<and> ap_status st = ap_status b \<and> ap_approvedBy st = ap_approvedBy b)"

lemma approvals_save_decides:
  assumes "approvals_save sc b s = Inr s'"
  shows "approval_decided b s s'"
proof -
  from assms show ?thesis
  proof (rule approvals_save_Inr)
    fix st assume st: "approval_get s (ap_id b) = Some st" and k: "approval_request_kept st b" and
      s': "s' = s\<lparr> tn_approvals := upsert ap_id
       (st\<lparr> ap_status := ap_status b, ap_approvedBy := ap_approvedBy b,
          ap_approverRole := ap_approverRole b, ap_approvedAt := ap_approvedAt b \<rparr>) (tn_approvals s) \<rparr>"
    have "ap_id st = ap_id b" using lookup_by_SomeD[OF st[unfolded approval_get_def]] by simp
    then show ?thesis using st k by (simp add: approval_decided_def approval_get_def s')
  qed
qed

lemma approval_decided_cong:
  assumes "approval_decided b s s'" "tn_approvals r = tn_approvals s" "tn_approvals r' = tn_approvals s'"
  shows "approval_decided b r r'"
  using assms by (simp add: approval_decided_def approval_get_def)

lemma approval_id_get: "approval_get s i = Some a \<Longrightarrow> ap_id a = i"
  unfolding approval_get_def by (drule lookup_by_SomeD) simp

lemma decide_Inr:
  assumes "decide env ctx req i nonce choice s = Inr (r, s')"
  shows "decide_work env (sc_principal ctx) i nonce choice (tick (tick s)) = Inr (r, s')"
    "pr_role (sc_principal ctx) \<in> {Owner, Operator}"
    "principalHasPermission (sc_principal ctx) RoutineApprove"
    "pr_organizationId (sc_principal ctx) = tn_org s"
    "read_clock env s < sc_expiresAt ctx" "mr_csrfToken req = sc_csrfToken ctx"
proof -
  from assms obtain s1 where g: "assertSensitiveMutation env ctx req s = Inr s1" and
    w: "decide_work env (sc_principal ctx) i nonce choice s1 = Inr (r, s')"
      "pr_role (sc_principal ctx) \<in> {Owner, Operator}"
      "principalHasPermission (sc_principal ctx) RoutineApprove" "pr_organizationId (sc_principal ctx) = tn_org s1"
    by (auto simp: decide_def result_simps Let_def split: if_splits)
  note a = assertSensitiveMutation_Inr[OF g]
  show "decide_work env (sc_principal ctx) i nonce choice (tick (tick s)) = Inr (r, s')" using w(1) a(1) by simp
  show "pr_role (sc_principal ctx) \<in> {Owner, Operator}" by (rule w(2))
  show "principalHasPermission (sc_principal ctx) RoutineApprove" by (rule w(3))
  show "pr_organizationId (sc_principal ctx) = tn_org s" using w(4) a(1) by simp
  show "read_clock env s < sc_expiresAt ctx" "mr_csrfToken req = sc_csrfToken ctx" by (rule a(2), rule a(3))
qed

text \<open>
  What deciding a request may do, as a relation between the states before and after:
  a live request is granted or rejected as chosen, and a request that has expired or
  whose protected routines have moved on is closed, whatever was chosen.
\<close>

definition open_request :: "tenant \<Rightarrow> string \<Rightarrow> string \<Rightarrow> approval \<Rightarrow> plan \<Rightarrow> mission \<Rightarrow> bool" where
  "open_request s i nonce a p m = (approval_get s i = Some a \<and> plan_get s (ap_planId a) = Some p \<and>
     mission_get s (ap_missionId a) = Some m \<and> ap_status a = ApprovalPending \<and> ap_nonce a = nonce)"

definition request_live :: "env \<Rightarrow> tenant \<Rightarrow> approval \<Rightarrow> bool" where
  "request_live env s a = (read_clock env s < ap_expiresAt a \<and>
     list_all (resource_current s) (ap_protectedResources a))"

definition granted_by :: "principal \<Rightarrow> instant \<Rightarrow> approval \<Rightarrow> approval" where
  "granted_by pr t a = a\<lparr> ap_status := ApprovalApproved, ap_approvedBy := Some (pr_actorId pr),
     ap_approverRole := Some (pr_role pr), ap_approvedAt := Some t \<rparr>"

inductive decision ::
  "env \<Rightarrow> principal \<Rightarrow> string \<Rightarrow> string \<Rightarrow> tenant \<Rightarrow> approval_choice \<Rightarrow> decision_result \<Rightarrow> tenant \<Rightarrow> bool"
  for env pr i nonce s where
  granted: "\<lbrakk> open_request s i nonce a p m; request_live env s a;
      b = granted_by pr (read_clock env s) a; approval_decided b s s';
      tn_operations s' = tn_operations s @ ops;
      list_all2 (operation_for env p i (mi_id m) (read_clock env s)) (pl_actions p) ops;
      \<forall>act\<in>set (pl_actions p). findByPlanAction s (pl_id p) (pa_id act) = None;
      \<exists>st. plan_get s' (pl_id p) = Some st \<and> pl_status st = PlanApproved;
      mission_step (mi_state m) ApprovalGranted (mi_state m') \<rbrakk>
    \<Longrightarrow> decision env pr i nonce s Approve (DecisionApproved b ops m') s'"
| rejected: "\<lbrakk> open_request s i nonce a p m; request_live env s a;
      b = a\<lparr> ap_status := ApprovalWasRejected \<rparr>; approval_decided b s s';
      tn_operations s' = tn_operations s;
      \<exists>st. plan_get s' (pl_id p) = Some st \<and> pl_status st = PlanRejected;
      mission_step (mi_state m) ApprovalRejected (mi_state m') \<rbrakk>
    \<Longrightarrow> decision env pr i nonce s Reject (DecisionRejected b m') s'"
| lapsed: "\<lbrakk> open_request s i nonce a p m; \<not> request_live env s a;
      expired \<longleftrightarrow> ap_expiresAt a \<le> read_clock env s;
      b = a\<lparr> ap_status := (if expired then ApprovalExpired else ApprovalInvalidated) \<rparr>;
      approval_decided b s s'; tn_operations s' = tn_operations s;
      \<exists>st. plan_get s' (pl_id p) = Some st \<and> pl_status st = PlanSuperseded;
      mission_step (mi_state m) ApprovalExpiredOrStale (mi_state m') \<rbrakk>
    \<Longrightarrow> decision env pr i nonce s choice (if expired then DecisionExpired b m' else DecisionStale b m') s'"

inductive_cases decision_approvedE: "decision env pr i nonce s choice (DecisionApproved b ops m') s'"

lemma plan_content_id: "plan_get s i = Some p \<Longrightarrow> pl_id p = i"
  unfolding plan_get_def by (drule lookup_by_SomeD) simp

lemma plans_save_status:
  assumes "plans_save env sc p s = Inr s'"
  shows "\<exists>st. plan_get s' (pl_id p) = Some st \<and> pl_status st = pl_status p \<and> pl_hash st = pl_hash p"
  using assms
proof (rule plans_save_Inr)
  fix st assume st: "plan_get s (pl_id p) = Some st" and k: "plan_content_kept st p"
    and s': "s' = s\<lparr> tn_plans := upsert pl_id (st\<lparr> pl_status := pl_status p \<rparr>) (tn_plans s) \<rparr>"
  then show ?thesis using plan_content_id[OF st] by (simp add: plan_get_def plan_content_kept_def)
qed

lemma plan_get_cong: "tn_plans s' = tn_plans s \<Longrightarrow> plan_get s' = plan_get s"
  by (rule ext) (simp add: plan_get_def)

lemma resource_current_tick [simp]: "resource_current (tick s) = resource_current s"
  by (rule resource_current_cong) (simp_all add: frame_simps)

text \<open>
  Closing a request, the common tail of a rejection and of a lapse: write the
  approval, write the plan, move the mission, queue the resume.
\<close>

lemma close_request:
  assumes "approvals_save Unfenced b (tick s) = Inr s1"
    and "plans_save env Unfenced (p\<lparr> pl_status := st \<rparr>) s1 = Inr s2"
    and "persistMissionTransition env Unfenced m (mi_version m) ev s2 = Inr (m', s3)"
    and "enqueueMissionResume env Unfenced m' s3 = Inr s'"
  shows "approval_decided b s s'" "tn_operations s' = tn_operations s"
    "\<exists>x. plan_get s' (pl_id p) = Some x \<and> pl_status x = st" "mission_step (mi_state m) ev (mi_state m')"
proof -
  note fr = approvals_save_frame[OF assms(1)] plans_save_frame[OF assms(2)] persist_frame[OF assms(3)]
    resume_frame[OF assms(4)]
  show "approval_decided b s s'"
    by (rule approval_decided_cong[OF approvals_save_decides[OF assms(1)]]) (simp_all add: fr frame_simps)
  show "tn_operations s' = tn_operations s" using fr by (simp add: frame_simps)
  have "plan_get s' = plan_get s2" by (rule plan_get_cong) (simp add: fr)
  with plans_save_status[OF assms(2)]
  show "\<exists>x. plan_get s' (pl_id p) = Some x \<and> pl_status x = st" by auto
  show "mission_step (mi_state m) ev (mi_state m')" by (rule persist_advances(1)[OF assms(3)])
qed

lemma lapse_decision:
  assumes "open_request s i nonce a p m" "\<not> request_live env s a"
    and "expired \<longleftrightarrow> ap_expiresAt a \<le> read_clock env s"
    and "invalidate_request env a p m expired (tick s) = Inr (r, s')"
  shows "decision env pr i nonce s choice r s'"
proof -
  let ?b = "a\<lparr> ap_status := (if expired then ApprovalExpired else ApprovalInvalidated) \<rparr>"
  from assms(4) obtain s1 s2 m' s3 where
    w: "approvals_save Unfenced ?b (tick s) = Inr s1"
       "plans_save env Unfenced (p\<lparr> pl_status := PlanSuperseded \<rparr>) s1 = Inr s2"
       "persistMissionTransition env Unfenced m (mi_version m) ApprovalExpiredOrStale s2 = Inr (m', s3)"
       "enqueueMissionResume env Unfenced m' s3 = Inr s'"
    and r: "r = (if expired then DecisionExpired ?b m' else DecisionStale ?b m')"
    by (cases expired) (auto simp: invalidate_request_def Let_def result_simps)
  show ?thesis unfolding r
    by (rule decision.lapsed[OF assms(1-3) refl close_request[OF w]])
qed

lemma reject_decision:
  assumes "open_request s i nonce a p m" "request_live env s a"
    and "decide_work env pr i nonce Reject s = Inr (r, s')"
  shows "decision env pr i nonce s Reject r s'"
proof -
  let ?b = "a\<lparr> ap_status := ApprovalWasRejected \<rparr>"
  from assms obtain s1 s2 m' s3 where
    w: "approvals_save Unfenced ?b (tick s) = Inr s1"
       "plans_save env Unfenced (p\<lparr> pl_status := PlanRejected \<rparr>) s1 = Inr s2"
       "persistMissionTransition env Unfenced m (mi_version m) ApprovalRejected s2 = Inr (m', s3)"
       "enqueueMissionResume env Unfenced m' s3 = Inr s'"
    and r: "r = DecisionRejected ?b m'"
    by (auto simp: decide_work_def open_request_def request_live_def protectedResourcesAreCurrent_def
        Let_def result_simps split: if_splits)
  show ?thesis unfolding r
    by (rule decision.rejected[OF assms(1,2) refl close_request[OF w]])
qed

lemma grant_decision:
  assumes "open_request s i nonce a p m" "request_live env s a"
    and "decide_work env pr i nonce Approve s = Inr (r, s')"
  shows "decision env pr i nonce s Approve r s'"
proof -
  let ?t = "read_clock env s"
  let ?b = "granted_by pr ?t a"
  have id: "ap_id a = i" using assms(1) by (auto simp: open_request_def intro: approval_id_get)
  from assms obtain s1 s2 ops s3 m' s4 where
    w: "plans_save env Unfenced (p\<lparr> pl_status := PlanApproved \<rparr>) (tick s) = Inr s1"
       "approvals_save Unfenced ?b s1 = Inr s2"
       "create_operations env (pr_organizationId pr) p i m ?t (pl_actions p) s2 = Inr (ops, s3)"
       "persistMissionTransition env Unfenced m (mi_version m) ApprovalGranted s3 = Inr (m', s4)"
       "enqueueMissionResume env Unfenced m' s4 = Inr s'"
    and r: "r = DecisionApproved ?b ops m'"
    using id by (auto simp: decide_work_def open_request_def request_live_def granted_by_def
        protectedResourcesAreCurrent_def Let_def result_simps split: if_splits)
  note fr = plans_save_frame[OF w(1)] approvals_save_frame[OF w(2)] persist_frame[OF w(4)] resume_frame[OF w(5)]
  from create_operations_Inr[OF w(3)] obtain n where
    s3: "s3 = s2\<lparr> tn_operations := tn_operations s2 @ ops, tn_ids := n \<rparr>" and
    ops: "list_all2 (operation_for env p i (mi_id m) ?t) (pl_actions p) ops" by blast
  have "approval_decided ?b s s'"
    by (rule approval_decided_cong[OF approvals_save_decides[OF w(2)]]) (simp_all add: fr frame_simps s3)
  moreover have "tn_operations s' = tn_operations s @ ops" using fr by (simp add: frame_simps s3)
  moreover have "\<forall>act\<in>set (pl_actions p). findByPlanAction s (pl_id p) (pa_id act) = None"
    using create_operations_fresh[OF w(3)] fr by (simp add: findByPlanAction_def frame_simps)
  moreover have "plan_get s' = plan_get s1" by (rule plan_get_cong) (simp add: fr s3)
  with plans_save_status[OF w(1)]
  have "\<exists>x. plan_get s' (pl_id p) = Some x \<and> pl_status x = PlanApproved" by auto
  ultimately show ?thesis unfolding r
    using decision.granted[OF assms(1,2) refl] ops persist_advances(1)[OF w(4)] by blast
qed

lemma decide_work_decision:
  assumes "decide_work env pr i nonce choice s = Inr (r, s')"
  shows "decision env pr i nonce s choice r s'"
proof -
  from assms obtain a p m where o': "open_request s i nonce a p m"
    by (auto simp: decide_work_def open_request_def Let_def result_simps split: if_splits)
  show ?thesis
  proof (cases "request_live env s a")
    case True
    with o' assms show ?thesis by (cases choice) (auto intro: grant_decision reject_decision)
  next
    case False
    then have "invalidate_request env a p m (ap_expiresAt a \<le> read_clock env s) (tick s) = Inr (r, s')"
      using assms o' by (auto simp: decide_work_def open_request_def request_live_def
          protectedResourcesAreCurrent_def Let_def result_simps split: if_splits)
    with o' False show ?thesis by (auto intro: lapse_decision)
  qed
qed

text \<open>Whatever the decision, the request was pending and its stored approval is final.\<close>

lemma decision_final:
  assumes "decision env pr i nonce s choice r s'"
  shows "\<exists>st. approval_get s' i = Some st \<and> ap_status st \<noteq> ApprovalPending"
  using assms
  by cases (auto simp: approval_decided_def open_request_def granted_by_def dest: approval_id_get)

lemma decision_open: "decision env pr i nonce s choice r s' \<Longrightarrow> \<exists>a p m. open_request s i nonce a p m"
  by (erule decision.cases) blast+

lemma open_request_tick [simp]: "open_request (tick s) i nonce a p m = open_request s i nonce a p m"
  by (simp add: open_request_def approval_get_def plan_get_def mission_get_def frame_simps)

text \<open>Closing a request leads back to planning.\<close>

lemma back_to_planning:
  "resolveMissionTransition st ApprovalRejected = Inr st' \<Longrightarrow> st' = mstate MRunning PhPlan"
  "resolveMissionTransition st ApprovalExpiredOrStale = Inr st' \<Longrightarrow> st' = mstate MRunning PhPlan"
  by (auto simp: mission_eval split: if_splits)

section \<open>Properties\<close>

text \<open>
  C10.  A granted approval means what it says.  The decider is an owner or an
  operator with the approval permission, on a live session, who presented the
  nonce of a pending request before it expired, while every protected routine was at
  the version the request pins; and the decision creates exactly one pending operation
  per action of the plan, in order, bound to this approval and to the digest of the
  plan hash and the action, where no operation existed before.
\<close>

theorem granting_creates_exactly_the_operations:
  assumes "decide env ctx req i nonce choice s = Inr (DecisionApproved b ops m', s')"
  shows "\<exists>a p m t. open_request s i nonce a p m \<and> t < ap_expiresAt a \<and>
    list_all (resource_current s) (ap_protectedResources a) \<and>
    b = granted_by (sc_principal ctx) t a \<and>
    pr_role (sc_principal ctx) \<in> {Owner, Operator} \<and>
    principalHasPermission (sc_principal ctx) RoutineApprove \<and> read_clock env s < sc_expiresAt ctx \<and>
    tn_operations s' = tn_operations s @ ops \<and>
    list_all2 (operation_for env p i (mi_id m) t) (pl_actions p) ops \<and>
    (\<forall>act\<in>set (pl_actions p). findByPlanAction s (pl_id p) (pa_id act) = None) \<and>
    mission_step (mi_state m) ApprovalGranted (mi_state m')"
  using decide_work_decision[OF decide_Inr(1)[OF assms]]
proof (rule decision_approvedE)
  fix a p m
  assume "open_request (tick (tick s)) i nonce a p m" "request_live env (tick (tick s)) a"
    "b = granted_by (sc_principal ctx) (read_clock env (tick (tick s))) a"
    "tn_operations s' = tn_operations (tick (tick s)) @ ops"
    "list_all2 (operation_for env p i (mi_id m) (read_clock env (tick (tick s)))) (pl_actions p) ops"
    "\<forall>act\<in>set (pl_actions p). findByPlanAction (tick (tick s)) (pl_id p) (pa_id act) = None"
    "mission_step (mi_state m) ApprovalGranted (mi_state m')"
  with decide_Inr(2,3,5)[OF assms] show ?thesis
    by (intro exI[of _ a] exI[of _ p] exI[of _ m] exI[of _ "read_clock env (tick (tick s))"])
      (simp add: open_request_tick request_live_def findByPlanAction_def frame_simps)
qed (simp_all split: if_splits)

text \<open>A request that is rejected, expired or stale creates no operation: its
  approval is closed with the matching final status, its plan is rejected or
  superseded, and the mission is back at planning.
\<close>

theorem closed_requests_create_no_operation:
  assumes "decide env ctx req i nonce choice s = Inr (r, s')"
    and "\<nexists>b ops m'. r = DecisionApproved b ops m'"
  shows "tn_operations s' = tn_operations s \<and>
    (\<exists>a p m m' st x. open_request s i nonce a p m \<and>
       approval_get s' i = Some st \<and> plan_get s' (pl_id p) = Some x \<and>
       mi_state m' = mstate MRunning PhPlan \<and>
       ((\<exists>b. r = DecisionRejected b m') \<and> choice = Reject \<and>
          ap_status st = ApprovalWasRejected \<and> pl_status x = PlanRejected \<or>
        (\<exists>b. r = DecisionExpired b m') \<and> ap_status st = ApprovalExpired \<and> pl_status x = PlanSuperseded \<or>
        (\<exists>b. r = DecisionStale b m') \<and> ap_status st = ApprovalInvalidated \<and> pl_status x = PlanSuperseded))"
  using decide_work_decision[OF decide_Inr(1)[OF assms(1)]]
proof cases
  case granted
  with assms(2) show ?thesis by blast
next
  case (rejected a p m b m')
  then obtain st x where "approval_get s' i = Some st" "ap_status st = ApprovalWasRejected"
    "plan_get s' (pl_id p) = Some x" "pl_status x = PlanRejected"
    by (auto simp: approval_decided_def open_request_def dest: approval_id_get)
  with rejected show ?thesis
    by (auto simp: open_request_tick frame_simps mission_step_iff_resolve back_to_planning)
next
  case (lapsed a p m expired b m')
  then obtain st x where st: "approval_get s' i = Some st" "ap_status st = ap_status b"
    "plan_get s' (pl_id p) = Some x" "pl_status x = PlanSuperseded"
    by (auto simp: approval_decided_def open_request_def dest: approval_id_get)
  from lapsed have "mi_state m' = mstate MRunning PhPlan" "open_request s i nonce a p m"
      "tn_operations s' = tn_operations s"
    by (auto simp: open_request_tick frame_simps mission_step_iff_resolve back_to_planning)
  with st lapsed show ?thesis by (cases expired) auto
qed

text \<open>An approval request is decided at most once: after any decision was
  recorded, every later decision on the same request is refused, by whomever, with
  whatever nonce and at whatever time.
\<close>

theorem requests_are_decided_once:
  assumes "decide env ctx req i nonce choice s = Inr (r, s')"
  shows "\<exists>e. decide env2 ctx2 req2 i nonce2 choice2 s' = Inl e"
proof (cases "decide env2 ctx2 req2 i nonce2 choice2 s'")
  case (Inr q)
  then obtain r2 s2 where "decide env2 ctx2 req2 i nonce2 choice2 s' = Inr (r2, s2)" by (cases q) auto
  then obtain a p m where "open_request (tick (tick s')) i nonce2 a p m"
    using decision_open[OF decide_work_decision[OF decide_Inr(1)]] by blast
  moreover obtain st where "approval_get s' i = Some st" "ap_status st \<noteq> ApprovalPending"
    using decision_final[OF decide_work_decision[OF decide_Inr(1)[OF assms]]] by blast
  ultimately show ?thesis by (simp add: open_request_tick) (simp add: open_request_def)
qed simp

section \<open>A concrete request\<close>

definition ex_session :: session_context where
  "ex_session = \<lparr> sc_sessionId = ''session_aaaaaaaaaaaaaaaaaaaa'',
     sc_principal = \<lparr> pr_organizationId = ''org_aaaaaaaa'', pr_actorId = ''usr_aaaaaaaa'', pr_role = Owner,
        pr_operatorGrants = [], pr_delegatedPermissions = [] \<rparr>,
     sc_csrfToken = ''cccccccccccccccccccc'', sc_issuedAt = 0, sc_expiresAt = 900000, sc_authenticatedAt = 0 \<rparr>"

definition ex_mutation :: mutation_request where
  "ex_mutation = \<lparr> mr_csrfToken = ''cccccccccccccccccccc'', mr_origin = ''o'', mr_allowedOrigin = ''o'' \<rparr>"

definition ex_request_tenant :: tenant where
  "ex_request_tenant = ex_tenant\<lparr>
     tn_missions := [ex_mission\<lparr> mi_state := mstate MWaitingForUser PhApprove, mi_version := 4 \<rparr>],
     tn_plans := [ex_plan\<lparr> pl_status := PlanAwaitingApproval \<rparr>],
     tn_approvals := [ex_approval\<lparr> ap_status := ApprovalPending, ap_approvedBy := None,
        ap_approverRole := None, ap_approvedAt := None \<rparr>],
     tn_memberships := [\<lparr> mb_id = ''mem_aaaaaaaa'', mb_organizationId = ''org_aaaaaaaa'',
        mb_userId = ''usr_aaaaaaaa'', mb_role = Owner, mb_grants = [], mb_createdAt = 0, mb_revokedAt = None \<rparr>],
     tn_routines := [\<lparr> ro_id = ''rtn_aaaaaaaa'', ro_organizationId = ''org_aaaaaaaa'',
        ro_palaceId = ''pal_aaaaaaaa'', ro_name = ''Homecoming'', ro_activeVersionId = Some ''rtv_aaaaaaaa'',
        ro_createdAt = 0 \<rparr>],
     tn_versions := [\<lparr> rv_id = ''rtv_aaaaaaaa'', rv_routineId = ''rtn_aaaaaaaa'',
        rv_organizationId = ''org_aaaaaaaa'', rv_version = 1, rv_status = RoutineActive,
        rv_definition = HomecomingRoutine ex_definition, rv_sourcePlanId = None, rv_sourcePlanHash = None,
        rv_createdAt = 0 \<rparr>] \<rparr>"

abbreviation "ex_nonce \<equiv> ''nnnnnnnnnnnnnnnnnnnnnnnn''"

lemma ex_granted:
  "case decide ex_env ex_session ex_mutation ''apr_aaaaaaaa'' ex_nonce Approve ex_request_tenant of
     Inr (DecisionApproved b ops m', s') \<Rightarrow> length ops = 1 | _ \<Rightarrow> False"
  by code_simp

lemma ex_rejected:
  "case decide ex_env ex_session ex_mutation ''apr_aaaaaaaa'' ex_nonce Reject ex_request_tenant of
     Inr (DecisionRejected b m', s') \<Rightarrow> True | _ \<Rightarrow> False"
  by code_simp

theorem granting_creates_exactly_the_operations_witness:
  "\<exists>b ops m' s'. decide ex_env ex_session ex_mutation ''apr_aaaaaaaa'' ex_nonce Approve ex_request_tenant =
       Inr (DecisionApproved b ops m', s') \<and> tn_operations s' = ops \<and> length ops = 1 \<and>
     ap_approvedBy b = Some ''usr_aaaaaaaa''"
proof -
  obtain b ops m' s' where d: "decide ex_env ex_session ex_mutation ''apr_aaaaaaaa'' ex_nonce Approve
      ex_request_tenant = Inr (DecisionApproved b ops m', s')" and l: "length ops = 1"
    using ex_granted by (auto split: sum.splits prod.splits decision_result.splits)
  from granting_creates_exactly_the_operations[OF d] l d show ?thesis
    by (auto simp: granted_by_def ex_session_def ex_request_tenant_def ex_tenant_def)
qed

theorem closed_requests_create_no_operation_witness:
  "\<exists>b m' s'. decide ex_env ex_session ex_mutation ''apr_aaaaaaaa'' ex_nonce Reject ex_request_tenant =
       Inr (DecisionRejected b m', s') \<and> tn_operations s' = []"
proof -
  obtain b m' s' where d: "decide ex_env ex_session ex_mutation ''apr_aaaaaaaa'' ex_nonce Reject
      ex_request_tenant = Inr (DecisionRejected b m', s')"
    using ex_rejected by (auto split: sum.splits prod.splits decision_result.splits)
  from closed_requests_create_no_operation[OF d] d show ?thesis
    by (auto simp: ex_request_tenant_def ex_tenant_def)
qed

theorem requests_are_decided_once_witness:
  "\<exists>b ops m' s' e. decide ex_env ex_session ex_mutation ''apr_aaaaaaaa'' ex_nonce Approve ex_request_tenant =
       Inr (DecisionApproved b ops m', s') \<and>
     decide ex_env ex_session ex_mutation ''apr_aaaaaaaa'' ex_nonce Approve s' = Inl e"
proof -
  obtain b ops m' s' where d: "decide ex_env ex_session ex_mutation ''apr_aaaaaaaa'' ex_nonce Approve
      ex_request_tenant = Inr (DecisionApproved b ops m', s')"
    using ex_granted by (auto split: sum.splits prod.splits decision_result.splits)
  from requests_are_decided_once[OF d] d show ?thesis by blast
qed

end
