(* ===== verification/Routine_Activation.thy ===== *)
theory Routine_Activation
  imports Store_Effects
begin

text \<open>
  Applying an approved action to the routines (\<open>db/src/repositories.ts\<close>:
  \<open>routines.applyApprovedAction\<close>, \<open>operations.createForApprovedPlan\<close> and
  \<open>activateApprovedOperation\<close>).  The audit rows these operations append are not
  part of the tenant model: nothing of the modelled program reads them.
\<close>

section \<open>Applying an action\<close>

definition insert_routine :: "routine \<Rightarrow> tenant \<Rightarrow> err + tenant" where
  "insert_routine r s =
     (if list_ex (\<lambda>x. ro_id x = ro_id r) (tn_routines s)
      then Inl (DatabaseConflictError ''routines_pkey'')
      else Inr (s\<lparr> tn_routines := tn_routines s @ [r] \<rparr>))"

definition insert_version :: "routine_version \<Rightarrow> tenant \<Rightarrow> err + tenant" where
  "insert_version v s =
     (if list_ex (\<lambda>x. rv_id x = rv_id v \<or>
           (rv_routineId x = rv_routineId v \<and> rv_version x = rv_version v)) (tn_versions s)
      then Inl (DatabaseConflictError ''routine_versions_routine_version_unique'')
      else Inr (s\<lparr> tn_versions := tn_versions s @ [v] \<rparr>))"

definition set_version_status :: "string \<Rightarrow> routine_status \<Rightarrow> tenant \<Rightarrow> tenant" where
  "set_version_status i st s = s\<lparr> tn_versions :=
     List.map (\<lambda>v. if rv_id v = i then v\<lparr> rv_status := st \<rparr> else v) (tn_versions s) \<rparr>"

definition set_active_version :: "string \<Rightarrow> string option \<Rightarrow> tenant \<Rightarrow> tenant" where
  "set_active_version i v s = s\<lparr> tn_routines :=
     List.map (\<lambda>r. if ro_id r = i then r\<lparr> ro_activeVersionId := v \<rparr> else r) (tn_routines s) \<rparr>"

fun replacement_definition :: "plan_action \<Rightarrow> routine_definition option" where
  "replacement_definition (ReplaceHomecomingRoutine _ d) = Some (HomecomingRoutine d)"
| "replacement_definition (ReplaceScheduledHaulerAccessRoutine _ d) = Some (HaulerRoutine d)"
| "replacement_definition (RestoreRoutineVersion _) = None"

text \<open>The protected version is locked and must still be the one the action was planned against.\<close>

definition protected_version_locked :: "tenant \<Rightarrow> replace_action \<Rightarrow> bool" where
  "protected_version_locked s r = (case routine_get s (rp_protectedRoutineId r) of
     None \<Rightarrow> False
   | Some x \<Rightarrow> ro_activeVersionId x = Some (rp_protectedRoutineVersionId r) \<and>
       (case version_of s (rp_protectedRoutineId r) (rp_protectedRoutineVersionId r) of
          None \<Rightarrow> False
        | Some v \<Rightarrow> rv_version v = rp_expectedProtectedVersion r \<and> rv_status v = RoutineActive))"

definition replacement_routine ::
  "string \<Rightarrow> replace_action \<Rightarrow> routine_definition \<Rightarrow> instant \<Rightarrow> routine" where
  "replacement_routine org r d t = \<lparr> ro_id = rp_replacementRoutineId r, ro_organizationId = org,
     ro_palaceId = rp_palaceId r, ro_name = definition_name d, ro_activeVersionId = None, ro_createdAt = t \<rparr>"

definition replacement_version ::
  "string \<Rightarrow> plan \<Rightarrow> replace_action \<Rightarrow> routine_definition \<Rightarrow> instant \<Rightarrow> routine_version" where
  "replacement_version org p r d t = \<lparr> rv_id = rp_replacementRoutineVersionId r,
     rv_routineId = rp_replacementRoutineId r, rv_organizationId = org, rv_version = 1,
     rv_status = RoutineActive, rv_definition = d, rv_sourcePlanId = Some (pl_id p),
     rv_sourcePlanHash = Some (pl_hash p), rv_createdAt = t \<rparr>"

definition apply_replacement ::
  "env \<Rightarrow> plan \<Rightarrow> replace_action \<Rightarrow> routine_definition \<Rightarrow> tenant \<Rightarrow> err + (operation_outcome \<times> tenant)" where
  "apply_replacement env p r d s =
     (if \<not> protected_version_locked s r
        then Inl (DatabaseOptimisticConcurrencyError ''Protected routine version is stale'')
      else let t1 = read_clock env s; s1 = tick s in
      sbind (insert_routine (replacement_routine (tn_org s) r d t1) s1) (\<lambda>s2.
      let t2 = read_clock env s2; s3 = tick s2 in
      sbind (insert_version (replacement_version (tn_org s) p r d t2) s3) (\<lambda>s4.
      let s5 = set_version_status (rp_protectedRoutineVersionId r) routine_status.RoutineInactive s4;
          s6 = set_active_version (rp_replacementRoutineId r) (Some (rp_replacementRoutineVersionId r)) s5;
          s7 = set_active_version (rp_protectedRoutineId r) None s6 in
      Inr (\<lparr> oo_routineId = rp_replacementRoutineId r,
             oo_routineVersionId = rp_replacementRoutineVersionId r,
             oo_deactivatedRoutineId = Some (rp_protectedRoutineId r) \<rparr>, s7))))"

definition apply_restore :: "restore_action \<Rightarrow> tenant \<Rightarrow> err + (operation_outcome \<times> tenant)" where
  "apply_restore r s = (case routine_get s (rs_routineId r) of
     None \<Rightarrow> Inl (DatabaseNotFoundError ''Current routine version'')
   | Some x \<Rightarrow> (case ro_activeVersionId x of
       None \<Rightarrow> Inl (DatabaseNotFoundError ''Current routine version'')
     | Some cur \<Rightarrow>
        (case (version_of s (rs_routineId r) cur, version_of s (rs_routineId r) (rs_restoreVersionId r)) of
          (Some c, Some b) \<Rightarrow>
            if rv_version c \<noteq> rs_expectedCurrentVersion r
              then Inl (DatabaseOptimisticConcurrencyError ''Current or restore routine version is stale'')
            else let s1 = set_version_status (rv_id c) routine_status.RoutineInactive s;
                     s2 = set_version_status (rv_id b) RoutineActive s1;
                     s3 = set_active_version (ro_id x) (Some (rv_id b)) s2 in
              Inr (\<lparr> oo_routineId = rs_routineId r, oo_routineVersionId = rs_restoreVersionId r,
                     oo_deactivatedRoutineId = None \<rparr>, s3)
        | _ \<Rightarrow> Inl (DatabaseOptimisticConcurrencyError ''Current or restore routine version is stale''))))"

definition apply_action :: "env \<Rightarrow> plan \<Rightarrow> plan_action \<Rightarrow> tenant \<Rightarrow> err + (operation_outcome \<times> tenant)" where
  "apply_action env p act s = (case act of
     ReplaceHomecomingRoutine r d \<Rightarrow> apply_replacement env p r (HomecomingRoutine d) s
   | ReplaceScheduledHaulerAccessRoutine r d \<Rightarrow> apply_replacement env p r (HaulerRoutine d) s
   | RestoreRoutineVersion r \<Rightarrow> apply_restore r s)"

definition applyApprovedAction ::
  "env \<Rightarrow> scope \<Rightarrow> plan \<Rightarrow> plan_action \<Rightarrow> tenant \<Rightarrow> err + (operation_outcome \<times> tenant)" where
  "applyApprovedAction env sc p act s =
     (if \<not> plan_ok (en_planHash env) p then Inl (ZodError ''Plan'')
      else sbind (assertTenant s (pl_organizationId p)) (\<lambda>_.
      sbind (assertMissionMutation sc (pl_missionId p)) (\<lambda>_.
      case plan_get s (pl_id p) of
        None \<Rightarrow> Inl (ApprovalBindingError ''Approved plan content is absent or changed'')
      | Some stored \<Rightarrow>
          if pl_hash stored \<noteq> pl_hash p \<or> pl_status stored \<noteq> PlanApproved
            then Inl (ApprovalBindingError ''Approved plan content is absent or changed'')
          else if find_action (pa_id act) stored \<noteq> Some act
            then Inl (ApprovalBindingError ''Action is not the immutable approved plan action'')
          else (case findForPlan s (pl_id p) of
            None \<Rightarrow> Inl (ApprovalBindingError ''Approved action has no approval'')
          | Some a \<Rightarrow>
              sbind (assertApprovalAuthorizesPlan a stored
                (case ap_approvedAt a of Some t \<Rightarrow> t | None \<Rightarrow> pl_createdAt stored)) (\<lambda>_.
              apply_action env stored act s)))))"

section \<open>Operations of an approved plan\<close>

definition approval_mutation_ok :: "scope \<Rightarrow> tenant \<Rightarrow> string \<Rightarrow> err + unit" where
  "approval_mutation_ok sc s i = (case sc of
     Unfenced \<Rightarrow> Inr ()
   | Fenced _ _ \<Rightarrow> (case approval_get s i of
       None \<Rightarrow> Inl (DatabaseNotFoundError ''Approval'')
     | Some a \<Rightarrow> assertMissionMutation sc (ap_missionId a)))"

fun create_for_actions ::
  "env \<Rightarrow> scope \<Rightarrow> plan \<Rightarrow> approval \<Rightarrow> instant \<Rightarrow> plan_action list \<Rightarrow> tenant \<Rightarrow>
   err + (operation list \<times> tenant)" where
  "create_for_actions env sc p a t [] s = Inr ([], s)"
| "create_for_actions env sc p a t (act # acts) s = (case findByPlanAction s (pl_id p) (pa_id act) of
     Some x \<Rightarrow>
       if op_payloadHash x \<noteq> en_actionHash env (pl_hash p) act
         then Inl (ApprovalBindingError ''Existing operation has a conflicting payload'')
       else sbind (create_for_actions env sc p a t acts s) (\<lambda>(xs, s'). Inr (x # xs, s'))
   | None \<Rightarrow>
       let x = \<lparr> op_id = fresh_id env IdOperation s, op_organizationId = tn_org s,
                 op_missionId = pl_missionId p, op_planId = pl_id p, op_planActionId = pa_id act,
                 op_approvalId = ap_id a, op_payloadHash = en_actionHash env (pl_hash p) act,
                 op_serverCreated = True, op_status = OpPending, op_outcome = None,
                 op_createdAt = t, op_committedAt = None \<rparr> in
       sbind (operations_insert env sc x (bump s)) (\<lambda>s1.
       sbind (create_for_actions env sc p a t acts s1) (\<lambda>(xs, s'). Inr (x # xs, s'))))"

definition createForApprovedPlan ::
  "env \<Rightarrow> scope \<Rightarrow> string \<Rightarrow> instant \<Rightarrow> tenant \<Rightarrow> err + (operation list \<times> tenant)" where
  "createForApprovedPlan env sc approvalId t s =
     sbind (approval_mutation_ok sc s approvalId) (\<lambda>_.
     sbind (required (approval_get s approvalId) (DatabaseNotFoundError ''Approval'')) (\<lambda>a.
     sbind (required (plan_get s (ap_planId a)) (DatabaseNotFoundError ''Plan'')) (\<lambda>p.
     sbind (assertApprovalAuthorizesPlan a p t) (\<lambda>_.
     sbind (assertProtectedResourcesCurrent s a) (\<lambda>_.
     create_for_actions env sc p a t (pl_actions p) s)))))"

text \<open>\<open>payloadHashForExpectedVersion\<close>: the digest of the action at another expected version.\<close>

fun at_expected_version :: "nat \<Rightarrow> plan_action \<Rightarrow> plan_action" where
  "at_expected_version n (ReplaceHomecomingRoutine r d) =
     ReplaceHomecomingRoutine (r\<lparr> rp_expectedProtectedVersion := n \<rparr>) d"
| "at_expected_version n (ReplaceScheduledHaulerAccessRoutine r d) =
     ReplaceScheduledHaulerAccessRoutine (r\<lparr> rp_expectedProtectedVersion := n \<rparr>) d"
| "at_expected_version n (RestoreRoutineVersion r) =
     RestoreRoutineVersion (r\<lparr> rs_expectedCurrentVersion := n \<rparr>)"

definition payloadHashForExpectedVersion :: "env \<Rightarrow> plan \<Rightarrow> plan_action \<Rightarrow> nat \<Rightarrow> string" where
  "payloadHashForExpectedVersion env p act n = en_actionHash env (pl_hash p) (at_expected_version n act)"

definition committed_operation :: "operation \<Rightarrow> operation_outcome \<Rightarrow> instant \<Rightarrow> operation" where
  "committed_operation x out t =
     x\<lparr> op_status := OpCommitted, op_outcome := Some out, op_committedAt := Some t \<rparr>"

definition activateApprovedOperation ::
  "env \<Rightarrow> scope \<Rightarrow> string \<Rightarrow> nat \<Rightarrow> instant \<Rightarrow> tenant \<Rightarrow> err + (operation \<times> tenant)" where
  "activateApprovedOperation env sc operationId expectedVersion t s =
     sbind (operation_mutation_ok sc s operationId) (\<lambda>_.
     sbind (required (operation_get s operationId) (DatabaseNotFoundError ''Operation'')) (\<lambda>x.
     case (plan_get s (op_planId x), approval_get s (op_approvalId x)) of
       (Some p, Some a) \<Rightarrow>
         sbind (required (find_action (op_planActionId x) p)
           (ApprovalBindingError ''Operation action is absent from its plan'')) (\<lambda>act.
         if op_payloadHash x \<noteq> payloadHashForExpectedVersion env p act expectedVersion
           then Inl (ApprovalBindingError ''Expected version changes the approved operation payload'')
         else if op_status x = OpCommitted then Inr (x, s)
         else if op_status x \<noteq> OpPending
           then Inl (DatabaseConflictError ''Operation cannot activate'')
         else sbind (assertApprovalAuthorizesPlan a p t) (\<lambda>_.
         sbind (assertProtectedResourcesCurrent s a) (\<lambda>_.
         sbind (applyApprovedAction env sc p act s) (\<lambda>(out, s1).
         let y = committed_operation x out t in
         sbind (operations_save sc y s1) (\<lambda>s2. Inr (y, s2))))))
     | _ \<Rightarrow> Inl (ApprovalBindingError ''Operation approval chain is absent'')))"

section \<open>One active version per active routine\<close>

text \<open>
  Which version each routine names as its active one, and which versions are marked
  active: in a well-formed tenant the two relations are the same, so that an active
  routine has exactly one active version and an inactive one has none.
\<close>

definition named_active :: "tenant \<Rightarrow> (string \<times> string) set" where
  "named_active s = {(ro_id r, v) | r v. r \<in> set (tn_routines s) \<and> ro_activeVersionId r = Some v}"

definition marked_active :: "tenant \<Rightarrow> (string \<times> string) set" where
  "marked_active s =
     {(rv_routineId v, rv_id v) | v. v \<in> set (tn_versions s) \<and> rv_status v = RoutineActive}"

lemma named_iff: "(a, b) \<in> named_active s \<longleftrightarrow>
    (\<exists>r\<in>set (tn_routines s). ro_id r = a \<and> ro_activeVersionId r = Some b)"
  by (auto simp: named_active_def)

lemma marked_iff: "(a, b) \<in> marked_active s \<longleftrightarrow>
    (\<exists>v\<in>set (tn_versions s). rv_routineId v = a \<and> rv_id v = b \<and> rv_status v = RoutineActive)"
  by (auto simp: marked_active_def)

lemma pairs_eqI: "(\<And>a b. (a, b) \<in> A \<longleftrightarrow> (a, b) \<in> B) \<Longrightarrow> A = B"
  by auto

definition routines_ok :: "tenant \<Rightarrow> bool" where
  "routines_ok s = (distinct (List.map ro_id (tn_routines s)) \<and> distinct (List.map rv_id (tn_versions s)) \<and>
     named_active s = marked_active s)"

lemma finite_marked_active: "finite (marked_active s)"
proof -
  have "marked_active s = (\<lambda>v. (rv_routineId v, rv_id v)) ` {v \<in> set (tn_versions s). rv_status v = RoutineActive}"
    by (rule pairs_eqI) (auto simp: marked_iff image_iff)
  then show ?thesis by simp
qed

lemma named_functional:
  assumes "routines_ok s" "(a, b) \<in> named_active s" "(a, c) \<in> named_active s" shows "b = c"
proof -
  from assms(2,3) obtain r q where "r \<in> set (tn_routines s)" "q \<in> set (tn_routines s)" "ro_id r = ro_id q"
    "ro_activeVersionId r = Some b" "ro_activeVersionId q = Some c" by (auto simp: named_iff)
  moreover from this assms(1) have "r = q" by (auto simp: routines_ok_def distinct_map dest: inj_onD)
  ultimately show ?thesis by simp
qed

lemma marked_injective:
  assumes "routines_ok s" "(a, b) \<in> marked_active s" "(c, b) \<in> marked_active s" shows "a = c"
proof -
  from assms(2,3) obtain r q where "r \<in> set (tn_versions s)" "q \<in> set (tn_versions s)" "rv_id r = rv_id q"
    "rv_routineId r = a" "rv_routineId q = c" by (auto simp: marked_iff)
  moreover from this assms(1) have "r = q" by (auto simp: routines_ok_def distinct_map dest: inj_onD)
  ultimately show ?thesis by simp
qed

text \<open>The five writes, as operations on the two relations.\<close>

lemma named_set_active:
  "(a, b) \<in> named_active (set_active_version i v s) \<longleftrightarrow>
     a = i \<and> v = Some b \<and> i \<in> ro_id ` set (tn_routines s) \<or> a \<noteq> i \<and> (a, b) \<in> named_active s"
  by (auto simp: named_iff set_active_version_def simp del: if_image_distrib split: if_splits)

lemma marked_deactivate:
  "(a, b) \<in> marked_active (set_version_status i routine_status.RoutineInactive s) \<longleftrightarrow>
     (a, b) \<in> marked_active s \<and> b \<noteq> i"
  by (auto simp: marked_iff set_version_status_def)

lemma marked_activate:
  "(a, b) \<in> marked_active (set_version_status i RoutineActive s) \<longleftrightarrow>
     (a, b) \<in> marked_active s \<or> b = i \<and> (\<exists>v\<in>set (tn_versions s). rv_routineId v = a \<and> rv_id v = i)"
  by (auto simp: marked_iff set_version_status_def simp del: if_image_distrib split: if_splits)

lemma write_frames [simp]:
  "tn_versions (set_active_version i v s) = tn_versions s" "tn_routines (set_version_status i st s) = tn_routines s"
  "named_active (set_version_status i st s) = named_active s"
  "marked_active (set_active_version i v s) = marked_active s"
  "List.map ro_id (tn_routines (set_active_version i v s)) = List.map ro_id (tn_routines s)"
  "List.map rv_id (tn_versions (set_version_status i st s)) = List.map rv_id (tn_versions s)"
  by (auto simp: set_active_version_def set_version_status_def named_active_def marked_active_def)

lemma write_keys [simp]:
  "ro_id ` set (tn_routines (set_active_version i v s)) = ro_id ` set (tn_routines s)"
  by (metis list.set_map write_frames(5))

lemma routine_named: "routine_get s i = Some x \<Longrightarrow> ro_activeVersionId x = Some v \<Longrightarrow> (i, v) \<in> named_active s"
  unfolding routine_get_def named_iff by (drule lookup_by_SomeD) auto

lemma routine_present: "routine_get s i = Some x \<Longrightarrow> ro_id x = i \<and> i \<in> ro_id ` set (tn_routines s)"
  unfolding routine_get_def by (drule lookup_by_SomeD) auto

lemma version_ofD: "version_of s i j = Some v \<Longrightarrow> v \<in> set (tn_versions s) \<and> rv_routineId v = i \<and> rv_id v = j"
  unfolding version_of_def by (drule find_Some_in) simp

text \<open>
  Swapping one pair of a one-to-one relation for another keeps its size; this is all
  that either action does to the active routines.
\<close>

definition active_swapped :: "tenant \<Rightarrow> tenant \<Rightarrow> string \<times> string \<Rightarrow> string \<times> string \<Rightarrow> bool" where
  "active_swapped s s' old new = (old \<in> marked_active s \<and> (new \<in> marked_active s \<longrightarrow> new = old) \<and>
     marked_active s' = insert new (marked_active s - {old}))"

lemma active_swapped_card: "active_swapped s s' old new \<Longrightarrow> card (marked_active s') = card (marked_active s)"
  using finite_marked_active[of s] card_Suc_Diff1[of "marked_active s" old]
  by (auto simp: active_swapped_def card_insert_if simp del: card_Diff_insert card_Diff_singleton)

lemma insert_routine_Inr:
  "insert_routine r s = Inr s' \<longleftrightarrow>
     (\<forall>y\<in>set (tn_routines s). ro_id y \<noteq> ro_id r) \<and> s' = s\<lparr> tn_routines := tn_routines s @ [r] \<rparr>"
  by (auto simp: insert_routine_def list_ex_iff)

lemma insert_version_Inr:
  assumes "insert_version v s = Inr s'"
  shows "(\<forall>y\<in>set (tn_versions s). rv_id y \<noteq> rv_id v) \<and> s' = s\<lparr> tn_versions := tn_versions s @ [v] \<rparr>"
  using assms by (auto simp: insert_version_def list_ex_iff split: if_splits)

lemma apply_replacement_Inr:
  assumes "apply_replacement env p r d s = Inr (out, s')"
  obtains rt vt u where
    "\<forall>y\<in>set (tn_routines s). ro_id y \<noteq> rp_replacementRoutineId r"
    "\<forall>y\<in>set (tn_versions s). rv_id y \<noteq> rp_replacementRoutineVersionId r"
    "ro_id rt = rp_replacementRoutineId r" "ro_activeVersionId rt = None"
    "rv_id vt = rp_replacementRoutineVersionId r" "rv_routineId vt = rp_replacementRoutineId r"
    "rv_status vt = RoutineActive"
    "tn_routines u = tn_routines s @ [rt]" "tn_versions u = tn_versions s @ [vt]"
    "s' = set_active_version (rp_protectedRoutineId r) None
       (set_active_version (rp_replacementRoutineId r) (Some (rp_replacementRoutineVersionId r))
         (set_version_status (rp_protectedRoutineVersionId r) routine_status.RoutineInactive u))"
    "oo_routineId out = rp_replacementRoutineId r" "oo_routineVersionId out = rp_replacementRoutineVersionId r"
proof -
  let ?rt = "replacement_routine (tn_org s) r d (read_clock env s)"
  from assms obtain s2 s4 where
    i1: "insert_routine ?rt (tick s) = Inr s2" and
    i2: "insert_version (replacement_version (tn_org s) p r d (read_clock env s2)) (tick s2) = Inr s4" and
    s': "s' = set_active_version (rp_protectedRoutineId r) None
       (set_active_version (rp_replacementRoutineId r) (Some (rp_replacementRoutineVersionId r))
         (set_version_status (rp_protectedRoutineVersionId r) routine_status.RoutineInactive s4))" and
    out: "oo_routineId out = rp_replacementRoutineId r" "oo_routineVersionId out = rp_replacementRoutineVersionId r"
    by (auto simp: apply_replacement_def Let_def result_simps split: if_splits)
  show thesis
    by (rule that[of ?rt "replacement_version (tn_org s) p r d (read_clock env s2)" s4, OF _ _ _ _ _ _ _ _ _ s' out])
      (use i1 insert_version_Inr[OF i2] in
        \<open>auto simp: insert_routine_Inr frame_simps replacement_routine_def replacement_version_def\<close>)
qed

lemma apply_replacement_swaps:
  assumes ok: "routines_ok s" and r: "apply_replacement env p r d s = Inr (out, s')"
  shows "routines_ok s' \<and>
    active_swapped s s' (rp_protectedRoutineId r, rp_protectedRoutineVersionId r)
      (oo_routineId out, oo_routineVersionId out)"
proof -
  let ?P = "rp_protectedRoutineId r" and ?pv = "rp_protectedRoutineVersionId r"
  let ?R = "rp_replacementRoutineId r" and ?V = "rp_replacementRoutineVersionId r"
  from r have lock: "protected_version_locked s r" by (auto simp: apply_replacement_def split: if_splits)
  then obtain x v where x: "routine_get s ?P = Some x" "ro_activeVersionId x = Some ?pv" and
    v: "version_of s ?P ?pv = Some v" by (auto simp: protected_version_locked_def split: option.splits)
  obtain rt vt u where
    fresh: "\<forall>y\<in>set (tn_routines s). ro_id y \<noteq> ?R" "\<forall>y\<in>set (tn_versions s). rv_id y \<noteq> ?V" and
    rt: "ro_id rt = ?R" "ro_activeVersionId rt = None" and
    vt: "rv_id vt = ?V" "rv_routineId vt = ?R" "rv_status vt = RoutineActive" and
    u: "tn_routines u = tn_routines s @ [rt]" "tn_versions u = tn_versions s @ [vt]" and
    s': "s' = set_active_version ?P None (set_active_version ?R (Some ?V)
           (set_version_status ?pv routine_status.RoutineInactive u))" and
    out: "oo_routineId out = ?R" "oo_routineVersionId out = ?V"
    by (rule apply_replacement_Inr[OF r])
  have P: "?P \<in> ro_id ` set (tn_routines s)" using routine_present[OF x(1)] by simp
  have ne: "?P \<noteq> ?R" "?pv \<noteq> ?V" using P fresh version_ofD[OF v] by auto
  have N: "named_active u = named_active s" "marked_active u = insert (?R, ?V) (marked_active s)"
    using rt vt by (auto intro!: pairs_eqI simp: named_iff marked_iff u)
  have notin: "\<forall>b. (?R, b) \<notin> named_active s" "\<forall>a. (a, ?V) \<notin> marked_active s"
    using fresh by (auto simp: named_iff marked_iff)
  have old: "(?P, ?pv) \<in> named_active s" by (rule routine_named[OF x])
  have NM: "named_active s = marked_active s" using ok by (simp add: routines_ok_def)
  have only: "a = ?P \<longleftrightarrow> b = ?pv" if "(a, b) \<in> marked_active s" for a b
    using named_functional[OF ok] marked_injective[OF ok] old that NM by blast
  have marked': "marked_active s' = insert (?R, ?V) (marked_active s - {(?P, ?pv)})"
    using ne only by (auto intro!: pairs_eqI simp: s' marked_deactivate N)
  have "named_active s' = insert (?R, ?V) (marked_active s - {(?P, ?pv)})"
    using ne only notin NM by (auto intro!: pairs_eqI simp: s' named_set_active N u rt)
  moreover have "distinct (List.map ro_id (tn_routines s'))" "distinct (List.map rv_id (tn_versions s'))"
    using ok fresh rt vt by (auto simp: s' u routines_ok_def)
  ultimately show ?thesis
    using marked' notin old NM by (auto simp: routines_ok_def active_swapped_def out)
qed

lemma apply_restore_swaps:
  assumes ok: "routines_ok s" and r: "apply_restore r s = Inr (out, s')"
  shows "routines_ok s' \<and> (\<exists>cur. active_swapped s s' (rs_routineId r, cur) (oo_routineId out, oo_routineVersionId out))"
proof -
  let ?X = "rs_routineId r" and ?B = "rs_restoreVersionId r"
  from r obtain x cur c b where x: "routine_get s ?X = Some x" "ro_activeVersionId x = Some cur"
    and c: "version_of s ?X cur = Some c" and b: "version_of s ?X ?B = Some b"
    and s': "s' = set_active_version (ro_id x) (Some (rv_id b))
       (set_version_status (rv_id b) RoutineActive (set_version_status (rv_id c) routine_status.RoutineInactive s))"
    and out: "oo_routineId out = ?X" "oo_routineVersionId out = ?B"
    by (auto simp: apply_restore_def Let_def split: option.splits if_splits)
  note xi = routine_present[OF x(1)]
  note cd = version_ofD[OF c] and bd = version_ofD[OF b]
  have NM: "named_active s = marked_active s" and d: "distinct (List.map rv_id (tn_versions s))"
    using ok by (simp_all add: routines_ok_def)
  have old: "(?X, cur) \<in> named_active s" by (rule routine_named[OF x])
  have only: "a = ?X \<longleftrightarrow> q = cur" if "(a, q) \<in> marked_active s" for a q
    using named_functional[OF ok] marked_injective[OF ok] old that NM by blast
  have uniq: "rv_routineId v = ?X" if "v \<in> set (tn_versions s)" "rv_id v = ?B" for v
    using d bd that unfolding distinct_map inj_on_def by metis
  have there: "(\<exists>v\<in>set (tn_versions (set_version_status cur routine_status.RoutineInactive s)).
      rv_routineId v = a \<and> rv_id v = ?B) \<longleftrightarrow> a = ?X" for a
    using uniq bd by (auto simp: set_version_status_def simp del: if_image_distrib split: if_splits)
  have marked': "marked_active s' = insert (?X, ?B) (marked_active s - {(?X, cur)})"
    using only cd bd there by (auto intro!: pairs_eqI simp: s' marked_activate marked_deactivate)
  have "named_active s' = insert (?X, ?B) (marked_active s - {(?X, cur)})"
    using only NM xi bd by (auto intro!: pairs_eqI simp: s' named_set_active)
  moreover have "distinct (List.map ro_id (tn_routines s'))" "distinct (List.map rv_id (tn_versions s'))"
    using ok by (simp_all add: s' routines_ok_def)
  moreover have "(?X, ?B) \<in> marked_active s \<longrightarrow> ?B = cur" using only by blast
  ultimately show ?thesis
    using marked' old NM by (auto simp: routines_ok_def active_swapped_def out)
qed

lemma applyApprovedAction_Inr:
  assumes "applyApprovedAction env sc p act s = Inr (out, s')"
  obtains stored a t where "plan_get s (pl_id p) = Some stored" "pl_hash stored = pl_hash p"
    "pl_status stored = PlanApproved" "find_action (pa_id act) stored = Some act"
    "findForPlan s (pl_id p) = Some a" "assertApprovalAuthorizesPlan a stored t = Inr ()"
    "apply_action env stored act s = Inr (out, s')"
proof -
  obtain stored where p: "plan_get s (pl_id p) = Some stored"
    using assms by (cases "plan_get s (pl_id p)") (simp_all add: applyApprovedAction_def result_simps)
  obtain a where a: "findForPlan s (pl_id p) = Some a"
    using assms p by (cases "findForPlan s (pl_id p)") (simp_all add: applyApprovedAction_def result_simps)
  from assms p a have "pl_hash stored = pl_hash p" "pl_status stored = PlanApproved"
    "find_action (pa_id act) stored = Some act"
    "assertApprovalAuthorizesPlan a stored (case ap_approvedAt a of Some t \<Rightarrow> t | None \<Rightarrow> pl_createdAt stored) = Inr ()"
    "apply_action env stored act s = Inr (out, s')"
    by (simp_all add: applyApprovedAction_def result_simps)
  with p a show thesis by (intro that)
qed

lemma applied_action_swaps:
  assumes "routines_ok s" "applyApprovedAction env sc p act s = Inr (out, s')"
  shows "routines_ok s' \<and> (\<exists>cur. active_swapped s s' (fst (action_target act), cur)
    (oo_routineId out, oo_routineVersionId out))"
  using assms(2)
proof (rule applyApprovedAction_Inr)
  fix stored a t
  assume "apply_action env stored act s = Inr (out, s')"
  then show ?thesis
  proof (cases act)
    case (ReplaceHomecomingRoutine r d)
    assume "apply_action env stored act s = Inr (out, s')"
    with ReplaceHomecomingRoutine have "apply_replacement env stored r (HomecomingRoutine d) s = Inr (out, s')"
      by (simp add: apply_action_def)
    from apply_replacement_swaps[OF assms(1) this] show ?thesis by (auto simp: ReplaceHomecomingRoutine)
  next
    case (ReplaceScheduledHaulerAccessRoutine r d)
    assume "apply_action env stored act s = Inr (out, s')"
    with ReplaceScheduledHaulerAccessRoutine
    have "apply_replacement env stored r (HaulerRoutine d) s = Inr (out, s')" by (simp add: apply_action_def)
    from apply_replacement_swaps[OF assms(1) this] show ?thesis by (auto simp: ReplaceScheduledHaulerAccessRoutine)
  next
    case (RestoreRoutineVersion r)
    assume "apply_action env stored act s = Inr (out, s')"
    with RestoreRoutineVersion have "apply_restore r s = Inr (out, s')" by (simp add: apply_action_def)
    from apply_restore_swaps[OF assms(1) this] show ?thesis by (auto simp: RestoreRoutineVersion)
  qed
qed

section \<open>Properties\<close>

text \<open>
  C24.  No duplicate routine: applying an approved action keeps the routine tables
  well formed (one active version per active routine), leaves exactly as many active
  routines as before, makes the version of the outcome the active one of its routine,
  and swaps it for the active version of the routine the action was approved against,
  leaving every other active routine as it was.
\<close>

theorem approved_actions_never_duplicate_routines:
  assumes "routines_ok s" "applyApprovedAction env sc p act s = Inr (out, s')"
  shows "routines_ok s' \<and> card (marked_active s') = card (marked_active s) \<and>
    (oo_routineId out, oo_routineVersionId out) \<in> marked_active s' \<and>
    (\<exists>cur. (fst (action_target act), cur) \<in> marked_active s \<and>
       marked_active s' = insert (oo_routineId out, oo_routineVersionId out)
         (marked_active s - {(fst (action_target act), cur)}))"
proof -
  obtain cur where ok: "routines_ok s'" and sw: "active_swapped s s' (fst (action_target act), cur)
      (oo_routineId out, oo_routineVersionId out)"
    using applied_action_swaps[OF assms] by blast
  from ok active_swapped_card[OF sw] sw show ?thesis by (auto simp: active_swapped_def)
qed

section \<open>A concrete activation\<close>

definition ex_active_tenant :: tenant where
  "ex_active_tenant = ex_tenant\<lparr>
     tn_plans := [ex_plan], tn_approvals := [ex_approval],
     tn_routines := [\<lparr> ro_id = ''rtn_aaaaaaaa'', ro_organizationId = ''org_aaaaaaaa'',
        ro_palaceId = ''pal_aaaaaaaa'', ro_name = ''Homecoming'', ro_activeVersionId = Some ''rtv_aaaaaaaa'',
        ro_createdAt = 0 \<rparr>],
     tn_versions := [\<lparr> rv_id = ''rtv_aaaaaaaa'', rv_routineId = ''rtn_aaaaaaaa'',
        rv_organizationId = ''org_aaaaaaaa'', rv_version = 1, rv_status = RoutineActive,
        rv_definition = HomecomingRoutine ex_definition, rv_sourcePlanId = None, rv_sourcePlanHash = None,
        rv_createdAt = 0 \<rparr>] \<rparr>"

lemma ex_active_ok: "routines_ok ex_active_tenant"
  by (auto simp: routines_ok_def ex_active_tenant_def intro!: pairs_eqI simp: named_iff marked_iff)

lemma ex_applies:
  "case applyApprovedAction ex_env Unfenced ex_plan ex_action ex_active_tenant of
     Inr (out, s') \<Rightarrow> oo_routineId out = ''rtn_bbbbbbbb'' | Inl _ \<Rightarrow> False"
  by code_simp

theorem approved_actions_never_duplicate_routines_witness:
  "\<exists>out s'. applyApprovedAction ex_env Unfenced ex_plan ex_action ex_active_tenant = Inr (out, s') \<and>
     routines_ok s' \<and> card (marked_active s') = card (marked_active ex_active_tenant)"
proof -
  obtain out s' where a: "applyApprovedAction ex_env Unfenced ex_plan ex_action ex_active_tenant = Inr (out, s')"
    using ex_applies by (auto split: sum.splits)
  from approved_actions_never_duplicate_routines[OF ex_active_ok a] a show ?thesis by blast
qed

end
