(* ===== verification/Evidence_Store.thy ===== *)
theory Evidence_Store
  imports Store_Effects
begin

text \<open>
  The evidence table (\<open>db/src/repositories.ts\<close>: \<open>evidence\<close> and
  \<open>assertOperationTransportSourceBinding\<close>): an append-only ledger whose records
  are admitted only with the authority that can produce them.
\<close>

definition evidence_get :: "tenant \<Rightarrow> string \<Rightarrow> persisted_evidence option" where
  "evidence_get s i = find (\<lambda>r. ev_id (pe_evidence r) = i) (tn_evidence s)"

text \<open>
  Response-loss evidence must name an unknown worker attempt of a committed
  operation of the same mission and palace, both in the past of the observation.
\<close>

definition transport_attempt_ok :: "evidence \<Rightarrow> attempt \<Rightarrow> bool" where
  "transport_attempt_ok e a = (at_transport a = ViaWorker \<and> at_status a = AtUnknown \<and>
     (case at_error a of None \<Rightarrow> False | Some x \<Rightarrow> ae_code x = ''APPLICATION_RESPONSE_LOST'') \<and>
     (case at_completedAt a of None \<Rightarrow> False | Some t \<Rightarrow> t \<le> ev_observedAt e))"

definition transport_bound :: "tenant \<Rightarrow> evidence \<Rightarrow> string \<Rightarrow> string \<Rightarrow> bool" where
  "transport_bound s e op att =
     (case (find (\<lambda>a. at_id a = att \<and> at_operationId a = op) (tn_attempts s), operation_get s op) of
        (Some a, Some x) \<Rightarrow>
          (case mission_get s (op_missionId x) of None \<Rightarrow> False | Some m \<Rightarrow>
             transport_attempt_ok e a \<and> op_missionId x = ev_missionId e \<and> mi_palaceId m = ev_palaceId e \<and>
             op_status x = OpCommitted \<and>
             (case op_committedAt x of None \<Rightarrow> False | Some t \<Rightarrow> t \<le> ev_observedAt e))
      | _ \<Rightarrow> False)"

definition assertOperationTransportSourceBinding :: "tenant \<Rightarrow> evidence \<Rightarrow> err + unit" where
  "assertOperationTransportSourceBinding s e = (case ev_body e of
     OperationTransport op att _ \<Rightarrow>
       guard_that (transport_bound s e op att) (DatabaseConflictError
         ''Application response-loss evidence is not bound to its committed operation attempt'')
   | _ \<Rightarrow> Inr ())"

text \<open>What the authority's own records must say before a new row is written.\<close>

definition callback_vouches :: "tenant \<Rightarrow> string \<Rightarrow> string \<Rightarrow> string \<Rightarrow> bool" where
  "callback_vouches s cb c digest =
     (case find (\<lambda>b. cb_id (sb_callback b) = cb) (tn_callbacks s) of
        None \<Rightarrow> False
      | Some b \<Rightarrow> cb_commandId (sb_callback b) = c \<and> sb_verifiedPayloadDigest b = digest)"

definition inputs_bound :: "tenant \<Rightarrow> evidence \<Rightarrow> string list \<Rightarrow> bool" where
  "inputs_bound s e ins =
     (let found = filter (\<lambda>r. List.member ins (ev_id (pe_evidence r))) (tn_evidence s) in
      length found = length ins \<and>
      list_all (\<lambda>r. ev_missionId (pe_evidence r) = ev_missionId e \<and>
                    ev_palaceId (pe_evidence r) = ev_palaceId e) found)"

definition assert_source :: "tenant \<Rightarrow> persisted_evidence \<Rightarrow> err + unit" where
  "assert_source s p = (case ar_authority (pe_receipt p) of
     GatewayCallbackReceipt cb c digest _ _ \<Rightarrow>
       guard_that (callback_vouches s cb c digest)
         (DatabaseConflictError ''Gateway evidence authority receipt is not verified'')
   | ApplicationReceipt _ _ ins _ \<Rightarrow>
       guard_that (ins = [] \<or> inputs_bound s (pe_evidence p) ins)
         (DatabaseConflictError ''Application evidence inputs are absent or unbound'')
   | IdentityTelemetryReceipt _ _ _ _ _ \<Rightarrow>
       Inl (DatabaseConflictError ''Identity telemetry evidence requires the signed ingress repository''))"

definition evidence_append :: "env \<Rightarrow> scope \<Rightarrow> persisted_evidence \<Rightarrow> tenant \<Rightarrow> err + tenant" where
  "evidence_append env sc p s =
     (if \<not> persisted_evidence_ok (en_obsHash env) p then Inl (ZodError ''PersistedEvidenceRecord'')
      else sbind (assertTenant s (ev_organizationId (pe_evidence p))) (\<lambda>_.
      sbind (assertMissionMutation sc (ev_missionId (pe_evidence p))) (\<lambda>_.
      sbind (assertOperationTransportSourceBinding s (pe_evidence p)) (\<lambda>_.
      if (case ar_authority (pe_receipt p) of IdentityTelemetryReceipt _ _ _ _ _ \<Rightarrow> True | _ \<Rightarrow> False)
        then Inl (DatabaseConflictError ''Identity telemetry evidence requires the signed ingress repository'')
      else (case evidence_get s (ev_id (pe_evidence p)) of
        Some stored \<Rightarrow>
          if stored \<noteq> p then Inl (DatabaseConflictError ''Evidence ID was reused with different content'')
          else Inr s
      | None \<Rightarrow> sbind (assert_source s p) (\<lambda>_.
          if list_ex (\<lambda>r. ar_id (pe_receipt r) = ar_id (pe_receipt p)) (tn_evidence s)
            then Inl (DatabaseConflictError ''evidence_authority_receipt_unique'')
          else Inr (s\<lparr> tn_evidence := tn_evidence s @ [p] \<rparr>)))))))"

fun appendMany :: "env \<Rightarrow> scope \<Rightarrow> persisted_evidence list \<Rightarrow> tenant \<Rightarrow> err + tenant" where
  "appendMany env sc [] s = Inr s"
| "appendMany env sc (p # ps) s = sbind (evidence_append env sc p s) (appendMany env sc ps)"

definition evidence_for_mission :: "tenant \<Rightarrow> string \<Rightarrow> persisted_evidence list" where
  "evidence_for_mission s m =
     sort_key (\<lambda>r. ev_observedAt (pe_evidence r)) (sort_key (\<lambda>r. ev_id (pe_evidence r))
       (filter (\<lambda>r. ev_missionId (pe_evidence r) = m) (tn_evidence s)))"

section \<open>Lemmas\<close>

lemma evidence_append_Inr:
  assumes "evidence_append env sc p s = Inr s'"
  shows "(s' = s \<and> evidence_get s (ev_id (pe_evidence p)) = Some p) \<or>
    (s' = s\<lparr> tn_evidence := tn_evidence s @ [p] \<rparr> \<and> evidence_get s (ev_id (pe_evidence p)) = None \<and>
     assert_source s p = Inr ())"
  using assms
  by (auto simp: evidence_append_def result_simps split: if_splits option.splits receipt_authority.splits)

lemma appendMany_frame:
  assumes "appendMany env sc ps s = Inr s'"
  shows "\<exists>new. s' = s\<lparr> tn_evidence := tn_evidence s @ new \<rparr> \<and> set new \<subseteq> set ps"
  using assms
proof (induction ps arbitrary: s)
  case Nil
  then show ?case by (intro exI[of _ "[]"]) simp
next
  case (Cons p ps)
  then obtain s1 where a: "evidence_append env sc p s = Inr s1" and r: "appendMany env sc ps s1 = Inr s'"
    by (auto simp: result_simps)
  from Cons.IH[OF r] obtain new where n: "s' = s1\<lparr> tn_evidence := tn_evidence s1 @ new \<rparr>" "set new \<subseteq> set ps"
    by blast
  from evidence_append_Inr[OF a] show ?case
    by (elim disjE conjE) (use n in \<open>force\<close>)+
qed

end
