(* ===== verification/Gateway_Effects.thy ===== *)
theory Gateway_Effects
  imports Evidence_Store Lease
begin

text \<open>
  The gateway aggregate of the store (\<open>db/src/repositories.ts\<close>: \<open>gatewayEffects\<close>
  with \<open>hydrateGatewayEffect\<close>, \<open>lockGatewayAggregate\<close> and
  \<open>gatewayCommandSafetyReason\<close>) and the triggers that guard its tables
  (\<open>db/migrations/0006_cynical_thanos.sql\<close>).  A command has one effect row and a
  chain of dispatch generations; only the newest generation is ever worked on.
\<close>

section \<open>Guards of the tables\<close>

datatype dispatch_phase = DPending | DDispatching | DAccepted | DUnknown | DFailed | DCancelled

fun phase_of :: "dispatch_status \<Rightarrow> dispatch_phase" where
  "phase_of DispatchPending = DPending"
| "phase_of (Dispatching _) = DDispatching"
| "phase_of (DispatchAccepted _ _) = DAccepted"
| "phase_of (DispatchUnknown _ _) = DUnknown"
| "phase_of (DispatchFailed _ _ _) = DFailed"
| "phase_of (DispatchCancelled _) = DCancelled"

definition dispatch_terminal :: "dispatch_phase \<Rightarrow> bool" where
  "dispatch_terminal p = List.member [DAccepted, DUnknown, DFailed, DCancelled] p"

definition dispatch_phase_change :: "dispatch_phase \<Rightarrow> dispatch_phase \<Rightarrow> bool" where
  "dispatch_phase_change old new =
     (old = DPending \<and> List.member [DDispatching, DCancelled] new \<or>
      old = DDispatching \<and> List.member [DAccepted, DUnknown, DFailed] new)"

text \<open>\<open>guard_gateway_dispatch_mutation\<close>\<close>

definition guard_dispatch :: "dispatch \<Rightarrow> dispatch \<Rightarrow> err + unit" where
  "guard_dispatch old new = (let p = phase_of (dp_status old); q = phase_of (dp_status new) in
     if dispatch_terminal p then Inl (DatabaseConflictError ''terminal gateway dispatches are immutable'')
     else if q \<noteq> p \<and> \<not> dispatch_phase_change p q
       then Inl (DatabaseConflictError ''invalid gateway dispatch transition'')
     else if dp_updatedAt new < dp_updatedAt old
       then Inl (DatabaseConflictError ''gateway dispatch version or time did not advance'')
     else Inr ())"

definition effect_status_change :: "callback_status option \<Rightarrow> callback_status option \<Rightarrow> bool" where
  "effect_status_change old new = (case new of
     None \<Rightarrow> False
   | Some t \<Rightarrow> (case old of
       None \<Rightarrow> True
     | Some CbAcknowledged \<Rightarrow> List.member [CbExecuting, CbCompleted, CbFailed] t
     | Some CbExecuting \<Rightarrow> List.member [CbCompleted, CbFailed] t
     | Some _ \<Rightarrow> False))"

definition effect_terminal :: "effect_row \<Rightarrow> bool" where
  "effect_terminal e = List.member [Some CbCompleted, Some CbFailed] (er_status e)"

text \<open>\<open>guard_gateway_effect_mutation\<close>; the writes below never touch the immutable columns.\<close>

definition guard_effect :: "effect_row \<Rightarrow> effect_row \<Rightarrow> err + unit" where
  "guard_effect old new =
     (if effect_terminal old then Inl (DatabaseConflictError ''terminal gateway effects are immutable'')
      else if er_status new \<noteq> er_status old \<and> \<not> effect_status_change (er_status old) (er_status new)
        then Inl (DatabaseConflictError ''invalid gateway effect transition'')
      else if \<not> is_none (er_cancellationRequestedAt old) \<and>
              er_cancellationRequestedAt new \<noteq> er_cancellationRequestedAt old
        then Inl (DatabaseConflictError ''gateway effect cancellation request is immutable'')
      else if er_reconciliationAttempts new < er_reconciliationAttempts old \<or>
              er_reconciliationAttempts old + 1 < er_reconciliationAttempts new
        then Inl (DatabaseConflictError ''gateway effect reconciliation attempts must advance once'')
      else if er_updatedAt new < er_updatedAt old
        then Inl (DatabaseConflictError ''gateway effect version or time did not advance'')
      else Inr ())"

section \<open>Rows and their updates\<close>

definition command_get :: "tenant \<Rightarrow> string \<Rightarrow> command option" where
  "command_get s i = lookup_by gc_id i (tn_commands s)"

definition effect_get :: "tenant \<Rightarrow> string \<Rightarrow> effect_row option" where
  "effect_get s i = lookup_by er_commandId i (tn_effects s)"

text \<open>The generations of a command in the order they were inserted, and the newest one.\<close>

definition dispatch_log :: "tenant \<Rightarrow> string \<Rightarrow> dispatch list" where
  "dispatch_log s c = filter (\<lambda>d. dp_commandId d = c) (tn_dispatches s)"

fun newest :: "dispatch list \<Rightarrow> dispatch option" where
  "newest [] = None"
| "newest (d # ds) = (case newest ds of
     None \<Rightarrow> Some d
   | Some e \<Rightarrow> if dp_generation e < dp_generation d then Some d else Some e)"

definition current_dispatch :: "tenant \<Rightarrow> string \<Rightarrow> dispatch option" where
  "current_dispatch s c = newest (dispatch_log s c)"

definition replace_dispatch :: "dispatch \<Rightarrow> tenant \<Rightarrow> tenant" where
  "replace_dispatch d s = s\<lparr> tn_dispatches := List.map (\<lambda>x.
     if dp_commandId x = dp_commandId d \<and> dp_generation x = dp_generation d then d else x) (tn_dispatches s) \<rparr>"

definition update_dispatch :: "dispatch \<Rightarrow> dispatch_status \<Rightarrow> instant \<Rightarrow> tenant \<Rightarrow> err + tenant" where
  "update_dispatch old st t s = (let new = old\<lparr> dp_status := st, dp_updatedAt := t \<rparr> in
     sbind (guard_dispatch old new) (\<lambda>_. Inr (replace_dispatch new s)))"

definition update_effect :: "effect_row \<Rightarrow> effect_row \<Rightarrow> tenant \<Rightarrow> err + tenant" where
  "update_effect old new s = sbind (guard_effect old new) (\<lambda>_.
     Inr (s\<lparr> tn_effects := upsert er_commandId new (tn_effects s) \<rparr>))"

definition insert_dispatch :: "string \<Rightarrow> nat \<Rightarrow> instant \<Rightarrow> tenant \<Rightarrow> err + tenant" where
  "insert_dispatch c g t s =
     (if list_ex (\<lambda>d. dp_commandId d = c \<and> dp_generation d = g) (tn_dispatches s)
      then Inl (DatabaseConflictError ''gateway_dispatches_pkey'')
      else Inr (s\<lparr> tn_dispatches := tn_dispatches s @
        [\<lparr> dp_commandId = c, dp_generation = g, dp_status = DispatchPending, dp_updatedAt = t \<rparr>] \<rparr>))"

text \<open>\<open>lockGatewayAggregate\<close>: the locks it takes do not change the state.\<close>

definition lockGatewayAggregate :: "tenant \<Rightarrow> string \<Rightarrow> (command \<times> effect_row \<times> dispatch) option" where
  "lockGatewayAggregate s c = (case (command_get s c, effect_get s c, current_dispatch s c) of
     (Some x, Some e, Some d) \<Rightarrow> Some (x, e, d) | _ \<Rightarrow> None)"

section \<open>Reading an effect\<close>

definition callback_evidence_ids :: "tenant \<Rightarrow> string option \<Rightarrow> string list" where
  "callback_evidence_ids s i = (case i of None \<Rightarrow> []
   | Some c \<Rightarrow> (case find (\<lambda>b. cb_id (sb_callback b) = c) (tn_callbacks s) of
       None \<Rightarrow> [] | Some b \<Rightarrow> List.map ev_id (cb_evidence (sb_callback b))))"

text \<open>The effect state a row stands for; a null callback identifier does not parse.\<close>

definition effect_status_of :: "tenant \<Rightarrow> effect_row \<Rightarrow> effect_status option" where
  "effect_status_of s e = (let ids = callback_evidence_ids s (er_callbackId e) in
     case (er_status e, er_cancellationRequestedAt e, er_callbackId e) of
       (Some CbCompleted, _, Some c) \<Rightarrow> Some (EffectCompleted c ids)
     | (Some CbFailed, _, Some c) \<Rightarrow> Some (EffectFailed c ids)
     | (Some CbCompleted, _, None) \<Rightarrow> None
     | (Some CbFailed, _, None) \<Rightarrow> None
     | (_, Some t, cb) \<Rightarrow> Some (EffectCancellationRequested cb t)
     | (None, None, _) \<Rightarrow> Some EffectPending
     | (Some CbAcknowledged, None, Some c) \<Rightarrow> Some (EffectAcknowledged c)
     | (Some CbExecuting, None, Some c) \<Rightarrow> Some (EffectExecuting c)
     | _ \<Rightarrow> None)"

definition hydrateGatewayEffect :: "env \<Rightarrow> tenant \<Rightarrow> string \<Rightarrow> err + effect_record option" where
  "hydrateGatewayEffect env s c = (case lockGatewayAggregate s c of
     None \<Rightarrow> Inr None
   | Some (cmd, e, d) \<Rightarrow> (case effect_status_of s e of
       None \<Rightarrow> Inl (ZodError ''GatewayEffectRecord'')
     | Some st \<Rightarrow>
         let r = \<lparr> ef_command = cmd, ef_dispatchAt = er_dispatchAt e, ef_milestone = er_milestone e,
           ef_cancellationPolicy = er_cancellationPolicy e, ef_authorization = er_authorization e,
           ef_dispatchState = d,
           ef_effectState = \<lparr> es_commandId = gc_id cmd, es_status = st, es_updatedAt = er_updatedAt e \<rparr>,
           ef_reconciliationAttempts = er_reconciliationAttempts e,
           ef_lastReconciledAt = er_lastReconciledAt e, ef_createdAt = er_createdAt e,
           ef_updatedAt = er_updatedAt e \<rparr> in
         if effect_record_ok (en_hash env) r then Inr (Some r) else Inl (ZodError ''GatewayEffectRecord'')))"

fun hydrate_all :: "env \<Rightarrow> tenant \<Rightarrow> string list \<Rightarrow> err + effect_record list" where
  "hydrate_all env s [] = Inr []"
| "hydrate_all env s (c # cs) = sbind (hydrateGatewayEffect env s c) (\<lambda>r.
     sbind (hydrate_all env s cs) (\<lambda>rs. Inr (case r of None \<Rightarrow> rs | Some x \<Rightarrow> x # rs)))"

definition effects_for_operation :: "env \<Rightarrow> tenant \<Rightarrow> string \<Rightarrow> err + effect_record list" where
  "effects_for_operation env s op = hydrate_all env s (List.map gc_id
     (sort_key gc_logicalKey (filter (\<lambda>c. gc_operationId c = op) (tn_commands s))))"

section \<open>Safety of a dispatch\<close>

datatype not_claimed_reason =
    ReasonCancelled | ReasonNotDue | ReasonAlreadyDispatching | ReasonAuthorizationInvalid
  | ReasonCapabilityUnavailable | ReasonDispatchTerminal | ReasonEffectTerminal

definition execution_for :: "tenant \<Rightarrow> string \<Rightarrow> stored_execution option" where
  "execution_for s op = find (\<lambda>x. sx_operationId x = op) (tn_executions s)"

definition authorization_current :: "tenant \<Rightarrow> command \<Rightarrow> effect_row \<Rightarrow> bool" where
  "authorization_current s c e = (case operation_get s (gc_operationId c) of
     None \<Rightarrow> False
   | Some x \<Rightarrow> (case (plan_get s (op_planId x), execution_for s (op_id x)) of
       (Some p, Some r) \<Rightarrow> op_status x = OpCommitted \<and> op_missionId x = gc_missionId c \<and>
          pl_palaceId p = gc_palaceId c \<and> er_authorization e = sx_authorization r
     | _ \<Rightarrow> False))"

fun required_capability :: "instruction \<Rightarrow> capability_kind" where
  "required_capability (SetTemperature _ _ _ _) = CapTemperatureTarget"
| "required_capability (SetLighting _ _ _ _) = CapPathwayLighting"
| "required_capability _ = CapLockDesiredState"

definition target_available :: "tenant \<Rightarrow> command \<Rightarrow> bool" where
  "target_available s c = (let dev = instruction_device (gc_instruction c) in
     case (find (\<lambda>d. dv_id d = dev \<and> dv_palaceId d = gc_palaceId c) (tn_devices s),
           find (\<lambda>k. cp_deviceId k = dev \<and> cp_kind k = required_capability (gc_instruction c))
             (tn_capabilities s)) of
       (Some d, Some k) \<Rightarrow> dv_health d \<noteq> HealthOffline \<and> cp_enabled k
     | _ \<Rightarrow> False)"

text \<open>An unlock needs a verified arrival of its own mission and palace, and an active tag.\<close>

definition arrival_verified :: "tenant \<Rightarrow> command \<Rightarrow> string \<Rightarrow> string \<Rightarrow> bool" where
  "arrival_verified s c cause tag =
     ((case evidence_get s cause of None \<Rightarrow> False | Some p \<Rightarrow>
        (case (ar_authority (pe_receipt p), ev_body (pe_evidence p)) of
           (IdentityTelemetryReceipt _ _ _ _ _, IdentityArrival tag' v) \<Rightarrow>
             v \<and> tag' = tag \<and> ev_missionId (pe_evidence p) = gc_missionId c \<and>
             ev_palaceId (pe_evidence p) = gc_palaceId c
         | _ \<Rightarrow> False)) \<and>
      (case find (\<lambda>t. tg_id t = tag) (tn_tags s) of None \<Rightarrow> False | Some t \<Rightarrow> tg_active t \<and> tg_verified t))"

definition gatewayCommandSafetyReason :: "tenant \<Rightarrow> command \<Rightarrow> effect_row \<Rightarrow> not_claimed_reason option" where
  "gatewayCommandSafetyReason s c e =
     (if \<not> authorization_current s c e then Some ReasonAuthorizationInvalid
      else if \<not> target_available s c then Some ReasonCapabilityUnavailable
      else (case gc_instruction c of
        UnlockCommand dev tag dur cause \<Rightarrow>
          if arrival_verified s c cause tag then None else Some ReasonAuthorizationInvalid
      | _ \<Rightarrow> None))"

section \<open>Materialization\<close>

datatype materialization_result = EffectCreated effect_record | EffectExisting effect_record

definition mission_cancelled :: "tenant \<Rightarrow> string \<Rightarrow> bool" where
  "mission_cancelled s m = list_ex (\<lambda>c. ca_missionId c = m) (tn_cancellations s)"

definition operation_committed_for :: "tenant \<Rightarrow> command \<Rightarrow> bool" where
  "operation_committed_for s c = (case operation_get s (gc_operationId c) of
     None \<Rightarrow> False
   | Some x \<Rightarrow> (case plan_get s (op_planId x) of
       None \<Rightarrow> False
     | Some p \<Rightarrow> op_status x = OpCommitted \<and> op_missionId x = gc_missionId c \<and>
         pl_palaceId p = gc_palaceId c))"

text \<open>The execution of the operation whose milestone waits for this command.\<close>

definition execution_awaits :: "tenant \<Rightarrow> command \<Rightarrow> milestone_name \<Rightarrow> effect_authorization \<Rightarrow> bool" where
  "execution_awaits s c n auth = (case execution_for s (gc_operationId c) of
     None \<Rightarrow> False
   | Some r \<Rightarrow> sx_authorization r = auth \<and>
       list_ex (\<lambda>m. ml_name m = n \<and> ml_commandId m = Some (gc_id c)) (ex_milestones (sx_execution r)))"

definition assertInitialAuthorization :: "scope \<Rightarrow> effect_authorization \<Rightarrow> err + unit" where
  "assertInitialAuthorization sc auth =
     (if \<not> effect_authorization_ok auth then Inl (ZodError ''GatewayEffectAuthorization'')
      else case sc of
        Unfenced \<Rightarrow> guard_that (auth = ManualAuthorization) MissionFenceRejectedError
      | Fenced _ epoch \<Rightarrow> guard_that (auth = MissionLeaseAuthorization epoch) MissionFenceRejectedError)"

definition intent_of :: "effect_record \<Rightarrow> effect_intent" where
  "intent_of r = \<lparr> ei_command = ef_command r, ei_dispatchAt = ef_dispatchAt r, ei_milestone = ef_milestone r,
     ei_cancellationPolicy = ef_cancellationPolicy r, ei_authorization = ef_authorization r,
     ei_createdAt = ef_createdAt r \<rparr>"

definition dispatch_key :: "string \<Rightarrow> nat \<Rightarrow> string" where
  "dispatch_key c g = ''gateway.dispatch:'' @ c @ '':'' @ show_nat g"

definition reconcile_key :: "string \<Rightarrow> nat \<Rightarrow> nat \<Rightarrow> string" where
  "reconcile_key c g n = ''gateway.effect.reconcile:'' @ c @ '':'' @ show_nat g @ '':'' @ show_nat n"

definition new_effect_row :: "effect_intent \<Rightarrow> effect_row" where
  "new_effect_row i = (let c = ei_command i in
     \<lparr> er_commandId = gc_id c, er_operationId = gc_operationId c, er_missionId = gc_missionId c,
       er_dispatchAt = ei_dispatchAt i, er_milestone = ei_milestone i,
       er_cancellationPolicy = ei_cancellationPolicy i, er_authorization = ei_authorization i,
       er_status = None, er_callbackId = None, er_cancellationRequestedAt = None,
       er_reconciliationAttempts = 0, er_lastReconciledAt = None, er_createdAt = ei_createdAt i,
       er_updatedAt = ei_createdAt i \<rparr>)"

definition materialize ::
  "env \<Rightarrow> scope \<Rightarrow> effect_intent \<Rightarrow> string \<Rightarrow> tenant \<Rightarrow> err + (materialization_result \<times> tenant)" where
  "materialize env sc i outboxId s = (let c = ei_command i in
     if \<not> command_ok (en_hash env) c then Inl (ZodError ''GatewayCommand'')
     else if \<not> effect_authorization_ok (ei_authorization i) then Inl (ZodError ''GatewayEffectAuthorization'')
     else sbind (assertTenant s (gc_organizationId c)) (\<lambda>_.
     sbind (assertMissionMutation sc (gc_missionId c)) (\<lambda>_.
     if gc_createdAt c \<noteq> ei_createdAt i
       then Inl (DatabaseConflictError ''Gateway intent and command creation times differ'')
     else if (ei_cancellationPolicy i = MandatoryRelock) \<noteq> is_relock (ei_milestone i) c
       then Inl (DatabaseConflictError ''Only a locked desired-state relock may survive cancellation'')
     else if \<not> operation_committed_for s c
       then Inl (DatabaseConflictError ''Gateway command does not bind a committed operation'')
     else if \<not> execution_awaits s c (ei_milestone i) (ei_authorization i) then Inl MissionFenceRejectedError
     else sbind (case sc of Unfenced \<Rightarrow> Inr () | Fenced _ _ \<Rightarrow> assertInitialAuthorization sc (ei_authorization i)) (\<lambda>_.
     if mission_cancelled s (gc_missionId c) \<and> ei_cancellationPolicy i \<noteq> MandatoryRelock
       then Inl (DatabaseConflictError ''Cancelled missions cannot materialize new optional effects'')
     else (case find (\<lambda>x. gc_id x = gc_id c \<or>
                (gc_operationId x = gc_operationId c \<and> gc_logicalKey x = gc_logicalKey c)) (tn_commands s) of
       Some x \<Rightarrow> sbind (hydrateGatewayEffect env s (gc_id x)) (\<lambda>r. case r of
           None \<Rightarrow> Inl (DatabaseConflictError ''Gateway aggregate is partially materialized'')
         | Some ex \<Rightarrow> if intent_of ex \<noteq> i
             then Inl (DatabaseConflictError
               ''Gateway command identity was reused with different immutable intent'')
             else Inr (EffectExisting ex, s))
     | None \<Rightarrow>
         let s1 = s\<lparr> tn_commands := tn_commands s @ [c], tn_effects := tn_effects s @ [new_effect_row i] \<rparr> in
         sbind (insert_dispatch (gc_id c) 1 (ei_createdAt i) s1) (\<lambda>s2.
         sbind (outbox_insert sc (new_outbox_message outboxId (gc_organizationId c) TopicGatewayDispatch
             (dispatch_key (gc_id c) 1)
             (GatewayReference (gc_organizationId c) (gc_operationId c) (gc_id c) 1)
             (ei_dispatchAt i) (ei_createdAt i)) s2) (\<lambda>s3.
         sbind (hydrateGatewayEffect env s3 (gc_id c)) (\<lambda>r. case r of
           None \<Rightarrow> Inl (DatabaseConflictError ''Gateway effect materialization vanished'')
         | Some ef \<Rightarrow> Inr (EffectCreated ef, s3)))))))))"

section \<open>Claiming a dispatch\<close>

datatype claim_result = Claimed effect_record attempt | NotClaimed not_claimed_reason effect_record

definition next_attempt_sequence :: "tenant \<Rightarrow> string \<Rightarrow> nat" where
  "next_attempt_sequence s op =
     Suc (foldr max (List.map at_sequence (filter (\<lambda>a. at_operationId a = op) (tn_attempts s))) 0)"

definition pending_attempt :: "string \<Rightarrow> tenant \<Rightarrow> string \<Rightarrow> string \<Rightarrow> nat \<Rightarrow> instant \<Rightarrow> attempt" where
  "pending_attempt i s op c g t = \<lparr> at_id = i, at_organizationId = tn_org s, at_operationId = op,
     at_sequence = next_attempt_sequence s op, at_transport = ViaGateway c g, at_status = AtPending,
     at_retryable = True, at_error = None, at_startedAt = t, at_completedAt = None \<rparr>"

text \<open>Why the newest generation of a locked aggregate is not claimable, in the order of the code.\<close>

definition claim_refusal :: "effect_row \<Rightarrow> dispatch \<Rightarrow> nat \<Rightarrow> instant \<Rightarrow> not_claimed_reason option" where
  "claim_refusal e d g t =
     (if dp_generation d \<noteq> g then Some ReasonDispatchTerminal
      else if phase_of (dp_status d) = DCancelled then Some ReasonCancelled
      else if effect_terminal e then Some ReasonEffectTerminal
      else if phase_of (dp_status d) = DDispatching then Some ReasonAlreadyDispatching
      else if phase_of (dp_status d) \<noteq> DPending then Some ReasonDispatchTerminal
      else if t < er_dispatchAt e then Some ReasonNotDue
      else None)"

definition claimDispatch ::
  "env \<Rightarrow> string \<Rightarrow> string \<Rightarrow> nat \<Rightarrow> string \<Rightarrow> instant \<Rightarrow> tenant \<Rightarrow> err + (claim_result option \<times> tenant)" where
  "claimDispatch env op c g attemptId t s =
     (if \<not> id_ok ''gcmd'' c then Inl (ZodError ''GatewayCommandId'')
      else if \<not> id_ok ''op'' op then Inl (ZodError ''OperationId'')
      else if \<not> id_ok ''att'' attemptId then Inl (ZodError ''AttemptId'')
      else if g < 1 then Inl (TypeError ''Dispatch generation must be a positive safe integer'')
      else case lockGatewayAggregate s c of
        None \<Rightarrow> Inr (None, s)
      | Some (cmd, e, d) \<Rightarrow>
          if gc_operationId cmd \<noteq> op then Inr (None, s)
          else sbind (hydrateGatewayEffect env s c) (\<lambda>cur. case cur of
            None \<Rightarrow> Inr (None, s)
          | Some r \<Rightarrow> (case claim_refusal e d g t of
              Some why \<Rightarrow> Inr (Some (NotClaimed why r), s)
            | None \<Rightarrow>
                if mission_cancelled s (gc_missionId cmd) \<and> er_cancellationPolicy e \<noteq> MandatoryRelock
                  then sbind (update_dispatch d (DispatchCancelled (db_now env 0 s)) (db_now env 1 s) (db_tick 2 s)) (\<lambda>s2.
                    sbind (hydrateGatewayEffect env s2 c) (\<lambda>r2. case r2 of
                      None \<Rightarrow> Inr (None, s2)
                    | Some x \<Rightarrow> Inr (Some (NotClaimed ReasonCancelled x), s2)))
                else (case gatewayCommandSafetyReason s cmd e of
                  Some why \<Rightarrow> Inr (Some (NotClaimed why r), s)
                | None \<Rightarrow>
                    let a = pending_attempt attemptId s op c g t in
                    if \<not> attempt_ok a then Inl (ZodError ''Attempt'')
                    else if list_ex (attempt_collides a) (tn_attempts s)
                      then Inl (DatabaseConflictError ''attempts_operation_sequence_unique'')
                    else sbind (update_dispatch d (Dispatching attemptId) t
                        (s\<lparr> tn_attempts := tn_attempts s @ [a] \<rparr>)) (\<lambda>s1.
                      sbind (hydrateGatewayEffect env s1 c) (\<lambda>r1. case r1 of
                        None \<Rightarrow> Inr (None, s1)
                      | Some x \<Rightarrow> Inr (Some (Claimed x a), s1)))))))"

section \<open>Finalizing a dispatch\<close>

datatype finalize_status = DispatchApplied | AlreadyFinalized | StaleGeneration

definition mapAttempt :: "attempt \<Rightarrow> err + attempt" where
  "mapAttempt a = (if attempt_ok a then Inr a else Inl (ZodError ''Attempt''))"

fun result_attempt_status :: "dispatch_result \<Rightarrow> attempt_status" where
  "result_attempt_status (ResultAccepted _) = AtSucceeded"
| "result_attempt_status (ResultUnknown _) = AtUnknown"
| "result_attempt_status (ResultFailed _ _ _) = AtFailed"

text \<open>An unknown result is retryable by its schema; an accepted one never is.\<close>

fun result_retryable :: "dispatch_result \<Rightarrow> bool" where
  "result_retryable (ResultAccepted _) = False"
| "result_retryable (ResultUnknown _) = True"
| "result_retryable (ResultFailed r _ _) = r"

fun result_error :: "dispatch_result \<Rightarrow> attempt_error option" where
  "result_error (ResultAccepted _) = None"
| "result_error (ResultUnknown DispatchTimeout) =
     Some \<lparr> ae_code = ''GATEWAY_TIMEOUT'', ae_message = ''Gateway response timed out'' \<rparr>"
| "result_error (ResultUnknown LostAck) =
     Some \<lparr> ae_code = ''GATEWAY_LOST_ACK'', ae_message = ''Gateway acknowledgement was lost'' \<rparr>"
| "result_error (ResultFailed _ c m) = Some \<lparr> ae_code = c, ae_message = m \<rparr>"

fun result_dispatch_status :: "string \<Rightarrow> dispatch_result \<Rightarrow> dispatch_status" where
  "result_dispatch_status a (ResultAccepted k) = DispatchAccepted a k"
| "result_dispatch_status a (ResultUnknown r) = DispatchUnknown a r"
| "result_dispatch_status a (ResultFailed r c m) = DispatchFailed a r \<lparr> ae_code = c, ae_message = m \<rparr>"

definition finalized_attempt :: "attempt \<Rightarrow> dispatch_result \<Rightarrow> instant \<Rightarrow> attempt" where
  "finalized_attempt a r t = a\<lparr> at_status := result_attempt_status r, at_retryable := result_retryable r,
     at_error := result_error r, at_completedAt := Some t \<rparr>"

definition gateway_attempt :: "tenant \<Rightarrow> string \<Rightarrow> string \<Rightarrow> nat \<Rightarrow> attempt option" where
  "gateway_attempt s i c g = find (\<lambda>a. at_id a = i \<and> at_transport a = ViaGateway c g) (tn_attempts s)"

definition with_effect ::
  "env \<Rightarrow> string \<Rightarrow> (effect_record \<Rightarrow> err + 'a) \<Rightarrow> tenant \<Rightarrow> err + ('a option \<times> tenant)" where
  "with_effect env c f s = sbind (hydrateGatewayEffect env s c) (\<lambda>r. case r of
     None \<Rightarrow> Inr (None, s) | Some x \<Rightarrow> sbind (f x) (\<lambda>y. Inr (Some y, s)))"

definition finalizeDispatch ::
  "env \<Rightarrow> scope \<Rightarrow> string \<Rightarrow> string \<Rightarrow> nat \<Rightarrow> string \<Rightarrow> dispatch_result \<Rightarrow> instant \<Rightarrow> string \<Rightarrow> tenant \<Rightarrow>
   err + ((finalize_status \<times> effect_record \<times> attempt) option \<times> tenant)" where
  "finalizeDispatch env sc op c g attemptId r t outboxId s =
     (if \<not> id_ok ''op'' op then Inl (ZodError ''OperationId'')
      else if \<not> id_ok ''gcmd'' c then Inl (ZodError ''GatewayCommandId'')
      else if \<not> id_ok ''att'' attemptId then Inl (ZodError ''AttemptId'')
      else if \<not> dispatch_result_ok r then Inl (ZodError ''GatewayDispatchResult'')
      else case lockGatewayAggregate s c of
        None \<Rightarrow> Inr (None, s)
      | Some (cmd, e, d) \<Rightarrow>
          if gc_operationId cmd \<noteq> op then Inr (None, s)
          else (case gateway_attempt s attemptId c g of
            None \<Rightarrow> Inl (DatabaseConflictError ''Dispatch attempt binding is absent'')
          | Some a \<Rightarrow>
              if dp_generation d \<noteq> g
                then with_effect env c (\<lambda>x. sbind (mapAttempt a) (\<lambda>b. Inr (StaleGeneration, x, b))) s
              else if dp_status d \<noteq> Dispatching attemptId \<or> at_status a \<noteq> AtPending
                then with_effect env c (\<lambda>x. sbind (mapAttempt a) (\<lambda>b. Inr (AlreadyFinalized, x, b))) s
              else
                let b = finalized_attempt a r t;
                    s1 = s\<lparr> tn_attempts := upsert at_id b (tn_attempts s) \<rparr> in
                sbind (update_dispatch d (result_dispatch_status attemptId r) t s1) (\<lambda>s2.
                sbind (if result_retryable r
                  then outbox_insert sc (new_outbox_message outboxId (tn_org s) TopicGatewayEffectReconcile
                    (reconcile_key c g 0) (GatewayReference (tn_org s) (gc_operationId cmd) c g) t t) s2
                  else Inr s2) (\<lambda>s3.
                with_effect env c (\<lambda>x. sbind (mapAttempt b) (\<lambda>b'. Inr (DispatchApplied, x, b'))) s3))))"

section \<open>Applying a callback\<close>

datatype callback_application = CallbackAdvanced | CallbackDuplicate | CallbackReplayed

text \<open>Stored callbacks that share an identity, a nonce or the status of the command.\<close>

definition callback_rows :: "tenant \<Rightarrow> callback \<Rightarrow> stored_callback list" where
  "callback_rows s b = filter (\<lambda>x. cb_id (sb_callback x) = cb_id b \<or> cb_nonce (sb_callback x) = cb_nonce b \<or>
     (cb_commandId (sb_callback x) = cb_commandId b \<and> cb_status (sb_callback x) = cb_status b)) (tn_callbacks s)"

definition evidence_vouched :: "stored_callback \<Rightarrow> persisted_evidence \<Rightarrow> bool" where
  "evidence_vouched b p = (case ar_authority (pe_receipt p) of
     GatewayCallbackReceipt cb c digest _ _ \<Rightarrow> cb = cb_id (sb_callback b) \<and>
       c = cb_commandId (sb_callback b) \<and> digest = sb_verifiedPayloadDigest b
   | _ \<Rightarrow> False)"

definition applyCallback ::
  "env \<Rightarrow> scope \<Rightarrow> stored_callback \<Rightarrow> persisted_evidence list \<Rightarrow> tenant \<Rightarrow>
   err + ((callback_application \<times> effect_record \<times> stored_callback) option \<times> tenant)" where
  "applyCallback env sc b records s = (let cb = sb_callback b in
     if \<not> callback_ok cb then Inl (ZodError ''GatewayCallback'')
     else sbind (assertTenant s (cb_organizationId cb)) (\<lambda>_.
     sbind (assertMissionMutation sc (cb_missionId cb)) (\<lambda>_.
     if en_callbackHash env cb \<noteq> sb_verifiedPayloadDigest b
       then Inl (DatabaseConflictError ''Callback verification digest does not match its payload'')
     else (case lockGatewayAggregate s (cb_commandId cb) of
       None \<Rightarrow> Inr (None, s)
     | Some (cmd, e, d) \<Rightarrow>
         sbind (validateGatewayCommandCallbackBinding (en_hash env) cmd cb) (\<lambda>_.
         if callback_rows s cb \<noteq> []
           then (case find (\<lambda>x. cb_id (sb_callback x) = cb_id cb \<and> cb_nonce (sb_callback x) = cb_nonce cb)
                   (callback_rows s cb) of
             None \<Rightarrow> Inl (DatabaseConflictError ''Callback identity, nonce, or status was reused'')
           | Some x \<Rightarrow>
               if sb_verifiedPayloadDigest x \<noteq> sb_verifiedPayloadDigest b
                 then Inl (DatabaseConflictError ''Callback identity, nonce, or status was reused'')
               else with_effect env (cb_commandId cb) (\<lambda>r. Inr (CallbackDuplicate, r, x)) s)
         else let tr = classifyGatewayCallbackStatusTransition (er_status e) (cb_status cb) in
           if List.member [CbRejectRegression, CbRejectTerminalContradiction] tr
             then Inl (DatabaseConflictError ''Gateway callback would regress or contradict effect state'')
           else if \<not> list_all (persisted_evidence_ok (en_obsHash env)) records
             then Inl (ZodError ''PersistedEvidenceRecord'')
           else if List.map pe_evidence records \<noteq> cb_evidence cb
             then Inl (DatabaseConflictError ''Callback evidence records do not match callback payload'')
           else if \<not> list_all (evidence_vouched b) records
             then Inl (DatabaseConflictError ''Callback evidence has no matching authority receipt'')
           else sbind (appendMany env sc records (s\<lparr> tn_callbacks := tn_callbacks s @ [b] \<rparr>)) (\<lambda>s1.
             sbind (update_effect e (e\<lparr> er_status := Some (cb_status cb), er_callbackId := Some (cb_id cb),
                 er_updatedAt := max (er_updatedAt e) (sb_receivedAt b) \<rparr>) s1) (\<lambda>s2.
             with_effect env (cb_commandId cb) (\<lambda>r.
               Inr (if tr = CbReplay then CallbackReplayed else CallbackAdvanced, r, b)) s2)))))))"

section \<open>Cancelling the effects of a mission\<close>

record pending_cancellation =
  cx_cancelled :: "string list"
  cx_preserved :: "string list"
  cx_reconciliation :: "string list"

text \<open>Queued dispatches of a cancelled generation are withdrawn.\<close>

definition withdraw_message :: "string \<Rightarrow> nat \<Rightarrow> outbox_message \<Rightarrow> outbox_message" where
  "withdraw_message c g m =
     (if ob_topic m = TopicGatewayDispatch \<and> List.member [OutPending, OutClaimed] (ob_status m) \<and>
         (case ob_payload m of GatewayReference _ _ c' g' \<Rightarrow> c' = c \<and> g' = g | _ \<Rightarrow> False)
      then m\<lparr> ob_status := OutCancelled, ob_claimedBy := None, ob_claimExpiresAt := None \<rparr> else m)"

definition withdraw_dispatch_messages :: "string \<Rightarrow> nat \<Rightarrow> tenant \<Rightarrow> tenant" where
  "withdraw_dispatch_messages c g s = s\<lparr> tn_outbox := List.map (withdraw_message c g) (tn_outbox s) \<rparr>"

datatype cancel_class = CancelNow | PreserveEffect | ReconcileEffect

definition classify_cancel :: "effect_row \<Rightarrow> dispatch \<Rightarrow> cancel_class" where
  "classify_cancel e d =
     (if er_cancellationPolicy e = MandatoryRelock \<or> effect_terminal e then PreserveEffect
      else if phase_of (dp_status d) = DPending then CancelNow
      else ReconcileEffect)"

definition request_effect_cancellation :: "effect_row \<Rightarrow> instant \<Rightarrow> tenant \<Rightarrow> err + tenant" where
  "request_effect_cancellation e t s =
     (if is_none (er_cancellationRequestedAt e)
      then update_effect e (e\<lparr> er_cancellationRequestedAt := Some t, er_updatedAt := t \<rparr>) s
      else Inr s)"

fun cancel_effects :: "instant \<Rightarrow> effect_row list \<Rightarrow> tenant \<Rightarrow> err + (pending_cancellation \<times> tenant)" where
  "cancel_effects t [] s = Inr (\<lparr> cx_cancelled = [], cx_preserved = [], cx_reconciliation = [] \<rparr>, s)"
| "cancel_effects t (e # es) s = (let c = er_commandId e in case current_dispatch s c of
     None \<Rightarrow> Inl (DatabaseConflictError ''Gateway effect has no dispatch state'')
   | Some d \<Rightarrow> (case classify_cancel e d of
       PreserveEffect \<Rightarrow> sbind (cancel_effects t es s) (\<lambda>(r, s').
         Inr (r\<lparr> cx_preserved := c # cx_preserved r \<rparr>, s'))
     | CancelNow \<Rightarrow> sbind (update_dispatch d (DispatchCancelled t) t s) (\<lambda>s1.
         sbind (cancel_effects t es (withdraw_dispatch_messages c (dp_generation d) s1)) (\<lambda>(r, s').
         Inr (r\<lparr> cx_cancelled := c # cx_cancelled r \<rparr>, s')))
     | ReconcileEffect \<Rightarrow> sbind (request_effect_cancellation e t s) (\<lambda>s1.
         sbind (cancel_effects t es s1) (\<lambda>(r, s').
         Inr (r\<lparr> cx_reconciliation := c # cx_reconciliation r \<rparr>, s')))))"

definition mission_effects :: "tenant \<Rightarrow> string \<Rightarrow> effect_row list" where
  "mission_effects s m = sort_key er_commandId (filter (\<lambda>e.
     list_ex (\<lambda>c. gc_id c = er_commandId e \<and> gc_missionId c = m) (tn_commands s)) (tn_effects s))"

definition cancelPendingForMission ::
  "scope \<Rightarrow> string \<Rightarrow> instant \<Rightarrow> tenant \<Rightarrow> err + (pending_cancellation \<times> tenant)" where
  "cancelPendingForMission sc m t s =
     (if \<not> id_ok ''mis'' m then Inl (ZodError ''MissionId'')
      else sbind (assertMissionMutation sc m) (\<lambda>_. cancel_effects t (mission_effects s m) s))"

section \<open>Reconciliation\<close>

datatype reconcile_status =
    ReconcileResolved | ReconcileCancelled | ReconcileRetry | ReconcileWaiting (rc_nextPollAt: instant)
  | ReconcileIntervention

definition polls_for_command :: "tenant \<Rightarrow> string \<Rightarrow> effect_poll list" where
  "polls_for_command s c = filter (\<lambda>p. ep_commandId p = c) (tn_effectPolls s)"

definition next_poll_sequence :: "tenant \<Rightarrow> string \<Rightarrow> nat" where
  "next_poll_sequence s c = Suc (foldr max (List.map ep_sequence (polls_for_command s c)) 0)"

fun retryable_dispatch :: "dispatch_status \<Rightarrow> bool" where
  "retryable_dispatch (DispatchUnknown _ _) = True"
| "retryable_dispatch (DispatchFailed _ r _) = r"
| "retryable_dispatch _ = False"

definition reconcile_decision ::
  "effect_row \<Rightarrow> dispatch \<Rightarrow> nat \<Rightarrow> nat \<Rightarrow> instant \<Rightarrow> poll_resolution \<times> reconcile_status" where
  "reconcile_decision e d n maximum nextPollAt =
     (if effect_terminal e then (PollTerminalFound, ReconcileResolved)
      else if phase_of (dp_status d) = DCancelled then (PollTerminalFound, ReconcileCancelled)
      else if retryable_dispatch (dp_status d) \<and> is_none (er_cancellationRequestedAt e) \<and> n < maximum
        then (PollRetryAuthorized, ReconcileRetry)
      else if maximum \<le> n then (PollBudgetExhausted, ReconcileIntervention)
      else (PollWaiting, ReconcileWaiting nextPollAt))"

record reconcile_input =
  ri_operationId :: string
  ri_commandId :: string
  ri_generation :: nat
  ri_reconciledAt :: instant
  ri_nextPollAt :: instant
  ri_maximumAttempts :: nat
  ri_dispatchOutboxId :: string
  ri_reconciliationOutboxId :: string

definition poll_row ::
  "reconcile_input \<Rightarrow> effect_row \<Rightarrow> dispatch \<Rightarrow> nat \<Rightarrow> poll_resolution \<Rightarrow> effect_poll" where
  "poll_row i e d n res = \<lparr> ep_commandId = ri_commandId i, ep_operationId = ri_operationId i, ep_sequence = n,
     ep_dispatchGeneration = ri_generation i, ep_observedDispatchStatus = dp_status d,
     ep_observedEffectStatus = er_status e,
     ep_cancellationRequested = (\<not> is_none (er_cancellationRequestedAt e)), ep_resolution = res,
     ep_occurredAt = ri_reconciledAt i \<rparr>"

text \<open>What follows the poll: a new generation, a later poll, or nothing.\<close>

definition reconcile_follow_up ::
  "scope \<Rightarrow> reconcile_input \<Rightarrow> nat \<Rightarrow> reconcile_status \<Rightarrow> tenant \<Rightarrow> err + tenant" where
  "reconcile_follow_up sc i n st s = (let c = ri_commandId i; t = ri_reconciledAt i in case st of
     ReconcileRetry \<Rightarrow> let g = ri_generation i + 1 in
       sbind (insert_dispatch c g t s) (\<lambda>s1.
       outbox_insert sc (new_outbox_message (ri_dispatchOutboxId i) (tn_org s) TopicGatewayDispatch
         (dispatch_key c g) (GatewayReference (tn_org s) (ri_operationId i) c g) t t) s1)
   | ReconcileWaiting nextPollAt \<Rightarrow>
       outbox_insert sc (new_outbox_message (ri_reconciliationOutboxId i) (tn_org s) TopicGatewayEffectReconcile
         (reconcile_key c (ri_generation i) n)
         (GatewayReference (tn_org s) (ri_operationId i) c (ri_generation i)) nextPollAt t) s
   | _ \<Rightarrow> Inr s)"

definition reconcile_effect ::
  "env \<Rightarrow> scope \<Rightarrow> reconcile_input \<Rightarrow> tenant \<Rightarrow> err + ((reconcile_status \<times> effect_record) option \<times> tenant)" where
  "reconcile_effect env sc i s = (let c = ri_commandId i in
     if \<not> id_ok ''op'' (ri_operationId i) then Inl (ZodError ''OperationId'')
     else if \<not> id_ok ''gcmd'' c then Inl (ZodError ''GatewayCommandId'')
     else if ri_maximumAttempts i < 1 then Inl (TypeError ''Maximum reconciliation attempts must be positive'')
     else (case lockGatewayAggregate s c of
       None \<Rightarrow> Inr (None, s)
     | Some (cmd, e, d) \<Rightarrow>
         if gc_operationId cmd \<noteq> ri_operationId i \<or> dp_generation d \<noteq> ri_generation i then Inr (None, s)
         else let n = next_poll_sequence s c;
                  (res, st) = reconcile_decision e d n (ri_maximumAttempts i) (ri_nextPollAt i);
                  s1 = s\<lparr> tn_effectPolls := tn_effectPolls s @ [poll_row i e d n res] \<rparr> in
           sbind (if effect_terminal e then Inr s1
             else update_effect e (e\<lparr> er_reconciliationAttempts := n, er_lastReconciledAt := Some (ri_reconciledAt i),
                    er_updatedAt := ri_reconciledAt i \<rparr>) s1) (\<lambda>s2.
           sbind (reconcile_follow_up sc i n st s2) (\<lambda>s3.
           with_effect env c (\<lambda>r. Inr (st, r)) s3))))"

end
