(* ===== verification/Execution_Store.thy ===== *)
theory Execution_Store
  imports Gateway_Effects
begin

text \<open>
  The execution rows of the store (\<open>db/src/repositories.ts\<close>: \<open>executions\<close> with
  \<open>hydrateExecution\<close>, and \<open>capabilities.list\<close>), with the checks and the trigger that
  guard their tables (\<open>executions_completion_valid\<close>, \<open>executions_temporal_order\<close>,
  \<open>execution_milestones_command_shape\<close>, \<open>execution_milestones_guard\<close>).  A row holds
  its milestones and its evidence links in the order of their positions.
\<close>

section \<open>Reading\<close>

fun milestone_order :: "milestone_name \<Rightarrow> int" where
  "milestone_order MsPreheat = 0"
| "milestone_order MsVerifiedArrival = 1"
| "milestone_order MsPathwayLighting = 2"
| "milestone_order MsUnlock = 3"
| "milestone_order MsRelock = 4"
| "milestone_order _ = -1"

text \<open>The program kind has no column: it is not part of what is read back.\<close>

definition hydrated :: "execution \<Rightarrow> execution" where
  "hydrated x = x\<lparr> ex_programKind := None,
     ex_milestones := sort_key (\<lambda>m. milestone_order (ml_name m)) (ex_milestones x) \<rparr>"

definition hydrateExecution :: "stored_execution \<Rightarrow> err + stored_execution" where
  "hydrateExecution r = (let x = hydrated (sx_execution r) in
     if execution_ok x then Inr (r\<lparr> sx_execution := x \<rparr>) else Inl (ZodError ''Execution''))"

definition hydrate_row :: "stored_execution option \<Rightarrow> err + stored_execution option" where
  "hydrate_row o' = (case o' of None \<Rightarrow> Inr None
     | Some r \<Rightarrow> sbind (hydrateExecution r) (\<lambda>x. Inr (Some x)))"

definition executions_get :: "tenant \<Rightarrow> string \<Rightarrow> err + stored_execution option" where
  "executions_get s i = (if \<not> id_ok ''exe'' i then Inl (ZodError ''ExecutionId'')
     else hydrate_row (find (\<lambda>r. ex_id (sx_execution r) = i) (tn_executions s)))"

definition findForOperation :: "tenant \<Rightarrow> string \<Rightarrow> err + stored_execution option" where
  "findForOperation s op = hydrate_row (execution_for s op)"

fun hydrate_rows :: "stored_execution list \<Rightarrow> err + stored_execution list" where
  "hydrate_rows [] = Inr []"
| "hydrate_rows (r # rs) = sbind (hydrateExecution r) (\<lambda>x. sbind (hydrate_rows rs) (\<lambda>xs. Inr (x # xs)))"

definition executions_for_mission :: "tenant \<Rightarrow> string \<Rightarrow> err + stored_execution list" where
  "executions_for_mission s m = hydrate_rows (sort_key (\<lambda>r. ex_startedAt (sx_execution r))
     (filter (\<lambda>r. ex_missionId (sx_execution r) = m) (tn_executions s)))"

section \<open>Inserting\<close>

definition operation_matches_execution :: "tenant \<Rightarrow> execution \<Rightarrow> bool" where
  "operation_matches_execution s x = (case operation_get s (ex_operationId x) of
     None \<Rightarrow> False
   | Some o' \<Rightarrow> op_status o' = OpCommitted \<and> op_missionId o' = ex_missionId x \<and>
       (case op_outcome o' of None \<Rightarrow> False
        | Some out \<Rightarrow> oo_routineId out = ex_routineId x \<and> oo_routineVersionId out = ex_routineVersionId x))"

definition trigger_persisted :: "tenant \<Rightarrow> execution \<Rightarrow> bool" where
  "trigger_persisted s x = (case evidence_get s (ex_triggeredByEvidenceId x) of
     None \<Rightarrow> False
   | Some p \<Rightarrow> ev_missionId (pe_evidence p) = ex_missionId x \<and>
       ev_organizationId (pe_evidence p) = tn_org s)"

text \<open>What the milestone and evidence-link tables accept.\<close>

definition command_shape_ok :: "milestone \<Rightarrow> bool" where
  "command_shape_ok m = ((ml_name m = MsVerifiedArrival) = is_none (ml_commandId m))"

definition evidence_linked :: "tenant \<Rightarrow> execution \<Rightarrow> bool" where
  "evidence_linked s x = list_all (\<lambda>e. \<not> is_none (evidence_get s e)) (ex_evidenceIds x)"

definition executions_insert :: "scope \<Rightarrow> stored_execution \<Rightarrow> tenant \<Rightarrow> err + tenant" where
  "executions_insert sc st s = (let x = sx_execution st in
     if \<not> execution_ok x then Inl (ZodError ''Execution'')
     else if \<not> effect_authorization_ok (sx_authorization st) then Inl (ZodError ''GatewayEffectAuthorization'')
     else sbind (assertTenant s (ex_organizationId x)) (\<lambda>_.
     sbind (assertMissionMutation sc (ex_missionId x)) (\<lambda>_.
     sbind (assertInitialAuthorization sc (sx_authorization st)) (\<lambda>_.
     if sx_operationId st \<noteq> ex_operationId x
       then Inl (DatabaseConflictError ''Stored execution operation wrapper does not match payload'')
     else if \<not> operation_matches_execution s x
       then Inl (DatabaseConflictError ''Execution does not match its operation'')
     else if \<not> trigger_persisted s x
       then Inl (DatabaseConflictError ''Execution trigger is not persisted and tenant-bound'')
     else (case find (\<lambda>r. ex_id (sx_execution r) = ex_id x \<or> sx_operationId r = ex_operationId x)
             (tn_executions s) of
       Some existing \<Rightarrow> sbind (hydrateExecution existing) (\<lambda>h.
         if h \<noteq> st then Inl (DatabaseConflictError ''Execution identity was reused with different content'')
         else Inr s)
     | None \<Rightarrow>
         if \<not> list_all command_shape_ok (ex_milestones x)
           then Inl (DatabaseConflictError ''execution_milestones_command_shape'')
         else if \<not> evidence_linked s x
           then Inl (DatabaseConflictError ''execution_evidence_evidence_tenant_fk'')
         else Inr (s\<lparr> tn_executions := tn_executions s @
                [st\<lparr> sx_execution := x\<lparr> ex_programKind := None \<rparr> \<rparr>] \<rparr>))))))"

section \<open>Resolving a milestone\<close>

datatype advance_result = MilestoneAdvanced execution | MilestoneReplayed execution

definition resolved_state :: "string \<Rightarrow> instant \<Rightarrow> milestone_failure option \<Rightarrow> milestone_state" where
  "resolved_state evidenceId resolvedAt failure = (case failure of
     None \<Rightarrow> MilestoneCompleted evidenceId resolvedAt
   | Some f \<Rightarrow> MilestoneFailed (Some evidenceId) resolvedAt f)"

definition milestone_row :: "execution \<Rightarrow> milestone_name \<Rightarrow> milestone option" where
  "milestone_row x n = lookup_by ml_name n (ex_milestones x)"

definition link_evidence :: "string \<Rightarrow> string list \<Rightarrow> string list" where
  "link_evidence e es = (if List.member es e then es else es @ [e])"

definition advanced_execution ::
  "execution \<Rightarrow> milestone \<Rightarrow> string \<Rightarrow> instant \<Rightarrow> milestone_failure option \<Rightarrow> execution" where
  "advanced_execution x m evidenceId resolvedAt failure =
     x\<lparr> ex_evidenceIds := link_evidence evidenceId (ex_evidenceIds x),
        ex_milestones := upsert ml_name (m\<lparr> ml_state := resolved_state evidenceId resolvedAt failure \<rparr>)
          (ex_milestones x),
        ex_status := ExRunning, ex_updatedAt := max (ex_updatedAt x) resolvedAt \<rparr>"

definition put_execution :: "stored_execution \<Rightarrow> tenant \<Rightarrow> tenant" where
  "put_execution r s = s\<lparr> tn_executions := upsert (\<lambda>r. ex_id (sx_execution r)) r (tn_executions s) \<rparr>"

definition milestone_evidence_bound :: "tenant \<Rightarrow> execution \<Rightarrow> string \<Rightarrow> bool" where
  "milestone_evidence_bound s x e = (case evidence_get s e of
     None \<Rightarrow> False | Some p \<Rightarrow> ev_missionId (pe_evidence p) = ex_missionId x)"

definition advanceMilestone ::
  "string \<Rightarrow> milestone_name \<Rightarrow> string option \<Rightarrow> string \<Rightarrow> instant \<Rightarrow> milestone_failure option \<Rightarrow> tenant \<Rightarrow>
   err + (advance_result option \<times> tenant)" where
  "advanceMilestone op name commandId evidenceId resolvedAt failure s =
     (if \<not> id_ok ''op'' op then Inl (ZodError ''OperationId'')
      else case execution_for s op of
        None \<Rightarrow> Inr (None, s)
      | Some r \<Rightarrow> let x = sx_execution r in
        (case milestone_row x name of
           None \<Rightarrow> Inr (None, s)
         | Some m \<Rightarrow>
             if ml_commandId m \<noteq> commandId
               then Inl (DatabaseConflictError ''Milestone command does not match its planned identity'')
             else if \<not> milestone_evidence_bound s x evidenceId
               then Inl (DatabaseConflictError ''Milestone evidence is absent or belongs to another mission'')
             else if ml_state m \<noteq> MilestonePending
               then if ml_state m \<noteq> resolved_state evidenceId resolvedAt failure
                 then Inl (DatabaseConflictError ''Milestone was resolved with other content'')
                 else sbind (hydrateExecution r) (\<lambda>h. Inr (Some (MilestoneReplayed (sx_execution h)), s))
             else if \<not> is_none (ex_completedAt x)
               then Inl (DatabaseConflictError ''executions_completion_valid'')
             else let r' = r\<lparr> sx_execution := advanced_execution x m evidenceId resolvedAt failure \<rparr> in
               sbind (hydrateExecution r') (\<lambda>h.
                 Inr (Some (MilestoneAdvanced (sx_execution h)), put_execution r' s))))"

section \<open>Evaluating readiness\<close>

datatype readiness_result =
    ExecutionNotReady execution
  | ExecutionReplayed readiness_reason execution
  | ExecutionFinalized readiness_reason execution

fun readiness_execution :: "readiness_result \<Rightarrow> execution" where
  "readiness_execution (ExecutionNotReady x) = x"
| "readiness_execution (ExecutionReplayed _ x) = x"
| "readiness_execution (ExecutionFinalized _ x) = x"

definition finalized_execution :: "execution \<Rightarrow> readiness_reason \<Rightarrow> instant \<Rightarrow> execution" where
  "finalized_execution x reason t =
     x\<lparr> ex_status := (if reason = AllCompleted then ExObserved else ExFailed),
        ex_updatedAt := t, ex_completedAt := Some t \<rparr>"

definition evaluateReadiness ::
  "scope \<Rightarrow> string \<Rightarrow> string \<Rightarrow> string \<Rightarrow> instant \<Rightarrow> tenant \<Rightarrow> err + (readiness_result option \<times> tenant)" where
  "evaluateReadiness sc missionId operationId executionId evaluatedAt s =
     (if \<not> (id_ok ''mis'' missionId \<and> id_ok ''op'' operationId \<and> id_ok ''exe'' executionId)
        then Inl (ZodError ''Readiness'')
      else sbind (assertMissionMutation sc missionId) (\<lambda>_.
      case find (\<lambda>r. ex_id (sx_execution r) = executionId \<and> sx_operationId r = operationId \<and>
             ex_missionId (sx_execution r) = missionId) (tn_executions s) of
        None \<Rightarrow> Inr (None, s)
      | Some r \<Rightarrow>
          sbind (hydrateExecution r) (\<lambda>h.
          sbind (classifyExecutionReadiness (sx_execution h) evaluatedAt) (\<lambda>decision.
          case decision of
            NotReady \<Rightarrow> Inr (Some (ExecutionNotReady (sx_execution h)), s)
          | Ready reason \<Rightarrow>
              if List.member [ExObserved, ExFailed] (ex_status (sx_execution h))
                then Inr (Some (ExecutionReplayed reason (sx_execution h)), s)
              else if evaluatedAt < ex_startedAt (sx_execution r)
                then Inl (DatabaseConflictError ''executions_temporal_order'')
              else let r' = r\<lparr> sx_execution := finalized_execution (sx_execution r) reason evaluatedAt \<rparr> in
                sbind (hydrateExecution r') (\<lambda>h'.
                  Inr (Some (ExecutionFinalized reason (sx_execution h')), put_execution r' s))))))"

section \<open>Capabilities\<close>

definition capability_devices :: "tenant \<Rightarrow> string \<Rightarrow> device_row list" where
  "capability_devices s palaceId =
     sort_key dv_id (filter (\<lambda>d. dv_palaceId d = palaceId) (tn_devices s))"

definition capabilities_list :: "tenant \<Rightarrow> string \<Rightarrow> err + (device_row list \<times> capability_row list)" where
  "capabilities_list s palaceId =
     (if \<not> id_ok ''pal'' palaceId then Inl (ZodError ''PalaceId'')
      else let ds = capability_devices s palaceId in
        Inr (ds, sort_key cp_deviceId
          (filter (\<lambda>c. List.member (List.map dv_id ds) (cp_deviceId c)) (tn_capabilities s))))"

section \<open>Lemmas\<close>

abbreviation row_id :: "stored_execution \<Rightarrow> string" where
  "row_id r \<equiv> ex_id (sx_execution r)"

lemma hydrated_sel [simp]:
  "ex_id (hydrated x) = ex_id x" "ex_operationId (hydrated x) = ex_operationId x"
  "ex_missionId (hydrated x) = ex_missionId x" "ex_status (hydrated x) = ex_status x"
  "ex_deadline (hydrated x) = ex_deadline x" "ex_startedAt (hydrated x) = ex_startedAt x"
  "ex_completedAt (hydrated x) = ex_completedAt x" "ex_programKind (hydrated x) = None"
  "ex_evidenceIds (hydrated x) = ex_evidenceIds x" "ex_updatedAt (hydrated x) = ex_updatedAt x"
  "set (ex_milestones (hydrated x)) = set (ex_milestones x)"
  by (simp_all add: hydrated_def)

lemma hydrated_idem [simp]: "hydrated (hydrated x) = hydrated x"
  by (simp add: hydrated_def sort_key_id_if_sorted)

lemma hydrated_programKind [simp]: "hydrated (x\<lparr> ex_programKind := k \<rparr>) = hydrated x"
  by (simp add: hydrated_def)

lemma hydrateExecution_Inr [simp]:
  "hydrateExecution r = Inr h \<longleftrightarrow>
     execution_ok (hydrated (sx_execution r)) \<and> h = r\<lparr> sx_execution := hydrated (sx_execution r) \<rparr>"
  by (auto simp: hydrateExecution_def Let_def)

lemma hydrateExecution_ok [simp]:
  "execution_ok (hydrated (sx_execution r)) \<Longrightarrow>
     hydrateExecution r = Inr (r\<lparr> sx_execution := hydrated (sx_execution r) \<rparr>)"
  by simp

text \<open>A homecoming execution is well formed in any order of its milestones.\<close>

lemma execution_ok_hydrated:
  assumes "execution_ok x" "ex_programKind x \<noteq> Some ScheduledHaulerAccess"
  shows "execution_ok (hydrated x)"
proof -
  let ?ms = "ex_milestones x" and ?hs = "ex_milestones (hydrated x)"
  have ms: "mset ?hs = mset ?ms" by (simp add: hydrated_def)
  then have len: "length ?hs = length ?ms" and names: "distinct (List.map ml_name ?hs) = distinct (List.map ml_name ?ms)"
    by (metis size_mset, metis distinct_map mset_eq_setD distinct_map mset_map mset_eq_imp_distinct_iff)
  have fits: "milestone_fits_execution (hydrated x) m = milestone_fits_execution x m" for m
    by (simp add: milestone_fits_execution_def split: option.split)
  have req: "required_milestones (ex_programKind x) = required_milestones None"
    using assms(2) by (simp add: required_milestones_def)
  have [simp]: "list_all P ?hs = list_all P ?ms" "list_ex P ?hs = list_ex P ?ms" for P
    by (simp_all add: list_all_iff list_ex_iff)
  have mem: "List.member (List.map ml_name ?hs) n = List.member (List.map ml_name ?ms) n" for n
    by (simp add: List.member_iff)
  have [simp]: "ex_organizationId (hydrated x) = ex_organizationId x" "ex_routineId (hydrated x) = ex_routineId x"
    "ex_routineVersionId (hydrated x) = ex_routineVersionId x"
    "ex_triggeredByEvidenceId (hydrated x) = ex_triggeredByEvidenceId x"
    by (simp_all add: hydrated_def)
  have fit2: "milestone_fits_execution (hydrated x) = milestone_fits_execution x"
    by (rule ext) (rule fits)
  from assms(1) show ?thesis
    unfolding execution_ok_def unique_iff names len fit2 mem req hydrated_sel
    by (simp add: list_all_iff list_ex_iff)
qed

lemma shaped_execution_is_homecoming:
  assumes "execution_ok x" "list_all command_shape_ok (ex_milestones x)"
  shows "ex_programKind x \<noteq> Some ScheduledHaulerAccess"
proof
  assume k: "ex_programKind x = Some ScheduledHaulerAccess"
  from execution_milestone_names[OF assms(1)] have "MsAccessWindow \<in> ml_name ` set (ex_milestones x)"
    by (simp add: k required_milestones_def HAULER_REQUIRED_MILESTONES_def)
  then obtain m where m: "m \<in> set (ex_milestones x)" "ml_name m = MsAccessWindow" by auto
  from assms(1) m(1) have "milestone_ok m" by (auto simp: execution_ok_def list_all_iff)
  moreover from assms(2) m(1) have "command_shape_ok m" by (auto simp: list_all_iff)
  ultimately show False by (simp add: milestone_ok_def command_shape_ok_def m(2) evidence_only_def)
qed

section \<open>Well-formed execution rows\<close>

text \<open>Every row reads back, and rows are found by execution and by operation unambiguously.\<close>

definition execution_rows_ok :: "tenant \<Rightarrow> bool" where
  "execution_rows_ok s = (distinct (List.map row_id (tn_executions s)) \<and>
     distinct (List.map sx_operationId (tn_executions s)) \<and>
     (\<forall>r \<in> set (tn_executions s). sx_operationId r = ex_operationId (sx_execution r) \<and>
        execution_ok (hydrated (sx_execution r))))"

lemma find_append: "find P (xs @ ys) = (case find P xs of None \<Rightarrow> find P ys | Some x \<Rightarrow> Some x)"
  by (induction xs) auto

lemma find_unique:
  assumes "distinct (List.map f xs)" "r \<in> set xs" "f r = k" "\<And>x. P x \<Longrightarrow> f x = k" "P r"
  shows "find P xs = Some r"
proof (cases "find P xs")
  case None
  then show ?thesis using assms(2,5) by (auto simp: find_None_iff_ball)
next
  case (Some y)
  then have "y \<in> set xs" "P y" using find_Some_in by fastforce+
  then have "f y = f r" using assms(3,4) by simp
  with assms(1,2) \<open>y \<in> set xs\<close> have "y = r" by (simp add: distinct_map inj_on_def)
  with Some show ?thesis by simp
qed

lemma executions_insert_Inr:
  assumes "executions_insert sc st s = Inr s'"
  obtains (replayed) r where "s' = s" "r \<in> set (tn_executions s)" "hydrateExecution r = Inr st"
      "execution_ok (sx_execution st)"
    | (fresh) "s' = s\<lparr> tn_executions := tn_executions s @
          [st\<lparr> sx_execution := (sx_execution st)\<lparr> ex_programKind := None \<rparr> \<rparr>] \<rparr>"
      "execution_ok (sx_execution st)" "list_all command_shape_ok (ex_milestones (sx_execution st))"
      "sx_operationId st = ex_operationId (sx_execution st)"
      "\<forall>r \<in> set (tn_executions s). row_id r \<noteq> row_id st \<and> sx_operationId r \<noteq> sx_operationId st"
proof -
  let ?P = "\<lambda>r. row_id r = row_id st \<or> sx_operationId r = ex_operationId (sx_execution st)"
  show thesis
  proof (cases "find ?P (tn_executions s)")
    case None
    from assms show ?thesis
      by (intro fresh) (use None in \<open>auto simp: executions_insert_def Let_def result_simps find_None_iff_ball\<close>)
  next
    case (Some r)
    from assms show ?thesis
      by (intro replayed[of r])
        (use Some find_Some_in[OF Some] in \<open>auto simp: executions_insert_def Let_def result_simps split: if_splits\<close>)
  qed
qed

lemma distinct_ids_upsert:
  assumes "distinct (List.map key xs)" "distinct (List.map g xs)" "r \<in> set xs" "key r' = key r" "g r' = g r"
  shows "distinct (List.map g (upsert key r' xs)) \<and>
    (\<forall>k. find (\<lambda>x. g x = k) (upsert key r' xs) = (if k = g r then Some r' else find (\<lambda>x. g x = k) xs))"
  using assms
proof (induction xs)
  case (Cons y ys)
  show ?case
  proof (cases "key y = key r")
    case True
    then have "y = r" using Cons.prems(1,3) by (auto simp: image_iff)
    with Cons.prems show ?thesis by (auto simp: True)
  next
    case False
    then have r: "r \<in> set ys" using Cons.prems(3) by auto
    have ih: "distinct (List.map g (upsert key r' ys))"
      "\<forall>k. find (\<lambda>x. g x = k) (upsert key r' ys) = (if k = g r then Some r' else find (\<lambda>x. g x = k) ys)"
      using Cons.IH Cons.prems r by auto
    have sub: "g ` set (upsert key r' ys) \<subseteq> g ` set ys"
      using set_upsert_subset[of key r' ys] r Cons.prems(5) by (auto simp: image_iff)
    have "g y \<noteq> g r" using Cons.prems(2) r by auto
    with False ih sub Cons.prems(2,4) show ?thesis by auto
  qed
qed simp

lemma put_execution_rows:
  assumes "execution_rows_ok s" "r \<in> set (tn_executions s)" "row_id r' = row_id r"
    "sx_operationId r' = sx_operationId r" "ex_operationId (sx_execution r') = ex_operationId (sx_execution r)"
    "execution_ok (hydrated (sx_execution r'))"
  shows "execution_rows_ok (put_execution r' s)"
    "execution_for (put_execution r' s) op = (if op = sx_operationId r then Some r' else execution_for s op)"
    "find (\<lambda>x. row_id x = i) (tn_executions (put_execution r' s)) =
       (if i = row_id r then Some r' else find (\<lambda>x. row_id x = i) (tn_executions s))"
proof -
  let ?xs = "tn_executions s" and ?ys = "upsert row_id r' (tn_executions s)"
  have d: "distinct (List.map row_id ?xs)" "distinct (List.map sx_operationId ?xs)"
    and rows: "\<forall>r \<in> set ?xs. sx_operationId r = ex_operationId (sx_execution r) \<and>
        execution_ok (hydrated (sx_execution r))"
    using assms(1) by (auto simp: execution_rows_ok_def)
  note ops = distinct_ids_upsert[OF d(1) d(2) assms(2) assms(3) assms(4)]
    and ids = distinct_ids_upsert[OF d(1) d(1) assms(2) assms(3) assms(3)]
  have "\<forall>q \<in> set ?ys. sx_operationId q = ex_operationId (sx_execution q) \<and> execution_ok (hydrated (sx_execution q))"
    using set_upsert_subset[of row_id r' ?xs] rows assms(2,4,5,6) by fastforce
  then show "execution_rows_ok (put_execution r' s)"
    using ops ids by (simp add: execution_rows_ok_def put_execution_def)
  show "execution_for (put_execution r' s) op = (if op = sx_operationId r then Some r' else execution_for s op)"
    using ops by (simp add: execution_for_def put_execution_def)
  show "find (\<lambda>x. row_id x = i) (tn_executions (put_execution r' s)) =
       (if i = row_id r then Some r' else find (\<lambda>x. row_id x = i) (tn_executions s))"
    using ids by (simp add: put_execution_def)
qed

lemma execution_forD: "execution_for s op = Some r \<Longrightarrow> r \<in> set (tn_executions s) \<and> sx_operationId r = op"
  unfolding execution_for_def by (drule find_Some_in) simp

lemma execution_for_row:
  "execution_rows_ok s \<Longrightarrow> r \<in> set (tn_executions s) \<Longrightarrow> execution_for s (sx_operationId r) = Some r"
  unfolding execution_for_def by (rule find_unique[where f = sx_operationId]) (auto simp: execution_rows_ok_def)

lemma advanced_execution_sel [simp]:
  "ex_id (advanced_execution x m e t f) = ex_id x"
  "ex_operationId (advanced_execution x m e t f) = ex_operationId x"
  "ex_missionId (advanced_execution x m e t f) = ex_missionId x"
  "ex_status (advanced_execution x m e t f) = ExRunning"
  by (simp_all add: advanced_execution_def)

lemma finalized_execution_sel [simp]:
  "ex_id (finalized_execution x k t) = ex_id x" "ex_operationId (finalized_execution x k t) = ex_operationId x"
  "ex_missionId (finalized_execution x k t) = ex_missionId x" "ex_deadline (finalized_execution x k t) = ex_deadline x"
  "ex_milestones (finalized_execution x k t) = ex_milestones x"
  "ex_startedAt (finalized_execution x k t) = ex_startedAt x"
  by (simp_all add: finalized_execution_def)

lemma advanceMilestone_Inr:
  assumes "advanceMilestone op n c e t f s = Inr (res, s')"
  obtains (absent) "res = None" "s' = s"
    | (replayed) r m where "execution_for s op = Some r" "milestone_row (sx_execution r) n = Some m"
        "ml_state m = resolved_state e t f" "ml_commandId m = c" "s' = s" "res = Some (MilestoneReplayed (hydrated (sx_execution r)))"
    | (advanced) r m r' where "execution_for s op = Some r" "milestone_row (sx_execution r) n = Some m"
        "ml_state m = MilestonePending" "ml_commandId m = c" "ex_completedAt (sx_execution r) = None"
        "milestone_evidence_bound s (sx_execution r) e"
        "r' = r\<lparr> sx_execution := advanced_execution (sx_execution r) m e t f \<rparr>"
        "execution_ok (hydrated (sx_execution r'))" "s' = put_execution r' s"
        "res = Some (MilestoneAdvanced (hydrated (sx_execution r')))"
proof (cases "execution_for s op")
  case None
  with assms show ?thesis by (intro absent) (auto simp: advanceMilestone_def split: if_splits)
next
  case r: (Some r)
  show ?thesis
  proof (cases "milestone_row (sx_execution r) n")
    case None
    with assms r show ?thesis by (intro absent) (auto simp: advanceMilestone_def split: if_splits)
  next
    case m: (Some m)
    show ?thesis
    proof (cases "ml_state m = MilestonePending")
      case True
      let ?r' = "r\<lparr> sx_execution := advanced_execution (sx_execution r) m e t f \<rparr>"
      from assms r m True have "ml_commandId m = c \<and> milestone_evidence_bound s (sx_execution r) e \<and>
          ex_completedAt (sx_execution r) = None \<and> execution_ok (hydrated (sx_execution ?r')) \<and>
          s' = put_execution ?r' s \<and> res = Some (MilestoneAdvanced (hydrated (sx_execution ?r')))"
        by (auto simp: advanceMilestone_def Let_def result_simps split: if_split_asm)
      then show ?thesis by (elim conjE) (rule advanced[OF r m True _ _ _ refl])
    next
      case False
      from assms r m False have "ml_state m = resolved_state e t f \<and> ml_commandId m = c \<and> s' = s \<and>
          res = Some (MilestoneReplayed (hydrated (sx_execution r)))"
        by (simp add: advanceMilestone_def Let_def result_simps split: if_split_asm)
      then show ?thesis using replayed[OF r m] by blast
    qed
  qed
qed

lemma evaluateReadiness_Inr:
  assumes "evaluateReadiness sc mi op x t s = Inr (res, s')"
  obtains (absent) "res = None" "s' = s"
    | (unchanged) y where "s' = s" "res = Some (ExecutionNotReady y) \<or> (\<exists>k. res = Some (ExecutionReplayed k y))"
    | (finalized) r k r' where "r \<in> set (tn_executions s)" "row_id r = x" "sx_operationId r = op"
        "ex_missionId (sx_execution r) = mi" "in_scope sc mi"
        "classifyExecutionReadiness (hydrated (sx_execution r)) t = Inr (Ready k)"
        "r' = r\<lparr> sx_execution := finalized_execution (sx_execution r) k t \<rparr>"
        "execution_ok (hydrated (sx_execution r'))" "s' = put_execution r' s"
        "res = Some (ExecutionFinalized k (hydrated (sx_execution r')))"
        "id_ok ''mis'' mi" "id_ok ''op'' op" "id_ok ''exe'' x"
proof -
  let ?P = "\<lambda>r. row_id r = x \<and> sx_operationId r = op \<and> ex_missionId (sx_execution r) = mi"
  show thesis
  proof (cases "find ?P (tn_executions s)")
    case None
    with assms show ?thesis
      by (intro absent) (auto simp: evaluateReadiness_def result_simps split: if_splits)
  next
    case (Some r)
    from find_Some_in[OF Some] have r: "r \<in> set (tn_executions s)" "?P r" by auto
    from assms Some obtain d where ids: "id_ok ''mis'' mi" "id_ok ''op'' op" "id_ok ''exe'' x" "in_scope sc mi"
      and d: "classifyExecutionReadiness (hydrated (sx_execution r)) t = Inr d"
      by (auto simp: evaluateReadiness_def result_simps assertMissionMutation_def split: if_splits)
    show ?thesis
    proof (cases "d = NotReady \<or> List.member [ExObserved, ExFailed] (ex_status (sx_execution r))")
      case True
      with assms Some d show ?thesis
        by (intro unchanged[of "hydrated (sx_execution r)"])
          (auto simp: evaluateReadiness_def result_simps split: if_splits readiness.split_asm)
    next
      case False
      then obtain k where k: "d = Ready k" by (cases d) auto
      show ?thesis
        by (rule finalized[OF r(1)]) (use assms Some d k False r ids in
          \<open>auto simp: evaluateReadiness_def result_simps Let_def split: if_splits\<close>)
    qed
  qed
qed

lemma executions_insert_rows:
  assumes "execution_rows_ok s" "executions_insert sc st s = Inr s'"
  shows "execution_rows_ok s'"
    and "execution_for s' (sx_operationId st) = Some r \<Longrightarrow>
      r\<lparr> sx_execution := hydrated (sx_execution r) \<rparr> = st\<lparr> sx_execution := hydrated (sx_execution st) \<rparr>"
    and "execution_for s' (sx_operationId st) \<noteq> None"
  using assms(2)
proof (atomize (full), cases rule: executions_insert_Inr)
  case (replayed q)
  then have "execution_for s (sx_operationId q) = Some q" using execution_for_row[OF assms(1)] by simp
  with replayed assms(1) show "execution_rows_ok s' \<and> (execution_for s' (sx_operationId st) = Some r \<longrightarrow>
      r\<lparr> sx_execution := hydrated (sx_execution r) \<rparr> = st\<lparr> sx_execution := hydrated (sx_execution st) \<rparr>) \<and>
      execution_for s' (sx_operationId st) \<noteq> None" by auto
next
  case fresh
  let ?n = "st\<lparr> sx_execution := (sx_execution st)\<lparr> ex_programKind := None \<rparr> \<rparr>"
  have none: "execution_for s (sx_operationId st) = None"
    using fresh(5) by (auto simp: execution_for_def find_None_iff_ball)
  have "execution_for s' (sx_operationId st) = Some ?n"
    using none unfolding fresh(1) execution_for_def by (simp add: find_append)
  moreover have "execution_ok (hydrated (sx_execution st))"
    by (rule execution_ok_hydrated[OF fresh(2) shaped_execution_is_homecoming[OF fresh(2,3)]])
  ultimately show "execution_rows_ok s' \<and> (execution_for s' (sx_operationId st) = Some r \<longrightarrow>
      r\<lparr> sx_execution := hydrated (sx_execution r) \<rparr> = st\<lparr> sx_execution := hydrated (sx_execution st) \<rparr>) \<and>
      execution_for s' (sx_operationId st) \<noteq> None"
    using assms(1) fresh by (auto simp: execution_rows_ok_def)
qed

lemma inserted_reads_back:
  assumes "execution_rows_ok s" "executions_insert sc st s = Inr s'"
  shows "findForOperation s' (sx_operationId st) = Inr (Some (st\<lparr> sx_execution := hydrated (sx_execution st) \<rparr>))"
proof -
  note rows = executions_insert_rows[OF assms]
  from rows(3) obtain r where r: "execution_for s' (sx_operationId st) = Some r" by auto
  have "execution_ok (hydrated (sx_execution r))"
    using execution_forD[OF r] rows(1) by (auto simp: execution_rows_ok_def)
  then have "hydrateExecution r = Inr (st\<lparr> sx_execution := hydrated (sx_execution st) \<rparr>)"
    using rows(2)[OF r] by simp
  then show ?thesis by (simp del: hydrateExecution_Inr add: findForOperation_def hydrate_row_def r)
qed

lemma advance_resolves:
  assumes "execution_rows_ok s" "advanceMilestone op n c e t f s = Inr (Some res, s')"
  shows "\<exists>r r' m m'. execution_for s op = Some r \<and> execution_for s' op = Some r' \<and>
     milestone_row (sx_execution r) n = Some m \<and> milestone_row (sx_execution r') n = Some m' \<and>
     ml_state m' = resolved_state e t f \<and> ml_commandId m' = c \<and>
     (\<forall>k. k \<noteq> n \<longrightarrow> milestone_row (sx_execution r') k = milestone_row (sx_execution r) k) \<and>
     (ml_state m \<noteq> MilestonePending \<longrightarrow> s' = s)"
  using assms(2)
proof (cases rule: advanceMilestone_Inr)
  case (replayed r m)
  then show ?thesis by auto
next
  case (advanced r m r')
  have n: "ml_name m = n" using advanced(2) lookup_by_SomeD unfolding milestone_row_def by fastforce
  have row: "milestone_row (sx_execution r') k =
      (if k = n then Some (m\<lparr> ml_state := resolved_state e t f \<rparr>) else milestone_row (sx_execution r) k)" for k
    unfolding advanced(7) milestone_row_def advanced_execution_def by (simp add: n)
  from execution_forD[OF advanced(1)] have r: "r \<in> set (tn_executions s)" "sx_operationId r = op" by auto
  have "execution_for s' op = Some r'"
    unfolding advanced(9) using put_execution_rows(2)[OF assms(1) r(1), of r' op] advanced(7,8) r(2) by simp
  with row advanced(1,2,3,4) show ?thesis by auto
qed simp

section \<open>Properties\<close>

text \<open>Execution rows stay readable: if every stored execution parses back and rows
  are unambiguous, then the same holds after an insertion, after a milestone was
  resolved and after a readiness evaluation.
\<close>

theorem execution_rows_stay_readable:
  assumes "execution_rows_ok s"
  shows "(executions_insert sc st s = Inr s1 \<longrightarrow> execution_rows_ok s1) \<and>
    (advanceMilestone op n c e t f s = Inr (a, s2) \<longrightarrow> execution_rows_ok s2) \<and>
    (evaluateReadiness sc mi op x t s = Inr (b, s3) \<longrightarrow> execution_rows_ok s3)"
proof (intro conjI impI)
  show "execution_rows_ok s1" if "executions_insert sc st s = Inr s1"
    using executions_insert_rows(1)[OF assms that] .
  show "execution_rows_ok s2" if "advanceMilestone op n c e t f s = Inr (a, s2)"
    using that
  proof (cases rule: advanceMilestone_Inr)
    case (advanced r m r')
    from execution_forD[OF advanced(1)] have "r \<in> set (tn_executions s)" by simp
    from put_execution_rows(1)[OF assms this, of r'] advanced show ?thesis by simp
  qed (use assms in simp_all)
  show "execution_rows_ok s3" if "evaluateReadiness sc mi op x t s = Inr (b, s3)"
    using that
  proof (cases rule: evaluateReadiness_Inr)
    case (finalized r k r')
    from put_execution_rows(1)[OF assms finalized(1), of r'] finalized show ?thesis by simp
  qed (use assms in simp_all)
qed

text \<open>An inserted execution reads back: after \<open>executions.insert\<close> accepted an
  execution, looking it up by its operation gives that execution, in the order of
  the homecoming milestones and without the program kind, whether the row was
  written now or had been written before.
\<close>

theorem inserted_execution_reads_back:
  assumes "execution_rows_ok s" "executions_insert sc st s = Inr s'"
  shows "findForOperation s' (sx_operationId st) =
    Inr (Some (st\<lparr> sx_execution := hydrated (sx_execution st) \<rparr>))"
  by (rule inserted_reads_back[OF assms])

text \<open>A milestone resolves once: when \<open>advanceMilestone\<close> gives a result, the named
  milestone of the operation's execution has exactly the submitted resolution and
  the submitted command, every other milestone is what it was, and if the milestone
  had been resolved before nothing at all changed.
\<close>

theorem milestones_resolve_once:
  assumes "execution_rows_ok s" "advanceMilestone op n c e t f s = Inr (Some res, s')"
  shows "\<exists>r r' m m'. execution_for s op = Some r \<and> execution_for s' op = Some r' \<and>
     milestone_row (sx_execution r) n = Some m \<and> milestone_row (sx_execution r') n = Some m' \<and>
     ml_state m' = resolved_state e t f \<and> ml_commandId m' = c \<and>
     (\<forall>k. k \<noteq> n \<longrightarrow> milestone_row (sx_execution r') k = milestone_row (sx_execution r) k) \<and>
     (ml_state m \<noteq> MilestonePending \<longrightarrow> s' = s)"
  by (rule advance_resolves[OF assms])

text \<open>Finalization is final: once \<open>evaluateReadiness\<close> has finalized an execution,
  evaluating it again at any later time changes nothing and reports the same
  execution with the same reason.
\<close>

theorem finalized_readiness_replays:
  assumes "execution_rows_ok s" "evaluateReadiness sc mi op x t s = Inr (Some (ExecutionFinalized k y), s')" "t \<le> t'"
  shows "evaluateReadiness sc mi op x t' s' = Inr (Some (ExecutionReplayed k y), s')"
  using assms(2)
proof (cases rule: evaluateReadiness_Inr)
  case (finalized r k' r')
  let ?P = "\<lambda>r. row_id r = x \<and> sx_operationId r = op \<and> ex_missionId (sx_execution r) = mi"
  have k: "k' = k" and y: "y = hydrated (sx_execution r')" using finalized(10) by auto
  have sel: "row_id r' = row_id r" "sx_operationId r' = sx_operationId r" "ex_missionId (sx_execution r') = mi"
    "ex_operationId (sx_execution r') = ex_operationId (sx_execution r)"
    using finalized(4,7) by simp_all
  note rows = put_execution_rows[OF assms(1) finalized(1) sel(1,2,4) finalized(8)]
  have "find (\<lambda>q. row_id q = x) (tn_executions s') = Some r'"
    unfolding finalized(9) rows(3) using finalized(2) by simp
  from find_Some_in[OF this] have "r' \<in> set (tn_executions s')" by simp
  then have found: "find ?P (tn_executions s') = Some r'"
    by (rule find_unique[where f = row_id and k = x, rotated])
      (use rows(1) finalized sel in \<open>auto simp: execution_rows_ok_def\<close>)
  have status: "List.member [ExObserved, ExFailed] (ex_status (sx_execution r'))"
    unfolding finalized(7) by (simp add: finalized_execution_def)
  have "set (ex_milestones (hydrated (sx_execution r'))) = set (ex_milestones (hydrated (sx_execution r)))"
    "ex_deadline (hydrated (sx_execution r')) = ex_deadline (hydrated (sx_execution r))"
    unfolding finalized(7) by simp_all
  with finalized(6,8) assms(3) have cls: "classifyExecutionReadiness (hydrated (sx_execution r')) t' = Inr (Ready k)"
    unfolding k classifyExecutionReadiness_def list_ex_iff list_all_iff by (auto split: if_splits)
  show ?thesis
    unfolding evaluateReadiness_def found y
    by (simp add: finalized(5,8,11-13) cls status assertMissionMutation_def del: List.member_iff)
qed auto

text \<open>
  A completed execution with a pending milestone, as a missed deadline leaves it,
  accepts no resolution of that milestone any more: the update would mark it running.
\<close>

theorem completed_executions_reject_late_milestones:
  assumes "execution_for s op = Some r" "milestone_row (sx_execution r) n = Some m"
    "ml_state m = MilestonePending" "ex_completedAt (sx_execution r) \<noteq> None"
  shows "\<exists>err. advanceMilestone op n c e t f s = Inl err"
  using assms by (auto simp: advanceMilestone_def Let_def)

section \<open>A concrete execution\<close>

definition ex_stored_execution :: stored_execution where
  "ex_stored_execution = \<lparr> sx_operationId = ''op_aaaaaaaa'', sx_execution = ex_execution\<lparr> ex_programKind := None \<rparr>,
     sx_authorization = ManualAuthorization \<rparr>"

definition ex_evidence_tenant :: tenant where
  "ex_evidence_tenant = ex_tenant\<lparr> tn_operations := [ex_operation], tn_evidence := [ex_delivery_record] \<rparr>"

definition ex_execution_tenant :: tenant where
  "ex_execution_tenant = ex_evidence_tenant\<lparr> tn_executions := [ex_stored_execution] \<rparr>"

lemma ex_execution_inserted: "executions_insert Unfenced ex_stored_execution ex_evidence_tenant = Inr ex_execution_tenant"
  by code_simp

lemma ex_evidence_tenant_rows: "execution_rows_ok ex_evidence_tenant"
  by (simp add: execution_rows_ok_def ex_evidence_tenant_def ex_tenant_def)

lemma ex_execution_tenant_rows: "execution_rows_ok ex_execution_tenant"
  by (rule executions_insert_rows(1)[OF ex_evidence_tenant_rows ex_execution_inserted])

theorem execution_rows_stay_readable_witness: "execution_rows_ok ex_execution_tenant"
  using execution_rows_stay_readable[OF ex_evidence_tenant_rows] ex_execution_inserted by blast

theorem inserted_execution_reads_back_witness:
  "findForOperation ex_execution_tenant ''op_aaaaaaaa'' = Inr (Some ex_stored_execution)"
proof -
  have "sx_operationId ex_stored_execution = ''op_aaaaaaaa''"
    "ex_stored_execution\<lparr> sx_execution := hydrated (sx_execution ex_stored_execution) \<rparr> = ex_stored_execution"
    by code_simp+
  with inserted_execution_reads_back[OF ex_evidence_tenant_rows ex_execution_inserted] show ?thesis by simp
qed

lemma ex_arrival_resolves:
  "\<exists>res s'. advanceMilestone ''op_aaaaaaaa'' MsVerifiedArrival None ''evd_aaaaaaaa'' 20 None ex_execution_tenant =
     Inr (Some res, s')"
proof -
  have "case advanceMilestone ''op_aaaaaaaa'' MsVerifiedArrival None ''evd_aaaaaaaa'' 20 None ex_execution_tenant of
     Inr (Some _, _) \<Rightarrow> True | _ \<Rightarrow> False" by code_simp
  then show ?thesis by (auto split: sum.splits prod.splits option.splits)
qed

theorem milestones_resolve_once_witness:
  "\<exists>res s' r m. advanceMilestone ''op_aaaaaaaa'' MsVerifiedArrival None ''evd_aaaaaaaa'' 20 None ex_execution_tenant =
       Inr (Some res, s') \<and> execution_for s' ''op_aaaaaaaa'' = Some r \<and>
     milestone_row (sx_execution r) MsVerifiedArrival = Some m \<and> ml_state m = MilestoneCompleted ''evd_aaaaaaaa'' 20"
proof -
  obtain res s' where a: "advanceMilestone ''op_aaaaaaaa'' MsVerifiedArrival None ''evd_aaaaaaaa'' 20 None
      ex_execution_tenant = Inr (Some res, s')" using ex_arrival_resolves by blast
  from milestones_resolve_once[OF ex_execution_tenant_rows a] show ?thesis
    using a by (auto simp: resolved_state_def)
qed

lemma ex_deadline_finalizes:
  "\<exists>y s'. evaluateReadiness Unfenced ''mis_aaaaaaaa'' ''op_aaaaaaaa'' ''exe_aaaaaaaa'' 2000 ex_execution_tenant =
     Inr (Some (ExecutionFinalized DeadlineElapsed y), s')"
proof -
  have "case evaluateReadiness Unfenced ''mis_aaaaaaaa'' ''op_aaaaaaaa'' ''exe_aaaaaaaa'' 2000 ex_execution_tenant of
     Inr (Some (ExecutionFinalized DeadlineElapsed _), _) \<Rightarrow> True | _ \<Rightarrow> False" by code_simp
  then show ?thesis
    by (auto split: sum.splits prod.splits option.splits readiness_result.splits readiness_reason.splits)
qed

theorem finalized_readiness_replays_witness:
  "\<exists>y s'. evaluateReadiness Unfenced ''mis_aaaaaaaa'' ''op_aaaaaaaa'' ''exe_aaaaaaaa'' 2000 ex_execution_tenant =
       Inr (Some (ExecutionFinalized DeadlineElapsed y), s') \<and>
     evaluateReadiness Unfenced ''mis_aaaaaaaa'' ''op_aaaaaaaa'' ''exe_aaaaaaaa'' 3000 s' =
       Inr (Some (ExecutionReplayed DeadlineElapsed y), s')"
proof -
  obtain y s' where e: "evaluateReadiness Unfenced ''mis_aaaaaaaa'' ''op_aaaaaaaa'' ''exe_aaaaaaaa'' 2000
      ex_execution_tenant = Inr (Some (ExecutionFinalized DeadlineElapsed y), s')" using ex_deadline_finalizes by blast
  from finalized_readiness_replays[OF ex_execution_tenant_rows e, of 3000] e show ?thesis by auto
qed

end
