(* ===== verification/Execution_Planners.thy ===== *)
theory Execution_Planners
  imports Execution_Store
begin

text \<open>
  The execution planners: \<open>application/src/homecoming-execution-planner.ts\<close> and
  \<open>scheduled-hauler-access-execution-planner.ts\<close>, which turn an activation or a
  piece of persisted evidence into gateway effects, and the registry of
  \<open>mission-program-registry.ts\<close> that chooses between them.
\<close>

section \<open>What a planner is given\<close>

record plan_context =
  pc_operation :: operation
  pc_plan :: plan
  pc_action :: plan_action
  pc_devices :: "device_row list"
  pc_capabilities :: "capability_row list"
  pc_evidence :: persisted_evidence
  pc_at :: instant

definition find_routine_action :: "routine_action_type \<Rightarrow> homecoming_definition \<Rightarrow> routine_action option" where
  "find_routine_action t d = find (\<lambda>a. action_type a = t) (hd_actions d)"

text \<open>The devices of a kind that are online and have an enabled capability.\<close>

definition device_candidates ::
  "device_row list \<Rightarrow> capability_row list \<Rightarrow> capability_kind \<Rightarrow> device_kind \<Rightarrow> device_row list" where
  "device_candidates devices capabilities capabilityKind deviceKind =
     filter (\<lambda>d. dv_kind d = deviceKind \<and> dv_health d = HealthOnline)
       (List.map_filter (\<lambda>c. lookup_by dv_id (cp_deviceId c) devices)
         (filter (\<lambda>c. cp_enabled c \<and> cp_kind c = capabilityKind) capabilities))"

definition requireDevice :: "plan_context \<Rightarrow> capability_kind \<Rightarrow> device_kind \<Rightarrow> err + device_row" where
  "requireDevice ctx capabilityKind deviceKind =
     (case device_candidates (pc_devices ctx) (pc_capabilities ctx) capabilityKind deviceKind of
        [d] \<Rightarrow> Inr d
      | _ \<Rightarrow> Inl (ConflictError ''Expected exactly one online device with the capability''))"

text \<open>Whether the record is the application's own evidence that the replacement is active.\<close>

definition activation_state_matches :: "plan_context \<Rightarrow> replace_action \<Rightarrow> bool" where
  "activation_state_matches ctx r = (case ev_body (pe_evidence (pc_evidence ctx)) of
     RoutineState routineId versionId active planId planHash \<Rightarrow>
       active \<and>
       (case op_outcome (pc_operation ctx) of None \<Rightarrow> False
        | Some out \<Rightarrow> routineId = oo_routineId out \<and> versionId = oo_routineVersionId out) \<and>
       routineId = rp_replacementRoutineId r \<and> versionId = rp_replacementRoutineVersionId r \<and>
       planId = Some (pl_id (pc_plan ctx)) \<and> planHash = Some (pl_hash (pc_plan ctx))
   | _ \<Rightarrow> False)"

section \<open>The homecoming planner\<close>

definition HOMECOMING_PREHEAT_KEY :: string where "HOMECOMING_PREHEAT_KEY = ''homecoming.preheat''"
definition HOMECOMING_LIGHTING_KEY :: string where "HOMECOMING_LIGHTING_KEY = ''homecoming.pathway-lighting''"
definition HOMECOMING_UNLOCK_KEY :: string where "HOMECOMING_UNLOCK_KEY = ''homecoming.unlock''"
definition HOMECOMING_RELOCK_KEY :: string where "HOMECOMING_RELOCK_KEY = ''homecoming.relock''"

definition VERIFICATION_TOLERANCE_MILLISECONDS :: int where
  "VERIFICATION_TOLERANCE_MILLISECONDS = 5 * 60 * 1000"

fun requireHomecomingAction :: "plan_action \<Rightarrow> err + (replace_action \<times> homecoming_definition)" where
  "requireHomecomingAction (ReplaceHomecomingRoutine r d) = Inr (r, d)"
| "requireHomecomingAction _ =
     Inl (ConflictError ''Execution planner requires a homecoming routine replacement'')"

definition assertActivationTrigger :: "plan_context \<Rightarrow> replace_action \<Rightarrow> err + unit" where
  "assertActivationTrigger ctx r =
     guard_that ((case ar_authority (pe_receipt (pc_evidence ctx)) of
          ApplicationReceipt rule version _ _ \<Rightarrow> rule = ''routine.activation.commit'' \<and> version = 1
        | _ \<Rightarrow> False) \<and> activation_state_matches ctx r)
       (ConflictError ''Activation trigger is not authoritative routine-state evidence'')"

definition preheat_effect :: "string \<Rightarrow> routine_action \<Rightarrow> instant \<Rightarrow> instant \<Rightarrow> planned_effect" where
  "preheat_effect device preheat completeAt t = \<lparr>
     pf_instruction = SetTemperature device (ra_targetCelsius preheat) completeAt None,
     pf_logicalKey = HOMECOMING_PREHEAT_KEY, pf_dispatchAt = t, pf_milestone = MsPreheat,
     pf_cancellationPolicy = CancelIfPending \<rparr>"

definition lighting_effect :: "string \<Rightarrow> routine_action \<Rightarrow> string \<Rightarrow> instant \<Rightarrow> planned_effect" where
  "lighting_effect device lighting cause t = \<lparr>
     pf_instruction = SetLighting device (ra_intensityPercent lighting) (ra_lightSeconds lighting) cause,
     pf_logicalKey = HOMECOMING_LIGHTING_KEY, pf_dispatchAt = t, pf_milestone = MsPathwayLighting,
     pf_cancellationPolicy = CancelIfPending \<rparr>"

definition unlock_effect :: "string \<Rightarrow> string \<Rightarrow> routine_action \<Rightarrow> string \<Rightarrow> instant \<Rightarrow> planned_effect" where
  "unlock_effect device tag unlock cause t = \<lparr>
     pf_instruction = UnlockCommand device tag (ra_unlockSeconds unlock) cause,
     pf_logicalKey = HOMECOMING_UNLOCK_KEY, pf_dispatchAt = t, pf_milestone = MsUnlock,
     pf_cancellationPolicy = CancelIfPending \<rparr>"

definition relock_effect :: "string \<Rightarrow> routine_action \<Rightarrow> string \<Rightarrow> instant \<Rightarrow> planned_effect" where
  "relock_effect device relock cause observedAt = \<lparr>
     pf_instruction = LockedDesiredStateCommand device cause,
     pf_logicalKey = HOMECOMING_RELOCK_KEY,
     pf_dispatchAt = observedAt + ra_afterUnlockSeconds relock * 1000, pf_milestone = MsRelock,
     pf_cancellationPolicy = MandatoryRelock \<rparr>"

definition homecoming_planActivation :: "zones \<Rightarrow> plan_context \<Rightarrow> err + planned_effect list" where
  "homecoming_planActivation zs ctx =
     sbind (requireHomecomingAction (pc_action ctx)) (\<lambda>(r, d).
     sbind (assertActivationTrigger ctx r) (\<lambda>_.
     sbind (required (find_routine_action ATPreheat d)
       (ConflictError ''Homecoming routine has no preheat action'')) (\<lambda>preheat.
     sbind (requireDevice ctx CapTemperatureTarget ThermostatDevice) (\<lambda>thermostat.
     sbind (nextLocalTime zs (pc_at ctx) (hd_timezone d) (ra_completeBy preheat)) (\<lambda>completeAt.
     sbind (parsePlannedGatewayEffect (preheat_effect (dv_id thermostat) preheat completeAt (pc_at ctx)))
       (\<lambda>p. Inr [p]))))))"

definition plan_arrival :: "plan_context \<Rightarrow> homecoming_definition \<Rightarrow> string \<Rightarrow> err + planned_effect list" where
  "plan_arrival ctx d tag = (let cause = ev_id (pe_evidence (pc_evidence ctx)) in
     case (find_routine_action ATPathwayLighting d, find_routine_action ATUnlock d) of
       (Some lighting, Some unlock) \<Rightarrow>
         sbind (requireDevice ctx CapPathwayLighting PathwayLightDevice) (\<lambda>light.
         sbind (requireDevice ctx CapLockDesiredState LockDevice) (\<lambda>lock.
         sbind (parsePlannedGatewayEffect (lighting_effect (dv_id light) lighting cause (pc_at ctx))) (\<lambda>l.
         sbind (parsePlannedGatewayEffect (unlock_effect (dv_id lock) tag unlock cause (pc_at ctx))) (\<lambda>u.
           Inr [l, u]))))
     | _ \<Rightarrow> Inl (ConflictError ''Homecoming routine is missing arrival actions''))"

definition plan_relock :: "plan_context \<Rightarrow> homecoming_definition \<Rightarrow> err + planned_effect list" where
  "plan_relock ctx d = (let e = pe_evidence (pc_evidence ctx) in
     sbind (required (find_routine_action ATLockDesiredState d)
       (ConflictError ''Homecoming routine has no relock action'')) (\<lambda>relock.
     sbind (requireDevice ctx CapLockDesiredState LockDevice) (\<lambda>lock.
     sbind (parsePlannedGatewayEffect (relock_effect (dv_id lock) relock (ev_id e) (ev_observedAt e)))
       (\<lambda>p. Inr [p]))))"

definition homecoming_planEvidence :: "(string \<Rightarrow> string) \<Rightarrow> plan_context \<Rightarrow> err + planned_effect list" where
  "homecoming_planEvidence sha ctx =
     sbind (requireHomecomingAction (pc_action ctx)) (\<lambda>(r, d).
     case (ar_authority (pe_receipt (pc_evidence ctx)), ev_body (pe_evidence (pc_evidence ctx))) of
       (IdentityTelemetryReceipt _ _ _ _ _, IdentityArrival tag verified) \<Rightarrow>
         if \<not> verified then Inr [] else plan_arrival ctx d tag
     | (GatewayCallbackReceipt _ commandId _ _ _, body) \<Rightarrow>
         sbind (deriveGatewayCommandId sha (op_id (pc_operation ctx)) HOMECOMING_UNLOCK_KEY) (\<lambda>unlockId.
         case body of
           DeviceCommand _ KUnlock _ \<Rightarrow> if commandId = unlockId then plan_relock ctx d else Inr []
         | _ \<Rightarrow> Inr [])
     | _ \<Rightarrow> Inr [])"

definition homecomingExecutionDeadline :: "zones \<Rightarrow> instant \<Rightarrow> plan_action \<Rightarrow> err + instant" where
  "homecomingExecutionDeadline zs activationAt act =
     sbind (requireHomecomingAction act) (\<lambda>(r, d).
     sbind (required (find_routine_action ATPreheat d)
       (ConflictError ''Homecoming routine has no preheat action'')) (\<lambda>preheat.
     sbind (required (find_routine_action ATLockDesiredState d)
       (ConflictError ''Homecoming routine has no relock action'')) (\<lambda>relock.
     sbind (nextLocalTime zs activationAt (hd_timezone d) (ra_completeBy preheat)) (\<lambda>preheatDeadline.
     sbind (nextLocalTime zs activationAt (hd_timezone d) (hd_windowEnd d)) (\<lambda>windowEnd.
       Inr (max preheatDeadline (windowEnd + ra_afterUnlockSeconds relock * 1000) +
            VERIFICATION_TOLERANCE_MILLISECONDS))))))"

section \<open>The scheduled hauler planner\<close>

definition HAULER_UNLOCK_KEY :: string where "HAULER_UNLOCK_KEY = ''hauler.service-hatch-unlock''"
definition HAULER_RELOCK_KEY :: string where "HAULER_RELOCK_KEY = ''hauler.service-hatch-relock''"

fun requireHaulerAction :: "plan_action \<Rightarrow> err + (replace_action \<times> hauler_definition)" where
  "requireHaulerAction (ReplaceScheduledHaulerAccessRoutine r d) = Inr (r, d)"
| "requireHaulerAction _ =
     Inl (ConflictError ''Execution planner requires a scheduled hauler access replacement'')"

definition assertHaulerActivationTrigger :: "plan_context \<Rightarrow> replace_action \<Rightarrow> err + unit" where
  "assertHaulerActivationTrigger ctx r =
     guard_that ((case ar_authority (pe_receipt (pc_evidence ctx)) of
          ApplicationReceipt rule _ _ _ \<Rightarrow> rule = ''routine.activation.commit''
        | _ \<Rightarrow> False) \<and> activation_state_matches ctx r)
       (ConflictError ''Activation trigger is not authoritative hauler routine evidence'')"

definition hauler_planActivation :: "plan_context \<Rightarrow> err + planned_effect list" where
  "hauler_planActivation ctx =
     sbind (requireHaulerAction (pc_action ctx)) (\<lambda>(r, d).
     sbind (assertHaulerActivationTrigger ctx r) (\<lambda>_. Inr []))"

definition requireServiceHatch :: "plan_context \<Rightarrow> err + device_row" where
  "requireServiceHatch ctx = (case device_candidates (pc_devices ctx) (pc_capabilities ctx)
       CapServiceHatchAccess ServiceHatchLockDevice of
     [d] \<Rightarrow> Inr d
   | _ \<Rightarrow> Inl (ConflictError ''Expected exactly one online service-hatch lock''))"

definition hatch_unlock_effect :: "string \<Rightarrow> string \<Rightarrow> evidence \<Rightarrow> instant \<Rightarrow> planned_effect" where
  "hatch_unlock_effect device tag e relockAt = \<lparr>
     pf_instruction = UnlockCommand device tag (max 1 ((relockAt - ev_observedAt e) div 1000)) (ev_id e),
     pf_logicalKey = HAULER_UNLOCK_KEY, pf_dispatchAt = ev_observedAt e,
     pf_milestone = MsServiceHatchUnlock, pf_cancellationPolicy = CancelIfPending \<rparr>"

definition hatch_relock_effect :: "string \<Rightarrow> evidence \<Rightarrow> instant \<Rightarrow> planned_effect" where
  "hatch_relock_effect device e relockAt = \<lparr>
     pf_instruction = LockedDesiredStateCommand device (ev_id e),
     pf_logicalKey = HAULER_RELOCK_KEY, pf_dispatchAt = relockAt,
     pf_milestone = MsServiceHatchRelock, pf_cancellationPolicy = MandatoryRelock \<rparr>"

definition plan_hauler_access ::
  "zones \<Rightarrow> plan_context \<Rightarrow> hauler_definition \<Rightarrow> string \<Rightarrow> err + planned_effect list" where
  "plan_hauler_access zs ctx d tag = (let e = pe_evidence (pc_evidence ctx) in
     sbind (requireServiceHatch ctx) (\<lambda>lock.
     sbind (windowEndFor zs (ev_observedAt e) (hl_timezone d) (hl_windowEnd d)) (\<lambda>windowEnd.
     let durationEnd = ev_observedAt e + hl_grantSeconds d * 1000;
         relockAt = (if durationEnd < windowEnd then durationEnd else windowEnd) in
     sbind (parsePlannedGatewayEffect (hatch_unlock_effect (dv_id lock) tag e relockAt)) (\<lambda>u.
     sbind (parsePlannedGatewayEffect (hatch_relock_effect (dv_id lock) e relockAt)) (\<lambda>l.
       Inr [u, l])))))"

definition hauler_planEvidence :: "zones \<Rightarrow> plan_context \<Rightarrow> err + planned_effect list" where
  "hauler_planEvidence zs ctx =
     sbind (requireHaulerAction (pc_action ctx)) (\<lambda>(r, d).
     case (ar_authority (pe_receipt (pc_evidence ctx)), ev_body (pe_evidence (pc_evidence ctx))) of
       (IdentityTelemetryReceipt _ _ _ _ _, IdentityArrival tag verified) \<Rightarrow>
         if \<not> verified \<or> tag \<noteq> hl_authorizedIdentityTagId d then Inr []
         else sbind (withinLocalWindow zs (ev_observedAt (pe_evidence (pc_evidence ctx))) (hl_timezone d)
                (hl_windowStart d) (hl_windowEnd d)) (\<lambda>inside.
           if \<not> inside then Inr [] else plan_hauler_access zs ctx d tag)
     | _ \<Rightarrow> Inr [])"

definition haulerExecutionDeadline :: "zones \<Rightarrow> instant \<Rightarrow> plan_action \<Rightarrow> err + instant" where
  "haulerExecutionDeadline zs activationAt act =
     sbind (requireHaulerAction act) (\<lambda>(r, d).
     sbind (windowEndFor zs activationAt (hl_timezone d) (hl_windowEnd d)) (\<lambda>windowEnd.
       Inr (windowEnd + VERIFICATION_TOLERANCE_MILLISECONDS)))"

section \<open>The program registry\<close>

fun action_program :: "plan_action \<Rightarrow> program_kind option" where
  "action_program (ReplaceHomecomingRoutine _ _) = Some NightShiftHomecoming"
| "action_program (ReplaceScheduledHaulerAccessRoutine _ _) = Some ScheduledHaulerAccess"
| "action_program (RestoreRoutineVersion _) = None"

definition programForAction :: "plan_action \<Rightarrow> err + program_kind" where
  "programForAction act = required (action_program act) (ConflictError ''No mission program owns action'')"

definition forPlan :: "plan \<Rightarrow> err + program_kind" where
  "forPlan p = (case pl_actions p of
     [act] \<Rightarrow> programForAction act
   | _ \<Rightarrow> Inl (ConflictError ''A primary automation plan requires one consequential action''))"

definition assertMissionPlanBinding :: "mission \<Rightarrow> plan \<Rightarrow> err + program_kind" where
  "assertMissionPlanBinding m p = sbind (forPlan p) (\<lambda>k.
     if missionProgramKindOf m \<noteq> k
       then Inl (ConflictError ''Mission program and approved plan action do not match'')
     else Inr k)"

definition planActivation :: "env \<Rightarrow> plan_context \<Rightarrow> err + planned_effect list" where
  "planActivation env ctx = sbind (programForAction (pc_action ctx)) (\<lambda>k. case k of
     NightShiftHomecoming \<Rightarrow> homecoming_planActivation (en_zones env) ctx
   | ScheduledHaulerAccess \<Rightarrow> hauler_planActivation ctx)"

definition planEvidence :: "env \<Rightarrow> plan_context \<Rightarrow> err + planned_effect list" where
  "planEvidence env ctx = sbind (programForAction (pc_action ctx)) (\<lambda>k. case k of
     NightShiftHomecoming \<Rightarrow> homecoming_planEvidence (hp_sha (en_hash env)) ctx
   | ScheduledHaulerAccess \<Rightarrow> hauler_planEvidence (en_zones env) ctx)"

section \<open>Lemmas\<close>

lemma requireHomecomingAction_Inr [simp]:
  "requireHomecomingAction act = Inr q \<longleftrightarrow> act = ReplaceHomecomingRoutine (fst q) (snd q)"
  by (cases act) auto

lemma requireHaulerAction_Inr [simp]:
  "requireHaulerAction act = Inr q \<longleftrightarrow> act = ReplaceScheduledHaulerAccessRoutine (fst q) (snd q)"
  by (cases act) auto

lemma in_map_filter_iff: "y \<in> set (List.map_filter f xs) \<longleftrightarrow> (\<exists>x\<in>set xs. f x = Some y)"
  by (induction xs) (auto simp: List.map_filter_simps split: option.splits)

lemma requireDevice_Inr:
  assumes "requireDevice ctx k dk = Inr d"
  shows "d \<in> set (pc_devices ctx) \<and> dv_kind d = dk \<and> dv_health d = HealthOnline \<and>
    (\<exists>c \<in> set (pc_capabilities ctx). cp_deviceId c = dv_id d \<and> cp_kind c = k \<and> cp_enabled c)"
proof -
  from assms have "device_candidates (pc_devices ctx) (pc_capabilities ctx) k dk = [d]"
    by (auto simp: requireDevice_def split: list.splits)
  then have "d \<in> set (device_candidates (pc_devices ctx) (pc_capabilities ctx) k dk)" by simp
  then show ?thesis
    by (auto simp: device_candidates_def in_map_filter_iff dest!: lookup_by_SomeD)
qed

lemma find_routine_action_Some:
  "find_routine_action t d = Some a \<Longrightarrow> a \<in> set (hd_actions d) \<and> action_type a = t"
  unfolding find_routine_action_def by (drule find_Some_in) simp

lemma plan_arrival_Inr:
  assumes "plan_arrival ctx d tag = Inr ps"
  obtains light lock lighting unlock where "requireDevice ctx CapPathwayLighting PathwayLightDevice = Inr light"
    "requireDevice ctx CapLockDesiredState LockDevice = Inr lock"
    "find_routine_action ATPathwayLighting d = Some lighting" "find_routine_action ATUnlock d = Some unlock"
    "ps = [lighting_effect (dv_id light) lighting (ev_id (pe_evidence (pc_evidence ctx))) (pc_at ctx),
           unlock_effect (dv_id lock) tag unlock (ev_id (pe_evidence (pc_evidence ctx))) (pc_at ctx)]"
  using assms by (auto simp: plan_arrival_def Let_def result_simps split: option.splits)

lemma plan_relock_Inr:
  assumes "plan_relock ctx d = Inr ps"
  obtains lock relock where "requireDevice ctx CapLockDesiredState LockDevice = Inr lock"
    "find_routine_action ATLockDesiredState d = Some relock"
    "ps = [relock_effect (dv_id lock) relock (ev_id (pe_evidence (pc_evidence ctx)))
             (ev_observedAt (pe_evidence (pc_evidence ctx)))]"
  using assms by (auto simp: plan_relock_def Let_def result_simps)

text \<open>The effects that persisted evidence can lead to, in the only two ways it can.\<close>

lemma homecoming_planEvidence_Inr:
  assumes "homecoming_planEvidence sha ctx = Inr ps" "p \<in> set ps"
  obtains (arrival) r d a b c e f tag where "pc_action ctx = ReplaceHomecomingRoutine r d"
      "ar_authority (pe_receipt (pc_evidence ctx)) = IdentityTelemetryReceipt a b c e f"
      "ev_body (pe_evidence (pc_evidence ctx)) = IdentityArrival tag True" "plan_arrival ctx d tag = Inr ps"
    | (unlocked) r d a commandId b c e dev cause where "pc_action ctx = ReplaceHomecomingRoutine r d"
      "ar_authority (pe_receipt (pc_evidence ctx)) = GatewayCallbackReceipt a commandId b c e"
      "deriveGatewayCommandId sha (op_id (pc_operation ctx)) HOMECOMING_UNLOCK_KEY = Inr commandId"
      "ev_body (pe_evidence (pc_evidence ctx)) = DeviceCommand dev KUnlock cause" "plan_relock ctx d = Inr ps"
  using assms
  by (cases "ar_authority (pe_receipt (pc_evidence ctx))"; cases "ev_body (pe_evidence (pc_evidence ctx))")
    (auto simp: homecoming_planEvidence_def result_simps split: if_split_asm command_kind.split_asm)

lemma hatch_effect_never_parses:
  "parsePlannedGatewayEffect (hatch_unlock_effect device tag e t) = Inl (ZodError ''PlannedGatewayEffect'')"
  by (simp add: parsePlannedGatewayEffect_def hatch_unlock_effect_def device_milestone_ok_def)

lemma hauler_planEvidence_Inr:
  assumes "hauler_planEvidence zs ctx = Inr ps"
  shows "ps = []"
  using assms
  by (cases "ar_authority (pe_receipt (pc_evidence ctx))"; cases "ev_body (pe_evidence (pc_evidence ctx))")
    (auto simp: hauler_planEvidence_def plan_hauler_access_def Let_def result_simps hatch_effect_never_parses
      split: if_splits)

section \<open>Properties\<close>

text \<open>The planner opens a lock only for a verified arrival and always closes it
  again: an unlock among the planned effects is caused by identity telemetry of a
  verified arrival, names the arrived tag, an online lock whose capability is
  enabled, and the approved duration; a locked state among them is the mandatory
  relock, caused by the gateway's own report of this operation's unlock, and due the
  approved number of seconds after it.
\<close>

theorem planned_locks_follow_their_evidence:
  assumes "planEvidence env ctx = Inr ps" "p \<in> set ps"
  shows "(\<forall>dev tag dur cause. pf_instruction p = UnlockCommand dev tag dur cause \<longrightarrow>
      ev_body (pe_evidence (pc_evidence ctx)) = IdentityArrival tag True \<and>
      cause = ev_id (pe_evidence (pc_evidence ctx)) \<and>
      (\<exists>a b c e f. ar_authority (pe_receipt (pc_evidence ctx)) = IdentityTelemetryReceipt a b c e f) \<and>
      (\<exists>d \<in> set (pc_devices ctx). dv_id d = dev \<and> dv_kind d = LockDevice \<and> dv_health d = HealthOnline) \<and>
      (\<exists>r d v. pc_action ctx = ReplaceHomecomingRoutine r d \<and> Unlock dur v \<in> set (hd_actions d))) \<and>
    (\<forall>dev cause. pf_instruction p = LockedDesiredStateCommand dev cause \<longrightarrow>
      pf_cancellationPolicy p = MandatoryRelock \<and> pf_milestone p = MsRelock \<and>
      (\<exists>a i b c e. ar_authority (pe_receipt (pc_evidence ctx)) = GatewayCallbackReceipt a i b c e \<and>
         deriveGatewayCommandId (hp_sha (en_hash env)) (op_id (pc_operation ctx)) HOMECOMING_UNLOCK_KEY = Inr i) \<and>
      (\<exists>r d n. pc_action ctx = ReplaceHomecomingRoutine r d \<and> LockDesiredState n \<in> set (hd_actions d) \<and>
         pf_dispatchAt p = ev_observedAt (pe_evidence (pc_evidence ctx)) + n * 1000))"
proof -
  have n: "homecoming_planEvidence (hp_sha (en_hash env)) ctx = Inr ps"
  proof (cases "programForAction (pc_action ctx)")
    case (Inr k)
    show ?thesis
    proof (cases k)
      case ScheduledHaulerAccess
      with Inr assms(1) have "hauler_planEvidence (en_zones env) ctx = Inr ps" by (simp add: planEvidence_def)
      from hauler_planEvidence_Inr[OF this] assms(2) show ?thesis by simp
    qed (use Inr assms(1) in \<open>simp add: planEvidence_def\<close>)
  qed (use assms(1) in \<open>simp add: planEvidence_def\<close>)
  from n assms(2) show ?thesis
  proof (cases rule: homecoming_planEvidence_Inr)
    case (arrival r d a b c e f tag)
    from arrival(4) show ?thesis
    proof (cases rule: plan_arrival_Inr)
      case (1 light lock lighting unlock)
      from find_routine_action_Some[OF 1(4)] obtain u v where u: "unlock = Unlock u v" "Unlock u v \<in> set (hd_actions d)"
        by (cases unlock) auto
      from 1(5) assms(2) have p: "p = lighting_effect (dv_id light) lighting (ev_id (pe_evidence (pc_evidence ctx))) (pc_at ctx) \<or>
          p = unlock_effect (dv_id lock) tag (Unlock u v) (ev_id (pe_evidence (pc_evidence ctx))) (pc_at ctx)"
        by (auto simp: u(1))
      then show ?thesis
        using requireDevice_Inr[OF 1(2)] arrival(1-3) u(2) by (auto simp: lighting_effect_def unlock_effect_def)
    qed
  next
    case (unlocked r d a i b c e dev cause)
    from unlocked(5) show ?thesis
    proof (cases rule: plan_relock_Inr)
      case (1 lock relock)
      from find_routine_action_Some[OF 1(2)] obtain w where w: "relock = LockDesiredState w" "LockDesiredState w \<in> set (hd_actions d)"
        by (cases relock) auto
      from 1(3) assms(2) w have "p = relock_effect (dv_id lock) (LockDesiredState w) (ev_id (pe_evidence (pc_evidence ctx)))
          (ev_observedAt (pe_evidence (pc_evidence ctx)))" by auto
      then show ?thesis using unlocked(1-3) w(2) by (auto simp: relock_effect_def)
    qed
  qed
qed

text \<open>The deadline of a homecoming execution leaves its preheat the full
  verification tolerance: the time the planned preheat must complete by lies at
  least five minutes before the deadline computed for the same activation.
\<close>

theorem preheat_completes_before_deadline:
  assumes "homecoming_planActivation zs ctx = Inr ps" "p \<in> set ps"
    "homecomingExecutionDeadline zs (pc_at ctx) (pc_action ctx) = Inr deadline"
  shows "pf_dispatchAt p = pc_at ctx \<and>
    (\<exists>dev x t cause. pf_instruction p = SetTemperature dev x t cause \<and> t + 300000 \<le> deadline)"
  using assms
  by (auto simp: homecoming_planActivation_def homecomingExecutionDeadline_def result_simps preheat_effect_def
      VERIFICATION_TOLERANCE_MILLISECONDS_def)

text \<open>The hauler planner never yields an effect: on any evidence it either plans
  nothing or throws, because the milestone names it plans are not among those that
  the schema of a planned gateway effect accepts.
\<close>

theorem hauler_access_is_never_planned:
  assumes "action_program (pc_action ctx) = Some ScheduledHaulerAccess" "planEvidence env ctx = Inr ps"
  shows "ps = []"
  using assms hauler_planEvidence_Inr by (auto simp: planEvidence_def programForAction_def result_simps)

section \<open>A concrete homecoming\<close>

definition ex_sha :: "string \<Rightarrow> string" where
  "ex_sha s = replicate 7 (s ! (length s - 6)) @ [last s]"

definition ex_planner_env :: env where
  "ex_planner_env = ex_env\<lparr> en_now := (\<lambda>n. 40 + int n), en_hash := \<lparr> hp_sha = ex_sha, hp_payload = (\<lambda>_. ex_digest) \<rparr>,
     en_zones := (\<lambda>z. if z = ''UTC'' then Some (fixed_zone 0) else None),
     en_activationId := (\<lambda>kind a b. ex_sha b) \<rparr>"

definition ex_devices :: "device_row list" where
  "ex_devices =
     [\<lparr> dv_id = ''dev_aaaaaaaa'', dv_palaceId = ''pal_aaaaaaaa'', dv_kind = LockDevice, dv_health = HealthOnline \<rparr>,
      \<lparr> dv_id = ''dev_bbbbbbbb'', dv_palaceId = ''pal_aaaaaaaa'', dv_kind = PathwayLightDevice, dv_health = HealthOnline \<rparr>,
      \<lparr> dv_id = ''dev_cccccccc'', dv_palaceId = ''pal_aaaaaaaa'', dv_kind = ThermostatDevice, dv_health = HealthOnline \<rparr>]"

definition ex_capabilities :: "capability_row list" where
  "ex_capabilities =
     [\<lparr> cp_deviceId = ''dev_aaaaaaaa'', cp_kind = CapLockDesiredState, cp_enabled = True \<rparr>,
      \<lparr> cp_deviceId = ''dev_bbbbbbbb'', cp_kind = CapPathwayLighting, cp_enabled = True \<rparr>,
      \<lparr> cp_deviceId = ''dev_cccccccc'', cp_kind = CapTemperatureTarget, cp_enabled = True \<rparr>]"

definition ex_record :: "string \<Rightarrow> evidence_body \<Rightarrow> receipt_authority \<Rightarrow> persisted_evidence" where
  "ex_record k b r = \<lparr> pe_evidence = ex_evidence (''evd_'' @ k) b,
     pe_receipt = \<lparr> ar_id = ''rcp_'' @ k, ar_evidenceId = ''evd_'' @ k, ar_organizationId = ''org_aaaaaaaa'',
       ar_missionId = ''mis_aaaaaaaa'', ar_palaceId = ''pal_aaaaaaaa'', ar_verifiedAt = 5, ar_authority = r \<rparr>,
     pe_persistedAt = 5 \<rparr>"

definition ex_context :: "persisted_evidence \<Rightarrow> plan_context" where
  "ex_context p = \<lparr> pc_operation = ex_operation, pc_plan = ex_plan, pc_action = ex_action,
     pc_devices = ex_devices, pc_capabilities = ex_capabilities, pc_evidence = p, pc_at = 40 \<rparr>"

definition ex_arrival_record :: persisted_evidence where
  "ex_arrival_record = ex_record ''cccccccc'' (IdentityArrival ''tag_aaaaaaaa'' True)
     (IdentityTelemetryReceipt ''idt_aaaaaaaa'' ''tag_aaaaaaaa'' True True None)"

definition ex_commit_record :: persisted_evidence where
  "ex_commit_record = ex_record ''dddddddd''
     (RoutineState ''rtn_bbbbbbbb'' ''rtv_bbbbbbbb'' True (Some ''pln_aaaaaaaa'') (Some ex_digest))
     (ApplicationReceipt ''routine.activation.commit'' 1 [] True)"

text \<open>An arrival plans the light and the unlock.\<close>

lemma ex_arrival_planned:
  "planEvidence ex_planner_env (ex_context ex_arrival_record) =
     Inr [lighting_effect ''dev_bbbbbbbb'' (PathwayLighting 60 600 ''verified_arrival'') ''evd_cccccccc'' 40,
          unlock_effect ''dev_aaaaaaaa'' ''tag_aaaaaaaa'' (Unlock 30 True) ''evd_cccccccc'' 40]"
  by code_simp

theorem planned_locks_follow_their_evidence_witness:
  "ev_body (pe_evidence (pc_evidence (ex_context ex_arrival_record))) = IdentityArrival ''tag_aaaaaaaa'' True \<and>
   (\<exists>(d :: homecoming_definition) v. Unlock 30 v \<in> set (hd_actions d))"
proof -
  let ?u = "unlock_effect ''dev_aaaaaaaa'' ''tag_aaaaaaaa'' (Unlock 30 True) ''evd_cccccccc'' 40"
  have m: "?u \<in> set [lighting_effect ''dev_bbbbbbbb'' (PathwayLighting 60 600 ''verified_arrival'') ''evd_cccccccc'' 40, ?u]"
    by simp
  have i: "pf_instruction ?u = UnlockCommand ''dev_aaaaaaaa'' ''tag_aaaaaaaa'' 30 ''evd_cccccccc''"
    by (simp add: unlock_effect_def)
  from planned_locks_follow_their_evidence[OF ex_arrival_planned m, THEN conjunct1, rule_format, OF i]
  show ?thesis by blast
qed

lemma ex_local_times:
  "nextLocalTime (en_zones ex_planner_env) 40 ''UTC'' ''06:30'' = Inr 23400000"
  "nextLocalTime (en_zones ex_planner_env) 40 ''UTC'' ''07:30'' = Inr 27000000"
proof -
  have t: "time_of_day_ok ''06:30''" "time_of_day_ok ''07:30''" "time_minutes ''06:30'' = 390" "time_minutes ''07:30'' = 450"
    by code_simp+
  have n: "next_in_zone (fixed_zone 0) 40 390 = Inr 23400000" "next_in_zone (fixed_zone 0) 40 450 = Inr 27000000"
    by (subst fixed_zone_next, simp, simp, simp add: fixed_zone_def)+
  show "nextLocalTime (en_zones ex_planner_env) 40 ''UTC'' ''06:30'' = Inr 23400000"
    "nextLocalTime (en_zones ex_planner_env) 40 ''UTC'' ''07:30'' = Inr 27000000"
    using t n by (simp_all add: nextLocalTime_def ex_planner_env_def)
qed

lemma ex_activation_planned:
  "homecoming_planActivation (en_zones ex_planner_env) (ex_context ex_commit_record) =
     Inr [preheat_effect ''dev_cccccccc'' (Preheat 21 ''06:30'') 23400000 40]"
  "homecomingExecutionDeadline (en_zones ex_planner_env) 40 ex_action = Inr 27330000"
proof -
  have c: "pc_at (ex_context ex_commit_record) = 40" "pc_action (ex_context ex_commit_record) = ex_action"
    by (simp_all add: ex_context_def)
  have a: "find_routine_action ATPreheat ex_definition = Some (Preheat 21 ''06:30'')"
    "find_routine_action ATLockDesiredState ex_definition = Some (LockDesiredState 30)"
    "hd_timezone ex_definition = ''UTC''" "hd_windowEnd ex_definition = ''07:30''" by code_simp+
  have r: "\<exists>r. ex_action = ReplaceHomecomingRoutine r ex_definition \<and>
      assertActivationTrigger (ex_context ex_commit_record) r = Inr ()"
    unfolding ex_action_def by (intro exI conjI, rule refl) code_simp
  have d: "requireDevice (ex_context ex_commit_record) CapTemperatureTarget ThermostatDevice = Inr (ex_devices ! 2)"
    "dv_id (ex_devices ! 2) = ''dev_cccccccc''"
    "parsePlannedGatewayEffect (preheat_effect ''dev_cccccccc'' (Preheat 21 ''06:30'') 23400000 40) =
       Inr (preheat_effect ''dev_cccccccc'' (Preheat 21 ''06:30'') 23400000 40)" by code_simp+
  from r obtain r where r: "ex_action = ReplaceHomecomingRoutine r ex_definition"
      "assertActivationTrigger (ex_context ex_commit_record) r = Inr ()" by blast
  show "homecoming_planActivation (en_zones ex_planner_env) (ex_context ex_commit_record) =
     Inr [preheat_effect ''dev_cccccccc'' (Preheat 21 ''06:30'') 23400000 40]"
    unfolding homecoming_planActivation_def c r(1) by (simp add: r(2) a d ex_local_times)
  show "homecomingExecutionDeadline (en_zones ex_planner_env) 40 ex_action = Inr 27330000"
    unfolding homecomingExecutionDeadline_def r(1)
    by (simp add: a ex_local_times VERIFICATION_TOLERANCE_MILLISECONDS_def)
qed

theorem preheat_completes_before_deadline_witness:
  "(23400000 :: int) + 300000 \<le> 27330000 \<and>
   pf_dispatchAt (preheat_effect ''dev_cccccccc'' (Preheat 21 ''06:30'') 23400000 40) = 40"
proof -
  have a: "pc_at (ex_context ex_commit_record) = 40" "pc_action (ex_context ex_commit_record) = ex_action"
    by (simp_all add: ex_context_def)
  from preheat_completes_before_deadline[OF ex_activation_planned(1), of _ 27330000] ex_activation_planned(2) a
  show ?thesis by (auto simp: preheat_effect_def)
qed

definition ex_hauler_definition :: hauler_definition where
  "ex_hauler_definition = \<lparr> hl_name = ''Hauler'', hl_windowStart = ''00:00'', hl_windowEnd = ''02:00'',
     hl_timezone = ''UTC'', hl_authorizedIdentityTagId = ''tag_bbbbbbbb'', hl_grantSeconds = 120,
     hl_requireVerifiedIdentity = True, hl_compartment = ''service_hatch'', hl_lockAtWindowEnd = True,
     hl_serviceHatchOnly = True, hl_residentialHatchMustRemainLocked = True,
     hl_finalServiceHatchState = ''locked'', hl_hardInvariantIds = [VerifiedIdentityRequiredForUnlock],
     hl_projectedBatteryUse = 1 \<rparr>"

definition ex_hauler_context :: plan_context where
  "ex_hauler_context = (ex_context ex_arrival_record)\<lparr> pc_action := ReplaceScheduledHaulerAccessRoutine
     (case ex_action of ReplaceHomecomingRoutine r _ \<Rightarrow> r) ex_hauler_definition \<rparr>"

theorem hauler_access_is_never_planned_witness:
  "\<exists>ps. planEvidence ex_planner_env ex_hauler_context = Inr ps \<and> ps = []"
proof -
  have "action_program (pc_action ex_hauler_context) = Some ScheduledHaulerAccess" by code_simp
  moreover have "case planEvidence ex_planner_env ex_hauler_context of Inr _ \<Rightarrow> True | _ \<Rightarrow> False" by code_simp
  ultimately show ?thesis using hauler_access_is_never_planned by (auto split: sum.splits)
qed

end
