(* ===== verification/Gateway_Protocol.thy ===== *)
theory Gateway_Protocol
  imports Gateway_Effects
begin

text \<open>
  The dispatch protocol of a gateway command.  An abstract ledger, the generations of
  one command with its poll counter, states what the store's operations may do to
  it; every operation of \<^theory_text>\<open>Gateway_Effects\<close> is simulated by steps of the ledger,
  and the properties are proved on the ledger.
\<close>

section \<open>The interface of a guarded status\<close>

text \<open>
  Several tables carry a status column whose trigger admits changes of rising rank
  only; such a status never returns to a value it has left.
\<close>

locale status_guard =
  fixes change :: "'a \<Rightarrow> 'a \<Rightarrow> bool"
    and rank :: "'a \<Rightarrow> nat"
    and terminal :: "'a \<Rightarrow> bool"
  assumes change_rises: "change a b \<Longrightarrow> rank a < rank b"
    and terminal_stuck: "terminal a \<Longrightarrow> \<not> change a b"
begin

lemma path_rises: "change\<^sup>+\<^sup>+ a b \<Longrightarrow> rank a < rank b"
  by (induction rule: tranclp_induct) (auto dest: change_rises)

lemma never_returns: "change\<^sup>+\<^sup>+ a b \<Longrightarrow> \<not> change\<^sup>*\<^sup>* b a"
proof
  assume "change\<^sup>+\<^sup>+ a b" "change\<^sup>*\<^sup>* b a"
  then have "change\<^sup>+\<^sup>+ a a" by auto
  from path_rises[OF this] show False by simp
qed

lemma terminal_final: "terminal a \<Longrightarrow> change\<^sup>*\<^sup>* a b \<Longrightarrow> b = a"
  by (erule converse_rtranclpE) (auto dest: terminal_stuck)

end

text \<open>The ranks of the three guarded statuses of the gateway and approval tables.\<close>

fun phase_rank :: "dispatch_phase \<Rightarrow> nat" where
  "phase_rank DPending = 0"
| "phase_rank DDispatching = 1"
| "phase_rank _ = 2"

fun effect_rank :: "callback_status option \<Rightarrow> nat" where
  "effect_rank None = 0"
| "effect_rank (Some c) = Suc (CALLBACK_STATUS_RANK c)"

fun approval_rank :: "approval_status \<Rightarrow> nat" where
  "approval_rank ApprovalPending = 0"
| "approval_rank _ = 1"

interpretation dispatch_guard: status_guard dispatch_phase_change phase_rank dispatch_terminal
  by unfold_locales (auto simp: dispatch_phase_change_def dispatch_terminal_def)

interpretation effect_guard: status_guard effect_status_change effect_rank
    "\<lambda>st. List.member [Some CbCompleted, Some CbFailed] st"
  by unfold_locales (auto simp: effect_status_change_def split: option.splits callback_status.splits)

interpretation approval_guard: status_guard approval_status_change approval_rank "\<lambda>st. st \<noteq> ApprovalPending"
  by unfold_locales (auto simp: approval_status_change_def)

section \<open>The ledger of a command\<close>

type_synonym ledger = "dispatch list \<times> nat"

definition poll_counter :: "tenant \<Rightarrow> string \<Rightarrow> nat" where
  "poll_counter s c = foldr max (List.map ep_sequence (polls_for_command s c)) 0"

definition ledger_view :: "tenant \<Rightarrow> string \<Rightarrow> ledger" where
  "ledger_view s c = (dispatch_log s c, poll_counter s c)"

definition fresh_generation :: "string \<Rightarrow> nat \<Rightarrow> instant \<Rightarrow> dispatch" where
  "fresh_generation c g t = \<lparr> dp_commandId = c, dp_generation = g, dp_status = DispatchPending, dp_updatedAt = t \<rparr>"

definition replace_generation :: "dispatch \<Rightarrow> dispatch list \<Rightarrow> dispatch list" where
  "replace_generation d ds = List.map (\<lambda>x. if dp_generation x = dp_generation d then d else x) ds"

text \<open>
  The steps: the first generation is opened, the newest one changes its status as the
  guard allows, a poll is counted, and a poll within the budget \<open>M\<close> opens the next
  generation when the newest one ended unknown or failed retryably.
\<close>

inductive ledger_step :: "nat \<Rightarrow> ledger \<Rightarrow> ledger \<Rightarrow> bool" for M where
  opened: "\<forall>d\<in>set ds. dp_generation d \<noteq> 1 \<Longrightarrow> ledger_step M (ds, n) (ds @ [fresh_generation c 1 t], n)"
| moved: "newest ds = Some d \<Longrightarrow> dp_generation d' = dp_generation d \<Longrightarrow> guard_dispatch d d' = Inr () \<Longrightarrow>
    ledger_step M (ds, n) (replace_generation d' ds, n)"
| polled: "ledger_step M (ds, n) (ds, Suc n)"
| retried: "newest ds = Some d \<Longrightarrow> retryable_dispatch (dp_status d) \<Longrightarrow> Suc n < M \<Longrightarrow>
    ledger_step M (ds, n) (ds @ [fresh_generation c (Suc (dp_generation d)) t], Suc n)"

inductive_cases ledger_stepE: "ledger_step M l l'"

text \<open>Generations count from one, and all but the newest were closed for a retry.\<close>

definition ledger_ok :: "nat \<Rightarrow> ledger \<Rightarrow> bool" where
  "ledger_ok M l = (case l of (ds, n) \<Rightarrow>
     List.map dp_generation ds = [1..<Suc (length ds)] \<and>
     (\<forall>d\<in>set (butlast ds). retryable_dispatch (dp_status d)) \<and>
     length ds \<le> Suc n \<and> length ds \<le> max 1 M)"

lemma newest_None [simp]: "newest ds = None \<longleftrightarrow> ds = []"
  by (cases ds) (auto split: option.splits)

lemma newest_append_last:
  "(\<And>x. x \<in> set xs \<Longrightarrow> dp_generation x < dp_generation d) \<Longrightarrow> newest (xs @ [d]) = Some d"
proof (induction xs)
  case (Cons x xs)
  then have "newest (xs @ [d]) = Some d" "dp_generation x < dp_generation d" by simp_all
  then show ?case by simp
qed simp

lemma ledger_ok_last:
  assumes "ledger_ok M (xs @ [d], n)"
  shows "newest (xs @ [d]) = Some d" "dp_generation d = Suc (length xs)"
    "\<forall>x\<in>set xs. dp_generation x < dp_generation d" "\<forall>x\<in>set xs. retryable_dispatch (dp_status x)"
proof -
  from assms have m: "List.map dp_generation xs @ [dp_generation d] = [1..<Suc (length xs)] @ [Suc (length xs)]"
    by (simp add: ledger_ok_def)
  then have xs: "List.map dp_generation xs = [1..<Suc (length xs)]" and d: "dp_generation d = Suc (length xs)"
    by simp_all
  have "dp_generation x \<in> set [1..<Suc (length xs)]" if "x \<in> set xs" for x
    using that unfolding xs[symmetric] by simp
  then show lt: "\<forall>x\<in>set xs. dp_generation x < dp_generation d" unfolding set_upt d by simp
  show "newest (xs @ [d]) = Some d" using lt by (intro newest_append_last) simp
  show "dp_generation d = Suc (length xs)" by (rule d)
  show "\<forall>x\<in>set xs. retryable_dispatch (dp_status x)" using assms by (simp add: ledger_ok_def)
qed

lemma ledger_ok_opened:
  assumes "ledger_ok M (ds, n)" "\<forall>d\<in>set ds. dp_generation d \<noteq> 1" shows "ds = []"
proof (rule ccontr)
  assume "ds \<noteq> []"
  then have "1 \<in> set [1..<Suc (length ds)]" unfolding set_upt by (simp add: Suc_le_eq)
  moreover have "List.map dp_generation ds = [1..<Suc (length ds)]" using assms(1) unfolding ledger_ok_def by simp
  ultimately have "1 \<in> set (List.map dp_generation ds)" by (simp only:)
  with assms(2) show False by auto
qed

lemma replace_last:
  assumes "ledger_ok M (xs @ [d], n)" "dp_generation d' = dp_generation d"
  shows "replace_generation d' (xs @ [d]) = xs @ [d']"
  using ledger_ok_last(3)[OF assms(1)] assms(2) by (auto simp: replace_generation_def intro!: map_idI)

lemma ledger_ok_step:
  assumes "ledger_step M l l'" "ledger_ok M l" shows "ledger_ok M l'"
  using assms
proof (induction)
  case (opened ds n c t)
  with ledger_ok_opened have "ds = []" by blast
  then show ?case by (simp add: ledger_ok_def fresh_generation_def)
next
  case (moved ds d d' n)
  then obtain xs x where ds: "ds = xs @ [x]" by (cases ds rule: rev_cases) auto
  with moved ledger_ok_last(1) have x: "x = d" by fastforce
  show ?case
    using moved(4) replace_last[OF moved(4)[unfolded ds x] moved(2)] moved(2)
    by (simp add: ds x ledger_ok_def)
next
  case (polled ds n)
  then show ?case by (simp add: ledger_ok_def)
next
  case (retried ds d n c t)
  then obtain xs x where ds: "ds = xs @ [x]" by (cases ds rule: rev_cases) auto
  with retried ledger_ok_last(1) have x: "x = d" by fastforce
  note l = ledger_ok_last[OF retried(4)[unfolded ds x]]
  show ?case using retried(2-4) l
    by (simp add: ds x ledger_ok_def fresh_generation_def butlast_append)
qed

lemma ledger_ok_run: "(ledger_step M)\<^sup>*\<^sup>* l l' \<Longrightarrow> ledger_ok M l \<Longrightarrow> ledger_ok M l'"
  by (induction rule: rtranclp_induct) (auto intro: ledger_ok_step)

text \<open>An accepted generation is the last one, for ever.\<close>

lemma accepted_step:
  assumes "ledger_step M (ds, n) (ds', n')" "ledger_ok M (ds, n)" "d \<in> set ds" "phase_of (dp_status d) = DAccepted"
  shows "ds' = ds"
proof -
  obtain xs x where ds: "ds = xs @ [x]" using assms(3) by (cases ds rule: rev_cases) auto
  note l = ledger_ok_last[OF assms(2)[unfolded ds]]
  have nr: "\<not> retryable_dispatch (dp_status d)" using assms(4) by (cases "dp_status d") auto
  with l(4) assms(3) ds have dx: "d = x" by auto
  from assms(1) show ?thesis
  proof cases
    case (opened c t)
    with ledger_ok_opened[OF assms(2)] ds show ?thesis by simp
  next
    case (moved e d')
    with l(1) ds dx assms(4) show ?thesis
      by (auto simp: guard_dispatch_def dispatch_terminal_def Let_def)
  next
    case (retried e c t)
    with l(1) ds dx nr show ?thesis by auto
  qed simp
qed

lemma accepted_run:
  assumes "(ledger_step M)\<^sup>*\<^sup>* l l'" "ledger_ok M l" "d \<in> set (fst l)" "phase_of (dp_status d) = DAccepted"
  shows "fst l' = fst l"
  using assms
proof (induction rule: rtranclp_induct)
  case (step l1 l2)
  have ok: "ledger_ok M (fst l1, snd l1)" using ledger_ok_run[OF step.hyps(1) step.prems(1)] by simp
  have same: "fst l1 = fst l" using step by blast
  have "ledger_step M (fst l1, snd l1) (fst l2, snd l2)" using step.hyps(2) by simp
  from accepted_step[OF this ok _ step.prems(3)] step.prems(2) same show ?case by simp
qed simp

section \<open>The operations as steps of the ledger\<close>

definition simulates :: "nat \<Rightarrow> tenant \<Rightarrow> tenant \<Rightarrow> bool" where
  "simulates M s s' = (\<forall>c. (ledger_step M)\<^sup>*\<^sup>* (ledger_view s c) (ledger_view s' c))"

lemma simulates_trans [trans]: "simulates M s s1 \<Longrightarrow> simulates M s1 s2 \<Longrightarrow> simulates M s s2"
  unfolding simulates_def by (meson rtranclp_trans)

lemma ledger_view_cong:
  "tn_dispatches s' = tn_dispatches s \<Longrightarrow> tn_effectPolls s' = tn_effectPolls s \<Longrightarrow> ledger_view s' c = ledger_view s c"
  by (simp add: ledger_view_def dispatch_log_def poll_counter_def polls_for_command_def)

lemma simulates_frame:
  "tn_dispatches s' = tn_dispatches s \<Longrightarrow> tn_effectPolls s' = tn_effectPolls s \<Longrightarrow> simulates M s s'"
  unfolding simulates_def by (auto simp only: ledger_view_cong[of s' s] rtranclp.rtrancl_refl)

lemma newest_in: "newest ds = Some d \<Longrightarrow> d \<in> set ds"
proof (induction ds arbitrary: d)
  case (Cons x xs)
  then show ?case by (cases "newest xs") (simp_all split: if_splits)
qed simp

lemma newest_generation: "newest ds = Some d \<Longrightarrow> x \<in> set ds \<Longrightarrow> dp_generation x \<le> dp_generation d"
proof (induction ds arbitrary: d)
  case (Cons y ys)
  then show ?case by (cases "newest ys") (fastforce split: if_split_asm)+
qed simp

text \<open>Replacing the newest generation in place keeps it the newest.\<close>

lemma newest_replace:
  assumes "newest ds = Some d" "dp_generation d' = dp_generation d"
  shows "newest (replace_generation d' ds) = Some d'"
  using assms
proof (induction ds arbitrary: d)
  case (Cons y ys)
  have other: "replace_generation d' ys = ys" if "\<forall>x\<in>set ys. dp_generation x \<noteq> dp_generation d'"
    using that by (auto simp: replace_generation_def intro: map_idI)
  show ?case
  proof (cases "newest ys")
    case None
    with Cons.prems show ?thesis by (simp add: replace_generation_def)
  next
    case (Some e)
    note le = newest_generation[OF Some]
    show ?thesis
    proof (cases "dp_generation e < dp_generation y")
      case True
      with Some Cons.prems have "y = d" by simp
      moreover have "newest (replace_generation d' ys) = Some e"
        using other le True Cons.prems(2) \<open>y = d\<close> Some by fastforce
      ultimately show ?thesis using True Cons.prems(2) by (simp add: replace_generation_def)
    next
      case False
      with Some Cons.prems have "e = d" by simp
      with Cons.IH[OF Some] Cons.prems(2) False show ?thesis
        by (auto simp: replace_generation_def)
    qed
  qed
qed simp

lemma current_dispatch_in:
  "current_dispatch s c = Some d \<Longrightarrow> d \<in> set (tn_dispatches s) \<and> dp_commandId d = c"
  unfolding current_dispatch_def by (drule newest_in) (simp add: dispatch_log_def)

lemma lockGatewayAggregate_Some:
  "lockGatewayAggregate s c = Some (x, e, d) \<longleftrightarrow>
     command_get s c = Some x \<and> effect_get s c = Some e \<and> current_dispatch s c = Some d"
  by (auto simp: lockGatewayAggregate_def split: option.splits)

lemma dispatch_log_replace:
  "dispatch_log (replace_dispatch d s) c =
     (if c = dp_commandId d then replace_generation d (dispatch_log s c) else dispatch_log s c)"
proof -
  have "filter (\<lambda>x. dp_commandId x = c) (List.map (\<lambda>x. if dp_commandId x = dp_commandId d \<and>
      dp_generation x = dp_generation d then d else x) ds) =
    (if c = dp_commandId d then List.map (\<lambda>x. if dp_generation x = dp_generation d then d else x)
       (filter (\<lambda>x. dp_commandId x = c) ds) else filter (\<lambda>x. dp_commandId x = c) ds)" for ds
    by (induction ds) auto
  then show ?thesis by (simp add: dispatch_log_def replace_dispatch_def replace_generation_def)
qed

lemma update_dispatch_Inr:
  assumes "update_dispatch d st t s = Inr s'"
  shows "guard_dispatch d (d\<lparr> dp_status := st, dp_updatedAt := t \<rparr>) = Inr ()"
    "s' = replace_dispatch (d\<lparr> dp_status := st, dp_updatedAt := t \<rparr>) s"
  using assms by (auto simp: update_dispatch_def Let_def result_simps)

lemma simulates_move:
  assumes "update_dispatch d st t s = Inr s'" "current_dispatch s c = Some d"
  shows "simulates M s s'"
proof -
  let ?d = "d\<lparr> dp_status := st, dp_updatedAt := t \<rparr>"
  note u = update_dispatch_Inr[OF assms(1)]
  have c: "dp_commandId d = c" using current_dispatch_in[OF assms(2)] by simp
  have polls: "poll_counter s' x = poll_counter s x" for x
    by (simp add: u(2) poll_counter_def polls_for_command_def replace_dispatch_def)
  have "(ledger_step M)\<^sup>*\<^sup>* (ledger_view s x) (ledger_view s' x)" for x
  proof (cases "x = c")
    case True
    have "ledger_step M (dispatch_log s c, poll_counter s c) (replace_generation ?d (dispatch_log s c), poll_counter s c)"
      using assms(2) u(1) by (intro moved) (simp_all add: current_dispatch_def)
    then show ?thesis using True c polls by (simp add: ledger_view_def u(2) dispatch_log_replace)
  qed (use c polls in \<open>simp add: ledger_view_def u(2) dispatch_log_replace\<close>)
  then show ?thesis by (simp add: simulates_def)
qed

lemma insert_dispatch_Inr:
  assumes "insert_dispatch c g t s = Inr s'"
  shows "s' = s\<lparr> tn_dispatches := tn_dispatches s @ [fresh_generation c g t] \<rparr>"
    "\<forall>d\<in>set (dispatch_log s c). dp_generation d \<noteq> g"
  using assms by (auto simp: insert_dispatch_def fresh_generation_def dispatch_log_def list_ex_iff)

lemma simulates_open:
  assumes "insert_dispatch c 1 t s = Inr s'" shows "simulates M s s'"
proof -
  note i = insert_dispatch_Inr[OF assms]
  have "(ledger_step M)\<^sup>*\<^sup>* (ledger_view s x) (ledger_view s' x)" for x
  proof (cases "x = c")
    case True
    have "ledger_step M (ledger_view s c) (dispatch_log s c @ [fresh_generation c 1 t], poll_counter s c)"
      unfolding ledger_view_def using i(2) by (rule opened)
    then show ?thesis using True i(1)
      by (simp add: ledger_view_def dispatch_log_def fresh_generation_def poll_counter_def polls_for_command_def)
  qed (simp add: i(1) ledger_view_def dispatch_log_def fresh_generation_def poll_counter_def polls_for_command_def)
  then show ?thesis by (simp add: simulates_def)
qed

section \<open>What a successful operation did\<close>

lemma with_effect_Inr: "with_effect env c f s = Inr (r, s') \<Longrightarrow> s' = s"
  by (auto simp: with_effect_def result_simps split: option.splits)

lemma with_effect_Some:
  "with_effect env c f s = Inr (Some y, s') \<Longrightarrow>
     \<exists>x. hydrateGatewayEffect env s c = Inr (Some x) \<and> f x = Inr y \<and> s' = s"
  by (auto simp: with_effect_def result_simps split: option.splits)

text \<open>A new command brings one effect row, one pending generation and one queued dispatch.\<close>

lemma materialize_Inr:
  assumes "materialize env sc i o' s = Inr (r, s')"
  obtains (existing) "s' = s"
  | (created) s2 where
    "insert_dispatch (gc_id (ei_command i)) 1 (ei_createdAt i) (s\<lparr> tn_commands := tn_commands s @ [ei_command i],
       tn_effects := tn_effects s @ [new_effect_row i] \<rparr>) = Inr s2"
    "s' = s2\<lparr> tn_outbox := tn_outbox s2 @ [new_outbox_message o' (gc_organizationId (ei_command i))
       TopicGatewayDispatch (dispatch_key (gc_id (ei_command i)) 1)
       (GatewayReference (gc_organizationId (ei_command i)) (gc_operationId (ei_command i)) (gc_id (ei_command i)) 1)
       (ei_dispatchAt i) (ei_createdAt i)] \<rparr>"
    "\<not> (mission_cancelled s (gc_missionId (ei_command i)) \<and> ei_cancellationPolicy i \<noteq> MandatoryRelock)"
    "\<forall>x\<in>set (tn_commands s). gc_id x \<noteq> gc_id (ei_command i)"
proof -
  let ?c = "ei_command i"
  from assms consider (e) "s' = s" | (c) s2 where
    "insert_dispatch (gc_id ?c) 1 (ei_createdAt i) (s\<lparr> tn_commands := tn_commands s @ [?c],
       tn_effects := tn_effects s @ [new_effect_row i] \<rparr>) = Inr s2"
    "outbox_insert sc (new_outbox_message o' (gc_organizationId ?c) TopicGatewayDispatch (dispatch_key (gc_id ?c) 1)
       (GatewayReference (gc_organizationId ?c) (gc_operationId ?c) (gc_id ?c) 1)
       (ei_dispatchAt i) (ei_createdAt i)) s2 = Inr s'"
    "\<not> (mission_cancelled s (gc_missionId ?c) \<and> ei_cancellationPolicy i \<noteq> MandatoryRelock)"
    "\<forall>x\<in>set (tn_commands s). gc_id x \<noteq> gc_id ?c"
    by (auto simp: materialize_def Let_def result_simps find_None_iff_ball split: option.splits if_split_asm)
  then show thesis
  proof cases
    case (c s2)
    from outbox_insert_Inr[OF c(2)] c created show thesis by simp
  qed (rule existing)
qed

text \<open>A claim leaves the state, cancels the newest generation, or moves it to dispatching.\<close>

lemma claimDispatch_Inr:
  assumes "claimDispatch env op c g a t s = Inr (r, s')"
  obtains (refused) "s' = s" "\<nexists>x y. r = Some (Claimed x y)"
  | (cancelled) cmd e d where "lockGatewayAggregate s c = Some (cmd, e, d)"
      "mission_cancelled s (gc_missionId cmd)" "er_cancellationPolicy e \<noteq> MandatoryRelock"
      "update_dispatch d (DispatchCancelled (db_now env 0 s)) (db_now env 1 s) (db_tick 2 s) = Inr s'"
      "\<nexists>x y. r = Some (Claimed x y)"
  | (claimed) cmd e d where "lockGatewayAggregate s c = Some (cmd, e, d)"
      "gc_operationId cmd = op" "claim_refusal e d g t = None"
      "\<not> (mission_cancelled s (gc_missionId cmd) \<and> er_cancellationPolicy e \<noteq> MandatoryRelock)"
      "gatewayCommandSafetyReason s cmd e = None"
      "\<not> list_ex (attempt_collides (pending_attempt a s op c g t)) (tn_attempts s)"
      "update_dispatch d (Dispatching a) t (s\<lparr> tn_attempts := tn_attempts s @ [pending_attempt a s op c g t] \<rparr>) = Inr s'"
      "\<forall>x y. r = Some (Claimed x y) \<longrightarrow> y = pending_attempt a s op c g t"
proof (cases "lockGatewayAggregate s c")
  case None
  with assms show thesis by (intro refused) (auto simp: claimDispatch_def split: if_split_asm)
next
  case (Some p)
  obtain cmd e d where p: "p = (cmd, e, d)" by (cases p) auto
  note lock = Some[unfolded p]
  from assms lock have op: "gc_operationId cmd \<noteq> op \<Longrightarrow> s' = s \<and> r = None"
    by (auto simp: claimDispatch_def split: if_split_asm)
  show thesis
  proof (cases "gc_operationId cmd = op \<and> (\<exists>h. hydrateGatewayEffect env s c = Inr (Some h)) \<and> claim_refusal e d g t = None")
    case False
    with assms lock op have "s' = s \<and> (\<nexists>x y. r = Some (Claimed x y))"
      by (cases "hydrateGatewayEffect env s c"; cases "claim_refusal e d g t")
        (auto simp: claimDispatch_def Let_def split: option.split_asm if_split_asm)
    then show thesis using refused by blast
  next
    case True
    then obtain h where 2: "gc_operationId cmd = op" "hydrateGatewayEffect env s c = Inr (Some h)" "claim_refusal e d g t = None"
      by blast
    let ?a = "pending_attempt a s op c g t"
    show thesis
    proof (cases "mission_cancelled s (gc_missionId cmd) \<and> er_cancellationPolicy e \<noteq> MandatoryRelock")
      case True
      with assms lock 2 show thesis
        by (intro cancelled[OF lock])
          (auto simp: claimDispatch_def Let_def result_simps split: option.split_asm if_split_asm)
    next
      case False
      show thesis
      proof (cases "gatewayCommandSafetyReason s cmd e")
        case (Some why)
        with assms lock 2 False show thesis
          by (intro refused) (auto simp: claimDispatch_def Let_def split: if_split_asm)
      next
        case None
        with assms lock 2 False obtain x where "x = s'" "\<not> list_ex (attempt_collides ?a) (tn_attempts s)"
          "update_dispatch d (Dispatching a) t (s\<lparr> tn_attempts := tn_attempts s @ [?a] \<rparr>) = Inr x"
          "\<forall>x y. r = Some (Claimed x y) \<longrightarrow> y = ?a"
          by (auto simp: claimDispatch_def Let_def result_simps split: if_split_asm option.split_asm)
        with claimed[OF lock 2(1,3) False None] show thesis by simp
      qed
    qed
  qed
qed

text \<open>A result is applied to the dispatching newest generation of its own attempt, or to nothing.\<close>

lemma finalizeDispatch_Inr:
  assumes "finalizeDispatch env sc op c g a res t o' s = Inr (r, s')"
  obtains (unchanged) "s' = s" "\<nexists>x y. r = Some (DispatchApplied, x, y)"
  | (applied) cmd e d b s2 where "lockGatewayAggregate s c = Some (cmd, e, d)" "gc_operationId cmd = op"
      "gateway_attempt s a c g = Some b" "dp_generation d = g" "dp_status d = Dispatching a" "at_status b = AtPending"
      "update_dispatch d (result_dispatch_status a res) t
         (s\<lparr> tn_attempts := upsert at_id (finalized_attempt b res t) (tn_attempts s) \<rparr>) = Inr s2"
      "(\<not> result_retryable res \<and> s' = s2) \<or> (result_retryable res \<and>
         outbox_insert sc (new_outbox_message o' (tn_org s) TopicGatewayEffectReconcile (reconcile_key c g 0)
           (GatewayReference (tn_org s) op c g) t t) s2 = Inr s')"
proof (cases "lockGatewayAggregate s c")
  case None
  with assms show thesis by (intro unchanged) (auto simp: finalizeDispatch_def split: if_split_asm)
next
  case (Some p)
  obtain cmd e d where p: "p = (cmd, e, d)" by (cases p) auto
  note lock = Some[unfolded p]
  show thesis
  proof (cases "gc_operationId cmd = op")
    case False
    with assms lock show thesis by (intro unchanged) (auto simp: finalizeDispatch_def split: if_split_asm)
  next
    case op: True
    with assms lock obtain b where b: "gateway_attempt s a c g = Some b"
      by (cases "gateway_attempt s a c g") (auto simp: finalizeDispatch_def split: if_split_asm)
    show thesis
    proof (cases "dp_generation d = g \<and> dp_status d = Dispatching a \<and> at_status b = AtPending")
      case False
      with assms lock op b have "s' = s \<and> (\<nexists>x y. r = Some (DispatchApplied, x, y))"
        by (cases r) (auto simp: finalizeDispatch_def result_simps dest!: with_effect_Inr with_effect_Some split: if_split_asm)
      then show thesis using unchanged by blast
    next
      case True
      let ?next = "\<lambda>s2. if result_retryable res then outbox_insert sc (new_outbox_message o' (tn_org s)
          TopicGatewayEffectReconcile (reconcile_key c g 0) (GatewayReference (tn_org s) op c g) t t) s2 else Inr s2"
      let ?result = "with_effect env c (\<lambda>x. sbind (mapAttempt (finalized_attempt b res t)) (\<lambda>b'. Inr (DispatchApplied, x, b')))"
      from True assms lock op b have "sbind (update_dispatch d (result_dispatch_status a res) t
           (s\<lparr> tn_attempts := upsert at_id (finalized_attempt b res t) (tn_attempts s) \<rparr>))
           (\<lambda>s2. sbind (?next s2) ?result) = Inr (r, s')"
        by (simp add: finalizeDispatch_def Let_def cong: if_cong)
      then obtain s2 s3 where u: "update_dispatch d (result_dispatch_status a res) t
           (s\<lparr> tn_attempts := upsert at_id (finalized_attempt b res t) (tn_attempts s) \<rparr>) = Inr s2"
        and n: "?next s2 = Inr s3" and w: "?result s3 = Inr (r, s')"
        by (elim sbind_eq_InrE)
      from with_effect_Inr[OF w] n show thesis
        using applied[OF lock op b _ _ _ u] True by (auto split: if_split_asm)
    qed
  qed
qed

text \<open>The store's part of a poll: the poll row, the counter of the effect, and the follow-up.\<close>

lemma reconcile_effect_Inr:
  assumes "reconcile_effect env sc i s = Inr (r, s')"
  obtains (unchanged) "s' = s" "r = None"
  | (polled) cmd e d res st s2 where "lockGatewayAggregate s (ri_commandId i) = Some (cmd, e, d)"
      "gc_operationId cmd = ri_operationId i" "dp_generation d = ri_generation i"
      "(res, st) = reconcile_decision e d (next_poll_sequence s (ri_commandId i)) (ri_maximumAttempts i) (ri_nextPollAt i)"
      "(if effect_terminal e then Inr (s\<lparr> tn_effectPolls := tn_effectPolls s @
            [poll_row i e d (next_poll_sequence s (ri_commandId i)) res] \<rparr>)
        else update_effect e (e\<lparr> er_reconciliationAttempts := next_poll_sequence s (ri_commandId i),
            er_lastReconciledAt := Some (ri_reconciledAt i), er_updatedAt := ri_reconciledAt i \<rparr>)
          (s\<lparr> tn_effectPolls := tn_effectPolls s @
            [poll_row i e d (next_poll_sequence s (ri_commandId i)) res] \<rparr>)) = Inr s2"
      "reconcile_follow_up sc i (next_poll_sequence s (ri_commandId i)) st s2 = Inr s'"
      "\<forall>x y. r = Some (x, y) \<longrightarrow> x = st"
proof (cases "lockGatewayAggregate s (ri_commandId i)")
  case None
  with assms show thesis by (intro unchanged) (auto simp: reconcile_effect_def Let_def split: if_split_asm)
next
  case (Some p)
  obtain cmd e d where p: "p = (cmd, e, d)" by (cases p) auto
  note lock = Some[unfolded p]
  show thesis
  proof (cases "gc_operationId cmd \<noteq> ri_operationId i \<or> dp_generation d \<noteq> ri_generation i")
    case True
    with assms lock show thesis by (intro unchanged) (auto simp: reconcile_effect_def Let_def split: if_split_asm)
  next
    case False
    let ?n = "next_poll_sequence s (ri_commandId i)"
    obtain res st where d: "(res, st) = reconcile_decision e d ?n (ri_maximumAttempts i) (ri_nextPollAt i)"
      by (metis surj_pair)
    let ?polled = "s\<lparr> tn_effectPolls := tn_effectPolls s @ [poll_row i e d ?n res] \<rparr>"
    let ?counted = "if effect_terminal e then Inr ?polled
        else update_effect e (e\<lparr> er_reconciliationAttempts := ?n,
            er_lastReconciledAt := Some (ri_reconciledAt i), er_updatedAt := ri_reconciledAt i \<rparr>) ?polled"
    from assms lock False have "sbind ?counted (\<lambda>s2. sbind (reconcile_follow_up sc i ?n st s2)
        (with_effect env (ri_commandId i) (\<lambda>r. Inr (st, r)))) = Inr (r, s')"
      by (simp add: reconcile_effect_def Let_def d[symmetric])
    then obtain s2 s3 where u: "?counted = Inr s2" and f: "reconcile_follow_up sc i ?n st s2 = Inr s3"
      and w: "with_effect env (ri_commandId i) (\<lambda>r. Inr (st, r)) s3 = Inr (r, s')"
      by (elim sbind_eq_InrE)
    have "\<forall>x y. r = Some (x, y) \<longrightarrow> x = st" using w by (cases r) (auto dest: with_effect_Some)
    with polled[OF lock _ _ d u] f with_effect_Inr[OF w] False show thesis by simp
  qed
qed

text \<open>A fresh callback is stored with its evidence and moves the status of its effect.\<close>

lemma applyCallback_Inr:
  assumes "applyCallback env sc b ps s = Inr (r, s')"
  obtains (unchanged) "s' = s" "\<nexists>st x y. r = Some (st, x, y) \<and> st \<noteq> CallbackDuplicate"
  | (applied) cmd e d s1 where "lockGatewayAggregate s (cb_commandId (sb_callback b)) = Some (cmd, e, d)"
      "callback_rows s (sb_callback b) = []"
      "List.member [CbAdvance, CbReplay]
         (classifyGatewayCallbackStatusTransition (er_status e) (cb_status (sb_callback b)))"
      "appendMany env sc ps (s\<lparr> tn_callbacks := tn_callbacks s @ [b] \<rparr>) = Inr s1"
      "update_effect e (e\<lparr> er_status := Some (cb_status (sb_callback b)), er_callbackId := Some (cb_id (sb_callback b)),
         er_updatedAt := max (er_updatedAt e) (sb_receivedAt b) \<rparr>) s1 = Inr s'"
      "\<forall>st x y. r = Some (st, x, y) \<longrightarrow> st = (if classifyGatewayCallbackStatusTransition (er_status e)
         (cb_status (sb_callback b)) = CbReplay then CallbackReplayed else CallbackAdvanced)"
proof (cases "lockGatewayAggregate s (cb_commandId (sb_callback b))")
  case None
  with assms show thesis by (intro unchanged) (auto simp: applyCallback_def Let_def result_simps)
next
  case (Some p)
  obtain cmd e d where p: "p = (cmd, e, d)" by (cases p) auto
  note lock = Some[unfolded p]
  let ?cb = "sb_callback b"
  let ?tr = "classifyGatewayCallbackStatusTransition (er_status e) (cb_status ?cb)"
  show thesis
  proof (cases "callback_rows s ?cb = []")
    case False
    with assms lock have "s' = s \<and> (\<nexists>st x y. r = Some (st, x, y) \<and> st \<noteq> CallbackDuplicate)"
      by (cases r) (auto simp: applyCallback_def Let_def result_simps dest!: with_effect_Inr with_effect_Some
          split: option.split_asm if_split_asm)
    then show thesis using unchanged by blast
  next
    case True
    with assms lock have t: "\<not> List.member [CbRejectRegression, CbRejectTerminalContradiction] ?tr" and
      "sbind (appendMany env sc ps (s\<lparr> tn_callbacks := tn_callbacks s @ [b] \<rparr>)) (\<lambda>s1.
         sbind (update_effect e (e\<lparr> er_status := Some (cb_status ?cb), er_callbackId := Some (cb_id ?cb),
           er_updatedAt := max (er_updatedAt e) (sb_receivedAt b) \<rparr>) s1)
         (with_effect env (cb_commandId ?cb) (\<lambda>r.
           Inr (if ?tr = CbReplay then CallbackReplayed else CallbackAdvanced, r, b)))) = Inr (r, s')"
      by (auto simp: applyCallback_def Let_def sbind_eq_Inr[of "validateGatewayCommandCallbackBinding _ _ _"]
        sbind_eq_Inr[of "assertTenant _ _"] sbind_eq_Inr[of "assertMissionMutation _ _"])
    then obtain s1 s2 where a: "appendMany env sc ps (s\<lparr> tn_callbacks := tn_callbacks s @ [b] \<rparr>) = Inr s1"
      and u: "update_effect e (e\<lparr> er_status := Some (cb_status ?cb), er_callbackId := Some (cb_id ?cb),
           er_updatedAt := max (er_updatedAt e) (sb_receivedAt b) \<rparr>) s1 = Inr s2"
      and w: "with_effect env (cb_commandId ?cb) (\<lambda>r.
           Inr (if ?tr = CbReplay then CallbackReplayed else CallbackAdvanced, r, b)) s2 = Inr (r, s')"
      by (elim sbind_eq_InrE)
    have "List.member [CbAdvance, CbReplay] ?tr" using t by (cases ?tr) auto
    moreover have "\<forall>st x y. r = Some (st, x, y) \<longrightarrow> st = (if ?tr = CbReplay then CallbackReplayed else CallbackAdvanced)"
      using w by (cases r) (auto dest: with_effect_Some)
    ultimately show thesis using applied[OF lock True _ a] u with_effect_Inr[OF w] by simp
  qed
qed

section \<open>Every operation is simulated\<close>

lemma update_effect_Inr:
  assumes "update_effect e e' s = Inr s'"
  shows "guard_effect e e' = Inr ()" "s' = s\<lparr> tn_effects := upsert er_commandId e' (tn_effects s) \<rparr>"
  using assms by (auto simp: update_effect_def result_simps)

lemma materialize_simulates: "materialize env sc i o' s = Inr (r, s') \<Longrightarrow> simulates M s s'"
proof (erule materialize_Inr)
  fix s2 assume i: "insert_dispatch (gc_id (ei_command i)) 1 (ei_createdAt i) (s\<lparr> tn_commands := tn_commands s @ [ei_command i],
       tn_effects := tn_effects s @ [new_effect_row i] \<rparr>) = Inr s2"
    and s': "s' = s2\<lparr> tn_outbox := tn_outbox s2 @ [new_outbox_message o' (gc_organizationId (ei_command i))
       TopicGatewayDispatch (dispatch_key (gc_id (ei_command i)) 1)
       (GatewayReference (gc_organizationId (ei_command i)) (gc_operationId (ei_command i)) (gc_id (ei_command i)) 1)
       (ei_dispatchAt i) (ei_createdAt i)] \<rparr>"
  have "simulates M s (s\<lparr> tn_commands := tn_commands s @ [ei_command i], tn_effects := tn_effects s @ [new_effect_row i] \<rparr>)"
    by (rule simulates_frame) simp_all
  also note simulates_open[OF i]
  also have "simulates M s2 s'" by (rule simulates_frame) (simp_all add: s')
  finally show ?thesis .
qed (simp add: simulates_frame)

lemma current_dispatch_cong: "tn_dispatches s' = tn_dispatches s \<Longrightarrow> current_dispatch s' c = current_dispatch s c"
  by (simp add: current_dispatch_def dispatch_log_def)

lemma claimDispatch_simulates: "claimDispatch env op c g a t s = Inr (r, s') \<Longrightarrow> simulates M s s'"
proof (erule claimDispatch_Inr)
  fix cmd e d assume l: "lockGatewayAggregate s c = Some (cmd, e, d)"
    and u: "update_dispatch d (Dispatching a) t (s\<lparr> tn_attempts := tn_attempts s @ [pending_attempt a s op c g t] \<rparr>) = Inr s'"
  have "simulates M s (s\<lparr> tn_attempts := tn_attempts s @ [pending_attempt a s op c g t] \<rparr>)"
    by (rule simulates_frame) simp_all
  also have "simulates M (s\<lparr> tn_attempts := tn_attempts s @ [pending_attempt a s op c g t] \<rparr>) s'"
    using l by (intro simulates_move[OF u, of c]) (simp add: lockGatewayAggregate_Some current_dispatch_def dispatch_log_def)
  finally show ?thesis .
next
  fix cmd e d assume l: "lockGatewayAggregate s c = Some (cmd, e, d)"
    and u: "update_dispatch d (DispatchCancelled (db_now env 0 s)) (db_now env 1 s) (db_tick 2 s) = Inr s'"
  have "simulates M s (db_tick 2 s)" by (rule simulates_frame) (simp_all add: db_tick_def)
  also have "simulates M (db_tick 2 s) s'"
    using l by (intro simulates_move[OF u, of c]) (simp add: lockGatewayAggregate_Some current_dispatch_def dispatch_log_def db_tick_def)
  finally show ?thesis .
qed (simp add: simulates_frame)

lemma finalizeDispatch_simulates:
  "finalizeDispatch env sc op c g a res t o' s = Inr (r, s') \<Longrightarrow> simulates M s s'"
proof (erule finalizeDispatch_Inr)
  fix cmd e d b s2 assume l: "lockGatewayAggregate s c = Some (cmd, e, d)"
    and u: "update_dispatch d (result_dispatch_status a res) t
         (s\<lparr> tn_attempts := upsert at_id (finalized_attempt b res t) (tn_attempts s) \<rparr>) = Inr s2"
    and n: "(\<not> result_retryable res \<and> s' = s2) \<or> (result_retryable res \<and>
         outbox_insert sc (new_outbox_message o' (tn_org s) TopicGatewayEffectReconcile (reconcile_key c g 0)
           (GatewayReference (tn_org s) op c g) t t) s2 = Inr s')"
  let ?s1 = "s\<lparr> tn_attempts := upsert at_id (finalized_attempt b res t) (tn_attempts s) \<rparr>"
  have "simulates M s ?s1" by (rule simulates_frame) simp_all
  also have "simulates M ?s1 s2"
    using l by (intro simulates_move[OF u, of c]) (simp add: lockGatewayAggregate_Some current_dispatch_def dispatch_log_def)
  also have "simulates M s2 s'" using n by (auto intro!: simulates_frame dest: outbox_insert_frame)
  finally show ?thesis .
qed (simp add: simulates_frame)

lemma applyCallback_simulates: "applyCallback env sc b ps s = Inr (r, s') \<Longrightarrow> simulates M s s'"
proof (erule applyCallback_Inr)
  fix e s1 assume "appendMany env sc ps (s\<lparr> tn_callbacks := tn_callbacks s @ [b] \<rparr>) = Inr s1"
    and u: "update_effect e (e\<lparr> er_status := Some (cb_status (sb_callback b)), er_callbackId := Some (cb_id (sb_callback b)),
         er_updatedAt := max (er_updatedAt e) (sb_receivedAt b) \<rparr>) s1 = Inr s'"
  with appendMany_frame obtain new where "s1 = s\<lparr> tn_callbacks := tn_callbacks s @ [b], tn_evidence := tn_evidence s @ new \<rparr>"
    by fastforce
  then show ?thesis using update_effect_Inr(2)[OF u] by (intro simulates_frame) simp_all
qed (simp add: simulates_frame)

lemma cancel_effects_simulates: "cancel_effects t es s = Inr (r, s') \<Longrightarrow> simulates M s s'"
proof (induction es arbitrary: s r)
  case Nil
  then show ?case by (simp add: simulates_frame)
next
  case (Cons e es)
  then obtain d where d: "current_dispatch s (er_commandId e) = Some d"
    by (cases "current_dispatch s (er_commandId e)") (auto simp: Let_def)
  show ?case
  proof (cases "classify_cancel e d")
    case CancelNow
    with Cons.prems d obtain s1 r1 where u: "update_dispatch d (DispatchCancelled t) t s = Inr s1"
      and n: "cancel_effects t es (withdraw_dispatch_messages (er_commandId e) (dp_generation d) s1) = Inr (r1, s')"
      by (auto simp: Let_def result_simps)
    have "simulates M s s1" using u d by (rule simulates_move)
    also have "simulates M s1 (withdraw_dispatch_messages (er_commandId e) (dp_generation d) s1)"
      by (rule simulates_frame) (simp_all add: withdraw_dispatch_messages_def)
    also note Cons.IH[OF n]
    finally show ?thesis .
  next
    case PreserveEffect
    with Cons d show ?thesis by (auto simp: Let_def result_simps)
  next
    case ReconcileEffect
    with Cons.prems d obtain s1 r1 where u: "request_effect_cancellation e t s = Inr s1"
      and n: "cancel_effects t es s1 = Inr (r1, s')"
      by (auto simp: Let_def result_simps)
    have "simulates M s s1" using u
      by (intro simulates_frame) (auto simp: request_effect_cancellation_def dest!: update_effect_Inr split: if_split_asm)
    also note Cons.IH[OF n]
    finally show ?thesis .
  qed
qed

lemma cancelPendingForMission_simulates: "cancelPendingForMission sc m t s = Inr (r, s') \<Longrightarrow> simulates M s s'"
  by (auto simp: cancelPendingForMission_def result_simps intro: cancel_effects_simulates)

text \<open>A poll counts once, and opens a generation only within the budget.\<close>

lemma poll_counter_append:
  assumes "ep_commandId p = c"
  shows "poll_counter (s\<lparr> tn_effectPolls := tn_effectPolls s @ [p] \<rparr>) c = max (poll_counter s c) (ep_sequence p)"
proof -
  have "foldr max (xs @ [y]) (0 :: nat) = max (foldr max xs 0) y" for xs y
    by (induction xs) (simp_all add: max.assoc)
  from this[of "List.map ep_sequence (polls_for_command s c)" "ep_sequence p"] assms show ?thesis
    by (simp add: poll_counter_def polls_for_command_def del: foldr_append)
qed

lemma next_poll_sequence_eq: "next_poll_sequence s c = Suc (poll_counter s c)"
  by (simp add: next_poll_sequence_def poll_counter_def)

lemma reconcile_decision_retry:
  "(res, ReconcileRetry) = reconcile_decision e d n m t \<Longrightarrow>
     retryable_dispatch (dp_status d) \<and> er_cancellationRequestedAt e = None \<and> n < m \<and> \<not> effect_terminal e"
  by (auto simp: reconcile_decision_def split: if_split_asm)

lemma reconcile_follow_up_Inr:
  assumes "reconcile_follow_up sc i n st s = Inr s'"
  obtains (retry) s1 where "st = ReconcileRetry" "insert_dispatch (ri_commandId i) (ri_generation i + 1) (ri_reconciledAt i) s = Inr s1"
      "tn_dispatches s' = tn_dispatches s1" "tn_effectPolls s' = tn_effectPolls s"
      "tn_effects s' = tn_effects s" "tn_callbacks s' = tn_callbacks s"
  | (quiet) "st \<noteq> ReconcileRetry" "tn_dispatches s' = tn_dispatches s" "tn_effectPolls s' = tn_effectPolls s"
      "tn_effects s' = tn_effects s" "tn_callbacks s' = tn_callbacks s"
proof (cases "st = ReconcileRetry")
  case True
  with assms obtain s1 where i: "insert_dispatch (ri_commandId i) (ri_generation i + 1) (ri_reconciledAt i) s = Inr s1"
    and o': "outbox_insert sc (new_outbox_message (ri_dispatchOutboxId i) (tn_org s) TopicGatewayDispatch
         (dispatch_key (ri_commandId i) (ri_generation i + 1))
         (GatewayReference (tn_org s) (ri_operationId i) (ri_commandId i) (ri_generation i + 1))
         (ri_reconciledAt i) (ri_reconciledAt i)) s1 = Inr s'"
    by (auto simp: reconcile_follow_up_def Let_def result_simps)
  show thesis using retry[OF True i] outbox_insert_frame[OF o'] insert_dispatch_Inr(1)[OF i] by simp
next
  case False
  with assms show thesis
    by (intro quiet) (auto simp: reconcile_follow_up_def Let_def dest: outbox_insert_frame split: reconcile_status.split_asm)
qed

lemma reconcile_effect_simulates:
  assumes "reconcile_effect env sc i s = Inr (r, s')" "ri_maximumAttempts i = M"
  shows "simulates M s s'"
  using assms(1)
proof (cases rule: reconcile_effect_Inr)
  case unchanged
  then show ?thesis by (simp add: simulates_frame)
next
  case (polled cmd e d res st s2)
  let ?c = "ri_commandId i" let ?n = "next_poll_sequence s ?c"
  let ?p = "poll_row i e d ?n res"
  have d: "newest (dispatch_log s ?c) = Some d"
    using polled(1) by (simp add: lockGatewayAggregate_Some current_dispatch_def)
  have s2: "tn_dispatches s2 = tn_dispatches s" "tn_effectPolls s2 = tn_effectPolls s @ [?p]"
    using polled(5) by (auto dest!: update_effect_Inr(2) split: if_split_asm)
  have other: "ledger_view s' x = ledger_view s x" if "x \<noteq> ?c" for x
    using polled(6)
  proof (cases rule: reconcile_follow_up_Inr)
    case (retry s1)
    then show ?thesis using that s2 insert_dispatch_Inr(1)[OF retry(2)]
      by (simp add: ledger_view_def dispatch_log_def poll_counter_def polls_for_command_def fresh_generation_def poll_row_def)
  qed (use that s2 in \<open>simp add: ledger_view_def dispatch_log_def poll_counter_def polls_for_command_def poll_row_def\<close>)
  have counter: "poll_counter s' ?c = ?n" if "tn_effectPolls s' = tn_effectPolls s2"
    using that s2(2) poll_counter_append[of ?p ?c s] by (simp add: poll_counter_def polls_for_command_def poll_row_def next_poll_sequence_def)
  have here: "ledger_step M (ledger_view s ?c) (ledger_view s' ?c)"
    using polled(6)
  proof (cases rule: reconcile_follow_up_Inr)
    case (retry s1)
    have g: "retryable_dispatch (dp_status d)" "?n < M"
      using reconcile_decision_retry polled(4) retry(1) assms(2) by blast+
    have "dispatch_log s' ?c = dispatch_log s ?c @ [fresh_generation ?c (Suc (dp_generation d)) (ri_reconciledAt i)]"
      using retry(3) insert_dispatch_Inr(1)[OF retry(2)] s2(1) polled(3)
      by (simp add: dispatch_log_def fresh_generation_def)
    moreover have "ledger_step M (dispatch_log s ?c, poll_counter s ?c)
        (dispatch_log s ?c @ [fresh_generation ?c (Suc (dp_generation d)) (ri_reconciledAt i)], Suc (poll_counter s ?c))"
      using d g by (intro retried) (simp_all add: next_poll_sequence_eq)
    ultimately show ?thesis using counter retry(4) by (simp add: ledger_view_def next_poll_sequence_eq)
  next
    case quiet
    have "dispatch_log s' ?c = dispatch_log s ?c" using quiet(2) s2(1) by (simp add: dispatch_log_def)
    then show ?thesis using counter quiet(3) by (simp add: ledger_view_def next_poll_sequence_eq ledger_step.polled)
  qed
  show ?thesis unfolding simulates_def
  proof
    fix x show "(ledger_step M)\<^sup>*\<^sup>* (ledger_view s x) (ledger_view s' x)"
      using here other[of x] by (cases "x = ?c") auto
  qed
qed

section \<open>The status of an effect and its callbacks\<close>

type_synonym effect_history = "callback_status option option \<times> callback_status list"

definition callback_statuses :: "tenant \<Rightarrow> string \<Rightarrow> callback_status list" where
  "callback_statuses s c = List.map (\<lambda>b. cb_status (sb_callback b))
     (filter (\<lambda>b. cb_commandId (sb_callback b) = c) (tn_callbacks s))"

definition effect_view :: "tenant \<Rightarrow> string \<Rightarrow> effect_history" where
  "effect_view s c = (map_option er_status (effect_get s c), callback_statuses s c)"

inductive effect_step :: "effect_history \<Rightarrow> effect_history \<Rightarrow> bool" where
  appears: "effect_step (None, cs) (Some None, cs)"
| advances: "st \<notin> set cs \<Longrightarrow> x = Some st \<or> effect_status_change x (Some st) \<Longrightarrow>
    effect_step (Some x, cs) (Some (Some st), cs @ [st])"

definition effect_history_ok :: "effect_history \<Rightarrow> bool" where
  "effect_history_ok h = (case h of
     (Some (Some st), cs) \<Rightarrow> cs \<noteq> [] \<and> last cs = st \<and> sorted_wrt (<) (List.map CALLBACK_STATUS_RANK cs)
   | (_, cs) \<Rightarrow> cs = [])"

lemma effect_status_change_rank:
  "effect_status_change (Some a) (Some b) \<Longrightarrow> CALLBACK_STATUS_RANK a < CALLBACK_STATUS_RANK b"
  using effect_guard.change_rises[of "Some a" "Some b"] by simp

lemma sorted_wrt_snoc_last:
  assumes "sorted_wrt (<) (List.map f cs)" "cs \<noteq> []" "f (last cs) < (f x :: nat)"
  shows "sorted_wrt (<) (List.map f (cs @ [x]))"
proof -
  obtain ys y where "cs = ys @ [y]" using assms(2) by (cases cs rule: rev_cases) auto
  with assms show ?thesis by (force simp: sorted_wrt_append)
qed

lemma effect_history_ok_step: "effect_step h h' \<Longrightarrow> effect_history_ok h \<Longrightarrow> effect_history_ok h'"
proof (induction rule: effect_step.induct)
  case (appears cs)
  then show ?case by (simp add: effect_history_ok_def)
next
  case (advances st cs x)
  show ?case
  proof (cases x)
    case None
    with advances show ?thesis by (simp add: effect_history_ok_def)
  next
    case (Some y)
    with advances(3) have y: "cs \<noteq> []" "last cs = y" "sorted_wrt (<) (List.map CALLBACK_STATUS_RANK cs)"
      by (simp_all add: effect_history_ok_def)
    then have "y \<in> set cs" by auto
    with advances(1,2) Some have "effect_status_change (Some y) (Some st)" by auto
    from sorted_wrt_snoc_last[OF y(3,1), of st] effect_status_change_rank[OF this] y(2)
    show ?thesis by (simp add: effect_history_ok_def)
  qed
qed

definition advances_effects :: "tenant \<Rightarrow> tenant \<Rightarrow> bool" where
  "advances_effects s s' = (\<forall>c. effect_step\<^sup>*\<^sup>* (effect_view s c) (effect_view s' c))"

lemma advances_effects_trans [trans]: "advances_effects s s1 \<Longrightarrow> advances_effects s1 s2 \<Longrightarrow> advances_effects s s2"
  unfolding advances_effects_def by (meson rtranclp_trans)

text \<open>Writes that keep the status columns and the callbacks.\<close>

definition effect_frame :: "tenant \<Rightarrow> tenant \<Rightarrow> bool" where
  "effect_frame s s' = (tn_callbacks s' = tn_callbacks s \<and>
     (\<forall>c. map_option er_status (effect_get s' c) = map_option er_status (effect_get s c)))"

lemma effect_frame_view: "effect_frame s s' \<Longrightarrow> effect_view s' c = effect_view s c"
  by (simp add: effect_frame_def effect_view_def callback_statuses_def)

lemma effect_frame_advances: "effect_frame s s' \<Longrightarrow> advances_effects s s'"
  unfolding advances_effects_def by (auto simp only: effect_frame_view[of s s'] rtranclp.rtrancl_refl)

lemma effect_frameI: "tn_callbacks s' = tn_callbacks s \<Longrightarrow> tn_effects s' = tn_effects s \<Longrightarrow> effect_frame s s'"
  by (simp add: effect_frame_def effect_get_def)

lemma effect_frame_trans [trans]: "effect_frame s s1 \<Longrightarrow> effect_frame s1 s2 \<Longrightarrow> effect_frame s s2"
  by (simp add: effect_frame_def)

lemma effect_get_upsert: "effect_get (s\<lparr> tn_effects := upsert er_commandId e (tn_effects s) \<rparr>) c =
    (if c = er_commandId e then Some e else effect_get s c)"
  by (simp add: effect_get_def)

lemma effect_get_key: "effect_get s c = Some e \<Longrightarrow> er_commandId e = c"
  unfolding effect_get_def by (drule lookup_by_SomeD) simp

lemma effect_frame_update:
  assumes "update_effect e e' s = Inr s'" "effect_get s c = Some e" "er_commandId e' = er_commandId e" "er_status e' = er_status e"
  shows "effect_frame s s'"
  using assms(2-4) effect_get_key[OF assms(2)]
  by (simp add: update_effect_Inr(2)[OF assms(1)] effect_frame_def effect_get_upsert)

text \<open>Rows of the effect table have one key each, the identifier of a stored command.\<close>

definition effect_keys_ok :: "tenant \<Rightarrow> bool" where
  "effect_keys_ok s = (distinct (List.map er_commandId (tn_effects s)) \<and>
     er_commandId ` set (tn_effects s) \<subseteq> gc_id ` set (tn_commands s))"

lemma effect_keys_ok_frame:
  "effect_keys_ok s \<Longrightarrow> tn_effects s' = tn_effects s \<Longrightarrow> tn_commands s' = tn_commands s \<Longrightarrow> effect_keys_ok s'"
  by (simp add: effect_keys_ok_def)

lemma effect_keys_ok_update:
  assumes "effect_keys_ok s" "update_effect e e' s = Inr s'" "effect_get s c = Some e" "er_commandId e' = er_commandId e"
  shows "effect_keys_ok s'"
proof -
  from assms(3) have "e \<in> set (tn_effects s)" unfolding effect_get_def by (auto dest: lookup_by_SomeD)
  with assms(1,4) show ?thesis
    by (auto simp: update_effect_Inr(2)[OF assms(2)] effect_keys_ok_def keys_upsert intro!: distinct_keys_upsert)
qed

lemma effect_get_in: "effect_keys_ok s \<Longrightarrow> e \<in> set (tn_effects s) \<Longrightarrow> effect_get s (er_commandId e) = Some e"
  by (simp add: effect_keys_ok_def effect_get_def lookup_by_eq_Some_distinct)

definition effects_advance :: "tenant \<Rightarrow> tenant \<Rightarrow> bool" where
  "effects_advance s s' = (effect_keys_ok s' \<and> advances_effects s s')"

lemma effects_advance_frame:
  "effect_keys_ok s \<Longrightarrow> tn_effects s' = tn_effects s \<Longrightarrow> tn_commands s' = tn_commands s \<Longrightarrow>
     tn_callbacks s' = tn_callbacks s \<Longrightarrow> effects_advance s s'"
  by (simp add: effects_advance_def effect_keys_ok_frame effect_frame_advances effect_frameI)

lemma effects_advance_update:
  "effect_keys_ok s \<Longrightarrow> update_effect e e' s = Inr s' \<Longrightarrow> effect_get s c = Some e \<Longrightarrow>
     er_commandId e' = er_commandId e \<Longrightarrow> er_status e' = er_status e \<Longrightarrow> effects_advance s s'"
  by (simp add: effects_advance_def effect_keys_ok_update effect_frame_advances effect_frame_update)

lemma effects_advance_trans: "effects_advance s s1 \<Longrightarrow> effects_advance s1 s2 \<Longrightarrow> effects_advance s s2"
  by (auto simp: effects_advance_def intro: advances_effects_trans)

lemma replace_dispatch_frame:
  "tn_effects (replace_dispatch d s) = tn_effects s" "tn_commands (replace_dispatch d s) = tn_commands s"
  "tn_callbacks (replace_dispatch d s) = tn_callbacks s"
  by (simp_all add: replace_dispatch_def)


lemma materialize_effects:
  assumes "materialize env sc i o' s = Inr (r, s')" "effect_keys_ok s" shows "effects_advance s s'"
  using assms(1)
proof (cases rule: materialize_Inr)
  case existing
  then show ?thesis using assms(2) by (simp add: effects_advance_frame)
next
  case (created s2)
  let ?c = "gc_id (ei_command i)" let ?e = "new_effect_row i"
  have t: "tn_effects s' = tn_effects s @ [?e]" "tn_commands s' = tn_commands s @ [ei_command i]"
    "tn_callbacks s' = tn_callbacks s"
    using created(2) insert_dispatch_Inr(1)[OF created(1)] by simp_all
  have k: "er_commandId ?e = ?c" "er_status ?e = None" by (simp_all add: new_effect_row_def Let_def)
  have new: "?c \<notin> er_commandId ` set (tn_effects s)" using assms(2) created(4) by (auto simp: effect_keys_ok_def)
  then have "effect_keys_ok s'" using assms(2) k(1) t by (auto simp: effect_keys_ok_def)
  moreover have none: "effect_get s ?c = None" using new by (simp add: effect_get_def lookup_by_None)
  have g: "effect_get s' x = (if x = ?c then Some ?e else effect_get s x)" for x
    using none k(1) by (auto simp: effect_get_def t(1) lookup_by_append split: option.splits)
  have "effect_step\<^sup>*\<^sup>* (effect_view s x) (effect_view s' x)" for x
  proof (cases "x = ?c")
    case True
    then show ?thesis using none k(2) effect_step.appears
      by (simp add: effect_view_def g callback_statuses_def t(3) r_into_rtranclp)
  qed (simp add: effect_view_def g callback_statuses_def t(3))
  ultimately show ?thesis by (simp add: effects_advance_def advances_effects_def)
qed

lemma claimDispatch_effects:
  assumes "claimDispatch env op c g a t s = Inr (r, s')" "effect_keys_ok s" shows "effects_advance s s'"
  using assms(1)
  by (cases rule: claimDispatch_Inr)
    (auto intro!: effects_advance_frame[OF assms(2)] dest!: update_dispatch_Inr(2) simp: replace_dispatch_def db_tick_def)

lemma finalizeDispatch_effects:
  assumes "finalizeDispatch env sc op c g a res t o' s = Inr (r, s')" "effect_keys_ok s" shows "effects_advance s s'"
  using assms(1)
  by (cases rule: finalizeDispatch_Inr)
    (auto intro!: effects_advance_frame[OF assms(2)] dest!: update_dispatch_Inr(2) outbox_insert_frame simp: replace_dispatch_def)

lemma applyCallback_effects:
  assumes "applyCallback env sc b ps s = Inr (r, s')" "effect_keys_ok s" shows "effects_advance s s'"
  using assms(1)
proof (cases rule: applyCallback_Inr)
  case unchanged
  then show ?thesis using assms(2) by (simp add: effects_advance_frame)
next
  case (applied cmd e d s1)
  let ?b = "sb_callback b" let ?c = "cb_commandId ?b" let ?st = "cb_status ?b"
  let ?e = "e\<lparr> er_status := Some ?st, er_callbackId := Some (cb_id ?b), er_updatedAt := max (er_updatedAt e) (sb_receivedAt b) \<rparr>"
  from appendMany_frame[OF applied(4)] have s1: "tn_effects s1 = tn_effects s" "tn_commands s1 = tn_commands s"
    "tn_callbacks s1 = tn_callbacks s @ [b]" by auto
  have e: "effect_get s ?c = Some e" using applied(1) by (simp add: lockGatewayAggregate_Some)
  then have e1: "effect_get s1 ?c = Some e" by (simp add: effect_get_def s1)
  have kc: "er_commandId e = ?c" by (rule effect_get_key[OF e])
  note u = update_effect_Inr[OF applied(5)]
  have "effect_keys_ok s1" using assms(2) s1 by (simp add: effect_keys_ok_frame)
  then have "effect_keys_ok s'" using applied(5) e1 by (rule effect_keys_ok_update) simp
  moreover have "effect_step\<^sup>*\<^sup>* (effect_view s x) (effect_view s' x)" for x
  proof (cases "x = ?c")
    case True
    have "?st \<notin> set (callback_statuses s ?c)"
      using applied(2) by (auto simp: callback_statuses_def callback_rows_def filter_empty_conv)
    moreover have "er_status e = Some ?st \<or> effect_status_change (er_status e) (Some ?st)"
      using u(1) by (auto simp: guard_effect_def split: if_split_asm)
    ultimately have "effect_step (Some (er_status e), callback_statuses s ?c) (Some (Some ?st), callback_statuses s ?c @ [?st])"
      by (rule effect_step.advances)
    moreover have "effect_view s' ?c = (Some (Some ?st), callback_statuses s ?c @ [?st])"
      by (simp add: effect_view_def u(2) effect_get_upsert kc callback_statuses_def s1(3))
    moreover have "effect_view s ?c = (Some (er_status e), callback_statuses s ?c)" using e by (simp add: effect_view_def)
    ultimately have "effect_step (effect_view s ?c) (effect_view s' ?c)" by (simp only:)
    then show ?thesis unfolding True by (rule r_into_rtranclp)
  next
    case False
    then have "effect_view s' x = effect_view s x"
      using kc by (simp add: effect_view_def u(2) effect_get_upsert callback_statuses_def s1(3)) (simp add: effect_get_def s1(1))
    then show ?thesis by simp
  qed
  ultimately show ?thesis by (simp add: effects_advance_def advances_effects_def)
qed

lemma cancel_effects_effects:
  assumes "cancel_effects t es s = Inr (r, s')" "effect_keys_ok s" "distinct (List.map er_commandId es)"
    "\<forall>e\<in>set es. effect_get s (er_commandId e) = Some e"
  shows "effects_advance s s'"
  using assms
proof (induction es arbitrary: s r)
  case Nil
  then show ?case by (simp add: effects_advance_frame)
next
  case (Cons e es)
  then obtain d where d: "current_dispatch s (er_commandId e) = Some d"
    by (cases "current_dispatch s (er_commandId e)") (auto simp: Let_def)
  have rest: "effects_advance s1 s'" if "cancel_effects t es s1 = Inr (r1, s')" "effect_keys_ok s1"
      "\<And>x. x \<noteq> er_commandId e \<Longrightarrow> effect_get s1 x = effect_get s x" for r1 s1
  proof -
    have "effect_get s1 (er_commandId x) = Some x" if "x \<in> set es" for x
    proof -
      have "er_commandId x \<noteq> er_commandId e" using Cons.prems(3) that by (force simp: image_iff)
      then show ?thesis using \<open>\<And>x. x \<noteq> er_commandId e \<Longrightarrow> effect_get s1 x = effect_get s x\<close> Cons.prems(4) that by simp
    qed
    then show ?thesis using Cons.IH[OF that(1,2)] Cons.prems(3) by simp
  qed
  show ?case
  proof (cases "classify_cancel e d")
    case CancelNow
    with Cons.prems d obtain s1 r1 where u: "update_dispatch d (DispatchCancelled t) t s = Inr s1"
      and n: "cancel_effects t es (withdraw_dispatch_messages (er_commandId e) (dp_generation d) s1) = Inr (r1, s')"
      by (auto simp: Let_def result_simps)
    let ?s2 = "withdraw_dispatch_messages (er_commandId e) (dp_generation d) s1"
    have f: "tn_effects ?s2 = tn_effects s" "tn_commands ?s2 = tn_commands s" "tn_callbacks ?s2 = tn_callbacks s"
      by (simp_all add: withdraw_dispatch_messages_def update_dispatch_Inr(2)[OF u] replace_dispatch_frame)
    have "effects_advance s ?s2" using Cons.prems(2) f by (rule effects_advance_frame)
    moreover from this have "effects_advance ?s2 s'"
      by (intro rest[OF n]) (simp_all add: effects_advance_def effect_get_def f)
    ultimately show ?thesis by (rule effects_advance_trans)
  next
    case PreserveEffect
    with Cons.prems(1) d obtain r1 where "cancel_effects t es s = Inr (r1, s')" by (auto simp: Let_def result_simps)
    then show ?thesis using Cons.prems(2) by (rule rest) simp
  next
    case ReconcileEffect
    with Cons.prems(1) d obtain s1 r1 where u: "request_effect_cancellation e t s = Inr s1"
      and n: "cancel_effects t es s1 = Inr (r1, s')" by (auto simp: Let_def result_simps)
    have g: "effect_get s (er_commandId e) = Some e" using Cons.prems(4) by simp
    have "effects_advance s s1 \<and> (\<forall>x. x \<noteq> er_commandId e \<longrightarrow> effect_get s1 x = effect_get s x)"
    proof (cases "is_none (er_cancellationRequestedAt e)")
      case True
      with u have u: "update_effect e (e\<lparr> er_cancellationRequestedAt := Some t, er_updatedAt := t \<rparr>) s = Inr s1"
        by (simp add: request_effect_cancellation_def)
      from effects_advance_update[OF Cons.prems(2) u g] show ?thesis
        by (simp add: update_effect_Inr(2)[OF u] effect_get_upsert)
    next
      case False
      with u have "s1 = s" by (auto simp: request_effect_cancellation_def)
      with Cons.prems(2) show ?thesis by (simp add: effects_advance_frame)
    qed
    moreover from this have "effects_advance s1 s'" by (intro rest[OF n]) (simp_all add: effects_advance_def)
    ultimately show ?thesis using effects_advance_trans by blast
  qed
qed

lemma mission_effects_distinct:
  assumes "effect_keys_ok s"
  shows "distinct (List.map er_commandId (mission_effects s m))"
    "\<forall>e\<in>set (mission_effects s m). effect_get s (er_commandId e) = Some e"
proof -
  have "distinct (List.map er_commandId (sort_key er_commandId (filter P es)))"
    if "distinct (List.map er_commandId es)" for P :: "effect_row \<Rightarrow> bool" and es
    using that by (simp add: distinct_map inj_on_def)
  then show "distinct (List.map er_commandId (mission_effects s m))"
    using assms unfolding mission_effects_def effect_keys_ok_def by blast
  show "\<forall>e\<in>set (mission_effects s m). effect_get s (er_commandId e) = Some e"
    using effect_get_in[OF assms] by (simp add: mission_effects_def)
qed

lemma cancelPendingForMission_effects:
  assumes "cancelPendingForMission sc m t s = Inr (r, s')" "effect_keys_ok s" shows "effects_advance s s'"
proof -
  from assms(1) have "cancel_effects t (mission_effects s m) s = Inr (r, s')"
    by (auto simp: cancelPendingForMission_def result_simps)
  from cancel_effects_effects[OF this assms(2) mission_effects_distinct[OF assms(2)]] show ?thesis .
qed

lemma reconcile_effect_effects:
  assumes "reconcile_effect env sc i s = Inr (r, s')" "effect_keys_ok s" shows "effects_advance s s'"
  using assms(1)
proof (cases rule: reconcile_effect_Inr)
  case unchanged
  then show ?thesis using assms(2) by (simp add: effects_advance_frame)
next
  case (polled cmd e d res st s2)
  let ?n = "next_poll_sequence s (ri_commandId i)"
  let ?s1 = "s\<lparr> tn_effectPolls := tn_effectPolls s @ [poll_row i e d ?n res] \<rparr>"
  have a: "effects_advance s ?s1" by (rule effects_advance_frame[OF assms(2)]) simp_all
  then have k: "effect_keys_ok ?s1" by (simp add: effects_advance_def)
  have b: "effects_advance ?s1 s2"
  proof (cases "effect_terminal e")
    case True
    with polled(5) k show ?thesis by (simp add: effects_advance_frame)
  next
    case False
    with polled(5) have u: "update_effect e (e\<lparr> er_reconciliationAttempts := ?n,
       er_lastReconciledAt := Some (ri_reconciledAt i), er_updatedAt := ri_reconciledAt i \<rparr>) ?s1 = Inr s2" by simp
    have "effect_get ?s1 (ri_commandId i) = Some e"
      using polled(1) by (simp add: lockGatewayAggregate_Some effect_get_def)
    from effects_advance_update[OF k u this] show ?thesis by simp
  qed
  then have k2: "effect_keys_ok s2" by (simp add: effects_advance_def)
  have "effects_advance s2 s'" using polled(6)
  proof (cases rule: reconcile_follow_up_Inr)
    case (retry s1)
    from polled(6) retry(1) have "tn_commands s' = tn_commands s2"
      by (auto simp: reconcile_follow_up_def Let_def result_simps dest!: outbox_insert_frame insert_dispatch_Inr(1))
    with retry show ?thesis by (intro effects_advance_frame[OF k2]) simp_all
  next
    case quiet
    from polled(6) quiet(1) have "tn_commands s' = tn_commands s2"
      by (auto simp: reconcile_follow_up_def Let_def dest!: outbox_insert_frame split: reconcile_status.split_asm)
    with quiet show ?thesis by (intro effects_advance_frame[OF k2]) simp_all
  qed
  with a b show ?thesis by (blast intro: effects_advance_trans)
qed

end
