(* ===== verification/Execution_Service.thy ===== *)
theory Execution_Service
  imports Execution_Planners Gateway_Protocol
begin

text \<open>
  Executions from activation to arrival
  (\<open>application/src/execution-materialization-service.ts\<close>): the application evidence
  of an activation, the execution with its five milestones, its first effect and its
  deadline job, and the effects that persisted evidence leads to.  The effects of one
  plan are materialized concurrently inside one transaction; their identifiers are
  taken in list order before any query, so that the model does them one after the other.
\<close>

section \<open>Materializing a planned effect\<close>

definition command_input_for :: "operation \<Rightarrow> plan \<Rightarrow> planned_effect \<Rightarrow> instant \<Rightarrow> command_input" where
  "command_input_for x p pf createdAt = \<lparr> gi_organizationId = op_organizationId x,
     gi_missionId = op_missionId x, gi_palaceId = pl_palaceId p, gi_operationId = op_id x,
     gi_logicalKey = pf_logicalKey pf, gi_instruction = pf_instruction pf, gi_createdAt = createdAt \<rparr>"

definition planned_intent ::
  "command \<Rightarrow> planned_effect \<Rightarrow> effect_authorization \<Rightarrow> instant \<Rightarrow> effect_intent" where
  "planned_intent c pf auth createdAt = \<lparr> ei_command = c, ei_dispatchAt = pf_dispatchAt pf,
     ei_milestone = pf_milestone pf, ei_cancellationPolicy = pf_cancellationPolicy pf,
     ei_authorization = auth, ei_createdAt = createdAt \<rparr>"

definition materializePlannedGatewayEffect ::
  "env \<Rightarrow> scope \<Rightarrow> operation \<Rightarrow> plan \<Rightarrow> planned_effect \<Rightarrow> effect_authorization \<Rightarrow> instant \<Rightarrow> tenant \<Rightarrow>
   err + (materialization_result \<times> tenant)" where
  "materializePlannedGatewayEffect env sc x p planned auth createdAt s =
     sbind (parsePlannedGatewayEffect planned) (\<lambda>pf.
     if op_organizationId x \<noteq> pl_organizationId p \<or> op_missionId x \<noteq> pl_missionId p \<or> op_planId x \<noteq> pl_id p
       then Inl (ConflictError ''Gateway effect operation and plan bindings do not match'')
     else sbind (createGatewayCommand (en_hash env) (command_input_for x p pf createdAt)) (\<lambda>c.
       materialize env sc (planned_intent c pf auth createdAt) (fresh_id env IdOutbox s) (bump s)))"

fun materialize_planned ::
  "env \<Rightarrow> scope \<Rightarrow> operation \<Rightarrow> plan \<Rightarrow> planned_effect list \<Rightarrow> effect_authorization \<Rightarrow> instant \<Rightarrow> tenant \<Rightarrow>
   err + (materialization_result list \<times> tenant)" where
  "materialize_planned env sc x p [] auth t s = Inr ([], s)"
| "materialize_planned env sc x p (pf # pfs) auth t s =
     sbind (materializePlannedGatewayEffect env sc x p pf auth t s) (\<lambda>(r, s1).
     sbind (materialize_planned env sc x p pfs auth t s1) (\<lambda>(rs, s2). Inr (r # rs, s2)))"

section \<open>The evidence of an activation\<close>

definition stableActivationEvidenceId :: "env \<Rightarrow> string \<Rightarrow> string \<Rightarrow> string" where
  "stableActivationEvidenceId env operationId ruleId =
     ''evd_'' @ en_activationId env ''activation-evidence-id@1'' operationId ruleId"

definition stableActivationReceiptId :: "env \<Rightarrow> string \<Rightarrow> string \<Rightarrow> string" where
  "stableActivationReceiptId env evidenceId ruleId =
     ''rcp_'' @ en_activationId env ''activation-receipt-id@1'' evidenceId ruleId"

definition applicationEvidenceRecord ::
  "env \<Rightarrow> operation \<Rightarrow> plan \<Rightarrow> instant \<Rightarrow> string \<Rightarrow> string list \<Rightarrow> evidence_body \<Rightarrow> err + persisted_evidence" where
  "applicationEvidenceRecord env x p t rule inputs body =
     (let i = stableActivationEvidenceId env (op_id x) rule;
          r = \<lparr> pe_evidence = \<lparr> ev_id = i, ev_organizationId = op_organizationId x,
                  ev_missionId = op_missionId x, ev_palaceId = pl_palaceId p, ev_observedAt = t, ev_body = body \<rparr>,
                pe_receipt = \<lparr> ar_id = stableActivationReceiptId env i rule, ar_evidenceId = i,
                  ar_organizationId = op_organizationId x, ar_missionId = op_missionId x,
                  ar_palaceId = pl_palaceId p, ar_verifiedAt = t,
                  ar_authority = ApplicationReceipt rule 1 inputs True \<rparr>,
                pe_persistedAt = t \<rparr> in
      if persisted_evidence_ok (en_obsHash env) r then Inr r else Inl (ZodError ''PersistedEvidenceRecord''))"

definition activationEvidence ::
  "env \<Rightarrow> operation \<Rightarrow> operation_outcome \<Rightarrow> plan \<Rightarrow> plan_action \<Rightarrow> instant \<Rightarrow> err + persisted_evidence list" where
  "activationEvidence env x out p act t = (case act of
     ReplaceHomecomingRoutine r d \<Rightarrow>
       sbind (applicationEvidenceRecord env x p t ''routine.activation.commit'' []
         (RoutineState (oo_routineId out) (oo_routineVersionId out) True (Some (pl_id p)) (Some (pl_hash p)))) (\<lambda>active.
       sbind (applicationEvidenceRecord env x p t ''routine.activation.deactivate-protected'' []
         (RoutineState (rp_protectedRoutineId r) (rp_protectedRoutineVersionId r) False
            (Some (pl_id p)) (Some (pl_hash p)))) (\<lambda>inactive.
       sbind (applicationEvidenceRecord env x p t ''routine.activation.project-battery''
         [ev_id (pe_evidence active)] (BatteryProjection (hd_projectedBatteryUse d))) (\<lambda>battery.
       sbind (applicationEvidenceRecord env x p t ''routine.activation.tenant-binding''
         [ev_id (pe_evidence active), ev_id (pe_evidence inactive)]
         (TenantAccessAudit (op_organizationId x) True (Some (op_id x)))) (\<lambda>tenancy.
       Inr [active, inactive, battery, tenancy]))))
   | _ \<Rightarrow> Inl (ConflictError ''Activation evidence requires a homecoming routine replacement''))"

section \<open>Activating\<close>

definition assertBindings :: "operation \<Rightarrow> plan \<Rightarrow> plan_action \<Rightarrow> err + unit" where
  "assertBindings x p act =
     (if op_organizationId x \<noteq> pl_organizationId p \<or> op_missionId x \<noteq> pl_missionId p \<or>
         op_planId x \<noteq> pl_id p \<or> op_planActionId x \<noteq> pa_id act \<or> pa_palaceId act \<noteq> pl_palaceId p
      then Inl (ConflictError ''Execution operation, plan, and action bindings do not match'')
      else guard_that (case (act, op_outcome x) of
          (ReplaceHomecomingRoutine r _, Some out) \<Rightarrow>
            oo_routineId out = rp_replacementRoutineId r \<and>
            oo_routineVersionId out = rp_replacementRoutineVersionId r \<and>
            oo_deactivatedRoutineId out = Some (rp_protectedRoutineId r)
        | _ \<Rightarrow> False)
        (ConflictError ''Activation outcome does not match the approved replacement action''))"

definition pendingMilestone :: "env \<Rightarrow> milestone_name \<Rightarrow> string \<Rightarrow> string \<Rightarrow> err + milestone" where
  "pendingMilestone env name operationId logicalKey =
     sbind (deriveGatewayCommandId (hp_sha (en_hash env)) operationId logicalKey) (\<lambda>c.
       Inr \<lparr> ml_name = name, ml_commandId = Some c, ml_state = MilestonePending \<rparr>)"

definition homecoming_milestones :: "env \<Rightarrow> string \<Rightarrow> err + milestone list" where
  "homecoming_milestones env op =
     sbind (pendingMilestone env MsPreheat op HOMECOMING_PREHEAT_KEY) (\<lambda>preheat.
     sbind (pendingMilestone env MsPathwayLighting op HOMECOMING_LIGHTING_KEY) (\<lambda>lighting.
     sbind (pendingMilestone env MsUnlock op HOMECOMING_UNLOCK_KEY) (\<lambda>unlock.
     sbind (pendingMilestone env MsRelock op HOMECOMING_RELOCK_KEY) (\<lambda>relock.
       Inr [preheat, \<lparr> ml_name = MsVerifiedArrival, ml_commandId = None, ml_state = MilestonePending \<rparr>,
            lighting, unlock, relock]))))"

definition new_execution ::
  "string \<Rightarrow> operation \<Rightarrow> operation_outcome \<Rightarrow> persisted_evidence list \<Rightarrow> instant \<Rightarrow> instant \<Rightarrow> milestone list \<Rightarrow> execution" where
  "new_execution i x out evs t deadline ms = \<lparr> ex_id = i, ex_organizationId = op_organizationId x,
     ex_missionId = op_missionId x, ex_operationId = op_id x, ex_routineId = oo_routineId out,
     ex_routineVersionId = oo_routineVersionId out, ex_programKind = None, ex_status = ExRunning,
     ex_triggeredByEvidenceId = ev_id (pe_evidence (hd evs)),
     ex_evidenceIds = List.map (\<lambda>r. ev_id (pe_evidence r)) evs, ex_startedAt = t, ex_deadline = deadline,
     ex_milestones = ms, ex_updatedAt = t, ex_completedAt = None \<rparr>"

definition deadline_key :: "string \<Rightarrow> string" where
  "deadline_key i = ''execution.deadline:'' @ i"

definition deadline_message :: "env \<Rightarrow> execution \<Rightarrow> instant \<Rightarrow> tenant \<Rightarrow> outbox_message" where
  "deadline_message env x createdAt s = new_outbox_message (fresh_id env IdOutbox s) (ex_organizationId x)
     TopicExecutionDeadline (deadline_key (ex_id x))
     (ExecutionDeadlineReference (ex_organizationId x) (ex_missionId x) (ex_operationId x) (ex_id x))
     (ex_deadline x) createdAt"

definition enqueueExecutionDeadline :: "env \<Rightarrow> scope \<Rightarrow> execution \<Rightarrow> instant \<Rightarrow> tenant \<Rightarrow> err + tenant" where
  "enqueueExecutionDeadline env sc x createdAt s =
     outbox_insert sc (deadline_message env x createdAt s) (bump s)"

record activation_materialization =
  am_execution :: execution
  am_trigger :: persisted_evidence
  am_evidence :: "persisted_evidence list"
  am_effects :: "materialization_result list"

definition only_preheat :: "planned_effect list \<Rightarrow> bool" where
  "only_preheat ps = (case ps of
     [p] \<Rightarrow> pf_milestone p = MsPreheat \<and> instruction_kind (pf_instruction p) = KSetTemperature
   | _ \<Rightarrow> False)"

definition create_execution ::
  "env \<Rightarrow> scope \<Rightarrow> operation \<Rightarrow> operation_outcome \<Rightarrow> plan_action \<Rightarrow> persisted_evidence list \<Rightarrow> instant \<Rightarrow>
   effect_authorization \<Rightarrow> tenant \<Rightarrow> err + (execution \<times> tenant)" where
  "create_execution env sc x out act evs t auth s = (let i = fresh_id env IdExecution s; s1 = bump s in
     if \<not> id_ok ''exe'' i then Inl (ZodError ''ExecutionId'')
     else sbind (homecomingExecutionDeadline (en_zones env) t act) (\<lambda>deadline.
     sbind (homecoming_milestones env (op_id x)) (\<lambda>ms.
     let e = new_execution i x out evs t deadline ms in
     if \<not> execution_ok e then Inl (ZodError ''Execution'')
     else sbind (executions_insert sc \<lparr> sx_operationId = op_id x, sx_execution = e, sx_authorization = auth \<rparr> s1)
       (\<lambda>s2. Inr (e, s2)))))"

definition materializeActivationExecution ::
  "env \<Rightarrow> scope \<Rightarrow> operation \<Rightarrow> plan \<Rightarrow> plan_action \<Rightarrow> instant \<Rightarrow> effect_authorization \<Rightarrow> tenant \<Rightarrow>
   err + (activation_materialization \<times> tenant)" where
  "materializeActivationExecution env sc x p act t auth s = (case op_outcome x of
     None \<Rightarrow> Inl (ConflictError ''Execution materialization requires a committed operation'')
   | Some out \<Rightarrow>
     if op_status x \<noteq> OpCommitted
       then Inl (ConflictError ''Execution materialization requires a committed operation'')
     else sbind (assertBindings x p act) (\<lambda>_.
     sbind (activationEvidence env x out p act t) (\<lambda>evs.
     sbind (appendMany env sc evs s) (\<lambda>s1.
     sbind (capabilities_list s1 (pl_palaceId p)) (\<lambda>(devices, capabilities).
     sbind (planActivation env \<lparr> pc_operation = x, pc_plan = p, pc_action = act, pc_devices = devices,
        pc_capabilities = capabilities, pc_evidence = hd evs, pc_at = t \<rparr>) (\<lambda>planned.
     if \<not> only_preheat planned
       then Inl (ConflictError ''Activation must materialize exactly one preheat effect'')
     else sbind (create_execution env sc x out act evs t auth s1) (\<lambda>(e, s2).
     sbind (materialize_planned env sc x p planned auth t s2) (\<lambda>(effects, s3).
     sbind (enqueueExecutionDeadline env sc e t s3) (\<lambda>s4.
       Inr (\<lparr> am_execution = e, am_trigger = hd evs, am_evidence = evs, am_effects = effects \<rparr>, s4))))))))))"

section \<open>Applying persisted evidence\<close>

record execution_snapshot =
  es_operation :: operation
  es_plan :: plan
  es_action :: plan_action
  es_execution :: execution
  es_authorization :: effect_authorization
  es_devices :: "device_row list"
  es_capabilities :: "capability_row list"

definition loadExecutionSnapshot :: "tenant \<Rightarrow> string \<Rightarrow> err + execution_snapshot" where
  "loadExecutionSnapshot s operationId =
     sbind (required (operation_get s operationId) (NotFoundError ''Committed operation'')) (\<lambda>x.
     if op_status x \<noteq> OpCommitted \<or> is_none (op_outcome x) then Inl (NotFoundError ''Committed operation'')
     else sbind (required (plan_get s (op_planId x)) (NotFoundError ''Plan'')) (\<lambda>p.
     sbind (required (find_action (op_planActionId x) p) (NotFoundError ''Plan action'')) (\<lambda>act.
     sbind (findForOperation s (op_id x)) (\<lambda>stored.
     sbind (required stored (NotFoundError ''Execution'')) (\<lambda>r.
     sbind (capabilities_list s (pl_palaceId p)) (\<lambda>(devices, capabilities).
       Inr \<lparr> es_operation = x, es_plan = p, es_action = act, es_execution = sx_execution r,
             es_authorization = sx_authorization r, es_devices = devices,
             es_capabilities = capabilities \<rparr>))))))"

definition assertEvidenceBinding :: "persisted_evidence \<Rightarrow> operation \<Rightarrow> plan \<Rightarrow> err + unit" where
  "assertEvidenceBinding r x p = (let e = pe_evidence r; a = pe_receipt r in
     guard_that (ev_organizationId e = op_organizationId x \<and> ev_missionId e = op_missionId x \<and>
         ev_palaceId e = pl_palaceId p \<and> ar_organizationId a = op_organizationId x \<and>
         ar_missionId a = op_missionId x \<and> ar_palaceId a = pl_palaceId p)
       (ConflictError ''Persisted evidence does not belong to the execution''))"

fun telemetry_arrival :: "persisted_evidence \<Rightarrow> bool option" where
  "telemetry_arrival r = (case (ar_authority (pe_receipt r), ev_body (pe_evidence r)) of
     (IdentityTelemetryReceipt _ _ _ _ _, IdentityArrival _ verified) \<Rightarrow> Some verified
   | _ \<Rightarrow> None)"

record evidence_application =
  ep_execution :: execution
  ep_evidence :: persisted_evidence
  ep_effects :: "materialization_result list"

definition arrival_context :: "execution_snapshot \<Rightarrow> persisted_evidence \<Rightarrow> instant \<Rightarrow> plan_context" where
  "arrival_context sn r t = \<lparr> pc_operation = es_operation sn, pc_plan = es_plan sn, pc_action = es_action sn,
     pc_devices = es_devices sn, pc_capabilities = es_capabilities sn, pc_evidence = r, pc_at = t \<rparr>"

definition drive_arrival ::
  "env \<Rightarrow> scope \<Rightarrow> execution_snapshot \<Rightarrow> persisted_evidence \<Rightarrow> tenant \<Rightarrow> err + (evidence_application \<times> tenant)" where
  "drive_arrival env sc sn r s =
     sbind (advanceMilestone (op_id (es_operation sn)) MsVerifiedArrival None (ev_id (pe_evidence r))
       (ev_observedAt (pe_evidence r)) None s) (\<lambda>(advanced, s1).
     sbind (required advanced (NotFoundError ''Execution'')) (\<lambda>m.
     let t = read_clock env s1; s2 = tick s1 in
     sbind (planEvidence env (arrival_context sn r t)) (\<lambda>planned.
     sbind (materialize_planned env sc (es_operation sn) (es_plan sn) planned (es_authorization sn) t s2)
       (\<lambda>(effects, s3). Inr (\<lparr> ep_execution = (case m of MilestoneAdvanced e \<Rightarrow> e | MilestoneReplayed e \<Rightarrow> e),
          ep_evidence = r, ep_effects = effects \<rparr>, s3)))))"

definition apply_evidence ::
  "env \<Rightarrow> string \<Rightarrow> string \<Rightarrow> string \<Rightarrow> string option \<Rightarrow> string option \<Rightarrow> tenant \<Rightarrow>
   err + (evidence_application \<times> tenant)" where
  "apply_evidence env org operationId evidenceId missionId executionId s =
     sbind (assertTenant s org) (\<lambda>_.
     sbind (loadExecutionSnapshot s operationId) (\<lambda>sn.
     if \<not> is_none missionId \<and> missionId \<noteq> Some (op_missionId (es_operation sn)) \<or>
        \<not> is_none executionId \<and> executionId \<noteq> Some (ex_id (es_execution sn))
       then Inl (ConflictError ''Persisted-evidence execution reference is not bound'')
     else sbind (required (evidence_get s evidenceId) (NotFoundError ''Evidence'')) (\<lambda>r.
     sbind (assertEvidenceBinding r (es_operation sn) (es_plan sn)) (\<lambda>_.
     case telemetry_arrival r of
       None \<Rightarrow> Inl (ConflictError ''Only persisted identity telemetry may drive arrival effects'')
     | Some verified \<Rightarrow>
         if \<not> verified \<or> List.member [ExObserved, ExFailed] (ex_status (es_execution sn)) \<or>
            mission_cancelled s (op_missionId (es_operation sn))
           then Inr (\<lparr> ep_execution = es_execution sn, ep_evidence = r, ep_effects = [] \<rparr>, s)
         else drive_arrival env Unfenced sn r s))))"

text \<open>The job handler parses its reference first.\<close>

definition identity_arrival_job :: "env \<Rightarrow> outbox_payload \<Rightarrow> tenant \<Rightarrow> err + (evidence_application \<times> tenant)" where
  "identity_arrival_job env payload s = (case payload of
     IdentityArrivalReference org m op x e \<Rightarrow>
       if \<not> outbox_payload_ok payload then Inl (ZodError ''IdentityArrivalExecutionReference'')
       else apply_evidence env org op e (Some m) (Some x) s
   | _ \<Rightarrow> Inl (ZodError ''IdentityArrivalExecutionReference''))"

section \<open>Lemmas\<close>

text \<open>The tenant without the gateway tables, the outbox and the identifier counter.\<close>

definition outside_gateway :: "tenant \<Rightarrow> tenant" where
  "outside_gateway s = s\<lparr> tn_commands := [], tn_effects := [], tn_dispatches := [], tn_outbox := [], tn_ids := 0 \<rparr>"

definition gateway_grows :: "tenant \<Rightarrow> tenant \<Rightarrow> bool" where
  "gateway_grows s s' = (outside_gateway s' = outside_gateway s \<and> (\<exists>os. tn_outbox s' = tn_outbox s @ os))"

lemma gateway_growsI:
  "outside_gateway s' = outside_gateway s \<Longrightarrow> tn_outbox s' = tn_outbox s @ os \<Longrightarrow> gateway_grows s s'"
  by (auto simp: gateway_grows_def)

lemma gateway_grows_refl [simp]: "gateway_grows s s"
  by (simp add: gateway_grows_def)

lemma gateway_grows_trans [trans]: "gateway_grows s s1 \<Longrightarrow> gateway_grows s1 s2 \<Longrightarrow> gateway_grows s s2"
  by (auto simp: gateway_grows_def)

lemma gateway_grows_bump: "gateway_grows s (bump s)"
  by (rule gateway_growsI[where os = "[]"]) (simp_all add: outside_gateway_def bump_def)

lemma gateway_grows_sel:
  assumes "gateway_grows s s'"
  shows "tn_executions s' = tn_executions s" "tn_operations s' = tn_operations s" "tn_evidence s' = tn_evidence s"
    "tn_missions s' = tn_missions s" "tn_plans s' = tn_plans s" "tn_org s' = tn_org s"
    "tn_cancellations s' = tn_cancellations s" "tn_attempts s' = tn_attempts s"
    "set (tn_outbox s) \<subseteq> set (tn_outbox s')"
proof -
  from assms have eq: "outside_gateway s' = outside_gateway s" by (simp add: gateway_grows_def)
  show "tn_executions s' = tn_executions s" "tn_operations s' = tn_operations s" "tn_evidence s' = tn_evidence s"
    "tn_missions s' = tn_missions s" "tn_plans s' = tn_plans s" "tn_org s' = tn_org s"
    "tn_cancellations s' = tn_cancellations s" "tn_attempts s' = tn_attempts s"
    using arg_cong[OF eq, of tn_executions] arg_cong[OF eq, of tn_operations] arg_cong[OF eq, of tn_evidence]
      arg_cong[OF eq, of tn_missions] arg_cong[OF eq, of tn_plans] arg_cong[OF eq, of tn_org]
      arg_cong[OF eq, of tn_cancellations] arg_cong[OF eq, of tn_attempts]
    by (simp_all add: outside_gateway_def)
  show "set (tn_outbox s) \<subseteq> set (tn_outbox s')" using assms by (auto simp: gateway_grows_def)
qed

lemma insert_dispatch_grows: "insert_dispatch c g t s = Inr s' \<Longrightarrow> gateway_grows s s'"
  by (rule gateway_growsI[where os = "[]"]) (auto simp: insert_dispatch_def outside_gateway_def)

lemma outbox_insert_grows: "outbox_insert sc m s = Inr s' \<Longrightarrow> gateway_grows s s'"
  by (drule outbox_insert_Inr, rule gateway_growsI[where os = "[m]"]) (auto simp: outside_gateway_def)

lemma materialize_grows:
  assumes "materialize env sc i o' s = Inr (r, s')"
  shows "gateway_grows s s'"
  using assms
proof (cases rule: materialize_Inr)
  case (created s2)
  let ?s1 = "s\<lparr> tn_commands := tn_commands s @ [ei_command i], tn_effects := tn_effects s @ [new_effect_row i] \<rparr>"
  have "gateway_grows s ?s1" by (rule gateway_growsI[where os = "[]"]) (simp_all add: outside_gateway_def)
  also have "gateway_grows ?s1 s2" by (rule insert_dispatch_grows[OF created(1)])
  also have "gateway_grows s2 s'"
    unfolding created(2) by (rule gateway_growsI, simp add: outside_gateway_def, simp)
  finally show ?thesis .
qed simp

lemma materializePlanned_grows:
  assumes "materializePlannedGatewayEffect env sc x p pf auth t s = Inr (r, s')"
  shows "gateway_grows s s'"
proof -
  from assms obtain c where "materialize env sc (planned_intent c pf auth t) (fresh_id env IdOutbox s) (bump s) = Inr (r, s')"
    by (auto simp: materializePlannedGatewayEffect_def result_simps split: if_splits)
  from gateway_grows_trans[OF gateway_grows_bump materialize_grows[OF this]] show ?thesis .
qed

lemma materialize_planned_grows:
  "materialize_planned env sc x p pfs auth t s = Inr (rs, s') \<Longrightarrow> gateway_grows s s' \<and> length rs = length pfs"
proof (induction pfs arbitrary: s rs)
  case (Cons pf pfs)
  from Cons.prems obtain r s1 rs' where a: "materializePlannedGatewayEffect env sc x p pf auth t s = Inr (r, s1)"
    and b: "materialize_planned env sc x p pfs auth t s1 = Inr (rs', s')" and rs: "rs = r # rs'"
    by (auto simp: result_simps)
  from gateway_grows_trans[OF materializePlanned_grows[OF a]] Cons.IH[OF b] rs show ?case by auto
qed simp

lemma homecoming_milestones_Inr:
  assumes "homecoming_milestones env op = Inr ms"
  shows "List.map ml_name ms = HOMECOMING_REQUIRED_MILESTONES \<and> (\<forall>m\<in>set ms. ml_state m = MilestonePending)"
  using assms
  by (auto simp: homecoming_milestones_def pendingMilestone_def result_simps HOMECOMING_REQUIRED_MILESTONES_def)

lemma homecoming_milestones_sorted:
  assumes "homecoming_milestones env op = Inr ms"
  shows "sort_key (\<lambda>m. milestone_order (ml_name m)) ms = ms"
  using assms
  by (intro sort_key_id_if_sorted) (auto simp: homecoming_milestones_def pendingMilestone_def result_simps)

lemma appendMany_executions:
  assumes "appendMany env sc ps s = Inr s'"
  shows "tn_executions s' = tn_executions s" "tn_operations s' = tn_operations s"
  using appendMany_frame[OF assms] by auto

lemma materializeActivation_Inr:
  assumes "materializeActivationExecution env sc x p act t auth s = Inr (res, s')"
  obtains r d out evs s1 devices capabilities planned s2 effects s3 where
    "act = ReplaceHomecomingRoutine r d" "op_outcome x = Some out" "op_status x = OpCommitted"
    "activationEvidence env x out p act t = Inr evs" "appendMany env sc evs s = Inr s1"
    "capabilities_list s1 (pl_palaceId p) = Inr (devices, capabilities)"
    "planActivation env \<lparr> pc_operation = x, pc_plan = p, pc_action = act, pc_devices = devices,
        pc_capabilities = capabilities, pc_evidence = hd evs, pc_at = t \<rparr> = Inr planned"
    "only_preheat planned" "create_execution env sc x out act evs t auth s1 = Inr (am_execution res, s2)"
    "materialize_planned env sc x p planned auth t s2 = Inr (effects, s3)"
    "enqueueExecutionDeadline env sc (am_execution res) t s3 = Inr s'" "am_effects res = effects"
    "am_evidence res = evs" "am_trigger res = hd evs"
proof -
  from assms obtain out where o': "op_outcome x = Some out" "op_status x = OpCommitted"
    by (auto simp: materializeActivationExecution_def split: option.split_asm if_split_asm)
  from assms o' obtain evs s1 devices capabilities planned e s2 effects s3 where
    *: "assertBindings x p act = Inr ()"
    "activationEvidence env x out p act t = Inr evs" "appendMany env sc evs s = Inr s1"
    "capabilities_list s1 (pl_palaceId p) = Inr (devices, capabilities)"
    "planActivation env \<lparr> pc_operation = x, pc_plan = p, pc_action = act, pc_devices = devices,
        pc_capabilities = capabilities, pc_evidence = hd evs, pc_at = t \<rparr> = Inr planned"
    "only_preheat planned" "create_execution env sc x out act evs t auth s1 = Inr (e, s2)"
    "materialize_planned env sc x p planned auth t s2 = Inr (effects, s3)"
    "enqueueExecutionDeadline env sc e t s3 = Inr s'"
    "res = \<lparr> am_execution = e, am_trigger = hd evs, am_evidence = evs, am_effects = effects \<rparr>"
    by (auto simp: materializeActivationExecution_def result_simps)
  from *(1) obtain r d where "act = ReplaceHomecomingRoutine r d"
    by (auto simp: assertBindings_def split: plan_action.splits if_splits)
  with * o' show ?thesis by (intro that) simp_all
qed

lemma create_execution_Inr:
  assumes "create_execution env sc x out act evs t auth s = Inr (e, s')"
  obtains deadline ms where "homecomingExecutionDeadline (en_zones env) t act = Inr deadline"
    "homecoming_milestones env (op_id x) = Inr ms" "e = new_execution (fresh_id env IdExecution s) x out evs t deadline ms"
    "execution_ok e"
    "executions_insert sc \<lparr> sx_operationId = op_id x, sx_execution = e, sx_authorization = auth \<rparr> (bump s) = Inr s'"
  using assms by (auto simp: create_execution_def Let_def result_simps split: if_splits)

lemma execution_rows_ok_cong: "tn_executions s' = tn_executions s \<Longrightarrow> execution_rows_ok s' = execution_rows_ok s"
  by (simp add: execution_rows_ok_def)

lemma findForOperation_cong: "tn_executions s' = tn_executions s \<Longrightarrow> findForOperation s' = findForOperation s"
  by (simp add: fun_eq_iff findForOperation_def execution_for_def)

text \<open>What \<open>materialize\<close> leaves under the command's identity is exactly the command it was given.\<close>

lemma lookup_append_keep: "lookup_by key k xs = Some v \<Longrightarrow> lookup_by key k (xs @ ys) = Some v"
  by (simp add: lookup_by_append)

lemma materialize_commands:
  assumes "materialize env sc i o' s = Inr (r, s')"
  shows "command_get s' (gc_id (ei_command i)) = Some (ei_command i) \<and>
    (\<forall>c v. command_get s c = Some v \<longrightarrow> command_get s' c = Some v)"
  using assms
proof (cases rule: materialize_Inr)
  case (created s2)
  have c: "tn_commands s' = tn_commands s @ [ei_command i]"
    using created(1) unfolding created(2) insert_dispatch_def by (auto split: if_splits)
  have "lookup_by gc_id (gc_id (ei_command i)) (tn_commands s) = None"
    using created(4) by (auto simp: lookup_by_None)
  then show ?thesis unfolding command_get_def c by (auto simp: lookup_by_append)
next
  case existing
  let ?c = "ei_command i"
  let ?P = "\<lambda>x. gc_id x = gc_id ?c \<or> gc_operationId x = gc_operationId ?c \<and> gc_logicalKey x = gc_logicalKey ?c"
  show ?thesis
  proof (cases "find ?P (tn_commands s)")
    case None
    then have "tn_commands s' \<noteq> tn_commands s"
      using assms by (auto simp: materialize_def Let_def result_simps insert_dispatch_def split: if_split_asm option.split_asm
          dest!: outbox_insert_Inr)
    with existing show ?thesis by simp
  next
    case (Some x)
    then obtain ef where h: "hydrateGatewayEffect env s (gc_id x) = Inr (Some ef)" "intent_of ef = i"
      using assms by (auto simp: materialize_def Let_def result_simps split: if_split_asm option.split_asm)
    from h(1) obtain e d where l: "lockGatewayAggregate s (gc_id x) = Some (ef_command ef, e, d)"
      by (auto simp: hydrateGatewayEffect_def Let_def split: option.split_asm prod.split_asm if_split_asm)
    then have g: "command_get s (gc_id x) = Some (ef_command ef)"
      by (auto simp: lockGatewayAggregate_def split: option.split_asm)
    then have "gc_id (ef_command ef) = gc_id x" unfolding command_get_def by (drule_tac lookup_by_SomeD) simp
    with g h(2) existing show ?thesis by (auto simp: intent_of_def)
  qed
qed

lemma materializePlanned_command:
  assumes "materializePlannedGatewayEffect env sc x p pf auth t s = Inr (r, s')"
  obtains i c where "deriveGatewayCommandId (hp_sha (en_hash env)) (op_id x) (pf_logicalKey pf) = Inr i"
    "command_get s' i = Some c" "gc_createdAt c = t"
    "\<forall>j v. command_get s j = Some v \<longrightarrow> command_get s' j = Some v"
proof -
  from assms obtain c where c: "createGatewayCommand (en_hash env) (command_input_for x p pf t) = Inr c"
    and m: "materialize env sc (planned_intent c pf auth t) (fresh_id env IdOutbox s) (bump s) = Inr (r, s')"
    by (auto simp: materializePlannedGatewayEffect_def result_simps split: if_splits)
  from c have "deriveGatewayCommandId (hp_sha (en_hash env)) (op_id x) (pf_logicalKey pf) = Inr (gc_id c)" and t: "gc_createdAt c = t"
    by (auto simp: createGatewayCommand_def command_input_for_def Let_def split: if_split_asm sum.split_asm)
  moreover from materialize_commands[OF m] have "command_get s' (gc_id c) = Some c"
    "\<forall>j v. command_get s j = Some v \<longrightarrow> command_get s' j = Some v"
    by (auto simp: planned_intent_def command_get_def bump_def)
  ultimately show thesis using t by (intro that)
qed

lemma materialize_planned_keeps:
  "materialize_planned env sc x p pfs auth t s = Inr (rs, s') \<Longrightarrow> command_get s j = Some v \<Longrightarrow>
     command_get s' j = Some v"
proof (induction pfs arbitrary: s rs)
  case (Cons pf pfs)
  from Cons.prems(1) obtain r s1 rs' where a: "materializePlannedGatewayEffect env sc x p pf auth t s = Inr (r, s1)"
    and b: "materialize_planned env sc x p pfs auth t s1 = Inr (rs', s')" by (auto simp: result_simps)
  from a obtain "command_get s1 j = Some v" by (rule materializePlanned_command) (use Cons.prems(2) in blast)
  from Cons.IH[OF b this] show ?case .
qed simp

lemma rematerialized_later_conflicts:
  assumes "materialize_planned env sc x p (pf # pfs) auth t s = Inr (rs, s')" "pf_logicalKey pf' = pf_logicalKey pf"
    "t' \<noteq> t" "\<And>j v. command_get s' j = Some v \<Longrightarrow> command_get s2 j = Some v"
  shows "\<exists>err. materialize_planned env sc x p' (pf' # pfs') auth' t' s2 = Inl err"
proof (rule ccontr)
  assume "\<not> ?thesis"
  then obtain q where "materialize_planned env sc x p' (pf' # pfs') auth' t' s2 = Inr q"
    by (cases "materialize_planned env sc x p' (pf' # pfs') auth' t' s2") auto
  then obtain r2 s3 where second: "materializePlannedGatewayEffect env sc x p' pf' auth' t' s2 = Inr (r2, s3)"
    by (auto simp: result_simps)
  from assms(1) obtain r1 s1 rs' where first: "materializePlannedGatewayEffect env sc x p pf auth t s = Inr (r1, s1)"
    and rest: "materialize_planned env sc x p pfs auth t s1 = Inr (rs', s')" by (auto simp: result_simps)
  from first obtain i c where i: "deriveGatewayCommandId (hp_sha (en_hash env)) (op_id x) (pf_logicalKey pf) = Inr i"
    and c: "command_get s1 i = Some c" "gc_createdAt c = t" by (rule materializePlanned_command)
  have kept: "command_get s2 i = Some c" using materialize_planned_keeps[OF rest c(1)] assms(4) by blast
  from second obtain j d where "deriveGatewayCommandId (hp_sha (en_hash env)) (op_id x) (pf_logicalKey pf') = Inr j"
    "command_get s3 j = Some d" "gc_createdAt d = t'" "\<forall>j v. command_get s2 j = Some v \<longrightarrow> command_get s3 j = Some v"
    by (rule materializePlanned_command)
  with i kept c(2) assms(2,3) show False by auto
qed

text \<open>The two ways an application of evidence succeeds.\<close>

lemma loadExecutionSnapshot_Inr:
  assumes "loadExecutionSnapshot s op = Inr sn"
  obtains r where "operation_get s op = Some (es_operation sn)" "op_status (es_operation sn) = OpCommitted"
    "plan_get s (op_planId (es_operation sn)) = Some (es_plan sn)"
    "find_action (op_planActionId (es_operation sn)) (es_plan sn) = Some (es_action sn)"
    "execution_for s (op_id (es_operation sn)) = Some r" "es_execution sn = hydrated (sx_execution r)"
  using assms
  by (auto simp: loadExecutionSnapshot_def result_simps findForOperation_def hydrate_row_def
      split: if_split_asm option.split_asm)

lemma apply_evidence_Inr:
  assumes "apply_evidence env org op e mi x s = Inr (res, s')"
  obtains (idle) sn r where "loadExecutionSnapshot s op = Inr sn" "evidence_get s e = Some r" "s' = s" "ep_effects res = []"
        "telemetry_arrival r \<noteq> Some True \<or> List.member [ExObserved, ExFailed] (ex_status (es_execution sn)) \<or>
         mission_cancelled s (op_missionId (es_operation sn))"
    | (driven) sn r where "loadExecutionSnapshot s op = Inr sn" "evidence_get s e = Some r"
        "telemetry_arrival r = Some True" "\<not> List.member [ExObserved, ExFailed] (ex_status (es_execution sn))"
        "\<not> mission_cancelled s (op_missionId (es_operation sn))"
        "drive_arrival env Unfenced sn r s = Inr (res, s')"
proof -
  from assms obtain sn where sn: "loadExecutionSnapshot s op = Inr sn"
    by (auto simp: apply_evidence_def result_simps)
  with assms obtain r where r: "evidence_get s e = Some r"
    by (auto simp: apply_evidence_def result_simps split: if_split_asm)
  with assms sn obtain v where v: "telemetry_arrival r = Some v"
    by (auto simp: apply_evidence_def result_simps simp del: telemetry_arrival.simps split: if_split_asm option.split_asm)
  show thesis
  proof (cases "\<not> v \<or> List.member [ExObserved, ExFailed] (ex_status (es_execution sn)) \<or>
      mission_cancelled s (op_missionId (es_operation sn))")
    case True
    with assms sn r v have "s' = s \<and> ep_effects res = []"
      by (auto simp: apply_evidence_def result_simps simp del: telemetry_arrival.simps List.member_iff
          split: if_split_asm)
    with idle[OF sn r] True v show ?thesis by (auto simp del: telemetry_arrival.simps List.member_iff)
  next
    case False
    with assms sn r v have "drive_arrival env Unfenced sn r s = Inr (res, s')"
      by (simp add: apply_evidence_def result_simps del: telemetry_arrival.simps List.member_iff split: if_split_asm)
    with False sn r v show ?thesis by (intro driven) auto
  qed
qed

lemma drive_arrival_Inr:
  assumes "drive_arrival env sc sn r s = Inr (res, s')"
  obtains m s1 planned where
    "advanceMilestone (op_id (es_operation sn)) MsVerifiedArrival None (ev_id (pe_evidence r))
       (ev_observedAt (pe_evidence r)) None s = Inr (Some m, s1)"
    "planEvidence env (arrival_context sn r (read_clock env s1)) = Inr planned"
    "materialize_planned env sc (es_operation sn) (es_plan sn) planned (es_authorization sn) (read_clock env s1) (tick s1) =
       Inr (ep_effects res, s')" "ep_evidence res = r"
  using assms by (auto simp: drive_arrival_def Let_def result_simps)

lemma snapshot_determined:
  assumes "loadExecutionSnapshot s op = Inr sn" "loadExecutionSnapshot s' op = Inr sn'"
    "operation_get s' = operation_get s" "plan_get s' = plan_get s"
  shows "es_operation sn' = es_operation sn \<and> es_plan sn' = es_plan sn \<and> es_action sn' = es_action sn"
proof -
  note a = loadExecutionSnapshot_Inr[OF assms(1)] and b = loadExecutionSnapshot_Inr[OF assms(2)]
  have x: "es_operation sn' = es_operation sn" using a b assms(3) by (metis option.inject)
  have p: "es_plan sn' = es_plan sn" using a b assms(4) x by (metis option.inject)
  have "es_action sn' = es_action sn" using a b x p by (metis option.inject)
  with x p show ?thesis by simp
qed

text \<open>A verified arrival plans effects for a homecoming and for nothing else, the light first.\<close>

lemma arrival_plan_shape:
  assumes "telemetry_arrival (pc_evidence ctx) = Some True" "planEvidence env ctx = Inr ps"
  shows "case ps of [] \<Rightarrow> action_program (pc_action ctx) \<noteq> Some NightShiftHomecoming
    | p # _ \<Rightarrow> action_program (pc_action ctx) = Some NightShiftHomecoming \<and> pf_logicalKey p = HOMECOMING_LIGHTING_KEY"
proof -
  obtain a b c d e tag where ev: "ar_authority (pe_receipt (pc_evidence ctx)) = IdentityTelemetryReceipt a b c d e"
    "ev_body (pe_evidence (pc_evidence ctx)) = IdentityArrival tag True"
    using assms(1) by (auto split: receipt_authority.split_asm evidence_body.split_asm)
  show ?thesis
  proof (cases "pc_action ctx")
    case (ReplaceHomecomingRoutine r d)
    then have "plan_arrival ctx d tag = Inr ps"
      using assms(2) ev by (simp add: planEvidence_def programForAction_def homecoming_planEvidence_def)
    then show ?thesis
      by (cases rule: plan_arrival_Inr) (simp add: lighting_effect_def ReplaceHomecomingRoutine)
  next
    case (ReplaceScheduledHaulerAccessRoutine r d)
    then have "hauler_planEvidence (en_zones env) ctx = Inr ps"
      using assms(2) by (simp add: planEvidence_def programForAction_def)
    from hauler_planEvidence_Inr[OF this] ReplaceScheduledHaulerAccessRoutine show ?thesis by simp
  next
    case (RestoreRoutineVersion r)
    with assms(2) show ?thesis by (simp add: planEvidence_def programForAction_def)
  qed
qed

lemma advance_frame:
  assumes "advanceMilestone op n c e t f s = Inr (res, s')"
  shows "tn_operations s' = tn_operations s" "tn_plans s' = tn_plans s" "tn_evidence s' = tn_evidence s"
    "tn_cancellations s' = tn_cancellations s" "tn_reads s' = tn_reads s" "tn_commands s' = tn_commands s"
  using assms by (cases rule: advanceMilestone_Inr, auto simp: put_execution_def)+

section \<open>Properties\<close>

text \<open>
  C35.  An activation sets up its whole execution: when the materialization succeeds,
  the action was a homecoming replacement, the operation's execution reads back as
  the returned one with the caller's authorization, it has the five homecoming
  milestones in order and all pending, exactly one effect was materialized, and the
  outbox holds the deadline job, due at the deadline of the execution.
\<close>

theorem activation_sets_up_the_execution:
  assumes "materializeActivationExecution env sc x p act t auth s = Inr (res, s')" "execution_rows_ok s"
  shows "action_program act = Some NightShiftHomecoming \<and>
    findForOperation s' (op_id x) = Inr (Some \<lparr> sx_operationId = op_id x, sx_execution = am_execution res,
      sx_authorization = auth \<rparr>) \<and>
    List.map ml_name (ex_milestones (am_execution res)) = HOMECOMING_REQUIRED_MILESTONES \<and>
    (\<forall>m \<in> set (ex_milestones (am_execution res)). ml_state m = MilestonePending) \<and>
    length (am_effects res) = 1 \<and>
    (\<exists>m \<in> set (tn_outbox s'). ob_topic m = TopicExecutionDeadline \<and>
       ob_deduplicationKey m = deadline_key (ex_id (am_execution res)) \<and>
       ob_availableAt m = ex_deadline (am_execution res))"
  using assms(1)
proof (cases rule: materializeActivation_Inr)
  case (1 r d out evs s1 devices capabilities planned s2 effects s3)
  let ?e = "am_execution res" and ?st = "\<lparr> sx_operationId = op_id x, sx_execution = am_execution res, sx_authorization = auth \<rparr>"
  from create_execution_Inr[OF 1(9)] obtain deadline ms where ms: "homecoming_milestones env (op_id x) = Inr ms"
    and e: "?e = new_execution (fresh_id env IdExecution s1) x out evs t deadline ms"
    and ins: "executions_insert sc ?st (bump s1) = Inr s2" by blast
  have h: "hydrated ?e = ?e" unfolding e by (simp add: hydrated_def new_execution_def homecoming_milestones_sorted[OF ms])
  have rows: "execution_rows_ok (bump s1)"
    using assms(2) execution_rows_ok_cong[of "bump s1" s] appendMany_executions(1)[OF 1(5)] by (simp add: bump_def)
  have "findForOperation s2 (op_id x) = Inr (Some ?st)"
    using inserted_reads_back[OF rows ins] h by simp
  moreover from materialize_planned_grows[OF 1(10)] have g: "gateway_grows s2 s3" and l: "length effects = length planned"
    by auto
  moreover from 1(11) have q: "outbox_insert sc (deadline_message env ?e t s3) (bump s3) = Inr s'"
    by (simp add: enqueueExecutionDeadline_def)
  then have "gateway_grows s3 s'" using gateway_grows_trans[OF gateway_grows_bump outbox_insert_grows] by blast
  ultimately have found: "findForOperation s' (op_id x) = Inr (Some ?st)"
    using findForOperation_cong[OF gateway_grows_sel(1)] by metis
  have "length planned = 1" using 1(8) by (auto simp: only_preheat_def split: list.splits)
  moreover have "\<exists>m \<in> set (tn_outbox s'). ob_topic m = TopicExecutionDeadline \<and>
       ob_deduplicationKey m = deadline_key (ex_id ?e) \<and> ob_availableAt m = ex_deadline ?e"
    using outbox_insert_Inr[OF q] by (intro bexI[of _ "deadline_message env ?e t s3"]) (simp_all add: deadline_message_def)
  moreover have "ex_milestones ?e = ms" unfolding e by (simp add: new_execution_def)
  ultimately show ?thesis
    using found l 1(1,12) homecoming_milestones_Inr[OF ms] by auto
qed

text \<open>Only homecoming replacements can be activated: for an approved restoration or
  a hauler-access replacement the materialization of the activation always throws, so
  that the activating transaction never commits.
\<close>

theorem only_homecoming_activations_materialize:
  assumes "action_program act \<noteq> Some NightShiftHomecoming"
  shows "\<exists>err. materializeActivationExecution env sc x p act t auth s = Inl err"
proof (cases "materializeActivationExecution env sc x p act t auth s")
  case (Inr q)
  obtain res s' where "q = (res, s')" by (cases q)
  with Inr have "materializeActivationExecution env sc x p act t auth s = Inr (res, s')" by simp
  then show ?thesis by (cases rule: materializeActivation_Inr) (use assms in simp)
qed simp

text \<open>Arrival effects need a verified arrival and an open execution: when applying
  persisted evidence yields any effect, the evidence is a verified arrival under
  identity telemetry, the operation is committed, its execution was neither observed
  nor failed, its mission was not cancelled, and the execution's arrival milestone is
  now completed by exactly this evidence.
\<close>

theorem arrivals_drive_open_executions_only:
  assumes "apply_evidence env org op e mi x s = Inr (res, s')" "ep_effects res \<noteq> []" "execution_rows_ok s"
  shows "\<exists>o' r r' m. operation_get s op = Some o' \<and> op_status o' = OpCommitted \<and>
     \<not> mission_cancelled s (op_missionId o') \<and>
     evidence_get s e = Some (ep_evidence res) \<and> telemetry_arrival (ep_evidence res) = Some True \<and>
     execution_for s (op_id o') = Some r \<and> ex_status (sx_execution r) \<notin> {ExObserved, ExFailed} \<and>
     execution_for s' (op_id o') = Some r' \<and> milestone_row (sx_execution r') MsVerifiedArrival = Some m \<and>
     ml_state m = MilestoneCompleted (ev_id (pe_evidence (ep_evidence res)))
       (ev_observedAt (pe_evidence (ep_evidence res)))"
  using assms(1)
proof (cases rule: apply_evidence_Inr)
  case (driven sn r)
  from driven(1) obtain q where q: "operation_get s op = Some (es_operation sn)" "op_status (es_operation sn) = OpCommitted"
    "execution_for s (op_id (es_operation sn)) = Some q" "es_execution sn = hydrated (sx_execution q)"
    by (rule loadExecutionSnapshot_Inr)
  from driven(6) obtain m s1 planned where adv:
      "advanceMilestone (op_id (es_operation sn)) MsVerifiedArrival None (ev_id (pe_evidence r))
         (ev_observedAt (pe_evidence r)) None s = Inr (Some m, s1)"
    and mat: "materialize_planned env Unfenced (es_operation sn) (es_plan sn) planned (es_authorization sn)
         (read_clock env s1) (tick s1) = Inr (ep_effects res, s')" and r: "ep_evidence res = r"
    by (rule drive_arrival_Inr)
  have "tn_executions s' = tn_executions s1"
    using gateway_grows_sel(1)[of "tick s1" s'] materialize_planned_grows[OF mat] by (simp add: tick_def)
  then have "execution_for s' = execution_for s1" by (simp add: fun_eq_iff execution_for_def)
  with advance_resolves[OF assms(3) adv] q driven(2-5) r show ?thesis
    by (auto simp: resolved_state_def simp del: telemetry_arrival.simps)
qed (use assms(2) in simp)

text \<open>A redelivered arrival job is not replayed: once an arrival has been applied and
  produced effects, applying the same evidence again when the clock has moved on
  throws, because the effects are planned anew with the new time and collide with the
  recorded intents.
\<close>

theorem redelivered_arrivals_conflict:
  assumes "apply_evidence env org op e mi x s = Inr (res, s')" "ep_effects res \<noteq> []" "execution_rows_ok s"
    "read_clock env s' \<noteq> read_clock env s"
  shows "\<exists>err. apply_evidence env org op e mi x s' = Inl err"
proof (rule ccontr)
  assume "\<not> ?thesis"
  then obtain res2 s2 where again: "apply_evidence env org op e mi x s' = Inr (res2, s2)"
    by (cases "apply_evidence env org op e mi x s'") auto
  from assms(1) show False
  proof (cases rule: apply_evidence_Inr)
    case (driven sn r)
    from driven(6) obtain m s1 planned where adv:
        "advanceMilestone (op_id (es_operation sn)) MsVerifiedArrival None (ev_id (pe_evidence r))
           (ev_observedAt (pe_evidence r)) None s = Inr (Some m, s1)"
      and plan: "planEvidence env (arrival_context sn r (read_clock env s1)) = Inr planned"
      and mat: "materialize_planned env Unfenced (es_operation sn) (es_plan sn) planned (es_authorization sn)
           (read_clock env s1) (tick s1) = Inr (ep_effects res, s')"
      by (rule drive_arrival_Inr)
    have g: "gateway_grows (tick s1) s'" and len: "length (ep_effects res) = length planned"
      using materialize_planned_grows[OF mat] by auto
    obtain p ps where ps: "planned = p # ps" using len assms(2) by (cases planned) auto
    have keyp: "pf_logicalKey p = HOMECOMING_LIGHTING_KEY" "action_program (es_action sn) = Some NightShiftHomecoming"
      using arrival_plan_shape[OF _ plan] driven(3)
      by (simp_all add: ps arrival_context_def del: telemetry_arrival.simps)
    have same: "operation_get s' = operation_get s" "evidence_get s' = evidence_get s" "plan_get s' = plan_get s"
      using gateway_grows_sel(2,3,5)[OF g] advance_frame(1-3)[OF adv]
      by (simp_all add: fun_eq_iff operation_get_def evidence_get_def plan_get_def tick_def)
    have t1: "read_clock env s1 = read_clock env s" using advance_frame(5)[OF adv] by (simp add: read_clock_def)
    have rows: "execution_for s' = execution_for s1" "mission_cancelled s' = mission_cancelled s"
      using gateway_grows_sel(1,7)[OF g] advance_frame(4)[OF adv]
      by (simp_all add: fun_eq_iff execution_for_def mission_cancelled_def tick_def)
    from again show False
    proof (cases rule: apply_evidence_Inr)
      case (idle sn2 r2)
      note x = snapshot_determined[OF driven(1) idle(1) same(1,3), THEN conjunct1]
      from idle(1) obtain q where q: "execution_for s1 (op_id (es_operation sn)) = Some q"
        "ex_status (es_execution sn2) = ex_status (sx_execution q)"
        by (rule loadExecutionSnapshot_Inr) (simp add: x rows)
      from driven(1) obtain q' where q': "execution_for s (op_id (es_operation sn)) = Some q'"
        "ex_status (es_execution sn) = ex_status (sx_execution q')"
        by (rule loadExecutionSnapshot_Inr) simp
      from adv have "\<not> List.member [ExObserved, ExFailed] (ex_status (sx_execution q))"
      proof (cases rule: advanceMilestone_Inr)
        case (advanced a b a')
        from put_execution_rows(2)[OF assms(3), of a a'] execution_forD[OF advanced(1)] advanced(7-9) q(1)
        show ?thesis by auto
      qed (use q q' driven(4) in \<open>simp_all\<close>)
      with idle(5) idle(2) driven(2,3,5) q(2) x rows(2) same(2) show False
        by (auto simp del: telemetry_arrival.simps List.member_iff)
    next
      case second: (driven sn2 r2)
      note x = snapshot_determined[OF driven(1) second(1) same(1,3)]
      have r2: "r2 = r" using second(2) driven(2) same by simp
      from second(6) obtain m2 s3 planned2 where adv2:
          "advanceMilestone (op_id (es_operation sn2)) MsVerifiedArrival None (ev_id (pe_evidence r2))
             (ev_observedAt (pe_evidence r2)) None s' = Inr (Some m2, s3)"
        and plan2: "planEvidence env (arrival_context sn2 r2 (read_clock env s3)) = Inr planned2"
        and mat2: "materialize_planned env Unfenced (es_operation sn2) (es_plan sn2) planned2 (es_authorization sn2)
             (read_clock env s3) (tick s3) = Inr (ep_effects res2, s2)"
        by (rule drive_arrival_Inr)
      have "case planned2 of [] \<Rightarrow> False | p2 # _ \<Rightarrow> pf_logicalKey p2 = HOMECOMING_LIGHTING_KEY"
        using arrival_plan_shape[OF _ plan2] driven(3) keyp(2) x
        by (simp add: r2 arrival_context_def del: telemetry_arrival.simps split: list.split_asm)
      then obtain p2 ps2 where ps2: "planned2 = p2 # ps2" and key2: "pf_logicalKey p2 = HOMECOMING_LIGHTING_KEY"
        by (auto split: list.split_asm)
      have t2: "read_clock env s3 \<noteq> read_clock env s1"
        using assms(4) advance_frame(5)[OF adv2] unfolding t1 by (simp add: read_clock_def)
      have keep: "\<And>j v. command_get s' j = Some v \<Longrightarrow> command_get (tick s3) j = Some v"
        using advance_frame(6)[OF adv2] by (simp add: command_get_def tick_def)
      have "pf_logicalKey p2 = pf_logicalKey p" by (simp add: keyp(1) key2)
      from rematerialized_later_conflicts[OF mat[unfolded ps] this t2 keep] obtain err where
        "materialize_planned env Unfenced (es_operation sn) (es_plan sn2) (p2 # ps2) (es_authorization sn2)
           (read_clock env s3) (tick s3) = Inl err" by blast
      with mat2 show False by (simp add: ps2 x del: materialize_planned.simps)
    qed
  qed (use assms(2) in simp)
qed

section \<open>A concrete activation\<close>

definition ex_committed :: operation where
  "ex_committed = ex_operation\<lparr> op_committedAt := Some 40 \<rparr>"

definition ex_routine :: "string \<Rightarrow> string option \<Rightarrow> instant \<Rightarrow> routine" where
  "ex_routine i active t = \<lparr> ro_id = i, ro_organizationId = ''org_aaaaaaaa'', ro_palaceId = ''pal_aaaaaaaa'',
     ro_name = ''Homecoming'', ro_activeVersionId = active, ro_createdAt = t \<rparr>"

definition ex_version :: "string \<Rightarrow> string \<Rightarrow> routine_status \<Rightarrow> plan option \<Rightarrow> instant \<Rightarrow> routine_version" where
  "ex_version i r st p t = \<lparr> rv_id = i, rv_routineId = r, rv_organizationId = ''org_aaaaaaaa'', rv_version = 1,
     rv_status = st, rv_definition = HomecomingRoutine ex_definition, rv_sourcePlanId = map_option pl_id p,
     rv_sourcePlanHash = map_option pl_hash p, rv_createdAt = t \<rparr>"

text \<open>The tenant of a mission at its execution checkpoint, its operation just committed.\<close>

definition ex_ready_tenant :: tenant where
  "ex_ready_tenant = ex_tenant\<lparr> tn_reads := 3, tn_plans := [ex_plan], tn_operations := [ex_committed],
     tn_approvals := [ex_approval],
     tn_missions := [ex_mission\<lparr> mi_state := mstate MRunning PhExecute, mi_version := 5 \<rparr>],
     tn_routines := [ex_routine ''rtn_aaaaaaaa'' None 0, ex_routine ''rtn_bbbbbbbb'' (Some ''rtv_bbbbbbbb'') 41],
     tn_versions := [ex_version ''rtv_aaaaaaaa'' ''rtn_aaaaaaaa'' routine_status.RoutineInactive None 0,
       ex_version ''rtv_bbbbbbbb'' ''rtn_bbbbbbbb'' RoutineActive (Some ex_plan) 42],
     tn_devices := ex_devices, tn_capabilities := ex_capabilities \<rparr>"

definition ex_application_record :: "string \<Rightarrow> evidence_body \<Rightarrow> string \<Rightarrow> string list \<Rightarrow> persisted_evidence" where
  "ex_application_record k b rule inputs = \<lparr> pe_evidence = \<lparr> ev_id = ''evd_'' @ k,
       ev_organizationId = ''org_aaaaaaaa'', ev_missionId = ''mis_aaaaaaaa'', ev_palaceId = ''pal_aaaaaaaa'',
       ev_observedAt = 40, ev_body = b \<rparr>,
     pe_receipt = \<lparr> ar_id = ''rcp_'' @ k, ar_evidenceId = ''evd_'' @ k, ar_organizationId = ''org_aaaaaaaa'',
       ar_missionId = ''mis_aaaaaaaa'', ar_palaceId = ''pal_aaaaaaaa'', ar_verifiedAt = 40,
       ar_authority = ApplicationReceipt rule 1 inputs True \<rparr>, pe_persistedAt = 40 \<rparr>"

definition ex_activation_evidence :: "persisted_evidence list" where
  "ex_activation_evidence =
     [ex_application_record ''ccccccct'' (RoutineState ''rtn_bbbbbbbb'' ''rtv_bbbbbbbb'' True
        (Some ''pln_aaaaaaaa'') (Some ex_digest)) ''routine.activation.commit'' [],
      ex_application_record ''tttttttd'' (RoutineState ''rtn_aaaaaaaa'' ''rtv_aaaaaaaa'' False
        (Some ''pln_aaaaaaaa'') (Some ex_digest)) ''routine.activation.deactivate-protected'' [],
      ex_application_record ''aaaaaaay'' (BatteryProjection 12) ''routine.activation.project-battery''
        [''evd_ccccccct''],
      ex_application_record ''iiiiiiig'' (TenantAccessAudit ''org_aaaaaaaa'' True (Some ''op_aaaaaaaa''))
        ''routine.activation.tenant-binding'' [''evd_ccccccct'', ''evd_tttttttd'']]"

definition ex_evidenced :: tenant where
  "ex_evidenced = ex_ready_tenant\<lparr> tn_evidence := ex_activation_evidence \<rparr>"

definition ex_activation_context :: plan_context where
  "ex_activation_context = \<lparr> pc_operation = ex_committed, pc_plan = ex_plan, pc_action = ex_action,
     pc_devices = ex_devices, pc_capabilities = ex_capabilities, pc_evidence = hd ex_activation_evidence,
     pc_at = 40 \<rparr>"

definition ex_preheat :: planned_effect where
  "ex_preheat = preheat_effect ''dev_cccccccc'' (Preheat 21 ''06:30'') 23400000 40"

definition ex_homecoming_execution :: execution where
  "ex_homecoming_execution = new_execution (fresh_id ex_planner_env IdExecution ex_evidenced) ex_committed
     (the (op_outcome ex_committed)) ex_activation_evidence 40 27330000
     (case homecoming_milestones ex_planner_env ''op_aaaaaaaa'' of Inr ms \<Rightarrow> ms | Inl _ \<Rightarrow> [])"

definition ex_executing :: tenant where
  "ex_executing = (bump ex_evidenced)\<lparr> tn_executions := [\<lparr> sx_operationId = ''op_aaaaaaaa'',
     sx_execution = ex_homecoming_execution, sx_authorization = ManualAuthorization \<rparr>] \<rparr>"

lemma ex_activation_steps:
  "activationEvidence ex_planner_env ex_committed (the (op_outcome ex_committed)) ex_plan ex_action 40 =
     Inr ex_activation_evidence"
  "appendMany ex_planner_env Unfenced ex_activation_evidence ex_ready_tenant = Inr ex_evidenced"
  "capabilities_list ex_evidenced (pl_palaceId ex_plan) = Inr (ex_devices, ex_capabilities)"
  "homecoming_milestones ex_planner_env (op_id ex_committed) = Inr (ex_milestones ex_homecoming_execution)"
  "executions_insert Unfenced \<lparr> sx_operationId = op_id ex_committed, sx_execution = ex_homecoming_execution,
     sx_authorization = ManualAuthorization \<rparr> (bump ex_evidenced) = Inr ex_executing"
  "assertBindings ex_committed ex_plan ex_action = Inr ()"
  "only_preheat [ex_preheat]" "id_ok ''exe'' (fresh_id ex_planner_env IdExecution ex_evidenced)"
  "execution_ok ex_homecoming_execution"
  by code_simp+

lemma ex_activation_plans: "planActivation ex_planner_env ex_activation_context = Inr [ex_preheat]"
proof -
  obtain r where r: "ex_action = ReplaceHomecomingRoutine r ex_definition" unfolding ex_action_def by blast
  have a: "pc_action ex_activation_context = ex_action" "pc_at ex_activation_context = 40"
    by (simp_all add: ex_activation_context_def)
  have t: "\<forall>r. ex_action = ReplaceHomecomingRoutine r ex_definition \<longrightarrow>
      assertActivationTrigger ex_activation_context r = Inr ()"
    unfolding ex_action_def plan_action.inject by (intro allI impI, elim conjE, hypsubst) code_simp
  have d: "requireDevice ex_activation_context CapTemperatureTarget ThermostatDevice = Inr (ex_devices ! 2)"
    "dv_id (ex_devices ! 2) = ''dev_cccccccc''" "parsePlannedGatewayEffect ex_preheat = Inr ex_preheat"
    "find_routine_action ATPreheat ex_definition = Some (Preheat 21 ''06:30'')" "hd_timezone ex_definition = ''UTC''"
    by code_simp+
  show ?thesis
    unfolding planActivation_def homecoming_planActivation_def a
    using t d by (simp del: parsePlannedGatewayEffect_iff add: r programForAction_def ex_local_times)
      (simp del: parsePlannedGatewayEffect_iff add: ex_preheat_def)
qed

lemma ex_activation_queues:
  "\<exists>effects s3 s4. materialize_planned ex_planner_env Unfenced ex_committed ex_plan [ex_preheat] ManualAuthorization 40
       ex_executing = Inr (effects, s3) \<and>
     enqueueExecutionDeadline ex_planner_env Unfenced ex_homecoming_execution 40 s3 = Inr s4"
proof -
  have "case materialize_planned ex_planner_env Unfenced ex_committed ex_plan [ex_preheat] ManualAuthorization 40
       ex_executing of Inl _ \<Rightarrow> False | Inr (effects, s3) \<Rightarrow>
     (case enqueueExecutionDeadline ex_planner_env Unfenced ex_homecoming_execution 40 s3 of Inl _ \<Rightarrow> False | Inr _ \<Rightarrow> True)"
    by code_simp
  then show ?thesis
    unfolding case_Inr_iff by (auto simp del: materialize_planned.simps simp: case_Inr_iff)
qed

lemma ex_activation_materializes_to:
  assumes "materialize_planned ex_planner_env Unfenced ex_committed ex_plan [ex_preheat] ManualAuthorization 40
       ex_executing = Inr (effects, s3)"
    and "enqueueExecutionDeadline ex_planner_env Unfenced ex_homecoming_execution 40 s3 = Inr s'"
  shows "\<exists>res. materializeActivationExecution ex_planner_env Unfenced ex_committed ex_plan ex_action 40
     ManualAuthorization ex_ready_tenant = Inr (res, s')"
proof -
  obtain out where o': "op_outcome ex_committed = Some out" "op_status ex_committed = OpCommitted"
    by (simp add: ex_committed_def ex_operation_def)
  have "create_execution ex_planner_env Unfenced ex_committed out ex_action ex_activation_evidence 40
      ManualAuthorization ex_evidenced = Inr (ex_homecoming_execution, ex_executing)"
  proof -
    let ?ms = "ex_milestones ex_homecoming_execution"
    have ms: "?ms = (case homecoming_milestones ex_planner_env ''op_aaaaaaaa'' of Inr ms \<Rightarrow> ms | Inl _ \<Rightarrow> [])"
      by (simp add: ex_homecoming_execution_def new_execution_def)
    have e: "new_execution (fresh_id ex_planner_env IdExecution ex_evidenced) ex_committed out
        ex_activation_evidence 40 27330000 ?ms = ex_homecoming_execution"
      unfolding ms using o' by (simp add: ex_homecoming_execution_def)
    show ?thesis
      unfolding create_execution_def Let_def using e ex_activation_steps(4,5,8,9) ex_activation_planned(2)
      by simp
  qed
  then show ?thesis
    using ex_activation_steps(1-3,6,7) ex_activation_plans assms o'
    unfolding materializeActivationExecution_def ex_activation_context_def by auto
qed

lemma ex_activation_materializes:
  "\<exists>res s'. materializeActivationExecution ex_planner_env Unfenced ex_committed ex_plan ex_action 40
     ManualAuthorization ex_ready_tenant = Inr (res, s')"
  using ex_activation_queues ex_activation_materializes_to by blast

theorem activation_sets_up_the_execution_witness:
  "\<exists>res s'. materializeActivationExecution ex_planner_env Unfenced ex_committed ex_plan ex_action 40
       ManualAuthorization ex_ready_tenant = Inr (res, s') \<and> length (am_effects res) = 1 \<and>
     findForOperation s' ''op_aaaaaaaa'' = Inr (Some \<lparr> sx_operationId = ''op_aaaaaaaa'',
       sx_execution = am_execution res, sx_authorization = ManualAuthorization \<rparr>)"
proof -
  obtain res s' where m: "materializeActivationExecution ex_planner_env Unfenced ex_committed ex_plan ex_action 40
     ManualAuthorization ex_ready_tenant = Inr (res, s')" using ex_activation_materializes by blast
  have "execution_rows_ok ex_ready_tenant" by (simp add: execution_rows_ok_def ex_ready_tenant_def ex_tenant_def)
  from activation_sets_up_the_execution[OF m this] m show ?thesis by (auto simp: ex_committed_def ex_operation_def)
qed

theorem only_homecoming_activations_materialize_witness:
  "\<exists>err. materializeActivationExecution ex_planner_env Unfenced ex_committed ex_plan
     (RestoreRoutineVersion \<lparr> rs_id = ''act_aaaaaaaa'', rs_palaceId = ''pal_aaaaaaaa'', rs_routineId = ''rtn_aaaaaaaa'',
        rs_restoreVersionId = ''rtv_aaaaaaaa'', rs_expectedCurrentVersion = 1 \<rparr>) 40
     ManualAuthorization ex_ready_tenant = Inl err"
  by (rule only_homecoming_activations_materialize) simp

definition ex_arriving :: tenant where
  "ex_arriving = ex_executing\<lparr> tn_evidence := ex_activation_evidence @ [ex_arrival_record] \<rparr>"

lemma ex_arrival_applies:
  "\<exists>res s'. apply_evidence ex_planner_env ''org_aaaaaaaa'' ''op_aaaaaaaa'' ''evd_cccccccc'' None None ex_arriving =
     Inr (res, s') \<and> ep_effects res \<noteq> [] \<and> read_clock ex_planner_env s' \<noteq> read_clock ex_planner_env ex_arriving"
proof -
  have "case apply_evidence ex_planner_env ''org_aaaaaaaa'' ''op_aaaaaaaa'' ''evd_cccccccc'' None None ex_arriving of
     Inl _ \<Rightarrow> False | Inr (res, s') \<Rightarrow> length (ep_effects res) = 2 \<and>
       read_clock ex_planner_env s' \<noteq> read_clock ex_planner_env ex_arriving" by code_simp
  then show ?thesis unfolding case_Inr_iff by fastforce
qed

lemma ex_arriving_rows: "execution_rows_ok ex_arriving"
  using executions_insert_rows(1)[OF _ ex_activation_steps(5)] execution_rows_ok_cong[of ex_arriving ex_executing]
  by (simp add: ex_arriving_def execution_rows_ok_def ex_evidenced_def ex_ready_tenant_def ex_tenant_def bump_def)

theorem arrivals_drive_open_executions_only_witness:
  "\<exists>res s'. apply_evidence ex_planner_env ''org_aaaaaaaa'' ''op_aaaaaaaa'' ''evd_cccccccc'' None None ex_arriving =
     Inr (res, s') \<and> telemetry_arrival (ep_evidence res) = Some True \<and>
     evidence_get ex_arriving ''evd_cccccccc'' = Some (ep_evidence res)"
proof -
  obtain res s' where a: "apply_evidence ex_planner_env ''org_aaaaaaaa'' ''op_aaaaaaaa'' ''evd_cccccccc'' None None
     ex_arriving = Inr (res, s')" "ep_effects res \<noteq> []" using ex_arrival_applies by blast
  from arrivals_drive_open_executions_only[OF a ex_arriving_rows] a(1) show ?thesis by blast
qed

theorem redelivered_arrivals_conflict_witness:
  "\<exists>res s' err. apply_evidence ex_planner_env ''org_aaaaaaaa'' ''op_aaaaaaaa'' ''evd_cccccccc'' None None ex_arriving =
     Inr (res, s') \<and>
     apply_evidence ex_planner_env ''org_aaaaaaaa'' ''op_aaaaaaaa'' ''evd_cccccccc'' None None s' = Inl err"
proof -
  obtain res s' where a: "apply_evidence ex_planner_env ''org_aaaaaaaa'' ''op_aaaaaaaa'' ''evd_cccccccc'' None None
     ex_arriving = Inr (res, s')" "ep_effects res \<noteq> []"
     "read_clock ex_planner_env s' \<noteq> read_clock ex_planner_env ex_arriving" using ex_arrival_applies by blast
  from redelivered_arrivals_conflict[OF a(1,2) ex_arriving_rows a(3)] a(1) show ?thesis by blast
qed

end
