(* ===== verification/Operation_Service.thy ===== *)
theory Operation_Service
  imports Execution_Service Routine_Activation Approval_Service
begin

text \<open>
  The operation service (\<open>application/src/operation-service.ts\<close>): activation of an
  approved operation under its approval, recording of attempts, the loss of an
  application response, and reconciliation.  Product evidence is enqueued through the
  observability port, whose default keeps no rows; the reads that precede it and can
  fail are kept.  Whether the transport fault policy loses the committed response is an
  argument.
\<close>

section \<open>Attempts\<close>

datatype transport_name = HttpTransport | McpTransport | WorkerTransport | GatewayTransport

text \<open>A gateway transport without its command does not parse as an attempt.\<close>

fun transport_of :: "transport_name \<Rightarrow> attempt_transport option" where
  "transport_of HttpTransport = Some ViaHttp"
| "transport_of McpTransport = Some ViaMcp"
| "transport_of WorkerTransport = Some ViaWorker"
| "transport_of GatewayTransport = None"

definition persistOperationAttempt ::
  "scope \<Rightarrow> operation \<Rightarrow> string \<Rightarrow> transport_name \<Rightarrow> attempt_status \<Rightarrow> bool \<Rightarrow> attempt_error option \<Rightarrow> instant \<Rightarrow> tenant \<Rightarrow>
   err + (attempt \<times> tenant)" where
  "persistOperationAttempt sc x i transport status retryable error t s = (case transport_of transport of
     None \<Rightarrow> Inl (ZodError ''Attempt'')
   | Some tr \<Rightarrow>
       let a = \<lparr> at_id = i, at_organizationId = op_organizationId x, at_operationId = op_id x,
                 at_sequence = length (attempts_for_operation s (op_id x)) + 1, at_transport = tr,
                 at_status = status, at_retryable = retryable, at_error = error,
                 at_startedAt = t, at_completedAt = Some t \<rparr> in
       if \<not> attempt_ok a then Inl (ZodError ''Attempt'')
       else sbind (attempts_insert sc a s) (\<lambda>s'. Inr (a, s')))"

definition operation_reconcile_key :: "string \<Rightarrow> string \<Rightarrow> string" where
  "operation_reconcile_key op att = ''operation.reconcile:'' @ op @ '':'' @ att"

definition enqueueOperationReconciliation ::
  "env \<Rightarrow> scope \<Rightarrow> operation \<Rightarrow> attempt \<Rightarrow> instant \<Rightarrow> tenant \<Rightarrow> err + tenant" where
  "enqueueOperationReconciliation env sc x a createdAt s =
     (let key = operation_reconcile_key (op_id x) (at_id a) in
      if \<not> is_none (findByDeduplicationKey s key) then Inr s
      else outbox_insert sc (new_outbox_message (fresh_id env IdOutbox s) (op_organizationId x)
             TopicOperationReconcile key
             (OperationReconciliationReference (op_organizationId x) (op_id x) (at_id a)) createdAt createdAt)
           (bump s))"

section \<open>Reading\<close>

definition operation_ledger :: "actor \<Rightarrow> string \<Rightarrow> tenant \<Rightarrow> err + (operation \<times> attempt list)" where
  "operation_ledger ctx operationId s =
     sbind (assertPermission (actor_principal ctx) OperationReconcile) (\<lambda>_.
     sbind (assertTenant s (pr_organizationId (actor_principal ctx))) (\<lambda>_.
     sbind (required (operation_get s operationId) (NotFoundError ''Operation'')) (\<lambda>x.
       Inr (x, attempts_for_operation s (op_id x)))))"

section \<open>Activation\<close>

datatype activation_delivery = ResponseAcknowledged | ResponseUnknown string "string list"

datatype activation_conflict = ApprovalExpiredConflict | PayloadMismatchConflict | ProtectedStateStaleConflict

datatype activation_result =
    ActivationCommitted operation bool activation_delivery
  | ActivationConflict operation activation_conflict

datatype activation_actor =
    ManualActivation session_context
  | LeaseActivation execution_context

fun activation_principal :: "activation_actor \<Rightarrow> principal" where
  "activation_principal (ManualActivation c) = sc_principal c"
| "activation_principal (LeaseActivation c) = xc_principal c"

fun activation_authorization :: "activation_actor \<Rightarrow> effect_authorization" where
  "activation_authorization (ManualActivation _) = ManualAuthorization"
| "activation_authorization (LeaseActivation c) = MissionLeaseAuthorization (fe_epoch (xc_fence c))"

fun fence_authorizes :: "activation_actor \<Rightarrow> string \<Rightarrow> string \<Rightarrow> bool" where
  "fence_authorizes (ManualActivation _) org mission = True"
| "fence_authorizes (LeaseActivation c) org mission =
     (fe_organizationId (xc_fence c) = org \<and> fe_missionId (xc_fence c) = mission)"

fun is_lease :: "activation_actor \<Rightarrow> bool" where
  "is_lease (ManualActivation _) = False"
| "is_lease (LeaseActivation _) = True"

definition protectedStateIsCurrent :: "tenant \<Rightarrow> plan_action \<Rightarrow> bool" where
  "protectedStateIsCurrent s act = (case replacement_of act of
     Some r \<Rightarrow> (case getCurrentVersion s (rp_protectedRoutineId r) of
        None \<Rightarrow> False
      | Some c \<Rightarrow> pv_routineVersionId c = rp_protectedRoutineVersionId r \<and>
          pv_version c = rp_expectedProtectedVersion r)
   | None \<Rightarrow> (case act of
        RestoreRoutineVersion r \<Rightarrow> (case getCurrentVersion s (rs_routineId r) of
           None \<Rightarrow> False | Some c \<Rightarrow> pv_version c = rs_expectedCurrentVersion r)
      | _ \<Rightarrow> False))"

text \<open>\<open>routines.get\<close> with a version, and the reads before the activation event is enqueued.\<close>

definition routines_get :: "tenant \<Rightarrow> string \<Rightarrow> string \<Rightarrow> err + (routine \<times> routine_version) option" where
  "routines_get s routineId versionId =
     (if \<not> (id_ok ''rtn'' routineId \<and> id_ok ''rtv'' versionId) then Inl (ZodError ''RoutineId'')
      else Inr (case (routine_get s routineId, version_of s routineId versionId) of
        (Some r, Some v) \<Rightarrow> Some (r, v) | _ \<Rightarrow> None))"

definition enqueueRoutineActivated :: "operation \<Rightarrow> tenant \<Rightarrow> err + unit" where
  "enqueueRoutineActivated x s = (case (op_outcome x, op_committedAt x) of
     (Some out, Some t) \<Rightarrow>
       sbind (routines_get s (oo_routineId out) (oo_routineVersionId out)) (\<lambda>r.
       sbind (required r (NotFoundError ''Routine version'')) (\<lambda>_.
       sbind (findForOperation s (op_id x)) (\<lambda>e.
       sbind (required e (NotFoundError ''Execution'')) (\<lambda>_. Inr ()))))
   | _ \<Rightarrow> Inl (ConflictError ''Committed operation lacks its durable activation outcome''))"

definition lapsed_approval :: "approval \<Rightarrow> activation_conflict \<Rightarrow> approval" where
  "lapsed_approval a reason = a\<lparr>
     ap_status := (if reason = ApprovalExpiredConflict then ApprovalExpired else ApprovalInvalidated),
     ap_approvedBy := None, ap_approverRole := None, ap_approvedAt := None \<rparr>"

definition invalidateBeforeActivation ::
  "env \<Rightarrow> scope \<Rightarrow> approval \<Rightarrow> plan \<Rightarrow> operation \<Rightarrow> mission \<Rightarrow> activation_conflict \<Rightarrow> tenant \<Rightarrow>
   err + (operation \<times> tenant)" where
  "invalidateBeforeActivation env sc a p x m reason s =
     (if \<not> approval_ok (lapsed_approval a reason) then Inl (ZodError ''Approval'')
      else sbind (approvals_save sc (lapsed_approval a reason) s) (\<lambda>s1.
      let p' = p\<lparr> pl_status := PlanSuperseded \<rparr> in
      if \<not> plan_ok (en_planHash env) p' then Inl (ZodError ''Plan'')
      else sbind (plans_save env sc p' s1) (\<lambda>s2.
      let x' = x\<lparr> op_status := OpCancelled \<rparr> in
      if \<not> operation_ok x' then Inl (ZodError ''Operation'')
      else sbind (operations_save sc x' s2) (\<lambda>s3.
      sbind (persistMissionTransition env sc m (mi_version m) ApprovalExpiredOrStale s3) (\<lambda>(m', s4).
        Inr (x', s4))))))"

definition response_lost :: attempt_error where
  "response_lost = \<lparr> ae_code = ''APPLICATION_RESPONSE_LOST'',
     ae_message = ''The operation committed, but the application response was lost'' \<rparr>"

definition response_loss_evidence ::
  "operation \<Rightarrow> mission \<Rightarrow> string \<Rightarrow> string \<Rightarrow> string \<Rightarrow> string \<Rightarrow> instant \<Rightarrow> persisted_evidence" where
  "response_loss_evidence x m evidenceId receiptId attemptId toolCallId t =
     \<lparr> pe_evidence = \<lparr> ev_id = evidenceId, ev_organizationId = op_organizationId x, ev_missionId = mi_id m,
         ev_palaceId = mi_palaceId m, ev_observedAt = t,
         ev_body = OperationTransport (op_id x) attemptId toolCallId \<rparr>,
       pe_receipt = \<lparr> ar_id = receiptId, ar_evidenceId = evidenceId, ar_organizationId = op_organizationId x,
         ar_missionId = mi_id m, ar_palaceId = mi_palaceId m, ar_verifiedAt = t,
         ar_authority = ApplicationReceipt ''operation.application_response_lost'' 1 [] True \<rparr>,
       pe_persistedAt = t \<rparr>"

definition persistApplicationResponseLoss ::
  "env \<Rightarrow> scope \<Rightarrow> mission \<Rightarrow> operation \<Rightarrow> string \<Rightarrow> instant \<Rightarrow> tenant \<Rightarrow>
   err + ((attempt \<times> string) \<times> tenant)" where
  "persistApplicationResponseLoss env sc m x toolCallId t s =
     (if op_status x \<noteq> OpCommitted
        then Inl (ConflictError ''Application response loss requires a committed operation'')
      else if mi_state m \<noteq> mstate MRunning PhExecute
        then Inl (ConflictError ''Application response loss requires the execution checkpoint'')
      else let i = fresh_id env IdAttempt s; s1 = bump s in
      if \<not> id_ok ''att'' i then Inl (ZodError ''AttemptId'')
      else sbind (persistOperationAttempt sc x i WorkerTransport AtUnknown True (Some response_lost) t s1) (\<lambda>(a, s2).
      let e = fresh_id env IdEvidence s2; s3 = bump s2; r = fresh_id env IdReceipt s3; s4 = bump s3;
          ev = response_loss_evidence x m e r (at_id a) toolCallId t in
      if \<not> persisted_evidence_ok (en_obsHash env) ev then Inl (ZodError ''PersistedEvidenceRecord'')
      else sbind (appendMany env sc [ev] s4) (\<lambda>s5.
      sbind (persistMissionTransition env sc m (mi_version m) ExecutionUnknown s5) (\<lambda>(m', s6).
      sbind (enqueueOperationReconciliation env sc x a t s6) (\<lambda>s7. Inr ((a, e), s7))))))"

text \<open>All approved operations of the plan are committed.\<close>

definition plan_committed :: "tenant \<Rightarrow> mission \<Rightarrow> plan \<Rightarrow> bool" where
  "plan_committed s m p = (let approved = filter (\<lambda>x. op_planId x = pl_id p \<and>
       List.member (List.map pa_id (pl_actions p)) (op_planActionId x)) (operations_for_mission s (mi_id m)) in
     length approved = length (pl_actions p) \<and> list_all (\<lambda>x. op_status x = OpCommitted) approved)"

text \<open>What follows the commit of the operation, in the same transaction.\<close>

definition after_commit ::
  "env \<Rightarrow> scope \<Rightarrow> activation_actor \<Rightarrow> bool \<Rightarrow> string \<Rightarrow> mission \<Rightarrow> plan \<Rightarrow> operation \<Rightarrow> instant \<Rightarrow> tenant \<Rightarrow>
   err + (activation_result \<times> tenant)" where
  "after_commit env sc who loses toolCallId m p x now s =
     (if is_lease who \<and> loses then
        sbind (persistApplicationResponseLoss env sc m x toolCallId now s) (\<lambda>((a, e), s').
          Inr (ActivationCommitted x False (ResponseUnknown (at_id a) [e]), s'))
      else if plan_committed s m p then
        sbind (persistMissionTransition env sc m (mi_version m) ExecutionCommitted s) (\<lambda>(m', s').
          Inr (ActivationCommitted x False ResponseAcknowledged, s'))
      else Inr (ActivationCommitted x False ResponseAcknowledged, s))"

definition commit_operation ::
  "env \<Rightarrow> scope \<Rightarrow> activation_actor \<Rightarrow> plan \<Rightarrow> plan_action \<Rightarrow> operation \<Rightarrow> instant \<Rightarrow> tenant \<Rightarrow>
   err + (operation \<times> tenant)" where
  "commit_operation env sc who p act x now s =
     sbind (applyApprovedAction env sc p act s) (\<lambda>(out, s1).
     let committed = committed_operation x out now in
     if \<not> operation_ok committed then Inl (ZodError ''Operation'')
     else sbind (operations_save sc committed s1) (\<lambda>s2.
     sbind (materializeActivationExecution env sc committed p act now (activation_authorization who) s2) (\<lambda>(r, s3).
     sbind (enqueueRoutineActivated committed s3) (\<lambda>_. Inr (committed, s3)))))"

definition activate_pending ::
  "env \<Rightarrow> scope \<Rightarrow> activation_actor \<Rightarrow> bool \<Rightarrow> string \<Rightarrow> plan \<Rightarrow> plan_action \<Rightarrow> approval \<Rightarrow> operation \<Rightarrow> mission \<Rightarrow>
   tenant \<Rightarrow> err + (activation_result \<times> tenant)" where
  "activate_pending env sc who loses toolCallId p act a x m s =
     (let now = read_clock env s; s1 = tick s in
      if ap_expiresAt a \<le> now then
        sbind (invalidateBeforeActivation env sc a p x m ApprovalExpiredConflict s1) (\<lambda>(x', s').
          Inr (ActivationConflict x' ApprovalExpiredConflict, s'))
      else sbind (assertApprovalAuthorizesPlan a p now) (\<lambda>_.
      if \<not> protectedStateIsCurrent s1 act then
        sbind (invalidateBeforeActivation env sc a p x m ProtectedStateStaleConflict s1) (\<lambda>(x', s').
          Inr (ActivationConflict x' ProtectedStateStaleConflict, s'))
      else sbind (commit_operation env sc who p act x now s1) (\<lambda>(committed, s2).
        after_commit env sc who loses toolCallId m p committed now s2)))"

definition activate_work ::
  "env \<Rightarrow> scope \<Rightarrow> activation_actor \<Rightarrow> string \<Rightarrow> string \<Rightarrow> nat \<Rightarrow> string \<Rightarrow> bool \<Rightarrow> tenant \<Rightarrow>
   err + (activation_result \<times> tenant)" where
  "activate_work env sc who planId actionId expectedVersion toolCallId loses s =
     (let org = pr_organizationId (activation_principal who) in
      sbind (required (plan_get s planId) (NotFoundError ''Plan'')) (\<lambda>p.
      if \<not> fence_authorizes who org (pl_missionId p)
        then Inl (ConflictError ''Mission fence does not authorize this activation'')
      else sbind (required (find_action actionId p) (NotFoundError ''Plan action'')) (\<lambda>act.
      sbind (required (findForPlan s (pl_id p)) (ConflictError ''Plan has no approval'')) (\<lambda>a.
      sbind (required (findByPlanAction s (pl_id p) (pa_id act))
        (ConflictError ''Activation requires the server-created operation bound at approval'')) (\<lambda>x.
      sbind (required (mission_get s (pl_missionId p)) (NotFoundError ''Mission'')) (\<lambda>m.
      sbind (assertSameTenant org [pl_organizationId p, ap_organizationId a, op_organizationId x,
        mi_organizationId m]) (\<lambda>_.
      if decideOperationReplay (op_payloadHash x) (payloadHashForExpectedVersion env p act expectedVersion) =
           ReplayConflict
        then Inr (ActivationConflict x PayloadMismatchConflict, s)
      else if op_status x = OpCommitted then
        sbind (enqueueRoutineActivated x s) (\<lambda>_. Inr (ActivationCommitted x True ResponseAcknowledged, s))
      else if op_status x \<noteq> OpPending then Inl (ConflictError ''Operation cannot activate'')
      else activate_pending env sc who loses toolCallId p act a x m s)))))))"

definition activate ::
  "env \<Rightarrow> activation_actor \<Rightarrow> string \<Rightarrow> string \<Rightarrow> nat \<Rightarrow> string \<Rightarrow> bool \<Rightarrow> tenant \<Rightarrow>
   err + (activation_result \<times> tenant)" where
  "activate env who planId actionId expectedVersion toolCallId loses s =
     (let org = pr_organizationId (activation_principal who);
          work = (\<lambda>sc. activate_work env sc who planId actionId expectedVersion toolCallId loses) in
      sbind (assertPermission (activation_principal who) RoutineActivate) (\<lambda>_.
      case who of
        ManualActivation _ \<Rightarrow> sbind (assertTenant s org) (\<lambda>_. work Unfenced s)
      | LeaseActivation c \<Rightarrow>
          sbind (assertMissionExecutionContext c org (fe_missionId (xc_fence c))) (\<lambda>_.
          runFenced env (xc_fence c) work s)))"

section \<open>Recording attempts\<close>

definition record_attempt_work ::
  "env \<Rightarrow> scope \<Rightarrow> execution_context \<Rightarrow> string \<Rightarrow> transport_name \<Rightarrow> attempt_status \<Rightarrow> bool \<Rightarrow> attempt_error option \<Rightarrow>
   tenant \<Rightarrow> err + (attempt \<times> tenant)" where
  "record_attempt_work env sc c operationId transport status retryable error s =
     sbind (required (operation_get s operationId) (NotFoundError ''Operation'')) (\<lambda>x.
     if op_missionId x \<noteq> fe_missionId (xc_fence c)
       then Inl (ConflictError ''Mission fence does not authorize this operation attempt'')
     else let now = read_clock env s; s1 = tick s; i = fresh_id env IdAttempt s1; s2 = bump s1 in
     if \<not> id_ok ''att'' i then Inl (ZodError ''AttemptId'')
     else sbind (persistOperationAttempt sc x i transport status retryable error now s2) (\<lambda>(a, s3).
     sbind (required (mission_get s3 (op_missionId x)) (NotFoundError ''Mission'')) (\<lambda>m.
     if mi_state m \<noteq> mstate MRunning PhExecute then Inr (a, s3)
     else if status = AtUnknown then
       sbind (persistMissionTransition env sc m (mi_version m) ExecutionUnknown s3) (\<lambda>(m', s4).
       sbind (enqueueOperationReconciliation env sc x a now s4) (\<lambda>s5. Inr (a, s5)))
     else if status = AtSucceeded then
       (if list_all (\<lambda>y. op_status y = OpCommitted) (operations_for_mission s3 (mi_id m)) then
          sbind (persistMissionTransition env sc m (mi_version m) ExecutionCommitted s3) (\<lambda>(m', s4). Inr (a, s4))
        else Inr (a, s3))
     else if \<not> retryable then
       sbind (persistMissionTransition env sc m (mi_version m) ExecutionNonRetryableFailure s3) (\<lambda>(m', s4).
         Inr (a, s4))
     else Inr (a, s3))))"

definition record_attempt ::
  "env \<Rightarrow> execution_context \<Rightarrow> string \<Rightarrow> transport_name \<Rightarrow> attempt_status \<Rightarrow> bool \<Rightarrow> attempt_error option \<Rightarrow>
   tenant \<Rightarrow> err + (attempt \<times> tenant)" where
  "record_attempt env c operationId transport status retryable error s =
     sbind (assertMissionExecutionContext c (pr_organizationId (xc_principal c)) (fe_missionId (xc_fence c))) (\<lambda>_.
     runFenced env (xc_fence c)
       (\<lambda>sc. record_attempt_work env sc c operationId transport status retryable error) s)"

section \<open>Reconciliation\<close>

datatype operation_resolution = FoundCommitted | RetrySameOperation | BudgetExhausted

definition polls_for_operation :: "tenant \<Rightarrow> string \<Rightarrow> operation_poll list" where
  "polls_for_operation s op = sort_key rp_sequence (filter (\<lambda>p. rp_operationId p = op) (tn_opPolls s))"

definition polls_insert :: "scope \<Rightarrow> operation_poll \<Rightarrow> tenant \<Rightarrow> err + tenant" where
  "polls_insert sc p s =
     sbind (operation_mutation_ok sc s (rp_operationId p)) (\<lambda>_.
     if list_ex (\<lambda>q. rp_operationId q = rp_operationId p \<and> rp_sequence q = rp_sequence p) (tn_opPolls s)
       then Inl (DatabaseConflictError ''reconciliation_polls_pk'')
     else Inr (s\<lparr> tn_opPolls := tn_opPolls s @ [p] \<rparr>))"

definition unresolved_application_attempts :: "tenant \<Rightarrow> string \<Rightarrow> attempt list" where
  "unresolved_application_attempts s op =
     filter (\<lambda>a. is_none (transport_dispatch (at_transport a)) \<and> at_status a = AtUnknown)
       (attempts_for_operation s op)"

definition resolve_reconciliation :: "operation \<Rightarrow> nat \<Rightarrow> operation_resolution" where
  "resolve_reconciliation x polls =
     (if op_status x = OpCommitted then FoundCommitted
      else if polls + 1 < cb_maxReconciliationPolls CARETAKER_BUDGETS then RetrySameOperation
      else BudgetExhausted)"

fun resolution_event :: "operation_resolution \<Rightarrow> mission_event_kind" where
  "resolution_event FoundCommitted = ReconcileCommitFound"
| "resolution_event RetrySameOperation = ReconcileAbsentRetryable"
| "resolution_event BudgetExhausted = ReconcileBudgetExhausted"

fun poll_resolution_of :: "operation_resolution \<Rightarrow> operation_poll_resolution" where
  "poll_resolution_of FoundCommitted = OpPollCommitted"
| "poll_resolution_of RetrySameOperation = OpPollDefinitelyAbsent"
| "poll_resolution_of BudgetExhausted = OpPollStillUnknown"

definition reconcile_operation ::
  "env \<Rightarrow> string \<Rightarrow> string \<Rightarrow> string \<Rightarrow> tenant \<Rightarrow> err + ((operation_resolution \<times> operation \<times> mission) \<times> tenant)" where
  "reconcile_operation env org operationId attemptId s =
     (if \<not> outbox_payload_ok (OperationReconciliationReference org operationId attemptId)
        then Inl (ZodError ''OperationReconciliationReference'')
      else sbind (assertTenant s org) (\<lambda>_.
      sbind (required (operation_get s operationId) (NotFoundError ''Operation'')) (\<lambda>x.
      sbind (required (mission_get s (op_missionId x)) (NotFoundError ''Mission'')) (\<lambda>m.
      sbind (assertSameTenant org [op_organizationId x, mi_organizationId m]) (\<lambda>_.
      if mi_state m \<noteq> mstate MRunning PhReconcile
        then Inl (ConflictError ''Mission is not at the reconciliation checkpoint'')
      else let polls = polls_for_operation s (op_id x) in
      case unresolved_application_attempts s (op_id x) of
        [a] \<Rightarrow>
          if at_id a \<noteq> attemptId
            then Inl (ConflictError ''Operation reconciliation requires its sole unresolved application attempt'')
          else (case at_completedAt a of
            None \<Rightarrow> Inl (ConflictError ''Operation reconciliation requires a completed unknown attempt'')
          | Some completedAt \<Rightarrow>
              let resolution = resolve_reconciliation x (length polls);
                  observedAt = max (read_clock env s) (completedAt + 1); s1 = tick s in
              sbind (polls_insert Unfenced \<lparr> rp_operationId = op_id x, rp_sequence = length polls + 1,
                rp_resolution = poll_resolution_of resolution, rp_occurredAt = observedAt \<rparr> s1) (\<lambda>s2.
              sbind (persistMissionTransition env Unfenced m (mi_version m) (resolution_event resolution) s2)
                (\<lambda>(m', s3). Inr ((resolution, x, m'), s3))))
      | _ \<Rightarrow> Inl (ConflictError
          ''Operation reconciliation requires its sole unresolved application attempt''))))))"

section \<open>What an activation did\<close>

text \<open>The records an activation reads: the plan, its action, its approval, the operation, the mission.\<close>

definition activation_chain ::
  "tenant \<Rightarrow> string \<Rightarrow> string \<Rightarrow> plan \<Rightarrow> plan_action \<Rightarrow> approval \<Rightarrow> operation \<Rightarrow> mission \<Rightarrow> bool" where
  "activation_chain s planId actionId p act a x m = (
     plan_get s planId = Some p \<and> find_action actionId p = Some act \<and> findForPlan s (pl_id p) = Some a \<and>
     findByPlanAction s (pl_id p) (pa_id act) = Some x \<and> mission_get s (pl_missionId p) = Some m)"

lemma activate_work_Inr:
  assumes "activate_work env sc who planId actionId v tc loses s = Inr (r, s')"
  obtains p act a x m where "activation_chain s planId actionId p act a x m"
    "fence_authorizes who (pr_organizationId (activation_principal who)) (pl_missionId p)"
    "assertSameTenant (pr_organizationId (activation_principal who))
       [pl_organizationId p, ap_organizationId a, op_organizationId x, mi_organizationId m] = Inr ()"
    "op_payloadHash x \<noteq> payloadHashForExpectedVersion env p act v \<and>
       r = ActivationConflict x PayloadMismatchConflict \<and> s' = s \<or>
     op_payloadHash x = payloadHashForExpectedVersion env p act v \<and> op_status x = OpCommitted \<and>
       enqueueRoutineActivated x s = Inr () \<and> r = ActivationCommitted x True ResponseAcknowledged \<and> s' = s \<or>
     op_payloadHash x = payloadHashForExpectedVersion env p act v \<and> op_status x = OpPending \<and>
       activate_pending env sc who loses tc p act a x m s = Inr (r, s')"
proof -
  from assms obtain p act a x m where
    "plan_get s planId = Some p" "find_action actionId p = Some act" "findForPlan s (pl_id p) = Some a"
    "findByPlanAction s (pl_id p) (pa_id act) = Some x" "mission_get s (pl_missionId p) = Some m"
    by (auto simp: activate_work_def Let_def required_def result_simps split: option.split_asm if_split_asm)
  with assms that[of p act a x m] show thesis
    by (auto simp add: activate_work_def Let_def required_def result_simps activation_chain_def decideOperationReplay_def
        simp del: assertSameTenant_iff split: if_split_asm)
qed

lemma activate_work_chain:
  assumes "activation_chain s planId actionId p act a x m"
  shows "activate_work env sc who planId actionId v tc loses s =
    (if \<not> fence_authorizes who (pr_organizationId (activation_principal who)) (pl_missionId p)
       then Inl (ConflictError ''Mission fence does not authorize this activation'')
     else sbind (assertSameTenant (pr_organizationId (activation_principal who))
       [pl_organizationId p, ap_organizationId a, op_organizationId x, mi_organizationId m]) (\<lambda>_.
     if op_payloadHash x \<noteq> payloadHashForExpectedVersion env p act v
       then Inr (ActivationConflict x PayloadMismatchConflict, s)
     else if op_status x = OpCommitted then
       sbind (enqueueRoutineActivated x s) (\<lambda>_. Inr (ActivationCommitted x True ResponseAcknowledged, s))
     else if op_status x \<noteq> OpPending then Inl (ConflictError ''Operation cannot activate'')
     else activate_pending env sc who loses tc p act a x m s))"
  using assms by (simp add: activate_work_def Let_def activation_chain_def required_def decideOperationReplay_def)

lemma after_commit_Inr:
  assumes "after_commit env sc who loses tc m p x now s = Inr (r, s')"
  shows "\<exists>d. r = ActivationCommitted x False d"
  using assms by (auto simp: after_commit_def result_simps split: if_split_asm)

lemma activate_pending_committed:
  assumes "activate_pending env sc who loses tc p act a x m s = Inr (ActivationCommitted y b d, s')"
  obtains s2 where "ap_expiresAt a > read_clock env s" "assertApprovalAuthorizesPlan a p (read_clock env s) = Inr ()"
    "protectedStateIsCurrent (tick s) act" "\<not> b"
    "commit_operation env sc who p act x (read_clock env s) (tick s) = Inr (y, s2)"
    "after_commit env sc who loses tc m p y (read_clock env s) s2 = Inr (ActivationCommitted y False d, s')"
proof -
  from assms have e: "ap_expiresAt a > read_clock env s" "assertApprovalAuthorizesPlan a p (read_clock env s) = Inr ()"
    "protectedStateIsCurrent (tick s) act"
    by (auto simp: activate_pending_def Let_def result_simps split: if_split_asm)
  with assms obtain z s2 where c: "commit_operation env sc who p act x (read_clock env s) (tick s) = Inr (z, s2)"
    and f: "after_commit env sc who loses tc m p z (read_clock env s) s2 = Inr (ActivationCommitted y b d, s')"
    by (auto simp: activate_pending_def Let_def result_simps)
  from after_commit_Inr[OF f] have "z = y" "\<not> b" by auto
  with that e c f show thesis by auto
qed

lemma commit_operation_Inr:
  assumes "commit_operation env sc who p act x now s = Inr (y, s')"
  obtains out s1 s2 res where "applyApprovedAction env sc p act s = Inr (out, s1)"
    "y = committed_operation x out now" "operations_save sc y s1 = Inr s2"
    "materializeActivationExecution env sc y p act now (activation_authorization who) s2 = Inr (res, s')"
    "enqueueRoutineActivated y s' = Inr ()"
  using assms by (auto simp: commit_operation_def result_simps Let_def split: if_split_asm)

text \<open>The tables an activation reads its chain from, and those the event reads.\<close>

definition chain_tables :: "tenant \<Rightarrow> plan list \<times> approval list \<times> mission list \<times> operation list" where
  "chain_tables s = (tn_plans s, tn_approvals s, tn_missions s, tn_operations s)"

definition outcome_tables :: "tenant \<Rightarrow> routine list \<times> routine_version list \<times> stored_execution list" where
  "outcome_tables s = (tn_routines s, tn_versions s, tn_executions s)"

lemma applyApprovedAction_chain:
  assumes "applyApprovedAction env sc p act s = Inr (out, s')"
  shows "chain_tables s' = chain_tables s"
  using assms
proof (rule applyApprovedAction_Inr)
  fix stored
  assume a: "apply_action env stored act s = Inr (out, s')"
  have rep: "apply_replacement env stored r d s = Inr (out, s') \<Longrightarrow> chain_tables s' = chain_tables s" for r d
    by (auto simp: apply_replacement_def Let_def result_simps insert_routine_Inr chain_tables_def frame_simps
        set_active_version_def set_version_status_def dest!: insert_version_Inr split: if_split_asm)
  show ?thesis
  proof (cases act)
    case (RestoreRoutineVersion r)
    with a show ?thesis
      by (auto simp: apply_action_def apply_restore_def Let_def chain_tables_def set_active_version_def
          set_version_status_def split: option.split_asm if_split_asm)
  qed (use a rep in \<open>simp_all add: apply_action_def\<close>)
qed

lemma gateway_grows_tables:
  assumes "gateway_grows s s'"
  shows "chain_tables s' = chain_tables s \<and> outcome_tables s' = outcome_tables s"
proof -
  from assms have "outside_gateway s' = outside_gateway s" by (simp add: gateway_grows_def)
  from arg_cong[OF this, of chain_tables] arg_cong[OF this, of outcome_tables] show ?thesis
    by (simp add: chain_tables_def outcome_tables_def outside_gateway_def)
qed

lemma appendMany_tables:
  assumes "appendMany env sc ps s = Inr s'"
  shows "chain_tables s' = chain_tables s \<and> outcome_tables s' = outcome_tables s"
  using appendMany_frame[OF assms] by (auto simp: chain_tables_def outcome_tables_def)

lemma executions_insert_chain:
  assumes "executions_insert sc x s = Inr s'"
  shows "chain_tables s' = chain_tables s"
  using assms by (auto simp: executions_insert_def Let_def result_simps chain_tables_def split: if_split_asm option.split_asm)

lemma materializeActivation_chain:
  assumes "materializeActivationExecution env sc x p act t auth s = Inr (res, s')"
  shows "chain_tables s' = chain_tables s"
  using assms
proof (rule materializeActivation_Inr)
  fix out evs s1 planned s2 effects s3
  assume e: "appendMany env sc evs s = Inr s1"
    and c: "create_execution env sc x out act evs t auth s1 = Inr (am_execution res, s2)"
    and m: "materialize_planned env sc x p planned auth t s2 = Inr (effects, s3)"
    and d: "enqueueExecutionDeadline env sc (am_execution res) t s3 = Inr s'"
  from c have "chain_tables s2 = chain_tables (bump s1)"
    by (rule create_execution_Inr) (rule executions_insert_chain)
  moreover have "gateway_grows s3 s'"
    using d gateway_grows_trans[OF gateway_grows_bump outbox_insert_grows]
    by (auto simp: enqueueExecutionDeadline_def Let_def result_simps split: if_split_asm option.split_asm)
  moreover have "gateway_grows s1 (bump s1)" by (rule gateway_grows_bump)
  ultimately show ?thesis
    using appendMany_tables[OF e] materialize_planned_grows[OF m] gateway_grows_tables by metis
qed

lemma persistAttempt_tables:
  assumes "persistOperationAttempt sc x i tr st re err t s = Inr (a, s')"
  shows "chain_tables s' = chain_tables s \<and> outcome_tables s' = outcome_tables s"
  using assms attempts_insert_Inr
  by (fastforce simp: persistOperationAttempt_def Let_def result_simps chain_tables_def outcome_tables_def
      split: option.split_asm if_split_asm)

text \<open>Replacing the row a search found by one that still satisfies the search.\<close>

lemma find_upsert:
  assumes "find P xs = Some x" "distinct (List.map key xs)" "key y = key x" "P y"
  shows "find P (upsert key y xs) = Some y"
  using assms
proof (induction xs)
  case (Cons z zs)
  then show ?case
    using find_Some_in[of P zs x] by (cases "P z") (auto simp: image_iff)
qed simp

lemma persist_keeps_mission:
  assumes "persistMissionTransition env sc m v ev s = Inr (m', s')" "distinct (List.map mi_id (tn_missions s))"
    "mission_get s i = Some n"
  shows "\<exists>n'. mission_get s' i = Some n' \<and> mi_organizationId n' = mi_organizationId n"
  using assms(1)
proof (rule persistMissionTransition_Inr)
  fix cur e
  assume c: "cur \<in> set (tn_missions s)" "mi_id cur = mi_id m" and s': "s' = record_mission (mission_written cur m') e s"
  have "mission_get s (mi_id cur) = Some cur"
    using c(1) assms(2) by (simp add: mission_get_def lookup_by_eq_Some_distinct)
  with assms(3) show ?thesis
    by (auto simp: s' mission_get_def mission_written_def)
qed

lemma enqueueRoutineActivated_cong:
  "outcome_tables s' = outcome_tables s \<Longrightarrow> enqueueRoutineActivated x s' = enqueueRoutineActivated x s"
  using findForOperation_cong[of s' s]
  by (auto simp: enqueueRoutineActivated_def outcome_tables_def routines_get_def routine_get_def version_of_def
      split: option.split)

text \<open>What follows the commit leaves the chain's plans, approvals and operations and the outcome's tables.\<close>

lemma response_loss_tables:
  assumes "persistApplicationResponseLoss env sc m x tc t s = Inr (r, s')" "distinct (List.map mi_id (tn_missions s))"
    "mission_get s i = Some n"
  shows "tn_plans s' = tn_plans s \<and> tn_approvals s' = tn_approvals s \<and> tn_operations s' = tn_operations s \<and>
    outcome_tables s' = outcome_tables s \<and>
    (\<exists>n'. mission_get s' i = Some n' \<and> mi_organizationId n' = mi_organizationId n)"
proof -
  from assms(1) obtain a s2 e s5 m' s6 where
    a: "persistOperationAttempt sc x (fresh_id env IdAttempt s) WorkerTransport AtUnknown True (Some response_lost) t
        (bump s) = Inr (a, s2)"
    and e: "appendMany env sc [e] (bump (bump s2)) = Inr s5"
    and m: "persistMissionTransition env sc m (mi_version m) ExecutionUnknown s5 = Inr (m', s6)"
    and o': "enqueueOperationReconciliation env sc x a t s6 = Inr s'"
    by (auto simp: persistApplicationResponseLoss_def Let_def result_simps split: if_split_asm)
  have g: "gateway_grows s6 s'"
    using o' gateway_grows_trans[OF gateway_grows_bump outbox_insert_grows]
    by (auto simp: enqueueOperationReconciliation_def Let_def split: if_split_asm)
  note t1 = gateway_grows_tables[OF gateway_grows_bump, of s]
  note t2 = persistAttempt_tables[OF a]
  note t3 = gateway_grows_tables[OF gateway_grows_trans[OF gateway_grows_bump gateway_grows_bump], of s2]
  note t4 = appendMany_tables[OF e]
  have s5: "chain_tables s5 = chain_tables s" "outcome_tables s5 = outcome_tables s"
    using t1 t2 t3 t4 by simp_all
  then have "\<exists>n'. mission_get s6 i = Some n' \<and> mi_organizationId n' = mi_organizationId n"
    using assms(2,3) by (intro persist_keeps_mission[OF m]) (simp_all add: chain_tables_def mission_get_def)
  with s5 persist_frame[OF m] gateway_grows_tables[OF g] show ?thesis
    by (simp add: chain_tables_def outcome_tables_def mission_get_def)
qed

lemma after_commit_tables:
  assumes "after_commit env sc who loses tc m p x now s = Inr (r, s')" "distinct (List.map mi_id (tn_missions s))"
    "mission_get s i = Some n"
  shows "tn_plans s' = tn_plans s \<and> tn_approvals s' = tn_approvals s \<and> tn_operations s' = tn_operations s \<and>
    outcome_tables s' = outcome_tables s \<and>
    (\<exists>n'. mission_get s' i = Some n' \<and> mi_organizationId n' = mi_organizationId n)"
proof (cases "is_lease who \<and> loses")
  case True
  with assms(1) obtain res where "persistApplicationResponseLoss env sc m x tc now s = Inr (res, s')"
    by (auto simp: after_commit_def result_simps)
  from response_loss_tables[OF this assms(2,3)] show ?thesis .
next
  case no_loss: False
  show ?thesis
  proof (cases "plan_committed s m p")
    case True
    with no_loss assms(1) obtain m' where
      "persistMissionTransition env sc m (mi_version m) ExecutionCommitted s = Inr (m', s')"
      by (auto simp: after_commit_def result_simps)
    from persist_frame[OF this] persist_keeps_mission[OF this assms(2,3)] show ?thesis
      by (simp add: outcome_tables_def)
  next
    case False
    with no_loss assms show ?thesis by (auto simp: after_commit_def)
  qed
qed

lemma operations_save_found:
  assumes "operations_save sc y s = Inr s'" "distinct (List.map op_id (tn_operations s))"
    "findByPlanAction s p a = Some x" "y = committed_operation x out t"
  shows "findByPlanAction s' p a = Some y \<and> s' = s\<lparr> tn_operations := tn_operations s' \<rparr>"
  using assms(1)
proof (rule operations_save_Inr)
  fix cur
  assume c: "operation_get s (op_id y) = Some cur"
    and s': "s' = s\<lparr> tn_operations := upsert op_id (cur\<lparr> op_status := op_status y, op_outcome := op_outcome y,
       op_committedAt := op_committedAt y \<rparr>) (tn_operations s) \<rparr>"
  from assms(3) have x: "x \<in> set (tn_operations s)" "op_planId x = p" "op_planActionId x = a"
    unfolding findByPlanAction_def by (auto dest: find_Some_in)
  have "cur = x"
    using c x assms(2,4) by (simp add: operation_get_def lookup_by_eq_Some_distinct committed_operation_def)
      (auto simp: distinct_map inj_on_def)
  then have "s' = s\<lparr> tn_operations := upsert op_id y (tn_operations s) \<rparr>"
    unfolding s' by (simp add: assms(4) committed_operation_def)
  moreover have "findByPlanAction (s\<lparr> tn_operations := upsert op_id y (tn_operations s) \<rparr>) p a = Some y"
    using assms(3) find_upsert[OF _ assms(2), of "\<lambda>r. op_planId r = p \<and> op_planActionId r = a" x y] x
    by (simp add: findByPlanAction_def assms(4) committed_operation_def)
  ultimately show ?thesis by simp
qed

lemma commit_operation_chain:
  assumes "commit_operation env sc who p act x now s = Inr (y, s')" "distinct (List.map op_id (tn_operations s))"
    "findByPlanAction s pid a = Some x"
  shows "tn_plans s' = tn_plans s \<and> tn_approvals s' = tn_approvals s \<and> tn_missions s' = tn_missions s \<and>
    findByPlanAction s' pid a = Some y \<and> op_status y = OpCommitted \<and> op_payloadHash y = op_payloadHash x \<and>
    op_organizationId y = op_organizationId x \<and> enqueueRoutineActivated y s' = Inr ()"
  using assms(1)
proof (rule commit_operation_Inr)
  fix out s1 s2 res
  assume ap: "applyApprovedAction env sc p act s = Inr (out, s1)" and y: "y = committed_operation x out now"
    and sv: "operations_save sc y s1 = Inr s2"
    and m: "materializeActivationExecution env sc y p act now (activation_authorization who) s2 = Inr (res, s')"
    and e: "enqueueRoutineActivated y s' = Inr ()"
  have c1: "chain_tables s1 = chain_tables s" by (rule applyApprovedAction_chain[OF ap])
  with assms(2,3) operations_save_found[OF sv _ _ y, of pid a]
  have "findByPlanAction s2 pid a = Some y" "s2 = s1\<lparr> tn_operations := tn_operations s2 \<rparr>"
    by (simp_all add: chain_tables_def findByPlanAction_def)
  moreover from this(2) have "tn_plans s2 = tn_plans s1 \<and> tn_approvals s2 = tn_approvals s1 \<and> tn_missions s2 = tn_missions s1"
    by (metis tenant.select_convs tenant.update_convs(11) tenant.surjective)
  ultimately show ?thesis
    using c1 materializeActivation_chain[OF m] e
    by (simp add: y chain_tables_def findByPlanAction_def committed_operation_def)
qed

section \<open>Properties\<close>

text \<open> C36. A routine activation commits an operation only as the server-created pending operation of that plan
  action, requested with the digest it was approved with, under an approval of the plan that is approved, unexpired
  and bound to the plan's hash and actions, and only while the protected routine is still at the version the action
  names; what is committed is that operation with its outcome and the time of the activation.\<close>

theorem activations_commit_under_current_approval:
  assumes "activate_work env sc who planId actionId v tc loses s = Inr (ActivationCommitted y False d, s')"
  shows "\<exists>p act a x m out. activation_chain s planId actionId p act a x m \<and>
    op_status x = OpPending \<and> op_payloadHash x = payloadHashForExpectedVersion env p act v \<and>
    assertApprovalAuthorizesPlan a p (read_clock env s) = Inr () \<and> read_clock env s < ap_expiresAt a \<and>
    protectedStateIsCurrent s act \<and> y = committed_operation x out (read_clock env s)"
  using assms
proof (rule activate_work_Inr)
  fix p act a x m
  assume c: "activation_chain s planId actionId p act a x m"
    and r: "op_payloadHash x \<noteq> payloadHashForExpectedVersion env p act v \<and>
       ActivationCommitted y False d = ActivationConflict x PayloadMismatchConflict \<and> s' = s \<or>
     op_payloadHash x = payloadHashForExpectedVersion env p act v \<and> op_status x = OpCommitted \<and>
       enqueueRoutineActivated x s = Inr () \<and>
       ActivationCommitted y False d = ActivationCommitted x True ResponseAcknowledged \<and> s' = s \<or>
     op_payloadHash x = payloadHashForExpectedVersion env p act v \<and> op_status x = OpPending \<and>
       activate_pending env sc who loses tc p act a x m s = Inr (ActivationCommitted y False d, s')"
  from r have h: "op_payloadHash x = payloadHashForExpectedVersion env p act v" "op_status x = OpPending"
    and ap: "activate_pending env sc who loses tc p act a x m s = Inr (ActivationCommitted y False d, s')" by auto
  from ap show ?thesis
  proof (rule activate_pending_committed)
    fix s2
    assume k: "ap_expiresAt a > read_clock env s" "assertApprovalAuthorizesPlan a p (read_clock env s) = Inr ()"
      "protectedStateIsCurrent (tick s) act"
      and co: "commit_operation env sc who p act x (read_clock env s) (tick s) = Inr (y, s2)"
    from co obtain out where "y = committed_operation x out (read_clock env s)" by (rule commit_operation_Inr)
    moreover have "protectedStateIsCurrent s act"
      using k(3) by (simp add: protectedStateIsCurrent_def getCurrentVersion_def routine_get_def version_of_def tick_def
          cong: option.case_cong plan_action.case_cong)
    ultimately show ?thesis using c h k(1,2) by blast
  qed
qed

text \<open> C37. An activation is idempotent: once it committed an operation, the same request, whatever became of its
  response, answers with the very operation that was committed, marked as a replay, and changes nothing.\<close>

theorem committed_activations_replay:
  assumes "activate_work env sc who planId actionId v tc loses s = Inr (ActivationCommitted y False d, s')"
    and "distinct (List.map op_id (tn_operations s))" "distinct (List.map mi_id (tn_missions s))"
  shows "activate_work env sc' who planId actionId v tc' loses' s' =
    Inr (ActivationCommitted y True ResponseAcknowledged, s')"
  using assms(1)
proof (rule activate_work_Inr)
  fix p act a x m
  assume c: "activation_chain s planId actionId p act a x m"
    and g: "fence_authorizes who (pr_organizationId (activation_principal who)) (pl_missionId p)"
      "assertSameTenant (pr_organizationId (activation_principal who))
       [pl_organizationId p, ap_organizationId a, op_organizationId x, mi_organizationId m] = Inr ()"
    and r: "op_payloadHash x \<noteq> payloadHashForExpectedVersion env p act v \<and>
       ActivationCommitted y False d = ActivationConflict x PayloadMismatchConflict \<and> s' = s \<or>
     op_payloadHash x = payloadHashForExpectedVersion env p act v \<and> op_status x = OpCommitted \<and>
       enqueueRoutineActivated x s = Inr () \<and>
       ActivationCommitted y False d = ActivationCommitted x True ResponseAcknowledged \<and> s' = s \<or>
     op_payloadHash x = payloadHashForExpectedVersion env p act v \<and> op_status x = OpPending \<and>
       activate_pending env sc who loses tc p act a x m s = Inr (ActivationCommitted y False d, s')"
  from r have h: "op_payloadHash x = payloadHashForExpectedVersion env p act v"
    and ap: "activate_pending env sc who loses tc p act a x m s = Inr (ActivationCommitted y False d, s')" by auto
  from ap show ?thesis
  proof (rule activate_pending_committed)
    fix s2
    assume co: "commit_operation env sc who p act x (read_clock env s) (tick s) = Inr (y, s2)"
      and af: "after_commit env sc who loses tc m p y (read_clock env s) s2 = Inr (ActivationCommitted y False d, s')"
    from c have "findByPlanAction (tick s) (pl_id p) (pa_id act) = Some x"
      by (simp add: activation_chain_def findByPlanAction_def tick_def)
    from commit_operation_chain[OF co _ this] assms(2)
    have k: "tn_plans s2 = tn_plans s" "tn_approvals s2 = tn_approvals s" "tn_missions s2 = tn_missions s"
      "findByPlanAction s2 (pl_id p) (pa_id act) = Some y" "op_status y = OpCommitted" "op_payloadHash y = op_payloadHash x"
      "op_organizationId y = op_organizationId x" "enqueueRoutineActivated y s2 = Inr ()"
      by (simp_all add: tick_def)
    from c k have "mission_get s2 (pl_missionId p) = Some m" by (simp add: activation_chain_def mission_get_def)
    from after_commit_tables[OF af _ this] assms(3) k
    obtain n where f: "tn_plans s' = tn_plans s" "tn_approvals s' = tn_approvals s" "tn_operations s' = tn_operations s2"
      "outcome_tables s' = outcome_tables s2" "mission_get s' (pl_missionId p) = Some n"
      "mi_organizationId n = mi_organizationId m"
      by auto
    from c k f have "activation_chain s' planId actionId p act a y n"
      by (simp add: activation_chain_def plan_get_def findForPlan_def findByPlanAction_def)
    moreover have "assertSameTenant (pr_organizationId (activation_principal who))
       [pl_organizationId p, ap_organizationId a, op_organizationId y, mi_organizationId n] = Inr ()"
      using g(2) k(7) f(6) by simp
    ultimately show ?thesis
      using g(1) h k(5,6,8) enqueueRoutineActivated_cong[OF f(4)]
      by (simp add: activate_work_chain del: assertSameTenant_iff)
  qed
qed

text \<open>An approval that lapsed after it was granted blocks its operation for good: when the approval of a pending
  operation expired or its protected routine moved on, the activation always throws, because closing the approval is a
  change from approved to expired or invalidated, which the store's transition guard refuses.\<close>

theorem lapsed_approvals_never_close:
  assumes "activation_chain s planId actionId p act a x m" "distinct (List.map ap_id (tn_approvals s))"
    and "ap_status a = ApprovalApproved" "op_status x = OpPending"
    and "op_payloadHash x = payloadHashForExpectedVersion env p act v"
    and "ap_expiresAt a \<le> read_clock env s \<or> \<not> protectedStateIsCurrent s act"
  shows "\<exists>err. activate_work env sc who planId actionId v tc loses s = Inl err"
proof -
  have "findForPlan s (pl_id p) = Some a" using assms(1) by (simp add: activation_chain_def)
  then have "a \<in> set (tn_approvals s)"
    unfolding findForPlan_def by (drule_tac find_Some_in) simp
  then have a: "approval_get (tick s) (ap_id a) = Some a"
    using assms(2) by (simp add: approval_get_def lookup_by_eq_Some_distinct tick_def)
  have save: "\<exists>e. approvals_save sc (lapsed_approval a c) (tick s) = Inl e" for c
  proof (cases "approvals_save sc (lapsed_approval a c) (tick s)")
    case (Inr s1)
    then show ?thesis
      by (rule approvals_save_Inr)
        (use a assms(3) in \<open>auto simp: lapsed_approval_def approval_status_change_def split: if_split_asm\<close>)
  qed simp
  have "\<exists>e. invalidateBeforeActivation env sc a p x m c (tick s) = Inl e" for c
    using save[of c] by (auto simp: invalidateBeforeActivation_def)
  then have inv: "\<exists>e. sbind (invalidateBeforeActivation env sc a p x m c (tick s)) f = Inl e" for c and f :: "_ \<Rightarrow> err + (activation_result \<times> tenant)"
    by (metis sbind_Inl)
  have "protectedStateIsCurrent (tick s) act = protectedStateIsCurrent s act"
    by (simp add: protectedStateIsCurrent_def getCurrentVersion_def routine_get_def version_of_def tick_def
          cong: option.case_cong plan_action.case_cong)
  with assms(6) inv have "\<exists>e. activate_pending env sc who loses tc p act a x m s = Inl e"
    by (cases "assertApprovalAuthorizesPlan a p (read_clock env s)") (auto simp: activate_pending_def Let_def)
  then show ?thesis
    unfolding activate_work_chain[OF assms(1)] using assms(4,5)
    by (cases "assertSameTenant (pr_organizationId (activation_principal who))
       [pl_organizationId p, ap_organizationId a, op_organizationId x, mi_organizationId m]")
      (auto simp del: assertSameTenant_iff)
qed

text \<open>The number of unresolved attempts, whatever their order.\<close>

lemma unresolved_length:
  "length (unresolved_application_attempts s op) = length (filter (\<lambda>a. at_operationId a = op \<and>
     transport_dispatch (at_transport a) = None \<and> at_status a = AtUnknown) (tn_attempts s))"
proof -
  have "length (filter Q (sort_key at_sequence ys)) = length (filter Q ys)" for Q and ys :: "attempt list"
    by (metis mset_filter mset_sort size_mset)
  then show ?thesis by (simp add: unresolved_application_attempts_def attempts_for_operation_def conj_commute)
qed

lemma record_unknown_attempt:
  assumes "record_attempt_work env sc c op tr AtUnknown b e s = Inr (a, s')"
  shows "tn_attempts s' = tn_attempts s @ [a] \<and> at_operationId a = op \<and> at_status a = AtUnknown \<and>
    transport_dispatch (at_transport a) = None"
proof -
  let ?s2 = "bump (tick s)" and ?i = "fresh_id env IdAttempt (tick s)"
  from assms obtain x s3 where x: "operation_get s op = Some x"
    and p: "persistOperationAttempt sc x ?i tr AtUnknown b e (read_clock env s) ?s2 = Inr (a, s3)"
    and after: "tn_attempts s' = tn_attempts s3"
  proof -
    from assms obtain x where x: "operation_get s op = Some x" "op_missionId x = fe_missionId (xc_fence c)" "id_ok ''att'' ?i"
      by (auto simp: record_attempt_work_def Let_def required_def result_simps split: option.split_asm if_split_asm)
    with assms obtain s3 where p: "persistOperationAttempt sc x ?i tr AtUnknown b e (read_clock env s) ?s2 = Inr (a, s3)"
      by (auto simp: record_attempt_work_def Let_def required_def result_simps split: option.split_asm if_split_asm)
    with assms x obtain m where m: "mission_get s3 (op_missionId x) = Some m"
      by (cases "mission_get s3 (op_missionId x)") (simp_all add: record_attempt_work_def Let_def required_def)
    have "tn_attempts s' = tn_attempts s3"
    proof (cases "mi_state m = mstate MRunning PhExecute")
      case True
      with assms x p m obtain m' s4 where t: "persistMissionTransition env sc m (mi_version m) ExecutionUnknown s3 = Inr (m', s4)"
        and r: "enqueueOperationReconciliation env sc x a (read_clock env s) s4 = Inr s'"
        by (auto simp: record_attempt_work_def Let_def required_def result_simps)
      have "gateway_grows s4 s'"
        using r gateway_grows_trans[OF gateway_grows_bump outbox_insert_grows]
        by (auto simp: enqueueOperationReconciliation_def Let_def split: if_split_asm)
      from gateway_grows_sel(8)[OF this] persist_frame[OF t] show ?thesis by simp
    next
      case False
      with assms x p m show ?thesis by (simp add: record_attempt_work_def Let_def required_def)
    qed
    with that x(1) p show thesis by blast
  qed
  have "op_id x = op" using x unfolding operation_get_def by (auto dest: lookup_by_SomeD)
  moreover have "transport_dispatch t = None" if "transport_of tr = Some t" for t
    using that by (cases tr) auto
  ultimately show ?thesis
    using p after attempts_insert_Inr
    by (fastforce simp: persistOperationAttempt_def Let_def result_simps tick_def bump_def
        split: option.split_asm if_split_asm)
qed

text \<open>A second unknown attempt ends reconciliation: when an operation that already has an unresolved application
  attempt records another attempt of unknown outcome, no reconciliation of the operation ever succeeds again, however
  many attempts follow, since recorded attempts are never resolved and reconciliation demands a single unresolved
  one.\<close>

theorem second_unknown_attempt_blocks_reconciliation:
  assumes "unresolved_application_attempts s op \<noteq> []"
    and "record_attempt_work env sc c op tr AtUnknown b e s = Inr (a, s')"
    and "tn_attempts s'' = tn_attempts s' @ later"
  shows "\<exists>err. reconcile_operation env' org op att s'' = Inl err"
proof -
  note r = record_unknown_attempt[OF assms(2)]
  have "length (unresolved_application_attempts s op) > 0" using assms(1) by simp
  then have n: "length (unresolved_application_attempts s'' op) > 1"
    using r assms(3) by (simp add: unresolved_length)
  show ?thesis
  proof (cases "reconcile_operation env' org op att s''")
    case (Inr r)
    then obtain x where "operation_get s'' op = Some x" "length (unresolved_application_attempts s'' (op_id x)) = 1"
      by (auto simp: reconcile_operation_def required_def Let_def result_simps
          split: if_split_asm option.split_asm list.split_asm)
    moreover from this(1) have "op_id x = op" unfolding operation_get_def by (auto dest: lookup_by_SomeD)
    ultimately show ?thesis using n by simp
  qed simp
qed

text \<open>Reconciliation of an operation is bounded: every successful poll adds exactly one to the operation's recorded
  polls, and a poll that asks for another attempt leaves fewer recorded polls than the budget allows, so that at most the
  budget's number of polls can end without either the commit or exhaustion.\<close>

theorem operation_reconciliation_is_bounded:
  assumes "reconcile_operation env org op att s = Inr ((res, x, m), s')"
  shows "length (polls_for_operation s' op) = Suc (length (polls_for_operation s op)) \<and>
    (res = RetrySameOperation \<longrightarrow>
       length (polls_for_operation s' op) < cb_maxReconciliationPolls CARETAKER_BUDGETS) \<and>
    (res = FoundCommitted \<longleftrightarrow> op_status x = OpCommitted) \<and> operation_get s op = Some x \<and>
    tn_operations s' = tn_operations s"
proof -
  from assms obtain m0 a t where x: "operation_get s op = Some x" and m0: "mission_get s (op_missionId x) = Some m0"
    and a: "unresolved_application_attempts s (op_id x) = [a]" "at_completedAt a = Some t"
    by (auto simp: reconcile_operation_def required_def Let_def result_simps
        split: if_split_asm option.split_asm list.split_asm)
  have op: "op_id x = op" using x unfolding operation_get_def by (auto dest: lookup_by_SomeD)
  from assms x m0 a op obtain s2 q where res: "res = resolve_reconciliation x (length (polls_for_operation s op))"
    and q: "polls_insert Unfenced q (tick s) = Inr s2" "rp_operationId q = op"
    and p: "persistMissionTransition env Unfenced m0 (mi_version m0) (resolution_event res) s2 = Inr (m, s')"
    by (auto simp: reconcile_operation_def required_def Let_def result_simps split: if_split_asm)
  from q have "tn_opPolls s2 = tn_opPolls s @ [q]" "tn_operations s2 = tn_operations s"
    by (auto simp: polls_insert_def result_simps tick_def split: if_split_asm)
  with persist_frame[OF p] q(2) have "length (polls_for_operation s' op) = Suc (length (polls_for_operation s op))"
    "tn_operations s' = tn_operations s"
    by (simp_all add: polls_for_operation_def)
  then show ?thesis
    using x res by (auto simp: resolve_reconciliation_def split: if_split_asm)
qed

section \<open>A concrete operation\<close>

definition ex_pending :: operation where
  "ex_pending = ex_operation\<lparr> op_status := OpPending, op_outcome := None, op_committedAt := None \<rparr>"

definition ex_activating :: tenant where
  "ex_activating = ex_ready_tenant\<lparr> tn_reads := 0, tn_operations := [ex_pending],
     tn_routines := [ex_routine ''rtn_aaaaaaaa'' (Some ''rtv_aaaaaaaa'') 0],
     tn_versions := [ex_version ''rtv_aaaaaaaa'' ''rtn_aaaaaaaa'' RoutineActive None 0] \<rparr>"

lemma ex_activation_begins:
  "activation_chain ex_activating ''pln_aaaaaaaa'' ''act_aaaaaaaa'' ex_plan ex_action ex_approval ex_pending
     (hd (tn_missions ex_activating))"
  "op_payloadHash ex_pending = payloadHashForExpectedVersion ex_planner_env ex_plan ex_action 1"
  "assertApprovalAuthorizesPlan ex_approval ex_plan 40 = Inr ()" "protectedStateIsCurrent (tick ex_activating) ex_action"
  "read_clock ex_planner_env ex_activating = 40" "ap_expiresAt ex_approval = 900000"
  by code_simp+

lemma ex_activation_applies:
  "case applyApprovedAction ex_planner_env Unfenced ex_plan ex_action (tick ex_activating) of
     Inl _ \<Rightarrow> False | Inr (out, s1) \<Rightarrow> committed_operation ex_pending out 40 = ex_committed \<and>
       operation_ok ex_committed \<and> operations_save Unfenced ex_committed s1 = Inr ex_ready_tenant"
  by code_simp

lemma ex_activation_ends:
  "\<exists>effects s3 s4 s5. materialize_planned ex_planner_env Unfenced ex_committed ex_plan [ex_preheat] ManualAuthorization 40
       ex_executing = Inr (effects, s3) \<and>
     enqueueExecutionDeadline ex_planner_env Unfenced ex_homecoming_execution 40 s3 = Inr s4 \<and>
     enqueueRoutineActivated ex_committed s4 = Inr () \<and>
     after_commit ex_planner_env Unfenced (ManualActivation ex_session) False [] (hd (tn_missions ex_activating)) ex_plan
       ex_committed 40 s4 = Inr (ActivationCommitted ex_committed False ResponseAcknowledged, s5)"
proof -
  have "case materialize_planned ex_planner_env Unfenced ex_committed ex_plan [ex_preheat] ManualAuthorization 40
       ex_executing of Inl _ \<Rightarrow> False | Inr (effects, s3) \<Rightarrow>
     (case enqueueExecutionDeadline ex_planner_env Unfenced ex_homecoming_execution 40 s3 of Inl _ \<Rightarrow> False | Inr s4 \<Rightarrow>
       enqueueRoutineActivated ex_committed s4 = Inr () \<and>
       (case after_commit ex_planner_env Unfenced (ManualActivation ex_session) False [] (hd (tn_missions ex_activating))
          ex_plan ex_committed 40 s4 of Inl _ \<Rightarrow> False
        | Inr (r, s5) \<Rightarrow> r = ActivationCommitted ex_committed False ResponseAcknowledged))"
    by code_simp
  then show ?thesis unfolding case_Inr_iff by (auto simp del: materialize_planned.simps simp: case_Inr_iff)
qed

lemma ex_activates:
  "\<exists>s'. activate_work ex_planner_env Unfenced (ManualActivation ex_session) ''pln_aaaaaaaa'' ''act_aaaaaaaa'' 1 [] False
     ex_activating = Inr (ActivationCommitted ex_committed False ResponseAcknowledged, s')"
proof -
  obtain effects s3 s4 s5 where e: "materialize_planned ex_planner_env Unfenced ex_committed ex_plan [ex_preheat]
       ManualAuthorization 40 ex_executing = Inr (effects, s3)"
    "enqueueExecutionDeadline ex_planner_env Unfenced ex_homecoming_execution 40 s3 = Inr s4"
    "enqueueRoutineActivated ex_committed s4 = Inr ()"
    "after_commit ex_planner_env Unfenced (ManualActivation ex_session) False [] (hd (tn_missions ex_activating)) ex_plan
       ex_committed 40 s4 = Inr (ActivationCommitted ex_committed False ResponseAcknowledged, s5)"
    using ex_activation_ends by blast
  from ex_activation_materializes_to[OF e(1,2)] obtain res where
    m: "materializeActivationExecution ex_planner_env Unfenced ex_committed ex_plan ex_action 40 ManualAuthorization
      ex_ready_tenant = Inr (res, s4)" by blast
  have "commit_operation ex_planner_env Unfenced (ManualActivation ex_session) ex_plan ex_action ex_pending 40
      (tick ex_activating) = Inr (ex_committed, s4)"
    using ex_activation_applies m e(3) unfolding case_Inr_iff by (auto simp: commit_operation_def Let_def)
  then have "activate_pending ex_planner_env Unfenced (ManualActivation ex_session) False [] ex_plan ex_action ex_approval
      ex_pending (hd (tn_missions ex_activating)) ex_activating =
      Inr (ActivationCommitted ex_committed False ResponseAcknowledged, s5)"
    using ex_activation_begins e(4) by (simp add: activate_pending_def)
  moreover have "op_status ex_pending = OpPending" "assertSameTenant (pr_organizationId (activation_principal
      (ManualActivation ex_session))) [pl_organizationId ex_plan, ap_organizationId ex_approval,
      op_organizationId ex_pending, mi_organizationId (hd (tn_missions ex_activating))] = Inr ()"
    by code_simp+
  ultimately show ?thesis
    unfolding activate_work_chain[OF ex_activation_begins(1)] using ex_activation_begins(2)
    by (simp del: assertSameTenant_iff)
qed

theorem activations_commit_under_current_approval_witness:
  "\<exists>p act a x m out. activation_chain ex_activating ''pln_aaaaaaaa'' ''act_aaaaaaaa'' p act a x m \<and>
     assertApprovalAuthorizesPlan a p 40 = Inr () \<and> ex_committed = committed_operation x out 40"
proof -
  obtain s' where "activate_work ex_planner_env Unfenced (ManualActivation ex_session) ''pln_aaaaaaaa'' ''act_aaaaaaaa'' 1
     [] False ex_activating = Inr (ActivationCommitted ex_committed False ResponseAcknowledged, s')" using ex_activates by blast
  from activations_commit_under_current_approval[OF this] show ?thesis unfolding ex_activation_begins(5) by blast
qed

theorem committed_activations_replay_witness:
  "\<exists>s'. activate_work ex_planner_env Unfenced (ManualActivation ex_session) ''pln_aaaaaaaa'' ''act_aaaaaaaa'' 1 [] False
       ex_activating = Inr (ActivationCommitted ex_committed False ResponseAcknowledged, s') \<and>
     activate_work ex_planner_env Unfenced (ManualActivation ex_session) ''pln_aaaaaaaa'' ''act_aaaaaaaa'' 1 [] False s' =
       Inr (ActivationCommitted ex_committed True ResponseAcknowledged, s')"
proof -
  obtain s' where a: "activate_work ex_planner_env Unfenced (ManualActivation ex_session) ''pln_aaaaaaaa'' ''act_aaaaaaaa'' 1
     [] False ex_activating = Inr (ActivationCommitted ex_committed False ResponseAcknowledged, s')" using ex_activates by blast
  from committed_activations_replay[OF this] a show ?thesis by (auto simp: ex_activating_def ex_ready_tenant_def)
qed

text \<open>The protected routine was replaced after the approval.\<close>

theorem lapsed_approvals_never_close_witness:
  "\<exists>err. activate_work ex_planner_env Unfenced (ManualActivation ex_session) ''pln_aaaaaaaa'' ''act_aaaaaaaa'' 1 [] False
     (ex_ready_tenant\<lparr> tn_operations := [ex_pending] \<rparr>) = Inl err"
proof (rule lapsed_approvals_never_close)
  show "activation_chain (ex_ready_tenant\<lparr> tn_operations := [ex_pending] \<rparr>) ''pln_aaaaaaaa'' ''act_aaaaaaaa'' ex_plan
    ex_action ex_approval ex_pending (hd (tn_missions ex_activating))" by code_simp
  show "distinct (List.map ap_id (tn_approvals (ex_ready_tenant\<lparr> tn_operations := [ex_pending] \<rparr>)))" by code_simp
  show "ap_status ex_approval = ApprovalApproved" "op_status ex_pending = OpPending" by code_simp+
  show "op_payloadHash ex_pending = payloadHashForExpectedVersion ex_planner_env ex_plan ex_action 1" by code_simp
  show "ap_expiresAt ex_approval \<le> read_clock ex_planner_env (ex_ready_tenant\<lparr> tn_operations := [ex_pending] \<rparr>) \<or>
    \<not> protectedStateIsCurrent (ex_ready_tenant\<lparr> tn_operations := [ex_pending] \<rparr>) ex_action" by code_simp
qed

definition ex_unknown_attempt :: attempt where
  "ex_unknown_attempt = \<lparr> at_id = ''att_aaaaaaaa'', at_organizationId = ''org_aaaaaaaa'',
     at_operationId = ''op_aaaaaaaa'', at_sequence = 1, at_transport = ViaWorker, at_status = AtUnknown,
     at_retryable = True, at_error = Some response_lost, at_startedAt = 30, at_completedAt = Some 30 \<rparr>"

definition ex_worker_context :: execution_context where
  "ex_worker_context = \<lparr> xc_fence = ex_fence ex_owner_a 1, xc_aborted = False,
     xc_principal = sc_principal ex_session \<rparr>"

theorem second_unknown_attempt_blocks_reconciliation_witness:
  "\<exists>a s' err. record_attempt_work ex_planner_env Unfenced ex_worker_context ''op_aaaaaaaa'' HttpTransport AtUnknown True
       (Some response_lost) (ex_activating\<lparr> tn_attempts := [ex_unknown_attempt] \<rparr>) = Inr (a, s') \<and>
     reconcile_operation ex_planner_env ''org_aaaaaaaa'' ''op_aaaaaaaa'' (at_id a) s' = Inl err"
proof -
  let ?s = "ex_activating\<lparr> tn_attempts := [ex_unknown_attempt] \<rparr>"
  have "case record_attempt_work ex_planner_env Unfenced ex_worker_context ''op_aaaaaaaa'' HttpTransport AtUnknown True
       (Some response_lost) ?s of Inl _ \<Rightarrow> False | Inr (a, s') \<Rightarrow> True" by code_simp
  then obtain a s' where r: "record_attempt_work ex_planner_env Unfenced ex_worker_context ''op_aaaaaaaa'' HttpTransport
      AtUnknown True (Some response_lost) ?s = Inr (a, s')" unfolding case_Inr_iff by auto
  have "unresolved_application_attempts ?s ''op_aaaaaaaa'' \<noteq> []" by code_simp
  from second_unknown_attempt_blocks_reconciliation[OF this r, of s' "[]"] r show ?thesis by auto
qed

theorem operation_reconciliation_is_bounded_witness:
  "\<exists>x m s'. reconcile_operation ex_planner_env ''org_aaaaaaaa'' ''op_aaaaaaaa'' ''att_aaaaaaaa''
       (ex_activating\<lparr> tn_attempts := [ex_unknown_attempt],
          tn_missions := [ex_mission\<lparr> mi_state := mstate MRunning PhReconcile, mi_version := 6 \<rparr>] \<rparr>) =
       Inr ((RetrySameOperation, x, m), s') \<and> length (polls_for_operation s' ''op_aaaaaaaa'') < 3"
proof -
  let ?s = "ex_activating\<lparr> tn_attempts := [ex_unknown_attempt],
          tn_missions := [ex_mission\<lparr> mi_state := mstate MRunning PhReconcile, mi_version := 6 \<rparr>] \<rparr>"
  have "case reconcile_operation ex_planner_env ''org_aaaaaaaa'' ''op_aaaaaaaa'' ''att_aaaaaaaa'' ?s of Inl _ \<Rightarrow> False
     | Inr ((r, x, m), s') \<Rightarrow> r = RetrySameOperation" by code_simp
  then obtain x m s' where "reconcile_operation ex_planner_env ''org_aaaaaaaa'' ''op_aaaaaaaa'' ''att_aaaaaaaa'' ?s =
    Inr ((RetrySameOperation, x, m), s')" unfolding case_Inr_iff by auto
  from operation_reconciliation_is_bounded[OF this] this show ?thesis by (auto simp: CARETAKER_BUDGETS_def)
qed

end
