(* ===== verification/Gateway_Cancellation.thy ===== *)
theory Gateway_Cancellation
  imports Gateway_Protocol
begin

text \<open>
  The effect of \<^theory_text>\<open>cancelPendingForMission\<close> on the commands of a mission: what holds
  of a cancelled, a preserved and a reconciled command in the final state, proved
  along the loop with a frame that says which keys the rest of the loop may touch.
\<close>

section \<open>What a cancellation leaves\<close>

definition dispatch_queued :: "tenant \<Rightarrow> string \<Rightarrow> nat \<Rightarrow> bool" where
  "dispatch_queued s c g = list_ex (\<lambda>m. ob_topic m = TopicGatewayDispatch \<and>
     List.member [OutPending, OutClaimed] (ob_status m) \<and>
     (case ob_payload m of GatewayReference _ _ c' g' \<Rightarrow> c' = c \<and> g' = g | _ \<Rightarrow> False)) (tn_outbox s)"

definition cancelled_effect :: "instant \<Rightarrow> tenant \<Rightarrow> string \<Rightarrow> bool" where
  "cancelled_effect t s' c = (case current_dispatch s' c of None \<Rightarrow> False
     | Some d \<Rightarrow> dp_status d = DispatchCancelled t \<and> \<not> dispatch_queued s' c (dp_generation d))"

definition preserved_effect :: "tenant \<Rightarrow> tenant \<Rightarrow> string \<Rightarrow> bool" where
  "preserved_effect s s' c = ((case effect_get s c of None \<Rightarrow> False
     | Some e \<Rightarrow> er_cancellationPolicy e = MandatoryRelock \<or> effect_terminal e) \<and>
     effect_get s' c = effect_get s c \<and> current_dispatch s' c = current_dispatch s c)"

definition reconciled_effect :: "tenant \<Rightarrow> string \<Rightarrow> bool" where
  "reconciled_effect s' c = (case effect_get s' c of None \<Rightarrow> False | Some e \<Rightarrow> er_cancellationRequestedAt e \<noteq> None)"

definition cancellation_agrees :: "instant \<Rightarrow> tenant \<Rightarrow> pending_cancellation \<Rightarrow> tenant \<Rightarrow> bool" where
  "cancellation_agrees t s r s' = (list_all (cancelled_effect t s') (cx_cancelled r) \<and>
     list_all (preserved_effect s s') (cx_preserved r) \<and> list_all (reconciled_effect s') (cx_reconciliation r))"

text \<open>What the cancellation of later effects keeps.\<close>

definition cancel_frame :: "string set \<Rightarrow> tenant \<Rightarrow> tenant \<Rightarrow> bool" where
  "cancel_frame K s s' = ((\<forall>c. c \<notin> K \<longrightarrow> current_dispatch s' c = current_dispatch s c \<and> effect_get s' c = effect_get s c) \<and>
     (\<forall>c g. dispatch_queued s' c g \<longrightarrow> dispatch_queued s c g))"

lemma cancel_frame_trans: "cancel_frame A s s1 \<Longrightarrow> cancel_frame B s1 s' \<Longrightarrow> cancel_frame (A \<union> B) s s'"
  by (simp add: cancel_frame_def)

lemma withdraw_dispatch_messages_queued:
  "dispatch_queued (withdraw_dispatch_messages c g s) c' g' \<longleftrightarrow> dispatch_queued s c' g' \<and> (c', g') \<noteq> (c, g)"
proof -
  have "(ob_topic (withdraw_message c g m) = TopicGatewayDispatch \<and>
      List.member [OutPending, OutClaimed] (ob_status (withdraw_message c g m)) \<and>
      (case ob_payload (withdraw_message c g m) of GatewayReference _ _ x y \<Rightarrow> x = c' \<and> y = g' | _ \<Rightarrow> False)) \<longleftrightarrow>
    (ob_topic m = TopicGatewayDispatch \<and> List.member [OutPending, OutClaimed] (ob_status m) \<and>
      (case ob_payload m of GatewayReference _ _ x y \<Rightarrow> x = c' \<and> y = g' | _ \<Rightarrow> False)) \<and> (c', g') \<noteq> (c, g)" for m
    by (cases "ob_payload m") (auto simp: withdraw_message_def)
  then show ?thesis by (auto simp: dispatch_queued_def withdraw_dispatch_messages_def list_ex_iff)
qed

lemma cancel_now_frame:
  assumes "update_dispatch d (DispatchCancelled t) t s = Inr s1" "current_dispatch s c = Some d"
  shows "cancel_frame {c} s (withdraw_dispatch_messages c (dp_generation d) s1)"
    "cancelled_effect t (withdraw_dispatch_messages c (dp_generation d) s1) c"
proof -
  let ?d = "d\<lparr> dp_status := DispatchCancelled t, dp_updatedAt := t \<rparr>"
  let ?s = "withdraw_dispatch_messages c (dp_generation d) s1"
  note s1 = update_dispatch_Inr(2)[OF assms(1)]
  have c: "dp_commandId d = c" using current_dispatch_in[OF assms(2)] by simp
  have d: "current_dispatch ?s x = (if x = c then Some ?d else current_dispatch s x)" for x
  proof -
    have "current_dispatch ?s x = current_dispatch s1 x"
      by (rule current_dispatch_cong) (simp add: withdraw_dispatch_messages_def)
    also have "\<dots> = newest (if x = c then replace_generation ?d (dispatch_log s x) else dispatch_log s x)"
      using c by (simp add: s1 current_dispatch_def dispatch_log_replace)
    finally show ?thesis using assms(2) newest_replace[of "dispatch_log s c" d ?d] by (simp add: current_dispatch_def)
  qed
  have e: "effect_get ?s x = effect_get s x" for x
    by (simp add: effect_get_def withdraw_dispatch_messages_def s1 replace_dispatch_frame)
  have q: "dispatch_queued s1 x y = dispatch_queued s x y" for x y
    by (simp add: dispatch_queued_def s1 replace_dispatch_def)
  show "cancel_frame {c} s ?s" using d e q by (simp add: cancel_frame_def withdraw_dispatch_messages_queued)
  show "cancelled_effect t ?s c" using d[of c] by (simp add: cancelled_effect_def withdraw_dispatch_messages_queued)
qed

lemma cancel_reconcile_frame:
  assumes "request_effect_cancellation e t s = Inr s1" "effect_get s c = Some e"
  shows "cancel_frame {c} s s1" "reconciled_effect s1 c"
proof -
  have "er_commandId e = c" by (rule effect_get_key[OF assms(2)])
  with assms show "cancel_frame {c} s s1" "reconciled_effect s1 c"
    by (cases "er_cancellationRequestedAt e"; auto simp: request_effect_cancellation_def cancel_frame_def reconciled_effect_def
        effect_get_upsert current_dispatch_def dispatch_log_def dispatch_queued_def dest!: update_effect_Inr(2))+
qed

text \<open>Facts about a key survive a frame that does not own it.\<close>

lemma cancel_frame_keeps:
  assumes "cancel_frame K s1 s'" "c \<notin> K"
  shows "cancelled_effect t s1 c \<Longrightarrow> cancelled_effect t s' c"
    "preserved_effect s s1 c \<Longrightarrow> preserved_effect s s' c" "reconciled_effect s1 c \<Longrightarrow> reconciled_effect s' c"
  using assms by (auto simp: cancel_frame_def cancelled_effect_def preserved_effect_def reconciled_effect_def split: option.splits)

lemma preserved_effect_base:
  "cancel_frame K s s1 \<Longrightarrow> c \<notin> K \<Longrightarrow> preserved_effect s1 s' c \<Longrightarrow> preserved_effect s s' c"
  by (simp add: cancel_frame_def preserved_effect_def)

lemma cancellation_agrees_later:
  assumes "cancel_frame {c} s s1" "cancellation_agrees t s1 r s'"
    "\<forall>x\<in>set (cx_cancelled r @ cx_preserved r @ cx_reconciliation r). x \<noteq> c"
  shows "cancellation_agrees t s r s'"
  using assms(2,3) preserved_effect_base[OF assms(1)] by (auto simp: cancellation_agrees_def list_all_iff)

lemma cancel_effects_agree:
  assumes "cancel_effects t es s = Inr (r, s')" "distinct (List.map er_commandId es)"
    "\<forall>e\<in>set es. effect_get s (er_commandId e) = Some e"
  shows "mset (cx_cancelled r @ cx_preserved r @ cx_reconciliation r) = mset (List.map er_commandId es) \<and>
    cancellation_agrees t s r s' \<and> cancel_frame (er_commandId ` set es) s s'"
  using assms
proof (induction es arbitrary: s r)
  case Nil
  then show ?case by (auto simp: cancellation_agrees_def cancel_frame_def)
next
  case (Cons e es)
  let ?c = "er_commandId e"
  have notin: "?c \<notin> er_commandId ` set es" using Cons.prems(2) by simp
  have ge: "effect_get s ?c = Some e" using Cons.prems(3) by simp
  obtain d where d: "current_dispatch s ?c = Some d"
    using Cons.prems(1) by (cases "current_dispatch s ?c") (auto simp: Let_def)
  have rest: "mset (cx_cancelled q @ cx_preserved q @ cx_reconciliation q) = mset (List.map er_commandId es) \<and>
      cancellation_agrees t s q s' \<and> cancel_frame (er_commandId ` set es) s1 s'"
    if "cancel_effects t es s1 = Inr (q, s')" "cancel_frame {?c} s s1" for s1 q
  proof -
    have "effect_get s1 (er_commandId x) = Some x" if x: "x \<in> set es" for x
    proof -
      have "er_commandId x \<noteq> ?c" using notin x by (metis imageI)
      then show ?thesis using \<open>cancel_frame {?c} s s1\<close> Cons.prems(3) x by (simp add: cancel_frame_def)
    qed
    with Cons.IH[OF that(1)] Cons.prems(2)
    have r: "mset (cx_cancelled q @ cx_preserved q @ cx_reconciliation q) = mset (List.map er_commandId es)"
      "cancellation_agrees t s1 q s'" "cancel_frame (er_commandId ` set es) s1 s'" by auto
    have "set (cx_cancelled q @ cx_preserved q @ cx_reconciliation q) = er_commandId ` set es"
      using mset_eq_setD[OF r(1)] by simp
    then have "\<forall>x\<in>set (cx_cancelled q @ cx_preserved q @ cx_reconciliation q). x \<noteq> ?c" using notin by metis
    from cancellation_agrees_later[OF that(2) r(2) this] r show ?thesis by simp
  qed
  have frame: "cancel_frame (er_commandId ` set (e # es)) s s'"
    if "cancel_frame {?c} s s1" "cancel_frame (er_commandId ` set es) s1 s'" for s1
    using cancel_frame_trans[OF that] by simp
  show ?case
  proof (cases "classify_cancel e d")
    case CancelNow
    with Cons.prems(1) d obtain s1 q where u: "update_dispatch d (DispatchCancelled t) t s = Inr s1"
      and n: "cancel_effects t es (withdraw_dispatch_messages ?c (dp_generation d) s1) = Inr (q, s')"
      and r: "r = q\<lparr> cx_cancelled := ?c # cx_cancelled q \<rparr>" by (auto simp: Let_def result_simps)
    note f = cancel_now_frame[OF u d]
    note R = rest[OF n f(1)]
    have "cancelled_effect t s' ?c" using cancel_frame_keeps(1)[of _ _ s' ?c t] R notin f(2) by blast
    then show ?thesis using R frame[OF f(1)] by (simp add: r cancellation_agrees_def)
  next
    case PreserveEffect
    with Cons.prems(1) d obtain q where n: "cancel_effects t es s = Inr (q, s')"
      and r: "r = q\<lparr> cx_preserved := ?c # cx_preserved q \<rparr>" by (auto simp: Let_def result_simps)
    have f: "cancel_frame {?c} s s" by (simp add: cancel_frame_def)
    note R = rest[OF n f]
    have "preserved_effect s s ?c" using PreserveEffect ge
      by (auto simp: preserved_effect_def classify_cancel_def split: if_split_asm)
    then have "preserved_effect s s' ?c" using cancel_frame_keeps(2)[of _ s s' ?c s] R notin by blast
    then show ?thesis using R frame[OF f] by (simp add: r cancellation_agrees_def)
  next
    case ReconcileEffect
    with Cons.prems(1) d obtain s1 q where u: "request_effect_cancellation e t s = Inr s1"
      and n: "cancel_effects t es s1 = Inr (q, s')"
      and r: "r = q\<lparr> cx_reconciliation := ?c # cx_reconciliation q \<rparr>" by (auto simp: Let_def result_simps)
    note f = cancel_reconcile_frame[OF u ge]
    note R = rest[OF n f(1)]
    have "reconciled_effect s' ?c" using cancel_frame_keeps(3)[of _ s1 s' ?c] R notin f(2) by blast
    then show ?thesis using R frame[OF f(1)] by (simp add: r cancellation_agrees_def)
  qed
qed

end
