(* ===== verification/Gateway_Runs.thy ===== *)
theory Gateway_Runs
  imports Gateway_Cancellation
begin

text \<open>
  Runs of the gateway aggregate: the step relation of its operations, the two
  protocols that views of the store follow along a run, and the properties of
  dispatches, callbacks, claims and cancellations.
\<close>

section \<open>Runs\<close>

text \<open>
  The interface between the store and an abstract protocol that one view of it
  follows: while the invariant holds, every step of the store is a sequence of steps
  of the protocol on the view.
\<close>

locale protocol_view =
  fixes step :: "'s \<Rightarrow> 's \<Rightarrow> bool"
    and inv :: "'s \<Rightarrow> bool"
    and view :: "'s \<Rightarrow> 'k \<Rightarrow> 'v"
    and astep :: "'v \<Rightarrow> 'v \<Rightarrow> bool"
    and ok :: "'v \<Rightarrow> bool"
  assumes step_inv: "inv s \<Longrightarrow> step s s' \<Longrightarrow> inv s'"
    and step_view: "inv s \<Longrightarrow> step s s' \<Longrightarrow> astep\<^sup>*\<^sup>* (view s k) (view s' k)"
    and astep_ok: "astep v v' \<Longrightarrow> ok v \<Longrightarrow> ok v'"
begin

lemma run_view:
  assumes "step\<^sup>*\<^sup>* s s'" "inv s" shows "inv s' \<and> astep\<^sup>*\<^sup>* (view s k) (view s' k)"
  using assms
proof (induction rule: rtranclp_induct)
  case (step s1 s2)
  then have "inv s1" "astep\<^sup>*\<^sup>* (view s k) (view s1 k)" by auto
  with step_inv[OF _ step.hyps(2)] step_view[OF _ step.hyps(2), of k] show ?case by auto
qed simp

lemma asteps_ok: "astep\<^sup>*\<^sup>* v v' \<Longrightarrow> ok v \<Longrightarrow> ok v'"
  by (induction rule: rtranclp_induct) (auto intro: astep_ok)

lemma run_ok: "step\<^sup>*\<^sup>* s s' \<Longrightarrow> inv s \<Longrightarrow> ok (view s k) \<Longrightarrow> ok (view s' k)"
  using run_view asteps_ok by blast

end

text \<open>
  The steps of the gateway aggregate: its six operations, reconciliation with the
  budget \<open>M\<close>, and any write that leaves its tables alone.
\<close>

inductive gateway_step :: "env \<Rightarrow> nat \<Rightarrow> tenant \<Rightarrow> tenant \<Rightarrow> bool" for env M where
  materialized: "materialize env sc i o' s = Inr (r, s') \<Longrightarrow> gateway_step env M s s'"
| claimed: "claimDispatch env op c g a t s = Inr (rc, s') \<Longrightarrow> gateway_step env M s s'"
| finalized: "finalizeDispatch env sc op c g a res t o' s = Inr (rf, s') \<Longrightarrow> gateway_step env M s s'"
| called_back: "applyCallback env sc b ps s = Inr (rb, s') \<Longrightarrow> gateway_step env M s s'"
| cancelled: "cancelPendingForMission sc m t s = Inr (rx, s') \<Longrightarrow> gateway_step env M s s'"
| reconciled: "reconcile_effect env sc ri s = Inr (rr, s') \<Longrightarrow> ri_maximumAttempts ri = M \<Longrightarrow> gateway_step env M s s'"
| elsewhere: "tn_commands s' = tn_commands s \<Longrightarrow> tn_effects s' = tn_effects s \<Longrightarrow> tn_dispatches s' = tn_dispatches s \<Longrightarrow>
    tn_callbacks s' = tn_callbacks s \<Longrightarrow> tn_effectPolls s' = tn_effectPolls s \<Longrightarrow> gateway_step env M s s'"

lemma gateway_step_simulates: "gateway_step env M s s' \<Longrightarrow> simulates M s s'"
  by (induction rule: gateway_step.induct)
    (auto intro: materialize_simulates claimDispatch_simulates finalizeDispatch_simulates applyCallback_simulates
      cancelPendingForMission_simulates reconcile_effect_simulates simulates_frame)

lemma gateway_step_effects: "gateway_step env M s s' \<Longrightarrow> effect_keys_ok s \<Longrightarrow> effects_advance s s'"
  by (induction rule: gateway_step.induct)
    (auto intro: materialize_effects claimDispatch_effects finalizeDispatch_effects applyCallback_effects
      cancelPendingForMission_effects reconcile_effect_effects effects_advance_frame)

interpretation dispatch_protocol: protocol_view "gateway_step env M" "\<lambda>_. True" ledger_view "ledger_step M" "ledger_ok M"
  for env M
  by unfold_locales (auto simp: simulates_def dest: gateway_step_simulates ledger_ok_step)

interpretation callback_protocol: protocol_view "gateway_step env M" effect_keys_ok effect_view effect_step effect_history_ok
  for env M
  by unfold_locales
    (auto simp: effects_advance_def advances_effects_def dest: gateway_step_effects effect_history_ok_step)

text \<open>A tenant whose gateway tables are empty.\<close>

definition gateway_empty :: "tenant \<Rightarrow> bool" where
  "gateway_empty s = (tn_commands s = [] \<and> tn_effects s = [] \<and> tn_dispatches s = [] \<and> tn_callbacks s = [] \<and>
     tn_effectPolls s = [])"

lemma gateway_empty_ok:
  assumes "gateway_empty s"
  shows "ledger_ok M (ledger_view s c)" "effect_keys_ok s" "effect_history_ok (effect_view s c)"
  using assms
  by (simp_all add: gateway_empty_def ledger_ok_def ledger_view_def dispatch_log_def effect_keys_ok_def effect_history_ok_def
      effect_view_def effect_get_def callback_statuses_def)

section \<open>Properties\<close>

text \<open>
  C25.  Dispatch is bounded and orderly: in every run of the gateway's operations
  from empty tables, under a reconciliation budget of \<open>M\<close> polls, the generations of a
  command are numbered 1, 2, and so on without gap, there are never more than \<open>M\<close> of
  them, and every generation but the newest ended unknown or failed retryably.
\<close>

theorem dispatches_are_bounded:
  assumes "(gateway_step env M)\<^sup>*\<^sup>* s s'" "gateway_empty s" "0 < M"
  shows "List.map dp_generation (dispatch_log s' c) = [1..<Suc (length (dispatch_log s' c))] \<and>
    length (dispatch_log s' c) \<le> M \<and>
    (\<forall>d\<in>set (butlast (dispatch_log s' c)). retryable_dispatch (dp_status d))"
proof -
  have "ledger_ok M (ledger_view s' c)"
    using dispatch_protocol.run_ok[OF assms(1)] gateway_empty_ok(1)[OF assms(2)] by simp
  with assms(3) show ?thesis by (simp add: ledger_ok_def ledger_view_def max_def split: if_split_asm)
qed

text \<open>
  C26.  No duplicate dispatch: once the gateway accepted a generation of a command,
  no operation ever changes that command's dispatches again, so a command is never
  dispatched after it was accepted.
\<close>

theorem accepted_dispatches_are_final:
  assumes "(gateway_step env M)\<^sup>*\<^sup>* s s1" "gateway_empty s" "(gateway_step env M)\<^sup>*\<^sup>* s1 s2"
    and "d \<in> set (dispatch_log s1 c)" "phase_of (dp_status d) = DAccepted"
  shows "dispatch_log s2 c = dispatch_log s1 c"
proof -
  have "ledger_ok M (ledger_view s1 c)"
    using dispatch_protocol.run_ok[OF assms(1)] gateway_empty_ok(1)[OF assms(2)] by simp
  moreover have "(ledger_step M)\<^sup>*\<^sup>* (ledger_view s1 c) (ledger_view s2 c)"
    using dispatch_protocol.run_view[OF assms(3)] by simp
  ultimately show ?thesis using accepted_run assms(4,5) by (fastforce simp: ledger_view_def)
qed

text \<open>Callbacks advance strictly: in every run from empty tables the stored
  callbacks of a command strictly climb from acknowledged over executing to one
  terminal report, the status of the effect is that of its last callback, and a
  further callback is never applied as a replay.
\<close>

theorem callbacks_advance_strictly:
  assumes "(gateway_step env M)\<^sup>*\<^sup>* s s1" "gateway_empty s"
  shows "sorted_wrt (<) (List.map CALLBACK_STATUS_RANK (callback_statuses s1 c)) \<and>
    (\<forall>e. effect_get s1 c = Some e \<longrightarrow>
       er_status e = (if callback_statuses s1 c = [] then None else Some (last (callback_statuses s1 c)))) \<and>
    (\<forall>sc b ps x y s2. applyCallback env sc b ps s1 \<noteq> Inr (Some (CallbackReplayed, x, y), s2))"
proof -
  have h: "effect_history_ok (effect_view s1 x)" for x
    using callback_protocol.run_ok[OF assms(1) gateway_empty_ok(2)[OF assms(2)]] gateway_empty_ok(3)[OF assms(2)] by blast
  have "\<not> applyCallback env sc b ps s1 = Inr (Some (CallbackReplayed, x, y), s2)" for sc b ps x y s2
  proof
    assume a: "applyCallback env sc b ps s1 = Inr (Some (CallbackReplayed, x, y), s2)"
    then show False
    proof (cases rule: applyCallback_Inr)
      case (applied cmd e d s1')
      let ?st = "cb_status (sb_callback b)" let ?c = "cb_commandId (sb_callback b)"
      from applied(6) have "classifyGatewayCallbackStatusTransition (er_status e) ?st = CbReplay"
        by (auto split: if_split_asm)
      then have "er_status e = Some ?st"
        by (auto simp: classifyGatewayCallbackStatusTransition_def split: option.split_asm if_split_asm)
      moreover have "effect_get s1 ?c = Some e" using applied(1) by (simp add: lockGatewayAggregate_Some)
      ultimately have "callback_statuses s1 ?c \<noteq> [] \<and> last (callback_statuses s1 ?c) = ?st"
        using h[of ?c] by (simp add: effect_history_ok_def effect_view_def)
      then have "?st \<in> set (callback_statuses s1 ?c)" using last_in_set by metis
      then show False using applied(2) by (auto simp: callback_statuses_def callback_rows_def filter_empty_conv)
    qed simp
  qed
  then show ?thesis using h[of c]
    by (auto simp: effect_history_ok_def effect_view_def split: option.split_asm)
qed

text \<open>What a successful claim rests on, and what it writes.\<close>

lemma claimed_dispatch:
  assumes "claimDispatch env op c g a t s = Inr (Some (Claimed r x), s')"
  shows "\<exists>cmd e d. command_get s c = Some cmd \<and> effect_get s c = Some e \<and> current_dispatch s c = Some d \<and>
    gc_operationId cmd = op \<and> dp_generation d = g \<and> phase_of (dp_status d) = DPending \<and>
    er_dispatchAt e \<le> t \<and> \<not> effect_terminal e \<and>
    (mission_cancelled s (gc_missionId cmd) \<longrightarrow> er_cancellationPolicy e = MandatoryRelock) \<and>
    authorization_current s cmd e \<and> target_available s cmd \<and>
    (\<forall>dev tag dur cause. gc_instruction cmd = UnlockCommand dev tag dur cause \<longrightarrow> arrival_verified s cmd cause tag) \<and>
    tn_attempts s' = tn_attempts s @ [x] \<and> x = pending_attempt a s op c g t \<and>
    current_dispatch s' c = Some (d\<lparr> dp_status := Dispatching a, dp_updatedAt := t \<rparr>)"
  using assms
proof (cases rule: claimDispatch_Inr)
  case (claimed cmd e d)
  note u = update_dispatch_Inr(2)[OF claimed(7)]
  let ?d = "d\<lparr> dp_status := Dispatching a, dp_updatedAt := t \<rparr>"
  have l: "command_get s c = Some cmd" "effect_get s c = Some e" "current_dispatch s c = Some d"
    using claimed(1) by (simp_all add: lockGatewayAggregate_Some)
  have refusal: "dp_generation d = g" "phase_of (dp_status d) = DPending" "er_dispatchAt e \<le> t" "\<not> effect_terminal e"
    using claimed(3) by (auto simp: claim_refusal_def split: if_split_asm)
  have safe: "authorization_current s cmd e" "target_available s cmd"
    "\<forall>dev tag dur cause. gc_instruction cmd = UnlockCommand dev tag dur cause \<longrightarrow> arrival_verified s cmd cause tag"
    using claimed(5) by (auto simp: gatewayCommandSafetyReason_def split: if_split_asm instruction.split_asm)
  have c: "dp_commandId d = c" using current_dispatch_in[OF l(3)] by simp
  have "current_dispatch s' c = newest (replace_generation ?d (dispatch_log s c))"
    by (simp add: u current_dispatch_def dispatch_log_replace c) (simp add: dispatch_log_def)
  also have "\<dots> = Some ?d" using l(3) by (intro newest_replace) (simp_all add: current_dispatch_def)
  finally have "current_dispatch s' c = Some ?d" .
  moreover have "tn_attempts s' = tn_attempts s @ [x]" "x = pending_attempt a s op c g t"
    using claimed(8) by (simp_all add: u replace_dispatch_def)
  ultimately show ?thesis using l refusal safe claimed(2,4) by blast
qed auto

text \<open>
  C27.  What a claim guarantees: a dispatch is claimed only for the newest generation
  of its command, while that generation is pending and due, the effect is not
  terminal, the mission is not cancelled unless the effect is the mandatory relock,
  the operation is committed under the authorization of the effect, and the device
  and its capability are available; an unlock also needs a verified arrival of its own
  mission and palace and an active verified tag.  The claim adds exactly one pending
  attempt.
\<close>

theorem claimed_dispatches_are_safe:
  assumes "claimDispatch env op c g a t s = Inr (Some (Claimed r x), s')"
  shows "\<exists>cmd e d. command_get s c = Some cmd \<and> effect_get s c = Some e \<and> current_dispatch s c = Some d \<and>
    gc_operationId cmd = op \<and> dp_generation d = g \<and> phase_of (dp_status d) = DPending \<and>
    er_dispatchAt e \<le> t \<and> \<not> effect_terminal e \<and>
    (mission_cancelled s (gc_missionId cmd) \<longrightarrow> er_cancellationPolicy e = MandatoryRelock) \<and>
    authorization_current s cmd e \<and> target_available s cmd \<and>
    (\<forall>dev tag dur cause. gc_instruction cmd = UnlockCommand dev tag dur cause \<longrightarrow> arrival_verified s cmd cause tag) \<and>
    tn_attempts s' = tn_attempts s @ [x] \<and> x = pending_attempt a s op c g t \<and>
    current_dispatch s' c = Some (d\<lparr> dp_status := Dispatching a, dp_updatedAt := t \<rparr>)"
  by (rule claimed_dispatch[OF assms])


section \<open>A concrete command\<close>

definition ex_gateway_env :: env where
  "ex_gateway_env = ex_env\<lparr> en_hash := ex_hash \<rparr>"

definition ex_arrival :: persisted_evidence where
  "ex_arrival = \<lparr> pe_evidence = ex_evidence ''evd_cccccccc'' (IdentityArrival ''tag_aaaaaaaa'' True),
     pe_receipt = \<lparr> ar_id = ''rcp_cccccccc'', ar_evidenceId = ''evd_cccccccc'', ar_organizationId = ''org_aaaaaaaa'',
       ar_missionId = ''mis_aaaaaaaa'', ar_palaceId = ''pal_aaaaaaaa'', ar_verifiedAt = 5,
       ar_authority = IdentityTelemetryReceipt ''pev_aaaaaaaa'' ''tag_aaaaaaaa'' True True None \<rparr>,
     pe_persistedAt = 5 \<rparr>"

definition ex_gateway_tenant :: tenant where
  "ex_gateway_tenant = ex_tenant\<lparr> tn_plans := [ex_plan], tn_operations := [ex_operation],
     tn_executions := [\<lparr> sx_operationId = ''op_aaaaaaaa'', sx_execution = ex_execution\<lparr> ex_milestones :=
        [\<lparr> ml_name = MsUnlock, ml_commandId = Some ex_command_id, ml_state = MilestonePending \<rparr>] \<rparr>,
        sx_authorization = ManualAuthorization \<rparr>],
     tn_evidence := [ex_arrival], tn_tags := [\<lparr> tg_id = ''tag_aaaaaaaa'', tg_active = True, tg_verified = True \<rparr>],
     tn_devices := [\<lparr> dv_id = ''dev_aaaaaaaa'', dv_palaceId = ''pal_aaaaaaaa'',
       dv_kind = LockDevice, dv_health = HealthOnline \<rparr>],
     tn_capabilities := [\<lparr> cp_deviceId = ''dev_aaaaaaaa'', cp_kind = CapLockDesiredState, cp_enabled = True \<rparr>] \<rparr>"

definition ex_intent :: effect_intent where
  "ex_intent = \<lparr> ei_command = ex_command, ei_dispatchAt = 3, ei_milestone = MsUnlock,
     ei_cancellationPolicy = CancelIfPending, ei_authorization = ManualAuthorization, ei_createdAt = 0 \<rparr>"

definition ex_materialized :: tenant where
  "ex_materialized = (case materialize ex_gateway_env Unfenced ex_intent ''out_aaaaaaaa'' ex_gateway_tenant of
     Inr (_, s) \<Rightarrow> s | Inl _ \<Rightarrow> ex_gateway_tenant)"

definition ex_claimed :: tenant where
  "ex_claimed = (case claimDispatch ex_gateway_env ''op_aaaaaaaa'' ex_command_id 1 ''att_aaaaaaaa'' 10 ex_materialized of
     Inr (_, s) \<Rightarrow> s | Inl _ \<Rightarrow> ex_gateway_tenant)"

definition ex_accepted :: tenant where
  "ex_accepted = (case finalizeDispatch ex_gateway_env Unfenced ''op_aaaaaaaa'' ex_command_id 1 ''att_aaaaaaaa''
      (ResultAccepted ''gack_aaaaaaaa'') 12 ''out_bbbbbbbb'' ex_claimed of
     Inr (_, s) \<Rightarrow> s | Inl _ \<Rightarrow> ex_gateway_tenant)"

definition ex_poll :: reconcile_input where
  "ex_poll = \<lparr> ri_operationId = ''op_aaaaaaaa'', ri_commandId = ex_command_id, ri_generation = 1, ri_reconciledAt = 30,
     ri_nextPollAt = 60, ri_maximumAttempts = 3, ri_dispatchOutboxId = ''out_cccccccc'',
     ri_reconciliationOutboxId = ''out_dddddddd'' \<rparr>"

definition ex_polled :: tenant where
  "ex_polled = (case reconcile_effect ex_gateway_env Unfenced ex_poll ex_accepted of
     Inr (_, s) \<Rightarrow> s | Inl _ \<Rightarrow> ex_gateway_tenant)"

lemma ex_poll_run: "\<exists>r. reconcile_effect ex_gateway_env Unfenced ex_poll ex_accepted = Inr (r, ex_polled)"
proof -
  have "case reconcile_effect ex_gateway_env Unfenced ex_poll ex_accepted of Inr _ \<Rightarrow> True | _ \<Rightarrow> False" by code_simp
  then show ?thesis by (auto simp: ex_polled_def split: sum.splits prod.splits)
qed

lemma ex_run:
  "\<exists>r. materialize ex_gateway_env Unfenced ex_intent ''out_aaaaaaaa'' ex_gateway_tenant = Inr (r, ex_materialized)"
  "\<exists>r x. claimDispatch ex_gateway_env ''op_aaaaaaaa'' ex_command_id 1 ''att_aaaaaaaa'' 10 ex_materialized =
     Inr (Some (Claimed r x), ex_claimed)"
  "\<exists>r. finalizeDispatch ex_gateway_env Unfenced ''op_aaaaaaaa'' ex_command_id 1 ''att_aaaaaaaa''
      (ResultAccepted ''gack_aaaaaaaa'') 12 ''out_bbbbbbbb'' ex_claimed = Inr (r, ex_accepted)"
proof -
  have "case materialize ex_gateway_env Unfenced ex_intent ''out_aaaaaaaa'' ex_gateway_tenant of Inr _ \<Rightarrow> True | _ \<Rightarrow> False"
    by code_simp
  then show "\<exists>r. materialize ex_gateway_env Unfenced ex_intent ''out_aaaaaaaa'' ex_gateway_tenant = Inr (r, ex_materialized)"
    by (auto simp: ex_materialized_def split: sum.splits prod.splits)
  have "case claimDispatch ex_gateway_env ''op_aaaaaaaa'' ex_command_id 1 ''att_aaaaaaaa'' 10 ex_materialized of
     Inr (Some (Claimed _ _), _) \<Rightarrow> True | _ \<Rightarrow> False" by code_simp
  then show "\<exists>r x. claimDispatch ex_gateway_env ''op_aaaaaaaa'' ex_command_id 1 ''att_aaaaaaaa'' 10 ex_materialized =
     Inr (Some (Claimed r x), ex_claimed)"
    by (auto simp: ex_claimed_def split: sum.splits prod.splits option.splits claim_result.splits)
  have "case finalizeDispatch ex_gateway_env Unfenced ''op_aaaaaaaa'' ex_command_id 1 ''att_aaaaaaaa''
      (ResultAccepted ''gack_aaaaaaaa'') 12 ''out_bbbbbbbb'' ex_claimed of Inr _ \<Rightarrow> True | _ \<Rightarrow> False" by code_simp
  then show "\<exists>r. finalizeDispatch ex_gateway_env Unfenced ''op_aaaaaaaa'' ex_command_id 1 ''att_aaaaaaaa''
      (ResultAccepted ''gack_aaaaaaaa'') 12 ''out_bbbbbbbb'' ex_claimed = Inr (r, ex_accepted)"
    by (auto simp: ex_accepted_def split: sum.splits prod.splits)
qed

lemma ex_gateway_run:
  "(gateway_step ex_gateway_env 3)\<^sup>*\<^sup>* ex_gateway_tenant ex_materialized"
  "(gateway_step ex_gateway_env 3)\<^sup>*\<^sup>* ex_gateway_tenant ex_accepted"
  "(gateway_step ex_gateway_env 3)\<^sup>*\<^sup>* ex_materialized ex_accepted"
proof -
  have "gateway_step ex_gateway_env 3 ex_gateway_tenant ex_materialized"
    "gateway_step ex_gateway_env 3 ex_materialized ex_claimed" "gateway_step ex_gateway_env 3 ex_claimed ex_accepted"
    using ex_run gateway_step.intros(1-3) by metis+
  then show "(gateway_step ex_gateway_env 3)\<^sup>*\<^sup>* ex_gateway_tenant ex_materialized"
    "(gateway_step ex_gateway_env 3)\<^sup>*\<^sup>* ex_gateway_tenant ex_accepted"
    "(gateway_step ex_gateway_env 3)\<^sup>*\<^sup>* ex_materialized ex_accepted"
    by (auto intro: converse_rtranclp_into_rtranclp)
qed

lemma ex_gateway_empty: "gateway_empty ex_gateway_tenant"
  by (simp add: gateway_empty_def ex_gateway_tenant_def ex_tenant_def)

theorem dispatches_are_bounded_witness:
  "List.map dp_generation (dispatch_log ex_accepted ex_command_id) = [1] \<and> length (dispatch_log ex_accepted ex_command_id) \<le> 3"
proof -
  have "length (dispatch_log ex_accepted ex_command_id) = 1" by code_simp
  with dispatches_are_bounded[OF ex_gateway_run(2) ex_gateway_empty, of ex_command_id] show ?thesis by simp
qed

lemma ex_accepted_log: "phase_of (dp_status (hd (dispatch_log ex_accepted ex_command_id))) = DAccepted"
  "hd (dispatch_log ex_accepted ex_command_id) \<in> set (dispatch_log ex_accepted ex_command_id)"
proof -
  show "phase_of (dp_status (hd (dispatch_log ex_accepted ex_command_id))) = DAccepted" by code_simp
  show "hd (dispatch_log ex_accepted ex_command_id) \<in> set (dispatch_log ex_accepted ex_command_id)"
    by (rule hd_in_set) code_simp
qed

lemma ex_poll_step: "(gateway_step ex_gateway_env 3)\<^sup>*\<^sup>* ex_accepted ex_polled"
proof -
  obtain r where "reconcile_effect ex_gateway_env Unfenced ex_poll ex_accepted = Inr (r, ex_polled)" using ex_poll_run by blast
  then have "gateway_step ex_gateway_env 3 ex_accepted ex_polled" by (rule gateway_step.reconciled) (simp add: ex_poll_def)
  then show ?thesis by (rule r_into_rtranclp)
qed

theorem accepted_dispatches_are_final_witness:
  "List.map dp_status (dispatch_log ex_polled ex_command_id) = [DispatchAccepted ''att_aaaaaaaa'' ''gack_aaaaaaaa'']"
proof -
  have l: "List.map dp_status (dispatch_log ex_accepted ex_command_id) = [DispatchAccepted ''att_aaaaaaaa'' ''gack_aaaaaaaa'']"
    by code_simp
  show ?thesis
    unfolding accepted_dispatches_are_final[OF ex_gateway_run(2) ex_gateway_empty ex_poll_step ex_accepted_log(2,1)] by (rule l)
qed

theorem callbacks_advance_strictly_witness:
  "sorted_wrt (<) (List.map CALLBACK_STATUS_RANK (callback_statuses ex_accepted ex_command_id)) \<and>
   map_option er_status (effect_get ex_accepted ex_command_id) = Some None"
proof -
  have "callback_statuses ex_accepted ex_command_id = []" "\<not> is_none (effect_get ex_accepted ex_command_id)" by code_simp+
  with callbacks_advance_strictly[OF ex_gateway_run(2) ex_gateway_empty, of ex_command_id] show ?thesis by auto
qed

theorem claimed_dispatches_are_safe_witness:
  "\<exists>cmd. command_get ex_materialized ex_command_id = Some cmd \<and>
     arrival_verified ex_materialized cmd ''evd_cccccccc'' ''tag_aaaaaaaa''"
proof -
  obtain r x where "claimDispatch ex_gateway_env ''op_aaaaaaaa'' ex_command_id 1 ''att_aaaaaaaa'' 10 ex_materialized =
     Inr (Some (Claimed r x), ex_claimed)" using ex_run(2) by blast
  from claimed_dispatches_are_safe[OF this] obtain cmd where c: "command_get ex_materialized ex_command_id = Some cmd"
    and a: "\<forall>dev tag dur cause. gc_instruction cmd = UnlockCommand dev tag dur cause \<longrightarrow> arrival_verified ex_materialized cmd cause tag"
    by blast
  have "command_get ex_materialized ex_command_id = Some ex_command" by code_simp
  with c have "gc_instruction cmd = UnlockCommand ''dev_aaaaaaaa'' ''tag_aaaaaaaa'' 30 ''evd_cccccccc''"
    by (auto simp: ex_command_def)
  with a have "arrival_verified ex_materialized cmd ''evd_cccccccc'' ''tag_aaaaaaaa''" by blast
  with c show ?thesis by blast
qed

lemma ex_cancels:
  "\<exists>r s'. cancelPendingForMission Unfenced ''mis_aaaaaaaa'' 20 ex_materialized = Inr (r, s') \<and> cx_cancelled r = [ex_command_id]"
proof -
  have "case cancelPendingForMission Unfenced ''mis_aaaaaaaa'' 20 ex_materialized of
     Inr (r, _) \<Rightarrow> cx_cancelled r = [ex_command_id] | Inl _ \<Rightarrow> False" by code_simp
  then show ?thesis by (auto split: sum.splits prod.splits)
qed


end
