(* ===== verification/Cancellation_Service.thy ===== *)
theory Cancellation_Service
  imports Operation_Service Gateway_Runs
begin

text \<open>
  Cancellation of a mission (\<open>application/src/cancellation-service.ts\<close>): the
  authorization of the two kinds of caller, the classification of the checkpoint, the
  pending operations and effects, the durable record, and the completion of a
  cancellation once every effect of the mission is settled.
\<close>

section \<open>The cancellation rows\<close>

definition cancellations_findForMission :: "tenant \<Rightarrow> string \<Rightarrow> cancellation option" where
  "cancellations_findForMission s m = find (\<lambda>c. ca_missionId c = m) (tn_cancellations s)"

definition cancellations_insert :: "scope \<Rightarrow> cancellation \<Rightarrow> tenant \<Rightarrow> err + tenant" where
  "cancellations_insert sc r s =
     sbind (assertTenant s (ca_organizationId r)) (\<lambda>_.
     sbind (assertMissionMutation sc (ca_missionId r)) (\<lambda>_.
     if list_ex (\<lambda>c. ca_id c = ca_id r \<or> ca_missionId c = ca_missionId r) (tn_cancellations s)
       then Inl (DatabaseConflictError ''cancellations_mission_unique'')
     else if ca_compensatingPlanRequired r \<noteq> (ca_outcome r = CompensatingPlanRequired)
       then Inl (DatabaseConflictError ''cancellations_compensation_consistent'')
     else Inr (s\<lparr> tn_cancellations := tn_cancellations s @ [r] \<rparr>)))"

section \<open>Who may cancel\<close>

record delegated_context =
  dc_tokenId :: string
  dc_principal :: principal
  dc_expiresAt :: instant

datatype cancellation_caller =
    BrowserCancellation session_context mutation_request
  | DelegatedCancellation delegated_context

fun authorize_cancellation :: "env \<Rightarrow> cancellation_caller \<Rightarrow> tenant \<Rightarrow> err + (principal \<times> tenant)" where
  "authorize_cancellation env (BrowserCancellation c r) s =
     (if pr_role (sc_principal c) = Delegated
        then Inl (AuthenticationError ''Delegated credentials cannot use browser mutation guards'')
      else sbind (assertSensitiveMutation env c r s) (\<lambda>s'. Inr (sc_principal c, s')))"
| "authorize_cancellation env (DelegatedCancellation c) s =
     (if pr_role (dc_principal c) \<noteq> Delegated
        then Inl (AuthenticationError ''Delegated cancellation requires a delegated credential'')
      else if dc_expiresAt c \<le> read_clock env s
        then Inl (AuthenticationError ''Delegated credential has expired'')
      else Inr (dc_principal c, tick s))"

section \<open>The checkpoint\<close>

fun effect_completed :: "effect_record \<Rightarrow> bool" where
  "effect_completed e = (case es_status (ef_effectState e) of EffectCompleted _ _ \<Rightarrow> True | _ \<Rightarrow> False)"

definition effect_touched :: "effect_record \<Rightarrow> bool" where
  "effect_touched e = (phase_of (dp_status (ef_dispatchState e)) \<noteq> DPending \<or>
     es_status (ef_effectState e) \<noteq> EffectPending)"

definition classifyCheckpoint ::
  "operation list \<Rightarrow> effect_record list \<Rightarrow> cancellation_checkpoint \<times> cancellation_outcome \<times> bool" where
  "classifyCheckpoint ops effects =
     (if ops = [] then (BeforeOperation, CancelledWithoutMutation, False)
      else if list_ex effect_completed effects then (DurableEffect, CompensatingPlanRequired, True)
      else if list_ex effect_touched effects then (GatewayDispatched, ReconcileDispatchedEffect, False)
      else if list_ex (\<lambda>x. List.member [OpClaimed, OpCommitted] (op_status x)) ops
        then (ClaimedOrCommitted, StoppedRemainingActions, False)
      else (UnclaimedOperation, CancelledUnclaimedOperations, False))"

section \<open>Cancelling\<close>

text \<open>The effects of the operations of a mission, in the order of the operations.\<close>

fun effects_for_operations :: "env \<Rightarrow> tenant \<Rightarrow> operation list \<Rightarrow> err + effect_record list" where
  "effects_for_operations env s [] = Inr []"
| "effects_for_operations env s (x # xs) =
     sbind (effects_for_operation env s (op_id x)) (\<lambda>es.
     sbind (effects_for_operations env s xs) (\<lambda>rest. Inr (es @ rest)))"

fun cancel_operations :: "scope \<Rightarrow> operation list \<Rightarrow> tenant \<Rightarrow> err + tenant" where
  "cancel_operations sc [] s = Inr s"
| "cancel_operations sc (x # xs) s =
     (if op_status x = OpPending then
        (let y = x\<lparr> op_status := OpCancelled \<rparr> in
         if \<not> operation_ok y then Inl (ZodError ''Operation'')
         else sbind (operations_save sc y s) (cancel_operations sc xs))
      else cancel_operations sc xs s)"

definition cancel_reconcile_key :: "string \<Rightarrow> nat \<Rightarrow> string" where
  "cancel_reconcile_key c g = ''gateway.effect.reconcile:cancel:'' @ c @ '':'' @ show_nat g"

definition enqueueCancellationReconciliation ::
  "env \<Rightarrow> scope \<Rightarrow> effect_record \<Rightarrow> instant \<Rightarrow> tenant \<Rightarrow> err + tenant" where
  "enqueueCancellationReconciliation env sc e createdAt s =
     (let c = ef_command e; g = dp_generation (ef_dispatchState e); key = cancel_reconcile_key (gc_id c) g in
      if \<not> is_none (findByDeduplicationKey s key) then Inr s
      else outbox_insert sc (new_outbox_message (fresh_id env IdOutbox s) (gc_organizationId c)
             TopicGatewayEffectReconcile key
             (GatewayReference (gc_organizationId c) (gc_operationId c) (gc_id c) g) createdAt createdAt) (bump s))"

fun enqueue_reconciliations :: "env \<Rightarrow> scope \<Rightarrow> string list \<Rightarrow> instant \<Rightarrow> tenant \<Rightarrow> err + tenant" where
  "enqueue_reconciliations env sc [] t s = Inr s"
| "enqueue_reconciliations env sc (c # cs) t s =
     sbind (hydrateGatewayEffect env s c) (\<lambda>r.
     sbind (required r (NotFoundError ''Gateway effect'')) (\<lambda>e.
     sbind (enqueueCancellationReconciliation env sc e t s) (enqueue_reconciliations env sc cs t)))"

definition is_js_space :: "char \<Rightarrow> bool" where
  "is_js_space c = List.member [CHR 0x09, CHR 0x0A, CHR 0x0B, CHR 0x0C, CHR 0x0D, CHR '' '', CHR 0xA0] c"

definition js_trim :: "string \<Rightarrow> string" where
  "js_trim s = rev (dropWhile is_js_space (rev (dropWhile is_js_space s)))"

definition cancellation_event :: "pending_cancellation \<Rightarrow> mission_event_kind" where
  "cancellation_event px =
     (if cx_reconciliation px \<noteq> [] \<or> cx_preserved px \<noteq> [] then CancelReconciliationRequired else CancelRequested)"

definition cancellation_record ::
  "string \<Rightarrow> principal \<Rightarrow> mission \<Rightarrow> string \<Rightarrow> operation list \<Rightarrow> effect_record list \<Rightarrow> instant \<Rightarrow> cancellation" where
  "cancellation_record i p m reason ops effects t = (case classifyCheckpoint ops effects of (cp, out, compensate) \<Rightarrow>
     \<lparr> ca_id = i, ca_organizationId = pr_organizationId p, ca_missionId = mi_id m, ca_requestedBy = pr_actorId p,
       ca_reason = js_trim reason, ca_checkpoint = cp, ca_outcome = out, ca_compensatingPlanRequired = compensate,
       ca_requestedAt = t \<rparr>)"

text \<open>The first request for a live mission.\<close>

definition begin_cancellation ::
  "env \<Rightarrow> principal \<Rightarrow> mission \<Rightarrow> string \<Rightarrow> tenant \<Rightarrow> err + ((cancellation \<times> mission) \<times> tenant)" where
  "begin_cancellation env p m reason s =
     (let ops = operations_for_mission s (mi_id m) in
      sbind (effects_for_operations env s ops) (\<lambda>effects.
      let t = read_clock env s in
      sbind (cancel_operations Unfenced ops (tick s)) (\<lambda>s1.
      sbind (cancelPendingForMission Unfenced (mi_id m) t s1) (\<lambda>(px, s2).
      sbind (enqueue_reconciliations env Unfenced (cx_reconciliation px) t s2) (\<lambda>s3.
      let r = cancellation_record (fresh_id env IdCancellation s3) p m reason ops effects t in
      sbind (cancellations_insert Unfenced r (bump s3)) (\<lambda>s4.
      sbind (persistMissionTransition env Unfenced m (mi_version m) (cancellation_event px) s4) (\<lambda>(m', s5).
        Inr ((r, m'), s5))))))))"

definition cancel_work ::
  "env \<Rightarrow> principal \<Rightarrow> string \<Rightarrow> string \<Rightarrow> tenant \<Rightarrow> err + ((cancellation \<times> mission) \<times> tenant)" where
  "cancel_work env p missionId reason s =
     sbind (required (mission_get s missionId) (NotFoundError ''Mission'')) (\<lambda>m.
     case cancellations_findForMission s (mi_id m) of
       Some c \<Rightarrow> Inr ((c, m), s)
     | None \<Rightarrow>
         if isTerminalMissionState (mi_state m)
           then Inl (ConflictError ''Terminal mission state is immutable'')
         else begin_cancellation env p m reason s)"

definition cancel ::
  "env \<Rightarrow> cancellation_caller \<Rightarrow> string \<Rightarrow> string \<Rightarrow> tenant \<Rightarrow> err + ((cancellation \<times> mission) \<times> tenant)" where
  "cancel env caller missionId reason s =
     sbind (authorize_cancellation env caller s) (\<lambda>(p, s1).
     sbind (assertPermission p MissionCancel) (\<lambda>_.
     if js_trim reason = [] \<or> 500 < length reason
       then Inl (ConflictError ''Cancellation reason must contain 1 to 500 characters'')
     else sbind (assertTenant s1 (pr_organizationId p)) (\<lambda>_. cancel_work env p missionId reason s1)))"

section \<open>Completing a cancellation\<close>

fun effect_settled :: "effect_record \<Rightarrow> bool" where
  "effect_settled e = (case es_status (ef_effectState e) of
     EffectCompleted _ _ \<Rightarrow> True | EffectFailed _ _ \<Rightarrow> True
   | _ \<Rightarrow> phase_of (dp_status (ef_dispatchState e)) = DCancelled)"

definition completeCancellationWhenSafe ::
  "env \<Rightarrow> scope \<Rightarrow> string \<Rightarrow> tenant \<Rightarrow> err + (mission option \<times> tenant)" where
  "completeCancellationWhenSafe env sc missionId s = (case cancellations_findForMission s missionId of
     None \<Rightarrow> Inr (None, s)
   | Some _ \<Rightarrow>
       sbind (required (mission_get s missionId) (NotFoundError ''Mission'')) (\<lambda>m.
       if mi_state m \<noteq> mstate MRunning PhReconcile then Inr (Some m, s)
       else sbind (effects_for_operations env s (operations_for_mission s (mi_id m))) (\<lambda>effects.
       if \<not> list_all effect_settled effects then Inr (Some m, s)
       else sbind (persistMissionTransition env sc m (mi_version m) CancelReconciliationCompleted s) (\<lambda>(m', s').
         Inr (Some m', s')))))"

section \<open>Lemmas\<close>

lemma upsert_map:
  assumes "distinct (List.map key xs)" "x \<in> set xs" "key y = key x"
  shows "upsert key y xs = List.map (\<lambda>z. if z = x then y else z) xs"
  using assms
proof (induction xs)
  case (Cons z zs)
  show ?case
  proof (cases "z = x")
    case True
    with Cons.prems have "x \<notin> set zs" by auto
    then have "List.map (\<lambda>z. if z = x then y else z) zs = zs" by (intro map_idI) auto
    with True Cons.prems(3) show ?thesis by simp
  next
    case False
    with Cons.prems have "x \<in> set zs" "key z \<noteq> key x" by (auto simp: image_iff)
    with False Cons show ?thesis by simp
  qed
qed simp

definition cancelled_row :: "operation list \<Rightarrow> operation \<Rightarrow> operation" where
  "cancelled_row xs y = (if y \<in> set xs \<and> op_status y = OpPending then y\<lparr> op_status := OpCancelled \<rparr> else y)"

lemma cancelled_row_sel [simp]: "op_id (cancelled_row xs y) = op_id y" "op_missionId (cancelled_row xs y) = op_missionId y"
  by (simp_all add: cancelled_row_def)

text \<open>Cancelling operations rewrites exactly the pending ones among them.\<close>

lemma cancel_operations_Inr:
  assumes "cancel_operations sc xs s = Inr s'" "distinct (List.map op_id (tn_operations s))"
    "set xs \<subseteq> set (tn_operations s)" "distinct xs"
  shows "s' = s\<lparr> tn_operations := List.map (cancelled_row xs) (tn_operations s) \<rparr>"
  using assms
proof (induction xs arbitrary: s)
  case Nil
  then show ?case by (simp add: cancelled_row_def[abs_def])
next
  case (Cons x xs)
  show ?case
  proof (cases "op_status x = OpPending")
    case False
    then have "cancelled_row (x # xs) = cancelled_row xs" by (auto simp: cancelled_row_def fun_eq_iff)
    with False Cons show ?thesis by simp
  next
    case True
    let ?y = "x\<lparr> op_status := OpCancelled \<rparr>"
    let ?f = "\<lambda>z. if z = x then ?y else z"
    from True Cons.prems(1) obtain s1 where sv: "operations_save sc ?y s = Inr s1" and r: "cancel_operations sc xs s1 = Inr s'"
      by (auto simp: Let_def result_simps split: if_split_asm)
    from sv have s1: "s1 = s\<lparr> tn_operations := List.map ?f (tn_operations s) \<rparr>"
    proof (rule operations_save_Inr)
      fix cur
      assume c: "operation_get s (op_id ?y) = Some cur"
        and e: "s1 = s\<lparr> tn_operations := upsert op_id (cur\<lparr> op_status := op_status ?y, op_outcome := op_outcome ?y,
           op_committedAt := op_committedAt ?y \<rparr>) (tn_operations s) \<rparr>"
      have "cur = x"
        using c Cons.prems(2,3) by (simp add: operation_get_def lookup_by_eq_Some_distinct) (auto simp: distinct_map inj_on_def)
      with e upsert_map[of op_id "tn_operations s" x ?y] Cons.prems(2,3) show ?thesis by simp
    qed
    have ids: "List.map op_id (tn_operations s1) = List.map op_id (tn_operations s)"
      by (auto simp: s1)
    have "set xs \<subseteq> set (tn_operations s1)" using Cons.prems(3,4) by (auto simp: s1 image_iff)
    with Cons.IH[OF r] Cons.prems(2,4) ids
    have "s' = s1\<lparr> tn_operations := List.map (cancelled_row xs) (tn_operations s1) \<rparr>" by simp
    moreover have "cancelled_row xs (?f z) = cancelled_row (x # xs) z" for z
      using True Cons.prems(4) by (auto simp: cancelled_row_def)
    ultimately show ?thesis by (simp add: s1)
  qed
qed

text \<open>Everything else of a cancellation happens in the gateway tables, the outbox and the counter.\<close>

lemma update_effect_outside: "update_effect e e' s = Inr s' \<Longrightarrow> outside_gateway s' = outside_gateway s"
  by (drule update_effect_Inr(2)) (simp add: outside_gateway_def)

lemma cancel_effects_outside: "cancel_effects t es s = Inr (r, s') \<Longrightarrow> outside_gateway s' = outside_gateway s"
proof (induction es arbitrary: s r)
  case (Cons e es)
  then obtain d where d: "current_dispatch s (er_commandId e) = Some d"
    by (auto simp: Let_def split: option.split_asm)
  show ?case
  proof (cases "classify_cancel e d")
    case CancelNow
    with Cons.prems d obtain s1 r' where u: "update_dispatch d (DispatchCancelled t) t s = Inr s1"
      and c: "cancel_effects t es (withdraw_dispatch_messages (er_commandId e) (dp_generation d) s1) = Inr (r', s')"
      by (auto simp: Let_def result_simps)
    have "outside_gateway s1 = outside_gateway s"
      using update_dispatch_Inr(2)[OF u] by (simp add: outside_gateway_def replace_dispatch_def)
    with Cons.IH[OF c] show ?thesis by (simp add: outside_gateway_def withdraw_dispatch_messages_def)
  next
    case PreserveEffect
    with Cons.prems d Cons.IH show ?thesis by (auto simp: Let_def result_simps)
  next
    case ReconcileEffect
    with Cons.prems d obtain s1 r' where u: "request_effect_cancellation e t s = Inr s1"
      and c: "cancel_effects t es s1 = Inr (r', s')"
      by (auto simp: Let_def result_simps)
    from u have "outside_gateway s1 = outside_gateway s"
      by (auto simp: request_effect_cancellation_def dest: update_effect_outside split: if_split_asm)
    with Cons.IH[OF c] show ?thesis by simp
  qed
qed simp

lemma enqueue_reconciliations_outside:
  "enqueue_reconciliations env sc cs t s = Inr s' \<Longrightarrow> outside_gateway s' = outside_gateway s"
proof (induction cs arbitrary: s)
  case (Cons c cs)
  then obtain e s1 where e: "enqueueCancellationReconciliation env sc e t s = Inr s1"
    and r: "enqueue_reconciliations env sc cs t s1 = Inr s'"
    by (auto simp: result_simps required_def split: option.split_asm)
  have "gateway_grows s s1"
    using e gateway_grows_trans[OF gateway_grows_bump outbox_insert_grows]
    by (auto simp: enqueueCancellationReconciliation_def Let_def split: if_split_asm)
  with Cons.IH[OF r] show ?case by (simp add: gateway_grows_def)
qed simp

lemma outside_gateway_sel:
  assumes "outside_gateway s' = outside_gateway s"
  shows "tn_operations s' = tn_operations s" "tn_missions s' = tn_missions s" "tn_cancellations s' = tn_cancellations s"
    "tn_org s' = tn_org s" "tn_plans s' = tn_plans s" "tn_executions s' = tn_executions s"
  using arg_cong[OF assms, of tn_operations] arg_cong[OF assms, of tn_missions] arg_cong[OF assms, of tn_cancellations]
    arg_cong[OF assms, of tn_org] arg_cong[OF assms, of tn_plans] arg_cong[OF assms, of tn_executions]
  by (simp_all add: outside_gateway_def)

lemma begin_cancellation_Inr:
  assumes "begin_cancellation env p m reason s = Inr ((r, m'), s')"
  obtains effects s1 px s2 s3 s4 where
    "effects_for_operations env s (operations_for_mission s (mi_id m)) = Inr effects"
    "cancel_operations Unfenced (operations_for_mission s (mi_id m)) (tick s) = Inr s1"
    "cancelPendingForMission Unfenced (mi_id m) (read_clock env s) s1 = Inr (px, s2)"
    "enqueue_reconciliations env Unfenced (cx_reconciliation px) (read_clock env s) s2 = Inr s3"
    "r = cancellation_record (fresh_id env IdCancellation s3) p m reason (operations_for_mission s (mi_id m)) effects
       (read_clock env s)"
    "cancellations_insert Unfenced r (bump s3) = Inr s4"
    "persistMissionTransition env Unfenced m (mi_version m) (cancellation_event px) s4 = Inr (m', s')"
  using assms by (auto simp: begin_cancellation_def Let_def result_simps)

lemma cancel_Inr:
  assumes "cancel env caller i reason s = Inr (x, s')"
  obtains p s1 where "authorize_cancellation env caller s = Inr (p, s1)" "cancel_work env p i reason s1 = Inr (x, s')"
    "assertPermission p MissionCancel = Inr ()" "pr_organizationId p = tn_org s1"
  using assms
  by (auto simp: cancel_def assertTenant_def result_simps split: if_split_asm)

text \<open>Authorization reads the clock, and nothing else changes.\<close>

lemma authorize_cancellation_frame:
  assumes "authorize_cancellation env caller s = Inr (p, s1)"
  obtains n where "s1 = s\<lparr> tn_reads := n \<rparr>"
  using assms
  by (cases caller) (auto simp: result_simps tick_def dest!: assertSensitiveMutation_Inr(1) split: if_split_asm)

lemma cancel_effects_preserved:
  "cancel_effects t es s = Inr (r, s') \<Longrightarrow>
     cx_preserved r = List.map er_commandId (filter (\<lambda>e. er_cancellationPolicy e = MandatoryRelock \<or> effect_terminal e) es)"
proof (induction es arbitrary: s r)
  case (Cons e es)
  then obtain d where d: "current_dispatch s (er_commandId e) = Some d"
    by (auto simp: Let_def split: option.split_asm)
  have p: "er_cancellationPolicy e = MandatoryRelock \<or> effect_terminal e \<longleftrightarrow> classify_cancel e d = PreserveEffect"
    by (simp add: classify_cancel_def)
  show ?case
    using Cons d unfolding filter.simps p by (cases "classify_cancel e d") (auto simp: Let_def result_simps)
qed auto

lemma cancellation_transitions:
  assumes "resolveMissionTransition st CancelReconciliationRequired = Inr st'"
  shows "st' = mstate MRunning PhReconcile \<and>
    st \<in> {mstate MRunning PhExecute, mstate MRunning PhReconcile, mstate MWaitingForSystem PhObserve}"
proof -
  from assms obtain t where t: "find (\<lambda>t. tr_from t = st \<and> tr_event t = CancelReconciliationRequired) MISSION_TRANSITIONS = Some t"
    and st': "st' = tr_to t"
    by (auto simp: resolveMissionTransition_def split: if_split_asm option.split_asm)
  have "list_all (\<lambda>t. tr_event t = CancelReconciliationRequired \<longrightarrow> tr_to t = mstate MRunning PhReconcile \<and>
      List.member [mstate MRunning PhExecute, mstate MRunning PhReconcile, mstate MWaitingForSystem PhObserve] (tr_from t))
    MISSION_TRANSITIONS" by code_simp
  with find_Some_in[OF t] show ?thesis by (auto simp: list_all_iff st')
qed

lemma begin_cancellation_tables:
  assumes "begin_cancellation env p m reason s = Inr ((r, m'), s')" "distinct (List.map op_id (tn_operations s))"
  shows "tn_operations s' = List.map (cancelled_row (operations_for_mission s (mi_id m))) (tn_operations s) \<and>
    tn_cancellations s' = tn_cancellations s @ [r] \<and> ca_missionId r = mi_id m"
proof -
  let ?ops = "operations_for_mission s (mi_id m)"
  from assms(1) obtain effects s1 px s2 s3 s4 where
    o': "cancel_operations Unfenced ?ops (tick s) = Inr s1"
    and c: "cancelPendingForMission Unfenced (mi_id m) (read_clock env s) s1 = Inr (px, s2)"
    and e: "enqueue_reconciliations env Unfenced (cx_reconciliation px) (read_clock env s) s2 = Inr s3"
    and r: "r = cancellation_record (fresh_id env IdCancellation s3) p m reason ?ops effects (read_clock env s)"
    and i: "cancellations_insert Unfenced r (bump s3) = Inr s4"
    and t: "persistMissionTransition env Unfenced m (mi_version m) (cancellation_event px) s4 = Inr (m', s')"
    by (rule begin_cancellation_Inr)
  have "distinct ?ops" using assms(2) by (auto simp: operations_for_mission_def distinct_map)
  with cancel_operations_Inr[OF o'] assms(2)
  have s1: "s1 = (tick s)\<lparr> tn_operations := List.map (cancelled_row ?ops) (tn_operations s) \<rparr>"
    by (simp add: tick_def operations_for_mission_def)
  from c have "outside_gateway s2 = outside_gateway s1"
    by (auto simp: cancelPendingForMission_def result_simps dest: cancel_effects_outside)
  then have "outside_gateway s3 = outside_gateway s1" using enqueue_reconciliations_outside[OF e] by simp
  note g = outside_gateway_sel[OF this]
  have s4: "s4 = (bump s3)\<lparr> tn_cancellations := tn_cancellations s3 @ [r] \<rparr>"
    using i by (auto simp: cancellations_insert_def result_simps bump_def split: if_split_asm)
  show ?thesis
    using persist_frame[OF t] g by (simp add: s4 s1 r bump_def tick_def cancellation_record_def split: prod.split)
qed

text \<open>The first successful request begins the cancellation of the stored mission.\<close>

lemma first_cancellation:
  assumes "cancel env caller i reason s = Inr ((r, m'), s')" "cancellations_findForMission s i = None"
  obtains p n m where "mission_get s i = Some m" "mi_id m = i"
    "begin_cancellation env p m reason (s\<lparr> tn_reads := n \<rparr>) = Inr ((r, m'), s')"
proof -
  from assms(1) obtain p s1 where a: "authorize_cancellation env caller s = Inr (p, s1)"
    and w: "cancel_work env p i reason s1 = Inr ((r, m'), s')" by (rule cancel_Inr)
  from a obtain n where s1: "s1 = s\<lparr> tn_reads := n \<rparr>" by (rule authorize_cancellation_frame)
  from w obtain m where m: "mission_get s i = Some m"
    by (auto simp: cancel_work_def required_def s1 mission_get_def split: option.split_asm)
  have i: "mi_id m = i" using m unfolding mission_get_def by (auto dest: lookup_by_SomeD)
  with w m assms(2) have b: "begin_cancellation env p m reason s1 = Inr ((r, m'), s')"
    by (auto simp: cancel_work_def required_def s1 mission_get_def cancellations_findForMission_def split: if_split_asm)
  with that m i show thesis by (simp add: s1)
qed

lemma find_snoc: "find P (xs @ [z]) = (case find P xs of None \<Rightarrow> if P z then Some z else None | v \<Rightarrow> v)"
  by (induction xs) auto

section \<open>Properties\<close>


text \<open>Cancelling twice is cancelling once: a second request for a cancelled mission, by whichever authorized
  caller and for whatever reason, answers with the first record and the mission as it stands, and changes nothing but
  the clock readings.\<close>

theorem cancellation_requests_are_idempotent:
  assumes "cancel env caller i reason s = Inr ((r, m'), s')" "cancellations_findForMission s i = None"
    and "distinct (List.map op_id (tn_operations s))" "distinct (List.map mi_id (tn_missions s))"
    and "cancel env' caller' i reason' s' = Inr (x, s'')"
  shows "x = (r, m') \<and> s'' = s'\<lparr> tn_reads := tn_reads s'' \<rparr>"
proof -
  from first_cancellation[OF assms(1,2)] obtain p s1 n m where s1: "s1 = s\<lparr> tn_reads := n \<rparr>"
    and m: "mission_get s i = Some m" and i: "mi_id m = i"
    and b: "begin_cancellation env p m reason s1 = Inr ((r, m'), s')" by metis
  note f = begin_cancellation_tables[OF b]
  have found: "cancellations_findForMission s' i = Some r"
    using f assms(2,3) by (simp add: cancellations_findForMission_def find_snoc s1 i)
  have mission: "mission_get s' i = Some m'"
  proof -
    from b obtain effects s2 px s3 s4 s5 where
      o': "cancel_operations Unfenced (operations_for_mission s1 (mi_id m)) (tick s1) = Inr s2"
      and c: "cancelPendingForMission Unfenced (mi_id m) (read_clock env s1) s2 = Inr (px, s3)"
      and e: "enqueue_reconciliations env Unfenced (cx_reconciliation px) (read_clock env s1) s3 = Inr s4"
      and ins: "cancellations_insert Unfenced r (bump s4) = Inr s5"
      and t: "persistMissionTransition env Unfenced m (mi_version m) (cancellation_event px) s5 = Inr (m', s')"
      by (rule begin_cancellation_Inr)
    have "distinct (operations_for_mission s1 (mi_id m))"
      using assms(3) by (auto simp: operations_for_mission_def distinct_map s1)
    with cancel_operations_Inr[OF o'] assms(3) have "tn_missions s2 = tn_missions s"
      by (simp add: tick_def s1 operations_for_mission_def)
    moreover from c have "outside_gateway s3 = outside_gateway s2"
      by (auto simp: cancelPendingForMission_def result_simps dest: cancel_effects_outside)
    ultimately have "tn_missions s5 = tn_missions s"
      using ins outside_gateway_sel(2)[OF enqueue_reconciliations_outside[OF e]] outside_gateway_sel(2)[of s3 s2]
      by (auto simp: cancellations_insert_def result_simps bump_def split: if_split_asm)
    from t show ?thesis
    proof (rule persistMissionTransition_Inr)
      fix st cur ev
      assume k: "cur \<in> set (tn_missions s5)" "mi_id cur = mi_id m" "m' = next_mission m st (Suc (mi_version m)) (read_clock env s5)"
        and s': "s' = record_mission (mission_written cur m') ev s5"
      have "cur = m"
        using k(1,2) m assms(4) i \<open>tn_missions s5 = tn_missions s\<close>
        by (simp add: mission_get_def lookup_by_eq_Some_distinct) (auto simp: distinct_map inj_on_def)
      then have "mission_written cur m' = m'" by (simp add: mission_written_def k(3) next_mission_def)
      with i k(3) show ?thesis by (simp add: s' mission_get_def)
    qed
  qed
  from assms(5) obtain p' u where a': "authorize_cancellation env' caller' s' = Inr (p', u)"
    and w': "cancel_work env' p' i reason' u = Inr (x, s'')" by (rule cancel_Inr)
  from a' obtain n' where u: "u = s'\<lparr> tn_reads := n' \<rparr>" by (rule authorize_cancellation_frame)
  have "mi_id m' = i" using mission unfolding mission_get_def by (auto dest: lookup_by_SomeD)
  with w' mission found show ?thesis
    by (auto simp: u cancel_work_def required_def mission_get_def cancellations_findForMission_def)
qed

text \<open>Settled effects make a mission uncancellable outside three checkpoints: when a mission has an effect that
  the cancellation must preserve, a mandatory relock or one already completed or failed, every cancellation of a live
  mission that is not executing, reconciling or observing throws, because the event it needs has no transition there.\<close>

theorem settled_effects_block_cancellation:
  assumes "mission_get s i = Some m" "cancellations_findForMission s i = None"
    and "e \<in> set (mission_effects s i)" "er_cancellationPolicy e = MandatoryRelock \<or> effect_terminal e"
    and "mi_state m \<notin> {mstate MRunning PhExecute, mstate MRunning PhReconcile, mstate MWaitingForSystem PhObserve}"
    and "distinct (List.map op_id (tn_operations s))"
  shows "\<exists>err. cancel env caller i reason s = Inl err"
proof (cases "cancel env caller i reason s")
  case (Inr res)
  then obtain r m' s' where c: "cancel env caller i reason s = Inr ((r, m'), s')" by (cases res) auto
  from first_cancellation[OF c assms(2)] assms(1) obtain p s1 n where s1: "s1 = s\<lparr> tn_reads := n \<rparr>"
    and i: "mi_id m = i" and b: "begin_cancellation env p m reason s1 = Inr ((r, m'), s')" by (metis option.sel)
  from b obtain effects s2 px s3 s5 where
    o': "cancel_operations Unfenced (operations_for_mission s1 (mi_id m)) (tick s1) = Inr s2"
    and k: "cancelPendingForMission Unfenced (mi_id m) (read_clock env s1) s2 = Inr (px, s3)"
    and t: "persistMissionTransition env Unfenced m (mi_version m) (cancellation_event px) s5 = Inr (m', s')"
    by (rule begin_cancellation_Inr)
  have "distinct (operations_for_mission s1 (mi_id m))"
    using assms(6) by (auto simp: operations_for_mission_def distinct_map s1)
  with cancel_operations_Inr[OF o'] assms(6) have "mission_effects s2 i = mission_effects s i"
    by (simp add: tick_def s1 operations_for_mission_def mission_effects_def)
  moreover from k have "cancel_effects (read_clock env s1) (mission_effects s2 i) s2 = Inr (px, s3)"
    by (auto simp: cancelPendingForMission_def result_simps i)
  ultimately have "er_commandId e \<in> set (cx_preserved px)"
    using cancel_effects_preserved assms(3,4) by fastforce
  then have "cancellation_event px = CancelReconciliationRequired" by (auto simp: cancellation_event_def)
  with t obtain st where "resolveMissionTransition (mi_state m) CancelReconciliationRequired = Inr st"
    by (metis persistMissionTransition_Inr)
  with cancellation_transitions assms(5) show ?thesis by blast
qed simp

section \<open>A concrete cancellation\<close>

abbreviation "ex_caller \<equiv> BrowserCancellation ex_session ex_mutation"

lemma ex_cancelled:
  "\<exists>r m' s'. cancel ex_planner_env ex_caller ''mis_aaaaaaaa'' ''late'' ex_activating = Inr ((r, m'), s') \<and>
     mi_state m' = mstate MCancelled PhExecute \<and>
     (\<exists>s''. cancel ex_planner_env ex_caller ''mis_aaaaaaaa'' ''again'' s' = Inr ((r, m'), s''))"
proof -
  have "case cancel ex_planner_env ex_caller ''mis_aaaaaaaa'' ''late'' ex_activating of Inl _ \<Rightarrow> False
    | Inr ((r, m'), s') \<Rightarrow> mi_state m' = mstate MCancelled PhExecute \<and>
       (case cancel ex_planner_env ex_caller ''mis_aaaaaaaa'' ''again'' s' of Inl _ \<Rightarrow> False
        | Inr ((r2, m2), _) \<Rightarrow> r2 = r \<and> m2 = m')" by code_simp
  then show ?thesis unfolding case_Inr_iff by (auto simp: case_Inr_iff)
qed


theorem cancellation_requests_are_idempotent_witness:
  "\<exists>r m' s' s''. cancel ex_planner_env ex_caller ''mis_aaaaaaaa'' ''late'' ex_activating = Inr ((r, m'), s') \<and>
     cancel ex_planner_env ex_caller ''mis_aaaaaaaa'' ''again'' s' = Inr ((r, m'), s'') \<and>
     s'' = s'\<lparr> tn_reads := tn_reads s'' \<rparr>"
proof -
  obtain r m' s' s'' where c: "cancel ex_planner_env ex_caller ''mis_aaaaaaaa'' ''late'' ex_activating = Inr ((r, m'), s')"
    "cancel ex_planner_env ex_caller ''mis_aaaaaaaa'' ''again'' s' = Inr ((r, m'), s'')"
    using ex_cancelled by blast
  have "cancellations_findForMission ex_activating ''mis_aaaaaaaa'' = None"
    "distinct (List.map op_id (tn_operations ex_activating))" "distinct (List.map mi_id (tn_missions ex_activating))"
    by code_simp+
  from cancellation_requests_are_idempotent[OF c(1) this c(2)] c show ?thesis by blast
qed

text \<open>A mission at its verification checkpoint whose preheat has completed.\<close>

definition ex_verifying :: tenant where
  "ex_verifying = ex_materialized\<lparr> tn_missions := [ex_mission\<lparr> mi_state := mstate MRunning PhVerify, mi_version := 7 \<rparr>],
     tn_effects := List.map (\<lambda>e. e\<lparr> er_status := Some CbCompleted, er_callbackId := Some ''cb_aaaaaaaa'' \<rparr>)
       (tn_effects ex_materialized) \<rparr>"

theorem settled_effects_block_cancellation_witness:
  "\<exists>err. cancel ex_planner_env ex_caller ''mis_aaaaaaaa'' ''late'' ex_verifying = Inl err"
proof -
  have "case mission_effects ex_verifying ''mis_aaaaaaaa'' of [e] \<Rightarrow> effect_terminal e | _ \<Rightarrow> False" by code_simp
  then obtain e where e: "e \<in> set (mission_effects ex_verifying ''mis_aaaaaaaa'')"
    "er_cancellationPolicy e = MandatoryRelock \<or> effect_terminal e"
    by (auto split: list.split_asm)
  have m: "mission_get ex_verifying ''mis_aaaaaaaa'' = Some (hd (tn_missions ex_verifying))"
    "cancellations_findForMission ex_verifying ''mis_aaaaaaaa'' = None"
    "mi_state (hd (tn_missions ex_verifying)) \<notin>
       {mstate MRunning PhExecute, mstate MRunning PhReconcile, mstate MWaitingForSystem PhObserve}"
    "distinct (List.map op_id (tn_operations ex_verifying))" by code_simp+
  show ?thesis by (rule settled_effects_block_cancellation[OF m(1,2) e m(3,4)])
qed

end
