(* ===== verification/Callback_Service.thy ===== *)
theory Callback_Service
  imports Cancellation_Service
begin

text \<open>
  What happens at the end of an execution: the deadline job
  (\<open>application/src/execution-deadline-service.ts\<close>) and the ingestion of a verified
  gateway callback (\<open>application/src/callback-service.ts\<close>), which applies the callback
  to its effect, resolves the milestone, plans the relock of a completed unlock,
  evaluates the execution, moves the mission on and completes a pending cancellation.
  The signature check that turns a raw callback into a verified one is a port; its
  result is the argument.
\<close>

section \<open>Verification of the mission is requested\<close>

definition verify_key :: "mission \<Rightarrow> string" where
  "verify_key m = ''mission.verify:'' @ mi_id m @ '':'' @ show_nat (mi_version m)"

definition enqueueMissionVerification :: "env \<Rightarrow> scope \<Rightarrow> mission \<Rightarrow> instant \<Rightarrow> tenant \<Rightarrow> err + tenant" where
  "enqueueMissionVerification env sc m createdAt s =
     (if \<not> is_none (findByDeduplicationKey s (verify_key m)) then Inr s
      else outbox_insert sc (new_outbox_message (fresh_id env IdOutbox s) (mi_organizationId m) TopicMissionVerify
             (verify_key m) (MissionReference (mi_organizationId m) (mi_id m)) createdAt createdAt) (bump s))"

fun readiness_event :: "readiness_reason \<Rightarrow> mission_event_kind" where
  "readiness_event DeadlineElapsed = ObservationDeadlineExpired"
| "readiness_event _ = EvidenceArrived"

fun readiness_ready :: "readiness_result \<Rightarrow> readiness_reason option" where
  "readiness_ready (ExecutionNotReady _) = None"
| "readiness_ready (ExecutionReplayed k _) = Some k"
| "readiness_ready (ExecutionFinalized k _) = Some k"

definition advanceMissionWhenReady ::
  "env \<Rightarrow> scope \<Rightarrow> readiness_result \<Rightarrow> tenant \<Rightarrow> err + (mission \<times> tenant)" where
  "advanceMissionWhenReady env sc rd s =
     sbind (required (mission_get s (ex_missionId (readiness_execution rd))) (NotFoundError ''Mission'')) (\<lambda>m.
     case readiness_ready rd of
       None \<Rightarrow> Inr (m, s)
     | Some k \<Rightarrow>
         if mi_state m = mstate MWaitingForSystem PhObserve then
           sbind (persistMissionTransition env sc m (mi_version m) (readiness_event k) s) (\<lambda>(n, s1).
           sbind (enqueueMissionVerification env sc n (read_clock env s1) (tick s1)) (\<lambda>s2. Inr (n, s2)))
         else if mi_state m = mstate MRunning PhVerify then
           sbind (enqueueMissionVerification env sc m (read_clock env s) (tick s)) (\<lambda>s1. Inr (m, s1))
         else Inr (m, s))"

section \<open>The deadline job\<close>

definition evaluate_deadline ::
  "env \<Rightarrow> string \<Rightarrow> string \<Rightarrow> string \<Rightarrow> string \<Rightarrow> tenant \<Rightarrow> err + ((readiness_result \<times> mission) \<times> tenant)" where
  "evaluate_deadline env org missionId operationId executionId s =
     (if \<not> outbox_payload_ok (ExecutionDeadlineReference org missionId operationId executionId)
        then Inl (ZodError ''ExecutionDeadlineReference'')
      else sbind (assertTenant s org) (\<lambda>_.
      sbind (executions_get s executionId) (\<lambda>stored.
      sbind (required stored (NotFoundError ''Execution'')) (\<lambda>r.
      if sx_operationId r \<noteq> operationId \<or> ex_operationId (sx_execution r) \<noteq> operationId \<or>
         ex_missionId (sx_execution r) \<noteq> missionId \<or> ex_organizationId (sx_execution r) \<noteq> org
        then Inl (ConflictError ''Execution deadline reference does not match persisted execution'')
      else sbind (evaluateReadiness Unfenced missionId operationId executionId (read_clock env s) (tick s)) (\<lambda>(res, s1).
      sbind (required res (NotFoundError ''Execution'')) (\<lambda>rd.
      sbind (advanceMissionWhenReady env Unfenced rd s1) (\<lambda>(m, s2). Inr ((rd, m), s2))))))))"

section \<open>Verified callbacks\<close>

text \<open>The body \<open>[A-Za-z0-9_-]{8,64}\<close> of the key and principal identifiers.\<close>

definition token_body_ok :: "string \<Rightarrow> bool" where
  "token_body_ok b = (8 \<le> length b \<and> length b \<le> 64 \<and>
     list_all (\<lambda>c. is_id_char c \<or> List.member ''ABCDEFGHIJKLMNOPQRSTUVWXYZ'' c) b)"

definition token_id_ok :: "string \<Rightarrow> string \<Rightarrow> bool" where
  "token_id_ok pre s = (case strip_prefix (pre @ ''_'') s of None \<Rightarrow> False | Some b \<Rightarrow> token_body_ok b)"

record verified_callback =
  vc_callback :: callback
  vc_principalId :: string
  vc_organizationId :: string
  vc_keyId :: string
  vc_keyVersion :: nat
  vc_verifierVersion :: nat
  vc_signatureTimestamp :: instant
  vc_digest :: string

definition verified_callback_ok :: "verified_callback \<Rightarrow> bool" where
  "verified_callback_ok v = (callback_ok (vc_callback v) \<and> token_id_ok ''gwp'' (vc_principalId v) \<and>
     id_ok ''org'' (vc_organizationId v) \<and> token_id_ok ''gwk'' (vc_keyId v) \<and> 0 < vc_keyVersion v \<and>
     vc_verifierVersion v = 1 \<and> sha256_ok (vc_digest v) \<and>
     cb_organizationId (vc_callback v) = vc_organizationId v)"

definition received_callback :: "verified_callback \<Rightarrow> instant \<Rightarrow> stored_callback" where
  "received_callback v t = \<lparr> sb_callback = vc_callback v, sb_verifierKeyId = vc_keyId v,
     sb_verifierVersion = vc_verifierVersion v, sb_verifiedPayloadDigest = vc_digest v, sb_receivedAt = t \<rparr>"

definition gatewayEvidenceRecord :: "evidence \<Rightarrow> stored_callback \<Rightarrow> instant \<Rightarrow> string \<Rightarrow> persisted_evidence" where
  "gatewayEvidenceRecord e b t i = \<lparr> pe_evidence = e,
     pe_receipt = \<lparr> ar_id = i, ar_evidenceId = ev_id e, ar_organizationId = ev_organizationId e,
       ar_missionId = ev_missionId e, ar_palaceId = ev_palaceId e, ar_verifiedAt = sb_receivedAt b,
       ar_authority = GatewayCallbackReceipt (cb_id (sb_callback b)) (cb_commandId (sb_callback b))
         (sb_verifiedPayloadDigest b) True True \<rparr>,
     pe_persistedAt = t \<rparr>"

fun gateway_records ::
  "env \<Rightarrow> stored_callback \<Rightarrow> instant \<Rightarrow> evidence list \<Rightarrow> tenant \<Rightarrow> err + (persisted_evidence list \<times> tenant)" where
  "gateway_records env b t [] s = Inr ([], s)"
| "gateway_records env b t (e # es) s =
     (let r = gatewayEvidenceRecord e b t (fresh_id env IdReceipt s) in
      if \<not> persisted_evidence_ok (en_obsHash env) r then Inl (ZodError ''PersistedEvidenceRecord'')
      else sbind (gateway_records env b t es (bump s)) (\<lambda>(rs, s'). Inr (r # rs, s')))"

definition selectMilestoneEvidence ::
  "callback_status \<Rightarrow> persisted_evidence list \<Rightarrow> err + persisted_evidence" where
  "selectMilestoneEvidence st rs = required
     (find (\<lambda>r. if st = CbFailed then is_delivery (ev_body (pe_evidence r)) else is_observation (ev_body (pe_evidence r))) rs)
     (ConflictError ''Terminal callback lacks milestone evidence'')"

definition assertCallbackBindings :: "callback \<Rightarrow> command \<Rightarrow> mission \<Rightarrow> string \<Rightarrow> err + unit" where
  "assertCallbackBindings b c m palaceId = guard_that
     (cb_organizationId b = gc_organizationId c \<and> cb_organizationId b = mi_organizationId m \<and>
      cb_missionId b = gc_missionId c \<and> cb_missionId b = mi_id m \<and>
      cb_palaceId b = gc_palaceId c \<and> cb_palaceId b = palaceId \<and>
      cb_operationId b = gc_operationId c \<and> cb_commandId b = gc_id c)
     (ConflictError ''Gateway callback tenant and effect bindings do not match'')"

section \<open>Ingestion\<close>

datatype ingestion_status = IngestDuplicate | IngestReplayed | IngestStored

record ingestion =
  ci_status :: ingestion_status
  ci_callback :: stored_callback
  ci_execution :: execution
  ci_mission :: mission

definition callback_failure :: "callback_status \<Rightarrow> persisted_evidence \<Rightarrow> milestone_failure option" where
  "callback_failure st r = (if st \<noteq> CbFailed then None else Some \<lparr>
     mf_code = (case ev_body (pe_evidence r) of GatewayDelivery _ _ _ (Some k) \<Rightarrow> k | _ \<Rightarrow> ''GATEWAY_EFFECT_FAILED''),
     mf_message = ''Gateway reported a terminal device effect failure'' \<rparr>)"

fun is_unlock_command :: "evidence_body \<Rightarrow> bool" where
  "is_unlock_command (DeviceCommand _ KUnlock _) = True"
| "is_unlock_command _ = False"

text \<open>The records of the operation that a callback belongs to.\<close>

record callback_scope =
  co_operation :: operation
  co_plan :: plan
  co_action :: plan_action
  co_mission :: mission
  co_effect :: effect_record

definition unlock_context ::
  "callback_scope \<Rightarrow> device_row list \<Rightarrow> capability_row list \<Rightarrow> persisted_evidence \<Rightarrow> instant \<Rightarrow> plan_context" where
  "unlock_context co devices capabilities u t = \<lparr> pc_operation = co_operation co, pc_plan = co_plan co,
     pc_action = co_action co, pc_devices = devices, pc_capabilities = capabilities, pc_evidence = u, pc_at = t \<rparr>"

definition schedule_relock ::
  "env \<Rightarrow> callback_scope \<Rightarrow> callback_status \<Rightarrow> persisted_evidence list \<Rightarrow> effect_authorization \<Rightarrow> instant \<Rightarrow> tenant \<Rightarrow>
   err + tenant" where
  "schedule_relock env co st records auth t s =
     (if \<not> (st = CbCompleted \<and> ef_milestone (co_effect co) = MsUnlock) then Inr s
      else sbind (required (find (\<lambda>r. is_unlock_command (ev_body (pe_evidence r))) records)
          (ConflictError ''Completed unlock callback has no command evidence'')) (\<lambda>u.
      sbind (capabilities_list s (pl_palaceId (co_plan co))) (\<lambda>(devices, capabilities).
      sbind (planEvidence env (unlock_context co devices capabilities u t)) (\<lambda>planned.
      sbind (materialize_planned env Unfenced (co_operation co) (co_plan co) planned auth t s) (\<lambda>(_, s'). Inr s')))))"

fun advanced_to :: "advance_result \<Rightarrow> execution" where
  "advanced_to (MilestoneAdvanced x) = x"
| "advanced_to (MilestoneReplayed x) = x"

text \<open>A terminal callback settles the milestone of its effect.\<close>

definition settle_callback ::
  "env \<Rightarrow> callback_scope \<Rightarrow> stored_callback \<Rightarrow> persisted_evidence list \<Rightarrow> effect_authorization \<Rightarrow> instant \<Rightarrow> tenant \<Rightarrow>
   err + (ingestion \<times> tenant)" where
  "settle_callback env co b records auth t s = (let cb = sb_callback b; x = co_operation co; m = co_mission co in
     sbind (selectMilestoneEvidence (cb_status cb) records) (\<lambda>r.
     sbind (advanceMilestone (op_id x) (ef_milestone (co_effect co)) (Some (gc_id (ef_command (co_effect co))))
       (ev_id (pe_evidence r)) (cb_occurredAt cb) (callback_failure (cb_status cb) r) s) (\<lambda>(adv, s1).
     sbind (required adv (NotFoundError ''Execution'')) (\<lambda>a.
     sbind (schedule_relock env co (cb_status cb) records auth t s1) (\<lambda>s2.
     sbind (evaluateReadiness Unfenced (mi_id m) (op_id x) (ex_id (advanced_to a)) t s2) (\<lambda>(ready, s3).
     sbind (required ready (NotFoundError ''Execution'')) (\<lambda>rd.
     sbind (advanceMissionWhenReady env Unfenced rd s3) (\<lambda>(n, s4).
     sbind (completeCancellationWhenSafe env Unfenced (mi_id m) s4) (\<lambda>(c, s5).
       Inr (\<lparr> ci_status = IngestStored, ci_callback = b, ci_execution = readiness_execution rd,
              ci_mission = (case c of None \<Rightarrow> n | Some cm \<Rightarrow> cm) \<rparr>, s5))))))))))"

text \<open>The reads and checks before the callback is applied.\<close>

definition callback_scope_of :: "env \<Rightarrow> callback \<Rightarrow> tenant \<Rightarrow> err + callback_scope" where
  "callback_scope_of env cb s =
     sbind (hydrateGatewayEffect env s (cb_commandId cb)) (\<lambda>found.
     sbind (required found (ConflictError ''Callback does not match a materialized gateway effect'')) (\<lambda>e.
     if gc_operationId (ef_command e) \<noteq> cb_operationId cb
       then Inl (ConflictError ''Callback does not match a materialized gateway effect'')
     else sbind (validateGatewayCommandCallbackBinding (en_hash env) (ef_command e) cb) (\<lambda>_.
     sbind (required (operation_get s (cb_operationId cb)) (NotFoundError ''Committed operation'')) (\<lambda>x.
     if op_status x \<noteq> OpCommitted then Inl (NotFoundError ''Committed operation'')
     else sbind (required (plan_get s (op_planId x)) (NotFoundError ''Plan'')) (\<lambda>p.
     sbind (required (find_action (op_planActionId x) p) (NotFoundError ''Plan action'')) (\<lambda>act.
     sbind (required (mission_get s (op_missionId x)) (NotFoundError ''Mission'')) (\<lambda>m.
     sbind (assertCallbackBindings cb (ef_command e) m (pl_palaceId p)) (\<lambda>_.
       Inr \<lparr> co_operation = x, co_plan = p, co_action = act, co_mission = m, co_effect = e \<rparr>))))))))"

definition ingest :: "env \<Rightarrow> verified_callback \<Rightarrow> tenant \<Rightarrow> err + (ingestion \<times> tenant)" where
  "ingest env v s = (let cb = vc_callback v in
     if \<not> verified_callback_ok v then Inl (ZodError ''VerifiedGatewayCallback'')
     else if vc_digest v \<noteq> en_callbackHash env cb
       then Inl (ConflictError ''Verified gateway callback digest does not match its canonical payload'')
     else let t = read_clock env s; s1 = tick s; b = received_callback v t in
     sbind (assertTenant s1 (vc_organizationId v)) (\<lambda>_.
     sbind (callback_scope_of env cb s1) (\<lambda>co.
     sbind (gateway_records env b t (cb_evidence cb) s1) (\<lambda>(records, s2).
     sbind (applyCallback env Unfenced b records s2) (\<lambda>(app, s3).
     sbind (required app (NotFoundError ''Gateway effect'')) (\<lambda>(st, r, stored).
     sbind (findForOperation s3 (op_id (co_operation co))) (\<lambda>found.
     sbind (required found (NotFoundError ''Execution'')) (\<lambda>sx.
     if st \<noteq> CallbackAdvanced then
       Inr (\<lparr> ci_status = (if st = CallbackDuplicate then IngestDuplicate else IngestReplayed), ci_callback = stored,
              ci_execution = sx_execution sx, ci_mission = co_mission co \<rparr>, s3)
     else if \<not> List.member [CbCompleted, CbFailed] (cb_status cb) then
       Inr (\<lparr> ci_status = IngestStored, ci_callback = stored, ci_execution = sx_execution sx,
              ci_mission = co_mission co \<rparr>, s3)
     else settle_callback env co b records (sx_authorization sx) t s3))))))))"

section \<open>Lemmas\<close>

text \<open>The tables an effect is read from.\<close>

definition gateway_tables ::
  "tenant \<Rightarrow> command list \<times> effect_row list \<times> dispatch list \<times> stored_callback list" where
  "gateway_tables s = (tn_commands s, tn_effects s, tn_dispatches s, tn_callbacks s)"

lemma hydrateGatewayEffect_cong:
  assumes "gateway_tables s' = gateway_tables s"
  shows "hydrateGatewayEffect env s' c = hydrateGatewayEffect env s c"
proof -
  from assms have t: "tn_commands s' = tn_commands s" "tn_effects s' = tn_effects s" "tn_dispatches s' = tn_dispatches s"
    "tn_callbacks s' = tn_callbacks s" by (simp_all add: gateway_tables_def)
  then have "lockGatewayAggregate s' c = lockGatewayAggregate s c"
    by (simp add: lockGatewayAggregate_def command_get_def effect_get_def current_dispatch_def dispatch_log_def)
  moreover have "effect_status_of s' = effect_status_of s"
    by (rule ext) (simp add: effect_status_of_def callback_evidence_ids_def t cong: option.case_cong)
  ultimately show ?thesis by (simp add: hydrateGatewayEffect_def cong: option.case_cong)
qed

lemma effects_for_operations_cong:
  assumes "gateway_tables s' = gateway_tables s"
  shows "effects_for_operations env s' xs = effects_for_operations env s xs"
proof -
  have "hydrate_all env s' cs = hydrate_all env s cs" for cs
    by (induction cs) (simp_all add: hydrateGatewayEffect_cong[OF assms])
  then have "effects_for_operation env s' op = effects_for_operation env s op" for op
    using assms by (simp add: effects_for_operation_def gateway_tables_def)
  then show ?thesis by (induction xs) simp_all
qed

lemma evaluateReadiness_frame:
  assumes "evaluateReadiness sc mi op x t s = Inr (res, s')"
  obtains es where "s' = s\<lparr> tn_executions := es \<rparr>"
  using assms
proof (cases rule: evaluateReadiness_Inr)
  case (finalized r k r')
  then show ?thesis using that by (auto simp: put_execution_def)
qed (use that[of "tn_executions s"] in simp_all)

lemma advanceMilestone_frame:
  assumes "advanceMilestone op n c e t f s = Inr (res, s')"
  obtains es where "s' = s\<lparr> tn_executions := es \<rparr>"
  using assms
proof (cases rule: advanceMilestone_Inr)
  case (advanced r m r')
  then show ?thesis using that by (auto simp: put_execution_def)
qed (use that[of "tn_executions s"] in simp_all)

lemma persist_gateway_tables:
  "persistMissionTransition env sc m v ev s = Inr (m', s') \<Longrightarrow>
     gateway_tables s' = gateway_tables s \<and> tn_operations s' = tn_operations s \<and> tn_cancellations s' = tn_cancellations s"
  by (drule persist_frame) (simp add: gateway_tables_def)

lemma enqueueMissionVerification_Inr:
  assumes "enqueueMissionVerification env sc m t s = Inr s'"
  obtains n os where "s' = s\<lparr> tn_ids := n, tn_outbox := tn_outbox s @ os \<rparr>"
    "findByDeduplicationKey s' (verify_key m) \<noteq> None"
proof (cases "findByDeduplicationKey s (verify_key m)")
  case None
  let ?msg = "new_outbox_message (fresh_id env IdOutbox s) (mi_organizationId m) TopicMissionVerify
             (verify_key m) (MissionReference (mi_organizationId m) (mi_id m)) t t"
  from None assms have "outbox_insert sc ?msg (bump s) = Inr s'" by (simp add: enqueueMissionVerification_def)
  from outbox_insert_Inr[OF this] have s': "s' = (bump s)\<lparr> tn_outbox := tn_outbox (bump s) @ [?msg] \<rparr>" by simp
  have "findByDeduplicationKey s' (verify_key m) \<noteq> None"
    by (simp add: s' findByDeduplicationKey_def lookup_by_append split: option.split)
  then show thesis by (rule that[where n = "Suc (tn_ids s)" and os = "[?msg]", rotated]) (simp add: s' bump_def)
next
  case (Some x)
  then show thesis using assms by (intro that[where n = "tn_ids s" and os = "[]"]) (auto simp: enqueueMissionVerification_def)
qed

text \<open>What moving the mission on does, on its three branches.\<close>

lemma advanceMissionWhenReady_Inr:
  assumes "advanceMissionWhenReady env sc rd s = Inr (n, s')"
  obtains (stays) "mission_get s (ex_missionId (readiness_execution rd)) = Some n" "s' = s"
      "readiness_ready rd = None \<or> mi_state n \<notin> {mstate MWaitingForSystem PhObserve, mstate MRunning PhVerify}"
    | (observed) m k s1 where "mission_get s (ex_missionId (readiness_execution rd)) = Some m" "readiness_ready rd = Some k"
      "mi_state m = mstate MWaitingForSystem PhObserve"
      "persistMissionTransition env sc m (mi_version m) (readiness_event k) s = Inr (n, s1)"
      "enqueueMissionVerification env sc n (read_clock env s1) (tick s1) = Inr s'"
    | (verifying) k where "mission_get s (ex_missionId (readiness_execution rd)) = Some n" "readiness_ready rd = Some k"
      "mi_state n = mstate MRunning PhVerify"
      "enqueueMissionVerification env sc n (read_clock env s) (tick s) = Inr s'"
proof -
  from assms obtain m where m: "mission_get s (ex_missionId (readiness_execution rd)) = Some m"
    by (auto simp: advanceMissionWhenReady_def required_def split: option.split_asm)
  show thesis
  proof (cases "readiness_ready rd")
    case None
    with assms m show thesis by (intro stays) (auto simp: advanceMissionWhenReady_def required_def)
  next
    case (Some k)
    consider "mi_state m = mstate MWaitingForSystem PhObserve" | "mi_state m = mstate MRunning PhVerify"
      | "mi_state m \<noteq> mstate MWaitingForSystem PhObserve" "mi_state m \<noteq> mstate MRunning PhVerify" by blast
    then show thesis
    proof cases
      case 1
      with assms m Some obtain s1 where "persistMissionTransition env sc m (mi_version m) (readiness_event k) s = Inr (n, s1)"
        "enqueueMissionVerification env sc n (read_clock env s1) (tick s1) = Inr s'"
        by (auto simp: advanceMissionWhenReady_def required_def result_simps)
      with observed[OF m Some 1] show thesis by blast
    next
      case 2
      with assms m Some have "m = n" "enqueueMissionVerification env sc n (read_clock env s) (tick s) = Inr s'"
        by (auto simp: advanceMissionWhenReady_def required_def result_simps)
      with verifying m Some 2 show thesis by blast
    next
      case 3
      with assms m Some show thesis by (intro stays) (auto simp: advanceMissionWhenReady_def required_def)
    qed
  qed
qed

lemma advanceMissionWhenReady_tables:
  assumes "advanceMissionWhenReady env sc rd s = Inr (n, s')"
  shows "gateway_tables s' = gateway_tables s \<and> tn_operations s' = tn_operations s \<and> tn_cancellations s' = tn_cancellations s \<and>
    tn_executions s' = tn_executions s"
  using assms
proof (cases rule: advanceMissionWhenReady_Inr)
  case (observed m k s1)
  from observed(5) obtain i os where "s' = (tick s1)\<lparr> tn_ids := i, tn_outbox := tn_outbox (tick s1) @ os \<rparr>"
    by (rule enqueueMissionVerification_Inr)
  with persist_gateway_tables[OF observed(4)] persist_frame[OF observed(4)] show ?thesis
    by (simp add: gateway_tables_def tick_def)
next
  case (verifying k)
  from verifying(4) obtain i os where "s' = (tick s)\<lparr> tn_ids := i, tn_outbox := tn_outbox (tick s) @ os \<rparr>"
    by (rule enqueueMissionVerification_Inr)
  then show ?thesis by (simp add: gateway_tables_def tick_def)
qed simp

lemma completeCancellation_Inr:
  assumes "completeCancellationWhenSafe env sc i s = Inr (c, s')"
  obtains (none) "cancellations_findForMission s i = None" "c = None" "s' = s"
    | (elsewhere) m where "mission_get s i = Some m" "mi_state m \<noteq> mstate MRunning PhReconcile" "c = Some m" "s' = s"
        "cancellations_findForMission s i \<noteq> None"
    | (waiting) m es where "mission_get s i = Some m" "mi_state m = mstate MRunning PhReconcile" "c = Some m" "s' = s"
        "effects_for_operations env s (operations_for_mission s (mi_id m)) = Inr es" "\<not> list_all effect_settled es"
        "cancellations_findForMission s i \<noteq> None"
    | (completed) m m' es where "mission_get s i = Some m" "mi_state m = mstate MRunning PhReconcile" "c = Some m'"
        "effects_for_operations env s (operations_for_mission s (mi_id m)) = Inr es" "list_all effect_settled es"
        "persistMissionTransition env sc m (mi_version m) CancelReconciliationCompleted s = Inr (m', s')"
        "cancellations_findForMission s i \<noteq> None"
proof (cases "cancellations_findForMission s i")
  case None
  with assms show thesis by (intro none) (auto simp: completeCancellationWhenSafe_def)
next
  case (Some k)
  with assms obtain m where m: "mission_get s i = Some m"
    by (auto simp: completeCancellationWhenSafe_def required_def split: option.split_asm)
  show thesis
  proof (cases "mi_state m = mstate MRunning PhReconcile")
    case False
    with assms Some m show thesis by (intro elsewhere) (auto simp: completeCancellationWhenSafe_def required_def)
  next
    case True
    with assms Some m obtain es where es: "effects_for_operations env s (operations_for_mission s (mi_id m)) = Inr es"
      by (auto simp: completeCancellationWhenSafe_def required_def result_simps)
    show thesis
    proof (cases "list_all effect_settled es")
      case safe: True
      with assms Some m True es obtain m' where
        "persistMissionTransition env sc m (mi_version m) CancelReconciliationCompleted s = Inr (m', s')" "c = Some m'"
        by (auto simp: completeCancellationWhenSafe_def required_def result_simps)
      with completed m True es safe Some show thesis by auto
    next
      case False
      with assms Some m True es show thesis
        by (intro waiting) (auto simp: completeCancellationWhenSafe_def required_def)
    qed
  qed
qed

lemma callback_scope_of_Inr:
  assumes "callback_scope_of env cb s = Inr co"
  obtains "hydrateGatewayEffect env s (cb_commandId cb) = Inr (Some (co_effect co))"
    "gc_operationId (ef_command (co_effect co)) = cb_operationId cb"
    "command_callback_pair_ok (en_hash env) (ef_command (co_effect co)) cb"
    "operation_get s (cb_operationId cb) = Some (co_operation co)" "op_status (co_operation co) = OpCommitted"
    "plan_get s (op_planId (co_operation co)) = Some (co_plan co)"
    "find_action (op_planActionId (co_operation co)) (co_plan co) = Some (co_action co)"
    "mission_get s (op_missionId (co_operation co)) = Some (co_mission co)"
    "assertCallbackBindings cb (ef_command (co_effect co)) (co_mission co) (pl_palaceId (co_plan co)) = Inr ()"
proof -
  from assms obtain e x p act m where
    "hydrateGatewayEffect env s (cb_commandId cb) = Inr (Some e)" "gc_operationId (ef_command e) = cb_operationId cb"
    "validateGatewayCommandCallbackBinding (en_hash env) (ef_command e) cb \<noteq> Inl (ZodError ''GatewayCommandCallbackPair'')"
    "operation_get s (cb_operationId cb) = Some x" "op_status x = OpCommitted"
    "plan_get s (op_planId x) = Some p" "find_action (op_planActionId x) p = Some act"
    "mission_get s (op_missionId x) = Some m" "assertCallbackBindings cb (ef_command e) m (pl_palaceId p) = Inr ()"
    "co = \<lparr> co_operation = x, co_plan = p, co_action = act, co_mission = m, co_effect = e \<rparr>"
    by (auto simp: callback_scope_of_def required_def result_simps split: if_split_asm option.split_asm)
  with that show thesis by (simp add: validateGatewayCommandCallbackBinding_def split: if_split_asm)
qed

lemma gateway_records_Inr:
  "gateway_records env b t es s = Inr (rs, s') \<Longrightarrow>
     List.map pe_evidence rs = es \<and> (\<exists>n. s' = s\<lparr> tn_ids := n \<rparr>) \<and>
     (\<forall>r\<in>set rs. ar_authority (pe_receipt r) = GatewayCallbackReceipt (cb_id (sb_callback b)) (cb_commandId (sb_callback b))
         (sb_verifiedPayloadDigest b) True True)"
proof (induction es arbitrary: s rs)
  case Nil
  then show ?case by (auto intro: exI[of _ "tn_ids s"])
next
  case (Cons e es)
  then obtain rs' where r: "gateway_records env b t es (bump s) = Inr (rs', s')"
    and rs: "rs = gatewayEvidenceRecord e b t (fresh_id env IdReceipt s) # rs'"
    by (auto simp: Let_def result_simps split: if_split_asm)
  from Cons.IH[OF r] obtain n where "s' = (bump s)\<lparr> tn_ids := n \<rparr>" by blast
  then have "s' = s\<lparr> tn_ids := n \<rparr>" by (simp add: bump_def)
  with Cons.IH[OF r] rs show ?case by (auto simp: gatewayEvidenceRecord_def)
qed

lemma ingest_Inr:
  assumes "ingest env v s = Inr (res, s')"
  obtains co records s2 st r stored s3 sx where
    "verified_callback_ok v" "vc_digest v = en_callbackHash env (vc_callback v)" "vc_organizationId v = tn_org s"
    "callback_scope_of env (vc_callback v) (tick s) = Inr co"
    "gateway_records env (received_callback v (read_clock env s)) (read_clock env s) (cb_evidence (vc_callback v)) (tick s) =
       Inr (records, s2)"
    "applyCallback env Unfenced (received_callback v (read_clock env s)) records s2 = Inr (Some (st, r, stored), s3)"
    "findForOperation s3 (op_id (co_operation co)) = Inr (Some sx)"
    "st \<noteq> CallbackAdvanced \<and> s' = s3 \<and> ci_status res = (if st = CallbackDuplicate then IngestDuplicate else IngestReplayed) \<and>
       ci_callback res = stored \<and> ci_mission res = co_mission co \<or>
     st = CallbackAdvanced \<and> cb_status (vc_callback v) \<notin> {CbCompleted, CbFailed} \<and> s' = s3 \<and>
       ci_status res = IngestStored \<and> ci_mission res = co_mission co \<or>
     st = CallbackAdvanced \<and> cb_status (vc_callback v) \<in> {CbCompleted, CbFailed} \<and>
       settle_callback env co (received_callback v (read_clock env s)) records (sx_authorization sx) (read_clock env s) s3 =
         Inr (res, s')"
proof -
  let ?t = "read_clock env s"
  let ?b = "received_callback v ?t"
  from assms have v: "verified_callback_ok v" "vc_digest v = en_callbackHash env (vc_callback v)"
    "vc_organizationId v = tn_org s"
    by (auto simp: ingest_def Let_def assertTenant_def result_simps split: if_split_asm)
  with assms obtain co records s2 s3 app where
    a: "callback_scope_of env (vc_callback v) (tick s) = Inr co"
    "gateway_records env ?b ?t (cb_evidence (vc_callback v)) (tick s) = Inr (records, s2)"
    "applyCallback env Unfenced ?b records s2 = Inr (app, s3)"
    by (auto simp: ingest_def Let_def result_simps split: if_split_asm)
  with assms v obtain st r stored where app: "app = Some (st, r, stored)"
    by (cases app) (auto simp: ingest_def Let_def result_simps)
  with assms v a obtain sx where f: "findForOperation s3 (op_id (co_operation co)) = Inr (Some sx)"
    by (auto simp: ingest_def Let_def required_def result_simps split: option.split_asm)
  from assms v a app f show thesis
    by (intro that[OF v a(1,2) a(3)[unfolded app] f])
      (auto simp: ingest_def Let_def required_def result_simps split: if_split_asm)
qed

lemma applyCallback_frame:
  assumes "applyCallback env sc b ps s = Inr (r, s')"
  obtains cbs evs efs where "s' = s\<lparr> tn_callbacks := cbs, tn_evidence := evs, tn_effects := efs \<rparr>"
    "er_commandId ` set efs = er_commandId ` set (tn_effects s)"
  using assms
proof (cases rule: applyCallback_Inr)
  case unchanged
  then show ?thesis by (intro that[where cbs = "tn_callbacks s" and evs = "tn_evidence s" and efs = "tn_effects s"]) simp_all
next
  case (applied cmd e d s1)
  let ?e = "e\<lparr> er_status := Some (cb_status (sb_callback b)), er_callbackId := Some (cb_id (sb_callback b)),
         er_updatedAt := max (er_updatedAt e) (sb_receivedAt b) \<rparr>"
  from appendMany_frame[OF applied(4)] obtain new where
    s1: "s1 = s\<lparr> tn_callbacks := tn_callbacks s @ [b], tn_evidence := tn_evidence s @ new \<rparr>" by auto
  have "e \<in> set (tn_effects s)"
    using applied(1) by (auto simp: lockGatewayAggregate_Some effect_get_def dest: lookup_by_SomeD)
  then have "er_commandId ` set (upsert er_commandId ?e (tn_effects s)) = er_commandId ` set (tn_effects s)"
    by (auto simp: keys_upsert)
  moreover have "s' = s\<lparr> tn_callbacks := tn_callbacks s @ [b], tn_evidence := tn_evidence s @ new,
      tn_effects := upsert er_commandId ?e (tn_effects s) \<rparr>"
    using update_effect_Inr(2)[OF applied(5)] by (simp add: s1)
  ultimately show ?thesis by (rule that[rotated])
qed

text \<open>Every effect row has its command.\<close>

definition effects_owned :: "tenant \<Rightarrow> bool" where
  "effects_owned s = (er_commandId ` set (tn_effects s) \<subseteq> gc_id ` set (tn_commands s))"

lemma hydrateGatewayEffect_Some:
  assumes "hydrateGatewayEffect env s c = Inr (Some r)"
  obtains e where "effect_get s c = Some e" "command_get s c = Some (ef_command r)" "er_dispatchAt e = ef_dispatchAt r"
    "er_milestone e = ef_milestone r" "er_cancellationPolicy e = ef_cancellationPolicy r"
  using assms
  by (auto simp: hydrateGatewayEffect_def lockGatewayAggregate_Some Let_def
      split: option.split_asm prod.split_asm if_split_asm)

lemma materialize_effect:
  assumes "materialize env sc i o' s = Inr (r, s')" "effects_owned s"
  shows "\<exists>e. effect_get s' (gc_id (ei_command i)) = Some e \<and> er_dispatchAt e = ei_dispatchAt i \<and>
    er_milestone e = ei_milestone i \<and> er_cancellationPolicy e = ei_cancellationPolicy i"
  using assms(1)
proof (cases rule: materialize_Inr)
  case (created s2)
  have e: "tn_effects s' = tn_effects s @ [new_effect_row i]"
    using created(1) unfolding created(2) insert_dispatch_def by (auto split: if_splits)
  have "lookup_by er_commandId (gc_id (ei_command i)) (tn_effects s) = None"
    using created(4) assms(2) by (auto simp: lookup_by_None effects_owned_def)
  then show ?thesis by (simp add: effect_get_def e lookup_by_append new_effect_row_def Let_def)
next
  case existing
  let ?c = "ei_command i"
  let ?P = "\<lambda>x. gc_id x = gc_id ?c \<or> gc_operationId x = gc_operationId ?c \<and> gc_logicalKey x = gc_logicalKey ?c"
  show ?thesis
  proof (cases "find ?P (tn_commands s)")
    case None
    then have "tn_commands s' \<noteq> tn_commands s"
      using assms(1) by (auto simp: materialize_def Let_def result_simps insert_dispatch_def split: if_split_asm option.split_asm
          dest!: outbox_insert_Inr)
    with existing show ?thesis by simp
  next
    case (Some x)
    then obtain ef where h: "hydrateGatewayEffect env s (gc_id x) = Inr (Some ef)" "intent_of ef = i"
      using assms(1) by (auto simp: materialize_def Let_def result_simps split: if_split_asm option.split_asm)
    from h(1) obtain e where e: "effect_get s (gc_id x) = Some e" "command_get s (gc_id x) = Some (ef_command ef)"
      "er_dispatchAt e = ef_dispatchAt ef" "er_milestone e = ef_milestone ef" "er_cancellationPolicy e = ef_cancellationPolicy ef"
      by (rule hydrateGatewayEffect_Some)
    from e(2) have "gc_id (ef_command ef) = gc_id x" unfolding command_get_def by (drule_tac lookup_by_SomeD) simp
    with e h(2) existing show ?thesis by (auto simp: intent_of_def)
  qed
qed

text \<open>A single planned effect ends up as its command and its effect row.\<close>

lemma planned_effect_materialized:
  assumes "materialize_planned env sc x p [pf] auth t s = Inr (rs, s')" "effects_owned s"
  shows "\<exists>c e. command_get s' (gc_id c) = Some c \<and> effect_get s' (gc_id c) = Some e \<and> gc_operationId c = op_id x \<and>
    gc_logicalKey c = pf_logicalKey pf \<and> gc_instruction c = pf_instruction pf \<and> er_dispatchAt e = pf_dispatchAt pf \<and>
    er_milestone e = pf_milestone pf \<and> er_cancellationPolicy e = pf_cancellationPolicy pf"
proof -
  from assms(1) obtain c r where c: "createGatewayCommand (en_hash env) (command_input_for x p pf t) = Inr c"
    and m: "materialize env sc (planned_intent c pf auth t) (fresh_id env IdOutbox s) (bump s) = Inr (r, s')"
    by (auto simp: materializePlannedGatewayEffect_def result_simps split: if_splits)
  from c have k: "gc_operationId c = op_id x \<and> gc_logicalKey c = pf_logicalKey pf \<and> gc_instruction c = pf_instruction pf"
    by (auto simp: createGatewayCommand_def command_input_for_def Let_def split: if_split_asm sum.split_asm)
  have "effects_owned (bump s)" using assms(2) by (simp add: effects_owned_def bump_def)
  from materialize_effect[OF m this] materialize_commands[OF m] k show ?thesis
    by (auto simp: planned_intent_def)
qed

lemma settle_callback_Inr:
  assumes "settle_callback env co b records auth t s = Inr (res, s')"
  obtains r a s1 s2 rd s3 n s4 c where "selectMilestoneEvidence (cb_status (sb_callback b)) records = Inr r"
    "advanceMilestone (op_id (co_operation co)) (ef_milestone (co_effect co)) (Some (gc_id (ef_command (co_effect co))))
       (ev_id (pe_evidence r)) (cb_occurredAt (sb_callback b)) (callback_failure (cb_status (sb_callback b)) r) s = Inr (Some a, s1)"
    "schedule_relock env co (cb_status (sb_callback b)) records auth t s1 = Inr s2"
    "evaluateReadiness Unfenced (mi_id (co_mission co)) (op_id (co_operation co)) (ex_id (advanced_to a)) t s2 = Inr (Some rd, s3)"
    "advanceMissionWhenReady env Unfenced rd s3 = Inr (n, s4)"
    "completeCancellationWhenSafe env Unfenced (mi_id (co_mission co)) s4 = Inr (c, s')"
    "ci_status res = IngestStored" "ci_mission res = (case c of None \<Rightarrow> n | Some cm \<Rightarrow> cm)"
    "ci_execution res = readiness_execution rd"
proof -
  from assms obtain r adv s1 where "selectMilestoneEvidence (cb_status (sb_callback b)) records = Inr r"
    "advanceMilestone (op_id (co_operation co)) (ef_milestone (co_effect co)) (Some (gc_id (ef_command (co_effect co))))
       (ev_id (pe_evidence r)) (cb_occurredAt (sb_callback b)) (callback_failure (cb_status (sb_callback b)) r) s = Inr (adv, s1)"
    by (auto simp: settle_callback_def Let_def result_simps)
  note a = this
  with assms obtain x s2 rd0 s3 where b: "adv = Some x" "schedule_relock env co (cb_status (sb_callback b)) records auth t s1 = Inr s2"
    "evaluateReadiness Unfenced (mi_id (co_mission co)) (op_id (co_operation co)) (ex_id (advanced_to x)) t s2 = Inr (rd0, s3)"
    by (cases adv) (auto simp: settle_callback_def Let_def result_simps)
  with assms a obtain rd n s4 c where "rd0 = Some rd" "advanceMissionWhenReady env Unfenced rd s3 = Inr (n, s4)"
    "completeCancellationWhenSafe env Unfenced (mi_id (co_mission co)) s4 = Inr (c, s')"
    "res = \<lparr> ci_status = IngestStored, ci_callback = b, ci_execution = readiness_execution rd,
       ci_mission = (case c of None \<Rightarrow> n | Some cm \<Rightarrow> cm) \<rparr>"
    by (cases rd0) (auto simp: settle_callback_def Let_def result_simps)
  with a b show thesis by (intro that) simp_all
qed

text \<open>After the milestone only executions, missions and the outbox change, and the relock is the planner's.\<close>

lemma after_relock_tables:
  assumes "evaluateReadiness sc mi op x t s2 = Inr (rd0, s3)" "advanceMissionWhenReady env sc rd s3 = Inr (n, s4)"
    "completeCancellationWhenSafe env sc i s4 = Inr (c, s')"
  shows "gateway_tables s' = gateway_tables s2 \<and> tn_operations s' = tn_operations s2 \<and>
    tn_cancellations s' = tn_cancellations s2"
proof -
  obtain es where s3: "s3 = s2\<lparr> tn_executions := es \<rparr>" using assms(1) by (rule evaluateReadiness_frame)
  have "gateway_tables s' = gateway_tables s4 \<and> tn_operations s' = tn_operations s4 \<and> tn_cancellations s' = tn_cancellations s4"
    using assms(3) by (cases rule: completeCancellation_Inr) (simp_all add: persist_gateway_tables)
  with advanceMissionWhenReady_tables[OF assms(2)] show ?thesis by (simp add: s3 gateway_tables_def)
qed

lemma schedule_relock_plans:
  assumes "schedule_relock env co CbCompleted records auth t s = Inr s'" "ef_milestone (co_effect co) = MsUnlock"
    and "co_action co = ReplaceHomecomingRoutine r d"
    and "\<forall>p\<in>set records. \<exists>i k x y. ar_authority (pe_receipt p) = GatewayCallbackReceipt i commandId k x y"
    and "deriveGatewayCommandId (hp_sha (en_hash env)) (op_id (co_operation co)) HOMECOMING_UNLOCK_KEY = Inr commandId"
  obtains u dev relock rs where "u \<in> set records" "is_unlock_command (ev_body (pe_evidence u))"
    "find_routine_action ATLockDesiredState d = Some relock"
    "materialize_planned env Unfenced (co_operation co) (co_plan co)
       [relock_effect dev relock (ev_id (pe_evidence u)) (ev_observedAt (pe_evidence u))] auth t s = Inr (rs, s')"
proof -
  from assms(1,2) obtain u devices capabilities planned rs where
    u: "find (\<lambda>r. is_unlock_command (ev_body (pe_evidence r))) records = Some u"
    and pl: "planEvidence env (unlock_context co devices capabilities u t) = Inr planned"
    and m: "materialize_planned env Unfenced (co_operation co) (co_plan co) planned auth t s = Inr (rs, s')"
    by (auto simp: schedule_relock_def required_def result_simps split: option.split_asm)
  let ?ctx = "unlock_context co devices capabilities u t"
  from find_Some_in[OF u] have mem: "u \<in> set records" "is_unlock_command (ev_body (pe_evidence u))" by simp_all
  then obtain b cause where body: "ev_body (pe_evidence u) = DeviceCommand b KUnlock cause"
    by (cases "ev_body (pe_evidence u)" rule: is_unlock_command.cases) auto
  from assms(4) mem obtain i k x y where "ar_authority (pe_receipt u) = GatewayCallbackReceipt i commandId k x y" by blast
  with pl body assms(3,5) have "plan_relock ?ctx d = Inr planned"
    by (auto simp: planEvidence_def programForAction_def homecoming_planEvidence_def unlock_context_def required_def)
  then obtain lock :: device_row and relock where "find_routine_action ATLockDesiredState d = Some relock"
    "planned = [relock_effect (dv_id lock) relock (ev_id (pe_evidence (pc_evidence ?ctx))) (ev_observedAt (pe_evidence (pc_evidence ?ctx)))]"
    by (rule plan_relock_Inr) blast
  with that[OF mem] m show thesis by (simp add: unlock_context_def)
qed

section \<open>Properties\<close>

text \<open>A stored callback of a settled command was applied to its effect and then settled.\<close>

lemma stored_callback_settles:
  assumes "ingest env v s = Inr (res, s')" "ci_status res = IngestStored"
    "callback_scope_of env (vc_callback v) (tick s) = Inr co" "cb_status (vc_callback v) = CbCompleted"
  obtains records s2 st r0 stored s3 auth where
    "gateway_records env (received_callback v (read_clock env s)) (read_clock env s) (cb_evidence (vc_callback v)) (tick s) =
      Inr (records, s2)"
    "applyCallback env Unfenced (received_callback v (read_clock env s)) records s2 = Inr (Some (st, r0, stored), s3)"
    "settle_callback env co (received_callback v (read_clock env s)) records auth (read_clock env s) s3 = Inr (res, s')"
proof (rule ingest_Inr[OF assms(1)])
  fix co' records s2 st r0 stored s3 sx
  let ?t = "read_clock env s"
  let ?b = "received_callback v ?t"
  assume "callback_scope_of env (vc_callback v) (tick s) = Inr co'"
    and rec: "gateway_records env ?b ?t (cb_evidence (vc_callback v)) (tick s) = Inr (records, s2)"
    and ap: "applyCallback env Unfenced ?b records s2 = Inr (Some (st, r0, stored), s3)"
    and "st \<noteq> CallbackAdvanced \<and> s' = s3 \<and> ci_status res = (if st = CallbackDuplicate then IngestDuplicate else IngestReplayed) \<and>
       ci_callback res = stored \<and> ci_mission res = co_mission co' \<or>
     st = CallbackAdvanced \<and> cb_status (vc_callback v) \<notin> {CbCompleted, CbFailed} \<and> s' = s3 \<and>
       ci_status res = IngestStored \<and> ci_mission res = co_mission co' \<or>
     st = CallbackAdvanced \<and> cb_status (vc_callback v) \<in> {CbCompleted, CbFailed} \<and>
       settle_callback env co' ?b records (sx_authorization sx) ?t s3 = Inr (res, s')"
  with assms(2-4) have "settle_callback env co ?b records (sx_authorization sx) ?t s3 = Inr (res, s')"
    by (auto split: if_split_asm)
  with rec ap show thesis by (rule that)
qed

text \<open>Settling a completed command schedules its relock, and what follows keeps the gateway's tables.\<close>

lemma settling_schedules_relock:
  assumes "settle_callback env co b records auth t s3 = Inr (res, s')" "cb_status (sb_callback b) = CbCompleted" "effects_owned s3"
  obtains s4 s5 where "schedule_relock env co CbCompleted records auth t s4 = Inr s5" "effects_owned s4"
    "gateway_tables s' = gateway_tables s5"
proof (rule settle_callback_Inr[OF assms(1)])
  fix r1 a s4 s5 rd s6 n s7 c
  assume ad: "advanceMilestone (op_id (co_operation co)) (ef_milestone (co_effect co)) (Some (gc_id (ef_command (co_effect co))))
       (ev_id (pe_evidence r1)) (cb_occurredAt (sb_callback b)) (callback_failure (cb_status (sb_callback b)) r1) s3 = Inr (Some a, s4)"
    and sch: "schedule_relock env co (cb_status (sb_callback b)) records auth t s4 = Inr s5"
    and rest: "evaluateReadiness Unfenced (mi_id (co_mission co)) (op_id (co_operation co)) (ex_id (advanced_to a)) t s5 = Inr (Some rd, s6)"
      "advanceMissionWhenReady env Unfenced rd s6 = Inr (n, s7)"
      "completeCancellationWhenSafe env Unfenced (mi_id (co_mission co)) s7 = Inr (c, s')"
  obtain es where "s4 = s3\<lparr> tn_executions := es \<rparr>" using ad by (rule advanceMilestone_frame)
  with assms(3) have "effects_owned s4" by (simp add: effects_owned_def)
  moreover have "gateway_tables s' = gateway_tables s5" using after_relock_tables[OF rest] by simp
  ultimately show thesis using sch assms(2) by (intro that) simp_all
qed


section \<open>A concrete callback\<close>

text \<open>The tenant whose unlock command is under way.\<close>

definition ex_unlocking :: tenant where
  "ex_unlocking = ex_arriving\<lparr> tn_reads := 4, tn_ids := 4,
     tn_commands := [ex_command\<lparr> gc_id := ''gcmd_uuuuuuuk'', gc_logicalKey := ''homecoming.unlock'', gc_createdAt := 43 \<rparr>],
     tn_effects := [\<lparr> er_commandId = ''gcmd_uuuuuuuk'', er_operationId = ''op_aaaaaaaa'', er_missionId = ''mis_aaaaaaaa'',
       er_dispatchAt = 43, er_milestone = MsUnlock, er_cancellationPolicy = CancelIfPending,
       er_authorization = ManualAuthorization, er_status = None, er_callbackId = None,
       er_cancellationRequestedAt = None, er_reconciliationAttempts = 0, er_lastReconciledAt = None,
       er_createdAt = 43, er_updatedAt = 43 \<rparr>],
     tn_dispatches := [\<lparr> dp_commandId = ''gcmd_uuuuuuuk'', dp_generation = 1, dp_status = DispatchAccepted ''att_aaaaaaaa'' ''gack_aaaaaaaa'',
       dp_updatedAt = 43 \<rparr>] \<rparr>"

definition ex_unlocked :: verified_callback where
  "ex_unlocked = \<lparr> vc_callback = ex_callback\<lparr> cb_commandId := ''gcmd_uuuuuuuk'', cb_occurredAt := 50, cb_evidence :=
      [ex_evidence ''evd_dddddddd'' (GatewayDelivery ''gcmd_uuuuuuuk'' ''op_aaaaaaaa'' DeliveryCompleted None),
       ex_evidence ''evd_eeeeeeee'' (DeviceCommand ''dev_aaaaaaaa'' KUnlock (Some ''evd_cccccccc'')),
       ex_evidence ''evd_ffffffff'' (LockObservation ''dev_aaaaaaaa'' Unlocked)] \<rparr>,
     vc_principalId = ''gwp_aaaaaaaa'', vc_organizationId = ''org_aaaaaaaa'', vc_keyId = ''gwk_aaaaaaaa'',
     vc_keyVersion = 1, vc_verifierVersion = 1, vc_signatureTimestamp = 40, vc_digest = ex_digest \<rparr>"

lemma ex_unlock_ingested:
  "\<exists>res s' co r. ingest ex_planner_env ex_unlocked ex_unlocking = Inr (res, s') \<and> ci_status res = IngestStored \<and>
     callback_scope_of ex_planner_env (vc_callback ex_unlocked) (tick ex_unlocking) = Inr co \<and>
     co_action co = ReplaceHomecomingRoutine r ex_definition \<and> ef_milestone (co_effect co) = MsUnlock"
proof -
  have "case ingest ex_planner_env ex_unlocked ex_unlocking of Inl _ \<Rightarrow> False | Inr (res, _) \<Rightarrow> ci_status res = IngestStored"
    by code_simp
  then obtain res s' where i: "ingest ex_planner_env ex_unlocked ex_unlocking = Inr (res, s')" "ci_status res = IngestStored"
    unfolding case_Inr_iff by auto
  have "case callback_scope_of ex_planner_env (vc_callback ex_unlocked) (tick ex_unlocking) of Inl _ \<Rightarrow> False
    | Inr co \<Rightarrow> ef_milestone (co_effect co) = MsUnlock \<and>
       (case co_action co of ReplaceHomecomingRoutine r d \<Rightarrow> d = ex_definition | _ \<Rightarrow> False)"
    by code_simp
  then obtain co where "callback_scope_of ex_planner_env (vc_callback ex_unlocked) (tick ex_unlocking) = Inr co"
    "ef_milestone (co_effect co) = MsUnlock" "case co_action co of ReplaceHomecomingRoutine r d \<Rightarrow> d = ex_definition | _ \<Rightarrow> False"
    unfolding case_Inr_iff by auto
  then show ?thesis using i by (cases "co_action co") auto
qed


end
