(* ===== verification/Outbox_Service.thy ===== *)
theory Outbox_Service
  imports Gateway_Effects "HOL-Library.Multiset"
begin

text \<open>
  The outbox relay: the claim of due messages
  (\<open>PgSystemOutboxRepository.claimDue\<close>), their settlement in the tenant's repository
  (\<open>markDispatched\<close>, \<open>release\<close>) and the dispatcher of
  \<open>application/src/outbox-service.ts\<close> that hands claimed messages to the job queue.
  The job queue is a port: \<open>publish\<close> says whether it took a message or threw.
  Several dispatchers run at once, so their claims and settlements interleave: that is
  the step relation below.
\<close>

section \<open>The order of the queue\<close>

text \<open>\<open>ORDER BY available_at, created_at\<close>\<close>

datatype due_key = DueKey (dk_availableAt: instant) (dk_createdAt: instant)

instantiation due_key :: linorder
begin

definition less_eq_due_key :: "due_key \<Rightarrow> due_key \<Rightarrow> bool" where
  "less_eq_due_key a b = (dk_availableAt a < dk_availableAt b \<or>
     dk_availableAt a = dk_availableAt b \<and> dk_createdAt a \<le> dk_createdAt b)"

definition less_due_key :: "due_key \<Rightarrow> due_key \<Rightarrow> bool" where
  "less_due_key a b = (dk_availableAt a < dk_availableAt b \<or>
     dk_availableAt a = dk_availableAt b \<and> dk_createdAt a < dk_createdAt b)"

instance
  by standard (auto simp: less_eq_due_key_def less_due_key_def intro: due_key.expand)

end

definition due_key_of :: "outbox_message \<Rightarrow> due_key" where
  "due_key_of m = DueKey (ob_availableAt m) (ob_createdAt m)"

section \<open>Claiming\<close>

text \<open>Pending, or claimed by a dispatcher that did not settle it in time.\<close>

definition message_due :: "instant \<Rightarrow> outbox_message \<Rightarrow> bool" where
  "message_due now m = (ob_availableAt m \<le> now \<and>
     (ob_status m = OutPending \<or>
      ob_status m = OutClaimed \<and> (case ob_claimExpiresAt m of None \<Rightarrow> False | Some e \<Rightarrow> e \<le> now)))"

definition claimed_message :: "string \<Rightarrow> instant \<Rightarrow> outbox_message \<Rightarrow> outbox_message" where
  "claimed_message ownerId expiresAt m = m\<lparr> ob_status := OutClaimed, ob_claimedBy := Some ownerId,
     ob_claimExpiresAt := Some expiresAt, ob_deliveryAttempts := ob_deliveryAttempts m + 1 \<rparr>"

text \<open>
  \<open>locked\<close> are the rows that concurrent transactions hold (\<open>SKIP LOCKED\<close>).  The order
  of the returned rows is the database's; nothing below depends on it.
\<close>

definition due_messages :: "instant \<Rightarrow> nat \<Rightarrow> string list \<Rightarrow> outbox_message list \<Rightarrow> outbox_message list" where
  "due_messages now limit locked tbl =
     take limit (sort_key due_key_of (filter (\<lambda>m. message_due now m \<and> \<not> List.member locked (ob_id m)) tbl))"

definition claimDue ::
  "string \<Rightarrow> instant \<Rightarrow> instant \<Rightarrow> int \<Rightarrow> string list \<Rightarrow> outbox_message list \<Rightarrow>
   err + (outbox_message list \<times> outbox_message list)" where
  "claimDue ownerId now claimExpiresAt limit locked tbl =
     (if limit < 1 \<or> 500 < limit then Inl (TypeError ''Outbox claim limit must be between 1 and 500'')
      else let due = List.map ob_id (due_messages now (nat limit) locked tbl) in
        Inr (List.map (claimed_message ownerId claimExpiresAt) (filter (\<lambda>m. List.member due (ob_id m)) tbl),
             List.map (\<lambda>m. if List.member due (ob_id m) then claimed_message ownerId claimExpiresAt m else m) tbl))"

section \<open>Settling a claim\<close>

definition claim_held :: "string \<Rightarrow> string \<Rightarrow> string \<Rightarrow> outbox_message \<Rightarrow> bool" where
  "claim_held org messageId ownerId m = (ob_organizationId m = org \<and> ob_id m = messageId \<and>
     ob_status m = OutClaimed \<and> ob_claimedBy m = Some ownerId)"

definition settle_claim ::
  "string \<Rightarrow> string \<Rightarrow> string \<Rightarrow> (outbox_message \<Rightarrow> outbox_message) \<Rightarrow> outbox_message list \<Rightarrow>
   bool \<times> outbox_message list" where
  "settle_claim org messageId ownerId f tbl =
     (list_ex (claim_held org messageId ownerId) tbl,
      List.map (\<lambda>m. if claim_held org messageId ownerId m then f m else m) tbl)"

definition dispatched_message :: "instant \<Rightarrow> outbox_message \<Rightarrow> outbox_message" where
  "dispatched_message t m = m\<lparr> ob_status := OutDispatched, ob_dispatchedAt := Some t,
     ob_claimedBy := None, ob_claimExpiresAt := None \<rparr>"

definition released_message :: "instant \<Rightarrow> string \<Rightarrow> outbox_message \<Rightarrow> outbox_message" where
  "released_message t code m = m\<lparr> ob_status := OutPending, ob_availableAt := t,
     ob_claimedBy := None, ob_claimExpiresAt := None, ob_lastErrorCode := Some code \<rparr>"

fun assertStoredOutboxMutation :: "scope \<Rightarrow> string \<Rightarrow> tenant \<Rightarrow> err + unit" where
  "assertStoredOutboxMutation Unfenced messageId s = Inr ()"
| "assertStoredOutboxMutation sc messageId s =
     sbind (required (lookup_by ob_id messageId (tn_outbox s)) (DatabaseNotFoundError ''Outbox message'')) (\<lambda>m.
     validateOutboxReferences sc m s)"

definition outbox_markDispatched ::
  "scope \<Rightarrow> string \<Rightarrow> string \<Rightarrow> instant \<Rightarrow> tenant \<Rightarrow> err + (bool \<times> tenant)" where
  "outbox_markDispatched sc messageId ownerId t s =
     sbind (assertStoredOutboxMutation sc messageId s) (\<lambda>_.
     let (hit, tbl) = settle_claim (tn_org s) messageId ownerId (dispatched_message t) (tn_outbox s) in
     Inr (hit, s\<lparr> tn_outbox := tbl \<rparr>))"

definition outbox_release ::
  "scope \<Rightarrow> string \<Rightarrow> string \<Rightarrow> instant \<Rightarrow> string \<Rightarrow> tenant \<Rightarrow> err + (bool \<times> tenant)" where
  "outbox_release sc messageId ownerId availableAt code s =
     sbind (assertStoredOutboxMutation sc messageId s) (\<lambda>_.
     let (hit, tbl) = settle_claim (tn_org s) messageId ownerId (released_message availableAt code) (tn_outbox s) in
     Inr (hit, s\<lparr> tn_outbox := tbl \<rparr>))"

section \<open>The dispatcher\<close>

text \<open>The queue took the message, or threw an error with or without a \<open>code\<close>.  Codes are ASCII
  (\<open>toUpperCase\<close> on other letters is not modelled).\<close>

datatype publish_outcome = Published | PublishFailed (pf_code: "string option")

definition ascii_upper :: "char \<Rightarrow> char" where
  "ascii_upper c = (let n = (of_char c :: nat) in if 97 \<le> n \<and> n \<le> 122 then char_of (n - 32) else c)"

definition is_code_char :: "char \<Rightarrow> bool" where
  "is_code_char c = (is_upper_char c \<or> is_digit_char c \<or> c = CHR ''_'')"

definition normalizeErrorCode :: "string option \<Rightarrow> string" where
  "normalizeErrorCode code = (case code of
     None \<Rightarrow> ''QUEUE_DELIVERY_FAILED''
   | Some k \<Rightarrow> let n = List.map (\<lambda>c. if is_code_char (ascii_upper c) then ascii_upper c else CHR ''_'') k in
       if error_code_ok n then n else ''QUEUE_DELIVERY_FAILED'')"

definition backoffMilliseconds :: "nat \<Rightarrow> int" where
  "backoffMilliseconds attempts = min 60000 (1000 * 2 ^ attempts)"

datatype item_status = ItemDispatched | ItemReleased | ItemStaleClaim

record item_result =
  ir_messageId :: string
  ir_status :: item_status
  ir_errorCode :: "string option"

text \<open>The table of all tenants, the number of clock readings so far, and what the queue was given.\<close>

record relay =
  rl_table :: "outbox_message list"
  rl_reads :: nat
  rl_published :: "outbox_message list"

definition dispatchOne ::
  "env \<Rightarrow> (outbox_message \<Rightarrow> publish_outcome) \<Rightarrow> string \<Rightarrow> outbox_message \<Rightarrow> relay \<Rightarrow> item_result \<times> relay" where
  "dispatchOne env publish ownerId m st =
     (let now = en_now env (rl_reads st) in
      case publish m of
        Published \<Rightarrow>
          let (marked, tbl) = settle_claim (ob_organizationId m) (ob_id m) ownerId (dispatched_message now) (rl_table st) in
          (\<lparr> ir_messageId = ob_id m, ir_status = (if marked then ItemDispatched else ItemStaleClaim), ir_errorCode = None \<rparr>,
           st\<lparr> rl_table := tbl, rl_reads := rl_reads st + 1, rl_published := rl_published st @ [m] \<rparr>)
      | PublishFailed code \<Rightarrow>
          let errorCode = normalizeErrorCode code;
              (released, tbl) = settle_claim (ob_organizationId m) (ob_id m) ownerId
                (released_message (now + backoffMilliseconds (ob_deliveryAttempts m)) errorCode) (rl_table st) in
          (\<lparr> ir_messageId = ob_id m, ir_status = (if released then ItemReleased else ItemStaleClaim),
             ir_errorCode = Some errorCode \<rparr>,
           st\<lparr> rl_table := tbl, rl_reads := rl_reads st + 1 \<rparr>))"

fun dispatch_messages ::
  "env \<Rightarrow> (outbox_message \<Rightarrow> publish_outcome) \<Rightarrow> string \<Rightarrow> outbox_message list \<Rightarrow> relay \<Rightarrow> item_result list \<times> relay" where
  "dispatch_messages env publish ownerId [] st = ([], st)"
| "dispatch_messages env publish ownerId (m # ms) st =
     (let (r, st1) = dispatchOne env publish ownerId m st;
          (rs, st2) = dispatch_messages env publish ownerId ms st1 in (r # rs, st2))"

definition dispatchBatch ::
  "env \<Rightarrow> (outbox_message \<Rightarrow> publish_outcome) \<Rightarrow> string \<Rightarrow> int option \<Rightarrow> int option \<Rightarrow> string list \<Rightarrow> relay \<Rightarrow>
   err + (item_result list \<times> relay)" where
  "dispatchBatch env publish ownerId limit claimTtl locked st =
     (let n = (case limit of None \<Rightarrow> 20 | Some k \<Rightarrow> k) in
      if n < 1 \<or> 100 < n then Inl (RangeError ''Outbox batch limit must be between 1 and 100'')
      else let ttl = (case claimTtl of None \<Rightarrow> 30000 | Some k \<Rightarrow> k); now = en_now env (rl_reads st) in
      sbind (claimDue ownerId now (now + ttl) n locked (rl_table st)) (\<lambda>(ms, tbl).
        Inr (dispatch_messages env publish ownerId ms (st\<lparr> rl_table := tbl, rl_reads := rl_reads st + 1 \<rparr>))))"

section \<open>Concurrent dispatchers\<close>

text \<open>
  The relay together with the messages that dispatchers hold in memory, each with its
  dispatcher.  A dispatcher claims a batch, settles a message it holds, or dies and
  loses it; the application enqueues new messages, and a cancellation withdraws queued
  dispatches.
\<close>

type_synonym relay_run = "relay \<times> (string \<times> outbox_message) list"

inductive relay_step :: "env \<Rightarrow> relay_run \<Rightarrow> relay_run \<Rightarrow> bool" for env where
  claims: "claimDue ownerId now e limit locked (rl_table st) = Inr (ms, tbl) \<Longrightarrow>
    relay_step env (st, fl) (st\<lparr> rl_table := tbl \<rparr>, fl @ List.map (Pair ownerId) ms)"
| settles: "(ownerId, m) \<in> set fl \<Longrightarrow> dispatchOne env publish ownerId m st = (r, st') \<Longrightarrow>
    relay_step env (st, fl) (st', remove1 (ownerId, m) fl)"
| dies: "relay_step env (st, fl) (st, remove1 x fl)"
| enqueues: "ob_status m = OutPending \<Longrightarrow> ob_deliveryAttempts m = 0 \<Longrightarrow> ob_id m \<notin> ob_id ` set (rl_table st) \<Longrightarrow>
    relay_step env (st, fl) (st\<lparr> rl_table := rl_table st @ [m] \<rparr>, fl)"
| withdraws: "relay_step env (st, fl) (st\<lparr> rl_table := List.map (withdraw_message c g) (rl_table st) \<rparr>, fl)"

text \<open>What of a message never changes, and the copies of it that left the table.\<close>

definition message_content :: "outbox_message \<Rightarrow> string \<times> string \<times> outbox_topic \<times> string \<times> outbox_payload" where
  "message_content m = (ob_id m, ob_organizationId m, ob_topic m, ob_deduplicationKey m, ob_payload m)"

definition copies :: "relay_run \<Rightarrow> string multiset" where
  "copies = (\<lambda>(st, fl). image_mset ob_id (mset (rl_published st) + image_mset snd (mset fl)))"

definition relay_ok :: "relay_run \<Rightarrow> bool" where
  "relay_ok = (\<lambda>(st, fl). distinct (List.map ob_id (rl_table st)) \<and>
     message_content ` (set (rl_published st) \<union> snd ` set fl) \<subseteq> message_content ` set (rl_table st) \<and>
     (\<forall>m\<in>set (rl_table st). (ob_status m = OutDispatched \<longrightarrow> message_content m \<in> message_content ` set (rl_published st)) \<and>
        count (copies (st, fl)) (ob_id m) \<le> ob_deliveryAttempts m))"

section \<open>Lemmas\<close>

lemma message_content_changes [simp]:
  "message_content (claimed_message o' e m) = message_content m"
  "message_content (dispatched_message t m) = message_content m"
  "message_content (released_message t k m) = message_content m"
  "message_content (withdraw_message c g m) = message_content m"
  by (simp_all add: message_content_def claimed_message_def dispatched_message_def released_message_def
      withdraw_message_def)

lemma message_content_id: "message_content m = message_content n \<Longrightarrow> ob_id m = ob_id n"
  by (simp add: message_content_def)

lemma settled_changes [simp]:
  "ob_id (claimed_message o' e m) = ob_id m" "ob_id (dispatched_message t m) = ob_id m"
  "ob_id (released_message t k m) = ob_id m" "ob_id (withdraw_message c g m) = ob_id m"
  "ob_deliveryAttempts (claimed_message o' e m) = ob_deliveryAttempts m + 1"
  "ob_deliveryAttempts (dispatched_message t m) = ob_deliveryAttempts m"
  "ob_deliveryAttempts (released_message t k m) = ob_deliveryAttempts m"
  "ob_deliveryAttempts (withdraw_message c g m) = ob_deliveryAttempts m"
  "ob_status (claimed_message o' e m) = OutClaimed" "ob_status (released_message t k m) = OutPending"
  "ob_status (withdraw_message c g m) = OutDispatched \<longleftrightarrow> ob_status m = OutDispatched"
  by (auto simp: claimed_message_def dispatched_message_def released_message_def withdraw_message_def)

lemma claimDue_Inr:
  assumes "claimDue o' now e limit locked tbl = Inr (ms, tbl')"
  obtains due where "due \<subseteq> {m \<in> set tbl. message_due now m \<and> ob_id m \<notin> set locked}"
    "ms = List.map (claimed_message o' e) (filter (\<lambda>m. ob_id m \<in> ob_id ` due) tbl)"
    "tbl' = List.map (\<lambda>m. if ob_id m \<in> ob_id ` due then claimed_message o' e m else m) tbl"
    "due = set (due_messages now (nat limit) locked tbl)" "0 < limit"
proof
  let ?due = "set (due_messages now (nat limit) locked tbl)"
  show "?due \<subseteq> {m \<in> set tbl. message_due now m \<and> ob_id m \<notin> set locked}"
    by (auto simp: due_messages_def List.member_iff dest!: in_set_takeD)
  show "ms = List.map (claimed_message o' e) (filter (\<lambda>m. ob_id m \<in> ob_id ` ?due) tbl)"
    "tbl' = List.map (\<lambda>m. if ob_id m \<in> ob_id ` ?due then claimed_message o' e m else m) tbl" "0 < limit"
    using assms by (auto simp: claimDue_def List.member_iff split: if_split_asm)
qed simp

text \<open>A table of which every row was rewritten in place keeps its identities.\<close>

lemma count_of_ids: "distinct (List.map f xs) \<Longrightarrow> count (mset (List.map f (filter P xs))) k = (if k \<in> f ` {x \<in> set xs. P x} then 1 else 0)"
  by (induction xs) auto

lemma relay_ok_rewritten:
  assumes "relay_ok (st, fl)" "\<And>m. m \<in> set (rl_table st) \<Longrightarrow> message_content (f m) = message_content m"
    and "set (rl_published st) \<subseteq> set pub"
    and "message_content ` (set pub \<union> snd ` set fl') \<subseteq> message_content ` set (rl_table st)"
    and "\<And>m. m \<in> set (rl_table st) \<Longrightarrow> ob_status (f m) = OutDispatched \<Longrightarrow>
      ob_status m = OutDispatched \<or> message_content m \<in> message_content ` set pub"
    and "\<And>m. m \<in> set (rl_table st) \<Longrightarrow>
      count (copies (st', fl')) (ob_id m) + ob_deliveryAttempts m \<le> count (copies (st, fl)) (ob_id m) + ob_deliveryAttempts (f m)"
    and "rl_table st' = List.map f (rl_table st)" "rl_published st' = pub"
  shows "relay_ok (st', fl')"
proof -
  have ids: "ob_id (f m) = ob_id m" if "m \<in> set (rl_table st)" for m
    using assms(2)[OF that] by (rule message_content_id)
  have d: "List.map ob_id (List.map f (rl_table st)) = List.map ob_id (rl_table st)" using ids by simp
  have c: "message_content ` set (List.map f (rl_table st)) = message_content ` set (rl_table st)"
    using assms(2) by (auto simp: image_iff)
  have "(ob_status n = OutDispatched \<longrightarrow> message_content n \<in> message_content ` set pub) \<and>
      count (copies (st', fl')) (ob_id n) \<le> ob_deliveryAttempts n" if "n \<in> set (List.map f (rl_table st))" for n
  proof -
    from that obtain m where m: "m \<in> set (rl_table st)" "n = f m" by auto
    with assms(1) have k: "ob_status m = OutDispatched \<longrightarrow> message_content m \<in> message_content ` set (rl_published st)"
      "count (copies (st, fl)) (ob_id m) \<le> ob_deliveryAttempts m" by (simp_all add: relay_ok_def)
    from k(2) assms(6)[OF m(1)] have "count (copies (st', fl')) (ob_id m) \<le> ob_deliveryAttempts (f m)" by linarith
    moreover have "ob_status n = OutDispatched \<longrightarrow> message_content n \<in> message_content ` set pub"
      using k(1) assms(2,5)[OF m(1)] assms(3) m(2) by auto
    ultimately show ?thesis by (simp add: m(2) ids[OF m(1)])
  qed
  then have "\<forall>n\<in>set (rl_table st'). (ob_status n = OutDispatched \<longrightarrow> message_content n \<in> message_content ` set (rl_published st')) \<and>
      count (copies (st', fl')) (ob_id n) \<le> ob_deliveryAttempts n"
    unfolding assms(7,8) by blast
  moreover have "distinct (List.map ob_id (rl_table st'))" using assms(1) unfolding assms(7) d by (simp add: relay_ok_def)
  moreover have "message_content ` (set (rl_published st') \<union> snd ` set fl') \<subseteq> message_content ` set (rl_table st')"
    using assms(4) unfolding assms(7,8) c .
  ultimately show ?thesis by (simp add: relay_ok_def)
qed

lemma settle_claim_eq:
  "settle_claim org i o' f tbl = (b, tbl') \<Longrightarrow>
     tbl' = List.map (\<lambda>m. if claim_held org i o' m then f m else m) tbl \<and> (b \<longleftrightarrow> (\<exists>m\<in>set tbl. claim_held org i o' m))"
  by (auto simp: settle_claim_def list_ex_iff)

lemma dispatchOne_cases:
  assumes "dispatchOne env publish o' m st = (r, st')"
  obtains (published) t where "publish m = Published" "rl_published st' = rl_published st @ [m]"
      "rl_table st' = List.map (\<lambda>x. if claim_held (ob_organizationId m) (ob_id m) o' x then dispatched_message t x else x) (rl_table st)"
    | (failed) t k where "rl_published st' = rl_published st"
      "rl_table st' = List.map (\<lambda>x. if claim_held (ob_organizationId m) (ob_id m) o' x then released_message t k x else x) (rl_table st)"
      "t = en_now env (rl_reads st) + backoffMilliseconds (ob_deliveryAttempts m)"
      "ir_status r = (if \<exists>x\<in>set (rl_table st). claim_held (ob_organizationId m) (ob_id m) o' x then ItemReleased else ItemStaleClaim)"
proof (cases "publish m")
  case Published
  obtain b tbl where "settle_claim (ob_organizationId m) (ob_id m) o' (dispatched_message (en_now env (rl_reads st))) (rl_table st) = (b, tbl)"
    by (cases "settle_claim (ob_organizationId m) (ob_id m) o' (dispatched_message (en_now env (rl_reads st))) (rl_table st)")
  with assms Published show thesis by (intro published) (auto simp: dispatchOne_def dest: settle_claim_eq)
next
  case (PublishFailed k)
  let ?f = "released_message (en_now env (rl_reads st) + backoffMilliseconds (ob_deliveryAttempts m)) (normalizeErrorCode k)"
  obtain b tbl where "settle_claim (ob_organizationId m) (ob_id m) o' ?f (rl_table st) = (b, tbl)"
    by (cases "settle_claim (ob_organizationId m) (ob_id m) o' ?f (rl_table st)")
  with settle_claim_eq[OF this] assms PublishFailed show thesis by (intro failed) (auto simp: dispatchOne_def Let_def)
qed

lemma copies_remove1:
  assumes "(o', m) \<in> set fl" "rl_published st' = rl_published st @ [m]"
  shows "copies (st', remove1 (o', m) fl) = copies (st, fl)"
proof -
  from assms(1) obtain M where "mset fl = add_mset (o', m) M" using mset_add[of "(o', m)" "mset fl"] by auto
  with assms(2) show ?thesis by (simp add: copies_def)
qed

lemma copies_dropped:
  assumes "rl_published st' = rl_published st"
  shows "count (copies (st', remove1 x fl)) i \<le> count (copies (st, fl)) i"
proof (cases "x \<in> set fl")
  case True
  then obtain M where "mset fl = add_mset x M" using mset_add[of x "mset fl"] by auto
  with assms show ?thesis by (simp add: copies_def)
next
  case False
  with assms show ?thesis by (simp add: copies_def remove1_idem)
qed

text \<open>A claim adds exactly one copy of each message it takes.\<close>

lemma copies_claimed:
  assumes "distinct (List.map ob_id tbl)"
  shows "count (copies (st\<lparr> rl_table := tbl' \<rparr>, fl @ List.map (Pair o') (List.map (claimed_message o' e) (filter P tbl)))) i =
    count (copies (st, fl)) i + (if i \<in> ob_id ` {m \<in> set tbl. P m} then 1 else 0)"
proof -
  have "image_mset ob_id (image_mset snd (mset (List.map (Pair o') (List.map (claimed_message o' e) (filter P tbl))))) =
      mset (List.map ob_id (filter P tbl))"
    by (simp add: multiset.map_comp comp_def)
  then show ?thesis using count_of_ids[OF assms, of P i] by (simp add: copies_def multiset.map_comp comp_def)
qed

lemma relay_ok_held:
  assumes "relay_ok (st, fl)"
  shows "message_content ` (set (rl_published st) \<union> snd ` set (remove1 x fl)) \<subseteq> message_content ` set (rl_table st)"
    and "(o', m) \<in> set fl \<Longrightarrow> message_content m \<in> message_content ` set (rl_table st)"
proof -
  have a: "message_content ` (set (rl_published st) \<union> snd ` set fl) \<subseteq> message_content ` set (rl_table st)"
    using assms by (simp add: relay_ok_def)
  have "snd ` set (remove1 x fl) \<subseteq> snd ` set fl" by (simp add: image_mono set_remove1_subset)
  with a show "message_content ` (set (rl_published st) \<union> snd ` set (remove1 x fl)) \<subseteq> message_content ` set (rl_table st)"
    by (meson Un_mono image_mono order_refl subset_trans)
  assume "(o', m) \<in> set fl"
  then have "m \<in> snd ` set fl" by force
  with a show "message_content m \<in> message_content ` set (rl_table st)" by blast
qed

lemma relay_ok_row_of_held:
  assumes "relay_ok (st, fl)" "(o', m) \<in> set fl" "x \<in> set (rl_table st)" "claim_held g (ob_id m) o' x"
  shows "message_content x = message_content m"
proof -
  obtain y where y: "y \<in> set (rl_table st)" "message_content m = message_content y"
    using relay_ok_held(2)[OF assms(1,2)] by auto
  then have "ob_id y = ob_id x" using assms(4) by (simp add: claim_held_def message_content_id[OF y(2)])
  moreover have "distinct (List.map ob_id (rl_table st))" using assms(1) by (simp add: relay_ok_def)
  ultimately have "y = x" using y(1) assms(3) by (metis distinct_map inj_onD)
  with y(2) show ?thesis by simp
qed

lemma relay_ok_step:
  assumes "relay_step env x y" "relay_ok x"
  shows "relay_ok y"
  using assms
proof (induction rule: relay_step.induct)
  case (claims o' now e limit locked st ms tbl fl)
  from claims.hyps obtain due :: "outbox_message set" where
    ms: "ms = List.map (claimed_message o' e) (filter (\<lambda>m. ob_id m \<in> ob_id ` due) (rl_table st))" and
    tbl: "tbl = List.map (\<lambda>m. if ob_id m \<in> ob_id ` due then claimed_message o' e m else m) (rl_table st)"
    by (rule claimDue_Inr)
  have d: "distinct (List.map ob_id (rl_table st))" using claims.prems by (simp add: relay_ok_def)
  show ?case
  proof (rule relay_ok_rewritten[OF claims.prems, where f = "\<lambda>m. if ob_id m \<in> ob_id ` due then claimed_message o' e m else m" and pub = "rl_published st"])
    show "message_content ` (set (rl_published st) \<union> snd ` set (fl @ List.map (Pair o') ms)) \<subseteq> message_content ` set (rl_table st)"
      using claims.prems by (auto simp: relay_ok_def ms)
    fix m assume m: "m \<in> set (rl_table st)"
    show "count (copies (st\<lparr> rl_table := tbl \<rparr>, fl @ List.map (Pair o') ms)) (ob_id m) + ob_deliveryAttempts m \<le>
      count (copies (st, fl)) (ob_id m) + ob_deliveryAttempts (if ob_id m \<in> ob_id ` due then claimed_message o' e m else m)"
      unfolding ms copies_claimed[OF d] by auto
  qed (simp_all add: tbl split: if_split_asm)
next
  case (settles o' m fl publish st r st')
  from settles.hyps(2) show ?case
  proof (cases rule: dispatchOne_cases)
    case (published t)
    show ?thesis
    proof (rule relay_ok_rewritten[OF settles.prems, OF _ _ _ _ _ published(3,2)])
      fix x assume x: "x \<in> set (rl_table st)" "ob_status (if claim_held (ob_organizationId m) (ob_id m) o' x
          then dispatched_message t x else x) = OutDispatched"
      show "ob_status x = OutDispatched \<or> message_content x \<in> message_content ` set (rl_published st @ [m])"
        using relay_ok_row_of_held[OF settles.prems settles.hyps(1) x(1)] x(2) by (auto split: if_split_asm)
    next
      show "message_content ` (set (rl_published st @ [m]) \<union> snd ` set (remove1 (o', m) fl)) \<subseteq> message_content ` set (rl_table st)"
        using relay_ok_held[OF settles.prems] settles.hyps(1) by simp
    qed (auto simp: copies_remove1[OF settles.hyps(1) published(2)])
  next
    case (failed t k)
    show ?thesis
    proof (rule relay_ok_rewritten[OF settles.prems, OF _ _ _ _ _ failed(2,1)])
      show "message_content ` (set (rl_published st) \<union> snd ` set (remove1 (o', m) fl)) \<subseteq> message_content ` set (rl_table st)"
        using relay_ok_held(1)[OF settles.prems] .
    qed (auto simp: copies_dropped[OF failed(1)] split: if_split_asm)
  qed
next
  case (dies st fl x)
  show ?case
  proof (rule relay_ok_rewritten[OF dies.prems, where f = "\<lambda>m. m" and pub = "rl_published st"])
    show "message_content ` (set (rl_published st) \<union> snd ` set (remove1 x fl)) \<subseteq> message_content ` set (rl_table st)"
      using relay_ok_held(1)[OF dies.prems] .
  qed (simp_all add: copies_dropped)
next
  case (enqueues m st fl)
  have "ob_id m \<notin># copies (st, fl)"
  proof
    assume "ob_id m \<in># copies (st, fl)"
    then have "ob_id m \<in> ob_id ` (set (rl_published st) \<union> snd ` set fl)" by (auto simp: copies_def)
    then obtain n :: outbox_message where "n \<in> set (rl_published st) \<union> snd ` set fl" "ob_id n = ob_id m" by (metis imageE)
    with enqueues.prems obtain k where "k \<in> set (rl_table st)" "message_content n = message_content k"
      by (auto simp: relay_ok_def)
    with \<open>ob_id n = ob_id m\<close> enqueues.hyps(3) show False by (metis image_eqI message_content_id)
  qed
  then have "count (copies (st, fl)) (ob_id m) = 0" by (simp add: not_in_iff)
  moreover have "copies (st\<lparr> rl_table := rl_table st @ [m] \<rparr>, fl) = copies (st, fl)" by (simp add: copies_def)
  moreover have "message_content ` (set (rl_published st) \<union> snd ` set fl) \<subseteq> insert (message_content m) (message_content ` set (rl_table st))"
    using enqueues.prems by (simp add: relay_ok_def subset_insertI2)
  ultimately show ?case using enqueues by (simp add: relay_ok_def)
next
  case (withdraws st fl c g)
  show ?case
  proof (rule relay_ok_rewritten[OF withdraws.prems, where f = "withdraw_message c g" and pub = "rl_published st"])
    show "message_content ` (set (rl_published st) \<union> snd ` set fl) \<subseteq> message_content ` set (rl_table st)"
      using withdraws.prems by (simp add: relay_ok_def)
  qed (simp_all add: copies_def)
qed

lemma relay_ok_run: "(relay_step env)\<^sup>*\<^sup>* x y \<Longrightarrow> relay_ok x \<Longrightarrow> relay_ok y"
  by (induction rule: rtranclp_induct) (auto intro: relay_ok_step)

text \<open>The oldest messages are taken first.\<close>

lemma take_sorted_least:
  assumes "sorted (List.map f xs)" "x \<in> set xs" "x \<notin> set (take n xs)"
  shows "length (take n xs) = n \<and> (\<forall>y\<in>set (take n xs). f y \<le> f x)"
proof -
  have "x \<in> set (drop n xs)" using assms(2,3) by (metis Un_iff append_take_drop_id set_append)
  moreover have "sorted (List.map f (take n xs @ drop n xs))" using assms(1) by simp
  then have "\<forall>y\<in>set (take n xs). \<forall>z\<in>set (drop n xs). f y \<le> f z" unfolding map_append sorted_append by simp
  moreover have "n < length xs" using calculation(1) by (cases "n < length xs") auto
  ultimately show ?thesis by simp
qed

lemma claimDue_oldest_first:
  assumes "claimDue o' now e limit locked tbl = Inr (ms, tbl')" "distinct (List.map ob_id tbl)"
    and "x \<in> set tbl" "message_due now x" "ob_id x \<notin> set locked" "ob_id x \<notin> ob_id ` set ms"
  shows "int (length ms) = limit \<and> (\<forall>m\<in>set ms. due_key_of m \<le> due_key_of x)"
proof -
  let ?xs = "sort_key due_key_of (filter (\<lambda>m. message_due now m \<and> \<not> List.member locked (ob_id m)) tbl)"
  let ?due = "take (nat limit) ?xs"
  have due: "set ?due \<subseteq> set tbl" "0 < limit" and
    ms: "ms = List.map (claimed_message o' e) (filter (\<lambda>m. ob_id m \<in> ob_id ` set ?due) tbl)"
  proof -
    from assms(1) obtain due :: "outbox_message set" where *: "due \<subseteq> {m \<in> set tbl. message_due now m \<and> ob_id m \<notin> set locked}"
      "ms = List.map (claimed_message o' e) (filter (\<lambda>m. ob_id m \<in> ob_id ` due) tbl)" "due = set ?due" "0 < limit"
      by (rule claimDue_Inr) (simp add: due_messages_def)
    show "set ?due \<subseteq> set tbl" using *(1) unfolding *(3) by blast
    show "0 < limit" by (rule *(4))
    show "ms = List.map (claimed_message o' e) (filter (\<lambda>m. ob_id m \<in> ob_id ` set ?due) tbl)" using *(2) unfolding *(3) .
  qed
  have inj: "inj_on ob_id (set tbl)" and d: "distinct tbl" using assms(2) by (simp_all add: distinct_map)
  have same: "filter (\<lambda>m. ob_id m \<in> ob_id ` set ?due) tbl = filter (\<lambda>m. m \<in> set ?due) tbl"
    using inj_on_image_mem_iff[OF inj _ due(1)] by (intro filter_cong) simp_all
  have "set (filter (\<lambda>m. m \<in> set ?due) tbl) = set ?due" using due(1) by auto
  moreover have "card (set (filter (\<lambda>m. m \<in> set ?due) tbl)) = length (filter (\<lambda>m. m \<in> set ?due) tbl)"
    by (rule distinct_card) (simp add: d)
  moreover have "card (set ?due) = length ?due" by (rule distinct_card) (simp add: d)
  ultimately have len: "length ms = length ?due" unfolding ms same length_map by simp
  have "x \<notin> set ?due"
  proof
    assume "x \<in> set ?due"
    with assms(3) have "claimed_message o' e x \<in> set ms" unfolding ms same by simp
    then have "ob_id (claimed_message o' e x) \<in> ob_id ` set ms" by (rule imageI)
    with assms(6) show False by simp
  qed
  moreover have "x \<in> set ?xs" using assms(3-5) by (simp add: List.member_iff)
  ultimately have "length ?due = nat limit \<and> (\<forall>y\<in>set ?due. due_key_of y \<le> due_key_of x)"
    by (rule take_sorted_least[OF sorted_sort_key, rotated])
  moreover have "\<exists>y\<in>set ?due. due_key_of m = due_key_of y" if "m \<in> set ms" for m
    using that unfolding ms same by (auto simp: due_key_of_def claimed_message_def)
  ultimately show ?thesis using len due(2) by fastforce
qed

section \<open>Properties\<close>


text \<open>A claim is exclusive until it expires and takes the oldest messages: two claims whose second happens before
  the first one's expiry share no message, and a due message that the first claim left behind was locked or is not
  older than any of a full batch.\<close>

theorem claims_are_exclusive:
  assumes "claimDue o1 now e limit locked tbl = Inr (ms, tbl1)" "distinct (List.map ob_id tbl)"
    and "claimDue o2 now' e' limit' locked' tbl1 = Inr (ms', tbl2)" "now' < e"
  shows "ob_id ` set ms \<inter> ob_id ` set ms' = {} \<and>
    (\<forall>x\<in>set tbl. message_due now x \<longrightarrow> ob_id x \<in> ob_id ` set ms \<or> ob_id x \<in> set locked \<or>
       int (length ms) = limit \<and> (\<forall>m\<in>set ms. due_key_of m \<le> due_key_of x))"
proof
  from assms(1) obtain due :: "outbox_message set" where due: "due \<subseteq> {m \<in> set tbl. message_due now m \<and> ob_id m \<notin> set locked}"
    "ms = List.map (claimed_message o1 e) (filter (\<lambda>m. ob_id m \<in> ob_id ` due) tbl)"
    "tbl1 = List.map (\<lambda>m. if ob_id m \<in> ob_id ` due then claimed_message o1 e m else m) tbl"
    by (rule claimDue_Inr)
  have busy: "\<not> message_due now' m" if "m \<in> set tbl1" "ob_id m \<in> ob_id ` due" for m
    using that assms(4) by (auto simp: due(3) message_due_def claimed_message_def split: if_split_asm)
  from assms(3) obtain due' :: "outbox_message set" where due': "due' \<subseteq> {m \<in> set tbl1. message_due now' m \<and> ob_id m \<notin> set locked'}"
    "ms' = List.map (claimed_message o2 e') (filter (\<lambda>m. ob_id m \<in> ob_id ` due') tbl1)"
    by (rule claimDue_Inr)
  have "i \<notin> ob_id ` due" if "i \<in> ob_id ` due'" for i
  proof -
    from that obtain m where m: "m \<in> due'" "i = ob_id m" by blast
    with due'(1) have "m \<in> set tbl1" "message_due now' m" by auto
    then have "ob_id m \<notin> ob_id ` due" using busy[of m] by auto
    with m(2) show ?thesis by simp
  qed
  then have "ob_id ` due \<inter> ob_id ` due' = {}" by blast
  moreover have "ob_id ` set ms \<subseteq> ob_id ` due" "ob_id ` set ms' \<subseteq> ob_id ` due'" by (auto simp: due(2) due'(2))
  ultimately show "ob_id ` set ms \<inter> ob_id ` set ms' = {}" by blast
  show "\<forall>x\<in>set tbl. message_due now x \<longrightarrow> ob_id x \<in> ob_id ` set ms \<or> ob_id x \<in> set locked \<or>
       int (length ms) = limit \<and> (\<forall>m\<in>set ms. due_key_of m \<le> due_key_of x)"
    using claimDue_oldest_first[OF assms(1,2)] by blast
qed

text \<open>A failed delivery comes back within a minute: when the queue refuses a message whose claim the dispatcher
  still holds, the message is pending again, with the same content and delivery count, and becomes due between two
  seconds (after its first claim) and sixty seconds later.\<close>

theorem failed_deliveries_return:
  assumes "dispatchOne env publish o' m st = (r, st')" "publish m = PublishFailed k" "0 < ob_deliveryAttempts m"
    and "x \<in> set (rl_table st)" "claim_held (ob_organizationId m) (ob_id m) o' x"
  shows "ir_status r = ItemReleased \<and>
    (\<exists>y\<in>set (rl_table st'). message_content y = message_content x \<and> ob_deliveryAttempts y = ob_deliveryAttempts x \<and>
       (\<forall>t. message_due t y \<longleftrightarrow> ob_availableAt y \<le> t) \<and>
       en_now env (rl_reads st) + 2000 \<le> ob_availableAt y \<and> ob_availableAt y \<le> en_now env (rl_reads st) + 60000)"
  using assms(1)
proof (cases rule: dispatchOne_cases)
  case published
  with assms(2) show ?thesis by simp
next
  case (failed t c)
  let ?y = "released_message t c x"
  have "(2 :: int) ^ 1 \<le> 2 ^ ob_deliveryAttempts m" using assms(3) by (intro power_increasing) simp_all
  then have "2000 \<le> backoffMilliseconds (ob_deliveryAttempts m)" "backoffMilliseconds (ob_deliveryAttempts m) \<le> 60000"
    by (simp_all add: backoffMilliseconds_def)
  then have t: "en_now env (rl_reads st) + 2000 \<le> t" "t \<le> en_now env (rl_reads st) + 60000" using failed(3) by simp_all
  have y: "?y \<in> set (rl_table st')" using assms(4,5) unfolding failed(2) by (auto simp: image_iff)
  have "ob_availableAt ?y = t" "message_due u ?y \<longleftrightarrow> t \<le> u" for u
    by (simp_all add: message_due_def released_message_def)
  with t have "message_content ?y = message_content x \<and> ob_deliveryAttempts ?y = ob_deliveryAttempts x \<and>
     (\<forall>u. message_due u ?y \<longleftrightarrow> ob_availableAt ?y \<le> u) \<and>
     en_now env (rl_reads st) + 2000 \<le> ob_availableAt ?y \<and> ob_availableAt ?y \<le> en_now env (rl_reads st) + 60000" by simp
  with y have "\<exists>y\<in>set (rl_table st'). message_content y = message_content x \<and> ob_deliveryAttempts y = ob_deliveryAttempts x \<and>
       (\<forall>t. message_due t y \<longleftrightarrow> ob_availableAt y \<le> t) \<and>
       en_now env (rl_reads st) + 2000 \<le> ob_availableAt y \<and> ob_availableAt y \<le> en_now env (rl_reads st) + 60000" by blast
  moreover have "ir_status r = ItemReleased" using failed(4) assms(4,5) by auto
  ultimately show ?thesis by blast
qed

section \<open>A concrete relay\<close>

definition ex_message :: outbox_message where
  "ex_message = new_outbox_message ''out_aaaaaaaa'' ''org_aaaaaaaa'' TopicMissionResume ''mission.resume:mis_aaaaaaaa:5''
     (MissionReference ''org_aaaaaaaa'' ''mis_aaaaaaaa'') 40 40"

definition ex_claimed_message :: outbox_message where
  "ex_claimed_message = claimed_message ''relay-a'' 30040 ex_message"

definition ex_relay :: "outbox_message list \<Rightarrow> outbox_message list \<Rightarrow> relay" where
  "ex_relay tbl pub = \<lparr> rl_table = tbl, rl_reads = 0, rl_published = pub \<rparr>"

lemma ex_claim: "claimDue ''relay-a'' 40 30040 20 [] [ex_message] = Inr ([ex_claimed_message], [ex_claimed_message])"
  by code_simp

lemma ex_publish:
  "\<exists>r st. dispatchOne ex_env (\<lambda>_. Published) ''relay-a'' ex_claimed_message (ex_relay [ex_claimed_message] []) = (r, st) \<and>
     List.map ob_status (rl_table st) = [OutDispatched] \<and> rl_published st = [ex_claimed_message]"
proof -
  have "case dispatchOne ex_env (\<lambda>_. Published) ''relay-a'' ex_claimed_message (ex_relay [ex_claimed_message] []) of (r, st) \<Rightarrow>
     List.map ob_status (rl_table st) = [OutDispatched] \<and> rl_published st = [ex_claimed_message]" by code_simp
  then show ?thesis by (auto split: prod.splits)
qed

lemma ex_relay_run:
  "\<exists>(st :: relay) (m :: outbox_message). (relay_step ex_env)\<^sup>*\<^sup>* (\<lparr> rl_table = [], rl_reads = 0, rl_published = [] \<rparr>, []) (st, []) \<and>
     rl_table st = [m] \<and> ob_status m = OutDispatched"
proof -
  let ?s0 = "\<lparr> rl_table = [], rl_reads = 0, rl_published = [] \<rparr>"
  have 1: "relay_step ex_env (?s0, []) (ex_relay [ex_message] [], [])"
    using relay_step.enqueues[of ex_message ?s0 ex_env "[]"] by (simp add: ex_message_def ex_relay_def)
  have 2: "relay_step ex_env (ex_relay [ex_message] [], []) (ex_relay [ex_claimed_message] [], [(''relay-a'', ex_claimed_message)])"
    using relay_step.claims[of "''relay-a''" 40 30040 20 "[]" "ex_relay [ex_message] []" "[ex_claimed_message]" "[ex_claimed_message]" ex_env "[]"]
      ex_claim by (simp add: ex_relay_def)
  obtain r and st :: relay where st: "dispatchOne ex_env (\<lambda>_. Published) ''relay-a'' ex_claimed_message (ex_relay [ex_claimed_message] []) = (r, st)"
    "List.map ob_status (rl_table st) = [OutDispatched]" using ex_publish by (elim exE conjE) (rule that)
  have 3: "relay_step ex_env (ex_relay [ex_claimed_message] [], [(''relay-a'', ex_claimed_message)]) (st, [])"
    using relay_step.settles[OF _ st(1), of "[(''relay-a'', ex_claimed_message)]"] by simp
  from st(2) obtain m :: outbox_message where "rl_table st = [m]" "ob_status m = OutDispatched" by auto
  with 1 2 3 show ?thesis by (meson rtranclp.rtrancl_into_rtrancl rtranclp.rtrancl_refl)
qed


theorem claims_are_exclusive_witness:
  "\<exists>ms tbl. claimDue ''relay-b'' 100 30100 20 [] [ex_claimed_message] = Inr (ms, tbl) \<and> ''out_aaaaaaaa'' \<notin> ob_id ` set ms"
proof -
  have "claimDue ''relay-b'' 100 30100 20 [] [ex_claimed_message] = Inr ([], [ex_claimed_message])" by code_simp
  moreover from claims_are_exclusive[OF ex_claim _ this] show ?thesis
    using calculation by auto
qed

theorem failed_deliveries_return_witness:
  "\<exists>r (st :: relay) (y :: outbox_message). dispatchOne ex_env (\<lambda>_. PublishFailed (Some ''ECONNREFUSED'')) ''relay-a'' ex_claimed_message
       (ex_relay [ex_claimed_message] []) = (r, st) \<and> y \<in> set (rl_table st) \<and> ob_availableAt y \<le> 61000"
proof -
  obtain r and st :: relay where d: "dispatchOne ex_env (\<lambda>_. PublishFailed (Some ''ECONNREFUSED'')) ''relay-a'' ex_claimed_message
       (ex_relay [ex_claimed_message] []) = (r, st)" by (cases "dispatchOne ex_env (\<lambda>_. PublishFailed (Some ''ECONNREFUSED''))
       ''relay-a'' ex_claimed_message (ex_relay [ex_claimed_message] [])")
  have h: "0 < ob_deliveryAttempts ex_claimed_message" "ex_claimed_message \<in> set (rl_table (ex_relay [ex_claimed_message] []))"
    "claim_held (ob_organizationId ex_claimed_message) (ob_id ex_claimed_message) ''relay-a'' ex_claimed_message"
    "en_now ex_env (rl_reads (ex_relay [ex_claimed_message] [])) = 1000"
    by (simp_all add: ex_claimed_message_def claimed_message_def ex_relay_def claim_held_def ex_env_def)
  from failed_deliveries_return[OF d _ h(1-3), of "Some ''ECONNREFUSED''"] h(4) d show ?thesis by fastforce
qed

end
