(* ===== verification/Dispatch_Service.thy ===== *)
theory Dispatch_Service
  imports Callback_Service
begin

text \<open>
  The jobs that the outbox delivers for a gateway command
  (\<open>application/src/operation-dispatch-service.ts\<close>): dispatching a generation of the
  command, and reconciling one whose outcome is open.  The gateway is a port: for a
  command it gives a result, or throws.
\<close>

section \<open>Dispatching a generation\<close>

datatype dispatch_outcome =
    DispatchNotClaimed not_claimed_reason effect_record
  | DispatchFinalized dispatch_result finalize_status effect_record attempt

text \<open>The first transaction: the reference is parsed, the clock read, the generation claimed.\<close>

definition dispatch_claim ::
  "env \<Rightarrow> string \<Rightarrow> string \<Rightarrow> string \<Rightarrow> nat \<Rightarrow> tenant \<Rightarrow> err + (claim_result \<times> tenant)" where
  "dispatch_claim env org op c g s =
     (if \<not> outbox_payload_ok (GatewayReference org op c g) then Inl (ZodError ''GatewayDispatchReference'')
      else let claimedAt = read_clock env s; s1 = tick s in
      sbind (assertTenant s1 org) (\<lambda>_.
      let attemptId = fresh_id env IdAttempt s1 in
      if \<not> id_ok ''att'' attemptId then Inl (ZodError ''AttemptId'')
      else sbind (claimDispatch env op c g attemptId claimedAt (bump s1)) (\<lambda>(r, s2).
      sbind (required r (NotFoundError ''Gateway effect'')) (\<lambda>claim. Inr (claim, s2)))))"

text \<open>A gateway that throws, or answers outside its schema, counts as a timeout.\<close>

definition gateway_answer :: "(command \<Rightarrow> dispatch_result option) \<Rightarrow> command \<Rightarrow> dispatch_result" where
  "gateway_answer gateway cmd = (case gateway cmd of
     None \<Rightarrow> ResultUnknown DispatchTimeout
   | Some r \<Rightarrow> if dispatch_result_ok r then r else ResultUnknown DispatchTimeout)"

text \<open>The second transaction records the answer.\<close>

definition dispatch_finalize ::
  "env \<Rightarrow> string \<Rightarrow> string \<Rightarrow> string \<Rightarrow> nat \<Rightarrow> attempt \<Rightarrow> dispatch_result \<Rightarrow> tenant \<Rightarrow>
   err + ((finalize_status \<times> effect_record \<times> attempt) \<times> tenant)" where
  "dispatch_finalize env org op c g a r s =
     (let completedAt = read_clock env s; s1 = tick s in
      sbind (assertTenant s1 org) (\<lambda>_.
      sbind (finalizeDispatch env Unfenced op c g (at_id a) r completedAt (fresh_id env IdOutbox s1) (bump s1)) (\<lambda>(f, s2).
      sbind (required f (NotFoundError ''Gateway effect'')) (\<lambda>x. Inr (x, s2)))))"

text \<open>
  The whole job: its outcome, the commands it handed to the gateway, and the state the
  last committed transaction left.
\<close>

definition dispatch_job ::
  "env \<Rightarrow> (command \<Rightarrow> dispatch_result option) \<Rightarrow> string \<Rightarrow> string \<Rightarrow> string \<Rightarrow> nat \<Rightarrow> tenant \<Rightarrow>
   (err + dispatch_outcome) \<times> command list \<times> tenant" where
  "dispatch_job env gateway org op c g s = (case dispatch_claim env org op c g s of
     Inl e \<Rightarrow> (Inl e, [], s)
   | Inr (NotClaimed why r, s1) \<Rightarrow> (Inr (DispatchNotClaimed why r), [], s1)
   | Inr (Claimed r a, s1) \<Rightarrow>
       let cmd = ef_command r; answer = gateway_answer gateway cmd in
       (case dispatch_finalize env org op c g a answer s1 of
          Inl e \<Rightarrow> (Inl e, [cmd], s1)
        | Inr ((st, x, b), s2) \<Rightarrow> (Inr (DispatchFinalized answer st x b), [cmd], s2)))"

section \<open>Reconciling an effect\<close>

definition intervene :: "env \<Rightarrow> reconcile_status \<Rightarrow> mission option \<Rightarrow> tenant \<Rightarrow> err + tenant" where
  "intervene env st m s = (case m of
     None \<Rightarrow> Inr s
   | Some n \<Rightarrow> if st = ReconcileIntervention \<and> mi_state n = mstate MRunning PhReconcile
       then sbind (persistMissionTransition env Unfenced n (mi_version n) ReconcileBudgetExhausted s) (\<lambda>(_, s'). Inr s')
       else Inr s)"

definition reconcile_gateway_effect ::
  "env \<Rightarrow> nat \<Rightarrow> int \<Rightarrow> string \<Rightarrow> string \<Rightarrow> string \<Rightarrow> nat \<Rightarrow> tenant \<Rightarrow>
   err + ((reconcile_status \<times> effect_record) \<times> tenant)" where
  "reconcile_gateway_effect env maximumAttempts pollInterval org op c g s =
     (if maximumAttempts < 1 then Inl (RangeError ''Gateway reconciliation requires a positive attempt bound'')
      else if pollInterval < 1 then Inl (RangeError ''Gateway reconciliation requires a positive poll interval'')
      else if \<not> outbox_payload_ok (GatewayReference org op c g)
        then Inl (ZodError ''GatewayEffectReconciliationReference'')
      else let t = read_clock env s; s1 = tick s in
      sbind (assertTenant s1 org) (\<lambda>_.
      let i1 = fresh_id env IdOutbox s1; s2 = bump s1; i2 = fresh_id env IdOutbox s2; s3 = bump s2 in
      sbind (reconcile_effect env Unfenced \<lparr> ri_operationId = op, ri_commandId = c, ri_generation = g,
          ri_reconciledAt = t, ri_nextPollAt = t + pollInterval, ri_maximumAttempts = maximumAttempts,
          ri_dispatchOutboxId = i1, ri_reconciliationOutboxId = i2 \<rparr> s3) (\<lambda>(r, s4).
      sbind (required r (NotFoundError ''Gateway effect'')) (\<lambda>(st, x).
      sbind (intervene env st (mission_get s4 (gc_missionId (ef_command x))) s4) (\<lambda>s5.
      sbind (completeCancellationWhenSafe env Unfenced (gc_missionId (ef_command x)) s5) (\<lambda>(_, s6).
        Inr ((st, x), s6)))))))"

section \<open>Lemmas\<close>

lemma dispatch_claim_Inr:
  assumes "dispatch_claim env org op c g s = Inr (r, s')"
  obtains "claimDispatch env op c g (fresh_id env IdAttempt (tick s)) (read_clock env s) (bump (tick s)) = Inr (Some r, s')"
    "org = tn_org s" "outbox_payload_ok (GatewayReference org op c g)"
  using assms by (auto simp: dispatch_claim_def Let_def assertTenant_def result_simps split: if_split_asm)

text \<open>A generation whose dispatch began never becomes claimable again.\<close>

definition generation_spent :: "nat \<Rightarrow> ledger \<Rightarrow> bool" where
  "generation_spent g l = (\<exists>d\<in>set (fst l). dp_generation d = g \<and> phase_of (dp_status d) \<noteq> DPending)"

lemma guard_dispatch_keeps_spent:
  "guard_dispatch d d' = Inr () \<Longrightarrow> phase_of (dp_status d) \<noteq> DPending \<Longrightarrow> phase_of (dp_status d') \<noteq> DPending"
  by (auto simp: guard_dispatch_def Let_def dispatch_phase_change_def split: if_split_asm)

lemma ledger_ok_distinct: "ledger_ok M (ds, n) \<Longrightarrow> distinct (List.map dp_generation ds)"
  by (simp add: ledger_ok_def)

lemma generation_spent_step:
  assumes "ledger_step M l l'" "ledger_ok M l" "generation_spent g l"
  shows "generation_spent g l'"
  using assms
proof (induction rule: ledger_step.induct)
  case (moved ds d d' n)
  from moved.prems(2) obtain x where x: "x \<in> set ds" "dp_generation x = g" "phase_of (dp_status x) \<noteq> DPending"
    by (auto simp: generation_spent_def)
  show ?case
  proof (cases "dp_generation x = dp_generation d'")
    case True
    have "d \<in> set ds" using moved.hyps(1) by (rule newest_in)
    with True x(1) moved.hyps(2) ledger_ok_distinct[OF moved.prems(1)] have "x = d" by (auto simp: distinct_map dest: inj_onD)
    with x(3) have "phase_of (dp_status d') \<noteq> DPending" using guard_dispatch_keeps_spent[OF moved.hyps(3)] by simp
    moreover have "d' \<in> set (replace_generation d' ds)" using True x(1) by (force simp: replace_generation_def)
    ultimately show ?thesis using True x(2) by (force simp: generation_spent_def)
  next
    case False
    then have "x \<in> set (replace_generation d' ds)" using x(1) by (force simp: replace_generation_def)
    with x show ?thesis by (auto simp: generation_spent_def)
  qed
qed (auto simp: generation_spent_def)

lemma generation_spent_run:
  assumes "(ledger_step M)\<^sup>*\<^sup>* l l'" "ledger_ok M l" "generation_spent g l"
  shows "generation_spent g l' \<and> ledger_ok M l'"
  using assms by (induction rule: rtranclp_induct) (auto intro: generation_spent_step ledger_ok_step)

lemma claimed_generation_spent:
  assumes "claimDispatch env op c g a t s = Inr (Some (Claimed r x), s')"
  shows "generation_spent g (ledger_view s' c)"
proof -
  obtain d where "current_dispatch s' c = Some (d\<lparr> dp_status := Dispatching a, dp_updatedAt := t \<rparr>)" "dp_generation d = g"
    using claimed_dispatch[OF assms] by blast
  then show ?thesis unfolding generation_spent_def ledger_view_def current_dispatch_def
    by (intro bexI[of _ "d\<lparr> dp_status := Dispatching a, dp_updatedAt := t \<rparr>"]) (auto dest: newest_in)
qed

text \<open>A claim in a state where the generation is spent fails.\<close>

lemma spent_generation_unclaimable:
  assumes "claimDispatch env op c g a t s = Inr (Some (Claimed r x), s')" "generation_spent g (ledger_view s c)"
    and "ledger_ok M (ledger_view s c)"
  shows False
proof -
  obtain d where d: "current_dispatch s c = Some d" "dp_generation d = g" "phase_of (dp_status d) = DPending"
    using claimed_dispatch[OF assms(1)] by blast
  from assms(2) obtain y where y: "y \<in> set (dispatch_log s c)" "dp_generation y = g" "phase_of (dp_status y) \<noteq> DPending"
    by (auto simp: generation_spent_def ledger_view_def)
  have "d \<in> set (dispatch_log s c)" using d(1) unfolding current_dispatch_def by (rule newest_in)
  moreover have "distinct (List.map dp_generation (dispatch_log s c))"
    using assms(3) unfolding ledger_view_def by (rule ledger_ok_distinct)
  ultimately have "y = d" using y d(2) by (metis distinct_map inj_onD)
  with y(3) d(3) show False by simp
qed

text \<open>The two transactions as steps of the gateway aggregate.\<close>

lemma counters_are_elsewhere: "gateway_step env M s (tick s)" "gateway_step env M s (bump s)"
  by (rule gateway_step.elsewhere; simp add: tick_def bump_def)+

lemma dispatch_claim_run: "dispatch_claim env org op c g s = Inr (r, s') \<Longrightarrow> (gateway_step env M)\<^sup>*\<^sup>* s s'"
  by (erule dispatch_claim_Inr)
    (meson counters_are_elsewhere gateway_step.claimed rtranclp.rtrancl_into_rtrancl rtranclp.rtrancl_refl)

lemma current_dispatch_tick [simp]: "current_dispatch (tick s) c = current_dispatch s c" "current_dispatch (bump s) c = current_dispatch s c"
  by (simp_all add: tick_def bump_def current_dispatch_def dispatch_log_def)

lemma gateway_attempt_claimed:
  assumes "\<not> list_ex (attempt_collides x) (tn_attempts s)" "tn_attempts s' = tn_attempts s @ [x]"
    and "at_transport x = ViaGateway c g"
  shows "gateway_attempt s' (at_id x) c g = Some x"
proof -
  have "find (\<lambda>a. at_id a = at_id x \<and> at_transport a = ViaGateway c g) (tn_attempts s) = None"
    using assms(1) by (auto simp: find_None_iff_ball list_ex_iff attempt_collides_def)
  with assms(2,3) show ?thesis by (simp add: gateway_attempt_def find_append)
qed

lemma claimed_effect:
  assumes "claimDispatch env op c g a t s = Inr (Some (Claimed r x), s')"
  shows "hydrateGatewayEffect env s' c = Inr (Some r)"
  using assms
  by (auto simp: claimDispatch_def Let_def result_simps
      split: option.split_asm if_split_asm prod.split_asm sum.split_asm)

text \<open>Finalizing the attempt that was just claimed applies the result.\<close>

lemma finalize_claimed:
  assumes "finalizeDispatch env sc op c g a res t o' s = Inr (Some (st, r, y), s')"
    and "gateway_attempt s a c g = Some b" "at_status b = AtPending"
    and "current_dispatch s c = Some d" "dp_generation d = g" "dp_status d = Dispatching a"
  shows "st = DispatchApplied \<and> y = finalized_attempt b res t \<and>
    current_dispatch s' c = Some (d\<lparr> dp_status := result_dispatch_status a res, dp_updatedAt := t \<rparr>) \<and>
    (result_retryable res \<longrightarrow> (\<exists>m\<in>set (tn_outbox s'). ob_topic m = TopicGatewayEffectReconcile \<and>
       ob_payload m = GatewayReference (tn_org s) op c g \<and> ob_status m = OutPending \<and> ob_availableAt m = t))"
proof -
  let ?d = "d\<lparr> dp_status := result_dispatch_status a res, dp_updatedAt := t \<rparr>"
  from assms(1) obtain cmd e where l: "lockGatewayAggregate s c = Some (cmd, e, d)" "gc_operationId cmd = op"
    using assms(4) by (auto simp: finalizeDispatch_def lockGatewayAggregate_Some split: option.split_asm if_split_asm)
  with assms obtain s2 s3 where u: "update_dispatch d (result_dispatch_status a res) t
         (s\<lparr> tn_attempts := upsert at_id (finalized_attempt b res t) (tn_attempts s) \<rparr>) = Inr s2"
    and s3: "(if result_retryable res
        then outbox_insert sc (new_outbox_message o' (tn_org s) TopicGatewayEffectReconcile
          (reconcile_key c g 0) (GatewayReference (tn_org s) op c g) t t) s2 else Inr s2) = Inr s3"
    and w: "with_effect env c (\<lambda>x. sbind (mapAttempt (finalized_attempt b res t)) (\<lambda>b'. Inr (DispatchApplied, x, b'))) s3 =
      Inr (Some (st, r, y), s')"
    by (cases "result_retryable res") (auto simp: finalizeDispatch_def Let_def result_simps split: if_split_asm)
  from w have st: "st = DispatchApplied" "y = finalized_attempt b res t" "s' = s3"
    by (auto dest!: with_effect_Some simp: mapAttempt_def result_simps split: if_split_asm)
  have c: "dp_commandId d = c" using current_dispatch_in[OF assms(4)] by simp
  have "current_dispatch s2 c = newest (replace_generation ?d (dispatch_log s c))"
    by (simp add: update_dispatch_Inr(2)[OF u] current_dispatch_def dispatch_log_replace c) (simp add: dispatch_log_def)
  also have "\<dots> = Some ?d" using assms(4) by (intro newest_replace) (simp_all add: current_dispatch_def)
  finally have "current_dispatch s3 c = Some ?d"
    using s3 by (auto dest!: outbox_insert_Inr simp: current_dispatch_def dispatch_log_def split: if_split_asm)
  moreover have "result_retryable res \<longrightarrow> (\<exists>m\<in>set (tn_outbox s3). ob_topic m = TopicGatewayEffectReconcile \<and>
       ob_payload m = GatewayReference (tn_org s) op c g \<and> ob_status m = OutPending \<and> ob_availableAt m = t)"
    using s3 by (auto dest!: outbox_insert_Inr)
  ultimately show ?thesis using st by simp
qed

section \<open>Properties\<close>

text \<open> C28. The job queue delivers at least once, the gateway is asked at most once: after a dispatch job has claimed a
  generation of a command, no later delivery of the same job, after any further operations on the store and whether or
  not the first delivery ever finished, hands a command to the gateway.\<close>

theorem redelivered_dispatches_send_nothing:
  assumes "(gateway_step env M)\<^sup>*\<^sup>* s0 s" "gateway_empty s0"
    and "dispatch_claim env org op c g s = Inr (Claimed r x, s1)" "(gateway_step env M)\<^sup>*\<^sup>* s1 s2"
    and "dispatch_job env gateway org op c g s2 = (outcome, sent, s3)"
  shows "sent = []"
proof (rule ccontr)
  assume "sent \<noteq> []"
  with assms(5) obtain r2 x2 s4 where "dispatch_claim env org op c g s2 = Inr (Claimed r2 x2, s4)"
    by (auto simp: dispatch_job_def Let_def split: sum.split_asm prod.split_asm claim_result.split_asm)
  then obtain a t where second: "claimDispatch env op c g a t (bump (tick s2)) = Inr (Some (Claimed r2 x2), s4)"
    by (rule dispatch_claim_Inr)
  have "ledger_ok M (ledger_view s c)"
    using dispatch_protocol.run_ok[OF assms(1)] gateway_empty_ok(1)[OF assms(2)] by simp
  moreover have "(ledger_step M)\<^sup>*\<^sup>* (ledger_view s c) (ledger_view s1 c)"
    using dispatch_protocol.run_view[OF dispatch_claim_run[OF assms(3)]] by simp
  ultimately have ok: "ledger_ok M (ledger_view s1 c)"
    using dispatch_protocol.asteps_ok by blast
  have "generation_spent g (ledger_view s1 c)"
    using assms(3) by (rule dispatch_claim_Inr) (rule claimed_generation_spent)
  moreover have "(ledger_step M)\<^sup>*\<^sup>* (ledger_view s1 c) (ledger_view s2 c)"
    using dispatch_protocol.run_view[OF assms(4)] by simp
  ultimately have "generation_spent g (ledger_view s2 c) \<and> ledger_ok M (ledger_view s2 c)"
    using ok by (intro generation_spent_run)
  moreover have "ledger_view (bump (tick s2)) c = ledger_view s2 c" by (rule ledger_view_cong) (simp_all add: tick_def bump_def)
  ultimately have "generation_spent g (ledger_view (bump (tick s2)) c)" "ledger_ok M (ledger_view (bump (tick s2)) c)" by simp_all
  with second show False by (rule spent_generation_unclaimable)
qed

text \<open>What the gateway answered is what the store records: a dispatch job that ends finalized asked the gateway
  exactly once, with the stored command; the newest generation of the command carries the answer, a missing or
  malformed answer counting as a timeout, and an answer that leaves the outcome open has its reconciliation queued in
  the same transaction.\<close>

theorem gateway_answers_are_recorded:
  assumes "dispatch_job env gateway org op c g s = (Inr (DispatchFinalized answer st r x), sent, s')"
  shows "\<exists>cmd d. command_get s c = Some cmd \<and> sent = [cmd] \<and> answer = gateway_answer gateway cmd \<and> st = DispatchApplied \<and>
    current_dispatch s' c = Some d \<and> dp_generation d = g \<and> dp_status d = result_dispatch_status (at_id x) answer \<and>
    (result_retryable answer \<longrightarrow> (\<exists>m\<in>set (tn_outbox s'). ob_topic m = TopicGatewayEffectReconcile \<and>
       ob_payload m = GatewayReference org op c g \<and> ob_status m = OutPending))"
proof -
  from assms obtain r1 a s1 where claim: "dispatch_claim env org op c g s = Inr (Claimed r1 a, s1)"
    and sent: "sent = [ef_command r1]" "answer = gateway_answer gateway (ef_command r1)"
    and fin: "dispatch_finalize env org op c g a answer s1 = Inr ((st, r, x), s')"
    by (auto simp: dispatch_job_def Let_def split: sum.split_asm prod.split_asm claim_result.split_asm)
  from claim show ?thesis
  proof (rule dispatch_claim_Inr)
    assume cl: "claimDispatch env op c g (fresh_id env IdAttempt (tick s)) (read_clock env s) (bump (tick s)) =
        Inr (Some (Claimed r1 a), s1)" and org: "org = tn_org s"
    let ?i = "fresh_id env IdAttempt (tick s)"
    from claimed_dispatch[OF cl] obtain cmd d where k: "command_get (bump (tick s)) c = Some cmd" "dp_generation d = g"
      "tn_attempts s1 = tn_attempts (bump (tick s)) @ [a]" "a = pending_attempt ?i (bump (tick s)) op c g (read_clock env s)"
      "current_dispatch s1 c = Some (d\<lparr> dp_status := Dispatching ?i, dp_updatedAt := read_clock env s \<rparr>)" by blast
    have a: "at_id a = ?i" "at_status a = AtPending" "at_transport a = ViaGateway c g"
      by (simp_all add: k(4) pending_attempt_def)
    have tables: "tn_commands s1 = tn_commands s" "tn_org s1 = tn_org s"
      "\<not> list_ex (attempt_collides a) (tn_attempts (bump (tick s)))"
      using cl by (cases rule: claimDispatch_Inr; auto dest!: update_dispatch_Inr(2) simp: replace_dispatch_def tick_def bump_def k(4))+
    have "command_get s1 c = Some (ef_command r1)"
      using claimed_effect[OF cl] by (rule hydrateGatewayEffect_Some)
    moreover have "command_get s c = command_get s1 c" by (simp add: command_get_def tables(1))
    ultimately have cmd: "command_get s c = Some (ef_command r1)" by simp
    from fin obtain t o' where f: "finalizeDispatch env Unfenced op c g (at_id a) answer t o' (bump (tick s1)) =
        Inr (Some (st, r, x), s')"
      by (auto simp: dispatch_finalize_def Let_def result_simps)
    have g: "gateway_attempt (bump (tick s1)) (at_id a) c g = Some a"
      using gateway_attempt_claimed[OF tables(3), of s1 c g] k(3) a(3) by (simp add: gateway_attempt_def tick_def bump_def)
    have e: "current_dispatch (bump (tick s1)) c = Some (d\<lparr> dp_status := Dispatching ?i, dp_updatedAt := read_clock env s \<rparr>)"
      using k(5) by (simp only: current_dispatch_tick)
    have "st = DispatchApplied \<and> x = finalized_attempt a answer t \<and>
      current_dispatch s' c = Some (d\<lparr> dp_status := result_dispatch_status (at_id a) answer, dp_updatedAt := t \<rparr>) \<and>
      (result_retryable answer \<longrightarrow> (\<exists>m\<in>set (tn_outbox s'). ob_topic m = TopicGatewayEffectReconcile \<and>
       ob_payload m = GatewayReference (tn_org s1) op c g \<and> ob_status m = OutPending \<and> ob_availableAt m = t))"
      using finalize_claimed[OF f g a(2) e] k(2) a(1) by (simp add: bump_def tick_def)
    moreover have "at_id (finalized_attempt a answer t) = at_id a" by (simp add: finalized_attempt_def)
    ultimately show ?thesis using cmd sent k(2) tables(2) org by auto
  qed
qed

section \<open>Witnesses\<close>

lemma ex_dispatch_claimed:
  "\<exists>r x s'. dispatch_claim ex_gateway_env ''org_aaaaaaaa'' ''op_aaaaaaaa'' ex_command_id 1 ex_materialized = Inr (Claimed r x, s')"
proof -
  have "case dispatch_claim ex_gateway_env ''org_aaaaaaaa'' ''op_aaaaaaaa'' ex_command_id 1 ex_materialized of
      Inr (Claimed r x, s') \<Rightarrow> True | _ \<Rightarrow> False" by code_simp
  then show ?thesis by (auto split: sum.split_asm prod.split_asm claim_result.split_asm)
qed

theorem redelivered_dispatches_send_nothing_witness:
  "\<exists>outcome s1 s2 r x. dispatch_claim ex_gateway_env ''org_aaaaaaaa'' ''op_aaaaaaaa'' ex_command_id 1 ex_materialized = Inr (Claimed r x, s1) \<and>
     dispatch_job ex_gateway_env (\<lambda>_. None) ''org_aaaaaaaa'' ''op_aaaaaaaa'' ex_command_id 1 s1 = (outcome, [], s2)"
proof -
  obtain r x s1 where c: "dispatch_claim ex_gateway_env ''org_aaaaaaaa'' ''op_aaaaaaaa'' ex_command_id 1 ex_materialized = Inr (Claimed r x, s1)"
    using ex_dispatch_claimed by blast
  obtain outcome sent s2 where d: "dispatch_job ex_gateway_env (\<lambda>_. None) ''org_aaaaaaaa'' ''op_aaaaaaaa'' ex_command_id 1 s1 = (outcome, sent, s2)"
    by (cases "dispatch_job ex_gateway_env (\<lambda>_. None) ''org_aaaaaaaa'' ''op_aaaaaaaa'' ex_command_id 1 s1")
  with redelivered_dispatches_send_nothing[OF ex_gateway_run(1) ex_gateway_empty c rtranclp.rtrancl_refl d] c show ?thesis by blast
qed

lemma finalized_case:
  assumes "case z of (Inr (DispatchFinalized answer st r x), sent, s') \<Rightarrow> True | _ \<Rightarrow> False"
  shows "\<exists>answer st r x sent s'. z = (Inr (DispatchFinalized answer st r x), sent, s')"
proof (cases z)
  case (fields outcome sent s')
  with assms show ?thesis by (cases outcome; cases "projr outcome") auto
qed

lemma ex_dispatch_finalized:
  "\<exists>answer st r x sent s'. dispatch_job ex_gateway_env (\<lambda>_. Some (ResultAccepted ''gack_aaaaaaaa'')) ''org_aaaaaaaa'' ''op_aaaaaaaa'' ex_command_id 1
     ex_materialized = (Inr (DispatchFinalized answer st r x), sent, s')"
proof -
  have "case dispatch_job ex_gateway_env (\<lambda>_. Some (ResultAccepted ''gack_aaaaaaaa'')) ''org_aaaaaaaa'' ''op_aaaaaaaa'' ex_command_id 1
     ex_materialized of (Inr (DispatchFinalized answer st r x), sent, s') \<Rightarrow> True | _ \<Rightarrow> False" by code_simp
  then show ?thesis by (rule finalized_case)
qed

theorem gateway_answers_are_recorded_witness:
  "\<exists>r sent s' cmd d. dispatch_job ex_gateway_env (\<lambda>_. Some (ResultAccepted ''gack_aaaaaaaa'')) ''org_aaaaaaaa'' ''op_aaaaaaaa'' ex_command_id 1
     ex_materialized = (r, sent, s') \<and> sent = [cmd] \<and> current_dispatch s' ex_command_id = Some d \<and> dp_generation d = 1"
proof -
  obtain answer st r x sent s' where d: "dispatch_job ex_gateway_env (\<lambda>_. Some (ResultAccepted ''gack_aaaaaaaa'')) ''org_aaaaaaaa'' ''op_aaaaaaaa''
     ex_command_id 1 ex_materialized = (Inr (DispatchFinalized answer st r x), sent, s')" using ex_dispatch_finalized by blast
  from gateway_answers_are_recorded[OF this] d show ?thesis by blast
qed

end
