(* ===== verification/Verifier.thy ===== *)
theory Verifier
  imports Execution_Service "HOL-Library.Product_Lexorder"
begin

text \<open>
  The deterministic verifier of a homecoming mission
  (\<open>application/src/deterministic-verifier.ts\<close>): the ten predicates compiled from the
  approved plan and its execution, and their evaluation over the persisted evidence.

  Two services of the runtime are parameters: the order of \<open>localeCompare\<close>, as a rank of
  strings, and the text of a number in a message.
\<close>

section \<open>Material\<close>

record verification_timing =
  vt_maximumDelaySeconds :: int
  vt_relockToleranceSeconds :: int

definition PRODUCTION_TIMING :: verification_timing where
  "PRODUCTION_TIMING = \<lparr> vt_maximumDelaySeconds = 5, vt_relockToleranceSeconds = 5 \<rparr>"

record verification_material =
  vm_mission :: mission
  vm_plan :: plan
  vm_approval :: approval
  vm_operations :: "operation list"
  vm_contextReceipt :: context_receipt
  vm_executions :: "stored_execution list"
  vm_evidence :: "persisted_evidence list"

record evidence_bindings =
  vb_activeRoutine :: "string option"
  vb_protectedRoutineInactive :: "string option"
  vb_batteryProjection :: "string option"
  vb_tenantAudit :: "string option"
  vb_preheat :: "string option"
  vb_verifiedArrival :: "string option"
  vb_pathwayLighting :: "string option"
  vb_unlock :: "string option"
  vb_relock :: "string option"

record compiled_material =
  cv_predicates :: "verification_predicate list"
  cv_evidence :: "evidence list"
  cv_mission :: mission
  cv_bindings :: evidence_bindings

record js_runtime =
  js_collation :: "string \<Rightarrow> rat"
  js_number :: "rat \<Rightarrow> string"

definition HOMECOMING_VERIFICATION_CRITERIA :: "string list" where
  "HOMECOMING_VERIFICATION_CRITERIA =
     [''no_unverified_unlock'', ''one_active_approved_routine'', ''midnight_entry_inactive'',
      ''routine_matches_approved_plan'', ''temperature_ready_by_two'', ''lighting_follows_verified_arrival'',
      ''unlock_follows_verified_arrival'', ''locked_state_after_ninety_seconds'',
      ''battery_projection_within_bound'', ''tenant_boundary_preserved'']"

section \<open>Binding the material\<close>

definition assertApprovedBindings :: "mission \<Rightarrow> plan \<Rightarrow> approval \<Rightarrow> context_receipt \<Rightarrow> err + unit" where
  "assertApprovedBindings m p a r =
     (if pl_status p \<noteq> PlanApproved \<or> pl_organizationId p \<noteq> mi_organizationId m \<or> pl_missionId p \<noteq> mi_id m \<or>
         pl_palaceId p \<noteq> mi_palaceId m \<or>
         sort (pl_successCriteriaIds p) \<noteq> sort HOMECOMING_VERIFICATION_CRITERIA \<or>
         sort (mi_successCriteriaIds m) \<noteq> sort HOMECOMING_VERIFICATION_CRITERIA \<or>
         pl_constraints p \<noteq> mi_constraints m
        then Inl (ConflictError ''Verification criteria are not bound to the approved mission plan'')
      else if ap_status a \<noteq> ApprovalApproved \<or> ap_organizationId a \<noteq> pl_organizationId p \<or>
         ap_missionId a \<noteq> pl_missionId p \<or> ap_planId a \<noteq> pl_id p \<or> ap_planHash a \<noteq> pl_hash p \<or>
         \<not> sameStrings (ap_actionIds a) (List.map pa_id (pl_actions p))
        then Inl (ConflictError ''Verification plan is not bound to its exact approval'')
      else if cr_organizationId r \<noteq> mi_organizationId m \<or> cr_missionId r \<noteq> mi_id m
        then Inl (ConflictError ''Verification plan is not bound to a mission context receipt'')
      else guard_that (cr_createdAt r \<le> pl_createdAt p)
        (ConflictError ''Verification context receipt was created after the approved plan''))"

definition requireReplacementAction :: "plan \<Rightarrow> err + (replace_action \<times> homecoming_definition)" where
  "requireReplacementAction p = (case pl_actions p of
     [ReplaceHomecomingRoutine r d] \<Rightarrow>
       (case pl_constraints p of
          HomecomingConstraint c \<Rightarrow>
            if \<not> homecoming_constraint_ok c then Inl (ZodError ''HomecomingMissionConstraint'')
            else if Some (hc_preheatBy c) \<noteq> map_option ra_completeBy (find_routine_action ATPreheat d) \<or>
                hc_projectedBatteryUseMax c \<noteq> hd_batteryUseMax d
              then Inl (ConflictError ''Approved action does not preserve the plan constraints'')
            else Inr (r, d)
        | _ \<Rightarrow> Inl (ZodError ''HomecomingMissionConstraint''))
   | _ \<Rightarrow> Inl (ConflictError ''Verification requires one approved homecoming replacement action''))"

definition execution_bound ::
  "env \<Rightarrow> mission \<Rightarrow> plan \<Rightarrow> approval \<Rightarrow> replace_action \<Rightarrow> plan_action \<Rightarrow> operation \<Rightarrow> stored_execution \<Rightarrow> bool" where
  "execution_bound env m p a r act x sx = (case op_outcome x of
     None \<Rightarrow> False
   | Some out \<Rightarrow> let e = sx_execution sx in
       op_status x = OpCommitted \<and> op_organizationId x = pl_organizationId p \<and> op_missionId x = mi_id m \<and>
       op_planId x = pl_id p \<and> op_planActionId x = rp_id r \<and> op_approvalId x = ap_id a \<and>
       op_payloadHash x = en_actionHash env (pl_hash p) act \<and> op_id x = sx_operationId sx \<and>
       op_id x = ex_operationId e \<and> oo_routineId out = rp_replacementRoutineId r \<and>
       oo_routineVersionId out = rp_replacementRoutineVersionId r \<and>
       oo_deactivatedRoutineId out = Some (rp_protectedRoutineId r) \<and>
       ex_organizationId e = mi_organizationId m \<and> ex_missionId e = mi_id m \<and>
       ex_routineId e = rp_replacementRoutineId r \<and> ex_routineVersionId e = rp_replacementRoutineVersionId r)"

definition requireBoundExecution ::
  "env \<Rightarrow> mission \<Rightarrow> plan \<Rightarrow> approval \<Rightarrow> replace_action \<Rightarrow> plan_action \<Rightarrow> operation list \<Rightarrow> stored_execution list \<Rightarrow>
   err + (execution \<times> operation)" where
  "requireBoundExecution env m p a r act ops xs = (case (xs, ops) of
     ([sx], [x]) \<Rightarrow>
       if execution_bound env m p a r act x sx then Inr (sx_execution sx, x)
       else Inl (ConflictError ''Execution is not bound to the approved plan action'')
   | _ \<Rightarrow> Inl (ConflictError ''Verification requires one durable operation and execution''))"

text \<open>One copy of every piece of evidence; two payloads under one identifier are a conflict.\<close>

fun unique_onto :: "evidence list \<Rightarrow> evidence list \<Rightarrow> err + evidence list" where
  "unique_onto acc [] = Inr acc"
| "unique_onto acc (e # es) = (case lookup_by ev_id (ev_id e) acc of
     None \<Rightarrow> unique_onto (acc @ [e]) es
   | Some x \<Rightarrow> if x = e then unique_onto acc es
       else Inl (ConflictError ''Conflicting evidence payloads share ID''))"

definition uniqueEvidence :: "evidence list \<Rightarrow> err + evidence list" where
  "uniqueEvidence es = unique_onto [] es"

section \<open>Bindings of milestones and rules to evidence\<close>

definition sole_evidence :: "(persisted_evidence \<Rightarrow> bool) \<Rightarrow> persisted_evidence list \<Rightarrow> string option" where
  "sole_evidence P rs = (case filter P rs of [r] \<Rightarrow> Some (ev_id (pe_evidence r)) | _ \<Rightarrow> None)"

definition vouched_by_rule :: "string \<Rightarrow> persisted_evidence \<Rightarrow> bool" where
  "vouched_by_rule rule r = (case ar_authority (pe_receipt r) of
     ApplicationReceipt i v _ _ \<Rightarrow> i = rule \<and> v = 1 | _ \<Rightarrow> False)"

definition vouched_by_command :: "string option \<Rightarrow> persisted_evidence \<Rightarrow> bool" where
  "vouched_by_command c r = (case ar_authority (pe_receipt r) of
     GatewayCallbackReceipt _ i _ _ _ \<Rightarrow> Some i = c | _ \<Rightarrow> False)"

definition vouched_by_telemetry :: "persisted_evidence \<Rightarrow> bool" where
  "vouched_by_telemetry r = (case ar_authority (pe_receipt r) of
     IdentityTelemetryReceipt _ _ _ _ _ \<Rightarrow> True | _ \<Rightarrow> False)"

definition applicationRuleEvidenceId ::
  "persisted_evidence list \<Rightarrow> string \<Rightarrow> (evidence_body \<Rightarrow> bool) \<Rightarrow> string option" where
  "applicationRuleEvidenceId rs rule accepts =
     sole_evidence (\<lambda>r. vouched_by_rule rule r \<and> accepts (ev_body (pe_evidence r))) rs"

definition milestone_named :: "milestone_name \<Rightarrow> execution \<Rightarrow> milestone option" where
  "milestone_named n x = find (\<lambda>m. ml_name m = n) (ex_milestones x)"

fun is_verified_arrival :: "evidence_body \<Rightarrow> bool" where
  "is_verified_arrival (IdentityArrival _ v) = v"
| "is_verified_arrival _ = False"

fun is_unverified_arrival :: "evidence_body \<Rightarrow> bool" where
  "is_unverified_arrival (IdentityArrival _ v) = (\<not> v)"
| "is_unverified_arrival _ = False"

definition completedMilestoneEvidence :: "persisted_evidence list \<Rightarrow> execution \<Rightarrow> milestone_name \<Rightarrow> string option" where
  "completedMilestoneEvidence rs x n = (case milestone_named n x of
     None \<Rightarrow> None
   | Some m \<Rightarrow> (case ml_state m of
       MilestoneCompleted e _ \<Rightarrow>
         (case find (\<lambda>r. ev_id (pe_evidence r) = e) rs of
            None \<Rightarrow> None
          | Some r \<Rightarrow>
              if (if n = MsVerifiedArrival
                  then vouched_by_telemetry r \<and> is_verified_arrival (ev_body (pe_evidence r))
                  else vouched_by_command (ml_commandId m) r)
              then Some (ev_id (pe_evidence r)) else None)
     | _ \<Rightarrow> None))"

definition completedGatewayMilestoneEvidence ::
  "persisted_evidence list \<Rightarrow> execution \<Rightarrow> milestone_name \<Rightarrow> (evidence_body \<Rightarrow> bool) \<Rightarrow> string option" where
  "completedGatewayMilestoneEvidence rs x n accepts = (case milestone_named n x of
     None \<Rightarrow> None
   | Some m \<Rightarrow>
       if \<not> is_completed (ml_state m) \<or> is_none (ml_commandId m) \<or> is_none (completedMilestoneEvidence rs x n)
       then None
       else sole_evidence (\<lambda>r. vouched_by_command (ml_commandId m) r \<and> accepts (ev_body (pe_evidence r))) rs)"

section \<open>Compiling the approved plan\<close>

definition by_observed_at :: "js_runtime \<Rightarrow> evidence \<Rightarrow> instant \<times> rat" where
  "by_observed_at js e = (ev_observedAt e, js_collation js (ev_id e))"

definition unverified_arrival_id :: "js_runtime \<Rightarrow> execution \<Rightarrow> evidence list \<Rightarrow> string" where
  "unverified_arrival_id js x es = (case sort_key (by_observed_at js)
       (filter (\<lambda>e. is_unverified_arrival (ev_body e) \<and> ev_observedAt e \<le> ex_deadline x) es) of
     [] \<Rightarrow> ex_triggeredByEvidenceId x | e # _ \<Rightarrow> ev_id e)"

definition verified_arrival_id :: "execution \<Rightarrow> milestone \<Rightarrow> string" where
  "verified_arrival_id x m = (case milestone_evidenceId (ml_state m) of
     None \<Rightarrow> ex_triggeredByEvidenceId x | Some e \<Rightarrow> e)"

definition homecoming_predicates ::
  "verification_timing \<Rightarrow> plan \<Rightarrow> replace_action \<Rightarrow> homecoming_definition \<Rightarrow> routine_action \<Rightarrow> routine_action \<Rightarrow>
   instant \<Rightarrow> string \<Rightarrow> string \<Rightarrow> verification_predicate list" where
  "homecoming_predicates timing p r d preheat relock readyBy unverified arrival =
     List.map2 (\<lambda>i b. \<lparr> vp_id = i, vp_body = b \<rparr>) HOMECOMING_VERIFICATION_CRITERIA
       [NoUnlockForUnverifiedIdentity unverified,
        ActiveRoutineCount (pl_id p) 1,
        RoutineInactive (rp_protectedRoutineId r),
        RoutineMatchesPlan (rp_replacementRoutineId r) (pl_id p) (pl_hash p),
        TemperatureAtLeastBy (ra_targetCelsius preheat - 1 / 2) readyBy,
        LightingAfterArrivalWithin arrival (nat (vt_maximumDelaySeconds timing)),
        UnlockAfterArrivalWithin arrival (nat (vt_maximumDelaySeconds timing)),
        LockAfterUnlockElapsed (nat (ra_afterUnlockSeconds relock)) (nat (vt_relockToleranceSeconds timing)),
        BatteryProjectionAtMost (hd_batteryUseMax d),
        NoCrossTenantAccess (pl_organizationId p)]"

text \<open>What each rule's and each milestone's evidence must say to be bound.\<close>

fun is_routine_state :: "string \<Rightarrow> string \<Rightarrow> bool \<Rightarrow> plan \<Rightarrow> evidence_body \<Rightarrow> bool" where
  "is_routine_state rid vid active p (RoutineState r v a i h) =
     (r = rid \<and> v = vid \<and> a = active \<and> i = Some (pl_id p) \<and> h = Some (pl_hash p))"
| "is_routine_state _ _ _ _ _ = False"

fun is_battery_projection :: "rat \<Rightarrow> evidence_body \<Rightarrow> bool" where
  "is_battery_projection u (BatteryProjection v) = (v = u)"
| "is_battery_projection _ _ = False"

fun is_tenant_audit :: "string \<Rightarrow> string \<Rightarrow> evidence_body \<Rightarrow> bool" where
  "is_tenant_audit org op (TenantAccessAudit o' a i) = (o' = org \<and> a \<and> i = Some op)"
| "is_tenant_audit _ _ _ = False"

fun is_temperature :: "evidence_body \<Rightarrow> bool" where
  "is_temperature (TemperatureObservation _ _) = True"
| "is_temperature _ = False"

fun is_command_of_kind :: "command_kind \<Rightarrow> evidence_body \<Rightarrow> bool" where
  "is_command_of_kind k (DeviceCommand _ c _) = (c = k)"
| "is_command_of_kind _ _ = False"

definition compile_bindings ::
  "plan \<Rightarrow> replace_action \<Rightarrow> homecoming_definition \<Rightarrow> operation \<Rightarrow> execution \<Rightarrow> persisted_evidence list \<Rightarrow> evidence_bindings" where
  "compile_bindings p r d x e rs = \<lparr>
     vb_activeRoutine = applicationRuleEvidenceId rs ''routine.activation.commit''
       (is_routine_state (rp_replacementRoutineId r) (rp_replacementRoutineVersionId r) True p),
     vb_protectedRoutineInactive = applicationRuleEvidenceId rs ''routine.activation.deactivate-protected''
       (is_routine_state (rp_protectedRoutineId r) (rp_protectedRoutineVersionId r) False p),
     vb_batteryProjection = applicationRuleEvidenceId rs ''routine.activation.project-battery''
       (is_battery_projection (hd_projectedBatteryUse d)),
     vb_tenantAudit = applicationRuleEvidenceId rs ''routine.activation.tenant-binding''
       (is_tenant_audit (pl_organizationId p) (op_id x)),
     vb_preheat = completedGatewayMilestoneEvidence rs e MsPreheat is_temperature,
     vb_verifiedArrival = completedMilestoneEvidence rs e MsVerifiedArrival,
     vb_pathwayLighting = completedGatewayMilestoneEvidence rs e MsPathwayLighting (is_command_of_kind KSetLighting),
     vb_unlock = completedGatewayMilestoneEvidence rs e MsUnlock (is_command_of_kind KUnlock),
     vb_relock = completedGatewayMilestoneEvidence rs e MsRelock (is_command_of_kind KLockedDesiredState) \<rparr>"

definition assertTimingPolicy :: "verification_timing \<Rightarrow> err + unit" where
  "assertTimingPolicy t = guard_that (0 \<le> vt_maximumDelaySeconds t \<and> 0 \<le> vt_relockToleranceSeconds t)
     (TypeError ''Homecoming verification timing must use non-negative integer seconds'')"

definition material_parses :: "env \<Rightarrow> verification_material \<Rightarrow> bool" where
  "material_parses env i = (mission_ok (vm_mission i) \<and> plan_ok (en_planHash env) (vm_plan i) \<and>
     approval_ok (vm_approval i) \<and> context_receipt_ok (vm_contextReceipt i) \<and>
     list_all operation_ok (vm_operations i) \<and> list_all (\<lambda>s. execution_ok (sx_execution s)) (vm_executions i) \<and>
     list_all (persisted_evidence_ok (en_obsHash env)) (vm_evidence i))"

definition verification_predicate_ok :: "verification_predicate \<Rightarrow> bool" where
  "verification_predicate_ok p = (predicate_id_ok (vp_id p) \<and> predicate_body_ok (vp_body p))"

definition compileApprovedPlanVerification ::
  "env \<Rightarrow> js_runtime \<Rightarrow> verification_timing \<Rightarrow> verification_material \<Rightarrow> err + compiled_material" where
  "compileApprovedPlanVerification env js timing i =
     (let m = vm_mission i; p = vm_plan i; rs = vm_evidence i in
      sbind (assertTimingPolicy timing) (\<lambda>_.
      if \<not> material_parses env i then Inl (ZodError ''ApprovedVerificationMaterial'')
      else sbind (assertApprovedBindings m p (vm_approval i) (vm_contextReceipt i)) (\<lambda>_.
      sbind (requireReplacementAction p) (\<lambda>(r, d).
      sbind (requireBoundExecution env m p (vm_approval i) r (hd (pl_actions p)) (vm_operations i) (vm_executions i)) (\<lambda>(x, op).
      sbind (uniqueEvidence (List.map pe_evidence rs)) (\<lambda>es.
      sbind (required (milestone_named MsVerifiedArrival x)
        (ConflictError ''Execution is missing its verified-arrival milestone'')) (\<lambda>arrived.
      sbind (required (find_routine_action ATPreheat d) (ConflictError ''Approved homecoming action is incomplete'')) (\<lambda>preheat.
      sbind (required (find_routine_action ATLockDesiredState d)
        (ConflictError ''Approved homecoming action is incomplete'')) (\<lambda>relock.
      sbind (nextLocalTime (en_zones env) (ex_startedAt x) (hd_timezone d) (ra_completeBy preheat)) (\<lambda>readyBy.
      let ps = homecoming_predicates timing p r d preheat relock readyBy (unverified_arrival_id js x es)
        (verified_arrival_id x arrived) in
      if \<not> list_all verification_predicate_ok ps then Inl (ZodError ''VerificationPredicate'')
      else Inr \<lparr> cv_predicates = ps, cv_evidence = es, cv_mission = m,
             cv_bindings = compile_bindings p r d op x rs \<rparr>))))))))))"

section \<open>Evaluating a predicate\<close>

record predicate_result =
  vr_passed :: bool
  vr_evidence :: "evidence list"
  vr_message :: string

definition verdict :: "bool \<Rightarrow> evidence list \<Rightarrow> string \<Rightarrow> predicate_result" where
  "verdict b es msg = \<lparr> vr_passed = b, vr_evidence = es, vr_message = msg \<rparr>"

fun cause_of :: "evidence_body \<Rightarrow> string option" where
  "cause_of (DeviceCommand _ _ c) = c"
| "cause_of _ = None"

fun is_arrival :: "evidence_body \<Rightarrow> bool" where
  "is_arrival (IdentityArrival _ _) = True"
| "is_arrival _ = False"

text \<open>An unlock is unsafe in the window that an unverified arrival opens and the next verified one closes.\<close>

definition next_verified_at :: "evidence list \<Rightarrow> instant \<Rightarrow> instant option" where
  "next_verified_at es t = (case sort (filter (\<lambda>o'. t < o')
       (List.map ev_observedAt (filter (\<lambda>e. is_verified_arrival (ev_body e)) es))) of
     [] \<Rightarrow> None | o' # _ \<Rightarrow> Some o')"

definition unsafe_after :: "evidence list \<Rightarrow> evidence \<Rightarrow> evidence \<Rightarrow> bool" where
  "unsafe_after es unlock arrival = (cause_of (ev_body unlock) = Some (ev_id arrival) \<or>
     ev_observedAt arrival \<le> ev_observedAt unlock \<and>
     (case next_verified_at es (ev_observedAt arrival) of None \<Rightarrow> True | Some t \<Rightarrow> ev_observedAt unlock < t))"

definition evaluate_no_unlock :: "string \<Rightarrow> evidence list \<Rightarrow> predicate_result" where
  "evaluate_no_unlock expected es =
     (let arrivals = filter (\<lambda>e. is_unverified_arrival (ev_body e)) es;
          unsafe = filter (\<lambda>u. list_ex (unsafe_after es u) arrivals)
            (filter (\<lambda>e. is_command_of_kind KUnlock (ev_body e)) es);
          found = list_ex (\<lambda>a. ev_id a = expected) arrivals in
      verdict (found \<and> unsafe = []) (arrivals @ unsafe)
        (if found \<and> unsafe = [] then ''No unlock command occurred in an unverified-arrival window.''
         else if \<not> found then ''The required unverified-arrival evidence is missing.''
         else ''An unlock occurred in an unverified-arrival window.''))"

fun state_of_plan :: "string \<Rightarrow> evidence_body \<Rightarrow> bool" where
  "state_of_plan p (RoutineState _ _ _ i _) = (i = Some p)"
| "state_of_plan _ _ = False"

fun state_of_routine :: "string \<Rightarrow> evidence_body \<Rightarrow> bool" where
  "state_of_routine rid (RoutineState r _ _ _ _) = (r = rid)"
| "state_of_routine _ _ = False"

fun active_state :: "evidence_body \<Rightarrow> bool" where
  "active_state (RoutineState _ _ a _ _) = a"
| "active_state _ = False"

text \<open>The newest state of every routine; a map keeps the place of a key it already has.\<close>

definition latestRoutineStates :: "js_runtime \<Rightarrow> evidence list \<Rightarrow> evidence list" where
  "latestRoutineStates js es = fold (upsert (\<lambda>e. eb_routineId (ev_body e))) (sort_key (by_observed_at js) es) []"

definition newest_evidence :: "js_runtime \<Rightarrow> evidence list \<Rightarrow> evidence option" where
  "newest_evidence js es = (case rev (sort_key (by_observed_at js) es) of [] \<Rightarrow> None | e # _ \<Rightarrow> Some e)"

definition evaluate_active_count :: "js_runtime \<Rightarrow> string \<Rightarrow> nat \<Rightarrow> evidence list \<Rightarrow> predicate_result" where
  "evaluate_active_count js p expected es =
     (let states = filter (\<lambda>e. state_of_plan p (ev_body e)) es;
          latest = latestRoutineStates js states;
          active = filter (\<lambda>e. active_state (ev_body e)) latest in
      verdict (latest \<noteq> [] \<and> length active = expected) states
        (''Found '' @ show_nat (length active) @ '' active routine(s) for the approved plan; expected '' @
          show_nat expected @ ''.''))"

definition evaluate_inactive :: "js_runtime \<Rightarrow> evidence_bindings \<Rightarrow> string \<Rightarrow> evidence list \<Rightarrow> predicate_result" where
  "evaluate_inactive js b rid es =
     (let states = filter (\<lambda>e. state_of_routine rid (ev_body e)) es;
          passed = (case newest_evidence js (filter (\<lambda>e. Some (ev_id e) = vb_protectedRoutineInactive b) states) of
            None \<Rightarrow> False | Some e \<Rightarrow> \<not> active_state (ev_body e)) in
      verdict passed states (if passed then ''The protected routine is inactive.''
        else ''The protected routine is active or its state is missing.''))"

fun state_matches :: "string \<Rightarrow> string \<Rightarrow> evidence_body \<Rightarrow> bool" where
  "state_matches p h (RoutineState _ _ a i k) = (a \<and> i = Some p \<and> k = Some h)"
| "state_matches _ _ _ = False"

definition evaluate_matches :: "js_runtime \<Rightarrow> evidence_bindings \<Rightarrow> string \<Rightarrow> string \<Rightarrow> string \<Rightarrow> evidence list \<Rightarrow> predicate_result" where
  "evaluate_matches js b rid p h es =
     (let states = filter (\<lambda>e. state_of_routine rid (ev_body e) \<and> Some (ev_id e) = vb_activeRoutine b) es;
          passed = (case newest_evidence js states of None \<Rightarrow> False | Some e \<Rightarrow> state_matches p h (ev_body e)) in
      verdict passed states (if passed then ''The active routine is bound to the approved plan and hash.''
        else ''The active routine does not match the approved plan and hash.''))"

fun celsius_of :: "evidence_body \<Rightarrow> rat" where
  "celsius_of (TemperatureObservation _ c) = c"
| "celsius_of _ = 0"

definition evaluate_temperature :: "js_runtime \<Rightarrow> evidence_bindings \<Rightarrow> rat \<Rightarrow> instant \<Rightarrow> evidence list \<Rightarrow> predicate_result" where
  "evaluate_temperature js b minimum deadline es =
     (let observations = filter (\<lambda>e. is_temperature (ev_body e) \<and> Some (ev_id e) = vb_preheat b \<and>
            ev_observedAt e \<le> deadline) es;
          passed = list_ex (\<lambda>e. minimum \<le> celsius_of (ev_body e)) observations in
      verdict passed observations
        (if passed then ''Temperature reached at least '' @ js_number js minimum @ [CHR 0xB0] @ ''C by the deadline.''
         else ''Temperature did not reach '' @ js_number js minimum @ [CHR 0xB0] @ ''C by the deadline.''))"

text \<open>The command follows the arrival within the delay: \<open>expected\<close> is its kind and its name in the message.\<close>

definition evaluate_within ::
  "evidence_bindings \<Rightarrow> command_kind \<times> string \<Rightarrow> string option \<Rightarrow> string \<Rightarrow> nat \<Rightarrow> evidence list \<Rightarrow> predicate_result" where
  "evaluate_within b expected bound arrivalId seconds es =
     (let arrival = find (\<lambda>e. is_arrival (ev_body e) \<and> ev_id e = arrivalId) es;
          commands = filter (\<lambda>e. is_command_of_kind (fst expected) (ev_body e) \<and>
            cause_of (ev_body e) = Some arrivalId \<and> Some (ev_id e) = bound) es;
          passed = (case arrival of None \<Rightarrow> False | Some a \<Rightarrow>
            is_verified_arrival (ev_body a) \<and> Some (ev_id a) = vb_verifiedArrival b \<and>
            list_ex (\<lambda>c. 0 \<le> ev_observedAt c - ev_observedAt a \<and>
              ev_observedAt c - ev_observedAt a \<le> int seconds * 1000) commands) in
      verdict passed ((case arrival of None \<Rightarrow> [] | Some a \<Rightarrow> [a]) @ commands)
        (snd expected @ (if passed then '' followed verified-arrival evidence within ''
           else '' did not follow verified-arrival evidence within '') @ show_nat seconds @ '' seconds.''))"

fun command_device :: "evidence_body \<Rightarrow> string" where
  "command_device (DeviceCommand d _ _) = d"
| "command_device _ = []"

definition relocks :: "nat \<Rightarrow> nat \<Rightarrow> evidence \<Rightarrow> evidence \<Rightarrow> bool" where
  "relocks expected tolerance unlock lock = (command_device (ev_body unlock) = command_device (ev_body lock) \<and>
     cause_of (ev_body lock) = Some (ev_id unlock) \<and>
     \<bar>(ev_observedAt lock - ev_observedAt unlock) - int expected * 1000\<bar> \<le> int tolerance * 1000)"

definition evaluate_relock :: "evidence_bindings \<Rightarrow> nat \<Rightarrow> nat \<Rightarrow> evidence list \<Rightarrow> predicate_result" where
  "evaluate_relock b expected tolerance es =
     (let unlocks = filter (\<lambda>e. is_command_of_kind KUnlock (ev_body e) \<and> Some (ev_id e) = vb_unlock b) es;
          locks = filter (\<lambda>e. is_command_of_kind KLockedDesiredState (ev_body e) \<and> Some (ev_id e) = vb_relock b) es;
          passed = list_ex (\<lambda>u. list_ex (relocks expected tolerance u) locks) unlocks in
      verdict passed (unlocks @ locks)
        ((if passed then ''Locked desired state followed unlock after ''
          else ''Locked desired state did not follow unlock after '') @ show_nat expected @ '' seconds within tolerance.''))"

fun projected_use :: "evidence_body \<Rightarrow> rat" where
  "projected_use (BatteryProjection u) = u"
| "projected_use _ = 0"

fun is_projection :: "evidence_body \<Rightarrow> bool" where
  "is_projection (BatteryProjection _) = True"
| "is_projection _ = False"

definition newest_instants :: "evidence list \<Rightarrow> evidence list" where
  "newest_instants es = filter (\<lambda>e. list_all (\<lambda>o'. ev_observedAt o' \<le> ev_observedAt e) es) es"

definition evaluate_battery :: "js_runtime \<Rightarrow> evidence_bindings \<Rightarrow> rat \<Rightarrow> evidence list \<Rightarrow> predicate_result" where
  "evaluate_battery js b maximum es =
     (let projections = filter (\<lambda>e. is_projection (ev_body e) \<and> Some (ev_id e) = vb_batteryProjection b) es;
          latest = newest_instants projections;
          passed = (latest \<noteq> [] \<and> list_all (\<lambda>e. projected_use (ev_body e) \<le> maximum) latest) in
      verdict passed projections
        (if passed then ''Projected use is at or below '' @ js_number js maximum @ '' percentage points.''
         else ''Projected use exceeds '' @ js_number js maximum @ '' percentage points or is missing.''))"

fun is_audit :: "evidence_body \<Rightarrow> bool" where
  "is_audit (TenantAccessAudit _ _ _) = True"
| "is_audit _ = False"

fun allows_foreign :: "string \<Rightarrow> evidence_body \<Rightarrow> bool" where
  "allows_foreign org (TenantAccessAudit o' a _) = (o' \<noteq> org \<and> a)"
| "allows_foreign _ _ = False"

definition evaluate_tenancy :: "evidence_bindings \<Rightarrow> bool \<Rightarrow> string \<Rightarrow> evidence list \<Rightarrow> predicate_result" where
  "evaluate_tenancy b scopeContaminated org allEvidence =
     (let audits = filter (\<lambda>e. is_audit (ev_body e)) allEvidence;
          contaminated = (scopeContaminated \<or> list_ex (\<lambda>e. ev_organizationId e \<noteq> org) allEvidence);
          passed = (list_ex (\<lambda>e. Some (ev_id e) = vb_tenantAudit b) audits \<and> \<not> contaminated \<and>
            \<not> list_ex (\<lambda>e. allows_foreign org (ev_body e)) audits) in
      verdict passed audits
        (if passed then ''The operation and retained evidence remain bound to the approved tenant.''
         else ''The operation lacks its tenant binding, contains foreign evidence, or records an allowed foreign access.''))"

fun evaluatePredicate ::
  "js_runtime \<Rightarrow> evidence list \<Rightarrow> evidence list \<Rightarrow> bool \<Rightarrow> evidence_bindings \<Rightarrow> predicate_body \<Rightarrow> predicate_result" where
  "evaluatePredicate js es all dirty b (NoUnlockForUnverifiedIdentity e) = evaluate_no_unlock e es"
| "evaluatePredicate js es all dirty b (ActiveRoutineCount p n) = evaluate_active_count js p n es"
| "evaluatePredicate js es all dirty b (RoutineInactive r) = evaluate_inactive js b r es"
| "evaluatePredicate js es all dirty b (RoutineMatchesPlan r p h) = evaluate_matches js b r p h es"
| "evaluatePredicate js es all dirty b (TemperatureAtLeastBy m t) = evaluate_temperature js b m t es"
| "evaluatePredicate js es all dirty b (LightingAfterArrivalWithin a n) =
     evaluate_within b (KSetLighting, ''set_lighting'') (vb_pathwayLighting b) a n es"
| "evaluatePredicate js es all dirty b (UnlockAfterArrivalWithin a n) =
     evaluate_within b (KUnlock, ''unlock'') (vb_unlock b) a n es"
| "evaluatePredicate js es all dirty b (LockAfterUnlockElapsed x t) = evaluate_relock b x t es"
| "evaluatePredicate js es all dirty b (BatteryProjectionAtMost m) = evaluate_battery js b m es"
| "evaluatePredicate js es all dirty b (NoCrossTenantAccess o') = evaluate_tenancy b dirty o' all"

section \<open>The verifier\<close>

definition in_mission_scope :: "mission \<Rightarrow> evidence \<Rightarrow> bool" where
  "in_mission_scope m e = (ev_organizationId e = mi_organizationId m \<and> ev_missionId e = mi_id m \<and>
     ev_palaceId e = mi_palaceId m)"

text \<open>\<open>[...new Set(ids)]\<close>: first occurrences in order.\<close>

definition set_of_ids :: "string list \<Rightarrow> string list" where
  "set_of_ids xs = rev (remdups (rev xs))"

definition to_assertion :: "evidence \<Rightarrow> verification_predicate \<Rightarrow> predicate_result \<Rightarrow> err + verification_assertion" where
  "to_assertion fallback p r =
     (let referenced = (if vr_evidence r = [] then [fallback] else vr_evidence r);
          a = \<lparr> va_predicate = p, va_passed = vr_passed r,
                va_evidenceIds = set_of_ids (List.map ev_id referenced), va_message = vr_message r \<rparr> in
      if verification_assertion_ok a then Inr a else Inl (ZodError ''VerificationAssertion''))"

definition evaluate_compiled :: "js_runtime \<Rightarrow> compiled_material \<Rightarrow> verification_predicate \<Rightarrow> predicate_result" where
  "evaluate_compiled js c p = (let es = cv_evidence c; inside = in_mission_scope (cv_mission c) in
     evaluatePredicate js (filter inside es) es (list_ex (\<lambda>e. \<not> inside e) es) (cv_bindings c) (vp_body p))"

definition evaluateApprovedPlanVerification ::
  "env \<Rightarrow> js_runtime \<Rightarrow> verification_timing \<Rightarrow> verification_material \<Rightarrow> err + verification_assertion list" where
  "evaluateApprovedPlanVerification env js timing i =
     sbind (compileApprovedPlanVerification env js timing i) (\<lambda>c.
     case cv_evidence c of
       [] \<Rightarrow> Inl (ConflictError ''Verification requires persisted evidence'')
     | fallback # _ \<Rightarrow> map_res (\<lambda>p. to_assertion fallback p (evaluate_compiled js c p)) (cv_predicates c))"

section \<open>Lemmas\<close>

lemma unique_onto_Inr:
  assumes "unique_onto acc es = Inr zs" "distinct (List.map ev_id acc)"
  shows "set zs = set acc \<union> set es \<and> distinct (List.map ev_id zs)"
  using assms
proof (induction acc es rule: unique_onto.induct)
  case (2 acc e es)
  show ?case
  proof (cases "lookup_by ev_id (ev_id e) acc")
    case None
    then have "unique_onto (acc @ [e]) es = Inr zs" using 2(3) by simp
    moreover have "ev_id e \<notin> ev_id ` set acc" using None by (simp add: lookup_by_None)
    ultimately show ?thesis using 2(1)[OF None] 2(4) by simp
  next
    case (Some x)
    then show ?thesis using 2 by (auto dest: lookup_by_SomeD split: if_split_asm)
  qed
qed simp

lemma uniqueEvidence_Inr:
  "uniqueEvidence es = Inr zs \<Longrightarrow> set zs = set es \<and> distinct (List.map ev_id zs)"
  unfolding uniqueEvidence_def using unique_onto_Inr[of "[]" es zs] by simp

lemma sole_evidence_Some:
  assumes "sole_evidence P rs = Some i"
  obtains r where "r \<in> set rs" "P r" "ev_id (pe_evidence r) = i"
proof -
  from assms obtain r where "filter P rs = [r]" "ev_id (pe_evidence r) = i"
    by (auto simp: sole_evidence_def split: list.split_asm)
  then show thesis using that[of r] by (metis filter_eq_Cons_iff in_set_conv_decomp)
qed

lemma requireReplacementAction_Inr:
  "requireReplacementAction p = Inr (r, d) \<Longrightarrow> pl_actions p = [ReplaceHomecomingRoutine r d]"
  by (auto simp: requireReplacementAction_def split: list.split_asm plan_action.split_asm mission_constraint.split_asm
      if_split_asm)

lemma requireBoundExecution_Inr:
  "requireBoundExecution env m p a r act ops xs = Inr (x, y) \<Longrightarrow>
   ops = [y] \<and> (\<exists>sx. xs = [sx] \<and> sx_execution sx = x \<and> execution_bound env m p a r act y sx)"
  by (auto simp: requireBoundExecution_def split: list.split_asm if_split_asm)

lemma compile_Inr:
  assumes "compileApprovedPlanVerification env js timing i = Inr c"
  obtains r d x op preheat relock readyBy arrived where
    "pl_actions (vm_plan i) = [ReplaceHomecomingRoutine r d]" "material_parses env i"
    "0 \<le> vt_maximumDelaySeconds timing" "0 \<le> vt_relockToleranceSeconds timing"
    "find_routine_action ATPreheat d = Some preheat" "find_routine_action ATLockDesiredState d = Some relock"
    "nextLocalTime (en_zones env) (ex_startedAt x) (hd_timezone d) (ra_completeBy preheat) = Inr readyBy"
    "uniqueEvidence (List.map pe_evidence (vm_evidence i)) = Inr (cv_evidence c)" "cv_mission c = vm_mission i"
    "cv_bindings c = compile_bindings (vm_plan i) r d op x (vm_evidence i)"
    "cv_predicates c = homecoming_predicates timing (vm_plan i) r d preheat relock readyBy
       (unverified_arrival_id js x (cv_evidence c)) (verified_arrival_id x arrived)"
    "list_ex (\<lambda>s. sx_execution s = x) (vm_executions i)" "milestone_named MsVerifiedArrival x = Some arrived"
  using assms
  by (auto simp: compileApprovedPlanVerification_def Let_def result_simps assertTimingPolicy_def
      dest!: requireReplacementAction_Inr requireBoundExecution_Inr)

lemma sort_Nil: "sort xs = [] \<longleftrightarrow> xs = []"
  by (metis length_0_conv length_sort)

lemma sort_head_in: "sort xs = x # ys \<Longrightarrow> x \<in> set xs"
  by (metis list.set_intros(1) set_sort)

lemma next_verified_at_None: "next_verified_at es t = None \<Longrightarrow> v \<in> set es \<Longrightarrow> is_verified_arrival (ev_body v) \<Longrightarrow> ev_observedAt v \<le> t"
  by (auto simp: next_verified_at_def sort_Nil filter_empty_conv split: list.split_asm)

lemma next_verified_at_Some:
  assumes "next_verified_at es t = Some n"
  obtains v where "v \<in> set es" "is_verified_arrival (ev_body v)" "ev_observedAt v = n" "t < n"
proof -
  from assms have "n \<in> set (filter (\<lambda>o'. t < o') (List.map ev_observedAt (filter (\<lambda>e. is_verified_arrival (ev_body e)) es)))"
    by (auto simp: next_verified_at_def simp del: set_filter set_map split: list.split_asm dest: sort_head_in)
  then show thesis using that by auto
qed

lemma safe_unlock:
  assumes "\<not> unsafe_after es u a"
  shows "cause_of (ev_body u) \<noteq> Some (ev_id a) \<and> (ev_observedAt u < ev_observedAt a \<or>
     (\<exists>v\<in>set es. is_verified_arrival (ev_body v) \<and> ev_observedAt a < ev_observedAt v \<and> ev_observedAt v \<le> ev_observedAt u))"
  using assms by (auto simp: unsafe_after_def not_less split: option.split_asm elim!: next_verified_at_Some)

lemma verdict_sel [simp]: "vr_passed (verdict b es m) = b" "vr_evidence (verdict b es m) = es" "vr_message (verdict b es m) = m"
  by (simp_all add: verdict_def)

lemma no_unlock_passed:
  assumes "vr_passed (evaluate_no_unlock i es)"
  shows "\<exists>a\<in>set es. is_unverified_arrival (ev_body a) \<and> ev_id a = i"
    and "u \<in> set es \<Longrightarrow> is_command_of_kind KUnlock (ev_body u) \<Longrightarrow> a \<in> set es \<Longrightarrow> is_unverified_arrival (ev_body a) \<Longrightarrow>
      \<not> unsafe_after es u a"
  using assms by (auto simp: evaluate_no_unlock_def Let_def list_ex_iff filter_empty_conv)

lemma within_passed:
  assumes "vr_passed (evaluate_within b k bound i n es)"
  obtains a c where "a \<in> set es" "ev_id a = i" "is_verified_arrival (ev_body a)" "Some (ev_id a) = vb_verifiedArrival b"
    "c \<in> set es" "is_command_of_kind (fst k) (ev_body c)" "cause_of (ev_body c) = Some i" "Some (ev_id c) = bound"
    "0 \<le> ev_observedAt c - ev_observedAt a" "ev_observedAt c - ev_observedAt a \<le> int n * 1000"
  using assms by (auto simp: evaluate_within_def Let_def list_ex_iff split: option.split_asm dest!: find_Some_in)

lemma relock_passed:
  assumes "vr_passed (evaluate_relock b n t es)"
  obtains u l where "u \<in> set es" "is_command_of_kind KUnlock (ev_body u)" "Some (ev_id u) = vb_unlock b"
    "l \<in> set es" "is_command_of_kind KLockedDesiredState (ev_body l)" "Some (ev_id l) = vb_relock b" "relocks n t u l"
  using assms by (auto simp: evaluate_relock_def Let_def list_ex_iff)

lemma tenancy_passed:
  "vr_passed (evaluate_tenancy b dirty org es) \<Longrightarrow> \<not> dirty"
  by (simp add: evaluate_tenancy_def Let_def)

lemma temperature_passed:
  assumes "vr_passed (evaluate_temperature js b m t es)"
  obtains e where "e \<in> set es" "is_temperature (ev_body e)" "m \<le> celsius_of (ev_body e)" "ev_observedAt e \<le> t"
    "Some (ev_id e) = vb_preheat b"
  using assms by (auto simp: evaluate_temperature_def Let_def list_ex_iff)

text \<open>What a positive verdict of the verifier consists of.\<close>

lemma verified_Inr:
  assumes "evaluateApprovedPlanVerification env js timing i = Inr asserted"
  obtains c where "compileApprovedPlanVerification env js timing i = Inr c" "cv_evidence c \<noteq> []"
    "List.map va_predicate asserted = cv_predicates c"
    "list_all va_passed asserted \<longleftrightarrow> (\<forall>p\<in>set (cv_predicates c). vr_passed (evaluate_compiled js c p))"
proof -
  from assms obtain c where c: "compileApprovedPlanVerification env js timing i = Inr c" "cv_evidence c \<noteq> []"
    and a: "list_all2 (\<lambda>p a. to_assertion (hd (cv_evidence c)) p (evaluate_compiled js c p) = Inr a) (cv_predicates c) asserted"
    unfolding evaluateApprovedPlanVerification_def
    by (auto simp: result_simps map_res_Inr neq_Nil_conv split: list.split_asm)
  have "va_predicate x = p \<and> va_passed x = vr_passed r" if "to_assertion fb p r = Inr x" for fb p r x
    using that by (auto simp: to_assertion_def Let_def split: if_split_asm)
  with a have "list_all2 (\<lambda>p x. va_predicate x = p \<and> va_passed x = vr_passed (evaluate_compiled js c p)) (cv_predicates c) asserted"
    by (auto elim: list_all2_mono)
  then have "List.map va_predicate asserted = cv_predicates c \<and> (list_all va_passed asserted \<longleftrightarrow>
      (\<forall>p\<in>set (cv_predicates c). vr_passed (evaluate_compiled js c p)))"
    by induction auto
  with c show thesis using that by auto
qed

lemma bound_record:
  assumes "uniqueEvidence (List.map pe_evidence rs) = Inr es" "r \<in> set rs" "e \<in> set es" "ev_id (pe_evidence r) = ev_id e"
  shows "pe_evidence r = e"
proof -
  have "set es = pe_evidence ` set rs" "distinct (List.map ev_id es)" using uniqueEvidence_Inr[OF assms(1)] by simp_all
  then show ?thesis using assms(2-4) by (auto simp: distinct_map inj_on_def)
qed

lemma arrival_vouched:
  assumes "completedMilestoneEvidence rs x MsVerifiedArrival = Some e"
  obtains r where "r \<in> set rs" "ev_id (pe_evidence r) = e" "vouched_by_telemetry r"
  using assms
  by (auto simp: completedMilestoneEvidence_def dest!: find_Some_in split: option.split_asm milestone_state.split_asm if_split_asm)

lemma command_vouched:
  assumes "completedGatewayMilestoneEvidence rs x n accepts = Some e"
  obtains r m where "r \<in> set rs" "ev_id (pe_evidence r) = e" "milestone_named n x = Some m" "vouched_by_command (ml_commandId m) r"
  using assms
  by (auto simp: completedGatewayMilestoneEvidence_def split: option.split_asm if_split_asm elim!: sole_evidence_Some)

lemma homecoming_predicates_set:
  "vp_body ` set (homecoming_predicates timing p r d preheat relock t u a) =
     {NoUnlockForUnverifiedIdentity u, ActiveRoutineCount (pl_id p) 1, RoutineInactive (rp_protectedRoutineId r),
      RoutineMatchesPlan (rp_replacementRoutineId r) (pl_id p) (pl_hash p),
      TemperatureAtLeastBy (ra_targetCelsius preheat - 1 / 2) t,
      LightingAfterArrivalWithin a (nat (vt_maximumDelaySeconds timing)),
      UnlockAfterArrivalWithin a (nat (vt_maximumDelaySeconds timing)),
      LockAfterUnlockElapsed (nat (ra_afterUnlockSeconds relock)) (nat (vt_relockToleranceSeconds timing)),
      BatteryProjectionAtMost (hd_batteryUseMax d), NoCrossTenantAccess (pl_organizationId p)}"
  by (auto simp: homecoming_predicates_def HOMECOMING_VERIFICATION_CRITERIA_def)

lemma relock_action:
  assumes "find_routine_action ATLockDesiredState d = Some relock" "homecoming_definition_ok d"
  obtains k where "relock = LockDesiredState k" "LockDesiredState k \<in> set (hd_actions d)" "1 \<le> k"
proof -
  from assms(1) have r: "relock \<in> set (hd_actions d)" "action_type relock = ATLockDesiredState"
    by (auto simp: find_routine_action_def dest!: find_Some_in)
  then have ok: "routine_action_ok relock" using assms(2) by (auto simp: homecoming_definition_ok_def list_all_iff)
  obtain k where "relock = LockDesiredState k" using r(2) by (cases relock) auto
  with r(1) ok show thesis using that[of k] by simp
qed

text \<open>Everything a positive verdict of the ten predicates says, over the compiled material.\<close>

lemma verified_predicates:
  assumes "evaluateApprovedPlanVerification env js timing i = Inr asserted" "list_all va_passed asserted"
  obtains c :: compiled_material and r d x op preheat relock readyBy arrived where
    "pl_actions (vm_plan i) = [ReplaceHomecomingRoutine r d]" "homecoming_definition_ok d"
    "0 \<le> vt_maximumDelaySeconds timing" "0 \<le> vt_relockToleranceSeconds timing"
    "find_routine_action ATPreheat d = Some preheat" "find_routine_action ATLockDesiredState d = Some relock"
    "uniqueEvidence (List.map pe_evidence (vm_evidence i)) = Inr (cv_evidence c)"
    "cv_bindings c = compile_bindings (vm_plan i) r d op x (vm_evidence i)"
    "\<forall>e\<in>set (cv_evidence c). in_mission_scope (vm_mission i) e"
    "\<And>b. b \<in> vp_body ` set (homecoming_predicates timing (vm_plan i) r d preheat relock readyBy
       (unverified_arrival_id js x (cv_evidence c)) (verified_arrival_id x arrived)) \<Longrightarrow>
       vr_passed (evaluatePredicate js (cv_evidence c) (cv_evidence c) False (cv_bindings c) b)"
  using assms(1)
proof (rule verified_Inr)
  fix c assume c: "compileApprovedPlanVerification env js timing i = Inr c"
    and p: "list_all va_passed asserted \<longleftrightarrow> (\<forall>p\<in>set (cv_predicates c). vr_passed (evaluate_compiled js c p))"
  from c show thesis
  proof (rule compile_Inr)
    fix r d x op preheat relock readyBy arrived
    assume k: "pl_actions (vm_plan i) = [ReplaceHomecomingRoutine r d]" "material_parses env i"
      "0 \<le> vt_maximumDelaySeconds timing" "0 \<le> vt_relockToleranceSeconds timing"
      "find_routine_action ATPreheat d = Some preheat" "find_routine_action ATLockDesiredState d = Some relock"
      "uniqueEvidence (List.map pe_evidence (vm_evidence i)) = Inr (cv_evidence c)" "cv_mission c = vm_mission i"
      "cv_bindings c = compile_bindings (vm_plan i) r d op x (vm_evidence i)"
      "cv_predicates c = homecoming_predicates timing (vm_plan i) r d preheat relock readyBy
         (unverified_arrival_id js x (cv_evidence c)) (verified_arrival_id x arrived)"
    have d: "homecoming_definition_ok d" using k(1,2) by (auto simp: material_parses_def plan_ok_def)
    have all: "vr_passed (evaluate_compiled js c p)" if "p \<in> set (cv_predicates c)" for p using p assms(2) that by simp
    have "NoCrossTenantAccess (pl_organizationId (vm_plan i)) \<in> vp_body ` set (cv_predicates c)"
      unfolding k(10) homecoming_predicates_set by simp
    then obtain q where "q \<in> set (cv_predicates c)" "vp_body q = NoCrossTenantAccess (pl_organizationId (vm_plan i))" by auto
    with all[of q] have clean: "\<forall>e\<in>set (cv_evidence c). in_mission_scope (vm_mission i) e"
      by (auto simp: evaluate_compiled_def Let_def k(8) list_ex_iff dest: tenancy_passed)
    then have "filter (in_mission_scope (cv_mission c)) (cv_evidence c) = cv_evidence c"
      "\<not> list_ex (\<lambda>e. \<not> in_mission_scope (cv_mission c) e) (cv_evidence c)" by (simp_all add: k(8) list_ex_iff)
    with all have verdicts: "vr_passed (evaluatePredicate js (cv_evidence c) (cv_evidence c) False (cv_bindings c) b)"
      if "b \<in> vp_body ` set (cv_predicates c)" for b
      using that by (auto simp: evaluate_compiled_def Let_def)
    show thesis by (rule that[OF k(1) d k(3-7,9) clean]) (rule verdicts, simp add: k(10))
  qed
qed

text \<open>The arrival, the unlock and the relock that the passed predicates speak of, with their authorities.\<close>

definition access_story :: "verification_timing \<Rightarrow> int \<Rightarrow> persisted_evidence \<Rightarrow> persisted_evidence \<Rightarrow> persisted_evidence \<Rightarrow> bool" where
  "access_story timing k a u l = (let arrival = pe_evidence a; unlock = pe_evidence u; lock = pe_evidence l in
     vouched_by_telemetry a \<and> is_verified_arrival (ev_body arrival) \<and>
     (\<exists>c. vouched_by_command c u) \<and> is_command_of_kind KUnlock (ev_body unlock) \<and>
     cause_of (ev_body unlock) = Some (ev_id arrival) \<and>
     0 \<le> ev_observedAt unlock - ev_observedAt arrival \<and>
     ev_observedAt unlock - ev_observedAt arrival \<le> vt_maximumDelaySeconds timing * 1000 \<and>
     (\<exists>c. vouched_by_command c l) \<and> is_command_of_kind KLockedDesiredState (ev_body lock) \<and>
     cause_of (ev_body lock) = Some (ev_id unlock) \<and>
     command_device (ev_body unlock) = command_device (ev_body lock) \<and>
     \<bar>(ev_observedAt lock - ev_observedAt unlock) - k * 1000\<bar> \<le> vt_relockToleranceSeconds timing * 1000)"

lemma access_story_found:
  assumes unique: "uniqueEvidence (List.map pe_evidence rs) = Inr es" and bindings: "b = compile_bindings p r d op x rs"
    and timing: "0 \<le> vt_maximumDelaySeconds timing" "0 \<le> vt_relockToleranceSeconds timing" "1 \<le> k"
    and within: "vr_passed (evaluate_within b (KUnlock, nm) (vb_unlock b) i (nat (vt_maximumDelaySeconds timing)) es)"
    and relocked: "vr_passed (evaluate_relock b (nat k) (nat (vt_relockToleranceSeconds timing)) es)"
  shows "\<exists>a\<in>set rs. \<exists>u\<in>set rs. \<exists>l\<in>set rs. access_story timing k a u l"
proof -
  from within obtain a u where a: "a \<in> set es" "is_verified_arrival (ev_body a)" "vb_verifiedArrival b = Some (ev_id a)"
    and u: "u \<in> set es" "is_command_of_kind KUnlock (ev_body u)" "cause_of (ev_body u) = Some (ev_id a)" "vb_unlock b = Some (ev_id u)"
      "0 \<le> ev_observedAt u - ev_observedAt a" "ev_observedAt u - ev_observedAt a \<le> int (nat (vt_maximumDelaySeconds timing)) * 1000"
    by (elim within_passed) simp
  from relocked obtain u' l where l: "u' \<in> set es" "vb_unlock b = Some (ev_id u')" "l \<in> set es"
      "is_command_of_kind KLockedDesiredState (ev_body l)" "vb_relock b = Some (ev_id l)"
      "relocks (nat k) (nat (vt_relockToleranceSeconds timing)) u' l"
    by (elim relock_passed) simp
  have "u' = u" using uniqueEvidence_Inr[OF unique] u(1,4) l(1,2) by (auto simp: distinct_map dest: inj_onD)
  obtain ra where ra: "ra \<in> set rs" "ev_id (pe_evidence ra) = ev_id a" "vouched_by_telemetry ra"
    using a(3) unfolding bindings by (auto simp: compile_bindings_def elim: arrival_vouched)
  obtain ru cu where ru: "ru \<in> set rs" "ev_id (pe_evidence ru) = ev_id u" "vouched_by_command cu ru"
    using u(4) unfolding bindings by (auto simp: compile_bindings_def elim: command_vouched)
  obtain rl cl where rl: "rl \<in> set rs" "ev_id (pe_evidence rl) = ev_id l" "vouched_by_command cl rl"
    using l(5) unfolding bindings by (auto simp: compile_bindings_def elim: command_vouched)
  have "pe_evidence ra = a" "pe_evidence ru = u" "pe_evidence rl = l"
    by (rule bound_record[OF unique ra(1) a(1) ra(2)] bound_record[OF unique ru(1) u(1) ru(2)] bound_record[OF unique rl(1) l(3) rl(2)])+
  then have "access_story timing k ra ru rl"
    using a u l(4,6) ra(3) ru(3) rl(3) timing \<open>u' = u\<close> by (auto simp: access_story_def Let_def relocks_def)
  with ra(1) ru(1) rl(1) show ?thesis by blast
qed

lemma passed_story:
  assumes "evaluateApprovedPlanVerification env js timing i = Inr asserted" "list_all va_passed asserted"
  shows "(\<forall>e\<in>pe_evidence ` set (vm_evidence i). in_mission_scope (vm_mission i) e) \<and>
    (\<forall>u\<in>pe_evidence ` set (vm_evidence i). \<forall>a\<in>pe_evidence ` set (vm_evidence i).
       is_command_of_kind KUnlock (ev_body u) \<longrightarrow> is_unverified_arrival (ev_body a) \<longrightarrow>
       cause_of (ev_body u) \<noteq> Some (ev_id a) \<and> (ev_observedAt u < ev_observedAt a \<or>
         (\<exists>v\<in>pe_evidence ` set (vm_evidence i). is_verified_arrival (ev_body v) \<and>
            ev_observedAt a < ev_observedAt v \<and> ev_observedAt v \<le> ev_observedAt u))) \<and>
    (\<exists>r d k. pl_actions (vm_plan i) = [ReplaceHomecomingRoutine r d] \<and> LockDesiredState k \<in> set (hd_actions d) \<and>
       (\<exists>a\<in>set (vm_evidence i). \<exists>u\<in>set (vm_evidence i). \<exists>l\<in>set (vm_evidence i). access_story timing k a u l))"
  using assms
proof (rule verified_predicates)
  fix c :: compiled_material and r d x op preheat relock readyBy arrived
  assume plan: "pl_actions (vm_plan i) = [ReplaceHomecomingRoutine r d]" "homecoming_definition_ok d"
    and timing: "0 \<le> vt_maximumDelaySeconds timing" "0 \<le> vt_relockToleranceSeconds timing"
    and relock: "find_routine_action ATLockDesiredState d = Some relock"
    and unique: "uniqueEvidence (List.map pe_evidence (vm_evidence i)) = Inr (cv_evidence c)"
    and bindings: "cv_bindings c = compile_bindings (vm_plan i) r d op x (vm_evidence i)"
    and scope: "\<forall>e\<in>set (cv_evidence c). in_mission_scope (vm_mission i) e"
    and verdicts: "\<And>b. b \<in> vp_body ` set (homecoming_predicates timing (vm_plan i) r d preheat relock readyBy
       (unverified_arrival_id js x (cv_evidence c)) (verified_arrival_id x arrived)) \<Longrightarrow>
       vr_passed (evaluatePredicate js (cv_evidence c) (cv_evidence c) False (cv_bindings c) b)"
  have E: "pe_evidence ` set (vm_evidence i) = set (cv_evidence c)" using uniqueEvidence_Inr[OF unique] by simp
  note verdict = verdicts[unfolded homecoming_predicates_set]
  have safe: "\<not> unsafe_after (cv_evidence c) u a" if "u \<in> set (cv_evidence c)" "is_command_of_kind KUnlock (ev_body u)"
    "a \<in> set (cv_evidence c)" "is_unverified_arrival (ev_body a)" for u a
    by (rule no_unlock_passed(2)[OF _ that])
      (use verdict[of "NoUnlockForUnverifiedIdentity (unverified_arrival_id js x (cv_evidence c))"] in simp)
  obtain k where k: "relock = LockDesiredState k" "LockDesiredState k \<in> set (hd_actions d)" "1 \<le> k"
    using relock plan(2) by (rule relock_action)
  have "\<exists>a\<in>set (vm_evidence i). \<exists>u\<in>set (vm_evidence i). \<exists>l\<in>set (vm_evidence i). access_story timing k a u l"
    by (rule access_story_found[OF unique bindings timing k(3)])
      (use verdict[of "UnlockAfterArrivalWithin (verified_arrival_id x arrived) (nat (vt_maximumDelaySeconds timing))"]
        verdict[of "LockAfterUnlockElapsed (nat k) (nat (vt_relockToleranceSeconds timing))"] k(1) in simp_all)
  with plan(1) k(2) show ?thesis unfolding E using safe scope safe_unlock by blast
qed

section \<open>Properties\<close>

text \<open> C30. A verification that passes has the whole story in the persisted evidence, and nothing against it: every piece
  of evidence belongs to the mission; every unlock happened outside the window of every unverified arrival; and one
  verified arrival, vouched for by identity telemetry, was followed within the allowed delay by an unlock it caused,
  and the unlock after the approved seconds, within the tolerance, by a lock of the same device that it caused, both
  vouched for by gateway callbacks.\<close>

theorem passed_verifications_are_sound:
  assumes "evaluateApprovedPlanVerification env js timing i = Inr asserted" "list_all va_passed asserted"
  shows "(\<forall>e\<in>pe_evidence ` set (vm_evidence i). in_mission_scope (vm_mission i) e) \<and>
    (\<forall>u\<in>pe_evidence ` set (vm_evidence i). \<forall>a\<in>pe_evidence ` set (vm_evidence i).
       is_command_of_kind KUnlock (ev_body u) \<longrightarrow> is_unverified_arrival (ev_body a) \<longrightarrow>
       cause_of (ev_body u) \<noteq> Some (ev_id a) \<and> (ev_observedAt u < ev_observedAt a \<or>
         (\<exists>v\<in>pe_evidence ` set (vm_evidence i). is_verified_arrival (ev_body v) \<and>
            ev_observedAt a < ev_observedAt v \<and> ev_observedAt v \<le> ev_observedAt u))) \<and>
    (\<exists>r d k. pl_actions (vm_plan i) = [ReplaceHomecomingRoutine r d] \<and> LockDesiredState k \<in> set (hd_actions d) \<and>
       (\<exists>a\<in>set (vm_evidence i). \<exists>u\<in>set (vm_evidence i). \<exists>l\<in>set (vm_evidence i). access_story timing k a u l))"
  using assms by (rule passed_story)

text \<open>A mission in which no unverified tag ever arrived cannot pass: the first predicate needs the evidence of such an
  arrival, and without one it looks for the evidence that triggered the execution.\<close>

theorem quiet_missions_never_pass:
  assumes "evaluateApprovedPlanVerification env js timing i = Inr asserted"
    and "\<And>r. r \<in> set (vm_evidence i) \<Longrightarrow> \<not> is_unverified_arrival (ev_body (pe_evidence r))"
  shows "\<not> list_all va_passed asserted"
proof
  assume "list_all va_passed asserted"
  from assms(1) this show False
  proof (rule verified_predicates)
    fix c :: compiled_material and r d x op preheat relock readyBy arrived
    assume unique: "uniqueEvidence (List.map pe_evidence (vm_evidence i)) = Inr (cv_evidence c)"
      and verdicts: "\<And>b. b \<in> vp_body ` set (homecoming_predicates timing (vm_plan i) r d preheat relock readyBy
       (unverified_arrival_id js x (cv_evidence c)) (verified_arrival_id x arrived)) \<Longrightarrow>
       vr_passed (evaluatePredicate js (cv_evidence c) (cv_evidence c) False (cv_bindings c) b)"
    have "vr_passed (evaluate_no_unlock (unverified_arrival_id js x (cv_evidence c)) (cv_evidence c))"
      using verdicts[of "NoUnlockForUnverifiedIdentity (unverified_arrival_id js x (cv_evidence c))"]
      by (simp add: homecoming_predicates_set)
    from no_unlock_passed(1)[OF this] uniqueEvidence_Inr[OF unique] assms(2) show False by auto
  qed
qed

section \<open>Witnesses\<close>

definition ex_done :: "milestone_name \<Rightarrow> string option \<Rightarrow> string \<Rightarrow> milestone" where
  "ex_done n c e = \<lparr> ml_name = n, ml_commandId = c, ml_state = MilestoneCompleted e 24040000 \<rparr>"

definition ex_observed_execution :: execution where
  "ex_observed_execution = \<lparr> ex_id = ''exe_aaaaaaaa'', ex_organizationId = ''org_aaaaaaaa'', ex_missionId = ''mis_aaaaaaaa'',
     ex_operationId = ''op_aaaaaaaa'', ex_routineId = ''rtn_bbbbbbbb'', ex_routineVersionId = ''rtv_bbbbbbbb'',
     ex_programKind = None, ex_status = ExObserved, ex_triggeredByEvidenceId = ''evd_ccccccct'',
     ex_evidenceIds = [''evd_ccccccct'', ''evd_pppppppp'', ''evd_vvvvvvvv'', ''evd_llllllll'', ''evd_oooooooo'', ''evd_rrrrrrrr''],
     ex_startedAt = 40, ex_deadline = 27330000,
     ex_milestones = [ex_done MsPreheat (Some ''gcmd_pppppppp'') ''evd_pppppppp'', ex_done MsVerifiedArrival None ''evd_vvvvvvvv'',
       ex_done MsPathwayLighting (Some ''gcmd_llllllll'') ''evd_llllllll'', ex_done MsUnlock (Some ''gcmd_oooooooo'') ''evd_oooooooo'',
       ex_done MsRelock (Some ''gcmd_rrrrrrrr'') ''evd_rrrrrrrr''],
     ex_updatedAt = 24040000, ex_completedAt = Some 24040000 \<rparr>"

definition ex_sensed :: "string \<Rightarrow> instant \<Rightarrow> evidence_body \<Rightarrow> receipt_authority \<Rightarrow> persisted_evidence" where
  "ex_sensed k t b a = \<lparr> pe_evidence = \<lparr> ev_id = ''evd_'' @ k, ev_organizationId = ''org_aaaaaaaa'',
       ev_missionId = ''mis_aaaaaaaa'', ev_palaceId = ''pal_aaaaaaaa'', ev_observedAt = t, ev_body = b \<rparr>,
     pe_receipt = \<lparr> ar_id = ''rcp_'' @ k, ar_evidenceId = ''evd_'' @ k, ar_organizationId = ''org_aaaaaaaa'',
       ar_missionId = ''mis_aaaaaaaa'', ar_palaceId = ''pal_aaaaaaaa'', ar_verifiedAt = t, ar_authority = a \<rparr>,
     pe_persistedAt = t \<rparr>"

definition ex_reported :: "string \<Rightarrow> receipt_authority" where
  "ex_reported c = GatewayCallbackReceipt ''gcb_aaaaaaaa'' c ex_digest True True"

definition ex_unverified_arrival :: persisted_evidence where
  "ex_unverified_arrival = ex_sensed ''uuuuuuuu'' 23500000 (IdentityArrival ''tag_uuuuuuuu'' False)
     (IdentityTelemetryReceipt ''idt_uuuuuuuu'' ''tag_uuuuuuuu'' True True None)"

definition ex_quiet_evidence :: "persisted_evidence list" where
  "ex_quiet_evidence = ex_activation_evidence @
     [ex_sensed ''pppppppp'' 23000000 (TemperatureObservation ''dev_cccccccc'' 21) (ex_reported ''gcmd_pppppppp''),
      ex_sensed ''vvvvvvvv'' 24000000 (IdentityArrival ''tag_aaaaaaaa'' True)
        (IdentityTelemetryReceipt ''idt_vvvvvvvv'' ''tag_aaaaaaaa'' True True None),
      ex_sensed ''llllllll'' 24001000 (DeviceCommand ''dev_bbbbbbbb'' KSetLighting (Some ''evd_vvvvvvvv'')) (ex_reported ''gcmd_llllllll''),
      ex_sensed ''oooooooo'' 24002000 (DeviceCommand ''dev_aaaaaaaa'' KUnlock (Some ''evd_vvvvvvvv'')) (ex_reported ''gcmd_oooooooo''),
      ex_sensed ''rrrrrrrr'' 24032000 (DeviceCommand ''dev_aaaaaaaa'' KLockedDesiredState (Some ''evd_oooooooo'')) (ex_reported ''gcmd_rrrrrrrr'')]"

definition ex_verify_mission :: mission where
  "ex_verify_mission = ex_mission\<lparr> mi_state := mstate MRunning PhVerify,
     mi_successCriteriaIds := HOMECOMING_VERIFICATION_CRITERIA \<rparr>"

definition ex_verify_plan :: plan where
  "ex_verify_plan = ex_plan\<lparr> pl_successCriteriaIds := HOMECOMING_VERIFICATION_CRITERIA \<rparr>"

definition ex_context_receipt :: context_receipt where
  "ex_context_receipt = \<lparr> cr_id = ''ctx_aaaaaaaa'', cr_organizationId = ''org_aaaaaaaa'', cr_missionId = ''mis_aaaaaaaa'',
     cr_runId = ''run_aaaaaaaa'', cr_policyHash = ex_digest, cr_toolRegistryHash = ex_digest,
     cr_sources = [\<lparr> cs_sourceId = ''policy.shared.approval'', cs_version = ''1'', cs_contentHash = ex_digest,
       cs_authority = HostPolicy \<rparr>], cr_createdAt = 0 \<rparr>"

definition ex_observed_stored :: stored_execution where
  "ex_observed_stored = \<lparr> sx_operationId = ''op_aaaaaaaa'', sx_execution = ex_observed_execution, sx_authorization = ManualAuthorization \<rparr>"

definition ex_material :: "persisted_evidence list \<Rightarrow> verification_material" where
  "ex_material rs = \<lparr> vm_mission = ex_verify_mission, vm_plan = ex_verify_plan, vm_approval = ex_approval,
     vm_operations = [ex_committed], vm_contextReceipt = ex_context_receipt, vm_executions = [ex_observed_stored],
     vm_evidence = rs \<rparr>"

definition ex_js :: js_runtime where
  "ex_js = \<lparr> js_collation = (\<lambda>s. 0), js_number = (\<lambda>x. ''20.5'') \<rparr>"

definition ex_replacement :: replace_action where
  "ex_replacement = (case ex_action of ReplaceHomecomingRoutine r _ \<Rightarrow> r)"

definition ex_predicates :: "string \<Rightarrow> verification_predicate list" where
  "ex_predicates u = homecoming_predicates PRODUCTION_TIMING ex_verify_plan ex_replacement ex_definition
       (Preheat 21 ''06:30'') (LockDesiredState 30) 23400000 u ''evd_vvvvvvvv''"

definition ex_bindings :: evidence_bindings where
  "ex_bindings = \<lparr> vb_activeRoutine = Some ''evd_ccccccct'', vb_protectedRoutineInactive = Some ''evd_tttttttd'',
     vb_batteryProjection = Some ''evd_aaaaaaay'', vb_tenantAudit = Some ''evd_iiiiiiig'', vb_preheat = Some ''evd_pppppppp'',
     vb_verifiedArrival = Some ''evd_vvvvvvvv'', vb_pathwayLighting = Some ''evd_llllllll'',
     vb_unlock = Some ''evd_oooooooo'', vb_relock = Some ''evd_rrrrrrrr'' \<rparr>"

definition ex_compiled :: "string \<Rightarrow> persisted_evidence list \<Rightarrow> compiled_material" where
  "ex_compiled u rs = \<lparr> cv_predicates = ex_predicates u, cv_evidence = List.map pe_evidence rs,
     cv_mission = ex_verify_mission, cv_bindings = ex_bindings \<rparr>"

lemma ex_material_bound:
  "mission_ok ex_verify_mission" "plan_ok (en_planHash ex_planner_env) ex_verify_plan"
  "approval_ok ex_approval" "context_receipt_ok ex_context_receipt" "operation_ok ex_committed" "execution_ok ex_observed_execution"
  "assertApprovedBindings ex_verify_mission ex_verify_plan ex_approval ex_context_receipt = Inr ()"
  "requireReplacementAction ex_verify_plan = Inr (ex_replacement, ex_definition)"
  "execution_bound ex_planner_env ex_verify_mission ex_verify_plan ex_approval ex_replacement
     (hd (pl_actions ex_verify_plan)) ex_committed ex_observed_stored"
  by code_simp+

lemma ex_observed_facts:
  "milestone_named MsVerifiedArrival ex_observed_execution = Some (ex_done MsVerifiedArrival None ''evd_vvvvvvvv'')"
  "verified_arrival_id ex_observed_execution (ex_done MsVerifiedArrival None ''evd_vvvvvvvv'') = ''evd_vvvvvvvv''"
  "find_routine_action ATPreheat ex_definition = Some (Preheat 21 ''06:30'')"
  "find_routine_action ATLockDesiredState ex_definition = Some (LockDesiredState 30)"
  "ex_startedAt ex_observed_execution = 40" "hd_timezone ex_definition = ''UTC''"
  by code_simp+

lemma ex_compiles:
  assumes "list_all (persisted_evidence_ok (en_obsHash ex_planner_env)) rs"
    and "uniqueEvidence (List.map pe_evidence rs) = Inr (List.map pe_evidence rs)"
    and "unverified_arrival_id ex_js ex_observed_execution (List.map pe_evidence rs) = u"
    and "list_all verification_predicate_ok (ex_predicates u)"
    and "compile_bindings ex_verify_plan ex_replacement ex_definition ex_committed ex_observed_execution rs = ex_bindings"
  shows "compileApprovedPlanVerification ex_planner_env ex_js PRODUCTION_TIMING (ex_material rs) = Inr (ex_compiled u rs)"
  unfolding compileApprovedPlanVerification_def Let_def
  using assms ex_material_bound ex_observed_facts ex_local_times(1)
  by (simp add: assertTimingPolicy_def PRODUCTION_TIMING_def material_parses_def ex_compiled_def ex_material_def
      requireBoundExecution_def ex_observed_stored_def ex_predicates_def)

lemma ex_evaluates:
  assumes "compileApprovedPlanVerification env js timing i = Inr (ex_compiled u rs)" "rs = r # rest"
    and "map_res (\<lambda>p. to_assertion (pe_evidence r) p (evaluate_compiled js (ex_compiled u rs) p)) (ex_predicates u) = z"
  shows "evaluateApprovedPlanVerification env js timing i = z"
  unfolding evaluateApprovedPlanVerification_def using assms by (simp add: ex_compiled_def)

lemma ex_passes:
  "\<exists>asserted. evaluateApprovedPlanVerification ex_planner_env ex_js PRODUCTION_TIMING
     (ex_material (ex_unverified_arrival # ex_quiet_evidence)) = Inr asserted \<and> list_all va_passed asserted"
proof -
  let ?rs = "ex_unverified_arrival # ex_quiet_evidence"
  let ?z = "map_res (\<lambda>p. to_assertion (pe_evidence ex_unverified_arrival) p
     (evaluate_compiled ex_js (ex_compiled ''evd_uuuuuuuu'' ?rs) p)) (ex_predicates ''evd_uuuuuuuu'')"
  have "compileApprovedPlanVerification ex_planner_env ex_js PRODUCTION_TIMING (ex_material ?rs) = Inr (ex_compiled ''evd_uuuuuuuu'' ?rs)"
    by (rule ex_compiles; code_simp)
  then have "evaluateApprovedPlanVerification ex_planner_env ex_js PRODUCTION_TIMING (ex_material ?rs) = ?z"
    by (rule ex_evaluates) simp_all
  moreover have "case ?z of Inl _ \<Rightarrow> False | Inr asserted \<Rightarrow> list_all va_passed asserted" by code_simp
  ultimately show ?thesis by (auto split: sum.split_asm)
qed

lemma ex_quiet:
  "\<exists>asserted. evaluateApprovedPlanVerification ex_planner_env ex_js PRODUCTION_TIMING (ex_material ex_quiet_evidence) = Inr asserted"
proof -
  have r: "ex_quiet_evidence = hd ex_quiet_evidence # tl ex_quiet_evidence"
    by (simp add: ex_quiet_evidence_def ex_activation_evidence_def)
  let ?z = "map_res (\<lambda>p. to_assertion (pe_evidence (hd ex_quiet_evidence)) p
     (evaluate_compiled ex_js (ex_compiled ''evd_ccccccct'' ex_quiet_evidence) p)) (ex_predicates ''evd_ccccccct'')"
  have "compileApprovedPlanVerification ex_planner_env ex_js PRODUCTION_TIMING (ex_material ex_quiet_evidence) =
      Inr (ex_compiled ''evd_ccccccct'' ex_quiet_evidence)"
    by (rule ex_compiles; code_simp)
  then have "evaluateApprovedPlanVerification ex_planner_env ex_js PRODUCTION_TIMING (ex_material ex_quiet_evidence) = ?z"
    by (rule ex_evaluates) (rule r, rule refl)
  moreover have "case ?z of Inl _ \<Rightarrow> False | Inr asserted \<Rightarrow> True" by code_simp
  ultimately show ?thesis by (auto split: sum.split_asm)
qed

theorem passed_verifications_are_sound_witness:
  "\<exists>k. \<exists>a\<in>set (ex_unverified_arrival # ex_quiet_evidence). \<exists>u\<in>set (ex_unverified_arrival # ex_quiet_evidence).
     \<exists>l\<in>set (ex_unverified_arrival # ex_quiet_evidence). access_story PRODUCTION_TIMING k a u l"
proof -
  obtain asserted where "evaluateApprovedPlanVerification ex_planner_env ex_js PRODUCTION_TIMING
     (ex_material (ex_unverified_arrival # ex_quiet_evidence)) = Inr asserted" "list_all va_passed asserted"
    using ex_passes by blast
  from passed_verifications_are_sound[OF this] show ?thesis unfolding ex_material_def by simp blast
qed

theorem quiet_missions_never_pass_witness:
  "\<exists>asserted. evaluateApprovedPlanVerification ex_planner_env ex_js PRODUCTION_TIMING (ex_material ex_quiet_evidence) = Inr asserted \<and>
     \<not> list_all va_passed asserted"
proof -
  obtain asserted where e: "evaluateApprovedPlanVerification ex_planner_env ex_js PRODUCTION_TIMING (ex_material ex_quiet_evidence) =
     Inr asserted" using ex_quiet by blast
  have "\<not> list_all va_passed asserted"
    by (rule quiet_missions_never_pass[OF e])
      (auto simp: ex_material_def ex_quiet_evidence_def ex_activation_evidence_def ex_sensed_def ex_application_record_def)
  with e show ?thesis by blast
qed

end
