(* ===== verification/Hauler_Verifier.thy ===== *)
theory Hauler_Verifier
  imports Verifier
begin

text \<open>
  The verifier of a scheduled hauler access mission
  (\<open>application/src/scheduled-hauler-access-verifier.ts\<close>) and the choice of the verifier by
  the mission's program (\<open>MissionProgramRegistry.evaluate\<close>).
\<close>

definition HAULER_VERIFICATION_CRITERIA :: "string list" where
  "HAULER_VERIFICATION_CRITERIA =
     [''no_unverified_hauler_unlock'', ''one_active_approved_hauler_routine'', ''prior_hauler_routine_inactive'',
      ''hauler_routine_matches_approved_plan'', ''verified_hauler_inside_window'', ''service_hatch_only'',
      ''service_hatch_locked_after_access'', ''tenant_boundary_preserved'']"

section \<open>Material\<close>

fun find_res :: "('a \<Rightarrow> err + bool) \<Rightarrow> 'a list \<Rightarrow> err + 'a option" where
  "find_res f [] = Inr None"
| "find_res f (x # xs) = sbind (f x) (\<lambda>b. if b then Inr (Some x) else find_res f xs)"

definition hauler_chain ::
  "env \<Rightarrow> verification_material \<Rightarrow> err + (hauler_constraint \<times> replace_action \<times> hauler_definition \<times> operation)" where
  "hauler_chain env i = (let m = vm_mission i; p = vm_plan i; a = vm_approval i in
     if \<not> (mission_ok m \<and> plan_ok (en_planHash env) p \<and> approval_ok a \<and> list_all operation_ok (vm_operations i) \<and>
         list_all (persisted_evidence_ok (en_obsHash env)) (vm_evidence i))
       then Inl (ZodError ''ApprovedVerificationMaterial'')
     else case mi_constraints m of
       HomecomingConstraint _ \<Rightarrow> Inl (ZodError ''ScheduledHaulerAccessConstraint'')
     | HaulerConstraint c \<Rightarrow>
       if \<not> hauler_constraint_ok c then Inl (ZodError ''ScheduledHaulerAccessConstraint'')
       else case (mi_programKind m = Some ScheduledHaulerAccess, pl_actions p) of
         (True, [ReplaceScheduledHaulerAccessRoutine r d]) \<Rightarrow>
           if pl_missionId p \<noteq> mi_id m \<or> ap_planId a \<noteq> pl_id p \<or> ap_planHash a \<noteq> pl_hash p \<or> ap_status a \<noteq> ApprovalApproved
             then Inl (ConflictError ''Hauler verification approval chain is not exact'')
           else (case vm_operations i of
             [x] \<Rightarrow> if op_status x = OpCommitted \<and> (case op_outcome x of None \<Rightarrow> False | Some out \<Rightarrow>
                 oo_routineId out = rp_replacementRoutineId r \<and> oo_routineVersionId out = rp_replacementRoutineVersionId r \<and>
                 oo_deactivatedRoutineId out = Some (rp_protectedRoutineId r))
               then Inr (c, r, d, x)
               else Inl (ConflictError ''Hauler verification requires one committed bound operation'')
           | _ \<Rightarrow> Inl (ConflictError ''Hauler verification requires one committed bound operation''))
       | _ \<Rightarrow> Inl (ConflictError ''Hauler verification requires one matching program action''))"

text \<open>What the verifier looks up in the evidence of the mission's scope.\<close>

record hauler_findings =
  hf_identity :: "evidence option"
  hf_unverified :: "evidence option"
  hf_unlock :: "evidence option"
  hf_relock :: "evidence option"
  hf_foreignUnlock :: "evidence option"
  hf_activeState :: "evidence option"
  hf_inactiveState :: "evidence option"
  hf_tenantAudit :: "evidence option"
  hf_unlockInsideWindow :: bool

fun arrival_of_tag :: "string \<Rightarrow> evidence_body \<Rightarrow> bool" where
  "arrival_of_tag tag (IdentityArrival t v) = (v \<and> t = tag)"
| "arrival_of_tag _ _ = False"

fun active_for_plan :: "string \<Rightarrow> plan \<Rightarrow> evidence_body \<Rightarrow> bool" where
  "active_for_plan rid p (RoutineState r _ a i h) = (r = rid \<and> a \<and> i = Some (pl_id p) \<and> h = Some (pl_hash p))"
| "active_for_plan _ _ _ = False"

fun inactive_routine :: "string \<Rightarrow> evidence_body \<Rightarrow> bool" where
  "inactive_routine rid (RoutineState r _ a _ _) = (r = rid \<and> \<not> a)"
| "inactive_routine _ _ = False"

fun allowed_audit :: "string \<Rightarrow> evidence_body \<Rightarrow> bool" where
  "allowed_audit org (TenantAccessAudit o' a _) = (o' = org \<and> a)"
| "allowed_audit _ _ = False"

definition command_of :: "command_kind \<Rightarrow> string \<Rightarrow> persisted_evidence \<Rightarrow> bool" where
  "command_of k c r = (is_command_of_kind k (ev_body (pe_evidence r)) \<and> vouched_by_command (Some c) r)"

definition hauler_findings_of ::
  "env \<Rightarrow> mission \<Rightarrow> plan \<Rightarrow> hauler_constraint \<Rightarrow> replace_action \<Rightarrow> hauler_definition \<Rightarrow> operation \<Rightarrow> persisted_evidence list \<Rightarrow>
   err + hauler_findings" where
  "hauler_findings_of env m p c r d x scoped =
     (let es = List.map pe_evidence scoped;
          inside = (\<lambda>t. withinLocalWindow (en_zones env) t (hl_timezone d) (ha_accessWindowStart c) (ha_accessWindowEnd c)) in
      sbind (find_res (\<lambda>e. if arrival_of_tag (ha_authorizedIdentityTagId c) (ev_body e) then inside (ev_observedAt e) else Inr False) es)
        (\<lambda>identity.
      sbind (deriveGatewayCommandId (hp_sha (en_hash env)) (op_id x) HAULER_UNLOCK_KEY) (\<lambda>unlockId.
      sbind (deriveGatewayCommandId (hp_sha (en_hash env)) (op_id x) HAULER_RELOCK_KEY) (\<lambda>relockId.
      let unlock = map_option pe_evidence (find (\<lambda>q. command_of KUnlock unlockId q \<and>
            (case identity of None \<Rightarrow> False | Some e \<Rightarrow> cause_of (ev_body (pe_evidence q)) = Some (ev_id e))) scoped) in
      sbind (case unlock of None \<Rightarrow> Inr False | Some u \<Rightarrow> inside (ev_observedAt u)) (\<lambda>contained.
      Inr \<lparr> hf_identity = identity,
            hf_unverified = find (\<lambda>e. is_unverified_arrival (ev_body e)) es,
            hf_unlock = unlock,
            hf_relock = map_option pe_evidence (find (command_of KLockedDesiredState relockId) scoped),
            hf_foreignUnlock = map_option pe_evidence (find (\<lambda>q. is_command_of_kind KUnlock (ev_body (pe_evidence q)) \<and>
              \<not> vouched_by_command (Some unlockId) q) scoped),
            hf_activeState = find (\<lambda>e. active_for_plan (rp_replacementRoutineId r) p (ev_body e)) es,
            hf_inactiveState = find (\<lambda>e. inactive_routine (rp_protectedRoutineId r) (ev_body e)) es,
            hf_tenantAudit = find (\<lambda>e. allowed_audit (mi_organizationId m) (ev_body e)) es,
            hf_unlockInsideWindow = contained \<rparr>)))))"

section \<open>Assertions\<close>

definition supporting :: "evidence option list \<Rightarrow> evidence list" where
  "supporting xs = List.map_filter (\<lambda>x. x) xs"

definition hauler_assertion ::
  "evidence \<Rightarrow> string \<Rightarrow> predicate_body \<Rightarrow> bool \<Rightarrow> evidence option list \<Rightarrow> string \<Rightarrow> err + verification_assertion" where
  "hauler_assertion fallback i b passed support message =
     (let a = \<lparr> va_predicate = \<lparr> vp_id = i, vp_body = b \<rparr>, va_passed = passed,
                va_evidenceIds = (if supporting support = [] then [ev_id fallback] else List.map ev_id (supporting support)),
                va_message = message \<rparr> in
      if verification_assertion_ok a then Inr a else Inl (ZodError ''VerificationAssertion''))"

definition hauler_relocked :: "hauler_findings \<Rightarrow> bool" where
  "hauler_relocked f = (case (hf_unlock f, hf_relock f) of
     (Some u, Some l) \<Rightarrow> command_device (ev_body u) = command_device (ev_body l) \<and> ev_observedAt u \<le> ev_observedAt l
   | _ \<Rightarrow> False)"

text \<open>The eight assertions: predicate, verdict, supporting evidence and message.\<close>

definition hauler_table ::
  "mission \<Rightarrow> plan \<Rightarrow> replace_action \<Rightarrow> hauler_definition \<Rightarrow> evidence \<Rightarrow> bool \<Rightarrow> hauler_findings \<Rightarrow>
   (predicate_body \<times> bool \<times> evidence option list \<times> string) list" where
  "hauler_table m p r d fallback clean f = (let id_or = (\<lambda>e. case e of None \<Rightarrow> ev_id fallback | Some x \<Rightarrow> ev_id x) in
     [(NoUnlockForUnverifiedIdentity (id_or (hf_unverified f)),
        \<not> is_none (hf_unverified f) \<and> is_none (hf_foreignUnlock f), [hf_unverified f, hf_foreignUnlock f],
        ''No unverified or non-service-hatch unlock was accepted.''),
      (ActiveRoutineCount (pl_id p) 1, \<not> is_none (hf_activeState f), [hf_activeState f],
        ''Exactly one approved hauler routine is active.''),
      (RoutineInactive (rp_protectedRoutineId r), \<not> is_none (hf_inactiveState f), [hf_inactiveState f],
        ''The prior hauler routine is inactive.''),
      (RoutineMatchesPlan (rp_replacementRoutineId r) (pl_id p) (pl_hash p), \<not> is_none (hf_activeState f), [hf_activeState f],
        ''The active hauler routine matches the approved plan.''),
      (UnlockAfterArrivalWithin (id_or (hf_identity f)) 5, \<not> is_none (hf_identity f) \<and> hf_unlockInsideWindow f,
        [hf_identity f, hf_unlock f], ''Verified hauler identity caused access inside the approved window.''),
      (NoCrossTenantAccess (mi_organizationId m), is_none (hf_foreignUnlock f), [hf_tenantAudit f, hf_foreignUnlock f],
        ''No command escaped the approved service-hatch operation.''),
      (LockAfterUnlockElapsed (nat (hl_grantSeconds d)) 5, hauler_relocked f, [hf_unlock f, hf_relock f],
        ''The service hatch returned to locked state after access.''),
      (NoCrossTenantAccess (mi_organizationId m), clean \<and> \<not> is_none (hf_tenantAudit f), [hf_tenantAudit f],
        ''Evidence remains tenant-bound.'')])"

definition hauler_evaluate :: "env \<Rightarrow> verification_material \<Rightarrow> err + verification_assertion list" where
  "hauler_evaluate env i = sbind (hauler_chain env i) (\<lambda>(c, r, d, x).
     let m = vm_mission i; scoped = filter (\<lambda>q. in_mission_scope m (pe_evidence q)) (vm_evidence i) in
     case scoped of
       [] \<Rightarrow> Inl (ConflictError ''Hauler verification requires evidence'')
     | fallback # _ \<Rightarrow>
       sbind (hauler_findings_of env m (vm_plan i) c r d x scoped) (\<lambda>f.
         map_res (\<lambda>(k, b, passed, support, message). hauler_assertion (pe_evidence fallback) k b passed support message)
           (zip HAULER_VERIFICATION_CRITERIA (hauler_table m (vm_plan i) r d (pe_evidence fallback)
              (length scoped = length (vm_evidence i)) f))))"

text \<open>The registry.\<close>

definition registry_evaluate ::
  "env \<Rightarrow> js_runtime \<Rightarrow> verification_timing \<Rightarrow> verification_material \<Rightarrow> err + verification_assertion list" where
  "registry_evaluate env js timing i = sbind (assertMissionPlanBinding (vm_mission i) (vm_plan i)) (\<lambda>k. case k of
     NightShiftHomecoming \<Rightarrow> evaluateApprovedPlanVerification env js timing i
   | ScheduledHaulerAccess \<Rightarrow> hauler_evaluate env i)"

section \<open>Lemmas\<close>

lemma length_filter_all: "length (filter P xs) = length xs \<longleftrightarrow> list_all P xs"
proof (induction xs)
  case (Cons x xs)
  have "length (filter P xs) \<noteq> Suc (length xs)" using length_filter_le[of P xs] by linarith
  with Cons show ?case by (cases "P x") simp_all
qed simp

lemma find_res_Some: "find_res f xs = Inr (Some x) \<Longrightarrow> x \<in> set xs \<and> f x = Inr True"
  by (induction xs) (auto simp: result_simps split: if_split_asm)

lemma hauler_assertion_Inr:
  "hauler_assertion fb i b passed support msg = Inr a \<Longrightarrow> va_passed a = passed \<and> vp_body (va_predicate a) = b"
  by (auto simp: hauler_assertion_def Let_def split: if_split_asm)

lemma hauler_table_length:
  "length (hauler_table m p r d fb clean f) = length HAULER_VERIFICATION_CRITERIA"
  by (simp add: hauler_table_def HAULER_VERIFICATION_CRITERIA_def Let_def)

lemma hauler_assertions_Inr:
  assumes "length ks = length tbl"
    and "map_res (\<lambda>(k, b, passed, support, message). hauler_assertion fb k b passed support message) (zip ks tbl) = Inr asserted"
  shows "(list_all va_passed asserted \<longleftrightarrow> (\<forall>(b, passed, support, message)\<in>set tbl. passed)) \<and>
    List.map (\<lambda>a. vp_body (va_predicate a)) asserted = List.map fst tbl"
  using assms
proof (induction ks tbl arbitrary: asserted rule: list_induct2)
  case (Cons k ks row tbl)
  obtain b passed support message where row: "row = (b, passed, support, message)" by (cases row)
  with Cons.prems obtain a rest where a: "asserted = a # rest" "hauler_assertion fb k b passed support message = Inr a"
    "map_res (\<lambda>(k, b, passed, support, message). hauler_assertion fb k b passed support message) (zip ks tbl) = Inr rest"
    by (auto simp: result_simps)
  with hauler_assertion_Inr[OF a(2)] Cons.IH[OF a(3)] row show ?case by simp
qed simp

text \<open>What a verdict of the hauler verifier is made of.\<close>

lemma hauler_evaluate_Inr:
  assumes "hauler_evaluate env i = Inr asserted"
  obtains c r d x f fb where "hauler_chain env i = Inr (c, r, d, x)"
    "hauler_findings_of env (vm_mission i) (vm_plan i) c r d x
       (filter (\<lambda>q. in_mission_scope (vm_mission i) (pe_evidence q)) (vm_evidence i)) = Inr f"
    "list_all va_passed asserted \<longleftrightarrow> (\<forall>(b, passed, support, message)\<in>set (hauler_table (vm_mission i) (vm_plan i) r d fb
       (list_all (\<lambda>q. in_mission_scope (vm_mission i) (pe_evidence q)) (vm_evidence i)) f). passed)"
proof -
  let ?scoped = "filter (\<lambda>q. in_mission_scope (vm_mission i) (pe_evidence q)) (vm_evidence i)"
  have clean: "length ?scoped = length (vm_evidence i) \<longleftrightarrow>
      list_all (\<lambda>q. in_mission_scope (vm_mission i) (pe_evidence q)) (vm_evidence i)"
    by (rule length_filter_all)
  from assms obtain c r d x f fb rest where h: "hauler_chain env i = Inr (c, r, d, x)" "?scoped = fb # rest"
    "hauler_findings_of env (vm_mission i) (vm_plan i) c r d x ?scoped = Inr f"
    "map_res (\<lambda>(k, b, passed, support, message). hauler_assertion (pe_evidence fb) k b passed support message)
       (zip HAULER_VERIFICATION_CRITERIA (hauler_table (vm_mission i) (vm_plan i) r d (pe_evidence fb)
          (list_all (\<lambda>q. in_mission_scope (vm_mission i) (pe_evidence q)) (vm_evidence i)) f)) = Inr asserted"
    unfolding hauler_evaluate_def Let_def clean by (auto simp: result_simps neq_Nil_conv split: list.split_asm)
  show thesis by (rule that[OF h(1,3), of "pe_evidence fb"])
    (use hauler_assertions_Inr[OF hauler_table_length[symmetric] h(4)] in simp)
qed

lemma hauler_chain_Inr:
  assumes "hauler_chain env i = Inr (c, r, d, x)"
  shows "pl_actions (vm_plan i) = [ReplaceScheduledHaulerAccessRoutine r d]" "mi_constraints (vm_mission i) = HaulerConstraint c"
    "vm_operations i = [x]"
  using assms
  by (auto simp: hauler_chain_def Let_def split: if_split_asm mission_constraint.split_asm list.split_asm plan_action.split_asm
      bool.split_asm)

lemma hauler_findings_Inr:
  assumes "hauler_findings_of env m p c r d x rs = Inr f"
  shows "hf_identity f = Some e \<Longrightarrow> e \<in> pe_evidence ` set rs \<and> arrival_of_tag (ha_authorizedIdentityTagId c) (ev_body e) \<and>
      withinLocalWindow (en_zones env) (ev_observedAt e) (hl_timezone d) (ha_accessWindowStart c) (ha_accessWindowEnd c) = Inr True"
    and "hf_unlockInsideWindow f \<Longrightarrow> \<exists>q u i. hf_unlock f = Some u \<and> q \<in> set rs \<and> pe_evidence q = u \<and> hf_identity f = Some i \<and>
      is_command_of_kind KUnlock (ev_body u) \<and> cause_of (ev_body u) = Some (ev_id i) \<and>
      withinLocalWindow (en_zones env) (ev_observedAt u) (hl_timezone d) (ha_accessWindowStart c) (ha_accessWindowEnd c) = Inr True"
    and "hf_foreignUnlock f = None \<Longrightarrow> q \<in> set rs \<Longrightarrow> is_command_of_kind KUnlock (ev_body (pe_evidence q)) \<Longrightarrow>
      \<exists>u. deriveGatewayCommandId (hp_sha (en_hash env)) (op_id x) HAULER_UNLOCK_KEY = Inr u \<and> vouched_by_command (Some u) q"
    and "hf_relock f = Some l \<Longrightarrow> l \<in> pe_evidence ` set rs \<and> is_command_of_kind KLockedDesiredState (ev_body l)"
proof -
  from assms obtain unlockId relockId where k:
    "find_res (\<lambda>e. if arrival_of_tag (ha_authorizedIdentityTagId c) (ev_body e)
       then withinLocalWindow (en_zones env) (ev_observedAt e) (hl_timezone d) (ha_accessWindowStart c) (ha_accessWindowEnd c)
       else Inr False) (List.map pe_evidence rs) = Inr (hf_identity f)"
    "deriveGatewayCommandId (hp_sha (en_hash env)) (op_id x) HAULER_UNLOCK_KEY = Inr unlockId"
    "hf_unlock f = map_option pe_evidence (find (\<lambda>q. command_of KUnlock unlockId q \<and>
       (case hf_identity f of None \<Rightarrow> False | Some e \<Rightarrow> cause_of (ev_body (pe_evidence q)) = Some (ev_id e))) rs)"
    "(case hf_unlock f of None \<Rightarrow> Inr False | Some u \<Rightarrow>
       withinLocalWindow (en_zones env) (ev_observedAt u) (hl_timezone d) (ha_accessWindowStart c) (ha_accessWindowEnd c)) =
       Inr (hf_unlockInsideWindow f)"
    "hf_relock f = map_option pe_evidence (find (command_of KLockedDesiredState relockId) rs)"
    "hf_foreignUnlock f = map_option pe_evidence (find (\<lambda>q. is_command_of_kind KUnlock (ev_body (pe_evidence q)) \<and>
              \<not> vouched_by_command (Some unlockId) q) rs)"
    by (auto simp: hauler_findings_of_def Let_def result_simps)
  show "hf_identity f = Some e \<Longrightarrow> e \<in> pe_evidence ` set rs \<and> arrival_of_tag (ha_authorizedIdentityTagId c) (ev_body e) \<and>
      withinLocalWindow (en_zones env) (ev_observedAt e) (hl_timezone d) (ha_accessWindowStart c) (ha_accessWindowEnd c) = Inr True"
    using k(1) by (auto dest: find_res_Some split: if_split_asm)
  show "\<exists>q u i. hf_unlock f = Some u \<and> q \<in> set rs \<and> pe_evidence q = u \<and> hf_identity f = Some i \<and>
      is_command_of_kind KUnlock (ev_body u) \<and> cause_of (ev_body u) = Some (ev_id i) \<and>
      withinLocalWindow (en_zones env) (ev_observedAt u) (hl_timezone d) (ha_accessWindowStart c) (ha_accessWindowEnd c) = Inr True"
    if "hf_unlockInsideWindow f"
  proof -
    from that k(4) obtain u where u: "hf_unlock f = Some u" "withinLocalWindow (en_zones env) (ev_observedAt u) (hl_timezone d)
        (ha_accessWindowStart c) (ha_accessWindowEnd c) = Inr True" by (cases "hf_unlock f") auto
    from u(1) k(3) obtain q where "pe_evidence q = u" "q \<in> set rs" "command_of KUnlock unlockId q"
      "case hf_identity f of None \<Rightarrow> False | Some e \<Rightarrow> cause_of (ev_body (pe_evidence q)) = Some (ev_id e)"
      by (auto dest: find_Some_in)
    with u show ?thesis by (auto simp: command_of_def split: option.split_asm)
  qed
  show "\<exists>u. deriveGatewayCommandId (hp_sha (en_hash env)) (op_id x) HAULER_UNLOCK_KEY = Inr u \<and> vouched_by_command (Some u) q"
    if "hf_foreignUnlock f = None" "q \<in> set rs" "is_command_of_kind KUnlock (ev_body (pe_evidence q))"
    using that k(2,6) by (auto simp: find_None_iff_ball)
  show "hf_relock f = Some l \<Longrightarrow> l \<in> pe_evidence ` set rs \<and> is_command_of_kind KLockedDesiredState (ev_body l)"
    using k(5) by (auto simp: command_of_def dest: find_Some_in)
qed

section \<open>Properties\<close>

text \<open> C31. A hauler verification that passes has found, in evidence that all belongs to the mission, an arrival of the
  authorized tag inside the access window, an unlock inside the window that it caused, and a later lock of the same
  device; and every unlock in evidence was reported under the one command that the approved operation derives.\<close>

theorem passed_hauler_verifications_are_sound:
  assumes "hauler_evaluate env i = Inr asserted" "list_all va_passed asserted"
  shows "\<exists>c r d x. pl_actions (vm_plan i) = [ReplaceScheduledHaulerAccessRoutine r d] \<and> mi_constraints (vm_mission i) = HaulerConstraint c \<and>
    vm_operations i = [x] \<and>
    (\<forall>q\<in>set (vm_evidence i). in_mission_scope (vm_mission i) (pe_evidence q) \<and>
       (is_command_of_kind KUnlock (ev_body (pe_evidence q)) \<longrightarrow>
          (\<exists>u. deriveGatewayCommandId (hp_sha (en_hash env)) (op_id x) HAULER_UNLOCK_KEY = Inr u \<and> vouched_by_command (Some u) q))) \<and>
    (\<exists>a\<in>pe_evidence ` set (vm_evidence i). \<exists>u\<in>pe_evidence ` set (vm_evidence i). \<exists>l\<in>pe_evidence ` set (vm_evidence i).
       arrival_of_tag (ha_authorizedIdentityTagId c) (ev_body a) \<and>
       is_command_of_kind KUnlock (ev_body u) \<and> cause_of (ev_body u) = Some (ev_id a) \<and>
       (\<forall>e\<in>{a, u}. withinLocalWindow (en_zones env) (ev_observedAt e) (hl_timezone d)
          (ha_accessWindowStart c) (ha_accessWindowEnd c) = Inr True) \<and>
       is_command_of_kind KLockedDesiredState (ev_body l) \<and> command_device (ev_body u) = command_device (ev_body l) \<and>
       ev_observedAt u \<le> ev_observedAt l)"
  using assms(1)
proof (rule hauler_evaluate_Inr)
  fix c r d x f fb
  let ?inside = "list_all (\<lambda>q. in_mission_scope (vm_mission i) (pe_evidence q)) (vm_evidence i)"
  assume chain: "hauler_chain env i = Inr (c, r, d, x)"
    and found: "hauler_findings_of env (vm_mission i) (vm_plan i) c r d x
       (filter (\<lambda>q. in_mission_scope (vm_mission i) (pe_evidence q)) (vm_evidence i)) = Inr f"
    and verdict: "list_all va_passed asserted \<longleftrightarrow> (\<forall>(b, passed, support, message)\<in>set (hauler_table (vm_mission i) (vm_plan i)
       r d fb ?inside f). passed)"
  from verdict assms(2) have table: "?inside" "hf_foreignUnlock f = None" "hf_unlockInsideWindow f" "hauler_relocked f"
    by (simp_all add: hauler_table_def Let_def)
  then have "filter (\<lambda>q. in_mission_scope (vm_mission i) (pe_evidence q)) (vm_evidence i) = vm_evidence i"
    by (simp add: list_all_iff)
  with found have f: "hauler_findings_of env (vm_mission i) (vm_plan i) c r d x (vm_evidence i) = Inr f" by simp
  obtain u a where u: "hf_unlock f = Some u" "u \<in> pe_evidence ` set (vm_evidence i)" "hf_identity f = Some a"
      "is_command_of_kind KUnlock (ev_body u)" "cause_of (ev_body u) = Some (ev_id a)"
      "withinLocalWindow (en_zones env) (ev_observedAt u) (hl_timezone d) (ha_accessWindowStart c) (ha_accessWindowEnd c) = Inr True"
    using hauler_findings_Inr(2)[OF f table(3)] by blast
  obtain l where l: "hf_relock f = Some l" "command_device (ev_body u) = command_device (ev_body l)" "ev_observedAt u \<le> ev_observedAt l"
    using table(4) u(1) by (auto simp: hauler_relocked_def split: option.split_asm)
  have chained: "pl_actions (vm_plan i) = [ReplaceScheduledHaulerAccessRoutine r d]" "mi_constraints (vm_mission i) = HaulerConstraint c"
      "vm_operations i = [x]" using chain by (rule hauler_chain_Inr)+
  show ?thesis
    using chained table(1) hauler_findings_Inr(3)[OF f table(2)] hauler_findings_Inr(1)[OF f u(3)] u hauler_findings_Inr(4)[OF f l(1)] l
    unfolding list_all_iff by blast
qed

section \<open>Witnesses\<close>

definition ex_hauler_limits :: hauler_constraint where
  "ex_hauler_limits = \<lparr> ha_accessWindowStart = ''05:00'', ha_accessWindowEnd = ''07:30'',
     ha_authorizedIdentityTagId = ''tag_aaaaaaaa'', ha_serviceHatchOnly = True,
     ha_residentialHatchMustRemainLocked = True, ha_finalServiceHatchState = ''locked'' \<rparr>"

definition ex_hauler_routine :: hauler_definition where
  "ex_hauler_routine = \<lparr> hl_name = ''Hauler'', hl_windowStart = ''05:00'', hl_windowEnd = ''07:30'', hl_timezone = ''UTC'',
     hl_authorizedIdentityTagId = ''tag_aaaaaaaa'', hl_grantSeconds = 60, hl_requireVerifiedIdentity = True,
     hl_compartment = ''service_hatch'', hl_lockAtWindowEnd = True, hl_serviceHatchOnly = True,
     hl_residentialHatchMustRemainLocked = True, hl_finalServiceHatchState = ''locked'',
     hl_hardInvariantIds = [VerifiedIdentityRequiredForUnlock], hl_projectedBatteryUse = 1 \<rparr>"

definition ex_hauler_evidence :: "persisted_evidence list" where
  "ex_hauler_evidence =
     [ex_sensed ''rrrrrrrr'' 40 (RoutineState ''rtn_bbbbbbbb'' ''rtv_bbbbbbbb'' True (Some ''pln_aaaaaaaa'') (Some ex_digest))
        (ApplicationReceipt ''routine.activation.commit'' 1 [] True),
      ex_sensed ''ssssssss'' 40 (RoutineState ''rtn_aaaaaaaa'' ''rtv_aaaaaaaa'' False (Some ''pln_aaaaaaaa'') (Some ex_digest))
        (ApplicationReceipt ''routine.activation.deactivate-protected'' 1 [] True),
      ex_sensed ''tttttttt'' 40 (TenantAccessAudit ''org_aaaaaaaa'' True (Some ''op_aaaaaaaa''))
        (ApplicationReceipt ''routine.activation.tenant-binding'' 1 [] True),
      ex_sensed ''uuuuuuuu'' 18000000 (IdentityArrival ''tag_uuuuuuuu'' False)
        (IdentityTelemetryReceipt ''idt_uuuuuuuu'' ''tag_uuuuuuuu'' True True None),
      ex_sensed ''vvvvvvvv'' 18060000 (IdentityArrival ''tag_aaaaaaaa'' True)
        (IdentityTelemetryReceipt ''idt_vvvvvvvv'' ''tag_aaaaaaaa'' True True None),
      ex_sensed ''oooooooo'' 21660000 (DeviceCommand ''dev_aaaaaaaa'' KUnlock (Some ''evd_vvvvvvvv'')) (ex_reported ''gcmd_uuuuuuuk''),
      ex_sensed ''llllllll'' 86400000 (DeviceCommand ''dev_aaaaaaaa'' KLockedDesiredState (Some ''evd_oooooooo''))
        (ex_reported ''gcmd_rrrrrrrk'')]"

definition ex_hauler_material :: verification_material where
  "ex_hauler_material = \<lparr> vm_mission = ex_mission\<lparr> mi_programKind := Some ScheduledHaulerAccess,
       mi_constraints := HaulerConstraint ex_hauler_limits, mi_state := mstate MRunning PhVerify \<rparr>,
     vm_plan = ex_plan\<lparr> pl_constraints := HaulerConstraint ex_hauler_limits,
       pl_actions := [ReplaceScheduledHaulerAccessRoutine ex_replacement ex_hauler_routine] \<rparr>,
     vm_approval = ex_approval, vm_operations = [ex_committed], vm_contextReceipt = ex_context_receipt,
     vm_executions = [], vm_evidence = ex_hauler_evidence \<rparr>"

lemma ex_hauler_verdict:
  "case hauler_evaluate ex_planner_env ex_hauler_material of Inl _ \<Rightarrow> False
   | Inr asserted \<Rightarrow> list_all va_passed asserted \<and>
       list_ex (\<lambda>a. vp_body (va_predicate a) = UnlockAfterArrivalWithin ''evd_vvvvvvvv'' 5) asserted \<and>
       list_ex (\<lambda>a. vp_body (va_predicate a) = LockAfterUnlockElapsed 60 5) asserted"
  by code_simp

theorem passed_hauler_verifications_are_sound_witness:
  "\<exists>a\<in>pe_evidence ` set ex_hauler_evidence. \<exists>u\<in>pe_evidence ` set ex_hauler_evidence.
     is_command_of_kind KUnlock (ev_body u) \<and> cause_of (ev_body u) = Some (ev_id a)"
proof -
  obtain asserted where "hauler_evaluate ex_planner_env ex_hauler_material = Inr asserted" "list_all va_passed asserted"
    using ex_hauler_verdict by (auto split: sum.split_asm)
  from passed_hauler_verifications_are_sound[OF this]
  show ?thesis unfolding ex_hauler_material_def by (simp only: verification_material.simps) blast
qed

text \<open>
  The delays that the predicates of a hauler verification name are not checked: an unlock one hour after the arrival
  passes as an unlock within five seconds, and a lock eighteen hours later as a relock after sixty seconds.\<close>

theorem hauler_delays_are_unchecked:
  "\<exists>asserted a u l. hauler_evaluate ex_planner_env ex_hauler_material = Inr asserted \<and> list_all va_passed asserted \<and>
     {a, u, l} \<subseteq> pe_evidence ` set ex_hauler_evidence \<and>
     UnlockAfterArrivalWithin (ev_id a) 5 \<in> (\<lambda>x. vp_body (va_predicate x)) ` set asserted \<and>
     LockAfterUnlockElapsed 60 5 \<in> (\<lambda>x. vp_body (va_predicate x)) ` set asserted \<and>
     cause_of (ev_body u) = Some (ev_id a) \<and> ev_observedAt u - ev_observedAt a = 3600 * 1000 \<and>
     cause_of (ev_body l) = Some (ev_id u) \<and> ev_observedAt l - ev_observedAt u = 64740 * 1000"
proof -
  obtain asserted where e: "hauler_evaluate ex_planner_env ex_hauler_material = Inr asserted" "list_all va_passed asserted"
    "list_ex (\<lambda>a. vp_body (va_predicate a) = UnlockAfterArrivalWithin ''evd_vvvvvvvv'' 5) asserted"
    "list_ex (\<lambda>a. vp_body (va_predicate a) = LockAfterUnlockElapsed 60 5) asserted"
    using ex_hauler_verdict by (auto split: sum.split_asm)
  let ?e = "\<lambda>n. pe_evidence (ex_hauler_evidence ! n)"
  have "{?e 4, ?e 5, ?e 6} \<subseteq> pe_evidence ` set ex_hauler_evidence" "ev_id (?e 4) = ''evd_vvvvvvvv''"
    "cause_of (ev_body (?e 5)) = Some (ev_id (?e 4))" "ev_observedAt (?e 5) - ev_observedAt (?e 4) = 3600 * 1000"
    "cause_of (ev_body (?e 6)) = Some (ev_id (?e 5))" "ev_observedAt (?e 6) - ev_observedAt (?e 5) = 64740 * 1000"
    by (simp_all add: ex_hauler_evidence_def ex_sensed_def)
  moreover have "UnlockAfterArrivalWithin (ev_id (?e 4)) 5 \<in> (\<lambda>x. vp_body (va_predicate x)) ` set asserted"
    "LockAfterUnlockElapsed 60 5 \<in> (\<lambda>x. vp_body (va_predicate x)) ` set asserted"
    using e(3,4) by (auto simp: list_ex_iff \<open>ev_id (?e 4) = ''evd_vvvvvvvv''\<close> intro: rev_image_eqI)
  ultimately show ?thesis using e(1,2) by blast
qed

end
