(* ===== verification/Verification_Service.thy ===== *)
theory Verification_Service
  imports Hauler_Verifier Callback_Service
begin

text \<open>
  The verification job (\<open>application/src/verification-service.ts\<close>): a snapshot of the
  mission's material, its evaluation by the verifier, and the durable verification with
  the transition it decides.  Snapshot and commit are separate transactions.  Product
  evidence goes to the observability port, whose default keeps no rows; the reads that
  precede it and can fail are kept, except those of the caretaker run.
\<close>

section \<open>Repositories\<close>

text \<open>Rows in \<open>ORDER BY\<close> order; identifiers compare by their bytes.\<close>

definition operations_listForMission :: "tenant \<Rightarrow> string \<Rightarrow> operation list" where
  "operations_listForMission s m = sort_key op_createdAt (filter (\<lambda>x. op_missionId x = m) (tn_operations s))"

definition executions_listForMission :: "tenant \<Rightarrow> string \<Rightarrow> err + stored_execution list" where
  "executions_listForMission s m = map_res hydrateExecution
     (sort_key (\<lambda>x. ex_startedAt (sx_execution x)) (filter (\<lambda>x. ex_missionId (sx_execution x) = m) (tn_executions s)))"

definition evidence_listForMission :: "env \<Rightarrow> tenant \<Rightarrow> string \<Rightarrow> err + persisted_evidence list" where
  "evidence_listForMission env s m = (let rs = sort_key (\<lambda>r. (ev_observedAt (pe_evidence r), ev_id (pe_evidence r)))
       (filter (\<lambda>r. ev_missionId (pe_evidence r) = m) (tn_evidence s)) in
     if list_all (persisted_evidence_ok (en_obsHash env)) rs then Inr rs else Inl (ZodError ''PersistedEvidenceRecord''))"

definition findLatestForMissionAtOrBefore :: "tenant \<Rightarrow> string \<Rightarrow> instant \<Rightarrow> context_receipt option" where
  "findLatestForMissionAtOrBefore s m t = (case rev (sort_key (\<lambda>r. (cr_createdAt r, cr_id r))
       (filter (\<lambda>r. cr_missionId r = m \<and> cr_createdAt r \<le> t) (tn_contextReceipts s))) of
     [] \<Rightarrow> None | r # _ \<Rightarrow> Some r)"

definition contextReceipts_insert :: "scope \<Rightarrow> context_receipt \<Rightarrow> tenant \<Rightarrow> err + tenant" where
  "contextReceipts_insert sc r s =
     (if \<not> context_receipt_ok r then Inl (ZodError ''ContextReceipt'')
      else sbind (assertTenant s (cr_organizationId r)) (\<lambda>_.
      sbind (assertMissionMutation sc (cr_missionId r)) (\<lambda>_.
      if is_none (mission_get s (cr_missionId r)) \<or> list_ex (\<lambda>x. cr_id x = cr_id r) (tn_contextReceipts s)
        then Inl (DatabaseConflictError ''context_receipts'')
      else Inr (s\<lparr> tn_contextReceipts := tn_contextReceipts s @ [r] \<rparr>))))"

definition verifications_findForMission :: "tenant \<Rightarrow> string \<Rightarrow> verification option" where
  "verifications_findForMission s m = find (\<lambda>v. ve_missionId v = m) (tn_verifications s)"

text \<open>The table is append-only, with one verification per mission (\<open>verifications_mission_unique\<close>).\<close>

definition verifications_insert :: "scope \<Rightarrow> verification \<Rightarrow> tenant \<Rightarrow> err + tenant" where
  "verifications_insert sc v s =
     (if \<not> verification_ok v then Inl (ZodError ''Verification'')
      else sbind (assertTenant s (ve_organizationId v)) (\<lambda>_.
      sbind (assertMissionMutation sc (ve_missionId v)) (\<lambda>_.
      if is_none (mission_get s (ve_missionId v)) then Inl (DatabaseConflictError ''verifications_mission_tenant_fk'')
      else if list_ex (\<lambda>x. ve_id x = ve_id v \<or> ve_missionId x = ve_missionId v) (tn_verifications s)
        then Inl (DatabaseConflictError ''verifications_mission_unique'')
      else Inr (s\<lparr> tn_verifications := tn_verifications s @ [v] \<rparr>))))"

section \<open>The job\<close>

datatype verification_snapshot =
    ExistingVerification verification mission
  | PendingVerification verification_material

text \<open>The first transaction reads; \<open>#enqueueEvidence\<close> keeps no rows.\<close>

definition take_snapshot :: "env \<Rightarrow> string \<Rightarrow> string \<Rightarrow> tenant \<Rightarrow> err + verification_snapshot" where
  "take_snapshot env org missionId s =
     sbind (required (mission_get s missionId) (NotFoundError ''Mission'')) (\<lambda>m.
     sbind (assertSameTenant org [mi_organizationId m]) (\<lambda>_.
     case verifications_findForMission s (mi_id m) of
       Some v \<Rightarrow>
         sbind (required (getLatestForMission s (mi_id m)) (ConflictError ''Verification replay requires its plan'')) (\<lambda>_.
         sbind (executions_listForMission s (mi_id m)) (\<lambda>_. Inr (ExistingVerification v m)))
     | None \<Rightarrow>
         if mi_state m \<noteq> mstate MRunning PhVerify then Inl (ConflictError ''Mission is not at the verifier checkpoint'')
         else (case getLatestForMission s (mi_id m) of
           None \<Rightarrow> Inl (ConflictError ''Verification requires the approved plan'')
         | Some p \<Rightarrow>
             if pl_status p \<noteq> PlanApproved then Inl (ConflictError ''Verification requires the approved plan'')
             else sbind (required (findForPlan s (pl_id p)) (ConflictError ''Verification requires the exact approval'')) (\<lambda>a.
             sbind (required (findLatestForMissionAtOrBefore s (mi_id m) (pl_createdAt p))
               (ConflictError ''Verification requires the context receipt used to create the plan'')) (\<lambda>r.
             sbind (executions_listForMission s (mi_id m)) (\<lambda>xs.
             sbind (evidence_listForMission env s (mi_id m)) (\<lambda>es.
               Inr (PendingVerification \<lparr> vm_mission = m, vm_plan = p, vm_approval = a,
                 vm_operations = operations_listForMission s (mi_id m), vm_contextReceipt = r, vm_executions = xs,
                 vm_evidence = es \<rparr>))))))))"

definition new_verification ::
  "env \<Rightarrow> string \<Rightarrow> string \<Rightarrow> string \<Rightarrow> verification_assertion list \<Rightarrow> tenant \<Rightarrow> verification" where
  "new_verification env org missionId planHash asserted s = \<lparr> ve_id = fresh_id env IdVerification s,
     ve_organizationId = org, ve_missionId = missionId, ve_source = ''application_code'',
     ve_status = (if list_all va_passed asserted then VerificationDidPass else VerificationDidFail),
     ve_planHash = planHash, ve_assertions = asserted, ve_completedAt = read_clock env (bump s) \<rparr>"

text \<open>The second transaction, on whatever state the store is in by then.\<close>

definition commit_verification :: "env \<Rightarrow> string \<Rightarrow> nat \<Rightarrow> verification \<Rightarrow> tenant \<Rightarrow> err + (mission \<times> tenant)" where
  "commit_verification env missionId version v s =
     sbind (required (mission_get s missionId) (NotFoundError ''Mission'')) (\<lambda>current.
     if mi_version current \<noteq> version then Inl (ConflictError ''Mission changed while verification was running'')
     else sbind (verifications_insert Unfenced v s) (\<lambda>s1.
     sbind (persistMissionTransition env Unfenced current (mi_version current)
       (if ve_status v = VerificationDidPass then VerificationPassed else InterventionRequired) s1) (\<lambda>(m', s2).
     sbind (enqueueMissionResume env Unfenced m' s2) (\<lambda>s3. Inr (m', s3)))))"

record verification_run_result =
  vn_verification :: verification
  vn_mission :: mission
  vn_replayed :: bool

text \<open>
  The whole job; \<open>others\<close> is what other transactions do to the store while the verifier
  runs, and \<open>verifier\<close> the port that composition binds to the program registry.
\<close>

definition run_verification ::
  "env \<Rightarrow> (verification_material \<Rightarrow> err + verification_assertion list) \<Rightarrow> (tenant \<Rightarrow> tenant) \<Rightarrow> string \<Rightarrow> string \<Rightarrow> tenant \<Rightarrow>
   err + (verification_run_result \<times> tenant)" where
  "run_verification env verifier others org missionId s =
     (if \<not> outbox_payload_ok (MissionReference org missionId) then Inl (ZodError ''MissionReference'')
      else sbind (assertTenant s org) (\<lambda>_.
      sbind (take_snapshot env org missionId s) (\<lambda>snapshot. case snapshot of
        ExistingVerification v m \<Rightarrow> Inr (\<lparr> vn_verification = v, vn_mission = m, vn_replayed = True \<rparr>, s)
      | PendingVerification i \<Rightarrow>
          sbind (verifier i) (\<lambda>asserted.
          let v = new_verification env org missionId (pl_hash (vm_plan i)) asserted s in
          if \<not> verification_ok v then Inl (ZodError ''Verification'')
          else sbind (commit_verification env missionId (mi_version (vm_mission i)) v (others (tick (bump s)))) (\<lambda>(m', s').
            Inr (\<lparr> vn_verification = v, vn_mission = m', vn_replayed = False \<rparr>, s'))))))"

section \<open>Lemmas\<close>

lemma in_evidence_list:
  "evidence_listForMission env s m = Inr rs \<Longrightarrow> set rs = {r \<in> set (tn_evidence s). ev_missionId (pe_evidence r) = m}"
  by (auto simp: evidence_listForMission_def Let_def split: if_split_asm)

lemma mission_get_named: "mission_get s i = Some m \<Longrightarrow> mi_id m = i"
  by (auto simp: mission_get_def dest: lookup_by_SomeD)

lemma take_snapshot_pending:
  assumes "take_snapshot env org missionId s = Inr (PendingVerification i)"
  shows "verifications_findForMission s missionId = None" "mission_get s missionId = Some (vm_mission i)"
    "mi_id (vm_mission i) = missionId" "mi_state (vm_mission i) = mstate MRunning PhVerify"
    "evidence_listForMission env s missionId = Inr (vm_evidence i)"
  using assms
  by (auto simp: take_snapshot_def result_simps dest: mission_get_named split: option.split_asm if_split_asm)

lemma take_snapshot_existing:
  assumes "take_snapshot env org missionId s = Inr (ExistingVerification v m)"
  shows "verifications_findForMission s missionId = Some v" "mission_get s missionId = Some m"
  using assms
  by (auto simp: take_snapshot_def result_simps dest: mission_get_named split: option.split_asm if_split_asm)

lemma take_snapshot_plan:
  assumes "take_snapshot env org missionId s = Inr (PendingVerification i)" "getLatestForMission s missionId = Some p"
  shows "vm_plan i = p"
  using assms
  by (auto simp: take_snapshot_def result_simps dest: mission_get_named split: option.split_asm if_split_asm)

lemma homecoming_evaluates:
  assumes "registry_evaluate env js timing i = Inr asserted" "pl_actions (vm_plan i) = [ReplaceHomecomingRoutine r d]"
  shows "evaluateApprovedPlanVerification env js timing i = Inr asserted"
  using assms
  by (auto simp: registry_evaluate_def assertMissionPlanBinding_def forPlan_def programForAction_def result_simps
      split: program_kind.split_asm if_split_asm)

lemma verifications_insert_Inr:
  assumes "verifications_insert sc v s = Inr s'"
  shows "s' = s\<lparr> tn_verifications := tn_verifications s @ [v] \<rparr>" "verification_ok v"
    "verifications_findForMission s (ve_missionId v) = None" "verifications_findForMission s' (ve_missionId v) = Some v"
proof -
  show s': "s' = s\<lparr> tn_verifications := tn_verifications s @ [v] \<rparr>" and "verification_ok v"
    and none: "verifications_findForMission s (ve_missionId v) = None"
    using assms by (auto simp: verifications_insert_def result_simps verifications_findForMission_def find_None_iff_ball
        list_ex_iff split: if_split_asm)
  show "verifications_findForMission s' (ve_missionId v) = Some v"
    using none by (simp add: s' verifications_findForMission_def find_append)
qed

lemma commit_verification_Inr:
  assumes "commit_verification env missionId version v s = Inr (m', s')"
  obtains current s2 where "mission_get s missionId = Some current" "mi_version current = version"
    "verifications_insert Unfenced v s = Inr (s\<lparr> tn_verifications := tn_verifications s @ [v] \<rparr>)"
    "persistMissionTransition env Unfenced current version
       (if ve_status v = VerificationDidPass then VerificationPassed else InterventionRequired)
       (s\<lparr> tn_verifications := tn_verifications s @ [v] \<rparr>) = Inr (m', s2)"
    "enqueueMissionResume env Unfenced m' s2 = Inr s'"
  using assms
  by (auto simp: commit_verification_def result_simps dest: verifications_insert_Inr(1) split: if_split_asm)

lemma run_verification_Inr:
  assumes "run_verification env verifier others org missionId s = Inr (r, s')"
  obtains (replayed) "take_snapshot env org missionId s = Inr (ExistingVerification (vn_verification r) (vn_mission r))"
      "vn_replayed r" "s' = s"
    | (verified) i asserted where "take_snapshot env org missionId s = Inr (PendingVerification i)" "verifier i = Inr asserted"
      "vn_verification r = new_verification env org missionId (pl_hash (vm_plan i)) asserted s" "\<not> vn_replayed r"
      "verification_ok (vn_verification r)"
      "commit_verification env missionId (mi_version (vm_mission i)) (vn_verification r) (others (tick (bump s))) = Inr (vn_mission r, s')"
proof -
  from assms obtain snapshot where org: "tn_org s = org" and sn: "take_snapshot env org missionId s = Inr snapshot"
    by (auto simp: run_verification_def result_simps assertTenant_def split: if_split_asm)
  show thesis
  proof (cases snapshot)
    case (ExistingVerification v m)
    with assms sn org have "r = \<lparr> vn_verification = v, vn_mission = m, vn_replayed = True \<rparr> \<and> s' = s"
      by (auto simp: run_verification_def result_simps split: if_split_asm)
    with sn ExistingVerification show thesis by (intro replayed) simp_all
  next
    case (PendingVerification i)
    let ?v = "\<lambda>asserted. new_verification env org missionId (pl_hash (vm_plan i)) asserted s"
    from assms sn org PendingVerification obtain asserted m where k: "verifier i = Inr asserted" "verification_ok (?v asserted)"
      "commit_verification env missionId (mi_version (vm_mission i)) (?v asserted) (others (tick (bump s))) = Inr (m, s')"
      "r = \<lparr> vn_verification = ?v asserted, vn_mission = m, vn_replayed = False \<rparr>"
      by (auto simp: run_verification_def result_simps Let_def split: if_split_asm)
    with sn PendingVerification show thesis by (intro verified) simp_all
  qed
qed

text \<open>The two events of a verdict lead from the verifier's checkpoint to where the verdict says.\<close>

lemma verdict_transition:
  assumes "resolveMissionTransition st (if passed then VerificationPassed else InterventionRequired) = Inr st'"
  shows "st = mstate MRunning PhVerify \<and> st' = (if passed then mstate MSucceeded PhVerify else mstate MWaitingForUser PhVerify)"
proof -
  let ?e = "if passed then VerificationPassed else InterventionRequired"
  from assms obtain t where t: "find (\<lambda>t. tr_from t = st \<and> tr_event t = ?e) MISSION_TRANSITIONS = Some t" and st': "st' = tr_to t"
    by (auto simp: resolveMissionTransition_def split: if_split_asm option.split_asm)
  have "list_all (\<lambda>t. (tr_event t = VerificationPassed \<longrightarrow> tr_from t = mstate MRunning PhVerify \<and> tr_to t = mstate MSucceeded PhVerify) \<and>
     (tr_event t = InterventionRequired \<longrightarrow> tr_from t = mstate MRunning PhVerify \<and> tr_to t = mstate MWaitingForUser PhVerify))
    MISSION_TRANSITIONS" by code_simp
  with find_Some_in[OF t] show ?thesis by (cases passed) (auto simp: list_all_iff st')
qed

text \<open>What a committed verification leaves.\<close>

lemma committed_verification:
  assumes "commit_verification env missionId version v s = Inr (m', s')" "ve_missionId v = missionId"
  shows "verifications_findForMission s' missionId = Some v \<and>
    (\<exists>m. mission_get s' missionId = Some m \<and> mi_state m = mi_state m' \<and> mi_state m' =
       (if ve_status v = VerificationDidPass then mstate MSucceeded PhVerify else mstate MWaitingForUser PhVerify)) \<and>
    (\<exists>x\<in>set (tn_outbox s'). ob_topic x = TopicMissionResume \<and> ob_payload x = MissionReference (mi_organizationId m') missionId)"
  using assms(1)
proof (rule commit_verification_Inr)
  fix current s2
  let ?s1 = "s\<lparr> tn_verifications := tn_verifications s @ [v] \<rparr>"
  assume current: "mission_get s missionId = Some current" "mi_version current = version"
    and ins: "verifications_insert Unfenced v s = Inr ?s1"
    and moved: "persistMissionTransition env Unfenced current version
       (if ve_status v = VerificationDidPass then VerificationPassed else InterventionRequired) ?s1 = Inr (m', s2)"
    and resumed: "enqueueMissionResume env Unfenced m' s2 = Inr s'"
  have id: "mi_id current = missionId" using current(1) by (rule mission_get_named)
  from moved have m': "mi_id m' = missionId" "mi_state m' =
      (if ve_status v = VerificationDidPass then mstate MSucceeded PhVerify else mstate MWaitingForUser PhVerify)"
    by (elim persistMissionTransition_Inr; use verdict_transition id in fastforce)+
  obtain x where x: "mission_get s2 missionId = Some x" "mi_state x = mi_state m'"
    using persist_stored[OF moved] id by blast
  have "tn_verifications s2 = tn_verifications ?s1" using persist_frame[OF moved] by simp
  then have "verifications_findForMission s2 missionId = Some v"
    using verifications_insert_Inr(4)[OF ins] assms(2) by (simp add: verifications_findForMission_def)
  moreover have "tn_verifications s' = tn_verifications s2" "tn_missions s' = tn_missions s2" using resume_frame[OF resumed] by simp_all
  moreover from resumed obtain y where "y \<in> set (tn_outbox s')" "ob_topic y = TopicMissionResume"
      "ob_payload y = MissionReference (mi_organizationId m') (mi_id m')"
    by (rule enqueueMissionResume_Inr) auto
  ultimately show ?thesis using x m' by (auto simp: verifications_findForMission_def mission_get_def)
qed

section \<open>Properties\<close>

text \<open> C32. The verifier decides the mission: a verification job that did not replay has stored exactly the assertions the
  verifier returned for the snapshot, the mission has succeeded if all of them passed and waits for its user otherwise,
  and its resumption is queued; whatever other transactions did while the verifier ran.\<close>

theorem verdicts_decide_missions:
  assumes "run_verification env verifier others org missionId s = Inr (r, s')" "\<not> vn_replayed r"
  shows "\<exists>i asserted m. take_snapshot env org missionId s = Inr (PendingVerification i) \<and> verifier i = Inr asserted \<and>
    verifications_findForMission s' missionId = Some (vn_verification r) \<and> ve_assertions (vn_verification r) = asserted \<and>
    mission_get s' missionId = Some m \<and>
    mi_state m = (if list_all va_passed asserted then mstate MSucceeded PhVerify else mstate MWaitingForUser PhVerify) \<and>
    (\<exists>x\<in>set (tn_outbox s'). ob_topic x = TopicMissionResume \<and> (\<exists>org'. ob_payload x = MissionReference org' missionId))"
  using assms(1)
proof (cases rule: run_verification_Inr)
  case (verified i asserted)
  then show ?thesis
    using committed_verification[OF verified(6)] by (fastforce simp: new_verification_def split: if_split_asm)
qed (use assms(2) in simp)

text \<open> C33. A verification is final: once a mission has one, every later verification job returns it and changes nothing,
  no other can be stored, and if it failed no transition makes the mission succeed any more, whatever corrective work
  follows.\<close>

theorem verifications_are_final:
  assumes "verifications_findForMission s missionId = Some v" "distinct (List.map ve_missionId (tn_verifications s))"
  shows "(run_verification env verifier others org missionId s = Inr (r, s') \<longrightarrow>
       vn_verification r = v \<and> vn_replayed r \<and> s' = s) \<and>
    (ve_missionId w = missionId \<longrightarrow> verifications_insert sc w s \<noteq> Inr s') \<and>
    (ve_status v = VerificationDidFail \<longrightarrow> mi_id m = missionId \<longrightarrow> persistMissionTransition env sc m n ev s = Inr (m', s') \<longrightarrow>
       ms_status (mi_state m') \<noteq> MSucceeded)"
proof (intro conjI impI)
  assume "run_verification env verifier others org missionId s = Inr (r, s')"
  then show "vn_verification r = v" "vn_replayed r" "s' = s"
    by (cases rule: run_verification_Inr; use assms(1) take_snapshot_existing(1) take_snapshot_pending(1) in fastforce)+
next
  assume "ve_missionId w = missionId"
  then show "verifications_insert sc w s \<noteq> Inr s'" using assms(1) verifications_insert_Inr(3) by fastforce
next
  assume failed: "ve_status v = VerificationDidFail" and m: "mi_id m = missionId"
    and moved: "persistMissionTransition env sc m n ev s = Inr (m', s')"
  have "\<not> has_passed_verification s missionId"
  proof
    assume "has_passed_verification s missionId"
    then obtain w where "w \<in> set (tn_verifications s)" "ve_missionId w = missionId" "ve_status w = VerificationDidPass"
      by (auto simp: has_passed_verification_def list_ex_iff)
    moreover have "v \<in> set (tn_verifications s)" "ve_missionId v = missionId"
      using assms(1) by (auto simp: verifications_findForMission_def dest: find_Some_in)
    ultimately have "w = v" using assms(2) by (auto simp: distinct_map dest: inj_onD)
    with failed \<open>ve_status w = VerificationDidPass\<close> show False by simp
  qed
  with moved m show "ms_status (mi_state m') \<noteq> MSucceeded" by (elim persistMissionTransition_Inr) auto
qed

text \<open> C34. End to end: when a verification job with the production registry lets a homecoming mission succeed, the mission's
  evidence in the store shows a telemetry-verified arrival, the unlock that it caused in time and the relock after the
  approved seconds, and no unlock in the window of an unverified arrival.\<close>

theorem succeeded_homecomings_were_safe:
  assumes "run_verification env (registry_evaluate env js timing) others org missionId s = Inr (r, s')" "\<not> vn_replayed r"
    and "ve_status (vn_verification r) = VerificationDidPass"
    and "getLatestForMission s missionId = Some p" "pl_actions p = [ReplaceHomecomingRoutine ra d]"
  shows "\<exists>k. LockDesiredState k \<in> set (hd_actions d) \<and>
    (let E = {e \<in> set (tn_evidence s). ev_missionId (pe_evidence e) = missionId} in
      (\<exists>a\<in>E. \<exists>u\<in>E. \<exists>l\<in>E. access_story timing k a u l) \<and>
      (\<forall>u\<in>E. \<forall>a\<in>E. is_command_of_kind KUnlock (ev_body (pe_evidence u)) \<longrightarrow> is_unverified_arrival (ev_body (pe_evidence a)) \<longrightarrow>
         cause_of (ev_body (pe_evidence u)) \<noteq> Some (ev_id (pe_evidence a)) \<and>
         (ev_observedAt (pe_evidence u) < ev_observedAt (pe_evidence a) \<or>
          (\<exists>v\<in>E. is_verified_arrival (ev_body (pe_evidence v)) \<and>
             ev_observedAt (pe_evidence a) < ev_observedAt (pe_evidence v) \<and>
             ev_observedAt (pe_evidence v) \<le> ev_observedAt (pe_evidence u)))))"
  using assms(1)
proof (cases rule: run_verification_Inr)
  case (verified i asserted)
  have passed: "list_all va_passed asserted"
    using assms(3) verified(3) by (simp add: new_verification_def split: if_split_asm)
  have p: "vm_plan i = p" using verified(1) assms(4) by (rule take_snapshot_plan)
  then have "evaluateApprovedPlanVerification env js timing i = Inr asserted"
    using verified(2) assms(5) by (intro homecoming_evaluates[where r = ra and d = d]) simp_all
  from passed_story[OF this passed] show ?thesis
    unfolding in_evidence_list[OF take_snapshot_pending(5)[OF verified(1)], symmetric] Let_def p assms(5) by auto
qed (use assms(2) in simp)

section \<open>Witnesses\<close>

text \<open>The evidence of the example in the order of \<open>listForMission\<close>.\<close>

definition ex_listed_evidence :: "persisted_evidence list" where
  "ex_listed_evidence = (let a = ex_activation_evidence; q = ex_quiet_evidence in
     [a ! 2, a ! 0, a ! 3, a ! 1, q ! 4, ex_unverified_arrival, q ! 5, q ! 6, q ! 7, q ! 8])"

definition ex_verify_tenant :: tenant where
  "ex_verify_tenant = ex_tenant\<lparr> tn_missions := [ex_verify_mission], tn_plans := [ex_verify_plan], tn_approvals := [ex_approval],
     tn_operations := [ex_committed], tn_executions := [ex_observed_stored],
     tn_evidence := ex_unverified_arrival # ex_quiet_evidence, tn_contextReceipts := [ex_context_receipt] \<rparr>"

lemma ex_snapshot_parts:
  "mission_get ex_verify_tenant ''mis_aaaaaaaa'' = Some ex_verify_mission"
  "assertSameTenant ''org_aaaaaaaa'' [mi_organizationId ex_verify_mission] = Inr ()"
  "verifications_findForMission ex_verify_tenant (mi_id ex_verify_mission) = None"
  "mi_state ex_verify_mission = mstate MRunning PhVerify"
  "getLatestForMission ex_verify_tenant (mi_id ex_verify_mission) = Some ex_verify_plan"
  "pl_status ex_verify_plan = PlanApproved"
  "findForPlan ex_verify_tenant (pl_id ex_verify_plan) = Some ex_approval"
  "findLatestForMissionAtOrBefore ex_verify_tenant (mi_id ex_verify_mission) (pl_createdAt ex_verify_plan) = Some ex_context_receipt"
  "operations_listForMission ex_verify_tenant (mi_id ex_verify_mission) = [ex_committed]"
  "executions_listForMission ex_verify_tenant (mi_id ex_verify_mission) = Inr [ex_observed_stored]"
  "evidence_listForMission ex_planner_env ex_verify_tenant (mi_id ex_verify_mission) = Inr ex_listed_evidence"
  by code_simp+

lemma ex_snapshot:
  "take_snapshot ex_planner_env ''org_aaaaaaaa'' ''mis_aaaaaaaa'' ex_verify_tenant = Inr (PendingVerification (ex_material ex_listed_evidence))"
  unfolding take_snapshot_def by (simp add: ex_snapshot_parts ex_material_def)

lemma ex_listed_compiles:
  "compileApprovedPlanVerification ex_planner_env ex_js PRODUCTION_TIMING (ex_material ex_listed_evidence) =
     Inr (ex_compiled ''evd_uuuuuuuu'' ex_listed_evidence)"
  by (rule ex_compiles; code_simp)

lemma ex_listed_verdict:
  "case map_res (\<lambda>p. to_assertion (pe_evidence (hd ex_listed_evidence)) p
       (evaluate_compiled ex_js (ex_compiled ''evd_uuuuuuuu'' ex_listed_evidence) p)) (ex_predicates ''evd_uuuuuuuu'') of
     Inl _ \<Rightarrow> False
   | Inr asserted \<Rightarrow> list_all va_passed asserted \<and>
       (let v = new_verification ex_planner_env ''org_aaaaaaaa'' ''mis_aaaaaaaa'' ex_digest asserted ex_verify_tenant in
        verification_ok v \<and> (case commit_verification ex_planner_env ''mis_aaaaaaaa'' 0 v (tick (bump ex_verify_tenant)) of
          Inl _ \<Rightarrow> False | Inr _ \<Rightarrow> True))"
  by code_simp

lemma ex_verified:
  "\<exists>r s'. run_verification ex_planner_env (registry_evaluate ex_planner_env ex_js PRODUCTION_TIMING) (\<lambda>s. s)
     ''org_aaaaaaaa'' ''mis_aaaaaaaa'' ex_verify_tenant = Inr (r, s') \<and> \<not> vn_replayed r \<and>
     ve_status (vn_verification r) = VerificationDidPass"
proof -
  have "assertMissionPlanBinding ex_verify_mission ex_verify_plan = Inr NightShiftHomecoming" by code_simp
  then have registry: "registry_evaluate ex_planner_env ex_js PRODUCTION_TIMING (ex_material ex_listed_evidence) =
      evaluateApprovedPlanVerification ex_planner_env ex_js PRODUCTION_TIMING (ex_material ex_listed_evidence)"
    by (simp add: registry_evaluate_def ex_material_def)
  have listed: "ex_listed_evidence = hd ex_listed_evidence # tl ex_listed_evidence" by (simp add: ex_listed_evidence_def Let_def)
  note evaluated = ex_evaluates[OF ex_listed_compiles listed refl]
  from ex_listed_verdict obtain asserted m s' where z:
    "evaluateApprovedPlanVerification ex_planner_env ex_js PRODUCTION_TIMING (ex_material ex_listed_evidence) = Inr asserted"
    "list_all va_passed asserted"
    "verification_ok (new_verification ex_planner_env ''org_aaaaaaaa'' ''mis_aaaaaaaa'' ex_digest asserted ex_verify_tenant)"
    "commit_verification ex_planner_env ''mis_aaaaaaaa'' 0
       (new_verification ex_planner_env ''org_aaaaaaaa'' ''mis_aaaaaaaa'' ex_digest asserted ex_verify_tenant)
       (tick (bump ex_verify_tenant)) = Inr (m, s')"
    unfolding evaluated Let_def by (auto split: sum.split_asm)
  have facts: "outbox_payload_ok (MissionReference ''org_aaaaaaaa'' ''mis_aaaaaaaa'')" "tn_org ex_verify_tenant = ''org_aaaaaaaa''"
    "mi_version ex_verify_mission = 0" "pl_hash ex_verify_plan = ex_digest" by code_simp+
  have "run_verification ex_planner_env (registry_evaluate ex_planner_env ex_js PRODUCTION_TIMING) (\<lambda>s. s)
     ''org_aaaaaaaa'' ''mis_aaaaaaaa'' ex_verify_tenant =
     Inr (\<lparr> vn_verification = new_verification ex_planner_env ''org_aaaaaaaa'' ''mis_aaaaaaaa'' ex_digest asserted ex_verify_tenant,
       vn_mission = m, vn_replayed = False \<rparr>, s')"
    unfolding run_verification_def using facts z(3,4)
    by (simp add: assertTenant_def ex_snapshot registry z(1)) (simp add: ex_material_def)
  moreover have "ve_status (new_verification ex_planner_env ''org_aaaaaaaa'' ''mis_aaaaaaaa'' ex_digest asserted ex_verify_tenant) =
      VerificationDidPass" using z(2) by (simp add: new_verification_def)
  ultimately show ?thesis by (metis verification_run_result.select_convs(1,3))
qed

theorem verdicts_decide_missions_witness:
  "\<exists>r s' m. run_verification ex_planner_env (registry_evaluate ex_planner_env ex_js PRODUCTION_TIMING) (\<lambda>s. s)
     ''org_aaaaaaaa'' ''mis_aaaaaaaa'' ex_verify_tenant = Inr (r, s') \<and>
     verifications_findForMission s' ''mis_aaaaaaaa'' = Some (vn_verification r) \<and> mission_get s' ''mis_aaaaaaaa'' = Some m"
proof -
  obtain r s' where "run_verification ex_planner_env (registry_evaluate ex_planner_env ex_js PRODUCTION_TIMING) (\<lambda>s. s)
     ''org_aaaaaaaa'' ''mis_aaaaaaaa'' ex_verify_tenant = Inr (r, s')" "\<not> vn_replayed r" using ex_verified by blast
  with verdicts_decide_missions[OF this] show ?thesis by blast
qed

theorem succeeded_homecomings_were_safe_witness:
  "\<exists>k. let E = {e \<in> set (tn_evidence ex_verify_tenant). ev_missionId (pe_evidence e) = ''mis_aaaaaaaa''} in
     \<exists>a\<in>E. \<exists>u\<in>E. \<exists>l\<in>E. access_story PRODUCTION_TIMING k a u l"
proof -
  obtain r s' where r: "run_verification ex_planner_env (registry_evaluate ex_planner_env ex_js PRODUCTION_TIMING) (\<lambda>s. s)
     ''org_aaaaaaaa'' ''mis_aaaaaaaa'' ex_verify_tenant = Inr (r, s')" "\<not> vn_replayed r"
     "ve_status (vn_verification r) = VerificationDidPass" using ex_verified by blast
  have p: "getLatestForMission ex_verify_tenant ''mis_aaaaaaaa'' = Some ex_verify_plan" by code_simp
  have a: "pl_actions ex_verify_plan = [ReplaceHomecomingRoutine ex_replacement ex_definition]" by code_simp
  from succeeded_homecomings_were_safe[OF r p a] show ?thesis unfolding Let_def by blast
qed

definition ex_failed :: verification where
  "ex_failed = \<lparr> ve_id = ''ver_aaaaaaaa'', ve_organizationId = ''org_aaaaaaaa'', ve_missionId = ''mis_aaaaaaaa'',
     ve_source = ''application_code'', ve_status = VerificationDidFail, ve_planHash = ex_digest,
     ve_assertions = [\<lparr> va_predicate = \<lparr> vp_id = ''tenant_boundary_preserved'', vp_body = NoCrossTenantAccess ''org_aaaaaaaa'' \<rparr>,
       va_passed = False, va_evidenceIds = [''evd_aaaaaaaa''], va_message = ''No.'' \<rparr>], ve_completedAt = 50 \<rparr>"

definition ex_failed_tenant :: tenant where
  "ex_failed_tenant = ex_tenant\<lparr> tn_missions := [ex_verify_mission], tn_plans := [ex_verify_plan], tn_verifications := [ex_failed] \<rparr>"

text \<open>After corrective work the mission is at the checkpoint again, and the job replays the failed verification.\<close>

theorem verifications_are_final_witness:
  "\<exists>r. run_verification ex_planner_env (registry_evaluate ex_planner_env ex_js PRODUCTION_TIMING) (\<lambda>s. s)
     ''org_aaaaaaaa'' ''mis_aaaaaaaa'' ex_failed_tenant = Inr (r, ex_failed_tenant) \<and> vn_verification r = ex_failed \<and>
     mission_get ex_failed_tenant ''mis_aaaaaaaa'' = Some ex_verify_mission \<and> mi_state ex_verify_mission = mstate MRunning PhVerify"
proof -
  have parts: "mission_get ex_failed_tenant ''mis_aaaaaaaa'' = Some ex_verify_mission"
    "assertSameTenant ''org_aaaaaaaa'' [mi_organizationId ex_verify_mission] = Inr ()"
    "verifications_findForMission ex_failed_tenant (mi_id ex_verify_mission) = Some ex_failed"
    "getLatestForMission ex_failed_tenant (mi_id ex_verify_mission) = Some ex_verify_plan"
    "executions_listForMission ex_failed_tenant (mi_id ex_verify_mission) = Inr []"
    "outbox_payload_ok (MissionReference ''org_aaaaaaaa'' ''mis_aaaaaaaa'')" "tn_org ex_failed_tenant = ''org_aaaaaaaa''"
    "mi_state ex_verify_mission = mstate MRunning PhVerify" "mi_id ex_verify_mission = ''mis_aaaaaaaa''" by code_simp+
  then have "take_snapshot ex_planner_env ''org_aaaaaaaa'' ''mis_aaaaaaaa'' ex_failed_tenant = Inr (ExistingVerification ex_failed ex_verify_mission)"
    unfolding take_snapshot_def by (simp add: assertSameTenant_def)
  with parts obtain r where r: "run_verification ex_planner_env (registry_evaluate ex_planner_env ex_js PRODUCTION_TIMING) (\<lambda>s. s)
     ''org_aaaaaaaa'' ''mis_aaaaaaaa'' ex_failed_tenant = Inr (r, ex_failed_tenant)"
    unfolding run_verification_def by (simp add: assertTenant_def)
  have "verifications_findForMission ex_failed_tenant ''mis_aaaaaaaa'' = Some ex_failed" using parts(3,9) by simp
  moreover have "distinct (List.map ve_missionId (tn_verifications ex_failed_tenant))" by code_simp
  ultimately have "vn_verification r = ex_failed" using verifications_are_final r by blast
  with r parts show ?thesis by blast
qed

end
