(* ===== verification/Plan_Assessment.thy ===== *)
theory Plan_Assessment
  imports Execution_Planners
begin

text \<open>
  The validators and simulators of plans: \<open>application/src/homecoming-plan-assessment.ts\<close>,
  \<open>scheduled-hauler-access-plan-assessment.ts\<close> and the registry's choice between them
  (\<open>mission-program-registry.ts\<close>).  A validator reads the tenant's devices and routines; a
  simulator is a function of the plan.  How JavaScript prints a number is the parameter
  \<open>print\<close>.
\<close>

section \<open>Shared checks\<close>

definition check_result :: "check_type \<Rightarrow> bool \<Rightarrow> string \<Rightarrow> string \<Rightarrow> plan_check" where
  "check_result t passed yes no = \<lparr> pk_type = t, pk_passed = passed, pk_message = (if passed then yes else no) \<rparr>"

text \<open>The enabled capabilities of a kind whose device is online and of the kind that serves it.\<close>

definition capability_targets ::
  "device_row list \<Rightarrow> capability_row list \<Rightarrow> capability_kind \<Rightarrow> device_kind \<Rightarrow> capability_row list" where
  "capability_targets devices capabilities capabilityKind deviceKind =
     filter (\<lambda>c. cp_enabled c \<and> cp_kind c = capabilityKind \<and>
        (case lookup_by dv_id (cp_deviceId c) devices of None \<Rightarrow> False
         | Some d \<Rightarrow> dv_kind d = deviceKind \<and> dv_health d = HealthOnline)) capabilities"

text \<open>The protected routine is still at the version the plan was prepared against.\<close>

definition protected_is_current :: "tenant \<Rightarrow> replace_action \<Rightarrow> bool" where
  "protected_is_current s r = (case getCurrentVersion s (rp_protectedRoutineId r) of None \<Rightarrow> False
     | Some c \<Rightarrow> pv_routineVersionId c = rp_protectedRoutineVersionId r \<and>
         pv_version c = rp_expectedProtectedVersion r)"

section \<open>Homecoming plans\<close>

fun one_homecoming_action :: "plan_action list \<Rightarrow> (replace_action \<times> homecoming_definition) option" where
  "one_homecoming_action [ReplaceHomecomingRoutine r d] = Some (r, d)"
| "one_homecoming_action _ = None"

fun capability_kind_name :: "capability_kind \<Rightarrow> string" where
  "capability_kind_name CapLockDesiredState = ''lock_desired_state''"
| "capability_kind_name CapPathwayLighting = ''pathway_lighting''"
| "capability_kind_name CapTemperatureTarget = ''temperature_target''"
| "capability_kind_name CapBatteryProjection = ''battery_projection''"
| "capability_kind_name CapServiceHatchAccess = ''service_hatch_access''"
| "capability_kind_name CapResidentialHatchLockState = ''residential_hatch_lock_state''"

definition required_targets :: "(capability_kind \<times> device_kind) list" where
  "required_targets = [(CapTemperatureTarget, ThermostatDevice),
     (CapPathwayLighting, PathwayLightDevice), (CapLockDesiredState, LockDevice)]"

fun join_comma :: "string list \<Rightarrow> string" where
  "join_comma [] = ''''"
| "join_comma [x] = x"
| "join_comma (x # xs) = x @ '', '' @ join_comma xs"

definition homecoming_capability_check ::
  "tenant \<Rightarrow> plan \<Rightarrow> (replace_action \<times> homecoming_definition) option \<Rightarrow> err + plan_check" where
  "homecoming_capability_check s p act = (if is_none act
     then Inr (check_result CheckCapability False ''''
            ''Capabilities cannot be assessed without one homecoming replacement.'')
     else sbind (capabilities_list s (pl_palaceId p)) (\<lambda>(devices, capabilities).
       let missing = filter (\<lambda>(c, d). length (capability_targets devices capabilities c d) \<noteq> 1) required_targets in
       Inr (check_result CheckCapability (missing = [])
         ''Exactly one online target exists for temperature, pathway lighting, and lock control.''
         (''Required capability targets are unavailable or ambiguous: '' @
            join_comma (List.map (\<lambda>(c, _). capability_kind_name c) missing) @ ''.''))))"

definition homecoming_conflict_check ::
  "tenant \<Rightarrow> (replace_action \<times> homecoming_definition) option \<Rightarrow> plan_check" where
  "homecoming_conflict_check s act = (case act of
     None \<Rightarrow> check_result CheckConflict False ''''
       ''Protected routine state cannot be assessed without one replacement action.''
   | Some (r, _) \<Rightarrow> check_result CheckConflict (protected_is_current s r)
       ''The protected routine version still matches the proposed replacement.''
       ''The protected routine changed after the plan was prepared.'')"

definition actions_of_type :: "routine_action_type \<Rightarrow> homecoming_definition \<Rightarrow> routine_action list" where
  "actions_of_type t d = filter (\<lambda>a. action_type a = t) (hd_actions d)"

definition required_invariants :: "hard_invariant list" where
  "required_invariants = [TenantContextHostDerived, VerifiedIdentityRequiredForUnlock,
     RoutineActivationValidated, ExactPlanApprovalRequired, RetryPreservesLogicalOperation,
     VerifierOwnsMissionSuccess, SecretsExcludedFromModelContext]"

text \<open>\<open>HomecomingMissionConstraintSchema.parse\<close> and its hauler counterpart, on a stored constraint.\<close>

definition homecoming_constraint_of :: "mission_constraint \<Rightarrow> err + homecoming_constraint" where
  "homecoming_constraint_of c = (case c of
     HomecomingConstraint h \<Rightarrow> if homecoming_constraint_ok h then Inr h else Inl (ZodError ''HomecomingMissionConstraint'')
   | HaulerConstraint _ \<Rightarrow> Inl (ZodError ''HomecomingMissionConstraint''))"

definition hauler_constraint_of :: "mission_constraint \<Rightarrow> err + hauler_constraint" where
  "hauler_constraint_of c = (case c of
     HaulerConstraint h \<Rightarrow> if hauler_constraint_ok h then Inr h else Inl (ZodError ''ScheduledHaulerAccessConstraint'')
   | HomecomingConstraint _ \<Rightarrow> Inl (ZodError ''ScheduledHaulerAccessConstraint''))"

definition hardInvariantsHold :: "plan \<Rightarrow> homecoming_definition \<Rightarrow> err + bool" where
  "hardInvariantsHold p d = sbind (homecoming_constraint_of (pl_constraints p)) (\<lambda>c. Inr (
     (case actions_of_type ATPreheat d of [a] \<Rightarrow> ra_completeBy a = hc_preheatBy c | _ \<Rightarrow> False) \<and>
     (case actions_of_type ATPathwayLighting d of
        [a] \<Rightarrow> ra_beginsAfter a = hc_pathwayLightingBeginsAfter c | _ \<Rightarrow> False) \<and>
     (case actions_of_type ATUnlock d of
        [a] \<Rightarrow> ra_requireVerifiedIdentity a = hc_requireVerifiedIdentityForUnlock c | _ \<Rightarrow> False) \<and>
     length (actions_of_type ATLockDesiredState d) = 1 \<and>
     hd_projectedBatteryUse d \<le> hc_projectedBatteryUseMax c \<and>
     hd_batteryUseMax d = hc_projectedBatteryUseMax c \<and>
     list_all (List.member (hd_hardInvariantIds d)) required_invariants))"

definition homecoming_hardInvariantCheck ::
  "plan \<Rightarrow> (replace_action \<times> homecoming_definition) option \<Rightarrow> err + plan_check" where
  "homecoming_hardInvariantCheck p act =
     sbind (case act of None \<Rightarrow> Inr False | Some (_, d) \<Rightarrow> hardInvariantsHold p d) (\<lambda>passed.
     Inr (check_result CheckHardInvariant passed
       ''Verified identity, event ordering, energy, approval, idempotency, and verifier ownership are preserved.''
       ''The replacement violates a homecoming safety or durable-operation invariant.''))"

definition homecoming_validate :: "env \<Rightarrow> tenant \<Rightarrow> plan \<Rightarrow> err + plan_check list" where
  "homecoming_validate env s p =
     (if \<not> plan_ok (en_planHash env) p
      then Inr [check_result CheckSchema False '''' ''Plan does not satisfy the canonical plan schema and content hash.'']
      else sbind (assertTenant s (pl_organizationId p)) (\<lambda>_.
        let act = one_homecoming_action (pl_actions p) in
        sbind (homecoming_capability_check s p act) (\<lambda>capability.
        sbind (homecoming_hardInvariantCheck p act) (\<lambda>invariants.
        Inr [check_result CheckSchema (\<not> is_none act)
               ''Plan schema, hash, tenant, and palace bindings are current.''
               ''Plan must contain exactly one homecoming routine replacement.'',
             capability, homecoming_conflict_check s act, invariants]))))"

text \<open>One scenario: whether it passes, and the evidence given for it.\<close>

definition homecoming_scenario ::
  "(rat \<Rightarrow> string) \<Rightarrow> plan \<Rightarrow> (replace_action \<times> homecoming_definition) option \<Rightarrow> scenario \<Rightarrow> err + (bool \<times> string)" where
  "homecoming_scenario print p act sc = (case act of
     None \<Rightarrow> Inr (False, ''No single homecoming replacement was available.'')
   | Some (_, d) \<Rightarrow> sbind (homecoming_constraint_of (pl_constraints p)) (\<lambda>c. Inr (case sc of
       ScenarioEnergy \<Rightarrow> (hd_projectedBatteryUse d \<le> hc_projectedBatteryUseMax c,
         print (hd_projectedBatteryUse d) @ '' projected percentage points against a '' @
         print (hc_projectedBatteryUseMax c) @ '' point bound.'')
     | ScenarioAccess \<Rightarrow>
         let passed = (case find_routine_action ATUnlock d of None \<Rightarrow> False | Some a \<Rightarrow> ra_requireVerifiedIdentity a) in
         (passed, if passed then ''Unlock remains causally gated by verified identity telemetry.''
            else ''Unlock lacks a verified-identity gate.'')
     | ScenarioTiming \<Rightarrow>
         let passed =
           (case find_routine_action ATPreheat d of None \<Rightarrow> False | Some a \<Rightarrow> ra_completeBy a = hc_preheatBy c) \<and>
           (case find_routine_action ATPathwayLighting d of None \<Rightarrow> False
            | Some a \<Rightarrow> ra_beginsAfter a = ''verified_arrival'') \<and>
           0 < (case find_routine_action ATLockDesiredState d of None \<Rightarrow> 0 | Some a \<Rightarrow> ra_afterUnlockSeconds a) in
         (passed, if passed then ''Preheat, arrival-triggered lighting, and bounded relock ordering are explicit.''
            else ''One or more timing relationships are missing or inconsistent.'')
     | ScenarioTransportFailure \<Rightarrow>
         let passed = List.member (hd_hardInvariantIds d) RetryPreservesLogicalOperation in
         (passed, if passed then ''Transport retries preserve the server-created logical operation identity.''
            else ''Transport retry identity is not declared as a hard invariant.''))))"

record simulation_outcome =
  so_feasible :: bool
  so_projected :: rat
  so_results :: "scenario_result list"

definition simulated :: "bool \<Rightarrow> rat \<Rightarrow> (scenario \<Rightarrow> err + (bool \<times> string)) \<Rightarrow> scenario list \<Rightarrow> err + simulation_outcome" where
  "simulated present projection run scenarios =
     sbind (map_res (\<lambda>sc. sbind (run sc) (\<lambda>(passed, ev).
       Inr \<lparr> sr_scenario = sc, sr_passed = passed, sr_evidence = ev \<rparr>)) scenarios) (\<lambda>results.
     Inr \<lparr> so_feasible = (present \<and> list_all sr_passed results), so_projected = projection, so_results = results \<rparr>)"

definition homecoming_simulate :: "env \<Rightarrow> (rat \<Rightarrow> string) \<Rightarrow> plan \<Rightarrow> scenario list \<Rightarrow> err + simulation_outcome" where
  "homecoming_simulate env print p scenarios =
     (if \<not> plan_ok (en_planHash env) p then Inl (ZodError ''Plan'')
      else let act = one_homecoming_action (pl_actions p) in
        simulated (\<not> is_none act) (case act of None \<Rightarrow> 0 | Some (_, d) \<Rightarrow> hd_projectedBatteryUse d)
          (homecoming_scenario print p act) scenarios)"

section \<open>Scheduled hauler access plans\<close>

fun one_hauler_action :: "plan_action list \<Rightarrow> (replace_action \<times> hauler_definition) option" where
  "one_hauler_action [ReplaceScheduledHaulerAccessRoutine r d] = Some (r, d)"
| "one_hauler_action _ = None"

definition hauler_capability_check ::
  "tenant \<Rightarrow> plan \<Rightarrow> (replace_action \<times> hauler_definition) option \<Rightarrow> err + plan_check" where
  "hauler_capability_check s p act = (if is_none act
     then Inr (check_result CheckCapability False '''' ''Hauler action is absent.'')
     else sbind (capabilities_list s (pl_palaceId p)) (\<lambda>(devices, capabilities).
       Inr (check_result CheckCapability
         (length (capability_targets devices capabilities CapServiceHatchAccess ServiceHatchLockDevice) = 1)
         ''Exactly one online service-hatch lock is available.''
         ''Service-hatch access requires exactly one online target.'')))"

definition hauler_conflict_check ::
  "tenant \<Rightarrow> (replace_action \<times> hauler_definition) option \<Rightarrow> plan_check" where
  "hauler_conflict_check s act = (case act of
     None \<Rightarrow> check_result CheckConflict False '''' ''Protected routine is unknown.''
   | Some (r, _) \<Rightarrow> check_result CheckConflict (protected_is_current s r)
       ''The protected access routine is still current.''
       ''The protected access routine changed after planning.'')"

definition haulerInvariantsHold :: "plan \<Rightarrow> hauler_definition \<Rightarrow> err + bool" where
  "haulerInvariantsHold p d = sbind (hauler_constraint_of (pl_constraints p)) (\<lambda>c. Inr (
     hl_windowStart d = ha_accessWindowStart c \<and> hl_windowEnd d = ha_accessWindowEnd c \<and>
     hl_authorizedIdentityTagId d = ha_authorizedIdentityTagId c))"

definition hauler_hardInvariantCheck ::
  "plan \<Rightarrow> (replace_action \<times> hauler_definition) option \<Rightarrow> err + plan_check" where
  "hauler_hardInvariantCheck p act =
     sbind (case act of None \<Rightarrow> Inr False | Some (_, d) \<Rightarrow> haulerInvariantsHold p d) (\<lambda>passed.
     Inr (check_result CheckHardInvariant passed
       ''Identity, window, compartment, final-lock, approval, and verifier boundaries hold.''
       ''The hauler plan crosses a hard access boundary.''))"

definition hauler_validate :: "env \<Rightarrow> tenant \<Rightarrow> plan \<Rightarrow> err + plan_check list" where
  "hauler_validate env s p =
     (if \<not> plan_ok (en_planHash env) p
      then Inr [check_result CheckSchema False '''' ''Plan schema or hash is invalid.'']
      else sbind (assertTenant s (pl_organizationId p)) (\<lambda>_.
        let act = one_hauler_action (pl_actions p) in
        sbind (hauler_capability_check s p act) (\<lambda>capability.
        sbind (hauler_hardInvariantCheck p act) (\<lambda>invariants.
        Inr [check_result CheckSchema (\<not> is_none act)
               ''Hauler plan schema, hash, tenant, and palace bindings are current.''
               ''Plan must contain exactly one scheduled-hauler-access replacement.'',
             capability, hauler_conflict_check s act, invariants]))))"

definition hauler_scenario ::
  "plan \<Rightarrow> (replace_action \<times> hauler_definition) option \<Rightarrow> scenario \<Rightarrow> err + (bool \<times> string)" where
  "hauler_scenario p act sc = (case act of
     None \<Rightarrow> Inr (False, ''No hauler action exists.'')
   | Some (_, d) \<Rightarrow> sbind (hauler_constraint_of (pl_constraints p)) (\<lambda>c. Inr (case sc of
       ScenarioEnergy \<Rightarrow> (hl_projectedBatteryUse d \<le> 5,
         ''Scheduled hatch access stays within the five-point fixture energy budget.'')
     | ScenarioAccess \<Rightarrow>
         let passed = (hl_authorizedIdentityTagId d = ha_authorizedIdentityTagId c) in
         (passed, if passed then ''Only the verified scheduled hauler may reach the service hatch.''
            else ''Identity or compartment scope is not preserved.'')
     | ScenarioTiming \<Rightarrow>
         let passed = (hl_windowStart d = ha_accessWindowStart c \<and> hl_windowEnd d = ha_accessWindowEnd c) in
         (passed, if passed then ''Access is bounded to the scheduled window and ends locked.''
            else ''Access timing or final lock state is incomplete.'')
     | ScenarioTransportFailure \<Rightarrow>
         let passed = List.member (hl_hardInvariantIds d) RetryPreservesLogicalOperation in
         (passed, if passed then ''Retries retain one logical access change.''
            else ''Retry identity is not a hard invariant.''))))"

definition hauler_simulate :: "env \<Rightarrow> plan \<Rightarrow> scenario list \<Rightarrow> err + simulation_outcome" where
  "hauler_simulate env p scenarios =
     (if \<not> plan_ok (en_planHash env) p then Inl (ZodError ''Plan'')
      else let act = one_hauler_action (pl_actions p) in
        simulated (\<not> is_none act) (case act of None \<Rightarrow> 0 | Some (_, d) \<Rightarrow> hl_projectedBatteryUse d)
          (hauler_scenario p act) scenarios)"

section \<open>The registry\<close>

definition registry_validate :: "env \<Rightarrow> tenant \<Rightarrow> plan \<Rightarrow> err + plan_check list" where
  "registry_validate env s p = sbind (forPlan p) (\<lambda>k. case k of
     NightShiftHomecoming \<Rightarrow> homecoming_validate env s p
   | ScheduledHaulerAccess \<Rightarrow> hauler_validate env s p)"

definition registry_simulate :: "env \<Rightarrow> (rat \<Rightarrow> string) \<Rightarrow> plan \<Rightarrow> scenario list \<Rightarrow> err + simulation_outcome" where
  "registry_simulate env print p scenarios = sbind (forPlan p) (\<lambda>k. case k of
     NightShiftHomecoming \<Rightarrow> homecoming_simulate env print p scenarios
   | ScheduledHaulerAccess \<Rightarrow> hauler_simulate env p scenarios)"

section \<open>Lemmas\<close>

lemma check_result_sel [simp]:
  "pk_type (check_result t b y n) = t" "pk_passed (check_result t b y n) = b"
  by (simp_all add: check_result_def)

text \<open>
  The validator and the execution planner look for devices in different ways; on the same
  projection they find the same ones.
\<close>

lemma targets_candidates:
  "length (capability_targets ds cs k dk) = length (device_candidates ds cs k dk)"
  by (induction cs) (auto simp: capability_targets_def device_candidates_def List.map_filter_def split: option.splits)

lemma one_target_iff:
  "length (capability_targets (pc_devices ctx) (pc_capabilities ctx) k dk) = 1 \<longleftrightarrow> (\<exists>d. requireDevice ctx k dk = Inr d)"
proof -
  have "length ds = 1 \<longleftrightarrow> (\<exists>d. (case ds of [d] \<Rightarrow> Inr d | _ \<Rightarrow> Inl e) = Inr d)" for ds :: "device_row list" and e :: err
    by (auto split: list.splits)
  then show ?thesis by (simp add: targets_candidates requireDevice_def)
qed

lemma one_homecoming_action_Some: "one_homecoming_action acts = Some (r, d) \<longleftrightarrow> acts = [ReplaceHomecomingRoutine r d]"
  by (cases acts rule: one_homecoming_action.cases) auto

lemma one_hauler_action_Some: "one_hauler_action acts = Some (r, d) \<longleftrightarrow> acts = [ReplaceScheduledHaulerAccessRoutine r d]"
  by (cases acts rule: one_hauler_action.cases) auto

text \<open>What the checks promise when all of them pass.\<close>

definition homecoming_sound :: "tenant \<Rightarrow> plan \<Rightarrow> bool" where
  "homecoming_sound s p = (\<exists>r d c devices capabilities.
     pl_actions p = [ReplaceHomecomingRoutine r d] \<and> pl_constraints p = HomecomingConstraint c \<and>
     protected_is_current s r \<and> capabilities_list s (pl_palaceId p) = Inr (devices, capabilities) \<and>
     (\<forall>(k, dk)\<in>set required_targets. length (capability_targets devices capabilities k dk) = 1) \<and>
     (\<exists>t. actions_of_type ATPreheat d = [Preheat t (hc_preheatBy c)]) \<and>
     (\<exists>i l. actions_of_type ATPathwayLighting d = [PathwayLighting i l (hc_pathwayLightingBeginsAfter c)]) \<and>
     (\<exists>g. actions_of_type ATUnlock d = [Unlock g True]) \<and> (\<exists>a. actions_of_type ATLockDesiredState d = [LockDesiredState a]) \<and>
     hd_projectedBatteryUse d \<le> hc_projectedBatteryUseMax c \<and> set required_invariants \<subseteq> set (hd_hardInvariantIds d))"

definition hauler_sound :: "tenant \<Rightarrow> plan \<Rightarrow> bool" where
  "hauler_sound s p = (\<exists>r d c devices capabilities.
     pl_actions p = [ReplaceScheduledHaulerAccessRoutine r d] \<and> pl_constraints p = HaulerConstraint c \<and>
     protected_is_current s r \<and> capabilities_list s (pl_palaceId p) = Inr (devices, capabilities) \<and>
     length (capability_targets devices capabilities CapServiceHatchAccess ServiceHatchLockDevice) = 1 \<and>
     hl_windowStart d = ha_accessWindowStart c \<and> hl_windowEnd d = ha_accessWindowEnd c \<and>
     hl_authorizedIdentityTagId d = ha_authorizedIdentityTagId c)"

lemma homecoming_constraint_of_Inr [simp]:
  "homecoming_constraint_of x = Inr c \<longleftrightarrow> x = HomecomingConstraint c \<and> homecoming_constraint_ok c"
  by (auto simp: homecoming_constraint_of_def split: mission_constraint.splits if_splits)

lemma hauler_constraint_of_Inr [simp]:
  "hauler_constraint_of x = Inr c \<longleftrightarrow> x = HaulerConstraint c \<and> hauler_constraint_ok c"
  by (auto simp: hauler_constraint_of_def split: mission_constraint.splits if_splits)

lemma actions_of_type_single: "actions_of_type t d = [a] \<Longrightarrow> action_type a = t"
  by (auto simp: actions_of_type_def filter_eq_Cons_iff)

lemma single_case_iff: "(case xs of [] \<Rightarrow> False | [a] \<Rightarrow> P a | a # b # ys \<Rightarrow> False) \<longleftrightarrow> (\<exists>a. xs = [a] \<and> P a)"
  by (auto split: list.splits)

lemma hardInvariantsHold_True:
  assumes "hardInvariantsHold p d = Inr True"
  obtains c t i l g a where "pl_constraints p = HomecomingConstraint c"
    "actions_of_type ATPreheat d = [Preheat t (hc_preheatBy c)]"
    "actions_of_type ATPathwayLighting d = [PathwayLighting i l (hc_pathwayLightingBeginsAfter c)]"
    "actions_of_type ATUnlock d = [Unlock g True]" "actions_of_type ATLockDesiredState d = [LockDesiredState a]"
    "hd_projectedBatteryUse d \<le> hc_projectedBatteryUseMax c" "set required_invariants \<subseteq> set (hd_hardInvariantIds d)"
proof -
  from assms obtain c b1 b2 b3 b4 where c: "pl_constraints p = HomecomingConstraint c" "homecoming_constraint_ok c"
    and a: "actions_of_type ATPreheat d = [b1]" "ra_completeBy b1 = hc_preheatBy c"
      "actions_of_type ATPathwayLighting d = [b2]" "ra_beginsAfter b2 = hc_pathwayLightingBeginsAfter c"
      "actions_of_type ATUnlock d = [b3]" "ra_requireVerifiedIdentity b3 = hc_requireVerifiedIdentityForUnlock c"
      "actions_of_type ATLockDesiredState d = [b4]"
    and r: "hd_projectedBatteryUse d \<le> hc_projectedBatteryUseMax c" "set required_invariants \<subseteq> set (hd_hardInvariantIds d)"
    by (auto simp: hardInvariantsHold_def sbind_eq_Inr list_all_iff length_Suc_conv subset_iff single_case_iff)
  have v: "hc_requireVerifiedIdentityForUnlock c" using c(2) by (simp add: homecoming_constraint_ok_def)
  obtain t where 1: "b1 = Preheat t (hc_preheatBy c)" using actions_of_type_single[OF a(1)] a(2) by (cases b1) auto
  obtain i l where 2: "b2 = PathwayLighting i l (hc_pathwayLightingBeginsAfter c)"
    using actions_of_type_single[OF a(3)] a(4) by (cases b2) auto
  obtain g where 3: "b3 = Unlock g True" using actions_of_type_single[OF a(5)] a(6) v by (cases b3) auto
  obtain z where 4: "b4 = LockDesiredState z" using actions_of_type_single[OF a(7)] by (cases b4) auto
  show thesis by (rule that[OF c(1) a(1)[unfolded 1] a(3)[unfolded 2] a(5)[unfolded 3] a(7)[unfolded 4] r])
qed

lemma homecoming_validate_sound:
  assumes "homecoming_validate env s p = Inr checks" "checks \<noteq> []" "list_all pk_passed checks"
  shows "homecoming_sound s p"
proof -
  let ?act = "one_homecoming_action (pl_actions p)"
  from assms obtain capability invariants where cap: "homecoming_capability_check s p ?act = Inr capability"
    and inv: "homecoming_hardInvariantCheck p ?act = Inr invariants"
    and passed: "?act \<noteq> None" "pk_passed capability" "pk_passed (homecoming_conflict_check s ?act)" "pk_passed invariants"
    by (auto simp: homecoming_validate_def sbind_eq_Inr Let_def split: if_splits)
  from passed(1) obtain r d where act: "?act = Some (r, d)" by auto
  from cap passed(2) act obtain devices capabilities where "capabilities_list s (pl_palaceId p) = Inr (devices, capabilities)"
    "\<forall>(k, dk)\<in>set required_targets. length (capability_targets devices capabilities k dk) = 1"
    by (auto simp: homecoming_capability_check_def sbind_eq_Inr Let_def filter_empty_conv split_def)
  moreover have "protected_is_current s r" using passed(3) act by (simp add: homecoming_conflict_check_def)
  moreover have "hardInvariantsHold p d = Inr True"
    using inv passed(4) act by (auto simp: homecoming_hardInvariantCheck_def sbind_eq_Inr)
  ultimately show ?thesis using act unfolding one_homecoming_action_Some
    by (elim hardInvariantsHold_True) (auto simp: homecoming_sound_def)
qed

lemma hauler_validate_sound:
  assumes "hauler_validate env s p = Inr checks" "checks \<noteq> []" "list_all pk_passed checks"
  shows "hauler_sound s p"
proof -
  let ?act = "one_hauler_action (pl_actions p)"
  from assms obtain capability invariants where cap: "hauler_capability_check s p ?act = Inr capability"
    and inv: "hauler_hardInvariantCheck p ?act = Inr invariants"
    and passed: "?act \<noteq> None" "pk_passed capability" "pk_passed (hauler_conflict_check s ?act)" "pk_passed invariants"
    by (auto simp: hauler_validate_def sbind_eq_Inr Let_def split: if_splits)
  from passed(1) obtain r d where act: "?act = Some (r, d)" by auto
  with cap inv passed show ?thesis
    by (auto simp: hauler_sound_def hauler_capability_check_def hauler_conflict_check_def
        hauler_hardInvariantCheck_def haulerInvariantsHold_def one_hauler_action_Some sbind_eq_Inr)
qed

definition plan_sound :: "tenant \<Rightarrow> plan \<Rightarrow> bool" where
  "plan_sound s p = (homecoming_sound s p \<or> hauler_sound s p)"

lemma registry_validate_sound:
  assumes "registry_validate env s p = Inr checks" "checks \<noteq> []" "list_all pk_passed checks"
  shows "plan_sound s p"
proof -
  from assms(1) obtain k where "(case k of NightShiftHomecoming \<Rightarrow> homecoming_validate env s p
      | ScheduledHaulerAccess \<Rightarrow> hauler_validate env s p) = Inr checks"
    by (auto simp: registry_validate_def sbind_eq_Inr)
  then show ?thesis using assms(2,3) homecoming_validate_sound hauler_validate_sound
    by (cases k) (auto simp: plan_sound_def)
qed

end
