(* ===== verification/Plan_Service.thy ===== *)
theory Plan_Service
  imports Plan_Assessment Approval_Service
begin

text \<open>
  The plan service (\<open>application/src/plan-service.ts\<close>): proposing a plan or a compensating
  plan, validating it and simulating it, with the assessment and compensation tables of the
  store.  Assessing a plan reads it in one transaction and commits the outcome in another.
  Product evidence goes to the observability port, whose default keeps no rows; the reads
  that precede it and can fail are kept.
\<close>

section \<open>Repositories\<close>

definition assertPlanMutation :: "scope \<Rightarrow> string \<Rightarrow> tenant \<Rightarrow> err + unit" where
  "assertPlanMutation sc planId s = (case sc of Unfenced \<Rightarrow> Inr ()
     | Fenced _ _ \<Rightarrow> sbind (required (plan_get s planId) (DatabaseNotFoundError ''Plan'')) (\<lambda>p.
         assertMissionMutation sc (pl_missionId p)))"

text \<open>The two tables are append-only, and their rows name a stored plan.\<close>

definition saveValidation :: "scope \<Rightarrow> plan_validation \<Rightarrow> tenant \<Rightarrow> err + tenant" where
  "saveValidation sc v s = sbind (assertPlanMutation sc (pv_planId v) s) (\<lambda>_.
     if is_none (plan_get s (pv_planId v)) then Inl (DatabaseConflictError ''plan_validations_plan_tenant_fk'')
     else Inr (s\<lparr> tn_validations := tn_validations s @ [v] \<rparr>))"

definition saveSimulation :: "scope \<Rightarrow> plan_simulation \<Rightarrow> tenant \<Rightarrow> err + tenant" where
  "saveSimulation sc x s = sbind (assertPlanMutation sc (ps_planId x) s) (\<lambda>_.
     if is_none (plan_get s (ps_planId x)) then Inl (DatabaseConflictError ''plan_simulations_plan_tenant_fk'')
     else if ps_projected x < 0 \<or> 100 < ps_projected x
       then Inl (DatabaseConflictError ''plan_simulations_battery_range'')
     else Inr (s\<lparr> tn_simulations := tn_simulations s @ [x] \<rparr>))"

definition compensatingPlans_insert :: "scope \<Rightarrow> plan_link \<Rightarrow> tenant \<Rightarrow> err + tenant" where
  "compensatingPlans_insert sc l s = sbind (assertTenant s (lk_organizationId l)) (\<lambda>_.
     sbind (assertPlanMutation sc (lk_planId l) s) (\<lambda>_.
     sbind (operation_mutation_ok sc s (lk_operationId l)) (\<lambda>_.
     if list_ex (\<lambda>x. lk_planId x = lk_planId l) (tn_planLinks s)
       then Inl (DatabaseConflictError ''compensating_plan_links_pk'')
     else if (case plan_get s (lk_planId l) of None \<Rightarrow> True
              | Some p \<Rightarrow> \<not> List.member (List.map pa_id (pl_actions p)) (lk_actionId l))
       then Inl (DatabaseConflictError ''compensating_plan_links_action_tenant_fk'')
     else if is_none (operation_get s (lk_operationId l))
       then Inl (DatabaseConflictError ''compensating_plan_links_operation_tenant_fk'')
     else Inr (s\<lparr> tn_planLinks := tn_planLinks s @ [l] \<rparr>))))"

section \<open>Transactions of a caller\<close>

text \<open>\<open>#runMutation\<close>: a session works in a plain transaction, a mission run in a fenced one.\<close>

definition plan_mutation ::
  "env \<Rightarrow> actor \<Rightarrow> string \<Rightarrow> (scope \<Rightarrow> tenant \<Rightarrow> err + ('a \<times> tenant)) \<Rightarrow> tenant \<Rightarrow> err + ('a \<times> tenant)" where
  "plan_mutation env ctx missionId work s =
     (let org = pr_organizationId (actor_principal ctx) in case ctx of
       SessionActor _ \<Rightarrow> sbind (assertTenant s org) (\<lambda>_. work Unfenced s)
     | MissionActor c \<Rightarrow> sbind (assertMissionExecutionContext c org missionId) (\<lambda>_.
         runFenced env (xc_fence c) work s))"

text \<open>\<open>#readPlanForMutation\<close>\<close>

definition read_plan :: "env \<Rightarrow> actor \<Rightarrow> string \<Rightarrow> tenant \<Rightarrow> err + (plan \<times> tenant)" where
  "read_plan env ctx planId s = sbind (assertTenant s (pr_organizationId (actor_principal ctx))) (\<lambda>_.
     sbind (requirePlan s planId) (\<lambda>p.
     plan_mutation env ctx (pl_missionId p) (\<lambda>_ t. sbind (requirePlan t planId) (\<lambda>q. Inr (q, t))) s))"

section \<open>Proposing\<close>

fun is_restoration :: "plan_action \<Rightarrow> bool" where
  "is_restoration (RestoreRoutineVersion _) = True"
| "is_restoration _ = False"

record plan_proposal =
  pp_missionId :: string
  pp_revision :: nat
  pp_actions :: "plan_action list"
  pp_successCriteriaIds :: "string list"

definition contextSourceCount :: "tenant \<Rightarrow> mission \<Rightarrow> err + nat" where
  "contextSourceCount s m = (case mi_contextReceiptId m of None \<Rightarrow> Inr 0
     | Some i \<Rightarrow> sbind (contextReceipts_get s i) (\<lambda>r.
         sbind (required r (ConflictError ''Mission context receipt is missing'')) (\<lambda>x. Inr (length (cr_sources x)))))"

definition proposal_payload :: "string \<Rightarrow> string \<Rightarrow> mission \<Rightarrow> plan_proposal \<Rightarrow> plan_hash_payload" where
  "proposal_payload i org m q = \<lparr> ph_id = i, ph_organizationId = org, ph_missionId = mi_id m,
     ph_palaceId = mi_palaceId m, ph_revision = pp_revision q, ph_objective = mi_objective m,
     ph_constraints = mi_constraints m, ph_actions = pp_actions q,
     ph_successCriteriaIds = pp_successCriteriaIds q \<rparr>"

definition candidate_plan :: "plan_hash_payload \<Rightarrow> string \<Rightarrow> instant \<Rightarrow> plan" where
  "candidate_plan q h t = \<lparr> pl_id = ph_id q, pl_organizationId = ph_organizationId q,
     pl_missionId = ph_missionId q, pl_palaceId = ph_palaceId q, pl_revision = ph_revision q, pl_hash = h,
     pl_status = PlanCandidate, pl_objective = ph_objective q, pl_constraints = ph_constraints q,
     pl_actions = ph_actions q, pl_successCriteriaIds = ph_successCriteriaIds q, pl_createdAt = t \<rparr>"

definition expected_revision :: "tenant \<Rightarrow> string \<Rightarrow> nat" where
  "expected_revision s m = (case getLatestForMission s m of None \<Rightarrow> 0 | Some p \<Rightarrow> pl_revision p) + 1"

text \<open>The link a compensating plan is stored with.\<close>

definition link_compensation :: "scope \<Rightarrow> string \<Rightarrow> plan \<Rightarrow> string option \<Rightarrow> tenant \<Rightarrow> err + tenant" where
  "link_compensation sc org p compensation s = (case compensation of None \<Rightarrow> Inr s
     | Some op \<Rightarrow> (case pl_actions p of
         [] \<Rightarrow> Inl (ConflictError ''Compensating plan requires one action'')
       | act # _ \<Rightarrow> compensatingPlans_insert sc \<lparr> lk_organizationId = org, lk_planId = pl_id p,
           lk_actionId = pa_id act, lk_operationId = op, lk_createdAt = pl_createdAt p \<rparr> s))"

definition propose_work ::
  "env \<Rightarrow> string \<Rightarrow> plan_proposal \<Rightarrow> string option \<Rightarrow> scope \<Rightarrow> tenant \<Rightarrow> err + (plan \<times> tenant)" where
  "propose_work env org q compensation sc s =
     sbind (required (mission_get s (pp_missionId q)) (NotFoundError ''Mission'')) (\<lambda>m.
     sbind (assertSameTenant org [mi_organizationId m]) (\<lambda>_.
     if mi_state m \<noteq> mstate MRunning PhPlan
       then Inl (ConflictError ''Plans may be proposed only from the running plan checkpoint'')
     else if pp_revision q \<noteq> expected_revision s (mi_id m) then Inl (ConflictError ''Expected plan revision'')
     else if (case compensation of None \<Rightarrow> False
        | Some op \<Rightarrow> (case operation_get s op of None \<Rightarrow> True | Some x \<Rightarrow> op_status x \<noteq> OpCommitted))
       then Inl (ConflictError ''Compensating plans require a committed operation'')
     else let i = fresh_id env IdPlan s; s1 = bump s in
     if \<not> id_ok ''pln'' i then Inl (ZodError ''PlanId'')
     else let payload = proposal_payload i org m q in
     sbind (computePlanHash (en_planHash env) payload) (\<lambda>h.
     let p = candidate_plan payload h (read_clock env s1); s2 = tick s1 in
     if \<not> plan_ok (en_planHash env) p then Inl (ZodError ''Plan'')
     else sbind (plans_insert env sc p s2) (\<lambda>s3.
     sbind (link_compensation sc org p compensation s3) (\<lambda>s4.
     sbind (persistMissionTransition env sc m (mi_version m) CandidatePersisted s4) (\<lambda>(_, s5).
     sbind (contextSourceCount s5 m) (\<lambda>_. Inr (p, s5))))))))"

definition propose_checked ::
  "env \<Rightarrow> actor \<Rightarrow> plan_proposal \<Rightarrow> string option \<Rightarrow> tenant \<Rightarrow> err + (plan \<times> tenant)" where
  "propose_checked env ctx q compensation s =
     sbind (assertPermission (actor_principal ctx) RoutineDraft) (\<lambda>_.
     if cb_maxPlanRevisions CARETAKER_BUDGETS < pp_revision q
       then Inl (ConflictError ''Plan revision budget is exhausted'')
     else plan_mutation env ctx (pp_missionId q)
       (propose_work env (pr_organizationId (actor_principal ctx)) q compensation) s)"

definition plan_propose :: "env \<Rightarrow> actor \<Rightarrow> plan_proposal \<Rightarrow> tenant \<Rightarrow> err + (plan \<times> tenant)" where
  "plan_propose env ctx q s = (if list_ex is_restoration (pp_actions q)
     then Inl (ConflictError ''A restoration must be proposed as a compensating plan'')
     else propose_checked env ctx q None s)"

definition plan_proposeCompensating ::
  "env \<Rightarrow> actor \<Rightarrow> string \<Rightarrow> nat \<Rightarrow> restore_action \<Rightarrow> string list \<Rightarrow> string \<Rightarrow> tenant \<Rightarrow> err + (plan \<times> tenant)" where
  "plan_proposeCompensating env ctx missionId revision act criteria compensates s =
     sbind (assertPermission (actor_principal ctx) RecoveryPropose) (\<lambda>_.
     propose_checked env ctx \<lparr> pp_missionId = missionId, pp_revision = revision,
       pp_actions = [RestoreRoutineVersion act], pp_successCriteriaIds = criteria \<rparr> (Some compensates) s)"

section \<open>Validating\<close>

definition validation_record :: "plan \<Rightarrow> plan_check list \<Rightarrow> instant \<Rightarrow> plan_validation" where
  "validation_record p checks t = \<lparr> pv_planId = pl_id p, pv_valid = (checks \<noteq> [] \<and> list_all pk_passed checks),
     pv_checks = checks, pv_createdAt = t \<rparr>"

text \<open>The second transaction, on whatever state the store is in by then.\<close>

definition validation_work :: "env \<Rightarrow> plan \<Rightarrow> plan_validation \<Rightarrow> scope \<Rightarrow> tenant \<Rightarrow> err + (unit \<times> tenant)" where
  "validation_work env p v sc s =
     sbind (requirePlan s (pl_id p)) (\<lambda>cur.
     if pl_hash cur \<noteq> pl_hash p \<or> pl_status cur \<noteq> PlanCandidate
       then Inl (ConflictError ''Plan changed before validation committed'')
     else sbind (saveValidation sc v s) (\<lambda>s1.
     sbind (plans_save env sc (cur\<lparr> pl_status := (if pv_valid v then PlanValidated else PlanSuperseded) \<rparr>) s1) (\<lambda>s2.
     if pv_valid v then Inr ((), s2)
     else sbind (requireMission s2 (pl_missionId p)) (\<lambda>m.
       sbind (persistMissionTransition env sc m (mi_version m) ValidationFailed s2) (\<lambda>(_, s3). Inr ((), s3))))))"

definition commit_validation :: "env \<Rightarrow> actor \<Rightarrow> plan \<Rightarrow> plan_validation \<Rightarrow> tenant \<Rightarrow> err + (unit \<times> tenant)" where
  "commit_validation env ctx p v s = plan_mutation env ctx (pl_missionId p) (validation_work env p v) s"

definition plan_validate ::
  "env \<Rightarrow> (tenant \<Rightarrow> plan \<Rightarrow> err + plan_check list) \<Rightarrow> actor \<Rightarrow> string \<Rightarrow> tenant \<Rightarrow> err + (plan_validation \<times> tenant)" where
  "plan_validate env validator ctx planId s =
     sbind (assertPermission (actor_principal ctx) RoutineValidate) (\<lambda>_.
     sbind (read_plan env ctx planId s) (\<lambda>(p, s1).
     sbind (validator s1 p) (\<lambda>checks.
     let v = validation_record p checks (read_clock env s1) in
     sbind (commit_validation env ctx p v (tick s1)) (\<lambda>(_, s2). Inr (v, s2)))))"

section \<open>Simulating\<close>

definition simulation_record :: "plan \<Rightarrow> simulation_outcome \<Rightarrow> instant \<Rightarrow> plan_simulation" where
  "simulation_record p r t = \<lparr> ps_planId = pl_id p, ps_feasible = so_feasible r, ps_projected = so_projected r,
     ps_results = so_results r, ps_createdAt = t \<rparr>"

definition simulation_work :: "env \<Rightarrow> plan \<Rightarrow> plan_simulation \<Rightarrow> scope \<Rightarrow> tenant \<Rightarrow> err + (unit \<times> tenant)" where
  "simulation_work env p x sc s =
     sbind (saveSimulation sc x s) (\<lambda>s1.
     sbind (if ps_feasible x then Inr s1
       else sbind (requirePlan s1 (pl_id p)) (\<lambda>cur.
         sbind (plans_save env sc (cur\<lparr> pl_status := PlanSuperseded \<rparr>) s1) (\<lambda>s2.
         sbind (requireMission s2 (pl_missionId p)) (\<lambda>m.
         if mi_state m = mstate MRunning PhValidate
           then sbind (persistMissionTransition env sc m (mi_version m) ValidationFailed s2) (\<lambda>(_, s3). Inr s3)
           else Inr s2)))) (\<lambda>s4.
     sbind (requireMission s4 (pl_missionId p)) (\<lambda>_. Inr ((), s4))))"

definition commit_simulation :: "env \<Rightarrow> actor \<Rightarrow> plan \<Rightarrow> plan_simulation \<Rightarrow> tenant \<Rightarrow> err + (unit \<times> tenant)" where
  "commit_simulation env ctx p x s = plan_mutation env ctx (pl_missionId p) (simulation_work env p x) s"

definition plan_simulate ::
  "env \<Rightarrow> (plan \<Rightarrow> scenario list \<Rightarrow> err + simulation_outcome) \<Rightarrow> actor \<Rightarrow> string \<Rightarrow> scenario list \<Rightarrow> tenant \<Rightarrow>
   err + (plan_simulation \<times> tenant)" where
  "plan_simulate env simulator ctx planId scenarios s =
     sbind (assertPermission (actor_principal ctx) RoutineSimulate) (\<lambda>_.
     if \<not> unique scenarios \<or> scenarios = []
       then Inl (ConflictError ''Simulation scenarios must be non-empty and unique'')
     else sbind (read_plan env ctx planId s) (\<lambda>(p, s1).
     if \<not> List.member [PlanCandidate, PlanValidated] (pl_status p)
       then Inl (ConflictError ''Only a current candidate may be simulated'')
     else sbind (simulator p scenarios) (\<lambda>r.
     let x = simulation_record p r (read_clock env s1) in
     sbind (commit_simulation env ctx p x (tick s1)) (\<lambda>(_, s2). Inr (x, s2)))))"

section \<open>What each transaction does to the plan tables\<close>

text \<open>
  Every operation on plans has one of three effects: a candidate of the next revision is
  stored, one plan changes status as the trigger admits while assessments are appended, or
  only assessments are appended.
\<close>

definition revisions :: "tenant \<Rightarrow> string \<Rightarrow> nat list" where
  "revisions s m = List.map snd (filter (\<lambda>(x, _). x = m) (List.map (\<lambda>p. (pl_missionId p, pl_revision p)) (tn_plans s)))"

definition validation_coherent :: "plan_validation \<Rightarrow> bool" where
  "validation_coherent v = (pv_valid v = (pv_checks v \<noteq> [] \<and> list_all pk_passed (pv_checks v)))"

definition validated_in :: "plan_validation list \<Rightarrow> string \<Rightarrow> bool" where
  "validated_in vs i = (\<exists>v\<in>set vs. pv_planId v = i \<and> pv_valid v)"

definition simulated_in :: "plan_simulation list \<Rightarrow> string \<Rightarrow> bool" where
  "simulated_in xs i = (\<exists>x\<in>set xs. ps_planId x = i \<and> ps_feasible x)"

inductive plan_effect :: "tenant \<Rightarrow> tenant \<Rightarrow> bool" for s s' where
  inserted: "\<lbrakk> tn_plans s' = tn_plans s @ [p]; pl_status p = PlanCandidate;
      \<forall>q\<in>set (tn_plans s). pl_id q \<noteq> pl_id p; pl_revision p = expected_revision s (pl_missionId p);
      pl_revision p \<le> cb_maxPlanRevisions CARETAKER_BUDGETS;
      tn_validations s' = tn_validations s; tn_simulations s' = tn_simulations s \<rbrakk> \<Longrightarrow> plan_effect s s'"
| moved: "\<lbrakk> plan_get s i = Some q; tn_plans s' = upsert pl_id (q\<lparr> pl_status := st \<rparr>) (tn_plans s);
      st = pl_status q \<or> plan_status_change (pl_status q) st;
      tn_validations s' = tn_validations s @ vs; list_all validation_coherent vs;
      tn_simulations s' = tn_simulations s @ xs;
      st = PlanValidated \<Longrightarrow> st = pl_status q \<or> validated_in vs i;
      st = PlanAwaitingApproval \<Longrightarrow> st = pl_status q \<or> simulated_in (tn_simulations s) i \<rbrakk> \<Longrightarrow> plan_effect s s'"
| noted: "\<lbrakk> tn_plans s' = tn_plans s; tn_validations s' = tn_validations s;
      tn_simulations s' = tn_simulations s @ xs \<rbrakk> \<Longrightarrow> plan_effect s s'"

definition plan_tables :: "tenant \<Rightarrow> plan list \<times> plan_validation list \<times> plan_simulation list" where
  "plan_tables s = (tn_plans s, tn_validations s, tn_simulations s)"

lemma plan_effect_cong:
  assumes "plan_effect r r'" "plan_tables s = plan_tables r" "plan_tables s' = plan_tables r'"
  shows "plan_effect s s'"
  using assms(1)
proof cases
  case (inserted p)
  with assms(2,3) show ?thesis
    by (intro plan_effect.inserted[of s' s p]) (auto simp: plan_tables_def expected_revision_def getLatestForMission_def)
next
  case (moved i q st vs xs)
  with assms(2,3) show ?thesis
    by (intro plan_effect.moved[of s i q s' st vs xs]) (auto simp: plan_tables_def plan_get_def)
next
  case (noted xs)
  with assms(2,3) show ?thesis by (intro plan_effect.noted[of s' s xs]) (auto simp: plan_tables_def)
qed

lemma plan_tables_frames [simp]:
  "plan_tables (tick s) = plan_tables s" "plan_tables (bump s) = plan_tables s"
  "plan_tables (db_tick n s) = plan_tables s"
  "plan_tables (record_mission x e s) = plan_tables s"
  by (simp_all add: plan_tables_def tick_def bump_def db_tick_def record_mission_def)

lemma persist_plan_tables:
  "persistMissionTransition env sc m v ev s = Inr (m', s') \<Longrightarrow> plan_tables s' = plan_tables s"
  by (erule persistMissionTransition_Inr) simp

lemma resume_plan_tables: "enqueueMissionResume env sc m s = Inr s' \<Longrightarrow> plan_tables s' = plan_tables s"
  by (erule enqueueMissionResume_Inr) (simp add: plan_tables_def)

lemma approvals_save_plan_tables: "approvals_save sc a s = Inr s' \<Longrightarrow> plan_tables s' = plan_tables s"
  by (erule approvals_save_Inr) (simp add: plan_tables_def)

lemma approvals_insert_plan_tables: "approvals_insert sc a s = Inr s' \<Longrightarrow> plan_tables s' = plan_tables s"
  by (erule approvals_insert_Inr) (simp add: plan_tables_def)

lemma create_operations_plan_tables:
  "create_operations env org p a m t acts s = Inr (ops, s') \<Longrightarrow> plan_tables s' = plan_tables s"
  by (drule create_operations_Inr) (auto simp: plan_tables_def)

lemmas plan_table_frames = persist_plan_tables resume_plan_tables approvals_save_plan_tables
  approvals_insert_plan_tables create_operations_plan_tables

lemma plan_mutation_Inr:
  assumes "plan_mutation env ctx m work s = Inr (x, s')"
  obtains sc r where "work sc r = Inr (x, s')" "r = s \<or> r = db_tick 1 s" "tn_org s = pr_organizationId (actor_principal ctx)"
proof (cases ctx)
  case (SessionActor c)
  with assms show ?thesis
    by (intro that[of Unfenced s]) (simp_all add: plan_mutation_def Let_def sbind_eq_Inr)
next
  case (MissionActor c)
  with assms show ?thesis
    by (intro that[of "Fenced (fe_missionId (xc_fence c)) (fe_epoch (xc_fence c))" "db_tick 1 s"])
      (auto simp: plan_mutation_def Let_def sbind_eq_Inr runFenced_eq_Inr)
qed

text \<open>One status write, with what was appended before it.\<close>

lemma status_write_effect:
  assumes w: "plans_save env sc (cur\<lparr> pl_status := st \<rparr>) r = Inr r'" and cur: "plan_get r (pl_id cur) = Some cur"
    and r: "tn_plans r = tn_plans s" "tn_validations r = tn_validations s @ vs" "tn_simulations r = tn_simulations s @ xs"
    and co: "list_all validation_coherent vs"
    and v: "st = PlanValidated \<Longrightarrow> st = pl_status cur \<or> validated_in vs (pl_id cur)"
    and x: "st = PlanAwaitingApproval \<Longrightarrow> st = pl_status cur \<or> simulated_in (tn_simulations s) (pl_id cur)"
  shows "plan_effect s r'"
proof -
  from w obtain stored where "plan_get r (pl_id cur) = Some stored"
    and c: "st = pl_status stored \<or> plan_status_change (pl_status stored) st"
    and r': "r' = r\<lparr> tn_plans := upsert pl_id (stored\<lparr> pl_status := st \<rparr>) (tn_plans r) \<rparr>"
    by (rule plans_save_Inr) simp
  with cur have e: "stored = cur" by simp
  have g: "plan_get s (pl_id cur) = Some cur" using cur r(1) by (simp add: plan_get_def)
  show ?thesis
    by (rule plan_effect.moved[OF g, where st = st and vs = vs and xs = xs])
       (use c co v x r in \<open>auto simp: r' e\<close>)
qed

lemma saveValidation_Inr:
  "saveValidation sc v s = Inr s' \<Longrightarrow> s' = s\<lparr> tn_validations := tn_validations s @ [v] \<rparr>"
  by (auto simp: saveValidation_def result_simps split: if_splits)

lemma saveSimulation_Inr:
  "saveSimulation sc x s = Inr s' \<Longrightarrow> s' = s\<lparr> tn_simulations := tn_simulations s @ [x] \<rparr>"
  by (auto simp: saveSimulation_def result_simps split: if_splits)

lemma validation_record_coherent [simp]: "validation_coherent (validation_record p checks t)"
  by (simp add: validation_coherent_def validation_record_def)

lemma validation_work_effect:
  assumes "validation_work env p v sc s = Inr (u, s')" "pv_planId v = pl_id p" "validation_coherent v"
  shows "plan_effect s s'"
proof -
  from assms(1) obtain cur s2 where cur: "plan_get s (pl_id p) = Some cur"
    and w: "plans_save env sc (cur\<lparr> pl_status := (if pv_valid v then PlanValidated else PlanSuperseded) \<rparr>)
        (s\<lparr> tn_validations := tn_validations s @ [v] \<rparr>) = Inr s2"
    and t: "plan_tables s' = plan_tables s2"
    by (cases "pv_valid v")
      (auto simp: validation_work_def result_simps dest!: saveValidation_Inr plan_table_frames split: if_splits)
  have i: "pl_id cur = pl_id p" using plan_content_id[OF cur] .
  have "plan_effect s s2"
    by (rule status_write_effect[OF w, where vs = "[v]" and xs = "[]"])
      (use cur i assms(2,3) in \<open>auto simp: plan_get_def validated_in_def split: if_splits\<close>)
  then show ?thesis by (rule plan_effect_cong) (simp_all add: t)
qed

lemma simulation_work_effect:
  assumes "simulation_work env p x sc s = Inr (u, s')" "ps_planId x = pl_id p"
  shows "plan_effect s s'"
proof (cases "ps_feasible x")
  case True
  with assms(1) have "plan_tables s' = plan_tables (s\<lparr> tn_simulations := tn_simulations s @ [x] \<rparr>)"
    by (auto simp: simulation_work_def result_simps dest!: saveSimulation_Inr)
  then show ?thesis by (intro plan_effect.noted[of s' s "[x]"]) (simp_all add: plan_tables_def)
next
  case False
  with assms(1) obtain cur s2 where cur: "plan_get s (pl_id p) = Some cur"
    and w: "plans_save env sc (cur\<lparr> pl_status := PlanSuperseded \<rparr>)
        (s\<lparr> tn_simulations := tn_simulations s @ [x] \<rparr>) = Inr s2"
    and t: "plan_tables s' = plan_tables s2"
    by (auto simp: simulation_work_def result_simps plan_get_def requirePlan_def
        dest!: saveSimulation_Inr plan_table_frames split: if_splits)
  have i: "pl_id cur = pl_id p" using plan_content_id[OF cur] .
  have "plan_effect s s2"
    by (rule status_write_effect[OF w, where vs = "[]" and xs = "[x]"])
      (use cur i in \<open>auto simp: plan_get_def\<close>)
  then show ?thesis by (rule plan_effect_cong) (simp_all add: t)
qed

lemma propose_work_effect:
  assumes "propose_work env org q compensation sc s = Inr (p, s')" "pp_revision q \<le> cb_maxPlanRevisions CARETAKER_BUDGETS"
  shows "plan_effect s s'"
proof -
  from assms(1) obtain m payload h s2 s3 s4 where m: "mission_get s (pp_missionId q) = Some m"
    and rv: "pp_revision q = expected_revision s (mi_id m)"
    and pl: "payload = proposal_payload (fresh_id env IdPlan s) org m q"
    and p: "p = candidate_plan payload h (read_clock env (bump s))"
    and s2: "s2 = tick (bump s)" and w: "plans_insert env sc p s2 = Inr s3"
    and l: "link_compensation sc org p compensation s3 = Inr s4" and t: "plan_tables s' = plan_tables s4"
    by (auto simp: propose_work_def result_simps Let_def dest!: plan_table_frames split: if_splits)
  have "plan_tables s4 = plan_tables s3"
    using l by (auto simp: link_compensation_def compensatingPlans_insert_def plan_tables_def result_simps
        split: option.splits list.splits if_splits)
  moreover from w have s3: "s3 = s2\<lparr> tn_plans := tn_plans s2 @ [p] \<rparr>" "\<forall>x\<in>set (tn_plans s2). pl_id x \<noteq> pl_id p"
    by (auto simp: plans_insert_def result_simps list_ex_iff split: if_splits)
  moreover have "pl_missionId p = mi_id m" "pl_revision p = pp_revision q" "pl_status p = PlanCandidate"
    by (simp_all add: p pl candidate_plan_def proposal_payload_def)
  ultimately show ?thesis
    using rv assms(2) t by (intro plan_effect.inserted[of s' s p]) (auto simp: s2 plan_tables_def tick_def bump_def)
qed

lemma validation_record_planId [simp]: "pv_planId (validation_record p checks t) = pl_id p"
  by (simp add: validation_record_def)

lemma approval_request_effect:
  assumes "approval_request env ctx planId s = Inr (a, s')"
  shows "plan_effect s s'"
proof -
  have "\<exists>sc r. approval_request_work env sc ctx planId r = Inr (a, s') \<and> plan_tables r = plan_tables s"
  proof (cases ctx)
    case (SessionActor c)
    with assms show ?thesis by (intro exI[of _ Unfenced] exI[of _ s]) (auto simp: approval_request_def Let_def sbind_eq_Inr)
  next
    case (MissionActor c)
    with assms show ?thesis
      by (intro exI[of _ "Fenced (fe_missionId (xc_fence c)) (fe_epoch (xc_fence c))"] exI[of _ "db_tick 1 s"])
        (auto simp: approval_request_def Let_def sbind_eq_Inr runFenced_eq_Inr)
  qed
  then obtain sc r where w: "approval_request_work env sc ctx planId r = Inr (a, s')"
    and r: "plan_tables r = plan_tables s" by blast
  from w obtain p s4 s5 where p: "plan_get r planId = Some p" and v: "assessed r (pl_id p)"
    and sv: "plans_save env sc (p\<lparr> pl_status := PlanAwaitingApproval \<rparr>) s4 = Inr s5"
    and t: "plan_tables s4 = plan_tables r" "plan_tables s' = plan_tables s5"
    by (auto simp: approval_request_work_def Let_def result_simps dest!: plan_table_frames split: if_splits)
  have i: "pl_id p = planId" using plan_content_id[OF p] .
  have "simulated_in (tn_simulations r) (pl_id p)"
  proof -
    from v obtain x where "x \<in> set (listSimulations r (pl_id p))" "ps_feasible x"
      by (cases "listSimulations r (pl_id p)") (auto simp: assessed_def Let_def list_ex_iff)
    then show ?thesis by (auto simp: simulated_in_def listSimulations_def)
  qed
  then have "plan_effect r s5"
    by (intro status_write_effect[OF sv, where vs = "[]" and xs = "[]"])
      (use p i t(1) in \<open>auto simp: plan_tables_def plan_get_def\<close>)
  then show ?thesis by (rule plan_effect_cong) (simp_all add: r t)
qed

lemma closing_effect:
  assumes "plans_save env sc (p\<lparr> pl_status := st \<rparr>) r = Inr r'" "plan_get s (pl_id p) = Some p"
    and "plan_tables r = plan_tables s" "plan_tables s' = plan_tables r'"
    and "st \<in> {PlanSuperseded, PlanRejected, PlanApproved}"
  shows "plan_effect s s'"
proof -
  have "plan_effect r r'"
    by (rule status_write_effect[OF assms(1), where vs = "[]" and xs = "[]"])
      (use assms(2,3,5) in \<open>auto simp: plan_tables_def plan_get_def\<close>)
  then show ?thesis by (rule plan_effect_cong) (use assms in simp_all)
qed

text \<open>What \<open>decide\<close> does with a request that is still live.\<close>

definition decide_live ::
  "env \<Rightarrow> principal \<Rightarrow> approval \<Rightarrow> plan \<Rightarrow> mission \<Rightarrow> approval_choice \<Rightarrow> tenant \<Rightarrow> instant \<Rightarrow> err + (decision_result \<times> tenant)" where
  "decide_live env pr a p m choice r t = (let org = pr_organizationId pr in (case choice of
        Reject \<Rightarrow>
          let b = a\<lparr> ap_status := ApprovalWasRejected \<rparr> in
          sbind (approvals_save Unfenced b r) (\<lambda>s2.
          sbind (plans_save env Unfenced (p\<lparr> pl_status := PlanRejected \<rparr>) s2) (\<lambda>s3.
          sbind (persistMissionTransition env Unfenced m (mi_version m) ApprovalRejected s3) (\<lambda>(m', s4).
          sbind (enqueueMissionResume env Unfenced m' s4) (\<lambda>s5.
          Inr (DecisionRejected b m', s5)))))
      | Approve \<Rightarrow>
          let b = a\<lparr> ap_status := ApprovalApproved, ap_approvedBy := Some (pr_actorId pr),
                ap_approverRole := Some (pr_role pr), ap_approvedAt := Some t \<rparr> in
          if \<not> approval_ok b then Inl (ZodError ''Approval'')
          else sbind (plans_save env Unfenced (p\<lparr> pl_status := PlanApproved \<rparr>) r) (\<lambda>s2.
          sbind (approvals_save Unfenced b s2) (\<lambda>s3.
          sbind (create_operations env org p (ap_id b) m t (pl_actions p) s3) (\<lambda>(ops, s4).
          sbind (persistMissionTransition env Unfenced m (mi_version m) ApprovalGranted s4) (\<lambda>(m', s5).
          sbind (enqueueMissionResume env Unfenced m' s5) (\<lambda>s6.
          if list_ex (\<lambda>x. is_none (find_action (op_planActionId x) p)) ops
            then Inl (ConflictError ''Approved operation lacks its plan action'')
          else Inr (DecisionApproved b ops m', s6))))))))"

lemma decide_work_live:
  "decide_work env pr approvalId nonce choice s =
     sbind (required (approval_get s approvalId) (NotFoundError ''Approval'')) (\<lambda>a.
     sbind (requirePlan s (ap_planId a)) (\<lambda>p.
     sbind (requireMission s (ap_missionId a)) (\<lambda>m.
     sbind (assertSameTenant (pr_organizationId pr) [ap_organizationId a, pl_organizationId p, mi_organizationId m]) (\<lambda>_.
     if ap_status a \<noteq> ApprovalPending
       then Inl (ConflictError ''Approval request is no longer pending'')
     else if ap_nonce a \<noteq> nonce then Inl (ConflictError ''Approval nonce does not match'')
     else if ap_expiresAt a \<le> read_clock env s then invalidate_request env a p m True (tick s)
     else if \<not> protectedResourcesAreCurrent (tick s) (ap_protectedResources a)
       then invalidate_request env a p m False (tick s)
     else decide_live env pr a p m choice (tick s) (read_clock env s)))))"
  unfolding decide_work_def decide_live_def Let_def by (rule refl)

lemma decide_effect:
  assumes "decide env ctx req i nonce choice s = Inr (d, s')"
  shows "plan_effect s s'"
proof -
  let ?s = "tick (tick s)"
  from decide_Inr(1)[OF assms] have w: "decide_work env (sc_principal ctx) i nonce choice ?s = Inr (d, s')" .
  then obtain a p m where p: "plan_get ?s (ap_planId a) = Some p"
    and body: "(if ap_expiresAt a \<le> read_clock env ?s then invalidate_request env a p m True (tick ?s)
      else if \<not> protectedResourcesAreCurrent (tick ?s) (ap_protectedResources a)
        then invalidate_request env a p m False (tick ?s)
      else decide_live env (sc_principal ctx) a p m choice (tick ?s) (read_clock env ?s)) = Inr (d, s')"
    by (auto simp: decide_work_live sbind_eq_Inr)
  have p': "plan_get s (pl_id p) = Some p"
    using p plan_content_id[OF p] by (simp add: plan_get_def tick_def)
  show ?thesis
  proof (cases "ap_expiresAt a \<le> read_clock env ?s \<or> \<not> protectedResourcesAreCurrent (tick ?s) (ap_protectedResources a)")
    case True
    with body obtain e where "invalidate_request env a p m e (tick ?s) = Inr (d, s')" by (auto split: if_splits)
    then obtain s2 s3 where 1: "plan_tables s2 = plan_tables s"
      and 2: "plans_save env Unfenced (p\<lparr> pl_status := PlanSuperseded \<rparr>) s2 = Inr s3" "plan_tables s' = plan_tables s3"
      by (auto simp: invalidate_request_def Let_def sbind_eq_Inr dest!: plan_table_frames)
    then show ?thesis using 1 p' by (intro closing_effect[OF 2(1)]) simp_all
  next
    case False
    with body have l: "decide_live env (sc_principal ctx) a p m choice (tick ?s) (read_clock env ?s) = Inr (d, s')" by simp
    show ?thesis
    proof (cases choice)
      case Approve
      with l obtain s2 where 2: "plans_save env Unfenced (p\<lparr> pl_status := PlanApproved \<rparr>) (tick ?s) = Inr s2"
        "plan_tables s' = plan_tables s2"
        by (auto simp: decide_live_def Let_def sbind_eq_Inr dest!: plan_table_frames)
      then show ?thesis using p' by (intro closing_effect[OF 2(1)]) simp_all
    next
      case Reject
      with l obtain s2 s3 where 1: "plan_tables s2 = plan_tables s"
        and 2: "plans_save env Unfenced (p\<lparr> pl_status := PlanRejected \<rparr>) s2 = Inr s3" "plan_tables s' = plan_tables s3"
        by (auto simp: decide_live_def Let_def sbind_eq_Inr dest!: plan_table_frames)
      then show ?thesis using 1 p' by (intro closing_effect[OF 2(1)]) simp_all
    qed
  qed
qed

section \<open>Runs of the plan tables\<close>

text \<open>
  The transactions that touch plans, and any other transaction of the program, which leaves
  their tables alone.
\<close>

inductive plan_step :: "env \<Rightarrow> tenant \<Rightarrow> tenant \<Rightarrow> bool" for env s where
  proposes: "propose_checked env ctx q compensation s = Inr (p, s') \<Longrightarrow> plan_step env s s'"
| validates: "commit_validation env ctx p (validation_record p checks t) s = Inr (u, s') \<Longrightarrow> plan_step env s s'"
| simulates: "commit_simulation env ctx p (simulation_record p r t) s = Inr (u, s') \<Longrightarrow> plan_step env s s'"
| requests: "approval_request env ctx planId s = Inr (a, s') \<Longrightarrow> plan_step env s s'"
| decides: "decide env sctx req i nonce choice s = Inr (d, s') \<Longrightarrow> plan_step env s s'"
| elsewhere: "plan_tables s' = plan_tables s \<Longrightarrow> plan_step env s s'"

lemma db_tick_effect: "plan_effect r s' \<Longrightarrow> r = s \<or> r = db_tick 1 s \<Longrightarrow> plan_effect s s'"
  by (erule plan_effect_cong) auto

lemma plan_step_effect: "plan_step env s s' \<Longrightarrow> plan_effect s s'"
proof (induction rule: plan_step.induct)
  case (proposes ctx q compensation p s')
  from proposes have b: "pp_revision q \<le> cb_maxPlanRevisions CARETAKER_BUDGETS"
    and "plan_mutation env ctx (pp_missionId q)
      (propose_work env (pr_organizationId (actor_principal ctx)) q compensation) s = Inr (p, s')"
    by (auto simp: propose_checked_def result_simps split: if_splits)
  from this(2) show ?case by (rule plan_mutation_Inr) (rule db_tick_effect[OF propose_work_effect[OF _ b]])
next
  case (validates ctx p checks t u s')
  then show ?case unfolding commit_validation_def
    by (rule plan_mutation_Inr) (rule db_tick_effect[OF validation_work_effect], auto)
next
  case (simulates ctx p r t u s')
  then show ?case unfolding commit_simulation_def
    by (rule plan_mutation_Inr) (rule db_tick_effect[OF simulation_work_effect], auto simp: simulation_record_def)
next
  case (elsewhere s')
  then show ?case by (intro plan_effect.noted[of s' s "[]"]) (simp_all add: plan_tables_def)
qed (auto intro: approval_request_effect decide_effect)

definition plan_book_ok :: "tenant \<Rightarrow> bool" where
  "plan_book_ok s = (distinct (List.map pl_id (tn_plans s)) \<and>
     (\<forall>m. \<exists>n\<le>cb_maxPlanRevisions CARETAKER_BUDGETS. revisions s m = [1..<Suc n]) \<and>
     list_all validation_coherent (tn_validations s) \<and>
     (\<forall>p\<in>set (tn_plans s).
        (pl_status p \<in> {PlanValidated, PlanAwaitingApproval, PlanApproved} \<longrightarrow> validated_in (tn_validations s) (pl_id p)) \<and>
        (pl_status p \<in> {PlanAwaitingApproval, PlanApproved} \<longrightarrow> simulated_in (tn_simulations s) (pl_id p))))"

lemma latest_revision:
  assumes "revisions s m = [1..<Suc n]"
  shows "expected_revision s m = Suc n"
proof -
  let ?ps = "filter (\<lambda>p. pl_missionId p = m) (tn_plans s)"
  have r: "List.map pl_revision ?ps = [1..<Suc n]"
    using assms by (simp add: revisions_def filter_map o_def split_beta cong: filter_cong)
  then have "sorted (List.map pl_revision ?ps)" by (simp del: upt_Suc)
  then have k: "sort_key pl_revision ?ps = ?ps" by (rule sort_key_id_if_sorted)
  show ?thesis
  proof (cases "?ps" rule: rev_cases)
    case Nil
    with r have "n = 0" by (cases n) auto
    with k Nil show ?thesis by (simp add: expected_revision_def getLatestForMission_def)
  next
    case (snoc qs q)
    with r have "n \<noteq> 0" "pl_revision q = n" by (cases n; auto)+
    with k snoc show ?thesis by (simp add: expected_revision_def getLatestForMission_def)
  qed
qed

lemma map_upsert_same:
  assumes "lookup_by key (key y) xs = Some x" "h y = h x"
  shows "List.map h (upsert key y xs) = List.map h xs"
  using assms by (induction xs) (auto split: if_splits)

lemma validated_in_append [simp]: "validated_in (vs @ ws) i \<longleftrightarrow> validated_in vs i \<or> validated_in ws i"
  by (auto simp: validated_in_def)

lemma simulated_in_append [simp]: "simulated_in (xs @ ys) i \<longleftrightarrow> simulated_in xs i \<or> simulated_in ys i"
  by (auto simp: simulated_in_def)

lemma plan_status_change_cases:
  assumes "plan_status_change old new"
  shows "(new = PlanApproved \<longrightarrow> old = PlanAwaitingApproval) \<and> (new = PlanAwaitingApproval \<longrightarrow> old = PlanValidated)"
  using assms by (cases old) auto

lemma plan_effect_keeps_book:
  assumes "plan_effect s s'" "plan_book_ok s"
  shows "plan_book_ok s'"
  using assms(1)
proof cases
  case (inserted p)
  obtain n where n: "revisions s (pl_missionId p) = [1..<Suc n]" using assms(2) by (auto simp: plan_book_ok_def)
  have "revisions s' m = (if m = pl_missionId p then revisions s m @ [pl_revision p] else revisions s m)" for m
    using inserted(1) by (simp add: revisions_def)
  moreover have "pl_revision p = Suc n" using inserted(4) latest_revision[OF n] by simp
  ultimately have "\<exists>k\<le>cb_maxPlanRevisions CARETAKER_BUDGETS. revisions s' m = [1..<Suc k]" for m
    using assms(2) n inserted(5) by (cases "m = pl_missionId p") (auto simp: plan_book_ok_def intro!: exI[of _ "Suc n"])
  with assms(2) inserted show ?thesis by (auto simp: plan_book_ok_def)
next
  case (moved i q st vs xs)
  have q: "q \<in> set (tn_plans s)" "pl_id q = i" "lookup_by pl_id (pl_id (q\<lparr> pl_status := st \<rparr>)) (tn_plans s) = Some q"
    using moved(1) lookup_by_SomeD[of pl_id i "tn_plans s" q] by (auto simp: plan_get_def)
  have "revisions s' m = revisions s m" for m
    using map_upsert_same[OF q(3), of "\<lambda>p. (pl_missionId p, pl_revision p)"] by (simp add: revisions_def moved(2))
  moreover have "List.map pl_id (tn_plans s') = List.map pl_id (tn_plans s)"
    using map_upsert_same[OF q(3), of pl_id] by (simp add: moved(2))
  moreover have "set (tn_plans s') \<subseteq> insert (q\<lparr> pl_status := st \<rparr>) (set (tn_plans s))"
    by (simp add: moved(2) set_upsert_subset)
  moreover have "st \<in> {PlanValidated, PlanAwaitingApproval, PlanApproved} \<Longrightarrow> validated_in (tn_validations s') i"
    and "st \<in> {PlanAwaitingApproval, PlanApproved} \<Longrightarrow> simulated_in (tn_simulations s') i"
    using assms(2) q(1,2) moved(3,4,6,7,8) plan_status_change_cases[of "pl_status q" st]
    by (fastforce simp: plan_book_ok_def)+
  ultimately show ?thesis using assms(2) moved(4,5,6) q(2) unfolding plan_book_ok_def
    by (auto 0 4 simp: subset_iff)
next
  case (noted xs)
  with assms(2) show ?thesis by (auto simp: plan_book_ok_def revisions_def)
qed

lemma plan_runs_keep_book: "(plan_step env)\<^sup>*\<^sup>* s s' \<Longrightarrow> plan_book_ok s \<Longrightarrow> plan_book_ok s'"
  by (induction rule: rtranclp_induct) (auto dest: plan_step_effect plan_effect_keeps_book)

section \<open>Whole operations\<close>

lemma read_plan_Inr:
  assumes "read_plan env ctx planId s = Inr (p, s')"
  shows "plan_get s planId = Some p" "s' = s \<or> s' = db_tick 1 s"
proof -
  obtain q :: plan where "plan_mutation env ctx (pl_missionId q) (\<lambda>_ t. sbind (requirePlan t planId) (\<lambda>q. Inr (q, t))) s = Inr (p, s')"
    using assms by (auto simp: read_plan_def sbind_eq_Inr)
  then show "plan_get s planId = Some p" "s' = s \<or> s' = db_tick 1 s"
    by (rule plan_mutation_Inr; auto simp: sbind_eq_Inr plan_get_def db_tick_def)+
qed

lemma plan_validate_Inr:
  assumes "plan_validate env validator ctx planId s = Inr (v, s')"
  obtains p checks r u where "plan_get s planId = Some p" "r = s \<or> r = db_tick 1 s" "validator r p = Inr checks"
    "v = validation_record p checks (read_clock env r)" "commit_validation env ctx p v (tick r) = Inr (u, s')"
proof -
  from assms obtain p r checks u where a: "read_plan env ctx planId s = Inr (p, r)" "validator r p = Inr checks"
    "v = validation_record p checks (read_clock env r)" "commit_validation env ctx p v (tick r) = Inr (u, s')"
    by (auto simp: plan_validate_def sbind_eq_Inr Let_def)
  from read_plan_Inr[OF a(1)] a(2-4) show thesis by (rule that)
qed

lemma plan_simulate_Inr:
  assumes "plan_simulate env simulator ctx planId scenarios s = Inr (x, s')"
  obtains p o' r u where "plan_get s planId = Some p" "r = s \<or> r = db_tick 1 s" "simulator p scenarios = Inr o'"
    "x = simulation_record p o' (read_clock env r)" "commit_simulation env ctx p x (tick r) = Inr (u, s')"
proof -
  from assms obtain p r o' u where a: "read_plan env ctx planId s = Inr (p, r)" "simulator p scenarios = Inr o'"
    "x = simulation_record p o' (read_clock env r)" "commit_simulation env ctx p x (tick r) = Inr (u, s')"
    by (auto simp: plan_simulate_def sbind_eq_Inr Let_def split: if_splits)
  from read_plan_Inr[OF a(1)] a(2-4) show thesis by (rule that)
qed

text \<open>Each whole operation is a run: its reads touch no plan, its commit is one transaction.\<close>

lemma before_commit: "plan_step env (tick r) s' \<Longrightarrow> r = s \<or> r = db_tick 1 s \<Longrightarrow> (plan_step env)\<^sup>*\<^sup>* s s'"
  by (rule converse_rtranclp_into_rtranclp[of _ s "tick r"]) (auto intro: plan_step.elsewhere)

lemma plan_operations_run:
  shows "plan_propose env ctx q s = Inr (p, s') \<Longrightarrow> (plan_step env)\<^sup>*\<^sup>* s s'"
    and "plan_proposeCompensating env ctx missionId revision act criteria compensates s = Inr (p, s') \<Longrightarrow>
      (plan_step env)\<^sup>*\<^sup>* s s'"
    and "plan_validate env validator ctx planId s = Inr (v, s') \<Longrightarrow> (plan_step env)\<^sup>*\<^sup>* s s'"
    and "plan_simulate env simulator ctx planId scenarios s = Inr (x, s') \<Longrightarrow> (plan_step env)\<^sup>*\<^sup>* s s'"
    and "approval_request env ctx planId s = Inr (a, s') \<Longrightarrow> (plan_step env)\<^sup>*\<^sup>* s s'"
    and "decide env sctx req i nonce choice s = Inr (d, s') \<Longrightarrow> (plan_step env)\<^sup>*\<^sup>* s s'"
proof -
  show "plan_validate env validator ctx planId s = Inr (v, s') \<Longrightarrow> (plan_step env)\<^sup>*\<^sup>* s s'"
    by (erule plan_validate_Inr, rule before_commit) (auto intro: plan_step.validates)
  show "plan_simulate env simulator ctx planId scenarios s = Inr (x, s') \<Longrightarrow> (plan_step env)\<^sup>*\<^sup>* s s'"
    by (erule plan_simulate_Inr, rule before_commit) (auto intro: plan_step.simulates)
qed (auto simp: plan_propose_def plan_proposeCompensating_def sbind_eq_Inr split: if_splits
      intro: plan_step.intros r_into_rtranclp)

lemma plan_sound_cong:
  assumes "tn_routines s' = tn_routines s" "tn_versions s' = tn_versions s"
    and "tn_devices s' = tn_devices s" "tn_capabilities s' = tn_capabilities s"
  shows "plan_sound s' p = plan_sound s p"
  unfolding plan_sound_def homecoming_sound_def hauler_sound_def protected_is_current_def getCurrentVersion_def
    routine_get_def version_of_def capabilities_list_def capability_devices_def assms by (rule refl)

lemma validation_failed_replans: "resolveMissionTransition st ValidationFailed = Inr st' \<Longrightarrow> st' = mstate MRunning PhPlan"
  by (auto simp: mission_eval split: if_splits)

text \<open>What committing a validation leaves, for either verdict.\<close>

lemma validation_work_Inr:
  assumes "validation_work env p v sc s = Inr (u, s')" "pv_planId v = pl_id p"
  shows "tn_validations s' = tn_validations s @ [v]"
    and "\<exists>q. plan_get s' (pl_id p) = Some q \<and> pl_hash q = pl_hash p \<and>
      pl_status q = (if pv_valid v then PlanValidated else PlanSuperseded)"
    and "pv_valid v \<Longrightarrow> tn_missions s' = tn_missions s"
    and "\<not> pv_valid v \<Longrightarrow> \<exists>m. mission_get s' (pl_missionId p) = Some m \<and> mi_state m = mstate MRunning PhPlan"
proof -
  let ?st = "if pv_valid v then PlanValidated else PlanSuperseded"
  from assms(1) obtain cur s2 where cur: "plan_get s (pl_id p) = Some cur" "pl_hash cur = pl_hash p"
    and w: "plans_save env sc (cur\<lparr> pl_status := ?st \<rparr>) (s\<lparr> tn_validations := tn_validations s @ [v] \<rparr>) = Inr s2"
    and valid: "pv_valid v \<Longrightarrow> s' = s2"
    and invalid: "\<not> pv_valid v \<Longrightarrow> \<exists>m m'. mission_get s2 (pl_missionId p) = Some m \<and>
        persistMissionTransition env sc m (mi_version m) ValidationFailed s2 = Inr (m', s')"
    by (cases "pv_valid v") (auto simp: validation_work_def sbind_eq_Inr dest!: saveValidation_Inr split: if_splits)
  have t: "plan_tables s' = plan_tables s2" using valid invalid persist_plan_tables by (cases "pv_valid v") blast+
  from w have v2: "tn_validations s2 = tn_validations s @ [v]" "tn_missions s2 = tn_missions s"
    by (rule plans_save_Inr; simp)+
  with t show "tn_validations s' = tn_validations s @ [v]" by (simp add: plan_tables_def)
  from plans_save_status[OF w] plan_content_id[OF cur(1)] cur(2) t
  show "\<exists>q. plan_get s' (pl_id p) = Some q \<and> pl_hash q = pl_hash p \<and> pl_status q = ?st"
    by (auto simp: plan_tables_def plan_get_def)
  show "pv_valid v \<Longrightarrow> tn_missions s' = tn_missions s" using valid v2 by simp
  assume "\<not> pv_valid v"
  with invalid obtain m m' where m: "mission_get s2 (pl_missionId p) = Some m"
    "persistMissionTransition env sc m (mi_version m) ValidationFailed s2 = Inr (m', s')" by blast
  from persist_stored[OF m(2)] persist_advances(1)[OF m(2)] mission_get_id[OF m(1)]
  show "\<exists>m. mission_get s' (pl_missionId p) = Some m \<and> mi_state m = mstate MRunning PhPlan"
    by (auto simp: mission_step_iff_resolve dest!: validation_failed_replans)
qed

text \<open>A superseded plan can be neither approved nor rejected.\<close>

lemma superseded_requests_only_lapse:
  assumes "decide env ctx req i nonce choice s = Inr (d, s')"
    and "approval_get s i = Some a" "plan_get s (ap_planId a) = Some p" "pl_status p = PlanSuperseded"
  shows "(\<exists>b m'. d = DecisionExpired b m') \<or> (\<exists>b m'. d = DecisionStale b m')"
proof (rule ccontr)
  assume n: "\<not> ?thesis"
  let ?s = "tick (tick s)"
  have g: "approval_get ?s i = Some a" "plan_get ?s (ap_planId a) = Some p"
    using assms(2,3) by (simp_all add: approval_get_def plan_get_def tick_def)
  with decide_Inr(1)[OF assms(1)] n obtain m t where
    l: "decide_live env (sc_principal ctx) a p m choice (tick ?s) t = Inr (d, s')"
    by (auto simp: decide_work_live sbind_eq_Inr invalidate_request_def Let_def split: if_splits)
  have "\<exists>st r r'. st \<in> {PlanApproved, PlanRejected} \<and> tn_plans r = tn_plans ?s \<and>
      plans_save env Unfenced (p\<lparr> pl_status := st \<rparr>) r = Inr r'"
  proof (cases choice)
    case Approve
    with l obtain s2 where "plans_save env Unfenced (p\<lparr> pl_status := PlanApproved \<rparr>) (tick ?s) = Inr s2"
      by (auto simp: decide_live_def sbind_eq_Inr Let_def)
    then show ?thesis by (intro exI[of _ PlanApproved] exI[of _ "tick ?s"] exI[of _ s2]) (auto simp: frame_simps)
  next
    case Reject
    with l obtain b s2 s3 where "approvals_save Unfenced b (tick ?s) = Inr s2"
      "plans_save env Unfenced (p\<lparr> pl_status := PlanRejected \<rparr>) s2 = Inr s3"
      by (auto simp: decide_live_def sbind_eq_Inr Let_def)
    then show ?thesis using approvals_save_plan_tables[of Unfenced b "tick ?s" s2]
      by (intro exI[of _ PlanRejected] exI[of _ s2] exI[of _ s3]) (auto simp: plan_tables_def tick_def)
  qed
  then obtain st r r' where st: "st \<in> {PlanApproved, PlanRejected}" "tn_plans r = tn_plans ?s"
    and w: "plans_save env Unfenced (p\<lparr> pl_status := st \<rparr>) r = Inr r'" by blast
  from w have "\<exists>q. plan_get r (pl_id p) = Some q \<and> (st = pl_status q \<or> plan_status_change (pl_status q) st)"
    by (rule plans_save_Inr) simp
  then show False using st g(2) plan_content_id[OF g(2)] assms(4) by (auto simp: plan_get_def)
qed

section \<open>Properties\<close>

text \<open>
  C11.  Plans are numbered and assessed.  On every run of the transactions that touch plans,
  from a tenant without any, the plans of a mission carry the revisions one, two, three and
  no more, and a plan that reached approval has in the store a validation whose checks all
  passed and a feasible simulation.
\<close>

theorem plans_are_numbered_and_assessed:
  assumes "(plan_step env)\<^sup>*\<^sup>* s s'" "tn_plans s = []" "tn_validations s = []"
  shows "(\<exists>n\<le>3. revisions s' m = [1..<Suc n]) \<and>
    (\<forall>p\<in>set (tn_plans s'). pl_status p = PlanApproved \<longrightarrow>
      (\<exists>v\<in>set (tn_validations s'). pv_planId v = pl_id p \<and> pv_checks v \<noteq> [] \<and> list_all pk_passed (pv_checks v)) \<and>
      (\<exists>x\<in>set (tn_simulations s'). ps_planId x = pl_id p \<and> ps_feasible x))"
proof (rule conjI)
  have "plan_book_ok s" using assms(2,3) by (auto simp: plan_book_ok_def revisions_def intro!: exI[of _ 0])
  with assms(1) have b: "plan_book_ok s'" by (rule plan_runs_keep_book)
  then show "\<exists>n\<le>3. revisions s' m = [1..<Suc n]"
    by (auto simp: plan_book_ok_def CARETAKER_BUDGETS_def simp del: upt_Suc)
  from b have "v \<in> set (tn_validations s') \<Longrightarrow> pv_valid v \<Longrightarrow> pv_checks v \<noteq> [] \<and> list_all pk_passed (pv_checks v)" for v
    by (auto simp: plan_book_ok_def list_all_iff validation_coherent_def)
  with b show "\<forall>p\<in>set (tn_plans s'). pl_status p = PlanApproved \<longrightarrow>
      (\<exists>v\<in>set (tn_validations s'). pv_planId v = pl_id p \<and> pv_checks v \<noteq> [] \<and> list_all pk_passed (pv_checks v)) \<and>
      (\<exists>x\<in>set (tn_simulations s'). ps_planId x = pl_id p \<and> ps_feasible x)"
    unfolding plan_book_ok_def validated_in_def simulated_in_def by blast
qed

text \<open>Validation decides the plan.  When the service validates a plan with the program
  registry, the record it appends is the verdict; on a pass the plan respects its mission's
  constraints, its protected routine is current and its devices exist, the plan becomes
  validated and no mission moves; on a failure the plan is superseded and the mission goes
  back to planning.
\<close>

theorem validations_decide_plans:
  assumes "plan_validate env (registry_validate env) ctx planId s = Inr (v, s')"
  shows "\<exists>p q. plan_get s planId = Some p \<and> plan_get s' planId = Some q \<and> pl_hash q = pl_hash p \<and>
    tn_validations s' = tn_validations s @ [v] \<and> pv_planId v = planId \<and>
    (if pv_valid v then plan_sound s p \<and> pl_status q = PlanValidated \<and> tn_missions s' = tn_missions s
     else pl_status q = PlanSuperseded \<and>
       (\<exists>m. mission_get s' (pl_missionId p) = Some m \<and> mi_state m = mstate MRunning PhPlan))"
proof -
  from assms obtain p checks r u where p: "plan_get s planId = Some p" and r: "r = s \<or> r = db_tick 1 s"
    and k: "registry_validate env r p = Inr checks" and v: "v = validation_record p checks (read_clock env r)"
    and c: "commit_validation env ctx p v (tick r) = Inr (u, s')" by (rule plan_validate_Inr)
  have i: "pl_id p = planId" using plan_content_id[OF p] .
  from c obtain sc t where w: "validation_work env p v sc t = Inr (u, s')" and t: "t = tick r \<or> t = db_tick 1 (tick r)"
    unfolding commit_validation_def by (rule plan_mutation_Inr)
  have f: "tn_validations t = tn_validations s" "tn_missions t = tn_missions s"
    using r t by (auto simp: tick_def db_tick_def)
  have "plan_sound r p = plan_sound s p" by (rule plan_sound_cong) (use r in \<open>auto simp: db_tick_def\<close>)
  then have "pv_valid v \<Longrightarrow> plan_sound s p" using registry_validate_sound[OF k] by (simp add: v validation_record_def)
  with validation_work_Inr[OF w] p i v f show ?thesis by (auto simp: validation_record_planId)
qed

text \<open>
  C12.  The validator and the planner agree.  The capability check of a homecoming plan passes
  exactly when the execution planner, given the devices and capabilities the check saw, finds
  each of the three devices it will command.
\<close>

theorem validator_agrees_with_planner:
  assumes "homecoming_capability_check s p (Some act) = Inr check"
    and "capabilities_list s (pl_palaceId p) = Inr (pc_devices ctx, pc_capabilities ctx)"
  shows "pk_passed check \<longleftrightarrow> (\<exists>d. requireDevice ctx CapTemperatureTarget ThermostatDevice = Inr d) \<and>
    (\<exists>d. requireDevice ctx CapPathwayLighting PathwayLightDevice = Inr d) \<and>
    (\<exists>d. requireDevice ctx CapLockDesiredState LockDevice = Inr d)"
proof -
  from assms have "pk_passed check \<longleftrightarrow> (\<forall>t\<in>set required_targets.
      length (capability_targets (pc_devices ctx) (pc_capabilities ctx) (fst t) (snd t)) = 1)"
    by (auto simp: homecoming_capability_check_def Let_def filter_empty_conv split_def) fastforce+
  then show ?thesis by (simp only: required_targets_def list.set ball_simps fst_conv snd_conv one_target_iff simp_thms)
qed


section \<open>A concrete plan from proposal to approval\<close>

definition ex_planned_action :: plan_action where
  "ex_planned_action = ReplaceHomecomingRoutine
     \<lparr> rp_id = ''act_aaaaaaaa'', rp_palaceId = ''pal_aaaaaaaa'',
       rp_protectedRoutineId = ''rtn_aaaaaaaa'', rp_protectedRoutineVersionId = ''rtv_aaaaaaaa'',
       rp_expectedProtectedVersion = 1,
       rp_replacementRoutineId = ''rtn_bbbbbbbb'', rp_replacementRoutineVersionId = ''rtv_bbbbbbbb'' \<rparr>
     (ex_definition\<lparr> hd_hardInvariantIds := required_invariants \<rparr>)"

definition ex_proposal :: plan_proposal where
  "ex_proposal = \<lparr> pp_missionId = ''mis_aaaaaaaa'', pp_revision = 1, pp_actions = [ex_planned_action],
     pp_successCriteriaIds = [''sc_one''] \<rparr>"

definition ex_planning_tenant :: tenant where
  "ex_planning_tenant = ex_request_tenant\<lparr>
     tn_missions := [ex_mission\<lparr> mi_state := mstate MRunning PhPlan, mi_version := 2, mi_constraints := ex_constraint \<rparr>],
     tn_plans := [], tn_approvals := [], tn_devices := ex_devices, tn_capabilities := ex_capabilities \<rparr>"

definition ex_planning_run :: "tenant \<Rightarrow> err + (plan \<times> plan_validation \<times> plan_simulation \<times> approval \<times> tenant \<times> tenant \<times> tenant \<times> tenant)" where
  "ex_planning_run s = sbind (plan_propose ex_env (SessionActor ex_session) ex_proposal s) (\<lambda>(p, s1).
     sbind (plan_validate ex_env (registry_validate ex_env) (SessionActor ex_session) (pl_id p) s1) (\<lambda>(v, s2).
     sbind (plan_simulate ex_env (registry_simulate ex_env (\<lambda>_. ''n'')) (SessionActor ex_session) (pl_id p)
        [ScenarioAccess, ScenarioTiming] s2) (\<lambda>(x, s3).
     sbind (approval_request ex_env (SessionActor ex_session) (pl_id p) s3) (\<lambda>(a, s4).
     Inr (p, v, x, a, s1, s2, s3, s4)))))"

lemma ex_planning: "case ex_planning_run ex_planning_tenant of Inr (p, v, x, a, s1, s2, s3, s4) \<Rightarrow> pv_valid v \<and> ps_feasible x | _ \<Rightarrow> False"
  by code_simp

lemma ex_planning_approved:
  "case ex_planning_run ex_planning_tenant of
     Inr (p, v, x, a, s1, s2, s3, s4) \<Rightarrow>
       (case decide ex_env ex_session ex_mutation (ap_id a) (ap_nonce a) Approve s4 of
          Inr (d, s5) \<Rightarrow> list_ex (\<lambda>p. pl_status p = PlanApproved) (tn_plans s5) | Inl _ \<Rightarrow> False)
   | Inl _ \<Rightarrow> False"
  by code_simp

lemma ex_planning_parts:
  obtains p v x a s1 s2 s3 s4 d s5 where
    "plan_propose ex_env (SessionActor ex_session) ex_proposal ex_planning_tenant = Inr (p, s1)"
    "plan_validate ex_env (registry_validate ex_env) (SessionActor ex_session) (pl_id p) s1 = Inr (v, s2)" "pv_valid v"
    "plan_simulate ex_env (registry_simulate ex_env (\<lambda>_. ''n'')) (SessionActor ex_session) (pl_id p)
        [ScenarioAccess, ScenarioTiming] s2 = Inr (x, s3)"
    "approval_request ex_env (SessionActor ex_session) (pl_id p) s3 = Inr (a, s4)"
    "decide ex_env ex_session ex_mutation (ap_id a) (ap_nonce a) Approve s4 = Inr (d, s5)"
    "\<exists>p\<in>set (tn_plans s5). pl_status p = PlanApproved"
proof -
  obtain p v x a s1 s2 s3 s4 where r: "ex_planning_run ex_planning_tenant = Inr (p, v, x, a, s1, s2, s3, s4)" "pv_valid v"
    using ex_planning by (auto split: sum.splits)
  obtain d s5 where "decide ex_env ex_session ex_mutation (ap_id a) (ap_nonce a) Approve s4 = Inr (d, s5)"
    "\<exists>p\<in>set (tn_plans s5). pl_status p = PlanApproved"
    using ex_planning_approved r(1) by (auto simp: list_ex_iff split: sum.splits)
  with r show thesis by (intro that) (auto simp: ex_planning_run_def sbind_eq_Inr)
qed

theorem plans_are_numbered_and_assessed_witness:
  "\<exists>s'. (plan_step ex_env)\<^sup>*\<^sup>* ex_planning_tenant s' \<and> (\<exists>n\<le>3. revisions s' ''mis_aaaaaaaa'' = [1..<Suc n]) \<and>
     (\<exists>p\<in>set (tn_plans s'). pl_status p = PlanApproved \<and>
        (\<exists>x\<in>set (tn_simulations s'). ps_planId x = pl_id p \<and> ps_feasible x))"
proof -
  obtain p v x a s1 s2 s3 s4 d s5 where r:
    "plan_propose ex_env (SessionActor ex_session) ex_proposal ex_planning_tenant = Inr (p, s1)"
    "plan_validate ex_env (registry_validate ex_env) (SessionActor ex_session) (pl_id p) s1 = Inr (v, s2)" "pv_valid v"
    "plan_simulate ex_env (registry_simulate ex_env (\<lambda>_. ''n'')) (SessionActor ex_session) (pl_id p)
        [ScenarioAccess, ScenarioTiming] s2 = Inr (x, s3)"
    "approval_request ex_env (SessionActor ex_session) (pl_id p) s3 = Inr (a, s4)"
    "decide ex_env ex_session ex_mutation (ap_id a) (ap_nonce a) Approve s4 = Inr (d, s5)"
    "\<exists>p\<in>set (tn_plans s5). pl_status p = PlanApproved" by (rule ex_planning_parts)
  have run: "(plan_step ex_env)\<^sup>*\<^sup>* ex_planning_tenant s5"
    by (intro rtranclp_trans[OF plan_operations_run(1)[OF r(1)]] rtranclp_trans[OF plan_operations_run(3)[OF r(2)]]
      rtranclp_trans[OF plan_operations_run(4)[OF r(4)]] rtranclp_trans[OF plan_operations_run(5)[OF r(5)]]
      plan_operations_run(6)[OF r(6)])
  have e: "tn_plans ex_planning_tenant = []" "tn_validations ex_planning_tenant = []"
    by (simp_all add: ex_planning_tenant_def ex_request_tenant_def ex_tenant_def)
  from plans_are_numbered_and_assessed[OF run e] r(7) run show ?thesis by blast
qed

theorem validations_decide_plans_witness:
  "\<exists>s i v s'. plan_validate ex_env (registry_validate ex_env) (SessionActor ex_session) i s = Inr (v, s') \<and>
     pv_valid v \<and> (\<exists>p. plan_get s i = Some p \<and> plan_sound s p)"
proof -
  obtain p :: plan and v s1 s2 where r: "plan_validate ex_env (registry_validate ex_env) (SessionActor ex_session) (pl_id p) s1 = Inr (v, s2)"
    "pv_valid v" by (rule ex_planning_parts)
  from validations_decide_plans[OF r(1)] r show ?thesis by auto
qed

definition ex_planner_view :: plan_context where
  "ex_planner_view = ex_context ex_arrival_record"

lemma ex_capability_check:
  "case homecoming_capability_check ex_planning_tenant ex_plan (one_homecoming_action [ex_planned_action]) of
     Inr k \<Rightarrow> pk_passed k | Inl _ \<Rightarrow> False"
  "capabilities_list ex_planning_tenant (pl_palaceId ex_plan) = Inr (ex_devices, ex_capabilities)"
  by code_simp+

theorem validator_agrees_with_planner_witness:
  "\<exists>d. requireDevice ex_planner_view CapLockDesiredState LockDevice = Inr d"
proof -
  obtain act where act: "one_homecoming_action [ex_planned_action] = Some act" by (simp add: ex_planned_action_def)
  then obtain k where k: "homecoming_capability_check ex_planning_tenant ex_plan (Some act) = Inr k" "pk_passed k"
    using ex_capability_check(1) by (auto split: sum.splits)
  have "capabilities_list ex_planning_tenant (pl_palaceId ex_plan) =
      Inr (pc_devices ex_planner_view, pc_capabilities ex_planner_view)"
    using ex_capability_check(2) by (simp add: ex_planner_view_def ex_context_def)
  from validator_agrees_with_planner[OF k(1) this] k(2) show ?thesis by simp
qed

definition ex_infeasible :: plan_simulation where
  "ex_infeasible = \<lparr> ps_planId = ''pln_aaaaaaaa'', ps_feasible = False, ps_projected = 12, ps_results = [],
     ps_createdAt = 0 \<rparr>"

definition ex_drifted_tenant :: tenant where
  "ex_drifted_tenant = ex_request_tenant\<lparr> tn_versions := [] \<rparr>"

lemma ex_stranded:
  "case commit_simulation ex_env (SessionActor ex_session) ex_plan ex_infeasible ex_drifted_tenant of
     Inr (u, s1) \<Rightarrow>
       (case approval_get s1 ''apr_aaaaaaaa'' of None \<Rightarrow> False | Some a \<Rightarrow> ap_planId a = pl_id ex_plan) \<and>
       (case decide ex_env ex_session ex_mutation ''apr_aaaaaaaa'' ex_nonce Approve s1 of Inr _ \<Rightarrow> True | Inl _ \<Rightarrow> False)
   | Inl _ \<Rightarrow> False"
  by code_simp


end
