(* ===== verification/Tools.thy ===== *)
theory Tools
  imports Models Clarifications
begin

text \<open>
  The tools an agent may call (\<open>core/src/tool-names.ts\<close>, the input schemas of
  \<open>core/src/tools.ts\<close>) and the pending call a run reserves before it dispatches one
  (\<open>CaretakerPendingToolCallSchema\<close> of \<open>application/src/models.ts\<close>), with the check that
  PostgreSQL repeats on the stored column.  \<open>hashToolValue\<close> and PostgreSQL's rendering of JSON
  as text are parameters.
\<close>

section \<open>Names and inputs\<close>

datatype tool_name =
    PalacesGet | CrewsList | CapabilitiesList | RoutinesList | RoutinesGet | ExecutionsList
  | KnowledgeSearch | PlansPropose | PlansValidate | PlansSimulate | PlansRequestApproval
  | PlansActivate | OperationsGet | VerificationGetEvidence | MissionsCancel

datatype tool_input =
    PalacesGetInput string
  | CrewsListInput string bool
  | CapabilitiesListInput string
  | RoutinesListInput string "routine_status list option"
  | RoutinesGetInput string "string option"
  | ExecutionsListInput "string option" "string option" nat
  | KnowledgeSearchInput string mission_phase nat
  | PlansProposeInput string nat "plan_action list" "string list"
  | PlansValidateInput string
  | PlansSimulateInput string "scenario list"
  | PlansRequestApprovalInput string
  | PlansActivateInput string string nat
  | OperationsGetInput string
  | VerificationGetEvidenceInput string
  | MissionsCancelInput string string

fun tool_of :: "tool_input \<Rightarrow> tool_name" where
  "tool_of (PalacesGetInput _) = PalacesGet"
| "tool_of (CrewsListInput _ _) = CrewsList"
| "tool_of (CapabilitiesListInput _) = CapabilitiesList"
| "tool_of (RoutinesListInput _ _) = RoutinesList"
| "tool_of (RoutinesGetInput _ _) = RoutinesGet"
| "tool_of (ExecutionsListInput _ _ _) = ExecutionsList"
| "tool_of (KnowledgeSearchInput _ _ _) = KnowledgeSearch"
| "tool_of (PlansProposeInput _ _ _ _) = PlansPropose"
| "tool_of (PlansValidateInput _) = PlansValidate"
| "tool_of (PlansSimulateInput _ _) = PlansSimulate"
| "tool_of (PlansRequestApprovalInput _) = PlansRequestApproval"
| "tool_of (PlansActivateInput _ _ _) = PlansActivate"
| "tool_of (OperationsGetInput _) = OperationsGet"
| "tool_of (VerificationGetEvidenceInput _) = VerificationGetEvidence"
| "tool_of (MissionsCancelInput _ _) = MissionsCancel"

fun tool_input_ok :: "tool_input \<Rightarrow> bool" where
  "tool_input_ok (PalacesGetInput p) = id_ok ''pal'' p"
| "tool_input_ok (CrewsListInput p _) = id_ok ''pal'' p"
| "tool_input_ok (CapabilitiesListInput p) = id_ok ''pal'' p"
| "tool_input_ok (RoutinesListInput p st) = (id_ok ''pal'' p \<and> st \<noteq> Some [])"
| "tool_input_ok (RoutinesGetInput r v) = (id_ok ''rtn'' r \<and> opt_id_ok ''rtv'' v)"
| "tool_input_ok (ExecutionsListInput r m n) = (opt_id_ok ''rtn'' r \<and> opt_id_ok ''mis'' m \<and>
     1 \<le> n \<and> n \<le> 100 \<and> \<not> (is_none r \<and> is_none m))"
| "tool_input_ok (KnowledgeSearchInput q _ n) = (1 \<le> length q \<and> length q \<le> 500 \<and> 1 \<le> n \<and> n \<le> 12)"
| "tool_input_ok (PlansProposeInput m n acts cs) = (id_ok ''mis'' m \<and> 0 < n \<and>
     1 \<le> length acts \<and> length acts \<le> 16 \<and> list_all plan_action_ok acts \<and>
     cs \<noteq> [] \<and> list_all criterion_ok cs)"
| "tool_input_ok (PlansValidateInput p) = id_ok ''pln'' p"
| "tool_input_ok (PlansSimulateInput p scs) = (id_ok ''pln'' p \<and> scs \<noteq> [])"
| "tool_input_ok (PlansRequestApprovalInput p) = id_ok ''pln'' p"
| "tool_input_ok (PlansActivateInput p a n) = (id_ok ''pln'' p \<and> id_ok ''act'' a \<and> 0 < n)"
| "tool_input_ok (OperationsGetInput i) = id_ok ''op'' i"
| "tool_input_ok (VerificationGetEvidenceInput m) = id_ok ''mis'' m"
| "tool_input_ok (MissionsCancelInput m r) = (id_ok ''mis'' m \<and> 1 \<le> length r \<and> length r \<le> 500)"

section \<open>Unsafe inputs\<close>

text \<open>
  The strings inside an input that the schema leaves open; the enumerated ones are words that
  no pattern matches, and no field has a credential's name.
\<close>

fun routine_action_strings :: "routine_action \<Rightarrow> string list" where
  "routine_action_strings (Preheat _ c) = [c]"
| "routine_action_strings (PathwayLighting _ _ b) = [b]"
| "routine_action_strings (Unlock _ _) = []"
| "routine_action_strings (LockDesiredState _) = []"

definition homecoming_strings :: "homecoming_definition \<Rightarrow> string list" where
  "homecoming_strings d = [hd_name d, hd_windowStart d, hd_windowEnd d, hd_timezone d] @
     concat (List.map routine_action_strings (hd_actions d))"

definition hauler_strings :: "hauler_definition \<Rightarrow> string list" where
  "hauler_strings d = [hl_name d, hl_windowStart d, hl_windowEnd d, hl_timezone d,
     hl_authorizedIdentityTagId d, hl_compartment d, hl_finalServiceHatchState d]"

definition replace_strings :: "replace_action \<Rightarrow> string list" where
  "replace_strings r = [rp_id r, rp_palaceId r, rp_protectedRoutineId r, rp_protectedRoutineVersionId r,
     rp_replacementRoutineId r, rp_replacementRoutineVersionId r]"

fun plan_action_strings :: "plan_action \<Rightarrow> string list" where
  "plan_action_strings (ReplaceHomecomingRoutine r d) = replace_strings r @ homecoming_strings d"
| "plan_action_strings (ReplaceScheduledHaulerAccessRoutine r d) = replace_strings r @ hauler_strings d"
| "plan_action_strings (RestoreRoutineVersion r) = [rs_id r, rs_palaceId r, rs_routineId r, rs_restoreVersionId r]"

fun opt_strings :: "string option \<Rightarrow> string list" where
  "opt_strings None = []"
| "opt_strings (Some x) = [x]"

fun tool_input_strings :: "tool_input \<Rightarrow> string list" where
  "tool_input_strings (PalacesGetInput p) = [p]"
| "tool_input_strings (CrewsListInput p _) = [p]"
| "tool_input_strings (CapabilitiesListInput p) = [p]"
| "tool_input_strings (RoutinesListInput p _) = [p]"
| "tool_input_strings (RoutinesGetInput r v) = r # opt_strings v"
| "tool_input_strings (ExecutionsListInput r m _) = opt_strings r @ opt_strings m"
| "tool_input_strings (KnowledgeSearchInput q _ _) = [q]"
| "tool_input_strings (PlansProposeInput m _ acts cs) = m # concat (List.map plan_action_strings acts) @ cs"
| "tool_input_strings (PlansValidateInput p) = [p]"
| "tool_input_strings (PlansSimulateInput p _) = [p]"
| "tool_input_strings (PlansRequestApprovalInput p) = [p]"
| "tool_input_strings (PlansActivateInput p a _) = [p, a]"
| "tool_input_strings (OperationsGetInput i) = [i]"
| "tool_input_strings (VerificationGetEvidenceInput m) = [m]"
| "tool_input_strings (MissionsCancelInput m r) = [m, r]"

text \<open>
  \<open>CREDENTIAL_VALUE\<close> and \<open>HOME_PATH\<close> of \<open>models.ts\<close>, which differ from those of
  \<open>clarifications.ts\<close>; \<open>PRIVATE_URL\<close> is the same expression.
\<close>

definition api_key_word :: rx where
  "api_key_word = rx_seq [rx_word ''api'', rx_opt (RxSet (List.member ''_-'')), rx_word ''key'']"

definition credential_value_rx :: rx where
  "credential_value_rx = rx_any bearer_token [vendor_key, private_key,
     rx_seq [RxBoundary, rx_any api_key_word (List.map rx_word [''password'', ''secret'', ''token'']),
       rx_word ''='', rx_many 1 (\<lambda>c. \<not> is_space_char c)]]"

definition rx_exact :: "string \<Rightarrow> rx" where
  "rx_exact s = rx_seq (List.map (\<lambda>c. RxSet (\<lambda>d. d = c)) s)"

definition home_path_rx :: rx where
  "home_path_rx = rx_seq [RxAlt RxStart (RxSet (\<lambda>c. is_space_char c \<or> List.member [CHR 0x22, CHR 0x27, CHR ''(''] c)),
     rx_exact ''/'', rx_any (rx_exact ''Users'') [rx_exact ''home''], rx_exact ''/'', rx_many 1 (not_in ''/'')]"

definition unsafe_tool_string :: "string \<Rightarrow> bool" where
  "unsafe_tool_string s = (rx_test credential_value_rx s \<or> rx_test home_path_rx s \<or> rx_test PRIVATE_URL s)"

text \<open>\<open>findUnsafePendingToolInput\<close>, as the decision whether there is a finding.\<close>

definition unsafe_tool_input :: "tool_input \<Rightarrow> bool" where
  "unsafe_tool_input x = list_ex unsafe_tool_string (tool_input_strings x)"

section \<open>Pending calls\<close>

record pending_tool_call =
  pt_callId :: string
  pt_input :: tool_input
  pt_inputHash :: string

definition pt_toolName :: "pending_tool_call \<Rightarrow> tool_name" where
  "pt_toolName p = tool_of (pt_input p)"

definition pending_tool_call_ok :: "(tool_input \<Rightarrow> string) \<Rightarrow> pending_tool_call \<Rightarrow> bool" where
  "pending_tool_call_ok hashToolValue p = (id_ok ''call'' (pt_callId p) \<and> tool_input_ok (pt_input p) \<and>
     sha256_ok (pt_inputHash p) \<and> hashToolValue (pt_input p) = pt_inputHash p \<and>
     \<not> unsafe_tool_input (pt_input p))"

end
