(* ===== verification/Caretaker_Ledger.thy ===== *)
theory Caretaker_Ledger
  imports Tools Lease
begin

text \<open>
  The ledger of caretaker runs: its rows (\<open>application/src/models.ts\<close>), the rules each
  checkpoint obeys (\<open>application/src/caretaker-run-ledger.ts\<close>) and the profile and the terminal
  envelope of a run (\<open>observability/src/durable-caretaker-evidence.ts\<close>).  \<open>hashCanonical\<close> is
  the parameter \<open>cw_canonical\<close> over the values the program hashes; the schema of an
  analytics event is the parameter \<open>cw_eventSafe\<close>.
\<close>

section \<open>Statuses and checkpoints\<close>

datatype run_status = RunActive | RunPaused | RunCompleted | RunFailed | RunCancelled | RunAbandoned

datatype checkpoint_kind =
    CkActivated | CkStatePersisted | CkDecisionAttempt | CkToolCall | CkToolWait | CkPlanRevision
  | CkClarificationPause | CkApprovalPause | CkHumanReviewPause | CkReconciliationPoll
  | CkExternalWait | CkBudgetExhausted | CkCompleted | CkFailed | CkSafeRefusal | CkHostFailed
  | CkCancelled | CkLeaseReplaced

text \<open>\<open>CaretakerRunMutationCheckpointKindSchema\<close>\<close>

definition mutation_kind_ok :: "checkpoint_kind \<Rightarrow> bool" where
  "mutation_kind_ok k = (k \<noteq> CkActivated \<and> k \<noteq> CkLeaseReplaced)"

record counters =
  ct_toolCalls :: nat
  ct_planRevisions :: nat
  ct_clarificationPauses :: nat
  ct_reconciliationPolls :: nat
  ct_activeMilliseconds :: nat

definition counters_ok :: "counters \<Rightarrow> bool" where
  "counters_ok c = (ct_toolCalls c \<le> 24 \<and> ct_planRevisions c \<le> 3 \<and> ct_clarificationPauses c \<le> 2 \<and>
     ct_reconciliationPolls c \<le> 3 \<and> ct_activeMilliseconds c \<le> 300000)"

definition EMPTY_CARETAKER_RUN_COUNTERS :: counters where
  "EMPTY_CARETAKER_RUN_COUNTERS = \<lparr> ct_toolCalls = 0, ct_planRevisions = 0, ct_clarificationPauses = 0,
     ct_reconciliationPolls = 0, ct_activeMilliseconds = 0 \<rparr>"

definition task_ledger_ok :: "task_item list \<Rightarrow> bool" where
  "task_ledger_ok l = (length l \<le> 32 \<and> list_all task_item_ok l \<and> unique (List.map ti_id l) \<and>
     list_all (\<lambda>t. unique (ti_evidenceRefs t)) l)"

fun caretakerRunStatusForCheckpoint :: "checkpoint_kind \<Rightarrow> run_status" where
  "caretakerRunStatusForCheckpoint CkClarificationPause = RunPaused"
| "caretakerRunStatusForCheckpoint CkApprovalPause = RunPaused"
| "caretakerRunStatusForCheckpoint CkHumanReviewPause = RunPaused"
| "caretakerRunStatusForCheckpoint CkBudgetExhausted = RunPaused"
| "caretakerRunStatusForCheckpoint CkCompleted = RunCompleted"
| "caretakerRunStatusForCheckpoint CkFailed = RunFailed"
| "caretakerRunStatusForCheckpoint CkSafeRefusal = RunFailed"
| "caretakerRunStatusForCheckpoint CkHostFailed = RunFailed"
| "caretakerRunStatusForCheckpoint CkCancelled = RunCancelled"
| "caretakerRunStatusForCheckpoint _ = RunActive"

section \<open>Evidence profiles and terminal envelopes\<close>

definition safe_label_ok :: "string \<Rightarrow> bool" where
  "safe_label_ok s = (1 \<le> length s \<and> length s \<le> 128 \<and> (case s of [] \<Rightarrow> False
     | c # cs \<Rightarrow> (is_lower_alnum c \<or> is_upper_letter c) \<and>
         list_all (\<lambda>d. is_lower_alnum d \<or> is_upper_letter d \<or> List.member ''_.:@+~-'' d) cs))"

text \<open>\<open>tpa_[a-z][a-z0-9_]{0,31}_v1_[A-Za-z0-9_-]{43}\<close>\<close>

definition analytics_alias :: rx where
  "analytics_alias = rx_seq [RxStart, rx_exact ''tpa_'',
     RxSet (\<lambda>c. is_lower_alnum c \<and> \<not> is_digit_char c),
     RxRepeat 0 (Some 31) (RxSet (\<lambda>c. is_lower_alnum c \<or> c = CHR ''_'')), rx_exact ''_v1_'',
     RxRepeat 43 (Some 43) (RxSet (\<lambda>c. is_word_char c \<or> c = CHR ''-''))]"

definition analytics_alias_ok :: "string \<Rightarrow> bool" where
  "analytics_alias_ok s = List.member (ends analytics_alias s 0) (length s)"

datatype flag_value = FlagBool bool | FlagLabel string

text \<open>\<open>[a-z][a-z0-9-]{0,95}\<close>\<close>

definition flag_name_ok :: "string \<Rightarrow> bool" where
  "flag_name_ok s = (case s of [] \<Rightarrow> False | c # cs \<Rightarrow> is_lower_alnum c \<and> \<not> is_digit_char c \<and>
     length cs \<le> 95 \<and> list_all (\<lambda>d. is_lower_alnum d \<or> d = CHR ''-'') cs)"

definition flag_ok :: "string \<times> flag_value \<Rightarrow> bool" where
  "flag_ok f = (flag_name_ok (fst f) \<and> (case snd f of FlagBool _ \<Rightarrow> True | FlagLabel l \<Rightarrow> safe_label_ok l))"

record byte_configuration =
  bc_rendererVersion :: string
  bc_aliasFingerprint :: string
  bc_environment :: string
  bc_dataOrigin :: string
  bc_appVersion :: string
  bc_harnessVersion :: string
  bc_modelConfigVersion :: string
  bc_toolRegistryHash :: string
  bc_eventRegistryHash :: string
  bc_featureFlags :: "(string \<times> flag_value) list option"

record evidence_profile =
  ep_configuration :: byte_configuration
  ep_configurationHash :: string
  ep_contextManifestHash :: string
  ep_aliases :: "string list"
  ep_profileHash :: string

text \<open>An analytics event, with the fields the store reads; the rest is its body.\<close>

record safe_event =
  sv_event :: string
  sv_insertId :: string
  sv_body :: string

record terminal_envelope =
  te_eventHash :: string
  te_event :: safe_event

section \<open>Rows\<close>

record caretaker_run =
  ru_id :: string
  ru_missionId :: string
  ru_leaseEpoch :: nat
  ru_status :: run_status
  ru_phase :: mission_phase
  ru_version :: nat
  ru_taskLedgerVersion :: nat
  ru_counters :: counters
  ru_pending :: "pending_tool_call option"
  ru_profile :: evidence_profile
  ru_startedAt :: instant
  ru_updatedAt :: instant
  ru_endedAt :: "instant option"

record run_checkpoint =
  rc_missionId :: string
  rc_runId :: string
  rc_sequence :: nat
  rc_mutationKey :: string
  rc_mutationHash :: string
  rc_kind :: checkpoint_kind
  rc_runStatus :: run_status
  rc_phase :: mission_phase
  rc_runVersion :: nat
  rc_taskLedgerVersion :: nat
  rc_taskLedgerHash :: string
  rc_taskLedger :: "task_item list"
  rc_counters :: counters
  rc_pending :: "pending_tool_call option"
  rc_evidenceRefs :: "string list"
  rc_occurredAt :: instant

datatype capture_status = CaptureStored | CaptureDuplicate

record evidence_delivery =
  ed_missionId :: string
  ed_runId :: string
  ed_envelope :: terminal_envelope
  ed_delivered :: bool
  ed_createdAt :: instant
  ed_deliveredAt :: "instant option"
  ed_captureStatus :: "capture_status option"

section \<open>Digests\<close>

record mutation_payload =
  mp_organizationId :: string
  mp_missionId :: string
  mp_runId :: string
  mp_mutationKey :: string
  mp_kind :: checkpoint_kind
  mp_counters :: counters
  mp_pending :: "pending_tool_call option"
  mp_taskLedger :: "task_item list"
  mp_evidenceRefs :: "string list"
  mp_terminalEvidence :: "terminal_envelope option"
  mp_occurredAt :: instant

text \<open>What \<open>hashCanonical\<close> is applied to.\<close>

datatype canonical_value =
    HashLedger "task_item list"
  | HashCounters counters
  | HashPending "pending_tool_call option"
  | HashStart string string string string string instant
  | HashResume string string string string string nat instant
  | HashMutation mutation_payload
  | HashConfiguration byte_configuration
  | HashProfile byte_configuration string string "string list"
  | HashEvent safe_event

record caretaker_world =
  cw_canonical :: "canonical_value \<Rightarrow> string"
  cw_toolHash :: "tool_input \<Rightarrow> string"
  cw_inputText :: "tool_input \<Rightarrow> string"
  cw_inputDigest :: "tool_input \<Rightarrow> string"
  cw_toolRegistryHash :: string
  cw_eventRegistryHash :: string
  cw_eventSafe :: "safe_event \<Rightarrow> bool"

definition hashCaretakerTaskLedger :: "caretaker_world \<Rightarrow> task_item list \<Rightarrow> err + string" where
  "hashCaretakerTaskLedger w l = (if \<not> task_ledger_ok l then Inl (ZodError ''CaretakerTaskLedger'')
     else Inr (cw_canonical w (HashLedger l)))"

definition opt_pending_ok :: "caretaker_world \<Rightarrow> pending_tool_call option \<Rightarrow> bool" where
  "opt_pending_ok w p = (case p of None \<Rightarrow> True | Some q \<Rightarrow> pending_tool_call_ok (cw_toolHash w) q)"

definition hashCaretakerCheckpointMutation :: "caretaker_world \<Rightarrow> mutation_payload \<Rightarrow> err + string" where
  "hashCaretakerCheckpointMutation w p = (if \<not> (task_ledger_ok (mp_taskLedger p) \<and> counters_ok (mp_counters p) \<and>
       opt_pending_ok w (mp_pending p) \<and> mutation_kind_ok (mp_kind p))
     then Inl (ZodError ''CaretakerCheckpointMutation'') else Inr (cw_canonical w (HashMutation p)))"

definition byte_configuration_ok :: "caretaker_world \<Rightarrow> byte_configuration \<Rightarrow> bool" where
  "byte_configuration_ok w c = (bc_rendererVersion c = ''caretaker-evidence-renderer@3'' \<and>
     sha256_ok (bc_aliasFingerprint c) \<and>
     List.member [''test'', ''local'', ''hosted_demo'', ''evaluation''] (bc_environment c) \<and>
     List.member [''fixture'', ''live'', ''evaluation''] (bc_dataOrigin c) \<and>
     safe_label_ok (bc_appVersion c) \<and> safe_label_ok (bc_harnessVersion c) \<and>
     safe_label_ok (bc_modelConfigVersion c) \<and> bc_toolRegistryHash c = cw_toolRegistryHash w \<and>
     bc_eventRegistryHash c = cw_eventRegistryHash w \<and>
     (case bc_featureFlags c of None \<Rightarrow> True | Some fs \<Rightarrow> list_all flag_ok fs))"

definition evidence_profile_ok :: "caretaker_world \<Rightarrow> evidence_profile \<Rightarrow> bool" where
  "evidence_profile_ok w p = (byte_configuration_ok w (ep_configuration p) \<and>
     sha256_ok (ep_configurationHash p) \<and> sha256_ok (ep_contextManifestHash p) \<and>
     length (ep_aliases p) = 6 \<and> list_all analytics_alias_ok (ep_aliases p) \<and> sha256_ok (ep_profileHash p) \<and>
     cw_canonical w (HashConfiguration (ep_configuration p)) = ep_configurationHash p \<and>
     cw_canonical w (HashProfile (ep_configuration p) (ep_configurationHash p) (ep_contextManifestHash p)
       (ep_aliases p)) = ep_profileHash p)"

definition terminal_envelope_ok :: "caretaker_world \<Rightarrow> terminal_envelope \<Rightarrow> bool" where
  "terminal_envelope_ok w e = (sha256_ok (te_eventHash e) \<and> cw_eventSafe w (te_event e) \<and>
     sv_event (te_event e) = ''$ai_trace'' \<and> te_eventHash e = cw_canonical w (HashEvent (te_event e)))"

definition caretaker_run_ok :: "caretaker_world \<Rightarrow> caretaker_run \<Rightarrow> bool" where
  "caretaker_run_ok w r = (id_ok ''run'' (ru_id r) \<and> id_ok ''mis'' (ru_missionId r) \<and> 0 < ru_leaseEpoch r \<and>
     counters_ok (ru_counters r) \<and> opt_pending_ok w (ru_pending r) \<and> evidence_profile_ok w (ru_profile r) \<and>
     (ru_status r = RunActive) = is_none (ru_endedAt r))"

definition run_checkpoint_ok :: "caretaker_world \<Rightarrow> run_checkpoint \<Rightarrow> bool" where
  "run_checkpoint_ok w c = (id_ok ''mis'' (rc_missionId c) \<and> id_ok ''run'' (rc_runId c) \<and>
     sha256_ok (rc_mutationKey c) \<and> sha256_ok (rc_mutationHash c) \<and> sha256_ok (rc_taskLedgerHash c) \<and>
     task_ledger_ok (rc_taskLedger c) \<and> counters_ok (rc_counters c) \<and> opt_pending_ok w (rc_pending c) \<and>
     length (rc_evidenceRefs c) \<le> 32 \<and> list_all (id_ok ''evd'') (rc_evidenceRefs c) \<and>
     rc_sequence c = rc_runVersion c \<and> unique (rc_evidenceRefs c))"

section \<open>The rules of a checkpoint\<close>

definition terminal_mission :: "mission_state \<Rightarrow> bool" where
  "terminal_mission st = List.member [MSucceeded, MFailed, MCancelled] (ms_status st)"

definition assertCaretakerMissionStateForCheckpoint ::
  "mission_state \<Rightarrow> checkpoint_kind \<Rightarrow> bool \<Rightarrow> err + unit" where
  "assertCaretakerMissionStateForCheckpoint st kind clearsPending =
     (if \<not> mission_state_ok st then Inl (ZodError ''MissionState'')
      else if \<not> mutation_kind_ok kind then Inl (ZodError ''CaretakerRunMutationCheckpointKind'')
      else if kind = CkCompleted then guard_that (st = mstate MSucceeded PhVerify)
        (ConflictError ''Completed run checkpoint requires a succeeded mission'')
      else if kind = CkFailed then guard_that (ms_status st = MFailed)
        (ConflictError ''Failed run checkpoint requires a failed mission'')
      else if kind = CkCancelled then guard_that (ms_status st = MCancelled)
        (ConflictError ''Cancelled run checkpoint requires a cancelled mission'')
      else if kind = CkClarificationPause then guard_that (st = mstate MWaitingForUser PhPlan)
        (ConflictError ''Clarification pause requires waiting_for_user/plan'')
      else if kind = CkApprovalPause then guard_that (st = mstate MWaitingForUser PhApprove)
        (ConflictError ''Approval pause requires waiting_for_user/approve'')
      else if kind = CkExternalWait then
        guard_that (st = mstate MWaitingForSystem PhObserve \<or> st = mstate MRunning PhReconcile)
          (ConflictError ''External wait requires waiting_for_system/observe or running/reconcile'')
      else if kind = CkDecisionAttempt then guard_that (\<not> terminal_mission st)
        (ConflictError ''Decision attempt requires a nonterminal mission'')
      else if kind = CkStatePersisted \<and> clearsPending \<and> \<not> terminal_mission st then Inr ()
      else if List.member [CkHumanReviewPause, CkSafeRefusal, CkHostFailed, CkBudgetExhausted] kind then
        guard_that (\<not> terminal_mission st) (ConflictError ''requires a nonterminal mission'')
      else guard_that (ms_status st = MRunning)
        (ConflictError ''Active Caretaker checkpoint requires a running mission''))"

definition task_step_ok :: "task_item \<Rightarrow> task_item \<Rightarrow> err + unit" where
  "task_step_ok old new =
     (if ti_id new \<noteq> ti_id old
        then Inl (ConflictError ''Caretaker tasks are append-only and retain their order'')
      else if ti_label new \<noteq> ti_label old then Inl (ConflictError ''Caretaker task labels are immutable'')
      else if list_ex (\<lambda>e. \<not> List.member (ti_evidenceRefs new) e) (ti_evidenceRefs old)
        then Inl (ConflictError ''Caretaker task evidence references are append-only'')
      else if ti_status old = TaskCompleted \<and> ti_status new \<noteq> TaskCompleted
        then Inl (ConflictError ''Completed Caretaker tasks are terminal'')
      else guard_that (\<not> (ti_status old = TaskInProgress \<and> ti_status new = TaskPending))
        (ConflictError ''In-progress Caretaker tasks cannot return to pending''))"

fun task_steps :: "task_item list \<Rightarrow> task_item list \<Rightarrow> err + unit" where
  "task_steps [] _ = Inr ()"
| "task_steps (x # xs) (y # ys) = sbind (task_step_ok x y) (\<lambda>_. task_steps xs ys)"
| "task_steps (x # xs) [] = Inl (ConflictError ''Caretaker tasks are append-only and retain their order'')"

definition assertCaretakerTaskLedgerTransition :: "task_item list \<Rightarrow> task_item list \<Rightarrow> err + unit" where
  "assertCaretakerTaskLedgerTransition old new =
     (if \<not> task_ledger_ok old \<or> \<not> task_ledger_ok new then Inl (ZodError ''CaretakerTaskLedger'')
      else if length new < length old
        then Inl (ConflictError ''Caretaker tasks cannot be removed from the durable ledger'')
      else task_steps old new)"

definition one_if :: "bool \<Rightarrow> nat" where
  "one_if b = (if b then 1 else 0)"

definition counters_match :: "checkpoint_kind \<Rightarrow> counters \<Rightarrow> counters \<Rightarrow> bool" where
  "counters_match kind old new = (
     ct_toolCalls new = ct_toolCalls old + one_if (kind = CkToolCall) \<and>
     ct_planRevisions new = ct_planRevisions old + one_if (kind = CkPlanRevision) \<and>
     ct_clarificationPauses new = ct_clarificationPauses old + one_if (kind = CkClarificationPause) \<and>
     ct_reconciliationPolls new = ct_reconciliationPolls old + one_if (kind = CkReconciliationPoll))"

definition assertCaretakerCounterTransition :: "counters \<Rightarrow> counters \<Rightarrow> checkpoint_kind \<Rightarrow> err + unit" where
  "assertCaretakerCounterTransition old new kind =
     (if \<not> counters_ok old \<or> \<not> counters_ok new \<or> \<not> mutation_kind_ok kind then Inl (ZodError ''CaretakerRunCounters'')
      else if \<not> counters_match kind old new
        then Inl (ConflictError ''must match its append-only Caretaker checkpoint'')
      else if ct_activeMilliseconds new < ct_activeMilliseconds old
        then Inl (ConflictError ''Caretaker active runtime cannot decrease'')
      else guard_that (\<not> (kind = CkToolWait \<and> ct_activeMilliseconds new = ct_activeMilliseconds old))
        (ConflictError ''A tool-wait checkpoint must advance Caretaker active runtime''))"

definition same_pending :: "caretaker_world \<Rightarrow> pending_tool_call option \<Rightarrow> pending_tool_call option \<Rightarrow> bool" where
  "same_pending w p q = (\<not> is_none q \<and> cw_canonical w (HashPending p) = cw_canonical w (HashPending q))"

text \<open>Which checkpoint may reserve a call of which tool.\<close>

fun reserves_tool :: "checkpoint_kind \<Rightarrow> tool_name \<Rightarrow> bool" where
  "reserves_tool CkToolCall _ = True"
| "reserves_tool CkPlanRevision t = (t = PlansPropose)"
| "reserves_tool CkReconciliationPoll t = (t = OperationsGet)"
| "reserves_tool _ _ = False"

definition pending_rule ::
  "caretaker_world \<Rightarrow> pending_tool_call option \<Rightarrow> pending_tool_call option \<Rightarrow> checkpoint_kind option \<Rightarrow> checkpoint_kind \<Rightarrow>
   err + unit" where
  "pending_rule w old new before kind = (case old of
     None \<Rightarrow> (case new of
         Some q \<Rightarrow> guard_that (reserves_tool kind (pt_toolName q))
           (ConflictError ''This checkpoint cannot reserve the pending tool call'')
       | None \<Rightarrow> guard_that (\<not> List.member [CkToolCall, CkPlanRevision, CkReconciliationPoll] kind)
           (ConflictError ''This checkpoint must reserve its durable tool-call identity''))
   | Some p \<Rightarrow>
       if kind = CkLeaseReplaced then guard_that (same_pending w old new)
         (ConflictError ''Lease takeover must preserve the pending tool call'')
       else if before = Some CkPlanRevision \<or> before = Some CkReconciliationPoll then
         guard_that (kind = CkToolCall \<and> same_pending w old new)
           (ConflictError ''A semantic reservation must be followed by its tool call'')
       else if before = Some CkToolCall \<or> before = Some CkToolWait then
         (if kind = CkToolWait then guard_that (same_pending w old new)
            (ConflictError ''Tool wait must preserve the dispatched tool-call identity'')
          else guard_that (kind = CkStatePersisted \<and> is_none new)
            (ConflictError ''A dispatched tool call may only wait or be cleared by its result checkpoint''))
       else Inl (ConflictError ''Pending tool call lacks its durable reservation checkpoint''))"

definition assertCaretakerPendingToolCallTransition ::
  "caretaker_world \<Rightarrow> pending_tool_call option \<Rightarrow> pending_tool_call option \<Rightarrow> checkpoint_kind option \<Rightarrow> checkpoint_kind \<Rightarrow>
   err + unit" where
  "assertCaretakerPendingToolCallTransition w old new before kind =
     (if \<not> opt_pending_ok w old \<or> \<not> opt_pending_ok w new then Inl (ZodError ''CaretakerPendingToolCall'')
      else sbind (pending_rule w old new before kind) (\<lambda>_.
        guard_that (caretakerRunStatusForCheckpoint kind = RunActive \<or> is_none new)
          (ConflictError ''A paused or terminal Caretaker run cannot retain a pending tool call'')))"

definition assertCaretakerToolWaitPayloadTransition ::
  "caretaker_world \<Rightarrow> checkpoint_kind option \<Rightarrow> mission_phase \<Rightarrow> mission_phase \<Rightarrow> task_item list \<Rightarrow> task_item list \<Rightarrow>
   string list \<Rightarrow> err + unit" where
  "assertCaretakerToolWaitPayloadTransition w before oldPhase newPhase old new refs =
     (if before \<noteq> Some CkToolCall \<and> before \<noteq> Some CkToolWait
        then Inl (ConflictError ''Tool wait requires an existing dispatched tool call'')
      else if oldPhase \<noteq> newPhase
        then Inl (ConflictError ''Tool wait cannot change the Caretaker mission phase'')
      else sbind (hashCaretakerTaskLedger w old) (\<lambda>h. sbind (hashCaretakerTaskLedger w new) (\<lambda>k.
        if h \<noteq> k then Inl (ConflictError ''Tool wait cannot change the Caretaker task ledger'')
        else guard_that (refs = []) (ConflictError ''Tool wait cannot append evidence''))))"

end
