(* ===== verification/Caretaker_Runs.thy ===== *)
theory Caretaker_Runs
  imports Caretaker_Ledger Mission_State
begin

text \<open>
  The repository of caretaker runs (\<open>db/src/caretaker-run-repository.ts\<close>) and of terminal
  evidence deliveries (\<open>db/src/caretaker-evidence-delivery-repository.ts\<close>), with the CHECK
  constraints and triggers of the migrations 0013 and 0016.  The state is the tenant with the
  tables of runs, checkpoints and deliveries and the column \<open>task_ledger_version\<close> of missions.
  Inside a transaction the rows read are locked, so the \<open>WHERE\<close> clauses of the updates, which
  repeat what was read, always find their row; the deferred triggers compare a run with the
  checkpoint written beside it from the same values, and hold by construction.
\<close>

section \<open>State\<close>

record caretaker_db =
  cd_tenant :: tenant
  cd_ledgerVersions :: "(string \<times> nat) list"
  cd_runs :: "caretaker_run list"
  cd_checkpoints :: "run_checkpoint list"
  cd_deliveries :: "evidence_delivery list"

record run_snapshot =
  sn_run :: caretaker_run
  sn_checkpoint :: run_checkpoint
  sn_taskLedger :: "task_item list"

definition ledger_version :: "caretaker_db \<Rightarrow> string \<Rightarrow> nat" where
  "ledger_version d m = (case map_of (cd_ledgerVersions d) m of None \<Rightarrow> 0 | Some n \<Rightarrow> n)"

definition run_get :: "caretaker_db \<Rightarrow> string \<Rightarrow> caretaker_run option" where
  "run_get d i = lookup_by ru_id i (cd_runs d)"

definition db_mission :: "caretaker_db \<Rightarrow> string \<Rightarrow> mission option" where
  "db_mission d i = mission_get (cd_tenant d) i"

definition run_checkpoints :: "caretaker_db \<Rightarrow> string \<Rightarrow> run_checkpoint list" where
  "run_checkpoints d i = filter (\<lambda>c. rc_runId c = i) (cd_checkpoints d)"

definition checkpoint_at :: "caretaker_db \<Rightarrow> string \<Rightarrow> nat \<Rightarrow> run_checkpoint option" where
  "checkpoint_at d i n = find (\<lambda>c. rc_sequence c = n) (run_checkpoints d i)"

definition keyed_checkpoint :: "caretaker_db \<Rightarrow> string \<Rightarrow> string \<Rightarrow> run_checkpoint option" where
  "keyed_checkpoint d i key = find (\<lambda>c. rc_mutationKey c = key) (run_checkpoints d i)"

text \<open>The kind of the last checkpoint that is not a lease replacement.\<close>

definition last_action_kind :: "run_checkpoint list \<Rightarrow> checkpoint_kind option" where
  "last_action_kind cs = map_option rc_kind
     (find (\<lambda>c. rc_kind c \<noteq> CkLeaseReplaced) (rev (sort_key rc_sequence cs)))"

section \<open>Reading\<close>

definition mapRun :: "caretaker_world \<Rightarrow> caretaker_run \<Rightarrow> err + caretaker_run" where
  "mapRun w r = (if caretaker_run_ok w r then Inr r else Inl (ZodError ''CaretakerRunRecord''))"

definition mapCheckpoint :: "caretaker_world \<Rightarrow> run_checkpoint \<Rightarrow> err + run_checkpoint" where
  "mapCheckpoint w c = (if \<not> run_checkpoint_ok w c then Inl (ZodError ''CaretakerRunCheckpoint'')
     else sbind (hashCaretakerTaskLedger w (rc_taskLedger c)) (\<lambda>h.
       if h \<noteq> rc_taskLedgerHash c then Inl (DatabaseConflictError ''Caretaker checkpoint task-ledger hash is invalid'')
       else Inr c))"

definition snapshot_agrees :: "caretaker_world \<Rightarrow> caretaker_run \<Rightarrow> run_checkpoint \<Rightarrow> bool" where
  "snapshot_agrees w r c = (rc_missionId c = ru_missionId r \<and> rc_runStatus c = ru_status r \<and>
     rc_phase c = ru_phase r \<and> rc_taskLedgerVersion c = ru_taskLedgerVersion r \<and>
     cw_canonical w (HashCounters (rc_counters c)) = cw_canonical w (HashCounters (ru_counters r)) \<and>
     cw_canonical w (HashPending (rc_pending c)) = cw_canonical w (HashPending (ru_pending r)))"

definition loadSnapshot :: "caretaker_world \<Rightarrow> caretaker_db \<Rightarrow> string \<Rightarrow> err + run_snapshot option" where
  "loadSnapshot w d i = (case run_get d i of None \<Rightarrow> Inr None
     | Some row \<Rightarrow> sbind (required (checkpoint_at d i (ru_version row))
           (DatabaseConflictError ''Caretaker run lacks its version-matched checkpoint'')) (\<lambda>crow.
         sbind (mapRun w row) (\<lambda>r. sbind (mapCheckpoint w crow) (\<lambda>c.
         if \<not> snapshot_agrees w r c
           then Inl (DatabaseConflictError ''Caretaker run and latest checkpoint disagree'')
         else Inr (Some \<lparr> sn_run = r, sn_checkpoint = c, sn_taskLedger = rc_taskLedger c \<rparr>)))))"

definition requireSnapshot :: "caretaker_world \<Rightarrow> caretaker_db \<Rightarrow> string \<Rightarrow> err + run_snapshot" where
  "requireSnapshot w d i = sbind (loadSnapshot w d i) (\<lambda>x. required x (DatabaseNotFoundError ''Caretaker run''))"

definition runs_get :: "caretaker_world \<Rightarrow> caretaker_db \<Rightarrow> string \<Rightarrow> err + run_snapshot option" where
  "runs_get w d i = (if \<not> id_ok ''run'' i then Inl (ZodError ''RunId'') else loadSnapshot w d i)"

definition runs_getLatestForMission :: "caretaker_world \<Rightarrow> caretaker_db \<Rightarrow> string \<Rightarrow> err + run_snapshot option" where
  "runs_getLatestForMission w d m = (if \<not> id_ok ''mis'' m then Inl (ZodError ''MissionId'')
     else case db_mission d m of None \<Rightarrow> Inr None
     | Some x \<Rightarrow> (case mi_runId x of None \<Rightarrow> Inr None
         | Some i \<Rightarrow> if \<not> id_ok ''run'' i then Inl (ZodError ''RunId'') else loadSnapshot w d i))"

definition listCheckpoints :: "caretaker_world \<Rightarrow> caretaker_db \<Rightarrow> string \<Rightarrow> err + run_checkpoint list" where
  "listCheckpoints w d i = (if \<not> id_ok ''run'' i then Inl (ZodError ''RunId'')
     else map_res (mapCheckpoint w) (sort_key rc_sequence (run_checkpoints d i)))"

section \<open>Constraints and triggers\<close>

text \<open>
  \<open>caretaker_pending_tool_call_is_valid\<close>: PostgreSQL checks the text of the stored input with
  expressions of its own.
\<close>

definition db_credential_key :: rx where
  "db_credential_key = rx_seq [RxSet (\<lambda>c. c = CHR 0x22),
     rx_any api_key_word (rx_seq [rx_word ''header'', rx_opt (rx_word ''s'')] #
       List.map rx_word [''authorization'', ''cookie'', ''credential'', ''password'', ''secret'', ''token'']),
     RxSet (\<lambda>c. c = CHR 0x22), rx_many 0 is_space_char, rx_word '':'']"

definition db_credential_value :: rx where
  "db_credential_value = rx_any
     (rx_seq [rx_word ''bearer'', rx_many 1 is_space_char,
        rx_many 8 (either_case (\<lambda>c. is_lower_alnum c \<or> List.member ''._~+/-'' c))])
     [rx_seq [rx_any (rx_word ''phc'') [rx_word ''phx'', rx_word ''sk''], rx_word ''_'', rx_many 12 (either_case is_id_char)],
      private_key,
      rx_seq [rx_any api_key_word (List.map rx_word [''password'', ''secret'', ''token'']), rx_word ''='',
        rx_many 1 (\<lambda>c. \<not> is_space_char c \<and> c \<noteq> CHR 0x22 \<and> c \<noteq> CHR ''}'')]]"

definition db_home_path :: rx where
  "db_home_path = rx_any (rx_exact ''/Users/'') [rx_exact ''/home/'']"

definition db_private_url :: rx where
  "db_private_url = rx_seq [rx_word ''http'', rx_opt (rx_word ''s''), rx_word ''://'', private_host]"

definition db_text_safe :: "string \<Rightarrow> bool" where
  "db_text_safe t = (\<not> rx_test db_credential_key t \<and> \<not> rx_test db_credential_value t \<and>
     \<not> rx_test db_home_path t \<and> \<not> rx_test db_private_url t)"

definition db_pending_ok :: "caretaker_world \<Rightarrow> pending_tool_call option \<Rightarrow> bool" where
  "db_pending_ok w p = (case p of None \<Rightarrow> True
     | Some q \<Rightarrow> id_ok ''call'' (pt_callId q) \<and> sha256_ok (pt_inputHash q) \<and>
         length (cw_inputText w (pt_input q)) \<le> 16384 \<and> cw_inputDigest w (pt_input q) = pt_inputHash q \<and>
         db_text_safe (cw_inputText w (pt_input q)))"

text \<open>The CHECK constraints of \<open>caretaker_runs\<close>.\<close>

definition run_row_ok :: "caretaker_world \<Rightarrow> caretaker_run \<Rightarrow> bool" where
  "run_row_ok w r = (id_ok ''run'' (ru_id r) \<and> 0 < ru_leaseEpoch r \<and> counters_ok (ru_counters r) \<and>
     db_pending_ok w (ru_pending r) \<and> (ru_status r = RunActive) = is_none (ru_endedAt r) \<and>
     ru_startedAt r \<le> ru_updatedAt r \<and>
     (case ru_endedAt r of None \<Rightarrow> True | Some t \<Rightarrow> ru_startedAt r \<le> t))"

definition lease_at_epoch :: "env \<Rightarrow> caretaker_db \<Rightarrow> string \<Rightarrow> nat \<Rightarrow> bool" where
  "lease_at_epoch env d m epoch = (case lease_get (cd_tenant d) m of None \<Rightarrow> False
     | Some l \<Rightarrow> le_epoch l = epoch \<and> lease_live l (db_now env 0 (cd_tenant d)))"

definition cd_tick :: "caretaker_db \<Rightarrow> caretaker_db" where
  "cd_tick d = d\<lparr> cd_tenant := db_tick 1 (cd_tenant d) \<rparr>"

definition waits_outside :: "mission_state \<Rightarrow> bool" where
  "waits_outside st = List.member [mstate MWaitingForSystem PhObserve, mstate MWaitingForUser PhPlan,
     mstate MWaitingForUser PhApprove] st"

definition counter_steps :: "counters \<Rightarrow> counters \<Rightarrow> bool" where
  "counter_steps old new = (
     ct_toolCalls old \<le> ct_toolCalls new \<and> ct_toolCalls new \<le> ct_toolCalls old + 1 \<and>
     ct_planRevisions old \<le> ct_planRevisions new \<and> ct_planRevisions new \<le> ct_planRevisions old + 1 \<and>
     ct_clarificationPauses old \<le> ct_clarificationPauses new \<and>
     ct_clarificationPauses new \<le> ct_clarificationPauses old + 1 \<and>
     ct_reconciliationPolls old \<le> ct_reconciliationPolls new \<and>
     ct_reconciliationPolls new \<le> ct_reconciliationPolls old + 1 \<and>
     ct_activeMilliseconds old \<le> ct_activeMilliseconds new)"

text \<open>\<open>guard_caretaker_run_mutation\<close> and \<open>caretaker_evidence_profile_immutable\<close>\<close>

definition run_update_ok :: "env \<Rightarrow> caretaker_db \<Rightarrow> caretaker_run \<Rightarrow> caretaker_run \<Rightarrow> bool" where
  "run_update_ok env d old new = (case db_mission d (ru_missionId old) of None \<Rightarrow> False
     | Some m \<Rightarrow>
       let st = mi_state m;
           reactivation = (ru_status old = RunPaused \<and> ru_status new = RunActive \<and> terminal_mission st \<and>
             is_none (ru_endedAt new));
           synchronization = (ru_status old = RunActive \<and> ru_status new = RunActive \<and> ru_phase new = ms_phase st \<and>
             (waits_outside st \<or> terminal_mission st)) in
       (ru_status old = RunActive \<or> reactivation) \<and>
       ru_id new = ru_id old \<and> ru_missionId new = ru_missionId old \<and> ru_startedAt new = ru_startedAt old \<and>
       ru_profile new = ru_profile old \<and>
       ru_version new = ru_version old + 1 \<and>
       ru_taskLedgerVersion old \<le> ru_taskLedgerVersion new \<and> ru_taskLedgerVersion new \<le> ru_taskLedgerVersion old + 1 \<and>
       counter_steps (ru_counters old) (ru_counters new) \<and> ru_updatedAt old \<le> ru_updatedAt new \<and>
       (if ru_leaseEpoch new \<noteq> ru_leaseEpoch old
        then ru_leaseEpoch old < ru_leaseEpoch new \<and> ru_status new = RunActive \<and>
          (ru_phase new = ru_phase old \<or> reactivation \<or> synchronization) \<and>
          ru_taskLedgerVersion new = ru_taskLedgerVersion old \<and> ru_counters new = ru_counters old \<and>
          ru_pending new = ru_pending old \<and> (ru_endedAt new = ru_endedAt old \<or> reactivation)
        else True) \<and>
       lease_at_epoch env d (ru_missionId old) (ru_leaseEpoch new))"

definition update_run ::
  "env \<Rightarrow> caretaker_world \<Rightarrow> caretaker_run \<Rightarrow> caretaker_run \<Rightarrow> caretaker_db \<Rightarrow> err + caretaker_db" where
  "update_run env w old new d =
     (if \<not> run_update_ok env d old new then Inl (DatabaseConflictError ''guard_caretaker_run_mutation'')
      else if \<not> run_row_ok w new then Inl (DatabaseConflictError ''caretaker_runs'')
      else if ru_status new = RunActive \<and>
          list_ex (\<lambda>r. ru_missionId r = ru_missionId new \<and> ru_status r = RunActive \<and> ru_id r \<noteq> ru_id new) (cd_runs d)
        then Inl (DatabaseConflictError ''caretaker_runs_one_active_per_mission'')
      else Inr (cd_tick (d\<lparr> cd_runs := upsert ru_id new (cd_runs d) \<rparr>)))"

text \<open>The run a mission points to, when it belongs to the mission.\<close>

definition pointed_run :: "caretaker_db \<Rightarrow> mission \<Rightarrow> caretaker_run option" where
  "pointed_run d m = (case mi_runId m of None \<Rightarrow> None
     | Some i \<Rightarrow> (case run_get d i of None \<Rightarrow> None
         | Some r \<Rightarrow> if ru_missionId r = mi_id m then Some r else None))"

text \<open>\<open>validate_caretaker_run_insert\<close>\<close>

definition run_insert_ok :: "env \<Rightarrow> caretaker_db \<Rightarrow> caretaker_run \<Rightarrow> bool" where
  "run_insert_ok env d r = (case db_mission d (ru_missionId r) of None \<Rightarrow> False
     | Some m \<Rightarrow>
       ru_version r = 0 \<and> ru_status r = RunActive \<and> ru_updatedAt r = ru_startedAt r \<and> is_none (ru_endedAt r) \<and>
       is_none (ru_pending r) \<and>
       (case pointed_run d m of
          Some p \<Rightarrow> ru_status p = RunPaused \<and>
            (case checkpoint_at d (ru_id p) (ru_version p) of None \<Rightarrow> False | Some c \<Rightarrow> rc_kind c \<noteq> CkBudgetExhausted) \<and>
            is_none (ru_pending p) \<and> ru_updatedAt p \<le> ru_startedAt r \<and> ru_counters r = ru_counters p
        | None \<Rightarrow> ru_counters r = EMPTY_CARETAKER_RUN_COUNTERS) \<and>
       ms_status (mi_state m) = MRunning \<and> ms_phase (mi_state m) = ru_phase r \<and>
       ledger_version d (mi_id m) = ru_taskLedgerVersion r \<and>
       lease_at_epoch env d (ru_missionId r) (ru_leaseEpoch r))"

definition insert_run :: "env \<Rightarrow> caretaker_world \<Rightarrow> caretaker_run \<Rightarrow> caretaker_db \<Rightarrow> err + caretaker_db" where
  "insert_run env w r d =
     (if \<not> run_insert_ok env d r then Inl (DatabaseConflictError ''validate_caretaker_run_insert'')
      else if \<not> run_row_ok w r then Inl (DatabaseConflictError ''caretaker_runs'')
      else if \<not> is_none (run_get d (ru_id r)) then Inl (DatabaseConflictError ''caretaker_runs_pkey'')
      else if list_ex (\<lambda>x. ru_missionId x = ru_missionId r \<and> ru_status x = RunActive) (cd_runs d)
        then Inl (DatabaseConflictError ''caretaker_runs_one_active_per_mission'')
      else Inr (cd_tick (d\<lparr> cd_runs := cd_runs d @ [r] \<rparr>)))"

text \<open>\<open>validate_caretaker_checkpoint\<close>, one part at a time.\<close>

definition db_mission_allows :: "mission_state \<Rightarrow> checkpoint_kind \<Rightarrow> bool \<Rightarrow> bool" where
  "db_mission_allows st kind clearsPending =
     (if kind = CkCompleted then st = mstate MSucceeded PhVerify
      else if kind = CkFailed then ms_status st = MFailed
      else if kind = CkCancelled then ms_status st = MCancelled
      else if kind = CkClarificationPause then st = mstate MWaitingForUser PhPlan
      else if kind = CkApprovalPause then st = mstate MWaitingForUser PhApprove
      else if kind = CkExternalWait then st = mstate MWaitingForSystem PhObserve \<or> st = mstate MRunning PhReconcile
      else if List.member [CkHumanReviewPause, CkSafeRefusal, CkHostFailed, CkBudgetExhausted] kind
        then \<not> terminal_mission st
      else kind = CkLeaseReplaced \<or> (kind = CkStatePersisted \<and> clearsPending \<and> \<not> terminal_mission st) \<or>
        ms_status st = MRunning)"

definition db_pending_rule ::
  "pending_tool_call option \<Rightarrow> pending_tool_call option \<Rightarrow> checkpoint_kind option \<Rightarrow> checkpoint_kind \<Rightarrow> bool" where
  "db_pending_rule old new before kind = (case old of
     None \<Rightarrow> (case new of
         None \<Rightarrow> \<not> List.member [CkToolCall, CkPlanRevision, CkReconciliationPoll] kind
       | Some q \<Rightarrow> reserves_tool kind (pt_toolName q))
   | Some p \<Rightarrow>
       if kind = CkLeaseReplaced then new = old
       else if before = Some CkPlanRevision \<or> before = Some CkReconciliationPoll then kind = CkToolCall \<and> new = old
       else if before = Some CkToolCall \<or> before = Some CkToolWait then
         (if kind = CkToolWait then new = old else kind = CkStatePersisted \<and> is_none new)
       else False)"

definition before_kind :: "caretaker_db \<Rightarrow> run_checkpoint \<Rightarrow> checkpoint_kind option" where
  "before_kind d c = last_action_kind (filter (\<lambda>x. rc_sequence x < rc_sequence c) (run_checkpoints d (rc_runId c)))"

definition db_lease_replacement_ok :: "mission_state \<Rightarrow> run_checkpoint \<Rightarrow> run_checkpoint \<Rightarrow> bool" where
  "db_lease_replacement_ok st p c = (rc_kind c = CkLeaseReplaced \<longrightarrow>
     (rc_phase c = rc_phase p \<or> terminal_mission st \<or> waits_outside st) \<and>
     rc_taskLedgerVersion c = rc_taskLedgerVersion p \<and> rc_pending c = rc_pending p)"

definition db_tool_wait_ok :: "checkpoint_kind option \<Rightarrow> run_checkpoint \<Rightarrow> run_checkpoint \<Rightarrow> bool" where
  "db_tool_wait_ok before p c = (rc_kind c = CkToolWait \<longrightarrow>
     (before = Some CkToolCall \<or> before = Some CkToolWait) \<and>
     ct_activeMilliseconds (rc_counters p) < ct_activeMilliseconds (rc_counters c) \<and>
     rc_phase c = rc_phase p \<and> rc_taskLedgerVersion c = rc_taskLedgerVersion p \<and>
     rc_taskLedgerHash c = rc_taskLedgerHash p \<and> rc_taskLedger c = rc_taskLedger p \<and> rc_evidenceRefs c = [])"

definition checkpoint_insert_ok :: "caretaker_db \<Rightarrow> run_checkpoint \<Rightarrow> bool" where
  "checkpoint_insert_ok d c =
     (if rc_sequence c = 0 then rc_kind c = CkActivated \<and> rc_runStatus c = RunActive \<and> is_none (rc_pending c)
      else case (checkpoint_at d (rc_runId c) (rc_sequence c - 1), db_mission d (rc_missionId c)) of
        (Some p, Some m) \<Rightarrow>
          rc_runStatus c = caretakerRunStatusForCheckpoint (rc_kind c) \<and>
          (rc_kind c = CkLeaseReplaced \<or> rc_phase c = ms_phase (mi_state m)) \<and>
          db_mission_allows (mi_state m) (rc_kind c) (\<not> is_none (rc_pending p) \<and> is_none (rc_pending c)) \<and>
          counters_match (rc_kind c) (rc_counters p) (rc_counters c) \<and>
          ct_activeMilliseconds (rc_counters p) \<le> ct_activeMilliseconds (rc_counters c) \<and>
          rc_taskLedgerVersion p \<le> rc_taskLedgerVersion c \<and> rc_taskLedgerVersion c \<le> rc_taskLedgerVersion p + 1 \<and>
          db_lease_replacement_ok (mi_state m) p c \<and>
          db_tool_wait_ok (before_kind d c) p c \<and>
          db_pending_rule (rc_pending p) (rc_pending c) (before_kind d c) (rc_kind c) \<and>
          (caretakerRunStatusForCheckpoint (rc_kind c) = RunActive \<or> is_none (rc_pending c))
      | _ \<Rightarrow> False)"

definition insert_checkpoint :: "caretaker_world \<Rightarrow> run_checkpoint \<Rightarrow> caretaker_db \<Rightarrow> err + caretaker_db" where
  "insert_checkpoint w c d =
     (if \<not> run_checkpoint_ok w c then Inl (ZodError ''CaretakerRunCheckpoint'')
      else if \<not> checkpoint_insert_ok d c then Inl (DatabaseConflictError ''validate_caretaker_checkpoint'')
      else if \<not> db_pending_ok w (rc_pending c)
        then Inl (DatabaseConflictError ''caretaker_run_checkpoints_pending_tool_call_valid'')
      else if list_ex (\<lambda>x. rc_sequence x = rc_sequence c) (run_checkpoints d (rc_runId c))
        then Inl (DatabaseConflictError ''caretaker_run_checkpoints_pk'')
      else if list_ex (\<lambda>x. rc_mutationKey x = rc_mutationKey c) (run_checkpoints d (rc_runId c))
        then Inl (DatabaseConflictError ''caretaker_run_checkpoints_mutation_unique'')
      else Inr (d\<lparr> cd_checkpoints := cd_checkpoints d @ [c] \<rparr>))"

text \<open>
  A write of the mission row, under \<open>guard_mission_task_ledger_mutation\<close>: a changed pointer
  needs an active run at the written ledger version, a changed ledger one version more and
  the rules of \<open>assertCaretakerTaskLedgerTransition\<close>.
\<close>

definition mission_row_ok :: "caretaker_db \<Rightarrow> mission \<Rightarrow> mission \<Rightarrow> nat \<Rightarrow> bool" where
  "mission_row_ok d old new version = (
     (mi_runId new \<noteq> mi_runId old \<longrightarrow> (case pointed_run d new of None \<Rightarrow> False
        | Some r \<Rightarrow> ru_status r = RunActive \<and> ru_taskLedgerVersion r = version)) \<and>
     (if mi_taskLedger new = mi_taskLedger old then version = ledger_version d (mi_id old)
      else version = ledger_version d (mi_id old) + 1 \<and> length (mi_taskLedger old) \<le> length (mi_taskLedger new) \<and>
        task_steps (mi_taskLedger old) (mi_taskLedger new) = Inr ()))"

definition write_mission :: "mission \<Rightarrow> mission \<Rightarrow> nat \<Rightarrow> caretaker_db \<Rightarrow> err + caretaker_db" where
  "write_mission old new version d =
     (if \<not> mission_row_ok d old new version then Inl (DatabaseConflictError ''guard_mission_task_ledger_mutation'')
      else Inr (d\<lparr> cd_tenant := (cd_tenant d)\<lparr> tn_missions := upsert mi_id new (tn_missions (cd_tenant d)) \<rparr>,
        cd_ledgerVersions := (mi_id old, version) # cd_ledgerVersions d \<rparr>))"

text \<open>The delivery of a terminal envelope: one per run, one per event, and only for a run that is not active.\<close>

definition insert_delivery :: "evidence_delivery \<Rightarrow> caretaker_db \<Rightarrow> err + caretaker_db" where
  "insert_delivery x d =
     (if (case run_get d (ed_runId x) of None \<Rightarrow> True | Some r \<Rightarrow> ru_status r = RunActive)
        then Inl (DatabaseConflictError ''terminal evidence requires a terminal caretaker run'')
      else if list_ex (\<lambda>y. ed_runId y = ed_runId x) (cd_deliveries d)
        then Inl (DatabaseConflictError ''caretaker_terminal_evidence_deliveries_pk'')
      else if list_ex (\<lambda>y. sv_insertId (te_event (ed_envelope y)) = sv_insertId (te_event (ed_envelope x))) (cd_deliveries d)
        then Inl (DatabaseConflictError ''caretaker_terminal_evidence_insert_id_unique'')
      else Inr (d\<lparr> cd_deliveries := cd_deliveries d @ [x] \<rparr>))"

section \<open>Starting a run\<close>

definition assertFence :: "scope \<Rightarrow> string \<Rightarrow> err + nat" where
  "assertFence sc missionId = (case sc of Unfenced \<Rightarrow> Inl MissionFenceRejectedError
     | Fenced m epoch \<Rightarrow> if m \<noteq> missionId \<or> epoch < 1 then Inl MissionFenceRejectedError else Inr epoch)"

record start_input =
  si_runId :: string
  si_missionId :: string
  si_mutationKey :: string
  si_profile :: evidence_profile
  si_occurredAt :: instant

datatype start_kind = StartStarted | StartResumed | StartReplayed

definition finished :: "run_status \<Rightarrow> bool" where
  "finished st = List.member [RunCompleted, RunFailed, RunCancelled] st"

definition is_terminal_finalization :: "mission \<Rightarrow> caretaker_run \<Rightarrow> bool" where
  "is_terminal_finalization m r = ((ru_status r = RunActive \<or> ru_status r = RunPaused) \<and>
     mi_runId m = Some (ru_id r) \<and> terminal_mission (mi_state m))"

definition is_external_synchronization :: "mission \<Rightarrow> caretaker_run \<Rightarrow> bool" where
  "is_external_synchronization m r = (ru_status r = RunActive \<and> mi_runId m = Some (ru_id r) \<and> waits_outside (mi_state m))"

text \<open>A run with the requested identifier: either the call is a replay, or it may go on.\<close>

definition check_existing ::
  "caretaker_world \<Rightarrow> caretaker_db \<Rightarrow> start_input \<Rightarrow> nat \<Rightarrow> string \<Rightarrow> mission \<Rightarrow> caretaker_run \<Rightarrow> err + bool" where
  "check_existing w d i epoch hash m r =
     (if ru_missionId r \<noteq> si_missionId i
        then Inl (DatabaseConflictError ''Caretaker run identity is already bound'')
      else if \<not> evidence_profile_ok w (ru_profile r) then Inl (ZodError ''CaretakerEvidenceProfile'')
      else if ep_configurationHash (ru_profile r) \<noteq> ep_configurationHash (si_profile i)
        then Inl (DatabaseConflictError ''Caretaker evidence profile changed during a durable run'')
      else if mi_runId m = Some (ru_id r) \<and> finished (ru_status r) then Inr True
      else if ru_leaseEpoch r = epoch \<and> (case checkpoint_at d (ru_id r) 0 of None \<Rightarrow> False
          | Some c \<Rightarrow> rc_mutationKey c = si_mutationKey i \<and> rc_mutationHash c = hash) then Inr True
      else if (\<not> is_terminal_finalization m r \<and> ru_status r \<noteq> RunActive) \<or> epoch < ru_leaseEpoch r
        then Inl (DatabaseConflictError ''Caretaker run identity is already bound'')
      else Inr False)"

definition start_hash :: "caretaker_world \<Rightarrow> string \<Rightarrow> start_input \<Rightarrow> string" where
  "start_hash w org i = cw_canonical w (HashStart org (si_missionId i) (si_runId i) (si_mutationKey i)
     (ep_profileHash (si_profile i)) (si_occurredAt i))"

definition resume_hash :: "caretaker_world \<Rightarrow> string \<Rightarrow> start_input \<Rightarrow> string \<Rightarrow> nat \<Rightarrow> string" where
  "resume_hash w org i runId epoch = cw_canonical w (HashResume org (si_missionId i) runId (si_runId i)
     (si_mutationKey i) epoch (si_occurredAt i))"

text \<open>The checkpoint a start writes beside the run.\<close>

definition start_checkpoint ::
  "start_input \<Rightarrow> checkpoint_kind \<Rightarrow> string \<Rightarrow> string \<Rightarrow> task_item list \<Rightarrow> caretaker_run \<Rightarrow> run_checkpoint" where
  "start_checkpoint i kind hash ledgerHash ledger r =
     \<lparr> rc_missionId = si_missionId i, rc_runId = ru_id r, rc_sequence = ru_version r, rc_mutationKey = si_mutationKey i,
       rc_mutationHash = hash, rc_kind = kind, rc_runStatus = RunActive, rc_phase = ru_phase r,
       rc_runVersion = ru_version r, rc_taskLedgerVersion = ru_taskLedgerVersion r, rc_taskLedgerHash = ledgerHash,
       rc_taskLedger = ledger, rc_counters = ru_counters r, rc_pending = ru_pending r, rc_evidenceRefs = [],
       rc_occurredAt = si_occurredAt i \<rparr>"

text \<open>The lease of a run is replaced: the row moves to the new epoch and a checkpoint records it.\<close>

definition replace_lease ::
  "env \<Rightarrow> caretaker_world \<Rightarrow> start_input \<Rightarrow> nat \<Rightarrow> mission \<Rightarrow> caretaker_run \<Rightarrow> caretaker_run \<Rightarrow> caretaker_db \<Rightarrow>
   err + ((start_kind \<times> run_snapshot) \<times> caretaker_db)" where
  "replace_lease env w i epoch m old new d =
     sbind (update_run env w old new d) (\<lambda>d1.
     sbind (hashCaretakerTaskLedger w (mi_taskLedger m)) (\<lambda>h.
     let c = start_checkpoint i CkLeaseReplaced (resume_hash w (tn_org (cd_tenant d)) i (ru_id old) epoch) h (mi_taskLedger m) new in
     sbind (insert_checkpoint w c d1) (\<lambda>d2.
     sbind (mapRun w new) (\<lambda>r.
     Inr ((StartResumed, \<lparr> sn_run = r, sn_checkpoint = c, sn_taskLedger = mi_taskLedger m \<rparr>), d2)))))"

text \<open>A paused run of a finished mission is made active again, so that it can be closed.\<close>

definition finalize_paused ::
  "env \<Rightarrow> caretaker_world \<Rightarrow> start_input \<Rightarrow> nat \<Rightarrow> mission \<Rightarrow> caretaker_run \<Rightarrow> caretaker_db \<Rightarrow>
   err + ((start_kind \<times> run_snapshot) \<times> caretaker_db)" where
  "finalize_paused env w i epoch m r d =
     (if ru_taskLedgerVersion r \<noteq> ledger_version d (mi_id m)
        then Inl (DatabaseConflictError ''Paused run task-ledger version is inconsistent'')
      else if \<not> is_none (ru_pending r)
        then Inl (DatabaseConflictError ''Paused terminal run retained a pending tool call'')
      else if si_occurredAt i < ru_updatedAt r
        then Inl (DatabaseConflictError ''Terminal finalization cannot predate the paused run'')
      else replace_lease env w i epoch m r (r\<lparr> ru_leaseEpoch := epoch, ru_status := RunActive,
        ru_phase := ms_phase (mi_state m), ru_version := ru_version r + 1, ru_updatedAt := si_occurredAt i,
        ru_endedAt := None \<rparr>) d)"

text \<open>The mission has an active run: a newer lease takes it over.\<close>

definition take_over ::
  "env \<Rightarrow> caretaker_world \<Rightarrow> start_input \<Rightarrow> nat \<Rightarrow> mission \<Rightarrow> bool \<Rightarrow> caretaker_run \<Rightarrow> caretaker_db \<Rightarrow>
   err + ((start_kind \<times> run_snapshot) \<times> caretaker_db)" where
  "take_over env w i epoch m follows a d =
     (if \<not> evidence_profile_ok w (ru_profile a) then Inl (ZodError ''CaretakerEvidenceProfile'')
      else if ep_configurationHash (ru_profile a) \<noteq> ep_configurationHash (si_profile i)
        then Inl (DatabaseConflictError ''Caretaker evidence profile changed during lease replacement'')
      else if ru_taskLedgerVersion a \<noteq> ledger_version d (mi_id m)
        then Inl (DatabaseConflictError ''Active run task-ledger version is inconsistent'')
      else if ru_phase a \<noteq> ms_phase (mi_state m) \<and> \<not> follows
        then Inl (DatabaseConflictError ''Active run phase is inconsistent with its mission'')
      else if si_occurredAt i < ru_updatedAt a
        then Inl (DatabaseConflictError ''Lease replacement cannot predate the active run'')
      else if ru_leaseEpoch a = epoch then
        (if (case keyed_checkpoint d (ru_id a) (si_mutationKey i) of None \<Rightarrow> True
             | Some c \<Rightarrow> rc_mutationHash c \<noteq> resume_hash w (tn_org (cd_tenant d)) i (ru_id a) epoch)
           then Inl (DatabaseConflictError ''The current lease epoch already owns an active run'')
         else sbind (requireSnapshot w d (ru_id a)) (\<lambda>x. Inr ((StartReplayed, x), d)))
      else if epoch < ru_leaseEpoch a
        then Inl (DatabaseConflictError ''A newer lease epoch already owns the active run'')
      else replace_lease env w i epoch m a (a\<lparr> ru_leaseEpoch := epoch,
        ru_phase := (if follows then ms_phase (mi_state m) else ru_phase a),
        ru_version := ru_version a + 1, ru_updatedAt := si_occurredAt i \<rparr>) d)"

text \<open>The budget a new run inherits from the paused run before it.\<close>

definition inherited_counters :: "caretaker_db \<Rightarrow> mission \<Rightarrow> err + counters" where
  "inherited_counters d m = (case pointed_run d m of
     None \<Rightarrow> if is_none (mi_runId m) then Inr EMPTY_CARETAKER_RUN_COUNTERS
       else Inl (DatabaseConflictError ''Mission latest Caretaker activation is missing'')
   | Some p \<Rightarrow>
       if ru_status p \<noteq> RunPaused
         then Inl (DatabaseConflictError ''Only a paused Caretaker activation may start a successor'')
       else (case checkpoint_at d (ru_id p) (ru_version p) of
           None \<Rightarrow> Inl (DatabaseConflictError ''Previous Caretaker activation lacks its checkpoint'')
         | Some c \<Rightarrow>
             if rc_kind c = CkBudgetExhausted
               then Inl (DatabaseConflictError ''requires explicit authorization to resume'')
             else if \<not> is_none (ru_pending p)
               then Inl (DatabaseConflictError ''A paused Caretaker activation retained a pending tool call'')
             else if \<not> counters_ok (ru_counters p) then Inl (ZodError ''CaretakerRunCounters'')
             else Inr (ru_counters p)))"

definition first_start ::
  "env \<Rightarrow> caretaker_world \<Rightarrow> start_input \<Rightarrow> nat \<Rightarrow> string \<Rightarrow> mission \<Rightarrow> caretaker_db \<Rightarrow>
   err + ((start_kind \<times> run_snapshot) \<times> caretaker_db)" where
  "first_start env w i epoch hash m d =
     sbind (inherited_counters d m) (\<lambda>counters.
     let r = \<lparr> ru_id = si_runId i, ru_missionId = si_missionId i, ru_leaseEpoch = epoch, ru_status = RunActive,
       ru_phase = ms_phase (mi_state m), ru_version = 0, ru_taskLedgerVersion = ledger_version d (mi_id m),
       ru_counters = counters, ru_pending = None, ru_profile = si_profile i, ru_startedAt = si_occurredAt i,
       ru_updatedAt = si_occurredAt i, ru_endedAt = None \<rparr> in
     sbind (insert_run env w r d) (\<lambda>d1.
     sbind (hashCaretakerTaskLedger w (mi_taskLedger m)) (\<lambda>h.
     let c = start_checkpoint i CkActivated hash h (mi_taskLedger m) r in
     sbind (insert_checkpoint w c d1) (\<lambda>d2.
     sbind (write_mission m (m\<lparr> mi_runId := Some (si_runId i), mi_updatedAt := si_occurredAt i \<rparr>)
       (ledger_version d (mi_id m)) d2) (\<lambda>d3.
     sbind (mapRun w r) (\<lambda>x.
     Inr ((StartStarted, \<lparr> sn_run = x, sn_checkpoint = c, sn_taskLedger = mi_taskLedger m \<rparr>), d3)))))))"

definition finished_canonical_run :: "caretaker_db \<Rightarrow> mission \<Rightarrow> caretaker_run option" where
  "finished_canonical_run d m = (case pointed_run d m of None \<Rightarrow> None
     | Some r \<Rightarrow> if finished (ru_status r) then Some r else None)"

text \<open>The part of \<open>start\<close> after the replays.\<close>

definition start_active ::
  "env \<Rightarrow> caretaker_world \<Rightarrow> start_input \<Rightarrow> nat \<Rightarrow> string \<Rightarrow> mission \<Rightarrow> caretaker_run option \<Rightarrow> caretaker_db \<Rightarrow>
   err + ((start_kind \<times> run_snapshot) \<times> caretaker_db)" where
  "start_active env w i epoch hash m existing d =
     (let finalization = (case existing of None \<Rightarrow> False | Some r \<Rightarrow> is_terminal_finalization m r);
          synchronization = (case existing of None \<Rightarrow> False | Some r \<Rightarrow> is_external_synchronization m r) in
      if ms_status (mi_state m) \<noteq> MRunning \<and> \<not> finalization \<and> \<not> synchronization
        then Inl (DatabaseConflictError ''A Caretaker run may start only for a running mission'')
      else if si_occurredAt i < mi_updatedAt m
        then Inl (DatabaseConflictError ''Caretaker run cannot start before current mission state'')
      else if \<not> task_ledger_ok (mi_taskLedger m) then Inl (ZodError ''CaretakerTaskLedger'')
      else case (if finalization then existing else None) of
        Some r \<Rightarrow> if ru_status r = RunPaused then finalize_paused env w i epoch m r d
          else (case find (\<lambda>x. ru_missionId x = si_missionId i \<and> ru_status x = RunActive) (cd_runs d) of
              None \<Rightarrow> first_start env w i epoch hash m d
            | Some a \<Rightarrow> take_over env w i epoch m True a d)
      | None \<Rightarrow> (case find (\<lambda>x. ru_missionId x = si_missionId i \<and> ru_status x = RunActive) (cd_runs d) of
              None \<Rightarrow> first_start env w i epoch hash m d
            | Some a \<Rightarrow> take_over env w i epoch m synchronization a d))"

definition runs_start ::
  "env \<Rightarrow> caretaker_world \<Rightarrow> scope \<Rightarrow> start_input \<Rightarrow> caretaker_db \<Rightarrow>
   err + ((start_kind \<times> run_snapshot) \<times> caretaker_db)" where
  "runs_start env w sc i d =
     (if \<not> id_ok ''run'' (si_runId i) then Inl (ZodError ''RunId'')
      else if \<not> id_ok ''mis'' (si_missionId i) then Inl (ZodError ''MissionId'')
      else if \<not> sha256_ok (si_mutationKey i) then Inl (ZodError ''Sha256'')
      else if \<not> evidence_profile_ok w (si_profile i) then Inl (ZodError ''CaretakerEvidenceProfile'')
      else sbind (assertFence sc (si_missionId i)) (\<lambda>epoch.
      let hash = start_hash w (tn_org (cd_tenant d)) i in
      sbind (required (db_mission d (si_missionId i)) (DatabaseNotFoundError ''Mission'')) (\<lambda>m.
      let existing = run_get d (si_runId i) in
      sbind (case existing of None \<Rightarrow> Inr False | Some r \<Rightarrow> check_existing w d i epoch hash m r) (\<lambda>replay.
      if replay then sbind (requireSnapshot w d (si_runId i)) (\<lambda>x. Inr ((StartReplayed, x), d))
      else case finished_canonical_run d m of
        Some r \<Rightarrow> sbind (requireSnapshot w d (ru_id r)) (\<lambda>x. Inr ((StartReplayed, x), d))
      | None \<Rightarrow> start_active env w i epoch hash m existing d))))"

section \<open>Checkpoints\<close>

record checkpoint_input =
  ci_runId :: string
  ci_expectedVersion :: int
  ci_expectedTaskLedgerVersion :: int
  ci_mutationKey :: string
  ci_kind :: checkpoint_kind
  ci_counters :: counters
  ci_pending :: "pending_tool_call option"
  ci_taskLedger :: "task_item list"
  ci_evidenceRefs :: "string list"
  ci_terminalEvidence :: "terminal_envelope option"
  ci_occurredAt :: instant

datatype checkpoint_result = CheckpointApplied run_snapshot | CheckpointReplayed run_snapshot
  | CheckpointVersionConflict run_snapshot

text \<open>\<open>Number.isSafeInteger\<close>\<close>

definition safe_version :: "int \<Rightarrow> bool" where
  "safe_version n = (0 \<le> n \<and> n \<le> 9007199254740991)"

definition parse_checkpoint_input :: "caretaker_world \<Rightarrow> checkpoint_input \<Rightarrow> err + unit" where
  "parse_checkpoint_input w i =
     (if \<not> id_ok ''run'' (ci_runId i) then Inl (ZodError ''RunId'')
      else if \<not> sha256_ok (ci_mutationKey i) then Inl (ZodError ''Sha256'')
      else if \<not> mutation_kind_ok (ci_kind i) then Inl (ZodError ''CaretakerRunMutationCheckpointKind'')
      else if \<not> safe_version (ci_expectedVersion i)
        then Inl (TypeError ''Expected Caretaker run version must be a nonnegative safe integer'')
      else if \<not> safe_version (ci_expectedTaskLedgerVersion i)
        then Inl (TypeError ''Expected task-ledger version must be a nonnegative safe integer'')
      else if \<not> counters_ok (ci_counters i) then Inl (ZodError ''CaretakerRunCounters'')
      else if \<not> opt_pending_ok w (ci_pending i) then Inl (ZodError ''CaretakerPendingToolCall'')
      else if \<not> task_ledger_ok (ci_taskLedger i) then Inl (ZodError ''CaretakerTaskLedger'')
      else if \<not> list_all (id_ok ''evd'') (ci_evidenceRefs i) then Inl (ZodError ''EvidenceId'')
      else if \<not> unique (ci_evidenceRefs i)
        then Inl (TypeError ''Caretaker checkpoint evidence references must be unique'')
      else if (case ci_terminalEvidence i of None \<Rightarrow> False | Some e \<Rightarrow> \<not> terminal_envelope_ok w e)
        then Inl (ZodError ''CaretakerTerminalEvidenceEnvelope'')
      else Inr ())"

definition mutation_payload_of :: "string \<Rightarrow> string \<Rightarrow> checkpoint_input \<Rightarrow> mutation_payload" where
  "mutation_payload_of org missionId i =
     \<lparr> mp_organizationId = org, mp_missionId = missionId, mp_runId = ci_runId i, mp_mutationKey = ci_mutationKey i,
       mp_kind = ci_kind i, mp_counters = ci_counters i, mp_pending = ci_pending i, mp_taskLedger = ci_taskLedger i,
       mp_evidenceRefs = ci_evidenceRefs i, mp_terminalEvidence = ci_terminalEvidence i,
       mp_occurredAt = ci_occurredAt i \<rparr>"

text \<open>The \<open>try\<close> blocks turn every error of a rule into a conflict of the database.\<close>

fun as_conflict :: "string \<Rightarrow> err + 'a \<Rightarrow> err + 'a" where
  "as_conflict msg (Inl _) = Inl (DatabaseConflictError msg)"
| "as_conflict msg (Inr x) = Inr x"

definition transition_rules ::
  "caretaker_world \<Rightarrow> checkpoint_input \<Rightarrow> caretaker_run \<Rightarrow> mission \<Rightarrow> checkpoint_kind \<Rightarrow> err + unit" where
  "transition_rules w i row m before = as_conflict ''Caretaker checkpoint transition is invalid''
     (sbind (assertCaretakerTaskLedgerTransition (mi_taskLedger m) (ci_taskLedger i)) (\<lambda>_.
      sbind (assertCaretakerCounterTransition (ru_counters row) (ci_counters i) (ci_kind i)) (\<lambda>_.
      sbind (assertCaretakerPendingToolCallTransition w (ru_pending row) (ci_pending i) (Some before) (ci_kind i)) (\<lambda>_.
      if ci_kind i = CkToolWait
        then assertCaretakerToolWaitPayloadTransition w (Some before) (ru_phase row) (ms_phase (mi_state m))
          (mi_taskLedger m) (ci_taskLedger i) (ci_evidenceRefs i)
        else Inr ()))))"

text \<open>What a checkpoint writes, once its rules hold.\<close>

definition applied_run :: "checkpoint_input \<Rightarrow> mission_phase \<Rightarrow> nat \<Rightarrow> caretaker_run \<Rightarrow> caretaker_run" where
  "applied_run i phase ledgerVersion row = (let status = caretakerRunStatusForCheckpoint (ci_kind i) in
     row\<lparr> ru_status := status, ru_phase := phase, ru_version := ru_version row + 1,
       ru_taskLedgerVersion := ledgerVersion, ru_counters := ci_counters i, ru_pending := ci_pending i,
       ru_updatedAt := ci_occurredAt i, ru_endedAt := (if status = RunActive then None else Some (ci_occurredAt i)) \<rparr>)"

definition applied_checkpoint :: "checkpoint_input \<Rightarrow> string \<Rightarrow> string \<Rightarrow> caretaker_run \<Rightarrow> run_checkpoint" where
  "applied_checkpoint i hash ledgerHash new =
     \<lparr> rc_missionId = ru_missionId new, rc_runId = ci_runId i, rc_sequence = ru_version new,
       rc_mutationKey = ci_mutationKey i, rc_mutationHash = hash, rc_kind = ci_kind i,
       rc_runStatus = ru_status new, rc_phase = ru_phase new, rc_runVersion = ru_version new,
       rc_taskLedgerVersion = ru_taskLedgerVersion new, rc_taskLedgerHash = ledgerHash,
       rc_taskLedger = ci_taskLedger i, rc_counters = ci_counters i, rc_pending = ci_pending i,
       rc_evidenceRefs = ci_evidenceRefs i, rc_occurredAt = ci_occurredAt i \<rparr>"

definition apply_checkpoint ::
  "env \<Rightarrow> caretaker_world \<Rightarrow> checkpoint_input \<Rightarrow> string \<Rightarrow> caretaker_run \<Rightarrow> mission \<Rightarrow> caretaker_db \<Rightarrow>
   err + (checkpoint_result \<times> caretaker_db)" where
  "apply_checkpoint env w i hash row m d =
     sbind (hashCaretakerTaskLedger w (mi_taskLedger m)) (\<lambda>oldHash.
     sbind (hashCaretakerTaskLedger w (ci_taskLedger i)) (\<lambda>newHash.
     let changed = (oldHash \<noteq> newHash); ledgerVersion = ru_taskLedgerVersion row + one_if changed in
     sbind (if changed then write_mission m (m\<lparr> mi_taskLedger := ci_taskLedger i, mi_runId := Some (ci_runId i),
              mi_updatedAt := ci_occurredAt i \<rparr>) ledgerVersion d else Inr d) (\<lambda>d1.
     let new = applied_run i (ms_phase (mi_state m)) ledgerVersion row in
     if (ru_status new = RunActive) \<noteq> is_none (ci_terminalEvidence i)
       then Inl (DatabaseConflictError ''A terminal Caretaker checkpoint requires exactly one terminal evidence envelope'')
     else sbind (update_run env w row new d1) (\<lambda>d2.
     let c = applied_checkpoint i hash newHash new in
     sbind (insert_checkpoint w c d2) (\<lambda>d3.
     sbind (case ci_terminalEvidence i of None \<Rightarrow> Inr d3
        | Some e \<Rightarrow> insert_delivery \<lparr> ed_missionId = ru_missionId row, ed_runId = ci_runId i, ed_envelope = e,
            ed_delivered = False, ed_createdAt = ci_occurredAt i, ed_deliveredAt = None, ed_captureStatus = None \<rparr> d3) (\<lambda>d4.
     sbind (mapRun w new) (\<lambda>r.
     Inr (CheckpointApplied \<lparr> sn_run = r, sn_checkpoint = c, sn_taskLedger = ci_taskLedger i \<rparr>, d4))))))))"

text \<open>The checks between the version check and the writes.\<close>

definition new_checkpoint ::
  "env \<Rightarrow> caretaker_world \<Rightarrow> checkpoint_input \<Rightarrow> nat \<Rightarrow> string \<Rightarrow> caretaker_run \<Rightarrow> caretaker_db \<Rightarrow>
   err + (checkpoint_result \<times> caretaker_db)" where
  "new_checkpoint env w i epoch hash row d =
     (if ru_status row \<noteq> RunActive \<or> ru_leaseEpoch row \<noteq> epoch then Inl MissionFenceRejectedError
      else if ci_occurredAt i < ru_updatedAt row
        then Inl (DatabaseConflictError ''Caretaker checkpoint cannot predate the run state'')
      else sbind (required (db_mission d (ru_missionId row)) (DatabaseNotFoundError ''Mission'')) (\<lambda>m.
      if ledger_version d (mi_id m) \<noteq> ru_taskLedgerVersion row
        then Inl (DatabaseConflictError ''Mission and run task-ledger versions disagree'')
      else sbind (as_conflict ''Caretaker mission state is invalid'' (assertCaretakerMissionStateForCheckpoint (mi_state m)
          (ci_kind i) (\<not> is_none (ru_pending row) \<and> is_none (ci_pending i)))) (\<lambda>_.
      if \<not> task_ledger_ok (mi_taskLedger m) then Inl (ZodError ''CaretakerTaskLedger'')
      else sbind (required (last_action_kind (run_checkpoints d (ci_runId i)))
          (DatabaseConflictError ''Caretaker run lacks an action checkpoint'')) (\<lambda>before.
      sbind (transition_rules w i row m before) (\<lambda>_. apply_checkpoint env w i hash row m d)))))"

definition runs_checkpoint ::
  "env \<Rightarrow> caretaker_world \<Rightarrow> scope \<Rightarrow> checkpoint_input \<Rightarrow> caretaker_db \<Rightarrow> err + (checkpoint_result \<times> caretaker_db)" where
  "runs_checkpoint env w sc i d =
     sbind (parse_checkpoint_input w i) (\<lambda>_.
     sbind (required (run_get d (ci_runId i)) (DatabaseNotFoundError ''Caretaker run'')) (\<lambda>row.
     sbind (assertFence sc (ru_missionId row)) (\<lambda>epoch.
     sbind (hashCaretakerCheckpointMutation w (mutation_payload_of (tn_org (cd_tenant d)) (ru_missionId row) i)) (\<lambda>hash.
     case keyed_checkpoint d (ci_runId i) (ci_mutationKey i) of
       Some c \<Rightarrow>
         if rc_mutationHash c \<noteq> hash
           then Inl (DatabaseConflictError ''Caretaker checkpoint mutation key is already bound'')
         else sbind (requireSnapshot w d (ci_runId i)) (\<lambda>x. Inr (CheckpointReplayed x, d))
     | None \<Rightarrow>
         if int (ru_version row) \<noteq> ci_expectedVersion i \<or>
            int (ru_taskLedgerVersion row) \<noteq> ci_expectedTaskLedgerVersion i
           then sbind (requireSnapshot w d (ci_runId i)) (\<lambda>x. Inr (CheckpointVersionConflict x, d))
         else new_checkpoint env w i epoch hash row d))))"

section \<open>Deliveries of terminal evidence\<close>

definition delivery_ok :: "caretaker_world \<Rightarrow> evidence_delivery \<Rightarrow> bool" where
  "delivery_ok w x = (id_ok ''mis'' (ed_missionId x) \<and> id_ok ''run'' (ed_runId x) \<and>
     terminal_envelope_ok w (ed_envelope x) \<and>
     ed_delivered x = (\<not> is_none (ed_deliveredAt x) \<and> \<not> is_none (ed_captureStatus x)))"

definition mapDelivery :: "caretaker_world \<Rightarrow> evidence_delivery \<Rightarrow> err + evidence_delivery" where
  "mapDelivery w x = (if delivery_ok w x then Inr x else Inl (ZodError ''CaretakerTerminalEvidenceDelivery''))"

definition deliveries_get :: "caretaker_world \<Rightarrow> caretaker_db \<Rightarrow> string \<Rightarrow> err + evidence_delivery option" where
  "deliveries_get w d i = (if \<not> id_ok ''run'' i then Inl (ZodError ''RunId'')
     else case lookup_by ed_runId i (cd_deliveries d) of None \<Rightarrow> Inr None
       | Some x \<Rightarrow> sbind (mapDelivery w x) (\<lambda>y. Inr (Some y)))"

definition listPending :: "caretaker_world \<Rightarrow> caretaker_db \<Rightarrow> int \<Rightarrow> err + evidence_delivery list" where
  "listPending w d limit = (if limit < 1 \<or> 500 < limit
     then Inl (TypeError ''Caretaker evidence delivery limit must be between 1 and 500'')
     else map_res (mapDelivery w) (take (nat limit)
       (sort_key ed_createdAt (sort_key ed_runId (filter (\<lambda>x. \<not> ed_delivered x) (cd_deliveries d))))))"

text \<open>The result is whether the delivery was open.\<close>

definition acknowledge ::
  "caretaker_db \<Rightarrow> string \<Rightarrow> string \<Rightarrow> capture_status \<Rightarrow> instant \<Rightarrow> err + (bool \<times> caretaker_db)" where
  "acknowledge d i eventHash capture t =
     (if \<not> id_ok ''run'' i then Inl (ZodError ''RunId'')
      else if \<not> sha256_ok eventHash then Inl (ZodError ''Sha256'')
      else sbind (required (lookup_by ed_runId i (cd_deliveries d)) (DatabaseNotFoundError ''Caretaker evidence delivery'')) (\<lambda>x.
      if te_eventHash (ed_envelope x) \<noteq> eventHash
        then Inl (DatabaseConflictError ''Caretaker evidence acknowledgement changed its immutable event hash'')
      else if ed_delivered x then Inr (False, d)
      else if t < ed_createdAt x then Inl (DatabaseConflictError ''caretaker_terminal_evidence_time_order'')
      else Inr (True, d\<lparr> cd_deliveries := upsert ed_runId (x\<lparr> ed_delivered := True, ed_deliveredAt := Some t,
        ed_captureStatus := Some capture \<rparr>) (cd_deliveries d) \<rparr>)))"

section \<open>What an operation does to the tables\<close>

text \<open>
  Every operation of the ledger has one of three effects: the tables are kept, a run begins,
  or one run moves by one checkpoint.  Any other service keeps the tables and the pointers of
  the missions to their runs.
\<close>

definition pointer :: "caretaker_db \<Rightarrow> string \<Rightarrow> string option option" where
  "pointer d m = map_option mi_runId (db_mission d m)"

definition pointers_kept :: "caretaker_db \<Rightarrow> caretaker_db \<Rightarrow> bool" where
  "pointers_kept d d' = (\<forall>m. pointer d' m = pointer d m \<or> (pointer d m = None \<and> pointer d' m = Some None))"

definition delivered_runs :: "caretaker_db \<Rightarrow> string set" where
  "delivered_runs d = ed_runId ` set (cd_deliveries d)"

text \<open>The runs that a new run of mission \<open>m\<close> with counters \<open>k\<close> may continue.\<close>

definition continues :: "caretaker_db \<Rightarrow> string \<Rightarrow> counters \<Rightarrow> bool" where
  "continues d m k = (\<exists>p. pointer d m = Some p \<and> (case p of None \<Rightarrow> k = EMPTY_CARETAKER_RUN_COUNTERS
     | Some i \<Rightarrow> \<exists>q. run_get d i = Some q \<and> ru_missionId q = m \<and> ru_counters q = k))"

definition no_active :: "caretaker_db \<Rightarrow> string \<Rightarrow> bool" where
  "no_active d m = (\<forall>x\<in>set (cd_runs d). ru_missionId x = m \<longrightarrow> ru_status x \<noteq> RunActive)"

definition opens :: "caretaker_run \<Rightarrow> run_checkpoint \<Rightarrow> bool" where
  "opens r c = (ru_status r = RunActive \<and> ru_version r = 0 \<and> ru_pending r = None \<and> counters_ok (ru_counters r) \<and>
     rc_runId c = ru_id r \<and> rc_missionId c = ru_missionId r \<and> rc_sequence c = 0 \<and> rc_kind c = CkActivated \<and>
     rc_runStatus c = RunActive \<and> rc_counters c = ru_counters r \<and> rc_pending c = None)"

definition advances :: "caretaker_run \<Rightarrow> caretaker_run \<Rightarrow> run_checkpoint \<Rightarrow> bool" where
  "advances old new c = (ru_id new = ru_id old \<and> ru_missionId new = ru_missionId old \<and>
     ru_version new = ru_version old + 1 \<and> counters_ok (ru_counters new) \<and>
     counters_match (rc_kind c) (ru_counters old) (ru_counters new) \<and>
     ct_activeMilliseconds (ru_counters old) + one_if (rc_kind c = CkToolWait) \<le> ct_activeMilliseconds (ru_counters new) \<and>
     ru_status new = caretakerRunStatusForCheckpoint (rc_kind c) \<and> rc_kind c \<noteq> CkActivated \<and>
     rc_runId c = ru_id old \<and> rc_missionId c = ru_missionId old \<and> rc_sequence c = ru_version new \<and>
     rc_runStatus c = ru_status new \<and> rc_counters c = ru_counters new \<and> rc_pending c = ru_pending new)"

text \<open>The rule of pending calls that PostgreSQL checks against the checkpoint before.\<close>

definition follows_previous :: "caretaker_db \<Rightarrow> run_checkpoint \<Rightarrow> bool" where
  "follows_previous d c = (case checkpoint_at d (rc_runId c) (rc_sequence c - 1) of None \<Rightarrow> False
     | Some p \<Rightarrow> db_pending_rule (rc_pending p) (rc_pending c) (before_kind d c) (rc_kind c) \<and>
         db_tool_wait_ok (before_kind d c) p c)"

inductive ledger_effect :: "caretaker_db \<Rightarrow> caretaker_db \<Rightarrow> bool" for d d' where
  effect_keep: "cd_runs d' = cd_runs d \<Longrightarrow> cd_checkpoints d' = cd_checkpoints d \<Longrightarrow>
     delivered_runs d' = delivered_runs d \<Longrightarrow> pointers_kept d d' \<Longrightarrow> ledger_effect d d'"
| effect_begin: "run_get d (ru_id r) = None \<Longrightarrow> no_active d (ru_missionId r) \<Longrightarrow>
     continues d (ru_missionId r) (ru_counters r) \<Longrightarrow> opens r c \<Longrightarrow>
     cd_runs d' = cd_runs d @ [r] \<Longrightarrow> cd_checkpoints d' = cd_checkpoints d @ [c] \<Longrightarrow>
     delivered_runs d' = delivered_runs d \<Longrightarrow>
     pointer d' = (pointer d)(ru_missionId r := Some (Some (ru_id r))) \<Longrightarrow> ledger_effect d d'"
| effect_move: "run_get d (ru_id old) = Some old \<Longrightarrow> advances old new c \<Longrightarrow> follows_previous d c \<Longrightarrow>
     ru_status old = RunActive \<or> (pointer d (ru_missionId old) = Some (Some (ru_id old)) \<and>
       rc_kind c = CkLeaseReplaced) \<Longrightarrow>
     cd_runs d' = upsert ru_id new (cd_runs d) \<Longrightarrow> cd_checkpoints d' = cd_checkpoints d @ [c] \<Longrightarrow>
     (if ru_status new = RunActive then delivered_runs d' = delivered_runs d
      else ru_id old \<notin> delivered_runs d \<and> delivered_runs d' = insert (ru_id old) (delivered_runs d)) \<Longrightarrow>
     pointer d' = pointer d \<or> (ru_status old = RunActive \<and>
       pointer d' = (pointer d)(ru_missionId old := Some (Some (ru_id old)))) \<Longrightarrow> ledger_effect d d'"

lemma run_get_id: "run_get d i = Some r \<Longrightarrow> ru_id r = i"
  unfolding run_get_def by (drule lookup_by_SomeD) simp

lemma run_get_in: "run_get d i = Some r \<Longrightarrow> r \<in> set (cd_runs d)"
  unfolding run_get_def by (drule lookup_by_SomeD) simp

lemma db_mission_id: "db_mission d i = Some m \<Longrightarrow> mi_id m = i"
  unfolding db_mission_def mission_get_def by (drule lookup_by_SomeD) simp

lemma cd_tick_sel [simp]:
  "cd_runs (cd_tick d) = cd_runs d" "cd_checkpoints (cd_tick d) = cd_checkpoints d"
  "cd_deliveries (cd_tick d) = cd_deliveries d" "cd_ledgerVersions (cd_tick d) = cd_ledgerVersions d"
  "db_mission (cd_tick d) m = db_mission d m" "delivered_runs (cd_tick d) = delivered_runs d"
  "pointer (cd_tick d) = pointer d"
  by (simp_all add: cd_tick_def db_mission_def mission_get_def delivered_runs_def pointer_def fun_eq_iff)

lemma run_tables_sel [simp]:
  "db_mission (d\<lparr> cd_runs := rs \<rparr>) m = db_mission d m" "db_mission (d\<lparr> cd_checkpoints := cs \<rparr>) m = db_mission d m"
  "db_mission (d\<lparr> cd_deliveries := xs \<rparr>) m = db_mission d m"
  "pointer (d\<lparr> cd_runs := rs \<rparr>) = pointer d" "pointer (d\<lparr> cd_checkpoints := cs \<rparr>) = pointer d"
  "pointer (d\<lparr> cd_deliveries := xs \<rparr>) = pointer d"
  "delivered_runs (d\<lparr> cd_runs := rs \<rparr>) = delivered_runs d"
  "delivered_runs (d\<lparr> cd_checkpoints := cs \<rparr>) = delivered_runs d"
  "run_get (d\<lparr> cd_checkpoints := cs \<rparr>) i = run_get d i" "run_get (d\<lparr> cd_deliveries := xs \<rparr>) i = run_get d i"
  by (simp_all add: db_mission_def pointer_def delivered_runs_def run_get_def fun_eq_iff)

lemma update_run_Inr:
  "update_run env w old new d = Inr d' \<longleftrightarrow> run_update_ok env d old new \<and> run_row_ok w new \<and>
     (ru_status new = RunActive \<longrightarrow>
       (\<forall>r\<in>set (cd_runs d). ru_missionId r = ru_missionId new \<and> ru_status r = RunActive \<longrightarrow> ru_id r = ru_id new)) \<and>
     d' = cd_tick (d\<lparr> cd_runs := upsert ru_id new (cd_runs d) \<rparr>)"
  unfolding update_run_def by (auto simp: list_ex_iff)

lemma insert_checkpoint_Inr:
  "insert_checkpoint w c d = Inr d' \<longleftrightarrow> run_checkpoint_ok w c \<and> checkpoint_insert_ok d c \<and> db_pending_ok w (rc_pending c) \<and>
     (\<forall>x\<in>set (run_checkpoints d (rc_runId c)). rc_sequence x \<noteq> rc_sequence c \<and> rc_mutationKey x \<noteq> rc_mutationKey c) \<and>
     d' = d\<lparr> cd_checkpoints := cd_checkpoints d @ [c] \<rparr>"
  unfolding insert_checkpoint_def by (auto simp: list_ex_iff)

lemma insert_run_Inr:
  "insert_run env w r d = Inr d' \<longleftrightarrow> run_insert_ok env d r \<and> run_row_ok w r \<and> run_get d (ru_id r) = None \<and>
     no_active d (ru_missionId r) \<and> d' = cd_tick (d\<lparr> cd_runs := cd_runs d @ [r] \<rparr>)"
  unfolding insert_run_def no_active_def by (auto simp: list_ex_iff)

lemma write_mission_Inr:
  "write_mission old new v d = Inr d' \<Longrightarrow> mission_row_ok d old new v \<and> cd_runs d' = cd_runs d \<and>
     cd_checkpoints d' = cd_checkpoints d \<and> cd_deliveries d' = cd_deliveries d \<and>
     db_mission d' = (db_mission d)(mi_id new := Some new) \<and> ledger_version d' = (ledger_version d)(mi_id old := v)"
  unfolding write_mission_def
  by (auto simp: db_mission_def mission_get_def ledger_version_def fun_eq_iff)

lemma checkpoint_tables_sel [simp]:
  "run_checkpoints (cd_tick d) i = run_checkpoints d i" "run_checkpoints (d\<lparr> cd_runs := rs \<rparr>) i = run_checkpoints d i"
  "checkpoint_at (cd_tick d) i n = checkpoint_at d i n" "checkpoint_at (d\<lparr> cd_runs := rs \<rparr>) i n = checkpoint_at d i n"
  by (simp_all add: run_checkpoints_def checkpoint_at_def)

lemma run_checkpoints_cong: "cd_checkpoints d' = cd_checkpoints d \<Longrightarrow> run_checkpoints d' = run_checkpoints d"
  by (simp add: run_checkpoints_def fun_eq_iff)

lemma checkpoint_insert_follows: "checkpoint_insert_ok d c \<Longrightarrow> rc_sequence c \<noteq> 0 \<Longrightarrow> follows_previous d c"
  by (auto simp: checkpoint_insert_ok_def follows_previous_def split: option.splits)

lemma follows_previous_cong:
  "cd_checkpoints d' = cd_checkpoints d \<Longrightarrow> follows_previous d' c = follows_previous d c"
  by (simp only: follows_previous_def before_kind_def checkpoint_at_def run_checkpoints_def)

lemma counters_match_refl: "counters_match CkLeaseReplaced k k"
  by (simp add: counters_match_def one_if_def)

lemma replace_lease_effect:
  assumes "replace_lease env w i epoch m old new d = Inr (x, d')" "run_get d (ru_id old) = Some old"
    and "ru_missionId old = si_missionId i" "ru_id new = ru_id old" "ru_missionId new = ru_missionId old"
    and "ru_version new = ru_version old + 1" "ru_status new = RunActive" "ru_counters new = ru_counters old"
    and "ru_status old = RunActive \<or> pointer d (ru_missionId old) = Some (Some (ru_id old))"
  shows "ledger_effect d d'"
proof -
  from assms(1) obtain d1 c h where u: "update_run env w old new d = Inr d1"
    and c: "c = start_checkpoint i CkLeaseReplaced (resume_hash w (tn_org (cd_tenant d)) i (ru_id old) epoch) h (mi_taskLedger m) new"
    and k: "insert_checkpoint w c d1 = Inr d'"
    by (auto simp: replace_lease_def sbind_eq_Inr Let_def)
  note u = u[unfolded update_run_Inr] and k = k[unfolded insert_checkpoint_Inr]
  have "counters_ok (ru_counters new)" using u by (simp add: run_row_ok_def)
  then have a: "advances old new c"
    using assms(3-8) by (simp add: advances_def c start_checkpoint_def counters_match_refl one_if_def)
  have "follows_previous d1 c"
    using k assms(6) by (intro checkpoint_insert_follows) (simp_all add: c start_checkpoint_def)
  moreover have "cd_checkpoints d1 = cd_checkpoints d" using u by simp
  ultimately have f: "follows_previous d c" using follows_previous_cong by blast
  show ?thesis
    by (rule effect_move[OF assms(2) a f]) (use assms(7,9) u k in \<open>auto simp: c start_checkpoint_def\<close>)
qed

lemma finalize_paused_effect:
  assumes "finalize_paused env w i epoch m r d = Inr (x, d')" "run_get d (ru_id r) = Some r"
    and "ru_missionId r = si_missionId i" "pointer d (ru_missionId r) = Some (Some (ru_id r))"
  shows "ledger_effect d d'"
proof -
  from assms(1) obtain new where n: "replace_lease env w i epoch m r new d = Inr (x, d')" "ru_id new = ru_id r"
    "ru_missionId new = ru_missionId r" "ru_version new = ru_version r + 1" "ru_status new = RunActive"
    "ru_counters new = ru_counters r"
    unfolding finalize_paused_def by (auto split: if_splits)
  show ?thesis by (rule replace_lease_effect[OF n(1) assms(2,3) n(2-6)]) (simp add: assms(4))
qed

lemma take_over_effect:
  assumes "take_over env w i epoch m follows a d = Inr (x, d')" "run_get d (ru_id a) = Some a"
    and "ru_missionId a = si_missionId i" "ru_status a = RunActive"
  shows "ledger_effect d d'"
proof (cases "ru_leaseEpoch a = epoch")
  case True
  then have "d' = d" using assms(1) by (auto simp: take_over_def sbind_eq_Inr split: if_splits option.splits)
  then show ?thesis by (auto intro: effect_keep simp: pointers_kept_def)
next
  case False
  with assms(1) show ?thesis unfolding take_over_def
    by (auto simp: assms intro!: replace_lease_effect[OF _ assms(2,3)] split: if_splits)
qed

lemma inherited_counters_Inr:
  "inherited_counters d m = Inr k \<Longrightarrow> db_mission d (mi_id m) = Some m \<Longrightarrow> continues d (mi_id m) k"
  by (auto simp: inherited_counters_def continues_def pointer_def pointed_run_def split: option.splits if_splits)

lemma pointer_upd: "db_mission d' = (db_mission d)(i := Some x) \<Longrightarrow> pointer d' = (pointer d)(i := Some (mi_runId x))"
  by (simp add: pointer_def fun_eq_iff)

lemma first_start_effect:
  assumes "first_start env w i epoch hash m d = Inr (x, d')" "db_mission d (si_missionId i) = Some m"
  shows "ledger_effect d d'"
proof -
  have mid: "mi_id m = si_missionId i" using db_mission_id[OF assms(2)] .
  from assms(1) obtain k r h c d1 d2 where k: "inherited_counters d m = Inr k"
    and r: "r = \<lparr> ru_id = si_runId i, ru_missionId = si_missionId i, ru_leaseEpoch = epoch, ru_status = RunActive,
       ru_phase = ms_phase (mi_state m), ru_version = 0, ru_taskLedgerVersion = ledger_version d (mi_id m),
       ru_counters = k, ru_pending = None, ru_profile = si_profile i, ru_startedAt = si_occurredAt i,
       ru_updatedAt = si_occurredAt i, ru_endedAt = None \<rparr>"
    and u: "insert_run env w r d = Inr d1" and c: "c = start_checkpoint i CkActivated hash h (mi_taskLedger m) r"
    and p: "insert_checkpoint w c d1 = Inr d2"
    and wm: "write_mission m (m\<lparr> mi_runId := Some (si_runId i), mi_updatedAt := si_occurredAt i \<rparr>)
       (ledger_version d (mi_id m)) d2 = Inr d'"
    by (auto simp: first_start_def sbind_eq_Inr Let_def)
  note u = u[unfolded insert_run_Inr] and p = p[unfolded insert_checkpoint_Inr] and wm = write_mission_Inr[OF wm]
  have "counters_ok k" using u by (simp add: run_row_ok_def r)
  then have o': "opens r c" by (simp add: opens_def r c start_checkpoint_def)
  have "continues d (si_missionId i) k" using inherited_counters_Inr[OF k] assms(2) mid by simp
  moreover have "pointer d' = (pointer d)(si_missionId i := Some (Some (si_runId i)))"
    using pointer_upd[of d' d2 "mi_id m"] wm p u mid by simp
  ultimately show ?thesis
    by (intro effect_begin[OF _ _ _ o']) (use u p wm in \<open>auto simp: r delivered_runs_def\<close>)
qed

lemma start_active_effect:
  assumes "start_active env w i epoch hash m existing d = Inr (x, d')" "db_mission d (si_missionId i) = Some m"
    and "\<And>r. existing = Some r \<Longrightarrow> run_get d (ru_id r) = Some r \<and> ru_missionId r = si_missionId i"
    and "distinct (List.map ru_id (cd_runs d))"
  shows "ledger_effect d d'"
proof -
  have a: "ledger_effect d d'" if "find (\<lambda>x. ru_missionId x = si_missionId i \<and> ru_status x = RunActive) (cd_runs d) = Some a"
    "take_over env w i epoch m f a d = Inr (x, d')" for a f
  proof -
    from find_Some_in[OF that(1)] have "a \<in> set (cd_runs d)" "ru_missionId a = si_missionId i" "ru_status a = RunActive" by auto
    moreover from this(1) assms(4) have "run_get d (ru_id a) = Some a"
      unfolding run_get_def by (simp add: lookup_by_eq_Some_distinct)
    ultimately show ?thesis using that(2) by (auto intro: take_over_effect)
  qed
  have b: "ledger_effect d d'" if "existing = Some r" "is_terminal_finalization m r" "finalize_paused env w i epoch m r d = Inr (x, d')" for r
  proof (rule finalize_paused_effect[OF that(3)])
    show "run_get d (ru_id r) = Some r" "ru_missionId r = si_missionId i" using assms(3)[OF that(1)] by auto
    then show "pointer d (ru_missionId r) = Some (Some (ru_id r))"
      using that(2) assms(2) by (simp add: pointer_def is_terminal_finalization_def)
  qed
  from assms(1) a b first_start_effect[OF _ assms(2)] show ?thesis
    unfolding start_active_def Let_def by (auto split: if_splits option.splits)
qed

lemma run_get_Some_self: "run_get d i = Some r \<Longrightarrow> run_get d (ru_id r) = Some r"
  using run_get_id by fastforce

lemma effect_same: "ledger_effect d d"
  by (auto intro: effect_keep simp: pointers_kept_def)

lemma runs_start_effect:
  assumes "runs_start env w sc i d = Inr (x, d')" "distinct (List.map ru_id (cd_runs d))"
  shows "ledger_effect d d'"
proof -
  from assms(1) obtain epoch m replay where m: "db_mission d (si_missionId i) = Some m"
    and e: "(case run_get d (si_runId i) of None \<Rightarrow> Inr False
      | Some r \<Rightarrow> check_existing w d i epoch (start_hash w (tn_org (cd_tenant d)) i) m r) = Inr replay"
    and g: "(if replay then sbind (requireSnapshot w d (si_runId i)) (\<lambda>x. Inr ((StartReplayed, x), d))
      else case finished_canonical_run d m of
        Some r \<Rightarrow> sbind (requireSnapshot w d (ru_id r)) (\<lambda>x. Inr ((StartReplayed, x), d))
      | None \<Rightarrow> start_active env w i epoch (start_hash w (tn_org (cd_tenant d)) i) m (run_get d (si_runId i)) d) = Inr (x, d')"
    by (auto simp: runs_start_def sbind_eq_Inr Let_def)
  have r: "run_get d (ru_id r) = Some r \<and> ru_missionId r = si_missionId i" if "run_get d (si_runId i) = Some r" for r
    using e that run_get_Some_self by (auto simp: check_existing_def)
  show ?thesis
    using g r start_active_effect[OF _ m _ assms(2)] effect_same
    by (auto simp: sbind_eq_Inr split: if_splits option.splits)
qed

lemma as_conflict_Inr [simp]: "as_conflict msg r = Inr u \<longleftrightarrow> r = Inr u"
  by (cases r) auto

lemma write_ledger_tables:
  assumes "(if changed then write_mission m (m\<lparr> mi_taskLedger := l, mi_runId := Some i, mi_updatedAt := t \<rparr>) v d else Inr d) = Inr d1"
    and "db_mission d k = Some m"
  shows "cd_runs d1 = cd_runs d" "cd_checkpoints d1 = cd_checkpoints d" "delivered_runs d1 = delivered_runs d"
    and "pointer d1 = pointer d \<or> pointer d1 = (pointer d)(k := Some (Some i))"
proof -
  consider "d1 = d" | "write_mission m (m\<lparr> mi_taskLedger := l, mi_runId := Some i, mi_updatedAt := t \<rparr>) v d = Inr d1"
    using assms(1) that by (cases changed) simp_all
  then have "cd_runs d1 = cd_runs d \<and> cd_checkpoints d1 = cd_checkpoints d \<and> delivered_runs d1 = delivered_runs d \<and>
    (pointer d1 = pointer d \<or> pointer d1 = (pointer d)(k := Some (Some i)))"
  proof cases
    case 2
    note wm = write_mission_Inr[OF 2]
    have "pointer d1 = (pointer d)(k := Some (Some i))"
      using pointer_upd[of d1 d "mi_id m"] wm db_mission_id[OF assms(2)] by simp
    then show ?thesis using wm by (simp add: delivered_runs_def)
  qed simp
  then show "cd_runs d1 = cd_runs d" "cd_checkpoints d1 = cd_checkpoints d" "delivered_runs d1 = delivered_runs d"
    "pointer d1 = pointer d \<or> pointer d1 = (pointer d)(k := Some (Some i))" by auto
qed

lemma insert_delivery_Inr:
  assumes "insert_delivery x d = Inr d'"
  shows "d' = d\<lparr> cd_deliveries := cd_deliveries d @ [x] \<rparr>" "ed_runId x \<notin> delivered_runs d"
  using assms unfolding insert_delivery_def delivered_runs_def by (auto simp: list_ex_iff split: if_splits)

lemma apply_checkpointE:
  assumes "apply_checkpoint env w i hash row m d = Inr (x, d')"
  obtains changed v d1 new d2 c h d3 where
    "(if changed then write_mission m (m\<lparr> mi_taskLedger := ci_taskLedger i, mi_runId := Some (ci_runId i),
              mi_updatedAt := ci_occurredAt i \<rparr>) v d else Inr d) = Inr d1"
    "new = applied_run i (ms_phase (mi_state m)) v row"
    "(ru_status new = RunActive) = is_none (ci_terminalEvidence i)"
    "update_run env w row new d1 = Inr d2" "c = applied_checkpoint i hash h new"
    "insert_checkpoint w c d2 = Inr d3"
    "(case ci_terminalEvidence i of None \<Rightarrow> Inr d3
        | Some e \<Rightarrow> insert_delivery \<lparr> ed_missionId = ru_missionId row, ed_runId = ci_runId i, ed_envelope = e,
            ed_delivered = False, ed_createdAt = ci_occurredAt i, ed_deliveredAt = None, ed_captureStatus = None \<rparr> d3) = Inr d'"
    "hashCaretakerTaskLedger w (ci_taskLedger i) = Inr h" "mapRun w new = Inr new"
    "x = CheckpointApplied \<lparr> sn_run = new, sn_checkpoint = c, sn_taskLedger = ci_taskLedger i \<rparr>"
proof -
  have mr: "mapRun w r = Inr y \<Longrightarrow> y = r" for r y by (auto simp: mapRun_def split: if_splits)
  from assms obtain changed v d1 new d2 c h d3 d4 where
    *: "(if changed then write_mission m (m\<lparr> mi_taskLedger := ci_taskLedger i, mi_runId := Some (ci_runId i),
              mi_updatedAt := ci_occurredAt i \<rparr>) v d else Inr d) = Inr d1"
    "new = applied_run i (ms_phase (mi_state m)) v row"
    "(ru_status new = RunActive) = is_none (ci_terminalEvidence i)"
    "update_run env w row new d1 = Inr d2" "c = applied_checkpoint i hash h new"
    "insert_checkpoint w c d2 = Inr d3"
    "(case ci_terminalEvidence i of None \<Rightarrow> Inr d3
        | Some e \<Rightarrow> insert_delivery \<lparr> ed_missionId = ru_missionId row, ed_runId = ci_runId i, ed_envelope = e,
            ed_delivered = False, ed_createdAt = ci_occurredAt i, ed_deliveredAt = None, ed_captureStatus = None \<rparr> d3) = Inr d4"
    "hashCaretakerTaskLedger w (ci_taskLedger i) = Inr h"
    "\<exists>r. mapRun w new = Inr r \<and> CheckpointApplied \<lparr> sn_run = r, sn_checkpoint = c, sn_taskLedger = ci_taskLedger i \<rparr> = x \<and> d4 = d'"
    unfolding apply_checkpoint_def Let_def sbind_eq_Inr if_Inl_eq_Inr not_not sum.inject prod.inject
    by - (elim exE conjE, rule that[OF _ refl _ _ refl], assumption+, intro exI conjI; assumption)
  from *(9) obtain r where r: "mapRun w new = Inr r" "d4 = d'"
    "x = CheckpointApplied \<lparr> sn_run = r, sn_checkpoint = c, sn_taskLedger = ci_taskLedger i \<rparr>" by blast
  note mr[OF r(1)]
  from that[OF *(1-6) *(7)[unfolded r(2)] *(8) r(1,3)[unfolded this]] show thesis .
qed

lemma apply_checkpoint_effect:
  assumes "apply_checkpoint env w i hash row m d = Inr (x, d')"
    and "run_get d (ci_runId i) = Some row" "db_mission d (ru_missionId row) = Some m" "ru_status row = RunActive"
    and "assertCaretakerCounterTransition (ru_counters row) (ci_counters i) (ci_kind i) = Inr u"
  shows "ledger_effect d d'"
proof -
  from assms(1) obtain changed v d1 new d2 c h d3 where
    w1: "(if changed then write_mission m (m\<lparr> mi_taskLedger := ci_taskLedger i, mi_runId := Some (ci_runId i),
              mi_updatedAt := ci_occurredAt i \<rparr>) v d else Inr d) = Inr d1"
    and new: "new = applied_run i (ms_phase (mi_state m)) v row"
    and te: "(ru_status new = RunActive) = is_none (ci_terminalEvidence i)"
    and w2: "update_run env w row new d1 = Inr d2" and c: "c = applied_checkpoint i hash h new"
    and w3: "insert_checkpoint w c d2 = Inr d3"
    and w4: "(case ci_terminalEvidence i of None \<Rightarrow> Inr d3
        | Some e \<Rightarrow> insert_delivery \<lparr> ed_missionId = ru_missionId row, ed_runId = ci_runId i, ed_envelope = e,
            ed_delivered = False, ed_createdAt = ci_occurredAt i, ed_deliveredAt = None, ed_captureStatus = None \<rparr> d3) = Inr d'"
    by (rule apply_checkpointE)
  note t1 = write_ledger_tables[OF w1 assms(3)] and w2 = w2[unfolded update_run_Inr] and w3 = w3[unfolded insert_checkpoint_Inr]
  have i: "ru_id row = ci_runId i" using run_get_id[OF assms(2)] .
  have k: "rc_kind c = ci_kind i" "ci_kind i \<noteq> CkActivated" "counters_match (ci_kind i) (ru_counters row) (ci_counters i)"
    "ct_activeMilliseconds (ru_counters row) + one_if (ci_kind i = CkToolWait) \<le> ct_activeMilliseconds (ci_counters i)"
    using assms(5) by (auto simp: c applied_checkpoint_def assertCaretakerCounterTransition_def mutation_kind_ok_def one_if_def)
  have a: "advances row new c" using k w2
    by (simp add: advances_def new c applied_run_def applied_checkpoint_def Let_def i run_row_ok_def)
  have "cd_checkpoints d2 = cd_checkpoints d" using w2 t1 by simp
  moreover have "follows_previous d2 c"
    using w3 a by (intro checkpoint_insert_follows) (simp_all add: advances_def)
  ultimately have f: "follows_previous d c" using follows_previous_cong by blast
  have s: "delivered_runs d2 = delivered_runs d" "pointer d2 = pointer d1" using w2 t1 by simp_all
  have e: "if ru_status new = RunActive then d' = d3
    else ru_id row \<notin> delivered_runs d3 \<and> delivered_runs d' = insert (ru_id row) (delivered_runs d3) \<and>
      cd_runs d' = cd_runs d3 \<and> cd_checkpoints d' = cd_checkpoints d3 \<and> pointer d' = pointer d3"
  proof (cases "ci_terminalEvidence i")
    case None then show ?thesis using te w4 by simp
  next
    case (Some ev)
    note y = insert_delivery_Inr[OF w4[unfolded Some option.case]]
    show ?thesis using te Some y i by (auto simp: delivered_runs_def)
  qed
  show ?thesis
  proof (rule effect_move[of d "row" new c, OF _ a f])
    show "run_get d (ru_id row) = Some row" using assms(2) i by simp
  qed (use e w2 w3 t1 s assms(4) i in \<open>auto split: if_splits\<close>)
qed

lemma runs_checkpoint_effect:
  assumes "runs_checkpoint env w sc i d = Inr (x, d')"
  shows "ledger_effect d d'"
proof -
  from assms consider "d' = d"
    | row epoch hash where "run_get d (ci_runId i) = Some row" "new_checkpoint env w i epoch hash row d = Inr (x, d')"
    by (auto simp: runs_checkpoint_def sbind_eq_Inr split: option.splits if_splits)
  then show ?thesis
  proof cases
    case 1 then show ?thesis by (simp add: effect_same)
  next
    case 2
    from 2(2) obtain m before where "db_mission d (ru_missionId row) = Some m" "ru_status row = RunActive"
      "transition_rules w i row m before = Inr ()" "apply_checkpoint env w i hash row m d = Inr (x, d')"
      by (auto simp: new_checkpoint_def sbind_eq_Inr split: if_splits)
    then show ?thesis using 2(1) by (auto simp: transition_rules_def sbind_eq_Inr intro!: apply_checkpoint_effect)
  qed
qed

section \<open>The system of operations\<close>

text \<open>
  Every other service leaves the ledger and the columns the ledger owns alone; it may add
  missions, without a run.
\<close>

definition ledger_untouched :: "caretaker_db \<Rightarrow> caretaker_db \<Rightarrow> bool" where
  "ledger_untouched d d' = (cd_runs d' = cd_runs d \<and> cd_checkpoints d' = cd_checkpoints d \<and>
     cd_deliveries d' = cd_deliveries d \<and> cd_ledgerVersions d' = cd_ledgerVersions d \<and> pointers_kept d d')"

inductive caretaker_step :: "env \<Rightarrow> caretaker_world \<Rightarrow> caretaker_db \<Rightarrow> caretaker_db \<Rightarrow> bool" for env w d d' where
  step_start: "runs_start env w sc i d = Inr (x, d') \<Longrightarrow> caretaker_step env w d d'"
| step_checkpoint: "runs_checkpoint env w sc j d = Inr (y, d') \<Longrightarrow> caretaker_step env w d d'"
| step_acknowledge: "acknowledge d k h capture t = Inr (b, d') \<Longrightarrow> caretaker_step env w d d'"
| step_other: "ledger_untouched d d' \<Longrightarrow> caretaker_step env w d d'"

lemma acknowledge_effect:
  assumes "acknowledge d k h capture t = Inr (b, d')"
  shows "ledger_effect d d'"
proof -
  let ?y = "\<lambda>x. x\<lparr> ed_delivered := True, ed_deliveredAt := Some t, ed_captureStatus := Some capture \<rparr>"
  from assms obtain x where x: "lookup_by ed_runId k (cd_deliveries d) = Some x"
    and c: "d' = d \<or> d' = d\<lparr> cd_deliveries := upsert ed_runId (?y x) (cd_deliveries d) \<rparr>"
    by (auto simp: acknowledge_def sbind_eq_Inr split: if_splits)
  have "delivered_runs d' = delivered_runs d"
    using c
  proof
    assume "d' = d\<lparr> cd_deliveries := upsert ed_runId (?y x) (cd_deliveries d) \<rparr>"
    then have "delivered_runs d' = insert (ed_runId (?y x)) (delivered_runs d)"
      unfolding delivered_runs_def by (simp add: keys_upsert del: image_insert)
    then show ?thesis using lookup_by_SomeD[OF x] by (auto simp: delivered_runs_def)
  qed simp
  with c show ?thesis by (intro effect_keep) (auto simp: pointers_kept_def)
qed

lemma caretaker_step_effect:
  "caretaker_step env w d d' \<Longrightarrow> distinct (List.map ru_id (cd_runs d)) \<Longrightarrow> ledger_effect d d'"
  by (induction rule: caretaker_step.induct)
    (auto intro: runs_start_effect runs_checkpoint_effect acknowledge_effect effect_keep
      simp: ledger_untouched_def delivered_runs_def)

end
