(* ===== verification/Caretaker_Protocol.thy ===== *)
theory Caretaker_Protocol
  imports Caretaker_Runs
begin

text \<open>
  What the ledger of caretaker runs guarantees: the budget of a mission is spent once across
  all its runs, the calls of a run follow their protocol, an applied checkpoint replays, and
  what the deliveries of terminal evidence prevent.
\<close>

section \<open>Budgets\<close>

definition mission_checkpoints :: "caretaker_db \<Rightarrow> string \<Rightarrow> run_checkpoint list" where
  "mission_checkpoints d m = filter (\<lambda>c. rc_missionId c = m) (cd_checkpoints d)"

definition occurrences :: "checkpoint_kind \<Rightarrow> run_checkpoint list \<Rightarrow> nat" where
  "occurrences k cs = length (filter (\<lambda>c. rc_kind c = k) cs)"

definition spent_by :: "run_checkpoint list \<Rightarrow> counters \<Rightarrow> bool" where
  "spent_by cs k = (occurrences CkToolCall cs = ct_toolCalls k \<and> occurrences CkPlanRevision cs = ct_planRevisions k \<and>
     occurrences CkClarificationPause cs = ct_clarificationPauses k \<and>
     occurrences CkReconciliationPoll cs = ct_reconciliationPolls k \<and>
     occurrences CkToolWait cs \<le> ct_activeMilliseconds k)"

text \<open>The run a mission points to carries the counts of all checkpoints of the mission.\<close>

definition run_budget_ok :: "caretaker_db \<Rightarrow> caretaker_run \<Rightarrow> bool" where
  "run_budget_ok d r = (pointer d (ru_missionId r) \<noteq> None \<and> counters_ok (ru_counters r) \<and>
     (ru_status r = RunActive \<longrightarrow> pointer d (ru_missionId r) = Some (Some (ru_id r))))"

definition mission_budget_ok :: "caretaker_db \<Rightarrow> string \<Rightarrow> bool" where
  "mission_budget_ok d m = (case pointer d m of
     Some (Some i) \<Rightarrow> (\<exists>r. run_get d i = Some r \<and> ru_missionId r = m \<and> spent_by (mission_checkpoints d m) (ru_counters r))
   | _ \<Rightarrow> mission_checkpoints d m = [])"

definition budget_ok :: "caretaker_db \<Rightarrow> bool" where
  "budget_ok d = (distinct (List.map ru_id (cd_runs d)) \<and> (\<forall>r\<in>set (cd_runs d). run_budget_ok d r) \<and>
     (\<forall>m. mission_budget_ok d m))"

lemma occurrences_append [simp]: "occurrences k (cs @ [c]) = occurrences k cs + one_if (rc_kind c = k)"
  by (simp add: occurrences_def one_if_def)

lemma occurrences_Nil [simp]: "occurrences k [] = 0"
  by (simp add: occurrences_def)

lemma mission_checkpoints_append:
  "cd_checkpoints d' = cd_checkpoints d @ [c] \<Longrightarrow>
   mission_checkpoints d' m = (if rc_missionId c = m then mission_checkpoints d m @ [c] else mission_checkpoints d m)"
  by (simp add: mission_checkpoints_def)

lemma spent_by_activation: "spent_by cs k \<Longrightarrow> rc_kind c = CkActivated \<Longrightarrow> spent_by (cs @ [c]) k"
  by (simp add: spent_by_def one_if_def)

lemma spent_by_advance: "spent_by cs (ru_counters old) \<Longrightarrow> advances old new c \<Longrightarrow> spent_by (cs @ [c]) (ru_counters new)"
  by (auto simp: spent_by_def advances_def counters_match_def)

lemma spent_by_empty: "spent_by [] EMPTY_CARETAKER_RUN_COUNTERS"
  by (simp add: spent_by_def EMPTY_CARETAKER_RUN_COUNTERS_def)

lemma run_get_append: "cd_runs d' = cd_runs d @ [r] \<Longrightarrow>
    run_get d' i = (case run_get d i of None \<Rightarrow> if ru_id r = i then Some r else None | Some x \<Rightarrow> Some x)"
  by (auto simp: run_get_def lookup_by_append split: option.splits)

lemma run_get_upsert: "cd_runs d' = upsert ru_id r (cd_runs d) \<Longrightarrow>
    run_get d' i = (if i = ru_id r then Some r else run_get d i)"
  by (simp add: run_get_def)

lemma keep_budget:
  assumes "cd_runs d' = cd_runs d" "cd_checkpoints d' = cd_checkpoints d" "pointers_kept d d'" "budget_ok d"
  shows "budget_ok d'"
proof -
  have p: "pointer d' m = pointer d m \<or> (pointer d m = None \<and> pointer d' m = Some None)" for m
    using assms(3) by (simp add: pointers_kept_def)
  have "run_budget_ok d' r" if "r \<in> set (cd_runs d)" for r
    using p[of "ru_missionId r"] assms(4) that by (auto simp: budget_ok_def run_budget_ok_def)
  moreover have "mission_budget_ok d' m" for m
  proof -
    have "mission_budget_ok d m" using assms(4) by (simp add: budget_ok_def)
    moreover have "mission_checkpoints d' m = mission_checkpoints d m" "run_get d' = run_get d"
      using assms(1,2) by (simp_all add: mission_checkpoints_def run_get_def fun_eq_iff)
    ultimately show ?thesis using p[of m] by (auto simp: mission_budget_ok_def split: option.splits)
  qed
  ultimately show ?thesis using assms(1,4) by (simp add: budget_ok_def)
qed

lemma begin_budget:
  assumes "run_get d (ru_id r) = None" "no_active d (ru_missionId r)" "continues d (ru_missionId r) (ru_counters r)"
    and "opens r c" "cd_runs d' = cd_runs d @ [r]" "cd_checkpoints d' = cd_checkpoints d @ [c]"
    and "pointer d' = (pointer d)(ru_missionId r := Some (Some (ru_id r)))" "budget_ok d"
  shows "budget_ok d'"
proof -
  let ?m = "ru_missionId r"
  note g = run_get_append[OF assms(5)] and c = mission_checkpoints_append[OF assms(6)]
  have cm: "rc_missionId c = ?m" "rc_kind c = CkActivated" "counters_ok (ru_counters r)" using assms(4) by (simp_all add: opens_def)
  have "ru_id r \<notin> ru_id ` set (cd_runs d)" using assms(1) by (simp add: run_get_def lookup_by_None)
  then have "distinct (List.map ru_id (cd_runs d'))" using assms(5,8) by (simp add: budget_ok_def)
  moreover have "run_budget_ok d' x" if "x \<in> set (cd_runs d')" for x
    using that assms(2,5,7,8) cm(3) by (auto simp: run_budget_ok_def budget_ok_def no_active_def)
  moreover have "mission_budget_ok d' m" for m
  proof (cases "m = ?m")
    case True
    have "mission_budget_ok d ?m" using assms(8) by (simp add: budget_ok_def)
    then have "spent_by (mission_checkpoints d ?m) (ru_counters r)"
      using assms(3) spent_by_empty by (auto simp: continues_def mission_budget_ok_def split: option.splits)
    then show ?thesis using True assms(1,7) cm by (simp add: mission_budget_ok_def g c spent_by_activation)
  next
    case False
    have "mission_budget_ok d m" using assms(8) by (simp add: budget_ok_def)
    then show ?thesis using False assms(7) cm(1)
      by (auto simp: mission_budget_ok_def g c split: option.splits)
  qed
  ultimately show ?thesis by (simp add: budget_ok_def)
qed

lemma move_budget:
  assumes "run_get d (ru_id old) = Some old" "advances old new c"
    and "ru_status old = RunActive \<or> pointer d (ru_missionId old) = Some (Some (ru_id old))"
    and "cd_runs d' = upsert ru_id new (cd_runs d)" "cd_checkpoints d' = cd_checkpoints d @ [c]"
    and "pointer d' = pointer d \<or> (ru_status old = RunActive \<and>
       pointer d' = (pointer d)(ru_missionId old := Some (Some (ru_id old))))" "budget_ok d"
  shows "budget_ok d'"
proof -
  let ?m = "ru_missionId old"
  note g = run_get_upsert[OF assms(4)] and c = mission_checkpoints_append[OF assms(5)]
  have a: "ru_id new = ru_id old" "ru_missionId new = ?m" "rc_missionId c = ?m" "counters_ok (ru_counters new)"
    using assms(2) by (simp_all add: advances_def)
  have "run_budget_ok d old" using assms(7) run_get_in[OF assms(1)] by (simp add: budget_ok_def)
  then have p: "pointer d ?m = Some (Some (ru_id old))" using assms(3) by (auto simp: run_budget_ok_def)
  then have p': "pointer d' = pointer d" using assms(6) by (auto simp: fun_eq_iff)
  have "distinct (List.map ru_id (cd_runs d'))" using assms(4,7) by (simp add: budget_ok_def distinct_keys_upsert)
  moreover have "run_budget_ok d' x" if "x \<in> set (cd_runs d')" for x
  proof -
    from that set_upsert_subset[of ru_id new "cd_runs d"] have "x = new \<or> x \<in> set (cd_runs d)" by (auto simp: assms(4))
    then show ?thesis using assms(7) a p p' by (auto simp: run_budget_ok_def budget_ok_def)
  qed
  moreover have "mission_budget_ok d' m" for m
  proof (cases "m = ?m")
    case True
    have "mission_budget_ok d ?m" using assms(7) by (simp add: budget_ok_def)
    then have "spent_by (mission_checkpoints d ?m) (ru_counters old)" using p assms(1) by (auto simp: mission_budget_ok_def)
    from spent_by_advance[OF this assms(2)] show ?thesis using True p p' a by (simp add: mission_budget_ok_def g c)
  next
    case False
    have "mission_budget_ok d m" using assms(7) by (simp add: budget_ok_def)
    then show ?thesis using False p' a assms(1) by (auto simp: mission_budget_ok_def g c split: option.splits)
  qed
  ultimately show ?thesis by (simp add: budget_ok_def)
qed

lemma ledger_effect_keeps_budget: "ledger_effect d d' \<Longrightarrow> budget_ok d \<Longrightarrow> budget_ok d'"
proof (induction rule: ledger_effect.induct)
  case effect_keep then show ?case by (intro keep_budget[of d' d])
next
  case (effect_begin r c) then show ?case by (intro begin_budget[of d r c d'])
next
  case (effect_move old new c) then show ?case by (intro move_budget[of d old new c d']) auto
qed

lemma budget_ok_distinct: "budget_ok d \<Longrightarrow> distinct (List.map ru_id (cd_runs d))"
  by (simp add: budget_ok_def)

lemma caretaker_step_keeps_budget: "caretaker_step env w d d' \<Longrightarrow> budget_ok d \<Longrightarrow> budget_ok d'"
  by (blast intro: ledger_effect_keeps_budget caretaker_step_effect budget_ok_distinct)

lemma caretaker_runs_keep_budget: "(caretaker_step env w)\<^sup>*\<^sup>* d d' \<Longrightarrow> budget_ok d \<Longrightarrow> budget_ok d'"
  by (induction rule: rtranclp_induct) (auto intro: caretaker_step_keeps_budget)

text \<open>The store before any run.\<close>

definition no_runs_yet :: "caretaker_db \<Rightarrow> bool" where
  "no_runs_yet d = (cd_runs d = [] \<and> cd_checkpoints d = [] \<and> cd_deliveries d = [] \<and>
     list_all (\<lambda>m. is_none (mi_runId m)) (tn_missions (cd_tenant d)))"

lemma no_runs_yet_budget:
  assumes "no_runs_yet d"
  shows "budget_ok d"
proof -
  have p: "pointer d m = None \<or> pointer d m = Some None" for m
    using assms by (cases "db_mission d m")
      (auto simp: pointer_def db_mission_def mission_get_def no_runs_yet_def list_all_iff dest!: lookup_by_SomeD)
  have c: "mission_checkpoints d m = []" for m using assms by (simp add: no_runs_yet_def mission_checkpoints_def)
  have "mission_budget_ok d m" for m using p[of m] c[of m] by (auto simp: mission_budget_ok_def)
  then show ?thesis using assms by (simp add: budget_ok_def no_runs_yet_def)
qed

lemma mission_within_budget:
  assumes "budget_ok d"
  shows "occurrences CkToolCall (mission_checkpoints d m) \<le> 24" "occurrences CkPlanRevision (mission_checkpoints d m) \<le> 3"
    "occurrences CkClarificationPause (mission_checkpoints d m) \<le> 2"
    "occurrences CkReconciliationPoll (mission_checkpoints d m) \<le> 3"
    "occurrences CkToolWait (mission_checkpoints d m) \<le> 300000"
proof -
  have "mission_budget_ok d m" using assms by (simp add: budget_ok_def)
  then have "mission_checkpoints d m = [] \<or> (\<exists>r\<in>set (cd_runs d). spent_by (mission_checkpoints d m) (ru_counters r))"
    by (auto simp: mission_budget_ok_def dest: run_get_in split: option.splits)
  with assms have "mission_checkpoints d m = [] \<or> (\<exists>k. spent_by (mission_checkpoints d m) k \<and> counters_ok k)"
    by (auto simp: budget_ok_def run_budget_ok_def)
  then show "occurrences CkToolCall (mission_checkpoints d m) \<le> 24" "occurrences CkPlanRevision (mission_checkpoints d m) \<le> 3"
    "occurrences CkClarificationPause (mission_checkpoints d m) \<le> 2"
    "occurrences CkReconciliationPoll (mission_checkpoints d m) \<le> 3"
    "occurrences CkToolWait (mission_checkpoints d m) \<le> 300000"
    by (auto simp: spent_by_def counters_ok_def)
qed

section \<open>Spending ends\<close>

definition budget_kind :: "checkpoint_kind \<Rightarrow> bool" where
  "budget_kind k = List.member [CkToolCall, CkPlanRevision, CkClarificationPause, CkReconciliationPoll, CkToolWait] k"

text \<open>A step that writes a checkpoint of mission \<open>m\<close> which uses up some of its budget.\<close>

definition spends :: "string \<Rightarrow> caretaker_db \<Rightarrow> caretaker_db \<Rightarrow> bool" where
  "spends m d d' = (\<exists>c. cd_checkpoints d' = cd_checkpoints d @ [c] \<and> rc_missionId c = m \<and> budget_kind (rc_kind c))"

definition work :: "string \<Rightarrow> caretaker_db \<Rightarrow> nat" where
  "work m d = length (filter (\<lambda>c. budget_kind (rc_kind c)) (mission_checkpoints d m))"

lemma work_sum: "work m d = occurrences CkToolCall (mission_checkpoints d m) + occurrences CkPlanRevision (mission_checkpoints d m) +
    occurrences CkClarificationPause (mission_checkpoints d m) + occurrences CkReconciliationPoll (mission_checkpoints d m) +
    occurrences CkToolWait (mission_checkpoints d m)"
proof -
  have "length (filter (\<lambda>c. budget_kind (rc_kind c)) cs) = occurrences CkToolCall cs + occurrences CkPlanRevision cs +
    occurrences CkClarificationPause cs + occurrences CkReconciliationPoll cs + occurrences CkToolWait cs" for cs
    by (induction cs rule: rev_induct) (auto simp: budget_kind_def one_if_def)
  then show ?thesis by (simp add: work_def)
qed

lemma work_bounded: "budget_ok d \<Longrightarrow> work m d \<le> 300032"
  using mission_within_budget[of d m] by (simp add: work_sum)

lemma work_spends: "spends m d d' \<Longrightarrow> work m d' = Suc (work m d)"
  by (auto simp: spends_def work_def mission_checkpoints_append)

lemma ledger_effect_checkpoints:
  "ledger_effect d d' \<Longrightarrow> cd_checkpoints d' = cd_checkpoints d \<or> (\<exists>c. cd_checkpoints d' = cd_checkpoints d @ [c])"
  by (induction rule: ledger_effect.induct) auto

lemma work_grows: "ledger_effect d d' \<Longrightarrow> work m d \<le> work m d'"
  by (drule ledger_effect_checkpoints) (auto simp: work_def mission_checkpoints_append mission_checkpoints_def)

lemma bounded_growth_is_finite:
  fixes f :: "nat \<Rightarrow> nat"
  assumes "\<And>n. f n \<le> f (Suc n)" "\<And>n. f n \<le> K"
  shows "finite {n. f n < f (Suc n)} \<and> card {n. f n < f (Suc n)} \<le> K"
proof (rule finite_if_finite_subsets_card_bdd)
  fix G assume G: "G \<subseteq> {n. f n < f (Suc n)}" "finite G"
  obtain N where N: "G \<subseteq> {..<N}" using G(2) by (auto simp: finite_nat_set_iff_bounded)
  have "card ({n. f n < f (Suc n)} \<inter> {..<M}) \<le> f M" for M
  proof (induction M)
    case (Suc M)
    have "{n. f n < f (Suc n)} \<inter> {..<Suc M} = {n. f n < f (Suc n)} \<inter> {..<M} \<union> (if f M < f (Suc M) then {M} else {})"
      by (auto simp: less_Suc_eq)
    with Suc assms(1)[of M] show ?case by (auto simp: card_insert_if split: if_splits)
  qed simp
  from this[of N] assms(2)[of N] have "card ({n. f n < f (Suc n)} \<inter> {..<N}) \<le> K" by (rule le_trans)
  moreover have "card G \<le> card ({n. f n < f (Suc n)} \<inter> {..<N})" using G(1) N by (intro card_mono) auto
  ultimately show "card G \<le> K" by simp
qed

section \<open>Closing a run\<close>

definition closed_runs_ok :: "caretaker_db \<Rightarrow> bool" where
  "closed_runs_ok d = (\<forall>r\<in>set (cd_runs d). ru_status r \<noteq> RunActive \<longrightarrow> ru_id r \<in> delivered_runs d)"

lemma ledger_effect_deliveries: "ledger_effect d d' \<Longrightarrow> delivered_runs d \<subseteq> delivered_runs d'"
  by (induction rule: ledger_effect.induct) (auto split: if_splits)

lemma ledger_effect_closed: "ledger_effect d d' \<Longrightarrow> closed_runs_ok d \<Longrightarrow> closed_runs_ok d'"
proof (induction rule: ledger_effect.induct)
  case (effect_move old new c)
  have "ru_id new = ru_id old" using effect_move(2) by (simp add: advances_def)
  with effect_move set_upsert_subset[of ru_id new "cd_runs d"] show ?case
    by (auto simp: closed_runs_ok_def split: if_splits)
qed (auto simp: closed_runs_ok_def opens_def)

lemma caretaker_run_facts:
  assumes "(caretaker_step env w)\<^sup>*\<^sup>* d d'" "budget_ok d"
  shows "delivered_runs d \<subseteq> delivered_runs d'" "closed_runs_ok d \<Longrightarrow> closed_runs_ok d'"
proof -
  from assms have "budget_ok d' \<and> delivered_runs d \<subseteq> delivered_runs d' \<and> (closed_runs_ok d \<longrightarrow> closed_runs_ok d')"
  proof (induction rule: rtranclp_induct)
    case (step y z)
    then have "ledger_effect y z" by (blast intro: caretaker_step_effect budget_ok_distinct)
    with step show ?case using ledger_effect_deliveries ledger_effect_closed ledger_effect_keeps_budget by blast
  qed simp
  then show "delivered_runs d \<subseteq> delivered_runs d'" "closed_runs_ok d \<Longrightarrow> closed_runs_ok d'" by auto
qed

lemma delivered_runs_write_ledger:
  "(if changed then write_mission m n v d else Inr d) = Inr d1 \<Longrightarrow> delivered_runs d1 = delivered_runs d"
  by (auto simp: delivered_runs_def dest!: write_mission_Inr split: if_splits)

lemma runs_checkpoint_Applied:
  assumes "runs_checkpoint env w sc j d = Inr (CheckpointApplied x, d')"
  obtains row m hash epoch where "parse_checkpoint_input w j = Inr ()" "run_get d (ci_runId j) = Some row"
    "assertFence sc (ru_missionId row) = Inr epoch"
    "hashCaretakerCheckpointMutation w (mutation_payload_of (tn_org (cd_tenant d)) (ru_missionId row) j) = Inr hash"
    "ru_status row = RunActive" "db_mission d (ru_missionId row) = Some m"
    "apply_checkpoint env w j hash row m d = Inr (CheckpointApplied x, d')"
proof -
  from assms obtain row epoch hash where r: "parse_checkpoint_input w j = Inr ()" "run_get d (ci_runId j) = Some row"
    "assertFence sc (ru_missionId row) = Inr epoch"
    "hashCaretakerCheckpointMutation w (mutation_payload_of (tn_org (cd_tenant d)) (ru_missionId row) j) = Inr hash"
    and n: "new_checkpoint env w j epoch hash row d = Inr (CheckpointApplied x, d')"
    by (auto simp: runs_checkpoint_def sbind_eq_Inr split: option.splits if_splits)
  from n obtain m where "ru_status row = RunActive" "db_mission d (ru_missionId row) = Some m"
    "apply_checkpoint env w j hash row m d = Inr (CheckpointApplied x, d')"
    by (auto simp: new_checkpoint_def sbind_eq_Inr split: if_splits)
  with r show thesis by (rule that)
qed

lemma closing_is_first:
  assumes "runs_checkpoint env w sc j d = Inr (CheckpointApplied x, d')"
    and "caretakerRunStatusForCheckpoint (ci_kind j) \<noteq> RunActive"
  shows "ci_runId j \<notin> delivered_runs d"
proof -
  from assms(1) obtain row m hash where "apply_checkpoint env w j hash row m d = Inr (CheckpointApplied x, d')"
    by (rule runs_checkpoint_Applied)
  then obtain changed v d1 new d2 c h d3 where
    w1: "(if changed then write_mission m (m\<lparr> mi_taskLedger := ci_taskLedger j, mi_runId := Some (ci_runId j),
              mi_updatedAt := ci_occurredAt j \<rparr>) v d else Inr d) = Inr d1"
    and new: "new = applied_run j (ms_phase (mi_state m)) v row"
    and te: "(ru_status new = RunActive) = is_none (ci_terminalEvidence j)"
    and w2: "update_run env w row new d1 = Inr d2" and w3: "insert_checkpoint w c d2 = Inr d3"
    and w4: "(case ci_terminalEvidence j of None \<Rightarrow> Inr d3
        | Some e \<Rightarrow> insert_delivery \<lparr> ed_missionId = ru_missionId row, ed_runId = ci_runId j, ed_envelope = e,
            ed_delivered = False, ed_createdAt = ci_occurredAt j, ed_deliveredAt = None, ed_captureStatus = None \<rparr> d3) = Inr d'"
    by (rule apply_checkpointE)
  have "ru_status new \<noteq> RunActive" using assms(2) by (simp add: new applied_run_def Let_def)
  with te obtain e where e: "ci_terminalEvidence j = Some e" by auto
  have "ci_runId j \<notin> delivered_runs d3" using insert_delivery_Inr(2)[OF w4[unfolded e option.case]] by simp
  moreover have "delivered_runs d3 = delivered_runs d"
    using delivered_runs_write_ledger[OF w1] w2[unfolded update_run_Inr] w3[unfolded insert_checkpoint_Inr] by simp
  ultimately show ?thesis by simp
qed

section \<open>Properties\<close>

text \<open>
  C14.  The work of a mission ends.  Along every infinite history of the store, whatever hosts,
  leases and other services do, only finitely many checkpoints of a mission are tool calls,
  plan revisions, clarification pauses, reconciliation polls or waits for a tool: the budget
  belongs to the mission and is not renewed when a run is taken over or followed by another.
\<close>

theorem caretaker_work_ends:
  assumes "no_runs_yet (f 0)" "\<And>n. caretaker_step env w (f n) (f (Suc n))"
  shows "finite {n. spends m (f n) (f (Suc n))} \<and> card {n. spends m (f n) (f (Suc n))} \<le> 300032"
proof -
  have b: "budget_ok (f n)" for n
    by (induction n) (use assms no_runs_yet_budget caretaker_step_keeps_budget in blast)+
  then have e: "ledger_effect (f n) (f (Suc n))" for n using assms(2) caretaker_step_effect budget_ok_distinct by blast
  let ?g = "\<lambda>n. work m (f n)"
  have g: "finite {n. ?g n < ?g (Suc n)} \<and> card {n. ?g n < ?g (Suc n)} \<le> 300032"
    using e b by (intro bounded_growth_is_finite) (auto intro: work_grows work_bounded)
  moreover have "{n. spends m (f n) (f (Suc n))} \<subseteq> {n. ?g n < ?g (Suc n)}" by (auto dest: work_spends)
  ultimately show ?thesis by (meson card_mono finite_subset le_trans)
qed

text \<open>
  C17.  A paused run cannot be closed.  The store keeps one terminal evidence delivery per run,
  and a pause writes one: once a run has paused, no later checkpoint that pauses, completes,
  fails or cancels it is ever applied, although a start makes it active again for that very
  purpose when its mission has ended.
\<close>

theorem paused_runs_cannot_be_closed:
  assumes "(caretaker_step env w)\<^sup>*\<^sup>* d0 d" "no_runs_yet d0"
    and "run_get d i = Some r" "ru_status r = RunPaused" "(caretaker_step env w)\<^sup>*\<^sup>* d d'"
    and "caretakerRunStatusForCheckpoint (ci_kind j) \<noteq> RunActive" "ci_runId j = i"
  shows "runs_checkpoint env w sc j d' \<noteq> Inr (CheckpointApplied x, d'')"
proof
  assume "runs_checkpoint env w sc j d' = Inr (CheckpointApplied x, d'')"
  then have "i \<notin> delivered_runs d'" using closing_is_first assms(6,7) by blast
  moreover have "closed_runs_ok d0" using assms(2) by (simp add: closed_runs_ok_def no_runs_yet_def)
  then have "closed_runs_ok d" using caretaker_run_facts(2)[OF assms(1) no_runs_yet_budget[OF assms(2)]] by simp
  then have "i \<in> delivered_runs d" using assms(3,4) run_get_in[OF assms(3)] run_get_id[OF assms(3)] by (auto simp: closed_runs_ok_def)
  moreover have "budget_ok d" using caretaker_runs_keep_budget[OF assms(1) no_runs_yet_budget[OF assms(2)]] .
  ultimately show False using caretaker_run_facts(1)[OF assms(5)] by blast
qed

section \<open>Replays\<close>

lemma write_mission_org: "write_mission m n v d = Inr d' \<Longrightarrow> tn_org (cd_tenant d') = tn_org (cd_tenant d)"
  by (auto simp: write_mission_def split: if_splits)

lemma find_append_only:
  "(\<forall>x\<in>set xs. \<not> P x) \<Longrightarrow> P y \<Longrightarrow> find P (xs @ [y]) = Some y"
  by (induction xs) auto

lemma snapshot_of_applied:
  assumes "run_get d' (ru_id new) = Some new" "checkpoint_at d' (ru_id new) (ru_version new) = Some c"
    and "mapRun w new = Inr new" "run_checkpoint_ok w c" "c = applied_checkpoint i hash h new" "ci_runId i = ru_id new"
    and "hashCaretakerTaskLedger w (ci_taskLedger i) = Inr h" "ru_counters new = ci_counters i" "ru_pending new = ci_pending i"
  shows "requireSnapshot w d' (ru_id new) = Inr \<lparr> sn_run = new, sn_checkpoint = c, sn_taskLedger = ci_taskLedger i \<rparr>"
proof -
  have "rc_taskLedger c = ci_taskLedger i" "rc_taskLedgerHash c = h" by (simp_all add: assms(5) applied_checkpoint_def)
  then have "mapCheckpoint w c = Inr c" using assms(4,7) by (simp add: mapCheckpoint_def)
  moreover have "snapshot_agrees w new c"
    by (simp add: snapshot_agrees_def assms(5,8,9) applied_checkpoint_def)
  ultimately show ?thesis using assms(1-3) \<open>rc_taskLedger c = _\<close>
    by (simp add: requireSnapshot_def loadSnapshot_def)
qed

lemma applied_checkpoint_stored:
  assumes "apply_checkpoint env w i hash row m d = Inr (CheckpointApplied x, d')" "run_get d (ci_runId i) = Some row"
  shows "requireSnapshot w d' (ci_runId i) = Inr x"
    and "\<exists>new. run_get d' (ci_runId i) = Some new \<and> ru_missionId new = ru_missionId row"
    and "\<exists>c. keyed_checkpoint d' (ci_runId i) (ci_mutationKey i) = Some c \<and> rc_mutationHash c = hash"
    and "tn_org (cd_tenant d') = tn_org (cd_tenant d)"
proof -
  from assms(1) obtain changed v d1 new d2 c h d3 where
    w1: "(if changed then write_mission m (m\<lparr> mi_taskLedger := ci_taskLedger i, mi_runId := Some (ci_runId i),
              mi_updatedAt := ci_occurredAt i \<rparr>) v d else Inr d) = Inr d1"
    and new: "new = applied_run i (ms_phase (mi_state m)) v row"
    and w2: "update_run env w row new d1 = Inr d2" and c: "c = applied_checkpoint i hash h new"
    and w3: "insert_checkpoint w c d2 = Inr d3"
    and w4: "(case ci_terminalEvidence i of None \<Rightarrow> Inr d3
        | Some e \<Rightarrow> insert_delivery \<lparr> ed_missionId = ru_missionId row, ed_runId = ci_runId i, ed_envelope = e,
            ed_delivered = False, ed_createdAt = ci_occurredAt i, ed_deliveredAt = None, ed_captureStatus = None \<rparr> d3) = Inr d'"
    and h: "hashCaretakerTaskLedger w (ci_taskLedger i) = Inr h" and mr: "mapRun w new = Inr new"
    and x: "CheckpointApplied x = CheckpointApplied \<lparr> sn_run = new, sn_checkpoint = c, sn_taskLedger = ci_taskLedger i \<rparr>"
    by (rule apply_checkpointE)
  note w2 = w2[unfolded update_run_Inr] and w3 = w3[unfolded insert_checkpoint_Inr]
  have i: "ru_id new = ci_runId i" "ru_missionId new = ru_missionId row" "ru_counters new = ci_counters i" "ru_pending new = ci_pending i"
    using run_get_id[OF assms(2)] by (simp_all add: new applied_run_def Let_def)
  have cs: "rc_runId c = ci_runId i" "rc_sequence c = ru_version new" "rc_mutationKey c = ci_mutationKey i" "rc_mutationHash c = hash"
    by (simp_all add: c applied_checkpoint_def)
  have t: "cd_runs d' = cd_runs d3 \<and> cd_checkpoints d' = cd_checkpoints d3 \<and> cd_tenant d' = cd_tenant d3"
    using w4 by (cases "ci_terminalEvidence i") (auto dest: insert_delivery_Inr(1))
  have g: "run_get d' (ci_runId i) = Some new" using t w2 w3 i(1) by (simp add: run_get_def)
  have k: "run_checkpoints d' (ci_runId i) = run_checkpoints d2 (ci_runId i) @ [c]"
    using t w3 cs(1) by (simp add: run_checkpoints_def)
  have n: "\<forall>y\<in>set (run_checkpoints d2 (ci_runId i)). rc_sequence y \<noteq> rc_sequence c \<and> rc_mutationKey y \<noteq> rc_mutationKey c"
    using w3 cs(1) by simp
  have "checkpoint_at d' (ru_id new) (ru_version new) = Some c"
    unfolding checkpoint_at_def i(1) k by (rule find_append_only) (use n cs(2) in auto)
  then have "requireSnapshot w d' (ru_id new) = Inr \<lparr> sn_run = new, sn_checkpoint = c, sn_taskLedger = ci_taskLedger i \<rparr>"
    by (rule snapshot_of_applied[OF g[folded i(1)] _ mr _ c i(1)[symmetric] h i(3,4)]) (use w3 in simp)
  then show "requireSnapshot w d' (ci_runId i) = Inr x" using x i(1) by simp
  show "\<exists>new. run_get d' (ci_runId i) = Some new \<and> ru_missionId new = ru_missionId row" using g i by blast
  have "keyed_checkpoint d' (ci_runId i) (ci_mutationKey i) = Some c"
    unfolding keyed_checkpoint_def k by (rule find_append_only) (use n cs(3) in auto)
  then show "\<exists>c. keyed_checkpoint d' (ci_runId i) (ci_mutationKey i) = Some c \<and> rc_mutationHash c = hash" using cs(4) by blast
  have "tn_org (cd_tenant d1) = tn_org (cd_tenant d)" using w1 write_mission_org by (auto split: if_splits)
  then show "tn_org (cd_tenant d') = tn_org (cd_tenant d)" using t w2 w3 by (simp add: cd_tick_def db_tick_def)
qed

text \<open>
  C16.  Applied checkpoints replay.  Sending a checkpoint again after it was applied changes
  nothing and returns the snapshot it returned the first time, so a host that lost the answer
  may repeat the call.
\<close>

theorem applied_checkpoints_replay:
  assumes "runs_checkpoint env w sc j d = Inr (CheckpointApplied x, d')"
  shows "runs_checkpoint env w sc j d' = Inr (CheckpointReplayed x, d')"
proof -
  from assms obtain row m hash epoch where r: "parse_checkpoint_input w j = Inr ()" "run_get d (ci_runId j) = Some row"
    "assertFence sc (ru_missionId row) = Inr epoch"
    "hashCaretakerCheckpointMutation w (mutation_payload_of (tn_org (cd_tenant d)) (ru_missionId row) j) = Inr hash"
    and a: "apply_checkpoint env w j hash row m d = Inr (CheckpointApplied x, d')" by (rule runs_checkpoint_Applied)
  note s = applied_checkpoint_stored[OF a r(2)]
  from s(2,3) obtain new c where "run_get d' (ci_runId j) = Some new" "ru_missionId new = ru_missionId row"
    "keyed_checkpoint d' (ci_runId j) (ci_mutationKey j) = Some c" "rc_mutationHash c = hash" by blast
  then show ?thesis using r s(1,4) by (simp add: runs_checkpoint_def)
qed

section \<open>The protocol of tool calls\<close>

text \<open>
  The specification of a run's calls: a call is dispatched directly, or first reserved as a
  plan revision or a poll; a dispatched call may wait, and ends when its result is stored;
  a takeover keeps whatever there is.
\<close>

datatype call_state = NoCall | Reserved pending_tool_call | Dispatched pending_tool_call

fun call_of :: "call_state \<Rightarrow> pending_tool_call option" where
  "call_of NoCall = None"
| "call_of (Reserved q) = Some q"
| "call_of (Dispatched q) = Some q"

fun call_step :: "call_state \<Rightarrow> checkpoint_kind \<times> pending_tool_call option \<Rightarrow> call_state option" where
  "call_step NoCall (k, None) =
     (if List.member [CkToolCall, CkToolWait, CkPlanRevision, CkReconciliationPoll] k then None else Some NoCall)"
| "call_step NoCall (k, Some q) = (if \<not> reserves_tool k (pt_toolName q) then None
     else Some (if k = CkToolCall then Dispatched q else Reserved q))"
| "call_step (Reserved p) (k, new) = (if new = Some p \<and> k = CkToolCall then Some (Dispatched p)
     else if new = Some p \<and> k = CkLeaseReplaced then Some (Reserved p) else None)"
| "call_step (Dispatched p) (k, new) = (if new = Some p \<and> (k = CkToolWait \<or> k = CkLeaseReplaced) then Some (Dispatched p)
     else if new = None \<and> k = CkStatePersisted then Some NoCall else None)"

fun call_history :: "call_state \<Rightarrow> (checkpoint_kind \<times> pending_tool_call option) list \<Rightarrow> call_state option" where
  "call_history st [] = Some st"
| "call_history st (x # xs) = (case call_step st x of None \<Rightarrow> None | Some t \<Rightarrow> call_history t xs)"

definition call_events :: "run_checkpoint list \<Rightarrow> (checkpoint_kind \<times> pending_tool_call option) list" where
  "call_events cs = List.map (\<lambda>c. (rc_kind c, rc_pending c)) cs"

lemma call_history_append:
  "call_history st (xs @ [x]) = (case call_history st xs of None \<Rightarrow> None | Some t \<Rightarrow> call_step t x)"
  by (induction xs arbitrary: st) (auto split: option.splits)

lemma call_step_pending: "call_step st (k, new) = Some t \<Longrightarrow> call_of t = new"
  by (cases "(st, (k, new))" rule: call_step.cases) (auto split: if_splits)

text \<open>How the last action of a run shows the state of its call.\<close>

fun shows_state :: "checkpoint_kind option \<Rightarrow> call_state \<Rightarrow> bool" where
  "shows_state k NoCall = (\<not> List.member (List.map Some [CkPlanRevision, CkReconciliationPoll, CkToolCall, CkToolWait]) k)"
| "shows_state k (Reserved _) = (k = Some CkPlanRevision \<or> k = Some CkReconciliationPoll)"
| "shows_state k (Dispatched _) = (k = Some CkToolCall \<or> k = Some CkToolWait)"

definition last_action :: "run_checkpoint list \<Rightarrow> checkpoint_kind option" where
  "last_action cs = map_option rc_kind (find (\<lambda>c. rc_kind c \<noteq> CkLeaseReplaced) (rev cs))"

lemma last_action_append: "last_action (cs @ [c]) = (if rc_kind c = CkLeaseReplaced then last_action cs else Some (rc_kind c))"
  by (simp add: last_action_def)

lemma last_action_kind_sorted: "List.map rc_sequence cs = [0..<n] \<Longrightarrow> last_action_kind cs = last_action cs"
  by (simp add: last_action_kind_def last_action_def sort_key_id_if_sorted)

text \<open>The database's rule on a new checkpoint is the step of the specification.\<close>

lemma db_rule_is_call_step:
  assumes "db_pending_rule (call_of st) (rc_pending c) before (rc_kind c)" "shows_state before st"
    and "db_tool_wait_ok before p c"
  shows "\<exists>t. call_step st (rc_kind c, rc_pending c) = Some t \<and>
    shows_state (if rc_kind c = CkLeaseReplaced then before else Some (rc_kind c)) t"
proof (cases st)
  case NoCall
  show ?thesis
  proof (cases "rc_pending c")
    case None
    then show ?thesis using assms NoCall by (auto simp: db_pending_rule_def db_tool_wait_ok_def)
  next
    case (Some q)
    then show ?thesis using assms NoCall by (cases "rc_kind c") (auto simp: db_pending_rule_def)
  qed
next
  case (Reserved q) then show ?thesis using assms by (auto simp: db_pending_rule_def split: if_splits)
next
  case (Dispatched q) then show ?thesis using assms by (auto simp: db_pending_rule_def split: if_splits)
qed

definition run_history_ok :: "caretaker_db \<Rightarrow> caretaker_run \<Rightarrow> bool" where
  "run_history_ok d r = (let cs = run_checkpoints d (ru_id r) in List.map rc_sequence cs = [0..<Suc (ru_version r)] \<and>
     (\<exists>st. call_history NoCall (call_events cs) = Some st \<and> call_of st = ru_pending r \<and>
        call_of st = rc_pending (last cs) \<and> shows_state (last_action cs) st))"

definition histories_ok :: "caretaker_db \<Rightarrow> bool" where
  "histories_ok d = ((\<forall>r\<in>set (cd_runs d). run_history_ok d r) \<and>
     (\<forall>c\<in>set (cd_checkpoints d). rc_runId c \<in> ru_id ` set (cd_runs d)))"

lemma run_checkpoints_append:
  "cd_checkpoints d' = cd_checkpoints d @ [c] \<Longrightarrow>
   run_checkpoints d' i = (if rc_runId c = i then run_checkpoints d i @ [c] else run_checkpoints d i)"
  by (simp add: run_checkpoints_def)

lemma open_history:
  assumes "opens r c" "run_checkpoints d' (ru_id r) = [c]"
  shows "run_history_ok d' r"
  using assms by (auto simp: run_history_ok_def opens_def call_events_def last_action_def)

lemma find_last_sequence:
  assumes "List.map rc_sequence cs = [0..<Suc n]"
  shows "find (\<lambda>c. rc_sequence c = n) cs = Some (last cs)"
proof -
  have ne: "cs \<noteq> []" using assms by auto
  then obtain ys y where y: "cs = ys @ [y]" by (cases cs rule: rev_cases) auto
  with assms have "List.map rc_sequence ys = [0..<n]" "rc_sequence y = n" by auto
  then have "\<forall>x\<in>set ys. rc_sequence x \<noteq> n" by (metis atLeastLessThan_iff less_irrefl list.set_map image_eqI set_upt)
  then show ?thesis using \<open>rc_sequence y = n\<close> y by (simp add: find_append_only)
qed

lemma advance_history:
  assumes "advances old new c" "follows_previous d c" "run_history_ok d old"
    and "run_checkpoints d' (ru_id old) = run_checkpoints d (ru_id old) @ [c]"
  shows "run_history_ok d' new"
proof -
  let ?cs = "run_checkpoints d (ru_id old)"
  have a: "ru_id new = ru_id old" "ru_version new = Suc (ru_version old)" "rc_runId c = ru_id old" "rc_sequence c = Suc (ru_version old)"
    "rc_pending c = ru_pending new" using assms(1) by (simp_all add: advances_def)
  from assms(3) obtain st where s: "List.map rc_sequence ?cs = [0..<Suc (ru_version old)]"
    and st: "call_history NoCall (call_events ?cs) = Some st" "call_of st = ru_pending old" "call_of st = rc_pending (last ?cs)"
      "shows_state (last_action ?cs) st"
    by (auto simp: run_history_ok_def Let_def)
  have "\<forall>x\<in>set ?cs. rc_sequence x < rc_sequence c"
    using s a(4) by (metis atLeastLessThan_iff image_eqI list.set_map set_upt)
  then have "before_kind d c = last_action ?cs"
    using last_action_kind_sorted[OF s] by (simp add: before_kind_def a(3) filter_id_conv)
  moreover have "checkpoint_at d (rc_runId c) (rc_sequence c - 1) = Some (last ?cs)"
    using find_last_sequence[OF s] by (simp add: checkpoint_at_def a)
  ultimately have "db_pending_rule (call_of st) (rc_pending c) (last_action ?cs) (rc_kind c)"
    "db_tool_wait_ok (last_action ?cs) (last ?cs) c"
    using assms(2) st(3) by (simp_all add: follows_previous_def)
  from db_rule_is_call_step[OF this(1) st(4) this(2)] obtain t where
    "call_step st (rc_kind c, rc_pending c) = Some t"
    "shows_state (if rc_kind c = CkLeaseReplaced then last_action ?cs else Some (rc_kind c)) t" by blast
  moreover from call_step_pending[OF this(1)] have "call_of t = ru_pending new" by (simp add: a(5))
  ultimately show ?thesis using s st(1) a
    by (auto simp: run_history_ok_def Let_def assms(4) call_events_def call_history_append last_action_append)
qed

lemma ledger_effect_histories: "ledger_effect d d' \<Longrightarrow> histories_ok d \<Longrightarrow> budget_ok d \<Longrightarrow> histories_ok d'"
proof (induction rule: ledger_effect.induct)
  case effect_keep
  then show ?case by (simp add: histories_ok_def run_history_ok_def run_checkpoints_def)
next
  case (effect_begin r c)
  note k = run_checkpoints_append[OF effect_begin(6)]
  have c: "rc_runId c = ru_id r" using effect_begin(4) by (simp add: opens_def)
  have n: "ru_id r \<notin> ru_id ` set (cd_runs d)" using effect_begin(1) by (simp add: run_get_def lookup_by_None)
  moreover have "\<forall>x\<in>set (cd_checkpoints d). rc_runId x \<in> ru_id ` set (cd_runs d)" using effect_begin(9) by (simp add: histories_ok_def)
  ultimately have "\<forall>x\<in>set (cd_checkpoints d). rc_runId x \<noteq> ru_id r" by metis
  then have "run_checkpoints d (ru_id r) = []" by (simp add: run_checkpoints_def filter_empty_conv)
  then have "run_history_ok d' r" using effect_begin(4) k c by (intro open_history) simp_all
  moreover have "run_history_ok d' x" if "x \<in> set (cd_runs d)" for x
  proof -
    have "ru_id x \<noteq> ru_id r" using n imageI[OF that, of ru_id] by metis
    then show ?thesis using effect_begin(9) that c by (auto simp: histories_ok_def run_history_ok_def k)
  qed
  ultimately show ?case using effect_begin(5,6,9) c by (auto simp: histories_ok_def)
next
  case (effect_move old new c)
  note k = run_checkpoints_append[OF effect_move(6)]
  have c: "rc_runId c = ru_id old" "ru_id new = ru_id old" using effect_move(2) by (simp_all add: advances_def)
  have o': "run_history_ok d old" using effect_move(9) run_get_in[OF effect_move(1)] by (simp add: histories_ok_def)
  have "run_history_ok d' new" by (rule advance_history[OF effect_move(2,3) o']) (simp add: k c)
  moreover have "run_history_ok d' x" if "x \<in> set (cd_runs d)" "ru_id x \<noteq> ru_id old" for x
    using effect_move(9) that c by (auto simp: histories_ok_def run_history_ok_def k)
  moreover have "x = new \<or> (x \<in> set (cd_runs d) \<and> ru_id x \<noteq> ru_id old)" if "x \<in> set (upsert ru_id new (cd_runs d))" for x
    using that set_upsert[OF budget_ok_distinct[OF effect_move(10)], of new] c(2) by auto
  ultimately show ?case using effect_move(5,6,9) c run_get_in[OF effect_move(1)]
    by (auto simp: histories_ok_def keys_upsert simp del: image_insert)
qed

lemma no_runs_yet_histories: "no_runs_yet d \<Longrightarrow> histories_ok d"
  by (simp add: histories_ok_def no_runs_yet_def)

lemma caretaker_runs_histories:
  "(caretaker_step env w)\<^sup>*\<^sup>* d d' \<Longrightarrow> budget_ok d \<Longrightarrow> histories_ok d \<Longrightarrow> histories_ok d'"
proof (induction rule: rtranclp_induct)
  case (step y z)
  have "budget_ok y" using step by (blast intro: caretaker_runs_keep_budget)
  moreover from this step(2) have "ledger_effect y z" by (blast intro: caretaker_step_effect budget_ok_distinct)
  ultimately show ?case using step ledger_effect_histories by blast
qed

text \<open>
  C15.  The checkpoints of a run are a run of the call protocol.  Whatever hosts do, the
  checkpoints a run has in the store, in order, are accepted step by step by the protocol of
  tool calls (\<open>call_step\<close>: a call is reserved or dispatched once, a reservation is dispatched
  with the very call it reserved, a dispatched call waits or ends with its stored result, and
  a takeover keeps it), are numbered without a gap, and the pending call of the run is the
  one the protocol is left with.
\<close>

theorem checkpoints_follow_the_call_protocol:
  assumes "(caretaker_step env w)\<^sup>*\<^sup>* d0 d" "no_runs_yet d0" "r \<in> set (cd_runs d)"
  shows "\<exists>st. call_history NoCall (call_events (run_checkpoints d (ru_id r))) = Some st \<and> call_of st = ru_pending r \<and>
    List.map rc_sequence (run_checkpoints d (ru_id r)) = [0..<Suc (ru_version r)]"
proof -
  have "histories_ok d" using assms(1,2) by (blast intro: caretaker_runs_histories no_runs_yet_budget no_runs_yet_histories)
  then have "run_history_ok d r" using assms(3) by (simp add: histories_ok_def)
  then show ?thesis by (auto simp: run_history_ok_def Let_def)
qed

section \<open>Decision attempts\<close>

lemma decision_rule_admits_waiting_missions:
  "assertCaretakerMissionStateForCheckpoint (mstate MWaitingForSystem PhObserve) CkDecisionAttempt clears = Inr ()"
  by (simp add: assertCaretakerMissionStateForCheckpoint_def mission_state_ok_def mutation_kind_ok_def terminal_mission_def)

lemma db_mission_update_run: "update_run env w old new d = Inr d' \<Longrightarrow> db_mission d' m = db_mission d m"
  by (auto simp: update_run_Inr)

text \<open>
  The rule of the program admits a decision attempt in every mission that has not ended; the
  trigger of the database only in a running one.
\<close>

lemma decision_attempts_need_running_missions:
  assumes "runs_checkpoint env w sc j d = Inr (CheckpointApplied x, d')" "ci_kind j = CkDecisionAttempt"
  shows "\<exists>r m. run_get d (ci_runId j) = Some r \<and> db_mission d (ru_missionId r) = Some m \<and> ms_status (mi_state m) = MRunning"
proof -
  from assms(1) obtain row m hash where row: "run_get d (ci_runId j) = Some row" "db_mission d (ru_missionId row) = Some m"
    and a: "apply_checkpoint env w j hash row m d = Inr (CheckpointApplied x, d')" by (rule runs_checkpoint_Applied)
  from a obtain changed v d1 new d2 c h d3 where
    w1: "(if changed then write_mission m (m\<lparr> mi_taskLedger := ci_taskLedger j, mi_runId := Some (ci_runId j),
              mi_updatedAt := ci_occurredAt j \<rparr>) v d else Inr d) = Inr d1"
    and new: "new = applied_run j (ms_phase (mi_state m)) v row"
    and w2: "update_run env w row new d1 = Inr d2" and c: "c = applied_checkpoint j hash h new"
    and w3: "insert_checkpoint w c d2 = Inr d3" by (rule apply_checkpointE)
  have k: "rc_kind c = CkDecisionAttempt" "rc_sequence c \<noteq> 0" "rc_missionId c = ru_missionId row"
    using assms(2) by (simp_all add: c new applied_checkpoint_def applied_run_def Let_def)
  have "\<exists>m'. db_mission d1 (ru_missionId row) = Some m' \<and> mi_state m' = mi_state m"
    using w1 row(2) db_mission_id[OF row(2)]
    by (auto simp: write_mission_def db_mission_def mission_get_def split: if_splits)
  then obtain m' where "db_mission d2 (rc_missionId c) = Some m'" "mi_state m' = mi_state m"
    using db_mission_update_run[OF w2] k(3) by auto
  moreover have "checkpoint_insert_ok d2 c" using w3 by (simp add: insert_checkpoint_def split: if_splits)
  ultimately have "ms_status (mi_state m) = MRunning" using k
    by (auto simp: checkpoint_insert_ok_def db_mission_allows_def split: option.splits)
  with row show ?thesis by blast
qed

section \<open>A concrete run\<close>

definition ex_world :: caretaker_world where
  "ex_world = \<lparr> cw_canonical = (\<lambda>_. ex_digest), cw_toolHash = (\<lambda>_. ex_digest), cw_inputText = (\<lambda>_. ''{}''),
     cw_inputDigest = (\<lambda>_. ex_digest), cw_toolRegistryHash = ex_digest, cw_eventRegistryHash = ex_digest,
     cw_eventSafe = (\<lambda>e. sv_event e = ''$ai_trace'') \<rparr>"

definition ex_alias :: string where
  "ex_alias = ''tpa_a_v1_AAAAAAAAAAAAAAAAAAAAAAAAAAAAAAAAAAAAAAAAAAA''"

definition ex_profile :: evidence_profile where
  "ex_profile = \<lparr> ep_configuration = \<lparr> bc_rendererVersion = ''caretaker-evidence-renderer@3'',
       bc_aliasFingerprint = ex_digest, bc_environment = ''test'', bc_dataOrigin = ''fixture'', bc_appVersion = ''a'',
       bc_harnessVersion = ''h'', bc_modelConfigVersion = ''m'', bc_toolRegistryHash = ex_digest,
       bc_eventRegistryHash = ex_digest, bc_featureFlags = None \<rparr>,
     ep_configurationHash = ex_digest, ep_contextManifestHash = ex_digest, ep_aliases = replicate 6 ex_alias,
     ep_profileHash = ex_digest \<rparr>"

definition ex_caretaker_db :: caretaker_db where
  "ex_caretaker_db = \<lparr> cd_tenant = ex_live_tenant\<lparr> tn_missions := [ex_mission\<lparr> mi_state := mstate MRunning PhPlan \<rparr>] \<rparr>,
     cd_ledgerVersions = [], cd_runs = [], cd_checkpoints = [], cd_deliveries = [] \<rparr>"

definition ex_key :: "char \<Rightarrow> string" where
  "ex_key c = replicate 64 c"

definition ex_start :: "char \<Rightarrow> instant \<Rightarrow> start_input" where
  "ex_start c t = \<lparr> si_runId = ''run_aaaaaaaa'', si_missionId = ''mis_aaaaaaaa'', si_mutationKey = ex_key c,
     si_profile = ex_profile, si_occurredAt = t \<rparr>"

definition ex_call :: pending_tool_call where
  "ex_call = \<lparr> pt_callId = ''call_aaaaaaaa'', pt_input = PlansValidateInput ''pln_aaaaaaaa'', pt_inputHash = ex_digest \<rparr>"

definition ex_envelope :: terminal_envelope where
  "ex_envelope = \<lparr> te_eventHash = ex_digest, te_event = \<lparr> sv_event = ''$ai_trace'', sv_insertId = ''i'', sv_body = [] \<rparr> \<rparr>"

definition ex_input :: "checkpoint_kind \<Rightarrow> counters \<Rightarrow> pending_tool_call option \<Rightarrow> terminal_envelope option \<Rightarrow> checkpoint_input" where
  "ex_input k n p e = \<lparr> ci_runId = ''run_aaaaaaaa'', ci_expectedVersion = 0, ci_expectedTaskLedgerVersion = 0,
     ci_mutationKey = ex_key (CHR ''b''), ci_kind = k, ci_counters = n, ci_pending = p, ci_taskLedger = [],
     ci_evidenceRefs = [], ci_terminalEvidence = e, ci_occurredAt = 20 \<rparr>"

definition ex_scope :: scope where
  "ex_scope = Fenced ''mis_aaaaaaaa'' 1"

definition ex_first_run :: caretaker_run where
  "ex_first_run = \<lparr> ru_id = ''run_aaaaaaaa'', ru_missionId = ''mis_aaaaaaaa'', ru_leaseEpoch = 1, ru_status = RunActive,
     ru_phase = PhPlan, ru_version = 0, ru_taskLedgerVersion = 0, ru_counters = EMPTY_CARETAKER_RUN_COUNTERS,
     ru_pending = None, ru_profile = ex_profile, ru_startedAt = 10, ru_updatedAt = 10, ru_endedAt = None \<rparr>"

definition ex_started :: caretaker_db where
  "ex_started = \<lparr> cd_tenant = db_tick 1 (ex_live_tenant\<lparr> tn_missions := [ex_mission\<lparr> mi_state := mstate MRunning PhPlan,
       mi_runId := Some ''run_aaaaaaaa'', mi_updatedAt := 10 \<rparr>] \<rparr>),
     cd_ledgerVersions = [(''mis_aaaaaaaa'', 0)], cd_runs = [ex_first_run],
     cd_checkpoints = [start_checkpoint (ex_start (CHR ''a'') 10) CkActivated ex_digest ex_digest [] ex_first_run],
     cd_deliveries = [] \<rparr>"

definition ex_applied :: "checkpoint_input \<Rightarrow> evidence_delivery list \<Rightarrow> caretaker_db" where
  "ex_applied j ds = ex_started\<lparr> cd_tenant := db_tick 1 (cd_tenant ex_started),
     cd_runs := [applied_run j PhPlan 0 ex_first_run],
     cd_checkpoints := cd_checkpoints ex_started @
       [applied_checkpoint j ex_digest ex_digest (applied_run j PhPlan 0 ex_first_run)],
     cd_deliveries := ds \<rparr>"

definition ex_paused :: caretaker_db where
  "ex_paused = ex_applied (ex_input CkHumanReviewPause EMPTY_CARETAKER_RUN_COUNTERS None (Some ex_envelope))
     [\<lparr> ed_missionId = ''mis_aaaaaaaa'', ed_runId = ''run_aaaaaaaa'', ed_envelope = ex_envelope, ed_delivered = False,
       ed_createdAt = 20, ed_deliveredAt = None, ed_captureStatus = None \<rparr>]"

text \<open>The mission is cancelled while its run is paused, and a start reopens the run.\<close>

definition ex_mission_cancelled :: caretaker_db where
  "ex_mission_cancelled = ex_paused\<lparr> cd_tenant := (cd_tenant ex_paused)\<lparr> tn_missions :=
     [ex_mission\<lparr> mi_state := mstate MCancelled PhPlan, mi_runId := Some ''run_aaaaaaaa'', mi_updatedAt := 25 \<rparr>] \<rparr> \<rparr>"

definition ex_tool_call :: checkpoint_input where
  "ex_tool_call = ex_input CkToolCall (EMPTY_CARETAKER_RUN_COUNTERS\<lparr> ct_toolCalls := 1 \<rparr>) (Some ex_call) None"

definition ex_cancel :: checkpoint_input where
  "ex_cancel = (ex_input CkCancelled EMPTY_CARETAKER_RUN_COUNTERS None (Some ex_envelope))
     \<lparr> ci_mutationKey := ex_key (CHR ''d''), ci_expectedVersion := 2, ci_occurredAt := 40 \<rparr>"

lemma ex_alias_ok: "analytics_alias_ok ex_alias"
  by code_simp

lemma ex_profile_ok: "evidence_profile_ok ex_world ex_profile"
proof -
  have "byte_configuration_ok ex_world (ep_configuration ex_profile) \<and> sha256_ok ex_digest" by code_simp
  then show ?thesis by (simp add: evidence_profile_ok_def ex_profile_def ex_world_def ex_alias_ok list_all_iff)
qed

lemma ex_world_sel:
  "cw_canonical ex_world v = ex_digest" "cw_toolHash ex_world q = ex_digest" "cw_inputText ex_world q = ''{}''"
  "cw_inputDigest ex_world q = ex_digest" "ep_configurationHash ex_profile = ex_digest" "ep_profileHash ex_profile = ex_digest"
  by (simp_all add: ex_world_def ex_profile_def)

lemma ex_words: "id_ok ''run'' ''run_aaaaaaaa''" "id_ok ''mis'' ''mis_aaaaaaaa''" "sha256_ok ex_digest"
  "sha256_ok (ex_key (CHR ''a''))" "sha256_ok (ex_key (CHR ''b''))" "sha256_ok (ex_key (CHR ''c''))"
  "opt_pending_ok ex_world None" "mission_state_ok (mstate MRunning PhPlan)" "db_text_safe ''{}''" "terminal_envelope_ok ex_world ex_envelope" "opt_pending_ok ex_world (Some ex_call)"
  "id_ok ''call'' (pt_callId ex_call)" "pt_inputHash ex_call = ex_digest" "pt_toolName ex_call = PlansValidate"
  by code_simp+

lemma ex_keys: "ex_key (CHR ''a'') \<noteq> ex_key (CHR ''b'')" "ex_key (CHR ''b'') \<noteq> ex_key (CHR ''a'')"
  "ex_key (CHR ''a'') \<noteq> ex_key (CHR ''c'')" "ex_key (CHR ''b'') \<noteq> ex_key (CHR ''c'')"
  by (simp_all add: ex_key_def)

lemmas ex_evaluate = ex_profile_ok ex_world_sel ex_words ex_keys ex_start_def ex_scope_def ex_caretaker_db_def
  ex_live_tenant_def ex_tenant_def ex_expired_lease_def ex_mission_def ex_env_def ex_first_run_def
  assertFence_def db_mission_def mission_get_def run_get_def pointed_run_def lease_at_epoch_def lease_get_def
  lease_live_def db_now_def counters_ok_def EMPTY_CARETAKER_RUN_COUNTERS_def db_pending_ok_def
  ledger_version_def task_ledger_ok_def hashCaretakerTaskLedger_def insert_checkpoint_def run_checkpoint_ok_def
  checkpoint_insert_ok_def run_checkpoints_def mapRun_def caretaker_run_ok_def cd_tick_def
  db_tick_def run_row_ok_def start_checkpoint_def

lemmas ex_checkpoint_rules = runs_checkpoint_def parse_checkpoint_input_def ex_input_def mutation_kind_ok_def
  safe_version_def hashCaretakerCheckpointMutation_def mutation_payload_of_def keyed_checkpoint_def new_checkpoint_def
  assertCaretakerMissionStateForCheckpoint_def terminal_mission_def last_action_kind_def transition_rules_def
  assertCaretakerTaskLedgerTransition_def assertCaretakerCounterTransition_def counters_match_def one_if_def
  assertCaretakerPendingToolCallTransition_def pending_rule_def apply_checkpoint_def applied_run_def
  applied_checkpoint_def update_run_def run_update_ok_def counter_steps_def checkpoint_at_def before_kind_def
  db_mission_allows_def db_lease_replacement_ok_def db_tool_wait_ok_def db_pending_rule_def
  guard_that_def

lemma ex_starts:
  "\<exists>x. runs_start ex_env ex_world ex_scope (ex_start (CHR ''a'') 10) ex_caretaker_db = Inr ((StartStarted, x), ex_started)"
  by (simp add: runs_start_def ex_evaluate finished_canonical_run_def start_active_def first_start_def
    inherited_counters_def insert_run_def run_insert_ok_def write_mission_def mission_row_ok_def start_hash_def
    ex_started_def Let_def)

lemma ex_calls:
  "\<exists>x. runs_checkpoint ex_env ex_world ex_scope ex_tool_call ex_started =
     Inr (CheckpointApplied x, ex_applied ex_tool_call [])"
  by (simp add: ex_checkpoint_rules ex_evaluate ex_started_def ex_applied_def ex_tool_call_def Let_def)

lemma ex_pauses:
  "\<exists>x. runs_checkpoint ex_env ex_world ex_scope
     (ex_input CkHumanReviewPause EMPTY_CARETAKER_RUN_COUNTERS None (Some ex_envelope)) ex_started =
     Inr (CheckpointApplied x, ex_paused)"
  by (simp add: ex_checkpoint_rules ex_evaluate ex_started_def ex_applied_def ex_paused_def insert_delivery_def Let_def)

lemma ex_reopens:
  "\<exists>x d. runs_start ex_env ex_world ex_scope (ex_start (CHR ''c'') 30) ex_mission_cancelled = Inr ((StartResumed, x), d) \<and>
     (\<exists>r. run_get d ''run_aaaaaaaa'' = Some r \<and> ru_status r = RunActive)"
  by (simp add: runs_start_def check_existing_def finished_def is_terminal_finalization_def terminal_mission_def
    is_external_synchronization_def waits_outside_def finalize_paused_def replace_lease_def start_hash_def resume_hash_def
    ex_checkpoint_rules ex_evaluate ex_started_def ex_applied_def ex_paused_def ex_mission_cancelled_def
    finished_canonical_run_def start_active_def Let_def)

lemma ex_no_runs: "no_runs_yet ex_caretaker_db"
  by (simp add: no_runs_yet_def ex_evaluate)

lemma ex_steps:
  "caretaker_step ex_env ex_world ex_caretaker_db ex_started"
  "caretaker_step ex_env ex_world ex_started (ex_applied ex_tool_call [])"
  "caretaker_step ex_env ex_world ex_started ex_paused"
  "caretaker_step ex_env ex_world ex_paused ex_mission_cancelled"
  "caretaker_step ex_env ex_world d d"
proof -
  show "caretaker_step ex_env ex_world ex_caretaker_db ex_started" using ex_starts by (blast intro: step_start)
  show "caretaker_step ex_env ex_world ex_started (ex_applied ex_tool_call [])" using ex_calls by (blast intro: step_checkpoint)
  show "caretaker_step ex_env ex_world ex_started ex_paused" using ex_pauses by (blast intro: step_checkpoint)
  show "caretaker_step ex_env ex_world ex_paused ex_mission_cancelled"
    by (rule step_other) (simp add: ledger_untouched_def pointers_kept_def pointer_def ex_mission_cancelled_def ex_paused_def
      ex_applied_def ex_started_def ex_evaluate)
  show "caretaker_step ex_env ex_world d d" by (rule step_other) (simp add: ledger_untouched_def pointers_kept_def)
qed

definition ex_history :: "nat \<Rightarrow> caretaker_db" where
  "ex_history n = (case n of 0 \<Rightarrow> ex_caretaker_db | Suc 0 \<Rightarrow> ex_started | _ \<Rightarrow> ex_applied ex_tool_call [])"

lemma ex_history_steps: "caretaker_step ex_env ex_world (ex_history n) (ex_history (Suc n))"
  by (cases n; cases "n - 1") (simp_all add: ex_history_def ex_steps)

theorem caretaker_work_ends_witness:
  "spends ''mis_aaaaaaaa'' (ex_history 1) (ex_history 2) \<and>
   finite {n. spends ''mis_aaaaaaaa'' (ex_history n) (ex_history (Suc n))}"
proof
  show "spends ''mis_aaaaaaaa'' (ex_history 1) (ex_history 2)"
    by (simp add: spends_def ex_history_def ex_applied_def applied_checkpoint_def applied_run_def ex_tool_call_def
      ex_input_def ex_first_run_def budget_kind_def numeral_2_eq_2 Let_def)
  have "no_runs_yet (ex_history 0)" by (simp add: ex_history_def ex_no_runs)
  from caretaker_work_ends[of ex_history, OF this ex_history_steps]
  show "finite {n. spends ''mis_aaaaaaaa'' (ex_history n) (ex_history (Suc n))}" by simp
qed

theorem paused_runs_cannot_be_closed_witness:
  "\<exists>d. (caretaker_step ex_env ex_world)\<^sup>*\<^sup>* ex_mission_cancelled d \<and>
     (\<exists>r. run_get d ''run_aaaaaaaa'' = Some r \<and> ru_status r = RunActive) \<and>
     (\<forall>x d'. runs_checkpoint ex_env ex_world ex_scope ex_cancel d \<noteq> Inr (CheckpointApplied x, d'))"
proof -
  obtain x d where s: "runs_start ex_env ex_world ex_scope (ex_start (CHR ''c'') 30) ex_mission_cancelled = Inr ((StartResumed, x), d)"
    and a: "\<exists>r. run_get d ''run_aaaaaaaa'' = Some r \<and> ru_status r = RunActive" using ex_reopens by blast
  from step_start[OF s] have d: "(caretaker_step ex_env ex_world)\<^sup>*\<^sup>* ex_mission_cancelled d" by (rule r_into_rtranclp)
  have "(caretaker_step ex_env ex_world)\<^sup>*\<^sup>* ex_caretaker_db ex_paused"
    using ex_steps(1,3) by (meson converse_rtranclp_into_rtranclp r_into_rtranclp)
  moreover have "\<exists>r. run_get ex_paused ''run_aaaaaaaa'' = Some r \<and> ru_status r = RunPaused"
    by (simp add: ex_paused_def ex_applied_def applied_run_def ex_input_def run_get_def ex_first_run_def Let_def)
  moreover have "(caretaker_step ex_env ex_world)\<^sup>*\<^sup>* ex_paused d"
    using ex_steps(4) d by (rule converse_rtranclp_into_rtranclp)
  moreover have "caretakerRunStatusForCheckpoint (ci_kind ex_cancel) \<noteq> RunActive" "ci_runId ex_cancel = ''run_aaaaaaaa''"
    by (simp_all add: ex_cancel_def ex_input_def)
  ultimately have "\<forall>x d'. runs_checkpoint ex_env ex_world ex_scope ex_cancel d \<noteq> Inr (CheckpointApplied x, d')"
    using paused_runs_cannot_be_closed[OF _ ex_no_runs] by blast
  with a d show ?thesis by blast
qed

theorem applied_checkpoints_replay_witness:
  "\<exists>x. runs_checkpoint ex_env ex_world ex_scope ex_tool_call (ex_applied ex_tool_call []) =
     Inr (CheckpointReplayed x, ex_applied ex_tool_call [])"
  using ex_calls applied_checkpoints_replay by blast

theorem checkpoints_follow_the_call_protocol_witness:
  "\<exists>st. call_history NoCall (call_events (run_checkpoints (ex_applied ex_tool_call []) ''run_aaaaaaaa'')) = Some st \<and>
     call_of st = Some ex_call"
proof -
  have "(caretaker_step ex_env ex_world)\<^sup>*\<^sup>* ex_caretaker_db (ex_applied ex_tool_call [])"
    using ex_steps(1,2) by (meson converse_rtranclp_into_rtranclp r_into_rtranclp)
  moreover have "applied_run ex_tool_call PhPlan 0 ex_first_run \<in> set (cd_runs (ex_applied ex_tool_call []))"
    by (simp add: ex_applied_def)
  moreover have "ru_id (applied_run ex_tool_call PhPlan 0 ex_first_run) = ''run_aaaaaaaa''"
    "ru_pending (applied_run ex_tool_call PhPlan 0 ex_first_run) = Some ex_call"
    by (simp_all add: applied_run_def ex_first_run_def ex_tool_call_def ex_input_def Let_def)
  ultimately show ?thesis using checkpoints_follow_the_call_protocol[OF _ ex_no_runs] by metis
qed

end
