(* ===== verification/Clarification_Service.thy ===== *)
theory Clarification_Service
  imports Approval_Service Evidence_Store Lease
begin

text \<open>
  Clarifications: their repository (\<open>db/src/clarification-repository.ts\<close> with the constraints
  and triggers of migration 0014) and the service that asks and answers them
  (\<open>application/src/clarification-service.ts\<close>).  The digest of a canonical request, which the
  repository compares, is the parameter \<open>digest\<close>.
\<close>

section \<open>Text in the database\<close>

text \<open>
  \<open>clarification_public_text_is_safe\<close>: PostgreSQL filters with expressions of its own, without
  word boundaries.
\<close>

definition db_clarification_credential :: rx where
  "db_clarification_credential = rx_any
     (rx_seq [rx_word ''bearer'', rx_many 1 is_space_char,
        rx_many 8 (either_case (\<lambda>c. is_lower_alnum c \<or> List.member ''._~+/-'' c))])
     [rx_seq [rx_any (rx_word ''phc'') [rx_word ''phx'', rx_word ''sk''], rx_word ''_'', rx_many 12 (either_case is_id_char)],
      private_key,
      rx_seq [rx_any (rx_seq [rx_word ''api'', rx_opt (RxSet (List.member ''_-'')), rx_word ''key''])
         (List.map rx_word [''authorization'', ''cookie'', ''credential'', ''password'', ''secret'', ''token'']),
       rx_many 0 is_space_char, RxSet (List.member ''=:''), rx_many 0 is_space_char, rx_many 1 (\<lambda>c. \<not> is_space_char c)]]"

definition text_start :: rx where
  "text_start = RxAlt RxStart (RxSet (\<lambda>c. is_space_char c \<or> List.member [CHR 0x22, CHR 0x27, CHR ''(''] c))"

definition db_clarification_path :: rx where
  "db_clarification_path = RxSeq text_start (RxAlt
     (rx_seq [rx_word ''/'', users_or_home, rx_word ''/'', rx_many 1 (not_in ''/'')])
     (rx_seq [RxSet (either_case (\<lambda>c. is_lower_alnum c \<and> \<not> is_digit_char c)), rx_word '':'', backslash,
        rx_word ''Users'', backslash, rx_many 1 (not_in [CHR 0x5C])]))"

definition db_clarification_url :: rx where
  "db_clarification_url = rx_seq [rx_word ''http'', rx_opt (rx_word ''s''), rx_word ''://'', private_host,
     rx_opt (RxSeq (rx_word '':'') rx_number)]"

text \<open>A match that a slash or the end of the text follows.\<close>

definition db_url_test :: "string \<Rightarrow> bool" where
  "db_url_test t = list_ex (\<lambda>i. list_ex (\<lambda>j. j = length t \<or> t ! j = CHR ''/'') (ends db_clarification_url t i))
     [0..<Suc (length t)]"

definition db_public_text_safe :: "string \<Rightarrow> bool" where
  "db_public_text_safe t = (\<not> rx_test db_clarification_credential t \<and> \<not> rx_test db_clarification_path t \<and> \<not> db_url_test t)"

text \<open>\<open>clarification_request_payload_is_valid\<close>\<close>

definition db_choice_ok :: "clarification_choice \<Rightarrow> bool" where
  "db_choice_ok c = (choice_id_ok (cc_id c) \<and> 1 \<le> length (cc_label c) \<and> length (cc_label c) \<le> 80 \<and>
     1 \<le> length (cc_description c) \<and> length (cc_description c) \<le> 240 \<and>
     db_public_text_safe (cc_label c) \<and> db_public_text_safe (cc_description c))"

definition db_request_payload_ok :: "request_payload \<Rightarrow> bool" where
  "db_request_payload_ok p = (12 \<le> length (qp_question p) \<and> length (qp_question p) \<le> 280 \<and>
     db_public_text_safe (qp_question p) \<and> 2 \<le> length (qp_choices p) \<and> length (qp_choices p) \<le> 6 \<and>
     evidence_refs_ok (qp_evidenceRefs p) \<and> list_all db_choice_ok (qp_choices p) \<and> unique (List.map cc_id (qp_choices p)))"

section \<open>The repository\<close>

definition cq_missionId :: "clarification_request \<Rightarrow> string" where
  "cq_missionId r = qp_missionId (cq_payload r)"

definition request_row :: "tenant \<Rightarrow> string \<Rightarrow> clarification_request option" where
  "request_row s i = lookup_by cq_id i (tn_clarifications s)"

fun mapped :: "('a \<Rightarrow> err + 'b) \<Rightarrow> 'a option \<Rightarrow> err + 'b option" where
  "mapped f None = Inr None"
| "mapped f (Some r) = sbind (f r) (\<lambda>x. Inr (Some x))"

definition mapAnswer :: "env \<Rightarrow> clarification_answer \<Rightarrow> err + clarification_answer" where
  "mapAnswer env a = (if clarification_answer_ok (en_answerHash env) a then Inr a else Inl (ZodError ''ClarificationAnswer''))"

definition getRequest :: "env \<Rightarrow> tenant \<Rightarrow> string \<Rightarrow> err + clarification_request option" where
  "getRequest env s i = (if \<not> id_ok ''clr'' i then Inl (ZodError ''ClarificationRequestId'')
     else mapped (parse_request (en_requestHash env)) (request_row s i))"

definition findRequestByIdempotencyKey :: "env \<Rightarrow> tenant \<Rightarrow> string \<Rightarrow> err + clarification_request option" where
  "findRequestByIdempotencyKey env s k = (if \<not> sha256_ok k then Inl (ZodError ''Sha256'')
     else mapped (parse_request (en_requestHash env)) (find (\<lambda>r. cq_idempotencyKey r = k) (tn_clarifications s)))"

definition is_pending :: "string \<Rightarrow> clarification_request \<Rightarrow> bool" where
  "is_pending m r = (cq_missionId r = m \<and> cq_status r = ClarificationPending)"

definition findPendingForMission :: "env \<Rightarrow> tenant \<Rightarrow> string \<Rightarrow> err + clarification_request option" where
  "findPendingForMission env s m = (if \<not> id_ok ''mis'' m then Inl (ZodError ''MissionId'')
     else mapped (parse_request (en_requestHash env)) (find (is_pending m) (tn_clarifications s)))"

text \<open>The latest by the time of the request, then by the identifier.\<close>

definition findLatestForMission :: "env \<Rightarrow> tenant \<Rightarrow> string \<Rightarrow> err + clarification_request option" where
  "findLatestForMission env s m = (if \<not> id_ok ''mis'' m then Inl (ZodError ''MissionId'')
     else mapped (parse_request (en_requestHash env))
       (case rev (sort_key cq_requestedAt (sort_key cq_id (filter (\<lambda>r. cq_missionId r = m) (tn_clarifications s)))) of
          [] \<Rightarrow> None | r # _ \<Rightarrow> Some r))"

definition getAnswerForRequest :: "env \<Rightarrow> tenant \<Rightarrow> string \<Rightarrow> err + clarification_answer option" where
  "getAnswerForRequest env s i = (if \<not> id_ok ''clr'' i then Inl (ZodError ''ClarificationRequestId'')
     else mapped (mapAnswer env) (find (\<lambda>a. wp_requestId (cw_payload a) = i) (tn_answers s)))"

definition findAnswerByIdempotencyKey :: "env \<Rightarrow> tenant \<Rightarrow> string \<Rightarrow> err + clarification_answer option" where
  "findAnswerByIdempotencyKey env s k = (if \<not> sha256_ok k then Inl (ZodError ''Sha256'')
     else mapped (mapAnswer env) (find (\<lambda>a. cw_idempotencyKey a = k) (tn_answers s)))"

text \<open>Both layers check that evidence belongs to the mission.\<close>

definition evidence_bound :: "tenant \<Rightarrow> string \<Rightarrow> string \<Rightarrow> string \<Rightarrow> bool" where
  "evidence_bound s org m i = (case evidence_get s i of None \<Rightarrow> False
     | Some r \<Rightarrow> ev_organizationId (pe_evidence r) = org \<and> ev_missionId (pe_evidence r) = m)"

definition db_assertEvidenceBindings :: "tenant \<Rightarrow> string \<Rightarrow> string list \<Rightarrow> err + unit" where
  "db_assertEvidenceBindings s m refs = guard_that (list_all (evidence_bound s (tn_org s) m) refs)
     (DatabaseConflictError ''Clarification evidence is not bound to its mission'')"

definition is_member :: "tenant \<Rightarrow> string \<Rightarrow> bool" where
  "is_member s u = list_ex (\<lambda>m. mb_userId m = u) (tn_memberships s)"

text \<open>The row of a new request: its constraints, its trigger and its foreign keys.\<close>

definition request_insert_ok :: "tenant \<Rightarrow> clarification_request \<Rightarrow> bool" where
  "request_insert_ok s r = ((case mission_get s (cq_missionId r) of None \<Rightarrow> False | Some m \<Rightarrow> mi_state m = mstate MRunning PhPlan) \<and>
     list_all (evidence_bound s (tn_org s) (cq_missionId r)) (qp_evidenceRefs (cq_payload r)) \<and>
     db_request_payload_ok (cq_payload r) \<and> is_member s (qp_requestedBy (cq_payload r)))"

definition insertRequest :: "env \<Rightarrow> scope \<Rightarrow> clarification_request \<Rightarrow> tenant \<Rightarrow> err + tenant" where
  "insertRequest env sc inputRequest s =
     sbind (parse_request (en_requestHash env) inputRequest) (\<lambda>r.
     if qp_organizationId (cq_payload r) \<noteq> tn_org s
       then Inl (DatabaseConflictError ''Clarification request crossed a tenant boundary'')
     else if (case sc of Unfenced \<Rightarrow> True | Fenced m e \<Rightarrow> cq_missionId r \<noteq> m)
       then Inl (DatabaseConflictError ''Clarification requests require the active mission fence'')
     else if cq_status r \<noteq> ClarificationPending \<or> \<not> is_none (cq_resolvedAt r)
       then Inl (DatabaseConflictError ''New clarification requests must be pending'')
     else sbind (db_assertEvidenceBindings s (cq_missionId r) (qp_evidenceRefs (cq_payload r))) (\<lambda>_.
     if \<not> request_insert_ok s r then Inl (DatabaseConflictError ''clarification_requests'')
     else if \<not> is_none (request_row s (cq_id r)) then Inl (DatabaseConflictError ''clarification_requests_pkey'')
     else if list_ex (\<lambda>x. cq_idempotencyKey x = cq_idempotencyKey r) (tn_clarifications s)
       then Inl (DatabaseConflictError ''clarification_requests_idempotency_unique'')
     else if list_ex (is_pending (cq_missionId r)) (tn_clarifications s)
       then Inl (DatabaseConflictError ''clarification_requests_one_pending_per_mission'')
     else Inr (s\<lparr> tn_clarifications := tn_clarifications s @ [r] \<rparr>)))"

definition offers :: "clarification_request \<Rightarrow> string \<Rightarrow> bool" where
  "offers r c = list_ex (\<lambda>x. cc_id x = c) (qp_choices (cq_payload r))"

definition resolved_at :: "instant \<Rightarrow> clarification_request \<Rightarrow> clarification_request" where
  "resolved_at t r = r\<lparr> cq_status := ClarificationResolved, cq_resolvedAt := Some t \<rparr>"

text \<open>\<open>enforce_clarification_answer_insert\<close>\<close>

definition answer_insert_ok :: "tenant \<Rightarrow> clarification_request \<Rightarrow> clarification_answer \<Rightarrow> bool" where
  "answer_insert_ok s r a = (let p = cw_payload a in
     cq_missionId r = wp_missionId p \<and> cq_status r = ClarificationPending \<and> cq_requestedAt r \<le> cw_answeredAt a \<and>
     offers r (wp_choiceId p) \<and>
     (case mission_get s (wp_missionId p) of None \<Rightarrow> False | Some m \<Rightarrow> mi_state m = mstate MWaitingForUser PhPlan) \<and>
     (case find (\<lambda>x. mb_userId x = wp_answeredBy p \<and> is_none (mb_revokedAt x)) (tn_memberships s) of
        None \<Rightarrow> False | Some x \<Rightarrow> List.member [Owner, Operator] (mb_role x)) \<and>
     list_all (evidence_bound s (tn_org s) (wp_missionId p)) (wp_evidenceRefs p))"

text \<open>The trigger \<open>resolve_clarification_request_from_answer\<close> resolves the request of a new answer.\<close>

definition insert_answer_row :: "clarification_request \<Rightarrow> clarification_answer \<Rightarrow> tenant \<Rightarrow> err + tenant" where
  "insert_answer_row r a s =
     (if \<not> answer_insert_ok s r a then Inl (DatabaseConflictError ''clarification_answers'')
      else if list_ex (\<lambda>x. cw_id x = cw_id a) (tn_answers s) then Inl (DatabaseConflictError ''clarification_answers_pkey'')
      else if list_ex (\<lambda>x. wp_requestId (cw_payload x) = wp_requestId (cw_payload a)) (tn_answers s)
        then Inl (DatabaseConflictError ''clarification_answers_request_unique'')
      else if list_ex (\<lambda>x. cw_idempotencyKey x = cw_idempotencyKey a) (tn_answers s)
        then Inl (DatabaseConflictError ''clarification_answers_idempotency_unique'')
      else Inr (s\<lparr> tn_answers := tn_answers s @ [a],
        tn_clarifications := upsert cq_id (resolved_at (cw_answeredAt a) r) (tn_clarifications s) \<rparr>))"

definition insertAnswer ::
  "env \<Rightarrow> (clarification_request \<Rightarrow> string) \<Rightarrow> scope \<Rightarrow> clarification_answer \<Rightarrow> clarification_request \<Rightarrow> tenant \<Rightarrow> err + tenant" where
  "insertAnswer env digest sc inputAnswer inputResolved s =
     (if sc \<noteq> Unfenced then Inl (DatabaseConflictError ''Clarification answers require an unfenced human mutation'')
      else sbind (mapAnswer env inputAnswer) (\<lambda>a.
      sbind (parse_request (en_requestHash env) inputResolved) (\<lambda>resolved.
      if wp_organizationId (cw_payload a) \<noteq> tn_org s \<or> qp_organizationId (cq_payload resolved) \<noteq> tn_org s
        then Inl (DatabaseConflictError ''Clarification answer crossed a tenant boundary'')
      else sbind (required (request_row s (wp_requestId (cw_payload a)))
          (DatabaseConflictError ''Clarification request does not exist'')) (\<lambda>row.
      sbind (parse_request (en_requestHash env) row) (\<lambda>current.
      sbind (parse_request (en_requestHash env) (resolved_at (cw_answeredAt a) current)) (\<lambda>expected.
      if cq_status current \<noteq> ClarificationPending \<or> \<not> is_none (cq_resolvedAt current) \<or>
         wp_missionId (cw_payload a) \<noteq> cq_missionId current \<or> \<not> offers current (wp_choiceId (cw_payload a)) \<or>
         digest expected \<noteq> digest resolved
        then Inl (DatabaseConflictError ''Clarification answer is not bound to its pending request'')
      else sbind (db_assertEvidenceBindings s (wp_missionId (cw_payload a)) (wp_evidenceRefs (cw_payload a))) (\<lambda>_.
      insert_answer_row row a s)))))))"

section \<open>Asking\<close>

datatype request_result = ClarificationCreated clarification_request mission | ClarificationReplayed clarification_request mission

definition assertEvidenceBindings :: "tenant \<Rightarrow> mission \<Rightarrow> string list \<Rightarrow> err + unit" where
  "assertEvidenceBindings s m refs = guard_that (list_all (evidence_bound s (mi_organizationId m) (mi_id m)) refs)
     (ConflictError ''Clarification evidence is not bound to its mission'')"

definition new_request :: "string \<Rightarrow> request_payload \<Rightarrow> string \<Rightarrow> string \<Rightarrow> instant \<Rightarrow> clarification_request" where
  "new_request i p key h t = \<lparr> cq_id = i, cq_payload = p, cq_idempotencyKey = key, cq_payloadHash = h,
     cq_status = ClarificationPending, cq_requestedAt = t, cq_resolvedAt = None \<rparr>"

definition ask ::
  "env \<Rightarrow> scope \<Rightarrow> mission \<Rightarrow> nat \<Rightarrow> string \<Rightarrow> request_payload \<Rightarrow> string \<Rightarrow> tenant \<Rightarrow> err + (request_result \<times> tenant)" where
  "ask env sc m expectedVersion key p h s =
     (if mi_version m \<noteq> expectedVersion then Inl (OptimisticConcurrencyError ''Mission'')
      else if mi_state m \<noteq> mstate MRunning PhPlan
        then Inl (ConflictError ''Clarifications may be requested only from the running plan checkpoint'')
      else sbind (findPendingForMission env s (mi_id m)) (\<lambda>pending.
      if \<not> is_none pending then Inl (ConflictError ''Mission already has a pending clarification'')
      else sbind (assertEvidenceBindings s m (qp_evidenceRefs p)) (\<lambda>_.
      sbind (parse_request (en_requestHash env)
        (new_request (fresh_id env IdClarificationRequest s) p key h (read_clock env (bump s)))) (\<lambda>r.
      sbind (insertRequest env sc r (tick (bump s))) (\<lambda>s1.
      sbind (persistMissionTransition env sc m expectedVersion MaterialAmbiguity s1) (\<lambda>(m', s2).
      Inr (ClarificationCreated r m', s2)))))))"

definition request_work ::
  "env \<Rightarrow> string \<Rightarrow> string \<Rightarrow> nat \<Rightarrow> string \<Rightarrow> request_payload \<Rightarrow> string \<Rightarrow> scope \<Rightarrow> tenant \<Rightarrow> err + (request_result \<times> tenant)" where
  "request_work env org missionId expectedVersion key p h sc s =
     sbind (requireMission s missionId) (\<lambda>m.
     sbind (assertSameTenant org [mi_organizationId m]) (\<lambda>_.
     if isTerminalMissionState (mi_state m)
       then Inl (ConflictError ''Terminal mission cannot request a clarification'')
     else sbind (findRequestByIdempotencyKey env s key) (\<lambda>existing.
     case existing of
       Some r \<Rightarrow>
         if qp_organizationId (cq_payload r) \<noteq> org \<or> cq_missionId r \<noteq> mi_id m \<or> cq_payloadHash r \<noteq> h
           then Inl (ConflictError ''Clarification request idempotency key was reused with another payload'')
         else Inr (ClarificationReplayed r m, s)
     | None \<Rightarrow> ask env sc m expectedVersion key p h s)))"

definition clarification_request_service ::
  "env \<Rightarrow> execution_context \<Rightarrow> string \<Rightarrow> nat \<Rightarrow> string \<Rightarrow> string \<Rightarrow> clarification_choice list \<Rightarrow> string list \<Rightarrow>
   tenant \<Rightarrow> err + (request_result \<times> tenant)" where
  "clarification_request_service env c missionId expectedVersion key question choices refs s =
     (let org = pr_organizationId (xc_principal c) in
      sbind (assertMissionExecutionContext c org missionId) (\<lambda>_.
      if \<not> sha256_ok key then Inl (ZodError ''Sha256'')
      else sbind (map_res parse_choice choices) (\<lambda>cs.
      if \<not> list_all (id_ok ''evd'') refs then Inl (ZodError ''EvidenceId'')
      else sbind (parse_request_payload \<lparr> qp_organizationId = org, qp_missionId = missionId,
          qp_requestedBy = pr_actorId (xc_principal c), qp_question = question, qp_choices = cs, qp_evidenceRefs = refs \<rparr>) (\<lambda>p.
      sbind (computeClarificationRequestPayloadHash (en_requestHash env) p) (\<lambda>h.
      runFenced env (xc_fence c) (request_work env org missionId expectedVersion key p h) s)))))"

section \<open>Answering\<close>

datatype answer_result =
    ClarificationWasAnswered clarification_request clarification_answer mission
  | AnswerWasReplayed clarification_request clarification_answer mission

definition new_answer :: "string \<Rightarrow> answer_payload \<Rightarrow> string \<Rightarrow> string \<Rightarrow> instant \<Rightarrow> clarification_answer" where
  "new_answer i p key h t = \<lparr> cw_id = i, cw_payload = p, cw_idempotencyKey = key, cw_payloadHash = h, cw_answeredAt = t \<rparr>"

definition resolve_request ::
  "env \<Rightarrow> (clarification_request \<Rightarrow> string) \<Rightarrow> clarification_request \<Rightarrow> mission \<Rightarrow> nat \<Rightarrow> string \<Rightarrow> answer_payload \<Rightarrow> string \<Rightarrow>
   tenant \<Rightarrow> err + (answer_result \<times> tenant)" where
  "resolve_request env digest r m expectedVersion key p h s =
     (if mi_version m \<noteq> expectedVersion then Inl (OptimisticConcurrencyError ''Mission'')
      else if cq_status r \<noteq> ClarificationPending \<or> \<not> is_none (cq_resolvedAt r) \<or> mi_state m \<noteq> mstate MWaitingForUser PhPlan
        then Inl (ConflictError ''Clarification request is no longer answerable'')
      else sbind (assertEvidenceBindings s m (wp_evidenceRefs p)) (\<lambda>_.
      let t = read_clock env s; s1 = tick s;
          a = new_answer (fresh_id env IdClarificationAnswer s1) p key h t in
      sbind (mapAnswer env a) (\<lambda>_.
      sbind (parse_request (en_requestHash env) (resolved_at t r)) (\<lambda>resolved.
      sbind (insertAnswer env digest Unfenced a resolved (bump s1)) (\<lambda>s2.
      sbind (persistMissionTransition env Unfenced m expectedVersion ClarificationAnswered s2) (\<lambda>(m', s3).
      sbind (enqueueMissionResume env Unfenced m' s3) (\<lambda>s4.
      Inr (ClarificationWasAnswered resolved a m', s4))))))))"

definition answer_or_replay ::
  "env \<Rightarrow> (clarification_request \<Rightarrow> string) \<Rightarrow> clarification_request \<Rightarrow> mission \<Rightarrow> nat \<Rightarrow> string \<Rightarrow> answer_payload \<Rightarrow> string \<Rightarrow>
   tenant \<Rightarrow> err + (answer_result \<times> tenant)" where
  "answer_or_replay env digest r m expectedVersion key p h s =
     sbind (getAnswerForRequest env s (cq_id r)) (\<lambda>existing.
     case existing of
       Some a \<Rightarrow>
         if cw_idempotencyKey a \<noteq> key \<or> cw_payloadHash a \<noteq> h
           then Inl (ConflictError ''Clarification request already has another answer'')
         else Inr (AnswerWasReplayed r a m, s)
     | None \<Rightarrow>
         sbind (findAnswerByIdempotencyKey env s key) (\<lambda>other.
         if \<not> is_none other
           then Inl (ConflictError ''Clarification answer idempotency key was reused for another request'')
         else resolve_request env digest r m expectedVersion key p h s))"

definition answer_work ::
  "env \<Rightarrow> (clarification_request \<Rightarrow> string) \<Rightarrow> principal \<Rightarrow> string \<Rightarrow> nat \<Rightarrow> string \<Rightarrow> string \<Rightarrow> string list \<Rightarrow>
   tenant \<Rightarrow> err + (answer_result \<times> tenant)" where
  "answer_work env digest pr requestId expectedVersion key choiceId refs s =
     (let org = pr_organizationId pr in
      sbind (getRequest env s requestId) (\<lambda>found.
      sbind (required found (NotFoundError ''Clarification request'')) (\<lambda>r.
      sbind (requireMission s (cq_missionId r)) (\<lambda>m.
      sbind (assertSameTenant org [qp_organizationId (cq_payload r), mi_organizationId m]) (\<lambda>_.
      if isTerminalMissionState (mi_state m)
        then Inl (ConflictError ''Terminal mission cannot accept a clarification answer'')
      else if \<not> offers r choiceId then Inl (ConflictError ''Clarification answer must select an offered choice'')
      else let p = \<lparr> wp_organizationId = org, wp_missionId = mi_id m, wp_requestId = cq_id r, wp_choiceId = choiceId,
             wp_answeredBy = pr_actorId pr, wp_evidenceRefs = refs \<rparr> in
      sbind (computeClarificationAnswerPayloadHash (en_answerHash env) p) (\<lambda>h.
      answer_or_replay env digest r m expectedVersion key p h s))))))"

definition clarification_answer_service ::
  "env \<Rightarrow> (clarification_request \<Rightarrow> string) \<Rightarrow> session_context \<Rightarrow> mutation_request \<Rightarrow> string \<Rightarrow> nat \<Rightarrow> string \<Rightarrow> string \<Rightarrow>
   string list \<Rightarrow> tenant \<Rightarrow> err + (answer_result \<times> tenant)" where
  "clarification_answer_service env digest ctx req requestId expectedVersion key choiceId refs s =
     (let pr = sc_principal ctx in
      sbind (assertSensitiveMutation env ctx req s) (\<lambda>s1.
      if \<not> List.member [Owner, Operator] (pr_role pr)
        then Inl (ConflictError ''Only an authenticated human owner or operator may answer'')
      else if \<not> sha256_ok key then Inl (ZodError ''Sha256'')
      else if \<not> list_all (id_ok ''evd'') refs then Inl (ZodError ''EvidenceId'')
      else sbind (assertTenant s1 (pr_organizationId pr)) (\<lambda>_.
      answer_work env digest pr requestId expectedVersion key choiceId refs s1)))"

section \<open>What the service does to the store\<close>

lemma mapped_Inr: "mapped f x = Inr y \<longleftrightarrow> (case x of None \<Rightarrow> y = None | Some r \<Rightarrow> (\<exists>z. f r = Inr z \<and> y = Some z))"
  by (cases x) (auto simp: sbind_eq_Inr)

lemma parse_request_keeps:
  assumes "parse_request hash r = Inr q"
  shows "cq_id q = cq_id r \<and> cq_missionId q = cq_missionId r \<and> cq_status q = cq_status r \<and> cq_resolvedAt q = cq_resolvedAt r \<and>
    cq_requestedAt q = cq_requestedAt r \<and> cq_idempotencyKey q = cq_idempotencyKey r \<and>
    (cq_status q = ClarificationResolved) = (\<not> is_none (cq_resolvedAt q))"
  using assms by (auto simp: parse_request_def cq_missionId_def parse_request_payload_def sbind_eq_Inr split: if_splits)

lemma insertRequest_Inr:
  assumes "insertRequest env sc x s = Inr s'"
  obtains r where "parse_request (en_requestHash env) x = Inr r" "s' = s\<lparr> tn_clarifications := tn_clarifications s @ [r] \<rparr>"
    "cq_status r = ClarificationPending" "request_row s (cq_id r) = None"
    "\<forall>y\<in>set (tn_clarifications s). \<not> is_pending (cq_missionId r) y"
  using assms by (auto simp: insertRequest_def sbind_eq_Inr list_ex_iff split: if_splits)

lemma insertAnswer_Inr:
  assumes "insertAnswer env digest sc a q s = Inr s'"
  obtains row where "request_row s (wp_requestId (cw_payload a)) = Some row" "answer_insert_ok s row a" "sc = Unfenced"
    "\<forall>y\<in>set (tn_answers s). wp_requestId (cw_payload y) \<noteq> wp_requestId (cw_payload a)"
    "s' = s\<lparr> tn_answers := tn_answers s @ [a],
        tn_clarifications := upsert cq_id (resolved_at (cw_answeredAt a) row) (tn_clarifications s) \<rparr>"
    "clarification_answer_ok (en_answerHash env) a"
  using assms
  by (auto simp: insertAnswer_def insert_answer_row_def mapAnswer_def sbind_eq_Inr list_ex_iff split: if_splits)

definition clarification_tables :: "tenant \<Rightarrow> clarification_request list \<times> clarification_answer list" where
  "clarification_tables s = (tn_clarifications s, tn_answers s)"

lemma tables_eq [simp]: "clarification_tables (tick s) = clarification_tables s" "clarification_tables (bump s) = clarification_tables s"
  "clarification_tables (db_tick n s) = clarification_tables s"
  by (simp_all add: clarification_tables_def tick_def bump_def db_tick_def)

lemma mission_get_frames [simp]: "mission_get (tick s) i = mission_get s i" "mission_get (bump s) i = mission_get s i"
  "mission_get (db_tick n s) i = mission_get s i"
  by (simp_all add: mission_get_def tick_def bump_def db_tick_def)

lemma persist_clarifications:
  assumes "persistMissionTransition env sc m v ev s = Inr (m', s')"
  shows "clarification_tables s' = clarification_tables s" "\<And>i. i \<noteq> mi_id m \<Longrightarrow> mission_get s' i = mission_get s i"
    "\<exists>x. mission_get s' (mi_id m) = Some x \<and> mi_state x = mi_state m'"
proof -
  show "clarification_tables s' = clarification_tables s"
    using assms by (rule persistMissionTransition_Inr) (simp add: record_mission_def clarification_tables_def tick_def bump_def)
  show "mission_get s' i = mission_get s i" if "i \<noteq> mi_id m" for i
    using assms by (rule persistMissionTransition_Inr) (use that in \<open>simp add: mission_get_def\<close>)
  show "\<exists>x. mission_get s' (mi_id m) = Some x \<and> mi_state x = mi_state m'" using persist_stored[OF assms] by blast
qed

lemma resume_clarifications:
  assumes "enqueueMissionResume env sc m s = Inr s'"
  shows "clarification_tables s' = clarification_tables s" "mission_get s' i = mission_get s i"
proof -
  show "clarification_tables s' = clarification_tables s"
    using assms by (rule enqueueMissionResume_Inr) (simp_all add: clarification_tables_def bump_def)
  show "mission_get s' i = mission_get s i" using resume_frame[OF assms] by (simp add: mission_get_def)
qed

abbreviation waiting_for_answer :: mission_state where
  "waiting_for_answer \<equiv> mstate MWaitingForUser PhPlan"

definition in_state :: "tenant \<Rightarrow> string \<Rightarrow> mission_state \<Rightarrow> bool" where
  "in_state s i st = (\<exists>m. mission_get s i = Some m \<and> mi_state m = st)"

text \<open>
  How other services move a mission: by any event but the two of this service; a new mission
  does not wait for an answer.
\<close>

definition moves_elsewhere :: "mission option \<Rightarrow> mission option \<Rightarrow> bool" where
  "moves_elsewhere old new = (case new of None \<Rightarrow> is_none old
     | Some m' \<Rightarrow> (case old of None \<Rightarrow> mi_state m' \<noteq> waiting_for_answer
         | Some m \<Rightarrow> mi_state m' = mi_state m \<or>
             (\<exists>ev. ev \<noteq> MaterialAmbiguity \<and> ev \<noteq> ClarificationAnswered \<and> mission_step (mi_state m) ev (mi_state m'))))"

inductive clarification_effect :: "tenant \<Rightarrow> tenant \<Rightarrow> bool" for s s' where
  effect_none: "clarification_tables s' = clarification_tables s \<Longrightarrow>
    (\<And>i. moves_elsewhere (mission_get s i) (mission_get s' i)) \<Longrightarrow> clarification_effect s s'"
| effect_asked: "cq_missionId r = i \<Longrightarrow> clarification_tables s' = (tn_clarifications s @ [r], tn_answers s) \<Longrightarrow>
    cq_status r = ClarificationPending \<Longrightarrow> request_row s (cq_id r) = None \<Longrightarrow>
    \<forall>y\<in>set (tn_clarifications s). \<not> is_pending i y \<Longrightarrow> in_state s' i waiting_for_answer \<Longrightarrow>
    (\<And>j. j \<noteq> i \<Longrightarrow> mission_get s' j = mission_get s j) \<Longrightarrow> clarification_effect s s'"
| effect_answered: "cq_missionId r = i \<Longrightarrow> request_row s (cq_id r) = Some r \<Longrightarrow> cq_status r = ClarificationPending \<Longrightarrow>
    wp_requestId (cw_payload a) = cq_id r \<Longrightarrow> wp_missionId (cw_payload a) = i \<Longrightarrow> offers r (wp_choiceId (cw_payload a)) \<Longrightarrow>
    \<forall>y\<in>set (tn_answers s). wp_requestId (cw_payload y) \<noteq> cq_id r \<Longrightarrow>
    clarification_tables s' = (upsert cq_id (resolved_at (cw_answeredAt a) r) (tn_clarifications s), tn_answers s @ [a]) \<Longrightarrow>
    in_state s i waiting_for_answer \<Longrightarrow> in_state s' i (mstate MRunning PhPlan) \<Longrightarrow>
    (\<And>j. j \<noteq> i \<Longrightarrow> mission_get s' j = mission_get s j) \<Longrightarrow> clarification_effect s s'"

lemma moves_elsewhere_refl: "moves_elsewhere x x"
  by (cases x) (auto simp: moves_elsewhere_def)

lemma event_steps:
  "mission_step (mstate MRunning PhPlan) MaterialAmbiguity st \<Longrightarrow> st = waiting_for_answer"
  "mission_step waiting_for_answer ClarificationAnswered st \<Longrightarrow> st = mstate MRunning PhPlan"
  by (auto elim!: mission_step_elim simp: MISSION_TRANSITIONS_def)

lemma ask_effect:
  assumes "ask env sc m v key p h s = Inr (x, s')" "qp_missionId p = mi_id m"
  shows "clarification_effect s s'" "\<exists>r m'. x = ClarificationCreated r m' \<and> cq_idempotencyKey r = key \<and> cq_payloadHash r = h \<and>
    qp_organizationId (cq_payload r) = qp_organizationId p \<and> cq_missionId r = mi_id m \<and> r \<in> set (tn_clarifications s')"
proof -
  from assms(1) obtain r s1 m' where st: "mi_state m = mstate MRunning PhPlan"
    and pr: "parse_request (en_requestHash env)
        (new_request (fresh_id env IdClarificationRequest s) p key h (read_clock env (bump s))) = Inr r"
    and ins: "insertRequest env sc r (tick (bump s)) = Inr s1"
    and pe: "persistMissionTransition env sc m v MaterialAmbiguity s1 = Inr (m', s')" and x: "x = ClarificationCreated r m'"
    by (auto simp: ask_def sbind_eq_Inr split: if_splits prod.splits)
  from ins obtain q where q: "parse_request (en_requestHash env) r = Inr q"
    "s1 = (tick (bump s))\<lparr> tn_clarifications := tn_clarifications (tick (bump s)) @ [q] \<rparr>"
    "cq_status q = ClarificationPending" "request_row (tick (bump s)) (cq_id q) = None"
    "\<forall>y\<in>set (tn_clarifications (tick (bump s))). \<not> is_pending (cq_missionId q) y" by (rule insertRequest_Inr)
  have "parse_request (en_requestHash env) r = Inr r" using pr
    by (auto simp: parse_request_def sbind_eq_Inr computeClarificationRequestPayloadHash_def dest: parse_request_payload_idem split: if_splits)
  then have [simp]: "q = r" using q(1) by simp
  have r: "cq_missionId r = mi_id m" "cq_idempotencyKey r = key" "cq_payloadHash r = h"
    "qp_organizationId (cq_payload r) = qp_organizationId p"
    using pr assms(2) by (auto simp: parse_request_def new_request_def cq_missionId_def parse_request_payload_def sbind_eq_Inr split: if_splits)
  note c = persist_clarifications[OF pe]
  have t: "clarification_tables s' = (tn_clarifications s @ [r], tn_answers s)"
    using c(1) q(2) by (simp add: clarification_tables_def tick_def bump_def)
  have "mi_state m' = waiting_for_answer" using persist_advances(1)[OF pe] st event_steps(1) by simp
  with c(3) have w: "in_state s' (mi_id m) waiting_for_answer" by (auto simp: in_state_def)
  have o: "mission_get s' j = mission_get s j" if "j \<noteq> mi_id m" for j
    using c(2)[OF that] q(2) by (simp add: mission_get_def tick_def bump_def)
  show "clarification_effect s s'"
    by (rule effect_asked[OF r(1) t _ _ _ w o]) (use q in \<open>simp_all add: request_row_def r(1) tick_def bump_def\<close>)
  show "\<exists>r m'. x = ClarificationCreated r m' \<and> cq_idempotencyKey r = key \<and> cq_payloadHash r = h \<and>
    qp_organizationId (cq_payload r) = qp_organizationId p \<and> cq_missionId r = mi_id m \<and> r \<in> set (tn_clarifications s')"
    using x r t by (simp add: clarification_tables_def)
qed

lemma resolve_effect:
  assumes "resolve_request env digest r m v key p h s = Inr (x, s')" "wp_requestId p = cq_id r" "wp_missionId p = mi_id m"
  shows "clarification_effect s s'"
    "\<exists>q a m'. x = ClarificationWasAnswered q a m' \<and> cw_payload a = p \<and> cw_idempotencyKey a = key \<and> cw_payloadHash a = h \<and>
       tn_answers s' = tn_answers s @ [a] \<and> clarification_answer_ok (en_answerHash env) a \<and>
       (\<forall>y\<in>set (tn_answers s). wp_requestId (cw_payload y) \<noteq> cq_id r) \<and> mi_state m' = mstate MRunning PhPlan"
proof -
  let ?t = "read_clock env s" and ?s1 = "tick s"
  let ?a = "new_answer (fresh_id env IdClarificationAnswer ?s1) p key h ?t"
  from assms(1) obtain q s2 m' s3 where st: "mi_state m = waiting_for_answer"
    and ins: "insertAnswer env digest Unfenced ?a q (bump ?s1) = Inr s2"
    and pe: "persistMissionTransition env Unfenced m v ClarificationAnswered s2 = Inr (m', s3)"
    and re: "enqueueMissionResume env Unfenced m' s3 = Inr s'" and x: "x = ClarificationWasAnswered q ?a m'"
    by (auto simp: resolve_request_def sbind_eq_Inr Let_def split: if_splits prod.splits)
  from ins obtain row where w: "request_row (bump ?s1) (wp_requestId (cw_payload ?a)) = Some row" "answer_insert_ok (bump ?s1) row ?a"
    "\<forall>y\<in>set (tn_answers (bump ?s1)). wp_requestId (cw_payload y) \<noteq> wp_requestId (cw_payload ?a)"
    "s2 = (bump ?s1)\<lparr> tn_answers := tn_answers (bump ?s1) @ [?a],
        tn_clarifications := upsert cq_id (resolved_at (cw_answeredAt ?a) row) (tn_clarifications (bump ?s1)) \<rparr>"
    and aok: "clarification_answer_ok (en_answerHash env) ?a"
    by (rule insertAnswer_Inr)
  have p: "cw_payload ?a = p" "cw_answeredAt ?a = ?t" "cw_idempotencyKey ?a = key" "cw_payloadHash ?a = h"
    by (simp_all add: new_answer_def)
  have row: "request_row s (cq_id row) = Some row" "cq_id row = cq_id r"
    using w(1)[unfolded p(1) assms(2)] lookup_by_SomeD[OF w(1)[unfolded p(1) assms(2) request_row_def]]
    by (simp_all add: request_row_def tick_def bump_def)
  have ok: "cq_missionId row = mi_id m" "cq_status row = ClarificationPending" "offers row (wp_choiceId p)"
    "in_state s (mi_id m) waiting_for_answer"
    using w(2) assms(3) by (auto simp: answer_insert_ok_def Let_def p in_state_def split: option.splits)
  note c = persist_clarifications[OF pe] and e = resume_clarifications[OF re]
  have t: "clarification_tables s' = (upsert cq_id (resolved_at (cw_answeredAt ?a) row) (tn_clarifications s), tn_answers s @ [?a])"
    using c(1) e(1) w(4) by (simp add: clarification_tables_def tick_def bump_def)
  have m': "mi_state m' = mstate MRunning PhPlan" using persist_advances(1)[OF pe] st event_steps(2) by simp
  with c(3) e(2) have ru: "in_state s' (mi_id m) (mstate MRunning PhPlan)" by (auto simp: in_state_def)
  have o: "mission_get s' j = mission_get s j" if "j \<noteq> mi_id m" for j
    using c(2)[OF that] e(2) w(4) by (simp add: mission_get_def tick_def bump_def)
  have n: "\<forall>y\<in>set (tn_answers s). wp_requestId (cw_payload y) \<noteq> cq_id r"
    using w(3)[unfolded p(1) assms(2)] by (simp add: tick_def bump_def)
  show "clarification_effect s s'"
    by (rule effect_answered[OF ok(1) row(1) ok(2) _ _ _ _ t ok(4) ru o]) (use n assms ok(3) row(2) p in simp_all)
  show "\<exists>q a m'. x = ClarificationWasAnswered q a m' \<and> cw_payload a = p \<and> cw_idempotencyKey a = key \<and> cw_payloadHash a = h \<and>
       tn_answers s' = tn_answers s @ [a] \<and> clarification_answer_ok (en_answerHash env) a \<and>
       (\<forall>y\<in>set (tn_answers s). wp_requestId (cw_payload y) \<noteq> cq_id r) \<and> mi_state m' = mstate MRunning PhPlan"
    using x p t n aok m' by (simp add: clarification_tables_def)
qed

lemma parsed_payload_mission: "parse_request_payload p = Inr q \<Longrightarrow> qp_missionId q = qp_missionId p"
  by (auto simp: parse_request_payload_def sbind_eq_Inr split: if_splits)

lemma effect_cong:
  assumes "clarification_effect t s'" "clarification_tables t = clarification_tables s" "\<And>i. mission_get t i = mission_get s i"
  shows "clarification_effect s s'"
  using assms(1)
proof cases
  case effect_none then show ?thesis using assms(2,3) by (intro clarification_effect.effect_none) simp_all
next
  case (effect_asked r j) then show ?thesis using assms(2,3)
    by (intro clarification_effect.effect_asked[of r j]) (simp_all add: clarification_tables_def request_row_def)
next
  case (effect_answered r j a) then show ?thesis using assms(2,3)
    by (intro clarification_effect.effect_answered[of r j]) (simp_all add: clarification_tables_def request_row_def in_state_def)
qed

lemma request_service_effect:
  assumes "clarification_request_service env c i v key question choices refs s = Inr (x, s')"
  shows "clarification_effect s s'"
proof -
  from assms obtain p h where p: "qp_missionId p = i"
    and f: "runFenced env (xc_fence c) (request_work env (pr_organizationId (xc_principal c)) i v key p h) s = Inr (x, s')"
    by (auto simp: clarification_request_service_def Let_def sbind_eq_Inr dest: parsed_payload_mission split: if_splits)
  from f obtain sc where "request_work env (pr_organizationId (xc_principal c)) i v key p h sc (db_tick 1 s) = Inr (x, s')"
    by (auto simp: runFenced_eq_Inr)
  then obtain m where m: "mission_get s i = Some m"
    and "s' = db_tick 1 s \<or> ask env sc m v key p h (db_tick 1 s) = Inr (x, s')"
    by (auto simp: request_work_def sbind_eq_Inr split: if_splits option.splits)
  then show ?thesis
  proof (elim disjE)
    assume "s' = db_tick 1 s"
    then show ?thesis by (intro effect_none) (simp_all add: moves_elsewhere_refl)
  next
    assume a: "ask env sc m v key p h (db_tick 1 s) = Inr (x, s')"
    have "clarification_effect (db_tick 1 s) s'" by (rule ask_effect(1)[OF a]) (simp add: p mission_get_id[OF m])
    then show ?thesis by (rule effect_cong) simp_all
  qed
qed

lemma answer_service_cases:
  assumes "clarification_answer_service env digest ctx req i v key ch refs s = Inr (x, s')"
  obtains (replayed) r a m where "x = AnswerWasReplayed r a m" "s' = tick (tick s)" "getAnswerForRequest env s i = Inr (Some a)"
      "cw_idempotencyKey a = key"
    | (answered) r m p h where "cq_id r = i" "wp_requestId p = i" "wp_missionId p = mi_id m" "wp_choiceId p = ch"
      "wp_answeredBy p = pr_actorId (sc_principal ctx)" "offers r ch" "mission_get s (mi_id m) = Some m"
      "getAnswerForRequest env s i = Inr None" "getRequest env s i = Inr (Some r)"
      "resolve_request env digest r m v key p h (tick (tick s)) = Inr (x, s')"
proof -
  have cong: "getAnswerForRequest env (tick (tick s)) = getAnswerForRequest env s" "getRequest env (tick (tick s)) = getRequest env s"
    by (simp_all add: getAnswerForRequest_def getRequest_def request_row_def fun_eq_iff tick_def)
  from assms obtain s1 where g: "assertSensitiveMutation env ctx req s = Inr s1"
    and w: "answer_work env digest (sc_principal ctx) i v key ch refs s1 = Inr (x, s')"
    by (auto simp: clarification_answer_service_def Let_def sbind_eq_Inr split: if_splits)
  note w = w[unfolded assertSensitiveMutation_Inr(1)[OF g]]
  let ?p = "\<lambda>r m. \<lparr> wp_organizationId = pr_organizationId (sc_principal ctx), wp_missionId = mi_id m, wp_requestId = cq_id r,
     wp_choiceId = ch, wp_answeredBy = pr_actorId (sc_principal ctx), wp_evidenceRefs = refs \<rparr>"
  from w obtain r m h where r: "getRequest env s i = Inr (Some r)" and m: "mission_get s (cq_missionId r) = Some m"
    and o: "offers r ch" and c: "answer_or_replay env digest r m v key (?p r m) h (tick (tick s)) = Inr (x, s')"
    by (auto simp: answer_work_def Let_def sbind_eq_Inr cong split: if_splits)
  have i: "cq_id r = i"
    using r by (auto simp: getRequest_def mapped_Inr request_row_def split: if_splits option.splits
      dest!: parse_request_keeps dest: lookup_by_SomeD)
  from c obtain ex where e: "getAnswerForRequest env s i = Inr ex" by (auto simp: answer_or_replay_def sbind_eq_Inr cong i)
  show thesis
  proof (cases ex)
    case (Some a)
    with c e i show thesis by (intro replayed[of r a m]) (auto simp: answer_or_replay_def cong split: if_splits)
  next
    case None
    with c e i have "resolve_request env digest r m v key (?p r m) h (tick (tick s)) = Inr (x, s')"
      by (auto simp: answer_or_replay_def cong sbind_eq_Inr split: if_splits)
    then show thesis using None e i o m mission_get_id[OF m] r by (intro answered[where r = r and m = m and p = "?p r m" and h = h]) auto
  qed
qed

lemma answer_service_effect:
  assumes "clarification_answer_service env digest ctx req i v key ch refs s = Inr (x, s')"
  shows "clarification_effect s s'"
  using assms
proof (cases rule: answer_service_cases)
  case replayed
  then show ?thesis by (intro effect_none) (simp_all add: moves_elsewhere_refl)
next
  case (answered r m p h)
  then have "clarification_effect (tick (tick s)) s'" by (intro resolve_effect(1)[of env digest r m v key p h _ x]) simp_all
  then show ?thesis by (rule effect_cong) simp_all
qed

section \<open>Runs\<close>

inductive clarification_step ::
  "env \<Rightarrow> (clarification_request \<Rightarrow> string) \<Rightarrow> tenant \<Rightarrow> tenant \<Rightarrow> bool" for env digest s s' where
  step_request: "clarification_request_service env c i v key question choices refs s = Inr (x, s') \<Longrightarrow>
    clarification_step env digest s s'"
| step_answer: "clarification_answer_service env digest ctx req k v key ch refs s = Inr (y, s') \<Longrightarrow>
    clarification_step env digest s s'"
| step_elsewhere: "clarification_tables s' = clarification_tables s \<Longrightarrow>
    (\<And>j. moves_elsewhere (mission_get s j) (mission_get s' j)) \<Longrightarrow> clarification_step env digest s s'"

lemma clarification_step_effect: "clarification_step env digest s s' \<Longrightarrow> clarification_effect s s'"
  by (induction rule: clarification_step.induct)
    (blast intro: request_service_effect answer_service_effect effect_none)+

definition pending_count :: "tenant \<Rightarrow> string \<Rightarrow> nat" where
  "pending_count s i = length (filter (is_pending i) (tn_clarifications s))"

definition mission_asks_ok :: "tenant \<Rightarrow> string \<Rightarrow> bool" where
  "mission_asks_ok s i = (case mission_get s i of None \<Rightarrow> pending_count s i = 0
     | Some m \<Rightarrow> pending_count s i \<le> 1 \<and> (\<not> isTerminalMissionState (mi_state m) \<longrightarrow>
         (mi_state m = waiting_for_answer) = (pending_count s i = 1)))"

definition clarifications_ok :: "tenant \<Rightarrow> bool" where
  "clarifications_ok s = (distinct (List.map cq_id (tn_clarifications s)) \<and> (\<forall>i. mission_asks_ok s i))"

lemma pending_count_none: "\<forall>y\<in>set (tn_clarifications s). \<not> is_pending i y \<Longrightarrow> pending_count s i = 0"
  by (simp add: pending_count_def filter_empty_conv)

lemma filter_upsert_resolved:
  assumes "distinct (List.map cq_id xs)" "lookup_by cq_id (cq_id r) xs = Some r"
  shows "length (filter (is_pending i) (upsert cq_id (resolved_at t r) xs)) + (if is_pending i r then 1 else 0) =
    length (filter (is_pending i) xs)"
  using assms
proof (induction xs)
  case (Cons y ys)
  have n: "\<not> is_pending i (resolved_at t r)" by (simp add: is_pending_def resolved_at_def)
  show ?case
  proof (cases "cq_id y = cq_id r")
    case True
    then show ?thesis using Cons.prems n by (auto simp: resolved_at_def)
  next
    case False
    then show ?thesis using Cons by (auto simp: resolved_at_def)
  qed
qed simp

lemma terminal_not_waiting: "\<not> isTerminalMissionState waiting_for_answer"
  by simp

lemma step_terminal: "mission_step st ev st' \<Longrightarrow> \<not> isTerminalMissionState st' \<Longrightarrow> \<not> isTerminalMissionState st"
  by (auto elim!: mission_step_elim simp: MISSION_TRANSITIONS_def)

lemma step_keeps_waiting:
  assumes "mission_step st ev st'" "ev \<noteq> MaterialAmbiguity" "ev \<noteq> ClarificationAnswered" "\<not> isTerminalMissionState st'"
  shows "(st' = waiting_for_answer) = (st = waiting_for_answer)"
  using assms by (auto elim!: mission_step_elim simp: MISSION_TRANSITIONS_def)

lemma moves_keep_asks:
  assumes "moves_elsewhere (mission_get s i) (mission_get s' i)" "tn_clarifications s' = tn_clarifications s" "mission_asks_ok s i"
  shows "mission_asks_ok s' i"
proof (cases "mission_get s' i")
  case None
  with assms show ?thesis by (auto simp: moves_elsewhere_def mission_asks_ok_def pending_count_def)
next
  case (Some m')
  have p: "pending_count s' i = pending_count s i" using assms(2) by (simp add: pending_count_def)
  show ?thesis
  proof (cases "mission_get s i")
    case None
    with assms(1,3) Some p show ?thesis by (simp add: moves_elsewhere_def mission_asks_ok_def)
  next
    case o: (Some m)
    with assms(1) Some have c: "mi_state m' = mi_state m \<or>
        (\<exists>ev. ev \<noteq> MaterialAmbiguity \<and> ev \<noteq> ClarificationAnswered \<and> mission_step (mi_state m) ev (mi_state m'))"
      by (simp add: moves_elsewhere_def)
    have k: "pending_count s i \<le> 1" "\<not> isTerminalMissionState (mi_state m) \<Longrightarrow> (mi_state m = waiting_for_answer) = (pending_count s i = 1)"
      using assms(3) o by (simp_all add: mission_asks_ok_def)
    have "(mi_state m' = waiting_for_answer) = (pending_count s i = 1)" if "\<not> isTerminalMissionState (mi_state m')"
      using c that k(2) step_keeps_waiting step_terminal by metis
    with k(1) p Some show ?thesis by (simp add: mission_asks_ok_def del: terminal_iff)
  qed
qed

lemma other_missions_keep_asks:
  assumes "mission_get s' i = mission_get s i" "pending_count s' i = pending_count s i" "mission_asks_ok s i"
  shows "mission_asks_ok s' i"
  using assms by (simp add: mission_asks_ok_def split: option.splits)

lemma clarification_effect_ok: "clarification_effect s s' \<Longrightarrow> clarifications_ok s \<Longrightarrow> clarifications_ok s'"
proof (induction rule: clarification_effect.induct)
  case effect_none
  then have "tn_clarifications s' = tn_clarifications s" by (simp add: clarification_tables_def)
  moreover from this have "mission_asks_ok s' j" for j
    using effect_none(2)[of j] effect_none(3) by (intro moves_keep_asks[of s j s']) (simp_all add: clarifications_ok_def)
  ultimately show ?case using effect_none(3) by (simp add: clarifications_ok_def)
next
  case (effect_asked r i)
  have c: "tn_clarifications s' = tn_clarifications s @ [r]" using effect_asked(2) by (simp add: clarification_tables_def)
  have "cq_id r \<notin> cq_id ` set (tn_clarifications s)" using effect_asked(4) by (simp add: request_row_def lookup_by_None)
  moreover have "mission_asks_ok s' j" for j
  proof (cases "j = i")
    case True
    have "pending_count s' i = 1" using pending_count_none[OF effect_asked(5)] effect_asked(1,3) c
      by (simp add: pending_count_def is_pending_def)
    with effect_asked(6) True show ?thesis by (auto simp: mission_asks_ok_def in_state_def)
  next
    case False
    have "pending_count s' j = pending_count s j" using c False effect_asked(1) by (simp add: pending_count_def is_pending_def)
    with effect_asked(7)[OF False] effect_asked(8) show ?thesis
      by (intro other_missions_keep_asks[of s' j s]) (simp_all add: clarifications_ok_def)
  qed
  ultimately show ?case using c effect_asked(8) by (simp add: clarifications_ok_def)
next
  case (effect_answered r i a)
  let ?r = "resolved_at (cw_answeredAt a) r"
  have c: "tn_clarifications s' = upsert cq_id ?r (tn_clarifications s)" using effect_answered(8) by (simp add: clarification_tables_def)
  have d: "distinct (List.map cq_id (tn_clarifications s))" using effect_answered(12) by (simp add: clarifications_ok_def)
  have p: "pending_count s' j + (if is_pending j r then 1 else 0) = pending_count s j" for j
    using filter_upsert_resolved[OF d effect_answered(2)[unfolded request_row_def]] by (simp add: pending_count_def c)
  have ok: "mission_asks_ok s j" for j using effect_answered(12) by (simp add: clarifications_ok_def)
  have "mission_asks_ok s' j" for j
  proof (cases "j = i")
    case True
    have "is_pending i r" using effect_answered(1,3) by (simp add: is_pending_def)
    moreover have "pending_count s i \<le> 1" using ok[of i] by (auto simp: mission_asks_ok_def split: option.splits)
    ultimately have "pending_count s' i = 0" using p[of i] by simp
    with effect_answered(10) True show ?thesis by (auto simp: mission_asks_ok_def in_state_def)
  next
    case False
    then have "pending_count s' j = pending_count s j" using p[of j] effect_answered(1) by (simp add: is_pending_def)
    with effect_answered(11)[OF False] ok show ?thesis by (intro other_missions_keep_asks[of s' j s]) simp_all
  qed
  then show ?case using c d by (simp add: clarifications_ok_def distinct_keys_upsert)
qed

lemma clarification_steps_ok: "(clarification_step env digest)\<^sup>*\<^sup>* s s' \<Longrightarrow> clarifications_ok s \<Longrightarrow> clarifications_ok s'"
  by (induction rule: rtranclp_induct) (blast intro: clarification_effect_ok clarification_step_effect)+

lemma effect_answers: "clarification_effect s s' \<Longrightarrow> \<exists>as. tn_answers s' = tn_answers s @ as"
  by (induction rule: clarification_effect.induct) (auto simp: clarification_tables_def)

lemma steps_answers: "(clarification_step env digest)\<^sup>*\<^sup>* s s' \<Longrightarrow> \<exists>as. tn_answers s' = tn_answers s @ as"
proof (induction rule: rtranclp_induct)
  case (step y z)
  from effect_answers[OF clarification_step_effect[OF step(2)]] step(3) show ?case by fastforce
qed simp

lemma find_append_later: "find P xs = Some x \<Longrightarrow> find P (xs @ ys) = Some x"
  by (induction xs) (auto split: if_splits)

lemma find_append_new: "(\<forall>x\<in>set xs. \<not> P x) \<Longrightarrow> P y \<Longrightarrow> find P (xs @ [y]) = Some y"
  by (induction xs) auto

text \<open>No mission waits for an answer and nothing has been asked.\<close>

definition nothing_asked :: "tenant \<Rightarrow> bool" where
  "nothing_asked s = (tn_clarifications s = [] \<and> list_all (\<lambda>m. mi_state m \<noteq> waiting_for_answer) (tn_missions s))"

lemma nothing_asked_ok: "nothing_asked s \<Longrightarrow> clarifications_ok s"
  by (auto simp: nothing_asked_def clarifications_ok_def mission_asks_ok_def pending_count_def mission_get_def
    list_all_iff split: option.splits dest!: lookup_by_SomeD)

section \<open>Properties\<close>

text \<open>
  C22.  A mission waits for the user in planning exactly while one clarification of it is open:
  in every store the service and the other services lead to, a mission that has not ended has
  one pending request when it waits for an answer and none otherwise.  Other services may move
  missions by any event but the two of this service.
\<close>

theorem missions_wait_for_their_question:
  assumes "(clarification_step env digest)\<^sup>*\<^sup>* s0 s" "nothing_asked s0" "mission_get s i = Some m"
    and "\<not> isTerminalMissionState (mi_state m)"
  shows "length (filter (is_pending i) (tn_clarifications s)) = (if mi_state m = mstate MWaitingForUser PhPlan then 1 else 0)"
proof -
  have "mission_asks_ok s i"
    using clarification_steps_ok[OF assms(1) nothing_asked_ok[OF assms(2)]] by (simp add: clarifications_ok_def)
  then have "pending_count s i \<le> 1" "(mi_state m = waiting_for_answer) = (pending_count s i = 1)"
    using assms(3,4) by (simp_all add: mission_asks_ok_def del: terminal_iff)
  then show ?thesis unfolding pending_count_def[symmetric] by (cases "pending_count s i = 1") auto
qed

text \<open>
  C23.  A clarification is answered once.  After an answer was accepted, whatever the services
  do next, any later call that succeeds for the same request returns that very answer, changes
  no table, and was sent under the idempotency key of the first.
\<close>

theorem clarifications_are_answered_once:
  assumes "clarification_answer_service env digest ctx req i v key ch refs s = Inr (ClarificationWasAnswered q a m, s1)"
    and "(clarification_step env digest)\<^sup>*\<^sup>* s1 s2"
    and "clarification_answer_service env digest ctx' req' i v' key' ch' refs' s2 = Inr (x, s3)"
  shows "\<exists>q' m'. x = AnswerWasReplayed q' a m' \<and> s3 = tick (tick s2) \<and> key' = key"
proof -
  let ?P = "\<lambda>y. wp_requestId (cw_payload y) = i"
  from assms(1) obtain r m0 p h where i: "cq_id r = i" "wp_requestId p = i" "wp_missionId p = mi_id m0"
    and res: "resolve_request env digest r m0 v key p h (tick (tick s)) = Inr (ClarificationWasAnswered q a m, s1)"
    by (rule answer_service_cases) auto
  from resolve_effect(2)[OF res] i have a: "cw_payload a = p" "cw_idempotencyKey a = key" "clarification_answer_ok (en_answerHash env) a"
    "tn_answers s1 = tn_answers (tick (tick s)) @ [a]" "\<forall>y\<in>set (tn_answers (tick (tick s))). \<not> ?P y" by auto
  obtain as where "tn_answers s2 = tn_answers s1 @ as" using steps_answers[OF assms(2)] by blast
  moreover have "find ?P (tn_answers s1) = Some a" unfolding a(4) using a(5) i(2) by (intro find_append_new) (simp_all add: a(1))
  ultimately have f: "find ?P (tn_answers s2) = Some a" by (simp add: find_append_later)
  have g: "getAnswerForRequest env s2 i = Inr y \<Longrightarrow> y = Some a" for y
    using a(3) by (auto simp: getAnswerForRequest_def f mapAnswer_def split: if_splits)
  from assms(3) show ?thesis
  proof (cases rule: answer_service_cases)
    case (replayed r' a' m') with g a(2) show ?thesis by auto
  next
    case answered with g show ?thesis by auto
  qed
qed

section \<open>Two filters of the same text\<close>

text \<open>
  The program filters whole words, the database any part of a word: a question that passes
  the schema may violate the constraint of the table, and the request then ends with a database
  error instead of a validation error.
\<close>

lemma database_filter_is_stricter:
  "boundedPublicText 12 280 ''Is subtoken:a?'' = Inr ''Is subtoken:a?''" "\<not> db_public_text_safe ''Is subtoken:a?''"
  by code_simp+

text \<open>A mission that has ended refuses every answer, so its open request stays open.\<close>

lemma ended_missions_refuse_answers:
  assumes "getRequest env s i = Inr (Some r)" "mission_get s (cq_missionId r) = Some m" "isTerminalMissionState (mi_state m)"
  shows "\<exists>e. clarification_answer_service env digest ctx req i v key ch refs s = Inl e"
proof (cases "clarification_answer_service env digest ctx req i v key ch refs s")
  case (Inr x)
  then obtain s1 where g: "assertSensitiveMutation env ctx req s = Inr s1"
    and w: "answer_work env digest (sc_principal ctx) i v key ch refs s1 = Inr x"
    by (cases x) (auto simp: clarification_answer_service_def Let_def sbind_eq_Inr split: if_splits)
  have "getRequest env (tick (tick s)) i = getRequest env s i" by (simp add: getRequest_def request_row_def tick_def)
  then show ?thesis using w assms unfolding assertSensitiveMutation_Inr(1)[OF g]
    by (auto simp: answer_work_def Let_def sbind_eq_Inr)
qed simp

text \<open>What an accepted answer does.\<close>

lemma answers_resume_planning:
  assumes "clarification_answer_service env digest ctx req i v key ch refs s = Inr (ClarificationWasAnswered q a m', s')"
  shows "(\<exists>r. getRequest env s i = Inr (Some r) \<and> offers r ch) \<and> wp_choiceId (cw_payload a) = ch \<and>
    wp_answeredBy (cw_payload a) = pr_actorId (sc_principal ctx) \<and> mi_state m' = mstate MRunning PhPlan \<and>
    tn_answers s' = tn_answers s @ [a]"
  using assms
proof (cases rule: answer_service_cases)
  case (answered r m p h)
  from resolve_effect(2)[OF answered(10)] answered show ?thesis by (auto simp: tick_def)
qed simp

section \<open>A concrete clarification\<close>

definition ex_choices :: "clarification_choice list" where
  "ex_choices = [\<lparr> cc_id = ''aaa'', cc_label = ''A'', cc_description = ''A'' \<rparr>, \<lparr> cc_id = ''bbb'', cc_label = ''B'', cc_description = ''B'' \<rparr>]"

definition ex_question :: string where
  "ex_question = ''Which? A, B?''"

definition ex_asking_tenant :: tenant where
  "ex_asking_tenant = ex_request_tenant\<lparr> tn_missions := [ex_mission\<lparr> mi_state := mstate MRunning PhPlan \<rparr>],
     tn_leases := [ex_expired_lease\<lparr> le_expiresAt := 50000 \<rparr>] \<rparr>"

definition ex_host_context :: execution_context where
  "ex_host_context = \<lparr> xc_fence = ex_fence ex_owner_a 1, xc_aborted = False,
     xc_principal = (sc_principal ex_session)\<lparr> pr_role := Service \<rparr> \<rparr>"

lemma ex_texts: "boundedPublicText 12 280 ex_question = Inr ex_question" "map_res parse_choice ex_choices = Inr ex_choices"
  by code_simp+

lemma ex_db_texts: "db_public_text_safe ex_question" "list_all db_choice_ok ex_choices"
  by code_simp+

definition ex_payload :: request_payload where
  "ex_payload = \<lparr> qp_organizationId = ''org_aaaaaaaa'', qp_missionId = ''mis_aaaaaaaa'', qp_requestedBy = ''usr_aaaaaaaa'',
     qp_question = ex_question, qp_choices = ex_choices, qp_evidenceRefs = [] \<rparr>"

definition ex_clarification :: clarification_request where
  "ex_clarification = new_request ''clr_xaaaaaaa0'' ex_payload ex_digest ex_digest 1000"

definition ex_open_tenant :: tenant where
  "ex_open_tenant = (tick (bump (db_tick 1 ex_asking_tenant)))\<lparr> tn_clarifications := [ex_clarification] \<rparr>"

lemma ex_payload_parses: "parse_request_payload ex_payload = Inr ex_payload"
proof -
  have "id_ok ''org'' ''org_aaaaaaaa'' \<and> id_ok ''mis'' ''mis_aaaaaaaa'' \<and> id_ok ''usr'' ''usr_aaaaaaaa'' \<and>
    length ex_choices = 2 \<and> unique (List.map cc_id ex_choices) \<and> evidence_refs_ok []" by code_simp
  then show ?thesis by (simp add: parse_request_payload_def ex_payload_def ex_texts)
qed

lemma ex_hash: "computeClarificationRequestPayloadHash (en_requestHash ex_env) ex_payload = Inr ex_digest"
proof -
  have "sha256_ok ex_digest" by code_simp
  then show ?thesis by (simp add: computeClarificationRequestPayloadHash_def ex_payload_parses ex_env_def)
qed

lemma ex_clarification_parses: "parse_request (en_requestHash ex_env) ex_clarification = Inr ex_clarification"
proof -
  have "id_ok ''clr'' ''clr_xaaaaaaa0'' \<and> sha256_ok ex_digest" by code_simp
  then show ?thesis by (simp add: parse_request_def ex_clarification_def new_request_def ex_hash ex_payload_parses)
qed

lemma ex_inserts: "insertRequest ex_env (Fenced ''mis_aaaaaaaa'' 1) ex_clarification (tick (bump (db_tick 1 ex_asking_tenant))) =
    Inr ex_open_tenant"
proof -
  let ?s = "tick (bump (db_tick 1 ex_asking_tenant))"
  have "db_request_payload_ok ex_payload"
  proof -
    have "12 \<le> length ex_question \<and> length ex_question \<le> 280 \<and> length ex_choices = 2 \<and> evidence_refs_ok [] \<and>
      unique (List.map cc_id ex_choices)" by code_simp
    then show ?thesis by (simp add: db_request_payload_ok_def ex_payload_def ex_db_texts)
  qed
  moreover have "is_member ?s ''usr_aaaaaaaa'' \<and> tn_org ?s = ''org_aaaaaaaa'' \<and> tn_clarifications ?s = [] \<and>
    (case mission_get ?s ''mis_aaaaaaaa'' of None \<Rightarrow> False | Some m \<Rightarrow> mi_state m = mstate MRunning PhPlan)" by code_simp
  ultimately show ?thesis
    by (simp add: insertRequest_def ex_clarification_parses request_insert_ok_def request_row_def db_assertEvidenceBindings_def
      guard_that_def ex_open_tenant_def) (simp add: ex_clarification_def new_request_def ex_payload_def cq_missionId_def)
qed

lemma ex_moves: "case persistMissionTransition ex_env (Fenced ''mis_aaaaaaaa'' 1)
    (ex_mission\<lparr> mi_state := mstate MRunning PhPlan \<rparr>) 0 MaterialAmbiguity ex_open_tenant of
    Inl e \<Rightarrow> False | Inr (m, s) \<Rightarrow> (case mission_get s ''mis_aaaaaaaa'' of None \<Rightarrow> False | Some x \<Rightarrow> mi_state x = waiting_for_answer)"
  by code_simp

lemma ex_asks: "\<exists>m s. clarification_request_service ex_env ex_host_context ''mis_aaaaaaaa'' 0 ex_digest ex_question ex_choices []
    ex_asking_tenant = Inr (ClarificationCreated ex_clarification m, s) \<and>
    (\<exists>x. mission_get s ''mis_aaaaaaaa'' = Some x \<and> mi_state x = waiting_for_answer)"
proof -
  let ?s = "db_tick 1 ex_asking_tenant" and ?m = "ex_mission\<lparr> mi_state := mstate MRunning PhPlan \<rparr>"
  obtain m s where p: "persistMissionTransition ex_env (Fenced ''mis_aaaaaaaa'' 1) ?m 0 MaterialAmbiguity ex_open_tenant = Inr (m, s)"
    and w: "\<exists>x. mission_get s ''mis_aaaaaaaa'' = Some x \<and> mi_state x = waiting_for_answer"
    using ex_moves by (auto split: sum.splits option.splits)
  have e: "mi_version ?m = 0 \<and> mi_id ?m = ''mis_aaaaaaaa'' \<and> mi_state ?m = mstate MRunning PhPlan \<and> mission_get ?s ''mis_aaaaaaaa'' = Some ?m \<and>
    tn_clarifications ?s = [] \<and> fresh_id ex_env IdClarificationRequest ?s = ''clr_xaaaaaaa0'' \<and> read_clock ex_env (bump ?s) = 1000 \<and>
    id_ok ''mis'' ''mis_aaaaaaaa'' \<and> sha256_ok ex_digest \<and> mi_organizationId ?m = ''org_aaaaaaaa''" by code_simp
  then have "ask ex_env (Fenced ''mis_aaaaaaaa'' 1) ?m 0 ex_digest ex_payload ex_digest ?s = Inr (ClarificationCreated ex_clarification m, s)"
    using p ex_inserts ex_clarification_parses
    by (simp add: ask_def findPendingForMission_def assertEvidenceBindings_def guard_that_def flip: ex_clarification_def)
      (simp add: ex_payload_def)
  then have r: "request_work ex_env ''org_aaaaaaaa'' ''mis_aaaaaaaa'' 0 ex_digest ex_payload ex_digest (Fenced ''mis_aaaaaaaa'' 1) ?s =
    Inr (ClarificationCreated ex_clarification m, s)"
    using e by (simp add: request_work_def requireMission_def findRequestByIdempotencyKey_def assertSameTenant_def)
  have f: "validateFence ex_env (ex_fence ex_owner_a 1) = Inr (ex_fence ex_owner_a 1)" by code_simp
  have g: "fence_accepted ex_env (ex_fence ex_owner_a 1) ex_asking_tenant \<and> tn_org ex_asking_tenant = ''org_aaaaaaaa'' \<and>
    assertMissionExecutionContext ex_host_context ''org_aaaaaaaa'' ''mis_aaaaaaaa'' = Inr ()" by code_simp
  have h: "xc_fence ex_host_context = ex_fence ex_owner_a 1" "pr_organizationId (xc_principal ex_host_context) = ''org_aaaaaaaa''"
    "pr_actorId (xc_principal ex_host_context) = ''usr_aaaaaaaa''" by (simp_all add: ex_host_context_def ex_session_def)
  have "runFenced ex_env (ex_fence ex_owner_a 1) (request_work ex_env ''org_aaaaaaaa'' ''mis_aaaaaaaa'' 0 ex_digest ex_payload ex_digest)
    ex_asking_tenant = Inr (ClarificationCreated ex_clarification m, s)"
    using r f g by (simp add: runFenced_eq_Inr) (simp add: ex_fence_def)
  then have "clarification_request_service ex_env ex_host_context ''mis_aaaaaaaa'' 0 ex_digest ex_question ex_choices []
    ex_asking_tenant = Inr (ClarificationCreated ex_clarification m, s)"
    using e g ex_hash ex_payload_parses
    by (simp add: clarification_request_service_def assertMissionExecutionContext_def h ex_texts ex_payload_def)
  with w show ?thesis by blast
qed

theorem missions_wait_for_their_question_witness:
  "\<exists>s. (clarification_step ex_env (\<lambda>_. ex_digest))\<^sup>*\<^sup>* ex_asking_tenant s \<and>
     length (filter (is_pending ''mis_aaaaaaaa'') (tn_clarifications s)) = 1"
proof -
  obtain m s x where a: "clarification_request_service ex_env ex_host_context ''mis_aaaaaaaa'' 0 ex_digest ex_question ex_choices []
    ex_asking_tenant = Inr (ClarificationCreated ex_clarification m, s)"
    and x: "mission_get s ''mis_aaaaaaaa'' = Some x" "mi_state x = waiting_for_answer" using ex_asks by blast
  from step_request[OF a] have s: "(clarification_step ex_env (\<lambda>_. ex_digest))\<^sup>*\<^sup>* ex_asking_tenant s" by (rule r_into_rtranclp)
  have "nothing_asked ex_asking_tenant" by code_simp
  from missions_wait_for_their_question[OF s this x(1)] x(2) s show ?thesis by auto
qed

definition ex_waiting_tenant :: tenant where
  "ex_waiting_tenant = ex_asking_tenant\<lparr> tn_missions := [ex_mission\<lparr> mi_state := waiting_for_answer, mi_version := 1 \<rparr>],
     tn_clarifications := [ex_clarification] \<rparr>"

definition ex_answer :: clarification_answer where
  "ex_answer = new_answer ''cla_xaaaaaaa0'' \<lparr> wp_organizationId = ''org_aaaaaaaa'', wp_missionId = ''mis_aaaaaaaa'',
     wp_requestId = ''clr_xaaaaaaa0'', wp_choiceId = ''aaa'', wp_answeredBy = ''usr_aaaaaaaa'', wp_evidenceRefs = [] \<rparr>
     ex_digest ex_digest 1002"

definition ex_resolved :: clarification_request where
  "ex_resolved = resolved_at 1002 ex_clarification"

definition ex_resolved_tenant :: tenant where
  "ex_resolved_tenant = (bump (tick (tick (tick ex_waiting_tenant))))\<lparr> tn_answers := [ex_answer], tn_clarifications := [ex_resolved] \<rparr>"

definition ex_reply :: "tenant \<Rightarrow> err + (answer_result \<times> tenant)" where
  "ex_reply = clarification_answer_service ex_env (\<lambda>_. ex_digest) ex_session ex_mutation ''clr_xaaaaaaa0'' 1 ex_digest ''aaa'' []"

lemma ex_resolved_parses: "parse_request (en_requestHash ex_env) ex_resolved = Inr ex_resolved"
proof -
  have "id_ok ''clr'' ''clr_xaaaaaaa0'' \<and> sha256_ok ex_digest" by code_simp
  then show ?thesis
    by (simp add: parse_request_def ex_resolved_def resolved_at_def ex_clarification_def new_request_def ex_hash ex_payload_parses)
qed

lemma ex_answer_maps: "mapAnswer ex_env ex_answer = Inr ex_answer"
proof -
  have "clarification_answer_ok (en_answerHash ex_env) ex_answer" by code_simp
  then show ?thesis by (simp add: mapAnswer_def)
qed

lemma ex_clarification_sel: "cq_id ex_clarification = ''clr_xaaaaaaa0''" "cq_missionId ex_clarification = ''mis_aaaaaaaa''"
  "cq_status ex_clarification = ClarificationPending" "cq_resolvedAt ex_clarification = None" "offers ex_clarification ''aaa''"
  "qp_organizationId (cq_payload ex_clarification) = ''org_aaaaaaaa''" "cq_id ex_resolved = ''clr_xaaaaaaa0''"
  "cq_missionId ex_resolved = ''mis_aaaaaaaa''" "offers ex_resolved ''aaa''" "qp_organizationId (cq_payload ex_resolved) = ''org_aaaaaaaa''"
  "cq_requestedAt ex_clarification = 1000" "qp_choices (cq_payload ex_clarification) = ex_choices"
  by (simp_all add: ex_resolved_def resolved_at_def ex_clarification_def new_request_def ex_payload_def cq_missionId_def offers_def
    ex_choices_def)

lemma ex_answer_sel: "cw_payload ex_answer = \<lparr> wp_organizationId = ''org_aaaaaaaa'', wp_missionId = ''mis_aaaaaaaa'',
     wp_requestId = ''clr_xaaaaaaa0'', wp_choiceId = ''aaa'', wp_answeredBy = ''usr_aaaaaaaa'', wp_evidenceRefs = [] \<rparr>"
  "cw_answeredAt ex_answer = 1002" "cw_idempotencyKey ex_answer = ex_digest" "cw_payloadHash ex_answer = ex_digest"
  by (simp_all add: ex_answer_def new_answer_def)

lemma ex_answer_inserts: "insertAnswer ex_env (\<lambda>_. ex_digest) Unfenced ex_answer ex_resolved (bump (tick (tick (tick ex_waiting_tenant)))) =
    Inr ex_resolved_tenant"
proof -
  let ?s = "bump (tick (tick (tick ex_waiting_tenant)))"
  have e: "tn_org ?s = ''org_aaaaaaaa'' \<and> tn_answers ?s = [] \<and>
    (case mission_get ?s ''mis_aaaaaaaa'' of None \<Rightarrow> False | Some m \<Rightarrow> mi_state m = waiting_for_answer) \<and>
    (case find (\<lambda>x. mb_userId x = ''usr_aaaaaaaa'' \<and> is_none (mb_revokedAt x)) (tn_memberships ?s) of
        None \<Rightarrow> False | Some x \<Rightarrow> List.member [Owner, Operator] (mb_role x))" by code_simp
  have c: "tn_clarifications ?s = [ex_clarification]" by (simp add: ex_waiting_tenant_def tick_def bump_def)
  show ?thesis using e
    by (simp add: insertAnswer_def ex_answer_maps ex_resolved_parses ex_clarification_parses ex_answer_sel ex_clarification_sel
      request_row_def c insert_answer_row_def answer_insert_ok_def db_assertEvidenceBindings_def guard_that_def
      flip: ex_resolved_def) (simp add: ex_resolved_tenant_def c ex_resolved_def)
qed

definition succeeds_with :: "('a \<Rightarrow> bool) \<Rightarrow> err + 'a \<Rightarrow> bool" where
  "succeeds_with P x = (case x of Inl _ \<Rightarrow> False | Inr y \<Rightarrow> P y)"

lemma succeeds_withD: "succeeds_with P x \<Longrightarrow> \<exists>y. x = Inr y \<and> P y"
  by (cases x) (simp_all add: succeeds_with_def)

definition ex_resumed_ok :: "tenant \<Rightarrow> bool" where
  "ex_resumed_ok t = ((case mission_get t ''mis_aaaaaaaa'' of None \<Rightarrow> False
     | Some x \<Rightarrow> mi_id x = ''mis_aaaaaaaa'' \<and> mi_organizationId x = ''org_aaaaaaaa'' \<and> mi_state x = mstate MRunning PhPlan) \<and>
     tn_org t = ''org_aaaaaaaa'' \<and> succeeds_with (\<lambda>_. True) (assertSensitiveMutation ex_env ex_session ex_mutation t))"

lemma ex_resumes: "succeeds_with (\<lambda>(m, s). succeeds_with ex_resumed_ok (enqueueMissionResume ex_env Unfenced m s))
    (persistMissionTransition ex_env Unfenced (ex_mission\<lparr> mi_state := waiting_for_answer, mi_version := 1 \<rparr>) 1
      ClarificationAnswered ex_resolved_tenant)"
  by code_simp

lemma ex_replies: "\<exists>m s x. ex_reply ex_waiting_tenant = Inr (ClarificationWasAnswered ex_resolved ex_answer m, s) \<and>
    ex_reply s = Inr (AnswerWasReplayed ex_resolved ex_answer x, tick (tick s))"
proof -
  let ?m = "ex_mission\<lparr> mi_state := waiting_for_answer, mi_version := 1 \<rparr>" and ?s = "tick (tick ex_waiting_tenant)"
  obtain m s where p: "persistMissionTransition ex_env Unfenced ?m 1 ClarificationAnswered ex_resolved_tenant = Inr (m, s)"
    and r: "succeeds_with ex_resumed_ok (enqueueMissionResume ex_env Unfenced m s)" using succeeds_withD[OF ex_resumes] by auto
  obtain t where q: "enqueueMissionResume ex_env Unfenced m s = Inr t" and t: "ex_resumed_ok t" using succeeds_withD[OF r] by blast
  obtain x where x: "mission_get t ''mis_aaaaaaaa'' = Some x" "mi_id x = ''mis_aaaaaaaa''"
      "mi_organizationId x = ''org_aaaaaaaa''" "mi_state x = mstate MRunning PhPlan" and o: "tn_org t = ''org_aaaaaaaa''"
    using t by (auto simp: ex_resumed_ok_def split: option.splits)
  have g: "\<exists>u. assertSensitiveMutation ex_env ex_session ex_mutation t = Inr u"
    using t by (auto simp: ex_resumed_ok_def dest: succeeds_withD)
  have tb: "clarification_tables t = ([ex_resolved], [ex_answer])"
    using persist_clarifications(1)[OF p] resume_clarifications(1)[OF q] by (simp add: clarification_tables_def ex_resolved_tenant_def)
  have e: "mission_get ?s ''mis_aaaaaaaa'' = Some ?m \<and> mi_id ?m = ''mis_aaaaaaaa'' \<and> mi_organizationId ?m = ''org_aaaaaaaa'' \<and>
    fresh_id ex_env IdClarificationAnswer (tick ?s) = ''cla_xaaaaaaa0'' \<and> read_clock ex_env ?s = 1002 \<and> tn_answers ?s = [] \<and>
    assertSensitiveMutation ex_env ex_session ex_mutation ex_waiting_tenant = Inr ?s \<and> tn_org ?s = ''org_aaaaaaaa''" by code_simp
  have c2: "tn_clarifications (tick (tick t)) = [ex_resolved]" "tn_answers (tick (tick t)) = [ex_answer]" "tn_org (tick (tick t)) = ''org_aaaaaaaa''"
    using tb o by (simp_all add: clarification_tables_def tick_def)
  have w: "id_ok ''clr'' ''clr_xaaaaaaa0'' \<and> sha256_ok ex_digest \<and>
    computeClarificationAnswerPayloadHash (en_answerHash ex_env) (cw_payload ex_answer) = Inr ex_digest" by code_simp
  have c: "tn_clarifications ?s = [ex_clarification]" by (simp add: ex_waiting_tenant_def tick_def)
  have h: "pr_organizationId (sc_principal ex_session) = ''org_aaaaaaaa''" "pr_actorId (sc_principal ex_session) = ''usr_aaaaaaaa''"
    "pr_role (sc_principal ex_session) = Owner" by (simp_all add: ex_session_def)
  have res: "resolve_request ex_env (\<lambda>_. ex_digest) ex_clarification ?m 1 ex_digest (cw_payload ex_answer) ex_digest ?s =
    Inr (ClarificationWasAnswered ex_resolved ex_answer m, t)"
    using e p q ex_answer_inserts ex_answer_maps ex_resolved_parses
    by (simp add: resolve_request_def Let_def ex_clarification_sel assertEvidenceBindings_def guard_that_def ex_answer_sel
      flip: ex_resolved_def) (simp add: ex_answer_def flip: ex_resolved_def)
  have "answer_work ex_env (\<lambda>_. ex_digest) (sc_principal ex_session) ''clr_xaaaaaaa0'' 1 ex_digest ''aaa'' [] ?s =
    Inr (ClarificationWasAnswered ex_resolved ex_answer m, t)"
    using res e w
    by (simp add: answer_work_def answer_or_replay_def getRequest_def request_row_def c ex_clarification_sel ex_clarification_parses
      requireMission_def h assertSameTenant_def getAnswerForRequest_def findAnswerByIdempotencyKey_def ex_answer_sel)
  then have "ex_reply ex_waiting_tenant = Inr (ClarificationWasAnswered ex_resolved ex_answer m, t)"
    using e w by (simp add: ex_reply_def clarification_answer_service_def h assertTenant_def guard_that_def)
  moreover from g obtain u where u: "assertSensitiveMutation ex_env ex_session ex_mutation t = Inr u" by blast
  have "answer_work ex_env (\<lambda>_. ex_digest) (sc_principal ex_session) ''clr_xaaaaaaa0'' 1 ex_digest ''aaa'' [] (tick (tick t)) =
    Inr (AnswerWasReplayed ex_resolved ex_answer x, tick (tick t))"
    using x w c2
    by (simp add: answer_work_def answer_or_replay_def getRequest_def request_row_def ex_clarification_sel
      ex_resolved_parses requireMission_def h assertSameTenant_def getAnswerForRequest_def ex_answer_sel ex_answer_maps)
  then have "ex_reply t = Inr (AnswerWasReplayed ex_resolved ex_answer x, tick (tick t))"
    using u assertSensitiveMutation_Inr(1)[OF u] w c2(3)
    by (simp add: ex_reply_def clarification_answer_service_def h assertTenant_def guard_that_def)
  ultimately show ?thesis by blast
qed

theorem clarifications_are_answered_once_witness:
  "\<exists>m s x t. ex_reply ex_waiting_tenant = Inr (ClarificationWasAnswered ex_resolved ex_answer m, s) \<and> ex_reply s = Inr (x, t) \<and>
     (\<exists>q' m'. x = AnswerWasReplayed q' ex_answer m')"
proof -
  obtain m s x where a: "ex_reply ex_waiting_tenant = Inr (ClarificationWasAnswered ex_resolved ex_answer m, s)"
    and b: "ex_reply s = Inr (AnswerWasReplayed ex_resolved ex_answer x, tick (tick s))" using ex_replies by blast
  from clarifications_are_answered_once[OF a[unfolded ex_reply_def] rtranclp.rtrancl_refl b[unfolded ex_reply_def]] a b
  show ?thesis by blast
qed

end
