(* ===== verification/Human_Tasks.thy ===== *)
theory Human_Tasks
  imports Clarification_Service
begin

text \<open>
  The inbox of human decisions (\<open>application/src/human-task-service.ts\<close>): the pending
  clarification and the pending approval of a mission, an approval with its plan, and a
  clarification with its answer.
\<close>

definition assertHuman :: "principal \<Rightarrow> err + unit" where
  "assertHuman p = (if List.member [Owner, Operator] (pr_role p) then Inr ()
     else Inl (ConflictError ''Only an authenticated human owner or operator may view this task''))"

text \<open>A reader checks the role and the permission before it opens the tenant of the principal.\<close>

definition as_reader :: "principal \<Rightarrow> permission \<Rightarrow> tenant \<Rightarrow> err + unit" where
  "as_reader p perm s = sbind (assertHuman p) (\<lambda>_. sbind (assertPermission p perm) (\<lambda>_. assertTenant s (pr_organizationId p)))"

section \<open>The inbox of a mission\<close>

definition pending_approval_of :: "tenant \<Rightarrow> plan option \<Rightarrow> approval option" where
  "pending_approval_of s p = (case p of None \<Rightarrow> None
     | Some x \<Rightarrow> (case findForPlan s (pl_id x) of None \<Rightarrow> None
         | Some a \<Rightarrow> if ap_status a = ApprovalPending then Some a else None))"

definition check_inbox ::
  "string \<Rightarrow> mission \<Rightarrow> clarification_request option \<Rightarrow> plan option \<Rightarrow> approval option \<Rightarrow> err + unit" where
  "check_inbox org m c p a =
     sbind (case c of None \<Rightarrow> Inr ()
       | Some r \<Rightarrow> sbind (assertSameTenant org [qp_organizationId (cq_payload r)]) (\<lambda>_.
           guard_that (cq_missionId r = mi_id m) (ConflictError ''Clarification task has inconsistent mission bindings''))) (\<lambda>_.
     sbind (case p of None \<Rightarrow> Inr ()
       | Some x \<Rightarrow> sbind (assertSameTenant org [pl_organizationId x]) (\<lambda>_.
           guard_that (pl_missionId x = mi_id m) (ConflictError ''Plan has inconsistent mission bindings''))) (\<lambda>_.
     sbind (case a of None \<Rightarrow> Inr ()
       | Some y \<Rightarrow> sbind (assertSameTenant org [ap_organizationId y]) (\<lambda>_.
           guard_that (map_option pl_id p = Some (ap_planId y) \<and> ap_missionId y = mi_id m)
             (ConflictError ''Approval task has inconsistent mission bindings''))) (\<lambda>_.
     guard_that (is_none c \<or> is_none a) (ConflictError ''Mission cannot expose two pending human decisions''))))"

definition getMissionTasks ::
  "env \<Rightarrow> principal \<Rightarrow> string \<Rightarrow> tenant \<Rightarrow> err + (mission \<times> clarification_request option \<times> approval option)" where
  "getMissionTasks env pr missionId s =
     sbind (as_reader pr RoutineDraft s) (\<lambda>_.
     sbind (requireMission s missionId) (\<lambda>m.
     sbind (assertSameTenant (pr_organizationId pr) [mi_organizationId m]) (\<lambda>_.
     sbind (findPendingForMission env s (mi_id m)) (\<lambda>c.
     let p = getLatestForMission s (mi_id m); a = pending_approval_of s p in
     sbind (check_inbox (pr_organizationId pr) m c p a) (\<lambda>_. Inr (m, c, a))))))"

section \<open>One task\<close>

definition getApproval :: "principal \<Rightarrow> string \<Rightarrow> tenant \<Rightarrow> err + (approval \<times> plan \<times> mission)" where
  "getApproval pr approvalId s =
     sbind (as_reader pr RoutineApprove s) (\<lambda>_.
     sbind (required (approval_get s approvalId) (NotFoundError ''Approval'')) (\<lambda>a.
     case (plan_get s (ap_planId a), mission_get s (ap_missionId a)) of
       (Some p, Some m) \<Rightarrow>
         sbind (assertSameTenant (pr_organizationId pr) [ap_organizationId a, pl_organizationId p, mi_organizationId m]) (\<lambda>_.
         if pl_missionId p \<noteq> mi_id m \<or> ap_missionId a \<noteq> mi_id m
           then Inl (ConflictError ''Approval task has inconsistent mission bindings'')
         else Inr (a, p, m))
     | _ \<Rightarrow> Inl (NotFoundError ''Approval task'')))"

definition getClarification ::
  "env \<Rightarrow> principal \<Rightarrow> string \<Rightarrow> tenant \<Rightarrow> err + (clarification_request \<times> clarification_answer option \<times> mission)" where
  "getClarification env pr requestId s =
     sbind (as_reader pr RoutineDraft s) (\<lambda>_.
     sbind (getRequest env s requestId) (\<lambda>found.
     sbind (required found (NotFoundError ''Clarification request'')) (\<lambda>r.
     sbind (required (mission_get s (cq_missionId r)) (NotFoundError ''Clarification mission'')) (\<lambda>m.
     sbind (assertSameTenant (pr_organizationId pr) [qp_organizationId (cq_payload r), mi_organizationId m]) (\<lambda>_.
     sbind (getAnswerForRequest env s (cq_id r)) (\<lambda>a.
     if (case a of None \<Rightarrow> False | Some x \<Rightarrow> wp_organizationId (cw_payload x) \<noteq> pr_organizationId pr \<or>
           wp_missionId (cw_payload x) \<noteq> mi_id m \<or> wp_requestId (cw_payload x) \<noteq> cq_id r)
       then Inl (ConflictError ''Clarification answer has inconsistent task bindings'')
     else Inr (r, a, m)))))))"

section \<open>What an inbox shows\<close>

text \<open>
  In a store the services lead to, the inbox of a mission that has not ended shows a question
  exactly when the mission waits for its answer, and never beside a request for approval.
\<close>

lemma find_filter_count: "(find P xs = None) = (length (filter P xs) = 0)"
  by (induction xs) auto

lemma inbox_shows_the_open_question:
  assumes "(clarification_step env digest)\<^sup>*\<^sup>* s0 s" "nothing_asked s0" "getMissionTasks env pr i s = Inr (m, c, a)"
    and "\<not> isTerminalMissionState (mi_state m)"
  shows "(c \<noteq> None) = (mi_state m = mstate MWaitingForUser PhPlan) \<and> (c = None \<or> a = None)"
proof -
  from assms(3) have m: "mission_get s i = Some m" "mi_id m = i" and c: "findPendingForMission env s i = Inr c"
    and g: "c = None \<or> a = None"
    by (auto simp: getMissionTasks_def check_inbox_def sbind_eq_Inr Let_def requireMission_def guard_that_def
      dest: mission_get_id split: if_splits)
  have "clarifications_ok s" by (rule clarification_steps_ok[OF assms(1) nothing_asked_ok[OF assms(2)]])
  then have "mission_asks_ok s i" by (simp add: clarifications_ok_def)
  then have k: "(mi_state m = waiting_for_answer) = (pending_count s i = 1)" "pending_count s i \<le> 1"
    using m(1) assms(4) by (simp_all add: mission_asks_ok_def del: terminal_iff)
  have "(c = None) = (find (is_pending i) (tn_clarifications s) = None)"
    using c by (cases "find (is_pending i) (tn_clarifications s)") (auto simp: findPendingForMission_def sbind_eq_Inr split: if_splits)
  then have "(c = None) = (pending_count s i = 0)" unfolding find_filter_count pending_count_def .
  with k g show ?thesis by auto
qed

end
