(* ===== verification/Entities.thy ===== *)
theory Entities
  imports Models
begin

text \<open>
  The entities of a tenant (\<open>core/src/entities.ts\<close>): organizations, users, palaces, their crews
  with schedules, preferences and identity tags, and devices with their capabilities.  A
  number that the schema does not require to be whole is rational, and a record of scalars is
  its list of entries.
\<close>

section \<open>Scalars and texts\<close>

datatype scalar = ScalarText string | ScalarNumber rat | ScalarFlag bool

type_synonym scalars = "(string \<times> scalar) list"

definition scalars_ok :: "scalars \<Rightarrow> bool" where
  "scalars_ok xs = unique (List.map fst xs)"

definition text_within :: "nat \<Rightarrow> string \<Rightarrow> bool" where
  "text_within n s = (1 \<le> length s \<and> length s \<le> n)"

text \<open>\<open>[a-z0-9]+(?:-[a-z0-9]+)*\<close>: words joined by single hyphens.\<close>

fun slug_tail_ok :: "bool \<Rightarrow> string \<Rightarrow> bool" where
  "slug_tail_ok inWord [] = inWord"
| "slug_tail_ok inWord (c # cs) =
     (if is_lower_alnum c then slug_tail_ok True cs
      else c = CHR ''-'' \<and> inWord \<and> slug_tail_ok False cs)"

definition slug_ok :: "string \<Rightarrow> bool" where
  "slug_ok s = slug_tail_ok False s"

section \<open>Tenants and palaces\<close>

record organization =
  og_id :: string
  og_slug :: string
  og_name :: string
  og_labTenant :: bool
  og_createdAt :: instant

definition organization_ok :: "organization \<Rightarrow> bool" where
  "organization_ok x = (id_ok ''org'' (og_id x) \<and> slug_ok (og_slug x) \<and> text_within 120 (og_name x))"

record user =
  us_id :: string
  us_displayName :: string
  us_createdAt :: instant

definition user_ok :: "user \<Rightarrow> bool" where
  "user_ok x = (id_ok ''usr'' (us_id x) \<and> text_within 120 (us_displayName x))"

record palace =
  pz_id :: string
  pz_organizationId :: string
  pz_name :: string
  pz_timezone :: string
  pz_batteryAvailablePercentage :: rat
  pz_createdAt :: instant

definition palace_ok :: "palace \<Rightarrow> bool" where
  "palace_ok x = (id_ok ''pal'' (pz_id x) \<and> id_ok ''org'' (pz_organizationId x) \<and>
     text_within 120 (pz_name x) \<and> text_within 64 (pz_timezone x) \<and>
     0 \<le> pz_batteryAvailablePercentage x \<and> pz_batteryAvailablePercentage x \<le> 100)"

section \<open>Crews\<close>

record crew_member =
  cm_id :: string
  cm_organizationId :: string
  cm_palaceId :: string
  cm_userId :: "string option"
  cm_displayName :: string
  cm_active :: bool

definition crew_member_ok :: "crew_member \<Rightarrow> bool" where
  "crew_member_ok x = (id_ok ''crew'' (cm_id x) \<and> id_ok ''org'' (cm_organizationId x) \<and>
     id_ok ''pal'' (cm_palaceId x) \<and> opt_id_ok ''usr'' (cm_userId x) \<and> text_within 120 (cm_displayName x))"

record crew_schedule =
  sl_id :: string
  sl_organizationId :: string
  sl_palaceId :: string
  sl_crewMemberId :: string
  sl_active :: bool
  sl_version :: nat
  sl_timezone :: string
  sl_windowStart :: string
  sl_windowEnd :: string

definition crew_schedule_ok :: "crew_schedule \<Rightarrow> bool" where
  "crew_schedule_ok x = (id_ok ''sch'' (sl_id x) \<and> id_ok ''org'' (sl_organizationId x) \<and>
     id_ok ''pal'' (sl_palaceId x) \<and> id_ok ''crew'' (sl_crewMemberId x) \<and> 0 < sl_version x \<and>
     text_within 64 (sl_timezone x) \<and> time_of_day_ok (sl_windowStart x) \<and>
     time_of_day_ok (sl_windowEnd x) \<and> sl_windowStart x \<noteq> sl_windowEnd x)"

text \<open>The only kind of preference is \<open>homecoming_comfort\<close>.\<close>

record crew_preference =
  cf_id :: string
  cf_organizationId :: string
  cf_palaceId :: string
  cf_crewMemberId :: string
  cf_active :: bool
  cf_version :: nat
  cf_targetCelsius :: rat
  cf_lightingIntensityPercent :: nat
  cf_lightingDurationSeconds :: nat

definition crew_preference_ok :: "crew_preference \<Rightarrow> bool" where
  "crew_preference_ok x = (id_ok ''pref'' (cf_id x) \<and> id_ok ''org'' (cf_organizationId x) \<and>
     id_ok ''pal'' (cf_palaceId x) \<and> id_ok ''crew'' (cf_crewMemberId x) \<and> 0 < cf_version x \<and>
     5 \<le> cf_targetCelsius x \<and> cf_targetCelsius x \<le> 35 \<and> cf_lightingIntensityPercent x \<le> 100 \<and>
     1 \<le> cf_lightingDurationSeconds x \<and> cf_lightingDurationSeconds x \<le> 86400)"

record identity_tag =
  tt_id :: string
  tt_organizationId :: string
  tt_crewMemberId :: "string option"
  tt_label :: string
  tt_verified :: bool
  tt_active :: bool
  tt_version :: nat

definition identity_tag_ok :: "identity_tag \<Rightarrow> bool" where
  "identity_tag_ok x = (id_ok ''tag'' (tt_id x) \<and> id_ok ''org'' (tt_organizationId x) \<and>
     opt_id_ok ''crew'' (tt_crewMemberId x) \<and> text_within 120 (tt_label x) \<and> 0 < tt_version x)"

section \<open>Devices\<close>

record device =
  de_id :: string
  de_organizationId :: string
  de_palaceId :: string
  de_kind :: device_kind
  de_name :: string
  de_health :: device_health
  de_version :: nat

definition device_ok :: "device \<Rightarrow> bool" where
  "device_ok x = (id_ok ''dev'' (de_id x) \<and> id_ok ''org'' (de_organizationId x) \<and>
     id_ok ''pal'' (de_palaceId x) \<and> text_within 120 (de_name x) \<and> 0 < de_version x)"

record capability =
  cy_id :: string
  cy_organizationId :: string
  cy_deviceId :: string
  cy_kind :: capability_kind
  cy_enabled :: bool
  cy_constraints :: scalars

definition capability_ok :: "capability \<Rightarrow> bool" where
  "capability_ok x = (id_ok ''cap'' (cy_id x) \<and> id_ok ''org'' (cy_organizationId x) \<and>
     id_ok ''dev'' (cy_deviceId x) \<and> scalars_ok (cy_constraints x))"

section \<open>Lemmas\<close>

text \<open>A slug starts and ends with a letter or digit and has no two hyphens in a row.\<close>

lemma slug_tail_last: "slug_tail_ok b s \<Longrightarrow> s \<noteq> [] \<Longrightarrow> is_lower_alnum (last s)"
proof (induction b s rule: slug_tail_ok.induct)
  case (2 b c cs)
  then show ?case by (cases cs) (auto split: if_splits)
qed simp

lemma slug_ends: "slug_ok s \<Longrightarrow> s \<noteq> [] \<and> is_lower_alnum (hd s) \<and> is_lower_alnum (last s)"
  by (cases s) (auto simp: slug_ok_def slug_tail_last split: if_splits dest: slug_tail_last)

end
