(* ===== verification/Tool_Contracts.thy ===== *)
theory Tool_Contracts
  imports Tools Entities Store
begin

text \<open>
  The contracts of the tools (\<open>core/src/tools.ts\<close>): the registry with its permissions, risks
  and phases, the output schemas, the result envelope of a call and the receipt of a completed
  call.  A tool's JSON schemas enter only through the digests of its projection, which are
  parameters.
\<close>

section \<open>The registry\<close>

fun tool_string :: "tool_name \<Rightarrow> string" where
  "tool_string PalacesGet = ''palaces.get''"
| "tool_string CrewsList = ''crews.list''"
| "tool_string CapabilitiesList = ''capabilities.list''"
| "tool_string RoutinesList = ''routines.list''"
| "tool_string RoutinesGet = ''routines.get''"
| "tool_string ExecutionsList = ''executions.list''"
| "tool_string KnowledgeSearch = ''knowledge.search''"
| "tool_string PlansPropose = ''plans.propose''"
| "tool_string PlansValidate = ''plans.validate''"
| "tool_string PlansSimulate = ''plans.simulate''"
| "tool_string PlansRequestApproval = ''plans.request_approval''"
| "tool_string PlansActivate = ''plans.activate''"
| "tool_string OperationsGet = ''operations.get''"
| "tool_string VerificationGetEvidence = ''verification.get_evidence''"
| "tool_string MissionsCancel = ''missions.cancel''"

datatype tool_risk = RiskRead | RiskProposal | RiskPause | RiskConsequential | RiskControl

text \<open>
  A contract.  \<open>contract\<close> derives the route from the name and the annotations of the model
  context protocol from the four flags, so both are read off the record.
\<close>

record tool_contract =
  kc_permission :: permission
  kc_risk :: tool_risk
  kc_allowedPhases :: "mission_phase list"
  kc_readOnly :: bool
  kc_destructive :: bool
  kc_idempotent :: bool
  kc_openWorld :: bool
  kc_title :: string
  kc_description :: string

definition read_contract :: "permission \<Rightarrow> mission_phase list \<Rightarrow> string \<Rightarrow> string \<Rightarrow> tool_contract" where
  "read_contract p ph title desc =
     \<lparr> kc_permission = p, kc_risk = RiskRead, kc_allowedPhases = ph, kc_readOnly = True,
       kc_destructive = False, kc_idempotent = True, kc_openWorld = False,
       kc_title = title, kc_description = desc \<rparr>"

fun TOOL_REGISTRY :: "tool_name \<Rightarrow> tool_contract" where
  "TOOL_REGISTRY PalacesGet = read_contract PalaceRead [PhUnderstand, PhPlan, PhValidate]
     ''Get palace'' ''Read one palace configuration and current state.''"
| "TOOL_REGISTRY CrewsList = read_contract CrewRead [PhUnderstand, PhPlan, PhValidate]
     ''List crew'' ''Read authorized crew, identity tags, schedules, and preferences.''"
| "TOOL_REGISTRY CapabilitiesList = read_contract CapabilityRead [PhUnderstand, PhPlan, PhValidate]
     ''List capabilities'' ''Read available device capabilities, constraints, and health.''"
| "TOOL_REGISTRY RoutinesList = read_contract RoutineRead
     [PhUnderstand, PhPlan, PhValidate, PhReconcile, PhVerify]
     ''List routines'' ''Read routines and their versioned definitions.''"
| "TOOL_REGISTRY RoutinesGet = read_contract RoutineRead
     [PhUnderstand, PhPlan, PhValidate, PhReconcile, PhVerify]
     ''Get routine'' ''Read one routine and an exact version.''"
| "TOOL_REGISTRY ExecutionsList = read_contract RoutineRead [PhUnderstand, PhObserve, PhVerify]
     ''List executions'' ''Read execution history and outcomes for a mission or routine.''"
| "TOOL_REGISTRY KnowledgeSearch = read_contract KnowledgeRead
     [PhUnderstand, PhPlan, PhValidate, PhReconcile, PhVerify]
     ''Search knowledge'' ''Search cited, versioned, permission-filtered product knowledge.''"
| "TOOL_REGISTRY PlansPropose =
     \<lparr> kc_permission = RoutineDraft, kc_risk = RiskProposal, kc_allowedPhases = [PhPlan],
       kc_readOnly = False, kc_destructive = False, kc_idempotent = True, kc_openWorld = False,
       kc_title = ''Propose plan'', kc_description = ''Persist an immutable candidate plan revision.'' \<rparr>"
| "TOOL_REGISTRY PlansValidate =
     \<lparr> kc_permission = RoutineValidate, kc_risk = RiskProposal, kc_allowedPhases = [PhValidate],
       kc_readOnly = False, kc_destructive = False, kc_idempotent = True, kc_openWorld = False,
       kc_title = ''Validate plan'',
       kc_description = ''Apply schema, capability, conflict, and hard-invariant checks.'' \<rparr>"
| "TOOL_REGISTRY PlansSimulate =
     \<lparr> kc_permission = RoutineSimulate, kc_risk = RiskProposal, kc_allowedPhases = [PhValidate],
       kc_readOnly = False, kc_destructive = False, kc_idempotent = False, kc_openWorld = False,
       kc_title = ''Simulate plan'',
       kc_description = ''Simulate timing, access, energy, and transport-failure scenarios.'' \<rparr>"
| "TOOL_REGISTRY PlansRequestApproval =
     \<lparr> kc_permission = RoutineDraft, kc_risk = RiskPause, kc_allowedPhases = [PhValidate],
       kc_readOnly = False, kc_destructive = False, kc_idempotent = False, kc_openWorld = False,
       kc_title = ''Request plan approval'',
       kc_description = ''Create a pending human approval request and pause the mission.'' \<rparr>"
| "TOOL_REGISTRY PlansActivate =
     \<lparr> kc_permission = RoutineActivate, kc_risk = RiskConsequential, kc_allowedPhases = [PhExecute],
       kc_readOnly = False, kc_destructive = True, kc_idempotent = True, kc_openWorld = True,
       kc_title = ''Activate plan action'',
       kc_description = ''Execute one server-created action covered by an exact approval.'' \<rparr>"
| "TOOL_REGISTRY OperationsGet = read_contract OperationReconcile [PhExecute, PhReconcile]
     ''Get operation'' ''Read one logical operation and its delivery attempts.''"
| "TOOL_REGISTRY VerificationGetEvidence = read_contract VerificationRead [PhObserve, PhVerify]
     ''Get verification evidence'' ''Read normalized evidence used by deterministic verification.''"
| "TOOL_REGISTRY MissionsCancel =
     \<lparr> kc_permission = MissionCancel, kc_risk = RiskControl,
       kc_allowedPhases = [PhUnderstand, PhPlan, PhValidate, PhApprove, PhExecute, PhReconcile, PhObserve, PhVerify],
       kc_readOnly = False, kc_destructive = True, kc_idempotent = True, kc_openWorld = False,
       kc_title = ''Cancel mission'',
       kc_description = ''Request checkpoint-aware cancellation for one mission.'' \<rparr>"

text \<open>The route of a tool and its schema, \<open>/api/v1/tools/[a-z][a-z_.]+\<close>.\<close>

definition tool_route :: "tool_name \<Rightarrow> string" where
  "tool_route t = ''/api/v1/tools/'' @ tool_string t"

definition tool_route_ok :: "string \<Rightarrow> bool" where
  "tool_route_ok s = (case strip_prefix ''/api/v1/tools/'' s of None \<Rightarrow> False
     | Some [] \<Rightarrow> False
     | Some (c # cs) \<Rightarrow> List.member ''abcdefghijklmnopqrstuvwxyz'' c \<and> cs \<noteq> [] \<and>
         list_all (\<lambda>d. List.member ''abcdefghijklmnopqrstuvwxyz_.'' d) cs)"

section \<open>Execution classes\<close>

text \<open>
  The class of a call decides what a second claim of it may do.  The dispatcher and the ledger
  compute it from the contract with their tests in different orders; the ledger reads the
  projected contract.
\<close>

datatype execution_class = ClassRead | ClassWriteIdempotent | ClassNonIdempotent | ClassConsequential

definition executionClassFor :: "tool_name \<Rightarrow> execution_class" where
  "executionClassFor t = (let c = TOOL_REGISTRY t in
     if kc_readOnly c then ClassRead
     else if kc_risk c = RiskConsequential then ClassConsequential
     else if kc_idempotent c then ClassWriteIdempotent else ClassNonIdempotent)"

definition expectedToolInvocationExecutionClass :: "tool_name \<Rightarrow> execution_class" where
  "expectedToolInvocationExecutionClass t = (let c = TOOL_REGISTRY t in
     if kc_risk c = RiskConsequential then ClassConsequential
     else if kc_readOnly c then ClassRead
     else if kc_idempotent c then ClassWriteIdempotent else ClassNonIdempotent)"

section \<open>Outputs\<close>

record knowledge_result =
  kn_sourceId :: string
  kn_version :: string
  kn_title :: string
  kn_excerpt :: string

datatype tool_output =
    PalacesGetOutput palace
  | CrewsListOutput "crew_member list" "identity_tag list" "crew_schedule list" "crew_preference list"
  | CapabilitiesListOutput "device list" "capability list"
  | RoutinesListOutput "routine list" "routine_version list"
  | RoutinesGetOutput routine routine_version
  | ExecutionsListOutput "execution list"
  | KnowledgeSearchOutput "knowledge_result list"
  | PlansProposeOutput plan
  | PlansValidateOutput bool "plan_check list"
  | PlansSimulateOutput bool rat "scenario_result list"
  | PlansRequestApprovalOutput string bool
  | PlansActivateOutput operation "string option"
  | OperationsGetOutput operation "attempt list"
  | VerificationGetEvidenceOutput "evidence list"
  | MissionsCancelOutput string mission_state

fun output_tool :: "tool_output \<Rightarrow> tool_name" where
  "output_tool (PalacesGetOutput _) = PalacesGet"
| "output_tool (CrewsListOutput _ _ _ _) = CrewsList"
| "output_tool (CapabilitiesListOutput _ _) = CapabilitiesList"
| "output_tool (RoutinesListOutput _ _) = RoutinesList"
| "output_tool (RoutinesGetOutput _ _) = RoutinesGet"
| "output_tool (ExecutionsListOutput _) = ExecutionsList"
| "output_tool (KnowledgeSearchOutput _) = KnowledgeSearch"
| "output_tool (PlansProposeOutput _) = PlansPropose"
| "output_tool (PlansValidateOutput _ _) = PlansValidate"
| "output_tool (PlansSimulateOutput _ _ _) = PlansSimulate"
| "output_tool (PlansRequestApprovalOutput _ _) = PlansRequestApproval"
| "output_tool (PlansActivateOutput _ _) = PlansActivate"
| "output_tool (OperationsGetOutput _ _) = OperationsGet"
| "output_tool (VerificationGetEvidenceOutput _) = VerificationGetEvidence"
| "output_tool (MissionsCancelOutput _ _) = MissionsCancel"

text \<open>
  A crew projection covers one tenant and one palace, and everything in it belongs to a
  projected member; without members it carries nothing.
\<close>

definition crew_projection_ok ::
    "crew_member list \<Rightarrow> identity_tag list \<Rightarrow> crew_schedule list \<Rightarrow> crew_preference list \<Rightarrow> bool" where
  "crew_projection_ok crew tags schedules preferences =
     (let ids = List.map cm_id crew in
      unique ids \<and>
      (case crew of
         [] \<Rightarrow> tags = [] \<and> schedules = [] \<and> preferences = []
       | c # cs \<Rightarrow>
           list_all (\<lambda>x. cm_organizationId x = cm_organizationId c \<and> cm_palaceId x = cm_palaceId c) cs \<and>
           list_all (\<lambda>t. tt_organizationId t = cm_organizationId c \<and>
             (case tt_crewMemberId t of None \<Rightarrow> False | Some i \<Rightarrow> List.member ids i)) tags \<and>
           list_all (\<lambda>s. sl_organizationId s = cm_organizationId c \<and> sl_palaceId s = cm_palaceId c \<and>
             List.member ids (sl_crewMemberId s)) schedules \<and>
           list_all (\<lambda>p. cf_organizationId p = cm_organizationId c \<and> cf_palaceId p = cm_palaceId c \<and>
             List.member ids (cf_crewMemberId p)) preferences))"

definition capability_projection_ok :: "device list \<Rightarrow> capability list \<Rightarrow> bool" where
  "capability_projection_ok devices capabilities =
     (let ids = List.map de_id devices in
      unique ids \<and>
      (case devices of
         [] \<Rightarrow> capabilities = []
       | d # ds \<Rightarrow>
           list_all (\<lambda>x. de_organizationId x = de_organizationId d \<and> de_palaceId x = de_palaceId d) ds \<and>
           list_all (\<lambda>c. cy_organizationId c = de_organizationId d \<and> List.member ids (cy_deviceId c)) capabilities))"

definition knowledge_result_ok :: "knowledge_result \<Rightarrow> bool" where
  "knowledge_result_ok k = (text_within 200 (kn_sourceId k) \<and> text_within 120 (kn_version k) \<and>
     text_within 200 (kn_title k) \<and> text_within 2000 (kn_excerpt k))"

fun tool_output_ok :: "env \<Rightarrow> tool_output \<Rightarrow> bool" where
  "tool_output_ok env (PalacesGetOutput p) = palace_ok p"
| "tool_output_ok env (CrewsListOutput crew tags schedules preferences) =
     (list_all crew_member_ok crew \<and> list_all identity_tag_ok tags \<and> list_all crew_schedule_ok schedules \<and>
      list_all crew_preference_ok preferences \<and> crew_projection_ok crew tags schedules preferences)"
| "tool_output_ok env (CapabilitiesListOutput devices capabilities) =
     (list_all device_ok devices \<and> list_all capability_ok capabilities \<and>
      capability_projection_ok devices capabilities)"
| "tool_output_ok env (RoutinesListOutput rs vs) = (list_all routine_ok rs \<and> list_all routine_version_ok vs)"
| "tool_output_ok env (RoutinesGetOutput r v) = (routine_ok r \<and> routine_version_ok v)"
| "tool_output_ok env (ExecutionsListOutput xs) = list_all execution_ok xs"
| "tool_output_ok env (KnowledgeSearchOutput ks) = list_all knowledge_result_ok ks"
| "tool_output_ok env (PlansProposeOutput p) = plan_ok (en_planHash env) p"
| "tool_output_ok env (PlansValidateOutput v cs) = list_all (\<lambda>c. text_within 500 (pk_message c)) cs"
| "tool_output_ok env (PlansSimulateOutput f x rs) =
     (0 \<le> x \<and> x \<le> 100 \<and> list_all (\<lambda>r. text_within 500 (sr_evidence r)) rs)"
| "tool_output_ok env (PlansRequestApprovalOutput a paused) = (id_ok ''apr'' a \<and> paused)"
| "tool_output_ok env (PlansActivateOutput x r) = (operation_ok x \<and> opt_id_ok ''rtn'' r)"
| "tool_output_ok env (OperationsGetOutput x as) = (operation_ok x \<and> list_all attempt_ok as)"
| "tool_output_ok env (VerificationGetEvidenceOutput es) = list_all (evidence_ok (en_obsHash env)) es"
| "tool_output_ok env (MissionsCancelOutput m st) = (id_ok ''mis'' m \<and> mission_state_ok st)"

section \<open>Results\<close>

datatype result_status =
    CallSucceeded | CallPending | CallDenied | CallConflict | CallUnknown | CallFailed

record tool_error =
  xe_code :: string
  xe_message :: string
  xe_details :: scalars

definition tool_error_ok :: "tool_error \<Rightarrow> bool" where
  "tool_error_ok e = (error_code_ok (xe_code e) \<and> text_within 500 (xe_message e) \<and> scalars_ok (xe_details e))"

record tool_result =
  rt_toolName :: tool_name
  rt_callId :: string
  rt_status :: result_status
  rt_retryable :: bool
  rt_data :: "tool_output option"
  rt_receiptId :: string
  rt_resourceVersion :: "nat option"
  rt_error :: "tool_error option"

text \<open>
  \<open>createToolResultSchema\<close>: a success carries data and no error, a denial, conflict or failure
  an error and no data, and a pending or unknown result may carry either.
\<close>

fun result_shape_ok :: "result_status \<Rightarrow> tool_output option \<Rightarrow> tool_error option \<Rightarrow> bool" where
  "result_shape_ok CallSucceeded d e = (d \<noteq> None \<and> e = None)"
| "result_shape_ok CallPending d e = True"
| "result_shape_ok CallUnknown d e = True"
| "result_shape_ok CallDenied d e = (d = None \<and> e \<noteq> None)"
| "result_shape_ok CallConflict d e = (d = None \<and> e \<noteq> None)"
| "result_shape_ok CallFailed d e = (d = None \<and> e \<noteq> None)"

definition tool_result_ok :: "env \<Rightarrow> tool_name \<Rightarrow> tool_result \<Rightarrow> bool" where
  "tool_result_ok env t r = (rt_toolName r = t \<and> id_ok ''call'' (rt_callId r) \<and> id_ok ''rcp'' (rt_receiptId r) \<and>
     result_shape_ok (rt_status r) (rt_data r) (rt_error r) \<and>
     (case rt_data r of None \<Rightarrow> True | Some d \<Rightarrow> output_tool d = t \<and> tool_output_ok env d) \<and>
     (case rt_error r of None \<Rightarrow> True | Some e \<Rightarrow> tool_error_ok e))"

definition parseToolResult :: "env \<Rightarrow> tool_name \<Rightarrow> tool_result \<Rightarrow> err + tool_result" where
  "parseToolResult env t r = (if tool_result_ok env t r then Inr r else Inl (ZodError ''ToolResult''))"

section \<open>Receipts\<close>

datatype call_channel = ChannelInProcess | ChannelHttp | ChannelMcp

record call_receipt =
  tk_id :: string
  tk_callId :: string
  tk_toolName :: tool_name
  tk_status :: result_status
  tk_channel :: call_channel
  tk_tenantScopeHash :: string
  tk_inputHash :: string
  tk_resultHash :: string
  tk_toolContractHash :: string
  tk_toolRegistryHash :: string
  tk_attemptId :: "string option"
  tk_evidenceIds :: "string list"
  tk_startedAt :: instant
  tk_completedAt :: instant

definition call_receipt_ok :: "call_receipt \<Rightarrow> bool" where
  "call_receipt_ok r = (id_ok ''rcp'' (tk_id r) \<and> id_ok ''call'' (tk_callId r) \<and>
     sha256_ok (tk_tenantScopeHash r) \<and> sha256_ok (tk_inputHash r) \<and> sha256_ok (tk_resultHash r) \<and>
     sha256_ok (tk_toolContractHash r) \<and> sha256_ok (tk_toolRegistryHash r) \<and>
     opt_id_ok ''att'' (tk_attemptId r) \<and> list_all (id_ok ''evd'') (tk_evidenceIds r) \<and>
     unique (tk_evidenceIds r) \<and> tk_startedAt r \<le> tk_completedAt r)"

section \<open>Lemmas\<close>

lemma tool_strings_registered: "List.member tool_names (tool_string t)"
  by (cases t) (simp_all add: tool_names_def)

lemma tool_string_inj: "tool_string a = tool_string b \<Longrightarrow> a = b"
  by (cases a; cases b) simp_all

lemma tool_routes_ok: "tool_route_ok (tool_route t)"
  by (cases t) (simp_all add: tool_route_ok_def tool_route_def)

text \<open>No contract is both read-only and consequential, so the two classifications agree.\<close>

lemma execution_classes_agree: "executionClassFor t = expectedToolInvocationExecutionClass t"
  by (cases t) (simp_all add: executionClassFor_def expectedToolInvocationExecutionClass_def read_contract_def)

lemma consequential_only_activate: "executionClassFor t = ClassConsequential \<longleftrightarrow> t = PlansActivate"
  by (cases t) (simp_all add: executionClassFor_def read_contract_def)

lemma read_class_changes_nothing:
  "executionClassFor t = ClassRead \<longleftrightarrow> t \<in> {PalacesGet, CrewsList, CapabilitiesList, RoutinesList, RoutinesGet,
     ExecutionsList, KnowledgeSearch, OperationsGet, VerificationGetEvidence}"
  by (cases t) (simp_all add: executionClassFor_def read_contract_def)

text \<open>
  A viewer may only read, and no delegated principal can hold what approval needs: no tool
  asks for \<open>routine:approve\<close>.
\<close>

lemma viewers_only_read:
  "pr_role p = Viewer \<Longrightarrow> principalHasPermission p (kc_permission (TOOL_REGISTRY t)) \<Longrightarrow> executionClassFor t = ClassRead"
  by (cases t) (simp_all add: principal_permissions executionClassFor_def READ_PERMISSIONS_def read_contract_def)

lemma no_tool_approves: "kc_permission (TOOL_REGISTRY t) \<noteq> RoutineApprove"
  by (cases t) (simp_all add: read_contract_def)

text \<open>Every unfinished mission may be cancelled by a tool call, whatever its phase.\<close>

lemma cancel_in_every_phase: "List.member (kc_allowedPhases (TOOL_REGISTRY MissionsCancel)) ph"
  by (cases ph) simp_all

lemma parseToolResult_Inr [simp]: "parseToolResult env t r = Inr r' \<longleftrightarrow> tool_result_ok env t r \<and> r' = r"
  by (auto simp: parseToolResult_def)

lemma crew_projection_one_palace:
  assumes "crew_projection_ok crew tags schedules preferences" "s \<in> set schedules"
  shows "\<exists>c\<in>set crew. cm_id c = sl_crewMemberId s \<and> cm_palaceId c = sl_palaceId s \<and>
    cm_organizationId c = sl_organizationId s"
proof (cases crew)
  case Nil
  then show ?thesis using assms by (simp add: crew_projection_ok_def)
next
  case (Cons c cs)
  with assms have s: "sl_crewMemberId s \<in> set (List.map cm_id crew)" "sl_organizationId s = cm_organizationId c"
    "sl_palaceId s = cm_palaceId c" and a: "\<forall>x\<in>set crew. cm_organizationId x = cm_organizationId c \<and> cm_palaceId x = cm_palaceId c"
    by (auto simp: crew_projection_ok_def Let_def list_all_iff)
  then show ?thesis by auto
qed

end
