(* ===== verification/Tool_Ledger.thy ===== *)
theory Tool_Ledger
  imports Tool_Contracts Evidence_Store
begin

text \<open>
  The ledger of tool invocations (\<open>PgToolInvocationLedger\<close> of \<open>db/src/repositories.ts\<close>, its
  types in \<open>application/src/tool-invocation-ledger.ts\<close>) with the guards that the migrations 0009,
  0011 and 0020 install, and the receipts of completed calls (\<open>PgToolCallReceiptRepository\<close>).

  The digests of bindings, results, contracts and owner tokens are parameters.  A claim token is
  represented by its entropy string, of which the ledger only sees the digest.
\<close>

section \<open>Bindings and rows\<close>

record tool_binding =
  tb_organizationId :: string
  tb_missionId :: string
  tb_principalScopeHash :: string
  tb_callId :: string
  tb_toolName :: tool_name
  tb_channel :: call_channel
  tb_inputHash :: string
  tb_toolContractHash :: string
  tb_toolRegistryHash :: string
  tb_resultSchemaHash :: string
  tb_executionClass :: execution_class

record tool_hashes =
  th_binding :: "tool_binding \<Rightarrow> string"
  th_result :: "tool_result \<Rightarrow> string"
  th_contract :: "tool_name \<Rightarrow> string"
  th_registry :: string
  th_resultSchema :: "tool_name \<Rightarrow> string"
  th_token :: "string \<Rightarrow> string"

datatype invocation_status = InvocationClaimed | InvocationCompleted

datatype claim_disposition = DispositionExecute | DispositionResolveUnknown

record invocation =
  iv_binding :: tool_binding
  iv_bindingHash :: string
  iv_receiptId :: string
  iv_status :: invocation_status
  iv_disposition :: claim_disposition
  iv_generation :: nat
  iv_ownerTokenHash :: string
  iv_claimExpiresAt :: instant
  iv_result :: "tool_result option"
  iv_resultHash :: "string option"
  iv_attemptId :: "string option"
  iv_startedAt :: instant
  iv_completedAt :: "instant option"
  iv_updatedAt :: instant

abbreviation iv_callId :: "invocation \<Rightarrow> string" where
  "iv_callId r \<equiv> tb_callId (iv_binding r)"

record claimed_record =
  cl_binding :: tool_binding
  cl_receiptId :: string
  cl_generation :: nat
  cl_startedAt :: instant
  cl_claimExpiresAt :: instant

record completed_record =
  cd_binding :: tool_binding
  cd_receiptId :: string
  cd_generation :: nat
  cd_startedAt :: instant
  cd_completedAt :: instant
  cd_resultHash :: string
  cd_result :: tool_result
  cd_attemptId :: "string option"
  cd_evidenceIds :: "string list"

text \<open>
  The tables.  The evidence links of a call are kept as the list of its positions, and a receipt
  carries its own evidence rows.  Receipt identifiers are unique across tenants, so those of
  other tenants' invocations and receipts are kept as well.
\<close>

record tool_db =
  td_tenant :: tenant
  td_invocations :: "invocation list"
  td_links :: "(string \<times> string list) list"
  td_receipts :: "call_receipt list"
  td_foreignInvocationReceipts :: "string list"
  td_foreignReceipts :: "string list"

definition invocation_get :: "tool_db \<Rightarrow> string \<Rightarrow> invocation option" where
  "invocation_get d c = lookup_by (\<lambda>r. tb_callId (iv_binding r)) c (td_invocations d)"

definition loadToolInvocationEvidenceIds :: "tool_db \<Rightarrow> string \<Rightarrow> string list" where
  "loadToolInvocationEvidenceIds d c = (case lookup_by fst c (td_links d) of None \<Rightarrow> [] | Some (_, es) \<Rightarrow> es)"

section \<open>Reading rows\<close>

definition binding_formats_ok :: "tool_binding \<Rightarrow> bool" where
  "binding_formats_ok b = (id_ok ''org'' (tb_organizationId b) \<and> id_ok ''mis'' (tb_missionId b) \<and>
     id_ok ''call'' (tb_callId b) \<and> sha256_ok (tb_inputHash b) \<and> sha256_ok (tb_principalScopeHash b) \<and>
     sha256_ok (tb_toolContractHash b) \<and> sha256_ok (tb_toolRegistryHash b) \<and> sha256_ok (tb_resultSchemaHash b))"

definition parseToolInvocationBinding :: "tool_hashes \<Rightarrow> tool_binding \<Rightarrow> err + tool_binding" where
  "parseToolInvocationBinding h b =
     (if \<not> binding_formats_ok b then Inl (ZodError ''ToolInvocationBinding'')
      else if tb_toolRegistryHash b \<noteq> th_registry h
        then Inl (DatabaseConflictError ''Tool invocation registry hash is not current'')
      else if tb_toolContractHash b \<noteq> th_contract h (tb_toolName b)
        then Inl (DatabaseConflictError ''Tool invocation contract hash is not current'')
      else if tb_resultSchemaHash b \<noteq> th_resultSchema h (tb_toolName b)
        then Inl (DatabaseConflictError ''Tool invocation result schema hash is not current'')
      else if tb_executionClass b \<noteq> expectedToolInvocationExecutionClass (tb_toolName b)
        then Inl (DatabaseConflictError ''Tool invocation execution class does not match its contract'')
      else Inr b)"

definition toolInvocationBindingFromRow :: "tool_hashes \<Rightarrow> invocation \<Rightarrow> err + tool_binding" where
  "toolInvocationBindingFromRow h r = sbind (parseToolInvocationBinding h (iv_binding r)) (\<lambda>b.
     if iv_bindingHash r \<noteq> th_binding h b
       then Inl (DatabaseConflictError ''Stored tool invocation binding hash is invalid'')
     else Inr b)"

definition claimedToolInvocationFromRow :: "tool_hashes \<Rightarrow> invocation \<Rightarrow> err + claimed_record" where
  "claimedToolInvocationFromRow h r =
     (if iv_status r \<noteq> InvocationClaimed
        then Inl (DatabaseConflictError ''Completed invocation cannot be mapped as an active claim'')
      else sbind (toolInvocationBindingFromRow h r) (\<lambda>b.
        if \<not> id_ok ''rcp'' (iv_receiptId r) then Inl (ZodError ''ReceiptId'')
        else Inr \<lparr> cl_binding = b, cl_receiptId = iv_receiptId r, cl_generation = iv_generation r,
                   cl_startedAt = iv_startedAt r, cl_claimExpiresAt = iv_claimExpiresAt r \<rparr>))"

definition completedToolInvocationFromRow ::
    "env \<Rightarrow> tool_hashes \<Rightarrow> invocation \<Rightarrow> string list \<Rightarrow> err + completed_record" where
  "completedToolInvocationFromRow env h r evidenceIds =
     (case (iv_status r, iv_result r, iv_resultHash r) of
        (InvocationCompleted, Some result, Some resultHash) \<Rightarrow>
          sbind (toolInvocationBindingFromRow h r) (\<lambda>b.
          sbind (parseToolResult env (tb_toolName b) result) (\<lambda>result.
          if \<not> sha256_ok resultHash then Inl (ZodError ''Sha256'')
          else if th_result h result \<noteq> resultHash
            then Inl (DatabaseConflictError ''Stored tool invocation result hash does not match its payload'')
          else if rt_callId result \<noteq> tb_callId b \<or> rt_toolName result \<noteq> tb_toolName b \<or>
                  rt_receiptId result \<noteq> iv_receiptId r
            then Inl (DatabaseConflictError ''Stored tool invocation result does not match its binding'')
          else if iv_disposition r = DispositionResolveUnknown \<and> rt_status result \<noteq> CallUnknown
            then Inl (DatabaseConflictError ''Reconciled tool invocation must resolve to unknown'')
          else if \<not> list_all (id_ok ''evd'') evidenceIds then Inl (ZodError ''EvidenceId'')
          else if \<not> unique evidenceIds
            then Inl (DatabaseConflictError ''Stored tool invocation evidence references are duplicated'')
          else if \<not> id_ok ''rcp'' (iv_receiptId r) then Inl (ZodError ''ReceiptId'')
          else (case iv_completedAt r of
            None \<Rightarrow> Inl (DatabaseConflictError ''Tool invocation completion time'')
          | Some completedAt \<Rightarrow>
              if \<not> opt_id_ok ''att'' (iv_attemptId r) then Inl (ZodError ''AttemptId'')
              else Inr \<lparr> cd_binding = b, cd_receiptId = iv_receiptId r, cd_generation = iv_generation r,
                         cd_startedAt = iv_startedAt r, cd_completedAt = completedAt,
                         cd_resultHash = resultHash, cd_result = result, cd_attemptId = iv_attemptId r,
                         cd_evidenceIds = evidenceIds \<rparr>)))
      | _ \<Rightarrow> Inl (DatabaseConflictError ''Tool invocation completion is incomplete''))"

section \<open>The guards of the database\<close>

text \<open>
  \<open>enforce_tool_invocation_transition\<close>: a claim is taken over only after it expired, by the next
  generation, with the disposition its class allows; a completion keeps the claim; nothing
  follows a completion.
\<close>

definition takeover_disposition :: "execution_class \<Rightarrow> claim_disposition" where
  "takeover_disposition c = (if c = ClassRead then DispositionExecute else DispositionResolveUnknown)"

definition invocation_identity_kept :: "invocation \<Rightarrow> invocation \<Rightarrow> bool" where
  "invocation_identity_kept old new = (iv_binding new = iv_binding old \<and> iv_bindingHash new = iv_bindingHash old \<and>
     iv_receiptId new = iv_receiptId old \<and> iv_startedAt new = iv_startedAt old)"

definition takeover_ok :: "invocation \<Rightarrow> invocation \<Rightarrow> bool" where
  "takeover_ok old new = (iv_generation new = iv_generation old + 1 \<and>
     iv_claimExpiresAt old \<le> iv_updatedAt new \<and> iv_updatedAt new < iv_claimExpiresAt new \<and>
     iv_claimExpiresAt new \<le> iv_updatedAt new + 300000 \<and>
     iv_disposition new = takeover_disposition (tb_executionClass (iv_binding old)))"

definition completion_ok :: "invocation \<Rightarrow> invocation \<Rightarrow> bool" where
  "completion_ok old new = (iv_generation new = iv_generation old \<and>
     iv_ownerTokenHash new = iv_ownerTokenHash old \<and> iv_claimExpiresAt new = iv_claimExpiresAt old \<and>
     iv_disposition new = iv_disposition old \<and>
     (case iv_completedAt new of None \<Rightarrow> False | Some t \<Rightarrow> iv_updatedAt old \<le> t))"

definition enforce_tool_invocation_transition :: "invocation \<Rightarrow> invocation \<Rightarrow> bool" where
  "enforce_tool_invocation_transition old new = (invocation_identity_kept old new \<and>
     iv_status old \<noteq> InvocationCompleted \<and>
     (case iv_status new of InvocationClaimed \<Rightarrow> takeover_ok old new
      | InvocationCompleted \<Rightarrow> completion_ok old new))"

text \<open>The check constraints of the table, as far as the formats do not imply them.\<close>

definition invocation_checks :: "invocation \<Rightarrow> bool" where
  "invocation_checks r = (0 < iv_generation r \<and> iv_startedAt r < iv_claimExpiresAt r \<and>
     iv_startedAt r \<le> iv_updatedAt r \<and>
     (case iv_status r of
        InvocationClaimed \<Rightarrow> iv_result r = None \<and> iv_resultHash r = None \<and> iv_attemptId r = None \<and>
          iv_completedAt r = None
      | InvocationCompleted \<Rightarrow> iv_result r \<noteq> None \<and> iv_resultHash r \<noteq> None \<and>
          (case iv_completedAt r of None \<Rightarrow> False | Some t \<Rightarrow> iv_startedAt r \<le> t)) \<and>
     (case iv_result r of None \<Rightarrow> True | Some x \<Rightarrow> rt_toolName x = tb_toolName (iv_binding r) \<and>
        rt_callId x = iv_callId r \<and> rt_receiptId x = iv_receiptId r) \<and>
     (iv_disposition r = DispositionExecute \<or> iv_status r = InvocationClaimed \<or>
        (case iv_result r of None \<Rightarrow> False | Some x \<Rightarrow> rt_status x = CallUnknown)))"

text \<open>The evidence rows of a mission among given identifiers.\<close>

definition mission_evidence_in :: "tenant \<Rightarrow> string \<Rightarrow> string list \<Rightarrow> persisted_evidence list" where
  "mission_evidence_in s m ids = filter (\<lambda>p. ev_missionId (pe_evidence p) = m \<and>
     List.member ids (ev_id (pe_evidence p))) (tn_evidence s)"

fun is_transport :: "evidence_body \<Rightarrow> bool" where
  "is_transport (OperationTransport _ _ _) = True"
| "is_transport _ = False"

definition isOperationTransportPayload :: "persisted_evidence \<Rightarrow> bool" where
  "isOperationTransportPayload p = is_transport (ev_body (pe_evidence p))"

definition has_error_code :: "tool_result \<Rightarrow> string \<Rightarrow> bool" where
  "has_error_code r c = (case rt_error r of None \<Rightarrow> False | Some e \<Rightarrow> xe_code e = c)"

definition LOST :: string where
  "LOST = ''APPLICATION_RESPONSE_LOST''"

text \<open>\<open>require_tool_invocation_reconciliation_evidence\<close>, deferred to the end of the transaction.\<close>

definition reconciliation_matches :: "invocation \<Rightarrow> persisted_evidence \<Rightarrow> bool" where
  "reconciliation_matches r p = (case (ar_authority (pe_receipt p), ev_body (pe_evidence p)) of
     (ApplicationReceipt rule v _ _, ToolInvocationReconciliation t _) \<Rightarrow>
       rule = ''tool_invocation.abandoned_write'' \<and> v = 1 \<and> tr_toolCallId t = iv_callId r \<and>
       tr_toolName t = tool_string (tb_toolName (iv_binding r)) \<and>
       tr_invocationBindingHash t = iv_bindingHash r \<and>
       tr_abandonedClaimGeneration t = iv_generation r - 1 \<and> tr_claimExpiredAt t \<le> iv_updatedAt r \<and>
       tr_durableObservation t = ExpiredClaimWithoutTerminalResult \<and> tr_reconciledOutcome t = RoStillUnknown
   | _ \<Rightarrow> False)"

definition reconciliation_evidence_required :: "tenant \<Rightarrow> invocation \<Rightarrow> string list \<Rightarrow> bool" where
  "reconciliation_evidence_required s r links =
     (iv_status r = InvocationCompleted \<and> iv_disposition r = DispositionResolveUnknown \<longrightarrow>
      length links = 1 \<and>
      length (filter (reconciliation_matches r) (mission_evidence_in s (tb_missionId (iv_binding r)) links)) = 1)"

text \<open>\<open>require_application_response_lost_invocation_evidence\<close>, deferred as well.\<close>

definition lost_response_matches :: "tenant \<Rightarrow> invocation \<Rightarrow> persisted_evidence \<Rightarrow> bool" where
  "lost_response_matches s r p = (let e = pe_evidence p in
     case (ar_authority (pe_receipt p), ev_body e) of
       (ApplicationReceipt rule v _ _, OperationTransport op att c) \<Rightarrow>
         rule = ''operation.application_response_lost'' \<and> v = 1 \<and> c = iv_callId r \<and>
         iv_attemptId r = Some att \<and>
         (case (find (\<lambda>a. at_id a = att \<and> at_operationId a = op) (tn_attempts s), operation_get s op) of
            (Some a, Some x) \<Rightarrow> transport_attempt_ok e a \<and> op_missionId x = tb_missionId (iv_binding r) \<and>
              op_status x = OpCommitted \<and>
              (case op_committedAt x of None \<Rightarrow> False | Some t \<Rightarrow> t \<le> ev_observedAt e)
          | _ \<Rightarrow> False)
     | _ \<Rightarrow> False)"

definition lost_response_evidence_required :: "tenant \<Rightarrow> invocation \<Rightarrow> string list \<Rightarrow> bool" where
  "lost_response_evidence_required s r links = (case iv_result r of None \<Rightarrow> True | Some x \<Rightarrow>
     let b = iv_binding r;
         transport = list_ex (\<lambda>p. isOperationTransportPayload p \<and> List.member links (ev_id (pe_evidence p))) (tn_evidence s) in
     iv_status r = InvocationCompleted \<and>
     (tb_toolName b = PlansActivate \<and> rt_status x = CallUnknown \<and> iv_attemptId r \<noteq> None \<or>
      has_error_code x LOST \<or> transport) \<longrightarrow>
     tb_toolName b = PlansActivate \<and> rt_status x = CallUnknown \<and> has_error_code x LOST \<and>
     iv_attemptId r \<noteq> None \<and> length links = 1 \<and>
     length (filter (lost_response_matches s r) (mission_evidence_in s (tb_missionId b) links)) = 1)"

text \<open>An update of a row passes its trigger, then its checks.\<close>

definition row_guards :: "invocation \<Rightarrow> invocation \<Rightarrow> err + unit" where
  "row_guards old new =
     (if \<not> enforce_tool_invocation_transition old new then Inl (PlainError ''invalid tool invocation transition'')
      else guard_that (invocation_checks new) (DatabaseConflictError ''tool_invocations_state_shape''))"

section \<open>Claiming\<close>

record claim_input =
  ci_binding :: tool_binding
  ci_proposedReceiptId :: string
  ci_ownerToken :: string
  ci_startedAt :: instant
  ci_claimExpiresAt :: instant

datatype call_claim =
    ClaimedExecute claimed_record
  | ClaimedResolve claimed_record nat instant
  | ClaimInProgress claimed_record
  | ClaimCompleted completed_record

text \<open>The entropy of a token has 16 to 512 characters.\<close>

definition fromEntropy :: "string \<Rightarrow> err + string" where
  "fromEntropy v = (if length v < 16 \<or> 512 < length v then Inl (RangeError ''Tool invocation claim entropy'') else Inr v)"

definition claim_window_ok :: "instant \<Rightarrow> instant \<Rightarrow> bool" where
  "claim_window_ok startedAt claimExpiresAt =
     (let ttl = claimExpiresAt - startedAt in \<not> (ttl < 1000 \<or> 300000 < ttl))"

definition fresh_invocation :: "tool_hashes \<Rightarrow> claim_input \<Rightarrow> invocation" where
  "fresh_invocation h ci = \<lparr> iv_binding = ci_binding ci, iv_bindingHash = th_binding h (ci_binding ci),
     iv_receiptId = ci_proposedReceiptId ci, iv_status = InvocationClaimed,
     iv_disposition = DispositionExecute, iv_generation = 1,
     iv_ownerTokenHash = th_token h (ci_ownerToken ci), iv_claimExpiresAt = ci_claimExpiresAt ci,
     iv_result = None, iv_resultHash = None, iv_attemptId = None, iv_startedAt = ci_startedAt ci,
     iv_completedAt = None, iv_updatedAt = ci_startedAt ci \<rparr>"

definition taken_over :: "tool_hashes \<Rightarrow> claim_input \<Rightarrow> invocation \<Rightarrow> invocation" where
  "taken_over h ci r = r\<lparr> iv_disposition := takeover_disposition (tb_executionClass (ci_binding ci)),
     iv_generation := iv_generation r + 1, iv_ownerTokenHash := th_token h (ci_ownerToken ci),
     iv_claimExpiresAt := ci_claimExpiresAt ci, iv_updatedAt := ci_startedAt ci \<rparr>"

definition write_invocation :: "tool_db \<Rightarrow> invocation \<Rightarrow> tool_db" where
  "write_invocation d r = d\<lparr> td_invocations := upsert (\<lambda>r. tb_callId (iv_binding r)) r (td_invocations d) \<rparr>"

definition claim_conflicts :: "tool_db \<Rightarrow> claim_input \<Rightarrow> bool" where
  "claim_conflicts d ci = (invocation_get d (tb_callId (ci_binding ci)) \<noteq> None \<or>
     list_ex (\<lambda>r. iv_receiptId r = ci_proposedReceiptId ci) (td_invocations d) \<or>
     List.member (td_foreignInvocationReceipts d) (ci_proposedReceiptId ci))"

definition claim_existing ::
    "env \<Rightarrow> tool_hashes \<Rightarrow> claim_input \<Rightarrow> invocation \<Rightarrow> tool_db \<Rightarrow> err + (call_claim \<times> tool_db)" where
  "claim_existing env h ci r d = sbind (toolInvocationBindingFromRow h r) (\<lambda>b.
     if b \<noteq> ci_binding ci then Inl (DatabaseConflictError ''Tool invocation call identity is already bound'')
     else if iv_status r = InvocationCompleted then
       sbind (completedToolInvocationFromRow env h r (loadToolInvocationEvidenceIds d (iv_callId r))) (\<lambda>x.
       Inr (ClaimCompleted x, d))
     else if ci_startedAt ci < iv_claimExpiresAt r then
       sbind (claimedToolInvocationFromRow h r) (\<lambda>x. Inr (ClaimInProgress x, d))
     else let n = taken_over h ci r in
       sbind (row_guards r n) (\<lambda>_.
       sbind (claimedToolInvocationFromRow h n) (\<lambda>x.
         Inr (if iv_disposition n = DispositionResolveUnknown
              then ClaimedResolve x (iv_generation r) (iv_claimExpiresAt r) else ClaimedExecute x,
              write_invocation d n))))"

definition ledger_claim :: "env \<Rightarrow> tool_hashes \<Rightarrow> claim_input \<Rightarrow> tool_db \<Rightarrow> err + (call_claim \<times> tool_db)" where
  "ledger_claim env h ci d = sbind (parseToolInvocationBinding h (ci_binding ci)) (\<lambda>b.
     if tb_organizationId b \<noteq> tn_org (td_tenant d)
       then Inl (TenantBoundaryError ''Tool invocation tenant does not match its repository'')
     else if \<not> id_ok ''rcp'' (ci_proposedReceiptId ci) then Inl (ZodError ''ReceiptId'')
     else if \<not> sha256_ok (th_token h (ci_ownerToken ci)) then Inl (ZodError ''Sha256'')
     else if \<not> claim_window_ok (ci_startedAt ci) (ci_claimExpiresAt ci)
       then Inl (RangeError ''Tool invocation claim TTL must be between one second and five minutes'')
     else if \<not> claim_conflicts d ci then
       (let n = fresh_invocation h ci in
        if \<not> invocation_checks n then Inl (DatabaseConflictError ''tool_invocations_claim_window'')
        else if is_none (mission_get (td_tenant d) (tb_missionId b))
          then Inl (DatabaseConflictError ''tool_invocations_mission_tenant_fk'')
        else sbind (claimedToolInvocationFromRow h n) (\<lambda>x. Inr (ClaimedExecute x, write_invocation d n)))
     else (case invocation_get d (tb_callId b) of
       None \<Rightarrow> Inl (DatabaseConflictError ''Tool invocation claim collided with another identity'')
     | Some r \<Rightarrow> claim_existing env h ci r d))"

section \<open>Completing\<close>

record completion_input =
  co_organizationId :: string
  co_callId :: string
  co_generation :: nat
  co_ownerToken :: string
  co_result :: tool_result
  co_resultHash :: string
  co_attemptId :: "string option"
  co_evidenceIds :: "string list"
  co_completedAt :: instant

datatype lost_to = LostToCompleted | LostToInProgress

datatype completion_result = Completed completed_record | LostClaim lost_to

definition assertApplicationResponseLostInvocationEvidence ::
    "env \<Rightarrow> tenant \<Rightarrow> string \<Rightarrow> string \<Rightarrow> string option \<Rightarrow> string list \<Rightarrow> persisted_evidence list \<Rightarrow> err + unit" where
  "assertApplicationResponseLostInvocationEvidence env s missionId callId attemptId ids rows =
     (if attemptId = None \<or> length ids \<noteq> 1 \<or> length rows \<noteq> 1
        then Inl (DatabaseConflictError ''Application response loss requires one attempt and one transport evidence record'')
      else let p = hd rows; e = pe_evidence p in
        if ev_id e \<noteq> hd ids then Inl (DatabaseConflictError ''Application response-loss evidence order is not exact'')
        else if \<not> persisted_evidence_ok (en_obsHash env) p then Inl (ZodError ''PersistedEvidenceRecord'')
        else (case ev_body e of
          OperationTransport op att c \<Rightarrow>
            if ev_organizationId e \<noteq> tn_org s \<or> ev_missionId e \<noteq> missionId \<or> c \<noteq> callId \<or> Some att \<noteq> attemptId
              then Inl (DatabaseConflictError ''Application response-loss evidence does not bind the tool invocation'')
            else assertOperationTransportSourceBinding s e
        | _ \<Rightarrow> Inl (DatabaseConflictError ''Application response-loss evidence does not bind the tool invocation'')))"

definition reconciliation_bound ::
    "tool_hashes \<Rightarrow> string \<Rightarrow> tool_binding \<Rightarrow> nat \<Rightarrow> persisted_evidence \<Rightarrow> tool_reconciliation \<Rightarrow> bool" where
  "reconciliation_bound h org b generation p t =
     ((case ar_authority (pe_receipt p) of
         ApplicationReceipt rule _ _ _ \<Rightarrow> rule = ''tool_invocation.abandoned_write'' | _ \<Rightarrow> False) \<and>
      ev_organizationId (pe_evidence p) = org \<and> ev_missionId (pe_evidence p) = tb_missionId b \<and>
      tr_toolCallId t = tb_callId b \<and> tr_toolName t = tool_string (tb_toolName b) \<and>
      int (tr_abandonedClaimGeneration t) = int generation - 1 \<and>
      tr_invocationBindingHash t = th_binding h b \<and> tr_reconciledOutcome t = RoStillUnknown)"

definition assert_reconciliation ::
    "env \<Rightarrow> tool_hashes \<Rightarrow> string \<Rightarrow> tool_binding \<Rightarrow> nat \<Rightarrow> persisted_evidence list \<Rightarrow> err + unit" where
  "assert_reconciliation env h org b generation rows =
     (if length rows \<noteq> 1
        then Inl (DatabaseConflictError ''Expired write resolution requires one reconciliation observation'')
      else let p = hd rows in
        if \<not> persisted_evidence_ok (en_obsHash env) p then Inl (ZodError ''PersistedEvidenceRecord'')
        else (case ev_body (pe_evidence p) of
          ToolInvocationReconciliation t _ \<Rightarrow>
            guard_that (reconciliation_bound h org b generation p t)
              (DatabaseConflictError ''Reconciliation evidence does not bind the abandoned tool invocation'')
        | _ \<Rightarrow> Inl (ZodError ''ToolInvocationReconciliationEvidence'')))"

text \<open>The checks of the evidence that a completion names.\<close>

definition completion_evidence ::
    "env \<Rightarrow> tool_hashes \<Rightarrow> invocation \<Rightarrow> tool_binding \<Rightarrow> completion_input \<Rightarrow> tenant \<Rightarrow> err + unit" where
  "completion_evidence env h r b co s =
     (let result = co_result co; ids = co_evidenceIds co;
          rows = mission_evidence_in s (tb_missionId b) ids;
          transport = filter isOperationTransportPayload rows in
      if ids \<noteq> [] \<and> length rows \<noteq> length ids
        then Inl (DatabaseConflictError ''Tool invocation evidence is not bound to the invocation mission'')
      else sbind
        (if tb_toolName b = PlansActivate \<and> rt_status result = CallUnknown \<and>
            (co_attemptId co \<noteq> None \<or> has_error_code result LOST \<or> transport \<noteq> [])
         then if \<not> has_error_code result LOST
           then Inl (DatabaseConflictError ''Application response-loss invocation requires its exact public error code'')
           else assertApplicationResponseLostInvocationEvidence env s (tb_missionId b) (tb_callId b)
                  (co_attemptId co) ids rows
         else guard_that (transport = [])
           (DatabaseConflictError ''Operation transport evidence may only resolve its plans.activate invocation'')) (\<lambda>_.
      if iv_disposition r = DispositionResolveUnknown
        then assert_reconciliation env h (tn_org s) b (iv_generation r) rows else Inr ()))"

definition completed_row :: "invocation \<Rightarrow> completion_input \<Rightarrow> invocation" where
  "completed_row r co = r\<lparr> iv_status := InvocationCompleted, iv_result := Some (co_result co),
     iv_resultHash := Some (co_resultHash co), iv_attemptId := co_attemptId co,
     iv_completedAt := Some (co_completedAt co), iv_updatedAt := co_completedAt co \<rparr>"

text \<open>
  The write of a completion: the row's guards, its foreign key and the links.  The
  two guards on its evidence are deferred to the end of the transaction.
\<close>

definition linked :: "tool_db \<Rightarrow> string \<Rightarrow> string list \<Rightarrow> tool_db" where
  "linked d c ids = d\<lparr> td_links := (if ids = [] then td_links d else td_links d @ [(c, ids)]) \<rparr>"

definition write_completion :: "invocation \<Rightarrow> completion_input \<Rightarrow> tool_db \<Rightarrow> err + tool_db" where
  "write_completion r co d = sbind (row_guards r (completed_row r co)) (\<lambda>_.
     if (case co_attemptId co of None \<Rightarrow> False | Some a \<Rightarrow> \<not> list_ex (\<lambda>x. at_id x = a) (tn_attempts (td_tenant d)))
       then Inl (DatabaseConflictError ''tool_invocations_attempt_tenant_fk'')
     else Inr (linked (write_invocation d (completed_row r co)) (iv_callId r) (co_evidenceIds co)))"

definition deferred_guards :: "invocation \<Rightarrow> tool_db \<Rightarrow> err + tool_db" where
  "deferred_guards n d =
     (let s = td_tenant d; links = loadToolInvocationEvidenceIds d (iv_callId n) in
      if \<not> reconciliation_evidence_required s n links
        then Inl (PlainError ''resolved unknown tool invocation requires one exact reconciliation observation'')
      else if \<not> lost_response_evidence_required s n links
        then Inl (DatabaseConflictError ''tool_invocations_application_response_lost_evidence'')
      else Inr d)"

definition complete_claimed ::
    "env \<Rightarrow> tool_hashes \<Rightarrow> completion_input \<Rightarrow> invocation \<Rightarrow> tool_db \<Rightarrow> err + (completion_result \<times> tool_db)" where
  "complete_claimed env h co r d = sbind (toolInvocationBindingFromRow h r) (\<lambda>b.
     sbind (parseToolResult env (tb_toolName b) (co_result co)) (\<lambda>result.
     if rt_callId result \<noteq> co_callId co \<or> rt_toolName result \<noteq> tb_toolName b \<or>
        rt_receiptId result \<noteq> iv_receiptId r
       then Inl (DatabaseConflictError ''Tool invocation result does not match its claim'')
     else if iv_disposition r = DispositionResolveUnknown \<and> rt_status result \<noteq> CallUnknown
       then Inl (DatabaseConflictError ''Expired write claims may only resolve as unknown'')
     else if iv_disposition r = DispositionResolveUnknown \<and> co_evidenceIds co = []
       then Inl (DatabaseConflictError ''Expired write resolution requires reconciliation evidence'')
     else sbind (completion_evidence env h r b co (td_tenant d)) (\<lambda>_.
     if th_result h result \<noteq> co_resultHash co
       then Inl (DatabaseConflictError ''Tool invocation result hash does not match its payload'')
     else if co_completedAt co < iv_updatedAt r
       then Inl (DatabaseConflictError ''Tool invocation completed before its active claim'')
     else sbind (write_completion r co d) (\<lambda>d'.
       sbind (completedToolInvocationFromRow env h (completed_row r co) (co_evidenceIds co)) (\<lambda>x.
       sbind (deferred_guards (completed_row r co) d') (\<lambda>d'.
       Inr (Completed x, d')))))))"

definition ledger_complete ::
    "env \<Rightarrow> tool_hashes \<Rightarrow> completion_input \<Rightarrow> tool_db \<Rightarrow> err + (completion_result \<times> tool_db)" where
  "ledger_complete env h co d =
     (if \<not> id_ok ''org'' (co_organizationId co) then Inl (ZodError ''OrganizationId'')
      else if co_organizationId co \<noteq> tn_org (td_tenant d)
        then Inl (TenantBoundaryError ''Tool invocation tenant does not match its repository'')
      else if \<not> id_ok ''call'' (co_callId co) then Inl (ZodError ''ToolCallId'')
      else if co_generation co < 1
        then Inl (TypeError ''Tool invocation generation must be a positive safe integer'')
      else if \<not> sha256_ok (th_token h (co_ownerToken co)) \<or> \<not> sha256_ok (co_resultHash co) \<or>
              \<not> opt_id_ok ''att'' (co_attemptId co) \<or> \<not> list_all (id_ok ''evd'') (co_evidenceIds co)
        then Inl (ZodError ''ToolInvocationCompletion'')
      else if \<not> unique (co_evidenceIds co)
        then Inl (TypeError ''Tool invocation evidence references must be unique'')
      else (case invocation_get d (co_callId co) of
        None \<Rightarrow> Inl (DatabaseNotFoundError ''Tool invocation claim was not found'')
      | Some r \<Rightarrow>
          if iv_status r = InvocationCompleted then
            sbind (completedToolInvocationFromRow env h r (loadToolInvocationEvidenceIds d (co_callId co))) (\<lambda>x.
            Inr (if iv_generation r = co_generation co \<and> cd_resultHash x = co_resultHash co \<and>
                    th_result h (cd_result x) = th_result h (co_result co) \<and>
                    cd_attemptId x = co_attemptId co \<and> cd_evidenceIds x = co_evidenceIds co
                 then Completed x else LostClaim LostToCompleted, d))
          else if iv_generation r \<noteq> co_generation co \<or> iv_ownerTokenHash r \<noteq> th_token h (co_ownerToken co)
            then Inr (LostClaim LostToInProgress, d)
          else complete_claimed env h co r d))"

section \<open>Receipts\<close>

text \<open>
  \<open>assertApplicationResponseLostReceiptBinding\<close>: a receipt that carries transport evidence, or of
  an unknown activation with an attempt, repeats its completed invocation exactly.
\<close>

definition evidence_in :: "tenant \<Rightarrow> string list \<Rightarrow> persisted_evidence list" where
  "evidence_in s ids = filter (\<lambda>p. List.member ids (ev_id (pe_evidence p))) (tn_evidence s)"

definition receipt_repeats :: "invocation \<Rightarrow> tool_result \<Rightarrow> string list \<Rightarrow> call_receipt \<Rightarrow> bool" where
  "receipt_repeats r result links k = (let b = iv_binding r in
     iv_receiptId r = tk_id k \<and> tb_toolName b = tk_toolName k \<and> tb_channel b = tk_channel k \<and>
     tb_inputHash b = tk_inputHash k \<and> iv_resultHash r = Some (tk_resultHash k) \<and>
     tb_toolContractHash b = tk_toolContractHash k \<and> tb_toolRegistryHash b = tk_toolRegistryHash k \<and>
     iv_attemptId r = tk_attemptId k \<and> rt_status result = tk_status k \<and> has_error_code result LOST \<and>
     iv_startedAt r = tk_startedAt k \<and> iv_completedAt r = Some (tk_completedAt k) \<and> links = tk_evidenceIds k)"

definition receipt_needs_loss_binding :: "tenant \<Rightarrow> call_receipt \<Rightarrow> bool" where
  "receipt_needs_loss_binding s k =
     (tk_toolName k = PlansActivate \<and> tk_status k = CallUnknown \<and> tk_attemptId k \<noteq> None \<or>
      list_ex isOperationTransportPayload (evidence_in s (tk_evidenceIds k)))"

definition assertApplicationResponseLostReceiptBinding :: "env \<Rightarrow> call_receipt \<Rightarrow> tool_db \<Rightarrow> err + unit" where
  "assertApplicationResponseLostReceiptBinding env k d =
     (if \<not> receipt_needs_loss_binding (td_tenant d) k then Inr ()
      else if tk_toolName k \<noteq> PlansActivate \<or> tk_status k \<noteq> CallUnknown \<or> tk_attemptId k = None
        then Inl (DatabaseConflictError ''Operation transport evidence may only bind an unknown plans.activate receipt'')
      else (case invocation_get d (tk_callId k) of
        None \<Rightarrow> Inl (DatabaseConflictError ''Application response-loss receipt requires its completed invocation'')
      | Some r \<Rightarrow> (case iv_result r of
          None \<Rightarrow> Inl (DatabaseConflictError ''Application response-loss receipt requires its completed invocation'')
        | Some x \<Rightarrow>
            if iv_status r \<noteq> InvocationCompleted
              then Inl (DatabaseConflictError ''Application response-loss receipt requires its completed invocation'')
            else sbind (parseToolResult env PlansActivate x) (\<lambda>result.
              if \<not> receipt_repeats r result (loadToolInvocationEvidenceIds d (tk_callId k)) k
                then Inl (DatabaseConflictError ''Application response-loss receipt does not match its durable invocation'')
              else assertApplicationResponseLostInvocationEvidence env (td_tenant d) (tb_missionId (iv_binding r))
                (tk_callId k) (tk_attemptId k) (tk_evidenceIds k) (evidence_in (td_tenant d) (tk_evidenceIds k))))))"

text \<open>\<open>require_application_response_lost_receipt_evidence\<close>, deferred.\<close>

definition receipt_loss_matches :: "tool_db \<Rightarrow> call_receipt \<Rightarrow> string \<Rightarrow> bool" where
  "receipt_loss_matches d k e =
     (case (invocation_get d (tk_callId k), find (\<lambda>p. ev_id (pe_evidence p) = e) (tn_evidence (td_tenant d))) of
        (Some r, Some p) \<Rightarrow> (case (iv_result r, ev_body (pe_evidence p)) of
           (Some x, OperationTransport _ att c) \<Rightarrow>
             iv_receiptId r = tk_id k \<and> iv_status r = InvocationCompleted \<and>
             tb_toolName (iv_binding r) = tk_toolName k \<and> tb_channel (iv_binding r) = tk_channel k \<and>
             tb_inputHash (iv_binding r) = tk_inputHash k \<and> iv_resultHash r = Some (tk_resultHash k) \<and>
             tb_toolContractHash (iv_binding r) = tk_toolContractHash k \<and>
             tb_toolRegistryHash (iv_binding r) = tk_toolRegistryHash k \<and> iv_attemptId r = tk_attemptId k \<and>
             rt_status x = tk_status k \<and> has_error_code x LOST \<and> c = tk_callId k \<and> tk_attemptId k = Some att
         | _ \<Rightarrow> False)
      | _ \<Rightarrow> False)"

definition lost_receipt_evidence_required :: "tool_db \<Rightarrow> call_receipt \<Rightarrow> bool" where
  "lost_receipt_evidence_required d k =
     (let links = loadToolInvocationEvidenceIds d (tk_callId k) in
      receipt_needs_loss_binding (td_tenant d) k \<longrightarrow>
        tk_toolName k = PlansActivate \<and> tk_status k = CallUnknown \<and> tk_attemptId k \<noteq> None \<and>
        length (tk_evidenceIds k) = 1 \<and> length links = 1 \<and>
        length (filter (receipt_loss_matches d k)
          (map fst (filter (\<lambda>(e, e'). e = e') (zip links (tk_evidenceIds k))))) = 1)"

definition receipts_append :: "env \<Rightarrow> tool_hashes \<Rightarrow> string \<Rightarrow> call_receipt \<Rightarrow> tool_db \<Rightarrow> err + tool_db" where
  "receipts_append env h tenantScopeHash k d =
     (if \<not> call_receipt_ok k then Inl (ZodError ''ToolCallReceipt'')
      else if tk_tenantScopeHash k \<noteq> tenantScopeHash
        then Inl (TenantBoundaryError ''Tool receipt tenant scope does not match its repository'')
      else if tk_toolRegistryHash k \<noteq> th_registry h
        then Inl (DatabaseConflictError ''Tool receipt registry hash is not current'')
      else if tk_toolContractHash k \<noteq> th_contract h (tk_toolName k)
        then Inl (DatabaseConflictError ''Tool receipt contract hash is not current'')
      else sbind (assertApplicationResponseLostReceiptBinding env k d) (\<lambda>_.
        let own = filter (\<lambda>x. tk_id x = tk_id k \<or> tk_callId x = tk_callId k) (td_receipts d) in
        if own \<noteq> [] \<or> List.member (td_foreignReceipts d) (tk_id k)
          then (if own = [k] then Inr d else Inl (DatabaseConflictError ''Tool receipt identity is already bound''))
        else if (case tk_attemptId k of None \<Rightarrow> False
                 | Some a \<Rightarrow> \<not> list_ex (\<lambda>x. at_id x = a) (tn_attempts (td_tenant d)))
          then Inl (DatabaseConflictError ''tool_call_receipts_attempt_tenant_fk'')
        else if \<not> list_all (\<lambda>e. list_ex (\<lambda>p. ev_id (pe_evidence p) = e) (tn_evidence (td_tenant d))) (tk_evidenceIds k)
          then Inl (DatabaseConflictError ''tool_call_receipt_evidence_evidence_tenant_fk'')
        else if \<not> lost_receipt_evidence_required d k
          then Inl (DatabaseConflictError ''tool_call_receipts_application_response_lost_evidence'')
        else Inr (d\<lparr> td_receipts := td_receipts d @ [k] \<rparr>)))"

definition receipt_get :: "tool_db \<Rightarrow> string \<Rightarrow> call_receipt option" where
  "receipt_get d i = lookup_by tk_id i (td_receipts d)"

definition receipt_findByCallId :: "tool_db \<Rightarrow> string \<Rightarrow> call_receipt option" where
  "receipt_findByCallId d c = lookup_by tk_callId c (td_receipts d)"

section \<open>The invariant of the ledger\<close>

text \<open>
  Every row is bound to current contracts and passes its checks; a first generation executes and
  a later one does what its class allows; the links belong to completed rows.
\<close>

definition invocation_ok :: "tool_hashes \<Rightarrow> invocation \<Rightarrow> bool" where
  "invocation_ok h r = (toolInvocationBindingFromRow h r = Inr (iv_binding r) \<and> invocation_checks r \<and>
     id_ok ''rcp'' (iv_receiptId r) \<and>
     iv_disposition r = (if iv_generation r = 1 then DispositionExecute
                         else takeover_disposition (tb_executionClass (iv_binding r))))"

definition invocations_ok :: "tool_hashes \<Rightarrow> tool_db \<Rightarrow> bool" where
  "invocations_ok h d = (unique (List.map (\<lambda>r. tb_callId (iv_binding r)) (td_invocations d)) \<and>
     list_all (invocation_ok h) (td_invocations d) \<and> unique (List.map fst (td_links d)) \<and>
     list_all (\<lambda>(c, es). list_ex (\<lambda>r. tb_callId (iv_binding r) = c \<and> iv_status r = InvocationCompleted)
       (td_invocations d)) (td_links d))"

section \<open>Lemmas\<close>

lemma parse_binding_Inr [simp]:
  "parseToolInvocationBinding h b = Inr b' \<longleftrightarrow> b' = b \<and> binding_formats_ok b \<and> tb_toolRegistryHash b = th_registry h \<and>
     tb_toolContractHash b = th_contract h (tb_toolName b) \<and> tb_resultSchemaHash b = th_resultSchema h (tb_toolName b) \<and>
     tb_executionClass b = expectedToolInvocationExecutionClass (tb_toolName b)"
  by (auto simp: parseToolInvocationBinding_def)

lemma binding_from_row_Inr [simp]:
  "toolInvocationBindingFromRow h r = Inr b \<longleftrightarrow> b = iv_binding r \<and>
     parseToolInvocationBinding h (iv_binding r) = Inr (iv_binding r) \<and> iv_bindingHash r = th_binding h (iv_binding r)"
  unfolding toolInvocationBindingFromRow_def sbind_eq_Inr by (auto simp del: parse_binding_Inr simp: parse_binding_Inr[of h _ b for b])

lemma claimed_from_row_Inr:
  "claimedToolInvocationFromRow h r = Inr x \<Longrightarrow> iv_status r = InvocationClaimed \<and> cl_binding x = iv_binding r \<and>
     cl_receiptId x = iv_receiptId r \<and> cl_generation x = iv_generation r \<and> cl_startedAt x = iv_startedAt r \<and>
     cl_claimExpiresAt x = iv_claimExpiresAt r"
  unfolding claimedToolInvocationFromRow_def by (auto simp: result_simps)

lemma fresh_invocation_sel [simp]:
  "iv_binding (fresh_invocation h ci) = ci_binding ci" "iv_bindingHash (fresh_invocation h ci) = th_binding h (ci_binding ci)"
  "iv_receiptId (fresh_invocation h ci) = ci_proposedReceiptId ci" "iv_status (fresh_invocation h ci) = InvocationClaimed"
  "iv_disposition (fresh_invocation h ci) = DispositionExecute" "iv_generation (fresh_invocation h ci) = 1"
  "iv_ownerTokenHash (fresh_invocation h ci) = th_token h (ci_ownerToken ci)"
  "iv_claimExpiresAt (fresh_invocation h ci) = ci_claimExpiresAt ci" "iv_startedAt (fresh_invocation h ci) = ci_startedAt ci"
  "iv_updatedAt (fresh_invocation h ci) = ci_startedAt ci" "iv_result (fresh_invocation h ci) = None"
  by (simp_all add: fresh_invocation_def)

lemma taken_over_sel [simp]:
  "iv_binding (taken_over h ci r) = iv_binding r" "iv_bindingHash (taken_over h ci r) = iv_bindingHash r"
  "iv_receiptId (taken_over h ci r) = iv_receiptId r" "iv_status (taken_over h ci r) = iv_status r"
  "iv_disposition (taken_over h ci r) = takeover_disposition (tb_executionClass (ci_binding ci))"
  "iv_generation (taken_over h ci r) = iv_generation r + 1"
  "iv_ownerTokenHash (taken_over h ci r) = th_token h (ci_ownerToken ci)"
  "iv_claimExpiresAt (taken_over h ci r) = ci_claimExpiresAt ci" "iv_startedAt (taken_over h ci r) = iv_startedAt r"
  "iv_updatedAt (taken_over h ci r) = ci_startedAt ci" "iv_result (taken_over h ci r) = iv_result r"
  by (simp_all add: taken_over_def)

lemma completed_row_sel [simp]:
  "iv_binding (completed_row r co) = iv_binding r" "iv_bindingHash (completed_row r co) = iv_bindingHash r"
  "iv_receiptId (completed_row r co) = iv_receiptId r" "iv_status (completed_row r co) = InvocationCompleted"
  "iv_disposition (completed_row r co) = iv_disposition r" "iv_generation (completed_row r co) = iv_generation r"
  "iv_result (completed_row r co) = Some (co_result co)" "iv_resultHash (completed_row r co) = Some (co_resultHash co)"
  "iv_attemptId (completed_row r co) = co_attemptId co" "iv_completedAt (completed_row r co) = Some (co_completedAt co)"
  "iv_updatedAt (completed_row r co) = co_completedAt co" "iv_startedAt (completed_row r co) = iv_startedAt r"
  by (simp_all add: completed_row_def)

lemma completed_row_claim [simp]:
  "iv_ownerTokenHash (completed_row r co) = iv_ownerTokenHash r" "iv_claimExpiresAt (completed_row r co) = iv_claimExpiresAt r"
  by (simp_all add: completed_row_def)

lemma invocation_get_write [simp]:
  "invocation_get (write_invocation d r) c = (if c = iv_callId r then Some r else invocation_get d c)"
  by (simp add: invocation_get_def write_invocation_def lookup_by_upsert)

lemma write_invocation_sel [simp]:
  "td_tenant (write_invocation d r) = td_tenant d" "td_links (write_invocation d r) = td_links d"
  "td_receipts (write_invocation d r) = td_receipts d"
  by (simp_all add: write_invocation_def)

lemma linked_sel [simp]:
  "td_tenant (linked d c ids) = td_tenant d" "td_invocations (linked d c ids) = td_invocations d"
  "invocation_get (linked d c ids) i = invocation_get d i"
  by (simp_all add: linked_def invocation_get_def)

lemma invocation_get_in: "invocation_get d c = Some r \<Longrightarrow> r \<in> set (td_invocations d) \<and> iv_callId r = c"
  unfolding invocation_get_def by (drule lookup_by_SomeD) simp

lemma row_guards_Inr [simp]:
  "row_guards old new = Inr u \<longleftrightarrow> enforce_tool_invocation_transition old new \<and> invocation_checks new"
  by (auto simp: row_guards_def)

text \<open>The answers of a claim, by what the ledger held.\<close>

lemma ledger_claim_cases:
  assumes "ledger_claim env h ci d = Inr (res, d')"
  obtains
    (fresh) x where "invocation_get d (tb_callId (ci_binding ci)) = None" "res = ClaimedExecute x"
      "cl_binding x = ci_binding ci" "cl_generation x = 1" "cl_receiptId x = ci_proposedReceiptId ci"
      "invocation_ok h (fresh_invocation h ci)" "d' = write_invocation d (fresh_invocation h ci)"
  | (completed) r x where "invocation_get d (tb_callId (ci_binding ci)) = Some r" "iv_binding r = ci_binding ci"
      "iv_status r = InvocationCompleted" "d' = d" "res = ClaimCompleted x"
      "completedToolInvocationFromRow env h r (loadToolInvocationEvidenceIds d (iv_callId r)) = Inr x"
  | (live) r x where "invocation_get d (tb_callId (ci_binding ci)) = Some r" "iv_binding r = ci_binding ci"
      "iv_status r = InvocationClaimed" "ci_startedAt ci < iv_claimExpiresAt r" "d' = d" "res = ClaimInProgress x"
  | (over) r x where "invocation_get d (tb_callId (ci_binding ci)) = Some r" "iv_binding r = ci_binding ci"
      "iv_status r = InvocationClaimed" "iv_claimExpiresAt r \<le> ci_startedAt ci"
      "d' = write_invocation d (taken_over h ci r)" "enforce_tool_invocation_transition r (taken_over h ci r)"
      "invocation_checks (taken_over h ci r)" "cl_binding x = ci_binding ci" "cl_generation x = iv_generation r + 1"
      "cl_receiptId x = iv_receiptId r"
      "res = (if tb_executionClass (ci_binding ci) = ClassRead then ClaimedExecute x
              else ClaimedResolve x (iv_generation r) (iv_claimExpiresAt r))"
proof (cases "claim_conflicts d ci")
  case False
  with assms obtain x where "invocation_checks (fresh_invocation h ci)"
    "claimedToolInvocationFromRow h (fresh_invocation h ci) = Inr x" "res = ClaimedExecute x"
    "d' = write_invocation d (fresh_invocation h ci)" "id_ok ''rcp'' (ci_proposedReceiptId ci)"
    "parseToolInvocationBinding h (ci_binding ci) = Inr (ci_binding ci)"
    unfolding ledger_claim_def sbind_eq_Inr by (auto simp: result_simps Let_def)
  with False claimed_from_row_Inr[of h "fresh_invocation h ci" x] show thesis
    by (intro fresh[of x]) (auto simp: claim_conflicts_def invocation_ok_def)
next
  case True
  with assms obtain r where g: "invocation_get d (tb_callId (ci_binding ci)) = Some r"
    and e: "claim_existing env h ci r d = Inr (res, d')"
    unfolding ledger_claim_def sbind_eq_Inr by (auto split: option.split_asm)
  then have b: "iv_binding r = ci_binding ci" by (auto simp: claim_existing_def result_simps)
  show thesis
  proof (cases "iv_status r = InvocationCompleted")
    case True
    with e obtain x where "completedToolInvocationFromRow env h r (loadToolInvocationEvidenceIds d (iv_callId r)) = Inr x"
      "res = ClaimCompleted x" "d' = d" by (auto simp: claim_existing_def result_simps)
    with True g b show thesis by (intro completed[of r x])
  next
    case False
    then have s: "iv_status r = InvocationClaimed" by (cases "iv_status r") simp_all
    show thesis
    proof (cases "ci_startedAt ci < iv_claimExpiresAt r")
      case True
      with e s obtain x where "res = ClaimInProgress x" "d' = d" by (auto simp: claim_existing_def result_simps)
      with True g b s show thesis by (intro live[of r x])
    next
      case False
      with e s obtain x where x: "claimedToolInvocationFromRow h (taken_over h ci r) = Inr x"
        "enforce_tool_invocation_transition r (taken_over h ci r)" "invocation_checks (taken_over h ci r)"
        "d' = write_invocation d (taken_over h ci r)"
        "res = (if iv_disposition (taken_over h ci r) = DispositionResolveUnknown
           then ClaimedResolve x (iv_generation r) (iv_claimExpiresAt r) else ClaimedExecute x)"
        by (auto simp: claim_existing_def result_simps Let_def)
      with claimed_from_row_Inr[OF x(1)] False g b s show thesis
        by (intro over[of r x]) (auto simp: takeover_disposition_def)
    qed
  qed
qed

text \<open>The code never asks the trigger for a takeover that it refuses.\<close>

lemma takeover_passes_trigger:
  assumes "invocation_ok h r" "iv_status r = InvocationClaimed" "iv_binding r = ci_binding ci"
    "iv_claimExpiresAt r \<le> ci_startedAt ci" "claim_window_ok (ci_startedAt ci) (ci_claimExpiresAt ci)"
  shows "enforce_tool_invocation_transition r (taken_over h ci r) \<and> invocation_checks (taken_over h ci r)"
  using assms
  by (auto simp: invocation_ok_def invocation_checks_def enforce_tool_invocation_transition_def
      invocation_identity_kept_def takeover_ok_def claim_window_ok_def Let_def taken_over_def)

text \<open>The answers of a completion: it writes the claimed row, or it changes nothing.\<close>

lemma completed_from_row_Inr:
  assumes "completedToolInvocationFromRow env h r ids = Inr x"
  shows "iv_status r = InvocationCompleted \<and> iv_result r = Some (cd_result x) \<and> cd_binding x = iv_binding r \<and>
    cd_receiptId x = iv_receiptId r \<and> cd_generation x = iv_generation r \<and> cd_evidenceIds x = ids \<and>
    cd_attemptId x = iv_attemptId r \<and> iv_resultHash r = Some (cd_resultHash x) \<and>
    iv_completedAt r = Some (cd_completedAt x) \<and> cd_startedAt x = iv_startedAt r"
  using assms unfolding completedToolInvocationFromRow_def
  by (auto simp: result_simps split: invocation_status.split_asm option.split_asm)

lemma deferred_guards_Inr [simp]:
  "deferred_guards n d = Inr d' \<longleftrightarrow> d' = d \<and>
     reconciliation_evidence_required (td_tenant d) n (loadToolInvocationEvidenceIds d (iv_callId n)) \<and>
     lost_response_evidence_required (td_tenant d) n (loadToolInvocationEvidenceIds d (iv_callId n))"
  by (auto simp: deferred_guards_def Let_def)

lemma complete_claimed_Inr:
  assumes "complete_claimed env h co r d = Inr (res, d')"
  obtains x where "res = Completed x" "d' = linked (write_invocation d (completed_row r co)) (iv_callId r) (co_evidenceIds co)"
    "enforce_tool_invocation_transition r (completed_row r co)" "invocation_checks (completed_row r co)"
    "toolInvocationBindingFromRow h r = Inr (iv_binding r)" "completion_evidence env h r (iv_binding r) co (td_tenant d) = Inr ()"
    "completedToolInvocationFromRow env h (completed_row r co) (co_evidenceIds co) = Inr x"
    "deferred_guards (completed_row r co) d' = Inr d'"
    "iv_disposition r = DispositionResolveUnknown \<Longrightarrow> rt_status (co_result co) = CallUnknown \<and> co_evidenceIds co \<noteq> []"
proof -
  from assms obtain d1 x where "toolInvocationBindingFromRow h r = Inr (iv_binding r)"
    "\<not> (iv_disposition r = DispositionResolveUnknown \<and> rt_status (co_result co) \<noteq> CallUnknown)"
    "\<not> (iv_disposition r = DispositionResolveUnknown \<and> co_evidenceIds co = [])"
    "completion_evidence env h r (iv_binding r) co (td_tenant d) = Inr ()" "write_completion r co d = Inr d1"
    "completedToolInvocationFromRow env h (completed_row r co) (co_evidenceIds co) = Inr x"
    "deferred_guards (completed_row r co) d1 = Inr d'" "res = Completed x"
    unfolding complete_claimed_def by (auto simp: result_simps simp del: deferred_guards_Inr)
  then show thesis by (intro that[of x]) (auto simp: write_completion_def result_simps)
qed

lemma ledger_complete_cases:
  assumes "ledger_complete env h co d = Inr (res, d')"
  obtains
    (kept) r where "invocation_get d (co_callId co) = Some r" "d' = d"
      "iv_status r = InvocationCompleted \<or> res = LostClaim LostToInProgress"
  | (written) r where "invocation_get d (co_callId co) = Some r" "iv_status r = InvocationClaimed"
      "iv_generation r = co_generation co" "iv_ownerTokenHash r = th_token h (co_ownerToken co)"
      "complete_claimed env h co r d = Inr (res, d')" "unique (co_evidenceIds co)"
proof -
  from assms obtain r where g: "invocation_get d (co_callId co) = Some r" and u: "unique (co_evidenceIds co)"
    unfolding ledger_complete_def by (auto split: option.split_asm)
  show thesis
  proof (cases "iv_status r")
    case InvocationCompleted
    with assms g have "d' = d" unfolding ledger_complete_def by (auto simp: result_simps)
    with g InvocationCompleted show thesis by (intro kept[of r]) auto
  next
    case InvocationClaimed
    show thesis
    proof (cases "iv_generation r \<noteq> co_generation co \<or> iv_ownerTokenHash r \<noteq> th_token h (co_ownerToken co)")
      case True
      with assms g InvocationClaimed have "d' = d \<and> res = LostClaim LostToInProgress"
        unfolding ledger_complete_def by (auto simp: result_simps)
      with g show thesis by (intro kept[of r]) auto
    next
      case False
      with assms g InvocationClaimed have "complete_claimed env h co r d = Inr (res, d')"
        unfolding ledger_complete_def by (simp split: if_split_asm)
      with False g InvocationClaimed u show thesis by (intro written[of r]) auto
    qed
  qed
qed

section \<open>Runs of the ledger\<close>

text \<open>
  Claims, completions and receipts of any callers in any order, between which the rest of the
  tenant's store changes in any way.
\<close>

inductive invocation_step :: "env \<Rightarrow> tool_hashes \<Rightarrow> tool_db \<Rightarrow> tool_db \<Rightarrow> bool" for env h where
  claim: "ledger_claim env h ci d = Inr (res, d') \<Longrightarrow> invocation_step env h d d'"
| complete: "ledger_complete env h co d = Inr (res, d') \<Longrightarrow> invocation_step env h d d'"
| receipt: "receipts_append env h sc k d = Inr d' \<Longrightarrow> invocation_step env h d d'"
| other: "tn_org t = tn_org (td_tenant d) \<Longrightarrow> invocation_step env h d (d\<lparr> td_tenant := t \<rparr>)"

lemma receipts_append_frame:
  "receipts_append env h sc k d = Inr d' \<Longrightarrow> td_tenant d' = td_tenant d \<and> td_invocations d' = td_invocations d \<and>
     td_links d' = td_links d"
  unfolding receipts_append_def by (auto simp: result_simps Let_def split: if_splits)

lemma invocation_get_tenant [simp]: "invocation_get (d\<lparr> td_tenant := t \<rparr>) c = invocation_get d c"
  by (simp add: invocation_get_def)

lemma load_links_tenant [simp]:
  "loadToolInvocationEvidenceIds (d\<lparr> td_tenant := t \<rparr>) c = loadToolInvocationEvidenceIds d c"
  "loadToolInvocationEvidenceIds (write_invocation d r) c = loadToolInvocationEvidenceIds d c"
  by (simp_all add: loadToolInvocationEvidenceIds_def)

lemma load_links_linked:
  "c \<noteq> i \<Longrightarrow> loadToolInvocationEvidenceIds (linked d i ids) c = loadToolInvocationEvidenceIds d c"
  "lookup_by fst c (td_links d) = None \<Longrightarrow> loadToolInvocationEvidenceIds (linked d c ids) c = ids"
  by (auto simp: loadToolInvocationEvidenceIds_def linked_def lookup_by_append split: option.split)

text \<open>A completed row and its links never change.\<close>

lemma step_keeps_completed:
  assumes "invocation_step env h d d'" "invocation_get d c = Some r" "iv_status r = InvocationCompleted"
  shows "invocation_get d' c = Some r \<and> loadToolInvocationEvidenceIds d' c = loadToolInvocationEvidenceIds d c"
  using assms
proof cases
  case (claim ci res)
  from claim show ?thesis
  proof (cases rule: ledger_claim_cases)
    case (fresh x)
    with assms show ?thesis by auto
  next
    case (over r' x)
    with assms show ?thesis by (auto dest: invocation_get_in)
  qed (use assms in auto)
next
  case (complete co res)
  then show ?thesis
  proof (cases rule: ledger_complete_cases)
    case (written r')
    from invocation_get_in[OF written(1)] assms written(1,2) have n: "c \<noteq> iv_callId r'" by auto
    with written(5) assms show ?thesis by (elim complete_claimed_Inr) (auto simp: load_links_linked(1))
  qed (use assms in auto)
next
  case (receipt sc k)
  from receipts_append_frame[OF receipt] assms show ?thesis
    by (simp add: invocation_get_def loadToolInvocationEvidenceIds_def)
qed (use assms in auto)

lemma run_keeps_completed:
  assumes "(invocation_step env h)\<^sup>*\<^sup>* d d'" "invocation_get d c = Some r" "iv_status r = InvocationCompleted"
  shows "invocation_get d' c = Some r \<and> loadToolInvocationEvidenceIds d' c = loadToolInvocationEvidenceIds d c"
  using assms by (induction rule: rtranclp_induct) (auto dest: step_keeps_completed)

lemma step_org: "invocation_step env h d d' \<Longrightarrow> tn_org (td_tenant d') = tn_org (td_tenant d)"
proof (induction rule: invocation_step.induct)
  case (claim ci d res d')
  then show ?case by (cases rule: ledger_claim_cases) auto
next
  case (complete co d res d')
  then show ?case by (cases rule: ledger_complete_cases) (auto elim!: complete_claimed_Inr)
qed (auto dest: receipts_append_frame)

lemma run_org: "(invocation_step env h)\<^sup>*\<^sup>* d d' \<Longrightarrow> tn_org (td_tenant d') = tn_org (td_tenant d)"
  by (induction rule: rtranclp_induct) (auto dest: step_org)

text \<open>The invariant is kept by every step.\<close>

lemma links_completed_write:
  assumes "\<And>x. x \<in> set (td_invocations d) \<Longrightarrow> iv_callId x = iv_callId r \<Longrightarrow> iv_status x = InvocationCompleted \<Longrightarrow>
      iv_status r = InvocationCompleted"
    "list_ex (\<lambda>r. tb_callId (iv_binding r) = c \<and> iv_status r = InvocationCompleted) (td_invocations d)"
    "unique (List.map (\<lambda>r. tb_callId (iv_binding r)) (td_invocations d))"
  shows "list_ex (\<lambda>r. tb_callId (iv_binding r) = c \<and> iv_status r = InvocationCompleted) (td_invocations (write_invocation d r))"
  using assms by (auto simp: list_ex_iff write_invocation_def set_upsert)

lemma write_invocation_ok:
  assumes "invocations_ok h d" "invocation_ok h r"
    "\<And>x. invocation_get d (iv_callId r) = Some x \<Longrightarrow> iv_status x = InvocationClaimed"
  shows "invocations_ok h (write_invocation d r)"
proof -
  have u: "unique (List.map (\<lambda>r. tb_callId (iv_binding r)) (td_invocations d))" using assms(1) by (simp add: invocations_ok_def)
  have c: "iv_status x = InvocationClaimed" if "x \<in> set (td_invocations d)" "iv_callId x = iv_callId r" for x
    using that u by (intro assms(3)) (simp add: invocation_get_def lookup_by_eq_Some_distinct)
  have "list_all (invocation_ok h) (td_invocations (write_invocation d r))"
    using assms(1,2) u by (auto simp: invocations_ok_def list_all_iff write_invocation_def set_upsert)
  moreover have "unique (List.map (\<lambda>r. tb_callId (iv_binding r)) (td_invocations (write_invocation d r)))"
    using u by (simp add: write_invocation_def distinct_keys_upsert)
  moreover have "list_all (\<lambda>(i, es). list_ex (\<lambda>x. tb_callId (iv_binding x) = i \<and> iv_status x = InvocationCompleted)
      (td_invocations (write_invocation d r))) (td_links d)"
  proof (clarsimp simp: list_all_iff)
    fix i es
    assume "(i, es) \<in> set (td_links d)"
    with assms(1) have "list_ex (\<lambda>x. tb_callId (iv_binding x) = i \<and> iv_status x = InvocationCompleted) (td_invocations d)"
      by (auto simp: invocations_ok_def list_all_iff)
    then show "list_ex (\<lambda>x. tb_callId (iv_binding x) = i \<and> iv_status x = InvocationCompleted) (td_invocations (write_invocation d r))"
      using u c by (intro links_completed_write) auto
  qed
  ultimately show ?thesis using assms(1) by (simp add: invocations_ok_def)
qed

lemma claimed_has_no_links:
  assumes "invocations_ok h d" "invocation_get d c = Some r" "iv_status r = InvocationClaimed"
  shows "lookup_by fst c (td_links d) = None"
proof (rule ccontr)
  assume "lookup_by fst c (td_links d) \<noteq> None"
  then obtain es where "(c, es) \<in> set (td_links d)" by (auto dest!: lookup_by_SomeD)
  with assms(1) obtain x where "x \<in> set (td_invocations d)" "iv_callId x = c" "iv_status x = InvocationCompleted"
    by (auto simp: invocations_ok_def list_all_iff list_ex_iff)
  moreover from this assms(1) have "invocation_get d c = Some x"
    by (simp add: invocations_ok_def invocation_get_def lookup_by_eq_Some_distinct)
  ultimately show False using assms(2,3) by simp
qed

lemma write_completed_ok:
  assumes "invocations_ok h d" "invocation_get d c = Some r" "iv_status r = InvocationClaimed"
    "invocation_checks (completed_row r co)"
  shows "invocations_ok h (linked (write_invocation d (completed_row r co)) (iv_callId r) ids)"
proof -
  have r: "r \<in> set (td_invocations d)" "iv_callId r = c" using invocation_get_in[OF assms(2)] by auto
  with assms have ok: "invocation_ok h (completed_row r co)" by (auto simp: invocations_ok_def list_all_iff invocation_ok_def)
  have w: "invocations_ok h (write_invocation d (completed_row r co))"
    using assms r(2) by (intro write_invocation_ok[OF assms(1) ok]) auto
  have "list_ex (\<lambda>x. tb_callId (iv_binding x) = c \<and> iv_status x = InvocationCompleted)
      (td_invocations (write_invocation d (completed_row r co)))"
    using r assms(1) by (auto simp: list_ex_iff write_invocation_def set_upsert invocations_ok_def)
  moreover have "c \<notin> set (List.map fst (td_links d))"
    using claimed_has_no_links[OF assms(1-3)] by (auto simp: lookup_by_None)
  ultimately show ?thesis using w r(2) by (auto simp: invocations_ok_def linked_def)
qed

lemma step_keeps_invocations_ok:
  assumes "invocation_step env h d d'" "invocations_ok h d"
  shows "invocations_ok h d'"
  using assms
proof (induction rule: invocation_step.induct)
  case (claim ci d res d')
  from claim(1) show ?case
  proof (cases rule: ledger_claim_cases)
    case (fresh x)
    then show ?thesis using claim(2) by (auto intro!: write_invocation_ok)
  next
    case (over r x)
    from invocation_get_in[OF over(1)] claim(2) have r: "invocation_ok h r" "iv_callId r = tb_callId (ci_binding ci)"
      by (auto simp: invocations_ok_def list_all_iff)
    then have "invocation_ok h (taken_over h ci r)"
      using over(2,7) by (auto simp: invocation_ok_def invocation_checks_def)
    then show ?thesis using over r(2) claim(2) by (auto intro!: write_invocation_ok)
  qed (use claim(2) in auto)
next
  case (complete co d res d')
  from complete(1) show ?case
  proof (cases rule: ledger_complete_cases)
    case (written r)
    from written(5) show ?thesis
      by (rule complete_claimed_Inr) (use written(1,2) complete(2) write_completed_ok in blast)
  qed (use complete(2) in auto)
next
  case (receipt sc k d d')
  then show ?case by (auto simp: invocations_ok_def dest!: receipts_append_frame)
qed (simp add: invocations_ok_def)

lemma run_keeps_invocations_ok: "(invocation_step env h)\<^sup>*\<^sup>* d d' \<Longrightarrow> invocations_ok h d \<Longrightarrow> invocations_ok h d'"
  by (induction rule: rtranclp_induct) (auto dest: step_keeps_invocations_ok)

text \<open>The stored result of a completed call answers every later claim of the same binding.\<close>

lemma completed_claim:
  assumes "invocation_get d (tb_callId (ci_binding ci)) = Some r" "iv_status r = InvocationCompleted"
    "iv_binding r = ci_binding ci" "completedToolInvocationFromRow env h r (loadToolInvocationEvidenceIds d (iv_callId r)) = Inr x"
    "tb_organizationId (ci_binding ci) = tn_org (td_tenant d)" "id_ok ''rcp'' (ci_proposedReceiptId ci)"
    "sha256_ok (th_token h (ci_ownerToken ci))" "claim_window_ok (ci_startedAt ci) (ci_claimExpiresAt ci)"
  shows "ledger_claim env h ci d = Inr (ClaimCompleted x, d)"
proof -
  from assms(2,4) have b: "toolInvocationBindingFromRow h r = Inr (iv_binding r)"
    unfolding completedToolInvocationFromRow_def
    by (auto simp: result_simps simp del: binding_from_row_Inr split: option.split_asm) simp_all
  then have "parseToolInvocationBinding h (ci_binding ci) = Inr (ci_binding ci)"
    using assms(3) by simp
  moreover have "claim_conflicts d ci" using assms(1) by (simp add: claim_conflicts_def)
  ultimately show ?thesis using assms b
    unfolding ledger_claim_def claim_existing_def by (simp del: parse_binding_Inr binding_from_row_Inr)
qed

end
