(* ===== verification/Tool_Dispatcher.thy ===== *)
theory Tool_Dispatcher
  imports Tool_Ledger Cancellation_Service
begin

text \<open>
  The dispatcher of tool calls (\<open>application/src/tool-dispatcher.ts\<close>) with the policy that
  authorizes a call (\<open>tool-invocation-policy.ts\<close>), the evidence of an abandoned write
  (\<open>tool-invocation-reconciliation-evidence-service.ts\<close>) and the handler that reads a mission's
  evidence (\<open>tool-service-handlers.ts\<close> over \<open>verification-evidence-service.ts\<close>).

  The ledger, the policy, the handler and the receipts each commit a transaction of their own,
  so \<open>invoke\<close> returns the state its committed parts left even when it throws.  The registry of
  handlers is a dependency of the dispatcher and a parameter here.  The digest of an input and
  the keyed digest of a scope are parameters; an input is the value its schema reads, defaults
  filled in.
\<close>

section \<open>Callers\<close>

datatype tool_identity =
    SessionIdentity session_context
  | DelegatedIdentity delegated_context
  | MissionIdentity execution_context

fun identity_principal :: "tool_identity \<Rightarrow> principal" where
  "identity_principal (SessionIdentity c) = sc_principal c"
| "identity_principal (DelegatedIdentity c) = dc_principal c"
| "identity_principal (MissionIdentity c) = xc_principal c"

record tool_host =
  ho_authentication :: tool_identity
  ho_missionId :: string
  ho_channel :: call_channel
  ho_aborted :: bool

record tool_request =
  tq_callId :: string
  tq_toolName :: tool_name
  tq_input :: tool_input

text \<open>\<open>HmacToolInvocationScopeHasher\<close>: the keyed digest and that of an identity are parameters.\<close>

datatype identity_kind = KindSession | KindDelegated | KindMissionService

record scope_digests =
  sd_hmac :: "string \<Rightarrow> string"
  sd_identity :: "identity_kind \<Rightarrow> string \<Rightarrow> principal \<Rightarrow> string"
  sd_input :: "tool_input \<Rightarrow> string"

definition scope_digest :: "scope_digests \<Rightarrow> string \<Rightarrow> err + string" where
  "scope_digest sd v = (if sha256_ok (sd_hmac sd v) then Inr (sd_hmac sd v) else Inl (ZodError ''ToolTenantScopeHash''))"

definition scope_tenant :: "scope_digests \<Rightarrow> string \<Rightarrow> err + string" where
  "scope_tenant sd org = scope_digest sd (''tenant@1.'' @ org)"

fun identity_digest :: "scope_digests \<Rightarrow> tool_identity \<Rightarrow> string" where
  "identity_digest sd (SessionIdentity c) = sd_identity sd KindSession (sc_sessionId c) (sc_principal c)"
| "identity_digest sd (DelegatedIdentity c) = sd_identity sd KindDelegated (dc_tokenId c) (dc_principal c)"
| "identity_digest sd (MissionIdentity c) =
     sd_identity sd KindMissionService (pr_actorId (xc_principal c)) (xc_principal c)"

definition scope_principal :: "scope_digests \<Rightarrow> tool_identity \<Rightarrow> err + string" where
  "scope_principal sd a = (if \<not> principal_ok (identity_principal a) then Inl (ZodError ''Principal'')
     else scope_digest sd (''principal@1.'' @ identity_digest sd a))"

text \<open>\<open>#assertAuthenticatedHost\<close>: the clock is read for every kind of caller.\<close>

definition assertAuthenticatedHost :: "env \<Rightarrow> tool_host \<Rightarrow> tenant \<Rightarrow> err + (principal \<times> tenant)" where
  "assertAuthenticatedHost env ho s =
     (let a = ho_authentication ho; p = identity_principal a; now = read_clock env s in
      if \<not> principal_ok p then Inl (ZodError ''Principal'')
      else sbind (case a of
          SessionIdentity c \<Rightarrow> guard_that (now < sc_expiresAt c) (AuthenticationError ''Authenticated tool identity has expired'')
        | DelegatedIdentity c \<Rightarrow> guard_that (now < dc_expiresAt c) (AuthenticationError ''Authenticated tool identity has expired'')
        | MissionIdentity c \<Rightarrow> assertMissionExecutionContext c (pr_organizationId p) (ho_missionId ho)) (\<lambda>_.
      if ho_aborted ho then Inl (PlainError ''AbortError'') else Inr (p, tick s)))"

section \<open>Policy\<close>

text \<open>What a policy or a handler may throw.\<close>

datatype failure_status = FailConflict | FailDenied | FailFailed

datatype thrown =
    HandlerFailure failure_status tool_error bool
  | PhaseDenied
  | Raised err

definition unavailable :: thrown where
  "unavailable = Raised (NotFoundError ''Resource'')"

text \<open>\<open>routines.get\<close> of the repository: the given version, or the active one.\<close>

definition routine_with_version :: "tenant \<Rightarrow> string \<Rightarrow> string option \<Rightarrow> (routine \<times> routine_version) option" where
  "routine_with_version s r v = (case routine_get s r of None \<Rightarrow> None | Some x \<Rightarrow>
     (case (case v of None \<Rightarrow> ro_activeVersionId x | Some i \<Rightarrow> Some i) of None \<Rightarrow> None
      | Some i \<Rightarrow> (case version_of s r i of None \<Rightarrow> None | Some y \<Rightarrow> Some (x, y))))"

definition routine_available :: "tenant \<Rightarrow> string \<Rightarrow> mission \<Rightarrow> string \<Rightarrow> string option \<Rightarrow> bool" where
  "routine_available s org m r v = (case routine_with_version s r v of None \<Rightarrow> False
     | Some (x, _) \<Rightarrow> ro_organizationId x = org \<and> ro_palaceId x = mi_palaceId m)"

definition plan_available :: "tenant \<Rightarrow> string \<Rightarrow> mission \<Rightarrow> string \<Rightarrow> bool" where
  "plan_available s org m i = (case plan_get s i of None \<Rightarrow> False
     | Some p \<Rightarrow> pl_organizationId p = org \<and> pl_missionId p = mi_id m)"

definition operation_available :: "tenant \<Rightarrow> string \<Rightarrow> mission \<Rightarrow> string \<Rightarrow> bool" where
  "operation_available s org m i = (case operation_get s i of None \<Rightarrow> False
     | Some x \<Rightarrow> op_organizationId x = org \<and> op_missionId x = mi_id m)"

definition within_reach :: "bool \<Rightarrow> thrown + unit" where
  "within_reach b = (if b then Inr () else Inl unavailable)"

fun input_authorized :: "tenant \<Rightarrow> string \<Rightarrow> mission \<Rightarrow> tool_input \<Rightarrow> thrown + unit" where
  "input_authorized s org m (PalacesGetInput p) = within_reach (p = mi_palaceId m)"
| "input_authorized s org m (CrewsListInput p _) = within_reach (p = mi_palaceId m)"
| "input_authorized s org m (CapabilitiesListInput p) = within_reach (p = mi_palaceId m)"
| "input_authorized s org m (RoutinesListInput p _) = within_reach (p = mi_palaceId m)"
| "input_authorized s org m (RoutinesGetInput r v) = within_reach (routine_available s org m r v)"
| "input_authorized s org m (ExecutionsListInput r mi _) = within_reach (
     (case mi of None \<Rightarrow> True | Some i \<Rightarrow> i = mi_id m) \<and>
     (case r of None \<Rightarrow> True | Some i \<Rightarrow> routine_available s org m i None))"
| "input_authorized s org m (KnowledgeSearchInput _ ph _) =
     (if ph \<noteq> ms_phase (mi_state m) then Inl PhaseDenied else Inr ())"
| "input_authorized s org m (PlansProposeInput i _ _ _) = within_reach (i = mi_id m)"
| "input_authorized s org m (VerificationGetEvidenceInput i) = within_reach (i = mi_id m)"
| "input_authorized s org m (MissionsCancelInput i _) = within_reach (i = mi_id m)"
| "input_authorized s org m (PlansValidateInput p) = within_reach (plan_available s org m p)"
| "input_authorized s org m (PlansSimulateInput p _) = within_reach (plan_available s org m p)"
| "input_authorized s org m (PlansRequestApprovalInput p) = within_reach (plan_available s org m p)"
| "input_authorized s org m (PlansActivateInput p _ _) = within_reach (plan_available s org m p)"
| "input_authorized s org m (OperationsGetInput i) = within_reach (operation_available s org m i)"

definition policy_authorize :: "tenant \<Rightarrow> string \<Rightarrow> string \<Rightarrow> tool_input \<Rightarrow> thrown + mission" where
  "policy_authorize s org missionId x = (case mission_get s missionId of
     None \<Rightarrow> Inl unavailable
   | Some m \<Rightarrow>
       if mi_organizationId m \<noteq> org then Inl unavailable
       else if \<not> List.member (kc_allowedPhases (TOOL_REGISTRY (tool_of x))) (ms_phase (mi_state m)) then Inl PhaseDenied
       else (case input_authorized s org m x of Inl e \<Rightarrow> Inl e | Inr _ \<Rightarrow> Inr m))"

section \<open>Handlers\<close>

datatype outcome_status = OutcomeSucceeded | OutcomePending | OutcomeUnknown

fun result_status_of :: "outcome_status \<Rightarrow> result_status" where
  "result_status_of OutcomeSucceeded = CallSucceeded"
| "result_status_of OutcomePending = CallPending"
| "result_status_of OutcomeUnknown = CallUnknown"

record tool_outcome =
  ot_status :: outcome_status
  ot_data :: "tool_output option"
  ot_retryable :: "bool option"
  ot_error :: "tool_error option"
  ot_resourceVersion :: "nat option"
  ot_attemptId :: "string option"
  ot_evidenceIds :: "string list"

type_synonym tool_handler = "string \<Rightarrow> tool_host \<Rightarrow> mission \<Rightarrow> tool_input \<Rightarrow> tenant \<Rightarrow> (thrown + tool_outcome) \<times> tenant"

text \<open>\<open>VerificationEvidenceService.get\<close> and the handler of \<open>verification.get_evidence\<close>.\<close>

definition verification_evidence_get :: "env \<Rightarrow> principal \<Rightarrow> string \<Rightarrow> tenant \<Rightarrow> err + evidence list" where
  "verification_evidence_get env p missionId s =
     sbind (assertPermission p VerificationRead) (\<lambda>_.
     if \<not> id_ok ''mis'' missionId then Inl (ZodError ''MissionId'')
     else sbind (required (mission_get s missionId) (NotFoundError ''Mission'')) (\<lambda>m.
       let es = List.map pe_evidence (evidence_for_mission s missionId) in
       if mi_organizationId m \<noteq> pr_organizationId p \<or>
          list_ex (\<lambda>e. ev_organizationId e \<noteq> pr_organizationId p \<or> ev_missionId e \<noteq> mi_id m) es
         then Inl (ConflictError ''Evidence projection did not match the requested mission'')
       else if \<not> list_all (evidence_ok (en_obsHash env)) es then Inl (ZodError ''VerificationGetEvidenceOutput'')
       else Inr es))"

definition evidence_handler :: "env \<Rightarrow> tool_handler" where
  "evidence_handler env callId ho m x s = (case x of
     VerificationGetEvidenceInput i \<Rightarrow>
       (case verification_evidence_get env (identity_principal (ho_authentication ho)) i s of
          Inl e \<Rightarrow> (Inl (Raised e), s)
        | Inr es \<Rightarrow> (Inr \<lparr> ot_status = OutcomeSucceeded, ot_data = Some (VerificationGetEvidenceOutput es),
            ot_retryable = None, ot_error = None, ot_resourceVersion = None, ot_attemptId = None,
            ot_evidenceIds = List.map ev_id es \<rparr>, s))
   | _ \<Rightarrow> (Inl (Raised (ZodError ''ToolInput'')), s))"

section \<open>Results\<close>

definition safeError :: "string \<Rightarrow> string \<Rightarrow> tool_error" where
  "safeError code message = \<lparr> xe_code = code, xe_message = message, xe_details = [] \<rparr>"

definition failureResult ::
    "env \<Rightarrow> tool_name \<Rightarrow> string \<Rightarrow> string \<Rightarrow> result_status \<Rightarrow> bool \<Rightarrow> tool_error \<Rightarrow> err + tool_result" where
  "failureResult env t callId receiptId st retry e = parseToolResult env t
     \<lparr> rt_toolName = t, rt_callId = callId, rt_status = st, rt_retryable = retry, rt_data = None,
       rt_receiptId = receiptId, rt_resourceVersion = None, rt_error = Some e \<rparr>"

fun failure_result_status :: "failure_status \<Rightarrow> result_status" where
  "failure_result_status FailConflict = CallConflict"
| "failure_result_status FailDenied = CallDenied"
| "failure_result_status FailFailed = CallFailed"

definition current_state_conflict :: "result_status \<times> tool_error" where
  "current_state_conflict = (CallConflict,
     safeError ''CURRENT_STATE_CONFLICT'' ''The request conflicts with current state.'')"

text \<open>The classes of \<open>application/src/errors.ts\<close> under \<open>ApplicationError\<close>; the others are not.\<close>

fun error_result :: "err \<Rightarrow> result_status \<times> tool_error" where
  "error_result (NotFoundError _) =
     (CallFailed, safeError ''RESOURCE_NOT_FOUND'' ''The requested resource is unavailable.'')"
| "error_result (AuthenticationError _) =
     (CallDenied, safeError ''AUTHENTICATION_REQUIRED'' ''Current authentication is required.'')"
| "error_result (ConflictError _) = current_state_conflict"
| "error_result (OptimisticConcurrencyError _) = current_state_conflict"
| "error_result ApprovalExpiredError = current_state_conflict"
| "error_result LeaseUnavailableError = current_state_conflict"
| "error_result LeaseLostError = current_state_conflict"
| "error_result (PolicyViolationError _) =
     (CallConflict, safeError ''POLICY_CONFLICT'' ''The request conflicts with enforced policy.'')"
| "error_result _ =
     (CallFailed, safeError ''INTERNAL_ERROR'' ''The tool invocation failed without a safe result.'')"

fun mapThrownError :: "env \<Rightarrow> tool_name \<Rightarrow> string \<Rightarrow> string \<Rightarrow> thrown \<Rightarrow> err + tool_result" where
  "mapThrownError env t c r (HandlerFailure st e retry) = failureResult env t c r (failure_result_status st) retry e"
| "mapThrownError env t c r PhaseDenied = failureResult env t c r CallDenied False
     (safeError ''MISSION_PHASE_DENIED'' ''The tool is unavailable at this mission phase.'')"
| "mapThrownError env t c r (Raised x) = (case error_result x of (st, e) \<Rightarrow> failureResult env t c r st False e)"

definition handlerResult :: "env \<Rightarrow> tool_name \<Rightarrow> string \<Rightarrow> string \<Rightarrow> tool_outcome \<Rightarrow> err + tool_result" where
  "handlerResult env t callId receiptId x =
     (if (case ot_data x of None \<Rightarrow> False | Some d \<Rightarrow> \<not> (output_tool d = t \<and> tool_output_ok env d))
        then Inl (ZodError ''ToolOutput'')
      else parseToolResult env t
        \<lparr> rt_toolName = t, rt_callId = callId, rt_status = result_status_of (ot_status x),
          rt_retryable = (case ot_retryable x of None \<Rightarrow> ot_status x \<noteq> OutcomeSucceeded | Some b \<Rightarrow> b),
          rt_data = ot_data x, rt_receiptId = receiptId, rt_resourceVersion = ot_resourceVersion x,
          rt_error = (if ot_status x = OutcomeSucceeded then None else ot_error x) \<rparr>)"

section \<open>Executing a call\<close>

record execution_outcome =
  xo_result :: tool_result
  xo_attemptId :: "string option"
  xo_evidenceIds :: "string list"

definition without_evidence :: "err + tool_result \<Rightarrow> err + execution_outcome" where
  "without_evidence r = sbind r (\<lambda>x. Inr \<lparr> xo_result = x, xo_attemptId = None, xo_evidenceIds = [] \<rparr>)"

text \<open>What a handler returned: its references are checked before its result is built.\<close>

definition outcome_references_ok :: "tool_outcome \<Rightarrow> bool" where
  "outcome_references_ok x = (opt_id_ok ''att'' (ot_attemptId x) \<and> list_all (id_ok ''evd'') (ot_evidenceIds x) \<and>
     unique (ot_evidenceIds x) \<and>
     \<not> (ot_status x = OutcomeUnknown \<and> ot_attemptId x = None \<and> ot_evidenceIds x = []))"

definition outcome_result :: "env \<Rightarrow> tool_name \<Rightarrow> string \<Rightarrow> string \<Rightarrow> tool_outcome \<Rightarrow> err + execution_outcome" where
  "outcome_result env t callId receiptId x =
     (case (if outcome_references_ok x then handlerResult env t callId receiptId x else Inl (TypeError ''references'')) of
        Inr r \<Rightarrow> Inr \<lparr> xo_result = r, xo_attemptId = ot_attemptId x, xo_evidenceIds = ot_evidenceIds x \<rparr>
      | Inl _ \<Rightarrow> without_evidence (failureResult env t callId receiptId CallFailed False
          (safeError ''MALFORMED_HANDLER_OUTPUT'' ''The service returned an output that failed the tool contract.'')))"

text \<open>What stands between a claim and its handler.\<close>

definition call_refusal ::
    "env \<Rightarrow> tool_request \<Rightarrow> tool_host \<Rightarrow> principal \<Rightarrow> string \<Rightarrow> tenant \<Rightarrow> (err + tool_result) + mission" where
  "call_refusal env rq ho p receiptId s =
     (let t = tq_toolName rq; c = tq_callId rq in
      if \<not> principalHasPermission p (kc_permission (TOOL_REGISTRY t))
        then Inl (failureResult env t c receiptId CallDenied False
          (safeError ''PERMISSION_DENIED'' ''The authenticated principal lacks this scope.''))
      else if \<not> (tool_of (tq_input rq) = t \<and> tool_input_ok (tq_input rq))
        then Inl (failureResult env t c receiptId CallFailed False
          (safeError ''INVALID_INPUT'' ''The tool input does not match its exact schema.''))
      else (case policy_authorize s (pr_organizationId p) (ho_missionId ho) (tq_input rq) of
        Inl e \<Rightarrow> Inl (mapThrownError env t c receiptId e)
      | Inr m \<Rightarrow> Inr m))"

definition execute_call ::
    "env \<Rightarrow> tool_handler \<Rightarrow> tool_request \<Rightarrow> tool_host \<Rightarrow> principal \<Rightarrow> string \<Rightarrow> tenant \<Rightarrow>
     (err + execution_outcome) \<times> tenant" where
  "execute_call env handler rq ho p receiptId s =
     (case call_refusal env rq ho p receiptId s of
        Inl r \<Rightarrow> (without_evidence r, s)
      | Inr m \<Rightarrow> (case handler (tq_callId rq) ho m (tq_input rq) s of
          (Inl e, s') \<Rightarrow> (without_evidence (mapThrownError env (tq_toolName rq) (tq_callId rq) receiptId e), s')
        | (Inr x, s') \<Rightarrow> (outcome_result env (tq_toolName rq) (tq_callId rq) receiptId x, s')))"

section \<open>The evidence of an abandoned write\<close>

definition abandoned_observation :: "string \<Rightarrow> tool_name \<Rightarrow> string \<Rightarrow> nat \<Rightarrow> instant \<Rightarrow> tool_reconciliation" where
  "abandoned_observation callId t bindingHash generation expiredAt =
     \<lparr> tr_toolCallId = callId, tr_toolName = tool_string t, tr_invocationBindingHash = bindingHash,
       tr_abandonedClaimGeneration = generation, tr_claimExpiredAt = expiredAt,
       tr_durableObservation = ExpiredClaimWithoutTerminalResult, tr_reconciledOutcome = RoStillUnknown,
       tr_observedResultHash = None, tr_observedAttemptId = None \<rparr>"

definition abandoned_record ::
    "env \<Rightarrow> mission \<Rightarrow> tool_reconciliation \<Rightarrow> string \<Rightarrow> string \<Rightarrow> instant \<Rightarrow> persisted_evidence" where
  "abandoned_record env m t evidenceId receiptId observedAt =
     \<lparr> pe_evidence = \<lparr> ev_id = evidenceId, ev_organizationId = mi_organizationId m, ev_missionId = mi_id m,
         ev_palaceId = mi_palaceId m, ev_observedAt = observedAt,
         ev_body = ToolInvocationReconciliation t (en_obsHash env t observedAt) \<rparr>,
       pe_receipt = \<lparr> ar_id = receiptId, ar_evidenceId = evidenceId, ar_organizationId = mi_organizationId m,
         ar_missionId = mi_id m, ar_palaceId = mi_palaceId m, ar_verifiedAt = observedAt,
         ar_authority = ApplicationReceipt ''tool_invocation.abandoned_write'' 1 [] True \<rparr>,
       pe_persistedAt = observedAt \<rparr>"

definition observation_ok :: "string \<Rightarrow> string \<Rightarrow> tool_reconciliation \<Rightarrow> instant \<Rightarrow> bool" where
  "observation_ok org missionId t observedAt = (id_ok ''org'' org \<and> id_ok ''mis'' missionId \<and>
     id_ok ''call'' (tr_toolCallId t) \<and> List.member tool_names (tr_toolName t) \<and>
     sha256_ok (tr_invocationBindingHash t) \<and> 0 < tr_abandonedClaimGeneration t \<and>
     opt_sha_ok (tr_observedResultHash t) \<and> opt_id_ok ''att'' (tr_observedAttemptId t) \<and>
     tool_reconciliation_semantics_ok t observedAt)"

definition recordStillUnknown ::
    "env \<Rightarrow> string \<Rightarrow> string \<Rightarrow> string \<Rightarrow> tool_name \<Rightarrow> string \<Rightarrow> nat \<Rightarrow> instant \<Rightarrow> tenant \<Rightarrow>
     err + (persisted_evidence \<times> tenant)" where
  "recordStillUnknown env org missionId callId t bindingHash generation expiredAt s =
     (let observedAt = read_clock env s; s1 = tick s;
          x = abandoned_observation callId t bindingHash generation expiredAt in
      if \<not> observation_ok org missionId x observedAt then Inl (ZodError ''ToolInvocationReconciliationObservation'')
      else sbind (required (mission_get s1 missionId) (NotFoundError ''Mission'')) (\<lambda>m.
        let evidenceId = fresh_id env IdEvidence s1; s2 = bump s1;
            receiptId = fresh_id env IdReceipt s2; s3 = bump s2;
            p = abandoned_record env m x evidenceId receiptId observedAt in
        sbind (appendMany env Unfenced [p] s3) (\<lambda>s4. Inr (p, s4))))"

section \<open>The claim of a call\<close>

definition on_tenant :: "(tenant \<Rightarrow> tenant) \<Rightarrow> tool_db \<Rightarrow> tool_db" where
  "on_tenant f d = d\<lparr> td_tenant := f (td_tenant d) \<rparr>"

definition receipt_suffix :: "string \<Rightarrow> string" where
  "receipt_suffix v = List.map (\<lambda>c. let l = lower_of c in if is_id_char l then l else CHR ''_'') v"

definition request_binding ::
    "tool_hashes \<Rightarrow> scope_digests \<Rightarrow> tool_request \<Rightarrow> tool_host \<Rightarrow> string \<Rightarrow> string \<Rightarrow> tool_binding" where
  "request_binding h sd rq ho org scopeHash =
     \<lparr> tb_organizationId = org, tb_missionId = ho_missionId ho, tb_principalScopeHash = scopeHash,
       tb_callId = tq_callId rq, tb_toolName = tq_toolName rq, tb_channel = ho_channel ho,
       tb_inputHash = sd_input sd (tq_input rq), tb_toolContractHash = th_contract h (tq_toolName rq),
       tb_toolRegistryHash = th_registry h, tb_resultSchemaHash = th_resultSchema h (tq_toolName rq),
       tb_executionClass = executionClassFor (tq_toolName rq) \<rparr>"

definition claim_ttl_ok :: "int \<Rightarrow> bool" where
  "claim_ttl_ok ttl = (\<not> (ttl < 1000 \<or> 5 * 60000 < ttl))"

text \<open>
  The first part of \<open>invoke\<close>, up to the claim: two tokens of entropy and two readings of the clock,
  one for the start and one for the expiry of the claim.
\<close>

definition prepare_claim ::
    "env \<Rightarrow> tool_hashes \<Rightarrow> scope_digests \<Rightarrow> int \<Rightarrow> tool_request \<Rightarrow> tool_host \<Rightarrow> tenant \<Rightarrow>
     err + (principal \<times> string \<times> claim_input \<times> tenant)" where
  "prepare_claim env h sd ttl rq ho s =
     (if \<not> id_ok ''call'' (tq_callId rq) then Inl (ZodError ''ToolCallId'')
      else if \<not> id_ok ''mis'' (ho_missionId ho) then Inl (ZodError ''MissionId'')
      else sbind (assertAuthenticatedHost env ho s) (\<lambda>(p, s1).
        sbind (scope_tenant sd (pr_organizationId p)) (\<lambda>tenantScope.
        sbind (scope_principal sd (ho_authentication ho)) (\<lambda>principalScope.
        sbind (fromEntropy (en_entropy env (tn_ids s1))) (\<lambda>token.
        let s2 = bump s1; startedAt = read_clock env s2; s3 = tick s2;
            receiptId = ''rcp_x'' @ receipt_suffix (en_entropy env (tn_ids s3)); s4 = bump s3 in
        if \<not> id_ok ''rcp'' receiptId then Inl (ZodError ''ReceiptId'')
        else Inr (p, tenantScope,
          \<lparr> ci_binding = request_binding h sd rq ho (pr_organizationId p) principalScope,
            ci_proposedReceiptId = receiptId, ci_ownerToken = token, ci_startedAt = startedAt,
            ci_claimExpiresAt = read_clock env s4 + ttl \<rparr>, tick s4))))))"

section \<open>Completion and replay\<close>

definition pendingResult :: "env \<Rightarrow> tool_name \<Rightarrow> string \<Rightarrow> string \<Rightarrow> err + tool_result" where
  "pendingResult env t callId receiptId = failureResult env t callId receiptId CallPending True
     (safeError ''CALL_IN_PROGRESS'' ''The same tool call is still in progress.'')"

definition reconciliationPendingResult :: "env \<Rightarrow> tool_name \<Rightarrow> string \<Rightarrow> string \<Rightarrow> err + tool_result" where
  "reconciliationPendingResult env t callId receiptId = failureResult env t callId receiptId CallPending True
     (safeError ''RECONCILIATION_PENDING'' ''The abandoned write is waiting for durable reconciliation evidence.'')"

definition unknownResult :: "env \<Rightarrow> tool_name \<Rightarrow> string \<Rightarrow> string \<Rightarrow> err + tool_result" where
  "unknownResult env t callId receiptId = failureResult env t callId receiptId CallUnknown False
     (safeError ''OUTCOME_UNKNOWN''
       ''The earlier write may have completed. Durable reconciliation is required before a new call.'')"

definition completed_receipt :: "string \<Rightarrow> completed_record \<Rightarrow> call_receipt" where
  "completed_receipt tenantScope x =
     \<lparr> tk_id = cd_receiptId x, tk_callId = tb_callId (cd_binding x), tk_toolName = tb_toolName (cd_binding x),
       tk_status = rt_status (cd_result x), tk_channel = tb_channel (cd_binding x),
       tk_tenantScopeHash = tenantScope, tk_inputHash = tb_inputHash (cd_binding x),
       tk_resultHash = cd_resultHash x, tk_toolContractHash = tb_toolContractHash (cd_binding x),
       tk_toolRegistryHash = tb_toolRegistryHash (cd_binding x), tk_attemptId = cd_attemptId x,
       tk_evidenceIds = cd_evidenceIds x, tk_startedAt = cd_startedAt x, tk_completedAt = cd_completedAt x \<rparr>"

definition replayCompleted ::
    "env \<Rightarrow> tool_hashes \<Rightarrow> tool_name \<Rightarrow> string \<Rightarrow> completed_record \<Rightarrow> tool_db \<Rightarrow> (err + tool_result) \<times> tool_db" where
  "replayCompleted env h t tenantScope x d =
     (case parseToolResult env t (cd_result x) of
        Inl e \<Rightarrow> (Inl e, d)
      | Inr result \<Rightarrow>
          if rt_callId result \<noteq> tb_callId (cd_binding x) \<or> rt_receiptId result \<noteq> cd_receiptId x \<or>
             cd_resultHash x \<noteq> th_result h result
            then (Inl (PlainError ''Stored tool result does not match its invocation''), d)
          else (case receipts_append env h tenantScope (completed_receipt tenantScope x) d of
            Inl e \<Rightarrow> (Inl e, d) | Inr d' \<Rightarrow> (Inr result, d')))"

definition completion_of ::
    "tool_hashes \<Rightarrow> claim_input \<Rightarrow> claimed_record \<Rightarrow> execution_outcome \<Rightarrow> instant \<Rightarrow> completion_input" where
  "completion_of h ci cl x now =
     \<lparr> co_organizationId = tb_organizationId (ci_binding ci), co_callId = tb_callId (ci_binding ci),
       co_generation = cl_generation cl, co_ownerToken = ci_ownerToken ci, co_result = xo_result x,
       co_resultHash = th_result h (xo_result x), co_attemptId = xo_attemptId x,
       co_evidenceIds = xo_evidenceIds x, co_completedAt = now \<rparr>"

definition complete_call ::
    "env \<Rightarrow> tool_hashes \<Rightarrow> tool_name \<Rightarrow> string \<Rightarrow> claim_input \<Rightarrow> claimed_record \<Rightarrow> execution_outcome \<Rightarrow> tool_db \<Rightarrow>
     (err + tool_result) \<times> tool_db" where
  "complete_call env h t tenantScope ci cl x d =
     (let now = read_clock env (td_tenant d); d1 = on_tenant tick d in
      case ledger_complete env h (completion_of h ci cl x now) d1 of
        Inl e \<Rightarrow> (Inl e, d1)
      | Inr (LostClaim _, d2) \<Rightarrow> (pendingResult env t (tb_callId (ci_binding ci)) (cl_receiptId cl), d2)
      | Inr (Completed y, d2) \<Rightarrow> replayCompleted env h t tenantScope y d2)"

section \<open>\<open>invoke\<close>\<close>

definition run_claimed ::
    "env \<Rightarrow> tool_hashes \<Rightarrow> tool_handler \<Rightarrow> tool_request \<Rightarrow> tool_host \<Rightarrow> principal \<Rightarrow> string \<Rightarrow> claim_input \<Rightarrow>
     claimed_record \<Rightarrow> tool_db \<Rightarrow> (err + tool_result) \<times> tool_db" where
  "run_claimed env h handler rq ho p tenantScope ci cl d =
     (case execute_call env handler rq ho p (cl_receiptId cl) (td_tenant d) of
        (Inl e, s) \<Rightarrow> (Inl e, on_tenant (\<lambda>_. s) d)
      | (Inr x, s) \<Rightarrow> complete_call env h (tq_toolName rq) tenantScope ci cl x (on_tenant (\<lambda>_. s) d))"

definition resolve_abandoned ::
    "env \<Rightarrow> tool_hashes \<Rightarrow> tool_request \<Rightarrow> string \<Rightarrow> claim_input \<Rightarrow> claimed_record \<Rightarrow> nat \<Rightarrow> instant \<Rightarrow>
     tool_db \<Rightarrow> (err + tool_result) \<times> tool_db" where
  "resolve_abandoned env h rq tenantScope ci cl generation expiredAt d =
     (let b = ci_binding ci; t = tq_toolName rq; c = tq_callId rq in
      case recordStillUnknown env (tb_organizationId b) (tb_missionId b) c t (th_binding h b) generation expiredAt
             (td_tenant d) of
        Inl _ \<Rightarrow> (reconciliationPendingResult env t c (cl_receiptId cl), on_tenant tick d)
      | Inr (p, s) \<Rightarrow>
          (case unknownResult env t c (cl_receiptId cl) of
             Inl e \<Rightarrow> (Inl e, on_tenant (\<lambda>_. s) d)
           | Inr r \<Rightarrow> complete_call env h t tenantScope ci cl
               \<lparr> xo_result = r, xo_attemptId = None, xo_evidenceIds = [ev_id (pe_evidence p)] \<rparr>
               (on_tenant (\<lambda>_. s) d)))"

definition invoke ::
    "env \<Rightarrow> tool_hashes \<Rightarrow> scope_digests \<Rightarrow> int \<Rightarrow> tool_handler \<Rightarrow> tool_request \<Rightarrow> tool_host \<Rightarrow> tool_db \<Rightarrow>
     (err + tool_result) \<times> tool_db" where
  "invoke env h sd ttl handler rq ho d =
     (case prepare_claim env h sd ttl rq ho (td_tenant d) of
        Inl e \<Rightarrow> (Inl e, d)
      | Inr (p, tenantScope, ci, s) \<Rightarrow>
          (case ledger_claim env h ci (on_tenant (\<lambda>_. s) d) of
             Inl e \<Rightarrow> (Inl e, on_tenant (\<lambda>_. s) d)
           | Inr (ClaimCompleted x, d1) \<Rightarrow> replayCompleted env h (tq_toolName rq) tenantScope x d1
           | Inr (ClaimInProgress x, d1) \<Rightarrow> (pendingResult env (tq_toolName rq) (tq_callId rq) (cl_receiptId x), d1)
           | Inr (ClaimedResolve x generation expiredAt, d1) \<Rightarrow>
               resolve_abandoned env h rq tenantScope ci x generation expiredAt d1
           | Inr (ClaimedExecute x, d1) \<Rightarrow> run_claimed env h handler rq ho p tenantScope ci x d1))"

end
