(* ===== verification/Tool_Protocol.thy ===== *)
theory Tool_Protocol
  imports Tool_Dispatcher
begin

text \<open>
  What repeated, concurrent and crashing calls of tools come to: dispatchers in any number over
  the ledger of \<open>Tool_Ledger\<close>, each doing the steps of \<open>Tool_Dispatcher\<close>.
\<close>

section \<open>Calls in flight\<close>

text \<open>
  Many dispatchers on one ledger.  A call that was claimed for execution is in flight until it
  runs or its process dies; between any two steps other processes claim, complete, record
  receipts and change the rest of the store as they like.  The log keeps the calls whose handler
  was let run.
\<close>

record flight =
  fl_request :: tool_request
  fl_host :: tool_host
  fl_principal :: principal
  fl_claim :: claim_input
  fl_claimed :: claimed_record

record fleet =
  ft_db :: tool_db
  ft_flights :: "flight list"
  ft_log :: "(string \<times> tool_name) list"

definition flight_call :: "flight \<Rightarrow> string \<times> tool_name" where
  "flight_call f = (tq_callId (fl_request f), tq_toolName (fl_request f))"

inductive dispatch_step ::
    "env \<Rightarrow> tool_hashes \<Rightarrow> scope_digests \<Rightarrow> int \<Rightarrow> tool_handler \<Rightarrow> fleet \<Rightarrow> fleet \<Rightarrow> bool"
  for env h sd ttl handler where
  admit: "prepare_claim env h sd ttl rq ho (td_tenant (ft_db f)) = Inr (p, sc, ci, s) \<Longrightarrow>
    ledger_claim env h ci (on_tenant (\<lambda>_. s) (ft_db f)) = Inr (ClaimedExecute x, d) \<Longrightarrow>
    dispatch_step env h sd ttl handler f (f\<lparr> ft_db := d,
      ft_flights := ft_flights f @ [\<lparr> fl_request = rq, fl_host = ho, fl_principal = p, fl_claim = ci, fl_claimed = x \<rparr>] \<rparr>)"
| run: "ft_flights f = as @ c # bs \<Longrightarrow>
    execute_call env handler (fl_request c) (fl_host c) (fl_principal c) (cl_receiptId (fl_claimed c))
      (td_tenant (ft_db f)) = (out, s) \<Longrightarrow> tn_org s = tn_org (td_tenant (ft_db f)) \<Longrightarrow>
    dispatch_step env h sd ttl handler f (f\<lparr> ft_db := on_tenant (\<lambda>_. s) (ft_db f), ft_flights := as @ bs,
      ft_log := ft_log f @ [flight_call c] \<rparr>)"
| crash: "ft_flights f = as @ c # bs \<Longrightarrow>
    dispatch_step env h sd ttl handler f (f\<lparr> ft_flights := as @ bs \<rparr>)"
| ledger: "invocation_step env h (ft_db f) d \<Longrightarrow> dispatch_step env h sd ttl handler f (f\<lparr> ft_db := d \<rparr>)"

definition is_write :: "string \<Rightarrow> string \<times> tool_name \<Rightarrow> bool" where
  "is_write c x = (fst x = c \<and> executionClassFor (snd x) \<noteq> ClassRead)"

definition writes_of :: "string \<Rightarrow> fleet \<Rightarrow> nat" where
  "writes_of c f = length (filter (is_write c) (List.map flight_call (ft_flights f) @ ft_log f))"

definition fleet_ok :: "fleet \<Rightarrow> bool" where
  "fleet_ok f = (\<forall>c. writes_of c f \<le> (if invocation_get (ft_db f) c = None then 0 else 1))"

lemma invocation_kept:
  assumes "invocation_step env h d d'" "invocation_get d c \<noteq> None"
  shows "invocation_get d' c \<noteq> None"
  using assms(1)
proof cases
  case (claim ci res)
  from this(1) show ?thesis by (cases rule: ledger_claim_cases) (use assms(2) in auto)
next
  case (complete co res)
  from this(1) show ?thesis
    by (cases rule: ledger_complete_cases) (use assms(2) in \<open>auto elim!: complete_claimed_Inr\<close>)
next
  case (receipt sc k)
  from receipts_append_frame[OF this] assms(2) show ?thesis by (simp add: invocation_get_def)
qed (use assms(2) in auto)

lemma on_tenant_sel [simp]:
  "td_tenant (on_tenant g d) = g (td_tenant d)" "invocation_get (on_tenant g d) c = invocation_get d c"
  "td_invocations (on_tenant g d) = td_invocations d" "td_links (on_tenant g d) = td_links d"
  "loadToolInvocationEvidenceIds (on_tenant g d) c = loadToolInvocationEvidenceIds d c"
  by (simp_all add: on_tenant_def)

lemma prepare_claim_Inr:
  assumes "prepare_claim env h sd ttl rq ho s = Inr (p, sc, ci, s')"
  shows "tb_callId (ci_binding ci) = tq_callId rq \<and> tb_toolName (ci_binding ci) = tq_toolName rq \<and>
    tb_executionClass (ci_binding ci) = executionClassFor (tq_toolName rq) \<and>
    tb_organizationId (ci_binding ci) = pr_organizationId p \<and> tb_missionId (ci_binding ci) = ho_missionId ho \<and>
    p = identity_principal (ho_authentication ho) \<and> tn_evidence s' = tn_evidence s \<and> tn_missions s' = tn_missions s"
  using assms
  by (auto simp: prepare_claim_def result_simps request_binding_def Let_def assertAuthenticatedHost_def bump_def tick_def)

text \<open>A call is admitted by its first claim, or by a later one when it only reads.\<close>

lemma admit_cases:
  assumes "prepare_claim env h sd ttl rq ho s = Inr (p, sc, ci, s')"
    "ledger_claim env h ci d = Inr (ClaimedExecute x, d')"
  shows "(invocation_get d (tq_callId rq) = None \<or> executionClassFor (tq_toolName rq) = ClassRead) \<and>
    invocation_get d' (tq_callId rq) \<noteq> None \<and> (\<forall>c. invocation_get d c \<noteq> None \<longrightarrow> invocation_get d' c \<noteq> None)"
proof -
  from prepare_claim_Inr[OF assms(1)] have i: "tb_callId (ci_binding ci) = tq_callId rq"
    "tb_executionClass (ci_binding ci) = executionClassFor (tq_toolName rq)" by auto
  from assms(2) show ?thesis
  proof (cases rule: ledger_claim_cases)
    case (fresh y)
    then show ?thesis by (simp add: i)
  next
    case (over r y)
    then show ?thesis using i by (auto split: if_splits)
  qed (use i in auto)
qed

lemma writes_of_perm:
  "ft_flights f = as @ c # bs \<Longrightarrow> writes_of i (f\<lparr> ft_db := d, ft_flights := as @ bs, ft_log := ft_log f @ [flight_call c] \<rparr>) = writes_of i f"
  by (simp add: writes_of_def)

lemma step_keeps_fleet_ok:
  assumes "dispatch_step env h sd ttl handler f f'" "fleet_ok f"
  shows "fleet_ok f'"
  using assms
proof (induction rule: dispatch_step.induct)
  case (admit rq ho f p sc ci s x d)
  have a: "(invocation_get (ft_db f) (tq_callId rq) = None \<or> executionClassFor (tq_toolName rq) = ClassRead) \<and>
    invocation_get d (tq_callId rq) \<noteq> None \<and> (\<forall>c. invocation_get (ft_db f) c \<noteq> None \<longrightarrow> invocation_get d c \<noteq> None)"
    using admit_cases[OF admit(1,2)] by simp
  show ?case unfolding fleet_ok_def
  proof
    fix c
    let ?f = "f\<lparr> ft_db := d, ft_flights := ft_flights f @ [\<lparr> fl_request = rq, fl_host = ho, fl_principal = p,
      fl_claim = ci, fl_claimed = x \<rparr>] \<rparr>"
    have w: "writes_of c ?f = writes_of c f + (if is_write c (tq_callId rq, tq_toolName rq) then 1 else 0)"
      by (simp add: writes_of_def flight_call_def)
    from admit(3) have b: "writes_of c f \<le> (if invocation_get (ft_db f) c = None then 0 else 1)"
      by (simp add: fleet_ok_def)
    with a w show "writes_of c ?f \<le> (if invocation_get (ft_db ?f) c = None then 0 else 1)"
      by (auto simp: is_write_def split: if_splits)
  qed
next
  case (run f as c bs out s)
  then show ?case by (simp add: fleet_ok_def writes_of_perm)
next
  case (crash f as c bs)
  have a: "writes_of i (f\<lparr> ft_flights := as @ bs \<rparr>) \<le> writes_of i f" for i
    using crash(1) by (simp add: writes_of_def)
  from crash(2) have b: "writes_of i f \<le> (if invocation_get (ft_db f) i = None then 0 else 1)" for i
    by (simp add: fleet_ok_def)
  show ?case unfolding fleet_ok_def using order_trans[OF a b] by simp
next
  case (ledger f d)
  have w: "writes_of i (f\<lparr> ft_db := d \<rparr>) = writes_of i f" for i by (simp add: writes_of_def)
  have k: "invocation_get d i = None \<Longrightarrow> invocation_get (ft_db f) i = None" for i
    using invocation_kept[OF ledger(1), of i] by blast
  from ledger(2) have b: "writes_of i f \<le> (if invocation_get (ft_db f) i = None then 0 else 1)" for i
    by (simp add: fleet_ok_def)
  have "writes_of i f \<le> (if invocation_get d i = None then 0 else 1)" for i
    using b[of i] k[of i] by (auto split: if_split_asm)
  then show ?case unfolding fleet_ok_def w by simp
qed

lemma run_keeps_fleet_ok:
  "(dispatch_step env h sd ttl handler)\<^sup>*\<^sup>* f f' \<Longrightarrow> fleet_ok f \<Longrightarrow> fleet_ok f'"
  by (induction rule: rtranclp_induct) (auto dest: step_keeps_fleet_ok)

text \<open>
  The start and the expiry of a claim come from two readings of the clock, so a time to live of
  five minutes, which the constructor accepts, makes a claim that the ledger refuses as soon as
  the clock advances between them.
\<close>

lemma longest_ttl_is_refused:
  assumes "prepare_claim env h sd 300000 rq ho s = Inr (p, sc, ci, s')" "\<And>n. en_now env n < en_now env (Suc n)"
  shows "claim_ttl_ok 300000 \<and> ledger_claim env h ci d \<noteq> Inr y"
proof -
  from assms(1) have "\<exists>n. ci_startedAt ci = en_now env n \<and> ci_claimExpiresAt ci = en_now env (Suc n) + 300000"
    by (auto simp: prepare_claim_def result_simps Let_def read_clock_def tick_def bump_def)
  with assms(2) have "\<not> claim_window_ok (ci_startedAt ci) (ci_claimExpiresAt ci)"
    by (auto simp: claim_window_ok_def Let_def)
  then show ?thesis by (auto simp: claim_ttl_ok_def ledger_claim_def result_simps)
qed

section \<open>What a call answers\<close>

lemma failureResult_Inr [simp]:
  "failureResult env t c r st retry e = Inr x \<Longrightarrow> rt_status x = st"
  by (auto simp: failureResult_def)

lemma mapThrownError_status: "mapThrownError env t c r e = Inr x \<Longrightarrow> rt_status x \<in> {CallDenied, CallConflict, CallFailed}"
proof (cases e)
  case (HandlerFailure st er b)
  then show "mapThrownError env t c r e = Inr x \<Longrightarrow> ?thesis" by (cases st) (auto dest!: failureResult_Inr)
next
  case (Raised y)
  then show "mapThrownError env t c r e = Inr x \<Longrightarrow> ?thesis"
    by (cases y) (auto simp: current_state_conflict_def dest!: failureResult_Inr)
qed (auto dest!: failureResult_Inr)

lemma call_refusal_status:
  "call_refusal env rq ho p i s = Inl (Inr x) \<Longrightarrow> rt_status x \<in> {CallDenied, CallConflict, CallFailed}"
  by (auto simp: call_refusal_def Let_def split: if_splits sum.splits dest!: failureResult_Inr mapThrownError_status)

lemma without_evidence_Inr [simp]:
  "without_evidence r = Inr x \<longleftrightarrow> (\<exists>y. r = Inr y \<and> x = \<lparr> xo_result = y, xo_attemptId = None, xo_evidenceIds = [] \<rparr>)"
  by (auto simp: without_evidence_def result_simps)

text \<open>What a call that holds its claim answers: its own result, or that it lost the claim.\<close>

lemma replay_Inr:
  "replayCompleted env h t sc x d = (Inr res, d') \<Longrightarrow> res = cd_result x"
  by (auto simp: replayCompleted_def split: sum.split_asm if_split_asm)

lemma complete_call_claimed:
  assumes "complete_call env h t sc ci cl x d = (Inr res, d')"
    "invocation_get d (tb_callId (ci_binding ci)) = Some r" "iv_status r = InvocationClaimed"
  shows "rt_status res = CallPending \<or> res = xo_result x \<and>
    (\<exists>y d2. complete_claimed env h (completion_of h ci cl x (read_clock env (td_tenant d))) r (on_tenant tick d) = Inr (Completed y, d2))"
proof -
  let ?co = "completion_of h ci cl x (read_clock env (td_tenant d))"
  from assms(1) obtain o2 d2 where l: "ledger_complete env h ?co (on_tenant tick d) = Inr (o2, d2)"
    by (auto simp: complete_call_def Let_def split: sum.split_asm)
  show ?thesis
  proof (cases o2)
    case (LostClaim a)
    with assms(1) l show ?thesis by (auto simp: complete_call_def pendingResult_def Let_def dest: failureResult_Inr)
  next
    case (Completed y)
    from assms(1) l Completed have res: "res = cd_result y"
      by (auto simp: complete_call_def Let_def dest: replay_Inr)
    from l show ?thesis
    proof (cases rule: ledger_complete_cases)
      case (kept r')
      with assms Completed show ?thesis by (simp add: completion_of_def)
    next
      case (written r')
      with assms have r': "r' = r" by (simp add: completion_of_def)
      from written(5) have "res = xo_result x"
        by (rule complete_claimed_Inr) (use Completed res in \<open>auto simp: completion_of_def dest!: completed_from_row_Inr\<close>)
      with written(5) r' Completed show ?thesis by blast
    qed
  qed
qed

text \<open>Transport evidence stops the completion of every call but an activation.\<close>

lemma transport_stops_completion:
  assumes "p \<in> set (tn_evidence (td_tenant d))" "isOperationTransportPayload p"
    "ev_missionId (pe_evidence p) = tb_missionId (iv_binding r)" "ev_id (pe_evidence p) \<in> set (co_evidenceIds co)"
    "tb_toolName (iv_binding r) \<noteq> PlansActivate"
  shows "complete_claimed env h co r d \<noteq> Inr y"
proof
  assume "complete_claimed env h co r d = Inr y"
  then obtain res d' where "complete_claimed env h co r d = Inr (res, d')" by (cases y) auto
  then obtain x where "completion_evidence env h r (iv_binding r) co (td_tenant d) = Inr ()"
    by (rule complete_claimed_Inr)
  moreover have "p \<in> set (filter isOperationTransportPayload
      (mission_evidence_in (td_tenant d) (tb_missionId (iv_binding r)) (co_evidenceIds co)))"
    using assms by (simp add: mission_evidence_in_def)
  ultimately show False
    using assms(5) by (auto simp: completion_evidence_def Let_def result_simps filter_empty_conv)
qed

lemma evidence_handler_ids:
  assumes "evidence_handler env c ho m x s = (Inr out, s')" "x = VerificationGetEvidenceInput i"
    "p \<in> set (tn_evidence s)" "ev_missionId (pe_evidence p) = i"
  shows "s' = s \<and> ev_id (pe_evidence p) \<in> set (ot_evidenceIds out)"
  using assms
  by (auto simp: evidence_handler_def verification_evidence_get_def result_simps Let_def evidence_for_mission_def
      split: sum.split_asm)

text \<open>A call nobody claimed before is claimed, run and completed by the caller itself.\<close>

lemma fresh_call_runs:
  assumes "invoke env h sd ttl handler rq ho d = (Inr res, d')" "invocation_get d (tq_callId rq) = None"
  obtains pr sc ci s x out s2 d1 where "prepare_claim env h sd ttl rq ho (td_tenant d) = Inr (pr, sc, ci, s)"
    "d1 = write_invocation (on_tenant (\<lambda>_. s) d) (fresh_invocation h ci)"
    "execute_call env handler rq ho pr (cl_receiptId x) (td_tenant d1) = (Inr out, s2)"
    "complete_call env h (tq_toolName rq) sc ci x out (on_tenant (\<lambda>_. s2) d1) = (Inr res, d')"
proof -
  from assms(1) obtain pr sc ci s where pc: "prepare_claim env h sd ttl rq ho (td_tenant d) = Inr (pr, sc, ci, s)"
    by (auto simp: invoke_def split: sum.split_asm)
  from assms(1) pc obtain o1 d1 where lc: "ledger_claim env h ci (on_tenant (\<lambda>_. s) d) = Inr (o1, d1)"
    by (auto simp: invoke_def split: sum.split_asm)
  from lc obtain x where x: "o1 = ClaimedExecute x"
    and d1: "d1 = write_invocation (on_tenant (\<lambda>_. s) d) (fresh_invocation h ci)"
    by (cases rule: ledger_claim_cases) (use prepare_claim_Inr[OF pc] assms(2) in auto)
  with assms(1) pc lc have "run_claimed env h handler rq ho pr sc ci x d1 = (Inr res, d')"
    by (simp add: invoke_def)
  with that[OF pc d1] show thesis
    by (auto simp: run_claimed_def split: prod.split_asm sum.split_asm)
qed

text \<open>A call succeeds by the policy that admits it and the outcome of its handler.\<close>

lemma succeeded_execution:
  assumes "execute_call env handler rq ho pr rcp s = (Inr out, s2)" "rt_status (xo_result out) = CallSucceeded"
  obtains m ot where "policy_authorize s (pr_organizationId pr) (ho_missionId ho) (tq_input rq) = Inr m"
    "tool_of (tq_input rq) = tq_toolName rq" "handler (tq_callId rq) ho m (tq_input rq) s = (Inr ot, s2)"
    "xo_evidenceIds out = ot_evidenceIds ot"
proof -
  from assms obtain m ot where m: "call_refusal env rq ho pr rcp s = Inr m"
    and h: "handler (tq_callId rq) ho m (tq_input rq) s = (Inr ot, s2)"
    and o: "outcome_result env (tq_toolName rq) (tq_callId rq) rcp ot = Inr out"
    by (auto simp: execute_call_def split: sum.split_asm prod.split_asm dest!: call_refusal_status mapThrownError_status)
  have "xo_evidenceIds out = ot_evidenceIds ot"
    using o assms(2) by (auto simp: outcome_result_def split: sum.split_asm if_split_asm dest!: failureResult_Inr)
  with h m that show thesis
    by (auto simp: call_refusal_def Let_def split: if_split_asm sum.split_asm)
qed

lemma evidence_read_names_everything:
  assumes "execute_call env (evidence_handler env) rq ho pr rcp s = (Inr out, s2)" "tq_toolName rq = VerificationGetEvidence"
    "rt_status (xo_result out) = CallSucceeded" "p \<in> set (tn_evidence s)" "ev_missionId (pe_evidence p) = ho_missionId ho"
  shows "s2 = s \<and> ev_id (pe_evidence p) \<in> set (xo_evidenceIds out)"
proof (rule succeeded_execution[OF assms(1,3)])
  fix m ot
  assume au: "policy_authorize s (pr_organizationId pr) (ho_missionId ho) (tq_input rq) = Inr m"
    and t: "tool_of (tq_input rq) = tq_toolName rq" and h: "evidence_handler env (tq_callId rq) ho m (tq_input rq) s = (Inr ot, s2)"
    and ids: "xo_evidenceIds out = ot_evidenceIds ot"
  from t assms(2) obtain j where j: "tq_input rq = VerificationGetEvidenceInput j" by (cases "tq_input rq") auto
  from au j have "j = ho_missionId ho"
    by (auto simp: policy_authorize_def within_reach_def mission_get_id split: option.split_asm if_split_asm sum.split_asm)
  with evidence_handler_ids[OF h j assms(4)] assms(5) ids show ?thesis by auto
qed

section \<open>Resolving an abandoned write\<close>

lemma completed_row_reads:
  assumes "toolInvocationBindingFromRow h r = Inr b" "tool_result_ok env (tb_toolName b) (co_result co)"
    "th_result h (co_result co) = co_resultHash co" "sha256_ok (co_resultHash co)"
    "rt_callId (co_result co) = tb_callId b" "rt_toolName (co_result co) = tb_toolName b"
    "rt_receiptId (co_result co) = iv_receiptId r" "rt_status (co_result co) = CallUnknown"
    "list_all (id_ok ''evd'') (co_evidenceIds co)" "unique (co_evidenceIds co)" "id_ok ''rcp'' (iv_receiptId r)"
    "opt_id_ok ''att'' (co_attemptId co)"
  shows "\<exists>y. completedToolInvocationFromRow env h (completed_row r co) (co_evidenceIds co) = Inr y \<and> cd_result y = co_result co"
proof -
  from assms(1) have b: "toolInvocationBindingFromRow h (completed_row r co) = Inr b" by simp
  have p: "parseToolResult env (tb_toolName b) (co_result co) = Inr (co_result co)" using assms(2) by simp
  show ?thesis using assms(3-)
    by (simp add: completedToolInvocationFromRow_def b p del: binding_from_row_Inr parseToolResult_Inr)
qed

lemma complete_claimed_intro:
  assumes "toolInvocationBindingFromRow h r = Inr b" "tool_result_ok env (tb_toolName b) (co_result co)"
    "rt_callId (co_result co) = co_callId co" "rt_toolName (co_result co) = tb_toolName b"
    "rt_receiptId (co_result co) = iv_receiptId r" "rt_status (co_result co) = CallUnknown" "co_evidenceIds co \<noteq> []"
    "completion_evidence env h r b co (td_tenant d) = Inr ()" "th_result h (co_result co) = co_resultHash co"
    "iv_updatedAt r \<le> co_completedAt co" "enforce_tool_invocation_transition r (completed_row r co)"
    "invocation_checks (completed_row r co)" "co_attemptId co = None"
    "completedToolInvocationFromRow env h (completed_row r co) (co_evidenceIds co) = Inr y"
    "deferred_guards (completed_row r co) (linked (write_invocation d (completed_row r co)) (iv_callId r) (co_evidenceIds co)) = Inr w"
  shows "complete_claimed env h co r d = Inr (Completed y, w)"
proof -
  have p: "parseToolResult env (tb_toolName b) (co_result co) = Inr (co_result co)" using assms(2) by simp
  have g: "row_guards r (completed_row r co) = Inr ()" using assms(11,12) by simp
  show ?thesis using assms(3-10,13-)
    by (simp add: complete_claimed_def write_completion_def assms(1) p g
        del: binding_from_row_Inr parseToolResult_Inr deferred_guards_Inr row_guards_Inr)
qed

lemma evidence_append_fresh:
  assumes "evidence_append env sc p s = Inr s'" "distinct (List.map (\<lambda>r. ev_id (pe_evidence r)) (tn_evidence s))"
  shows "p \<in> set (tn_evidence s') \<and> distinct (List.map (\<lambda>r. ev_id (pe_evidence r)) (tn_evidence s')) \<and>
    tn_org s' = tn_org s \<and> persisted_evidence_ok (en_obsHash env) p \<and> ev_organizationId (pe_evidence p) = tn_org s"
proof -
  have ok: "persisted_evidence_ok (en_obsHash env) p" "ev_organizationId (pe_evidence p) = tn_org s"
    using assms(1) by (auto simp: evidence_append_def assertTenant_def result_simps split: if_split_asm)
  from evidence_append_Inr[OF assms(1)] show ?thesis
    using assms(2) ok by (auto simp: evidence_get_def find_None_iff_ball dest!: find_Some_in) blast?
qed

lemma recordStillUnknown_Inr:
  assumes "recordStillUnknown env org missionId c t bh g e s = Inr (p, s')"
    "distinct (List.map (\<lambda>r. ev_id (pe_evidence r)) (tn_evidence s))"
  obtains m evidenceId receiptId where "mission_get s missionId = Some m"
    "p = abandoned_record env m (abandoned_observation c t bh g e) evidenceId receiptId (read_clock env s)"
    "p \<in> set (tn_evidence s')" "distinct (List.map (\<lambda>r. ev_id (pe_evidence r)) (tn_evidence s'))"
    "tn_org s' = tn_org s" "persisted_evidence_ok (en_obsHash env) p" "ev_organizationId (pe_evidence p) = tn_org s"
proof -
  from assms(1) obtain m s3 evidenceId receiptId where m: "mission_get s missionId = Some m"
    and p: "p = abandoned_record env m (abandoned_observation c t bh g e) evidenceId receiptId (read_clock env s)"
    and a: "evidence_append env Unfenced p s3 = Inr s'" and s3: "tn_evidence s3 = tn_evidence s" "tn_org s3 = tn_org s"
    by (auto simp: recordStillUnknown_def Let_def result_simps tick_def bump_def mission_get_def)
  from evidence_append_fresh[OF a] assms(2) s3 show thesis by (intro that[OF m p]) auto
qed

lemma only_recorded:
  assumes "distinct (List.map (\<lambda>r. ev_id (pe_evidence r)) xs)" "p \<in> set xs" "ev_missionId (pe_evidence p) = m"
  shows "filter (\<lambda>q. ev_missionId (pe_evidence q) = m \<and> List.member [ev_id (pe_evidence p)] (ev_id (pe_evidence q))) xs = [p]"
  using assms
proof (induction xs)
  case (Cons a xs)
  then show ?case
    by (cases "a = p") (auto simp: filter_empty_conv image_iff intro: rev_image_eqI)
qed simp

text \<open>What a claimant that is told to resolve a call knows.\<close>

lemma resolve_claim:
  assumes "invocations_ok h d" "ledger_claim env h ci d = Inr (ClaimedResolve cl g e, d1)"
  obtains r0 where "invocation_get d (tb_callId (ci_binding ci)) = Some r0" "iv_binding r0 = ci_binding ci"
    "iv_status r0 = InvocationClaimed" "iv_claimExpiresAt r0 \<le> ci_startedAt ci" "d1 = write_invocation d (taken_over h ci r0)"
    "invocation_checks (taken_over h ci r0)" "cl_generation cl = iv_generation r0 + 1" "cl_receiptId cl = iv_receiptId r0"
    "g = iv_generation r0" "e = iv_claimExpiresAt r0" "tb_executionClass (ci_binding ci) \<noteq> ClassRead" "invocation_ok h r0"
    "sha256_ok (th_token h (ci_ownerToken ci))" "tb_organizationId (ci_binding ci) = tn_org (td_tenant d)"
proof -
  have t: "sha256_ok (th_token h (ci_ownerToken ci))" "tb_organizationId (ci_binding ci) = tn_org (td_tenant d)"
    using assms(2) by (auto simp: ledger_claim_def result_simps)
  have ok: "invocation_ok h r" if "invocation_get d c = Some r" for r c
    using invocation_get_in[OF that] assms(1) by (auto simp: invocations_ok_def list_all_iff)
  from assms(2) show thesis
    by (cases rule: ledger_claim_cases) (use that t ok in \<open>auto split: if_split_asm\<close>)
qed

lemma invocation_ok_binding:
  assumes "invocation_ok h r"
  shows "binding_formats_ok (iv_binding r)" "tb_toolRegistryHash (iv_binding r) = th_registry h"
    "tb_toolContractHash (iv_binding r) = th_contract h (tb_toolName (iv_binding r))"
    "tb_resultSchemaHash (iv_binding r) = th_resultSchema h (tb_toolName (iv_binding r))"
    "tb_executionClass (iv_binding r) = expectedToolInvocationExecutionClass (tb_toolName (iv_binding r))"
    "iv_bindingHash r = th_binding h (iv_binding r)"
  using assms by (auto simp: invocation_ok_def)

text \<open>The answer of a resolved call, and the completion that carries it.\<close>

definition unknown_answer :: "env \<Rightarrow> tool_binding \<Rightarrow> string \<Rightarrow> tool_result \<Rightarrow> bool" where
  "unknown_answer env b rcp r = (tool_result_ok env (tb_toolName b) r \<and> rt_callId r = tb_callId b \<and>
     rt_toolName r = tb_toolName b \<and> rt_receiptId r = rcp \<and> rt_status r = CallUnknown \<and> \<not> has_error_code r LOST)"

lemma unknownResult_answer:
  "unknownResult env (tb_toolName b) (tb_callId b) rcp = Inr r \<Longrightarrow> unknown_answer env b rcp r"
  by (auto simp: unknown_answer_def unknownResult_def failureResult_def safeError_def has_error_code_def LOST_def
      tool_result_ok_def)

definition resolution_of ::
    "tool_hashes \<Rightarrow> claim_input \<Rightarrow> claimed_record \<Rightarrow> tool_result \<Rightarrow> string \<Rightarrow> instant \<Rightarrow> completion_input" where
  "resolution_of h ci cl r i now =
     completion_of h ci cl \<lparr> xo_result = r, xo_attemptId = None, xo_evidenceIds = [i] \<rparr> now"

lemma resolution_of_sel [simp]:
  "co_organizationId (resolution_of h ci cl r i now) = tb_organizationId (ci_binding ci)"
  "co_callId (resolution_of h ci cl r i now) = tb_callId (ci_binding ci)"
  "co_generation (resolution_of h ci cl r i now) = cl_generation cl"
  "co_ownerToken (resolution_of h ci cl r i now) = ci_ownerToken ci"
  "co_result (resolution_of h ci cl r i now) = r" "co_resultHash (resolution_of h ci cl r i now) = th_result h r"
  "co_attemptId (resolution_of h ci cl r i now) = None" "co_evidenceIds (resolution_of h ci cl r i now) = [i]"
  "co_completedAt (resolution_of h ci cl r i now) = now"
  by (simp_all add: resolution_of_def completion_of_def)

lemma resolution_guards:
  assumes "iv_status r0 = InvocationClaimed" "invocation_checks (taken_over h ci r0)" "iv_binding r0 = ci_binding ci"
    "ci_startedAt ci \<le> now" "unknown_answer env (ci_binding ci) (iv_receiptId r0) r"
  shows "enforce_tool_invocation_transition (taken_over h ci r0) (completed_row (taken_over h ci r0) (resolution_of h ci cl r i now))"
    "invocation_checks (completed_row (taken_over h ci r0) (resolution_of h ci cl r i now))"
  using assms
  by (auto simp: enforce_tool_invocation_transition_def invocation_identity_kept_def completion_ok_def invocation_checks_def
      unknown_answer_def)

lemma resolved_row_reads:
  assumes "invocation_ok h r0" "iv_binding r0 = ci_binding ci" "unknown_answer env (ci_binding ci) (iv_receiptId r0) r"
    "sha256_ok (th_result h r)" "id_ok ''evd'' i"
  obtains y where "completedToolInvocationFromRow env h
      (completed_row (taken_over h ci r0) (resolution_of h ci cl r i now)) [i] = Inr y" "cd_result y = r"
proof -
  have b: "toolInvocationBindingFromRow h (taken_over h ci r0) = Inr (ci_binding ci)"
    using invocation_ok_binding[OF assms(1)] assms(2) by simp
  have "id_ok ''rcp'' (iv_receiptId r0)" using assms(1) by (simp add: invocation_ok_def)
  then have "\<exists>y. completedToolInvocationFromRow env h (completed_row (taken_over h ci r0) (resolution_of h ci cl r i now))
      (co_evidenceIds (resolution_of h ci cl r i now)) = Inr y \<and> cd_result y = co_result (resolution_of h ci cl r i now)"
    using assms(3-) by (intro completed_row_reads[OF b]) (simp_all add: unknown_answer_def opt_id_ok_def)
  with that show thesis by auto
qed

text \<open>The observation of an abandoned write in the store, and what it is enough for.\<close>

definition abandonment_in ::
    "env \<Rightarrow> tool_binding \<Rightarrow> string \<Rightarrow> nat \<Rightarrow> instant \<Rightarrow> persisted_evidence \<Rightarrow> tenant \<Rightarrow> bool" where
  "abandonment_in env b bh g e p s =
     (mission_evidence_in s (tb_missionId b) [ev_id (pe_evidence p)] = [p] \<and>
      (\<forall>q\<in>set (tn_evidence s). ev_id (pe_evidence q) = ev_id (pe_evidence p) \<longrightarrow> q = p) \<and>
      id_ok ''evd'' (ev_id (pe_evidence p)) \<and> persisted_evidence_ok (en_obsHash env) p \<and>
      ev_organizationId (pe_evidence p) = tn_org s \<and> ev_missionId (pe_evidence p) = tb_missionId b \<and>
      ar_authority (pe_receipt p) = ApplicationReceipt ''tool_invocation.abandoned_write'' 1 [] True \<and>
      (\<exists>x. ev_body (pe_evidence p) =
         ToolInvocationReconciliation (abandoned_observation (tb_callId b) (tb_toolName b) bh g e) x))"

lemma recordStillUnknown_records:
  assumes "recordStillUnknown env org (tb_missionId b) (tb_callId b) (tb_toolName b) bh g e s = Inr (p, s')"
    "distinct (List.map (\<lambda>r. ev_id (pe_evidence r)) (tn_evidence s))"
  shows "abandonment_in env b bh g e p s' \<and> tn_org s' = tn_org s"
proof (rule recordStillUnknown_Inr[OF assms])
  fix m ei ri
  assume m: "mission_get s (tb_missionId b) = Some m"
    and p: "p = abandoned_record env m (abandoned_observation (tb_callId b) (tb_toolName b) bh g e) ei ri (read_clock env s)"
    and s: "p \<in> set (tn_evidence s')" "distinct (List.map (\<lambda>r. ev_id (pe_evidence r)) (tn_evidence s'))"
    and o: "tn_org s' = tn_org s" "persisted_evidence_ok (en_obsHash env) p" "ev_organizationId (pe_evidence p) = tn_org s"
  have mi: "ev_missionId (pe_evidence p) = tb_missionId b"
    using mission_get_id[OF m] by (simp add: p abandoned_record_def)
  have "mission_evidence_in s' (tb_missionId b) [ev_id (pe_evidence p)] = [p]"
    unfolding mission_evidence_in_def by (rule only_recorded[OF s(2,1) mi])
  moreover have "\<forall>q\<in>set (tn_evidence s'). ev_id (pe_evidence q) = ev_id (pe_evidence p) \<longrightarrow> q = p"
    using s by (auto simp: distinct_map dest: inj_onD)
  moreover have "id_ok ''evd'' (ev_id (pe_evidence p))"
    using o(2) by (simp add: persisted_evidence_ok_def Let_def evidence_ok_def)
  moreover have "ar_authority (pe_receipt p) = ApplicationReceipt ''tool_invocation.abandoned_write'' 1 [] True"
    "\<exists>x. ev_body (pe_evidence p) = ToolInvocationReconciliation (abandoned_observation (tb_callId b) (tb_toolName b) bh g e) x"
    by (simp_all add: p abandoned_record_def)
  ultimately show ?thesis using o mi by (simp add: abandonment_in_def)
qed

lemma abandonment_not_transport:
  "abandonment_in env b bh g e p s \<Longrightarrow> \<not> isOperationTransportPayload p"
  by (auto simp: abandonment_in_def isOperationTransportPayload_def)

lemma abandonment_completes:
  assumes "abandonment_in env b (th_binding h b) g e p s" "co_evidenceIds co = [ev_id (pe_evidence p)]"
    "co_attemptId co = None" "\<not> has_error_code (co_result co) LOST" "iv_generation r = g + 1"
  shows "completion_evidence env h r b co s = Inr ()"
  using assms abandonment_not_transport[OF assms(1)]
  by (auto simp: completion_evidence_def abandonment_in_def assert_reconciliation_def reconciliation_bound_def
      abandoned_observation_def)

lemma abandonment_deferred:
  assumes "abandonment_in env b bh g e p (td_tenant d)" "iv_binding n = b" "iv_bindingHash n = bh"
    "iv_generation n = g + 1" "e \<le> iv_updatedAt n" "iv_result n = Some x" "\<not> has_error_code x LOST" "iv_attemptId n = None"
    "loadToolInvocationEvidenceIds d (tb_callId b) = [ev_id (pe_evidence p)]"
  shows "deferred_guards n d = Inr d"
proof -
  have "reconciliation_matches n p"
    using assms(1-5) by (auto simp: abandonment_in_def abandoned_observation_def reconciliation_matches_def)
  then show ?thesis
    using assms abandonment_not_transport[OF assms(1)]
    by (auto simp: reconciliation_evidence_required_def lost_response_evidence_required_def Let_def abandonment_in_def list_ex_iff)
qed

section \<open>Properties\<close>

text \<open>
  C18.  A call that writes runs at most once: however many dispatchers repeat it, crash holding
  it, outlive their claims or interleave, from an empty ledger its handler is let run at most
  one time.
\<close>

theorem writes_run_at_most_once:
  assumes "(dispatch_step env h sd ttl handler)\<^sup>*\<^sup>* f f'"
    and "td_invocations (ft_db f) = []" "ft_flights f = []" "ft_log f = []"
  shows "length (filter (is_write c) (ft_log f')) \<le> 1"
proof -
  have "fleet_ok f" using assms(2-4) by (simp add: fleet_ok_def writes_of_def)
  from run_keeps_fleet_ok[OF assms(1) this] have "writes_of c f' \<le> 1"
    by (auto simp: fleet_ok_def split: if_splits dest!: spec[of _ c])
  then show ?thesis by (simp add: writes_of_def)
qed

text \<open>
  C19.  A completed call is final: whatever claims, completions and other work follow, a later
  claim of the same binding by anyone is answered by the stored result and changes nothing.
\<close>

theorem completed_calls_answer_with_their_result:
  assumes "(invocation_step env h)\<^sup>*\<^sup>* d d'" "invocation_get d c = Some r" "iv_status r = InvocationCompleted"
    "completedToolInvocationFromRow env h r (loadToolInvocationEvidenceIds d c) = Inr x"
    "ci_binding ci = iv_binding r" "tb_organizationId (iv_binding r) = tn_org (td_tenant d)"
    "id_ok ''rcp'' (ci_proposedReceiptId ci)" "sha256_ok (th_token h (ci_ownerToken ci))"
    "claim_window_ok (ci_startedAt ci) (ci_claimExpiresAt ci)"
  shows "ledger_claim env h ci d' = Inr (ClaimCompleted x, d')"
proof -
  have c: "c = iv_callId r" using invocation_get_in[OF assms(2)] by simp
  from run_keeps_completed[OF assms(1-3)] assms(4,5) c
  show ?thesis
    by (intro completed_claim) (use assms run_org[OF assms(1)] in auto)
qed

text \<open>
  C20.  A lost response blinds its mission: once the mission holds response-loss evidence, a new
  call of \<open>verification.get_evidence\<close> never succeeds, because its handler names all evidence of the
  mission and the ledger admits response-loss evidence only on an activation.
\<close>

theorem evidence_reads_fail_after_a_lost_response:
  assumes "tq_toolName rq = VerificationGetEvidence" "invocation_get d (tq_callId rq) = None"
    and "p \<in> set (tn_evidence (td_tenant d))" "isOperationTransportPayload p"
    and "ev_missionId (pe_evidence p) = ho_missionId ho"
  shows "\<not> (\<exists>res d'. invoke env h sd ttl (evidence_handler env) rq ho d = (Inr res, d') \<and> rt_status res = CallSucceeded)"
proof -
  have False if inv: "invoke env h sd ttl (evidence_handler env) rq ho d = (Inr res, d')" and ok: "rt_status res = CallSucceeded" for res d'
  proof (rule fresh_call_runs[OF inv assms(2)])
    fix pr sc ci s x out s2 d1
    assume pc: "prepare_claim env h sd ttl rq ho (td_tenant d) = Inr (pr, sc, ci, s)"
      and d1: "d1 = write_invocation (on_tenant (\<lambda>_. s) d) (fresh_invocation h ci)"
      and ex: "execute_call env (evidence_handler env) rq ho pr (cl_receiptId x) (td_tenant d1) = (Inr out, s2)"
      and cc: "complete_call env h (tq_toolName rq) sc ci x out (on_tenant (\<lambda>_. s2) d1) = (Inr res, d')"
    note i = prepare_claim_Inr[OF pc]
    have g: "invocation_get (on_tenant f d1) (tb_callId (ci_binding ci)) = Some (fresh_invocation h ci)" for f
      by (simp add: d1)
    have ev: "p \<in> set (tn_evidence (td_tenant d1))" using assms(3) i by (simp add: d1)
    from complete_call_claimed[OF cc g fresh_invocation_sel(4)] ok obtain y d2 where res: "res = xo_result out"
      and c: "complete_claimed env h (completion_of h ci x out (read_clock env s2)) (fresh_invocation h ci)
        (on_tenant tick (on_tenant (\<lambda>_. s2) d1)) = Inr (Completed y, d2)" by auto
    from evidence_read_names_everything[OF ex assms(1) _ ev assms(5)] ok res
    have s2: "s2 = td_tenant d1" "ev_id (pe_evidence p) \<in> set (xo_evidenceIds out)" by auto
    have "complete_claimed env h (completion_of h ci x out (read_clock env s2)) (fresh_invocation h ci)
        (on_tenant tick (on_tenant (\<lambda>_. s2) d1)) \<noteq> Inr (Completed y, d2)"
      using ev s2 assms(1,4,5) i
      by (intro transport_stops_completion[of p]) (auto simp: completion_of_def tick_def)
    with c show False by simp
  qed
  then show ?thesis by blast
qed


section \<open>Concrete calls\<close>

definition ex_hashes :: tool_hashes where
  "ex_hashes = \<lparr> th_binding = (\<lambda>_. ex_digest), th_result = (\<lambda>_. ex_digest), th_contract = (\<lambda>_. ex_digest),
     th_registry = ex_digest, th_resultSchema = (\<lambda>_. ex_digest), th_token = (\<lambda>_. ex_digest) \<rparr>"

definition ex_scopes :: scope_digests where
  "ex_scopes = \<lparr> sd_hmac = (\<lambda>_. ex_digest), sd_identity = (\<lambda>_ _ _. ex_digest), sd_input = (\<lambda>_. ex_digest) \<rparr>"

definition ex_tool_host :: tool_host where
  "ex_tool_host = \<lparr> ho_authentication = SessionIdentity ex_session, ho_missionId = ''mis_aaaaaaaa'',
     ho_channel = ChannelHttp, ho_aborted = False \<rparr>"

definition ex_cancel_call :: tool_request where
  "ex_cancel_call = \<lparr> tq_callId = ''call_aaaaaaaa'', tq_toolName = MissionsCancel,
     tq_input = MissionsCancelInput ''mis_aaaaaaaa'' ''Enough'' \<rparr>"

definition ex_tool_db :: "tenant \<Rightarrow> tool_db" where
  "ex_tool_db s = \<lparr> td_tenant = s, td_invocations = [], td_links = [], td_receipts = [],
     td_foreignInvocationReceipts = [], td_foreignReceipts = [] \<rparr>"

definition ex_refusing :: tool_handler where
  "ex_refusing c ho m x s = (Inl (Raised (ConflictError ''changed'')), tick s)"

definition ex_fleet :: fleet where
  "ex_fleet = \<lparr> ft_db = ex_tool_db ex_mission_tenant, ft_flights = [], ft_log = [] \<rparr>"

lemma claim_answers:
  "(case q of ClaimedExecute x \<Rightarrow> P x | _ \<Rightarrow> False) \<longleftrightarrow> (\<exists>x. q = ClaimedExecute x \<and> P x)"
  "(case q of ClaimedResolve x g e \<Rightarrow> Q x g e | _ \<Rightarrow> False) \<longleftrightarrow> (\<exists>x g e. q = ClaimedResolve x g e \<and> Q x g e)"
  by (cases q; simp)+

lemma ex_admits: "case prepare_claim ex_env ex_hashes ex_scopes 30000 ex_cancel_call ex_tool_host ex_mission_tenant of
    Inl e \<Rightarrow> False
  | Inr q \<Rightarrow> (case ledger_claim ex_env ex_hashes (fst (snd (snd q))) (on_tenant (\<lambda>_. snd (snd (snd q))) (ex_tool_db ex_mission_tenant)) of
      Inl e \<Rightarrow> False | Inr y \<Rightarrow> (case fst y of ClaimedExecute x \<Rightarrow> True | _ \<Rightarrow> False))"
  by code_simp

theorem writes_run_at_most_once_witness:
  "\<exists>f'. (dispatch_step ex_env ex_hashes ex_scopes 30000 ex_refusing)\<^sup>*\<^sup>* ex_fleet f' \<and>
     ft_log f' = [(''call_aaaaaaaa'', MissionsCancel)] \<and>
     length (filter (is_write ''call_aaaaaaaa'') (ft_log f')) \<le> 1"
proof -
  obtain p sc ci s x d where a: "prepare_claim ex_env ex_hashes ex_scopes 30000 ex_cancel_call ex_tool_host
      (td_tenant (ft_db ex_fleet)) = Inr (p, sc, ci, s)"
    "ledger_claim ex_env ex_hashes ci (on_tenant (\<lambda>_. s) (ft_db ex_fleet)) = Inr (ClaimedExecute x, d)"
    using ex_admits unfolding case_Inr_iff claim_answers by (auto simp: ex_fleet_def ex_tool_db_def)
  let ?c = "\<lparr> fl_request = ex_cancel_call, fl_host = ex_tool_host, fl_principal = p, fl_claim = ci, fl_claimed = x \<rparr>"
  let ?f = "ex_fleet\<lparr> ft_db := d, ft_flights := ft_flights ex_fleet @ [?c] \<rparr>"
  obtain out t where e: "execute_call ex_env ex_refusing ex_cancel_call ex_tool_host p (cl_receiptId x) (td_tenant d) = (out, t)"
    by (rule prod.exhaust)
  then have "tn_org t = tn_org (td_tenant d)"
    by (auto simp: execute_call_def ex_refusing_def tick_def split: sum.splits)
  with e have st: "dispatch_step ex_env ex_hashes ex_scopes 30000 ex_refusing ?f
     (?f\<lparr> ft_db := on_tenant (\<lambda>_. t) d, ft_flights := [], ft_log := [flight_call ?c] \<rparr>)"
    using dispatch_step.run[of ?f "[]" ?c "[]" ex_env ex_refusing out t ex_hashes ex_scopes 30000] by (simp add: ex_fleet_def)
  have adm: "dispatch_step ex_env ex_hashes ex_scopes 30000 ex_refusing ex_fleet ?f"
    by (rule dispatch_step.admit[OF a])
  have r: "(dispatch_step ex_env ex_hashes ex_scopes 30000 ex_refusing)\<^sup>*\<^sup>* ex_fleet
     (?f\<lparr> ft_db := on_tenant (\<lambda>_. t) d, ft_flights := [], ft_log := [flight_call ?c] \<rparr>)"
    by (rule converse_rtranclp_into_rtranclp, rule adm, rule r_into_rtranclp, rule st)
  from writes_run_at_most_once[OF r] r show ?thesis
    by (intro exI[of _ "?f\<lparr> ft_db := on_tenant (\<lambda>_. t) d, ft_flights := [], ft_log := [flight_call ?c] \<rparr>"])
       (simp add: ex_fleet_def ex_tool_db_def flight_call_def ex_cancel_call_def)
qed

definition ex_call_binding :: tool_binding where
  "ex_call_binding = request_binding ex_hashes ex_scopes ex_cancel_call ex_tool_host ''org_aaaaaaaa'' ex_digest"

definition ex_conflict :: tool_result where
  "ex_conflict = \<lparr> rt_toolName = MissionsCancel, rt_callId = ''call_aaaaaaaa'', rt_status = CallConflict,
     rt_retryable = False, rt_data = None, rt_receiptId = ''rcp_xaaaaaaa'', rt_resourceVersion = None,
     rt_error = Some (snd current_state_conflict) \<rparr>"

definition ex_first_claim :: claim_input where
  "ex_first_claim = \<lparr> ci_binding = ex_call_binding, ci_proposedReceiptId = ''rcp_xaaaaaaa'',
     ci_ownerToken = ''tttttttttttttttttttt'', ci_startedAt = 100, ci_claimExpiresAt = 30100 \<rparr>"

definition ex_done :: completion_input where
  "ex_done = \<lparr> co_organizationId = ''org_aaaaaaaa'', co_callId = ''call_aaaaaaaa'', co_generation = 1,
     co_ownerToken = ''tttttttttttttttttttt'', co_result = ex_conflict, co_resultHash = ex_digest,
     co_attemptId = None, co_evidenceIds = [], co_completedAt = 200 \<rparr>"

definition ex_done_db :: tool_db where
  "ex_done_db = write_invocation (ex_tool_db ex_mission_tenant) (completed_row (fresh_invocation ex_hashes ex_first_claim) ex_done)"

definition ex_second_claim :: claim_input where
  "ex_second_claim = \<lparr> ci_binding = ex_call_binding, ci_proposedReceiptId = ''rcp_xbbbbbbb'',
     ci_ownerToken = ''uuuuuuuuuuuuuuuuuuuu'', ci_startedAt = 90000, ci_claimExpiresAt = 120000 \<rparr>"

lemma ex_done_reads: "case completedToolInvocationFromRow ex_env ex_hashes
    (completed_row (fresh_invocation ex_hashes ex_first_claim) ex_done) (loadToolInvocationEvidenceIds ex_done_db ''call_aaaaaaaa'') of
    Inl e \<Rightarrow> False | Inr x \<Rightarrow> cd_result x = ex_conflict"
  by code_simp

theorem completed_calls_answer_with_their_result_witness:
  "\<exists>x. ledger_claim ex_env ex_hashes ex_second_claim (on_tenant tick ex_done_db) =
     Inr (ClaimCompleted x, on_tenant tick ex_done_db) \<and> cd_result x = ex_conflict"
proof -
  let ?r = "completed_row (fresh_invocation ex_hashes ex_first_claim) ex_done"
  obtain x where x: "completedToolInvocationFromRow ex_env ex_hashes ?r (loadToolInvocationEvidenceIds ex_done_db ''call_aaaaaaaa'') = Inr x"
    "cd_result x = ex_conflict" using ex_done_reads by (auto split: sum.splits)
  have o: "tn_org (tick (td_tenant ex_done_db)) = tn_org (td_tenant ex_done_db)" by (simp add: tick_def)
  have s: "(invocation_step ex_env ex_hashes)\<^sup>*\<^sup>* ex_done_db (on_tenant tick ex_done_db)"
    using invocation_step.other[OF o, of ex_env ex_hashes] by (simp add: on_tenant_def)
  have g: "invocation_get ex_done_db ''call_aaaaaaaa'' = Some ?r"
    by (simp add: ex_done_db_def ex_first_claim_def ex_call_binding_def request_binding_def ex_cancel_call_def)
  have b: "ci_binding ex_second_claim = iv_binding ?r" "tb_organizationId (iv_binding ?r) = tn_org (td_tenant ex_done_db)"
    by (simp_all add: ex_second_claim_def ex_first_claim_def ex_done_db_def ex_tool_db_def ex_mission_tenant_def ex_tenant_def
        ex_call_binding_def request_binding_def)
  have c: "id_ok ''rcp'' (ci_proposedReceiptId ex_second_claim) \<and> sha256_ok (th_token ex_hashes (ci_ownerToken ex_second_claim)) \<and>
    claim_window_ok (ci_startedAt ex_second_claim) (ci_claimExpiresAt ex_second_claim)" by code_simp
  from completed_calls_answer_with_their_result[OF s g _ x(1) b] c x(2) show ?thesis by auto
qed

text \<open>A mission in verification whose activation lost its response.\<close>

definition ex_lost_record :: persisted_evidence where
  "ex_lost_record = \<lparr>
     pe_evidence = \<lparr> ev_id = ''evd_aaaaaaaa'', ev_organizationId = ''org_aaaaaaaa'', ev_missionId = ''mis_aaaaaaaa'',
       ev_palaceId = ''pal_aaaaaaaa'', ev_observedAt = 50,
       ev_body = OperationTransport ''op_aaaaaaaa'' ''att_aaaaaaaa'' ''call_bbbbbbbb'' \<rparr>,
     pe_receipt = \<lparr> ar_id = ''rcp_aaaaaaaa'', ar_evidenceId = ''evd_aaaaaaaa'', ar_organizationId = ''org_aaaaaaaa'',
       ar_missionId = ''mis_aaaaaaaa'', ar_palaceId = ''pal_aaaaaaaa'', ar_verifiedAt = 50,
       ar_authority = ApplicationReceipt ''operation.application_response_lost'' 1 [] True \<rparr>,
     pe_persistedAt = 50 \<rparr>"

definition ex_blinded_tenant :: tenant where
  "ex_blinded_tenant = ex_mission_tenant\<lparr> tn_missions := [ex_mission\<lparr> mi_state := mstate MRunning PhVerify \<rparr>],
     tn_evidence := [ex_lost_record] \<rparr>"

definition ex_evidence_call :: tool_request where
  "ex_evidence_call = \<lparr> tq_callId = ''call_cccccccc'', tq_toolName = VerificationGetEvidence,
     tq_input = VerificationGetEvidenceInput ''mis_aaaaaaaa'' \<rparr>"

lemma ex_read_fails: "fst (invoke ex_env ex_hashes ex_scopes 30000 (evidence_handler ex_env) ex_evidence_call ex_tool_host
    (ex_tool_db ex_blinded_tenant)) =
    Inl (DatabaseConflictError ''Operation transport evidence may only resolve its plans.activate invocation'')"
  by code_simp

theorem evidence_reads_fail_after_a_lost_response_witness:
  "\<not> (\<exists>res d'. invoke ex_env ex_hashes ex_scopes 30000 (evidence_handler ex_env) ex_evidence_call ex_tool_host
       (ex_tool_db ex_blinded_tenant) = (Inr res, d') \<and> rt_status res = CallSucceeded) \<and>
   fst (invoke ex_env ex_hashes ex_scopes 30000 (evidence_handler ex_env) ex_evidence_call ex_tool_host
       (ex_tool_db ex_blinded_tenant)) =
     Inl (DatabaseConflictError ''Operation transport evidence may only resolve its plans.activate invocation'')"
  using evidence_reads_fail_after_a_lost_response[of ex_evidence_call "ex_tool_db ex_blinded_tenant" ex_lost_record ex_tool_host
      ex_env ex_hashes ex_scopes 30000] ex_read_fails
  by (simp add: ex_evidence_call_def ex_tool_db_def invocation_get_def ex_blinded_tenant_def ex_lost_record_def
      isOperationTransportPayload_def ex_tool_host_def)

text \<open>A claim that expired with its call unfinished.\<close>

definition ex_late_env :: env where
  "ex_late_env = ex_env\<lparr> en_now := (\<lambda>n. 90000 + int n) \<rparr>"

definition ex_abandoned_db :: tool_db where
  "ex_abandoned_db = write_invocation (ex_tool_db ex_mission_tenant) (fresh_invocation ex_hashes ex_first_claim)"

lemma ex_abandoned: "invocations_ok ex_hashes ex_abandoned_db"
  by code_simp

lemma ex_resolution: "case ledger_claim ex_late_env ex_hashes ex_second_claim ex_abandoned_db of
    Inl e \<Rightarrow> False
  | Inr y \<Rightarrow> (case fst y of
      ClaimedResolve cl g e \<Rightarrow>
        (case recordStillUnknown ex_late_env ''org_aaaaaaaa'' ''mis_aaaaaaaa'' ''call_aaaaaaaa'' MissionsCancel ex_digest g e
            (td_tenant (snd y)) of
           Inl _ \<Rightarrow> False
         | Inr p \<Rightarrow> (case unknownResult ex_late_env MissionsCancel ''call_aaaaaaaa'' (cl_receiptId cl) of Inl _ \<Rightarrow> False | Inr r \<Rightarrow> True))
    | _ \<Rightarrow> False)"
  by code_simp


end
